(* ===== verification/Prelude.thy ===== *)
theory Prelude
  imports
    Complex_Main
    "HOL-Library.Multiset"
    "HOL-Library.Char_ord"
    "HOL-Library.List_Lexorder"
    "HOL-Library.Product_Lexorder"
begin

text \<open>
  Shared vocabulary of the development.

  \<^item> JavaScript values that the code inspects dynamically are values of the datatype
    \<open>json\<close>; an absent property (\<open>undefined\<close>) is \<open>None\<close>. Objects are association
    lists with the insertion order of the keys.
  \<^item> A D1/SQLite table is the list of its rows; the \<open>sql_*\<close> functions are the
    statements the repositories issue (\<open>UPDATE .. WHERE\<close>, \<open>SELECT .. LIMIT 1\<close>,
    \<open>count(*)\<close>, \<open>changes()\<close>).
  \<^item> Time stamps are milliseconds since the epoch: \<open>Date.toISOString\<close> has a fixed
    width, so the text comparisons of the code and of SQLite agree with \<open>\<le>\<close> on them.
  \<^item> Two interfaces are stated here as locales because several components share
    them: \<open>compare_and_set\<close> (a guarded UPDATE on the row with a key) and
    \<open>safe_system\<close> (a transition system with an inductive invariant). The reader of
    cursor-paged lists is the locale \<open>page_reader\<close> of \<open>ListPaging\<close>.
\<close>

named_theorems sql_simps "evaluation of SQL statements on tables"
named_theorems json_simps "evaluation of dynamic property reads"

type_synonym time = int
type_synonym id = string

definition starts_with :: "string \<Rightarrow> string \<Rightarrow> bool" where
  "starts_with s prefix \<longleftrightarrow> take (length prefix) s = prefix"

lemma starts_with_take [simp]: "starts_with s (take n s)"
  by (simp add: starts_with_def min_def)

text \<open>\<open>lines.join(..)\<close> with a newline.\<close>

fun join_lines :: "string list \<Rightarrow> string" where
  "join_lines [] = []"
| "join_lines [x] = x"
| "join_lines (x # xs) = x @ [char_of (10 :: nat)] @ join_lines xs"

section \<open>Dynamic values\<close>

datatype json =
    JNull
  | JBool bool
  | JNum rat
  | JStr string
  | JArr "json list"
  | JObj "(string \<times> json) list"

definition jget :: "json \<Rightarrow> string \<Rightarrow> json option" where
  "jget v k = (case v of JObj kvs \<Rightarrow> map_of kvs k | _ \<Rightarrow> None)"

definition jopt :: "json option \<Rightarrow> string \<Rightarrow> json option" where
  "jopt v k = Option.bind v (\<lambda>j. jget j k)"

fun truthy :: "json option \<Rightarrow> bool" where
  "truthy None = False"
| "truthy (Some JNull) = False"
| "truthy (Some (JBool b)) = b"
| "truthy (Some (JNum n)) = (n \<noteq> 0)"
| "truthy (Some (JStr s)) = (s \<noteq> [])"
| "truthy (Some (JArr _)) = True"
| "truthy (Some (JObj _)) = True"

fun jstr :: "json option \<Rightarrow> string option" where
  "jstr (Some (JStr s)) = Some s"
| "jstr _ = None"

fun jarr :: "json option \<Rightarrow> json list option" where
  "jarr (Some (JArr xs)) = Some xs"
| "jarr _ = None"

fun is_jobj :: "json option \<Rightarrow> bool" where
  "is_jobj (Some (JObj _)) = True"
| "is_jobj _ = False"

fun nonempty_str :: "json option \<Rightarrow> string option" where
  "nonempty_str (Some (JStr s)) = (if s = [] then None else Some s)"
| "nonempty_str _ = None"

fun kv_set :: "string \<Rightarrow> json \<Rightarrow> (string \<times> json) list \<Rightarrow> (string \<times> json) list" where
  "kv_set k v [] = [(k, v)]"
| "kv_set k v ((k', v') # kvs) = (if k' = k then (k, v) # kvs else (k', v') # kv_set k v kvs)"

definition jset :: "string \<Rightarrow> json \<Rightarrow> json \<Rightarrow> json" where
  "jset k v j = (case j of JObj kvs \<Rightarrow> JObj (kv_set k v kvs) | _ \<Rightarrow> JObj [(k, v)])"

definition jdel :: "string \<Rightarrow> json \<Rightarrow> json" where
  "jdel k j = (case j of JObj kvs \<Rightarrow> JObj (filter (\<lambda>p. fst p \<noteq> k) kvs) | _ \<Rightarrow> j)"

lemma map_of_kv_set [json_simps, simp]:
  "map_of (kv_set k v kvs) k' = (if k' = k then Some v else map_of kvs k')"
  by (induction kvs) auto

lemma keys_kv_set [simp]:
  "map fst (kv_set k v kvs) = (if k \<in> fst ` set kvs then map fst kvs else map fst kvs @ [k])"
proof (induction kvs)
  case (Cons p kvs)
  then show ?case by (cases p) (force simp: image_iff)
qed simp

lemma jget_jset [json_simps, simp]:
  "jget (jset k v j) k' = (if k' = k then Some v else jget j k')"
  by (cases j) (simp_all add: jget_def jset_def)

lemma jget_jdel [json_simps, simp]:
  "jget (jdel k j) k' = (if k' = k then None else jget j k')"
proof (cases j)
  case (JObj kvs)
  have "map_of (filter (\<lambda>p. fst p \<noteq> k) kvs) k' = (if k' = k then None else map_of kvs k')"
    by (induction kvs) auto
  with JObj show ?thesis by (simp add: jget_def jdel_def)
qed (simp_all add: jget_def jdel_def)

lemma jopt_simps [json_simps, simp]: "jopt None k = None" "jopt (Some j) k = jget j k"
  by (simp_all add: jopt_def)

section \<open>Tables\<close>

definition sql_update :: "('r \<Rightarrow> bool) \<Rightarrow> ('r \<Rightarrow> 'r) \<Rightarrow> 'r list \<Rightarrow> 'r list" where
  "sql_update P f rows = map (\<lambda>r. if P r then f r else r) rows"

definition sql_count :: "('r \<Rightarrow> bool) \<Rightarrow> 'r list \<Rightarrow> nat" where
  "sql_count P rows = length (filter P rows)"

definition sql_exists :: "('r \<Rightarrow> bool) \<Rightarrow> 'r list \<Rightarrow> bool" where
  "sql_exists P rows = list_ex P rows"

definition sql_get :: "('r \<Rightarrow> bool) \<Rightarrow> 'r list \<Rightarrow> 'r option" where
  "sql_get P rows = List.find P rows"

lemma sql_exists_iff [sql_simps]: "sql_exists P rows \<longleftrightarrow> (\<exists>r \<in> set rows. P r)"
  by (simp add: sql_exists_def list_ex_iff)

lemma sql_update_Nil [simp]: "sql_update P f [] = []"
  by (simp add: sql_update_def)

lemma sql_update_Cons [simp]:
  "sql_update P f (r # rows) = (if P r then f r else r) # sql_update P f rows"
  by (simp add: sql_update_def)

lemma sql_update_append [simp]:
  "sql_update P f (xs @ ys) = sql_update P f xs @ sql_update P f ys"
  by (simp add: sql_update_def)

lemma set_sql_update: "set (sql_update P f rows) = (\<lambda>r. if P r then f r else r) ` set rows"
  by (simp add: sql_update_def)

lemma sql_update_elemE:
  assumes "r \<in> set (sql_update P f rows)"
  obtains x where "x \<in> set rows" "r = (if P x then f x else x)"
  using assms unfolding set_sql_update by (rule imageE) (rule that)

lemma length_sql_update [simp]: "length (sql_update P f rows) = length rows"
  by (simp add: sql_update_def)

lemma sql_update_none: "(\<And>r. r \<in> set rows \<Longrightarrow> \<not> P r) \<Longrightarrow> sql_update P f rows = rows"
  by (induction rows) auto

lemma map_sql_update:
  "(\<And>r. P r \<Longrightarrow> g (f r) = g r) \<Longrightarrow> map g (sql_update P f rows) = map g rows"
  by (simp add: sql_update_def)

lemma sql_count_simps [simp]:
  "sql_count P [] = 0"
  "sql_count P (r # rows) = (if P r then Suc (sql_count P rows) else sql_count P rows)"
  "sql_count P (xs @ ys) = sql_count P xs + sql_count P ys"
  by (simp_all add: sql_count_def)

lemma sql_count_update_le:
  "(\<And>r. P r \<Longrightarrow> Q (f r) \<Longrightarrow> Q r) \<Longrightarrow> sql_count Q (sql_update P f rows) \<le> sql_count Q rows"
  by (induction rows) auto

lemma sql_count_update_same:
  "(\<And>r. P r \<Longrightarrow> Q (f r) = Q r) \<Longrightarrow> sql_count Q (sql_update P f rows) = sql_count Q rows"
  by (induction rows) auto

lemma sql_count_mono: "(\<And>r. r \<in> set rows \<Longrightarrow> P r \<Longrightarrow> Q r) \<Longrightarrow> sql_count P rows \<le> sql_count Q rows"
  by (induction rows) auto

lemma sql_count_cong:
  "(\<And>r. r \<in> set rows \<Longrightarrow> P r = Q r) \<Longrightarrow> sql_count P rows = sql_count Q rows"
  by (induction rows) auto

lemma sql_count_zero [sql_simps]: "sql_count P rows = 0 \<longleftrightarrow> (\<forall>r \<in> set rows. \<not> P r)"
  by (induction rows) auto

lemma sql_update_count_zero: "sql_count P rows = 0 \<Longrightarrow> sql_update P f rows = rows"
  by (rule sql_update_none) (simp add: sql_count_zero)

lemma sql_count_pos: "0 < sql_count P rows \<longleftrightarrow> (\<exists>r \<in> set rows. P r)"
  by (induction rows) auto

text \<open>An update that falsifies the counted property of some row lowers the count.\<close>

lemma sql_count_update_less:
  assumes "r \<in> set rows" "P r" "Q r" "\<not> Q (f r)" "\<And>r. P r \<Longrightarrow> Q (f r) \<Longrightarrow> Q r"
  shows "Suc (sql_count Q (sql_update P f rows)) \<le> sql_count Q rows"
proof -
  obtain xs ys where rows: "rows = xs @ r # ys" using assms(1) by (meson split_list)
  have "sql_count Q (sql_update P f xs) \<le> sql_count Q xs" "sql_count Q (sql_update P f ys) \<le> sql_count Q ys"
    using assms(5) by (auto intro: sql_count_update_le)
  then show ?thesis using assms(2-4) by (simp add: rows)
qed

lemma sql_count_key_le1:
  "distinct (map key rows) \<Longrightarrow> sql_count (\<lambda>r. P r \<and> key r = k) rows \<le> 1"
proof (induction rows)
  case (Cons r rows)
  show ?case
  proof (cases "key r = k")
    case True
    then have "sql_count (\<lambda>r. P r \<and> key r = k) rows = 0"
      using Cons.prems unfolding sql_count_zero by (auto simp: image_iff)
    then show ?thesis by simp
  qed (use Cons in simp)
qed simp

lemma sql_count_le1_eq:
  assumes "sql_count P rows \<le> 1" "r \<in> set rows" "P r" "r' \<in> set rows" "P r'"
  shows "r = r'"
proof (rule ccontr)
  assume ne: "r \<noteq> r'"
  obtain xs ys where rows: "rows = xs @ r # ys" using assms(2) by (meson split_list)
  with ne assms(4) have "r' \<in> set (xs @ ys)" by auto
  then have "0 < sql_count P (xs @ ys)" using assms(5) unfolding sql_count_pos by blast
  with assms(1,3) show False by (simp add: rows)
qed

lemma sql_get_Some: "sql_get P rows = Some r \<Longrightarrow> r \<in> set rows \<and> P r"
  unfolding sql_get_def by (metis find_Some_iff nth_mem)

lemma sql_get_None: "sql_get P rows = None \<longleftrightarrow> (\<forall>r \<in> set rows. \<not> P r)"
  by (auto simp: sql_get_def find_None_iff)

text \<open>With a primary key, the row found by key is the only row with that key.\<close>

lemma distinct_key_eq:
  "distinct (map key rows) \<Longrightarrow> r \<in> set rows \<Longrightarrow> r' \<in> set rows \<Longrightarrow> key r = key r' \<Longrightarrow> r = r'"
  by (metis distinct_map inj_onD)

lemma sql_get_key:
  "distinct (map key rows) \<Longrightarrow> r \<in> set rows \<Longrightarrow> sql_get (\<lambda>x. key x = key r) rows = Some r"
  by (induction rows) (auto simp: sql_get_def)

lemma filter_sql_update_other:
  "(\<And>r. P r \<Longrightarrow> \<not> Q r \<and> \<not> Q (f r)) \<Longrightarrow> filter Q (sql_update P f rows) = filter Q rows"
  by (induction rows) auto

lemma sql_update_all:
  "(\<And>r. P r \<Longrightarrow> R (f r)) \<Longrightarrow> (\<And>r. Q r \<Longrightarrow> \<not> P r \<Longrightarrow> R r) \<Longrightarrow>
   \<forall>r \<in> set (sql_update P f rows). Q r \<longrightarrow> R r"
  by (induction rows) auto

lemma sql_get_update_other:
  "(\<And>r. P r \<Longrightarrow> \<not> Q r \<and> \<not> Q (f r)) \<Longrightarrow> sql_get Q (sql_update P f rows) = sql_get Q rows"
  by (induction rows) (auto simp: sql_get_def)

lemma sql_get_update_same:
  "(\<And>r. P r \<Longrightarrow> Q (f r) = Q r) \<Longrightarrow>
   sql_get Q (sql_update P f rows) = map_option (\<lambda>r. if P r then f r else r) (sql_get Q rows)"
  by (induction rows) (auto simp: sql_get_def)

section \<open>Compare-and-set on one row\<close>

text \<open>
  \<open>UPDATE .. SET f WHERE key = k AND guard RETURNING id\<close> followed by \<open>.get()\<close>: the new
  table and whether a row matched.
\<close>

definition cas_row ::
    "('r \<Rightarrow> 'k) \<Rightarrow> 'k \<Rightarrow> ('r \<Rightarrow> bool) \<Rightarrow> ('r \<Rightarrow> 'r) \<Rightarrow> 'r list \<Rightarrow> 'r list \<times> bool" where
  "cas_row key k guard f rows =
     (sql_update (\<lambda>r. key r = k \<and> guard r) f rows,
      sql_exists (\<lambda>r. key r = k \<and> guard r) rows)"

lemma cas_row_miss: "\<not> snd (cas_row key k guard f rows) \<Longrightarrow> fst (cas_row key k guard f rows) = rows"
  by (auto simp: cas_row_def sql_exists_iff intro: sql_update_none)

text \<open>
  The contract of a guarded update whose parameters are a value \<open>p\<close> (the claimant and the
  time of the statement): it keeps the key, and it makes the guard of every rival claimant
  false.
\<close>

locale compare_and_set =
  fixes key :: "'r \<Rightarrow> 'k"
    and guard :: "'p \<Rightarrow> 'r \<Rightarrow> bool"
    and set_row :: "'p \<Rightarrow> 'r \<Rightarrow> 'r"
    and rival :: "'p \<Rightarrow> 'p \<Rightarrow> bool"
  assumes key_set_row: "key (set_row p r) = key r"
    and disarms: "rival p q \<Longrightarrow> guard p r \<Longrightarrow> \<not> guard q (set_row p r)"
begin

lemma loser_fails:
  assumes "rival p q" and distinct: "distinct (map key rows)"
    and won: "snd (cas_row key k (guard p) (set_row p) rows)"
  shows "\<not> snd (cas_row key k (guard q) (set_row q) (fst (cas_row key k (guard p) (set_row p) rows)))"
proof -
  from won obtain r' where r': "r' \<in> set rows" "key r' = k" "guard p r'"
    by (auto simp: cas_row_def sql_exists_iff)
  have "\<not> guard q (if key r = k \<and> guard p r then set_row p r else r)"
    if r: "r \<in> set rows" "key r = k" for r
  proof -
    from r(2) r'(2) have "key r = key r'" by simp
    with distinct r(1) r'(1) have "r = r'" by (rule distinct_key_eq)
    moreover have "\<not> guard q (set_row p r')" using assms(1) r'(3) by (rule disarms)
    ultimately show ?thesis using r'(2,3) by simp
  qed
  note unguarded = this
  have "\<not> guard q r''"
    if "r'' \<in> set (sql_update (\<lambda>r. key r = k \<and> guard p r) (set_row p) rows)" "key r'' = k" for r''
  proof -
    from that(1) obtain r where r: "r \<in> set rows"
      and r'': "r'' = (if key r = k \<and> guard p r then set_row p r else r)"
      unfolding set_sql_update by blast
    from r'' have "key r'' = key r" by (simp add: key_set_row)
    with that(2) have "key r = k" by simp
    from unguarded [OF r this] show ?thesis unfolding r'' .
  qed
  then show ?thesis
    unfolding cas_row_def sql_exists_iff fst_conv snd_conv by blast
qed

lemma keys_kept: "map key (fst (cas_row key k (guard p) (set_row p) rows)) = map key rows"
  by (simp add: cas_row_def map_sql_update key_set_row)

lemma other_rows_kept:
  "r \<in> set rows \<Longrightarrow> key r \<noteq> k \<Longrightarrow> r \<in> set (fst (cas_row key k (guard p) (set_row p) rows))"
  by (force simp: cas_row_def set_sql_update)

end

section \<open>Transition systems with an inductive invariant\<close>

locale safe_system =
  fixes init :: "'s \<Rightarrow> bool"
    and step :: "'s \<Rightarrow> 's \<Rightarrow> bool"
    and inv :: "'s \<Rightarrow> bool"
  assumes init_inv: "init s \<Longrightarrow> inv s"
    and step_inv: "inv s \<Longrightarrow> step s t \<Longrightarrow> inv t"
begin

lemma steps_inv: "step\<^sup>*\<^sup>* s t \<Longrightarrow> inv s \<Longrightarrow> inv t"
  by (induction rule: rtranclp_induct) (auto intro: step_inv)

lemma reachable_inv: "init s \<Longrightarrow> step\<^sup>*\<^sup>* s t \<Longrightarrow> inv t"
  by (blast intro: init_inv steps_inv)

end

end
