(* ===== verification/MemoryStore.thy ===== *)
theory MemoryStore
  imports Prelude
begin

text \<open>
  Memory stores (\<open>server/domain/memory-store.ts\<close>): the reference of a store, its mount
  path, and the normalisation that every memory path passes before it is stored or
  mounted. Characters are code units below 256, so \<open>\p{C}\<close> is the C0 and C1 controls, DEL
  and the soft hyphen. The WHATWG URL parser and \<open>decodeURIComponent\<close> are parameters.
\<close>

section \<open>Strings\<close>

definition js_space :: "char \<Rightarrow> bool" where
  "js_space c \<longleftrightarrow> (let n = of_char c :: nat in (9 \<le> n \<and> n \<le> 13) \<or> n = 32 \<or> n = 160)"

definition js_trim :: "string \<Rightarrow> string" where
  "js_trim s = rev (dropWhile js_space (rev (dropWhile js_space s)))"

fun split_on :: "char \<Rightarrow> string \<Rightarrow> string list" where
  "split_on d [] = [[]]"
| "split_on d (c # cs) =
     (if c = d then [] # split_on d cs
      else case split_on d cs of [] \<Rightarrow> [[c]] | w # ws \<Rightarrow> (c # w) # ws)"

fun join_with :: "char \<Rightarrow> string list \<Rightarrow> string" where
  "join_with d [] = []"
| "join_with d [w] = w"
| "join_with d (w # ws) = w @ d # join_with d ws"

lemma split_on_ne [simp]: "split_on d s \<noteq> []"
  by (induction s) (auto split: list.splits)

lemma join_with_Cons_char: "join_with d ((c # w) # ws) = c # join_with d (w # ws)"
  by (cases ws) simp_all

lemma join_split [simp]: "join_with d (split_on d s) = s"
proof (induction s)
  case (Cons c cs)
  then show ?case by (cases "split_on d cs") (auto simp: join_with_Cons_char)
qed simp

lemma set_split_on: "w \<in> set (split_on d s) \<Longrightarrow> set w \<subseteq> set s"
  by (induction s arbitrary: w) (fastforce split: if_splits list.splits)+

lemma chars_of_split: "c \<in> set s \<Longrightarrow> c \<noteq> d \<Longrightarrow> \<exists>w \<in> set (split_on d s). c \<in> set w"
  by (induction s) (fastforce split: if_splits list.splits)+

lemma js_trim_id: "(\<And>c. c \<in> set s \<Longrightarrow> \<not> js_space c) \<Longrightarrow> js_trim s = s"
proof -
  assume a: "\<And>c. c \<in> set s \<Longrightarrow> \<not> js_space c"
  have "dropWhile js_space s = s" using a by (cases s) auto
  moreover have "dropWhile js_space (rev s) = rev s" using a by (cases s rule: rev_cases) auto
  ultimately show ?thesis by (simp add: js_trim_def)
qed

section \<open>Paths of memories\<close>

definition MEMORY_STORE_MOUNT_ROOT :: string where
  "MEMORY_STORE_MOUNT_ROOT = ''/workspace/.enbor/memory-stores''"

definition memoryStoreMountPath :: "string \<Rightarrow> string" where
  "memoryStoreMountPath storeId = MEMORY_STORE_MOUNT_ROOT @ ''/'' @ storeId"

definition control_or_backslash :: "char \<Rightarrow> bool" where
  "control_or_backslash c \<longleftrightarrow>
     (let n = of_char c :: nat in n < 32 \<or> (127 \<le> n \<and> n < 160) \<or> n = 173 \<or> n = 92)"

definition path_char :: "char \<Rightarrow> bool" where
  "path_char c \<longleftrightarrow>
     (let n = of_char c :: nat in
      (65 \<le> n \<and> n \<le> 90) \<or> (97 \<le> n \<and> n \<le> 122) \<or> (48 \<le> n \<and> n \<le> 57) \<or> n = 46 \<or> n = 95 \<or> n = 45)"

definition normalizeMemoryPath :: "string \<Rightarrow> string + string" where
  "normalizeMemoryPath path =
     (let requested = js_trim path in
      if requested = [] then Inl ''Memory path is required.''
      else if list_ex control_or_backslash requested then Inl ''Memory path contains invalid characters.''
      else if hd requested = CHR ''/'' then Inl ''Memory path must be relative.''
      else
        let segments = split_on (CHR ''/'') requested in
        if segments = []
           \<or> list_ex (\<lambda>segment. segment = [] \<or> segment = ''.'' \<or> segment = ''..'') segments
           \<or> hd segments = ''.enbor''
        then Inl ''Memory path must use clean relative segments outside .enbor.''
        else if \<not> list_all (\<lambda>segment. segment \<noteq> [] \<and> list_all path_char segment) segments
        then Inl ''Memory path segments may contain only letters, numbers, dots, underscores, and hyphens.''
        else Inr (join_with (CHR ''/'') segments))"

text \<open>What a stored path is allowed to look like.\<close>

definition clean_memory_path :: "string \<Rightarrow> bool" where
  "clean_memory_path p \<longleftrightarrow>
     (let segments = split_on (CHR ''/'') p in
      p \<noteq> [] \<and> hd segments \<noteq> ''.enbor'' \<and>
      (\<forall>s \<in> set segments. s \<noteq> [] \<and> s \<noteq> ''.'' \<and> s \<noteq> ''..'' \<and> (\<forall>c \<in> set s. path_char c)))"

lemma path_char_plain: "path_char c \<Longrightarrow> \<not> js_space c \<and> \<not> control_or_backslash c \<and> c \<noteq> CHR ''/''"
  by (auto simp: path_char_def js_space_def control_or_backslash_def Let_def)

lemma slash_plain: "\<not> js_space CHR ''/''" "\<not> control_or_backslash CHR ''/''"
  by (simp_all add: js_space_def control_or_backslash_def)

lemma clean_chars: "clean_memory_path p \<Longrightarrow> c \<in> set p \<Longrightarrow> c = CHR ''/'' \<or> path_char c"
  using chars_of_split [of c p "CHR ''/''"] by (auto simp: clean_memory_path_def Let_def)

lemma clean_trim: "clean_memory_path p \<Longrightarrow> js_trim p = p"
  by (rule js_trim_id) (metis clean_chars path_char_plain slash_plain(1))

lemma clean_relative: "clean_memory_path p \<Longrightarrow> hd p \<noteq> CHR ''/''"
  by (cases p) (auto simp: clean_memory_path_def Let_def)

lemma clean_no_control: "clean_memory_path p \<Longrightarrow> \<not> list_ex control_or_backslash p"
  by (metis list_ex_iff clean_chars path_char_plain slash_plain(2))

text \<open>
  The accepted paths are exactly those that are clean after trimming: no
  empty, dot or dot-dot segment, no leading slash, nothing under .enbor, no character outside
  letters, digits, dot, underscore and hyphen; the result is the trimmed path itself. So a path
  that was normalised once is a fixed point, and joining it to a mount path never climbs out.
\<close>

theorem normalizeMemoryPath_iff:
  "normalizeMemoryPath p = Inr q \<longleftrightarrow> q = js_trim p \<and> clean_memory_path q"
proof (cases "clean_memory_path (js_trim p)")
  case True
  then show ?thesis
    using clean_no_control [OF True] clean_relative [OF True]
    by (auto simp: normalizeMemoryPath_def clean_memory_path_def Let_def list_ex_iff list_all_iff)
next
  case False
  then show ?thesis
    by (auto simp: normalizeMemoryPath_def clean_memory_path_def Let_def list_ex_iff list_all_iff)
qed

end
