(* ===== verification/Tables.thy ===== *)
theory Tables
  imports Prelude
begin

text \<open>
  The D1 tables the lease, session and trigger repositories share
  (\<open>server/db/schema.ts\<close>), as records of their columns, and the database \<open>db\<close> that holds
  them. A column no modelled statement reads or writes is left out (display names, the OIDC
  binding of a runner, the title of a session). JSON columns hold the parsed value.
  \<open>server/db/session-state.ts\<close> renames one session state on its way into the table.
\<close>

section \<open>Session states\<close>

datatype session_state = Pending | Running | Idle | Closed | Errored

datatype persisted_state = P_pending | P_running | P_idle | P_stopped | P_error

fun persistedSessionState :: "session_state \<Rightarrow> persisted_state" where
  "persistedSessionState Closed = P_stopped"
| "persistedSessionState Pending = P_pending"
| "persistedSessionState Running = P_running"
| "persistedSessionState Idle = P_idle"
| "persistedSessionState Errored = P_error"

fun domainSessionState :: "persisted_state \<Rightarrow> session_state" where
  "domainSessionState P_stopped = Closed"
| "domainSessionState P_pending = Pending"
| "domainSessionState P_running = Running"
| "domainSessionState P_idle = Idle"
| "domainSessionState P_error = Errored"

definition persistedSessionStates :: "session_state list \<Rightarrow> persisted_state list" where
  "persistedSessionStates states = map persistedSessionState states"

lemma domain_persisted [simp]: "domainSessionState (persistedSessionState s) = s"
  by (cases s) simp_all

lemma persisted_domain [simp]: "persistedSessionState (domainSessionState p) = p"
  by (cases p) simp_all

section \<open>Rows\<close>

record session_row =
  se_id :: id
  se_organization :: "id option"
  se_project :: id
  se_environment :: "id option"
  se_agent_snapshot :: "json option"
  se_environment_snapshot :: "json option"
  se_env :: json
  se_env_from :: json
  se_volumes :: json
  se_volume_mounts :: json
  se_sandbox :: "id option"
  se_resume_token :: "string option"
  se_endpoint_path :: "string option"
  se_state :: persisted_state
  se_reason :: "string option"
  se_active_turn :: "id option"
  se_turn_expires :: "time option"
  se_depth :: nat
  se_metadata :: json
  se_started :: "time option"
  se_closed :: "time option"
  se_deleted :: "time option"
  se_created :: time
  se_updated :: time

datatype work_state = W_available | W_leased | W_succeeded | W_failed | W_cancelled

record work_item_row =
  wi_id :: id
  wi_organization :: id
  wi_project :: id
  wi_session :: "id option"
  wi_environment :: "id option"
  wi_runner :: "id option"
  wi_lease :: "id option"
  wi_type :: string
  wi_state :: work_state
  wi_priority :: int
  wi_attempts :: nat
  wi_max_attempts :: nat
  wi_payload :: json
  wi_result :: "json option"
  wi_error :: "json option"
  wi_available_at :: time
  wi_created :: time
  wi_updated :: time

datatype lease_state = L_active | L_completed | L_failed | L_cancelled | L_expired | L_interrupted

record lease_row =
  le_id :: id
  le_work_item :: id
  le_runner :: id
  le_organization :: id
  le_project :: id
  le_state :: lease_state
  le_expires :: time
  le_renewed :: "time option"
  le_resume_token :: "string option"
  le_settlement :: "id option"
  le_created :: time
  le_updated :: time

datatype runner_state = R_active | R_draining | R_disabled | R_offline

record runner_row =
  ru_id :: id
  ru_organization :: id
  ru_project :: id
  ru_environment :: "id option"
  ru_state :: runner_state
  ru_load :: nat
  ru_max :: nat
  ru_runtimes :: json
  ru_heartbeat :: "time option"
  ru_deleted :: "time option"
  ru_updated :: time

datatype channel_state = C_active | C_stale | C_closed

record channel_row =
  ch_id :: id
  ch_session :: id
  ch_work_item :: id
  ch_lease :: id
  ch_runner :: id
  ch_organization :: id
  ch_project :: id
  ch_state :: channel_state
  ch_accepted :: time
  ch_last_seen :: time
  ch_closed :: "time option"
  ch_close_reason :: "string option"
  ch_created :: time
  ch_updated :: time

record event_row =
  ev_id :: id
  ev_organization :: id
  ev_project :: id
  ev_session :: id
  ev_sequence :: nat
  ev_type :: string
  ev_payload :: json
  ev_created :: time

record memory_store_row =
  ms_id :: id
  ms_project :: id
  ms_deleted :: "time option"
  ms_updated :: time

record memory_row =
  mm_id :: id
  mm_store :: id
  mm_project :: id
  mm_path :: string
  mm_content :: string
  mm_deleted :: "time option"
  mm_created :: time
  mm_updated :: time

record environment_row =
  en_id :: id
  en_project :: id
  en_current_version :: "id option"
  en_deleted :: "time option"
  en_updated :: time

record creation_row =
  cr_session :: id
  cr_project :: id
  cr_key_hash :: string
  cr_fingerprint :: string
  cr_cloud_start :: "json option"
  cr_created :: time

datatype approval_state = A_pending | A_approved | A_denied

record approval_row =
  ap_id :: id
  ap_organization :: id
  ap_project :: id
  ap_session :: id
  ap_tool_call :: id
  ap_tool_name :: string
  ap_input :: json
  ap_related_events :: json
  ap_state :: approval_state
  ap_reason :: "string option"
  ap_result :: "json option"
  ap_decided_by :: "id option"
  ap_decided :: "time option"
  ap_requested :: time
  ap_created :: time
  ap_updated :: time

record db =
  sessions :: "session_row list"
  work_items :: "work_item_row list"
  leases :: "lease_row list"
  runners :: "runner_row list"
  channels :: "channel_row list"
  events :: "event_row list"
  memory_stores :: "memory_store_row list"
  memories :: "memory_row list"
  environments :: "environment_row list"
  creations :: "creation_row list"
  approvals :: "approval_row list"

section \<open>Keys\<close>

text \<open>
  The primary keys of the lease protocol and the foreign key from leases to work items, which
  SQLite enforces.
\<close>

definition keys_ok :: "db \<Rightarrow> bool" where
  "keys_ok d \<longleftrightarrow>
     distinct (map wi_id (work_items d)) \<and> distinct (map le_id (leases d)) \<and>
     distinct (map ru_id (runners d)) \<and>
     (\<forall>l \<in> set (leases d). le_work_item l \<in> wi_id ` set (work_items d))"

definition live_session :: "id \<Rightarrow> id \<Rightarrow> session_row \<Rightarrow> bool" where
  "live_session projectId sessionId r \<longleftrightarrow>
     se_id r = sessionId \<and> se_project r = projectId \<and> se_deleted r = None"

end
