(* ===== verification/RunnerQueue.thy ===== *)
theory RunnerQueue
  imports Tables
begin

text \<open>
  The pure rules of the runner queue (\<open>server/domain/runner-queue.ts\<close>) and of the runtime
  catalog (\<open>server/domain/runtime-catalog.ts\<close>): heartbeat staleness, the runtime a work item
  requires, the readiness gate of a lease, and which runtimes each hosting mode offers.
\<close>

section \<open>Runtime catalog\<close>

datatype runtime_state = RS_ready | RS_missing | RS_unauthenticated | RS_unauthorized | RS_limited | RS_unhealthy

datatype hosting_mode = Cloud | Self_hosted

record runtime_requirement =
  rq_runtime :: string
  rq_model :: "string option"

record runtime_support =
  rt_runtime :: string
  rt_models :: "string list"
  rt_state :: runtime_state

record provider_model =
  pm_provider :: string
  pm_model :: string

record runtime_catalog_entry =
  rc_runtime :: string
  rc_hosting_modes :: "hosting_mode list"
  rc_provider_models :: "provider_model list"

definition RUNTIME_CATALOG :: "runtime_catalog_entry list" where
  "RUNTIME_CATALOG =
     [\<lparr>rc_runtime = ''enbor'', rc_hosting_modes = [Cloud, Self_hosted],
        rc_provider_models = [\<lparr>pm_provider = ''*'', pm_model = ''*''\<rparr>]\<rparr>,
      \<lparr>rc_runtime = ''claude-code'', rc_hosting_modes = [Self_hosted],
        rc_provider_models = [\<lparr>pm_provider = ''*'', pm_model = ''*''\<rparr>]\<rparr>,
      \<lparr>rc_runtime = ''codex'', rc_hosting_modes = [Self_hosted],
        rc_provider_models = [\<lparr>pm_provider = ''*'', pm_model = ''*''\<rparr>]\<rparr>,
      \<lparr>rc_runtime = ''copilot'', rc_hosting_modes = [Self_hosted],
        rc_provider_models = [\<lparr>pm_provider = ''*'', pm_model = ''*''\<rparr>]\<rparr>]"

definition truthy_str :: "string option \<Rightarrow> bool" where
  "truthy_str s \<longleftrightarrow> (case s of None \<Rightarrow> False | Some x \<Rightarrow> x \<noteq> [])"

definition runtimeRequirement :: "string \<Rightarrow> string option \<Rightarrow> runtime_requirement" where
  "runtimeRequirement runtime model =
     \<lparr>rq_runtime = runtime,
      rq_model = (if runtime \<noteq> ''enbor'' \<and> truthy_str model then model else None)\<rparr>"

definition selfHostedRuntimeModel :: "string option \<Rightarrow> string option \<Rightarrow> string option" where
  "selfHostedRuntimeModel provider model =
     (if \<not> truthy_str model then None
      else if \<not> truthy_str provider then model
      else let prefix = the provider @ ''/'' in
        if starts_with (the model) prefix then Some (drop (length prefix) (the model)) else model)"

definition runtimesSupport :: "runtime_support list \<Rightarrow> string \<Rightarrow> string option \<Rightarrow> bool" where
  "runtimesSupport runtimes runtime model =
     list_ex (\<lambda>entry. rt_runtime entry = runtime \<and> rt_state entry = RS_ready \<and>
                (\<not> truthy_str model \<or> runtime = ''enbor'' \<or> the model \<in> set (rt_models entry))) runtimes"

definition runtimeCatalogSupportsProviderModel ::
    "hosting_mode \<Rightarrow> string \<Rightarrow> string \<Rightarrow> string option \<Rightarrow> bool" where
  "runtimeCatalogSupportsProviderModel hostingMode runtime provider model =
     (case List.find (\<lambda>item. rc_runtime item = runtime) RUNTIME_CATALOG of
        None \<Rightarrow> False
      | Some entry \<Rightarrow>
          if hostingMode \<notin> set (rc_hosting_modes entry) then False
          else if list_all (\<lambda>c. pm_provider c = ''*'' \<and> pm_model c = ''*'') (rc_provider_models entry) then True
          else if \<not> truthy_str model
          then list_ex (\<lambda>c. pm_provider c = ''*'' \<or> pm_provider c = provider) (rc_provider_models entry)
          else list_ex (\<lambda>c. (pm_provider c = ''*'' \<or> pm_provider c = provider) \<and>
                            (pm_model c = ''*'' \<or> pm_model c = the model)) (rc_provider_models entry))"

definition runtimeSupportsHostingMode :: "hosting_mode \<Rightarrow> string \<Rightarrow> bool" where
  "runtimeSupportsHostingMode hostingMode runtime =
     list_ex (\<lambda>entry. rc_runtime entry = runtime \<and> hostingMode \<in> set (rc_hosting_modes entry)) RUNTIME_CATALOG"

section \<open>Runner queue\<close>

definition RUNNER_HEARTBEAT_GRACE_MS :: int where
  "RUNNER_HEARTBEAT_GRACE_MS = 5 * 60 * 1000"

definition runnerHeartbeatStaleBefore :: "time \<Rightarrow> time" where
  "runnerHeartbeatStaleBefore now = now - RUNNER_HEARTBEAT_GRACE_MS"

definition effectiveRunnerState :: "runner_state \<Rightarrow> time option \<Rightarrow> time \<Rightarrow> runner_state" where
  "effectiveRunnerState state lastHeartbeatAt now =
     (if state \<noteq> R_active then state
      else case lastHeartbeatAt of
        None \<Rightarrow> R_offline
      | Some heartbeatAt \<Rightarrow>
          if heartbeatAt \<ge> now - RUNNER_HEARTBEAT_GRACE_MS then state else R_offline)"

definition workRuntimeRequirement :: "json \<Rightarrow> runtime_requirement option" where
  "workRuntimeRequirement payload =
     (let requirement = jget payload ''runtimeRequirement'';
          runtime = nonempty_str (jopt requirement ''runtime'');
          model = nonempty_str (jopt requirement ''model'') in
      if is_jobj requirement \<and> runtime \<noteq> None
      then Some \<lparr>rq_runtime = the runtime, rq_model = model\<rparr>
      else if jget payload ''type'' \<noteq> Some (JStr ''session.start'') \<and>
              (jstr (jget payload ''toolName'') \<noteq> None \<or> is_jobj (jget payload ''toolCall''))
      then Some \<lparr>rq_runtime = ''enbor'', rq_model = None\<rparr>
      else None)"

definition runnerSupportsWork :: "runtime_support list \<Rightarrow> json \<Rightarrow> bool" where
  "runnerSupportsWork runtimes payload =
     (case workRuntimeRequirement payload of
        None \<Rightarrow> jget payload ''type'' \<noteq> Some (JStr ''session.start'')
      | Some required \<Rightarrow>
          list_ex (\<lambda>entry. rt_runtime entry = rq_runtime required \<and> rt_state entry = RS_ready \<and>
                     (case rq_model required of None \<Rightarrow> True | Some m \<Rightarrow> m \<in> set (rt_models entry)))
            runtimes)"

record oidc_context =
  oc_isRunnerToken :: bool
  oc_subject :: string
  oc_clientId :: "string option"

definition runnerOidcBindingFields :: "oidc_context \<Rightarrow> string \<Rightarrow> (string \<times> string) option" where
  "runnerOidcBindingFields oidc authMode =
     (if \<not> oc_isRunnerToken oidc
      then Some (''authorization'', ''Runner registration requires a Realmroot runner device token.'')
      else if authMode \<noteq> ''realmroot''
      then Some (''authMode'', ''Runner device tokens can only register Realmroot-authenticated runners.'')
      else if \<not> truthy_str (oc_clientId oidc)
      then Some (''authorization'', ''Runner OIDC token did not include a bindable client id.'')
      else None)"

text \<open>The requirement object that session creation puts into the payload of a session start.\<close>

definition requirement_json :: "runtime_requirement \<Rightarrow> json" where
  "requirement_json r =
     JObj ((''runtime'', JStr (rq_runtime r)) #
           (case rq_model r of None \<Rightarrow> [] | Some m \<Rightarrow> [(''model'', JStr m)]))"

lemma workRuntimeRequirement_json:
  assumes "jget payload ''runtimeRequirement'' = Some (requirement_json (runtimeRequirement runtime model))"
    and "runtime \<noteq> []"
  shows "workRuntimeRequirement payload = Some (runtimeRequirement runtime model)"
  using assms
  by (auto simp: workRuntimeRequirement_def requirement_json_def runtimeRequirement_def jget_def
      truthy_str_def split: option.splits)

text \<open>
  The admission check of session creation and the readiness gate of a lease
  agree. A runner may lease a session start whose payload carries the requirement that
  \<open>runtimeRequirement\<close> builds exactly when \<open>runtimesSupport\<close> accepts the runner's reported
  runtimes for that runtime and model.
\<close>

theorem runnerSupportsWork_runtimesSupport:
  assumes "jget payload ''runtimeRequirement'' = Some (requirement_json (runtimeRequirement runtime model))"
    and "runtime \<noteq> []"
  shows "runnerSupportsWork runtimes payload = runtimesSupport runtimes runtime model"
  using workRuntimeRequirement_json [OF assms]
  by (auto simp: runnerSupportsWork_def runtimesSupport_def runtimeRequirement_def list_ex_iff truthy_str_def
      split: option.splits)

theorem runnerSupportsWork_runtimesSupport_witness:
  "runnerSupportsWork [\<lparr>rt_runtime = ''codex'', rt_models = [''o4''], rt_state = RS_ready\<rparr>]
     (JObj [(''type'', JStr ''session.start''),
            (''runtimeRequirement'', JObj [(''runtime'', JStr ''codex''), (''model'', JStr ''o4'')])])"
proof -
  have "runnerSupportsWork [\<lparr>rt_runtime = ''codex'', rt_models = [''o4''], rt_state = RS_ready\<rparr>]
     (JObj [(''type'', JStr ''session.start''),
            (''runtimeRequirement'', JObj [(''runtime'', JStr ''codex''), (''model'', JStr ''o4'')])]) =
     runtimesSupport [\<lparr>rt_runtime = ''codex'', rt_models = [''o4''], rt_state = RS_ready\<rparr>] ''codex'' (Some ''o4'')"
    by (rule runnerSupportsWork_runtimesSupport)
      (simp_all add: jget_def requirement_json_def runtimeRequirement_def truthy_str_def)
  then show ?thesis by (simp add: runtimesSupport_def truthy_str_def)
qed

end
