(* ===== verification/LeaseRepo.thy ===== *)
theory LeaseRepo
  imports MemoryStore RunnerQueue
begin

text \<open>
  The lease repository (\<open>server/adapters/repos/leases.ts\<close>): each SQL statement, or batch of
  statements, that the code issues is one definition on the database, and each method is the
  composition of its statements in the code's order. A method returns the new database and a
  result; a thrown exception is the \<open>Inl\<close> of a \<open>repo_error\<close>, and the writes made before it
  stay. \<open>now()\<close> and the identifiers \<open>newPrimaryKey()\<close> draws are arguments.
\<close>

section \<open>Results and inputs\<close>

datatype repo_error =
    RunnerConflictError string nat
  | ThrownError string
  | UniqueViolation

datatype finish_state = F_active | F_completed | F_failed | F_cancelled | F_interrupted

record finish_input =
  fi_project :: id
  fi_lease :: id
  fi_state :: finish_state
  fi_expires :: "time option"
  fi_duration :: "int option"
  fi_resume :: "string option"
  fi_result :: "json option"
  fi_error :: "json option"

record claim_input =
  ci_organization :: id
  ci_project :: id
  ci_work_item :: id
  ci_runner :: id
  ci_duration :: int

datatype claim_result = Claimed lease_row "id option" | At_capacity | Work_item_lost

record memory_snapshot =
  sn_ref :: string
  sn_store :: id
  sn_memories :: "(string \<times> string) list"

definition DEFAULT_LEASE_DURATION_SECONDS :: int where
  "DEFAULT_LEASE_DURATION_SECONDS = 60"

section \<open>Row lookups\<close>

definition findLeaseRow :: "id \<Rightarrow> id \<Rightarrow> db \<Rightarrow> lease_row option" where
  "findLeaseRow projectId leaseId d =
     sql_get (\<lambda>l. le_id l = leaseId \<and> le_project l = projectId) (leases d)"

definition findWorkItemRow :: "id \<Rightarrow> id \<Rightarrow> db \<Rightarrow> work_item_row option" where
  "findWorkItemRow projectId workItemId d =
     sql_get (\<lambda>w. wi_id w = workItemId \<and> wi_project w = projectId) (work_items d)"

definition hasNewerActiveSessionWork :: "id \<Rightarrow> work_item_row \<Rightarrow> db \<Rightarrow> bool" where
  "hasNewerActiveSessionWork projectId workItem d =
     (case wi_session workItem of
        None \<Rightarrow> False
      | Some s \<Rightarrow>
          s \<noteq> [] \<and>
          sql_exists (\<lambda>w. wi_project w = projectId \<and> wi_session w = Some s \<and>
                          wi_state w \<in> {W_available, W_leased} \<and> wi_created w > wi_created workItem)
            (work_items d))"

definition sessionHasRunnerStarted :: "id \<Rightarrow> id \<Rightarrow> db \<Rightarrow> bool" where
  "sessionHasRunnerStarted projectId sessionId d =
     sql_exists (\<lambda>e. ev_project e = projectId \<and> ev_session e = sessionId) (events d)"

section \<open>Resume tokens\<close>

definition payloadWithResumeToken :: "work_item_row \<Rightarrow> string option \<Rightarrow> json option" where
  "payloadWithResumeToken workItem resumeToken =
     (if \<not> truthy_str resumeToken then None
      else let payload = wi_payload workItem in
        if \<not> truthy (Some payload) then None
        else if jget payload ''resume'' = Some (JBool True) \<and>
                jget payload ''resumeToken'' = Some (JStr (the resumeToken)) then None
        else Some (jset ''resumeToken'' (JStr (the resumeToken)) (jset ''resume'' (JBool True) payload)))"

definition runtimeFromPayload :: "work_item_row \<Rightarrow> string option" where
  "runtimeFromPayload workItem = nonempty_str (jget (wi_payload workItem) ''runtime'')"

definition resumeTokenFromFinishInput :: "finish_input \<Rightarrow> string option" where
  "resumeTokenFromFinishInput input =
     (if truthy_str (fi_resume input) then fi_resume input
      else nonempty_str (jopt (fi_result input) ''resumeToken''))"

definition runtimeUsesProviderAssignedSessionId :: "string \<Rightarrow> bool" where
  "runtimeUsesProviderAssignedSessionId runtime \<longleftrightarrow> runtime = ''codex''"

definition token_mismatch :: "string \<Rightarrow> id \<Rightarrow> string \<Rightarrow> repo_error" where
  "token_mismatch runtime sessionId resumeToken =
     RunnerConflictError (''Runtime '' @ runtime @ '' must use Enbor session '' @ sessionId @
       '' as its resume token; got '' @ resumeToken) 409"

definition token_bound :: "string \<Rightarrow> id \<Rightarrow> string \<Rightarrow> repo_error" where
  "token_bound runtime sessionId existing =
     RunnerConflictError (''Enbor session '' @ sessionId @ '' is already bound to resume token '' @
       runtime @ '':'' @ existing) 409"

definition unable_to_bind :: "id \<Rightarrow> repo_error" where
  "unable_to_bind sessionId =
     RunnerConflictError (''Unable to bind Enbor session '' @ sessionId @ '' to resume token'') 409"

text \<open>\<open>UPDATE sessions SET resume_token .. WHERE .. resume_token IS NULL\<close>.\<close>

definition stmt_bind_token :: "id \<Rightarrow> id \<Rightarrow> string \<Rightarrow> time \<Rightarrow> db \<Rightarrow> db \<times> bool" where
  "stmt_bind_token projectId sessionId token t d =
     (let P = (\<lambda>s. live_session projectId sessionId s \<and> se_resume_token s = None) in
      (d\<lparr>sessions := sql_update P (\<lambda>s. s\<lparr>se_resume_token := Some token, se_updated := t\<rparr>) (sessions d)\<rparr>,
       sql_exists P (sessions d)))"

definition bindSessionResumeToken ::
    "finish_input \<Rightarrow> work_item_row \<Rightarrow> string option \<Rightarrow> time \<Rightarrow> db \<Rightarrow> db \<times> (repo_error + unit)" where
  "bindSessionResumeToken input workItem resumeToken t d =
     (case (wi_session workItem, resumeToken, runtimeFromPayload workItem) of
        (Some s, Some token, Some runtime) \<Rightarrow>
          if s = [] \<or> token = [] then (d, Inr ())
          else if \<not> runtimeUsesProviderAssignedSessionId runtime
          then (d, if token \<noteq> s then Inl (token_mismatch runtime s token) else Inr ())
          else (case stmt_bind_token (fi_project input) s token t d of
              (d', True) \<Rightarrow> (d', Inr ())
            | (d', False) \<Rightarrow>
                (d', case sql_get (live_session (fi_project input) s) (sessions d') of
                   None \<Rightarrow> Inl (unable_to_bind s)
                 | Some existing \<Rightarrow>
                     if se_resume_token existing = Some token then Inr ()
                     else if truthy_str (se_resume_token existing)
                     then Inl (token_bound runtime s (the (se_resume_token existing)))
                     else Inl (unable_to_bind s)))
      | _ \<Rightarrow> (d, Inr ()))"

section \<open>Releasing a lease and requeueing its work\<close>

definition releaseRunnerLoad :: "id \<Rightarrow> id \<Rightarrow> time \<Rightarrow> db \<Rightarrow> db" where
  "releaseRunnerLoad projectId runnerId t d =
     d\<lparr>runners := sql_update (\<lambda>r. ru_id r = runnerId \<and> ru_project r = projectId)
         (\<lambda>r. r\<lparr>ru_load := ru_load r - 1, ru_updated := t\<rparr>) (runners d)\<rparr>"

definition message_json :: "string \<Rightarrow> json" where
  "message_json m = JObj [(''message'', JStr m)]"

definition stmt_cancel_superseded :: "id \<Rightarrow> time \<Rightarrow> db \<Rightarrow> db" where
  "stmt_cancel_superseded workItemId t d =
     d\<lparr>work_items := sql_update (\<lambda>w. wi_id w = workItemId \<and> wi_state w = W_leased)
         (\<lambda>w. w\<lparr>wi_state := W_cancelled, wi_runner := None, wi_lease := None,
                wi_error := Some (message_json ''Superseded by newer queued work for the session''),
                wi_updated := t\<rparr>) (work_items d)\<rparr>"

definition stmt_fail_exhausted :: "id \<Rightarrow> time \<Rightarrow> db \<Rightarrow> db" where
  "stmt_fail_exhausted workItemId t d =
     d\<lparr>work_items := sql_update (\<lambda>w. wi_id w = workItemId)
         (\<lambda>w. w\<lparr>wi_state := W_failed, wi_runner := None, wi_lease := None,
                wi_error := Some (message_json ''Runner stopped and retries are exhausted''),
                wi_updated := t\<rparr>) (work_items d)\<rparr>"

definition stmt_requeue :: "id \<Rightarrow> json \<Rightarrow> time \<Rightarrow> db \<Rightarrow> db" where
  "stmt_requeue workItemId payload t d =
     d\<lparr>work_items := sql_update (\<lambda>w. wi_id w = workItemId)
         (\<lambda>w. w\<lparr>wi_state := W_available, wi_runner := None, wi_lease := None, wi_payload := payload,
                wi_error := None, wi_available_at := t, wi_updated := t\<rparr>) (work_items d)\<rparr>"

definition stmt_session_state :: "id \<Rightarrow> id \<Rightarrow> persisted_state \<Rightarrow> string option \<Rightarrow> time \<Rightarrow> db \<Rightarrow> db" where
  "stmt_session_state projectId sessionId st reason t d =
     d\<lparr>sessions := sql_update (live_session projectId sessionId)
         (\<lambda>s. s\<lparr>se_state := st, se_reason := reason, se_updated := t\<rparr>) (sessions d)\<rparr>"

datatype requeue_result = Requeued | Requeue_failed | Superseded

definition runner_started :: "id \<Rightarrow> work_item_row \<Rightarrow> id \<Rightarrow> db \<Rightarrow> bool" where
  "runner_started projectId workItem sessionId d =
     (jget (wi_payload workItem) ''resume'' = Some (JBool True) \<or>
      nonempty_str (jget (wi_payload workItem) ''resumeToken'') \<noteq> None \<or>
      sessionHasRunnerStarted projectId sessionId d)"

definition recovery_payload :: "id \<Rightarrow> work_item_row \<Rightarrow> db \<Rightarrow> json" where
  "recovery_payload projectId workItem d =
     (case wi_session workItem of
        None \<Rightarrow> wi_payload workItem
      | Some s \<Rightarrow>
          if s \<noteq> [] \<and> jget (wi_payload workItem) ''type'' = Some (JStr ''session.start'') \<and>
             \<not> truthy (jget (wi_payload workItem) ''resume'') \<and> runner_started projectId workItem s d
          then jset ''resume'' (JBool True) (wi_payload workItem)
          else wi_payload workItem)"

definition requeueWorkItemForRecovery ::
    "id \<Rightarrow> work_item_row \<Rightarrow> time \<Rightarrow> db \<Rightarrow> db \<times> requeue_result" where
  "requeueWorkItemForRecovery projectId workItem t d =
     (if hasNewerActiveSessionWork projectId workItem d
      then (stmt_cancel_superseded (wi_id workItem) t d, Superseded)
      else if \<not> wi_attempts workItem < wi_max_attempts workItem
      then (let d1 = stmt_fail_exhausted (wi_id workItem) t d in
            ((case wi_session workItem of
                Some s \<Rightarrow> if s = [] then d1
                          else stmt_session_state projectId s P_error (Some ''runner-lease-expired'') t d1
              | None \<Rightarrow> d1), Requeue_failed))
      else (let d1 = stmt_requeue (wi_id workItem) (recovery_payload projectId workItem d) t d in
            ((case wi_session workItem of
                Some s \<Rightarrow> if s = [] then d1
                          else stmt_session_state projectId s P_pending
                            (Some (if runner_started projectId workItem s d
                                   then ''waiting-for-runner-recovery'' else ''waiting-for-runner'')) t d1
              | None \<Rightarrow> d1), Requeued)))"

section \<open>Expiring stale leases\<close>

text \<open>\<open>UPDATE leases SET state = 'expired' WHERE id = ? AND state = 'active' RETURNING id\<close>.\<close>

definition lease_active :: "lease_row \<Rightarrow> bool" where
  "lease_active l \<longleftrightarrow> le_state l = L_active"

definition stmt_expire_lease :: "id \<Rightarrow> time \<Rightarrow> db \<Rightarrow> db \<times> bool" where
  "stmt_expire_lease leaseId t d =
     (case cas_row le_id leaseId lease_active (\<lambda>l. l\<lparr>le_state := L_expired, le_updated := t\<rparr>) (leases d)
      of (rows, hit) \<Rightarrow> (d\<lparr>leases := rows\<rparr>, hit))"

definition stale_leases :: "id \<Rightarrow> time \<Rightarrow> db \<Rightarrow> lease_row list" where
  "stale_leases projectId t d =
     take 100 (filter (\<lambda>l. le_project l = projectId \<and> le_state l = L_active \<and> le_expires l < t) (leases d))"

definition expire_one :: "id \<Rightarrow> time \<Rightarrow> lease_row \<Rightarrow> db \<Rightarrow> db" where
  "expire_one projectId t lease d =
     (let workItem = findWorkItemRow projectId (le_work_item lease) d in
      case stmt_expire_lease (le_id lease) t d of
        (d1, False) \<Rightarrow> d1
      | (d1, True) \<Rightarrow>
          (let d2 = releaseRunnerLoad projectId (le_runner lease) t d1 in
           case workItem of
             None \<Rightarrow> d2
           | Some w \<Rightarrow>
               if wi_state w = W_leased \<and> wi_lease w = Some (le_id lease)
               then fst (requeueWorkItemForRecovery projectId w t d2)
               else d2))"

definition expireStale :: "id \<Rightarrow> time \<Rightarrow> db \<Rightarrow> db" where
  "expireStale projectId t d = fold (expire_one projectId t) (stale_leases projectId t d) d"

section \<open>Claiming\<close>

definition waiting_reason :: "string option \<Rightarrow> bool" where
  "waiting_reason r \<longleftrightarrow> r = Some ''waiting-for-runner'' \<or> r = Some ''waiting-for-runner-recovery''"

definition waiting_session :: "id \<Rightarrow> id option \<Rightarrow> db \<Rightarrow> bool" where
  "waiting_session projectId sid d =
     (case sid of None \<Rightarrow> True
      | Some s \<Rightarrow> sql_exists (\<lambda>r. live_session projectId s r \<and> se_state r = P_pending \<and>
                                  waiting_reason (se_reason r)) (sessions d))"

definition running_session :: "id \<Rightarrow> id option \<Rightarrow> db \<Rightarrow> bool" where
  "running_session projectId sid d =
     (case sid of None \<Rightarrow> True
      | Some s \<Rightarrow> sql_exists (\<lambda>r. live_session projectId s r \<and> se_state r = P_running) (sessions d))"

definition counts_for :: "id \<Rightarrow> id \<Rightarrow> time \<Rightarrow> lease_row \<Rightarrow> bool" where
  "counts_for projectId runnerId t l \<longleftrightarrow>
     le_runner l = runnerId \<and> le_project l = projectId \<and> le_state l = L_active \<and> le_expires l > t"

definition activeLeaseCount :: "id \<Rightarrow> id \<Rightarrow> time \<Rightarrow> db \<Rightarrow> nat" where
  "activeLeaseCount projectId runnerId t d = sql_count (counts_for projectId runnerId t) (leases d)"

definition new_lease :: "claim_input \<Rightarrow> id \<Rightarrow> time \<Rightarrow> time \<Rightarrow> lease_row" where
  "new_lease input leaseId t now =
     \<lparr>le_id = leaseId, le_work_item = ci_work_item input, le_runner = ci_runner input,
      le_organization = ci_organization input, le_project = ci_project input, le_state = L_active,
      le_expires = now + ci_duration input * 1000, le_renewed = None, le_resume_token = None,
      le_settlement = None, le_created = t, le_updated = t\<rparr>"

definition claimable_item :: "claim_input \<Rightarrow> time \<Rightarrow> db \<Rightarrow> work_item_row \<Rightarrow> bool" where
  "claimable_item input t d w \<longleftrightarrow>
     wi_id w = ci_work_item input \<and> wi_project w = ci_project input \<and> wi_state w = W_available \<and>
     wi_available_at w \<le> t \<and> waiting_session (ci_project input) (wi_session w) d"

definition claiming_runner :: "claim_input \<Rightarrow> time \<Rightarrow> time \<Rightarrow> db \<Rightarrow> runner_row \<Rightarrow> bool" where
  "claiming_runner input t now d r \<longleftrightarrow>
     ru_id r = ci_runner input \<and> ru_project r = ci_project input \<and> ru_deleted r = None \<and>
     ru_state r = R_active \<and>
     (case ru_heartbeat r of None \<Rightarrow> False | Some h \<Rightarrow> h \<ge> runnerHeartbeatStaleBefore now) \<and>
     activeLeaseCount (ci_project input) (ci_runner input) t d < ru_max r"

text \<open>
  The four statements of the claim batch. The INSERT selects from the runners joined with the
  work items; the UPDATE of the work item is guarded by \<open>changes() = 1\<close>.
\<close>

definition claim_insert :: "claim_input \<Rightarrow> id \<Rightarrow> time \<Rightarrow> time \<Rightarrow> db \<Rightarrow> db \<times> nat" where
  "claim_insert input leaseId t now d =
     (let n = sql_count (claiming_runner input t now d) (runners d) *
              sql_count (claimable_item input t d) (work_items d) in
      (d\<lparr>leases := leases d @ replicate n (new_lease input leaseId t now)\<rparr>, n))"

definition claim_item :: "claim_input \<Rightarrow> id \<Rightarrow> time \<Rightarrow> nat \<Rightarrow> db \<Rightarrow> db \<times> work_item_row list" where
  "claim_item input leaseId t changes d =
     (let P = (\<lambda>w. claimable_item input t d w \<and> changes = 1) in
      (d\<lparr>work_items := sql_update P
           (\<lambda>w. w\<lparr>wi_state := W_leased, wi_runner := Some (ci_runner input), wi_lease := Some leaseId,
                  wi_attempts := wi_attempts w + 1, wi_updated := t\<rparr>) (work_items d)\<rparr>,
       filter P (work_items d)))"

definition claimed_by :: "claim_input \<Rightarrow> id \<Rightarrow> work_item_row \<Rightarrow> bool" where
  "claimed_by input leaseId w \<longleftrightarrow>
     wi_id w = ci_work_item input \<and> wi_state w = W_leased \<and> wi_runner w = Some (ci_runner input) \<and>
     wi_lease w = Some leaseId"

definition claim_session :: "claim_input \<Rightarrow> id \<Rightarrow> time \<Rightarrow> db \<Rightarrow> db" where
  "claim_session input leaseId t d =
     d\<lparr>sessions := sql_update
         (\<lambda>s. se_project s = ci_project input \<and> se_deleted s = None \<and> se_state s = P_pending \<and>
              waiting_reason (se_reason s) \<and>
              sql_exists (\<lambda>w. claimed_by input leaseId w \<and> wi_project w = ci_project input \<and>
                              wi_session w = Some (se_id s)) (work_items d))
         (\<lambda>s. s\<lparr>se_state := P_running, se_reason := None, se_started := Some t, se_updated := t\<rparr>)
         (sessions d)\<rparr>"

definition claim_load :: "claim_input \<Rightarrow> id \<Rightarrow> time \<Rightarrow> db \<Rightarrow> db" where
  "claim_load input leaseId t d =
     d\<lparr>runners := sql_update
         (\<lambda>r. ru_id r = ci_runner input \<and> ru_project r = ci_project input \<and>
              sql_exists (\<lambda>w. claimed_by input leaseId w \<and>
                              running_session (ci_project input) (wi_session w) d) (work_items d))
         (\<lambda>r. r\<lparr>ru_load := activeLeaseCount (ci_project input) (ci_runner input) t d, ru_updated := t\<rparr>)
         (runners d)\<rparr>"

definition batch_claim ::
    "claim_input \<Rightarrow> id \<Rightarrow> time \<Rightarrow> time \<Rightarrow> db \<Rightarrow> db \<times> nat \<times> work_item_row list" where
  "batch_claim input leaseId t now d =
     (case claim_insert input leaseId t now d of (d1, n) \<Rightarrow>
      case claim_item input leaseId t n d1 of (d2, claimed) \<Rightarrow>
        (claim_load input leaseId t (claim_session input leaseId t d2), n, claimed))"

definition claim ::
    "claim_input \<Rightarrow> id \<Rightarrow> time \<Rightarrow> time \<Rightarrow> db \<Rightarrow> db \<times> (repo_error + claim_result)" where
  "claim input leaseId t now d =
     (case batch_claim input leaseId t now d of (d1, inserted, claimedRows) \<Rightarrow>
       (d1,
        if inserted = 0
        then Inr (case findWorkItemRow (ci_project input) (ci_work_item input) d1 of
                    None \<Rightarrow> Work_item_lost
                  | Some candidate \<Rightarrow>
                      if wi_state candidate = W_available \<and> wi_available_at candidate \<le> t
                      then At_capacity else Work_item_lost)
        else case claimedRows of
               [] \<Rightarrow> Inl (ThrownError ''Created lease did not claim its work item'')
             | w # _ \<Rightarrow> Inr (Claimed (new_lease input leaseId t now) (wi_session w))))"

section \<open>Failing a claim\<close>

definition stmt_fail_lease :: "id \<Rightarrow> time \<Rightarrow> db \<Rightarrow> db" where
  "stmt_fail_lease leaseId t d =
     d\<lparr>leases := sql_update (\<lambda>l. le_id l = leaseId)
         (\<lambda>l. l\<lparr>le_state := L_failed, le_updated := t\<rparr>) (leases d)\<rparr>"

definition stmt_fail_work_item :: "id \<Rightarrow> string \<Rightarrow> time \<Rightarrow> db \<Rightarrow> db" where
  "stmt_fail_work_item workItemId reason t d =
     d\<lparr>work_items := sql_update (\<lambda>w. wi_id w = workItemId)
         (\<lambda>w. w\<lparr>wi_state := W_failed, wi_runner := None, wi_lease := None,
                wi_error := Some (message_json reason), wi_updated := t\<rparr>) (work_items d)\<rparr>"

definition failClaim :: "id \<Rightarrow> id \<Rightarrow> id \<Rightarrow> id \<Rightarrow> id option \<Rightarrow> string \<Rightarrow> time \<Rightarrow> db \<Rightarrow> db" where
  "failClaim projectId leaseId workItemId runnerId sessionId reason t d =
     (let d1 = stmt_fail_work_item workItemId reason t (stmt_fail_lease leaseId t d);
          d2 = (case sessionId of
                  Some s \<Rightarrow> if s = [] then d1 else stmt_session_state projectId s P_error (Some reason) t d1
                | None \<Rightarrow> d1) in
      releaseRunnerLoad projectId runnerId t d2)"

section \<open>Memory snapshots of a result\<close>

text \<open>
  \<open>ref_store\<close> stands for \<open>memoryStoreIdFromRef\<close> (it rests on the platform's URL parser) and
  \<open>text\<close> for the \<open>String(x ?? '')\<close> conversion of a value the runner reported.
\<close>

fun snapshot_memories :: "(json option \<Rightarrow> string) \<Rightarrow> json list \<Rightarrow> string + (string \<times> string) list" where
  "snapshot_memories text [] = Inr []"
| "snapshot_memories text (m # ms) =
     (if \<not> is_jobj (Some m) then snapshot_memories text ms
      else case normalizeMemoryPath (text (jget m ''path'')) of
        Inl e \<Rightarrow> Inl e
      | Inr path \<Rightarrow>
          (case snapshot_memories text ms of
             Inl e \<Rightarrow> Inl e
           | Inr rest \<Rightarrow> Inr ((path, text (jget m ''content'')) # rest)))"

fun memoryStoreSnapshots ::
    "(string \<Rightarrow> id option) \<Rightarrow> (json option \<Rightarrow> string) \<Rightarrow> json list \<Rightarrow> string + memory_snapshot list" where
  "memoryStoreSnapshots ref_store text [] = Inr []"
| "memoryStoreSnapshots ref_store text (v # vs) =
     (case (jstr (jget v ''memoryRef''), jarr (jget v ''memories'')) of
        (Some ref, Some ms) \<Rightarrow>
          (case ref_store ref of
             None \<Rightarrow> memoryStoreSnapshots ref_store text vs
           | Some storeId \<Rightarrow>
               (case snapshot_memories text ms of
                  Inl e \<Rightarrow> Inl e
                | Inr mem \<Rightarrow>
                    (case memoryStoreSnapshots ref_store text vs of
                       Inl e \<Rightarrow> Inl e
                     | Inr rest \<Rightarrow> Inr (\<lparr>sn_ref = ref, sn_store = storeId, sn_memories = mem\<rparr> # rest))))
      | _ \<Rightarrow> memoryStoreSnapshots ref_store text vs)"

definition memoryStoreSnapshotsFromResult ::
    "(string \<Rightarrow> id option) \<Rightarrow> (json option \<Rightarrow> string) \<Rightarrow> json option \<Rightarrow> string + memory_snapshot list" where
  "memoryStoreSnapshotsFromResult ref_store text result =
     (case jarr (jopt result ''memoryStores'') of
        None \<Rightarrow> Inr []
      | Some vs \<Rightarrow> memoryStoreSnapshots ref_store text vs)"

definition store_live :: "id \<Rightarrow> id \<Rightarrow> db \<Rightarrow> bool" where
  "store_live projectId storeId d =
     sql_exists (\<lambda>m. ms_id m = storeId \<and> ms_project m = projectId \<and> ms_deleted m = None) (memory_stores d)"

definition settled_by :: "id \<Rightarrow> id \<Rightarrow> db \<Rightarrow> bool" where
  "settled_by leaseId settlementId d =
     sql_exists (\<lambda>l. le_id l = leaseId \<and> le_settlement l = Some settlementId) (leases d)"

text \<open>
  The inserts of a snapshot. The partial unique index on live paths of a store makes a second
  live row with the same path fail the whole batch.
\<close>

fun insert_memories ::
    "(nat \<Rightarrow> id) \<Rightarrow> nat \<Rightarrow> id \<Rightarrow> id \<Rightarrow> time \<Rightarrow> (string \<times> string) list \<Rightarrow> memory_row list \<Rightarrow> memory_row list option" where
  "insert_memories newId n projectId storeId t [] rows = Some rows"
| "insert_memories newId n projectId storeId t ((path, content) # ms) rows =
     (if sql_exists (\<lambda>m. mm_store m = storeId \<and> mm_path m = path \<and> mm_deleted m = None) rows then None
      else insert_memories newId (Suc n) projectId storeId t ms
        (rows @ [\<lparr>mm_id = newId n, mm_store = storeId, mm_project = projectId, mm_path = path,
                  mm_content = content, mm_deleted = None, mm_created = t, mm_updated = t\<rparr>]))"

definition memory_statements ::
    "(nat \<Rightarrow> id) \<Rightarrow> nat \<Rightarrow> id \<Rightarrow> id \<Rightarrow> id \<Rightarrow> memory_snapshot \<Rightarrow> time \<Rightarrow> db \<Rightarrow> db option" where
  "memory_statements newId n projectId leaseId settlementId snapshot t d =
     (if \<not> settled_by leaseId settlementId d then Some d
      else let cleared = sql_update
                 (\<lambda>m. mm_project m = projectId \<and> mm_store m = sn_store snapshot \<and> mm_deleted m = None)
                 (\<lambda>m. m\<lparr>mm_deleted := Some t, mm_updated := t\<rparr>) (memories d) in
        map_option
          (\<lambda>rows. d\<lparr>memories := rows,
                    memory_stores := sql_update
                      (\<lambda>m. ms_id m = sn_store snapshot \<and> ms_project m = projectId)
                      (\<lambda>m. m\<lparr>ms_updated := t\<rparr>) (memory_stores d)\<rparr>)
          (insert_memories newId n projectId (sn_store snapshot) t (sn_memories snapshot) cleared))"

fun memory_batch ::
    "(nat \<Rightarrow> id) \<Rightarrow> nat \<Rightarrow> id \<Rightarrow> id \<Rightarrow> id \<Rightarrow> memory_snapshot list \<Rightarrow> time \<Rightarrow> db \<Rightarrow> db option" where
  "memory_batch newId n projectId leaseId settlementId [] t d = Some d"
| "memory_batch newId n projectId leaseId settlementId (sn # sns) t d =
     (case memory_statements newId n projectId leaseId settlementId sn t d of
        None \<Rightarrow> None
      | Some d' \<Rightarrow>
          memory_batch newId (n + length (sn_memories sn)) projectId leaseId settlementId sns t d')"

section \<open>The completion batch\<close>

fun terminal_lease_state :: "finish_state \<Rightarrow> lease_state" where
  "terminal_lease_state F_completed = L_completed"
| "terminal_lease_state F_failed = L_failed"
| "terminal_lease_state F_cancelled = L_cancelled"
| "terminal_lease_state F_active = L_active"
| "terminal_lease_state F_interrupted = L_interrupted"

fun terminal_work_state :: "finish_state \<Rightarrow> work_state" where
  "terminal_work_state F_completed = W_succeeded"
| "terminal_work_state F_failed = W_failed"
| "terminal_work_state F_cancelled = W_cancelled"
| "terminal_work_state F_active = W_leased"
| "terminal_work_state F_interrupted = W_leased"

definition token_free :: "id \<Rightarrow> work_item_row \<Rightarrow> string option \<Rightarrow> db \<Rightarrow> bool" where
  "token_free projectId workItem providerToken d =
     (case (providerToken, wi_session workItem) of
        (Some token, Some s) \<Rightarrow>
          sql_exists (\<lambda>r. live_session projectId s r \<and>
                          (se_resume_token r = None \<or> se_resume_token r = Some token)) (sessions d)
      | _ \<Rightarrow> True)"

definition complete_item ::
    "finish_input \<Rightarrow> lease_row \<Rightarrow> work_item_row \<Rightarrow> string option \<Rightarrow> time \<Rightarrow> db \<Rightarrow> db \<times> nat" where
  "complete_item input lease workItem providerToken t d =
     (let P = (\<lambda>w. wi_id w = wi_id workItem \<and> wi_state w = W_leased \<and> wi_lease w = Some (le_id lease) \<and>
                   wi_runner w = Some (le_runner lease) \<and>
                   sql_exists (\<lambda>l. le_id l = le_id lease \<and> le_project l = fi_project input \<and>
                                   le_work_item l = wi_id workItem \<and> le_runner l = le_runner lease \<and>
                                   le_state l = L_active \<and> le_expires l > t) (leases d) \<and>
                   token_free (fi_project input) workItem providerToken d) in
      (d\<lparr>work_items := sql_update P
           (\<lambda>w. w\<lparr>wi_state := terminal_work_state (fi_state input), wi_result := fi_result input,
                  wi_error := fi_error input, wi_updated := t\<rparr>) (work_items d)\<rparr>,
       sql_count P (work_items d)))"

definition complete_lease ::
    "finish_input \<Rightarrow> lease_row \<Rightarrow> work_item_row \<Rightarrow> id \<Rightarrow> string option \<Rightarrow> time \<Rightarrow> nat \<Rightarrow> db \<Rightarrow> db \<times> nat" where
  "complete_lease input lease workItem settlementId resumeToken t changes d =
     (let P = (\<lambda>l. le_id l = fi_lease input \<and> le_state l = L_active \<and> changes = 1 \<and>
                   sql_exists (\<lambda>w. wi_id w = wi_id workItem \<and>
                                   wi_state w = terminal_work_state (fi_state input) \<and>
                                   wi_lease w = Some (le_id lease) \<and>
                                   wi_runner w = Some (le_runner lease) \<and> wi_updated w = t) (work_items d)) in
      (d\<lparr>leases := sql_update P
           (\<lambda>l. l\<lparr>le_state := terminal_lease_state (fi_state input), le_settlement := Some settlementId,
                  le_updated := t,
                  le_resume_token := (if truthy_str resumeToken then resumeToken else le_resume_token l)\<rparr>)
           (leases d)\<rparr>,
       sql_count P (leases d)))"

definition settled_as :: "finish_input \<Rightarrow> id \<Rightarrow> db \<Rightarrow> bool" where
  "settled_as input settlementId d =
     sql_exists (\<lambda>l. le_id l = fi_lease input \<and> le_state l = terminal_lease_state (fi_state input) \<and>
                     le_settlement l = Some settlementId) (leases d)"

definition complete_runner :: "finish_input \<Rightarrow> lease_row \<Rightarrow> id \<Rightarrow> time \<Rightarrow> nat \<Rightarrow> db \<Rightarrow> db \<times> nat" where
  "complete_runner input lease settlementId t changes d =
     (let P = (\<lambda>r. ru_id r = le_runner lease \<and> ru_project r = fi_project input \<and> changes = 1 \<and>
                   settled_as input settlementId d) in
      (d\<lparr>runners := sql_update P (\<lambda>r. r\<lparr>ru_load := ru_load r - 1, ru_updated := t\<rparr>) (runners d)\<rparr>,
       sql_count P (runners d)))"

definition complete_token ::
    "finish_input \<Rightarrow> work_item_row \<Rightarrow> string option \<Rightarrow> id \<Rightarrow> time \<Rightarrow> nat \<Rightarrow> db \<Rightarrow> db" where
  "complete_token input workItem providerToken settlementId t changes d =
     (case (providerToken, wi_session workItem) of
        (Some token, Some s) \<Rightarrow>
          d\<lparr>sessions := sql_update
              (\<lambda>r. live_session (fi_project input) s r \<and> changes = 1 \<and>
                   (se_resume_token r = None \<or> se_resume_token r = Some token) \<and>
                   settled_as input settlementId d)
              (\<lambda>r. r\<lparr>se_resume_token := Some token, se_updated := t\<rparr>) (sessions d)\<rparr>
      | _ \<Rightarrow> d)"

definition session_outcome ::
    "finish_state \<Rightarrow> string option \<Rightarrow> time \<Rightarrow> session_row \<Rightarrow> session_row" where
  "session_outcome st failureReason t r =
     (if st = F_cancelled
      then r\<lparr>se_state := persistedSessionState Closed, se_reason := Some ''runner-cancelled'',
             se_closed := Some t, se_updated := t\<rparr>
      else if st = F_completed then r\<lparr>se_state := P_idle, se_reason := None, se_updated := t\<rparr>
      else r\<lparr>se_state := P_error,
             se_reason := Some (case failureReason of None \<Rightarrow> ''runner-failed'' | Some x \<Rightarrow> x),
             se_updated := t\<rparr>)"

definition session_awaits :: "bool \<Rightarrow> session_row \<Rightarrow> bool" where
  "session_awaits activeChannel r \<longleftrightarrow>
     (if activeChannel
      then se_state r = P_running \<or>
           (se_state r = P_pending \<and> se_reason r = Some ''waiting-for-runner-recovery'')
      else se_state r = P_running \<or> (se_state r = P_pending \<and> waiting_reason (se_reason r)))"

definition complete_session ::
    "finish_input \<Rightarrow> work_item_row \<Rightarrow> id \<Rightarrow> bool \<Rightarrow> string option \<Rightarrow> time \<Rightarrow> db \<Rightarrow> db" where
  "complete_session input workItem settlementId activeChannel failureReason t d =
     (case wi_session workItem of
        None \<Rightarrow> d
      | Some s \<Rightarrow>
          if s = [] then d
          else d\<lparr>sessions := sql_update
              (\<lambda>r. live_session (fi_project input) s r \<and> session_awaits activeChannel r \<and>
                   settled_as input settlementId d \<and>
                   \<not> sql_exists (\<lambda>w. wi_project w = fi_project input \<and> wi_session w = Some s \<and>
                        wi_state w \<in> {W_available, W_leased} \<and> wi_created w > wi_created workItem) (work_items d))
              (session_outcome (fi_state input) failureReason t) (sessions d)\<rparr>)"

section \<open>Finishing a lease\<close>

definition RUNTIME_AUTH_STATE_REASONS :: "(string \<times> string) list" where
  "RUNTIME_AUTH_STATE_REASONS =
     [(''runtime_auth_missing_login'', ''runtime-auth-missing-login''),
      (''runtime_auth_unauthorized'', ''runtime-auth-unauthorized''),
      (''runtime_auth_product_disabled'', ''runtime-auth-product-disabled''),
      (''runtime_auth_expired'', ''runtime-auth-expired'')]"

fun first_auth_reason :: "event_row list \<Rightarrow> string option" where
  "first_auth_reason [] = None"
| "first_auth_reason (e # es) =
     (case Option.bind (nonempty_str (jget (ev_payload e) ''code'')) (map_of RUNTIME_AUTH_STATE_REASONS) of
        Some reason \<Rightarrow> Some reason
      | None \<Rightarrow> first_auth_reason es)"

definition runtimeFailureStateReason :: "id option \<Rightarrow> db \<Rightarrow> string option" where
  "runtimeFailureStateReason sessionId d =
     (if \<not> truthy_str sessionId then None
      else first_auth_reason (take 20 (rev (sort_key ev_sequence
        (filter (\<lambda>e. Some (ev_session e) = sessionId \<and> ev_type e = ''runtime.error'') (events d))))))"

text \<open>Renewal: the work item is touched first; only if it is still owned is the lease extended.\<close>

definition owned_item :: "lease_row \<Rightarrow> work_item_row \<Rightarrow> work_item_row \<Rightarrow> bool" where
  "owned_item lease workItem w \<longleftrightarrow>
     wi_id w = wi_id workItem \<and> wi_state w = W_leased \<and> wi_lease w = Some (le_id lease) \<and>
     wi_runner w = Some (le_runner lease)"

definition stmt_renew_item :: "lease_row \<Rightarrow> work_item_row \<Rightarrow> json option \<Rightarrow> time \<Rightarrow> db \<Rightarrow> db \<times> bool" where
  "stmt_renew_item lease workItem payload t d =
     (d\<lparr>work_items := sql_update (owned_item lease workItem)
          (\<lambda>w. w\<lparr>wi_updated := t,
                 wi_payload := (case payload of None \<Rightarrow> wi_payload w | Some p \<Rightarrow> p)\<rparr>) (work_items d)\<rparr>,
      sql_exists (owned_item lease workItem) (work_items d))"

definition stmt_renew_lease :: "id \<Rightarrow> time \<Rightarrow> string option \<Rightarrow> time \<Rightarrow> db \<Rightarrow> db" where
  "stmt_renew_lease leaseId expiresAt resumeToken t d =
     d\<lparr>leases := sql_update (\<lambda>l. le_id l = leaseId \<and> le_state l = L_active)
         (\<lambda>l. l\<lparr>le_expires := expiresAt, le_renewed := Some t, le_updated := t,
                le_resume_token := (if truthy_str resumeToken then resumeToken else le_resume_token l)\<rparr>)
         (leases d)\<rparr>"

definition finish_active ::
    "finish_input \<Rightarrow> lease_row \<Rightarrow> work_item_row \<Rightarrow> time \<Rightarrow> time \<Rightarrow> db \<Rightarrow> db \<times> bool" where
  "finish_active input lease workItem t now d =
     (let duration = (case fi_duration input of None \<Rightarrow> DEFAULT_LEASE_DURATION_SECONDS | Some x \<Rightarrow> x);
          expiresAt = (case fi_expires input of Some e \<Rightarrow> e | None \<Rightarrow> now + duration * 1000) in
      case stmt_renew_item lease workItem (payloadWithResumeToken workItem (fi_resume input)) t d of
        (d1, False) \<Rightarrow> (d1, False)
      | (d1, True) \<Rightarrow>
          (stmt_renew_lease (fi_lease input) expiresAt (resumeTokenFromFinishInput input) t d1, True))"

definition stmt_interrupt_lease :: "id \<Rightarrow> string option \<Rightarrow> time \<Rightarrow> db \<Rightarrow> db \<times> bool" where
  "stmt_interrupt_lease leaseId resumeToken t d =
     (case cas_row le_id leaseId lease_active
        (\<lambda>l. l\<lparr>le_state := L_expired, le_updated := t,
               le_resume_token := (if truthy_str resumeToken then resumeToken else le_resume_token l)\<rparr>)
        (leases d)
      of (rows, hit) \<Rightarrow> (d\<lparr>leases := rows\<rparr>, hit))"

definition finish_interrupted ::
    "finish_input \<Rightarrow> lease_row \<Rightarrow> work_item_row \<Rightarrow> time \<Rightarrow> db \<Rightarrow> db \<times> bool" where
  "finish_interrupted input lease workItem t d =
     (case stmt_interrupt_lease (fi_lease input) (resumeTokenFromFinishInput input) t d of
        (d1, False) \<Rightarrow> (d1, False)
      | (d1, True) \<Rightarrow>
          (let d2 = releaseRunnerLoad (fi_project input) (le_runner lease) t d1;
               w = (case payloadWithResumeToken workItem (fi_resume input) of
                      None \<Rightarrow> workItem | Some p \<Rightarrow> workItem\<lparr>wi_payload := p\<rparr>) in
           (fst (requeueWorkItemForRecovery (fi_project input) w t d2), True)))"

definition provider_token :: "work_item_row \<Rightarrow> string option \<Rightarrow> string option" where
  "provider_token workItem resumeToken =
     (case runtimeFromPayload workItem of
        Some runtime \<Rightarrow>
          if truthy_str (wi_session workItem) \<and> truthy_str resumeToken \<and>
             runtimeUsesProviderAssignedSessionId runtime then resumeToken else None
      | None \<Rightarrow> None)"

text \<open>The checks that precede the batch: a conflicting resume token is rejected.\<close>

definition completion_conflict ::
    "finish_input \<Rightarrow> work_item_row \<Rightarrow> string option \<Rightarrow> db \<Rightarrow> repo_error option" where
  "completion_conflict input workItem resumeToken d =
     (case (wi_session workItem, resumeToken, runtimeFromPayload workItem) of
        (Some s, Some token, Some runtime) \<Rightarrow>
          if s = [] \<or> token = [] then None
          else if \<not> runtimeUsesProviderAssignedSessionId runtime
          then (if token \<noteq> s then Some (token_mismatch runtime s token) else None)
          else (case sql_get (live_session (fi_project input) s) (sessions d) of
                  None \<Rightarrow> Some (unable_to_bind s)
                | Some bound \<Rightarrow>
                    if truthy_str (se_resume_token bound) \<and> se_resume_token bound \<noteq> Some token
                    then Some (token_bound runtime s (the (se_resume_token bound))) else None)
      | _ \<Rightarrow> None)"

definition active_channel :: "finish_input \<Rightarrow> lease_row \<Rightarrow> work_item_row \<Rightarrow> db \<Rightarrow> bool" where
  "active_channel input lease workItem d =
     sql_exists (\<lambda>c. ch_project c = fi_project input \<and> Some (ch_session c) = wi_session workItem \<and>
                     ch_lease c = le_id lease \<and> ch_state c = C_active) (channels d)"

definition batch_complete ::
    "(nat \<Rightarrow> id) \<Rightarrow> finish_input \<Rightarrow> lease_row \<Rightarrow> work_item_row \<Rightarrow> string option \<Rightarrow> memory_snapshot list \<Rightarrow>
     bool \<Rightarrow> string option \<Rightarrow> time \<Rightarrow> db \<Rightarrow> (db \<times> nat) option" where
  "batch_complete newId input lease workItem resumeToken snapshots activeChannel failureReason t d =
     (let settlementId = newId 0;
          token = provider_token workItem resumeToken in
      case complete_item input lease workItem token t d of (d1, n1) \<Rightarrow>
      case complete_lease input lease workItem settlementId resumeToken t n1 d1 of (d2, n2) \<Rightarrow>
      case complete_runner input lease settlementId t n2 d2 of (d3, n3) \<Rightarrow>
      let d4 = complete_token input workItem token settlementId t n3 d3 in
      case memory_batch newId 1 (fi_project input) (fi_lease input) settlementId snapshots t d4 of
        None \<Rightarrow> None
      | Some d5 \<Rightarrow>
          Some (complete_session input workItem settlementId activeChannel failureReason t d5, n1))"

definition finish_terminal ::
    "(string \<Rightarrow> id option) \<Rightarrow> (json option \<Rightarrow> string) \<Rightarrow> (nat \<Rightarrow> id) \<Rightarrow>
     finish_input \<Rightarrow> lease_row \<Rightarrow> work_item_row \<Rightarrow> time \<Rightarrow> db \<Rightarrow> db \<times> (repo_error + bool)" where
  "finish_terminal ref_store text newId input lease workItem t d =
     (let resumeToken = resumeTokenFromFinishInput input in
      case completion_conflict input workItem resumeToken d of
        Some e \<Rightarrow> (d, Inl e)
      | None \<Rightarrow>
        (case (if fi_state input = F_completed
               then memoryStoreSnapshotsFromResult ref_store text (fi_result input) else Inr []) of
           Inl e \<Rightarrow> (d, Inl (ThrownError e))
         | Inr snapshots \<Rightarrow>
             let live = filter (\<lambda>sn. store_live (fi_project input) (sn_store sn) d) snapshots;
                 failureReason = (if fi_state input = F_failed
                                  then runtimeFailureStateReason (wi_session workItem) d else None) in
             (case batch_complete newId input lease workItem resumeToken live
                     (active_channel input lease workItem d) failureReason t d of
                None \<Rightarrow> (d, Inl UniqueViolation)
              | Some (d', n) \<Rightarrow> (d', Inr (n \<noteq> 0)))))"

definition owns_work :: "time \<Rightarrow> lease_row \<Rightarrow> work_item_row \<Rightarrow> bool" where
  "owns_work now lease workItem \<longleftrightarrow>
     le_state lease = L_active \<and> \<not> le_expires lease \<le> now \<and> wi_state workItem = W_leased \<and>
     wi_lease workItem = Some (le_id lease) \<and> wi_runner workItem = Some (le_runner lease)"

definition finish_bind :: "finish_input \<Rightarrow> work_item_row \<Rightarrow> time \<Rightarrow> db \<Rightarrow> db \<times> (repo_error + unit)" where
  "finish_bind input workItem t d =
     (if fi_state input \<in> {F_active, F_interrupted}
      then bindSessionResumeToken input workItem (resumeTokenFromFinishInput input) t d
      else (d, Inr ()))"

definition finish_write ::
    "(string \<Rightarrow> id option) \<Rightarrow> (json option \<Rightarrow> string) \<Rightarrow> (nat \<Rightarrow> id) \<Rightarrow>
     finish_input \<Rightarrow> lease_row \<Rightarrow> work_item_row \<Rightarrow> time \<Rightarrow> time \<Rightarrow> db \<Rightarrow> db \<times> (repo_error + bool)" where
  "finish_write ref_store text newId input lease workItem t now d =
     (if fi_state input = F_active
      then (case finish_active input lease workItem t now d of (d1, ok) \<Rightarrow> (d1, Inr ok))
      else if fi_state input = F_interrupted
      then (case finish_interrupted input lease workItem t d of (d1, ok) \<Rightarrow> (d1, Inr ok))
      else finish_terminal ref_store text newId input lease workItem t d)"

definition finish ::
    "(string \<Rightarrow> id option) \<Rightarrow> (json option \<Rightarrow> string) \<Rightarrow> (nat \<Rightarrow> id) \<Rightarrow>
     finish_input \<Rightarrow> time \<Rightarrow> time \<Rightarrow> db \<Rightarrow> db \<times> (repo_error + lease_row option)" where
  "finish ref_store text newId input t now d =
     (case findLeaseRow (fi_project input) (fi_lease input) d of
        None \<Rightarrow> (d, Inr None)
      | Some lease \<Rightarrow>
        (case findWorkItemRow (fi_project input) (le_work_item lease) d of
           None \<Rightarrow> (d, Inr None)
         | Some workItem \<Rightarrow>
           if \<not> owns_work now lease workItem then (d, Inr None)
           else
             (case finish_bind input workItem t d of
                (d0, Inl e) \<Rightarrow> (d0, Inl e)
              | (d0, Inr _) \<Rightarrow>
                  (case finish_write ref_store text newId input lease workItem t now d0 of
                     (d1, Inl e) \<Rightarrow> (d1, Inl e)
                   | (d1, Inr ok) \<Rightarrow>
                       (d1, Inr (if ok then findLeaseRow (fi_project input) (fi_lease input) d1 else None))))))"

section \<open>Session channels\<close>

definition activeLeaseWorkItem :: "id \<Rightarrow> lease_row \<Rightarrow> time \<Rightarrow> db \<Rightarrow> work_item_row option" where
  "activeLeaseWorkItem projectId lease now d =
     (if le_state lease \<noteq> L_active \<or> le_expires lease \<le> now then None
      else case findWorkItemRow projectId (le_work_item lease) d of
        None \<Rightarrow> None
      | Some w \<Rightarrow>
          if wi_state w \<noteq> W_leased \<or> wi_lease w \<noteq> Some (le_id lease) \<or> wi_runner w \<noteq> Some (le_runner lease)
          then None else Some w)"

definition awaits_channel :: "session_row \<Rightarrow> bool" where
  "awaits_channel s \<longleftrightarrow>
     (se_state s = P_pending \<and> waiting_reason (se_reason s)) \<or>
     (se_state s = P_running \<and> se_reason s = None)"

definition stmt_supersede_channels :: "id \<Rightarrow> id \<Rightarrow> id \<Rightarrow> time \<Rightarrow> db \<Rightarrow> db" where
  "stmt_supersede_channels projectId sessionId leaseId t d =
     d\<lparr>channels := sql_update
         (\<lambda>c. ch_project c = projectId \<and> ch_state c = C_active \<and> (ch_session c = sessionId \<or> ch_lease c = leaseId))
         (\<lambda>c. c\<lparr>ch_state := C_stale, ch_closed := Some t, ch_close_reason := Some ''superseded'',
                ch_updated := t\<rparr>) (channels d)\<rparr>"

definition stmt_accept_session :: "id \<Rightarrow> id \<Rightarrow> time \<Rightarrow> db \<Rightarrow> db \<times> bool" where
  "stmt_accept_session projectId sessionId t d =
     (let P = (\<lambda>s. live_session projectId sessionId s \<and> awaits_channel s) in
      (d\<lparr>sessions := sql_update P
           (\<lambda>s. s\<lparr>se_state := P_running, se_reason := None, se_endpoint_path := None,
                  se_started := Some t, se_updated := t\<rparr>) (sessions d)\<rparr>,
       sql_exists P (sessions d)))"

datatype channel_result = Channel_conflict string | Channel_prepared id id id id

definition prepareSessionChannel ::
    "id \<Rightarrow> id \<Rightarrow> id \<Rightarrow> id \<Rightarrow> time \<Rightarrow> time \<Rightarrow> db \<Rightarrow> db \<times> channel_result" where
  "prepareSessionChannel organizationId projectId leaseId channelId t now d =
     (let d0 = expireStale projectId now d in
      case Option.bind (findLeaseRow projectId leaseId d0) (\<lambda>l. activeLeaseWorkItem projectId l now d0) of
        None \<Rightarrow> (d0, Channel_conflict ''Runner lease no longer owns a self-hosted session'')
      | Some w \<Rightarrow>
        (case (wi_session w, wi_runner w) of
           (Some s, Some runnerId) \<Rightarrow>
             if s = [] \<or> runnerId = []
             then (d0, Channel_conflict ''Runner work item is not attached to a session'')
             else (case sql_get (live_session projectId s) (sessions d0) of
               None \<Rightarrow> (d0, Channel_conflict ''Session is not waiting for a runner channel'')
             | Some waiting \<Rightarrow>
                 if \<not> awaits_channel waiting
                 then (d0, Channel_conflict ''Session is not waiting for a runner channel'')
                 else (case stmt_accept_session projectId s t (stmt_supersede_channels projectId s leaseId t d0) of
                     (d2, False) \<Rightarrow> (d2, Channel_conflict ''Session is not waiting for a runner channel'')
                   | (d2, True) \<Rightarrow>
                       (d2\<lparr>channels := channels d2 @
                            [\<lparr>ch_id = channelId, ch_session = s, ch_work_item = wi_id w, ch_lease = leaseId,
                              ch_runner = runnerId, ch_organization = organizationId, ch_project = projectId,
                              ch_state = C_active, ch_accepted = t, ch_last_seen = t, ch_closed = None,
                              ch_close_reason = None, ch_created = t, ch_updated = t\<rparr>]\<rparr>,
                        Channel_prepared channelId s (wi_id w) runnerId)))
         | _ \<Rightarrow> (d0, Channel_conflict ''Runner work item is not attached to a session'')))"

definition rollbackSessionChannel :: "id \<Rightarrow> id \<Rightarrow> id \<Rightarrow> time \<Rightarrow> db \<Rightarrow> db" where
  "rollbackSessionChannel projectId channelId sessionId t d =
     d\<lparr>channels := sql_update (\<lambda>c. ch_id c = channelId)
         (\<lambda>c. c\<lparr>ch_state := C_closed, ch_closed := Some t,
                ch_close_reason := Some ''channel-upgrade-failed'', ch_updated := t\<rparr>) (channels d),
       sessions := sql_update (\<lambda>s. live_session projectId sessionId s \<and> se_state s = P_running)
         (\<lambda>s. s\<lparr>se_state := P_pending, se_reason := Some ''waiting-for-runner-recovery'', se_updated := t\<rparr>)
         (sessions d)\<rparr>"

end
