(* ===== verification/SecretScan.thy ===== *)
theory SecretScan
  imports Prelude
begin

text \<open>
  Detection of raw secret material in caller-provided configuration. Three variants of
  \<open>hasSecretMaterial\<close> share one traversal and differ in the test of a key: the runner queue
  (\<open>server/domain/runner-queue.ts\<close>), sessions (\<open>server/domain/session.ts\<close>, which exempts
  secretRef) and triggers (\<open>server/domain/trigger.ts\<close>, which normalises the key first).
\<close>

section \<open>Substrings\<close>

fun contains :: "string \<Rightarrow> string \<Rightarrow> bool" where
  "contains [] w \<longleftrightarrow> w = []"
| "contains (c # cs) w \<longleftrightarrow> take (length w) (c # cs) = w \<or> contains cs w"

definition ascii_lower :: "char \<Rightarrow> char" where
  "ascii_lower c = (let n = of_char c :: nat in if 65 \<le> n \<and> n \<le> 90 then char_of (n + 32) else c)"

definition lower_alnum :: "char \<Rightarrow> bool" where
  "lower_alnum c \<longleftrightarrow> (let n = of_char c :: nat in (97 \<le> n \<and> n \<le> 122) \<or> (48 \<le> n \<and> n \<le> 57))"

lemma contains_iff: "contains s w \<longleftrightarrow> (\<exists>u v. s = u @ w @ v)"
proof (induction s w rule: contains.induct)
  case (2 c cs w)
  have "take (length w) (c # cs) = w \<longleftrightarrow> (\<exists>v. c # cs = w @ v)"
    by (metis append_eq_conv_conj append_take_drop_id)
  moreover have "(\<exists>u v. c # cs = u @ w @ v) \<longleftrightarrow> (\<exists>v. c # cs = w @ v) \<or> (\<exists>u v. cs = u @ w @ v)"
    by (metis append_Cons append_Nil list.inject neq_Nil_conv)
  ultimately show ?case using 2 by simp
qed auto

text \<open>Dropping characters outside a word keeps an occurrence of the word.\<close>

lemma contains_filter:
  assumes "contains s w" and "\<And>c. c \<in> set w \<Longrightarrow> P c"
  shows "contains (filter P s) w"
proof -
  from assms(1) obtain u v where "s = u @ w @ v" by (auto simp: contains_iff)
  moreover have "filter P w = w" using assms(2) by simp
  ultimately have "filter P s = filter P u @ w @ filter P v" by simp
  then show ?thesis unfolding contains_iff by blast
qed

section \<open>Keys\<close>

text \<open>\<open>/secret|token|password|api[_-]?key/i\<close>.\<close>

definition runner_secretKey :: "string \<Rightarrow> bool" where
  "runner_secretKey key \<longleftrightarrow>
     (let k = map ascii_lower key in
      contains k ''secret'' \<or> contains k ''token'' \<or> contains k ''password'' \<or>
      contains k ''apikey'' \<or> contains k ''api_key'' \<or> contains k ''api-key'')"

definition session_secretKey :: "string \<Rightarrow> bool" where
  "session_secretKey key \<longleftrightarrow> key \<noteq> ''secretRef'' \<and> runner_secretKey key"

definition trigger_secretKey :: "string \<Rightarrow> bool" where
  "trigger_secretKey key \<longleftrightarrow>
     (let normalized = filter lower_alnum (map ascii_lower key) in
      contains normalized ''secret'' \<or> contains normalized ''token'' \<or> contains normalized ''apikey'' \<or>
      contains normalized ''password'' \<or> contains normalized ''privatekey'')"

section \<open>The traversal\<close>

fun has_secret :: "(string \<Rightarrow> bool) \<Rightarrow> json \<Rightarrow> bool"
  and has_secret_list :: "(string \<Rightarrow> bool) \<Rightarrow> json list \<Rightarrow> bool"
  and has_secret_entries :: "(string \<Rightarrow> bool) \<Rightarrow> (string \<times> json) list \<Rightarrow> bool" where
  "has_secret secretKey (JArr xs) = has_secret_list secretKey xs"
| "has_secret secretKey (JObj kvs) = has_secret_entries secretKey kvs"
| "has_secret secretKey _ = False"
| "has_secret_list secretKey [] = False"
| "has_secret_list secretKey (x # xs) = (has_secret secretKey x \<or> has_secret_list secretKey xs)"
| "has_secret_entries secretKey [] = False"
| "has_secret_entries secretKey ((key, child) # kvs) =
     (secretKey key \<or> has_secret secretKey child \<or> has_secret_entries secretKey kvs)"

definition runner_hasSecretMaterial :: "json option \<Rightarrow> bool" where
  "runner_hasSecretMaterial value = (case value of None \<Rightarrow> False | Some v \<Rightarrow> has_secret runner_secretKey v)"

definition session_hasSecretMaterial :: "json option \<Rightarrow> bool" where
  "session_hasSecretMaterial value = (case value of None \<Rightarrow> False | Some v \<Rightarrow> has_secret session_secretKey v)"

definition trigger_hasSecretMaterial :: "json option \<Rightarrow> bool" where
  "trigger_hasSecretMaterial value = (case value of None \<Rightarrow> False | Some v \<Rightarrow> has_secret trigger_secretKey v)"

section \<open>What the traversal finds\<close>

text \<open>A key occurs in a value at some depth, through arrays and objects.\<close>

inductive key_occurs :: "string \<Rightarrow> json \<Rightarrow> bool" where
  here: "(k, v) \<in> set kvs \<Longrightarrow> key_occurs k (JObj kvs)"
| below: "(k', v) \<in> set kvs \<Longrightarrow> key_occurs k v \<Longrightarrow> key_occurs k (JObj kvs)"
| element: "x \<in> set xs \<Longrightarrow> key_occurs k x \<Longrightarrow> key_occurs k (JArr xs)"

inductive_cases key_occurs_objE: "key_occurs k (JObj kvs)"
inductive_cases key_occurs_arrE: "key_occurs k (JArr xs)"
inductive_simps key_occurs_scalar:
  "key_occurs k JNull" "key_occurs k (JBool b)" "key_occurs k (JNum n)" "key_occurs k (JStr s)"

lemma has_secret_list_iff: "has_secret_list P xs \<longleftrightarrow> (\<exists>x \<in> set xs. has_secret P x)"
  by (induction xs) auto

lemma has_secret_entries_iff:
  "has_secret_entries P kvs \<longleftrightarrow> (\<exists>(k, v) \<in> set kvs. P k \<or> has_secret P v)"
  by (induction kvs) auto

lemma has_secret_complete: "key_occurs k j \<Longrightarrow> P k \<Longrightarrow> has_secret P j"
  by (induction rule: key_occurs.induct) (auto simp: has_secret_list_iff has_secret_entries_iff)

lemma has_secret_sound: "has_secret P j \<Longrightarrow> \<exists>k. key_occurs k j \<and> P k"
proof (induction j)
  case (JArr xs)
  then show ?case by (auto simp: has_secret_list_iff) (metis key_occurs.element)
next
  case (JObj kvs)
  then show ?case
    by (auto simp: has_secret_entries_iff) (metis key_occurs.here, metis key_occurs.below snds.simps)
qed simp_all

text \<open>
  The traversal reports secret material exactly when some key, at any depth
  below objects and arrays, passes the key test.
\<close>

theorem has_secret_iff: "has_secret secretKey j \<longleftrightarrow> (\<exists>k. key_occurs k j \<and> secretKey k)"
  using has_secret_complete has_secret_sound by blast

lemma trigger_key_covers_runner_key: "runner_secretKey k \<Longrightarrow> trigger_secretKey k"
proof -
  let ?k = "map ascii_lower k" and ?n = "filter lower_alnum (map ascii_lower k)"
  have keep: "contains ?k w \<Longrightarrow> list_all lower_alnum w \<Longrightarrow> contains ?n w" for w
    by (rule contains_filter) (auto simp: list_all_iff)
  have sep: "contains ?n ''apikey''" if "contains ?k (''api'' @ [c] @ ''key'')" "\<not> lower_alnum c" for c
  proof -
    from that(1) obtain u v where "?k = u @ (''api'' @ [c] @ ''key'') @ v" by (auto simp: contains_iff)
    then have "?n = filter lower_alnum u @ ''apikey'' @ filter lower_alnum v"
      using that(2) by (simp add: lower_alnum_def)
    then show ?thesis unfolding contains_iff by blast
  qed
  show "runner_secretKey k \<Longrightarrow> trigger_secretKey k"
    using keep [of "''secret''"] keep [of "''token''"] keep [of "''password''"] keep [of "''apikey''"]
      sep [of "CHR ''_''"] sep [of "CHR ''-''"]
    by (auto simp: runner_secretKey_def trigger_secretKey_def Let_def lower_alnum_def)
qed

text \<open>
  The three detectors are ordered. Whatever a session rejects a runner rejects,
  and whatever a runner rejects a trigger rejects, so configuration a trigger accepts is
  accepted by the session it starts.
\<close>

theorem secret_detectors_ordered:
  "(session_hasSecretMaterial v \<longrightarrow> runner_hasSecretMaterial v) \<and>
   (runner_hasSecretMaterial v \<longrightarrow> trigger_hasSecretMaterial v)"
  unfolding session_hasSecretMaterial_def runner_hasSecretMaterial_def trigger_hasSecretMaterial_def
  by (auto simp: has_secret_iff session_secretKey_def split: option.splits
      intro: trigger_key_covers_runner_key)

theorem secret_detectors_ordered_witness:
  "trigger_hasSecretMaterial (Some (JObj [(''env'', JArr [JObj [(''API_Key'', JStr ''x'')]])]))"
proof -
  let ?v = "Some (JObj [(''env'', JArr [JObj [(''API_Key'', JStr ''x'')]])])"
  have "session_hasSecretMaterial ?v" by code_simp
  with secret_detectors_ordered [of ?v] show ?thesis by blast
qed

end
