(* ===== verification/RunnerRepo.thy ===== *)
theory RunnerRepo
  imports LeaseRepo SecretScan
begin

text \<open>
  Runner rows (\<open>server/adapters/repos/runners.ts\<close>), the deletion of an environment together
  with its runners (\<open>server/adapters/repos/environments.ts\<close>) and the runner use cases
  (\<open>server/usecases/runners.ts\<close>). A runner record carries the effective state, which depends
  on the age of its heartbeat.
\<close>

section \<open>Statements on runner rows\<close>

definition live_runner :: "id \<Rightarrow> id \<Rightarrow> runner_row \<Rightarrow> bool" where
  "live_runner projectId runnerId r \<longleftrightarrow>
     ru_id r = runnerId \<and> ru_project r = projectId \<and> ru_deleted r = None"

definition runner_record :: "time \<Rightarrow> runner_row \<Rightarrow> runner_row" where
  "runner_record now r = r\<lparr>ru_state := effectiveRunnerState (ru_state r) (ru_heartbeat r) now\<rparr>"

definition runner_find :: "id \<Rightarrow> id \<Rightarrow> time \<Rightarrow> db \<Rightarrow> runner_row option" where
  "runner_find projectId runnerId now d =
     map_option (runner_record now) (sql_get (live_runner projectId runnerId) (runners d))"

text \<open>
  The triggers of migration 0039 abort an INSERT or an UPDATE that would leave a live runner
  attached to a deleted environment.
\<close>

definition attaches_to_deleted :: "id \<Rightarrow> id option \<Rightarrow> db \<Rightarrow> bool" where
  "attaches_to_deleted projectId environmentId d \<longleftrightarrow>
     (case environmentId of
        None \<Rightarrow> False
      | Some e \<Rightarrow> sql_exists (\<lambda>r. en_id r = e \<and> en_project r = projectId \<and> en_deleted r \<noteq> None) (environments d))"

definition runner_insert :: "id \<Rightarrow> id \<Rightarrow> id \<Rightarrow> id option \<Rightarrow> nat \<Rightarrow> time \<Rightarrow> db \<Rightarrow> db option" where
  "runner_insert runnerId organizationId projectId environmentId maxConcurrent t d =
     (if attaches_to_deleted projectId environmentId d then None
      else Some (d\<lparr>runners := runners d @
         [\<lparr>ru_id = runnerId, ru_organization = organizationId, ru_project = projectId,
           ru_environment = environmentId, ru_state = R_offline, ru_load = 0, ru_max = maxConcurrent,
           ru_runtimes = JArr [], ru_heartbeat = None, ru_deleted = None, ru_updated = t\<rparr>]\<rparr>))"

definition runner_reregister ::
    "id \<Rightarrow> id \<Rightarrow> id \<Rightarrow> id option \<Rightarrow> nat \<Rightarrow> time \<Rightarrow> db \<Rightarrow> (db \<times> bool) option" where
  "runner_reregister organizationId projectId runnerId environmentId maxConcurrent t d =
     (let hit = sql_exists (live_runner projectId runnerId) (runners d) in
      if hit \<and> attaches_to_deleted projectId environmentId d then None
      else Some (d\<lparr>runners := sql_update (live_runner projectId runnerId)
          (\<lambda>r. r\<lparr>ru_organization := organizationId, ru_project := projectId, ru_environment := environmentId,
                 ru_max := maxConcurrent, ru_updated := t\<rparr>) (runners d)\<rparr>, hit))"

definition runner_update :: "id \<Rightarrow> id \<Rightarrow> runner_state \<Rightarrow> nat \<Rightarrow> time \<Rightarrow> db \<Rightarrow> db \<times> bool" where
  "runner_update projectId runnerId state maxConcurrent t d =
     (d\<lparr>runners := sql_update (live_runner projectId runnerId)
          (\<lambda>r. r\<lparr>ru_state := state, ru_max := maxConcurrent, ru_updated := t\<rparr>) (runners d)\<rparr>,
      sql_exists (live_runner projectId runnerId) (runners d))"

definition runner_delete :: "id \<Rightarrow> id \<Rightarrow> time \<Rightarrow> db \<Rightarrow> db \<times> bool" where
  "runner_delete projectId runnerId deletedAt d =
     (let P = (\<lambda>r. live_runner projectId runnerId r \<and> ru_load r = 0 \<and>
                   \<not> sql_exists (\<lambda>l. le_runner l = runnerId \<and> le_project l = projectId \<and>
                                     le_state l = L_active) (leases d)) in
      (d\<lparr>runners := sql_update P
           (\<lambda>r. r\<lparr>ru_deleted := Some deletedAt, ru_updated := deletedAt, ru_state := R_disabled\<rparr>) (runners d)\<rparr>,
       sql_exists P (runners d)))"

definition runner_heartbeat :: "id \<Rightarrow> id \<Rightarrow> runner_state \<Rightarrow> json \<Rightarrow> time \<Rightarrow> db \<Rightarrow> db \<times> bool" where
  "runner_heartbeat projectId runnerId state runtimes t d =
     (d\<lparr>runners := sql_update (live_runner projectId runnerId)
          (\<lambda>r. r\<lparr>ru_state := state, ru_load := activeLeaseCount projectId runnerId t d,
                 ru_runtimes := runtimes, ru_heartbeat := Some t, ru_updated := t\<rparr>) (runners d)\<rparr>,
      sql_exists (live_runner projectId runnerId) (runners d))"

section \<open>Deleting an environment\<close>

datatype delete_result = Env_deleted "id list" | Env_conflict | Env_not_found

definition busy_runner :: "id \<Rightarrow> id \<Rightarrow> db \<Rightarrow> runner_row \<Rightarrow> bool" where
  "busy_runner projectId environmentId d r \<longleftrightarrow>
     ru_project r = projectId \<and> ru_environment r = Some environmentId \<and> ru_deleted r = None \<and>
     (ru_load r > 0 \<or>
      sql_exists (\<lambda>l. le_runner l = ru_id r \<and> le_project l = projectId \<and> le_state l = L_active) (leases d))"

definition live_environment :: "id \<Rightarrow> id \<Rightarrow> environment_row \<Rightarrow> bool" where
  "live_environment projectId environmentId e \<longleftrightarrow>
     en_id e = environmentId \<and> en_project e = projectId \<and> en_deleted e = None"

definition environment_delete :: "id \<Rightarrow> id \<Rightarrow> time \<Rightarrow> db \<Rightarrow> db \<times> delete_result" where
  "environment_delete projectId environmentId deletedAt d =
     (let E = (\<lambda>e. live_environment projectId environmentId e \<and>
                   \<not> sql_exists (busy_runner projectId environmentId d) (runners d));
          d1 = d\<lparr>environments := sql_update E
                   (\<lambda>e. e\<lparr>en_deleted := Some deletedAt, en_updated := deletedAt\<rparr>) (environments d)\<rparr>;
          R = (\<lambda>r. ru_project r = projectId \<and> ru_environment r = Some environmentId \<and> ru_deleted r = None \<and>
                   sql_exists (\<lambda>e. en_id e = environmentId \<and> en_project e = projectId \<and>
                                   en_deleted e = Some deletedAt) (environments d1));
          d2 = d1\<lparr>runners := sql_update R
                   (\<lambda>r. r\<lparr>ru_deleted := Some deletedAt, ru_updated := deletedAt, ru_state := R_disabled\<rparr>)
                   (runners d1)\<rparr> in
      (d2,
       if sql_exists E (environments d) then Env_deleted (map ru_id (filter R (runners d1)))
       else if sql_exists (live_environment projectId environmentId) (environments d2) then Env_conflict
       else Env_not_found))"

section \<open>Runner use cases\<close>

datatype runner_error = Runner_conflict string | Runner_validation string | Runner_deleted_meanwhile | Runner_thrown string

record heartbeat_patch =
  hp_state :: "runner_state option"
  hp_runtimes :: "json option"
  hp_metadata :: "json option"

text \<open>
  The heartbeat use case on the runner record the caller read before. Besides the new database
  it tells whether the runner pool is asked to retry available work.
\<close>

definition recordRunnerHeartbeat ::
    "id \<Rightarrow> runner_row \<Rightarrow> heartbeat_patch \<Rightarrow> time \<Rightarrow> db \<Rightarrow> db \<times> (runner_error + runner_row \<times> bool)" where
  "recordRunnerHeartbeat projectId runner patch t d =
     (if ru_deleted runner \<noteq> None then (d, Inl (Runner_conflict ''Deleted runners cannot heartbeat''))
      else if ru_state runner = R_disabled
      then (d, Inl (Runner_conflict ''Disabled runners cannot heartbeat until re-enabled by an operator''))
      else if runner_hasSecretMaterial (hp_metadata patch) \<or> runner_hasSecretMaterial (hp_runtimes patch)
      then (d, Inl (Runner_validation ''Runner heartbeat metadata must not contain raw secret material''))
      else (case runner_heartbeat projectId (ru_id runner)
                   (case hp_state patch of None \<Rightarrow> R_active | Some s \<Rightarrow> s)
                   (case hp_runtimes patch of None \<Rightarrow> ru_runtimes runner | Some r \<Rightarrow> r) t d of
              (d1, False) \<Rightarrow> (d1, Inl Runner_deleted_meanwhile)
            | (d1, True) \<Rightarrow>
                (case runner_find projectId (ru_id runner) t d1 of
                   None \<Rightarrow> (d1, Inl (Runner_thrown ''Heartbeat runner row is required''))
                 | Some updated \<Rightarrow>
                     (d1, Inr (updated, ru_state updated = R_active \<and> truthy_str (ru_environment updated) \<and>
                                        ru_load updated < ru_max updated)))))"

record update_patch =
  up_state :: "runner_state option"
  up_max :: "nat option"
  up_metadata :: "json option"

definition updateRunner ::
    "id \<Rightarrow> runner_row \<Rightarrow> update_patch \<Rightarrow> time \<Rightarrow> db \<Rightarrow> db \<times> (runner_error + unit)" where
  "updateRunner projectId runner patch t d =
     (if runner_hasSecretMaterial (up_metadata patch)
      then (d, Inl (Runner_validation ''Runner metadata must not contain raw secret material''))
      else (case runner_update projectId (ru_id runner)
                   (case up_state patch of None \<Rightarrow> ru_state runner | Some s \<Rightarrow> s)
                   (case up_max patch of None \<Rightarrow> ru_max runner | Some m \<Rightarrow> m) t d of
              (d1, False) \<Rightarrow> (d1, Inl Runner_deleted_meanwhile)
            | (d1, True) \<Rightarrow> (d1, Inr ())))"

end
