(* ===== verification/SessionStore.thy ===== *)
theory SessionStore
  imports LeaseRepo SecretScan
begin

text \<open>
  The runtime's view of the database (\<open>server/adapters/repos/runtime-orchestration.ts\<close>):
  one definition per method that reads or writes sessions, work items, leases, runners,
  channels, creations or approvals. Every guarded session UPDATE goes through \<open>session_cas\<close>,
  a compare-and-set on the session row. The reads of vaults, connectors and of the agent and
  environment snapshots are not modelled: they copy rows out and change nothing.
  Expiry and turn-budget constants are those of \<open>server/domain/runtime/turn.ts\<close>.
\<close>

section \<open>Dates and JSON functions of SQLite\<close>

definition digit_char :: "int \<Rightarrow> char" where
  "digit_char n = char_of (48 + nat (n mod 10))"

fun pad_digits :: "nat \<Rightarrow> int \<Rightarrow> string" where
  "pad_digits 0 n = []"
| "pad_digits (Suc k) n = pad_digits k (n div 10) @ [digit_char n]"

text \<open>Year, month and day of a day number since 1970-01-01 (proleptic Gregorian calendar).\<close>

definition civil_from_days :: "int \<Rightarrow> int \<times> int \<times> int" where
  "civil_from_days n =
     (let z = n + 719468; era = z div 146097; doe = z mod 146097;
          yoe = (doe - doe div 1460 + doe div 36524 - doe div 146096) div 365;
          doy = doe - (365 * yoe + yoe div 4 - yoe div 100);
          mp = (5 * doy + 2) div 153;
          d = doy - (153 * mp + 2) div 5 + 1;
          m = (if mp < 10 then mp + 3 else mp - 9);
          y = yoe + era * 400 + (if m \<le> 2 then 1 else 0) in (y, m, d))"

definition toISOString :: "time \<Rightarrow> string" where
  "toISOString t =
     (case civil_from_days (t div 86400000) of (y, m, d) \<Rightarrow>
      let s = t mod 86400000 in
      pad_digits 4 y @ ''-'' @ pad_digits 2 m @ ''-'' @ pad_digits 2 d @ ''T'' @
      pad_digits 2 (s div 3600000) @ '':'' @ pad_digits 2 (s div 60000 mod 60) @ '':'' @
      pad_digits 2 (s div 1000 mod 60) @ ''.'' @ pad_digits 3 (s mod 1000) @ ''Z'')"

fun json_set :: "string \<Rightarrow> json \<Rightarrow> json \<Rightarrow> json" where
  "json_set k v (JObj kvs) = JObj (kv_set k v kvs)"
| "json_set k v j = j"

text \<open>\<open>json_patch\<close> is the merge patch of RFC 7396.\<close>

fun json_patch :: "json \<Rightarrow> json \<Rightarrow> json"
  and patch_members :: "(string \<times> json) list \<Rightarrow> (string \<times> json) list \<Rightarrow> (string \<times> json) list" where
  "json_patch target (JObj ps) = JObj (patch_members (case target of JObj kvs \<Rightarrow> kvs | _ \<Rightarrow> []) ps)"
| "json_patch target p = p"
| "patch_members kvs [] = kvs"
| "patch_members kvs ((k, v) # ps) =
     patch_members
       (if v = JNull then filter (\<lambda>p. fst p \<noteq> k) kvs
        else kv_set k (json_patch (case map_of kvs k of None \<Rightarrow> JNull | Some old \<Rightarrow> old) v) kvs) ps"

text \<open>
  \<open>LIKE '%"word"%'\<close> on the text of a JSON value: a key or a string that is the word, or ends
  in a quote followed by the word, in either case of its letters. The second pattern is a
  member with such a key whose value is the given string.
\<close>

definition quoted_end :: "string \<Rightarrow> string \<Rightarrow> bool" where
  "quoted_end word s \<longleftrightarrow>
     (let q = CHR 0x22 # map ascii_lower s; w = CHR 0x22 # map ascii_lower word in
      length w \<le> length q \<and> drop (length q - length w) q = w)"

fun like_word :: "string \<Rightarrow> json \<Rightarrow> bool"
  and like_word_list :: "string \<Rightarrow> json list \<Rightarrow> bool"
  and like_word_members :: "string \<Rightarrow> (string \<times> json) list \<Rightarrow> bool" where
  "like_word w (JStr s) = quoted_end w s"
| "like_word w (JArr xs) = like_word_list w xs"
| "like_word w (JObj kvs) = like_word_members w kvs"
| "like_word w _ = False"
| "like_word_list w [] = False"
| "like_word_list w (x # xs) = (like_word w x \<or> like_word_list w xs)"
| "like_word_members w [] = False"
| "like_word_members w ((k, v) # kvs) = (quoted_end w k \<or> like_word w v \<or> like_word_members w kvs)"

fun like_member :: "string \<Rightarrow> string \<Rightarrow> json \<Rightarrow> bool"
  and like_member_list :: "string \<Rightarrow> string \<Rightarrow> json list \<Rightarrow> bool"
  and like_member_members :: "string \<Rightarrow> string \<Rightarrow> (string \<times> json) list \<Rightarrow> bool" where
  "like_member w x (JArr xs) = like_member_list w x xs"
| "like_member w x (JObj kvs) = like_member_members w x kvs"
| "like_member w x _ = False"
| "like_member_list w x [] = False"
| "like_member_list w x (y # ys) = (like_member w x y \<or> like_member_list w x ys)"
| "like_member_members w x [] = False"
| "like_member_members w x ((k, v) # kvs) =
     ((quoted_end w k \<and> (case v of JStr s \<Rightarrow> map ascii_lower s = map ascii_lower x | _ \<Rightarrow> False)) \<or>
      like_member w x v \<or> like_member_members w x kvs)"

definition runner_sandbox_text :: "json \<Rightarrow> bool" where
  "runner_sandbox_text m = like_member ''sandboxBackend'' ''runner-sandbox'' m"

definition destroyed_text :: "json \<Rightarrow> bool" where
  "destroyed_text m = like_word ''sandboxDestroyedAt'' m"

section \<open>Turn leases of the domain\<close>

definition TURN_LEASE_TTL_MS :: int where "TURN_LEASE_TTL_MS = 6 * 60000"
definition LIFECYCLE_LEASE_TTL_MS :: int where "LIFECYCLE_LEASE_TTL_MS = 30 * 60000"
definition MAX_CONTINUATION_DEPTH :: nat where "MAX_CONTINUATION_DEPTH = 25"
definition TURN_LEASE_RETRY_DELAY_SECONDS :: int where "TURN_LEASE_RETRY_DELAY_SECONDS = 5"

definition CONTINUATION_LIMIT_REASON :: string where
  "CONTINUATION_LIMIT_REASON = ''continuation-limit''"

definition turnLeaseExpiry :: "time \<Rightarrow> time" where
  "turnLeaseExpiry from_time = from_time + TURN_LEASE_TTL_MS"

definition lifecycleLeaseExpiry :: "time \<Rightarrow> time" where
  "lifecycleLeaseExpiry from_time = from_time + LIFECYCLE_LEASE_TTL_MS"

section \<open>Session updates\<close>

text \<open>
  A \<open>SessionUpdate\<close> is a partial row: a field that is \<open>None\<close> is not part of the SET clause.
  Only the columns some caller sets are listed.
\<close>

record session_update =
  su_state :: "session_state option"
  su_reason :: "string option option"
  su_sandbox :: "id option option"
  su_resume_token :: "string option option"
  su_endpoint_path :: "string option option"
  su_active_turn :: "id option option"
  su_turn_expires :: "time option option"
  su_metadata :: "json option"
  su_started :: "time option option"
  su_closed :: "time option option"
  su_deleted :: "time option option"
  su_updated :: "time option"

definition no_update :: session_update where
  "no_update = \<lparr>su_state = None, su_reason = None, su_sandbox = None, su_resume_token = None,
     su_endpoint_path = None, su_active_turn = None, su_turn_expires = None, su_metadata = None,
     su_started = None, su_closed = None, su_deleted = None, su_updated = None\<rparr>"

definition set_or :: "'a option \<Rightarrow> 'a \<Rightarrow> 'a" where
  "set_or x old = (case x of None \<Rightarrow> old | Some v \<Rightarrow> v)"

text \<open>\<open>persistedSessionWrite\<close> renames the state; the rest is assigned as it is.\<close>

definition persistedSessionWrite :: "session_update \<Rightarrow> session_row \<Rightarrow> session_row" where
  "persistedSessionWrite u s =
     s\<lparr>se_state := set_or (map_option persistedSessionState (su_state u)) (se_state s),
       se_reason := set_or (su_reason u) (se_reason s),
       se_sandbox := set_or (su_sandbox u) (se_sandbox s),
       se_resume_token := set_or (su_resume_token u) (se_resume_token s),
       se_endpoint_path := set_or (su_endpoint_path u) (se_endpoint_path s),
       se_active_turn := set_or (su_active_turn u) (se_active_turn s),
       se_turn_expires := set_or (su_turn_expires u) (se_turn_expires s),
       se_metadata := set_or (su_metadata u) (se_metadata s),
       se_started := set_or (su_started u) (se_started s),
       se_closed := set_or (su_closed u) (se_closed s),
       se_deleted := set_or (su_deleted u) (se_deleted s),
       se_updated := set_or (su_updated u) (se_updated s)\<rparr>"

lemma set_or_simps [simp]: "set_or None x = x" "set_or (Some v) x = v"
  by (simp_all add: set_or_def)

lemma persistedSessionWrite_id [simp]:
  "se_id (persistedSessionWrite u s) = se_id s" "se_project (persistedSessionWrite u s) = se_project s"
  by (simp_all add: persistedSessionWrite_def)

definition live_in :: "id \<Rightarrow> session_row \<Rightarrow> bool" where
  "live_in projectId s \<longleftrightarrow> se_project s = projectId \<and> se_deleted s = None"

definition session_cas ::
    "id \<Rightarrow> (session_row \<Rightarrow> bool) \<Rightarrow> (session_row \<Rightarrow> session_row) \<Rightarrow> db \<Rightarrow> db \<times> bool" where
  "session_cas sessionId guard f d =
     (case cas_row se_id sessionId guard f (sessions d) of (rows, hit) \<Rightarrow> (d\<lparr>sessions := rows\<rparr>, hit))"

text \<open>Free, or expired before the time of the statement (an absent expiry compares as NULL).\<close>

definition turn_free :: "time \<Rightarrow> session_row \<Rightarrow> bool" where
  "turn_free now s \<longleftrightarrow>
     se_active_turn s = None \<or> (case se_turn_expires s of None \<Rightarrow> False | Some e \<Rightarrow> e < now)"

definition state_in :: "session_state list \<Rightarrow> session_row \<Rightarrow> bool" where
  "state_in expected s \<longleftrightarrow> se_state s \<in> set (persistedSessionStates expected)"

definition findSession :: "id \<Rightarrow> id \<Rightarrow> db \<Rightarrow> session_row option" where
  "findSession projectId sessionId d = sql_get (live_session projectId sessionId) (sessions d)"

definition sessionState :: "id \<Rightarrow> id \<Rightarrow> db \<Rightarrow> session_state option" where
  "sessionState projectId sessionId d =
     map_option (\<lambda>s. domainSessionState (se_state s)) (findSession projectId sessionId d)"

definition updateSession :: "id \<Rightarrow> id \<Rightarrow> session_update \<Rightarrow> db \<Rightarrow> db" where
  "updateSession projectId sessionId upd d =
     d\<lparr>sessions := sql_update (live_session projectId sessionId) (persistedSessionWrite upd) (sessions d)\<rparr>"

definition updateSessionWhenState ::
    "id \<Rightarrow> id \<Rightarrow> session_state list \<Rightarrow> session_update \<Rightarrow> db \<Rightarrow> db \<times> bool" where
  "updateSessionWhenState projectId sessionId expected upd =
     session_cas sessionId (\<lambda>s. live_in projectId s \<and> state_in expected s) (persistedSessionWrite upd)"

section \<open>Startup, close and reopen\<close>

definition startup_guard :: "id \<Rightarrow> time option \<Rightarrow> time \<Rightarrow> session_row \<Rightarrow> bool" where
  "startup_guard projectId expectedStartedAt t s \<longleftrightarrow>
     live_in projectId s \<and> se_state s = P_pending \<and> se_started s = expectedStartedAt \<and> turn_free t s"

definition acquirePendingStartupLease ::
    "id \<Rightarrow> id \<Rightarrow> time option \<Rightarrow> id \<Rightarrow> time \<Rightarrow> time \<Rightarrow> db \<Rightarrow> db \<times> bool" where
  "acquirePendingStartupLease projectId sessionId expectedStartedAt startupId leaseExpiresAt t =
     session_cas sessionId (startup_guard projectId expectedStartedAt t)
       (\<lambda>s. s\<lparr>se_active_turn := Some startupId, se_turn_expires := Some leaseExpiresAt, se_updated := t\<rparr>)"

definition startup_held :: "id \<Rightarrow> time option \<Rightarrow> id \<Rightarrow> session_row \<Rightarrow> bool" where
  "startup_held projectId expectedStartedAt startupId s \<longleftrightarrow>
     live_in projectId s \<and> se_state s = P_pending \<and> se_started s = expectedStartedAt \<and>
     se_active_turn s = Some startupId"

definition startup_write :: "session_update \<Rightarrow> json \<Rightarrow> session_row \<Rightarrow> session_row" where
  "startup_write upd runtimeMetadata s =
     (persistedSessionWrite (upd\<lparr>su_metadata := None\<rparr>) s)
       \<lparr>se_metadata := json_patch (se_metadata s) runtimeMetadata\<rparr>"

definition completeCloudSessionStart ::
    "id \<Rightarrow> id \<Rightarrow> time option \<Rightarrow> id \<Rightarrow> session_update \<Rightarrow> json \<Rightarrow> db \<Rightarrow> db \<times> bool" where
  "completeCloudSessionStart projectId sessionId expectedStartedAt startupId upd runtimeMetadata =
     session_cas sessionId (startup_held projectId expectedStartedAt startupId)
       (startup_write upd runtimeMetadata)"

definition failCloudSessionStart ::
    "id \<Rightarrow> id \<Rightarrow> time option \<Rightarrow> id \<Rightarrow> session_update \<Rightarrow> json \<Rightarrow> db \<Rightarrow> db \<times> bool" where
  "failCloudSessionStart projectId sessionId expectedStartedAt startupId upd runtimeMetadata =
     session_cas sessionId (startup_held projectId expectedStartedAt startupId)
       (startup_write upd runtimeMetadata)"

definition close_guard :: "id \<Rightarrow> id \<Rightarrow> time \<Rightarrow> session_row \<Rightarrow> bool" where
  "close_guard projectId sandboxId t s \<longleftrightarrow>
     live_in projectId s \<and> se_sandbox s = Some sandboxId \<and>
     se_state s \<noteq> persistedSessionState Closed \<and> turn_free t s"

definition claimSessionClose :: "id \<Rightarrow> id \<Rightarrow> id \<Rightarrow> id \<Rightarrow> time \<Rightarrow> time \<Rightarrow> db \<Rightarrow> db \<times> bool" where
  "claimSessionClose projectId sessionId sandboxId cleanupId leaseExpiresAt t =
     session_cas sessionId (close_guard projectId sandboxId t)
       (\<lambda>s. s\<lparr>se_state := persistedSessionState Closed, se_reason := Some ''closing'',
              se_active_turn := Some cleanupId, se_turn_expires := Some leaseExpiresAt,
              se_closed := None, se_updated := t\<rparr>)"

definition completeSessionClose :: "id \<Rightarrow> id \<Rightarrow> id \<Rightarrow> id \<Rightarrow> time \<Rightarrow> db \<Rightarrow> db \<times> bool" where
  "completeSessionClose projectId sessionId sandboxId cleanupId closedAt =
     session_cas sessionId
       (\<lambda>s. live_in projectId s \<and> se_sandbox s = Some sandboxId \<and> se_active_turn s = Some cleanupId \<and>
            se_state s = persistedSessionState Closed \<and> se_reason s = Some ''closing'' \<and> se_closed s = None)
       (\<lambda>s. s\<lparr>se_reason := None, se_active_turn := None, se_turn_expires := None,
              se_closed := Some closedAt,
              se_metadata := json_set ''sandboxDestroyedAt'' (JStr (toISOString closedAt)) (se_metadata s),
              se_updated := closedAt\<rparr>)"

definition failSessionClose :: "id \<Rightarrow> id \<Rightarrow> id \<Rightarrow> id \<Rightarrow> string \<Rightarrow> time \<Rightarrow> db \<Rightarrow> db \<times> bool" where
  "failSessionClose projectId sessionId sandboxId cleanupId message t =
     session_cas sessionId
       (\<lambda>s. live_in projectId s \<and> se_sandbox s = Some sandboxId \<and> se_active_turn s = Some cleanupId)
       (\<lambda>s. s\<lparr>se_state := persistedSessionState Errored, se_reason := Some message,
              se_active_turn := None, se_turn_expires := None, se_updated := t\<rparr>)"

definition reopen_guard :: "id \<Rightarrow> id \<Rightarrow> session_row \<Rightarrow> bool" where
  "reopen_guard projectId sandboxId s \<longleftrightarrow>
     live_in projectId s \<and> se_sandbox s = Some sandboxId \<and>
     se_state s = persistedSessionState Closed \<and> se_closed s \<noteq> None \<and>
     jget (se_metadata s) ''sandboxDestroyedAt'' \<noteq> None \<and> se_active_turn s = None"

definition claimSessionReopen :: "id \<Rightarrow> id \<Rightarrow> id \<Rightarrow> time \<Rightarrow> db \<Rightarrow> db \<times> bool" where
  "claimSessionReopen projectId sessionId sandboxId startedAt =
     session_cas sessionId (reopen_guard projectId sandboxId)
       (\<lambda>s. s\<lparr>se_state := persistedSessionState Pending, se_reason := None, se_started := Some startedAt,
              se_closed := None, se_metadata := jdel ''sandboxDestroyedAt'' (se_metadata s),
              se_updated := startedAt\<rparr>)"

section \<open>Turn leases\<close>

definition turn_guard :: "id \<Rightarrow> persisted_state \<Rightarrow> time \<Rightarrow> session_row \<Rightarrow> bool" where
  "turn_guard projectId st t s \<longleftrightarrow> live_in projectId s \<and> se_state s = st \<and> turn_free t s"

definition acquireTurnLease :: "id \<Rightarrow> id \<Rightarrow> id \<Rightarrow> time \<Rightarrow> time \<Rightarrow> db \<Rightarrow> db \<times> bool" where
  "acquireTurnLease projectId sessionId turnId leaseExpiresAt t =
     session_cas sessionId (turn_guard projectId P_running t)
       (\<lambda>s. s\<lparr>se_active_turn := Some turnId, se_turn_expires := Some leaseExpiresAt, se_depth := 0,
              se_updated := t\<rparr>)"

definition acquireIdleTurnLease :: "id \<Rightarrow> id \<Rightarrow> id \<Rightarrow> time \<Rightarrow> time \<Rightarrow> db \<Rightarrow> db \<times> bool" where
  "acquireIdleTurnLease projectId sessionId turnId leaseExpiresAt t =
     session_cas sessionId (turn_guard projectId (persistedSessionState Idle) t)
       (\<lambda>s. s\<lparr>se_state := persistedSessionState Running, se_reason := None,
              se_active_turn := Some turnId, se_turn_expires := Some leaseExpiresAt, se_depth := 0,
              se_updated := t\<rparr>)"

definition turn_held :: "id \<Rightarrow> id \<Rightarrow> session_row \<Rightarrow> bool" where
  "turn_held projectId turnId s \<longleftrightarrow> live_in projectId s \<and> se_active_turn s = Some turnId"

definition renewTurnLease :: "id \<Rightarrow> id \<Rightarrow> id \<Rightarrow> time \<Rightarrow> db \<Rightarrow> db \<times> bool" where
  "renewTurnLease projectId sessionId turnId leaseExpiresAt =
     session_cas sessionId (turn_held projectId turnId) (\<lambda>s. s\<lparr>se_turn_expires := Some leaseExpiresAt\<rparr>)"

definition releaseTurnLease :: "id \<Rightarrow> id \<Rightarrow> id \<Rightarrow> session_update \<Rightarrow> db \<Rightarrow> db \<times> bool" where
  "releaseTurnLease projectId sessionId turnId upd =
     session_cas sessionId (turn_held projectId turnId)
       (\<lambda>s. (persistedSessionWrite upd s)\<lparr>se_active_turn := None, se_turn_expires := None\<rparr>)"

definition incrementContinuationDepth :: "id \<Rightarrow> id \<Rightarrow> id \<Rightarrow> db \<Rightarrow> db \<times> nat" where
  "incrementContinuationDepth projectId sessionId turnId d =
     (case session_cas sessionId (turn_held projectId turnId) (\<lambda>s. s\<lparr>se_depth := se_depth s + 1\<rparr>) d of
        (d1, _) \<Rightarrow>
          (d1, case sql_get (\<lambda>s. se_id s = sessionId \<and> turn_held projectId turnId s) (sessions d) of
                 None \<Rightarrow> 0 | Some s \<Rightarrow> se_depth s + 1))"

section \<open>Creating and queueing work\<close>

text \<open>
  A primary key or a unique index that is already taken aborts the statement (\<open>None\<close>), and a
  batch with it. \<open>blocked\<close> stands for the soft-delete triggers of the migrations, which refuse a
  session under a deleted parent.
\<close>

definition insertWorkItem :: "work_item_row \<Rightarrow> db \<Rightarrow> db option" where
  "insertWorkItem w d =
     (if sql_exists (\<lambda>x. wi_id x = wi_id w) (work_items d) then None
      else Some (d\<lparr>work_items := work_items d @ [w]\<rparr>))"

definition insertSession :: "(session_row \<Rightarrow> bool) \<Rightarrow> session_row \<Rightarrow> db \<Rightarrow> db option" where
  "insertSession blocked s d =
     (if blocked s \<or> sql_exists (\<lambda>x. se_id x = se_id s) (sessions d) then None
      else Some (d\<lparr>sessions := sessions d @ [s]\<rparr>))"

definition findSessionCreation :: "id \<Rightarrow> string \<Rightarrow> db \<Rightarrow> creation_row option" where
  "findSessionCreation projectId keyHash d =
     sql_get (\<lambda>c. cr_project c = projectId \<and> cr_key_hash c = keyHash) (creations d)"

definition insert_creation :: "creation_row \<Rightarrow> db \<Rightarrow> db option" where
  "insert_creation c d =
     (if sql_exists (\<lambda>x. cr_session x = cr_session c \<or>
                         (cr_project x = cr_project c \<and> cr_key_hash x = cr_key_hash c)) (creations d)
      then None else Some (d\<lparr>creations := creations d @ [c]\<rparr>))"

definition insertSessionCreation ::
    "(session_row \<Rightarrow> bool) \<Rightarrow> session_row \<Rightarrow> string \<Rightarrow> string \<Rightarrow> json option \<Rightarrow> work_item_row option \<Rightarrow>
     db \<Rightarrow> db option" where
  "insertSessionCreation blocked s keyHash fingerprint cloudStart workItem d =
     Option.bind (insertSession blocked s d) (\<lambda>d1.
     Option.bind (insert_creation
         \<lparr>cr_session = se_id s, cr_project = se_project s, cr_key_hash = keyHash,
          cr_fingerprint = fingerprint, cr_cloud_start = cloudStart, cr_created = se_created s\<rparr> d1)
       (\<lambda>d2. case workItem of None \<Rightarrow> Some d2 | Some w \<Rightarrow> insertWorkItem w d2))"

definition pendingCloudSessionCreations :: "nat \<Rightarrow> db \<Rightarrow> json list" where
  "pendingCloudSessionCreations limit d =
     map (\<lambda>c. the (cr_cloud_start c))
       (take limit (sort_key (\<lambda>c. (cr_created c, cr_session c))
         (filter (\<lambda>c. cr_cloud_start c \<noteq> None) (creations d))))"

definition acknowledgeCloudSessionCreation :: "id \<Rightarrow> id \<Rightarrow> db \<Rightarrow> db" where
  "acknowledgeCloudSessionCreation projectId sessionId d =
     d\<lparr>creations := sql_update (\<lambda>c. cr_project c = projectId \<and> cr_session c = sessionId)
         (\<lambda>c. c\<lparr>cr_cloud_start := None\<rparr>) (creations d)\<rparr>"

text \<open>
  The batch of \<open>queueSessionWorkWhenState\<close>: the INSERT selects from the sessions that carry the
  new state and the new time stamp, whether or not the UPDATE before it matched.
\<close>

definition queue_mark :: "id \<Rightarrow> id \<Rightarrow> session_state \<Rightarrow> time \<Rightarrow> session_row \<Rightarrow> bool" where
  "queue_mark projectId sessionId st t s \<longleftrightarrow>
     live_session projectId sessionId s \<and> se_state s = persistedSessionState st \<and> se_updated s = t"

definition queueSessionWorkWhenState ::
    "id \<Rightarrow> id \<Rightarrow> session_state list \<Rightarrow> session_update \<Rightarrow> work_item_row \<Rightarrow> db \<Rightarrow> db \<times> (repo_error + bool)" where
  "queueSessionWorkWhenState projectId sessionId expected upd workItem d =
     (case (su_state upd, su_updated upd) of
        (Some st, Some t) \<Rightarrow>
          (case updateSessionWhenState projectId sessionId expected upd d of
             (d1, updated) \<Rightarrow>
               if sql_exists (queue_mark projectId sessionId st t) (sessions d1)
               then (case insertWorkItem workItem d1 of
                       None \<Rightarrow> (d, Inl UniqueViolation)
                     | Some d2 \<Rightarrow> (d2, Inr updated))
               else (d1, Inr False))
      | _ \<Rightarrow> (d, Inl (ThrownError ''Queued session work requires state and updatedAt session fields'')))"

definition recentSessionWorkItems :: "id \<Rightarrow> id \<Rightarrow> nat \<Rightarrow> db \<Rightarrow> work_item_row list" where
  "recentSessionWorkItems projectId sessionId limit d =
     take limit (sort_key (\<lambda>w. - wi_updated w)
       (filter (\<lambda>w. wi_project w = projectId \<and> wi_session w = Some sessionId) (work_items d)))"

section \<open>Closing a self-hosted session\<close>

definition activeSessionWorkItems :: "id \<Rightarrow> id \<Rightarrow> db \<Rightarrow> work_item_row list" where
  "activeSessionWorkItems projectId sessionId d =
     filter (\<lambda>w. wi_project w = projectId \<and> wi_session w = Some sessionId \<and>
                 wi_state w \<in> {W_available, W_leased}) (work_items d)"

definition cancelWorkItems :: "id \<Rightarrow> id list \<Rightarrow> json \<Rightarrow> time \<Rightarrow> db \<Rightarrow> db" where
  "cancelWorkItems projectId workItemIds errorJson t d =
     d\<lparr>work_items := sql_update (\<lambda>w. wi_project w = projectId \<and> wi_id w \<in> set workItemIds)
         (\<lambda>w. w\<lparr>wi_state := W_cancelled, wi_error := Some errorJson, wi_updated := t\<rparr>) (work_items d)\<rparr>"

definition cancelLeases :: "id \<Rightarrow> id list \<Rightarrow> time \<Rightarrow> db \<Rightarrow> db" where
  "cancelLeases projectId leaseIds t d =
     d\<lparr>leases := sql_update (\<lambda>l. le_project l = projectId \<and> le_id l \<in> set leaseIds)
         (\<lambda>l. l\<lparr>le_state := L_cancelled, le_updated := t\<rparr>) (leases d)\<rparr>"

definition decrementRunnerLoad :: "id \<Rightarrow> id \<Rightarrow> time \<Rightarrow> db \<Rightarrow> db" where
  "decrementRunnerLoad projectId runnerId t d =
     d\<lparr>runners := sql_update (\<lambda>r. ru_id r = runnerId \<and> ru_project r = projectId)
         (\<lambda>r. r\<lparr>ru_load := (if ru_load r > 0 then ru_load r - 1 else 0), ru_updated := t\<rparr>) (runners d)\<rparr>"

section \<open>Sweeps\<close>

definition expired_pending :: "id \<Rightarrow> time \<Rightarrow> time \<Rightarrow> session_row \<Rightarrow> bool" where
  "expired_pending projectId expiredBefore t s \<longleftrightarrow>
     live_in projectId s \<and> se_state s = P_pending \<and>
     (case se_reason s of None \<Rightarrow> True
      | Some r \<Rightarrow> r \<noteq> ''requires-runner'' \<and> r \<noteq> ''waiting-for-runner'' \<and> r \<noteq> ''waiting-for-runner-recovery'') \<and>
     (case se_started s of None \<Rightarrow> se_created s | Some x \<Rightarrow> x) < expiredBefore \<and> turn_free t s"

definition markExpiredPendingSessions :: "id \<Rightarrow> time \<Rightarrow> time \<Rightarrow> db \<Rightarrow> db" where
  "markExpiredPendingSessions projectId expiredBefore t d =
     d\<lparr>sessions := sql_update (expired_pending projectId expiredBefore t)
         (\<lambda>s. s\<lparr>se_state := P_error, se_reason := Some ''Session runtime startup timed out'',
                se_updated := t\<rparr>) (sessions d)\<rparr>"

definition stalled_cloud :: "time \<Rightarrow> session_row \<Rightarrow> bool" where
  "stalled_cloud threshold s \<longleftrightarrow>
     se_deleted s = None \<and>
     ((se_state s = P_running \<and> se_sandbox s \<noteq> None) \<or> (se_state s = P_pending \<and> se_reason s = None)) \<and>
     \<not> runner_sandbox_text (se_metadata s) \<and> se_updated s < threshold"

definition store_markStalledCloudSessions :: "time \<Rightarrow> time \<Rightarrow> db \<Rightarrow> db" where
  "store_markStalledCloudSessions threshold t d =
     d\<lparr>sessions := sql_update (stalled_cloud threshold)
         (\<lambda>s. s\<lparr>se_state := P_error,
                se_reason := Some ''Cloud session stalled: no completion within the wall-clock budget'',
                se_updated := t\<rparr>) (sessions d)\<rparr>"

definition TERMINAL_RUNTIME_STATES :: "session_state list" where
  "TERMINAL_RUNTIME_STATES = [Closed, Errored]"

definition ended :: "session_state list \<Rightarrow> session_row \<Rightarrow> bool" where
  "ended states s \<longleftrightarrow> state_in states s \<or> se_deleted s \<noteq> None"

definition leaked_sandbox :: "session_state list \<Rightarrow> time \<Rightarrow> session_row \<Rightarrow> bool" where
  "leaked_sandbox terminalStates closingBefore s \<longleftrightarrow>
     ended terminalStates s \<and> se_sandbox s \<noteq> None \<and>
     \<not> runner_sandbox_text (se_metadata s) \<and> \<not> destroyed_text (se_metadata s) \<and>
     (se_state s \<noteq> persistedSessionState Closed \<or> se_closed s \<noteq> None \<or> se_updated s < closingBefore)"

definition leakedSandboxSessions :: "session_state list \<Rightarrow> nat \<Rightarrow> time \<Rightarrow> db \<Rightarrow> session_row list" where
  "leakedSandboxSessions terminalStates limit closingBefore d =
     take limit (filter (leaked_sandbox terminalStates closingBefore) (sessions d))"

definition cleanup_guard :: "id \<Rightarrow> time \<Rightarrow> session_row \<Rightarrow> bool" where
  "cleanup_guard sandboxId t s \<longleftrightarrow>
     se_sandbox s = Some sandboxId \<and> ended TERMINAL_RUNTIME_STATES s \<and>
     \<not> destroyed_text (se_metadata s) \<and> turn_free t s"

definition claimSandboxCleanup :: "id \<Rightarrow> id \<Rightarrow> id \<Rightarrow> time \<Rightarrow> time \<Rightarrow> db \<Rightarrow> db \<times> bool" where
  "claimSandboxCleanup sessionId sandboxId cleanupId leaseExpiresAt t =
     session_cas sessionId (cleanup_guard sandboxId t)
       (\<lambda>s. s\<lparr>se_active_turn := Some cleanupId, se_turn_expires := Some leaseExpiresAt, se_updated := t\<rparr>)"

definition releaseSandboxCleanup :: "id \<Rightarrow> id \<Rightarrow> id \<Rightarrow> db \<Rightarrow> db \<times> bool" where
  "releaseSandboxCleanup sessionId sandboxId cleanupId =
     session_cas sessionId (\<lambda>s. se_sandbox s = Some sandboxId \<and> se_active_turn s = Some cleanupId)
       (\<lambda>s. s\<lparr>se_active_turn := None, se_turn_expires := None\<rparr>)"

definition stampSandboxDestroyed :: "id \<Rightarrow> id \<Rightarrow> id \<Rightarrow> time \<Rightarrow> db \<Rightarrow> db \<times> bool" where
  "stampSandboxDestroyed sessionId sandboxId cleanupId destroyedAt =
     session_cas sessionId
       (\<lambda>s. se_sandbox s = Some sandboxId \<and> se_active_turn s = Some cleanupId \<and>
            ended TERMINAL_RUNTIME_STATES s \<and> \<not> destroyed_text (se_metadata s))
       (\<lambda>s. s\<lparr>se_metadata := json_set ''sandboxDestroyedAt'' (JStr (toISOString destroyedAt)) (se_metadata s),
              se_closed := (if se_reason s = Some ''closing'' then Some destroyedAt else se_closed s),
              se_reason := (if se_reason s = Some ''closing'' then None else se_reason s),
              se_active_turn := None, se_turn_expires := None\<rparr>)"

section \<open>Approvals\<close>

definition findApproval :: "id \<Rightarrow> id \<Rightarrow> id \<Rightarrow> db \<Rightarrow> approval_row option" where
  "findApproval projectId sessionId approvalId d =
     sql_get (\<lambda>a. ap_id a = approvalId \<and> ap_session a = sessionId \<and> ap_project a = projectId) (approvals d)"

text \<open>
  INSERT .. ON CONFLICT (session, tool call) DO UPDATE: a decision that is there already is
  overwritten; the identifier and the request stay those of the first insert. Another row's
  primary key aborts the statement.
\<close>

definition same_call :: "approval_row \<Rightarrow> approval_row \<Rightarrow> bool" where
  "same_call a b \<longleftrightarrow> ap_session b = ap_session a \<and> ap_tool_call b = ap_tool_call a"

definition upsertApproval :: "approval_row \<Rightarrow> time \<Rightarrow> db \<Rightarrow> db option" where
  "upsertApproval row decidedAt d =
     (if sql_exists (same_call row) (approvals d)
      then Some (d\<lparr>approvals := sql_update (same_call row)
             (\<lambda>a. a\<lparr>ap_state := ap_state row, ap_reason := ap_reason row, ap_result := ap_result row,
                    ap_decided_by := ap_decided_by row, ap_decided := Some decidedAt,
                    ap_updated := decidedAt\<rparr>) (approvals d)\<rparr>)
      else if sql_exists (\<lambda>a. ap_id a = ap_id row) (approvals d) then None
      else Some (d\<lparr>approvals := approvals d @ [row]\<rparr>))"

section \<open>Runners and environments of a runtime\<close>

definition runner_alive :: "id \<Rightarrow> time \<Rightarrow> runner_row \<Rightarrow> bool" where
  "runner_alive projectId now r \<longleftrightarrow>
     ru_project r = projectId \<and> ru_state r = R_active \<and>
     (case ru_heartbeat r of None \<Rightarrow> False | Some h \<Rightarrow> h \<ge> runnerHeartbeatStaleBefore now)"

text \<open>
  The parsed \<open>runtimes\<close> column, whose entries the heartbeat contract validated.
\<close>

definition runtimes_entry :: "json \<Rightarrow> runtime_support" where
  "runtimes_entry v =
     \<lparr>rt_runtime = (case jstr (jget v ''runtime'') of None \<Rightarrow> [] | Some r \<Rightarrow> r),
      rt_models = (case jarr (jget v ''models'') of None \<Rightarrow> [] | Some ms \<Rightarrow> List.map_filter (\<lambda>m. jstr (Some m)) ms),
      rt_state = (case jstr (jget v ''state'') of
                    None \<Rightarrow> RS_unhealthy
                  | Some st \<Rightarrow> if st = ''ready'' then RS_ready else if st = ''missing'' then RS_missing
                               else if st = ''unauthenticated'' then RS_unauthenticated
                               else if st = ''unauthorized'' then RS_unauthorized
                               else if st = ''limited'' then RS_limited else RS_unhealthy)\<rparr>"

definition runtimes_column :: "json \<Rightarrow> runtime_support list" where
  "runtimes_column v = (case jarr (Some v) of None \<Rightarrow> [] | Some xs \<Rightarrow> map runtimes_entry xs)"

definition activeRunnerRuntimes :: "id \<Rightarrow> id \<Rightarrow> time \<Rightarrow> db \<Rightarrow> runtime_support list list" where
  "activeRunnerRuntimes projectId environmentId now d =
     map (\<lambda>r. runtimes_column (ru_runtimes r))
       (filter (\<lambda>r. runner_alive projectId now r \<and> ru_environment r = Some environmentId) (runners d))"

definition usable_environment :: "id \<Rightarrow> db \<Rightarrow> bool" where
  "usable_environment environmentId d =
     sql_exists (\<lambda>e. en_id e = environmentId \<and> en_deleted e = None \<and> en_current_version e \<noteq> None) (environments d)"

definition runner_candidate :: "id \<Rightarrow> time \<Rightarrow> db \<Rightarrow> runner_row \<Rightarrow> bool" where
  "runner_candidate projectId now d r \<longleftrightarrow>
     runner_alive projectId now r \<and> ru_deleted r = None \<and>
     (case ru_environment r of None \<Rightarrow> False | Some e \<Rightarrow> usable_environment e d)"

definition capable_runners :: "id \<Rightarrow> string \<Rightarrow> string option \<Rightarrow> time \<Rightarrow> db \<Rightarrow> runner_row list" where
  "capable_runners projectId runtime model now d =
     filter (\<lambda>r. runtimesSupport (runtimes_column (ru_runtimes r)) runtime model)
       (sort_key (\<lambda>r. (ru_load r, ru_id r)) (filter (runner_candidate projectId now d) (runners d)))"

definition resolveEnvironmentForRuntime ::
    "id \<Rightarrow> string \<Rightarrow> string option \<Rightarrow> time \<Rightarrow> db \<Rightarrow> id option" where
  "resolveEnvironmentForRuntime projectId runtime model now d =
     (let capable = capable_runners projectId runtime model now d in
      case capable of
        [] \<Rightarrow> None
      | first # _ \<Rightarrow>
          (case List.find (\<lambda>r. ru_load r < ru_max r) capable of
             Some r \<Rightarrow> ru_environment r
           | None \<Rightarrow> ru_environment first))"

section \<open>Memory stores\<close>

definition activeMemoryStoreExists :: "id \<Rightarrow> id \<Rightarrow> db \<Rightarrow> bool" where
  "activeMemoryStoreExists projectId storeId d = store_live projectId storeId d"

definition live_memories :: "id \<Rightarrow> id \<Rightarrow> db \<Rightarrow> memory_row list" where
  "live_memories projectId storeId d =
     sort_key mm_path (filter (\<lambda>m. mm_store m = storeId \<and> mm_project m = projectId \<and> mm_deleted m = None)
       (memories d))"

definition findActiveMemoryStoreResource ::
    "id \<Rightarrow> id \<Rightarrow> db \<Rightarrow> (string \<times> (string \<times> string) list) option" where
  "findActiveMemoryStoreResource projectId storeId d =
     (if \<not> store_live projectId storeId d then None
      else Some (memoryStoreMountPath storeId,
                 map (\<lambda>m. (mm_path m, mm_content m)) (live_memories projectId storeId d)))"

definition replaceMemoryStoreMemories ::
    "(nat \<Rightarrow> id) \<Rightarrow> id \<Rightarrow> id \<Rightarrow> (string \<times> string) list \<Rightarrow> time \<Rightarrow> db \<Rightarrow> db option" where
  "replaceMemoryStoreMemories newId projectId storeId mems t d =
     map_option
       (\<lambda>rows. d\<lparr>memories := rows,
                 memory_stores := sql_update (\<lambda>m. ms_id m = storeId \<and> ms_project m = projectId)
                   (\<lambda>m. m\<lparr>ms_updated := t\<rparr>) (memory_stores d)\<rparr>)
       (insert_memories newId 0 projectId storeId t mems
         (sql_update (\<lambda>m. mm_project m = projectId \<and> mm_store m = storeId \<and> mm_deleted m = None)
            (\<lambda>m. m\<lparr>mm_deleted := Some t, mm_updated := t\<rparr>) (memories d)))"

section \<open>Channels of runner sessions\<close>

definition channelActiveLease :: "id \<Rightarrow> id \<Rightarrow> id \<Rightarrow> id \<Rightarrow> db \<Rightarrow> time option" where
  "channelActiveLease leaseId workItemId runnerId projectId d =
     map_option le_expires (sql_get (\<lambda>l. le_id l = leaseId \<and> le_work_item l = workItemId \<and>
       le_runner l = runnerId \<and> le_project l = projectId \<and> le_state l = L_active) (leases d))"

definition touchChannel :: "id \<Rightarrow> time \<Rightarrow> db \<Rightarrow> db" where
  "touchChannel channelId t d =
     d\<lparr>channels := sql_update (\<lambda>c. ch_id c = channelId \<and> ch_state c = C_active)
         (\<lambda>c. c\<lparr>ch_last_seen := t, ch_updated := t\<rparr>) (channels d)\<rparr>"

definition closeChannel :: "id \<Rightarrow> channel_state \<Rightarrow> string \<Rightarrow> time \<Rightarrow> db \<Rightarrow> db" where
  "closeChannel channelId channelState reason t d =
     d\<lparr>channels := sql_update (\<lambda>c. ch_id c = channelId \<and> ch_state c = C_active)
         (\<lambda>c. c\<lparr>ch_state := channelState, ch_closed := Some t, ch_close_reason := Some reason,
                ch_updated := t\<rparr>) (channels d)\<rparr>"

definition requeueSessionForRunnerRecovery :: "id \<Rightarrow> id \<Rightarrow> time \<Rightarrow> db \<Rightarrow> db" where
  "requeueSessionForRunnerRecovery projectId sessionId t d =
     stmt_session_state projectId sessionId P_pending (Some ''waiting-for-runner-recovery'') t d"

section \<open>Single-row updates\<close>

lemma session_cas_rows:
  "sessions (fst (session_cas k guard f d)) = sql_update (\<lambda>s. se_id s = k \<and> guard s) f (sessions d)"
  "snd (session_cas k guard f d) = sql_exists (\<lambda>s. se_id s = k \<and> guard s) (sessions d)"
  "work_items (fst (session_cas k guard f d)) = work_items d" "leases (fst (session_cas k guard f d)) = leases d"
  "runners (fst (session_cas k guard f d)) = runners d"
  by (simp_all add: session_cas_def cas_row_def)

lemma session_cas_miss: "session_cas k guard f d = (d', False) \<Longrightarrow> d' = d"
  using cas_row_miss [of se_id k guard f "sessions d"] by (auto simp: session_cas_def split: prod.splits)

lemma findSession_Some:
  "findSession q sid d = Some s \<Longrightarrow> s \<in> set (sessions d) \<and> se_id s = sid \<and> se_project s = q \<and> se_deleted s = None"
  by (auto simp: findSession_def live_session_def dest: sql_get_Some)

lemma findSession_None: "findSession q sid d = None \<longleftrightarrow> \<not> sql_exists (live_session q sid) (sessions d)"
  by (auto simp: findSession_def sql_get_None sql_exists_iff)

text \<open>A guarded update that hits turns the row with the key into the updated row.\<close>

lemma session_cas_hit:
  assumes "session_cas k guard f d = (d', True)" "distinct (map se_id (sessions d))"
    and "\<And>s. se_id (f s) = se_id s"
  obtains s where "s \<in> set (sessions d)" "se_id s = k" "guard s"
    "\<And>s'. s' \<in> set (sessions d') \<Longrightarrow> se_id s' = k \<Longrightarrow> s' = f s" "f s \<in> set (sessions d')"
proof -
  have d': "sessions d' = sql_update (\<lambda>s. se_id s = k \<and> guard s) f (sessions d)"
    and "sql_exists (\<lambda>s. se_id s = k \<and> guard s) (sessions d)"
    using assms(1) session_cas_rows(1,2) [of k guard f d] by simp_all
  then obtain s where s: "s \<in> set (sessions d)" "se_id s = k" "guard s" by (auto simp: sql_exists_iff)
  have "s' = f s" if s': "s' \<in> set (sessions d')" "se_id s' = k" for s'
  proof -
    obtain r where r: "r \<in> set (sessions d)" "s' = (if se_id r = k \<and> guard r then f r else r)"
      using s'(1) unfolding d' set_sql_update by blast
    then have "se_id r = k" using s'(2) assms(3) by (auto split: if_splits)
    then have "r = s" using distinct_key_eq [OF assms(2) r(1) s(1)] s(2) by simp
    then show ?thesis using r(2) s by simp
  qed
  moreover have "f s \<in> set (sessions d')" using s unfolding d' set_sql_update by (auto intro!: image_eqI [of _ _ s])
  ultimately show thesis using s that by blast
qed

end
