(* ===== verification/LeaseProtocol.thy ===== *)
theory LeaseProtocol
  imports RunnerRepo SessionStore
begin

text \<open>
  All writers of leases and work items together, as one transition system. A step is one
  atomic SQL statement or one D1 batch of some method, so the interleavings of any number of
  concurrent requests, sweeps and closes are the step sequences. Between the statement that
  expires (or interrupts) a lease and the statement that requeues, fails or cancels its work
  item, the recovering process remembers the work item: the second component of a state is
  the multiset of the work items so remembered.

  The safety argument counts tokens. A work item has at most one token: an active lease, a
  pending recovery or its own availability. Claims and recoveries move the token; everything
  else keeps it or burns it.
\<close>

section \<open>Steps\<close>

type_synonym lease_system = "db \<times> id multiset"

inductive lease_step :: "lease_system \<Rightarrow> lease_system \<Rightarrow> bool" where
  claim: "leaseId \<notin> le_id ` set (leases d) \<Longrightarrow>
    lease_step (d, p) (fst (batch_claim input leaseId t now d), p)"
| expire: "l \<in> set (leases d) \<Longrightarrow> stmt_expire_lease (le_id l) t d = (d', True) \<Longrightarrow>
    lease_step (d, p) (d', add_mset (le_work_item l) p)"
| interrupt: "l \<in> set (leases d) \<Longrightarrow> stmt_interrupt_lease (le_id l) token t d = (d', True) \<Longrightarrow>
    lease_step (d, p) (d', add_mset (le_work_item l) p)"
| requeue: "w \<in># p \<Longrightarrow> lease_step (d, p) (stmt_requeue w payload t d, p - {#w#})"
| exhaust: "w \<in># p \<Longrightarrow> lease_step (d, p) (stmt_fail_exhausted w t d, p - {#w#})"
| supersede: "w \<in># p \<Longrightarrow> lease_step (d, p) (stmt_cancel_superseded w t d, p - {#w#})"
| abandon: "w \<in># p \<Longrightarrow> lease_step (d, p) (d, p - {#w#})"
| renew_item: "lease_step (d, p) (fst (stmt_renew_item lease workItem payload t d), p)"
| renew_lease: "lease_step (d, p) (stmt_renew_lease leaseId expiresAt token t d, p)"
| complete: "batch_complete newId input lease workItem token snapshots ch reason t d = Some (d', n) \<Longrightarrow>
    lease_step (d, p) (d', p)"
| fail_lease: "lease_step (d, p) (stmt_fail_lease leaseId t d, p)"
| fail_item: "lease_step (d, p) (stmt_fail_work_item w reason t d, p)"
| cancel_items: "lease_step (d, p) (cancelWorkItems projectId ids err t d, p)"
| cancel_leases: "lease_step (d, p) (cancelLeases projectId ids t d, p)"
| insert_item: "insertWorkItem w d = Some d' \<Longrightarrow> lease_step (d, p) (d', p)"
| queue_work: "lease_step (d, p) (fst (queueSessionWorkWhenState projectId sessionId expected upd w d), p)"
| release_load: "lease_step (d, p) (releaseRunnerLoad projectId runnerId t d, p)"
| decrement_load: "lease_step (d, p) (decrementRunnerLoad projectId runnerId t d, p)"
| add_runner: "runnerId \<notin> ru_id ` set (runners d) \<Longrightarrow>
    runner_insert runnerId org projectId env maxc t d = Some d' \<Longrightarrow> lease_step (d, p) (d', p)"
| reregister: "runner_reregister org projectId runnerId env maxc t d = Some (d', hit) \<Longrightarrow>
    lease_step (d, p) (d', p)"
| set_runner: "lease_step (d, p) (fst (runner_update projectId runnerId st maxc t d), p)"
| heartbeat: "lease_step (d, p) (fst (runner_heartbeat projectId runnerId st rts t d), p)"
| drop_runner: "lease_step (d, p) (fst (runner_delete projectId runnerId t d), p)"
| drop_environment: "lease_step (d, p) (fst (environment_delete projectId environmentId t d), p)"
| other: "leases d' = leases d \<Longrightarrow> work_items d' = work_items d \<Longrightarrow> runners d' = runners d \<Longrightarrow>
    environments d' = environments d \<Longrightarrow> lease_step (d, p) (d', p)"

section \<open>What each statement leaves alone\<close>

named_theorems frame "tables a statement does not change, and keys it keeps"

text \<open>The identity of every row of the three tables.\<close>

definition shape :: "db \<Rightarrow> id list \<times> (id \<times> id \<times> id) list \<times> id list" where
  "shape d = (map wi_id (work_items d), map (\<lambda>l. (le_id l, le_work_item l, le_runner l)) (leases d),
              map ru_id (runners d))"

lemma keys_ok_shape: "shape d' = shape d \<Longrightarrow> keys_ok d' = keys_ok d"
proof -
  assume s: "shape d' = shape d"
  then have w: "map wi_id (work_items d') = map wi_id (work_items d)"
    and l: "map (\<lambda>l. (le_id l, le_work_item l, le_runner l)) (leases d') =
            map (\<lambda>l. (le_id l, le_work_item l, le_runner l)) (leases d)"
    and r: "map ru_id (runners d') = map ru_id (runners d)"
    by (simp_all add: shape_def)
  have li: "map le_id (leases d') = map le_id (leases d)"
    using arg_cong [OF l, of "map fst"] by (simp add: o_def)
  have "map le_work_item (leases d') = map le_work_item (leases d)"
    using arg_cong [OF l, of "map (\<lambda>x. fst (snd x))"] by (simp add: o_def)
  then have "le_work_item ` set (leases d') = le_work_item ` set (leases d)"
    by (metis list.set_map)
  moreover have "wi_id ` set (work_items d') = wi_id ` set (work_items d)"
    using w by (metis list.set_map)
  ultimately have fk: "(\<forall>l \<in> set (leases d'). le_work_item l \<in> wi_id ` set (work_items d')) =
      (\<forall>l \<in> set (leases d). le_work_item l \<in> wi_id ` set (work_items d))"
    by (simp add: image_subset_iff [symmetric])
  show ?thesis using w li r fk by (simp add: keys_ok_def)
qed

lemma frame_expire [frame]:
  "work_items (fst (stmt_expire_lease leaseId t d)) = work_items d"
  "runners (fst (stmt_expire_lease leaseId t d)) = runners d"
  "shape (fst (stmt_expire_lease leaseId t d)) = shape d"
  by (simp_all add: stmt_expire_lease_def cas_row_def shape_def map_sql_update)

lemma frame_interrupt [frame]:
  "work_items (fst (stmt_interrupt_lease leaseId token t d)) = work_items d"
  "runners (fst (stmt_interrupt_lease leaseId token t d)) = runners d"
  "shape (fst (stmt_interrupt_lease leaseId token t d)) = shape d"
  by (simp_all add: stmt_interrupt_lease_def cas_row_def shape_def map_sql_update)

lemma frame_items [frame]:
  "leases (stmt_requeue w payload t d) = leases d" "shape (stmt_requeue w payload t d) = shape d"
  "leases (stmt_fail_exhausted w t d) = leases d" "shape (stmt_fail_exhausted w t d) = shape d"
  "leases (stmt_cancel_superseded w t d) = leases d" "shape (stmt_cancel_superseded w t d) = shape d"
  "leases (fst (stmt_renew_item lease workItem pl t d)) = leases d"
  "shape (fst (stmt_renew_item lease workItem pl t d)) = shape d"
  "leases (stmt_fail_work_item w reason t d) = leases d" "shape (stmt_fail_work_item w reason t d) = shape d"
  "leases (cancelWorkItems projectId ids err t d) = leases d"
  "shape (cancelWorkItems projectId ids err t d) = shape d"
  by (simp_all add: stmt_requeue_def stmt_fail_exhausted_def stmt_cancel_superseded_def
      stmt_renew_item_def stmt_fail_work_item_def cancelWorkItems_def shape_def map_sql_update)

lemma frame_leases [frame]:
  "work_items (stmt_renew_lease leaseId e token t d) = work_items d"
  "shape (stmt_renew_lease leaseId e token t d) = shape d"
  "work_items (stmt_fail_lease leaseId t d) = work_items d" "shape (stmt_fail_lease leaseId t d) = shape d"
  "work_items (cancelLeases projectId ids t d) = work_items d" "shape (cancelLeases projectId ids t d) = shape d"
  by (simp_all add: stmt_renew_lease_def stmt_fail_lease_def cancelLeases_def shape_def map_sql_update)

lemma frame_runners [frame]:
  "leases (releaseRunnerLoad projectId runnerId t d) = leases d"
  "work_items (releaseRunnerLoad projectId runnerId t d) = work_items d"
  "shape (releaseRunnerLoad projectId runnerId t d) = shape d"
  "leases (decrementRunnerLoad projectId runnerId t d) = leases d"
  "work_items (decrementRunnerLoad projectId runnerId t d) = work_items d"
  "shape (decrementRunnerLoad projectId runnerId t d) = shape d"
  "leases (fst (runner_update projectId runnerId st maxc t d)) = leases d"
  "work_items (fst (runner_update projectId runnerId st maxc t d)) = work_items d"
  "shape (fst (runner_update projectId runnerId st maxc t d)) = shape d"
  "leases (fst (runner_heartbeat projectId runnerId st rts t d)) = leases d"
  "work_items (fst (runner_heartbeat projectId runnerId st rts t d)) = work_items d"
  "shape (fst (runner_heartbeat projectId runnerId st rts t d)) = shape d"
  "leases (fst (runner_delete projectId runnerId t d)) = leases d"
  "work_items (fst (runner_delete projectId runnerId t d)) = work_items d"
  "shape (fst (runner_delete projectId runnerId t d)) = shape d"
  "leases (fst (environment_delete projectId environmentId t d)) = leases d"
  "work_items (fst (environment_delete projectId environmentId t d)) = work_items d"
  "shape (fst (environment_delete projectId environmentId t d)) = shape d"
  by (simp_all add: releaseRunnerLoad_def decrementRunnerLoad_def runner_update_def
      runner_heartbeat_def runner_delete_def environment_delete_def shape_def map_sql_update Let_def)

lemma frame_reregister:
  assumes "runner_reregister org projectId runnerId env maxc t d = Some (d', hit)"
  shows "leases d' = leases d" "work_items d' = work_items d" "shape d' = shape d"
  using assms by (auto simp: runner_reregister_def shape_def map_sql_update Let_def split: if_splits)

lemma frame_add_runner:
  assumes "runner_insert runnerId org projectId env maxc t d = Some d'"
  shows "leases d' = leases d" "work_items d' = work_items d"
    "map ru_id (runners d') = map ru_id (runners d) @ [runnerId]"
  using assms by (auto simp: runner_insert_def split: if_splits)

lemma frame_memory_statements:
  assumes "memory_statements newId n projectId leaseId settlementId sn t d = Some d'"
  shows "leases d' = leases d" "work_items d' = work_items d" "runners d' = runners d" "sessions d' = sessions d"
    "environments d' = environments d"
  using assms by (auto simp: memory_statements_def Let_def split: if_splits)

lemma frame_memory_batch:
  "memory_batch newId n projectId leaseId settlementId sns t d = Some d' \<Longrightarrow>
   leases d' = leases d \<and> work_items d' = work_items d \<and> runners d' = runners d \<and> sessions d' = sessions d \<and>
   environments d' = environments d"
proof (induction sns arbitrary: n d)
  case (Cons sn sns)
  then obtain d1 where d1: "memory_statements newId n projectId leaseId settlementId sn t d = Some d1"
    "memory_batch newId (n + length (sn_memories sn)) projectId leaseId settlementId sns t d1 = Some d'"
    by (auto split: option.splits)
  show ?case using Cons.IH [OF d1(2)] frame_memory_statements [OF d1(1)] by simp
qed simp

lemma frame_complete [frame]:
  "work_items (fst (complete_lease input lease w sid tok t n d)) = work_items d"
  "leases (fst (complete_item input lease w tok t d)) = leases d"
  "leases (fst (complete_runner input lease sid t n d)) = leases d"
  "work_items (fst (complete_runner input lease sid t n d)) = work_items d"
  "leases (complete_token input w tok sid t n d) = leases d"
  "work_items (complete_token input w tok sid t n d) = work_items d"
  "runners (complete_token input w tok sid t n d) = runners d"
  "leases (complete_session input w sid ch reason t d) = leases d"
  "work_items (complete_session input w sid ch reason t d) = work_items d"
  "runners (complete_session input w sid ch reason t d) = runners d"
  by (simp_all add: complete_lease_def complete_item_def complete_runner_def complete_token_def
      complete_session_def Let_def split: option.split)

text \<open>The batch as a whole: what it does to the three tables, in terms of its statements.\<close>

lemma batch_complete_tables:
  assumes "batch_complete newId input lease w tok sns ch reason t d = Some (d', n)"
  obtains d1 n1 d2 n2 where
    "complete_item input lease w (provider_token w tok) t d = (d1, n)"
    "complete_lease input lease w (newId 0) tok t n d1 = (d2, n2)"
    "work_items d' = work_items d1" "leases d' = leases d2"
    "runners d' = runners (fst (complete_runner input lease (newId 0) t n2 d2))"
    "environments d' = environments d"
proof -
  obtain d1 n1 where 1: "complete_item input lease w (provider_token w tok) t d = (d1, n1)" by fastforce
  obtain d2 n2 where 2: "complete_lease input lease w (newId 0) tok t n1 d1 = (d2, n2)" by fastforce
  obtain d3 n3 where 3: "complete_runner input lease (newId 0) t n2 d2 = (d3, n3)" by fastforce
  from assms obtain d5 where d5: "memory_batch newId 1 (fi_project input) (fi_lease input) (newId 0) sns t
        (complete_token input w (provider_token w tok) (newId 0) t n3 d3) = Some d5"
    and d': "d' = complete_session input w (newId 0) ch reason t d5" "n = n1"
    by (auto simp: batch_complete_def 1 2 3 Let_def split: option.splits)
  note m = frame_memory_batch [OF d5]
  have f3: "leases d3 = leases d2" "work_items d3 = work_items d2"
    using frame_complete(3,4) [of input lease "newId 0" t n2 d2] 3 by simp_all
  have f2: "work_items d2 = work_items d1"
    using frame_complete(1) [of input lease w "newId 0" tok t n1 d1] 2 by simp
  have "environments d1 = environments d" "environments d2 = environments d1" "environments d3 = environments d2"
    using 1 2 3 by (auto simp: complete_item_def complete_lease_def complete_runner_def Let_def)
  then have env: "environments d' = environments d"
    using m d' by (simp add: complete_session_def complete_token_def split: option.splits)
  show thesis
    by (rule that [of d1 d2 n2]) (use 1 2 3 m f2 f3 d' env in \<open>simp_all add: frame_complete\<close>)
qed

lemma shape_complete:
  assumes "batch_complete newId input lease w tok sns ch reason t d = Some (d', n)"
  shows "shape d' = shape d"
proof -
  from assms obtain d1 d2 n2 where a:
    "complete_item input lease w (provider_token w tok) t d = (d1, n)"
    "complete_lease input lease w (newId 0) tok t n d1 = (d2, n2)"
    "work_items d' = work_items d1" "leases d' = leases d2"
    "runners d' = runners (fst (complete_runner input lease (newId 0) t n2 d2))"
    by (rule batch_complete_tables) blast
  have "map wi_id (work_items d1) = map wi_id (work_items d)" "leases d1 = leases d" "runners d1 = runners d"
    using a(1) by (auto simp: complete_item_def Let_def map_sql_update)
  moreover have "map (\<lambda>l. (le_id l, le_work_item l, le_runner l)) (leases d2) =
      map (\<lambda>l. (le_id l, le_work_item l, le_runner l)) (leases d1)" "runners d2 = runners d1"
    using a(2) by (auto simp: complete_lease_def Let_def map_sql_update)
  moreover have "map ru_id (runners d') = map ru_id (runners d2)"
    unfolding a(5) by (simp add: complete_runner_def Let_def map_sql_update)
  ultimately show ?thesis using a(3,4) by (simp add: shape_def)
qed

section \<open>Tokens\<close>

definition active_leases :: "id \<Rightarrow> db \<Rightarrow> nat" where
  "active_leases w d = sql_count (\<lambda>l. le_state l = L_active \<and> le_work_item l = w) (leases d)"

definition available_items :: "id \<Rightarrow> db \<Rightarrow> nat" where
  "available_items w d = sql_count (\<lambda>x. wi_state x = W_available \<and> wi_id x = w) (work_items d)"

definition tokens :: "id \<Rightarrow> lease_system \<Rightarrow> nat" where
  "tokens w s = active_leases w (fst s) + count (snd s) w + available_items w (fst s)"

definition lease_inv :: "lease_system \<Rightarrow> bool" where
  "lease_inv s \<longleftrightarrow>
     keys_ok (fst s) \<and> set_mset (snd s) \<subseteq> wi_id ` set (work_items (fst s)) \<and> (\<forall>w. tokens w s \<le> 1)"

lemma active_leases_cong: "leases d' = leases d \<Longrightarrow> active_leases w d' = active_leases w d"
  by (simp add: active_leases_def)

lemma available_items_cong: "work_items d' = work_items d \<Longrightarrow> available_items w d' = available_items w d"
  by (simp add: available_items_def)

lemma active_leases_le:
  "leases d' = sql_update P f (leases d) \<Longrightarrow>
   (\<And>l. P l \<Longrightarrow> le_work_item (f l) = le_work_item l \<and> (le_state (f l) = L_active \<longrightarrow> le_state l = L_active)) \<Longrightarrow>
   active_leases w d' \<le> active_leases w d"
  by (auto simp: active_leases_def intro!: sql_count_update_le)

lemma available_items_le:
  "work_items d' = sql_update P f (work_items d) \<Longrightarrow>
   (\<And>x. P x \<Longrightarrow> wi_id (f x) = wi_id x \<and> (wi_state (f x) = W_available \<longrightarrow> wi_state x = W_available)) \<Longrightarrow>
   available_items w d' \<le> available_items w d"
  by (auto simp: available_items_def intro!: sql_count_update_le)

text \<open>A step that keeps the keys and creates no token preserves the invariant.\<close>

lemma lease_inv_mono:
  assumes "lease_inv (d, p)" "shape d' = shape d" "p' \<subseteq># p"
    and "\<And>w. active_leases w d' \<le> active_leases w d" "\<And>w. available_items w d' \<le> available_items w d"
  shows "lease_inv (d', p')"
proof -
  have "set (map wi_id (work_items d')) = set (map wi_id (work_items d))"
    using assms(2) by (simp only: shape_def prod.inject)
  then have ids: "wi_id ` set (work_items d') = wi_id ` set (work_items d)" by simp
  have tok: "tokens w (d', p') \<le> 1" for w
  proof -
    have "count p' w \<le> count p w" using assms(3) by (simp add: mset_subset_eq_count)
    with assms(4) [of w] assms(5) [of w] have "tokens w (d', p') \<le> tokens w (d, p)"
      by (simp add: tokens_def)
    also have "\<dots> \<le> 1" using assms(1) by (simp add: lease_inv_def)
    finally show ?thesis .
  qed
  have "set_mset p' \<subseteq> set_mset p" using assms(3) by (rule set_mset_mono)
  with ids tok assms(1) keys_ok_shape [OF assms(2)] show ?thesis by (auto simp: lease_inv_def)
qed

section \<open>The steps that move a token\<close>

lemma lease_inv_keys: "lease_inv (d, p) \<Longrightarrow> keys_ok d"
  by (simp add: lease_inv_def)

lemma lease_inv_tokens: "lease_inv (d, p) \<Longrightarrow> active_leases w d + count p w + available_items w d \<le> 1"
  by (simp add: lease_inv_def tokens_def)

lemma retire_lease:
  assumes inv: "lease_inv (d, p)" and l: "l \<in> set (leases d)"
    and hit: "sql_exists (\<lambda>r. le_id r = le_id l \<and> lease_active r) (leases d)"
    and d': "leases d' = sql_update (\<lambda>r. le_id r = le_id l \<and> lease_active r) f (leases d)"
    and wi: "work_items d' = work_items d" and sh: "shape d' = shape d"
    and f: "\<And>r. le_state (f r) = L_expired \<and> le_work_item (f r) = le_work_item r"
  shows "lease_inv (d', add_mset (le_work_item l) p)"
proof -
  note keys = lease_inv_keys [OF inv]
  from hit obtain r where r: "r \<in> set (leases d)" "le_id r = le_id l" "lease_active r"
    by (auto simp: sql_exists_iff)
  have "r = l" using distinct_key_eq [of le_id "leases d" r l] keys r l by (simp add: keys_ok_def)
  with r have act: "le_state l = L_active" by (simp add: lease_active_def)
  have less: "Suc (active_leases (le_work_item l) d') \<le> active_leases (le_work_item l) d"
    unfolding active_leases_def d'
    by (rule sql_count_update_less [of l]) (use l act f in \<open>auto simp: lease_active_def\<close>)
  have le: "active_leases w d' \<le> active_leases w d" for w
    by (rule active_leases_le [OF d']) (use f in \<open>auto simp: lease_active_def\<close>)
  have av: "available_items w d' = available_items w d" for w
    by (rule available_items_cong [OF wi])
  have mem: "le_work_item l \<in> wi_id ` set (work_items d)"
    using keys l by (auto simp: keys_ok_def)
  have tok: "tokens w (d', add_mset (le_work_item l) p) \<le> 1" for w
    using lease_inv_tokens [OF inv, of w] le [of w] less av [of w]
    by (cases "w = le_work_item l") (simp_all add: tokens_def)
  show ?thesis
    using keys_ok_shape [OF sh] keys tok mem inv wi by (simp add: lease_inv_def)
qed

lemma expire_inv:
  assumes "lease_inv (d, p)" "l \<in> set (leases d)" "stmt_expire_lease (le_id l) t d = (d', True)"
  shows "lease_inv (d', add_mset (le_work_item l) p)"
  by (rule retire_lease [OF assms(1,2)])
    (use assms(3) frame_expire [of "le_id l" t d] in
      \<open>auto simp: stmt_expire_lease_def cas_row_def\<close>)

lemma interrupt_inv:
  assumes "lease_inv (d, p)" "l \<in> set (leases d)" "stmt_interrupt_lease (le_id l) token t d = (d', True)"
  shows "lease_inv (d', add_mset (le_work_item l) p)"
  by (rule retire_lease [OF assms(1,2)])
    (use assms(3) frame_interrupt [of "le_id l" token t d] in
      \<open>auto simp: stmt_interrupt_lease_def cas_row_def\<close>)

lemma requeue_inv:
  assumes inv: "lease_inv (d, p)" and w: "w \<in># p"
  shows "lease_inv (stmt_requeue w payload t d, p - {#w#})"
proof -
  let ?d = "stmt_requeue w payload t d"
  have keys: "keys_ok ?d" using keys_ok_shape [OF frame_items(2)] lease_inv_keys [OF inv] by simp
  have one: "available_items w ?d \<le> 1"
    unfolding available_items_def using keys by (intro sql_count_key_le1) (simp add: keys_ok_def)
  have other: "available_items x ?d = available_items x d" if "x \<noteq> w" for x
    unfolding available_items_def stmt_requeue_def using that
    by (auto intro!: sql_count_update_same)
  have act: "active_leases x ?d = active_leases x d" for x
    by (rule active_leases_cong) (simp add: frame)
  obtain k where pos: "count p w = Suc k" using w by (metis not0_implies_Suc not_in_iff)
  have tok: "tokens x (?d, p - {#w#}) \<le> 1" for x
    using lease_inv_tokens [OF inv, of x] one other [of x] act [of x] pos
    by (cases "x = w") (auto simp: tokens_def)
  have "map wi_id (work_items ?d) = map wi_id (work_items d)"
    by (simp add: stmt_requeue_def map_sql_update)
  then have "wi_id ` set (work_items ?d) = wi_id ` set (work_items d)" by (metis list.set_map)
  then show ?thesis using keys tok inv by (auto simp: lease_inv_def dest: in_diffD)
qed

lemma insert_inv:
  assumes inv: "lease_inv (d, p)" and ins: "insertWorkItem w d = Some d'"
  shows "lease_inv (d', p)"
proof -
  have new: "wi_id w \<notin> wi_id ` set (work_items d)" and d': "d' = d\<lparr>work_items := work_items d @ [w]\<rparr>"
    using ins by (auto simp: insertWorkItem_def sql_exists_iff split: if_splits)
  note keys = lease_inv_keys [OF inv]
  have zero: "active_leases (wi_id w) d = 0" "available_items (wi_id w) d = 0"
    using new keys unfolding active_leases_def available_items_def sql_count_zero keys_ok_def
    by (metis imageI)+
  have pz: "count p (wi_id w) = 0"
    using new inv by (auto simp: lease_inv_def count_eq_zero_iff)
  have tok: "tokens x (d', p) \<le> 1" for x
    using lease_inv_tokens [OF inv, of x] zero pz
    by (cases "x = wi_id w") (auto simp: tokens_def d' active_leases_def available_items_def)
  show ?thesis
    using keys new tok inv by (auto simp: lease_inv_def keys_ok_def d')
qed

section \<open>Claims\<close>

text \<open>The tables after the claim batch; at most one lease is inserted because keys are unique.\<close>

lemma batch_claim_tables:
  obtains n where
    "fst (snd (batch_claim input leaseId t now d)) = n"
    "n = sql_count (claiming_runner input t now d) (runners d) * sql_count (claimable_item input t d) (work_items d)"
    "leases (fst (batch_claim input leaseId t now d)) = leases d @ replicate n (new_lease input leaseId t now)"
    "work_items (fst (batch_claim input leaseId t now d)) =
       sql_update (\<lambda>w. claimable_item input t d w \<and> n = 1)
         (\<lambda>w. w\<lparr>wi_state := W_leased, wi_runner := Some (ci_runner input), wi_lease := Some leaseId,
                wi_attempts := wi_attempts w + 1, wi_updated := t\<rparr>) (work_items d)"
    "map ru_id (runners (fst (batch_claim input leaseId t now d))) = map ru_id (runners d)"
    "snd (snd (batch_claim input leaseId t now d)) =
       filter (\<lambda>w. claimable_item input t d w \<and> n = 1) (work_items d)"
proof -
  obtain d1 n where 1: "claim_insert input leaseId t now d = (d1, n)" by fastforce
  obtain d2 c where 2: "claim_item input leaseId t n d1 = (d2, c)" by fastforce
  have d1: "d1 = d\<lparr>leases := leases d @ replicate n (new_lease input leaseId t now)\<rparr>"
    and n: "n = sql_count (claiming_runner input t now d) (runners d) * sql_count (claimable_item input t d) (work_items d)"
    using 1 by (auto simp: claim_insert_def Let_def)
  have same: "claimable_item input t (d\<lparr>leases := ls\<rparr>) = claimable_item input t d" for ls
    by (auto simp: fun_eq_iff claimable_item_def waiting_session_def split: option.split)
  note c = 2 [unfolded d1 claim_item_def Let_def same, symmetric]
  have e: "batch_claim input leaseId t now d = (claim_load input leaseId t (claim_session input leaseId t d2), n, c)"
    by (simp add: batch_claim_def 1 2)
  show thesis
    by (rule that [of n, OF _ n]; (unfold e)?; use c in \<open>simp add: claim_session_def claim_load_def map_sql_update\<close>)
qed

lemma claim_count_le1:
  assumes "keys_ok d"
  shows "sql_count (claiming_runner input t now d) (runners d) \<le> 1"
    "sql_count (claimable_item input t d) (work_items d) \<le> 1"
proof -
  have "sql_count (claiming_runner input t now d) (runners d) \<le>
      sql_count (\<lambda>r. True \<and> ru_id r = ci_runner input) (runners d)"
    by (rule sql_count_mono) (simp add: claiming_runner_def)
  also have "\<dots> \<le> 1" using assms by (intro sql_count_key_le1) (simp add: keys_ok_def)
  finally show "sql_count (claiming_runner input t now d) (runners d) \<le> 1" .
  have "sql_count (claimable_item input t d) (work_items d) \<le>
      sql_count (\<lambda>w. True \<and> wi_id w = ci_work_item input) (work_items d)"
    by (rule sql_count_mono) (simp add: claimable_item_def)
  also have "\<dots> \<le> 1" using assms by (intro sql_count_key_le1) (simp add: keys_ok_def)
  finally show "sql_count (claimable_item input t d) (work_items d) \<le> 1" .
qed

lemma claim_inv:
  assumes inv: "lease_inv (d, p)" and fresh: "leaseId \<notin> le_id ` set (leases d)"
  shows "lease_inv (fst (batch_claim input leaseId t now d), p)"
proof -
  let ?d = "fst (batch_claim input leaseId t now d)"
  note keys = lease_inv_keys [OF inv]
  obtain n where n: "n = sql_count (claiming_runner input t now d) (runners d) * sql_count (claimable_item input t d) (work_items d)"
    and le: "leases ?d = leases d @ replicate n (new_lease input leaseId t now)"
    and wi: "work_items ?d = sql_update (\<lambda>w. claimable_item input t d w \<and> n = 1)
         (\<lambda>w. w\<lparr>wi_state := W_leased, wi_runner := Some (ci_runner input), wi_lease := Some leaseId,
                wi_attempts := wi_attempts w + 1, wi_updated := t\<rparr>) (work_items d)"
    and ru: "map ru_id (runners ?d) = map ru_id (runners d)"
    by (rule batch_claim_tables [of input leaseId t now d]) blast
  have ids: "map wi_id (work_items ?d) = map wi_id (work_items d)"
    unfolding wi by (simp add: map_sql_update)
  then have idset: "wi_id ` set (work_items ?d) = wi_id ` set (work_items d)" by (metis list.set_map)
  have avle: "available_items w ?d \<le> available_items w d" for w
    by (rule available_items_le [OF wi]) simp
  have "n \<le> 1" unfolding n using mult_le_mono [OF claim_count_le1 [OF keys]] by simp
  then consider "n = 0" | "n = 1" by linarith
  then show ?thesis
  proof cases
    case 1
    have "shape ?d = shape d" using ids ru le 1 by (simp add: shape_def)
    then show ?thesis
      by (rule lease_inv_mono [OF inv]) (use le 1 avle in \<open>simp_all add: active_leases_def\<close>)
  next
    case 2
    then have "sql_count (claimable_item input t d) (work_items d) \<noteq> 0" using n by (metis mult_is_0 one_neq_zero)
    then obtain x where x: "x \<in> set (work_items d)" "claimable_item input t d x"
      by (auto simp: sql_count_zero)
    let ?w = "ci_work_item input"
    have xw: "wi_id x = ?w" "wi_state x = W_available" using x(2) by (auto simp: claimable_item_def)
    have less: "Suc (available_items ?w ?d) \<le> available_items ?w d"
      unfolding available_items_def wi
      by (rule sql_count_update_less [of x]) (use x xw 2 in auto)
    have act: "active_leases w ?d = active_leases w d + (if w = ?w then 1 else 0)" for w
      by (simp add: active_leases_def le 2 new_lease_def)
    have tok: "tokens w (?d, p) \<le> 1" for w
      using lease_inv_tokens [OF inv, of w] less avle [of w] act [of w]
      by (cases "w = ?w") (simp_all add: tokens_def)
    have "?w \<in> wi_id ` set (work_items d)" using x(1) xw(1) by (metis imageI)
    then have "keys_ok ?d"
      using keys fresh le 2 ids idset ru by (auto simp: keys_ok_def new_lease_def)
    then show ?thesis using tok inv idset by (simp add: lease_inv_def)
  qed
qed

section \<open>Every step preserves the invariant\<close>

lemma burn_inv:
  assumes inv: "lease_inv (d, p)" and sh: "shape d' = shape d" and le: "leases d' = leases d"
    and av: "\<And>x. available_items x d' \<le> available_items x d" and sub: "p' \<subseteq># p"
  shows "lease_inv (d', p')"
  by (rule lease_inv_mono [OF inv sh sub]) (use active_leases_cong [OF le] av in simp_all)

lemma settle_inv:
  assumes inv: "lease_inv (d, p)" and sh: "shape d' = shape d" and wi: "work_items d' = work_items d"
    and ac: "\<And>x. active_leases x d' \<le> active_leases x d"
  shows "lease_inv (d', p)"
  by (rule lease_inv_mono [OF inv sh subset_mset.order_refl])
    (use available_items_cong [OF wi] ac in simp_all)

lemma burns [frame]:
  "available_items x (stmt_fail_exhausted w t d) \<le> available_items x d"
  "available_items x (stmt_cancel_superseded w t d) \<le> available_items x d"
  "available_items x (fst (stmt_renew_item lease workItem pl t d)) \<le> available_items x d"
  "available_items x (stmt_fail_work_item w reason t d) \<le> available_items x d"
  "available_items x (cancelWorkItems projectId ids err t d) \<le> available_items x d"
  "active_leases x (stmt_renew_lease leaseId e token t d) \<le> active_leases x d"
  "active_leases x (stmt_fail_lease leaseId t d) \<le> active_leases x d"
  "active_leases x (cancelLeases projectId ids t d) \<le> active_leases x d"
  unfolding available_items_def active_leases_def stmt_fail_exhausted_def stmt_cancel_superseded_def
    stmt_renew_item_def stmt_fail_work_item_def cancelWorkItems_def stmt_renew_lease_def
    stmt_fail_lease_def cancelLeases_def
  by ((simp, rule sql_count_update_le, simp)+)

lemma still_inv:
  assumes inv: "lease_inv (d, p)" and "shape d' = shape d" "leases d' = leases d" "work_items d' = work_items d"
    and sub: "p' \<subseteq># p"
  shows "lease_inv (d', p')"
  by (rule lease_inv_mono [OF inv assms(2) sub])
    (use active_leases_cong [OF assms(3)] available_items_cong [OF assms(4)] in simp_all)

lemma terminal_work_state_unavailable [simp]: "terminal_work_state st \<noteq> W_available"
  by (cases st) simp_all

lemma complete_inv:
  assumes inv: "lease_inv (d, p)"
    and b: "batch_complete newId input lease w tok sns ch reason t d = Some (d', n)"
  shows "lease_inv (d', p)"
proof -
  from b obtain d1 d2 n2 where a:
    "complete_item input lease w (provider_token w tok) t d = (d1, n)"
    "complete_lease input lease w (newId 0) tok t n d1 = (d2, n2)"
    "work_items d' = work_items d1" "leases d' = leases d2"
    by (rule batch_complete_tables) blast
  have d1: "leases d1 = leases d" using a(1) by (auto simp: complete_item_def Let_def)
  have "d1 = fst (complete_item input lease w (provider_token w tok) t d)" using a(1) by simp
  then have av: "available_items x d' \<le> available_items x d" for x
    unfolding available_items_cong [OF a(3)]
    by (simp add: complete_item_def Let_def available_items_def) (rule sql_count_update_le, simp)
  have "d2 = fst (complete_lease input lease w (newId 0) tok t n d1)" using a(2) by simp
  then have ac: "active_leases x d' \<le> active_leases x d" for x
    unfolding active_leases_cong [OF a(4)] active_leases_cong [OF d1, symmetric]
    by (simp add: complete_lease_def Let_def active_leases_def) (rule sql_count_update_le, simp)
  show ?thesis
    by (rule lease_inv_mono [OF inv shape_complete [OF b]]) (use av ac in auto)
qed

lemma queue_inv:
  assumes inv: "lease_inv (d, p)"
  shows "lease_inv (fst (queueSessionWorkWhenState projectId sessionId expected upd w d), p)"
proof -
  obtain d1 hit where 1: "updateSessionWhenState projectId sessionId expected upd d = (d1, hit)" by fastforce
  then have same: "shape d1 = shape d" "leases d1 = leases d" "work_items d1 = work_items d"
    by (auto simp: updateSessionWhenState_def session_cas_def cas_row_def shape_def)
  have inv1: "lease_inv (d1, p)" by (rule still_inv [OF inv same]) simp
  show ?thesis
    using inv inv1 insert_inv [OF inv1]
    by (auto simp: queueSessionWorkWhenState_def 1 split: option.split)
qed

lemma add_runner_inv:
  assumes inv: "lease_inv (d, p)" and fresh: "runnerId \<notin> ru_id ` set (runners d)"
    and ins: "runner_insert runnerId org projectId env maxc t d = Some d'"
  shows "lease_inv (d', p)"
  using inv fresh frame_add_runner [OF ins]
  by (auto simp: lease_inv_def keys_ok_def tokens_def active_leases_def available_items_def)

lemma lease_step_inv:
  assumes "lease_step s s'" "lease_inv s"
  shows "lease_inv s'"
  using assms
proof (induction rule: lease_step.induct)
  case (claim leaseId d p input t now)
  show ?case by (rule claim_inv [OF claim(2,1)])
next
  case (expire l d t d' p)
  show ?case by (rule expire_inv [OF expire(3,1,2)])
next
  case (interrupt l d token t d' p)
  show ?case by (rule interrupt_inv [OF interrupt(3,1,2)])
next
  case (requeue w p payload t d)
  show ?case by (rule requeue_inv [OF requeue(2,1)])
next
  case (exhaust w p t d)
  show ?case by (rule burn_inv [OF exhaust(2)]) (simp_all add: frame)
next
  case (supersede w p t d)
  show ?case by (rule burn_inv [OF supersede(2)]) (simp_all add: frame)
next
  case (abandon w p d)
  show ?case by (rule still_inv [OF abandon(2) refl refl refl diff_subset_eq_self])
next
  case (renew_item d p lease workItem payload t)
  show ?case by (rule burn_inv [OF renew_item]) (simp_all add: frame)
next
  case (renew_lease d p leaseId expiresAt token t)
  show ?case by (rule settle_inv [OF renew_lease]) (simp_all add: frame)
next
  case (complete newId input lease workItem token snapshots ch reason t d d' n p)
  show ?case by (rule complete_inv [OF complete(2,1)])
next
  case (fail_lease d p leaseId t)
  show ?case by (rule settle_inv [OF fail_lease]) (simp_all add: frame)
next
  case (fail_item d p w reason t)
  show ?case by (rule burn_inv [OF fail_item]) (simp_all add: frame)
next
  case (cancel_items d p projectId ids err t)
  show ?case by (rule burn_inv [OF cancel_items]) (simp_all add: frame)
next
  case (cancel_leases d p projectId ids t)
  show ?case by (rule settle_inv [OF cancel_leases]) (simp_all add: frame)
next
  case (insert_item w d d' p)
  show ?case by (rule insert_inv [OF insert_item(2,1)])
next
  case (queue_work d p projectId sessionId expected upd w)
  show ?case by (rule queue_inv [OF queue_work])
next
  case (add_runner runnerId d org projectId env maxc t d' p)
  show ?case by (rule add_runner_inv [OF add_runner(3,1,2)])
next
  case (reregister org projectId runnerId env maxc t d d' hit p)
  show ?case
    by (rule still_inv [OF reregister(2) frame_reregister(3,1,2) [OF reregister(1)]]) simp
next
  case (other d' d p)
  show ?case by (rule still_inv [OF other(5)]) (use other in \<open>simp_all add: shape_def\<close>)
qed (erule still_inv; simp add: frame)+

definition lease_init :: "lease_system \<Rightarrow> bool" where
  "lease_init s \<longleftrightarrow> leases (fst s) = [] \<and> keys_ok (fst s) \<and> snd s = {#}"

lemma lease_init_inv: "lease_init s \<Longrightarrow> lease_inv s"
  by (cases s) (auto simp: lease_init_def lease_inv_def tokens_def active_leases_def available_items_def
      keys_ok_def intro!: sql_count_key_le1 simp del: One_nat_def)

interpretation lease_sys: safe_system lease_init lease_step lease_inv
  by unfold_locales (fact lease_init_inv, rule lease_step_inv)

section \<open>The methods are sequences of steps\<close>

text \<open>
  Every method of the repositories runs as a sequence of steps that starts and ends with the
  same pending recoveries. So the step relation covers all their interleavings, and what holds
  of all step sequences holds of every schedule of the methods.
\<close>

lemma session_step: "lease_step (d, p) (stmt_session_state projectId s st reason t d, p)"
  by (rule lease_step.other) (simp_all add: stmt_session_state_def)

lemma one_step: "lease_step s s' \<Longrightarrow> lease_step\<^sup>*\<^sup>* s s'"
  by (rule r_into_rtranclp)

lemma then_step: "lease_step\<^sup>*\<^sup>* s s' \<Longrightarrow> lease_step s' s'' \<Longrightarrow> lease_step\<^sup>*\<^sup>* s s''"
  by (rule rtranclp.rtrancl_into_rtrancl)

lemma requeue_steps:
  "lease_step\<^sup>*\<^sup>* (d, add_mset (wi_id w) p) (fst (requeueWorkItemForRecovery projectId w t d), p)"
proof -
  let ?w = "wi_id w" and ?s = "(d, add_mset (wi_id w) p)"
  have 1: "lease_step\<^sup>*\<^sup>* ?s (stmt_cancel_superseded ?w t d, p)"
    using lease_step.supersede [of ?w "add_mset ?w p" d t] by (simp add: one_step)
  have 2: "lease_step\<^sup>*\<^sup>* ?s (stmt_fail_exhausted ?w t d, p)"
    using lease_step.exhaust [of ?w "add_mset ?w p" d t] by (simp add: one_step)
  have 3: "lease_step\<^sup>*\<^sup>* ?s (stmt_requeue ?w (recovery_payload projectId w d) t d, p)"
    using lease_step.requeue [of ?w "add_mset ?w p" d] by (simp add: one_step)
  show ?thesis
    unfolding requeueWorkItemForRecovery_def Let_def
    by (auto split: option.split intro: 1 2 3 then_step [OF 2 session_step] then_step [OF 3 session_step])
qed

lemma shape_requeue:
  "shape (fst (requeueWorkItemForRecovery projectId w t d)) = shape d"
proof -
  have "shape (stmt_session_state projectId s st reason t d') = shape d'" for s st reason d'
    by (simp add: stmt_session_state_def shape_def)
  then show ?thesis
    by (auto simp: requeueWorkItemForRecovery_def Let_def frame split: option.split)
qed

lemma found_work_item:
  "findWorkItemRow projectId k d = Some w \<Longrightarrow> wi_id w = k \<and> w \<in> set (work_items d)"
  by (auto simp: findWorkItemRow_def dest: sql_get_Some)

lemma expire_one_steps:
  assumes "(le_id lease, le_work_item lease) \<in> (\<lambda>l. (le_id l, le_work_item l)) ` set (leases d)"
  shows "lease_step\<^sup>*\<^sup>* (d, p) (expire_one projectId t lease d, p)"
proof (cases "stmt_expire_lease (le_id lease) t d")
  case (Pair d1 hit)
  show ?thesis
  proof (cases hit)
    case False
    then have "d1 = d"
      using Pair cas_row_miss [of le_id "le_id lease" lease_active "\<lambda>l. l\<lparr>le_state := L_expired, le_updated := t\<rparr>" "leases d"]
      by (auto simp: stmt_expire_lease_def split: prod.splits)
    then show ?thesis using Pair False by (simp add: expire_one_def Let_def)
  next
    case True
    obtain l where l: "l \<in> set (leases d)" "le_id l = le_id lease" "le_work_item l = le_work_item lease"
      using assms by auto
    let ?w = "le_work_item lease" and ?d2 = "releaseRunnerLoad projectId (le_runner lease) t d1"
    have 1: "lease_step (d, p) (d1, add_mset ?w p)"
      using lease_step.expire [OF l(1), of t d1 p] Pair True l by simp
    have 2: "lease_step\<^sup>*\<^sup>* (d, p) (?d2, add_mset ?w p)"
      by (rule then_step [OF one_step [OF 1] lease_step.release_load])
    have drop: "lease_step\<^sup>*\<^sup>* (d, p) (?d2, p)"
      using then_step [OF 2 lease_step.abandon [of ?w]] by simp
    show ?thesis
    proof (cases "findWorkItemRow projectId ?w d")
      case None
      then show ?thesis using Pair True drop by (simp add: expire_one_def Let_def)
    next
      case (Some w)
      then have "wi_id w = ?w" by (simp add: found_work_item)
      then have 3: "lease_step\<^sup>*\<^sup>* (d, p) (fst (requeueWorkItemForRecovery projectId w t ?d2), p)"
        using rtranclp_trans [OF 2, of "(fst (requeueWorkItemForRecovery projectId w t ?d2), p)"]
          requeue_steps [of ?d2 w p projectId t] by simp
      then show ?thesis using Pair True drop Some by (simp add: expire_one_def Let_def)
    qed
  qed
qed

lemma shape_expire_one: "shape (expire_one projectId t lease d) = shape d"
proof (cases "stmt_expire_lease (le_id lease) t d")
  case (Pair d1 hit)
  then have "shape d1 = shape d" using frame_expire(3) [of "le_id lease" t d] by simp
  then show ?thesis
    using Pair by (cases hit) (auto simp: expire_one_def Let_def shape_requeue frame split: option.split)
qed

lemma shape_lease_ids:
  "shape d' = shape d \<Longrightarrow>
   (\<lambda>l. (le_id l, le_work_item l)) ` set (leases d') = (\<lambda>l. (le_id l, le_work_item l)) ` set (leases d)"
proof -
  let ?f = "\<lambda>l. (le_id l, le_work_item l, le_runner l)" and ?g = "\<lambda>(a, b, c). (a, b)"
  assume "shape d' = shape d"
  then have "map ?g (map ?f (leases d')) = map ?g (map ?f (leases d))" by (simp add: shape_def)
  then have "map (\<lambda>l. (le_id l, le_work_item l)) (leases d') = map (\<lambda>l. (le_id l, le_work_item l)) (leases d)"
    by (simp add: o_def)
  then show ?thesis by (metis list.set_map)
qed

lemma expire_fold_steps:
  "(\<lambda>l. (le_id l, le_work_item l)) ` set ls \<subseteq> (\<lambda>l. (le_id l, le_work_item l)) ` set (leases d) \<Longrightarrow>
   lease_step\<^sup>*\<^sup>* (d, p) (fold (expire_one projectId t) ls d, p)"
proof (induction ls arbitrary: d)
  case (Cons l ls)
  have 1: "lease_step\<^sup>*\<^sup>* (d, p) (expire_one projectId t l d, p)"
    by (rule expire_one_steps) (use Cons.prems in auto)
  have "lease_step\<^sup>*\<^sup>* (expire_one projectId t l d, p) (fold (expire_one projectId t) ls (expire_one projectId t l d), p)"
    by (rule Cons.IH) (use Cons.prems in \<open>simp add: shape_lease_ids [OF shape_expire_one]\<close>)
  with 1 show ?case by (simp del: split_paired_All)
qed simp

lemma expireStale_steps: "lease_step\<^sup>*\<^sup>* (d, p) (expireStale projectId t d, p)"
  unfolding expireStale_def
  by (rule expire_fold_steps) (use set_take_subset in \<open>fastforce simp: stale_leases_def\<close>)

lemma claim_steps:
  "leaseId \<notin> le_id ` set (leases d) \<Longrightarrow> lease_step\<^sup>*\<^sup>* (d, p) (fst (claim input leaseId t now d), p)"
  using one_step [OF lease_step.claim [of leaseId d p input t now]]
  by (simp add: claim_def case_prod_beta)

lemma bind_frame:
  assumes "bindSessionResumeToken input w token t d = (d', r)"
  shows "leases d' = leases d" "work_items d' = work_items d" "runners d' = runners d" "environments d' = environments d"
  using assms
  by (auto simp: bindSessionResumeToken_def stmt_bind_token_def Let_def split: option.splits if_splits prod.splits bool.splits)

lemma bind_steps:
  assumes "bindSessionResumeToken input w token t d = (d', r)"
  shows "lease_step\<^sup>*\<^sup>* (d, p) (d', p)"
  by (rule one_step [OF lease_step.other]) (use bind_frame [OF assms] in simp_all)

lemma finish_active_steps: "lease_step\<^sup>*\<^sup>* (d, p) (fst (finish_active input lease w t now d), p)"
proof (cases "stmt_renew_item lease w (payloadWithResumeToken w (fi_resume input)) t d")
  case (Pair d1 hit)
  have 1: "lease_step\<^sup>*\<^sup>* (d, p) (d1, p)"
    using one_step [OF lease_step.renew_item [of d p lease w "payloadWithResumeToken w (fi_resume input)" t]] Pair
    by simp
  show ?thesis
    using Pair by (cases hit) (auto simp: finish_active_def Let_def intro: 1 then_step [OF 1 lease_step.renew_lease])
qed

lemma finish_interrupted_steps:
  assumes l: "lease \<in> set (leases d)" and id: "le_id lease = fi_lease input" and w: "wi_id w = le_work_item lease"
  shows "lease_step\<^sup>*\<^sup>* (d, p) (fst (finish_interrupted input lease w t d), p)"
proof (cases "stmt_interrupt_lease (fi_lease input) (resumeTokenFromFinishInput input) t d")
  case (Pair d1 hit)
  show ?thesis
  proof (cases hit)
    case False
    then have "d1 = d"
      using Pair by (auto simp: stmt_interrupt_lease_def cas_row_def sql_exists_iff sql_update_none)
    then show ?thesis using Pair False by (simp add: finish_interrupted_def)
  next
    case True
    define w' where "w' = (case payloadWithResumeToken w (fi_resume input) of None \<Rightarrow> w | Some p \<Rightarrow> w\<lparr>wi_payload := p\<rparr>)"
    have w': "wi_id w' = wi_id w" by (simp add: w'_def split: option.split)
    let ?d2 = "releaseRunnerLoad (fi_project input) (le_runner lease) t d1"
    have "lease_step (d, p) (d1, add_mset (le_work_item lease) p)"
      by (rule lease_step.interrupt [OF l]) (use Pair True id in simp)
    then have "lease_step\<^sup>*\<^sup>* (d, p) (?d2, add_mset (wi_id w') p)"
      unfolding w' w by (rule then_step [OF one_step lease_step.release_load])
    then have "lease_step\<^sup>*\<^sup>* (d, p) (fst (requeueWorkItemForRecovery (fi_project input) w' t ?d2), p)"
      by (rule rtranclp_trans [OF _ requeue_steps])
    then show ?thesis using Pair True by (simp add: finish_interrupted_def Let_def w'_def)
  qed
qed

lemma finish_terminal_steps:
  "lease_step\<^sup>*\<^sup>* (d, p) (fst (finish_terminal ref_store text newId input lease w t d), p)"
  by (auto simp: finish_terminal_def Let_def split: option.split sum.split prod.split
      intro: one_step [OF lease_step.complete])

lemma finish_bind_steps:
  assumes "finish_bind input w t d = (d', r)"
  shows "lease_step\<^sup>*\<^sup>* (d, p) (d', p)" "leases d' = leases d" "work_items d' = work_items d"
  using assms bind_steps bind_frame by (auto simp: finish_bind_def split: if_splits)

lemma finish_write_steps:
  assumes "lease \<in> set (leases d)" "le_id lease = fi_lease input" "wi_id w = le_work_item lease"
  shows "lease_step\<^sup>*\<^sup>* (d, p) (fst (finish_write ref_store text newId input lease w t now d), p)"
  using finish_active_steps [of d p input lease w t now] finish_interrupted_steps [OF assms, of p t]
    finish_terminal_steps [of d p ref_store "text" newId input lease w t]
  by (simp add: finish_write_def case_prod_beta)

lemma finish_steps: "lease_step\<^sup>*\<^sup>* (d, p) (fst (finish ref_store text newId input t now d), p)"
proof (cases "findLeaseRow (fi_project input) (fi_lease input) d")
  case l: (Some lease)
  then have lease: "lease \<in> set (leases d)" "le_id lease = fi_lease input"
    by (auto simp: findLeaseRow_def dest: sql_get_Some)
  show ?thesis
  proof (cases "findWorkItemRow (fi_project input) (le_work_item lease) d")
    case w: (Some w)
    obtain d0 e0 where 0: "finish_bind input w t d = (d0, e0)" by fastforce
    obtain d1 e1 where 1: "finish_write ref_store text newId input lease w t now d0 = (d1, e1)" by fastforce
    note b = finish_bind_steps [OF 0]
    have "lease_step\<^sup>*\<^sup>* (d0, p) (d1, p)"
      using finish_write_steps [of lease d0 input w p ref_store "text" newId t now] 1 lease b(2) found_work_item [OF w]
      by simp
    with b(1) have "lease_step\<^sup>*\<^sup>* (d, p) (d1, p)" by (rule rtranclp_trans)
    with b(1) show ?thesis
      by (cases e0; cases e1) (simp_all add: finish_def l w 0 1)
  qed (simp add: finish_def l)
qed (simp add: finish_def)

lemma failClaim_steps: "lease_step\<^sup>*\<^sup>* (d, p) (failClaim projectId leaseId w runnerId sessionId reason t d, p)"
proof -
  have 1: "lease_step\<^sup>*\<^sup>* (d, p) (stmt_fail_work_item w reason t (stmt_fail_lease leaseId t d), p)"
    by (rule then_step [OF one_step [OF lease_step.fail_lease] lease_step.fail_item])
  show ?thesis
    unfolding failClaim_def Let_def
    by (cases sessionId)
      (auto intro: then_step [OF 1 lease_step.release_load]
        then_step [OF then_step [OF 1 session_step] lease_step.release_load])
qed

lemma channel_frame:
  "leases (stmt_supersede_channels projectId s leaseId t d) = leases d"
  "work_items (stmt_supersede_channels projectId s leaseId t d) = work_items d"
  "runners (stmt_supersede_channels projectId s leaseId t d) = runners d"
  "environments (stmt_supersede_channels projectId s leaseId t d) = environments d"
  "leases (fst (stmt_accept_session projectId s t d)) = leases d"
  "work_items (fst (stmt_accept_session projectId s t d)) = work_items d"
  "runners (fst (stmt_accept_session projectId s t d)) = runners d"
  "environments (fst (stmt_accept_session projectId s t d)) = environments d"
  by (simp_all add: stmt_supersede_channels_def stmt_accept_session_def Let_def)

lemma prepareSessionChannel_steps:
  "lease_step\<^sup>*\<^sup>* (d, p) (fst (prepareSessionChannel org projectId leaseId channelId t now d), p)"
proof -
  let ?d0 = "expireStale projectId now d" and ?r = "prepareSessionChannel org projectId leaseId channelId t now d"
  have "leases (fst ?r) = leases ?d0 \<and> work_items (fst ?r) = work_items ?d0 \<and> runners (fst ?r) = runners ?d0 \<and>
    environments (fst ?r) = environments ?d0"
    unfolding prepareSessionChannel_def Let_def
    by (auto split: option.split prod.split bool.split dest!: arg_cong [of _ _ fst] simp: channel_frame
        stmt_accept_session_def stmt_supersede_channels_def Let_def)
  then have "lease_step (?d0, p) (fst ?r, p)" by (intro lease_step.other) simp_all
  with expireStale_steps show ?thesis by (rule then_step)
qed

section \<open>Exclusive leases\<close>

text \<open>
  C1 (safety): under every interleaving of claims, renewals, completions, expirations,
  interruptions, recoveries, closes, insertions and runner and environment changes, a work item
  is never leased twice: two active leases of the same work item are the same lease, and while
  it lives the item is not available to another claim and no recovery of it is pending.
\<close>

theorem one_active_lease:
  assumes "lease_init s" "lease_step\<^sup>*\<^sup>* s (d, p)"
    and "l \<in> set (leases d)" "le_state l = L_active"
    and "l' \<in> set (leases d)" "le_state l' = L_active" "le_work_item l' = le_work_item l"
  shows "l' = l \<and> count p (le_work_item l) = 0 \<and>
    (\<forall>w \<in> set (work_items d). wi_id w = le_work_item l \<longrightarrow> wi_state w \<noteq> W_available)"
proof -
  let ?w = "le_work_item l"
  have tok: "active_leases ?w d + count p ?w + available_items ?w d \<le> 1"
    by (rule lease_inv_tokens [OF lease_sys.reachable_inv [OF assms(1,2)]])
  have "l' = l"
    by (rule sql_count_le1_eq [of "\<lambda>l. le_state l = L_active \<and> le_work_item l = ?w" "leases d"])
      (use tok assms in \<open>auto simp: active_leases_def\<close>)
  moreover have "0 < active_leases ?w d"
    using assms(3,4) unfolding active_leases_def sql_count_pos by blast
  with tok have z: "count p ?w = 0" "available_items ?w d = 0" by linarith+
  from z(2) have "\<forall>w \<in> set (work_items d). wi_id w = ?w \<longrightarrow> wi_state w \<noteq> W_available"
    unfolding available_items_def sql_count_zero by blast
  ultimately show ?thesis using z(1) by blast
qed

text \<open>A concrete run: one runner, one work item, one claim.\<close>

definition demo_item :: work_item_row where
  "demo_item = \<lparr>wi_id = ''w'', wi_organization = ''o'', wi_project = ''p'', wi_session = None,
     wi_environment = None, wi_runner = None, wi_lease = None, wi_type = ''t'', wi_state = W_available,
     wi_priority = 0, wi_attempts = 0, wi_max_attempts = 3, wi_payload = JObj [], wi_result = None,
     wi_error = None, wi_available_at = 0, wi_created = 0, wi_updated = 0\<rparr>"

definition demo_runner :: runner_row where
  "demo_runner = \<lparr>ru_id = ''r'', ru_organization = ''o'', ru_project = ''p'', ru_environment = None,
     ru_state = R_active, ru_load = 0, ru_max = 1, ru_runtimes = JArr [], ru_heartbeat = Some 100,
     ru_deleted = None, ru_updated = 0\<rparr>"

definition demo_db :: db where
  "demo_db = \<lparr>sessions = [], work_items = [demo_item], leases = [], runners = [demo_runner], channels = [],
     events = [], memory_stores = [], memories = [], environments = [], creations = [], approvals = []\<rparr>"

definition demo_claim :: claim_input where
  "demo_claim = \<lparr>ci_organization = ''o'', ci_project = ''p'', ci_work_item = ''w'', ci_runner = ''r'',
     ci_duration = 60\<rparr>"

definition demo_leased :: db where
  "demo_leased = fst (batch_claim demo_claim ''l'' 100 100 demo_db)"

lemmas demo_defs = demo_item_def demo_runner_def demo_db_def demo_claim_def

lemma demo_leased_tables:
  "leases demo_leased = [new_lease demo_claim ''l'' 100 100]"
  "work_items demo_leased = [demo_item\<lparr>wi_state := W_leased, wi_runner := Some ''r'', wi_lease := Some ''l'',
     wi_attempts := 1, wi_updated := 100\<rparr>]"
  by (simp_all add: demo_leased_def demo_defs batch_claim_def claim_insert_def claim_item_def
      claim_session_def claim_load_def claiming_runner_def claimable_item_def activeLeaseCount_def
      waiting_session_def running_session_def runnerHeartbeatStaleBefore_def RUNNER_HEARTBEAT_GRACE_MS_def
      sql_exists_def claimed_by_def new_lease_def)

lemma demo_run: "lease_init (demo_db, {#})" "lease_step\<^sup>*\<^sup>* (demo_db, {#}) (demo_leased, {#})"
  unfolding demo_leased_def
  by (simp add: lease_init_def keys_ok_def demo_db_def, rule one_step [OF lease_step.claim], simp add: demo_db_def)

theorem one_active_lease_witness:
  "leases demo_leased = [new_lease demo_claim ''l'' 100 100] \<and>
   \<not> sql_exists (\<lambda>w. wi_id w = ''w'' \<and> wi_state w = W_available) (work_items demo_leased)"
  using one_active_lease [OF demo_run, of "new_lease demo_claim ''l'' 100 100" "new_lease demo_claim ''l'' 100 100"]
  by (auto simp: demo_leased_tables(1) new_lease_def demo_claim_def sql_exists_def list_ex_iff)

end
