(* ===== verification/RunnerLiveness.thy ===== *)
theory RunnerLiveness
  imports LeaseProtocol
begin

text \<open>
  Deleting runners and environments against the lease protocol: on the same steps as
  \<open>LeaseProtocol\<close>, an active lease always belongs to a runner that still exists, and a live
  runner is never attached to a deleted environment. The deletes of
  \<open>server/adapters/repos/runners.ts\<close> and \<open>environments.ts\<close> carry the guards that make this so,
  and the triggers of migration 0039 guard the attachment.
\<close>

section \<open>Views of the tables\<close>

definition active_owners :: "db \<Rightarrow> (id \<times> id) set" where
  "active_owners d = (\<lambda>l. (le_runner l, le_project l)) ` {l \<in> set (leases d). le_state l = L_active}"

definition live_runners :: "db \<Rightarrow> (id \<times> id \<times> id option) set" where
  "live_runners d = (\<lambda>r. (ru_id r, ru_project r, ru_environment r)) ` {r \<in> set (runners d). ru_deleted r = None}"

definition deleted_environments :: "db \<Rightarrow> (id \<times> id) set" where
  "deleted_environments d = (\<lambda>e. (en_id e, en_project e)) ` {e \<in> set (environments d). en_deleted e \<noteq> None}"

definition runner_inv :: "lease_system \<Rightarrow> bool" where
  "runner_inv s \<longleftrightarrow>
     (\<forall>(r, q) \<in> active_owners (fst s). \<exists>e. (r, q, e) \<in> live_runners (fst s)) \<and>
     (\<forall>(r, q, e) \<in> live_runners (fst s). \<forall>x. e = Some x \<longrightarrow> (x, q) \<notin> deleted_environments (fst s))"

definition runner_init :: "lease_system \<Rightarrow> bool" where
  "runner_init s \<longleftrightarrow> leases (fst s) = [] \<and> runners (fst s) = []"

lemma runner_inv_mono:
  assumes "runner_inv (d, p)" "active_owners d' \<subseteq> active_owners d"
    "live_runners d' = live_runners d" "deleted_environments d' = deleted_environments d"
  shows "runner_inv (d', p')"
  using assms(1,2) unfolding runner_inv_def fst_conv assms(3,4) by blast

lemma owners_update:
  assumes "leases d' = sql_update P f (leases d)"
    and "\<And>l. P l \<Longrightarrow> le_runner (f l) = le_runner l \<and> le_project (f l) = le_project l \<and>
           (le_state (f l) = L_active \<longrightarrow> le_state l = L_active)"
  shows "active_owners d' \<subseteq> active_owners d"
  unfolding active_owners_def assms(1) set_sql_update using assms(2) by (fastforce split: if_splits)

lemma owners_cong: "leases d' = leases d \<Longrightarrow> active_owners d' \<subseteq> active_owners d"
  by (simp add: active_owners_def)

lemma live_update:
  assumes "runners d' = sql_update P f (runners d)"
    and "\<And>r. P r \<Longrightarrow> ru_id (f r) = ru_id r \<and> ru_project (f r) = ru_project r \<and>
           ru_environment (f r) = ru_environment r \<and> ru_deleted (f r) = ru_deleted r"
  shows "live_runners d' = live_runners d"
proof -
  have "(\<lambda>r. (ru_deleted r, ru_id r, ru_project r, ru_environment r)) ` set (runners d') =
        (\<lambda>r. (ru_deleted r, ru_id r, ru_project r, ru_environment r)) ` set (runners d)"
    unfolding assms(1) set_sql_update image_image by (rule image_cong) (use assms(2) in auto)
  moreover have "live_runners x = snd ` {y \<in> (\<lambda>r. (ru_deleted r, ru_id r, ru_project r, ru_environment r)) ` set (runners x).
      fst y = None}" for x
    by (force simp: live_runners_def)
  ultimately show ?thesis by simp
qed

lemma live_cong: "runners d' = runners d \<Longrightarrow> live_runners d' = live_runners d"
  by (simp add: live_runners_def)

lemma deleted_cong: "environments d' = environments d \<Longrightarrow> deleted_environments d' = deleted_environments d"
  by (simp add: deleted_environments_def)

section \<open>Statements that keep the views\<close>

named_theorems views "statements that add no owner and keep the live runners"

lemma views_items [views]:
  "active_owners (stmt_requeue w payload t d) \<subseteq> active_owners d"
  "live_runners (stmt_requeue w payload t d) = live_runners d"
  "deleted_environments (stmt_requeue w payload t d) = deleted_environments d"
  "active_owners (stmt_fail_exhausted w t d) \<subseteq> active_owners d"
  "live_runners (stmt_fail_exhausted w t d) = live_runners d"
  "deleted_environments (stmt_fail_exhausted w t d) = deleted_environments d"
  "active_owners (stmt_cancel_superseded w t d) \<subseteq> active_owners d"
  "live_runners (stmt_cancel_superseded w t d) = live_runners d"
  "deleted_environments (stmt_cancel_superseded w t d) = deleted_environments d"
  "active_owners (fst (stmt_renew_item lease workItem pl t d)) \<subseteq> active_owners d"
  "live_runners (fst (stmt_renew_item lease workItem pl t d)) = live_runners d"
  "deleted_environments (fst (stmt_renew_item lease workItem pl t d)) = deleted_environments d"
  "active_owners (stmt_fail_work_item w reason t d) \<subseteq> active_owners d"
  "live_runners (stmt_fail_work_item w reason t d) = live_runners d"
  "deleted_environments (stmt_fail_work_item w reason t d) = deleted_environments d"
  "active_owners (cancelWorkItems projectId ids err t d) \<subseteq> active_owners d"
  "live_runners (cancelWorkItems projectId ids err t d) = live_runners d"
  "deleted_environments (cancelWorkItems projectId ids err t d) = deleted_environments d"
  by (simp_all add: active_owners_def live_runners_def deleted_environments_def stmt_requeue_def
      stmt_fail_exhausted_def stmt_cancel_superseded_def stmt_renew_item_def stmt_fail_work_item_def cancelWorkItems_def)

lemma views_leases [views]:
  "live_runners (stmt_renew_lease leaseId e token t d) = live_runners d"
  "deleted_environments (stmt_renew_lease leaseId e token t d) = deleted_environments d"
  "live_runners (stmt_fail_lease leaseId t d) = live_runners d"
  "deleted_environments (stmt_fail_lease leaseId t d) = deleted_environments d"
  "live_runners (cancelLeases projectId ids t d) = live_runners d"
  "deleted_environments (cancelLeases projectId ids t d) = deleted_environments d"
  "live_runners (fst (stmt_expire_lease leaseId t d)) = live_runners d"
  "deleted_environments (fst (stmt_expire_lease leaseId t d)) = deleted_environments d"
  "live_runners (fst (stmt_interrupt_lease leaseId token t d)) = live_runners d"
  "deleted_environments (fst (stmt_interrupt_lease leaseId token t d)) = deleted_environments d"
  by (simp_all add: live_runners_def deleted_environments_def stmt_renew_lease_def stmt_fail_lease_def
      cancelLeases_def stmt_expire_lease_def stmt_interrupt_lease_def cas_row_def)

lemma owners_leases [views]:
  "active_owners (stmt_renew_lease leaseId e token t d) \<subseteq> active_owners d"
  "active_owners (stmt_fail_lease leaseId t d) \<subseteq> active_owners d"
  "active_owners (cancelLeases projectId ids t d) \<subseteq> active_owners d"
  "active_owners (fst (stmt_expire_lease leaseId t d)) \<subseteq> active_owners d"
  "active_owners (fst (stmt_interrupt_lease leaseId token t d)) \<subseteq> active_owners d"
  unfolding stmt_renew_lease_def stmt_fail_lease_def cancelLeases_def stmt_expire_lease_def
    stmt_interrupt_lease_def cas_row_def
  by ((rule owners_update, simp, simp add: lease_active_def)+)

lemma views_runners [views]:
  "live_runners (releaseRunnerLoad projectId runnerId t d) = live_runners d"
  "live_runners (decrementRunnerLoad projectId runnerId t d) = live_runners d"
  "live_runners (fst (runner_update projectId runnerId st maxc t d)) = live_runners d"
  "live_runners (fst (runner_heartbeat projectId runnerId st rts t d)) = live_runners d"
  unfolding releaseRunnerLoad_def decrementRunnerLoad_def runner_update_def runner_heartbeat_def
  by ((rule live_update, simp, simp)+)

lemma deleted_runners [views]:
  "deleted_environments (releaseRunnerLoad projectId runnerId t d) = deleted_environments d"
  "deleted_environments (decrementRunnerLoad projectId runnerId t d) = deleted_environments d"
  "deleted_environments (fst (runner_update projectId runnerId st maxc t d)) = deleted_environments d"
  "deleted_environments (fst (runner_heartbeat projectId runnerId st rts t d)) = deleted_environments d"
  "deleted_environments (fst (runner_delete projectId runnerId t d)) = deleted_environments d"
  by (simp_all add: deleted_environments_def releaseRunnerLoad_def decrementRunnerLoad_def
      runner_update_def runner_heartbeat_def runner_delete_def Let_def)

section \<open>The steps that change the views\<close>

lemma runner_inv_owner:
  "runner_inv (d, p) \<Longrightarrow> l \<in> set (leases d) \<Longrightarrow> le_state l = L_active \<Longrightarrow>
   \<exists>r \<in> set (runners d). ru_id r = le_runner l \<and> ru_project r = le_project l \<and> ru_deleted r = None"
  by (force simp: runner_inv_def active_owners_def live_runners_def)

lemma runner_inv_attached:
  "runner_inv (d, p) \<Longrightarrow> r \<in> set (runners d) \<Longrightarrow> ru_deleted r = None \<Longrightarrow> ru_environment r = Some x \<Longrightarrow>
   e \<in> set (environments d) \<Longrightarrow> en_id e = x \<Longrightarrow> en_project e = ru_project r \<Longrightarrow> en_deleted e = None"
proof -
  assume inv: "runner_inv (d, p)" and r: "r \<in> set (runners d)" "ru_deleted r = None" "ru_environment r = Some x"
    and e: "e \<in> set (environments d)" "en_id e = x" "en_project e = ru_project r"
  have "(ru_id r, ru_project r, Some x) \<in> live_runners d"
    using r unfolding live_runners_def by (intro image_eqI [of _ _ r]) auto
  with inv have "(x, ru_project r) \<notin> deleted_environments d" unfolding runner_inv_def fst_conv by blast
  then show ?thesis using e unfolding deleted_environments_def by (auto simp: image_iff)
qed

lemma runner_invI:
  assumes "\<And>l. l \<in> set (leases d) \<Longrightarrow> le_state l = L_active \<Longrightarrow>
      \<exists>r \<in> set (runners d). ru_id r = le_runner l \<and> ru_project r = le_project l \<and> ru_deleted r = None"
    and "\<And>r e. r \<in> set (runners d) \<Longrightarrow> ru_deleted r = None \<Longrightarrow> e \<in> set (environments d) \<Longrightarrow>
      ru_environment r = Some (en_id e) \<Longrightarrow> en_project e = ru_project r \<Longrightarrow> en_deleted e = None"
  shows "runner_inv (d, p)"
proof -
  have "\<exists>e. (r, q, e) \<in> live_runners d" if rq: "(r, q) \<in> active_owners d" for r q
  proof -
    obtain l where l: "l \<in> set (leases d)" "le_state l = L_active" "r = le_runner l" "q = le_project l"
      using rq by (auto simp: active_owners_def)
    show ?thesis using assms(1) [OF l(1,2)] l(3,4) by (force simp: live_runners_def)
  qed
  moreover have "(x, q) \<notin> deleted_environments d" if rq: "(r, q, Some x) \<in> live_runners d" for r q x
  proof
    assume "(x, q) \<in> deleted_environments d"
    then obtain e where e: "e \<in> set (environments d)" "en_id e = x" "en_project e = q" "en_deleted e \<noteq> None"
      by (auto simp: deleted_environments_def)
    obtain r' where r': "r' \<in> set (runners d)" "ru_deleted r' = None" "ru_environment r' = Some x" "ru_project r' = q"
      using rq by (auto simp: live_runners_def)
    show False using assms(2) [OF r'(1,2) e(1)] e r' by simp
  qed
  ultimately show ?thesis unfolding runner_inv_def fst_conv by blast
qed

lemma claim_runner_inv:
  assumes inv: "runner_inv (d, p)"
  shows "runner_inv (fst (batch_claim input leaseId t now d), p)"
proof -
  let ?d = "fst (batch_claim input leaseId t now d)"
  obtain n where n: "n = sql_count (claiming_runner input t now d) (runners d) * sql_count (claimable_item input t d) (work_items d)"
    and le: "leases ?d = leases d @ replicate n (new_lease input leaseId t now)"
    by (rule batch_claim_tables [of input leaseId t now d]) blast
  have env: "environments ?d = environments d"
    by (simp add: batch_claim_def claim_insert_def claim_item_def claim_session_def claim_load_def Let_def)
  have "live_runners (claim_load input leaseId t d') = live_runners d'" for d'
    unfolding claim_load_def by (rule live_update, simp, simp)
  then have "live_runners ?d = live_runners d"
    by (simp add: batch_claim_def claim_insert_def claim_item_def claim_session_def Let_def live_runners_def)
  moreover have "\<exists>e. (ci_runner input, ci_project input, e) \<in> live_runners d" if "n \<noteq> 0"
  proof -
    from that n obtain r where "r \<in> set (runners d)" "claiming_runner input t now d r"
      by (auto simp: sql_count_zero)
    then have "(ci_runner input, ci_project input, ru_environment r) \<in> live_runners d"
      unfolding live_runners_def by (intro image_eqI [of _ _ r]) (auto simp: claiming_runner_def)
    then show ?thesis by blast
  qed
  moreover have "active_owners ?d \<subseteq> active_owners d \<union> (if n = 0 then {} else {(ci_runner input, ci_project input)})"
    by (auto simp: active_owners_def le new_lease_def)
  ultimately show ?thesis
    using inv deleted_cong [OF env] unfolding runner_inv_def fst_conv by (cases "n = 0") auto
qed

lemma drop_runner_inv:
  assumes inv: "runner_inv (d, p)"
  shows "runner_inv (fst (runner_delete projectId runnerId t d), p)"
proof (rule runner_invI)
  let ?d = "fst (runner_delete projectId runnerId t d)"
  define P where "P = (\<lambda>r :: runner_row. live_runner projectId runnerId r \<and> ru_load r = 0 \<and>
      \<not> sql_exists (\<lambda>l. le_runner l = runnerId \<and> le_project l = projectId \<and> le_state l = L_active) (leases d))"
  define f where "f = (\<lambda>r :: runner_row. r\<lparr>ru_deleted := Some t, ru_updated := t, ru_state := R_disabled\<rparr>)"
  have ru: "runners ?d = sql_update P f (runners d)" and le: "leases ?d = leases d"
    and en: "environments ?d = environments d"
    by (simp_all add: runner_delete_def Let_def P_def f_def)
  show "\<exists>r \<in> set (runners ?d). ru_id r = le_runner l \<and> ru_project r = le_project l \<and> ru_deleted r = None"
    if l: "l \<in> set (leases ?d)" "le_state l = L_active" for l
  proof -
    obtain r where r: "r \<in> set (runners d)" "ru_id r = le_runner l" "ru_project r = le_project l" "ru_deleted r = None"
      using runner_inv_owner [OF inv] l le by metis
    then have "\<not> P r" using l le by (auto simp: P_def live_runner_def sql_exists_iff)
    then have "r \<in> set (runners ?d)" using r(1) unfolding ru set_sql_update by force
    with r show ?thesis by blast
  qed
  show "en_deleted e = None"
    if "r \<in> set (runners ?d)" "ru_deleted r = None" "e \<in> set (environments ?d)"
      "ru_environment r = Some (en_id e)" "en_project e = ru_project r" for r e
  proof -
    have "r \<in> set (runners d)" using that(1,2) unfolding ru set_sql_update f_def by (auto split: if_splits)
    then show ?thesis using runner_inv_attached [OF inv _ that(2,4)] that(3,5) en by simp
  qed
qed

lemma drop_environment_inv:
  assumes inv: "runner_inv (d, p)"
  shows "runner_inv (fst (environment_delete projectId environmentId t d), p)"
proof (rule runner_invI)
  let ?d = "fst (environment_delete projectId environmentId t d)"
  define E where "E = (\<lambda>e. live_environment projectId environmentId e \<and>
      \<not> sql_exists (busy_runner projectId environmentId d) (runners d))"
  define es where "es = sql_update E (\<lambda>e. e\<lparr>en_deleted := Some t, en_updated := t\<rparr>) (environments d)"
  define R where "R = (\<lambda>r :: runner_row. ru_project r = projectId \<and> ru_environment r = Some environmentId \<and> ru_deleted r = None \<and>
      sql_exists (\<lambda>e. en_id e = environmentId \<and> en_project e = projectId \<and> en_deleted e = Some t) es)"
  define f where "f = (\<lambda>r :: runner_row. r\<lparr>ru_deleted := Some t, ru_updated := t, ru_state := R_disabled\<rparr>)"
  have ru: "runners ?d = sql_update R f (runners d)" and le: "leases ?d = leases d" and en: "environments ?d = es"
    by (simp_all add: environment_delete_def Let_def R_def f_def es_def E_def)
  have idle: "\<not> sql_exists (busy_runner projectId environmentId d) (runners d)"
    if r: "r \<in> set (runners d)" "R r" for r
  proof
    assume busy: "sql_exists (busy_runner projectId environmentId d) (runners d)"
    then have "es = environments d" by (auto simp: es_def E_def intro: sql_update_none)
    then obtain e where e: "e \<in> set (environments d)" "en_id e = environmentId" "en_project e = projectId" "en_deleted e \<noteq> None"
      using r(2) by (auto simp: R_def sql_exists_iff)
    then show False
      using runner_inv_attached [OF inv r(1), of environmentId e] r(2) by (auto simp: R_def)
  qed
  show "\<exists>r \<in> set (runners ?d). ru_id r = le_runner l \<and> ru_project r = le_project l \<and> ru_deleted r = None"
    if l: "l \<in> set (leases ?d)" "le_state l = L_active" for l
  proof -
    obtain r where r: "r \<in> set (runners d)" "ru_id r = le_runner l" "ru_project r = le_project l" "ru_deleted r = None"
      using runner_inv_owner [OF inv] l le by metis
    have "\<not> R r"
    proof
      assume "R r"
      with idle r(1) have "\<not> busy_runner projectId environmentId d r" by (auto simp: sql_exists_iff)
      with \<open>R r\<close> have "\<not> sql_exists (\<lambda>l. le_runner l = ru_id r \<and> le_project l = projectId \<and> le_state l = L_active) (leases d)"
        by (simp add: busy_runner_def R_def)
      with l le r(2,3) \<open>R r\<close> show False by (auto simp: sql_exists_iff R_def)
    qed
    then have "r \<in> set (runners ?d)" using r(1) unfolding ru set_sql_update by force
    with r show ?thesis by blast
  qed
  show "en_deleted e = None"
    if a: "r \<in> set (runners ?d)" "ru_deleted r = None" "e \<in> set (environments ?d)"
      "ru_environment r = Some (en_id e)" "en_project e = ru_project r" for r e
  proof (rule ccontr)
    assume del: "en_deleted e \<noteq> None"
    have r: "r \<in> set (runners d)" "\<not> R r"
      using a(1,2) unfolding ru set_sql_update f_def by (auto split: if_splits)
    obtain e0 where e0: "e0 \<in> set (environments d)" "e = (if E e0 then e0\<lparr>en_deleted := Some t, en_updated := t\<rparr> else e0)"
      using a(3) unfolding en es_def set_sql_update by auto
    show False
    proof (cases "E e0")
      case False
      then show False using runner_inv_attached [OF inv r(1) a(2,4)] e0 a(5) del by simp
    next
      case True
      then have "en_id e = environmentId" "en_project e = projectId" "en_deleted e = Some t"
        using e0(2) by (auto simp: E_def live_environment_def)
      then have "R r" using a by (auto simp: R_def sql_exists_iff en)
      then show False using r(2) by simp
    qed
  qed
qed

section \<open>Every step preserves the invariant\<close>

lemma complete_runner_inv:
  assumes inv: "runner_inv (d, p)"
    and b: "batch_complete newId input lease w tok sns ch reason t d = Some (d', n)"
  shows "runner_inv (d', p)"
proof -
  from b obtain d1 d2 n2 where a:
    "complete_item input lease w (provider_token w tok) t d = (d1, n)"
    "complete_lease input lease w (newId 0) tok t n d1 = (d2, n2)"
    "leases d' = leases d2"
    "runners d' = runners (fst (complete_runner input lease (newId 0) t n2 d2))"
    and env: "environments d' = environments d"
    by (rule batch_complete_tables) blast
  have 1: "leases d1 = leases d" "runners d1 = runners d"
    using a(1) by (auto simp: complete_item_def Let_def)
  have 2: "runners d2 = runners d1" using a(2) by (auto simp: complete_lease_def Let_def)
  have "d2 = fst (complete_lease input lease w (newId 0) tok t n d1)" using a(2) by simp
  then have own: "active_owners d2 \<subseteq> active_owners d1"
    unfolding complete_lease_def Let_def by (elim ssubst, intro owners_update) (simp, simp)
  have "live_runners (fst (complete_runner input lease (newId 0) t n2 d2)) = live_runners d2"
    unfolding complete_runner_def Let_def by (rule live_update, simp, simp)
  then have live: "live_runners d' = live_runners d"
    using a(4) 1 2 by (simp add: live_runners_def)
  have "active_owners d' \<subseteq> active_owners d"
    using own a(3) 1(1) by (simp add: active_owners_def)
  then show ?thesis by (rule runner_inv_mono [OF inv _ live deleted_cong [OF env]])
qed

lemma insert_runner_inv:
  assumes inv: "runner_inv (d, p)" and ins: "insertWorkItem w d = Some d'"
  shows "runner_inv (d', p)"
  by (rule runner_inv_mono [OF inv])
    (use ins in \<open>auto simp: insertWorkItem_def active_owners_def live_runners_def deleted_environments_def
      split: if_splits\<close>)

lemma queue_runner_inv:
  assumes inv: "runner_inv (d, p)"
  shows "runner_inv (fst (queueSessionWorkWhenState projectId sessionId expected upd w d), p)"
proof -
  obtain d1 hit where 1: "updateSessionWhenState projectId sessionId expected upd d = (d1, hit)" by fastforce
  then have "leases d1 = leases d" "runners d1 = runners d" "environments d1 = environments d"
    by (auto simp: updateSessionWhenState_def session_cas_def cas_row_def)
  then have inv1: "runner_inv (d1, p)"
    by (intro runner_inv_mono [OF inv] owners_cong live_cong deleted_cong)
  show ?thesis
    using inv inv1 insert_runner_inv [OF inv1]
    by (auto simp: queueSessionWorkWhenState_def 1 split: option.split)
qed

lemma attach_ok:
  "\<not> attaches_to_deleted projectId env d \<Longrightarrow> env = Some x \<Longrightarrow> (x, projectId) \<notin> deleted_environments d"
  by (auto simp: attaches_to_deleted_def deleted_environments_def sql_exists_iff)

lemma add_runner_live_inv:
  assumes inv: "runner_inv (d, p)" and ins: "runner_insert runnerId org projectId env maxc t d = Some d'"
  shows "runner_inv (d', p)"
proof -
  define y where "y = \<lparr>ru_id = runnerId, ru_organization = org, ru_project = projectId,
     ru_environment = env, ru_state = R_offline, ru_load = 0, ru_max = maxc,
     ru_runtimes = JArr [], ru_heartbeat = None, ru_deleted = None, ru_updated = t\<rparr>"
  have d': "d' = d\<lparr>runners := runners d @ [y]\<rparr>" and ok: "\<not> attaches_to_deleted projectId env d"
    using ins by (auto simp: runner_insert_def y_def split: if_splits)
  have "{r \<in> set (runners d'). ru_deleted r = None} = insert y {r \<in> set (runners d). ru_deleted r = None}"
    by (auto simp: d' y_def)
  then have "live_runners d' = insert (runnerId, projectId, env) (live_runners d)"
    by (simp add: live_runners_def y_def)
  moreover have "active_owners d' = active_owners d" "deleted_environments d' = deleted_environments d"
    by (simp_all add: d' active_owners_def deleted_environments_def)
  moreover note ok
  ultimately show ?thesis using inv attach_ok [of projectId env d] unfolding runner_inv_def fst_conv by auto
qed

lemma reregister_inv:
  assumes inv: "runner_inv (d, p)"
    and r: "runner_reregister org projectId runnerId env maxc t d = Some (d', hit)"
  shows "runner_inv (d', p)"
proof (rule runner_invI)
  define f where "f = (\<lambda>r :: runner_row. r\<lparr>ru_organization := org, ru_project := projectId, ru_environment := env,
     ru_max := maxc, ru_updated := t\<rparr>)"
  have le: "leases d' = leases d" and en: "environments d' = environments d"
    and ru: "runners d' = sql_update (live_runner projectId runnerId) f (runners d)"
    and ok: "hit \<Longrightarrow> \<not> attaches_to_deleted projectId env d" "hit = sql_exists (live_runner projectId runnerId) (runners d)"
    using r by (auto simp: runner_reregister_def Let_def f_def split: if_splits)
  show "\<exists>r \<in> set (runners d'). ru_id r = le_runner l \<and> ru_project r = le_project l \<and> ru_deleted r = None"
    if l: "l \<in> set (leases d')" "le_state l = L_active" for l
  proof -
    obtain r where r: "r \<in> set (runners d)" "ru_id r = le_runner l" "ru_project r = le_project l" "ru_deleted r = None"
      using runner_inv_owner [OF inv] l le by metis
    let ?r = "if live_runner projectId runnerId r then f r else r"
    have "?r \<in> set (runners d')" using r(1) unfolding ru set_sql_update by (rule imageI)
    moreover have "ru_id ?r = le_runner l \<and> ru_project ?r = le_project l \<and> ru_deleted ?r = None"
      using r(2-4) by (auto simp: f_def live_runner_def)
    ultimately show ?thesis by blast
  qed
  show "en_deleted e = None"
    if a: "r \<in> set (runners d')" "ru_deleted r = None" "e \<in> set (environments d')"
      "ru_environment r = Some (en_id e)" "en_project e = ru_project r" for r e
  proof -
    obtain r0 where r0: "r0 \<in> set (runners d)" "r = (if live_runner projectId runnerId r0 then f r0 else r0)"
      using a(1) unfolding ru set_sql_update by auto
    show ?thesis
    proof (cases "live_runner projectId runnerId r0")
      case True
      then have "hit" using r0(1) ok(2) by (auto simp: sql_exists_iff)
      with ok(1) have "\<not> attaches_to_deleted projectId env d" by simp
      then show ?thesis using a(3-5) True r0(2) en
        by (auto simp: f_def attaches_to_deleted_def sql_exists_iff)
    next
      case False
      then show ?thesis using runner_inv_attached [OF inv r0(1)] a r0(2) en by simp
    qed
  qed
qed

lemma runner_step_inv:
  assumes "lease_step s s'" "runner_inv s"
  shows "runner_inv s'"
  using assms
proof (induction rule: lease_step.induct)
  case (claim leaseId d p input t now)
  show ?case by (rule claim_runner_inv [OF claim(2)])
next
  case (expire l d t d' p)
  then have "d' = fst (stmt_expire_lease (le_id l) t d)" by simp
  then show ?case by (elim ssubst, intro runner_inv_mono [OF expire(3)]) (simp_all add: views)
next
  case (interrupt l d token t d' p)
  then have "d' = fst (stmt_interrupt_lease (le_id l) token t d)" by simp
  then show ?case by (elim ssubst, intro runner_inv_mono [OF interrupt(3)]) (simp_all add: views)
next
  case (complete newId input lease workItem token snapshots ch reason t d d' n p)
  show ?case by (rule complete_runner_inv [OF complete(2,1)])
next
  case (insert_item w d d' p)
  show ?case by (rule insert_runner_inv [OF insert_item(2,1)])
next
  case (queue_work d p projectId sessionId expected upd w)
  show ?case by (rule queue_runner_inv [OF queue_work])
next
  case (add_runner runnerId d org projectId env maxc t d' p)
  show ?case by (rule add_runner_live_inv [OF add_runner(3,2)])
next
  case (reregister org projectId runnerId env maxc t d d' hit p)
  show ?case by (rule reregister_inv [OF reregister(2,1)])
next
  case (drop_runner d p projectId runnerId t)
  show ?case by (rule drop_runner_inv [OF drop_runner])
next
  case (drop_environment d p projectId environmentId t)
  show ?case by (rule drop_environment_inv [OF drop_environment])
next
  case (other d' d p)
  show ?case
    by (rule runner_inv_mono [OF other(5) owners_cong [OF other(1)] live_cong [OF other(3)] deleted_cong [OF other(4)]])
qed (erule runner_inv_mono; simp add: views frame owners_cong)+

lemma runner_init_inv: "runner_init s \<Longrightarrow> runner_inv s"
  by (simp add: runner_init_def runner_inv_def active_owners_def live_runners_def)

interpretation runner_sys: safe_system runner_init lease_step runner_inv
  by unfold_locales (fact runner_init_inv, rule runner_step_inv)

text \<open>
  C2 (safety): no interleaving of heartbeats, registrations, deletions of runners and of
  environments with the lease protocol leaves an active lease with a runner that was deleted,
  or a live runner in a deleted environment.
\<close>

theorem leases_have_live_runners:
  assumes "runner_init s" "lease_step\<^sup>*\<^sup>* s (d, p)"
  shows "(\<forall>l \<in> set (leases d). le_state l = L_active \<longrightarrow>
            (\<exists>r \<in> set (runners d). ru_id r = le_runner l \<and> ru_project r = le_project l \<and> ru_deleted r = None)) \<and>
         (\<forall>r \<in> set (runners d). \<forall>e \<in> set (environments d). ru_deleted r = None \<longrightarrow>
            ru_environment r = Some (en_id e) \<longrightarrow> en_project e = ru_project r \<longrightarrow> en_deleted e = None)"
  using runner_inv_owner [OF runner_sys.reachable_inv [OF assms]]
    runner_inv_attached [OF runner_sys.reachable_inv [OF assms]] by metis

theorem leases_have_live_runners_witness:
  "\<exists>r. runners (the (runner_insert ''r'' ''o'' ''p'' None 1 0 (demo_db\<lparr>runners := []\<rparr>))) = [r] \<and>
       ru_deleted r = None \<and> leases (the (runner_insert ''r'' ''o'' ''p'' None 1 0 (demo_db\<lparr>runners := []\<rparr>))) = []"
proof -
  let ?d = "demo_db\<lparr>runners := []\<rparr>"
  obtain d' where d': "runner_insert ''r'' ''o'' ''p'' None 1 0 ?d = Some d'"
    by (simp add: runner_insert_def attaches_to_deleted_def)
  have "lease_step\<^sup>*\<^sup>* (?d, {#}) (d', {#})"
    by (rule one_step [OF lease_step.add_runner [OF _ d']]) simp
  then have "\<forall>l \<in> set (leases d'). le_state l = L_active \<longrightarrow> (\<exists>r \<in> set (runners d'). ru_deleted r = None)"
    using leases_have_live_runners [of "(?d, {#})" d' "{#}"] by (auto simp: runner_init_def demo_db_def)
  then show ?thesis using d' by (auto simp: runner_insert_def attaches_to_deleted_def demo_db_def)
qed

end
