(* ===== verification/CloudTurn.thy ===== *)
theory CloudTurn
  imports SessionStore
begin

text \<open>
  Cloud turns (\<open>server/usecases/runtime/cloud-turn.ts\<close>): the startup of a cloud runtime, the
  outcome of a model turn, the continuation chain and the queue consumer. The sandbox, the model,
  the secrets and the MCP resolution are outside the repository's core: what they answer is an
  argument (\<open>startup_world\<close>, \<open>turn_result\<close>), and so is what other processes write meanwhile
  (functions on the database). A handler returns the database, the calls it made to the outside
  in their order (\<open>effect\<close>) and a result. Times and fresh identifiers are arguments.
\<close>

section \<open>Calls to the outside\<close>

datatype audit_outcome = Success | Failure | Denied

datatype queue_message =
    Msg_start id string "string option"
  | Msg_turn id string string
  | Msg_step id "id option" string

datatype effect =
    E_stop id
  | E_idle id int
  | E_start id
  | E_enqueue queue_message int
  | E_audit string audit_outcome
  | E_event string string
  | E_archive id
  | E_assign id
  | E_abort id
  | E_send id string

section \<open>Runtime drivers\<close>

definition RUNTIME_DRIVERS :: "(string \<times> string option \<times> string option \<times> bool) list" where
  "RUNTIME_DRIVERS =
     [(''enbor'', Some ''enbor-cloud'', Some ''enbor-runtime-rpc'', True),
      (''claude-code'', None, None, False), (''codex'', None, None, False), (''copilot'', None, None, False)]"

definition isRuntimeName :: "string \<Rightarrow> bool" where
  "isRuntimeName value \<longleftrightarrow> value \<in> set (map fst RUNTIME_DRIVERS)"

definition supportsCloudStartup :: "string \<Rightarrow> bool" where
  "supportsCloudStartup runtime \<longleftrightarrow>
     (case map_of RUNTIME_DRIVERS runtime of None \<Rightarrow> False | Some (_, _, s) \<Rightarrow> s)"

definition runtimeDriverName :: "string \<Rightarrow> hosting_mode \<Rightarrow> string option" where
  "runtimeDriverName runtime hostingMode =
     (if runtime = ''enbor'' then Some ''enbor-cloud''
      else case hostingMode of
        Cloud \<Rightarrow> (case map_of RUNTIME_DRIVERS runtime of None \<Rightarrow> None | Some (b, _) \<Rightarrow> b)
      | Self_hosted \<Rightarrow> Some (runtime @ ''-self-hosted''))"

section \<open>Idle sandboxes\<close>

definition DEFAULT_SESSION_IDLE_TIMEOUT_SECONDS :: int where
  "DEFAULT_SESSION_IDLE_TIMEOUT_SECONDS = 60"

text \<open>\<open>to_number\<close> stands for \<open>Number(..)\<close> on the annotation: its value when it is an integer.\<close>

definition idleTimeoutSeconds :: "(json option \<Rightarrow> int option) \<Rightarrow> json \<Rightarrow> int" where
  "idleTimeoutSeconds to_number metadata =
     (case jget metadata ''annotations'' of
        Some (JObj kvs) \<Rightarrow>
          (case to_number (map_of kvs ''enbor.dev/idle-timeout-seconds'') of
             Some n \<Rightarrow> if n > 0 then n else DEFAULT_SESSION_IDLE_TIMEOUT_SECONDS
           | None \<Rightarrow> DEFAULT_SESSION_IDLE_TIMEOUT_SECONDS)
      | _ \<Rightarrow> DEFAULT_SESSION_IDLE_TIMEOUT_SECONDS)"

definition sessionSandboxBackend :: "session_row \<Rightarrow> string option" where
  "sessionSandboxBackend s = jstr (jget (se_metadata s) ''sandboxBackend'')"

text \<open>A failure to idle the sandbox is only audited.\<close>

definition sleepIdleCloudSession :: "(json option \<Rightarrow> int option) \<Rightarrow> bool \<Rightarrow> session_row \<Rightarrow> effect list" where
  "sleepIdleCloudSession to_number fails s =
     (case se_sandbox s of
        None \<Rightarrow> []
      | Some sb \<Rightarrow>
          if sb = [] \<or> sessionSandboxBackend s = Some ''runner-sandbox'' then []
          else E_idle sb (idleTimeoutSeconds to_number (se_metadata s)) #
            (if fails then [E_audit ''session.runtime.idle'' Failure] else []))"

section \<open>Session updates of the turn code\<close>

definition upd_state :: "session_state \<Rightarrow> string option option \<Rightarrow> time \<Rightarrow> session_update" where
  "upd_state st reason t = no_update\<lparr>su_state := Some st, su_reason := reason, su_updated := Some t\<rparr>"

definition upd_touch :: "time \<Rightarrow> session_update" where
  "upd_touch t = no_update\<lparr>su_updated := Some t\<rparr>"

section \<open>One model turn\<close>

text \<open>
  How a run of the turn engine ends: it parks, it pauses at the soft budget, it reports that it was
  aborted, it throws the exception of a cancellation (with a pending approval or without), or it fails
  (by a policy denial or otherwise).
\<close>

datatype turn_result =
    T_idle
  | T_paused
  | T_aborted
  | T_cancelled bool
  | T_failed bool string

datatype turn_outcome = O_ok | O_paused | O_requires_action | O_cancelled | O_error string

record turn_world =
  tw_result :: turn_result
  tw_during :: "db \<Rightarrow> db"
  tw_idle_fails :: bool
  tw_number :: "json option \<Rightarrow> int option"

definition set_if_running :: "id \<Rightarrow> id \<Rightarrow> session_update \<Rightarrow> db \<Rightarrow> db" where
  "set_if_running projectId sessionId u d = fst (updateSessionWhenState projectId sessionId [Running] u d)"

definition markPromptFailed :: "id \<Rightarrow> id \<Rightarrow> string \<Rightarrow> time \<Rightarrow> db \<Rightarrow> db" where
  "markPromptFailed projectId sessionId message t d =
     set_if_running projectId sessionId (upd_state Errored (Some (Some message)) t) d"

definition executeCloudSessionTurn ::
    "turn_world \<Rightarrow> id \<Rightarrow> session_row \<Rightarrow> string \<Rightarrow> time \<Rightarrow> db \<Rightarrow> db \<times> effect list \<times> turn_outcome" where
  "executeCloudSessionTurn w projectId session auditAction t d0 =
     (let d = tw_during w d0; sid = se_id session;
          sleep = sleepIdleCloudSession (tw_number w) (tw_idle_fails w) session;
          noSnapshot = ''Session agent snapshot is required'' in
      if se_agent_snapshot session = None
      then (markPromptFailed projectId sid noSnapshot t d0, [E_audit ''session.prompt'' Failure], O_error noSnapshot)
      else case tw_result w of
        T_idle \<Rightarrow>
          (set_if_running projectId sid (no_update\<lparr>su_state := Some Idle, su_updated := Some t\<rparr>) d,
           sleep @ [E_audit auditAction Success], O_ok)
      | T_paused \<Rightarrow> (set_if_running projectId sid (upd_touch t) d, [], O_paused)
      | T_aborted \<Rightarrow> (d, [E_audit auditAction Success], O_ok)
      | T_cancelled requiresAction \<Rightarrow>
          if requiresAction
          then (set_if_running projectId sid (upd_state Idle (Some (Some ''requires-action'')) t) d, sleep, O_requires_action)
          else (d, [], O_cancelled)
      | T_failed denied message \<Rightarrow>
          if denied
          then (set_if_running projectId sid (upd_state Idle (Some (Some ''policy-denied'')) t) d, sleep, O_error message)
          else (markPromptFailed projectId sid message t d, [E_audit ''session.prompt'' Failure], O_error message))"

section \<open>Starting the runtime of a pending session\<close>

text \<open>
  \<open>sw_prepare\<close> is the first error of the MCP, secret and manifest resolution, if any;
  \<open>sw_start\<close> is what the sandbox answers; \<open>sw_stop_fails\<close> the error of stopping it. The four
  functions are the writes of other processes before the launch, during it, before the record and
  after it.
\<close>

record startup_world =
  sw_provider :: "string option"
  sw_prepare :: "string option"
  sw_start :: "string + json"
  sw_stop_fails :: "string option"
  sw_idle_fails :: bool
  sw_mcp :: json
  sw_before_launch :: "db \<Rightarrow> db"
  sw_during_launch :: "db \<Rightarrow> db"
  sw_before_record :: "db \<Rightarrow> db"
  sw_after_record :: "db \<Rightarrow> db"
  sw_number :: "json option \<Rightarrow> int option"
  sw_inline :: "turn_world option"

record startup_times =
  st_claim :: time
  st_launch :: time
  st_started :: time
  st_failed :: time
  st_submit :: time

definition runtime_metadata :: "string \<Rightarrow> json \<Rightarrow> json \<Rightarrow> json" where
  "runtime_metadata runtime mcp metadata =
     (let s = (\<lambda>x. case x of None \<Rightarrow> JNull | Some v \<Rightarrow> JStr v);
          drv = (case map_of RUNTIME_DRIVERS runtime of None \<Rightarrow> (None, None) | Some (b, p, _) \<Rightarrow> (b, p)) in
      jset ''eventStore'' (JStr ''session-do'') (jset ''mcpConnectors'' mcp
        (jset ''runtimeProtocol'' (s (snd drv)) (jset ''runtimeBackend'' (s (fst drv))
          (jset ''runtimeDriver'' (s (runtimeDriverName runtime Cloud)) metadata)))))"

definition started_update :: "id \<Rightarrow> id \<Rightarrow> time \<Rightarrow> session_update" where
  "started_update sandboxId startupId t =
     no_update\<lparr>su_sandbox := Some (Some sandboxId), su_resume_token := Some None, su_endpoint_path := Some None,
       su_state := Some Idle, su_active_turn := Some (Some startupId),
       su_turn_expires := Some (Some (turnLeaseExpiry t)), su_started := Some (Some t),
       su_closed := Some None, su_updated := Some t\<rparr>"

definition startup_failed_update :: "string \<Rightarrow> time \<Rightarrow> session_update" where
  "startup_failed_update message t =
     no_update\<lparr>su_state := Some Errored, su_reason := Some (Some message), su_active_turn := Some None,
       su_turn_expires := Some None, su_updated := Some t\<rparr>"

text \<open>
  Seeding the first turn: the session must be idle or running. Without a queue the turn runs
  inline (\<open>sw_inline\<close>), and its outcome is not looked at.
\<close>

definition dispatchPrompt ::
    "turn_world option \<Rightarrow> id \<Rightarrow> session_row \<Rightarrow> string \<Rightarrow> time \<Rightarrow> db \<Rightarrow> db \<times> effect list \<times> (string + unit)" where
  "dispatchPrompt inline projectId session prompt t d =
     (case updateSessionWhenState projectId (se_id session) [Idle, Running] (upd_state Running (Some None) t) d of
        (d1, False) \<Rightarrow> (d1, [], Inl ''Session runtime is no longer active'')
      | (d1, True) \<Rightarrow>
          (case inline of
             Some w \<Rightarrow>
               (case executeCloudSessionTurn w projectId session ''session.prompt'' t d1 of
                  (d2, es, _) \<Rightarrow> (d2, es, Inr ()))
           | None \<Rightarrow> (d1, [E_enqueue (Msg_turn (se_id session) prompt ''session.prompt'') 0], Inr ())))"

definition startup_catch ::
    "startup_world \<Rightarrow> id \<Rightarrow> session_row \<Rightarrow> id \<Rightarrow> id \<Rightarrow> string \<Rightarrow> time \<Rightarrow> string \<Rightarrow> db \<Rightarrow> db \<times> effect list" where
  "startup_catch w projectId pending sandboxId startupId runtime t message d =
     (let sid = se_id pending;
          backend = (case map_of RUNTIME_DRIVERS runtime of Some (Some b, _) \<Rightarrow> JStr b | _ \<Rightarrow> JNull);
          meta = JObj [(''runtimeDriver'', case runtimeDriverName runtime Cloud of None \<Rightarrow> JNull | Some x \<Rightarrow> JStr x),
                       (''runtimeBackend'', backend), (''error'', JObj [(''message'', JStr message)])] in
      case failCloudSessionStart projectId sid (se_started pending) startupId (startup_failed_update message t) meta d of
        (d1, False) \<Rightarrow> (d1, if findSession projectId sid d1 = None then [E_stop sandboxId] else [])
      | (d1, True) \<Rightarrow>
          (d1, [E_stop sandboxId, E_event ''runtime.error'' message, E_audit ''session.runtime.start'' Failure]))"

text \<open>What follows the recorded start: idle the sandbox or seed the first turn, release the lease.\<close>

definition startup_recorded ::
    "startup_world \<Rightarrow> id \<Rightarrow> id \<Rightarrow> id \<Rightarrow> string option \<Rightarrow> startup_times \<Rightarrow> db \<Rightarrow> db \<times> effect list \<times> string option" where
  "startup_recorded w projectId sid startupId prompt tms d =
     (case findSession projectId sid d of
        None \<Rightarrow> (d, [], Some ''Started Session row is required'')
      | Some started \<Rightarrow>
          (let idle = (if truthy_str prompt then [] else sleepIdleCloudSession (sw_number w) (sw_idle_fails w) started);
               d1 = fst (releaseTurnLease projectId sid startupId no_update d);
               done = idle @ [E_audit ''session.runtime.start'' Success] in
           if truthy_str prompt
           then (case dispatchPrompt (sw_inline w) projectId started (the prompt) (st_submit tms) d1 of
                   (d2, es, Inl e) \<Rightarrow> (d2, done @ es, Some e)
                 | (d2, es, Inr _) \<Rightarrow> (d2, done @ es, None))
           else (d1, done, None)))"

text \<open>The launch itself; the last component is the error that reaches the handler's catch block.\<close>

definition startup_launch ::
    "startup_world \<Rightarrow> id \<Rightarrow> session_row \<Rightarrow> id \<Rightarrow> id \<Rightarrow> string \<Rightarrow> string option \<Rightarrow> startup_times \<Rightarrow> db \<Rightarrow>
     db \<times> effect list \<times> string option" where
  "startup_launch w projectId pending sandboxId startupId runtime prompt tms d =
     (let sid = se_id pending in
      case sw_start w of
        Inl e \<Rightarrow> (sw_during_launch w d, [E_start sandboxId], Some e)
      | Inr metadata \<Rightarrow>
          (let d1 = sw_during_launch w d in
           if sessionState projectId sid d1 \<noteq> Some Pending
           then (d1, E_start sandboxId # (if findSession projectId sid d1 = None then [E_stop sandboxId] else []), None)
           else
             (case completeCloudSessionStart projectId sid (se_started pending) startupId
                     (started_update sandboxId startupId (st_started tms))
                     (runtime_metadata runtime (sw_mcp w) metadata) (sw_before_record w d1) of
                (d2, False) \<Rightarrow>
                  (case sessionState projectId sid d2 of
                     Some st \<Rightarrow>
                       if st \<in> {Idle, Running, Pending} then (d2, [E_start sandboxId], None)
                       else (d2, [E_start sandboxId, E_stop sandboxId], sw_stop_fails w)
                   | None \<Rightarrow> (d2, [E_start sandboxId], None))
              | (d2, True) \<Rightarrow>
                  (case startup_recorded w projectId sid startupId prompt tms (sw_after_record w d2) of
                     (d3, es, err) \<Rightarrow> (d3, E_start sandboxId # es, err)))))"

definition startup_try ::
    "startup_world \<Rightarrow> id \<Rightarrow> session_row \<Rightarrow> id \<Rightarrow> id \<Rightarrow> string \<Rightarrow> string option \<Rightarrow> startup_times \<Rightarrow> db \<Rightarrow>
     db \<times> effect list \<times> string option" where
  "startup_try w projectId pending sandboxId startupId runtime prompt tms d =
     (let d1 = sw_before_launch w d in
      case sw_prepare w of
        Some e \<Rightarrow> (d1, [], Some e)
      | None \<Rightarrow>
          if \<not> truthy_str (sw_provider w) then (d1, [], Some ''Cloud session provider is required'')
          else (case renewTurnLease projectId (se_id pending) startupId (lifecycleLeaseExpiry (st_launch tms)) d1 of
                  (d2, False) \<Rightarrow> (d2, [], None)
                | (d2, True) \<Rightarrow> startup_launch w projectId pending sandboxId startupId runtime prompt tms d2))"

definition startSessionRuntimeForRow ::
    "startup_world \<Rightarrow> id \<Rightarrow> session_row \<Rightarrow> id \<Rightarrow> id \<Rightarrow> string \<Rightarrow> string option \<Rightarrow> startup_times \<Rightarrow> db \<Rightarrow>
     db \<times> effect list \<times> (string + unit)" where
  "startSessionRuntimeForRow w projectId pending sandboxId startupId runtime prompt tms d =
     (if \<not> supportsCloudStartup runtime
      then (d, [], Inl (''Runtime '' @ runtime @ '' does not support cloud session startup''))
      else (case acquirePendingStartupLease projectId (se_id pending) (se_started pending) startupId
                   (lifecycleLeaseExpiry (st_claim tms)) (st_claim tms) d of
              (d1, False) \<Rightarrow> (d1, [], Inr ())
            | (d1, True) \<Rightarrow>
                (case startup_try w projectId pending sandboxId startupId runtime prompt tms d1 of
                   (d2, es, None) \<Rightarrow> (d2, es, Inr ())
                 | (d2, es, Some e) \<Rightarrow>
                     (case startup_catch w projectId pending sandboxId startupId runtime (st_failed tms) e d2 of
                        (d3, es') \<Rightarrow> (d3, es @ es', Inr ())))))"

section \<open>The continuation chain\<close>

definition handleTurnOutcome ::
    "turn_world \<Rightarrow> id \<Rightarrow> session_row \<Rightarrow> id \<Rightarrow> string \<Rightarrow> turn_outcome \<Rightarrow> time \<Rightarrow> db \<Rightarrow> db \<times> effect list" where
  "handleTurnOutcome w projectId session turnId auditAction outcome t d =
     (let sid = se_id session in
      if outcome = O_paused
      then (case incrementContinuationDepth projectId sid turnId d of
              (d1, depth) \<Rightarrow>
                if depth \<ge> MAX_CONTINUATION_DEPTH
                then (fst (releaseTurnLease projectId sid turnId
                             (upd_state Idle (Some (Some CONTINUATION_LIMIT_REASON)) t) d1),
                      sleepIdleCloudSession (tw_number w) (tw_idle_fails w) session)
                else (fst (renewTurnLease projectId sid turnId (turnLeaseExpiry t) d1),
                      [E_enqueue (Msg_step sid (Some turnId) auditAction) 0]))
      else (fst (releaseTurnLease projectId sid turnId no_update d), []))"

definition runLeasedTurn ::
    "turn_world \<Rightarrow> id \<Rightarrow> session_row \<Rightarrow> id \<Rightarrow> string \<Rightarrow> queue_message \<Rightarrow> time \<Rightarrow> time \<Rightarrow> db \<Rightarrow> db \<times> effect list" where
  "runLeasedTurn w projectId session turnId auditAction deferMessage t t' d =
     (case acquireTurnLease projectId (se_id session) turnId (turnLeaseExpiry t) t d of
        (d1, False) \<Rightarrow> (d1, [E_enqueue deferMessage TURN_LEASE_RETRY_DELAY_SECONDS])
      | (d1, True) \<Rightarrow>
          (case executeCloudSessionTurn w projectId session auditAction t' d1 of
             (d2, es, outcome) \<Rightarrow>
               (case handleTurnOutcome w projectId session turnId auditAction outcome t' d2 of
                  (d3, es') \<Rightarrow> (d3, es @ es'))))"

section \<open>The queue consumer\<close>

text \<open>
  A message that exhausted its retries: the session is errored and the turn columns are cleared,
  whoever holds them.
\<close>

definition markCloudTurnDeadLettered :: "id \<Rightarrow> queue_message \<Rightarrow> time \<Rightarrow> db \<Rightarrow> db \<times> effect list" where
  "markCloudTurnDeadLettered projectId message t d =
     (let sid = (case message of Msg_start s _ _ \<Rightarrow> s | Msg_turn s _ _ \<Rightarrow> s | Msg_step s _ _ \<Rightarrow> s);
          action = (case message of Msg_start _ _ _ \<Rightarrow> ''session.runtime.start'' | _ \<Rightarrow> ''session.command'') in
      (fst (updateSessionWhenState projectId sid [Pending, Running]
              ((upd_state Errored (Some (Some ''cloud-turn-failed'')) t)
                 \<lparr>su_active_turn := Some None, su_turn_expires := Some None\<rparr>) d),
       [E_audit action Failure]))"

record consumer_world =
  cw_startup :: startup_world
  cw_turn :: turn_world
  cw_times :: startup_times
  cw_turn_id :: id
  cw_sandbox :: id
  cw_now :: time
  cw_after :: time

definition consume_start ::
    "consumer_world \<Rightarrow> id \<Rightarrow> session_row \<Rightarrow> string \<Rightarrow> string option \<Rightarrow> db \<Rightarrow> db \<times> effect list \<times> (string + unit)" where
  "consume_start w projectId session runtime prompt d =
     (if domainSessionState (se_state session) \<noteq> Pending then (d, [], Inr ())
      else if se_agent_snapshot session = None
      then (d, [], Inl ''Session agent snapshot is required for cloud startup'')
      else if \<not> isRuntimeName runtime
      then (case markCloudTurnDeadLettered projectId (Msg_start (se_id session) runtime prompt) (cw_now w) d of
              (d1, es) \<Rightarrow> (d1, es, Inr ()))
      else startSessionRuntimeForRow (cw_startup w) projectId session (cw_sandbox w) (cw_turn_id w) runtime prompt
             (cw_times w) d)"

definition consume_step ::
    "consumer_world \<Rightarrow> id \<Rightarrow> session_row \<Rightarrow> id option \<Rightarrow> string \<Rightarrow> db \<Rightarrow> db \<times> effect list" where
  "consume_step w projectId session turnId auditAction d =
     (if domainSessionState (se_state session) \<noteq> Running then (d, [])
      else if truthy_str turnId
      then (case renewTurnLease projectId (se_id session) (the turnId) (turnLeaseExpiry (cw_now w)) d of
              (d1, False) \<Rightarrow> (d1, [])
            | (d1, True) \<Rightarrow>
                (case executeCloudSessionTurn (cw_turn w) projectId session auditAction (cw_after w) d1 of
                   (d2, es, outcome) \<Rightarrow>
                     (case handleTurnOutcome (cw_turn w) projectId session (the turnId) auditAction outcome (cw_after w) d2 of
                        (d3, es') \<Rightarrow> (d3, es @ es'))))
      else runLeasedTurn (cw_turn w) projectId session (cw_turn_id w) auditAction
             (Msg_step (se_id session) turnId auditAction) (cw_now w) (cw_after w) d)"

definition consume_turn ::
    "consumer_world \<Rightarrow> id \<Rightarrow> session_row \<Rightarrow> string \<Rightarrow> string \<Rightarrow> db \<Rightarrow> db \<times> effect list" where
  "consume_turn w projectId session prompt auditAction d =
     (let sid = se_id session;
          run = runLeasedTurn (cw_turn w) projectId session (cw_turn_id w) auditAction
                  (Msg_turn sid prompt auditAction) (cw_now w) (cw_after w) in
      case domainSessionState (se_state session) of
        Idle \<Rightarrow>
          (case updateSessionWhenState projectId sid [Idle] (upd_state Running (Some None) (cw_now w)) d of
             (d1, False) \<Rightarrow> (d1, [])
           | (d1, True) \<Rightarrow> run d1)
      | Running \<Rightarrow> run d
      | _ \<Rightarrow> (d, []))"

definition consumeCloudTurnQueueMessage ::
    "consumer_world \<Rightarrow> id \<Rightarrow> queue_message \<Rightarrow> db \<Rightarrow> db \<times> effect list \<times> (string + unit)" where
  "consumeCloudTurnQueueMessage w projectId message d =
     (let sid = (case message of Msg_start s _ _ \<Rightarrow> s | Msg_turn s _ _ \<Rightarrow> s | Msg_step s _ _ \<Rightarrow> s) in
      case findSession projectId sid d of
        None \<Rightarrow> (d, [], Inr ())
      | Some session \<Rightarrow>
          (case message of
             Msg_start _ runtime prompt \<Rightarrow> consume_start w projectId session runtime prompt d
           | Msg_step _ turnId auditAction \<Rightarrow>
               (case consume_step w projectId session turnId auditAction d of (d1, es) \<Rightarrow> (d1, es, Inr ()))
           | Msg_turn _ prompt auditAction \<Rightarrow>
               (case consume_turn w projectId session prompt auditAction d of (d1, es) \<Rightarrow> (d1, es, Inr ()))))"

end
