(* ===== verification/LeaseFacts.thy ===== *)
theory LeaseFacts
  imports LeaseProtocol
begin

text \<open>
  What each method of the lease repository does to the database, branch by branch: a granted
  claim, a refused claim, a renewal, a terminal completion, a request by a runner that no longer
  owns the lease, and the recovery of a work item.
\<close>

section \<open>Claims\<close>

lemma activeLeaseCount_cong: "leases d' = leases d \<Longrightarrow> activeLeaseCount q r t d' = activeLeaseCount q r t d"
  by (simp add: activeLeaseCount_def)

lemma activeLeaseCount_new:
  "leases d' = leases d @ [new_lease input leaseId t now] \<Longrightarrow>
   activeLeaseCount (ci_project input) (ci_runner input) t d' \<le>
     Suc (activeLeaseCount (ci_project input) (ci_runner input) t d)"
  by (simp add: activeLeaseCount_def)

lemma claim_result:
  assumes "claim input leaseId t now d = (d', Inr (Claimed l s))" "keys_ok d"
  obtains w r where
    "d' = fst (batch_claim input leaseId t now d)"
    "leases d' = leases d @ [new_lease input leaseId t now]" "l = new_lease input leaseId t now"
    "w \<in> set (work_items d)" "claimable_item input t d w" "s = wi_session w"
    "r \<in> set (runners d)" "claiming_runner input t now d r"
    "work_items d' = sql_update (claimable_item input t d)
       (\<lambda>w. w\<lparr>wi_state := W_leased, wi_runner := Some (ci_runner input), wi_lease := Some leaseId,
              wi_attempts := wi_attempts w + 1, wi_updated := t\<rparr>) (work_items d)"
proof -
  let ?b = "batch_claim input leaseId t now d"
  obtain n where n: "fst (snd ?b) = n"
    "n = sql_count (claiming_runner input t now d) (runners d) * sql_count (claimable_item input t d) (work_items d)"
    and le: "leases (fst ?b) = leases d @ replicate n (new_lease input leaseId t now)"
    and wi: "work_items (fst ?b) = sql_update (\<lambda>w. claimable_item input t d w \<and> n = 1)
         (\<lambda>w. w\<lparr>wi_state := W_leased, wi_runner := Some (ci_runner input), wi_lease := Some leaseId,
                wi_attempts := wi_attempts w + 1, wi_updated := t\<rparr>) (work_items d)"
    and got: "snd (snd ?b) = filter (\<lambda>w. claimable_item input t d w \<and> n = 1) (work_items d)"
    by (rule batch_claim_tables [of input leaseId t now d]) blast
  have c: "d' = fst ?b" "n \<noteq> 0" "\<exists>w ws. snd (snd ?b) = w # ws \<and> s = wi_session w" "l = new_lease input leaseId t now"
    using assms(1) n(1) by (auto simp: claim_def case_prod_beta split: if_splits option.splits list.splits)
  have "n \<le> 1" unfolding n(2) using mult_le_mono [OF claim_count_le1 [OF assms(2)]] by simp
  with c(2) have n1: "n = 1" by simp
  obtain w ws where "snd (snd ?b) = w # ws" and s: "s = wi_session w" using c(3) by blast
  then have w: "w \<in> set (filter (\<lambda>w. claimable_item input t d w \<and> n = 1) (work_items d))"
    unfolding got by simp
  from n1 n(2) have "sql_count (claiming_runner input t now d) (runners d) \<noteq> 0" by (metis mult_0 zero_neq_one)
  then obtain r where r: "r \<in> set (runners d)" "claiming_runner input t now d r"
    by (auto simp: sql_count_zero)
  show thesis
    by (rule that [of w r]) (use c le wi w s r n1 in simp_all)
qed

lemma claimed_items:
  assumes "\<forall>x \<in> set (work_items d). wi_lease x \<noteq> Some leaseId"
    "claimable_item input t d w" "w \<in> set (work_items d)" "keys_ok d"
    "work_items d2 = sql_update (claimable_item input t d)
       (\<lambda>w. w\<lparr>wi_state := W_leased, wi_runner := Some (ci_runner input), wi_lease := Some leaseId,
              wi_attempts := wi_attempts w + 1, wi_updated := t\<rparr>) (work_items d)"
  shows "{x \<in> set (work_items d2). claimed_by input leaseId x} =
     {w\<lparr>wi_state := W_leased, wi_runner := Some (ci_runner input), wi_lease := Some leaseId,
        wi_attempts := wi_attempts w + 1, wi_updated := t\<rparr>}" (is "?L = {?f w}")
proof -
  have "x = ?f w" if x: "x \<in> set (work_items d2)" "claimed_by input leaseId x" for x
  proof -
    obtain y where y: "y \<in> set (work_items d)" "x = (if claimable_item input t d y then ?f y else y)"
      using x(1) unfolding assms(5) set_sql_update by auto
    have c: "claimable_item input t d y" using x(2) y assms(1) by (auto simp: claimed_by_def split: if_splits)
    have "y = w"
      using distinct_key_eq [of wi_id "work_items d" y w] assms(2-4) y(1) c
      by (simp add: keys_ok_def claimable_item_def)
    then show ?thesis using y(2) c by simp
  qed
  moreover have "?f w \<in> ?L"
    using assms(2,3) unfolding assms(5) set_sql_update
    by (auto simp: claimed_by_def claimable_item_def image_iff intro!: bexI [of _ w])
  ultimately show ?thesis by blast
qed

text \<open>
  A granted claim. The work item was available and due and is now leased to the
  runner under the new lease with one more attempt; the runner was live, active and fresh, and
  with this lease it holds at most as many active leases as its limit; its recorded load is the
  number of leases it now holds; the session of the item, if any, was waiting and is now running.
\<close>

theorem claim_grants:
  assumes keys: "keys_ok d" and unused: "\<forall>x \<in> set (work_items d). wi_lease x \<noteq> Some leaseId"
    and c: "claim input leaseId t now d = (d', Inr (Claimed l s))"
  shows "\<exists>w \<in> set (work_items d). \<exists>r \<in> set (runners d).
     claimable_item input t d w \<and> s = wi_session w \<and> l = new_lease input leaseId t now \<and> leases d' = leases d @ [l] \<and>
     w\<lparr>wi_state := W_leased, wi_runner := Some (ci_runner input), wi_lease := Some leaseId,
       wi_attempts := wi_attempts w + 1, wi_updated := t\<rparr> \<in> set (work_items d') \<and>
     claiming_runner input t now d r \<and>
     activeLeaseCount (ci_project input) (ci_runner input) t d' \<le> ru_max r \<and>
     r\<lparr>ru_load := activeLeaseCount (ci_project input) (ci_runner input) t d', ru_updated := t\<rparr> \<in> set (runners d') \<and>
     (\<forall>x. s = Some x \<longrightarrow>
        (\<exists>r0 \<in> set (sessions d). live_session (ci_project input) x r0 \<and> se_state r0 = P_pending \<and>
           r0\<lparr>se_state := P_running, se_reason := None, se_started := Some t, se_updated := t\<rparr> \<in> set (sessions d')))"
proof -
  obtain w r where a: "d' = fst (batch_claim input leaseId t now d)"
    "leases d' = leases d @ [new_lease input leaseId t now]" "l = new_lease input leaseId t now"
    "w \<in> set (work_items d)" "claimable_item input t d w" "s = wi_session w"
    "r \<in> set (runners d)" "claiming_runner input t now d r"
    "work_items d' = sql_update (claimable_item input t d)
       (\<lambda>w. w\<lparr>wi_state := W_leased, wi_runner := Some (ci_runner input), wi_lease := Some leaseId,
              wi_attempts := wi_attempts w + 1, wi_updated := t\<rparr>) (work_items d)"
    by (rule claim_result [OF c keys])
  let ?w = "w\<lparr>wi_state := W_leased, wi_runner := Some (ci_runner input), wi_lease := Some leaseId,
       wi_attempts := wi_attempts w + 1, wi_updated := t\<rparr>"
  obtain d2 cl n where d2: "claim_item input leaseId t n (fst (claim_insert input leaseId t now d)) = (d2, cl)"
    "n = snd (claim_insert input leaseId t now d)" by fastforce
  have d': "d' = claim_load input leaseId t (claim_session input leaseId t d2)"
    using a(1) d2 by (simp add: batch_claim_def case_prod_beta)
  have same: "work_items d' = work_items d2" "leases d' = leases d2" "runners d2 = runners d" "sessions d2 = sessions d"
    using d2 by (auto simp: d' claim_load_def claim_session_def claim_item_def claim_insert_def Let_def)
  note one = claimed_items [OF unused a(5,4) keys, of d2, folded same(1), OF a(9)]
  have ex: "sql_exists (\<lambda>x. claimed_by input leaseId x \<and> Q x) (work_items d2) \<longleftrightarrow> Q ?w" for Q
  proof -
    have "x \<in> set (work_items d2) \<and> claimed_by input leaseId x \<longleftrightarrow> x = ?w" for x
      using one unfolding same(1) by blast
    then show ?thesis unfolding sql_exists_iff by metis
  qed
  have proj: "wi_project ?w = ci_project input" using a(5) by (simp add: claimable_item_def)
  have sess: "sessions d' = sql_update
      (\<lambda>s. se_project s = ci_project input \<and> se_deleted s = None \<and> se_state s = P_pending \<and>
           waiting_reason (se_reason s) \<and> wi_session w = Some (se_id s))
      (\<lambda>s. s\<lparr>se_state := P_running, se_reason := None, se_started := Some t, se_updated := t\<rparr>) (sessions d)"
    unfolding d' claim_load_def claim_session_def using ex [of "\<lambda>x. wi_project x = ci_project input \<and> wi_session x = Some (se_id _)"]
    by (simp add: same ex proj [simplified])
  have waiting: "\<exists>r0 \<in> set (sessions d). live_session (ci_project input) x r0 \<and> se_state r0 = P_pending \<and>
           r0\<lparr>se_state := P_running, se_reason := None, se_started := Some t, se_updated := t\<rparr> \<in> set (sessions d')"
    if sx: "s = Some x" for x
  proof -
    have wx: "wi_session w = Some x" using sx a(6) by simp
    obtain r0 where r0: "r0 \<in> set (sessions d)" "live_session (ci_project input) x r0" "se_state r0 = P_pending"
      "waiting_reason (se_reason r0)"
      using a(5) wx by (auto simp: claimable_item_def waiting_session_def sql_exists_iff)
    then have "r0\<lparr>se_state := P_running, se_reason := None, se_started := Some t, se_updated := t\<rparr> \<in> set (sessions d')"
      unfolding sess set_sql_update using wx by (auto simp: live_session_def image_iff intro!: bexI [of _ r0])
    then show ?thesis using r0 by blast
  qed
  have run: "running_session (ci_project input) (wi_session w) (claim_session input leaseId t d2)"
  proof (cases "wi_session w")
    case (Some x)
    then obtain r0 where "r0 \<in> set (sessions d)" "live_session (ci_project input) x r0"
      "r0\<lparr>se_state := P_running, se_reason := None, se_started := Some t, se_updated := t\<rparr> \<in> set (sessions d')"
      using waiting a(6) by metis
    moreover have "sessions (claim_session input leaseId t d2) = sessions d'" by (simp add: d' claim_load_def)
    ultimately show ?thesis using Some
      by (auto simp: running_session_def sql_exists_iff live_session_def
          intro!: bexI [of _ "r0\<lparr>se_state := P_running, se_reason := None, se_started := Some t, se_updated := t\<rparr>"])
  qed (simp add: running_session_def)
  have load: "r\<lparr>ru_load := activeLeaseCount (ci_project input) (ci_runner input) t d', ru_updated := t\<rparr> \<in> set (runners d')"
  proof -
    have cnt: "activeLeaseCount q i t (claim_session input leaseId t d2) = activeLeaseCount q i t d'" for q i
      by (rule activeLeaseCount_cong) (simp add: d' claim_load_def)
    have "sql_exists (\<lambda>x. claimed_by input leaseId x \<and>
        running_session (ci_project input) (wi_session x) (claim_session input leaseId t d2)) (work_items d2)"
      using run by (simp add: ex)
    moreover have "work_items (claim_session input leaseId t d2) = work_items d2"
      "runners (claim_session input leaseId t d2) = runners d"
      using same(3) by (simp_all add: claim_session_def)
    ultimately have ru: "runners d' = sql_update (\<lambda>r. ru_id r = ci_runner input \<and> ru_project r = ci_project input)
        (\<lambda>r. r\<lparr>ru_load := activeLeaseCount (ci_project input) (ci_runner input) t d', ru_updated := t\<rparr>) (runners d)"
      unfolding cnt [symmetric] by (simp add: d' claim_load_def)
    show ?thesis
      unfolding ru set_sql_update using a(7,8) by (auto simp: claiming_runner_def intro!: image_eqI [of _ _ r])
  qed
  have cap: "activeLeaseCount (ci_project input) (ci_runner input) t d' \<le> ru_max r"
    using activeLeaseCount_new [OF a(2)] a(8) by (simp add: claiming_runner_def)
  have "?w \<in> set (work_items d')" using one by blast
  then show ?thesis using a cap load waiting by blast
qed

lemma demo_claimed:
  "claim demo_claim ''l'' 100 100 demo_db = (demo_leased, Inr (Claimed (new_lease demo_claim ''l'' 100 100) None))"
  by (simp add: claim_def demo_leased_def case_prod_beta demo_defs batch_claim_def claim_insert_def claim_item_def
      claiming_runner_def claimable_item_def activeLeaseCount_def waiting_session_def
      runnerHeartbeatStaleBefore_def RUNNER_HEARTBEAT_GRACE_MS_def)

lemma demo_claim_fields:
  "ci_work_item demo_claim = ''w''" "ci_project demo_claim = ''p''" "ci_runner demo_claim = ''r''"
  by (simp_all add: demo_claim_def)

theorem claim_grants_witness:
  "\<exists>r \<in> set (runners demo_db). activeLeaseCount ''p'' ''r'' 100 demo_leased \<le> ru_max r"
proof -
  have "keys_ok demo_db" "\<forall>x \<in> set (work_items demo_db). wi_lease x \<noteq> Some ''l''"
    by (simp_all add: keys_ok_def demo_defs)
  from claim_grants [OF this demo_claimed] show ?thesis by (auto simp: demo_claim_def)
qed

text \<open>
  A refused claim changes nothing at all, whatever the reason of the refusal: no
  lease row, no attempt, no session and no load is touched. It is refused only when no claimable
  item or no claiming runner is there, and it reports a full runner only while the item is still
  available and due.
\<close>

theorem claim_refused:
  assumes keys: "keys_ok d" and unused: "\<forall>x \<in> set (work_items d). wi_lease x \<noteq> Some leaseId"
    and c: "claim input leaseId t now d = (d', Inr r)" and r: "r = At_capacity \<or> r = Work_item_lost"
  shows "d' = d \<and>
     (\<not> sql_exists (claimable_item input t d) (work_items d) \<or> \<not> sql_exists (claiming_runner input t now d) (runners d)) \<and>
     (r = At_capacity \<longleftrightarrow>
        (\<exists>w \<in> set (work_items d). wi_id w = ci_work_item input \<and> wi_project w = ci_project input \<and>
           wi_state w = W_available \<and> wi_available_at w \<le> t))"
proof -
  let ?b = "batch_claim input leaseId t now d"
  obtain n where n: "fst (snd ?b) = n"
    "n = sql_count (claiming_runner input t now d) (runners d) * sql_count (claimable_item input t d) (work_items d)"
    by (rule batch_claim_tables [of input leaseId t now d]) blast
  have n0: "n = 0" and d': "d' = fst ?b" and cap: "r = At_capacity \<longleftrightarrow>
      (\<exists>w. findWorkItemRow (ci_project input) (ci_work_item input) d' = Some w \<and>
           wi_state w = W_available \<and> wi_available_at w \<le> t)"
    using c n(1) r by (auto simp: claim_def case_prod_beta split: if_splits option.splits list.splits)
  have ins: "claim_insert input leaseId t now d = (d, 0)"
    using n(2) n0 by (auto simp: claim_insert_def Let_def)
  have it: "claim_item input leaseId t 0 d = (d, [])"
    by (simp add: claim_item_def sql_update_none)
  have none: "\<not> sql_exists (\<lambda>x. claimed_by input leaseId x \<and> Q x) (work_items d)" for Q
    using unused by (auto simp: sql_exists_iff claimed_by_def)
  have se: "claim_session input leaseId t d = d"
    using none by (simp add: claim_session_def sql_update_none)
  have lo: "claim_load input leaseId t d = d"
    using none by (simp add: claim_load_def sql_update_none)
  have "d' = d" using d' by (simp add: batch_claim_def ins it se lo)
  moreover have "findWorkItemRow (ci_project input) (ci_work_item input) d = Some w \<longleftrightarrow>
      w \<in> set (work_items d) \<and> wi_id w = ci_work_item input \<and> wi_project w = ci_project input" for w
  proof
    assume w: "w \<in> set (work_items d) \<and> wi_id w = ci_work_item input \<and> wi_project w = ci_project input"
    show "findWorkItemRow (ci_project input) (ci_work_item input) d = Some w"
    proof (cases "findWorkItemRow (ci_project input) (ci_work_item input) d")
      case None
      then show ?thesis using w by (auto simp: findWorkItemRow_def sql_get_None)
    next
      case (Some x)
      then have "x \<in> set (work_items d)" "wi_id x = ci_work_item input" by (simp_all add: found_work_item)
      then show ?thesis using Some w keys distinct_key_eq [of wi_id "work_items d" x w] by (simp add: keys_ok_def)
    qed
  qed (auto simp: findWorkItemRow_def dest: sql_get_Some)
  moreover have "\<not> sql_exists (claimable_item input t d) (work_items d) \<or>
      \<not> sql_exists (claiming_runner input t now d) (runners d)"
    using n(2) n0 by (auto simp: sql_exists_iff sql_count_zero)
  ultimately show ?thesis using cap by (auto simp: conj_assoc)
qed

theorem claim_refused_witness:
  "fst (claim demo_claim ''l2'' 200 200 demo_leased) = demo_leased"
proof -
  have k: "keys_ok demo_leased"
    using lease_inv_keys [OF lease_sys.reachable_inv [OF demo_run]] .
  have u: "\<forall>x \<in> set (work_items demo_leased). wi_lease x \<noteq> Some ''l2''"
    by (simp add: demo_leased_tables)
  obtain n where n: "fst (snd (batch_claim demo_claim ''l2'' 200 200 demo_leased)) = n" "n = 0"
    "work_items (fst (batch_claim demo_claim ''l2'' 200 200 demo_leased)) = work_items demo_leased"
    by (rule batch_claim_tables [of demo_claim "''l2''" 200 200 demo_leased])
      (simp add: demo_leased_tables claimable_item_def sql_update_none)
  have "claim demo_claim ''l2'' 200 200 demo_leased =
      (fst (batch_claim demo_claim ''l2'' 200 200 demo_leased), Inr Work_item_lost)"
    using n(1,2) by (simp add: claim_def case_prod_beta n(3) findWorkItemRow_def demo_leased_tables sql_get_def
        demo_item_def demo_claim_fields)
  from claim_refused [OF k u this] show ?thesis
    by (simp add: claim_def case_prod_beta)
qed

section \<open>Completion\<close>

definition terminal_finish :: "finish_state \<Rightarrow> bool" where
  "terminal_finish st \<longleftrightarrow> st \<in> {F_completed, F_failed, F_cancelled}"

lemma terminal_lease_inactive: "terminal_finish st \<Longrightarrow> terminal_lease_state st \<noteq> L_active"
  by (auto simp: terminal_finish_def)

text \<open>The first two statements of the batch when the item is still owned.\<close>

lemma complete_item_hit:
  assumes "complete_item input lease w tok t d = (d1, n)" "n \<noteq> 0" "keys_ok d" "le_id lease = fi_lease input"
  shows "n = 1" "leases d1 = leases d" "runners d1 = runners d" "sessions d1 = sessions d"
    "\<exists>x \<in> set (work_items d). wi_id x = wi_id w \<and> wi_state x = W_leased \<and> wi_lease x = Some (le_id lease) \<and>
       x\<lparr>wi_state := terminal_work_state (fi_state input), wi_result := fi_result input,
         wi_error := fi_error input, wi_updated := t\<rparr> \<in> set (work_items d1) \<and> wi_runner x = Some (le_runner lease)"
    "\<exists>l \<in> set (leases d). le_id l = fi_lease input \<and> le_work_item l = wi_id w \<and> le_state l = L_active \<and> le_expires l > t"
proof -
  define P where "P = (\<lambda>x :: work_item_row. wi_id x = wi_id w \<and> wi_state x = W_leased \<and> wi_lease x = Some (le_id lease) \<and>
                   wi_runner x = Some (le_runner lease) \<and>
                   sql_exists (\<lambda>l. le_id l = le_id lease \<and> le_project l = fi_project input \<and>
                                   le_work_item l = wi_id w \<and> le_runner l = le_runner lease \<and>
                                   le_state l = L_active \<and> le_expires l > t) (leases d) \<and>
                   token_free (fi_project input) w tok d)"
  let ?f = "\<lambda>x :: work_item_row. x\<lparr>wi_state := terminal_work_state (fi_state input), wi_result := fi_result input,
                  wi_error := fi_error input, wi_updated := t\<rparr>"
  have d1: "d1 = d\<lparr>work_items := sql_update P ?f (work_items d)\<rparr>" and n: "n = sql_count P (work_items d)"
    using assms(1) by (auto simp: complete_item_def Let_def P_def [symmetric])
  show "leases d1 = leases d" "runners d1 = runners d" "sessions d1 = sessions d" by (simp_all add: d1)
  have "n \<le> sql_count (\<lambda>x. True \<and> wi_id x = wi_id w) (work_items d)"
    unfolding n by (rule sql_count_mono) (simp add: P_def)
  also have "\<dots> \<le> 1" using assms(3) by (intro sql_count_key_le1) (simp add: keys_ok_def)
  finally show "n = 1" using assms(2) by simp
  obtain x where x: "x \<in> set (work_items d)" "P x"
    using assms(2) n by (auto simp: sql_count_zero)
  have "?f x \<in> set (work_items d1)" using x by (auto simp: d1 set_sql_update image_iff intro!: bexI [of _ x])
  then show "\<exists>x \<in> set (work_items d). wi_id x = wi_id w \<and> wi_state x = W_leased \<and> wi_lease x = Some (le_id lease) \<and>
      ?f x \<in> set (work_items d1) \<and> wi_runner x = Some (le_runner lease)"
    using x by (auto simp: P_def)
  show "\<exists>l \<in> set (leases d). le_id l = fi_lease input \<and> le_work_item l = wi_id w \<and> le_state l = L_active \<and> le_expires l > t"
    using x(2) assms(4) by (auto simp: P_def sql_exists_iff)
qed

lemma complete_lease_hit:
  assumes "complete_lease input lease w sid tok t 1 d1 = (d2, n)" "keys_ok d1" "le_id lease = fi_lease input"
    and "\<exists>x \<in> set (work_items d1). wi_id x = wi_id w \<and> wi_state x = terminal_work_state (fi_state input) \<and>
           wi_lease x = Some (le_id lease) \<and> wi_runner x = Some (le_runner lease) \<and> wi_updated x = t"
    and "\<exists>l \<in> set (leases d1). le_id l = fi_lease input \<and> le_state l = L_active"
  shows "n = 1" "runners d2 = runners d1" "sessions d2 = sessions d1"
    "\<forall>l \<in> set (leases d2). le_id l = fi_lease input \<longrightarrow>
       le_state l = terminal_lease_state (fi_state input) \<and> le_settlement l = Some sid"
    "\<exists>l \<in> set (leases d2). le_id l = fi_lease input"
proof -
  define P where "P = (\<lambda>l :: lease_row. le_id l = fi_lease input \<and> le_state l = L_active)"
  let ?f = "\<lambda>l :: lease_row. l\<lparr>le_state := terminal_lease_state (fi_state input), le_settlement := Some sid,
                  le_updated := t,
                  le_resume_token := (if truthy_str tok then tok else le_resume_token l)\<rparr>"
  have ex: "sql_exists (\<lambda>x. wi_id x = wi_id w \<and> wi_state x = terminal_work_state (fi_state input) \<and>
      wi_lease x = Some (le_id lease) \<and> wi_runner x = Some (le_runner lease) \<and> wi_updated x = t) (work_items d1)"
    using assms(4) unfolding sql_exists_iff .
  have d2: "d2 = d1\<lparr>leases := sql_update P ?f (leases d1)\<rparr>" and n: "n = sql_count P (leases d1)"
    using assms(1) ex by (auto simp: complete_lease_def Let_def P_def)
  show "runners d2 = runners d1" "sessions d2 = sessions d1" by (simp_all add: d2)
  obtain l where l: "l \<in> set (leases d1)" "P l" using assms(5) by (auto simp: P_def)
  have "sql_count P (leases d1) \<le> sql_count (\<lambda>l. True \<and> le_id l = fi_lease input) (leases d1)"
    by (rule sql_count_mono) (simp add: P_def)
  also have "\<dots> \<le> 1" using assms(2) by (intro sql_count_key_le1) (simp add: keys_ok_def)
  finally show "n = 1" using l sql_count_pos [of P "leases d1"] n by fastforce
  have only: "l' = l" if "l' \<in> set (leases d1)" "le_id l' = fi_lease input" for l'
    using distinct_key_eq [of le_id "leases d1" l' l] that l assms(2) by (simp add: keys_ok_def P_def)
  show "\<forall>l \<in> set (leases d2). le_id l = fi_lease input \<longrightarrow>
       le_state l = terminal_lease_state (fi_state input) \<and> le_settlement l = Some sid"
    using only l(2) by (auto simp: d2 set_sql_update split: if_splits)
  show "\<exists>l \<in> set (leases d2). le_id l = fi_lease input"
  proof -
    have "map le_id (leases d2) = map le_id (leases d1)" by (simp add: d2 map_sql_update)
    then have "le_id ` set (leases d2) = le_id ` set (leases d1)" by (metis list.set_map)
    then have "le_id l \<in> le_id ` set (leases d2)" using l(1) by simp
    then show ?thesis using l(2) by (auto simp: P_def)
  qed
qed

lemma complete_item_miss: "complete_item input lease w tok t d = (d1, 0) \<Longrightarrow> d1 = d"
  by (auto simp: complete_item_def Let_def sql_update_count_zero)

lemma memory_batch_unsettled:
  "\<not> settled_by leaseId sid d \<Longrightarrow> memory_batch newId k q leaseId sid sns t d = Some d' \<Longrightarrow> d' = d"
  by (induction sns arbitrary: k) (auto simp: memory_statements_def split: option.splits)

lemma completion_missed:
  assumes "\<forall>l \<in> set (leases d). le_settlement l \<noteq> Some (newId 0)"
    and b: "batch_complete newId input lease w tok sns ch reason t d = Some (d', 0)"
  shows "d' = d"
proof -
  obtain d1 n1 where 1: "complete_item input lease w (provider_token w tok) t d = (d1, n1)" by fastforce
  have n1: "n1 = 0" using b by (auto simp: batch_complete_def 1 case_prod_beta Let_def split: option.splits)
  note d1 = complete_item_miss [OF 1 [unfolded n1]]
  have 2: "complete_lease input lease w (newId 0) tok t 0 d = (d, 0)"
    by (simp add: complete_lease_def sql_update_none sql_count_zero)
  have 3: "complete_runner input lease (newId 0) t 0 d = (d, 0)"
    by (simp add: complete_runner_def sql_update_none sql_count_zero)
  have 4: "complete_token input w x (newId 0) t 0 d = d" for x
    by (simp add: complete_token_def sql_update_none split: option.split)
  have un: "\<not> settled_by leaseId (newId 0) d" "\<not> settled_as input (newId 0) d" for leaseId
    using assms(1) by (auto simp: settled_by_def settled_as_def sql_exists_iff)
  have 5: "complete_session input w (newId 0) ch reason t d = d"
    using un by (simp add: complete_session_def sql_update_none split: option.split)
  obtain x where m: "memory_batch newId 1 (fi_project input) (fi_lease input) (newId 0) sns t d = Some x"
    and d': "d' = complete_session input w (newId 0) ch reason t x"
    using b by (auto simp: batch_complete_def Let_def 1 n1 d1 2 3 4 split: option.splits)
  show ?thesis unfolding d' memory_batch_unsettled [OF un(1) m] by (rule 5)
qed

lemma completion_hit:
  assumes keys: "keys_ok d" and id: "le_id lease = fi_lease input"
    and b: "batch_complete newId input lease w tok sns ch reason t d = Some (d', n)" and n: "n \<noteq> 0"
  shows "\<forall>l \<in> set (leases d'). le_id l = fi_lease input \<longrightarrow>
       le_state l = terminal_lease_state (fi_state input) \<and> le_settlement l = Some (newId 0)"
    "\<exists>l \<in> set (leases d). le_id l = fi_lease input \<and> le_state l = L_active \<and> le_expires l > t"
    "\<exists>x \<in> set (work_items d'). wi_id x = wi_id w \<and> wi_state x = terminal_work_state (fi_state input) \<and>
       wi_result x = fi_result input \<and> wi_error x = fi_error input"
    "runners d' = sql_update (\<lambda>r. ru_id r = le_runner lease \<and> ru_project r = fi_project input)
       (\<lambda>r. r\<lparr>ru_load := ru_load r - 1, ru_updated := t\<rparr>) (runners d)"
proof -
  obtain d1 d2 n2 where a:
    "complete_item input lease w (provider_token w tok) t d = (d1, n)"
    "complete_lease input lease w (newId 0) tok t n d1 = (d2, n2)"
    "work_items d' = work_items d1" "leases d' = leases d2"
    "runners d' = runners (fst (complete_runner input lease (newId 0) t n2 d2))"
    by (rule batch_complete_tables [OF b]) blast
  note 1 = complete_item_hit [OF a(1) n keys id]
  have "map wi_id (work_items d1) = map wi_id (work_items d)"
    using a(1) by (auto simp: complete_item_def Let_def map_sql_update)
  then have keys1: "keys_ok d1" using keys keys_ok_shape [of d1 d] 1(2,3) by (simp add: shape_def)
  obtain x where x: "wi_id x = wi_id w" "wi_lease x = Some (le_id lease)" "wi_runner x = Some (le_runner lease)"
    "x\<lparr>wi_state := terminal_work_state (fi_state input), wi_result := fi_result input,
       wi_error := fi_error input, wi_updated := t\<rparr> \<in> set (work_items d1)" (is "?x \<in> _")
    using 1(5) by blast
  have e1: "\<exists>x \<in> set (work_items d1). wi_id x = wi_id w \<and> wi_state x = terminal_work_state (fi_state input) \<and>
      wi_lease x = Some (le_id lease) \<and> wi_runner x = Some (le_runner lease) \<and> wi_updated x = t"
    by (rule bexI [OF _ x(4)]) (use x in simp)
  have e2: "\<exists>l \<in> set (leases d1). le_id l = fi_lease input \<and> le_state l = L_active"
    using 1(2,6) by auto
  note h = complete_lease_hit [OF a(2) [unfolded 1(1)] keys1 id e1 e2]
  note 2 = h(1,2,4,5)
  show "\<forall>l \<in> set (leases d'). le_id l = fi_lease input \<longrightarrow>
       le_state l = terminal_lease_state (fi_state input) \<and> le_settlement l = Some (newId 0)"
    using 2(3) a(4) by simp
  show "\<exists>l \<in> set (leases d). le_id l = fi_lease input \<and> le_state l = L_active \<and> le_expires l > t"
    using 1(6) by blast
  show "\<exists>x \<in> set (work_items d'). wi_id x = wi_id w \<and> wi_state x = terminal_work_state (fi_state input) \<and>
       wi_result x = fi_result input \<and> wi_error x = fi_error input"
    using x a(3) by (auto intro!: bexI [of _ ?x])
  have "settled_as input (newId 0) d2" using 2(3,4) by (auto simp: settled_as_def sql_exists_iff)
  then show "runners d' = sql_update (\<lambda>r. ru_id r = le_runner lease \<and> ru_project r = fi_project input)
       (\<lambda>r. r\<lparr>ru_load := ru_load r - 1, ru_updated := t\<rparr>) (runners d)"
    using a(5) 2(1,2) 1(3) by (simp add: complete_runner_def Let_def)
qed

text \<open>
  The completion batch is all or nothing. If the item was still owned, the work
  item, the lease and the load of the runner are settled together, and the lease carries this
  settlement; otherwise nothing in the database changes.
\<close>

theorem completion_atomic:
  assumes keys: "keys_ok d" and id: "le_id lease = fi_lease input"
    and fresh: "\<forall>l \<in> set (leases d). le_settlement l \<noteq> Some (newId 0)"
    and b: "batch_complete newId input lease w tok sns ch reason t d = Some (d', n)"
  shows "(n = 0 \<longrightarrow> d' = d) \<and>
    (n \<noteq> 0 \<longrightarrow>
       (\<forall>l \<in> set (leases d'). le_id l = fi_lease input \<longrightarrow>
          le_state l = terminal_lease_state (fi_state input) \<and> le_settlement l = Some (newId 0)) \<and>
       (\<exists>x \<in> set (work_items d'). wi_id x = wi_id w \<and> wi_state x = terminal_work_state (fi_state input) \<and>
          wi_result x = fi_result input \<and> wi_error x = fi_error input) \<and>
       runners d' = sql_update (\<lambda>r. ru_id r = le_runner lease \<and> ru_project r = fi_project input)
          (\<lambda>r. r\<lparr>ru_load := ru_load r - 1, ru_updated := t\<rparr>) (runners d))"
  using completion_missed [of d newId, OF fresh] completion_hit [OF keys id b] b by blast

section \<open>Finishing once\<close>

lemma finish_terminal_done:
  assumes "finish ref_store text newId input t now d = (d', Inr (Some l))" "terminal_finish (fi_state input)"
  obtains lease w sns ch reason n where
    "findLeaseRow (fi_project input) (fi_lease input) d = Some lease" "owns_work now lease w"
    "findWorkItemRow (fi_project input) (le_work_item lease) d = Some w"
    "batch_complete newId input lease w (resumeTokenFromFinishInput input) sns ch reason t d = Some (d', n)" "n \<noteq> 0"
proof -
  have st: "fi_state input \<notin> {F_active, F_interrupted}" using assms(2) by (auto simp: terminal_finish_def)
  show thesis
    using assms(1) st
    by (auto simp: finish_def finish_bind_def finish_write_def finish_terminal_def Let_def
        split: option.splits if_splits sum.splits prod.splits intro: that)
qed

lemma stale_finish:
  assumes "\<And>lease. findLeaseRow (fi_project input) (fi_lease input) d = Some lease \<Longrightarrow> le_state lease \<noteq> L_active"
  shows "finish ref_store text newId input t now d = (d, Inr None)"
  using assms by (auto simp: finish_def owns_work_def split: option.splits)

text \<open>
  C11 (safety): a lease is finished at most once. When a completion, failure or cancellation was
  accepted, every later report on that lease, of whatever kind, by whoever and at whatever time,
  is answered with nothing and leaves the database as it is.
\<close>

theorem finish_once:
  assumes "keys_ok d" "terminal_finish (fi_state input)"
    and "finish ref_store text newId input t now d = (d', Inr (Some l))"
    and "fi_lease again = fi_lease input"
  shows "finish ref_store' text' newId' again t' now' d' = (d', Inr None)"
proof (rule stale_finish)
  fix lease2 assume f: "findLeaseRow (fi_project again) (fi_lease again) d' = Some lease2"
  obtain lease w sns ch reason n where a:
    "findLeaseRow (fi_project input) (fi_lease input) d = Some lease"
    "batch_complete newId input lease w (resumeTokenFromFinishInput input) sns ch reason t d = Some (d', n)" "n \<noteq> 0"
    by (rule finish_terminal_done [OF assms(3,2)])
  have "le_id lease = fi_lease input" using a(1) by (auto simp: findLeaseRow_def dest: sql_get_Some)
  note h = completion_hit(1) [OF assms(1) this a(2,3)]
  have "lease2 \<in> set (leases d')" "le_id lease2 = fi_lease input"
    using f assms(4) by (auto simp: findLeaseRow_def dest: sql_get_Some)
  then show "le_state lease2 \<noteq> L_active"
    using h terminal_lease_inactive [OF assms(2)] by simp
qed

text \<open>
  Only the owner settles. An accepted terminal report found the lease active and not
  expired, for the work item it was given for, and the item still leased to that runner under it.
\<close>

theorem finish_owner:
  assumes "keys_ok d" "terminal_finish (fi_state input)"
    and "finish ref_store text newId input t now d = (d', Inr (Some l))"
  shows "\<exists>lease \<in> set (leases d). \<exists>w \<in> set (work_items d).
     le_id lease = fi_lease input \<and> le_state lease = L_active \<and> now < le_expires lease \<and> t < le_expires lease \<and>
     wi_id w = le_work_item lease \<and> wi_state w = W_leased \<and> wi_lease w = Some (le_id lease) \<and>
     wi_runner w = Some (le_runner lease)"
proof -
  obtain lease w sns ch reason n where a:
    "findLeaseRow (fi_project input) (fi_lease input) d = Some lease" "owns_work now lease w"
    "findWorkItemRow (fi_project input) (le_work_item lease) d = Some w"
    "batch_complete newId input lease w (resumeTokenFromFinishInput input) sns ch reason t d = Some (d', n)" "n \<noteq> 0"
    by (rule finish_terminal_done [OF assms(3,2)])
  have l: "lease \<in> set (leases d)" "le_id lease = fi_lease input"
    using a(1) by (auto simp: findLeaseRow_def dest: sql_get_Some)
  obtain l2 where l2: "l2 \<in> set (leases d)" "le_id l2 = fi_lease input" "le_expires l2 > t"
    using completion_hit(2) [OF assms(1) l(2) a(4,5)] by blast
  have "l2 = lease"
    using distinct_key_eq [of le_id "leases d" l2 lease] assms(1) l l2 by (simp add: keys_ok_def)
  then show ?thesis
    using a(2) l l2 found_work_item [OF a(3)] by (auto simp: owns_work_def intro!: bexI [of _ lease] bexI [of _ w])
qed

section \<open>A concrete completion\<close>

definition demo_finish :: finish_input where
  "demo_finish = \<lparr>fi_project = ''p'', fi_lease = ''l'', fi_state = F_completed, fi_expires = None,
     fi_duration = None, fi_resume = None, fi_result = None, fi_error = None\<rparr>"

definition demo_done :: db where
  "demo_done = fst (finish (\<lambda>_. None) (\<lambda>_. []) (\<lambda>_. ''s'') demo_finish 150 150 demo_leased)"

definition demo_lease_after :: lease_row where
  "demo_lease_after = (new_lease demo_claim ''l'' 100 100)
     \<lparr>le_state := L_completed, le_settlement := Some ''s'', le_updated := 150\<rparr>"

lemma demo_find:
  "findLeaseRow ''p'' ''l'' demo_leased = Some (new_lease demo_claim ''l'' 100 100)"
  "findWorkItemRow ''p'' ''w'' demo_leased = Some (demo_item\<lparr>wi_state := W_leased, wi_runner := Some ''r'',
     wi_lease := Some ''l'', wi_attempts := 1, wi_updated := 100\<rparr>)"
  by (simp_all add: findLeaseRow_def findWorkItemRow_def demo_leased_tables sql_get_def new_lease_def demo_defs)

lemma demo_batch:
  "\<exists>d'. batch_complete (\<lambda>_. ''s'') demo_finish (new_lease demo_claim ''l'' 100 100)
     (demo_item\<lparr>wi_state := W_leased, wi_runner := Some ''r'', wi_lease := Some ''l'', wi_attempts := 1, wi_updated := 100\<rparr>)
     None [] ch reason 150 demo_leased = Some (d', 1) \<and> leases d' = [demo_lease_after]"
  by (simp add: batch_complete_def complete_item_def complete_lease_def complete_runner_def complete_token_def
      complete_session_def provider_token_def runtimeFromPayload_def jget_def token_free_def truthy_str_def
      demo_leased_tables new_lease_def demo_defs demo_finish_def demo_lease_after_def sql_exists_def Let_def
      case_prod_beta)

lemma demo_finished:
  "finish (\<lambda>_. None) (\<lambda>_. []) (\<lambda>_. ''s'') demo_finish 150 150 demo_leased = (demo_done, Inr (Some demo_lease_after))"
  "leases demo_done = [demo_lease_after]"
proof -
  let ?l = "new_lease demo_claim ''l'' 100 100"
  let ?w = "demo_item\<lparr>wi_state := W_leased, wi_runner := Some ''r'', wi_lease := Some ''l'', wi_attempts := 1, wi_updated := 100\<rparr>"
  have own: "owns_work 150 ?l ?w" and w: "le_work_item ?l = ''w''"
    by (simp_all add: owns_work_def new_lease_def demo_claim_def)
  have f: "fi_project demo_finish = ''p''" "fi_lease demo_finish = ''l''" "fi_state demo_finish = F_completed"
    "fi_result demo_finish = None" "fi_resume demo_finish = None"
    by (simp_all add: demo_finish_def)
  have tok: "resumeTokenFromFinishInput demo_finish = None"
    by (simp add: resumeTokenFromFinishInput_def f truthy_str_def)
  have cc: "completion_conflict demo_finish ?w None demo_leased = None"
    by (simp add: completion_conflict_def split: option.split)
  have sn: "memoryStoreSnapshotsFromResult r x None = Inr []" for r x
    by (simp add: memoryStoreSnapshotsFromResult_def)
  obtain d' where d': "batch_complete (\<lambda>_. ''s'') demo_finish ?l ?w None []
      (active_channel demo_finish ?l ?w demo_leased) None 150 demo_leased = Some (d', 1)" "leases d' = [demo_lease_after]"
    using demo_batch by blast
  have "finish_terminal (\<lambda>_. None) (\<lambda>_. []) (\<lambda>_. ''s'') demo_finish ?l ?w 150 demo_leased = (d', Inr True)"
    by (simp add: finish_terminal_def Let_def f tok cc sn d'(1) del: One_nat_def)
  then have e: "finish (\<lambda>_. None) (\<lambda>_. []) (\<lambda>_. ''s'') demo_finish 150 150 demo_leased =
      (d', Inr (Some demo_lease_after))"
    using own by (simp add: finish_def finish_bind_def finish_write_def f w demo_find)
      (simp add: findLeaseRow_def d'(2) sql_get_def demo_lease_after_def new_lease_def demo_claim_def)
  then show "finish (\<lambda>_. None) (\<lambda>_. []) (\<lambda>_. ''s'') demo_finish 150 150 demo_leased =
      (demo_done, Inr (Some demo_lease_after))" "leases demo_done = [demo_lease_after]"
    using d'(2) by (simp_all add: demo_done_def)
qed

lemma demo_ready: "keys_ok demo_leased" "terminal_finish (fi_state demo_finish)"
  using lease_inv_keys [OF lease_sys.reachable_inv [OF demo_run]]
  by (simp_all add: terminal_finish_def demo_finish_def)

theorem finish_once_witness:
  "finish (\<lambda>_. None) (\<lambda>_. []) (\<lambda>_. ''s'') (demo_finish\<lparr>fi_state := F_failed\<rparr>) 160 160 demo_done = (demo_done, Inr None)"
  by (rule finish_once [OF demo_ready demo_finished(1)]) simp

theorem finish_owner_witness:
  "\<exists>lease \<in> set (leases demo_leased). le_state lease = L_active \<and> 150 < le_expires lease"
  using finish_owner [OF demo_ready demo_finished(1)] by blast

theorem completion_atomic_witness:
  "\<exists>d' :: db. leases d' = [demo_lease_after] \<and> (\<exists>x \<in> set (work_items d'). wi_state x = W_succeeded)"
proof -
  let ?w = "demo_item\<lparr>wi_state := W_leased, wi_runner := Some ''r'', wi_lease := Some ''l'', wi_attempts := 1, wi_updated := 100\<rparr>"
  let ?l = "new_lease demo_claim ''l'' 100 100"
  obtain d' where d': "batch_complete (\<lambda>_. ''s'') demo_finish ?l ?w None [] False None 150 demo_leased = Some (d', 1)"
    "leases d' = [demo_lease_after]"
    using demo_batch by blast
  have "le_id ?l = fi_lease demo_finish" "\<forall>l \<in> set (leases demo_leased). le_settlement l \<noteq> Some ''s''"
    by (simp_all add: new_lease_def demo_finish_def demo_leased_tables)
  from completion_atomic [OF demo_ready(1) this d'(1)]
  have "\<exists>x \<in> set (work_items d'). wi_state x = W_succeeded" by (auto simp: demo_finish_def)
  with d'(2) show ?thesis by blast
qed

section \<open>Recovery\<close>

lemma session_state_rows:
  "sessions (stmt_session_state q s st reason t d) =
     sql_update (live_session q s) (\<lambda>r. r\<lparr>se_state := st, se_reason := reason, se_updated := t\<rparr>) (sessions d)"
  "leases (stmt_session_state q s st reason t d) = leases d" "runners (stmt_session_state q s st reason t d) = runners d"
  "work_items (stmt_session_state q s st reason t d) = work_items d"
  by (simp_all add: stmt_session_state_def)

lemma session_state_all:
  "\<forall>x \<in> set (sessions (stmt_session_state q s st reason t d)). live_session q s x \<longrightarrow> se_state x = st \<and> se_reason x = reason"
  unfolding session_state_rows by (rule sql_update_all) simp_all

lemma requeue_superseded:
  assumes "hasNewerActiveSessionWork q w d"
  shows "requeueWorkItemForRecovery q w t d = (stmt_cancel_superseded (wi_id w) t d, Superseded)"
    "\<forall>x \<in> set (work_items (stmt_cancel_superseded (wi_id w) t d)). wi_id x = wi_id w \<longrightarrow> wi_state x \<noteq> W_leased"
proof -
  show "requeueWorkItemForRecovery q w t d = (stmt_cancel_superseded (wi_id w) t d, Superseded)"
    using assms by (simp add: requeueWorkItemForRecovery_def)
  show "\<forall>x \<in> set (work_items (stmt_cancel_superseded (wi_id w) t d)). wi_id x = wi_id w \<longrightarrow> wi_state x \<noteq> W_leased"
    by (simp add: stmt_cancel_superseded_def) (rule sql_update_all, auto)
qed

lemma exhausted_items:
  "\<forall>x \<in> set (work_items (stmt_fail_exhausted i t d)). wi_id x = i \<longrightarrow> wi_state x = W_failed \<and> wi_lease x = None"
  by (simp add: stmt_fail_exhausted_def) (rule sql_update_all, auto)

lemma requeued_items:
  "\<forall>x \<in> set (work_items (stmt_requeue i payload t d)). wi_id x = i \<longrightarrow>
     wi_state x = W_available \<and> wi_lease x = None \<and> wi_runner x = None \<and> wi_available_at x = t"
  by (simp add: stmt_requeue_def) (rule sql_update_all, auto)

lemma other_items:
  "filter (\<lambda>x. wi_id x \<noteq> i) (work_items (stmt_requeue i payload t d)) = filter (\<lambda>x. wi_id x \<noteq> i) (work_items d)"
  "filter (\<lambda>x. wi_id x \<noteq> i) (work_items (stmt_fail_exhausted i t d)) = filter (\<lambda>x. wi_id x \<noteq> i) (work_items d)"
  "filter (\<lambda>x. wi_id x \<noteq> i) (work_items (stmt_cancel_superseded i t d)) = filter (\<lambda>x. wi_id x \<noteq> i) (work_items d)"
  "runners (stmt_requeue i payload t d) = runners d" "runners (stmt_fail_exhausted i t d) = runners d"
  "runners (stmt_cancel_superseded i t d) = runners d" "sessions (stmt_cancel_superseded i t d) = sessions d"
  by (simp_all add: stmt_requeue_def stmt_fail_exhausted_def stmt_cancel_superseded_def)
    (rule filter_sql_update_other, simp)+

text \<open>
  The recovery of a work item, on its three branches. Newer queued work of the
  session supersedes it, and then its session is left alone; an item out of attempts fails and
  takes its session with it; otherwise it becomes available again and its session waits for a
  runner. In no case does any other work item, or any lease or runner, change.
\<close>

theorem requeue_cases:
  assumes "requeueWorkItemForRecovery q w t d = (d', r)"
  shows "leases d' = leases d \<and> runners d' = runners d \<and>
    filter (\<lambda>x. wi_id x \<noteq> wi_id w) (work_items d') = filter (\<lambda>x. wi_id x \<noteq> wi_id w) (work_items d) \<and>
    (if hasNewerActiveSessionWork q w d
     then r = Superseded \<and> sessions d' = sessions d \<and>
       (\<forall>x \<in> set (work_items d'). wi_id x = wi_id w \<longrightarrow> wi_state x \<noteq> W_leased)
     else if wi_max_attempts w \<le> wi_attempts w
     then r = Requeue_failed \<and>
       (\<forall>x \<in> set (work_items d'). wi_id x = wi_id w \<longrightarrow> wi_state x = W_failed \<and> wi_lease x = None) \<and>
       (\<forall>s. wi_session w = Some s \<longrightarrow> s \<noteq> [] \<longrightarrow>
          (\<forall>x \<in> set (sessions d'). live_session q s x \<longrightarrow> se_state x = P_error))
     else r = Requeued \<and>
       (\<forall>x \<in> set (work_items d'). wi_id x = wi_id w \<longrightarrow> wi_state x = W_available \<and> wi_lease x = None \<and>
          wi_runner x = None \<and> wi_available_at x = t) \<and>
       (\<forall>s. wi_session w = Some s \<longrightarrow> s \<noteq> [] \<longrightarrow>
          (\<forall>x \<in> set (sessions d'). live_session q s x \<longrightarrow> se_state x = P_pending \<and> waiting_reason (se_reason x))))"
proof (cases "hasNewerActiveSessionWork q w d")
  case True
  then have "d' = stmt_cancel_superseded (wi_id w) t d" "r = Superseded"
    using assms requeue_superseded(1) by simp_all
  then show ?thesis using True requeue_superseded(2) [OF True] by (simp add: other_items frame)
next
  case new: False
  let ?s = "\<lambda>st reason. case wi_session w of Some s \<Rightarrow> (\<lambda>d. if s = [] then d else stmt_session_state q s st reason t d)
      | None \<Rightarrow> (\<lambda>d. d)"
  have s: "leases (?s st reason d0) = leases d0" "runners (?s st reason d0) = runners d0"
    "work_items (?s st reason d0) = work_items d0"
    "\<forall>s. wi_session w = Some s \<longrightarrow> s \<noteq> [] \<longrightarrow>
       (\<forall>x \<in> set (sessions (?s st reason d0)). live_session q s x \<longrightarrow> se_state x = st \<and> se_reason x = reason)"
    for st reason d0
    using session_state_all by (auto simp: session_state_rows split: option.split)
  show ?thesis
  proof (cases "wi_max_attempts w \<le> wi_attempts w")
    case True
    then have "r = Requeue_failed" "d' = ?s P_error (Some ''runner-lease-expired'') (stmt_fail_exhausted (wi_id w) t d)"
      using assms new by (auto simp: requeueWorkItemForRecovery_def Let_def split: option.splits)
    then show ?thesis
      using new True s(4) [of P_error] by (simp add: s(1-3) other_items frame exhausted_items)
  next
    case False
    define reason where "reason = (if runner_started q w (the (wi_session w)) d
        then ''waiting-for-runner-recovery'' else ''waiting-for-runner'')"
    from False have "r = Requeued" "d' = ?s P_pending (Some reason) (stmt_requeue (wi_id w) (recovery_payload q w d) t d)"
      using assms new by (auto simp: requeueWorkItemForRecovery_def Let_def reason_def split: option.splits)
    moreover have "waiting_reason (Some reason)" by (simp add: reason_def waiting_reason_def)
    ultimately show ?thesis
      using new False s(4) [of P_pending "Some reason"] by (simp add: s(1-3) other_items frame requeued_items)
  qed
qed

theorem requeue_cases_witness:
  "\<not> sql_exists (\<lambda>x. wi_id x = ''w'' \<and> wi_state x \<noteq> W_available)
     (work_items (fst (requeueWorkItemForRecovery ''p'' demo_item 5 demo_leased)))"
proof -
  have "requeueWorkItemForRecovery ''p'' demo_item 5 demo_leased =
      (fst (requeueWorkItemForRecovery ''p'' demo_item 5 demo_leased),
       snd (requeueWorkItemForRecovery ''p'' demo_item 5 demo_leased))" by simp
  from requeue_cases [OF this] show ?thesis
    by (auto simp: hasNewerActiveSessionWork_def demo_item_def sql_exists_def list_ex_iff)
qed

section \<open>The sweep over stale leases\<close>

definition expired_lease :: "time \<Rightarrow> lease_row \<Rightarrow> lease_row" where
  "expired_lease t l = l\<lparr>le_state := L_expired, le_updated := t\<rparr>"

lemma requeue_leases: "leases (fst (requeueWorkItemForRecovery q w t d)) = leases d"
  using requeue_cases [of q w t d] by (metis prod.collapse)

lemma expire_one_leases:
  "leases (expire_one q t lease d) =
     sql_update (\<lambda>l. le_id l = le_id lease \<and> lease_active l) (expired_lease t) (leases d)"
proof -
  have rel: "leases (releaseRunnerLoad q i t d1) = leases d1" for i d1 by (simp add: frame)
  have hit: "leases (fst (stmt_expire_lease (le_id lease) t d)) =
      sql_update (\<lambda>l. le_id l = le_id lease \<and> lease_active l) (expired_lease t) (leases d)"
    by (simp add: stmt_expire_lease_def cas_row_def expired_lease_def [abs_def])
  show ?thesis
    unfolding hit [symmetric]
    by (auto simp: expire_one_def Let_def requeue_leases rel split: prod.split bool.split option.split)
qed

lemma expire_fold_leases:
  "leases (fold (expire_one q t) ls d) =
     sql_update (\<lambda>l. le_id l \<in> le_id ` set ls \<and> lease_active l) (expired_lease t) (leases d)"
proof (induction ls arbitrary: d)
  case (Cons a ls)
  have "sql_update (\<lambda>l. le_id l \<in> le_id ` set ls \<and> lease_active l) (expired_lease t)
          (sql_update (\<lambda>l. le_id l = le_id a \<and> lease_active l) (expired_lease t) rows) =
        sql_update (\<lambda>l. le_id l \<in> le_id ` set (a # ls) \<and> lease_active l) (expired_lease t) rows" for rows
    by (induction rows) (auto simp: lease_active_def expired_lease_def)
  then show ?case by (simp add: Cons.IH expire_one_leases)
qed (simp add: sql_update_none)

lemma sql_update_cong_rows:
  "(\<And>r. r \<in> set rows \<Longrightarrow> P r = Q r) \<Longrightarrow> sql_update P f rows = sql_update Q f rows"
  by (simp add: sql_update_def)

text \<open>
  The sweep expires exactly the leases of the project that are active and past
  their expiry, as long as one pass (100 rows) can hold them; no other lease is touched, however
  the recoveries of the work items turn out.
\<close>

theorem expireStale_exact:
  assumes "keys_ok d"
    and "sql_count (\<lambda>l. le_project l = q \<and> le_state l = L_active \<and> le_expires l < t) (leases d) \<le> 100"
  shows "leases (expireStale q t d) =
    sql_update (\<lambda>l. le_project l = q \<and> le_state l = L_active \<and> le_expires l < t) (expired_lease t) (leases d)"
proof -
  let ?S = "\<lambda>l. le_project l = q \<and> le_state l = L_active \<and> le_expires l < t"
  have st: "stale_leases q t d = filter ?S (leases d)"
    using assms(2) by (simp add: stale_leases_def sql_count_def)
  have "(le_id l \<in> le_id ` set (filter ?S (leases d)) \<and> lease_active l) = ?S l" if l: "l \<in> set (leases d)" for l
  proof
    assume "le_id l \<in> le_id ` set (filter ?S (leases d)) \<and> lease_active l"
    then obtain k where "k \<in> set (leases d)" "?S k" "le_id k = le_id l" by auto
    moreover then have "k = l" using distinct_key_eq [of le_id "leases d" k l] assms(1) l by (simp add: keys_ok_def)
    ultimately show "?S l" by simp
  qed (use l in \<open>auto simp: lease_active_def\<close>)
  then show ?thesis
    unfolding expireStale_def expire_fold_leases st by (intro sql_update_cong_rows)
qed

theorem expireStale_exact_witness:
  "leases (expireStale ''p'' 100000 demo_leased) = [expired_lease 100000 (new_lease demo_claim ''l'' 100 100)]"
proof -
  have "sql_count (\<lambda>l. le_project l = ''p'' \<and> le_state l = L_active \<and> le_expires l < 100000) (leases demo_leased) \<le> 100"
    by (simp add: demo_leased_tables)
  from expireStale_exact [OF demo_ready(1) this] show ?thesis
    by (simp add: demo_leased_tables) (simp add: new_lease_def demo_claim_def)
qed

section \<open>Resume tokens are bound once\<close>

definition same_token :: "session_row \<Rightarrow> session_row \<Rightarrow> bool" where
  "same_token s s' \<longleftrightarrow>
     se_id s' = se_id s \<and> se_active_turn s' = se_active_turn s \<and> se_turn_expires s' = se_turn_expires s \<and>
     (se_resume_token s \<noteq> None \<longrightarrow> se_resume_token s' = se_resume_token s)"

definition tokens_kept :: "db \<Rightarrow> db \<Rightarrow> bool" where
  "tokens_kept d d' \<longleftrightarrow> list_all2 same_token (sessions d) (sessions d')"

lemma tokens_kept_same [simp]: "sessions d' = sessions d \<Longrightarrow> tokens_kept d d'"
  by (simp add: tokens_kept_def list_all2_same same_token_def)

lemma tokens_kept_trans: "tokens_kept d d1 \<Longrightarrow> tokens_kept d1 d2 \<Longrightarrow> tokens_kept d d2"
  unfolding tokens_kept_def by (rule list_all2_trans [of same_token same_token]) (auto simp: same_token_def)

lemma tokens_kept_update:
  "sessions d' = sql_update P f (sessions d) \<Longrightarrow> (\<And>s. P s \<Longrightarrow> same_token s (f s)) \<Longrightarrow> tokens_kept d d'"
  by (auto simp: tokens_kept_def sql_update_def list_all2_map2 same_token_def intro!: list_all2_refl)

lemma kept_state: "tokens_kept d (stmt_session_state q s st reason t d)"
  by (rule tokens_kept_update [OF session_state_rows(1)]) (simp add: same_token_def)

lemma kept_bind: "tokens_kept d (fst (stmt_bind_token q s token t d))"
  unfolding stmt_bind_token_def Let_def
  by (rule tokens_kept_update, simp, simp add: same_token_def)

lemma kept_bindSession:
  assumes "bindSessionResumeToken input w token t d = (d', r)"
  shows "tokens_kept d d'"
proof -
  have "d' = d \<or> (\<exists>q s tok. d' = fst (stmt_bind_token q s tok t d))"
    using assms by (auto simp: bindSessionResumeToken_def split: option.splits if_splits prod.splits bool.splits; metis fst_conv)
  then show ?thesis using kept_bind by auto
qed

lemma kept_requeue: "tokens_kept d (fst (requeueWorkItemForRecovery q w t d))"
proof -
  have "sessions (stmt_requeue i pl t d) = sessions d" "sessions (stmt_fail_exhausted i t d) = sessions d"
    "sessions (stmt_cancel_superseded i t d) = sessions d" for i pl
    by (simp_all add: stmt_requeue_def stmt_fail_exhausted_def stmt_cancel_superseded_def)
  then show ?thesis
    unfolding requeueWorkItemForRecovery_def Let_def
    by (auto split: option.split intro: tokens_kept_trans [OF _ kept_state])
qed

lemma kept_complete:
  assumes "batch_complete newId input lease w tok sns ch reason t d = Some (d', n)"
  shows "tokens_kept d d'"
proof -
  obtain d1 n1 where 1: "complete_item input lease w (provider_token w tok) t d = (d1, n1)" by fastforce
  obtain d2 n2 where 2: "complete_lease input lease w (newId 0) tok t n1 d1 = (d2, n2)" by fastforce
  obtain d3 n3 where 3: "complete_runner input lease (newId 0) t n2 d2 = (d3, n3)" by fastforce
  define d4 where "d4 = complete_token input w (provider_token w tok) (newId 0) t n3 d3"
  obtain d5 where 5: "memory_batch newId 1 (fi_project input) (fi_lease input) (newId 0) sns t d4 = Some d5"
    and d': "d' = complete_session input w (newId 0) ch reason t d5"
    using assms by (auto simp: batch_complete_def 1 2 3 d4_def Let_def split: option.splits)
  have "sessions d3 = sessions d"
    using 1 2 3 by (auto simp: complete_item_def complete_lease_def complete_runner_def Let_def)
  then have a: "tokens_kept d d3" by simp
  have b: "tokens_kept d3 d4"
    unfolding d4_def complete_token_def
    by (auto split: option.split intro!: tokens_kept_update simp: same_token_def)
  have c: "tokens_kept d4 d5" using frame_memory_batch [OF 5] by simp
  have "tokens_kept d5 d'"
    unfolding d' complete_session_def
    by (auto split: option.split intro!: tokens_kept_update simp: same_token_def session_outcome_def)
  with a b c show ?thesis by (meson tokens_kept_trans)
qed

lemma kept_finish_write: "tokens_kept d (fst (finish_write ref_store text newId input lease w t now d))"
proof -
  have act: "tokens_kept d (fst (finish_active input lease w t now d))"
    by (simp add: finish_active_def Let_def case_prod_beta stmt_renew_item_def stmt_renew_lease_def split: bool.split)
  have "tokens_kept d (releaseRunnerLoad q r t (fst (stmt_interrupt_lease i x t d)))" for q r i x
    by (simp add: releaseRunnerLoad_def stmt_interrupt_lease_def cas_row_def)
  then have "tokens_kept d (fst (finish_interrupted input lease w t d))"
    using tokens_kept_trans [OF _ kept_requeue]
    by (auto simp: finish_interrupted_def Let_def stmt_interrupt_lease_def cas_row_def split: bool.split)
  moreover have "tokens_kept d (fst (finish_terminal ref_store text newId input lease w t d))"
    by (auto simp: finish_terminal_def Let_def split: option.split sum.split prod.split dest: kept_complete)
  ultimately show ?thesis using act by (simp add: finish_write_def case_prod_beta)
qed

lemma kept_finish: "tokens_kept d (fst (finish ref_store text newId input t now d))"
proof -
  have b: "tokens_kept d (fst (finish_bind input w t d))" for w
    using kept_bindSession [of input w "resumeTokenFromFinishInput input" t d, OF prod.collapse [symmetric]]
    by (simp add: finish_bind_def)
  have "tokens_kept d (fst (finish_write ref_store text newId input lease w t now (fst (finish_bind input w t d))))"
    for lease w by (rule tokens_kept_trans [OF b kept_finish_write])
  with b show ?thesis
    by (auto simp: finish_def case_prod_beta split: option.split sum.split)
qed

lemma kept_claim: "tokens_kept d (fst (batch_claim input leaseId t now d))"
proof -
  obtain d1 n where 1: "claim_insert input leaseId t now d = (d1, n)" by fastforce
  obtain d2 c where 2: "claim_item input leaseId t n d1 = (d2, c)" by fastforce
  have "sessions d2 = sessions d" using 1 2 by (auto simp: claim_insert_def claim_item_def Let_def)
  then have "tokens_kept d d2" by simp
  moreover have "tokens_kept d2 (claim_session input leaseId t d2)"
    unfolding claim_session_def by (rule tokens_kept_update, simp, simp add: same_token_def)
  moreover have "tokens_kept d3 (claim_load input leaseId t d3)" for d3 by (simp add: claim_load_def)
  ultimately have "tokens_kept d (claim_load input leaseId t (claim_session input leaseId t d2))"
    by (meson tokens_kept_trans)
  then show ?thesis by (simp add: batch_claim_def 1 2)
qed

lemma kept_expire_one: "tokens_kept d (expire_one q t lease d)"
proof -
  have e: "tokens_kept d (fst (stmt_expire_lease i t d))" for i
    by (simp add: stmt_expire_lease_def cas_row_def)
  have r: "tokens_kept d (releaseRunnerLoad q i t (fst (stmt_expire_lease j t d)))" for i j
    by (simp add: releaseRunnerLoad_def stmt_expire_lease_def cas_row_def)
  show ?thesis
    using e [of "le_id lease"] r [of "le_runner lease" "le_id lease"] tokens_kept_trans [OF r kept_requeue]
    by (auto simp: expire_one_def Let_def case_prod_beta split: bool.split option.split)
qed

lemma kept_expireStale: "tokens_kept d (expireStale q t d)"
proof -
  have "tokens_kept d (fold (expire_one q t) ls d)" for ls
  proof (induction ls arbitrary: d)
    case (Cons a ls)
    show ?case using tokens_kept_trans [OF kept_expire_one Cons.IH] by simp
  qed simp
  then show ?thesis by (simp add: expireStale_def)
qed

lemma kept_failClaim: "tokens_kept d (failClaim q leaseId wid rid sid reason t d)"
proof -
  have a: "tokens_kept d (stmt_fail_work_item wid reason t (stmt_fail_lease leaseId t d))"
    by (simp add: stmt_fail_work_item_def stmt_fail_lease_def)
  have r: "tokens_kept d1 (releaseRunnerLoad q rid t d1)" for d1 by (simp add: releaseRunnerLoad_def)
  show ?thesis
    unfolding failClaim_def Let_def using tokens_kept_trans [OF a r] tokens_kept_trans [OF tokens_kept_trans [OF a kept_state] r]
    by (auto split: option.split)
qed

lemma kept_channel: "tokens_kept d (fst (prepareSessionChannel org q leaseId ch t now d))"
proof -
  let ?d0 = "expireStale q now d"
  have acc: "tokens_kept d1 (fst (stmt_accept_session q s t d1))" for s d1
    unfolding stmt_accept_session_def Let_def by (rule tokens_kept_update, simp, simp add: same_token_def)
  have sup: "tokens_kept d1 (stmt_supersede_channels q s leaseId t d1)" for s d1
    by (simp add: stmt_supersede_channels_def)
  have two: "tokens_kept d (fst (stmt_accept_session q s t (stmt_supersede_channels q s leaseId t ?d0)))" for s
    using kept_expireStale sup acc by (meson tokens_kept_trans)
  moreover have "tokens_kept d (d1\<lparr>channels := cs\<rparr>)" if "tokens_kept d d1" for d1 cs
    using that by (simp add: tokens_kept_def)
  ultimately show ?thesis
    using kept_expireStale by (auto simp: prepareSessionChannel_def Let_def case_prod_beta split: option.split bool.split)
qed

text \<open>
  The provider's conversation of a session is bound once. Whatever a runner
  reports when it renews, interrupts or finishes a lease, and whatever fails on the way, a
  session that already has a resume token keeps it. The turn lease of the session, which belongs
  to the cloud runtime, is not touched either.
\<close>

theorem resume_token_bound_once:
  "list_all2 same_token (sessions d) (sessions (fst (finish ref_store text newId input t now d)))"
  using kept_finish unfolding tokens_kept_def .

end
