(* ===== verification/TurnLease.thy ===== *)
theory TurnLease
  imports CloudTurn LeaseFacts
begin

text \<open>
  The turn lease of a session (\<open>active_turn_id\<close>, \<open>turn_lease_expires_at\<close>): the mutex of
  \<open>server/domain/runtime/turn.ts\<close> that serializes cloud turns, startups, closes and sandbox
  cleanups. All of them claim it with a guarded UPDATE of the store, so each is an instance of
  the interface \<open>compare_and_set\<close>; the step relation \<open>turn_step\<close> closes the argument over every
  statement that some other process can issue before the lease runs out, except the one write
  that ignores the lease: the dead-letter handler of a message of that very session.
\<close>

section \<open>Claims as compare-and-set\<close>

record turn_claim =
  tc_id :: id
  tc_expires :: time
  tc_time :: time

definition turn_rival :: "turn_claim \<Rightarrow> turn_claim \<Rightarrow> bool" where
  "turn_rival a b \<longleftrightarrow> tc_time b \<le> tc_expires a"

definition turn_set :: "turn_claim \<Rightarrow> session_row \<Rightarrow> session_row" where
  "turn_set c s = s\<lparr>se_active_turn := Some (tc_id c), se_turn_expires := Some (tc_expires c), se_depth := 0,
     se_updated := tc_time c\<rparr>"

lemma turn_free_held:
  "se_active_turn s = Some x \<Longrightarrow> se_turn_expires s = Some e \<Longrightarrow> t \<le> e \<Longrightarrow> \<not> turn_free t s"
  by (simp add: turn_free_def)

interpretation turn_cas: compare_and_set se_id "\<lambda>c. turn_guard q P_running (tc_time c)" turn_set turn_rival
  for q
  by unfold_locales (auto simp: turn_set_def turn_guard_def turn_rival_def turn_free_def)

lemma acquireTurnLease_cas:
  "acquireTurnLease q sid (tc_id c) (tc_expires c) (tc_time c) d =
     (case cas_row se_id sid (turn_guard q P_running (tc_time c)) (turn_set c) (sessions d)
      of (rows, hit) \<Rightarrow> (d\<lparr>sessions := rows\<rparr>, hit))"
  by (simp add: acquireTurnLease_def session_cas_def turn_set_def [abs_def])

text \<open>
  Two workers that race for the turn of a session cannot both win: after a won
  claim, every claim made before the lease runs out is refused.
\<close>

theorem turn_race:
  assumes "distinct (map se_id (sessions d))"
    and "acquireTurnLease q sid a ea ta d = (d1, True)" and "tb \<le> ea"
  shows "\<not> snd (acquireTurnLease q sid b eb tb d1)"
proof -
  let ?a = "\<lparr>tc_id = a, tc_expires = ea, tc_time = ta\<rparr>" and ?b = "\<lparr>tc_id = b, tc_expires = eb, tc_time = tb\<rparr>"
  let ?cas = "cas_row se_id sid (turn_guard q P_running ta) (turn_set ?a) (sessions d)"
  have d1: "sessions d1 = fst ?cas" "snd ?cas"
    using assms(2) acquireTurnLease_cas [of q sid ?a d] by (auto split: prod.splits)
  have "turn_rival ?a ?b" using assms(3) by (simp add: turn_rival_def)
  then have "\<not> snd (cas_row se_id sid (turn_guard q P_running tb) (turn_set ?b) (sessions d1))"
    using turn_cas.loser_fails [of ?a ?b "sessions d" sid q] assms(1) d1 by simp
  then show ?thesis using acquireTurnLease_cas [of q sid ?b d1] by (simp add: case_prod_beta)
qed

definition demo_session :: session_row where
  "demo_session = \<lparr>se_id = ''s'', se_organization = None, se_project = ''p'', se_environment = None,
     se_agent_snapshot = None, se_environment_snapshot = None, se_env = JObj [], se_env_from = JArr [],
     se_volumes = JArr [], se_volume_mounts = JArr [], se_sandbox = Some ''b'', se_resume_token = None,
     se_endpoint_path = None, se_state = P_running, se_reason = None, se_active_turn = None,
     se_turn_expires = None, se_depth = 3, se_metadata = JObj [], se_started = None, se_closed = None,
     se_deleted = None, se_created = 0, se_updated = 0\<rparr>"

definition session_db :: "session_row list \<Rightarrow> db" where
  "session_db ss = \<lparr>sessions = ss, work_items = [], leases = [], runners = [], channels = [], events = [],
     memory_stores = [], memories = [], environments = [], creations = [], approvals = []\<rparr>"

definition demo_turn :: db where
  "demo_turn = fst (acquireTurnLease ''p'' ''s'' ''a'' 360 0 (session_db [demo_session]))"

lemma demo_turn_won:
  "acquireTurnLease ''p'' ''s'' ''a'' 360 0 (session_db [demo_session]) = (demo_turn, True)"
  "distinct (map se_id (sessions (session_db [demo_session])))"
  by (simp_all add: demo_turn_def acquireTurnLease_def session_cas_def cas_row_def session_db_def demo_session_def
      turn_guard_def live_in_def turn_free_def sql_exists_def)

lemma demo_turn_rows: "sessions demo_turn =
   [demo_session\<lparr>se_active_turn := Some ''a'', se_turn_expires := Some 360, se_depth := 0, se_updated := 0\<rparr>]"
  by (simp add: demo_turn_def acquireTurnLease_def session_cas_def cas_row_def session_db_def demo_session_def
      turn_guard_def live_in_def turn_free_def)

theorem turn_race_witness: "\<not> snd (acquireTurnLease ''p'' ''s'' ''b'' 400 40 demo_turn)"
  by (rule turn_race [OF demo_turn_won(2,1)]) simp

section \<open>Everything others can do\<close>

definition keeps_turn :: "session_update \<Rightarrow> bool" where
  "keeps_turn u \<longleftrightarrow> su_active_turn u = None \<and> su_turn_expires u = None"

definition message_session :: "queue_message \<Rightarrow> id" where
  "message_session m = (case m of Msg_start s _ _ \<Rightarrow> s | Msg_turn s _ _ \<Rightarrow> s | Msg_step s _ _ \<Rightarrow> s)"

text \<open>
  The statements on sessions that processes other than \<open>me\<close> issue at times up to \<open>e\<close>. An update
  without a turn identifier never carries the turn columns, or is on another session than
  \<open>sid\<close>. The one such update of the code that is left out on purpose is the dead-letter
  handler on \<open>sid\<close> itself, which clears the lease of whoever holds it (\<open>dead_letter_frees_turn\<close>).
  \<open>columns\<close> is every other UPDATE of the table that has none of the turn columns, as the runner
  statements of \<open>leases.ts\<close> and the metadata and archive statements of \<open>sessions.ts\<close>.
\<close>

inductive turn_step :: "id \<Rightarrow> id \<Rightarrow> time \<Rightarrow> db \<Rightarrow> db \<Rightarrow> bool" for sid me :: id and e :: time where
  update: "keeps_turn u \<or> k \<noteq> sid \<Longrightarrow> turn_step sid me e d (updateSession q k u d)"
| update_when: "keeps_turn u \<or> k \<noteq> sid \<Longrightarrow> turn_step sid me e d (fst (updateSessionWhenState q k st u d))"
| dead_letter: "message_session m \<noteq> sid \<Longrightarrow> turn_step sid me e d (fst (markCloudTurnDeadLettered q m t d))"
| insert: "insertSession blocked s d = Some d' \<Longrightarrow> turn_step sid me e d d'"
| insert_keyed: "insertSessionCreation blocked s h fp c w d = Some d' \<Longrightarrow> turn_step sid me e d d'"
| columns: "sessions d' = sql_update P f (sessions d) \<Longrightarrow> (\<And>s. P s \<Longrightarrow> se_id (f s) = se_id s \<and>
    se_active_turn (f s) = se_active_turn s \<and> se_turn_expires (f s) = se_turn_expires s) \<Longrightarrow> turn_step sid me e d d'"
| rollback: "turn_step sid me e d (rollbackSessionChannel q ch k t d)"
| startup: "t \<le> e \<Longrightarrow> turn_step sid me e d (fst (acquirePendingStartupLease q k st0 x ex t d))"
| started: "x \<noteq> me \<or> k \<noteq> sid \<Longrightarrow> turn_step sid me e d (fst (completeCloudSessionStart q k st0 x u m d))"
| start_failed: "x \<noteq> me \<or> k \<noteq> sid \<Longrightarrow> turn_step sid me e d (fst (failCloudSessionStart q k st0 x u m d))"
| close: "t \<le> e \<Longrightarrow> turn_step sid me e d (fst (claimSessionClose q k sb x ex t d))"
| closed: "x \<noteq> me \<or> k \<noteq> sid \<Longrightarrow> turn_step sid me e d (fst (completeSessionClose q k sb x t d))"
| close_failed: "x \<noteq> me \<or> k \<noteq> sid \<Longrightarrow> turn_step sid me e d (fst (failSessionClose q k sb x msg t d))"
| reopen: "turn_step sid me e d (fst (claimSessionReopen q k sb t d))"
| acquire: "t \<le> e \<Longrightarrow> turn_step sid me e d (fst (acquireTurnLease q k x ex t d))"
| acquire_idle: "t \<le> e \<Longrightarrow> turn_step sid me e d (fst (acquireIdleTurnLease q k x ex t d))"
| renew: "x \<noteq> me \<or> k \<noteq> sid \<Longrightarrow> turn_step sid me e d (fst (renewTurnLease q k x ex d))"
| release: "x \<noteq> me \<or> k \<noteq> sid \<Longrightarrow> turn_step sid me e d (fst (releaseTurnLease q k x u d))"
| deepen: "turn_step sid me e d (fst (incrementContinuationDepth q k x d))"
| sweep: "turn_step sid me e d (markExpiredPendingSessions q before t d)"
| stall: "turn_step sid me e d (store_markStalledCloudSessions threshold t d)"
| cleanup: "t \<le> e \<Longrightarrow> turn_step sid me e d (fst (claimSandboxCleanup k sb x ex t d))"
| cleanup_released: "x \<noteq> me \<or> k \<noteq> sid \<Longrightarrow> turn_step sid me e d (fst (releaseSandboxCleanup k sb x d))"
| cleanup_done: "x \<noteq> me \<or> k \<noteq> sid \<Longrightarrow> turn_step sid me e d (fst (stampSandboxDestroyed k sb x t d))"
| queue: "keeps_turn u \<Longrightarrow> turn_step sid me e d (fst (queueSessionWorkWhenState q k st u w d))"
| finish: "turn_step sid me e d (fst (finish ref_store text newId input t now d))"
| claim: "turn_step sid me e d (fst (batch_claim input leaseId t now d))"
| sweep_leases: "turn_step sid me e d (expireStale q t d)"
| fail_claim: "turn_step sid me e d (failClaim q leaseId wid rid k reason t d)"
| channel: "turn_step sid me e d (fst (prepareSessionChannel org q leaseId ch t now d))"
| other: "sessions d' = sessions d \<Longrightarrow> turn_step sid me e d d'"

definition held_by :: "id \<Rightarrow> id \<Rightarrow> time \<Rightarrow> db \<Rightarrow> bool" where
  "held_by sid me e d \<longleftrightarrow>
     (\<forall>s \<in> set (sessions d). se_id s = sid \<longrightarrow> se_active_turn s = Some me \<and> se_turn_expires s = Some e)"

text \<open>The row of the session exists and is held: ids are never deleted, rows are only appended.\<close>

definition holds_turn :: "id \<Rightarrow> id \<Rightarrow> time \<Rightarrow> db \<Rightarrow> bool" where
  "holds_turn sid me e d \<longleftrightarrow> held_by sid me e d \<and> sid \<in> se_id ` set (sessions d)"

lemma held_update:
  assumes "holds_turn sid me e d" "sessions d' = sql_update P f (sessions d)"
    and "\<And>s. P s \<Longrightarrow> se_id s = sid \<Longrightarrow> se_active_turn s = Some me \<Longrightarrow> se_turn_expires s = Some e \<Longrightarrow>
           se_active_turn (f s) = Some me \<and> se_turn_expires (f s) = Some e"
    and "\<And>s. P s \<Longrightarrow> se_id (f s) = se_id s"
  shows "holds_turn sid me e d'"
proof -
  have "se_active_turn s = Some me \<and> se_turn_expires s = Some e" if s: "s \<in> set (sessions d')" "se_id s = sid" for s
  proof -
    obtain r where r: "r \<in> set (sessions d)" "s = (if P r then f r else r)"
      using s(1) unfolding assms(2) set_sql_update by blast
    then have "se_id r = sid" using s(2) assms(4) by (auto split: if_splits)
    then show ?thesis using r assms(1,3) by (auto simp: holds_turn_def held_by_def)
  qed
  moreover have "se_id (if P s then f s else s) = se_id s" for s using assms(4) by simp
  then have "se_id ` set (sessions d') = se_id ` set (sessions d)"
    unfolding assms(2) set_sql_update image_image by simp
  ultimately show ?thesis using assms(1) by (simp add: holds_turn_def held_by_def)
qed

lemma held_cas:
  assumes "holds_turn sid me e d"
    and "\<And>s. k = sid \<Longrightarrow> guard s \<Longrightarrow> se_active_turn s = Some me \<Longrightarrow> se_turn_expires s = Some e \<Longrightarrow>
           se_active_turn (f s) = Some me \<and> se_turn_expires (f s) = Some e"
    and "\<And>s. se_id (f s) = se_id s"
  shows "holds_turn sid me e (fst (session_cas k guard f d))"
  by (rule held_update [OF assms(1), of _ "\<lambda>s. se_id s = k \<and> guard s" f])
    (use assms(2,3) in \<open>auto simp: session_cas_def cas_row_def\<close>)

lemma held_kept: "holds_turn sid me e d \<Longrightarrow> tokens_kept d d' \<Longrightarrow> holds_turn sid me e d'"
proof -
  assume h: "holds_turn sid me e d" and k: "tokens_kept d d'"
  have len: "length (sessions d) = length (sessions d')"
    using k unfolding tokens_kept_def by (rule list_all2_lengthD)
  have same: "same_token (sessions d ! i) (sessions d' ! i)" if "i < length (sessions d)" for i
    using k that len unfolding tokens_kept_def by (auto simp: list_all2_conv_all_nth)
  have "se_active_turn s' = Some me \<and> se_turn_expires s' = Some e" if s': "s' \<in> set (sessions d')" "se_id s' = sid" for s'
  proof -
    obtain i where i: "i < length (sessions d')" "s' = sessions d' ! i" using s'(1) by (auto simp: in_set_conv_nth)
    moreover have "sessions d ! i \<in> set (sessions d)" using i(1) len by simp
    ultimately show ?thesis using h s'(2) same [of i] len by (auto simp: holds_turn_def held_by_def same_token_def)
  qed
  moreover have "map se_id (sessions d') = map se_id (sessions d)"
    using same len by (intro nth_equalityI) (auto simp: same_token_def)
  then have "se_id ` set (sessions d') = se_id ` set (sessions d)" by (metis set_map)
  ultimately show "holds_turn sid me e d'" using h by (simp add: holds_turn_def held_by_def)
qed

lemma held_same: "holds_turn sid me e d \<Longrightarrow> sessions d' = sessions d \<Longrightarrow> holds_turn sid me e d'"
  by (simp add: holds_turn_def held_by_def)

lemma held_insert:
  assumes "holds_turn sid me e d" "insertSession blocked s d = Some d'"
  shows "holds_turn sid me e d'"
proof -
  have "sessions d' = sessions d @ [s]" "se_id s \<notin> se_id ` set (sessions d)"
    using assms(2) by (auto simp: insertSession_def sql_exists_iff split: if_splits)
  then show ?thesis using assms(1) by (auto simp: holds_turn_def held_by_def)
qed

lemma creation_sessions:
  "insertSessionCreation blocked s h fp c w d = Some d' \<Longrightarrow>
     \<exists>d1. insertSession blocked s d = Some d1 \<and> sessions d' = sessions d1"
  by (auto simp: insertSessionCreation_def insert_creation_def insertWorkItem_def bind_eq_Some_conv
      split: if_splits option.splits)

lemma keeps_turn_write:
  "keeps_turn u \<Longrightarrow> se_active_turn (persistedSessionWrite u s) = se_active_turn s \<and>
     se_turn_expires (persistedSessionWrite u s) = se_turn_expires s"
  by (simp add: keeps_turn_def persistedSessionWrite_def)

lemma queue_sessions:
  "sessions (fst (queueSessionWorkWhenState q sid st u w d)) \<in>
     {sessions d, sessions (fst (updateSessionWhenState q sid st u d))}"
  by (cases "updateSessionWhenState q sid st u d")
    (auto simp: queueSessionWorkWhenState_def insertWorkItem_def split: option.split)

lemma turn_step_held:
  assumes "turn_step sid me e d d'" "holds_turn sid me e d"
  shows "holds_turn sid me e d'"
  using assms
proof (induction rule: turn_step.induct)
  case (update u k d q)
  show ?case
    by (rule held_update [OF update(2), of _ "live_session q k" "persistedSessionWrite u"])
      (use keeps_turn_write [of u] update(1) in \<open>auto simp: updateSession_def live_session_def\<close>)
next
  case (update_when u k d q st)
  show ?case unfolding updateSessionWhenState_def
    by (rule held_cas [OF update_when(2)]) (use keeps_turn_write [of u] update_when(1) in auto)
next
  case (dead_letter m d q t)
  then show ?case
    unfolding markCloudTurnDeadLettered_def Let_def fst_conv updateSessionWhenState_def
    by (intro held_cas) (auto simp: message_session_def)
next
  case (insert blocked s d d')
  then show ?case by (blast intro: held_insert)
next
  case (insert_keyed blocked s h fp c w d d')
  then show ?case using creation_sessions held_insert held_same by metis
next
  case (columns d' P f d)
  then show ?case by (intro held_update [of sid me e d d' P f]) auto
next
  case (rollback d q ch k t)
  show ?case
    by (rule held_update [OF rollback, of _ "\<lambda>s. live_session q k s \<and> se_state s = P_running"
          "\<lambda>s. s\<lparr>se_state := P_pending, se_reason := Some ''waiting-for-runner-recovery'', se_updated := t\<rparr>"])
      (simp_all add: rollbackSessionChannel_def)
next
  case (queue u d q k st w)
  have "holds_turn sid me e (fst (updateSessionWhenState q k st u d))" unfolding updateSessionWhenState_def
    by (rule held_cas [OF queue(2)]) (use keeps_turn_write [OF queue(1)] in auto)
  then show ?case using queue_sessions [of q k st u w d] queue(2) held_same by blast
next
  case (deepen d q k x)
  have "fst (incrementContinuationDepth q k x d) =
      fst (session_cas k (turn_held q x) (\<lambda>s. s\<lparr>se_depth := se_depth s + 1\<rparr>) d)"
    by (simp add: incrementContinuationDepth_def case_prod_beta)
  then show ?case by (simp add: held_cas [OF deepen])
next
  case (sweep d q before t)
  show ?case
    by (rule held_update [OF sweep, of _ "expired_pending q before t"
          "\<lambda>s. s\<lparr>se_state := P_error, se_reason := Some ''Session runtime startup timed out'', se_updated := t\<rparr>"])
      (auto simp: markExpiredPendingSessions_def)
next
  case (stall d threshold t)
  show ?case unfolding store_markStalledCloudSessions_def
    by (rule held_update [OF stall], simp, auto)
next
  case (finish d ref_store tx newId input t now)
  then show ?case by (rule held_kept [OF _ kept_finish])
next
  case (claim d input leaseId t now)
  then show ?case by (rule held_kept [OF _ kept_claim])
next
  case (sweep_leases d q t)
  then show ?case by (rule held_kept [OF _ kept_expireStale])
next
  case (fail_claim d q leaseId wid rid k reason t)
  then show ?case by (rule held_kept [OF _ kept_failClaim])
next
  case (channel d org q leaseId ch t now)
  then show ?case by (rule held_kept [OF _ kept_channel])
next
  case (other d' d)
  then show ?case using held_same by blast
qed (unfold acquirePendingStartupLease_def completeCloudSessionStart_def failCloudSessionStart_def
    claimSessionClose_def completeSessionClose_def failSessionClose_def claimSessionReopen_def
    acquireTurnLease_def acquireIdleTurnLease_def renewTurnLease_def releaseTurnLease_def
    claimSandboxCleanup_def releaseSandboxCleanup_def stampSandboxDestroyed_def;
    erule held_cas; auto simp: startup_guard_def startup_held_def startup_write_def close_guard_def
      turn_free_def reopen_guard_def turn_guard_def turn_held_def cleanup_guard_def)+

interpretation turn_sys: safe_system "holds_turn sid me e" "turn_step sid me e" "holds_turn sid me e" for sid me e
  by unfold_locales (auto intro: turn_step_held)

section \<open>The holder keeps the turn\<close>

lemma session_cas_won:
  assumes "session_cas sid guard f d = (d1, True)" "distinct (map se_id (sessions d))"
    and "\<And>s. se_active_turn (f s) = Some me \<and> se_turn_expires (f s) = Some e \<and> se_id (f s) = se_id s"
  shows "holds_turn sid me e d1"
proof -
  have d1: "sessions d1 = sql_update (\<lambda>s. se_id s = sid \<and> guard s) f (sessions d)"
    and hit: "sql_exists (\<lambda>s. se_id s = sid \<and> guard s) (sessions d)"
    using assms(1) by (auto simp: session_cas_def cas_row_def)
  obtain r where r: "r \<in> set (sessions d)" "se_id r = sid" "guard r" using hit by (auto simp: sql_exists_iff)
  have "se_active_turn s = Some me \<and> se_turn_expires s = Some e" if s: "s \<in> set (sessions d1)" "se_id s = sid" for s
  proof -
    obtain r' where r': "r' \<in> set (sessions d)" "s = (if se_id r' = sid \<and> guard r' then f r' else r')"
      using s(1) unfolding d1 set_sql_update by blast
    then have "se_id r' = sid" using s(2) assms(3) by (auto split: if_splits)
    then have "r' = r" using distinct_key_eq [OF assms(2) r'(1) r(1)] r(2) by simp
    then show ?thesis using r r' assms(3) by simp
  qed
  moreover have "f r \<in> set (sessions d1)" using r by (auto simp: d1 set_sql_update)
  then have "sid \<in> se_id ` set (sessions d1)" using r(2) assms(3) by (metis imageI)
  ultimately show ?thesis by (simp add: holds_turn_def held_by_def)
qed

lemma cas_refused: "(\<And>s. s \<in> set (sessions d) \<Longrightarrow> se_id s = sid \<Longrightarrow> \<not> guard s) \<Longrightarrow> \<not> snd (session_cas sid guard f d)"
  by (auto simp: session_cas_def cas_row_def sql_exists_iff)

lemma held_refuses:
  assumes "held_by sid me e d" "t \<le> e"
  shows "\<not> snd (acquireTurnLease q sid x ex t d)" "\<not> snd (acquireIdleTurnLease q sid x ex t d)"
    "\<not> snd (acquirePendingStartupLease q sid st x ex t d)" "\<not> snd (claimSessionClose q sid sb x ex t d)"
    "\<not> snd (claimSandboxCleanup sid sb x ex t d)" "\<not> snd (claimSessionReopen q sid sb t d)"
  unfolding acquireTurnLease_def acquireIdleTurnLease_def acquirePendingStartupLease_def claimSessionClose_def
    claimSandboxCleanup_def claimSessionReopen_def
  by (rule cas_refused; use assms in \<open>auto simp: held_by_def turn_guard_def startup_guard_def close_guard_def
      cleanup_guard_def reopen_guard_def turn_free_def\<close>)+

text \<open>
  C12 (safety): the turn lease is a mutex until it expires, as long as no message of the very
  session is dead-lettered. From a won claim on, through any sequence of statements of other processes
  (turns, startups, closes, reopens, sweeps, cleanups, queued work, new sessions, runner traffic, dead
  letters of other sessions), the session stays with its holder: until the expiry every claim of
  a turn, a startup, a close, a reopen or a cleanup is refused, and the holder can renew and
  release as long as the session is not deleted.
\<close>

theorem turn_lease_exclusive:
  assumes "distinct (map se_id (sessions d))" "acquireTurnLease q sid me e t d = (d1, True)"
    and "(turn_step sid me e)\<^sup>*\<^sup>* d1 d2" and "t' \<le> e"
  shows "\<not> snd (acquireTurnLease q' sid x ex t' d2) \<and> \<not> snd (acquireIdleTurnLease q' sid x ex t' d2) \<and>
    \<not> snd (acquirePendingStartupLease q' sid st x ex t' d2) \<and> \<not> snd (claimSessionClose q' sid sb x ex t' d2) \<and>
    \<not> snd (claimSandboxCleanup sid sb x ex t' d2) \<and> \<not> snd (claimSessionReopen q' sid sb t' d2) \<and>
    (sql_exists (live_session q sid) (sessions d2) \<longrightarrow>
       snd (renewTurnLease q sid me ex d2) \<and> snd (releaseTurnLease q sid me u d2))"
proof -
  have "holds_turn sid me e d1"
    by (rule session_cas_won [OF assms(2) [unfolded acquireTurnLease_def] assms(1)]) simp
  then have "holds_turn sid me e d2" using turn_sys.reachable_inv assms(3) by blast
  then have h: "held_by sid me e d2" by (simp add: holds_turn_def)
  have "snd (renewTurnLease q sid me ex d2) \<and> snd (releaseTurnLease q sid me u d2)"
    if "sql_exists (live_session q sid) (sessions d2)"
    using that h by (auto simp: renewTurnLease_def releaseTurnLease_def session_cas_def cas_row_def sql_exists_iff
        turn_held_def live_session_def live_in_def held_by_def)
  then show ?thesis using held_refuses [OF h assms(4)] by blast
qed

theorem turn_lease_exclusive_witness:
  "\<not> snd (claimSessionClose ''p'' ''s'' ''b'' ''x'' 1000 300
     (fst (markCloudTurnDeadLettered ''p'' (Msg_start ''z'' ''enbor'' None) 260 (store_markStalledCloudSessions 100 250 demo_turn))))"
proof -
  have "turn_step ''s'' ''a'' 360 demo_turn (store_markStalledCloudSessions 100 250 demo_turn)"
    by (rule turn_step.stall)
  moreover have "turn_step ''s'' ''a'' 360 (store_markStalledCloudSessions 100 250 demo_turn)
      (fst (markCloudTurnDeadLettered ''p'' (Msg_start ''z'' ''enbor'' None) 260 (store_markStalledCloudSessions 100 250 demo_turn)))"
    by (rule turn_step.dead_letter) (simp add: message_session_def)
  ultimately have "(turn_step ''s'' ''a'' 360)\<^sup>*\<^sup>* demo_turn
      (fst (markCloudTurnDeadLettered ''p'' (Msg_start ''z'' ''enbor'' None) 260 (store_markStalledCloudSessions 100 250 demo_turn)))"
    by (meson converse_rtranclp_into_rtranclp r_into_rtranclp)
  from turn_lease_exclusive [OF demo_turn_won(2,1) this, of 300] show ?thesis by simp
qed

text \<open>
  The exception. The dead-letter handler is not keyed on the turn: once a message of a session is
  dead-lettered, the worker that still runs the turn has lost its lease before it expires, can neither renew
  nor release it, and a close claims the session under it.
\<close>

theorem dead_letter_frees_turn:
  "snd (claimSessionClose ''p'' ''s'' ''b'' ''x'' 1000 300
     (fst (markCloudTurnDeadLettered ''p'' (Msg_turn ''s'' ''hi'' ''session.prompt'') 260 demo_turn))) \<and>
   \<not> snd (renewTurnLease ''p'' ''s'' ''a'' 900
     (fst (markCloudTurnDeadLettered ''p'' (Msg_turn ''s'' ''hi'' ''session.prompt'') 260 demo_turn)))"
  by (simp add: markCloudTurnDeadLettered_def updateSessionWhenState_def claimSessionClose_def renewTurnLease_def
      session_cas_def cas_row_def demo_turn_rows sql_exists_def demo_session_def state_in_def close_guard_def
      turn_held_def live_in_def turn_free_def persistedSessionWrite_def upd_state_def no_update_def persistedSessionStates_def)

section \<open>Retiring a lease is a compare-and-set\<close>

datatype retire = Expire time | Interrupt "string option" time

fun retire_set :: "retire \<Rightarrow> lease_row \<Rightarrow> lease_row" where
  "retire_set (Expire t) l = l\<lparr>le_state := L_expired, le_updated := t\<rparr>"
| "retire_set (Interrupt token t) l = l\<lparr>le_state := L_expired, le_updated := t,
     le_resume_token := (if truthy_str token then token else le_resume_token l)\<rparr>"

interpretation retire_cas: compare_and_set le_id "\<lambda>_. lease_active" retire_set "\<lambda>_ _. True"
proof
  show "le_id (retire_set p l) = le_id l" for p l by (cases p) simp_all
  show "\<not> lease_active (retire_set p l)" for p l by (cases p) (simp_all add: lease_active_def)
qed

text \<open>
  The sweep and the runner cannot both retire a lease, so the work item is requeued
  and the load of the runner is released at most once: after a hit of either statement both
  statements miss on that lease and leave the database as it is.
\<close>

theorem retire_once:
  assumes "keys_ok d"
    and "stmt_expire_lease k t d = (d1, True) \<or> stmt_interrupt_lease k token t d = (d1, True)"
  shows "stmt_expire_lease k t' d1 = (d1, False) \<and> stmt_interrupt_lease k token' t' d1 = (d1, False)"
proof -
  have set_eq: "(\<lambda>l. l\<lparr>le_state := L_expired, le_updated := t\<rparr>) = retire_set (Expire t)"
    "(\<lambda>l. l\<lparr>le_state := L_expired, le_updated := t,
       le_resume_token := (if truthy_str token then token else le_resume_token l)\<rparr>) = retire_set (Interrupt token t)"
    for t token by (simp_all add: fun_eq_iff)
  let ?cas = "\<lambda>p rows. cas_row le_id k lease_active (retire_set p) rows"
  have dist: "distinct (map le_id (leases d))" using assms(1) by (simp add: keys_ok_def)
  obtain p where p: "leases d1 = fst (?cas p (leases d))" "snd (?cas p (leases d))"
    using assms(2) by (auto simp: stmt_expire_lease_def stmt_interrupt_lease_def set_eq split: prod.splits)
      (metis fst_conv snd_conv)+
  have miss: "\<not> snd (?cas q (leases d1))" for q
    unfolding p(1) by (rule retire_cas.loser_fails [OF TrueI dist p(2)])
  have same: "fst (?cas q (leases d1)) = leases d1" for q by (rule cas_row_miss [OF miss])
  show ?thesis
    using miss same by (simp add: stmt_expire_lease_def stmt_interrupt_lease_def set_eq case_prod_beta)
qed

theorem retire_once_witness:
  "snd (stmt_interrupt_lease ''l'' None 300 (fst (stmt_expire_lease ''l'' 200 demo_leased))) = False"
proof -
  have "stmt_expire_lease ''l'' 200 demo_leased = (fst (stmt_expire_lease ''l'' 200 demo_leased), True)"
    by (simp add: stmt_expire_lease_def cas_row_def sql_exists_def demo_leased_tables new_lease_def lease_active_def)
  from retire_once [OF demo_ready(1) disjI1 [OF this]] show ?thesis by simp
qed

end
