(* ===== verification/Lifecycle.thy ===== *)
theory Lifecycle
  imports CloudTurn TurnLease
begin

text \<open>
  Closing, reopening and deleting sessions (\<open>server/usecases/runtime/session-lifecycle.ts\<close>),
  prompting them (\<open>session-prompt.ts\<close>, with the work item of \<open>session-create.ts\<close>) and the
  watchdog (\<open>watchdog.ts\<close>). What the sandbox, the runner and the workspace reader answer, and
  what other processes write while the handler waits for them, are arguments.
\<close>

section \<open>Writable memory volumes\<close>

definition isMemoryVolume :: "json \<Rightarrow> bool" where
  "isMemoryVolume v \<longleftrightarrow> jget v ''type'' = Some (JStr ''memory'')"

definition volumeMountReadOnly :: "json option \<Rightarrow> json list \<Rightarrow> bool" where
  "volumeMountReadOnly volumeName volumeMounts =
     (case List.find (\<lambda>m. jget m ''name'' = volumeName) volumeMounts of
        None \<Rightarrow> True
      | Some m \<Rightarrow> (case jget m ''readOnly'' of Some (JBool b) \<Rightarrow> b | _ \<Rightarrow> True))"

definition json_list :: "json \<Rightarrow> json list" where
  "json_list v = (case v of JArr xs \<Rightarrow> xs | _ \<Rightarrow> [])"

definition writable_volumes :: "session_row \<Rightarrow> json list" where
  "writable_volumes s =
     filter (\<lambda>v. isMemoryVolume v \<and> \<not> volumeMountReadOnly (jget v ''name'') (json_list (se_volume_mounts s)))
       (json_list (se_volumes s))"

section \<open>The outside of a close\<close>

type_synonym store_snapshot = "string \<times> (string \<times> string) list"

record close_world =
  cl_read :: "json list \<Rightarrow> string + store_snapshot list"
  cl_ref :: "string \<Rightarrow> id option"
  cl_ids :: "nat \<Rightarrow> nat \<Rightarrow> id"
  cl_stop :: "string option"
  cl_dispatch :: "string option"
  cl_meanwhile :: "db \<Rightarrow> db"

datatype session_error =
    Not_found
  | Conflict string
  | Thrown string

fun sync_stores ::
    "close_world \<Rightarrow> nat \<Rightarrow> id \<Rightarrow> time \<Rightarrow> store_snapshot list \<Rightarrow> db \<Rightarrow> db \<times> string option" where
  "sync_stores w k projectId t [] d = (d, None)"
| "sync_stores w k projectId t ((ref, mems) # rest) d =
     (case cl_ref w ref of
        None \<Rightarrow> sync_stores w k projectId t rest d
      | Some storeId \<Rightarrow>
          (case replaceMemoryStoreMemories (cl_ids w k) projectId storeId mems t d of
             None \<Rightarrow> (d, Some ''UNIQUE constraint failed'')
           | Some d' \<Rightarrow> sync_stores w (Suc k) projectId t rest d'))"

definition syncWritableMemoryStores :: "close_world \<Rightarrow> id \<Rightarrow> session_row \<Rightarrow> time \<Rightarrow> db \<Rightarrow> db \<times> string option" where
  "syncWritableMemoryStores w projectId s t d =
     (if \<not> truthy_str (se_sandbox s) \<or> writable_volumes s = [] then (d, None)
      else case cl_read w (writable_volumes s) of
        Inl e \<Rightarrow> (d, Some e)
      | Inr snaps \<Rightarrow> sync_stores w 0 projectId t snaps d)"

section \<open>Closing\<close>

text \<open>The runtime is torn down between the claim and its completion; others may write meanwhile.\<close>

definition teardown :: "close_world \<Rightarrow> id \<Rightarrow> session_row \<Rightarrow> time \<Rightarrow> db \<Rightarrow> db \<times> effect list \<times> string option" where
  "teardown w projectId s t d =
     (case syncWritableMemoryStores w projectId s t (cl_meanwhile w d) of
        (d1, Some e) \<Rightarrow> (d1, [], Some e)
      | (d1, None) \<Rightarrow> (d1, [E_stop (the (se_sandbox s))], cl_stop w))"

definition closeCloudSession ::
    "close_world \<Rightarrow> id \<Rightarrow> session_row \<Rightarrow> id \<Rightarrow> time \<Rightarrow> time \<Rightarrow> db \<Rightarrow> db \<times> effect list \<times> (session_error + session_row)" where
  "closeCloudSession w projectId s cleanupId t t' d =
     (let sid = se_id s; sb = the (se_sandbox s) in
      case claimSessionClose projectId sid sb cleanupId (lifecycleLeaseExpiry t) t d of
        (d1, False) \<Rightarrow> (d1, [], Inl (Conflict ''Session has an active turn or is no longer available to close''))
      | (d1, True) \<Rightarrow>
          (case teardown w projectId s t d1 of
             (d2, es, Some e) \<Rightarrow>
               (fst (failSessionClose projectId sid sb cleanupId e t' d2),
                es @ [E_audit ''session.close'' Failure],
                Inl (Conflict ''Session runtime could not be closed''))
           | (d2, es, None) \<Rightarrow>
               (case completeSessionClose projectId sid sb cleanupId t' d2 of
                  (d3, False) \<Rightarrow> (d3, es, Inl (Thrown ''Claimed Session close could not be finalized''))
                | (d3, True) \<Rightarrow>
                    (d3, es @ [E_audit ''session.close'' Success, E_archive sid],
                     case findSession projectId sid d3 of
                       None \<Rightarrow> Inl (Thrown ''Closed session row is required'')
                     | Some row \<Rightarrow> Inr row))))"

definition closing_update :: "time \<Rightarrow> session_update" where
  "closing_update t = (upd_state Closed (Some (Some ''closing'')) t)\<lparr>su_closed := Some None\<rparr>"

text \<open>
  The work of a self-hosted session is cancelled: its active items, their leases, and one unit of
  load for each runner that held one.
\<close>

definition nonempty :: "id option \<Rightarrow> id list" where
  "nonempty x = (case x of None \<Rightarrow> [] | Some i \<Rightarrow> if i = [] then [] else [i])"

definition cancel_session_work :: "id \<Rightarrow> id \<Rightarrow> string \<Rightarrow> time \<Rightarrow> db \<Rightarrow> db" where
  "cancel_session_work projectId sid reason t d =
     (let items = activeSessionWorkItems projectId sid d in
      if items = [] then d
      else
        let leaseIds = concat (map (\<lambda>w. nonempty (wi_lease w)) items);
            runnerIds = remdups (concat (map (\<lambda>w. nonempty (wi_runner w)) items));
            d1 = cancelWorkItems projectId (map wi_id items) (message_json (''Session closed: '' @ reason)) t d;
            d2 = (if leaseIds = [] then d1 else cancelLeases projectId leaseIds t d1) in
        fold (\<lambda>r. decrementRunnerLoad projectId r t) runnerIds d2)"

definition closeSelfHostedSession ::
    "close_world \<Rightarrow> id \<Rightarrow> session_row \<Rightarrow> string \<Rightarrow> time \<Rightarrow> db \<Rightarrow> db \<times> effect list \<times> (session_error + session_row)" where
  "closeSelfHostedSession w projectId s reason t d =
     (let sid = se_id s; sandboxed = (sessionSandboxBackend s = Some ''runner-sandbox'') in
      case updateSessionWhenState projectId sid [domainSessionState (se_state s)] (closing_update t) d of
        (d1, False) \<Rightarrow> (d1, [], Inl (Conflict ''Session changed while close was being claimed''))
      | (d1, True) \<Rightarrow>
          (let call = (if sandboxed then E_stop sid else E_abort sid) in
           if \<not> sandboxed \<and> cl_dispatch w \<noteq> None then (d1, [call], Inl (Thrown (the (cl_dispatch w))))
           else
             let d2 = cancel_session_work projectId sid reason t (cl_meanwhile w d1);
                 d3 = updateSession projectId sid
                        ((upd_state Closed (Some (Some ''runner-cancelled'')) t)\<lparr>su_closed := Some (Some t)\<rparr>) d2 in
             (d3, [call, E_audit ''session.close'' Success, E_archive sid],
              case findSession projectId sid d3 of
                None \<Rightarrow> Inl (Thrown ''Closed self-hosted session row is required'')
              | Some row \<Rightarrow> Inr row)))"

definition closeSessionRow ::
    "close_world \<Rightarrow> id \<Rightarrow> session_row \<Rightarrow> string \<Rightarrow> id \<Rightarrow> time \<Rightarrow> time \<Rightarrow> db \<Rightarrow>
     db \<times> effect list \<times> (session_error + session_row)" where
  "closeSessionRow w projectId s reason cleanupId t t' d =
     (if domainSessionState (se_state s) = Closed
      then (d, [], if se_closed s \<noteq> None then Inr s
                   else Inl (Conflict ''Session runtime cleanup is still in progress''))
      else if sessionSandboxBackend s = Some ''runner-sandbox'' \<or> \<not> truthy_str (se_sandbox s)
      then closeSelfHostedSession w projectId s reason t d
      else closeCloudSession w projectId s cleanupId t t' d)"

definition closeSession ::
    "close_world \<Rightarrow> id \<Rightarrow> id \<Rightarrow> string \<Rightarrow> id \<Rightarrow> time \<Rightarrow> time \<Rightarrow> db \<Rightarrow> db \<times> effect list \<times> (session_error + session_row)" where
  "closeSession w projectId sessionId reason cleanupId t t' d =
     (case findSession projectId sessionId d of
        None \<Rightarrow> (d, [], Inl Not_found)
      | Some s \<Rightarrow> closeSessionRow w projectId s reason cleanupId t t' d)"

section \<open>Reopening and deleting\<close>

definition reopened_update :: "time \<Rightarrow> session_update" where
  "reopened_update t =
     (upd_state Idle (Some None) t)\<lparr>su_started := Some (Some t), su_closed := Some None\<rparr>"

definition finish_reopen ::
    "id \<Rightarrow> id \<Rightarrow> db \<times> effect list \<Rightarrow> db \<times> effect list \<times> (session_error + session_row)" where
  "finish_reopen projectId sid r =
     (case r of (d, es) \<Rightarrow>
        (d, es @ [E_audit ''session.reopen'' Success],
         case findSession projectId sid d of
           None \<Rightarrow> Inl (Thrown ''Reopened session row is required'')
         | Some s \<Rightarrow> Inr s))"

definition reopenSession ::
    "startup_world \<Rightarrow> id \<Rightarrow> id \<Rightarrow> id \<Rightarrow> startup_times \<Rightarrow> time \<Rightarrow> db \<Rightarrow>
     db \<times> effect list \<times> (session_error + session_row)" where
  "reopenSession w projectId sessionId startupId tms t d =
     (case findSession projectId sessionId d of
        None \<Rightarrow> (d, [], Inl Not_found)
      | Some s \<Rightarrow>
        (if domainSessionState (se_state s) \<in> {Idle, Pending, Running} then (d, [], Inr s)
         else if domainSessionState (se_state s) \<noteq> Closed
         then (d, [], Inl (Conflict ''Only closed sessions can be reopened''))
         else if sessionSandboxBackend s = Some ''runner-sandbox'' \<or> \<not> truthy_str (se_sandbox s)
         then finish_reopen projectId sessionId (updateSession projectId sessionId (reopened_update t) d, [])
         else if se_closed s = None \<or> jstr (jget (se_metadata s) ''sandboxDestroyedAt'') = None
         then (d, [], Inl (Conflict ''Session runtime cleanup is not complete''))
         else if se_agent_snapshot s = None
         then (d, [], Inl (Conflict ''Session agent snapshot is required''))
         else
           (case claimSessionReopen projectId sessionId (the (se_sandbox s)) t d of
              (d1, False) \<Rightarrow> (d1, [], Inl (Conflict ''Session runtime is no longer closed''))
            | (d1, True) \<Rightarrow>
                (case jstr (jget (se_metadata s) ''runtime'') of
                   None \<Rightarrow> (d1, [], Inl (Thrown ''Session runtime metadata is required''))
                 | Some runtime \<Rightarrow>
                     (case startSessionRuntimeForRow w projectId
                             (s\<lparr>se_state := P_pending, se_reason := None, se_started := Some t, se_closed := None,
                                se_metadata := jdel ''sandboxDestroyedAt'' (se_metadata s), se_updated := t\<rparr>)
                             (the (se_sandbox s)) startupId runtime None tms d1 of
                        (d2, es, Inl e) \<Rightarrow> (d2, es, Inl (Thrown e))
                      | (d2, es, Inr _) \<Rightarrow> finish_reopen projectId sessionId (d2, es))))))"

definition deleteSession ::
    "close_world \<Rightarrow> id \<Rightarrow> id \<Rightarrow> id \<Rightarrow> time \<Rightarrow> time \<Rightarrow> time \<Rightarrow> db \<Rightarrow>
     db \<times> effect list \<times> (session_error + session_row)" where
  "deleteSession w projectId sessionId cleanupId t t' deletedAt d =
     (case findSession projectId sessionId d of
        None \<Rightarrow> (d, [], Inl Not_found)
      | Some s \<Rightarrow>
          (let remove = (\<lambda>(d1, es). (updateSession projectId sessionId
                 (no_update\<lparr>su_deleted := Some (Some deletedAt), su_updated := Some deletedAt\<rparr>) d1,
               es @ [E_audit ''session.delete'' Success],
               Inr (s\<lparr>se_deleted := Some deletedAt, se_updated := deletedAt\<rparr>))) in
           if (truthy_str (se_sandbox s) \<or> sessionSandboxBackend s = Some ''runner-sandbox'') \<and>
              domainSessionState (se_state s) \<noteq> Closed
           then (case closeSessionRow w projectId s ''user_requested'' cleanupId t t' d of
                   (d1, es, Inl e) \<Rightarrow> (d1, es, Inl e)
                 | (d1, es, Inr _) \<Rightarrow> remove (d1, es))
           else remove (d, [])))"

definition markExpiredPending :: "id \<Rightarrow> time \<Rightarrow> db \<Rightarrow> db" where
  "markExpiredPending projectId sweptAt d =
     markExpiredPendingSessions projectId (sweptAt - LIFECYCLE_LEASE_TTL_MS) sweptAt d"

section \<open>Work items of self-hosted sessions\<close>

definition runtimeSupportsLivePrompts :: "string \<Rightarrow> bool" where
  "runtimeSupportsLivePrompts runtime \<longleftrightarrow> runtime \<in> {''enbor'', ''claude-code'', ''codex'', ''copilot''}"

record work_values =
  wv_agent :: json
  wv_environment :: "json option"
  wv_runtime :: string
  wv_config :: json
  wv_env :: json
  wv_env_from :: json
  wv_volumes :: json
  wv_mounts :: json
  wv_prompt :: "string option"
  wv_resume :: bool
  wv_token :: "string option"
  wv_request :: "string option"

definition str_or_null :: "string option \<Rightarrow> json" where
  "str_or_null x = (case x of None \<Rightarrow> JNull | Some v \<Rightarrow> JStr v)"

definition opt_member :: "string \<Rightarrow> string option \<Rightarrow> (string \<times> json) list" where
  "opt_member k x = (if truthy_str x then [(k, JStr (the x))] else [])"

definition selfHostedSessionWorkItem :: "id \<Rightarrow> id \<Rightarrow> id \<Rightarrow> session_row \<Rightarrow> work_values \<Rightarrow> time \<Rightarrow> work_item_row" where
  "selfHostedSessionWorkItem newId organizationId projectId session v t =
     (let provider = jstr (jget (wv_agent v) ''provider'');
          runnerModel = selfHostedRuntimeModel provider (jstr (jget (wv_agent v) ''model''));
          envType = jstr (jopt (wv_environment v) ''type'') in
      \<lparr>wi_id = newId, wi_organization = organizationId, wi_project = projectId, wi_session = Some (se_id session),
       wi_environment = se_environment session, wi_runner = None, wi_lease = None, wi_type = ''session.start'',
       wi_state = W_available, wi_priority = 0, wi_attempts = 0, wi_max_attempts = 3,
       wi_payload = JObj (
         [(''protocol'', JStr ''enbor-runner-work''), (''type'', JStr ''session.start''),
          (''sessionId'', JStr (se_id session)),
          (''hostingMode'', JStr (case envType of None \<Rightarrow> ''self_hosted'' | Some x \<Rightarrow> x)),
          (''runtime'', JStr (wv_runtime v)), (''runtimeConfig'', wv_config v)] @
         opt_member ''provider'' provider @ opt_member ''model'' runnerModel @
         [(''runtimeDriver'', str_or_null (runtimeDriverName (wv_runtime v) Self_hosted)),
          (''agentSnapshot'', wv_agent v),
          (''environmentSnapshot'', case wv_environment v of None \<Rightarrow> JNull | Some e \<Rightarrow> e),
          (''env'', wv_env v), (''envFrom'', wv_env_from v), (''volumes'', wv_volumes v),
          (''volumeMounts'', wv_mounts v), (''requestId'', str_or_null (wv_request v)),
          (''prompt'', str_or_null (wv_prompt v)), (''resume'', JBool (wv_resume v)),
          (''resumeToken'', str_or_null (wv_token v)),
          (''runtimeRequirement'',
             if envType = Some ''self_hosted'' then requirement_json (runtimeRequirement (wv_runtime v) runnerModel)
             else JNull)]),
       wi_result = None, wi_error = None, wi_available_at = t, wi_created = t, wi_updated = t\<rparr>)"

fun first_resume_token :: "work_item_row list \<Rightarrow> string option" where
  "first_resume_token [] = None"
| "first_resume_token (w # ws) =
     (case (if wi_state w = W_succeeded then nonempty_str (jopt (wi_result w) ''resumeToken'') else None) of
        Some token \<Rightarrow> Some token
      | None \<Rightarrow>
          (case nonempty_str (jget (wi_payload w) ''resumeToken'') of
             Some token \<Rightarrow> Some token
           | None \<Rightarrow> first_resume_token ws))"

definition latestRunnerResumeToken :: "id \<Rightarrow> id \<Rightarrow> db \<Rightarrow> string option" where
  "latestRunnerResumeToken projectId sessionId d =
     first_resume_token (recentSessionWorkItems projectId sessionId 5 d)"

text \<open>The assignment call to the runner pool follows only a queued item of an environment.\<close>

definition assign_effect :: "work_item_row \<Rightarrow> effect list" where
  "assign_effect w = (if truthy_str (wi_environment w) then [E_assign (wi_id w)] else [])"

definition enqueueSelfHostedSessionWork ::
    "id \<Rightarrow> id \<Rightarrow> id \<Rightarrow> session_row \<Rightarrow> work_values \<Rightarrow> time \<Rightarrow> db \<Rightarrow> (db \<times> effect list) option" where
  "enqueueSelfHostedSessionWork newId organizationId projectId session v t d =
     (let w = selfHostedSessionWorkItem newId organizationId projectId session v t in
      map_option (\<lambda>d'. (d', assign_effect w)) (insertWorkItem w d))"

definition queueSelfHostedSessionWorkWhenState ::
    "id \<Rightarrow> id \<Rightarrow> id \<Rightarrow> session_row \<Rightarrow> work_values \<Rightarrow> session_state list \<Rightarrow> session_update \<Rightarrow> time \<Rightarrow> db \<Rightarrow>
     db \<times> effect list \<times> (repo_error + bool)" where
  "queueSelfHostedSessionWorkWhenState newId organizationId projectId session v expected upd t d =
     (let w = selfHostedSessionWorkItem newId organizationId projectId session v t in
      case queueSessionWorkWhenState projectId (se_id session) expected upd w d of
        (d', r) \<Rightarrow> (d', if r = Inr True then assign_effect w else [], r))"

section \<open>Prompting a session\<close>

datatype prompt_outcome =
    P_refused nat string
  | P_live
  | P_queued

record prompt_world =
  pw_accepts :: bool
  pw_delivered :: bool
  pw_inline :: "turn_world option"
  pw_environment :: "json option"
  pw_after :: time

definition queueSelfHostedSessionPrompt ::
    "prompt_world \<Rightarrow> id \<Rightarrow> id \<Rightarrow> id \<Rightarrow> session_row \<Rightarrow> string \<Rightarrow> string option \<Rightarrow> time \<Rightarrow> db \<Rightarrow>
     db \<times> effect list \<times> (repo_error + prompt_outcome)" where
  "queueSelfHostedSessionPrompt w newId organizationId projectId session content requestId t d =
     (case se_agent_snapshot session of
        None \<Rightarrow> (d, [], Inr (P_refused 409 ''Session agent snapshot is required''))
      | Some agent \<Rightarrow>
        (case jstr (jget (se_metadata session) ''runtime'') of
           None \<Rightarrow> (d, [], Inl (ThrownError ''Session runtime metadata is required''))
         | Some runtime \<Rightarrow>
             let token = latestRunnerResumeToken projectId (se_id session) d;
                 v = \<lparr>wv_agent = agent, wv_environment = pw_environment w, wv_runtime = runtime,
                      wv_config = (case jget (se_metadata session) ''runtimeConfig'' of Some (JObj kvs) \<Rightarrow> JObj kvs | _ \<Rightarrow> JObj []),
                      wv_env = se_env session, wv_env_from = se_env_from session, wv_volumes = se_volumes session,
                      wv_mounts = se_volume_mounts session, wv_prompt = Some content,
                      wv_resume = truthy_str token, wv_token = token, wv_request = requestId\<rparr> in
             (case queueSelfHostedSessionWorkWhenState newId organizationId projectId session v [Idle, Running]
                     (upd_state Pending (Some (Some ''waiting-for-runner'')) t) t d of
                (d1, es, Inl e) \<Rightarrow> (d1, es, Inl e)
              | (d1, es, Inr queued) \<Rightarrow>
                  (d1, es, Inr (if queued then P_queued else P_refused 409 ''Session runtime is no longer active'')))))"

definition live_prompt :: "prompt_world \<Rightarrow> session_row \<Rightarrow> string \<Rightarrow> db \<Rightarrow> db \<times> effect list \<times> (repo_error + prompt_outcome)" where
  "live_prompt w session content d =
     (case jstr (jget (se_metadata session) ''runtime'') of
        None \<Rightarrow> (d, [], Inl (ThrownError ''Session runtime metadata is required''))
      | Some runtime \<Rightarrow>
          if \<not> runtimeSupportsLivePrompts runtime
          then (d, [], Inr (P_refused 409 (''Runtime '' @ runtime @ '' does not support live prompts'')))
          else if \<not> pw_accepts w
          then (d, [], Inr (P_refused 409 ''Session runtime is not accepting live prompts''))
          else if pw_delivered w
          then (d, [E_send (se_id session) content, E_audit ''session.command'' Success], Inr P_live)
          else (d, [E_send (se_id session) content],
                Inr (P_refused 409 ''Session runtime did not accept the live prompt'')))"

definition cloud_prompt ::
    "prompt_world \<Rightarrow> id \<Rightarrow> session_row \<Rightarrow> string \<Rightarrow> time \<Rightarrow> db \<Rightarrow> db \<times> effect list \<times> (repo_error + prompt_outcome)" where
  "cloud_prompt w projectId session content t d =
     (case updateSessionWhenState projectId (se_id session) [Idle, Running] (upd_state Running (Some None) t) d of
        (d1, False) \<Rightarrow> (d1, [], Inr (P_refused 409 ''Session runtime is no longer active''))
      | (d1, True) \<Rightarrow>
          (case pw_inline w of
             None \<Rightarrow> (d1, [E_enqueue (Msg_turn (se_id session) content ''session.command'') 0], Inr P_queued)
           | Some tw \<Rightarrow>
               (case executeCloudSessionTurn tw projectId session ''session.command'' (pw_after w) d1 of
                  (d2, es, outcome) \<Rightarrow>
                    (d2, es, Inr (case outcome of
                                    O_cancelled \<Rightarrow> P_refused 409 ''Session runtime is no longer active''
                                  | O_error m \<Rightarrow> P_refused 500 m
                                  | _ \<Rightarrow> P_live)))))"

definition dispatchSessionPrompt ::
    "prompt_world \<Rightarrow> id \<Rightarrow> id \<Rightarrow> id \<Rightarrow> id \<Rightarrow> string \<Rightarrow> string option \<Rightarrow> time \<Rightarrow> db \<Rightarrow>
     db \<times> effect list \<times> (repo_error + prompt_outcome)" where
  "dispatchSessionPrompt w newId organizationId projectId sessionId content requestId t d =
     (case findSession projectId sessionId d of
        None \<Rightarrow> (d, [], Inr (P_refused 409 ''Session runtime is no longer active''))
      | Some session \<Rightarrow>
          if domainSessionState (se_state session) \<notin> {Idle, Running}
          then (d, [], Inr (P_refused 409 ''Session runtime is not active''))
          else if truthy_str (se_sandbox session) then cloud_prompt w projectId session content t d
          else if domainSessionState (se_state session) = Running then live_prompt w session content d
          else queueSelfHostedSessionPrompt w newId organizationId projectId session content requestId t d)"

section \<open>The watchdog\<close>

definition STALLED_THRESHOLD_MS :: int where "STALLED_THRESHOLD_MS = 20 * 60000"

definition ENDED_RUNTIME_STATES :: "session_state list" where
  "ENDED_RUNTIME_STATES = [Closed, Errored]"

text \<open>
  Cleaning one leaked sandbox: claim it, stop it, stamp it. \<open>ids\<close> and \<open>clock\<close> give the claim
  identifier and the times of the claim and the stamp for the row at hand; \<open>stop\<close> says whether
  stopping that sandbox fails. The last component lists the failures of the sweep.
\<close>

record sweep_world =
  wd_id :: "id \<Rightarrow> id"
  wd_claimed :: "id \<Rightarrow> time"
  wd_destroyed :: "id \<Rightarrow> time"
  wd_stop_fails :: "id \<Rightarrow> bool"

definition destroy_one :: "sweep_world \<Rightarrow> session_row \<Rightarrow> db \<Rightarrow> db \<times> effect list \<times> string list" where
  "destroy_one w row d =
     (let sid = se_id row; c = wd_id w sid in
      case se_sandbox row of
        None \<Rightarrow> (d, [], [])
      | Some sb \<Rightarrow>
          if sb = [] then (d, [], [])
          else (case claimSandboxCleanup sid sb c (lifecycleLeaseExpiry (wd_claimed w sid)) (wd_claimed w sid) d of
              (d1, False) \<Rightarrow> (d1, [], [])
            | (d1, True) \<Rightarrow>
                if wd_stop_fails w sid
                then (fst (releaseSandboxCleanup sid sb c d1), [E_stop sb],
                      [''failed to destroy leaked sandbox '' @ sb @ '' for session '' @ sid])
                else (case stampSandboxDestroyed sid sb c (wd_destroyed w sid) d1 of
                        (d2, True) \<Rightarrow> (d2, [E_stop sb], [])
                      | (d2, False) \<Rightarrow>
                          (d2, [E_stop sb], [''failed to stamp destroyed sandbox '' @ sb @ '' for session '' @ sid]))))"

fun destroy_rows :: "sweep_world \<Rightarrow> session_row list \<Rightarrow> db \<Rightarrow> db \<times> effect list \<times> string list" where
  "destroy_rows w [] d = (d, [], [])"
| "destroy_rows w (r # rs) d =
     (case destroy_one w r d of (d1, es, fs) \<Rightarrow>
      case destroy_rows w rs d1 of (d2, es', fs') \<Rightarrow> (d2, es @ es', fs @ fs'))"

definition destroyLeakedSandboxes :: "sweep_world \<Rightarrow> time \<Rightarrow> db \<Rightarrow> db \<times> effect list \<times> string list" where
  "destroyLeakedSandboxes w closingBefore d =
     destroy_rows w (leakedSandboxSessions ENDED_RUNTIME_STATES 20 closingBefore d) d"

definition markStalledCloudSessions :: "sweep_world \<Rightarrow> time \<Rightarrow> db \<Rightarrow> db \<times> effect list \<times> string list" where
  "markStalledCloudSessions w now d =
     (let threshold = now - STALLED_THRESHOLD_MS in
      destroyLeakedSandboxes w threshold (store_markStalledCloudSessions threshold now d))"

end
