(* ===== verification/LifecycleFacts.thy ===== *)
theory LifecycleFacts
  imports Lifecycle
begin

text \<open>
  What the lifecycle handlers guarantee: turns and closes exclude each other, a session that was
  closed has no work left, a sandbox is only started again after the old one was destroyed, a
  leaked sandbox is cleaned once, and queued work goes with its session update.
\<close>

section \<open>Closing\<close>

text \<open>
  A close never tears down the sandbox under a running turn. While another process
  holds the turn of a cloud session, closing it is refused, no call leaves the control plane and
  the database is as before.
\<close>

theorem close_respects_turn:
  assumes "held_by sid holder e d" "t \<le> e" "findSession q sid d = Some s"
    and "domainSessionState (se_state s) \<noteq> Closed" "truthy_str (se_sandbox s)"
    and "sessionSandboxBackend s \<noteq> Some ''runner-sandbox''"
  shows "closeSession w q sid reason cleanupId t t' d =
    (d, [], Inl (Conflict ''Session has an active turn or is no longer available to close''))"
proof -
  have id: "se_id s = sid" using findSession_Some [OF assms(3)] by simp
  obtain d1 hit where c: "claimSessionClose q sid (the (se_sandbox s)) cleanupId (lifecycleLeaseExpiry t) t d = (d1, hit)"
    by fastforce
  have "\<not> hit" using held_refuses(4) [OF assms(1,2), of q "the (se_sandbox s)" cleanupId "lifecycleLeaseExpiry t"] c
    by simp
  moreover have "d1 = d" using session_cas_miss c calculation unfolding claimSessionClose_def by fastforce
  ultimately show ?thesis
    using assms(3-6) c id by (simp add: closeSession_def closeSessionRow_def closeCloudSession_def Let_def)
qed

theorem close_respects_turn_witness:
  "\<forall>w. fst (snd (closeSession w ''p'' ''s'' ''user_requested'' ''c'' 300 301 demo_turn)) = []"
proof (rule allI)
  fix w
  have f: "findSession ''p'' ''s'' demo_turn =
      Some (demo_session\<lparr>se_active_turn := Some ''a'', se_turn_expires := Some 360, se_depth := 0, se_updated := 0\<rparr>)"
    by (simp add: findSession_def demo_turn_rows sql_get_def live_session_def demo_session_def)
  have h: "held_by ''s'' ''a'' 360 demo_turn" by (simp add: held_by_def demo_turn_rows)
  have "closeSession w ''p'' ''s'' ''user_requested'' ''c'' 300 301 demo_turn =
      (demo_turn, [], Inl (Conflict ''Session has an active turn or is no longer available to close''))"
    by (rule close_respects_turn [OF h _ f]) (simp_all add: demo_session_def truthy_str_def sessionSandboxBackend_def jget_def)
  then show "fst (snd (closeSession w ''p'' ''s'' ''user_requested'' ''c'' 300 301 demo_turn)) = []" by simp
qed

lemma sync_stores_sessions: "sessions (fst (sync_stores w k q t snaps d)) = sessions d"
  by (induction snaps arbitrary: k d)
    (auto simp: replaceMemoryStoreMemories_def split: option.split)

lemma teardown_sessions: "sessions (fst (teardown w q s t d)) = sessions (cl_meanwhile w d)"
proof -
  have "sessions (fst (syncWritableMemoryStores w q s t d0)) = sessions d0" for d0
    by (simp add: syncWritableMemoryStores_def sync_stores_sessions split: sum.split)
  then show ?thesis by (simp add: teardown_def case_prod_beta split: option.split)
qed

definition session_keys :: "db \<Rightarrow> bool" where
  "session_keys d \<longleftrightarrow> distinct (map se_id (sessions d))"

lemma session_keys_step:
  "session_cas k guard f d = (d', b) \<Longrightarrow> (\<And>s. se_id (f s) = se_id s) \<Longrightarrow> session_keys d' = session_keys d"
proof -
  assume c: "session_cas k guard f d = (d', b)" and f: "\<And>s. se_id (f s) = se_id s"
  have "sessions d' = sql_update (\<lambda>s. se_id s = k \<and> guard s) f (sessions d)"
    using session_cas_rows(1) [of k guard f d] c by simp
  then show ?thesis by (simp add: session_keys_def map_sql_update f)
qed

text \<open>The three statements of a successful cloud close, in order.\<close>

lemma closeCloudSession_ok:
  assumes "closeCloudSession w q s cleanupId t t' d = (d', es, Inr r)"
  obtains d1 d2 es2 where
    "claimSessionClose q (se_id s) (the (se_sandbox s)) cleanupId (lifecycleLeaseExpiry t) t d = (d1, True)"
    "teardown w q s t d1 = (d2, es2, None)"
    "completeSessionClose q (se_id s) (the (se_sandbox s)) cleanupId t' d2 = (d', True)"
    "es = es2 @ [E_audit ''session.close'' Success, E_archive (se_id s)]"
    "findSession q (se_id s) d' = Some r"
proof -
  let ?sb = "the (se_sandbox s)"
  obtain d1 hit where 1: "claimSessionClose q (se_id s) ?sb cleanupId (lifecycleLeaseExpiry t) t d = (d1, hit)" by fastforce
  have hit: hit using assms by (cases hit) (auto simp: closeCloudSession_def Let_def 1)
  obtain d2 es2 err where 2: "teardown w q s t d1 = (d2, es2, err)" by (cases "teardown w q s t d1")
  have err: "err = None" using assms hit by (cases err) (auto simp: closeCloudSession_def Let_def 1 2)
  obtain d3 ok where 3: "completeSessionClose q (se_id s) ?sb cleanupId t' d2 = (d3, ok)" by fastforce
  have ok: ok using assms hit err by (cases ok) (auto simp: closeCloudSession_def Let_def 1 2 3)
  show thesis
    by (rule that [of d1 d2 es2])
      (use assms 1 2 3 hit err ok in \<open>auto simp: closeCloudSession_def Let_def split: option.splits\<close>)
qed

text \<open>
  A cloud close that reports success claimed the session, stopped its sandbox,
  and leaves the row closed with the time of the close, no reason, no turn, and the stamp that
  the sandbox was destroyed, whatever other processes wrote meanwhile.
\<close>

theorem close_cloud_completes:
  assumes keys: "session_keys d" "\<And>x. session_keys x \<Longrightarrow> session_keys (cl_meanwhile w x)"
    and c: "closeCloudSession w q s cleanupId t t' d = (d', es, Inr r)"
  shows "E_stop (the (se_sandbox s)) \<in> set es \<and> r \<in> set (sessions d') \<and> se_id r = se_id s \<and>
    se_state r = P_stopped \<and> se_closed r = Some t' \<and> se_reason r = None \<and>
    se_active_turn r = None \<and> se_turn_expires r = None \<and>
    (is_jobj (Some (se_metadata r)) \<longrightarrow>
       jget (se_metadata r) ''sandboxDestroyedAt'' = Some (JStr (toISOString t')))"
proof -
  obtain d1 d2 es2 where
    1: "claimSessionClose q (se_id s) (the (se_sandbox s)) cleanupId (lifecycleLeaseExpiry t) t d = (d1, True)" and
    2: "teardown w q s t d1 = (d2, es2, None)" and
    3: "completeSessionClose q (se_id s) (the (se_sandbox s)) cleanupId t' d2 = (d', True)" and
    4: "es = es2 @ [E_audit ''session.close'' Success, E_archive (se_id s)]" "findSession q (se_id s) d' = Some r"
    by (rule closeCloudSession_ok [OF c])
  have stop: "E_stop (the (se_sandbox s)) \<in> set es2"
    using 2 by (auto simp: teardown_def split: prod.splits option.splits)
  have "session_keys d1"
    using session_keys_step [OF 1 [unfolded claimSessionClose_def]] keys(1) by simp
  then have "session_keys (cl_meanwhile w d1)" by (rule keys(2))
  then have k2: "distinct (map se_id (sessions d2))"
    using teardown_sessions [of w q s t d1] 2 by (simp add: session_keys_def)
  let ?f = "\<lambda>s. s\<lparr>se_reason := None, se_active_turn := None, se_turn_expires := None,
              se_closed := Some t',
              se_metadata := json_set ''sandboxDestroyedAt'' (JStr (toISOString t')) (se_metadata s),
              se_updated := t'\<rparr>"
  have fid: "se_id (?f x) = se_id x" for x by simp
  obtain x where x: "se_state x = P_stopped" "r = ?f x"
    by (rule session_cas_hit [OF 3 [unfolded completeSessionClose_def] k2 fid])
      (use findSession_Some [OF 4(2)] in auto)
  have "jget (json_set ''sandboxDestroyedAt'' v m) ''sandboxDestroyedAt'' = Some v" if "is_jobj (Some (json_set k u m))"
    for k u v m using that by (cases m) (auto simp: jget_def)
  then show ?thesis using stop 4 x findSession_Some [OF 4(2)] by auto
qed

definition demo_close :: close_world where
  "demo_close = \<lparr>cl_read = (\<lambda>_. Inr []), cl_ref = (\<lambda>_. None), cl_ids = (\<lambda>_ _. []), cl_stop = None,
     cl_dispatch = None, cl_meanwhile = (\<lambda>d. d)\<rparr>"

lemma demo_closed:
  "\<exists>d' es r. closeCloudSession demo_close ''p'' (demo_session\<lparr>se_state := P_idle\<rparr>) ''c'' 10 20
     (session_db [demo_session\<lparr>se_state := P_idle\<rparr>]) = (d', es, Inr r)"
  by (simp add: closeCloudSession_def claimSessionClose_def completeSessionClose_def session_cas_def cas_row_def
      session_db_def demo_session_def close_guard_def live_in_def turn_free_def sql_exists_def teardown_def
      syncWritableMemoryStores_def writable_volumes_def json_list_def demo_close_def findSession_def sql_get_def
      live_session_def Let_def)

theorem close_cloud_completes_witness:
  "\<exists>d' r. closeCloudSession demo_close ''p'' (demo_session\<lparr>se_state := P_idle\<rparr>) ''c'' 10 20
     (session_db [demo_session\<lparr>se_state := P_idle\<rparr>]) = d' \<and> r \<in> set (sessions (fst d')) \<and> se_state r = P_stopped"
proof -
  obtain d' es r where c: "closeCloudSession demo_close ''p'' (demo_session\<lparr>se_state := P_idle\<rparr>) ''c'' 10 20
     (session_db [demo_session\<lparr>se_state := P_idle\<rparr>]) = (d', es, Inr r)"
    using demo_closed by blast
  have "session_keys (session_db [demo_session\<lparr>se_state := P_idle\<rparr>])" by (simp add: session_keys_def session_db_def)
  then show ?thesis using close_cloud_completes [OF _ _ c] c by (auto simp: demo_close_def)
qed

section \<open>Closing a self-hosted session\<close>

lemma decrement_fold:
  "work_items (fold (\<lambda>r. decrementRunnerLoad q r t) rs d) = work_items d \<and>
   leases (fold (\<lambda>r. decrementRunnerLoad q r t) rs d) = leases d"
  by (induction rs arbitrary: d) (simp_all add: decrementRunnerLoad_def)

lemma cancelled_work:
  assumes "x \<in> set (work_items (cancel_session_work q sid reason t d))"
    "wi_project x = q" "wi_session x = Some sid"
  shows "wi_state x \<notin> {W_available, W_leased}"
proof -
  define items where "items = activeSessionWorkItems q sid d"
  show ?thesis
  proof (cases "items = []")
    case True
    then have "x \<in> set (work_items d)" using assms(1) by (simp add: cancel_session_work_def items_def)
    then show ?thesis using True assms(2,3)
      by (auto simp: items_def activeSessionWorkItems_def filter_empty_conv)
  next
    case False
    then have "work_items (cancel_session_work q sid reason t d) =
        work_items (cancelWorkItems q (map wi_id items) (message_json (''Session closed: '' @ reason)) t d)"
      by (simp add: cancel_session_work_def items_def Let_def decrement_fold cancelLeases_def)
    then obtain y where y: "y \<in> set (work_items d)"
      "x = (if wi_project y = q \<and> wi_id y \<in> set (map wi_id items)
            then y\<lparr>wi_state := W_cancelled, wi_error := Some (message_json (''Session closed: '' @ reason)), wi_updated := t\<rparr>
            else y)"
      using assms(1) by (auto simp: cancelWorkItems_def set_sql_update)
    show ?thesis
    proof (cases "wi_project y = q \<and> wi_id y \<in> set (map wi_id items)")
      case False
      then have "x = y" unfolding y(2) by (rule if_not_P)
      with y(1) False assms(2,3) show ?thesis by (auto simp: items_def activeSessionWorkItems_def)
    qed (use y(2) in simp)
  qed
qed

lemma cancelled_leases:
  assumes "l \<in> set (leases (cancel_session_work q sid reason t d))" "le_project l = q"
    and "w \<in> set (work_items d)" "wi_project w = q" "wi_session w = Some sid" "wi_state w \<in> {W_available, W_leased}"
    and "wi_lease w = Some (le_id l)" "le_id l \<noteq> []"
  shows "le_state l = L_cancelled"
proof -
  define items where "items = activeSessionWorkItems q sid d"
  define ids where "ids = concat (map (\<lambda>w. nonempty (wi_lease w)) items)"
  have w: "w \<in> set items" using assms(3-6) by (auto simp: items_def activeSessionWorkItems_def)
  have "le_id l \<in> set (nonempty (wi_lease w))" using assms(7,8) by (simp add: nonempty_def)
  then have ids: "le_id l \<in> set ids" using w unfolding ids_def set_concat by (auto simp del: set_simps)
  have ne: "items \<noteq> []" "ids \<noteq> []" using w ids by auto
  have "leases (cancel_session_work q sid reason t d) =
      sql_update (\<lambda>l. le_project l = q \<and> le_id l \<in> set ids) (\<lambda>l. l\<lparr>le_state := L_cancelled, le_updated := t\<rparr>) (leases d)"
    using ne by (simp add: cancel_session_work_def items_def [symmetric] ids_def [symmetric] Let_def decrement_fold
        cancelLeases_def cancelWorkItems_def)
  with assms(1) have mem: "l \<in> set (sql_update (\<lambda>l. le_project l = q \<and> le_id l \<in> set ids)
      (\<lambda>l. l\<lparr>le_state := L_cancelled, le_updated := t\<rparr>) (leases d))" by simp
  obtain k where "l = (if le_project k = q \<and> le_id k \<in> set ids then k\<lparr>le_state := L_cancelled, le_updated := t\<rparr> else k)"
    by (rule sql_update_elemE [OF mem])
  then show ?thesis using ids assms(2) by (auto split: if_splits)
qed

definition cancelled_item :: "string \<Rightarrow> time \<Rightarrow> work_item_row \<Rightarrow> work_item_row" where
  "cancelled_item reason t x =
     x\<lparr>wi_state := W_cancelled, wi_error := Some (message_json (''Session closed: '' @ reason)), wi_updated := t\<rparr>"

lemma cancelled_exactly:
  assumes "x \<in> set (work_items d)"
  shows "(if wi_project x = q \<and> wi_id x \<in> wi_id ` set (activeSessionWorkItems q sid d) then cancelled_item reason t x else x)
    \<in> set (work_items (cancel_session_work q sid reason t d))"
proof (cases "activeSessionWorkItems q sid d = []")
  case True
  with assms show ?thesis by (simp add: cancel_session_work_def)
next
  case False
  then have "work_items (cancel_session_work q sid reason t d) =
      work_items (cancelWorkItems q (map wi_id (activeSessionWorkItems q sid d)) (message_json (''Session closed: '' @ reason)) t d)"
    by (simp add: cancel_session_work_def Let_def decrement_fold cancelLeases_def)
  with assms show ?thesis by (auto simp: cancelWorkItems_def set_sql_update cancelled_item_def)
qed

text \<open>
  C14 (functional): closing a self-hosted session that reports success leaves it closed; each work item of
  the session that was available or leased when the cancellation began is stored as cancelled with the
  reason, no item of the session is available or leased, items with other identifiers are left alone,
  and every lease of the cancelled items is cancelled, whatever other processes wrote before the
  cancellation.
\<close>

theorem close_self_hosted_cancels:
  assumes c: "closeSelfHostedSession w q s reason t d = (d', es, Inr r)"
    and m: "m = cl_meanwhile w (fst (updateSessionWhenState q (se_id s) [domainSessionState (se_state s)] (closing_update t) d))"
  shows "se_id r = se_id s \<and> se_state r = P_stopped \<and> se_closed r = Some t \<and>
    (\<forall>x \<in> set (activeSessionWorkItems q (se_id s) m). cancelled_item reason t x \<in> set (work_items d')) \<and>
    (\<forall>x \<in> set (work_items m). wi_id x \<notin> wi_id ` set (activeSessionWorkItems q (se_id s) m) \<longrightarrow> x \<in> set (work_items d')) \<and>
    (\<forall>x \<in> set (work_items d'). wi_project x = q \<longrightarrow> wi_session x = Some (se_id s) \<longrightarrow>
       wi_state x \<notin> {W_available, W_leased}) \<and>
    (\<forall>x \<in> set (work_items m). \<forall>l \<in> set (leases d').
       wi_project x = q \<longrightarrow> wi_session x = Some (se_id s) \<longrightarrow> wi_state x \<in> {W_available, W_leased} \<longrightarrow>
       wi_lease x = Some (le_id l) \<longrightarrow> le_id l \<noteq> [] \<longrightarrow> le_project l = q \<longrightarrow> le_state l = L_cancelled)"
proof -
  obtain d1 hit where 1: "updateSessionWhenState q (se_id s) [domainSessionState (se_state s)] (closing_update t) d = (d1, hit)"
    by fastforce
  have hit: hit using c by (cases hit) (auto simp: closeSelfHostedSession_def Let_def 1)
  let ?d2 = "cancel_session_work q (se_id s) reason t (cl_meanwhile w d1)"
  let ?u = "(upd_state Closed (Some (Some ''runner-cancelled'')) t)\<lparr>su_closed := Some (Some t)\<rparr>"
  have d': "d' = updateSession q (se_id s) ?u ?d2" and r: "findSession q (se_id s) d' = Some r"
    using c hit by (auto simp: closeSelfHostedSession_def Let_def 1 split: if_splits option.splits)
  have tabs: "work_items d' = work_items ?d2" "leases d' = leases ?d2" by (simp_all add: d' updateSession_def)
  have "sessions d' = sql_update (live_session q (se_id s)) (persistedSessionWrite ?u) (sessions ?d2)"
    by (simp add: d' updateSession_def)
  then have mem: "r \<in> set (sql_update (live_session q (se_id s)) (persistedSessionWrite ?u) (sessions ?d2))"
    using findSession_Some [OF r] by simp
  obtain y where y: "r = (if live_session q (se_id s) y then persistedSessionWrite ?u y else y)"
    by (rule sql_update_elemE [OF mem])
  have "live_session q (se_id s) y"
  proof (rule ccontr)
    assume n: "\<not> live_session q (se_id s) y"
    then have "r = y" unfolding y by (rule if_not_P)
    then show False using n findSession_Some [OF r] by (simp add: live_session_def)
  qed
  then have "r = persistedSessionWrite ?u y" using y by simp
  then have "se_state r = P_stopped" "se_closed r = Some t"
    by (simp_all add: persistedSessionWrite_def upd_state_def no_update_def)
  moreover have m: "m = cl_meanwhile w d1" using m 1 by simp
  have "cancelled_item reason t x \<in> set (work_items ?d2)" if "x \<in> set (activeSessionWorkItems q (se_id s) m)" for x
    using that cancelled_exactly [of x m q "se_id s" reason t] by (auto simp: activeSessionWorkItems_def m)
  moreover have "x \<in> set (work_items ?d2)"
    if "x \<in> set (work_items m)" "wi_id x \<notin> wi_id ` set (activeSessionWorkItems q (se_id s) m)" for x
    using cancelled_exactly [OF that(1), of q "se_id s" reason t] that(2) by (simp add: m)
  ultimately show ?thesis
    using findSession_Some [OF r] cancelled_work [of _ q "se_id s" reason t m]
      cancelled_leases [of _ q "se_id s" reason t m]
    unfolding tabs m [symmetric] by blast
qed

definition demo_hosted :: session_row where
  "demo_hosted = demo_session\<lparr>se_sandbox := None\<rparr>"

definition demo_hosted_db :: db where
  "demo_hosted_db = (session_db [demo_hosted])\<lparr>work_items := [demo_item\<lparr>wi_session := Some ''s''\<rparr>]\<rparr>"

lemma demo_hosted_closed:
  "\<exists>d' es r. closeSelfHostedSession demo_close ''p'' demo_hosted ''bye'' 10 demo_hosted_db = (d', es, Inr r)"
  by (simp add: closeSelfHostedSession_def updateSessionWhenState_def session_cas_def cas_row_def session_db_def
      demo_hosted_db_def demo_hosted_def demo_session_def live_in_def state_in_def persistedSessionStates_def
      sql_exists_def demo_close_def sessionSandboxBackend_def jget_def cancel_session_work_def
      activeSessionWorkItems_def demo_item_def nonempty_def cancelWorkItems_def updateSession_def
      persistedSessionWrite_def closing_update_def upd_state_def no_update_def findSession_def sql_get_def
      live_session_def Let_def)

theorem close_self_hosted_cancels_witness:
  "\<exists>d' es r. closeSelfHostedSession demo_close ''p'' demo_hosted ''bye'' 10 demo_hosted_db = (d', es, Inr r) \<and>
     cancelled_item ''bye'' 10 (demo_item\<lparr>wi_session := Some ''s''\<rparr>) \<in> set (work_items d')"
proof -
  obtain d' es r where c: "closeSelfHostedSession demo_close ''p'' demo_hosted ''bye'' 10 demo_hosted_db = (d', es, Inr r)"
    using demo_hosted_closed by blast
  define m where "m = cl_meanwhile demo_close (fst (updateSessionWhenState ''p'' (se_id demo_hosted)
    [domainSessionState (se_state demo_hosted)] (closing_update 10) demo_hosted_db))"
  have "demo_item\<lparr>wi_session := Some ''s''\<rparr> \<in> set (activeSessionWorkItems ''p'' (se_id demo_hosted) m)"
    by (simp add: m_def demo_close_def updateSessionWhenState_def session_cas_def case_prod_beta demo_hosted_db_def
        activeSessionWorkItems_def demo_item_def demo_hosted_def demo_session_def)
  with close_self_hosted_cancels [OF c m_def] c show ?thesis by blast
qed

section \<open>Reopening\<close>

lemma startup_effects_start:
  assumes "startSessionRuntimeForRow w q pending sb startupId runtime prompt tms d = (d', es, r)"
    and "E_start x \<in> set es"
  shows "x = sb \<and> snd (acquirePendingStartupLease q (se_id pending) (se_started pending) startupId
      (lifecycleLeaseExpiry (st_claim tms)) (st_claim tms) d)"
proof -
  have idle: "E_start x \<notin> set (sleepIdleCloudSession n b s)" for n b s
    by (auto simp: sleepIdleCloudSession_def split: option.splits)
  have exe: "E_start x \<notin> set (fst (snd (executeCloudSessionTurn tw q s a t d)))" for tw s a t d
    using idle by (auto simp: executeCloudSessionTurn_def Let_def split: turn_result.split)
  have dis: "E_start x \<notin> set (fst (snd (dispatchPrompt i q s p t d)))" for i s p t d
    using exe by (auto simp: dispatchPrompt_def case_prod_beta split: option.split bool.split)
  have rec: "E_start x \<notin> set (fst (snd (startup_recorded w q k startupId prompt tms d)))" for k d
    using idle dis by (auto simp: startup_recorded_def Let_def case_prod_beta split: option.split sum.split)
  have cat: "E_start x \<notin> set (snd (startup_catch w q pending sb startupId runtime t m d))" for t m d
    by (auto simp: startup_catch_def Let_def case_prod_beta split: bool.split)
  have lau: "E_start x \<in> set (fst (snd (startup_launch w q pending sb startupId runtime prompt tms d))) \<Longrightarrow> x = sb" for d
    using rec by (auto simp: startup_launch_def Let_def case_prod_beta split: option.splits sum.splits bool.splits if_splits)
  have tr: "E_start x \<in> set (fst (snd (startup_try w q pending sb startupId runtime prompt tms d))) \<Longrightarrow> x = sb" for d
    using lau by (auto simp: startup_try_def Let_def case_prod_beta split: option.splits bool.splits if_splits)
  show ?thesis
    using assms cat tr
    by (auto simp: startSessionRuntimeForRow_def case_prod_beta split: if_splits option.splits bool.splits)
qed

text \<open>
  A reopened session gets a new sandbox only after the old one is gone. If reopening
  starts a sandbox, the session was closed, its close had completed, and its metadata carried the
  stamp that the sandbox was destroyed; and nobody held its turn.
\<close>

theorem reopen_after_cleanup:
  assumes "reopenSession w q sid startupId tms t d = (d', es, r)" "E_start x \<in> set es"
  shows "\<exists>s \<in> set (sessions d). se_id s = sid \<and> se_state s = P_stopped \<and> se_sandbox s = Some x \<and>
    se_closed s \<noteq> None \<and> jget (se_metadata s) ''sandboxDestroyedAt'' \<noteq> None \<and> se_active_turn s = None"
proof -
  have fin: "E_start x \<in> set (fst (snd (finish_reopen q sid (d0, es0)))) \<longleftrightarrow> E_start x \<in> set es0" for d0 es0
    by (simp add: finish_reopen_def)
  obtain s where s: "findSession q sid d = Some s" "truthy_str (se_sandbox s)"
    and c: "snd (claimSessionReopen q sid (the (se_sandbox s)) t d)"
    and x: "x = the (se_sandbox s)"
    using assms startup_effects_start [where x = x]
    by (auto simp: reopenSession_def finish_reopen_def split: option.splits if_splits prod.splits bool.splits sum.splits;
        force)
  obtain r where "r \<in> set (sessions d)" "se_id r = sid" "reopen_guard q (the (se_sandbox s)) r"
    using c unfolding claimSessionReopen_def session_cas_rows(2) sql_exists_iff by blast
  then show ?thesis using x by (auto simp: reopen_guard_def)
qed

definition demo_startup :: startup_world where
  "demo_startup = \<lparr>sw_provider = Some ''x'', sw_prepare = None, sw_start = Inl ''e'', sw_stop_fails = None,
     sw_idle_fails = False, sw_mcp = JArr [], sw_before_launch = (\<lambda>d. d), sw_during_launch = (\<lambda>d. d), sw_before_record = (\<lambda>d. d),
     sw_after_record = (\<lambda>d. d), sw_number = (\<lambda>_. None), sw_inline = None\<rparr>"

definition demo_tms :: startup_times where
  "demo_tms = \<lparr>st_claim = 60, st_launch = 61, st_started = 62, st_failed = 63, st_submit = 64\<rparr>"

definition demo_stopped :: session_row where
  "demo_stopped = demo_session\<lparr>se_state := P_stopped, se_closed := Some 20, se_agent_snapshot := Some (JObj []),
     se_metadata := JObj [(''runtime'', JStr ''enbor''), (''sandboxDestroyedAt'', JStr ''t'')]\<rparr>"

lemma demo_reopened:
  "\<exists>d' es r. reopenSession demo_startup ''p'' ''s'' ''c'' demo_tms 50 (session_db [demo_stopped]) = (d', es, r) \<and>
     E_start ''b'' \<in> set es"
proof -
  let ?r = "reopenSession demo_startup ''p'' ''s'' ''c'' demo_tms 50 (session_db [demo_stopped])"
  have "E_start ''b'' \<in> set (fst (snd ?r))"
    by (simp add: reopenSession_def claimSessionReopen_def session_cas_def cas_row_def session_db_def demo_stopped_def
        demo_session_def findSession_def sql_get_def live_session_def sessionSandboxBackend_def jget_def truthy_str_def
        reopen_guard_def live_in_def sql_exists_def finish_reopen_def startSessionRuntimeForRow_def
        supportsCloudStartup_def RUNTIME_DRIVERS_def acquirePendingStartupLease_def startup_guard_def turn_free_def
        startup_try_def demo_startup_def renewTurnLease_def turn_held_def startup_launch_def demo_tms_def
        case_prod_beta Let_def)
  then show ?thesis by (metis prod.collapse)
qed

theorem reopen_after_cleanup_witness:
  "\<exists>s \<in> set (sessions (session_db [demo_stopped])). se_closed s \<noteq> None \<and> se_active_turn s = None"
proof -
  obtain d' es r where "reopenSession demo_startup ''p'' ''s'' ''c'' demo_tms 50 (session_db [demo_stopped]) = (d', es, r)"
    "E_start ''b'' \<in> set es" using demo_reopened by blast
  from reopen_after_cleanup [OF this] show ?thesis by blast
qed

section \<open>Leaked sandboxes\<close>

lemma quoted_end_refl: "quoted_end w w"
  by (simp add: quoted_end_def Let_def)

lemma like_word_key: "k \<in> fst ` set kvs \<Longrightarrow> like_word_members k kvs"
  by (induction kvs) (fastforce simp: quoted_end_refl)+

lemma stamped_text: "is_jobj (Some m) \<Longrightarrow> destroyed_text (json_set ''sandboxDestroyedAt'' v m)"
proof (cases m)
  case (JObj kvs)
  have "k \<in> fst ` set (kv_set k v kvs)" for k
    using keys_kv_set [of k v kvs] by (metis (no_types, lifting) UnCI imageI list.set_intros(1) list.set_map set_append)
  then show ?thesis using JObj by (simp add: destroyed_text_def like_word_key)
qed simp_all

text \<open>
  The watchdog cleans a leaked sandbox once. When it stopped the sandbox of a session
  without a failure, the row carries the stamp, its turn is free again, the sweep does not list it
  any more, and no later cleanup claim on it succeeds, at whatever time.
\<close>

theorem cleanup_once:
  assumes keys: "session_keys d" and obj: "\<forall>s \<in> set (sessions d). is_jobj (Some (se_metadata s))"
    and c: "destroy_one w row d = (d', es, [])" "es \<noteq> []"
  shows "\<not> snd (claimSandboxCleanup (se_id row) sb x e t d') \<and>
    (\<forall>s \<in> set (sessions d'). se_id s = se_id row \<longrightarrow>
       destroyed_text (se_metadata s) \<and> se_active_turn s = None \<and> \<not> leaked_sandbox states before s)"
proof -
  let ?sid = "se_id row" and ?c = "wd_id w (se_id row)"
  obtain sb0 where sb0: "se_sandbox row = Some sb0" "sb0 \<noteq> []"
    using c by (auto simp: destroy_one_def Let_def split: option.splits if_splits)
  obtain d1 hit where 1: "claimSandboxCleanup ?sid sb0 ?c (lifecycleLeaseExpiry (wd_claimed w ?sid)) (wd_claimed w ?sid) d = (d1, hit)"
    by fastforce
  have hit: hit using c sb0 1 by (cases hit) (auto simp: destroy_one_def Let_def)
  have 2: "stampSandboxDestroyed ?sid sb0 ?c (wd_destroyed w ?sid) d1 = (d', True)"
    using c sb0 1 hit by (auto simp: destroy_one_def Let_def split: if_splits prod.splits bool.splits)
  have keys1: "distinct (map se_id (sessions d1))"
    using session_keys_step [OF 1 [unfolded claimSandboxCleanup_def]] keys by (simp add: session_keys_def)
  have "sessions d1 = sql_update (\<lambda>s. se_id s = ?sid \<and> cleanup_guard sb0 (wd_claimed w ?sid) s)
      (\<lambda>s. s\<lparr>se_active_turn := Some ?c, se_turn_expires := Some (lifecycleLeaseExpiry (wd_claimed w ?sid)),
             se_updated := wd_claimed w ?sid\<rparr>) (sessions d)"
    using session_cas_rows(1) 1 unfolding claimSandboxCleanup_def by (metis fst_conv)
  then have obj1: "is_jobj (Some (se_metadata s))" if "s \<in> set (sessions d1)" for s
    using that obj by (auto simp: set_sql_update)
  let ?f = "\<lambda>s. s\<lparr>se_metadata := json_set ''sandboxDestroyedAt'' (JStr (toISOString (wd_destroyed w ?sid))) (se_metadata s),
              se_closed := (if se_reason s = Some ''closing'' then Some (wd_destroyed w ?sid) else se_closed s),
              se_reason := (if se_reason s = Some ''closing'' then None else se_reason s),
              se_active_turn := None, se_turn_expires := None\<rparr>"
  have fid: "se_id (?f s) = se_id s" for s by simp
  obtain s0 where s0: "s0 \<in> set (sessions d1)"
    "\<And>s. s \<in> set (sessions d') \<Longrightarrow> se_id s = ?sid \<Longrightarrow> s = ?f s0"
    by (rule session_cas_hit [OF 2 [unfolded stampSandboxDestroyed_def] keys1 fid]) blast
  have "destroyed_text (se_metadata s) \<and> se_active_turn s = None" if "s \<in> set (sessions d')" "se_id s = ?sid" for s
    using s0(2) [OF that] stamped_text [OF obj1 [OF s0(1)]] by simp
  then show ?thesis
    by (auto simp: claimSandboxCleanup_def session_cas_rows(2) sql_exists_iff cleanup_guard_def leaked_sandbox_def)
qed

definition demo_sweep :: sweep_world where
  "demo_sweep = \<lparr>wd_id = (\<lambda>_. ''c''), wd_claimed = (\<lambda>_. 10), wd_destroyed = (\<lambda>_. 20), wd_stop_fails = (\<lambda>_. False)\<rparr>"

definition demo_leak :: session_row where
  "demo_leak = demo_session\<lparr>se_state := P_error\<rparr>"

lemma demo_destroyed:
  "\<exists>d'. destroy_one demo_sweep demo_leak (session_db [demo_leak]) = (d', [E_stop ''b''], [])"
  by (simp add: destroy_one_def demo_sweep_def demo_leak_def demo_session_def session_db_def claimSandboxCleanup_def
      stampSandboxDestroyed_def session_cas_def cas_row_def cleanup_guard_def ended_def state_in_def
      TERMINAL_RUNTIME_STATES_def persistedSessionStates_def destroyed_text_def turn_free_def sql_exists_def Let_def)

theorem cleanup_once_witness:
  "\<not> snd (claimSandboxCleanup ''s'' ''b'' ''x'' 900 800 (fst (destroy_one demo_sweep demo_leak (session_db [demo_leak]))))"
proof -
  obtain d' where c: "destroy_one demo_sweep demo_leak (session_db [demo_leak]) = (d', [E_stop ''b''], [])"
    using demo_destroyed by blast
  have "session_keys (session_db [demo_leak])" "\<forall>s \<in> set (sessions (session_db [demo_leak])). is_jobj (Some (se_metadata s))"
    by (simp_all add: session_keys_def session_db_def demo_leak_def demo_session_def)
  from cleanup_once [OF this c] c show ?thesis by (simp add: demo_leak_def demo_session_def)
qed

section \<open>Queueing work with a session update\<close>

text \<open>
  Queueing work is one transaction. A call that reports success has updated the
  session and appended exactly the given item. A call that reports a refusal leaves the database
  as it is, unless the session already carries the very state and time stamp of the call.
\<close>

theorem queue_work_atomic:
  assumes keys: "session_keys d" and u: "su_state u = Some st" "su_updated u = Some t" "su_deleted u = None"
    and c: "queueSessionWorkWhenState q sid expected u w d = (d', Inr ok)"
  shows "(ok \<longrightarrow> work_items d' = work_items d @ [w] \<and>
            (\<exists>s \<in> set (sessions d). live_session q sid s \<and> state_in expected s \<and>
               persistedSessionWrite u s \<in> set (sessions d'))) \<and>
         (\<not> ok \<longrightarrow> \<not> sql_exists (queue_mark q sid st t) (sessions d) \<longrightarrow> d' = d)"
proof -
  obtain d1 hit where 1: "updateSessionWhenState q sid expected u d = (d1, hit)" by fastforce
  have q: "queueSessionWorkWhenState q sid expected u w d =
      (if sql_exists (queue_mark q sid st t) (sessions d1)
       then (case insertWorkItem w d1 of None \<Rightarrow> (d, Inl UniqueViolation) | Some d2 \<Rightarrow> (d2, Inr hit))
       else (d1, Inr False))"
    by (simp add: queueSessionWorkWhenState_def u 1)
  have wi: "work_items d1 = work_items d"
    using session_cas_rows(3) 1 unfolding updateSessionWhenState_def by (metis fst_conv)
  show ?thesis
  proof (cases hit)
    case False
    have "d1 = d"
      using session_cas_miss [of sid "\<lambda>s. live_in q s \<and> state_in expected s" "persistedSessionWrite u" d d1] 1 False
      unfolding updateSessionWhenState_def by simp
    then show ?thesis using c False by (auto simp: q split: if_splits option.splits)
  next
    case True
    let ?g = "\<lambda>s. live_in q s \<and> state_in expected s"
    have fid: "se_id (persistedSessionWrite u s) = se_id s" for s by simp
    obtain s where s: "s \<in> set (sessions d)" "se_id s = sid" "?g s" "persistedSessionWrite u s \<in> set (sessions d1)"
      by (rule session_cas_hit [OF 1 [unfolded updateSessionWhenState_def True [THEN eqTrueI]] keys [unfolded session_keys_def] fid])
        blast
    have "queue_mark q sid st t (persistedSessionWrite u s)"
      using s u by (simp add: queue_mark_def live_session_def live_in_def persistedSessionWrite_def)
    then have "sql_exists (queue_mark q sid st t) (sessions d1)" using s(4) by (auto simp: sql_exists_iff)
    then obtain d2 where "insertWorkItem w d1 = Some d2" "d' = d2" "ok"
      using c True by (auto simp: q split: option.splits)
    then have "work_items d' = work_items d @ [w]" "sessions d' = sessions d1" "ok"
      using wi by (auto simp: insertWorkItem_def split: if_splits)
    then show ?thesis using s by (auto simp: live_session_def live_in_def intro!: bexI [of _ s])
  qed
qed

definition demo_values :: work_values where
  "demo_values = \<lparr>wv_agent = JObj [], wv_environment = None, wv_runtime = ''codex'', wv_config = JObj [],
     wv_env = JObj [], wv_env_from = JArr [], wv_volumes = JArr [], wv_mounts = JArr [], wv_prompt = Some ''hi'',
     wv_resume = False, wv_token = None, wv_request = None\<rparr>"

definition queue_prompt :: "id \<Rightarrow> time \<Rightarrow> session_row \<Rightarrow> db \<Rightarrow> db \<times> (repo_error + bool)" where
  "queue_prompt newId t session d =
     queueSessionWorkWhenState ''p'' (se_id session) [Idle, Running]
       (upd_state Pending (Some (Some ''waiting-for-runner'')) t)
       (selfHostedSessionWorkItem newId ''o'' ''p'' session demo_values t) d"

lemma queue_prompt_unfold:
  "queue_prompt i t (demo_hosted\<lparr>se_state := P_idle\<rparr>) (session_db [demo_hosted\<lparr>se_state := P_idle\<rparr>]) =
     ((session_db [demo_hosted\<lparr>se_state := P_pending, se_reason := Some ''waiting-for-runner'', se_updated := t\<rparr>])
        \<lparr>work_items := [selfHostedSessionWorkItem i ''o'' ''p'' (demo_hosted\<lparr>se_state := P_idle\<rparr>) demo_values t]\<rparr>,
      Inr True)"
  by (simp add: queue_prompt_def queueSessionWorkWhenState_def updateSessionWhenState_def session_cas_def cas_row_def
      session_db_def demo_hosted_def demo_session_def live_in_def state_in_def persistedSessionStates_def upd_state_def
      no_update_def persistedSessionWrite_def sql_exists_def queue_mark_def live_session_def insertWorkItem_def)

theorem queue_work_atomic_witness:
  "\<exists>s. s \<in> set (sessions (fst (queue_prompt ''w'' 5 (demo_hosted\<lparr>se_state := P_idle\<rparr>)
       (session_db [demo_hosted\<lparr>se_state := P_idle\<rparr>])))) \<and> se_state s = P_pending"
proof -
  have "session_keys (session_db [demo_hosted\<lparr>se_state := P_idle\<rparr>])" by (simp add: session_keys_def session_db_def)
  note a = queue_work_atomic [OF this _ _ _ queue_prompt_unfold [of "''w''" 5, unfolded queue_prompt_def],
      of Pending 5]
  then have "\<exists>s \<in> set (sessions (session_db [demo_hosted\<lparr>se_state := P_idle\<rparr>])).
      persistedSessionWrite (upd_state Pending (Some (Some ''waiting-for-runner'')) 5) s \<in>
        set (sessions (fst (queue_prompt ''w'' 5 (demo_hosted\<lparr>se_state := P_idle\<rparr>)
       (session_db [demo_hosted\<lparr>se_state := P_idle\<rparr>]))))"
    unfolding queue_prompt_unfold by (auto simp: upd_state_def no_update_def)
  then show ?thesis by (auto simp: persistedSessionWrite_def upd_state_def no_update_def)
qed

section \<open>Two ways to queue a prompt twice\<close>

text \<open>
  The INSERT of the batch looks at the new state and time stamp, not at whether the
  UPDATE matched. Two prompts to an idle self-hosted session in the same millisecond both insert
  their work item, and the second caller is told that nothing was queued.
\<close>

theorem queue_same_millisecond:
  assumes "i \<noteq> j"
  shows "snd (queue_prompt j t (demo_hosted\<lparr>se_state := P_idle\<rparr>)
       (fst (queue_prompt i t (demo_hosted\<lparr>se_state := P_idle\<rparr>) (session_db [demo_hosted\<lparr>se_state := P_idle\<rparr>])))) = Inr False \<and>
    map wi_id (work_items (fst (queue_prompt j t (demo_hosted\<lparr>se_state := P_idle\<rparr>)
       (fst (queue_prompt i t (demo_hosted\<lparr>se_state := P_idle\<rparr>) (session_db [demo_hosted\<lparr>se_state := P_idle\<rparr>])))))) = [i, j]"
  unfolding queue_prompt_unfold fst_conv
  using assms
  by (simp add: queue_prompt_def queueSessionWorkWhenState_def updateSessionWhenState_def session_cas_def cas_row_def
      session_db_def demo_hosted_def demo_session_def live_in_def state_in_def persistedSessionStates_def upd_state_def
      no_update_def sql_exists_def queue_mark_def live_session_def insertWorkItem_def selfHostedSessionWorkItem_def Let_def)

theorem queue_same_millisecond_witness:
  "map wi_id (work_items (fst (queue_prompt ''w2'' 7 (demo_hosted\<lparr>se_state := P_idle\<rparr>)
     (fst (queue_prompt ''w1'' 7 (demo_hosted\<lparr>se_state := P_idle\<rparr>) (session_db [demo_hosted\<lparr>se_state := P_idle\<rparr>])))))) =
     [''w1'', ''w2'']"
  using queue_same_millisecond [of "''w1''" "''w2''" 7] by simp

text \<open>
  The guard of the queued prompt admits a running session. A prompt that read the session as idle
  and arrives after another prompt was queued and claimed sends the running session back to
  pending and queues a second session start for it.
\<close>

theorem queue_on_running:
  "snd (queue_prompt i t (demo_hosted\<lparr>se_state := P_idle\<rparr>) (session_db [demo_hosted])) = Inr True \<and>
   map se_state (sessions (fst (queue_prompt i t (demo_hosted\<lparr>se_state := P_idle\<rparr>) (session_db [demo_hosted])))) = [P_pending]"
  by (simp add: queue_prompt_def queueSessionWorkWhenState_def updateSessionWhenState_def session_cas_def cas_row_def
      session_db_def demo_hosted_def demo_session_def live_in_def state_in_def persistedSessionStates_def upd_state_def
      no_update_def persistedSessionWrite_def sql_exists_def queue_mark_def live_session_def insertWorkItem_def)

end
