(* ===== verification/CloudTurnFacts.thy ===== *)
theory CloudTurnFacts
  imports CloudTurn TurnLease
begin

text \<open>
  What the queue consumer of the cloud turns guarantees: a message for a session that does not
  want it is dropped, a turn that is held defers the message and writes nothing, a chain of
  continuation steps ends, and a sandbox started for a session that is gone is stopped.
\<close>

section \<open>Dropped and deferred messages\<close>

text \<open>The states in which the consumer acts on a message.\<close>

definition message_states :: "queue_message \<Rightarrow> session_state set" where
  "message_states m = (case m of Msg_start _ _ _ \<Rightarrow> {Pending} | Msg_turn _ _ _ \<Rightarrow> {Idle, Running} | Msg_step _ _ _ \<Rightarrow> {Running})"

lemma consume_unfold:
  "consumeCloudTurnQueueMessage w q m d =
     (case findSession q (message_session m) d of
        None \<Rightarrow> (d, [], Inr ())
      | Some session \<Rightarrow>
          (case m of
             Msg_start _ runtime prompt \<Rightarrow> consume_start w q session runtime prompt d
           | Msg_step _ turnId a \<Rightarrow> (case consume_step w q session turnId a d of (d1, es) \<Rightarrow> (d1, es, Inr ()))
           | Msg_turn _ prompt a \<Rightarrow> (case consume_turn w q session prompt a d of (d1, es) \<Rightarrow> (d1, es, Inr ()))))"
  unfolding consumeCloudTurnQueueMessage_def message_session_def Let_def by (rule refl)

text \<open>
  A stale message is dropped. When the session of a message is gone, or is in a state
  that the message is not for, the consumer writes nothing, calls nothing and acknowledges it.
\<close>

theorem stale_message_dropped:
  assumes "case sessionState q (message_session m) d of None \<Rightarrow> True | Some st \<Rightarrow> st \<notin> message_states m"
  shows "consumeCloudTurnQueueMessage w q m d = (d, [], Inr ())"
proof (cases "findSession q (message_session m) d")
  case None
  then show ?thesis by (simp add: consume_unfold)
next
  case (Some s)
  then show ?thesis using assms
    by (cases m; cases "domainSessionState (se_state s)")
      (simp_all add: consume_unfold sessionState_def message_states_def message_session_def consume_start_def
        consume_step_def consume_turn_def)
qed

lemma held_guard: "held_by sid me e d \<Longrightarrow> t \<le> e \<Longrightarrow> s \<in> set (sessions d) \<Longrightarrow> se_id s = sid \<Longrightarrow> \<not> turn_guard q st t s"
  by (auto simp: held_by_def turn_guard_def turn_free_def)

lemma acquire_held:
  assumes "held_by sid me e d" "t \<le> e"
  shows "acquireTurnLease q sid x ex t d = (d, False)"
proof -
  have "\<not> snd (acquireTurnLease q sid x ex t d)" unfolding acquireTurnLease_def
    by (rule cas_refused) (use held_guard [OF assms] in blast)
  then show ?thesis
    using session_cas_miss [of sid _ _ d "fst (acquireTurnLease q sid x ex t d)"]
    by (cases "acquireTurnLease q sid x ex t d") (simp add: acquireTurnLease_def)
qed

text \<open>
  A prompt that finds the turn of its session held is deferred. The database is left
  as it is, the only call is the enqueue of the very same message after the retry delay.
\<close>

theorem held_turn_defers:
  assumes "held_by sid me e d" "cw_now w \<le> e" "sessionState q sid d = Some Running"
  shows "consumeCloudTurnQueueMessage w q (Msg_turn sid prompt a) d =
    (d, [E_enqueue (Msg_turn sid prompt a) TURN_LEASE_RETRY_DELAY_SECONDS], Inr ())"
proof -
  obtain s where s: "findSession q sid d = Some s" "domainSessionState (se_state s) = Running"
    using assms(3) by (auto simp: sessionState_def)
  have "se_id s = sid" using s(1) findSession_Some by blast
  then show ?thesis
    using s acquire_held [OF assms(1,2)]
    by (simp add: consume_unfold message_session_def consume_turn_def runLeasedTurn_def)
qed

definition demo_step_world :: "time \<Rightarrow> consumer_world" where
  "demo_step_world t =
     \<lparr>cw_startup = \<lparr>sw_provider = Some ''x'', sw_prepare = None, sw_start = Inl ''e'', sw_stop_fails = None,
        sw_idle_fails = False, sw_mcp = JArr [], sw_before_launch = (\<lambda>d. d), sw_during_launch = (\<lambda>d. d),
        sw_before_record = (\<lambda>d. d), sw_after_record = (\<lambda>d. d), sw_number = (\<lambda>_. None), sw_inline = None\<rparr>,
      cw_turn = \<lparr>tw_result = T_paused, tw_during = (\<lambda>d. d), tw_idle_fails = False, tw_number = (\<lambda>_. None)\<rparr>,
      cw_times = \<lparr>st_claim = t, st_launch = t, st_started = t, st_failed = t, st_submit = t\<rparr>,
      cw_turn_id = ''fresh'', cw_sandbox = ''b'', cw_now = t, cw_after = t\<rparr>"

lemma demo_turn_session:
  "sessionState ''p'' ''s'' demo_turn = Some Running" "held_by ''s'' ''a'' 360 demo_turn"
  by (simp_all add: sessionState_def findSession_def demo_turn_rows sql_get_def live_session_def demo_session_def held_by_def)

theorem held_turn_defers_witness:
  "consumeCloudTurnQueueMessage (demo_step_world 100) ''p'' (Msg_turn ''s'' ''hi'' ''session.prompt'') demo_turn =
     (demo_turn, [E_enqueue (Msg_turn ''s'' ''hi'' ''session.prompt'') 5], Inr ())"
  using held_turn_defers [OF demo_turn_session(2) _ demo_turn_session(1), of "demo_step_world 100" "''hi''" "''session.prompt''"]
  by (simp add: demo_step_world_def TURN_LEASE_RETRY_DELAY_SECONDS_def)

theorem stale_message_dropped_witness:
  "consumeCloudTurnQueueMessage (demo_step_world 100) ''p'' (Msg_start ''s'' ''enbor'' None) demo_turn = (demo_turn, [], Inr ())"
  by (rule stale_message_dropped) (simp add: message_session_def message_states_def demo_turn_session)

section \<open>The continuation chain ends\<close>

text \<open>The turn \<open>tid\<close> of a session, where it is still held, has run at least \<open>k\<close> continuations.\<close>

definition deep :: "id \<Rightarrow> id \<Rightarrow> id \<Rightarrow> nat \<Rightarrow> db \<Rightarrow> bool" where
  "deep q sid tid k d \<longleftrightarrow> list_all (\<lambda>s. se_id s = sid \<and> turn_held q tid s \<longrightarrow> k \<le> se_depth s) (sessions d)"

definition turn_lost :: "id \<Rightarrow> id \<Rightarrow> id \<Rightarrow> db \<Rightarrow> bool" where
  "turn_lost q sid tid d \<longleftrightarrow> \<not> sql_exists (\<lambda>s. se_id s = sid \<and> turn_held q tid s) (sessions d)"

text \<open>
  Other processes neither lower the depth of a held turn nor claim a turn that was lost under the
  same identifier: identifiers of turns are fresh.
\<close>

definition respects_turn :: "id \<Rightarrow> id \<Rightarrow> id \<Rightarrow> (db \<Rightarrow> db) \<Rightarrow> bool" where
  "respects_turn q sid tid g \<longleftrightarrow>
     (\<forall>k d. deep q sid tid k d \<longrightarrow> deep q sid tid k (g d)) \<and> (\<forall>d. turn_lost q sid tid d \<longrightarrow> turn_lost q sid tid (g d))"

lemma deep_cas:
  assumes "deep q sid tid k d" "\<And>s. se_id (f s) = se_id s"
    and "\<And>s. guard s \<Longrightarrow> turn_held q tid (f s) \<Longrightarrow> turn_held q tid s \<and> se_depth s \<le> se_depth (f s)"
  shows "deep q sid tid k (fst (session_cas i guard f d))"
  using assms(1) unfolding deep_def session_cas_rows(1) list_all_iff set_sql_update
  by (auto simp: assms(2) split: if_splits dest!: assms(3))

lemma lost_cas:
  assumes "turn_lost q sid tid d" "\<And>s. se_id (f s) = se_id s"
    and "\<And>s. guard s \<Longrightarrow> turn_held q tid (f s) \<Longrightarrow> turn_held q tid s"
  shows "turn_lost q sid tid (fst (session_cas i guard f d))"
  using assms(1) unfolding turn_lost_def session_cas_rows(1) sql_exists_iff set_sql_update
  by (auto simp: assms(2) split: if_splits dest!: assms(3))

lemma held_touch: "turn_held q tid (persistedSessionWrite (upd_touch t) s) = turn_held q tid s"
  by (simp add: turn_held_def live_in_def persistedSessionWrite_def upd_touch_def no_update_def)

lemma touch_depth: "se_depth (persistedSessionWrite u s) = se_depth s"
  by (simp add: persistedSessionWrite_def)

lemma touch_keeps:
  "deep q sid tid k d \<Longrightarrow> deep q sid tid k (set_if_running q' i (upd_touch t) d)"
  "turn_lost q sid tid d \<Longrightarrow> turn_lost q sid tid (set_if_running q' i (upd_touch t) d)"
  unfolding set_if_running_def updateSessionWhenState_def
  by (rule deep_cas lost_cas; simp add: held_touch touch_depth)+

lemma renew_keeps:
  "deep q sid tid k d \<Longrightarrow> deep q sid tid k (fst (renewTurnLease q i x e d))"
  "turn_lost q sid tid d \<Longrightarrow> turn_lost q sid tid (fst (renewTurnLease q i x e d))"
  unfolding renewTurnLease_def
  by (rule deep_cas lost_cas; simp add: turn_held_def live_in_def)+

lemma lost_refuses: "turn_lost q sid tid d \<Longrightarrow> renewTurnLease q sid tid e d = (d, False)"
proof -
  assume "turn_lost q sid tid d"
  then have "\<not> snd (renewTurnLease q sid tid e d)" by (simp add: renewTurnLease_def session_cas_rows(2) turn_lost_def)
  then show ?thesis
    using session_cas_miss [of sid "turn_held q tid" _ d] by (cases "renewTurnLease q sid tid e d") (simp add: renewTurnLease_def)
qed

text \<open>Counting a continuation: the turn was lost, or the depth that is reported bounds the one before.\<close>

lemma increment_cases:
  assumes "incrementContinuationDepth q sid tid d = (d', n)" "deep q sid tid k d"
  shows "turn_lost q sid tid d' \<or> (k < n \<and> deep q sid tid (Suc k) d')"
proof (cases "turn_lost q sid tid d")
  case True
  then have "turn_lost q sid tid (fst (session_cas sid (turn_held q tid) (\<lambda>s. s\<lparr>se_depth := se_depth s + 1\<rparr>) d))"
    by (rule lost_cas) (simp_all add: turn_held_def live_in_def)
  then show ?thesis using assms(1) by (simp add: incrementContinuationDepth_def case_prod_beta)
next
  case False
  let ?P = "\<lambda>s. se_id s = sid \<and> turn_held q tid s"
  obtain s where s: "sql_get ?P (sessions d) = Some s"
    using False sql_get_None [of ?P "sessions d"] by (cases "sql_get ?P (sessions d)") (auto simp: turn_lost_def sql_exists_iff)
  have n: "n = Suc (se_depth s)" and d': "sessions d' = sql_update ?P (\<lambda>s. s\<lparr>se_depth := se_depth s + 1\<rparr>) (sessions d)"
    using assms(1) s by (auto simp: incrementContinuationDepth_def case_prod_beta session_cas_rows)
  have "k \<le> se_depth s" using sql_get_Some [OF s] assms(2) by (simp add: deep_def list_all_iff)
  moreover have "Suc k \<le> se_depth x" if x: "x \<in> set (sessions d')" "se_id x = sid" "turn_held q tid x" for x
  proof -
    obtain r where r: "r \<in> set (sessions d)" "x = (if ?P r then r\<lparr>se_depth := se_depth r + 1\<rparr> else r)"
      using x(1) unfolding d' set_sql_update by blast
    then have "?P r" using x(2,3) by (cases "?P r") simp_all
    then show ?thesis using r assms(2) by (simp add: deep_def list_all_iff)
  qed
  ultimately show ?thesis using n by (simp add: deep_def list_all_iff)
qed

text \<open>A run of the consumer on a chain of step messages: how many it handles before it stops.\<close>

fun next_step :: "effect list \<Rightarrow> queue_message option" where
  "next_step [] = None"
| "next_step (e # es) = (case e of E_enqueue (Msg_step s t a) _ \<Rightarrow> Some (Msg_step s t a) | _ \<Rightarrow> next_step es)"

fun chain_length :: "((db \<Rightarrow> db) \<times> consumer_world) list \<Rightarrow> id \<Rightarrow> queue_message \<Rightarrow> db \<Rightarrow> nat" where
  "chain_length [] q m d = 0"
| "chain_length ((g, w) # ws) q m d =
     (case consumeCloudTurnQueueMessage w q m (g d) of
        (d', es, _) \<Rightarrow> (case next_step es of None \<Rightarrow> 1 | Some m' \<Rightarrow> Suc (chain_length ws q m' d')))"

lemma sleep_no_step: "next_step (sleepIdleCloudSession n b s @ es) = next_step es"
  by (auto simp: sleepIdleCloudSession_def split: option.split)

text \<open>Only a pause goes on: it leaves the session running and touches no turn column.\<close>

lemma execute_step:
  assumes "executeCloudSessionTurn w q s a t d = (d', es, out)"
  shows "next_step (es @ es') = next_step es' \<and>
    (out = O_paused \<longrightarrow> d' = set_if_running q (se_id s) (upd_touch t) (tw_during w d))"
  using assms
  by (auto simp: executeCloudSessionTurn_def Let_def sleep_no_step split: turn_result.splits if_splits)

lemma step_cases:
  assumes c: "consumeCloudTurnQueueMessage w q (Msg_step sid (Some tid) a) d = (d', es, r)"
    and n: "next_step es = Some m" and tid: "tid \<noteq> []"
    and k: "deep q sid tid k d" and w: "respects_turn q sid tid (tw_during (cw_turn w))"
  shows "m = Msg_step sid (Some tid) a \<and> \<not> turn_lost q sid tid d \<and>
    (turn_lost q sid tid d' \<or> (Suc k < MAX_CONTINUATION_DEPTH \<and> deep q sid tid (Suc k) d'))"
proof -
  obtain s where s: "findSession q sid d = Some s"
    using c n by (cases "findSession q sid d") (auto simp: consume_unfold message_session_def)
  have sid: "se_id s = sid" using s findSession_Some by blast
  let ?e = "turnLeaseExpiry (cw_now w)"
  obtain d1 d2 es2 out where r: "renewTurnLease q sid tid ?e d = (d1, True)"
    and x: "executeCloudSessionTurn (cw_turn w) q s a (cw_after w) d1 = (d2, es2, out)"
    and h: "handleTurnOutcome (cw_turn w) q s tid a out (cw_after w) d2 = (d', drop (length es2) es)"
    and es: "es = es2 @ drop (length es2) es"
    using c n s sid tid
    by (auto simp: consume_unfold message_session_def consume_step_def truthy_str_def split: if_splits prod.splits bool.splits)
  have nl: "\<not> turn_lost q sid tid d" using r lost_refuses by fastforce
  have out: "out = O_paused"
    using h n es execute_step [OF x, of "[]"] by (auto simp: handleTurnOutcome_def Let_def split: if_splits)
  have d2: "d2 = set_if_running q sid (upd_touch (cw_after w)) (tw_during (cw_turn w) d1)"
    using execute_step [OF x] out sid by simp
  have "deep q sid tid k d1" using renew_keeps(1) [OF k, of sid tid ?e] r by simp
  then have k2: "deep q sid tid k d2" unfolding d2 using w by (intro touch_keeps) (simp add: respects_turn_def)
  obtain d3 depth where i: "incrementContinuationDepth q sid tid d2 = (d3, depth)" by fastforce
  have rest: "next_step (drop (length es2) es) = Some m" using n es execute_step [OF x, of "drop (length es2) es"] by simp
  have lt: "depth < MAX_CONTINUATION_DEPTH"
  proof (rule ccontr)
    assume "\<not> depth < MAX_CONTINUATION_DEPTH"
    then have "drop (length es2) es = sleepIdleCloudSession (tw_number (cw_turn w)) (tw_idle_fails (cw_turn w)) s @ []"
      using h out i sid by (simp add: handleTurnOutcome_def Let_def)
    then show False using rest sleep_no_step [where es = "[]"] by simp
  qed
  then have es': "drop (length es2) es = [E_enqueue (Msg_step sid (Some tid) a) 0]"
    and d': "d' = fst (renewTurnLease q sid tid (turnLeaseExpiry (cw_after w)) d3)"
    using h out i sid by (simp_all add: handleTurnOutcome_def Let_def)
  have "m = Msg_step sid (Some tid) a" using rest es' by simp
  moreover have "turn_lost q sid tid d' \<or> (Suc k < MAX_CONTINUATION_DEPTH \<and> deep q sid tid (Suc k) d')"
    using increment_cases [OF i k2] lt renew_keeps unfolding d' by fastforce
  ultimately show ?thesis using nl by blast
qed

lemma chain_bound:
  assumes "tid \<noteq> []" "list_all (\<lambda>(g, w). respects_turn q sid tid g \<and> respects_turn q sid tid (tw_during (cw_turn w))) ws"
    and "deep q sid tid k d" "Suc k < MAX_CONTINUATION_DEPTH + 1"
  shows "chain_length ws q (Msg_step sid (Some tid) a) d + k \<le> MAX_CONTINUATION_DEPTH + 1 \<and>
    (turn_lost q sid tid d \<longrightarrow> chain_length ws q (Msg_step sid (Some tid) a) d \<le> 1)"
  using assms(2-4)
proof (induction ws arbitrary: k d)
  case Nil
  then show ?case by simp
next
  case (Cons gw ws)
  obtain g w where gw: "gw = (g, w)" by fastforce
  have g: "respects_turn q sid tid g" and w: "respects_turn q sid tid (tw_during (cw_turn w))" using Cons.prems(1) gw by simp_all
  have k: "deep q sid tid k (g d)" using g Cons.prems(2) by (simp add: respects_turn_def)
  obtain d' es r where c: "consumeCloudTurnQueueMessage w q (Msg_step sid (Some tid) a) (g d) = (d', es, r)"
    by (cases "consumeCloudTurnQueueMessage w q (Msg_step sid (Some tid) a) (g d)")
  show ?case
  proof (cases "next_step es")
    case None
    then show ?thesis using c gw Cons.prems(3) by simp
  next
    case (Some m)
    note st = step_cases [OF c Some assms(1) k w]
    have nl: "\<not> turn_lost q sid tid d" using st g by (auto simp: respects_turn_def)
    have len: "chain_length (gw # ws) q (Msg_step sid (Some tid) a) d = Suc (chain_length ws q (Msg_step sid (Some tid) a) d')"
      using c gw Some st by simp
    have ws: "list_all (\<lambda>(g, w). respects_turn q sid tid g \<and> respects_turn q sid tid (tw_during (cw_turn w))) ws"
      using Cons.prems(1) by simp
    show ?thesis
    proof (cases "turn_lost q sid tid d'")
      case True
      then have "deep q sid tid k d'" by (auto simp: turn_lost_def sql_exists_iff deep_def list_all_iff)
      then show ?thesis using Cons.IH [OF ws _ Cons.prems(3)] True nl len Cons.prems(3) by fastforce
    next
      case False
      with st have "Suc k < MAX_CONTINUATION_DEPTH" "deep q sid tid (Suc k) d'" by simp_all
      then show ?thesis using Cons.IH [OF ws, of "Suc k" d'] nl len by simp
    qed
  qed
qed

text \<open>
  C13 (termination): a chain of continuations ends. However often the model pauses, and whatever
  other processes do that keeps to the protocol of the turn columns, at most 26 step messages of
  one turn are handled: the 25th continuation releases the turn, and once the turn is lost the next
  message stops the chain.
\<close>

theorem continuation_chain_ends:
  assumes "tid \<noteq> []"
    and "list_all (\<lambda>(g, w). respects_turn q sid tid g \<and> respects_turn q sid tid (tw_during (cw_turn w))) ws"
  shows "chain_length ws q (Msg_step sid (Some tid) a) d \<le> 26"
proof -
  have "deep q sid tid 0 d" by (simp add: deep_def list_all_iff)
  from chain_bound [OF assms this, of a] show ?thesis by (simp add: MAX_CONTINUATION_DEPTH_def)
qed

theorem continuation_chain_ends_witness:
  "chain_length (replicate 100 (\<lambda>d. d, demo_step_world 100)) ''p'' (Msg_step ''s'' (Some ''a'') ''session.prompt'') demo_turn \<le> 26"
  by (rule continuation_chain_ends) (simp_all add: list_all_iff respects_turn_def demo_step_world_def)

section \<open>Sandboxes of sessions that are gone\<close>

lemma failed_start_gone:
  "findSession q sid d = None \<Longrightarrow> failCloudSessionStart q sid t x u m d = (d, False)"
proof -
  assume g: "findSession q sid d = None"
  have "\<not> snd (failCloudSessionStart q sid t x u m d)"
    using g by (auto simp: failCloudSessionStart_def session_cas_rows(2) findSession_None sql_exists_iff
        live_session_def startup_held_def live_in_def)
  then show ?thesis
    using session_cas_miss [of sid "startup_held q t x" _ d]
    by (cases "failCloudSessionStart q sid t x u m d") (simp add: failCloudSessionStart_def)
qed

lemma launch_gone:
  assumes "\<And>x. findSession q (se_id pending) (sw_during_launch w x) = None"
  obtains e where "startup_launch w q pending sb x runtime prompt tms d = (sw_during_launch w d, [E_start sb], Some e)"
  | "startup_launch w q pending sb x runtime prompt tms d = (sw_during_launch w d, [E_start sb, E_stop sb], None)"
  using assms by (cases "sw_start w") (simp_all add: startup_launch_def Let_def sessionState_def)

text \<open>
  A sandbox is not orphaned by a deletion. If the session of a startup is gone when the
  sandbox has been launched, the startup stops the sandbox it launched, whether the launch
  succeeded or failed, writes nothing and reports no error.
\<close>

theorem startup_stops_orphan:
  assumes start: "startSessionRuntimeForRow w q pending sb x runtime prompt tms d = (d', es, r)"
    and launched: "E_start sb \<in> set es"
    and gone: "\<And>x. findSession q (se_id pending) (sw_during_launch w x) = None"
  shows "es = [E_start sb, E_stop sb] \<and> r = Inr () \<and> findSession q (se_id pending) d' = None"
proof -
  obtain d1 where a: "acquirePendingStartupLease q (se_id pending) (se_started pending) x
      (lifecycleLeaseExpiry (st_claim tms)) (st_claim tms) d = (d1, True)" and cloud: "supportsCloudStartup runtime"
    using start launched
    by (cases "acquirePendingStartupLease q (se_id pending) (se_started pending) x
        (lifecycleLeaseExpiry (st_claim tms)) (st_claim tms) d")
      (auto simp: startSessionRuntimeForRow_def split: if_splits bool.splits)
  obtain d2 es2 err where t: "startup_try w q pending sb x runtime prompt tms d1 = (d2, es2, err)"
    by (cases "startup_try w q pending sb x runtime prompt tms d1")
  have no: "E_start sb \<notin> set (snd (startup_catch w q pending sb x runtime (st_failed tms) e d2))" for e
    by (auto simp: startup_catch_def Let_def case_prod_beta split: bool.split)
  have "E_start sb \<in> set es2"
    using start launched a cloud t no
    by (auto simp: startSessionRuntimeForRow_def case_prod_beta split: option.splits)
  then obtain d1' where l: "startup_launch w q pending sb x runtime prompt tms d1' = (d2, es2, err)"
    using t by (auto simp: startup_try_def Let_def split: option.splits if_splits prod.splits bool.splits)
  show ?thesis
  proof (rule launch_gone [where d = d1' and sb = sb and x = x and runtime = runtime and prompt = prompt and tms = tms, OF gone])
    fix e assume "startup_launch w q pending sb x runtime prompt tms d1' = (sw_during_launch w d1', [E_start sb], Some e)"
    then show ?thesis
      using l t start a cloud gone failed_start_gone [OF gone]
      by (auto simp: startSessionRuntimeForRow_def startup_catch_def Let_def)
  next
    assume "startup_launch w q pending sb x runtime prompt tms d1' = (sw_during_launch w d1', [E_start sb, E_stop sb], None)"
    then show ?thesis using l t start a cloud gone by (auto simp: startSessionRuntimeForRow_def)
  qed
qed

definition demo_orphan :: startup_world where
  "demo_orphan = (cw_startup (demo_step_world 100))\<lparr>sw_during_launch := (\<lambda>_. session_db [])\<rparr>"

lemma demo_orphan_run:
  "\<exists>d' r. startSessionRuntimeForRow demo_orphan ''p'' (demo_session\<lparr>se_state := P_pending\<rparr>) ''b'' ''x'' ''enbor'' None
     (cw_times (demo_step_world 100)) (session_db [demo_session\<lparr>se_state := P_pending\<rparr>]) = (d', [E_start ''b'', E_stop ''b''], r)"
  by (simp add: startSessionRuntimeForRow_def supportsCloudStartup_def RUNTIME_DRIVERS_def acquirePendingStartupLease_def
      session_cas_def cas_row_def session_db_def demo_session_def startup_guard_def live_in_def turn_free_def sql_exists_def
      demo_orphan_def demo_step_world_def startup_try_def truthy_str_def renewTurnLease_def turn_held_def startup_launch_def
      startup_catch_def failCloudSessionStart_def findSession_def sql_get_def Let_def)

theorem startup_stops_orphan_witness:
  "\<exists>d'. findSession ''p'' ''s'' d' = None \<and>
     startSessionRuntimeForRow demo_orphan ''p'' (demo_session\<lparr>se_state := P_pending\<rparr>) ''b'' ''x'' ''enbor'' None
       (cw_times (demo_step_world 100)) (session_db [demo_session\<lparr>se_state := P_pending\<rparr>]) = (d', [E_start ''b'', E_stop ''b''], Inr ())"
proof -
  obtain d' r where run: "startSessionRuntimeForRow demo_orphan ''p'' (demo_session\<lparr>se_state := P_pending\<rparr>) ''b'' ''x'' ''enbor'' None
     (cw_times (demo_step_world 100)) (session_db [demo_session\<lparr>se_state := P_pending\<rparr>]) = (d', [E_start ''b'', E_stop ''b''], r)"
    using demo_orphan_run by blast
  from startup_stops_orphan [OF run] run show ?thesis
    by (simp add: demo_orphan_def session_db_def findSession_def sql_get_def demo_session_def)
qed

end
