(* ===== verification/LeaseClaim.thy ===== *)
theory LeaseClaim
  imports LeaseFacts RunnerRepo SessionStore
begin

text \<open>
  The use cases around a claim (\<open>server/usecases/leases.ts\<close>): \<open>claimLease\<close>, which a runner or the
  runner pool calls for one work item, and \<open>materializeWorkItemPayload\<close>, which builds what the runner
  receives. The secret store and the workspace manifests are answers of the world; so are the writes
  of other processes while the use case waits for the database or the secret store.
\<close>

section \<open>The definitions\<close>

definition USECASE_LEASE_DURATION_SECONDS :: int where
  "USECASE_LEASE_DURATION_SECONDS = 60"

record secret_world =
  sw_env :: "json option \<Rightarrow> string + (string \<times> json) list"
  sw_manifest :: "json list \<Rightarrow> json list \<Rightarrow> string + json"

record claim_world =
  cw_secrets :: secret_world
  cw_sweep_at :: time
  cw_before_read :: "db \<Rightarrow> db"
  cw_at :: time
  cw_before_claim :: "db \<Rightarrow> db"
  cw_lease_id :: id
  cw_now :: time
  cw_before_fail :: "db \<Rightarrow> db"
  cw_fail_at :: time

definition array_or_empty :: "json option \<Rightarrow> json list" where
  "array_or_empty v = (case jarr v of None \<Rightarrow> [] | Some xs \<Rightarrow> xs)"

definition needs_secrets :: "json \<Rightarrow> bool" where
  "needs_secrets payload \<longleftrightarrow>
     jget payload ''type'' = Some (JStr ''session.start'') \<and>
     (array_or_empty (jget payload ''envFrom'') \<noteq> [] \<or> array_or_empty (jget payload ''volumes'') \<noteq> [] \<or>
      array_or_empty (jget payload ''volumeMounts'') \<noteq> [])"

definition resolve_secrets :: "secret_world \<Rightarrow> json \<Rightarrow> string + unit" where
  "resolve_secrets w payload =
     (case sw_env w (jget payload ''envFrom'') of
        Inl m \<Rightarrow> Inl m
      | Inr _ \<Rightarrow>
          (case sw_manifest w (array_or_empty (jget payload ''volumes'')) (array_or_empty (jget payload ''volumeMounts'')) of
             Inl m \<Rightarrow> Inl m
           | Inr _ \<Rightarrow> Inr ()))"

definition environment_fits :: "runner_row \<Rightarrow> work_item_row \<Rightarrow> bool" where
  "environment_fits runner candidate \<longleftrightarrow>
     \<not> (truthy_str (ru_environment runner) \<and> truthy_str (wi_environment candidate) \<and>
        wi_environment candidate \<noteq> ru_environment runner)"

definition claimed_lease ::
    "claim_world \<Rightarrow> id \<Rightarrow> id \<Rightarrow> id \<Rightarrow> json \<Rightarrow> db \<Rightarrow> repo_error + claim_result \<Rightarrow> db \<times> (repo_error + lease_row)" where
  "claimed_lease w projectId runnerId workItemId payload d result =
     (case result of
        Inl e \<Rightarrow> (d, Inl e)
      | Inr At_capacity \<Rightarrow> (d, Inl (RunnerConflictError ''Runner is at capacity'' 409))
      | Inr Work_item_lost \<Rightarrow> (d, Inl (RunnerConflictError ''Work item was claimed by another runner'' 409))
      | Inr (Claimed lease sid) \<Rightarrow>
          if needs_secrets payload
          then (case resolve_secrets (cw_secrets w) payload of
                  Inl message \<Rightarrow>
                    (failClaim projectId (le_id lease) workItemId runnerId sid message (cw_fail_at w) (cw_before_fail w d),
                     Inl (RunnerConflictError message 409))
                | Inr _ \<Rightarrow> (d, Inr lease))
          else (d, Inr lease))"

definition claimLease ::
    "claim_world \<Rightarrow> id \<Rightarrow> id \<Rightarrow> runner_row \<Rightarrow> id \<Rightarrow> int option \<Rightarrow> db \<Rightarrow> db \<times> (repo_error + lease_row)" where
  "claimLease w organizationId projectId runner workItemId leaseDurationSeconds d =
     (let d1 = expireStale projectId (cw_sweep_at w) d in
      if ru_deleted runner \<noteq> None \<or> ru_state runner \<noteq> R_active
      then (d1, Inl (RunnerConflictError ''Runner is not active'' 409))
      else
        let d2 = cw_before_read w d1 in
        case findWorkItemRow projectId workItemId d2 of
          None \<Rightarrow> (d2, Inl (RunnerConflictError ''Work item not found'' 404))
        | Some candidate \<Rightarrow>
            if wi_state candidate \<noteq> W_available \<or> wi_available_at candidate > cw_at w
            then (d2, Inl (RunnerConflictError ''Work item is not available'' 409))
            else if \<not> environment_fits runner candidate
            then (d2, Inl (RunnerConflictError ''Runner is not eligible for this work item'' 409))
            else if \<not> runnerSupportsWork (runtimes_column (ru_runtimes runner)) (wi_payload candidate)
            then (d2, Inl (RunnerConflictError ''Runner is not eligible for this work item'' 409))
            else
              (case claim \<lparr>ci_organization = organizationId, ci_project = projectId, ci_work_item = workItemId,
                       ci_runner = ru_id runner,
                       ci_duration = (case leaseDurationSeconds of None \<Rightarrow> USECASE_LEASE_DURATION_SECONDS | Some s \<Rightarrow> s)\<rparr>
                      (cw_lease_id w) (cw_at w) (cw_now w) (cw_before_claim w d2) of
                 (d3, result) \<Rightarrow> claimed_lease w projectId (ru_id runner) workItemId (wi_payload candidate) d3 result))"

definition rawPayload :: "id \<Rightarrow> id \<Rightarrow> db \<Rightarrow> json option" where
  "rawPayload projectId workItemId d = map_option wi_payload (findWorkItemRow projectId workItemId d)"

definition spread :: "(string \<times> json) list \<Rightarrow> (string \<times> json) list \<Rightarrow> (string \<times> json) list" where
  "spread base new = fold (\<lambda>(k, v). kv_set k v) new base"

definition payload_env :: "json \<Rightarrow> (string \<times> json) list" where
  "payload_env payload = (case jget payload ''env'' of Some (JObj kvs) \<Rightarrow> kvs | _ \<Rightarrow> [])"

definition materializeWorkItemPayload :: "secret_world \<Rightarrow> id \<Rightarrow> id \<Rightarrow> db \<Rightarrow> string + json" where
  "materializeWorkItemPayload w projectId workItemId d =
     (let payload = (case rawPayload projectId workItemId d of None \<Rightarrow> JObj [] | Some p \<Rightarrow> p) in
      if jget payload ''type'' \<noteq> Some (JStr ''session.start'') then Inr payload
      else
        let envFrom = array_or_empty (jget payload ''envFrom'');
            volumes = array_or_empty (jget payload ''volumes'');
            volumeMounts = array_or_empty (jget payload ''volumeMounts'');
            runtimePayload = jdel ''volumeMounts'' (jdel ''volumes'' (jdel ''envFrom'' payload)) in
        if envFrom = [] \<and> volumes = [] \<and> volumeMounts = [] then Inr runtimePayload
        else case sw_env w (Some (JArr envFrom)) of
               Inl m \<Rightarrow> Inl m
             | Inr resolvedEnv \<Rightarrow>
                 (case sw_manifest w volumes volumeMounts of
                    Inl m \<Rightarrow> Inl m
                  | Inr workspaceManifest \<Rightarrow>
                      Inr (jset ''workspaceManifest'' workspaceManifest
                            (jset ''env'' (JObj (spread (payload_env payload) resolvedEnv)) runtimePayload))))"

section \<open>A claim hands out only work that can run\<close>

lemma claimLease_Inr:
  assumes "claimLease w org q r wid dur d = (d', Inr l)"
  obtains c sid where
    "ru_deleted r = None" "ru_state r = R_active"
    "findWorkItemRow q wid (cw_before_read w (expireStale q (cw_sweep_at w) d)) = Some c"
    "environment_fits r c" "runnerSupportsWork (runtimes_column (ru_runtimes r)) (wi_payload c)"
    "claim \<lparr>ci_organization = org, ci_project = q, ci_work_item = wid, ci_runner = ru_id r,
        ci_duration = (case dur of None \<Rightarrow> USECASE_LEASE_DURATION_SECONDS | Some s \<Rightarrow> s)\<rparr> (cw_lease_id w) (cw_at w) (cw_now w)
        (cw_before_claim w (cw_before_read w (expireStale q (cw_sweep_at w) d))) = (d', Inr (Claimed l sid))"
    "needs_secrets (wi_payload c) \<longrightarrow> resolve_secrets (cw_secrets w) (wi_payload c) = Inr ()"
proof (cases "findWorkItemRow q wid (cw_before_read w (expireStale q (cw_sweep_at w) d))")
  case None
  then show ?thesis using assms by (simp add: claimLease_def Let_def split: if_splits)
next
  case (Some c)
  let ?r = "claim \<lparr>ci_organization = org, ci_project = q, ci_work_item = wid, ci_runner = ru_id r,
        ci_duration = (case dur of None \<Rightarrow> USECASE_LEASE_DURATION_SECONDS | Some s \<Rightarrow> s)\<rparr> (cw_lease_id w) (cw_at w) (cw_now w)
        (cw_before_claim w (cw_before_read w (expireStale q (cw_sweep_at w) d)))"
  have ok: "ru_deleted r = None" "ru_state r = R_active" "environment_fits r c"
    "runnerSupportsWork (runtimes_column (ru_runtimes r)) (wi_payload c)"
    and fin: "claimed_lease w q (ru_id r) wid (wi_payload c) (fst ?r) (snd ?r) = (d', Inr l)"
    using assms Some by (simp_all add: claimLease_def Let_def case_prod_beta split: if_splits)
  obtain sid where sid: "snd ?r = Inr (Claimed l sid)" "fst ?r = d'"
    and sec: "needs_secrets (wi_payload c) \<longrightarrow> resolve_secrets (cw_secrets w) (wi_payload c) = Inr ()"
    using fin by (auto simp: claimed_lease_def split: sum.splits claim_result.splits if_splits)
  show ?thesis
    by (rule that [of c sid]) (use Some ok sid sec in \<open>auto simp: prod_eq_iff\<close>)
qed


lemma claimLease_granted:
  assumes keys: "keys_ok (cw_before_claim w (cw_before_read w (expireStale q (cw_sweep_at w) d)))"
    and c: "claimLease w org q r wid dur d = (d', Inr l)"
  shows "l \<in> set (leases d') \<and> le_state l = L_active \<and> le_id l = cw_lease_id w \<and> le_runner l = ru_id r \<and> le_work_item l = wid \<and>
     (\<exists>i \<in> set (work_items d'). wi_id i = wid \<and> wi_state i = W_leased \<and> wi_lease i = Some (le_id l) \<and>
        wi_runner i = Some (ru_id r))"
proof -
  obtain sid where cl: "claim \<lparr>ci_organization = org, ci_project = q, ci_work_item = wid, ci_runner = ru_id r,
        ci_duration = (case dur of None \<Rightarrow> USECASE_LEASE_DURATION_SECONDS | Some s \<Rightarrow> s)\<rparr> (cw_lease_id w) (cw_at w) (cw_now w)
        (cw_before_claim w (cw_before_read w (expireStale q (cw_sweep_at w) d))) = (d', Inr (Claimed l sid))"
    by (rule claimLease_Inr [OF c]) blast
  obtain i where i: "leases d' = leases (cw_before_claim w (cw_before_read w (expireStale q (cw_sweep_at w) d))) @ [l]"
    "le_state l = L_active" "le_id l = cw_lease_id w" "le_runner l = ru_id r" "le_work_item l = wid"
    "i\<lparr>wi_state := W_leased, wi_runner := Some (ru_id r), wi_lease := Some (le_id l),
       wi_attempts := wi_attempts i + 1, wi_updated := cw_at w\<rparr> \<in> set (work_items d')" "wi_id i = wid"
    by (rule claim_result [OF cl keys]) (auto simp: new_lease_def set_sql_update claimable_item_def intro!: image_eqI)
  from i(6,7) have "\<exists>i \<in> set (work_items d'). wi_id i = wid \<and> wi_state i = W_leased \<and> wi_lease i = Some (le_id l) \<and>
        wi_runner i = Some (ru_id r)" by (auto intro!: bexI [OF _ i(6)])
  moreover have "l \<in> set (leases d')" using i(1) by simp
  ultimately show ?thesis using i(2-5) by blast
qed

text \<open>
  C6 (safety): a granted claim hands out runnable work. The runner was active, the work item fitted its
  environment and named a runtime the runner has ready, every reference of its payload resolved, and in
  the database the item is leased to the runner under the lease it is given, which is active.
\<close>

theorem claimed_work_runnable:
  assumes keys: "keys_ok (cw_before_claim w (cw_before_read w (expireStale q (cw_sweep_at w) d)))"
    and c: "claimLease w org q r wid dur d = (d', Inr l)"
  shows "ru_state r = R_active \<and> ru_deleted r = None \<and>
     (\<exists>c. findWorkItemRow q wid (cw_before_read w (expireStale q (cw_sweep_at w) d)) = Some c \<and> environment_fits r c \<and>
        runnerSupportsWork (runtimes_column (ru_runtimes r)) (wi_payload c) \<and>
        (needs_secrets (wi_payload c) \<longrightarrow> resolve_secrets (cw_secrets w) (wi_payload c) = Inr ())) \<and>
     l \<in> set (leases d') \<and> le_state l = L_active \<and> le_id l = cw_lease_id w \<and> le_runner l = ru_id r \<and> le_work_item l = wid \<and>
     (\<exists>i \<in> set (work_items d'). wi_id i = wid \<and> wi_state i = W_leased \<and> wi_lease i = Some (le_id l) \<and>
        wi_runner i = Some (ru_id r))"
proof -
  have "ru_state r = R_active \<and> ru_deleted r = None \<and>
     (\<exists>c. findWorkItemRow q wid (cw_before_read w (expireStale q (cw_sweep_at w) d)) = Some c \<and> environment_fits r c \<and>
        runnerSupportsWork (runtimes_column (ru_runtimes r)) (wi_payload c) \<and>
        (needs_secrets (wi_payload c) \<longrightarrow> resolve_secrets (cw_secrets w) (wi_payload c) = Inr ()))"
    by (rule claimLease_Inr [OF c]) blast
  then show ?thesis using claimLease_granted [OF assms] by blast
qed

section \<open>A refused claim leaves no lease behind\<close>

definition fresh_lease :: "id \<Rightarrow> db \<Rightarrow> bool" where
  "fresh_lease leaseId d \<longleftrightarrow> (\<forall>l \<in> set (leases d). le_id l \<noteq> leaseId) \<and> (\<forall>i \<in> set (work_items d). wi_lease i \<noteq> Some leaseId)"

lemma releaseRunnerLoad_leases: "leases (releaseRunnerLoad q rid t d) = leases d"
  by (simp add: releaseRunnerLoad_def)

lemma session_state_leases: "leases (stmt_session_state q s st reason t d) = leases d"
  by (simp add: stmt_session_state_def)

lemma failClaim_leases:
  "leases (failClaim q leaseId wid rid sid reason t d) =
     sql_update (\<lambda>l. le_id l = leaseId) (\<lambda>l. l\<lparr>le_state := L_failed, le_updated := t\<rparr>) (leases d)"
  by (simp add: failClaim_def Let_def stmt_fail_lease_def stmt_fail_work_item_def releaseRunnerLoad_leases
      session_state_leases split: option.splits)

lemma failClaim_items:
  "work_items (failClaim q leaseId wid rid sid reason t d) =
     sql_update (\<lambda>i. wi_id i = wid)
       (\<lambda>i. i\<lparr>wi_state := W_failed, wi_runner := None, wi_lease := None, wi_error := Some (message_json reason),
              wi_updated := t\<rparr>) (work_items d)"
  by (simp add: failClaim_def Let_def stmt_fail_lease_def stmt_fail_work_item_def releaseRunnerLoad_def
      stmt_session_state_def split: option.splits)

lemma claim_not_thrown:
  assumes "keys_ok d" "claim input leaseId t now d = (d', Inl e)"
  shows False
proof -
  let ?b = "batch_claim input leaseId t now d"
  obtain n where n: "fst (snd ?b) = n"
    "n = sql_count (claiming_runner input t now d) (runners d) * sql_count (claimable_item input t d) (work_items d)"
    and got: "snd (snd ?b) = filter (\<lambda>w. claimable_item input t d w \<and> n = 1) (work_items d)"
    by (rule batch_claim_tables [of input leaseId t now d]) blast
  have c: "n \<noteq> 0" "snd (snd ?b) = []"
    using assms(2) n(1) by (auto simp: claim_def case_prod_beta split: if_splits option.splits list.splits)
  have "n \<le> 1" unfolding n(2) using mult_le_mono [OF claim_count_le1 [OF assms(1)]] by simp
  with c(1) have n1: "n = 1" by simp
  then have "sql_count (claimable_item input t d) (work_items d) \<noteq> 0" using n(2) by (metis mult_0_right zero_neq_one)
  then show False using c(2) got n1 by (auto simp: sql_count_zero filter_empty_conv)
qed

lemma claim_refused_same:
  assumes "fresh_lease leaseId d" "claim input leaseId t now d = (d', Inr r)" "r = At_capacity \<or> r = Work_item_lost"
  shows "leases d' = leases d"
proof -
  obtain n where n: "fst (snd (batch_claim input leaseId t now d)) = n"
    "leases (fst (batch_claim input leaseId t now d)) = leases d @ replicate n (new_lease input leaseId t now)"
    by (rule batch_claim_tables [of input leaseId t now d]) blast
  show ?thesis
    using assms(2,3) n by (auto simp: claim_def case_prod_beta split: if_splits option.splits list.splits)
qed

lemma claimed_lease_Inl:
  assumes "claimed_lease w q rid wid payload d (Inr (Claimed l sid)) = (d', Inl e)"
  shows "\<exists>m. e = RunnerConflictError m 409 \<and>
     d' = failClaim q (le_id l) wid rid sid m (cw_fail_at w) (cw_before_fail w d)"
  using assms by (auto simp: claimed_lease_def split: if_splits sum.splits)

lemma failClaim_outcome:
  assumes "d' = failClaim q leaseId wid rid sid m t d"
  shows "(\<forall>l \<in> set (leases d'). le_id l = leaseId \<longrightarrow> le_state l \<noteq> L_active) \<and>
     (\<forall>i \<in> set (work_items d'). wi_id i = wid \<longrightarrow> wi_state i = W_failed \<and> wi_error i = Some (message_json m))"
  unfolding assms failClaim_leases failClaim_items by (intro conjI sql_update_all) simp_all

text \<open>
  C7 (error): a claim that is refused leaves no lease behind. Whatever the reason, also when the
  secrets of the item cannot be resolved after the lease was written, and whatever other processes
  write meanwhile, no active lease carries the identifier the claim had drawn; and in the last case
  the work item has failed with the reason the runner is told.
\<close>

theorem refused_claim_no_lease:
  assumes f1: "fresh_lease (cw_lease_id w) (cw_before_read w (expireStale q (cw_sweep_at w) d))"
    and f0: "fresh_lease (cw_lease_id w) (expireStale q (cw_sweep_at w) d)"
    and f2: "fresh_lease (cw_lease_id w) (cw_before_claim w (cw_before_read w (expireStale q (cw_sweep_at w) d)))"
    and keys: "keys_ok (cw_before_claim w (cw_before_read w (expireStale q (cw_sweep_at w) d)))"
    and c: "claimLease w org q r wid dur d = (d', Inl e)"
  shows "(\<forall>l \<in> set (leases d'). le_id l = cw_lease_id w \<longrightarrow> le_state l \<noteq> L_active) \<and>
     (\<forall>m. e = RunnerConflictError m 409 \<and> (\<exists>l \<in> set (leases d'). le_id l = cw_lease_id w) \<longrightarrow>
        (\<forall>i \<in> set (work_items d'). wi_id i = wid \<longrightarrow> wi_state i = W_failed \<and> wi_error i = Some (message_json m)))"
proof (cases "d' = expireStale q (cw_sweep_at w) d \<or> d' = cw_before_read w (expireStale q (cw_sweep_at w) d)")
  case True
  then show ?thesis using f0 f1 by (auto simp: fresh_lease_def)
next
  case False
  let ?d2 = "cw_before_read w (expireStale q (cw_sweep_at w) d)"
  let ?r = "claim \<lparr>ci_organization = org, ci_project = q, ci_work_item = wid, ci_runner = ru_id r,
        ci_duration = (case dur of None \<Rightarrow> USECASE_LEASE_DURATION_SECONDS | Some s \<Rightarrow> s)\<rparr> (cw_lease_id w) (cw_at w) (cw_now w)
        (cw_before_claim w ?d2)"
  obtain i where i: "findWorkItemRow q wid ?d2 = Some i"
    "claimed_lease w q (ru_id r) wid (wi_payload i) (fst ?r) (snd ?r) = (d', Inl e)"
    using c False by (auto simp: claimLease_def Let_def case_prod_beta split: if_splits option.splits)
  show ?thesis
  proof (cases "snd ?r")
    case (Inl e')
    then have "?r = (fst ?r, Inl e')" by (simp add: prod_eq_iff)
    from claim_not_thrown [OF keys this] show ?thesis ..
  next
    case (Inr res)
    then have eq: "?r = (fst ?r, Inr res)" by (simp add: prod_eq_iff)
    show ?thesis
    proof (cases res)
      case (Claimed l sid)
      have l: "le_id l = cw_lease_id w"
        by (rule claim_result [OF eq [unfolded Claimed] keys]) (simp add: new_lease_def)
      obtain m where m: "e = RunnerConflictError m 409"
        "d' = failClaim q (le_id l) wid (ru_id r) sid m (cw_fail_at w) (cw_before_fail w (fst ?r))"
        using claimed_lease_Inl [OF i(2) [unfolded Inr Claimed]] by blast
      from failClaim_outcome [OF m(2)] show ?thesis unfolding l using m(1) by simp
    next
      case At_capacity
      then have "leases d' = leases (cw_before_claim w ?d2)"
        using claim_refused_same [OF f2 eq] i(2) Inr by (simp add: claimed_lease_def)
      then show ?thesis using f2 by (auto simp: fresh_lease_def)
    next
      case Work_item_lost
      then have "leases d' = leases (cw_before_claim w ?d2)"
        using claim_refused_same [OF f2 eq] i(2) Inr by (simp add: claimed_lease_def)
      then show ?thesis using f2 by (auto simp: fresh_lease_def)
    qed
  qed
qed


text \<open>A claim of a session start whose secret is missing, and the same claim with the secret present.\<close>

definition demo_start_item :: work_item_row where
  "demo_start_item = demo_item\<lparr>wi_payload := JObj [(''type'', JStr ''session.start''),
     (''runtimeRequirement'', JObj [(''runtime'', JStr ''codex'')]), (''env'', JObj [(''A'', JStr ''1'')]),
     (''envFrom'', JArr [JStr ''B''])]\<rparr>"

definition demo_codex_runner :: runner_row where
  "demo_codex_runner = demo_runner\<lparr>ru_runtimes := JArr [JObj [(''runtime'', JStr ''codex''), (''state'', JStr ''ready'')]]\<rparr>"

definition demo_start_db :: db where
  "demo_start_db = demo_db\<lparr>work_items := [demo_start_item], runners := [demo_codex_runner]\<rparr>"

definition demo_claim_world :: "(string + (string \<times> json) list) \<Rightarrow> claim_world" where
  "demo_claim_world secret = \<lparr>cw_secrets = \<lparr>sw_env = (\<lambda>_. secret), sw_manifest = (\<lambda>_ _. Inr (JObj []))\<rparr>,
     cw_sweep_at = 100, cw_before_read = (\<lambda>d. d), cw_at = 100, cw_before_claim = (\<lambda>d. d), cw_lease_id = ''l'',
     cw_now = 100, cw_before_fail = (\<lambda>d. d), cw_fail_at = 100\<rparr>"

lemma demo_start_sweep: "expireStale ''p'' 100 demo_start_db = demo_start_db"
  by (simp add: expireStale_def stale_leases_def demo_start_db_def demo_db_def)

lemma demo_start_claim:
  "claim \<lparr>ci_organization = ''o'', ci_project = ''p'', ci_work_item = ''w'', ci_runner = ''r'', ci_duration = 60\<rparr>
     ''l'' 100 100 demo_start_db =
   (fst (batch_claim demo_claim ''l'' 100 100 demo_start_db), Inr (Claimed (new_lease demo_claim ''l'' 100 100) None))"
  unfolding demo_claim_def [symmetric]
  by (simp add: claim_def case_prod_beta demo_start_db_def demo_start_item_def demo_codex_runner_def demo_defs batch_claim_def
      claim_insert_def claim_item_def claiming_runner_def claimable_item_def activeLeaseCount_def waiting_session_def
      runnerHeartbeatStaleBefore_def RUNNER_HEARTBEAT_GRACE_MS_def)

lemma demo_start_run:
  "claimLease (demo_claim_world secret) ''o'' ''p'' demo_codex_runner ''w'' None demo_start_db =
     claimed_lease (demo_claim_world secret) ''p'' ''r'' ''w'' (wi_payload demo_start_item)
       (fst (batch_claim demo_claim ''l'' 100 100 demo_start_db)) (Inr (Claimed (new_lease demo_claim ''l'' 100 100) None))"
proof -
  have f: "findWorkItemRow ''p'' ''w'' demo_start_db = Some demo_start_item"
    by (simp add: findWorkItemRow_def sql_get_def demo_start_db_def demo_start_item_def demo_item_def)
  have r: "ru_deleted demo_codex_runner = None" "ru_state demo_codex_runner = R_active" "ru_id demo_codex_runner = ''r''"
    "ru_environment demo_codex_runner = None"
    by (simp_all add: demo_codex_runner_def demo_runner_def)
  have s: "runnerSupportsWork (runtimes_column (ru_runtimes demo_codex_runner)) (wi_payload demo_start_item)"
    by (simp add: demo_codex_runner_def demo_start_item_def runtimes_column_def runtimes_entry_def runnerSupportsWork_def
        workRuntimeRequirement_def jget_def)
  have i: "wi_state demo_start_item = W_available" "wi_available_at demo_start_item = 0"
    by (simp_all add: demo_start_item_def demo_item_def)
  show ?thesis
    by (simp add: claimLease_def demo_claim_world_def demo_start_sweep f r s i environment_fits_def truthy_str_def
        USECASE_LEASE_DURATION_SECONDS_def demo_start_claim)
qed

lemma demo_start_secrets: "needs_secrets (wi_payload demo_start_item)"
  by (simp add: demo_start_item_def needs_secrets_def array_or_empty_def jget_def)

theorem claimed_work_runnable_witness:
  "\<exists>d'. claimLease (demo_claim_world (Inr [])) ''o'' ''p'' demo_codex_runner ''w'' None demo_start_db =
       (d', Inr (new_lease demo_claim ''l'' 100 100)) \<and>
     (\<exists>i \<in> set (work_items d'). wi_id i = ''w'' \<and> wi_state i = W_leased)"
proof -
  have k: "keys_ok (cw_before_claim (demo_claim_world (Inr [])) (cw_before_read (demo_claim_world (Inr []))
      (expireStale ''p'' (cw_sweep_at (demo_claim_world (Inr []))) demo_start_db)))"
    by (simp add: demo_claim_world_def demo_start_sweep) (simp add: keys_ok_def demo_start_db_def demo_db_def)
  have c: "claimLease (demo_claim_world (Inr [])) ''o'' ''p'' demo_codex_runner ''w'' None demo_start_db =
      (fst (batch_claim demo_claim ''l'' 100 100 demo_start_db), Inr (new_lease demo_claim ''l'' 100 100))"
    unfolding demo_start_run by (simp add: claimed_lease_def resolve_secrets_def demo_claim_world_def)
  show ?thesis using claimed_work_runnable [OF k c] c by blast
qed

theorem refused_claim_no_lease_witness:
  "\<exists>d'. claimLease (demo_claim_world (Inl ''gone'')) ''o'' ''p'' demo_codex_runner ''w'' None demo_start_db =
       (d', Inl (RunnerConflictError ''gone'' 409)) \<and>
     \<not> sql_exists (\<lambda>l. le_id l = ''l'' \<and> le_state l = L_active) (leases d')"
proof -
  let ?w = "demo_claim_world (Inl ''gone'')"
  have p: "cw_before_read ?w = (\<lambda>d. d)" "cw_before_claim ?w = (\<lambda>d. d)" "cw_sweep_at ?w = 100" "cw_lease_id ?w = ''l''"
    by (simp_all add: demo_claim_world_def)
  have k: "keys_ok demo_start_db" "fresh_lease ''l'' demo_start_db"
    by (simp_all add: keys_ok_def fresh_lease_def demo_start_db_def demo_db_def demo_start_item_def demo_item_def)
  obtain d' where c: "claimLease ?w ''o'' ''p'' demo_codex_runner ''w'' None demo_start_db =
      (d', Inl (RunnerConflictError ''gone'' 409))"
    unfolding demo_start_run using demo_start_secrets
    by (simp add: claimed_lease_def resolve_secrets_def) (simp add: demo_claim_world_def)
  have "\<forall>l \<in> set (leases d'). le_id l = ''l'' \<longrightarrow> le_state l \<noteq> L_active"
    using refused_claim_no_lease [of ?w "''p''" demo_start_db, unfolded p demo_start_sweep, OF k(2) k(2) k(2) k(1) c] by blast
  then show ?thesis using c by (auto simp: sql_exists_iff)
qed

section \<open>What the runner receives\<close>

lemma map_of_spread: "map_of (spread base new) k = (case map_of (rev new) k of None \<Rightarrow> map_of base k | Some v \<Rightarrow> Some v)"
  by (induction new arbitrary: base) (auto simp: spread_def map_add_def split: option.splits)

text \<open>
  The payload a runner receives for a session start carries no reference to a secret
  or a volume any more. Its environment holds the resolved variables over the plain ones of the stored
  payload, and every other member is the stored one.
\<close>

theorem materialized_payload:
  assumes p: "rawPayload q wid d = Some payload" "jget payload ''type'' = Some (JStr ''session.start'')"
    and m: "materializeWorkItemPayload w q wid d = Inr out"
  shows "jget out ''envFrom'' = None \<and> jget out ''volumes'' = None \<and> jget out ''volumeMounts'' = None \<and>
     (\<forall>k. k \<notin> {''envFrom'', ''volumes'', ''volumeMounts'', ''env'', ''workspaceManifest''} \<longrightarrow> jget out k = jget payload k) \<and>
     (needs_secrets payload \<longrightarrow>
        (\<exists>resolved. sw_env w (Some (JArr (array_or_empty (jget payload ''envFrom'')))) = Inr resolved \<and>
           (\<forall>k. jopt (jget out ''env'') k =
              (case map_of (rev resolved) k of None \<Rightarrow> map_of (payload_env payload) k | Some v \<Rightarrow> Some v))))"
proof (cases "needs_secrets payload")
  case False
  then have "out = jdel ''volumeMounts'' (jdel ''volumes'' (jdel ''envFrom'' payload))"
    using p m by (auto simp: materializeWorkItemPayload_def needs_secrets_def Let_def)
  then show ?thesis using False by simp
next
  case True
  obtain resolved man where r: "sw_env w (Some (JArr (array_or_empty (jget payload ''envFrom'')))) = Inr resolved"
    and out: "out = jset ''workspaceManifest'' man (jset ''env'' (JObj (spread (payload_env payload) resolved))
        (jdel ''volumeMounts'' (jdel ''volumes'' (jdel ''envFrom'' payload))))"
    using True p m by (auto simp: materializeWorkItemPayload_def needs_secrets_def Let_def split: sum.splits)
  have "jopt (jget out ''env'') k = (case map_of (rev resolved) k of None \<Rightarrow> map_of (payload_env payload) k | Some v \<Rightarrow> Some v)" for k
    unfolding map_of_spread [symmetric] by (simp add: out) (simp add: jget_def)
  moreover have "jget out ''envFrom'' = None" "jget out ''volumes'' = None" "jget out ''volumeMounts'' = None"
    "\<forall>k. k \<notin> {''envFrom'', ''volumes'', ''volumeMounts'', ''env'', ''workspaceManifest''} \<longrightarrow> jget out k = jget payload k"
    by (simp_all add: out)
  ultimately show ?thesis using r by blast
qed

theorem materialized_payload_witness:
  "\<exists>out. materializeWorkItemPayload (cw_secrets (demo_claim_world (Inr [(''A'', JStr ''2'')]))) ''p'' ''w'' demo_start_db = Inr out \<and>
     jget out ''envFrom'' = None"
proof -
  let ?w = "cw_secrets (demo_claim_world (Inr [(''A'', JStr ''2'')]))"
  have raw: "rawPayload ''p'' ''w'' demo_start_db = Some (wi_payload demo_start_item)"
    by (simp add: rawPayload_def findWorkItemRow_def sql_get_def demo_start_db_def demo_start_item_def demo_item_def)
  have ty: "jget (wi_payload demo_start_item) ''type'' = Some (JStr ''session.start'')"
    by (simp add: demo_start_item_def jget_def)
  have m: "materializeWorkItemPayload ?w ''p'' ''w'' demo_start_db =
      Inr (projr (materializeWorkItemPayload ?w ''p'' ''w'' demo_start_db))"
    by (simp add: materializeWorkItemPayload_def raw Let_def ty demo_claim_world_def)
  then show ?thesis using materialized_payload [OF raw ty m] m by blast
qed

end
