(* ===== verification/Redaction.thy ===== *)
theory Redaction
  imports SecretScan
begin

text \<open>
  Redaction of tool results before an event is stored or relayed (\<open>server/redaction.ts\<close>). The test of
  a key and the traversal are modelled; \<open>scrub\<close> stands for \<open>redactSecretText\<close>, a chain of regular
  expression replacements on one string.
\<close>

section \<open>Secret keys\<close>

definition REDACTED_VALUE :: string where
  "REDACTED_VALUE = ''[REDACTED]''"

text \<open>
  The alternatives of \<open>SECRET_KEY\<close> with their optional separators written out. A match is an occurrence
  between the ends of the key and the separators \<open>_\<close> and \<open>-\<close>; letters are compared in lower case.
\<close>

definition separated :: "string \<Rightarrow> string \<Rightarrow> string list" where
  "separated a b = [a @ b, a @ [CHR ''_''] @ b, a @ [CHR ''-''] @ b]"

definition SECRET_KEY_WORDS :: "string list" where
  "SECRET_KEY_WORDS =
     separated ''api'' ''key'' @ [''authorization''] @ separated ''client'' ''secret'' @ [''credential'', ''password''] @
     separated ''private'' ''key'' @ separated ''refresh'' ''token'' @ separated ''access'' ''token'' @ [''token''] @
     separated ''secret'' ''key''"

definition key_separator :: "char \<Rightarrow> bool" where
  "key_separator c \<longleftrightarrow> c = CHR ''_'' \<or> c = CHR ''-''"

definition word_here :: "string \<Rightarrow> bool" where
  "word_here key \<longleftrightarrow>
     list_ex (\<lambda>w. take (length w) key = w \<and>
                  (case drop (length w) key of [] \<Rightarrow> True | c # _ \<Rightarrow> key_separator c)) SECRET_KEY_WORDS"

fun word_after_separator :: "string \<Rightarrow> bool" where
  "word_after_separator [] = False"
| "word_after_separator (c # cs) = (key_separator c \<and> word_here cs \<or> word_after_separator cs)"

definition SECRET_KEY :: "string \<Rightarrow> bool" where
  "SECRET_KEY key \<longleftrightarrow> (let k = map ascii_lower key in word_here k \<or> word_after_separator k)"

section \<open>Values, blocks and payloads\<close>

fun redactToolResultValue :: "(string \<Rightarrow> string) \<Rightarrow> json \<Rightarrow> json"
  and redact_elements :: "(string \<Rightarrow> string) \<Rightarrow> json list \<Rightarrow> json list"
  and redact_entries :: "(string \<Rightarrow> string) \<Rightarrow> (string \<times> json) list \<Rightarrow> (string \<times> json) list" where
  "redactToolResultValue scrub (JStr s) = JStr (scrub s)"
| "redactToolResultValue scrub (JArr xs) = JArr (redact_elements scrub xs)"
| "redactToolResultValue scrub (JObj kvs) = JObj (redact_entries scrub kvs)"
| "redactToolResultValue scrub v = v"
| "redact_elements scrub [] = []"
| "redact_elements scrub (x # xs) = redactToolResultValue scrub x # redact_elements scrub xs"
| "redact_entries scrub [] = []"
| "redact_entries scrub ((key, child) # kvs) =
     (key, if SECRET_KEY key then JStr REDACTED_VALUE else redactToolResultValue scrub child) # redact_entries scrub kvs"

definition redact_member :: "(string \<Rightarrow> string) \<Rightarrow> string \<Rightarrow> json \<Rightarrow> json \<Rightarrow> json" where
  "redact_member scrub k block out =
     (case jget block k of None \<Rightarrow> out | Some v \<Rightarrow> jset k (redactToolResultValue scrub v) out)"

definition redactToolResultBlock :: "(string \<Rightarrow> string) \<Rightarrow> json \<Rightarrow> json" where
  "redactToolResultBlock scrub block = redact_member scrub ''error'' block (redact_member scrub ''result'' block block)"

definition redact_block :: "(string \<Rightarrow> string) \<Rightarrow> json \<Rightarrow> json" where
  "redact_block scrub block =
     (if is_jobj (Some block) \<and> jget block ''type'' = Some (JStr ''tool_result'')
      then redactToolResultBlock scrub block else block)"

definition redactToolResultsFromPayload :: "(string \<Rightarrow> string) \<Rightarrow> json \<Rightarrow> json" where
  "redactToolResultsFromPayload scrub payload =
     (case jget payload ''message'' of
        Some message \<Rightarrow>
          (case jarr (jget message ''content'') of
             Some blocks \<Rightarrow>
               jset ''message'' (jset ''content'' (JArr (map (redact_block scrub) blocks)) message) payload
           | None \<Rightarrow> payload)
      | None \<Rightarrow> payload)"

section \<open>Nothing under a secret key survives\<close>

inductive entry_occurs :: "string \<Rightarrow> json \<Rightarrow> json \<Rightarrow> bool" where
  here: "(k, v) \<in> set kvs \<Longrightarrow> entry_occurs k v (JObj kvs)"
| below: "(k', x) \<in> set kvs \<Longrightarrow> entry_occurs k v x \<Longrightarrow> entry_occurs k v (JObj kvs)"
| element: "x \<in> set xs \<Longrightarrow> entry_occurs k v x \<Longrightarrow> entry_occurs k v (JArr xs)"

inductive_simps entry_occurs_simps [simp]:
  "entry_occurs k v JNull" "entry_occurs k v (JBool b)" "entry_occurs k v (JNum n)" "entry_occurs k v (JStr s)"
  "entry_occurs k v (JObj kvs)" "entry_occurs k v (JArr xs)"

definition concealed :: "json \<Rightarrow> bool" where
  "concealed j \<longleftrightarrow> (\<forall>k v. entry_occurs k v j \<longrightarrow> SECRET_KEY k \<longrightarrow> v = JStr REDACTED_VALUE)"

lemma redact_elements_map [simp]: "redact_elements scrub xs = map (redactToolResultValue scrub) xs"
  by (induction xs) auto

lemma redact_entries_map [simp]:
  "redact_entries scrub kvs =
     map (\<lambda>(k, v). (k, if SECRET_KEY k then JStr REDACTED_VALUE else redactToolResultValue scrub v)) kvs"
  by (induction kvs) auto

lemma concealed_value: "concealed (redactToolResultValue scrub v)"
proof (induction v)
  case (JArr xs)
  then show ?case by (auto simp: concealed_def)
next
  case (JObj kvs)
  have "concealed (redactToolResultValue scrub x)" if "(k, x) \<in> set kvs" for k x
    using JObj [OF that] by simp
  then show ?case by (auto simp: concealed_def split: if_splits)
qed (simp_all add: concealed_def)

lemma redacted_block_member:
  assumes "k \<in> {''result'', ''error''}" "is_jobj (Some b)" "jget b ''type'' = Some (JStr ''tool_result'')"
    "jget (redact_block scrub b) k = Some v"
  shows "concealed v"
  using assms concealed_value
  by (auto simp: redact_block_def redactToolResultBlock_def redact_member_def split: option.splits if_splits)

lemma redact_block_type:
  "is_jobj (Some (redact_block scrub b)) = is_jobj (Some b)"
  "jget (redact_block scrub b) ''type'' = jget b ''type''"
proof -
  have j: "is_jobj (Some (jset k x b))" if "is_jobj (Some b)" for k x b
    using that by (cases b) (simp_all add: jset_def)
  show "is_jobj (Some (redact_block scrub b)) = is_jobj (Some b)"
    by (auto simp: redact_block_def redactToolResultBlock_def redact_member_def j split: option.splits)
  show "jget (redact_block scrub b) ''type'' = jget b ''type''"
    by (auto simp: redact_block_def redactToolResultBlock_def redact_member_def split: option.splits)
qed

definition content_blocks :: "json \<Rightarrow> json list" where
  "content_blocks payload =
     (case jarr (jopt (jget payload ''message'') ''content'') of None \<Rightarrow> [] | Some bs \<Rightarrow> bs)"

lemma content_redacted:
  "content_blocks (redactToolResultsFromPayload scrub payload) = map (redact_block scrub) (content_blocks payload)"
  by (auto simp: redactToolResultsFromPayload_def content_blocks_def split: option.splits)

text \<open>
  C10 (safety): no stored tool result shows a value under a secret key. After redaction, at any depth of
  the result and of the error of every tool result block, whatever a secret key named is replaced; the
  other blocks and the other members of the payload are as they were.
\<close>

theorem tool_results_concealed:
  "(\<forall>b \<in> set (content_blocks (redactToolResultsFromPayload scrub payload)).
      (jget b ''type'' = Some (JStr ''tool_result'') \<longrightarrow>
         (\<forall>k \<in> {''result'', ''error''}. case jget b k of None \<Rightarrow> True | Some v \<Rightarrow> concealed v)) \<and>
      (jget b ''type'' \<noteq> Some (JStr ''tool_result'') \<longrightarrow> b \<in> set (content_blocks payload))) \<and>
   length (content_blocks (redactToolResultsFromPayload scrub payload)) = length (content_blocks payload) \<and>
   (\<forall>k. k \<noteq> ''message'' \<longrightarrow> jget (redactToolResultsFromPayload scrub payload) k = jget payload k)"
proof (intro conjI ballI impI)
  fix b assume "b \<in> set (content_blocks (redactToolResultsFromPayload scrub payload))"
  then obtain b0 where b0: "b0 \<in> set (content_blocks payload)" "b = redact_block scrub b0"
    by (auto simp: content_redacted)
  { fix k assume t: "jget b ''type'' = Some (JStr ''tool_result'')" and k: "k \<in> {''result'', ''error''}"
    from t b0 have t0: "jget b0 ''type'' = Some (JStr ''tool_result'')" by (simp add: redact_block_type)
    then have "is_jobj (Some b0)" by (cases b0) (simp_all add: jget_def)
    with t0 b0 k show "case jget b k of None \<Rightarrow> True | Some v \<Rightarrow> concealed v"
      using redacted_block_member [of k b0 scrub] by (auto split: option.splits) }
  assume "jget b ''type'' \<noteq> Some (JStr ''tool_result'')"
  then show "b \<in> set (content_blocks payload)" using b0 by (simp add: redact_block_type) (simp add: redact_block_def)
next
  show "length (content_blocks (redactToolResultsFromPayload scrub payload)) = length (content_blocks payload)"
    by (simp add: content_redacted)
qed (auto simp: redactToolResultsFromPayload_def split: option.splits)

theorem tool_results_concealed_witness:
  "map (\<lambda>b. jget b ''result'')
     (content_blocks (redactToolResultsFromPayload (\<lambda>s. s)
       (JObj [(''message'', JObj [(''content'', JArr [JObj [(''type'', JStr ''tool_result''),
          (''result'', JObj [(''x_Token'', JStr ''hush''), (''n'', JNum 1)])]])])]))) =
   [Some (JObj [(''x_Token'', JStr ''[REDACTED]''), (''n'', JNum 1)])] \<and>
   concealed (JObj [(''x_Token'', JStr ''[REDACTED]''), (''n'', JNum 1)])"
proof -
  let ?p = "JObj [(''message'', JObj [(''content'', JArr [JObj [(''type'', JStr ''tool_result''),
          (''result'', JObj [(''x_Token'', JStr ''hush''), (''n'', JNum 1)])]])])]"
  let ?v = "JObj [(''x_Token'', JStr ''[REDACTED]''), (''n'', JNum 1)]"
  have k: "SECRET_KEY ''x_Token''" "\<not> SECRET_KEY ''n''" by code_simp+
  have c: "content_blocks (redactToolResultsFromPayload (\<lambda>s. s) ?p) =
      [JObj [(''type'', JStr ''tool_result''), (''result'', ?v)]]"
    by (simp add: content_redacted)
      (simp add: content_blocks_def jget_def redact_block_def redactToolResultBlock_def redact_member_def jset_def k REDACTED_VALUE_def)
  then show ?thesis
    using tool_results_concealed [of "\<lambda>s. s" ?p] by (simp add: c) (simp add: jget_def)
qed

end
