(* ===== verification/ListCursor.thy ===== *)
theory ListCursor
  imports Prelude
begin

text \<open>
  The opaque list cursors of the HTTP layer (\<open>server/openapi.ts\<close>): the JSON text of a row's
  creation time and identifier, in URL-safe base64 without padding. \<open>btoa\<close>, \<open>atob\<close> and the
  part of \<open>JSON\<close> that the cursors use are the platform's; they are written out here on strings of
  8-bit characters, which is what \<open>btoa\<close> accepts. A cursor whose text is not a JSON object with
  string members is outside the model's parser and rejected by it.
\<close>

section \<open>Base64\<close>

definition b64_alphabet :: string where
  "b64_alphabet = ''ABCDEFGHIJKLMNOPQRSTUVWXYZabcdefghijklmnopqrstuvwxyz0123456789+/''"

definition b64_char :: "nat \<Rightarrow> char" where
  "b64_char n = b64_alphabet ! n"

fun index_of :: "char \<Rightarrow> string \<Rightarrow> nat option" where
  "index_of c [] = None"
| "index_of c (x # xs) = (if x = c then Some 0 else map_option Suc (index_of c xs))"

definition b64_value :: "char \<Rightarrow> nat option" where
  "b64_value c = index_of c b64_alphabet"

definition byte :: "nat \<Rightarrow> char" where
  "byte n = char_of n"

fun b64_groups :: "nat list \<Rightarrow> nat list" where
  "b64_groups (a # b # c # r) =
     [a div 4, (a mod 4) * 16 + b div 16, (b mod 16) * 4 + c div 64, c mod 64] @ b64_groups r"
| "b64_groups [a, b] = [a div 4, (a mod 4) * 16 + b div 16, (b mod 16) * 4]"
| "b64_groups [a] = [a div 4, (a mod 4) * 16]"
| "b64_groups [] = []"

fun b64_bytes :: "nat list \<Rightarrow> nat list" where
  "b64_bytes (w # x # y # z # r) =
     [w * 4 + x div 16, (x mod 16) * 16 + y div 4, (y mod 4) * 64 + z] @ b64_bytes r"
| "b64_bytes [w, x, y] = [w * 4 + x div 16, (x mod 16) * 16 + y div 4]"
| "b64_bytes [w, x] = [w * 4 + x div 16]"
| "b64_bytes _ = []"

definition pad_to_4 :: "string \<Rightarrow> string" where
  "pad_to_4 s = s @ replicate ((length s + 3) div 4 * 4 - length s) (CHR ''='')"

definition btoa :: "string \<Rightarrow> string" where
  "btoa s = pad_to_4 (map b64_char (b64_groups (map of_char s)))"

text \<open>The forgiving decoder: it drops white space and at most two trailing \<open>=\<close> of a full text.\<close>

definition b64_space :: "char \<Rightarrow> bool" where
  "b64_space c \<longleftrightarrow> c \<in> {CHR '' '', CHR 0x09, CHR 0x0A, CHR 0x0C, CHR 0x0D}"

definition drop_padding :: "string \<Rightarrow> string" where
  "drop_padding s =
     (if length s mod 4 \<noteq> 0 then s
      else if take 2 (rev s) = ''=='' then butlast (butlast s)
      else if take 1 (rev s) = ''='' then butlast s
      else s)"

definition atob :: "string \<Rightarrow> string option" where
  "atob s =
     (let t = drop_padding (filter (\<lambda>c. \<not> b64_space c) s);
          vs = map b64_value t in
      if length t mod 4 = 1 \<or> None \<in> set vs then None
      else Some (map byte (b64_bytes (map the vs))))"

section \<open>JSON text of string members\<close>

definition hex_digit :: "nat \<Rightarrow> char" where
  "hex_digit n = ''0123456789abcdef'' ! n"

definition json_escape :: "char \<Rightarrow> string" where
  "json_escape c =
     (if c = CHR 0x22 then [CHR 0x5C, CHR 0x22]
      else if c = CHR 0x5C then [CHR 0x5C, CHR 0x5C]
      else if c = CHR 0x08 then [CHR 0x5C, CHR ''b'']
      else if c = CHR 0x0C then [CHR 0x5C, CHR ''f'']
      else if c = CHR 0x0A then [CHR 0x5C, CHR ''n'']
      else if c = CHR 0x0D then [CHR 0x5C, CHR ''r'']
      else if c = CHR 0x09 then [CHR 0x5C, CHR ''t'']
      else if of_char c < (32 :: nat)
      then [CHR 0x5C, CHR ''u'', CHR ''0'', CHR ''0'', hex_digit (of_char c div 16), hex_digit (of_char c mod 16)]
      else [c])"

definition json_quote :: "string \<Rightarrow> string" where
  "json_quote s = [CHR 0x22] @ concat (map json_escape s) @ [CHR 0x22]"

definition hex_value :: "char \<Rightarrow> nat option" where
  "hex_value c = (case index_of c ''0123456789abcdef'' of Some n \<Rightarrow> Some n
     | None \<Rightarrow> map_option (\<lambda>n. n + 10) (index_of c ''ABCDEF''))"

text \<open>The rest of a string literal after its opening quote: its value and what follows it.\<close>

fun json_string :: "string \<Rightarrow> (string \<times> string) option" where
  "json_string [] = None"
| "json_string (c # r) =
     (if c = CHR 0x22 then Some ([], r)
      else if of_char c < (32 :: nat) then None
      else if c \<noteq> CHR 0x5C then map_option (\<lambda>(s, t). (c # s, t)) (json_string r)
      else case r of
        [] \<Rightarrow> None
      | e # r' \<Rightarrow>
          if e = CHR ''u''
          then (case r' of
                  h1 # h2 # h3 # h4 # r'' \<Rightarrow>
                    (case (hex_value h1, hex_value h2, hex_value h3, hex_value h4) of
                       (Some 0, Some 0, Some c3, Some c4) \<Rightarrow>
                         map_option (\<lambda>(s, t). (char_of (c3 * 16 + c4) # s, t)) (json_string r'')
                     | _ \<Rightarrow> None)
                | _ \<Rightarrow> None)
          else
            (case map_of [(CHR 0x22, CHR 0x22), (CHR 0x5C, CHR 0x5C), (CHR ''/'', CHR ''/''), (CHR ''b'', CHR 0x08),
                          (CHR ''f'', CHR 0x0C), (CHR ''n'', CHR 0x0A), (CHR ''r'', CHR 0x0D), (CHR ''t'', CHR 0x09)] e of
               None \<Rightarrow> None
             | Some x \<Rightarrow> map_option (\<lambda>(s, t). (x # s, t)) (json_string r')))"

definition json_space :: "char \<Rightarrow> bool" where
  "json_space c \<longleftrightarrow> c \<in> {CHR '' '', CHR 0x09, CHR 0x0A, CHR 0x0D}"

definition skip_space :: "string \<Rightarrow> string" where
  "skip_space = dropWhile json_space"

definition expect :: "char \<Rightarrow> string \<Rightarrow> string option" where
  "expect c s = (case skip_space s of x # r \<Rightarrow> if x = c then Some r else None | [] \<Rightarrow> None)"

definition json_member :: "string \<Rightarrow> ((string \<times> string) \<times> string) option" where
  "json_member s =
     Option.bind (expect (CHR 0x22) s) (\<lambda>a. Option.bind (json_string a) (\<lambda>(k, b).
     Option.bind (expect (CHR '':'') b) (\<lambda>c. Option.bind (expect (CHR 0x22) c) (\<lambda>e.
     map_option (\<lambda>(v, f). ((k, v), f)) (json_string e)))))"

text \<open>The members of an object; the number bounds how many are read (the length of the text is enough).\<close>

fun json_members :: "nat \<Rightarrow> string \<Rightarrow> ((string \<times> string) list \<times> string) option" where
  "json_members 0 s = None"
| "json_members (Suc n) s =
     (case json_member s of
        None \<Rightarrow> None
      | Some (kv, r) \<Rightarrow>
          (case expect (CHR '','') r of
             Some r' \<Rightarrow> map_option (\<lambda>(kvs, t). (kv # kvs, t)) (json_members n r')
           | None \<Rightarrow> map_option (\<lambda>t. ([kv], t)) (expect (CHR ''}'') r)))"

definition json_object :: "string \<Rightarrow> (string \<times> string) list option" where
  "json_object s =
     Option.bind (expect (CHR ''{'') s) (\<lambda>a.
       case expect (CHR ''}'') a of
         Some r \<Rightarrow> if skip_space r = [] then Some [] else None
       | None \<Rightarrow>
           (case json_members (length a) a of
              Some (kvs, r) \<Rightarrow> if skip_space r = [] then Some kvs else None
            | None \<Rightarrow> None))"

section \<open>The cursor\<close>

record list_cursor =
  lc_created :: string
  lc_id :: string

definition replace_all :: "char \<Rightarrow> char \<Rightarrow> string \<Rightarrow> string" where
  "replace_all a b = map (\<lambda>c. if c = a then b else c)"

definition cursor_json :: "list_cursor \<Rightarrow> string" where
  "cursor_json row =
     [CHR ''{''] @ json_quote ''createdAt'' @ [CHR '':''] @ json_quote (lc_created row) @ [CHR '','']
       @ json_quote ''id'' @ [CHR '':''] @ json_quote (lc_id row) @ [CHR ''}'']"

definition formatListCursor :: "list_cursor \<Rightarrow> string" where
  "formatListCursor row =
     filter (\<lambda>c. c \<noteq> CHR ''='')
       (replace_all (CHR ''/'') (CHR ''_'') (replace_all (CHR ''+'') (CHR ''-'') (btoa (cursor_json row))))"

text \<open>Later members of an object win; an absent or empty member is an invalid cursor.\<close>

definition last_member :: "string \<Rightarrow> (string \<times> string) list \<Rightarrow> string option" where
  "last_member k kvs = map_of (rev kvs) k"

definition parseListCursor :: "string \<Rightarrow> list_cursor option" where
  "parseListCursor cursor =
     Option.bind (atob (pad_to_4 (replace_all (CHR ''_'') (CHR ''/'') (replace_all (CHR ''-'') (CHR ''+'') cursor))))
       (\<lambda>t. Option.bind (json_object t)
         (\<lambda>kvs. case (last_member ''createdAt'' kvs, last_member ''id'' kvs) of
            (Some (c # cs), Some (i # is)) \<Rightarrow> Some \<lparr>lc_created = c # cs, lc_id = i # is\<rparr>
          | _ \<Rightarrow> None))"

section \<open>Round trip\<close>

lemma groups_small: "list_all (\<lambda>x. x < 256) bs \<Longrightarrow> list_all (\<lambda>x. x < 64) (b64_groups bs)"
proof (induction bs rule: b64_groups.induct)
  case (1 a b c r)
  then have "a div 4 < 64" "b div 16 < 16" "c div 64 < 4" by (auto intro: less_mult_imp_div_less)
  moreover have "a mod 4 < 4" "b mod 16 < 16" by simp_all
  ultimately have "a mod 4 * 16 + b div 16 < 64" "b mod 16 * 4 + c div 64 < 64" by linarith+
  with 1 \<open>a div 4 < 64\<close> show ?case by simp
next
  case (2 a b)
  then have "a div 4 < 64" "b div 16 < 16" by (auto intro: less_mult_imp_div_less)
  moreover have "a mod 4 < 4" "b mod 16 < 16" by simp_all
  ultimately have "a mod 4 * 16 + b div 16 < 64" "b mod 16 * 4 < 64" by linarith+
  with \<open>a div 4 < 64\<close> show ?case by simp
next
  case (3 a)
  then have "a div 4 < 64" by (auto intro: less_mult_imp_div_less)
  moreover have "a mod 4 < 4" by simp
  then have "a mod 4 * 16 < 64" by linarith
  ultimately show ?case by simp
qed simp

lemma groups_length: "length (b64_groups bs) mod 4 \<noteq> 1"
  by (induction bs rule: b64_groups.induct) simp_all

lemma bytes_groups: "list_all (\<lambda>x. x < 256) bs \<Longrightarrow> b64_bytes (b64_groups bs) = bs"
proof (induction bs rule: b64_groups.induct)
  case (1 a b c r)
  have "b div 16 < 16" "c div 64 < 4" using 1(2) by (auto intro: less_mult_imp_div_less)
  then have "a div 4 * 4 + ((a mod 4) * 16 + b div 16) div 16 = a" "((a mod 4) * 16 + b div 16) mod 16 = b div 16"
    "((b mod 16) * 4 + c div 64) div 4 = b mod 16" "((b mod 16) * 4 + c div 64) mod 4 = c div 64"
    by simp_all
  with 1 show ?case by simp
next
  case (2 a b)
  have "b div 16 < 16" using 2 by (auto intro: less_mult_imp_div_less)
  then have "a div 4 * 4 + ((a mod 4) * 16 + b div 16) div 16 = a" "((a mod 4) * 16 + b div 16) mod 16 = b div 16"
    by simp_all
  then show ?case by simp
qed simp_all

lemma value_char: "n < 64 \<Longrightarrow> b64_value (b64_char n) = Some n"
proof -
  have "list_all (\<lambda>n. b64_value (b64_char n) = Some n) [0..<64]" by code_simp
  then show "n < 64 \<Longrightarrow> b64_value (b64_char n) = Some n" by (simp add: list_all_iff)
qed

definition url_char :: "char \<Rightarrow> char" where
  "url_char c = (if c = CHR ''+'' then CHR ''-'' else if c = CHR ''/'' then CHR ''_'' else c)"

definition plain_char :: "char \<Rightarrow> char" where
  "plain_char c = (if c = CHR ''-'' then CHR ''+'' else if c = CHR ''_'' then CHR ''/'' else c)"

lemma alphabet_chars:
  "n < 64 \<Longrightarrow> plain_char (url_char (b64_char n)) = b64_char n \<and> url_char (b64_char n) \<noteq> CHR ''='' \<and>
     b64_char n \<noteq> CHR ''='' \<and> \<not> b64_space (b64_char n)"
proof -
  have "list_all (\<lambda>n. plain_char (url_char (b64_char n)) = b64_char n \<and> url_char (b64_char n) \<noteq> CHR ''='' \<and>
     b64_char n \<noteq> CHR ''='' \<and> \<not> b64_space (b64_char n)) [0..<64]" by code_simp
  then show "n < 64 \<Longrightarrow> ?thesis" by (simp add: list_all_iff)
qed

lemma replace_url: "replace_all (CHR ''/'') (CHR ''_'') (replace_all (CHR ''+'') (CHR ''-'') s) = map url_char s"
  by (simp add: replace_all_def url_char_def)

lemma replace_plain: "replace_all (CHR ''_'') (CHR ''/'') (replace_all (CHR ''-'') (CHR ''+'') s) = map plain_char s"
  by (simp add: replace_all_def plain_char_def)

lemma alphabet_text:
  assumes "list_all (\<lambda>x. x < 64) gs" "c \<in> set (map b64_char gs)"
  shows "plain_char (url_char c) = c" "url_char c \<noteq> CHR ''=''" "c \<noteq> CHR ''=''" "\<not> b64_space c"
  using assms alphabet_chars by (auto simp: list_all_iff)

text \<open>Padding is dropped again when the text has no \<open>=\<close> of its own and is not one character too long.\<close>

lemma drop_pad:
  assumes "CHR ''='' \<notin> set t" "length t mod 4 \<noteq> 1"
  shows "drop_padding (pad_to_4 t) = t"
proof -
  have no: "take 1 (rev t) \<noteq> ''=''" "take 2 (rev t) \<noteq> ''==''"
    using assms(1) by (cases "rev t"; force simp: take_Cons' dest: arg_cong [of _ _ set])+
  consider "length t mod 4 = 0" | "length t mod 4 = 2" | "length t mod 4 = 3"
    using assms(2) mod_less_divisor [of 4 "length t"] by linarith
  then show ?thesis
  proof cases
    case 1
    then have "(length t + 3) div 4 * 4 = length t" by presburger
    with 1 no show ?thesis by (simp add: pad_to_4_def drop_padding_def)
  next
    case 2
    then have "(length t + 3) div 4 * 4 - length t = 2" and "(length t + 2) mod 4 = 0" by presburger+
    then show ?thesis by (simp add: pad_to_4_def drop_padding_def numeral_2_eq_2 butlast_append)
  next
    case 3
    then have n: "(length t + 3) div 4 * 4 - length t = 1" and "(length t + 1) mod 4 = 0" by presburger+
    moreover have "take 2 (rev (t @ ''='')) \<noteq> ''==''"
      using no(1) by (cases "rev t") simp_all
    ultimately show ?thesis by (simp add: pad_to_4_def drop_padding_def)
  qed
qed

lemma atob_groups:
  assumes "list_all (\<lambda>x. x < 64) gs" "length gs mod 4 \<noteq> 1"
  shows "atob (pad_to_4 (map b64_char gs)) = Some (map byte (b64_bytes gs))"
proof -
  have sp: "filter (\<lambda>c. \<not> b64_space c) (pad_to_4 (map b64_char gs)) = pad_to_4 (map b64_char gs)"
    using alphabet_text(4) [OF assms(1)] unfolding filter_id_conv pad_to_4_def by (auto simp: b64_space_def)
  have d: "drop_padding (pad_to_4 (map b64_char gs)) = map b64_char gs"
    using alphabet_text(3) [OF assms(1), of "CHR ''=''"] assms(2) by (intro drop_pad) auto
  have v: "map b64_value (map b64_char gs) = map Some gs"
    using assms(1) value_char by (auto simp: list_all_iff)
  have m: "map the (map Some gs) = gs" by (induction gs) simp_all
  show ?thesis using assms(2) unfolding atob_def Let_def sp d v m by auto
qed

lemma byte_of_char: "map byte (map of_char s) = s"
  by (induction s) (simp_all add: byte_def)

lemma url_round_trip:
  "atob (pad_to_4 (map plain_char (filter (\<lambda>c. c \<noteq> CHR ''='') (map url_char (btoa s))))) = Some s"
proof -
  let ?gs = "b64_groups (map of_char s)"
  have small: "list_all (\<lambda>x. x < 256) (map (of_char :: char \<Rightarrow> nat) s)" by (simp add: list_all_iff)
  have gs: "list_all (\<lambda>x. x < 64) ?gs" by (rule groups_small [OF small])
  have "filter (\<lambda>c. c \<noteq> CHR ''='') (map url_char (map b64_char ?gs)) = map url_char (map b64_char ?gs)"
    using alphabet_text(2) [OF gs] unfolding filter_id_conv by auto
  then have "filter (\<lambda>c. c \<noteq> CHR ''='') (map url_char (btoa s)) = map url_char (map b64_char ?gs)"
    by (simp add: btoa_def pad_to_4_def url_char_def [of "CHR ''=''"])
  also have "map plain_char (map url_char (map b64_char ?gs)) = map b64_char ?gs"
    using alphabet_text(1) [OF gs] by simp
  finally show ?thesis using atob_groups [OF gs groups_length] bytes_groups [OF small] byte_of_char [of s] by simp
qed

lemma hex_round: "n < 16 \<Longrightarrow> hex_value (hex_digit n) = Some n"
proof -
  have "list_all (\<lambda>n. hex_value (hex_digit n) = Some n) [0..<16]" by code_simp
  then show "n < 16 \<Longrightarrow> ?thesis" by (simp add: list_all_iff)
qed

lemma json_string_escape:
  "json_string (json_escape c @ r) = map_option (\<lambda>(s, t). (c # s, t)) (json_string r)"
proof (cases "c \<in> {CHR 0x22, CHR 0x5C, CHR 0x08, CHR 0x0C, CHR 0x0A, CHR 0x0D, CHR 0x09}")
  case True
  then show ?thesis by (auto simp: json_escape_def)
next
  case False
  show ?thesis
  proof (cases "of_char c < (32 :: nat)")
    case True
    have "hex_value (CHR ''0'') = Some 0" by code_simp
    moreover have "hex_value (hex_digit (of_char c div 16)) = Some (of_char c div 16)"
      "hex_value (hex_digit (of_char c mod 16)) = Some (of_char c mod 16)"
      using True by (auto intro: hex_round)
    ultimately show ?thesis using True False by (simp add: json_escape_def)
  next
    case small: False
    then show ?thesis using False by (simp add: json_escape_def)
  qed
qed

lemma json_string_round: "json_string (concat (map json_escape s) @ CHR 0x22 # r) = Some (s, r)"
  by (induction s) (simp_all add: json_string_escape)

lemma expect_char: "\<not> json_space c \<Longrightarrow> expect c (c # r) = Some r"
  by (simp add: expect_def skip_space_def)

lemma expect_other: "\<not> json_space x \<Longrightarrow> x \<noteq> c \<Longrightarrow> expect c (x # r) = None"
  by (simp add: expect_def skip_space_def)

lemma json_member_round:
  "json_member (json_quote k @ CHR '':'' # json_quote v @ r) = Some ((k, v), r)"
  by (simp add: json_member_def json_quote_def expect_char json_space_def json_string_round)

lemma quote_length: "\<exists>n. length (json_quote k @ r) = Suc (Suc n)"
  by (simp add: json_quote_def)

lemma cursor_json_round:
  "json_object (cursor_json row) = Some [(''createdAt'', lc_created row), (''id'', lc_id row)]"
proof -
  let ?b = "json_quote ''id'' @ CHR '':'' # json_quote (lc_id row) @ ''}''"
  let ?a = "json_quote ''createdAt'' @ CHR '':'' # json_quote (lc_created row) @ CHR '','' # ?b"
  have "\<exists>n. length ?a = Suc (Suc n)" by (rule quote_length)
  then obtain n where n: "length ?a = Suc (Suc n)" ..
  have last: "json_member ?b = Some ((''id'', lc_id row), ''}'')" by (rule json_member_round)
  have first: "json_member ?a = Some ((''createdAt'', lc_created row), CHR '','' # ?b)" by (rule json_member_round)
  have e: "expect (CHR '','') (CHR '','' # ?b) = Some ?b" "expect (CHR '','') ''}'' = None" "expect (CHR ''}'') ''}'' = Some []"
    by (simp_all add: expect_char expect_other json_space_def)
  have "json_members (Suc (Suc n)) ?a = Some ([(''createdAt'', lc_created row), (''id'', lc_id row)], [])"
    unfolding json_members.simps(2) first option.case prod.case e unfolding json_members.simps(2) last option.case prod.case e
    by simp
  moreover have "expect (CHR ''}'') ?a = None"
    by (simp add: json_quote_def expect_other json_space_def)
  moreover have "expect (CHR ''{'') (cursor_json row) = Some ?a"
    by (simp add: cursor_json_def expect_char json_space_def)
  ultimately show ?thesis using n by (simp add: json_object_def skip_space_def)
qed

text \<open>
  A page's cursor comes back as the row it was made of, whatever characters its
  identifier and time stamp have, as long as neither is empty.
\<close>

theorem list_cursor_round_trip:
  assumes "lc_created row \<noteq> []" "lc_id row \<noteq> []"
  shows "parseListCursor (formatListCursor row) = Some row"
proof -
  obtain c cs i j where r: "lc_created row = c # cs" "lc_id row = i # j"
    using assms by (auto simp: neq_Nil_conv)
  have "last_member ''createdAt'' [(''createdAt'', lc_created row), (''id'', lc_id row)] = Some (c # cs)"
    "last_member ''id'' [(''createdAt'', lc_created row), (''id'', lc_id row)] = Some (i # j)"
    using r by (simp_all add: last_member_def)
  then show ?thesis
    using r by (simp add: parseListCursor_def formatListCursor_def replace_url replace_plain url_round_trip cursor_json_round)
qed

theorem list_cursor_round_trip_witness:
  "parseListCursor (formatListCursor \<lparr>lc_created = ''2026-01-01T00:00:00.000Z'', lc_id = ''w1''\<rparr>) =
     Some \<lparr>lc_created = ''2026-01-01T00:00:00.000Z'', lc_id = ''w1''\<rparr>"
  by (rule list_cursor_round_trip) simp_all

end
