(* ===== verification/ListPaging.thy ===== *)
theory ListPaging
  imports LeaseRepo ListCursor
begin

text \<open>
  Keyset paging, as the repositories do it: a page is the first rows of the filtered table after
  the cursor, one row more than the limit is fetched to know whether there is more, and the
  next cursor is the key of the last row of the page. The interface \<open>page_reader\<close> states the law of
  one page; reading on until the reader says that there is no more then gives every row once and
  in order. The readers are the lists of leases (\<open>server/adapters/repos/leases.ts\<close>) and of work
  items (\<open>server/adapters/repos/work-items.ts\<close>); the event stores interpret it in \<open>SessionEvents\<close>.
\<close>

section \<open>Reading page after page\<close>

text \<open>
  A client's loop: it stops at the first page without more. The number bounds the requests; \<open>None\<close> is
  a client that was still told that there is more.
\<close>

fun read_pages :: "('r \<Rightarrow> 'k) \<Rightarrow> ('k option \<Rightarrow> 'r list \<times> bool) \<Rightarrow> nat \<Rightarrow> 'k option \<Rightarrow> 'r list option" where
  "read_pages key page 0 c = None"
| "read_pages key page (Suc fuel) c =
     (case page c of (rows, hasMore) \<Rightarrow>
        if hasMore \<and> rows \<noteq> [] then map_option ((@) rows) (read_pages key page fuel (Some (key (last rows))))
        else Some rows)"

lemma sorted_wrt_unique:
  assumes asym: "\<And>x y. R x y \<Longrightarrow> \<not> R y x"
    and "sorted_wrt R xs" "sorted_wrt R ys" "set xs = set ys"
  shows "xs = ys"
  using assms(2-)
proof (induction xs arbitrary: ys)
  case Nil
  then show ?case by simp
next
  case (Cons x xs)
  then obtain y ys' where ys: "ys = y # ys'" by (cases ys) auto
  have irr: "\<not> R z z" for z using asym by blast
  have "x = y"
  proof (rule ccontr)
    assume "x \<noteq> y"
    then have "R x y" "R y x" using Cons.prems ys by auto
    then show False using asym by blast
  qed
  moreover have "set xs = set ys'"
    using Cons.prems irr unfolding ys \<open>x = y\<close> by (auto simp: set_eq_iff) metis+
  ultimately show ?case using Cons ys by simp
qed

locale page_reader =
  fixes key :: "'r \<Rightarrow> 'k"
    and after :: "'k \<Rightarrow> 'k \<Rightarrow> bool"
    and page :: "nat \<Rightarrow> 'k option \<Rightarrow> 'r list \<times> bool"
    and wanted :: "'r set"
    and keyed :: bool
  assumes after_trans: "after a b \<Longrightarrow> after b c \<Longrightarrow> after a c"
    and after_asym: "after a b \<Longrightarrow> \<not> after b a"
    and page_law: "keyed \<Longrightarrow> \<exists>xs. set xs = {r \<in> wanted. case cur of None \<Rightarrow> True | Some k \<Rightarrow> after k (key r)} \<and>
      sorted_wrt (\<lambda>x y. after (key x) (key y)) xs \<and> page n cur = (take n xs, n < length xs)"
begin

lemma read_rest:
  assumes "0 < n" keyed "sorted_wrt (\<lambda>x y. after (key x) (key y)) xs" "length xs < fuel"
    and "set xs = {r \<in> wanted. case cur of None \<Rightarrow> True | Some k \<Rightarrow> after k (key r)}"
  shows "read_pages key (page n) fuel cur = Some xs"
  using assms(3-)
proof (induction fuel arbitrary: xs cur)
  case 0
  then show ?case by simp
next
  case (Suc fuel)
  obtain ys where y: "set ys = {r \<in> wanted. case cur of None \<Rightarrow> True | Some k \<Rightarrow> after k (key r)}"
    "sorted_wrt (\<lambda>x y. after (key x) (key y)) ys" and p: "page n cur = (take n ys, n < length ys)"
    using page_law [OF assms(2)] by blast
  have ys: "ys = xs"
    by (rule sorted_wrt_unique [OF _ y(2) Suc.prems(1)]) (simp_all add: after_asym y(1) Suc.prems(3))
  show ?case
  proof (cases "n < length xs")
    case False
    then show ?thesis using p ys by simp
  next
    case True
    let ?l = "last (take n xs)"
    have tk: "take n xs \<noteq> []" using True assms(1) by auto
    have split: "sorted_wrt (\<lambda>x y. after (key x) (key y)) (take n xs @ drop n xs)" using Suc.prems(1) by simp
    have all: "\<And>a b. a \<in> set (take n xs) \<Longrightarrow> b \<in> set (drop n xs) \<Longrightarrow> after (key a) (key b)"
      using split unfolding sorted_wrt_append by blast
    have le: "\<And>a. a \<in> set (take n xs) \<Longrightarrow> a = ?l \<or> after (key a) (key ?l)"
    proof -
      fix a assume a: "a \<in> set (take n xs)"
      have e: "butlast (take n xs) @ [?l] = take n xs" by (rule append_butlast_last_id [OF tk])
      have "sorted_wrt (\<lambda>x y. after (key x) (key y)) (butlast (take n xs) @ [?l])"
        unfolding e using split unfolding sorted_wrt_append by blast
      moreover have "a \<in> set (butlast (take n xs) @ [?l])" unfolding e by (rule a)
      ultimately show "a = ?l \<or> after (key a) (key ?l)" unfolding sorted_wrt_append by auto
    qed
    have "set (drop n xs) = {r \<in> wanted. after (key ?l) (key r)}"
    proof (intro set_eqI iffI)
      fix r assume "r \<in> set (drop n xs)"
      then show "r \<in> {r \<in> wanted. after (key ?l) (key r)}"
        using all [OF last_in_set [OF tk]] Suc.prems(3) set_drop_subset [of n xs] by blast
    next
      fix r assume r: "r \<in> {r \<in> wanted. after (key ?l) (key r)}"
      have l: "?l \<in> set xs" using last_in_set [OF tk] set_take_subset [of n xs] by blast
      have "r \<in> set xs"
        using r l after_trans unfolding Suc.prems(3) by (cases cur) auto
      moreover have "r \<notin> set (take n xs)" using le r after_asym by blast
      ultimately show "r \<in> set (drop n xs)" by (metis Un_iff append_take_drop_id set_append)
    qed
    then have "read_pages key (page n) fuel (Some (key ?l)) = Some (drop n xs)"
      using Suc.prems split assms(1) True by (intro Suc.IH) (auto simp: sorted_wrt_append)
    then show ?thesis using p ys True tk by simp
  qed
qed

lemma read_all:
  assumes "0 < n" keyed "finite wanted" "card wanted < fuel"
  obtains xs where "read_pages key (page n) fuel None = Some xs" "set xs = wanted"
    "sorted_wrt (\<lambda>x y. after (key x) (key y)) xs" "distinct xs"
proof -
  obtain xs where xs: "set xs = wanted" "sorted_wrt (\<lambda>x y. after (key x) (key y)) xs"
    using page_law [of None n] assms(2) by auto
  have "distinct xs" using xs(2) after_asym by (induction xs) auto
  then have "length xs < fuel" using assms(4) xs(1) by (metis distinct_card)
  then have "read_pages key (page n) fuel None = Some xs"
    using xs assms(1,2) by (intro read_rest) simp_all
  then show thesis using that xs \<open>distinct xs\<close> by blast
qed

end

section \<open>Newest first\<close>

text \<open>\<open>ORDER BY created_at DESC, id DESC LIMIT n + 1\<close> of the rows before a cursor.\<close>

definition before_key :: "time \<times> id \<Rightarrow> time \<times> id \<Rightarrow> bool" where
  "before_key c k \<longleftrightarrow> fst k < fst c \<or> (fst k = fst c \<and> snd k < snd c)"

definition newest_first :: "('r \<Rightarrow> time \<times> id) \<Rightarrow> 'r list \<Rightarrow> 'r list" where
  "newest_first key rows = rev (sort_key key rows)"

definition keyset_page ::
    "('r \<Rightarrow> time \<times> id) \<Rightarrow> ('r \<Rightarrow> bool) \<Rightarrow> 'r list \<Rightarrow> nat \<Rightarrow> (time \<times> id) option \<Rightarrow> 'r list \<times> bool" where
  "keyset_page key P rows limit cursor =
     (let fetched = take (limit + 1) (newest_first key
            (filter (\<lambda>r. P r \<and> (case cursor of None \<Rightarrow> True | Some c \<Rightarrow> before_key c (key r))) rows)) in
      (take limit fetched, limit < length fetched))"

lemma before_key_less: "before_key c k \<longleftrightarrow> k < c"
  by (cases c; cases k) (auto simp: before_key_def less_prod_def)

lemma before_trans: "before_key a b \<Longrightarrow> before_key b c \<Longrightarrow> before_key a c"
  by (auto simp: before_key_less)

lemma before_asym: "before_key a b \<Longrightarrow> \<not> before_key b a"
  by (auto simp: before_key_less)

lemma newest_first_set [simp]: "set (newest_first key rows) = set rows"
  by (simp add: newest_first_def)

lemma newest_first_sorted:
  assumes "distinct (map key rows)"
  shows "sorted_wrt (\<lambda>x y. before_key (key x) (key y)) (newest_first key rows)"
proof -
  have "sorted (map key (sort_key key rows))" "distinct (map key (sort_key key rows))"
    using assms by (simp_all add: distinct_map)
  then have "sorted_wrt (<) (map key (sort_key key rows))" by (simp add: strict_sorted_iff)
  then show ?thesis by (simp add: newest_first_def sorted_wrt_rev sorted_wrt_map before_key_less)
qed

lemma keyset_page_law:
  assumes "distinct (map key rows)"
  shows "\<exists>xs. set xs = {r \<in> {r \<in> set rows. P r}. case cur of None \<Rightarrow> True | Some k \<Rightarrow> before_key k (key r)} \<and>
    sorted_wrt (\<lambda>x y. before_key (key x) (key y)) xs \<and> keyset_page key P rows n cur = (take n xs, n < length xs)"
proof (intro exI conjI)
  let ?rs = "filter (\<lambda>r. P r \<and> (case cur of None \<Rightarrow> True | Some c \<Rightarrow> before_key c (key r))) rows"
  let ?xs = "newest_first key ?rs"
  show "set ?xs = {r \<in> {r \<in> set rows. P r}. case cur of None \<Rightarrow> True | Some k \<Rightarrow> before_key k (key r)}" by auto
  show "sorted_wrt (\<lambda>x y. before_key (key x) (key y)) ?xs"
    by (rule newest_first_sorted) (use assms in \<open>simp add: distinct_map_filter\<close>)
  show "keyset_page key P rows n cur = (take n ?xs, n < length ?xs)"
    by (auto simp: keyset_page_def Let_def)
qed

section \<open>Lists of leases\<close>

record lease_query =
  lq_project :: id
  lq_runner :: "id option"
  lq_state :: "lease_state option"

definition lease_wanted :: "lease_query \<Rightarrow> lease_row \<Rightarrow> bool" where
  "lease_wanted query l \<longleftrightarrow>
     le_project l = lq_project query \<and>
     (\<not> truthy_str (lq_runner query) \<or> Some (le_runner l) = lq_runner query) \<and>
     (lq_state query = None \<or> lq_state query = Some (le_state l))"

definition lease_key :: "lease_row \<Rightarrow> time \<times> id" where
  "lease_key l = (le_created l, le_id l)"

definition lease_list :: "lease_query \<Rightarrow> nat \<Rightarrow> (time \<times> id) option \<Rightarrow> db \<Rightarrow> lease_row list \<times> bool" where
  "lease_list query limit cursor d = keyset_page lease_key (lease_wanted query) (leases d) limit cursor"

section \<open>Lists of work items\<close>

text \<open>\<open>LIKE\<close> of SQLite: \<open>%\<close> stands for any text, \<open>_\<close> for one character, ASCII letters match both cases.\<close>

definition like_lower :: "char \<Rightarrow> char" where
  "like_lower c = (if (65 :: nat) \<le> of_char c \<and> of_char c \<le> (90 :: nat) then char_of (of_char c + (32 :: nat)) else c)"

fun sql_like :: "string \<Rightarrow> string \<Rightarrow> bool" where
  "sql_like [] t \<longleftrightarrow> t = []"
| "sql_like (p # ps) [] \<longleftrightarrow> p = CHR ''%'' \<and> sql_like ps []"
| "sql_like (p # ps) (c # t) \<longleftrightarrow>
     (if p = CHR ''%'' then sql_like ps (c # t) \<or> sql_like (p # ps) t
      else (p = CHR ''_'' \<or> like_lower p = like_lower c) \<and> sql_like ps t)"

record work_query =
  wq_project :: id
  wq_state :: "work_state option"
  wq_session :: "id option"
  wq_runner :: "id option"
  wq_search :: "string option"
  wq_from :: "time option"
  wq_to :: "time option"

definition work_wanted :: "work_query \<Rightarrow> work_item_row \<Rightarrow> bool" where
  "work_wanted query w \<longleftrightarrow>
     wi_project w = wq_project query \<and>
     (wq_state query = None \<or> wq_state query = Some (wi_state w)) \<and>
     (\<not> truthy_str (wq_session query) \<or> wi_session w = wq_session query) \<and>
     (\<not> truthy_str (wq_runner query) \<or> wi_runner w = wq_runner query) \<and>
     (\<not> truthy_str (wq_search query) \<or> sql_like (''%'' @ the (wq_search query) @ ''%'') (wi_type w)) \<and>
     (case wq_from query of None \<Rightarrow> True | Some t \<Rightarrow> t \<le> wi_created w) \<and>
     (case wq_to query of None \<Rightarrow> True | Some t \<Rightarrow> wi_created w \<le> t)"

definition work_key :: "work_item_row \<Rightarrow> time \<times> id" where
  "work_key w = (wi_created w, wi_id w)"

definition work_item_list ::
    "work_query \<Rightarrow> nat \<Rightarrow> (time \<times> id) option \<Rightarrow> db \<Rightarrow> work_item_row list \<times> bool" where
  "work_item_list query limit cursor d = keyset_page work_key (work_wanted query) (work_items d) limit cursor"

text \<open>
  The newest work item of each of the given sessions: the rows are fetched for 90 sessions at a
  time, and the first row of a session in the concatenated result is kept.
\<close>

fun session_batches :: "nat \<Rightarrow> id \<Rightarrow> id list \<Rightarrow> db \<Rightarrow> work_item_row list" where
  "session_batches 0 projectId sessionIds d = []"
| "session_batches (Suc fuel) projectId sessionIds d =
     (if sessionIds = [] then []
      else newest_first work_key
             (filter (\<lambda>w. wi_project w = projectId \<and> (\<exists>s \<in> set (take 90 sessionIds). wi_session w = Some s)) (work_items d))
           @ session_batches fuel projectId (drop 90 sessionIds) d)"

fun first_per_session :: "id list \<Rightarrow> work_item_row list \<Rightarrow> work_item_row list" where
  "first_per_session seen [] = []"
| "first_per_session seen (w # ws) =
     (case wi_session w of
        None \<Rightarrow> first_per_session seen ws
      | Some s \<Rightarrow> if s = [] \<or> s \<in> set seen then first_per_session seen ws
                  else w # first_per_session (s # seen) ws)"

definition findLatestBySessions :: "id \<Rightarrow> id list \<Rightarrow> db \<Rightarrow> work_item_row list" where
  "findLatestBySessions projectId sessionIds d =
     first_per_session [] (session_batches (length sessionIds) projectId sessionIds d)"

definition activeLeaseRunnerId :: "id \<Rightarrow> id \<Rightarrow> time \<Rightarrow> db \<Rightarrow> id option" where
  "activeLeaseRunnerId projectId workItemId now d =
     (case findWorkItemRow projectId workItemId d of
        None \<Rightarrow> None
      | Some w \<Rightarrow>
          if wi_state w \<noteq> W_leased \<or> \<not> truthy_str (wi_runner w) \<or> \<not> truthy_str (wi_lease w) then None
          else (case findLeaseRow projectId (the (wi_lease w)) d of
                  None \<Rightarrow> None
                | Some l \<Rightarrow> if le_state l = L_active \<and> \<not> le_expires l \<le> now then wi_runner w else None))"

section \<open>The lists are complete\<close>

lemma id_keys: "distinct (map i rows) \<Longrightarrow> distinct (map (\<lambda>r. (t r, i r)) rows)"
  by (auto simp: distinct_map inj_on_def)

lemma work_keys: "keys_ok d \<Longrightarrow> distinct (map work_key (work_items d))"
  unfolding work_key_def by (rule id_keys) (simp add: keys_ok_def)

lemma lease_keys: "keys_ok d \<Longrightarrow> distinct (map lease_key (leases d))"
  unfolding lease_key_def by (rule id_keys) (simp add: keys_ok_def)

interpretation work_pages: page_reader work_key before_key "\<lambda>n c. work_item_list q n c d"
    "{w \<in> set (work_items d). work_wanted q w}" "keys_ok d" for q d
  unfolding work_item_list_def
  by unfold_locales (erule (1) before_trans, erule before_asym, rule keyset_page_law, erule work_keys)

interpretation lease_pages: page_reader lease_key before_key "\<lambda>n c. lease_list q n c d"
    "{l \<in> set (leases d). lease_wanted q l}" "keys_ok d" for q d
  unfolding lease_list_def
  by unfold_locales (erule (1) before_trans, erule before_asym, rule keyset_page_law, erule lease_keys)

text \<open>
  A client that follows the cursors of the work item list, whatever page size it asks
  for, is told after finitely many pages that there is no more, and has then read every
  matching work item exactly once, newest first.
\<close>

theorem work_items_read_once:
  assumes "keys_ok d" "0 < n" "length (work_items d) < fuel"
  shows "\<exists>ws. read_pages work_key (\<lambda>c. work_item_list q n c d) fuel None = Some ws \<and> distinct ws \<and>
    set ws = {w \<in> set (work_items d). work_wanted q w} \<and> sorted_wrt (\<lambda>x y. before_key (work_key x) (work_key y)) ws"
proof -
  have "card {w \<in> set (work_items d). work_wanted q w} \<le> card (set (work_items d))" by (rule card_mono) auto
  also have "\<dots> \<le> length (work_items d)" by (rule card_length)
  finally have "card {w \<in> set (work_items d). work_wanted q w} < fuel" using assms(3) by simp
  with assms obtain xs where "read_pages work_key (\<lambda>c. work_item_list q n c d) fuel None = Some xs"
    "set xs = {w \<in> set (work_items d). work_wanted q w}"
    "sorted_wrt (\<lambda>x y. before_key (work_key x) (work_key y)) xs" "distinct xs"
    by (rule_tac work_pages.read_all [of n d q fuel]) auto
  then show ?thesis by blast
qed

definition demo_items :: db where
  "demo_items = \<lparr>sessions = [], work_items = map (\<lambda>n. \<lparr>wi_id = [n], wi_organization = ''o'', wi_project = ''p'',
     wi_session = Some ''s'', wi_environment = None, wi_runner = None, wi_lease = None, wi_type = ''t'',
     wi_state = W_available, wi_priority = 0, wi_attempts = 0, wi_max_attempts = 3, wi_payload = JObj [],
     wi_result = None, wi_error = None, wi_available_at = 0, wi_created = 0, wi_updated = 0\<rparr>) ''abc'',
     leases = [], runners = [], channels = [], events = [], memory_stores = [], memories = [], environments = [],
     creations = [], approvals = []\<rparr>"

definition demo_query :: work_query where
  "demo_query = \<lparr>wq_project = ''p'', wq_state = None, wq_session = None, wq_runner = None, wq_search = None,
     wq_from = None, wq_to = None\<rparr>"

theorem work_items_read_once_witness:
  "\<exists>ws. read_pages work_key (\<lambda>c. work_item_list demo_query 2 c demo_items) 4 None = Some ws \<and>
     set ws = {w \<in> set (work_items demo_items). work_wanted demo_query w}"
proof -
  have "keys_ok demo_items" by (simp add: keys_ok_def demo_items_def)
  from work_items_read_once [OF this, of 2 4 demo_query] show ?thesis by (auto simp: demo_items_def)
qed

section \<open>The latest work item of each session\<close>

definition session_items :: "id \<Rightarrow> id \<Rightarrow> db \<Rightarrow> work_item_row list" where
  "session_items projectId s d =
     newest_first work_key (filter (\<lambda>w. wi_project w = projectId \<and> wi_session w = Some s) (work_items d))"

lemma filter_newest: "filter P (newest_first key rows) = newest_first key (filter P rows)"
  by (simp add: newest_first_def filter_sort rev_filter [symmetric])

lemma first_per_session_iff:
  "w \<in> set (first_per_session seen ws) \<longleftrightarrow>
     (\<exists>s. s \<noteq> [] \<and> s \<notin> set seen \<and> (\<exists>r. filter (\<lambda>x. wi_session x = Some s) ws = w # r))"
proof (induction ws arbitrary: seen)
  case Nil
  then show ?case by simp
next
  case (Cons x ws)
  show ?case
  proof (cases "wi_session x")
    case None
    then show ?thesis using Cons by simp
  next
    case (Some s)
    show ?thesis
    proof (cases "s = [] \<or> s \<in> set seen")
      case True
      then have "w \<in> set (first_per_session seen (x # ws)) \<longleftrightarrow> w \<in> set (first_per_session seen ws)"
        using Some by auto
      moreover have "filter (\<lambda>y. wi_session y = Some t) (x # ws) = filter (\<lambda>y. wi_session y = Some t) ws"
        if "t \<noteq> []" "t \<notin> set seen" for t
        using True Some that by auto
      ultimately show ?thesis unfolding Cons [of seen] by metis
    next
      case False
      then have "w \<in> set (first_per_session seen (x # ws)) \<longleftrightarrow>
          w = x \<or> w \<in> set (first_per_session (s # seen) ws)"
        using Some by auto
      also have "\<dots> \<longleftrightarrow> (\<exists>t. t \<noteq> [] \<and> t \<notin> set seen \<and> (\<exists>r. filter (\<lambda>y. wi_session y = Some t) (x # ws) = w # r))"
        (is "?l \<longleftrightarrow> (\<exists>t. ?P t)")
      proof
        assume ?l
        then consider "w = x" | "w \<in> set (first_per_session (s # seen) ws)" by blast
        then show "\<exists>t. ?P t"
        proof cases
          case 1
          then have "?P s" using Some False by simp
          then show ?thesis by blast
        next
          case 2
          then obtain t r where "t \<noteq> []" "t \<notin> set (s # seen)" "filter (\<lambda>y. wi_session y = Some t) ws = w # r"
            using Cons [of "s # seen"] by blast
          then have "?P t" using Some by auto
          then show ?thesis by blast
        qed
      next
        assume "\<exists>t. ?P t"
        then obtain t r where t: "t \<noteq> []" "t \<notin> set seen" "filter (\<lambda>y. wi_session y = Some t) (x # ws) = w # r" by blast
        show ?l
        proof (cases "t = s")
          case True
          then show ?thesis using t Some by simp
        next
          case False
          then have "filter (\<lambda>y. wi_session y = Some t) ws = w # r" using t Some by simp
          then show ?thesis using Cons [of "s # seen"] t False by auto
        qed
      qed
      finally show ?thesis .
    qed
  qed
qed

lemma filter_batches:
  assumes "length ids \<le> 90 * fuel"
  shows "\<exists>k. filter (\<lambda>w. wi_session w = Some s) (session_batches fuel q ids d) = concat (replicate k (session_items q s d)) \<and>
    (k = 0 \<longleftrightarrow> s \<notin> set ids)"
  using assms
proof (induction fuel arbitrary: ids)
  case 0
  then show ?case by (intro exI [of _ 0]) simp
next
  case (Suc fuel)
  obtain k where k: "filter (\<lambda>w. wi_session w = Some s) (session_batches fuel q (drop 90 ids) d) =
      concat (replicate k (session_items q s d))" "k = 0 \<longleftrightarrow> s \<notin> set (drop 90 ids)"
  proof -
    have "length (drop 90 ids) \<le> 90 * fuel" using Suc.prems by simp
    from Suc.IH [OF this] that show thesis by blast
  qed
  have b: "filter (\<lambda>w. wi_session w = Some s) (newest_first work_key
      (filter (\<lambda>w. wi_project w = q \<and> (\<exists>s \<in> set (take 90 ids). wi_session w = Some s)) (work_items d))) =
      (if s \<in> set (take 90 ids) then session_items q s d else [])"
  proof (cases "s \<in> set (take 90 ids)")
    case True
    then show ?thesis by (auto simp: filter_newest session_items_def intro!: arg_cong [of _ _ "newest_first work_key"] filter_cong)
  next
    case False
    then show ?thesis by (auto simp: filter_newest filter_empty_conv newest_first_def)
  qed
  have ids: "s \<in> set ids \<longleftrightarrow> s \<in> set (take 90 ids) \<or> s \<in> set (drop 90 ids)"
    by (metis Un_iff append_take_drop_id set_append)
  show ?case
  proof (cases "s \<in> set (take 90 ids)")
    case True
    then have "ids \<noteq> []" by auto
    then show ?thesis using b k ids True by (intro exI [of _ "Suc k"]) simp
  next
    case False
    then show ?thesis using b k ids by (intro exI [of _ k]) auto
  qed
qed

text \<open>
  Asking for the latest work item of many sessions 90 at a time gives what asking for
  each session alone gives: the newest item of every named session that has one, and nothing else.
\<close>

theorem latest_by_sessions:
  "set (findLatestBySessions q ids d) =
     {hd (session_items q s d) | s. s \<in> set ids \<and> s \<noteq> [] \<and> session_items q s d \<noteq> []}"
proof -
  have len: "length ids \<le> 90 * length ids" by simp
  have "(\<exists>r. filter (\<lambda>w. wi_session w = Some s) (session_batches (length ids) q ids d) = w # r) \<longleftrightarrow>
      s \<in> set ids \<and> session_items q s d \<noteq> [] \<and> w = hd (session_items q s d)" for s w
  proof -
    obtain k where k: "filter (\<lambda>w. wi_session w = Some s) (session_batches (length ids) q ids d) =
        concat (replicate k (session_items q s d))" "k = 0 \<longleftrightarrow> s \<notin> set ids"
      using filter_batches [OF len] by blast
    then show ?thesis by (cases k; cases "session_items q s d") auto
  qed
  then show ?thesis by (auto simp: findLatestBySessions_def first_per_session_iff)
qed

end
