(* ===== verification/SessionEvents.thy ===== *)
theory SessionEvents
  imports Redaction LeaseProtocol ListPaging
begin

text \<open>
  The event history of a session. Cloud sessions keep it in the database of their Session object
  (\<open>server/worker/session-event-store-sql.ts\<close>), self-hosted sessions on the runner, whose log is paged
  by the same file, and the D1 store (\<open>server/db/session-event-store.ts\<close>, the event queries of
  \<open>server/adapters/repos/sessions.ts\<close>) holds the rest. The three answer one query contract. Time stamps
  are a type parameter: the code compares them as text and never parses them here. An absent or empty
  filter of a query is \<open>None\<close>; sequences are JavaScript numbers.
\<close>

section \<open>Events, rows and queries\<close>

definition ENBOR_SESSION_EVENT_TYPES :: "string list" where
  "ENBOR_SESSION_EVENT_TYPES =
     [''runtime.started'', ''runtime.completed'', ''turn.started'', ''turn.completed'', ''message.started'',
      ''message.updated'', ''message.completed'', ''usage.recorded'', ''permission.requested'',
      ''permission.resolved'', ''permission.denied'', ''runtime.error'']"

definition isEnborSessionEventType :: "string \<Rightarrow> bool" where
  "isEnborSessionEventType v \<longleftrightarrow> v \<in> set ENBOR_SESSION_EVENT_TYPES"

record enbor_event =
  ee_type :: string
  ee_payload :: json

definition normalizeEnborEvent :: "enbor_event \<Rightarrow> enbor_event" where
  "normalizeEnborEvent event = \<lparr>ee_type = ee_type event, ee_payload = ee_payload event\<rparr>"

record event_context =
  ec_organization :: id
  ec_project :: id
  ec_session :: id

record 't do_row =
  dr_id :: id
  dr_organization :: id
  dr_project :: id
  dr_session :: id
  dr_sequence :: rat
  dr_type :: string
  dr_payload :: json
  dr_created :: 't

record 't session_event =
  sv_id :: id
  sv_session :: id
  sv_sequence :: rat
  sv_created :: 't
  sv_type :: string
  sv_payload :: json

record 't relayed_event =
  re_id :: id
  re_session :: id
  re_sequence :: rat
  re_created :: 't
  re_type :: string
  re_payload :: json

record 't event_query =
  eq_type :: "string option"
  eq_from :: "'t option"
  eq_to :: "'t option"
  eq_asc :: bool
  eq_cursor :: "rat option"
  eq_limit :: nat

definition row_event :: "'t do_row \<Rightarrow> 't session_event" where
  "row_event row =
     \<lparr>sv_id = dr_id row, sv_session = dr_session row, sv_sequence = dr_sequence row, sv_created = dr_created row,
      sv_type = dr_type row, sv_payload = dr_payload row\<rparr>"

definition serializeRow :: "'t do_row \<Rightarrow> string + 't session_event" where
  "serializeRow row =
     (if \<not> isEnborSessionEventType (dr_type row) then Inl (''Unsupported session event type: '' @ dr_type row)
      else Inr (row_event row))"

fun serialize_rows :: "'t do_row list \<Rightarrow> string + 't session_event list" where
  "serialize_rows [] = Inr []"
| "serialize_rows (r # rs) =
     (case serializeRow r of
        Inl e \<Rightarrow> Inl e
      | Inr ev \<Rightarrow> (case serialize_rows rs of Inl e \<Rightarrow> Inl e | Inr evs \<Rightarrow> Inr (ev # evs)))"

section \<open>The store of the Session object\<close>

definition max_sequence :: "id \<Rightarrow> 't do_row list \<Rightarrow> rat" where
  "max_sequence sessionId rows =
     (case map dr_sequence (filter (\<lambda>r. dr_session r = sessionId) rows) of [] \<Rightarrow> 0 | x # xs \<Rightarrow> fold max xs x)"

definition appendCanonicalEventToSql ::
    "(string \<Rightarrow> string) \<Rightarrow> event_context \<Rightarrow> enbor_event \<Rightarrow> id \<Rightarrow> 't \<Rightarrow> 't do_row list \<Rightarrow>
     't do_row list \<times> (string + 't session_event)" where
  "appendCanonicalEventToSql scrub ctx event eventId createdAt rows =
     (let normalized = normalizeEnborEvent event;
          row = \<lparr>dr_id = eventId, dr_organization = ec_organization ctx, dr_project = ec_project ctx,
                 dr_session = ec_session ctx, dr_sequence = max_sequence (ec_session ctx) rows + 1,
                 dr_type = ee_type normalized,
                 dr_payload = redactToolResultsFromPayload scrub (ee_payload normalized), dr_created = createdAt\<rparr> in
      (rows @ [row], serializeRow row))"

definition row_wanted :: "id \<Rightarrow> ('t::linorder) event_query \<Rightarrow> 't do_row \<Rightarrow> bool" where
  "row_wanted sessionId q r \<longleftrightarrow>
     dr_session r = sessionId \<and>
     (case eq_type q of None \<Rightarrow> True | Some t \<Rightarrow> dr_type r = t) \<and>
     (case eq_from q of None \<Rightarrow> True | Some t \<Rightarrow> dr_created r \<ge> t) \<and>
     (case eq_to q of None \<Rightarrow> True | Some t \<Rightarrow> dr_created r \<le> t)"

definition past_cursor :: "'t event_query \<Rightarrow> rat \<Rightarrow> bool" where
  "past_cursor q n \<longleftrightarrow>
     (case eq_cursor q of
        Some c \<Rightarrow> if eq_asc q then n > c else n < c
      | None \<Rightarrow> eq_asc q \<longrightarrow> n > 0)"

definition direction :: "'t event_query \<Rightarrow> rat \<Rightarrow> rat" where
  "direction q n = (if eq_asc q then n else - n)"

definition queryEventsFromSql ::
    "('t::linorder) do_row list \<Rightarrow> id \<Rightarrow> 't event_query \<Rightarrow> string + ('t session_event list \<times> bool)" where
  "queryEventsFromSql rows sessionId q =
     (let fetched = take (eq_limit q + 1) (sort_key (\<lambda>r. direction q (dr_sequence r))
            (filter (\<lambda>r. row_wanted sessionId q r \<and> past_cursor q (dr_sequence r)) rows)) in
      case serialize_rows (take (eq_limit q) fetched) of
        Inl e \<Rightarrow> Inl e
      | Inr evs \<Rightarrow> Inr (evs, eq_limit q < length fetched))"

definition countSessionEvents :: "'t do_row list \<Rightarrow> id \<Rightarrow> nat" where
  "countSessionEvents rows sessionId = sql_count (\<lambda>r. dr_session r = sessionId) rows"

definition streamSessionEvents :: "'t do_row list \<Rightarrow> id \<Rightarrow> (string \<times> json) list" where
  "streamSessionEvents rows sessionId =
     map (\<lambda>r. (dr_type r, dr_payload r)) (sort_key dr_sequence (filter (\<lambda>r. dr_session r = sessionId) rows))"

definition exportSessionEvents :: "'t do_row list \<Rightarrow> id \<Rightarrow> string + 't session_event list" where
  "exportSessionEvents rows sessionId =
     serialize_rows (sort_key dr_sequence (filter (\<lambda>r. dr_session r = sessionId) rows))"

section \<open>The log of a runner\<close>

definition stepRelayEvent :: "(string \<Rightarrow> string) \<Rightarrow> event_context \<Rightarrow> 't relayed_event \<Rightarrow> 't do_row" where
  "stepRelayEvent scrub ctx raw =
     (let event = normalizeEnborEvent \<lparr>ee_type = re_type raw, ee_payload = re_payload raw\<rparr> in
      \<lparr>dr_id = re_id raw, dr_organization = ec_organization ctx, dr_project = ec_project ctx,
       dr_session = ec_session ctx, dr_sequence = re_sequence raw, dr_type = ee_type event,
       dr_payload = redactToolResultsFromPayload scrub (ee_payload event), dr_created = re_created raw\<rparr>)"

definition record_wanted :: "('t::linorder) event_query \<Rightarrow> 't session_event \<Rightarrow> bool" where
  "record_wanted q r \<longleftrightarrow>
     (case eq_cursor q of
        None \<Rightarrow> True
      | Some c \<Rightarrow> \<not> (eq_asc q \<and> sv_sequence r \<le> c) \<and> \<not> (\<not> eq_asc q \<and> sv_sequence r \<ge> c)) \<and>
     (case eq_type q of None \<Rightarrow> True | Some t \<Rightarrow> sv_type r = t) \<and>
     (case eq_from q of None \<Rightarrow> True | Some t \<Rightarrow> \<not> sv_created r < t) \<and>
     (case eq_to q of None \<Rightarrow> True | Some t \<Rightarrow> \<not> sv_created r > t)"

definition pageRelayedEvents ::
    "(string \<Rightarrow> string) \<Rightarrow> ('t::linorder) relayed_event list \<Rightarrow> event_context \<Rightarrow> 't event_query \<Rightarrow>
     string + ('t session_event list \<times> bool)" where
  "pageRelayedEvents scrub rawEvents ctx q =
     (case serialize_rows (map (stepRelayEvent scrub ctx) (sort_key re_sequence rawEvents)) of
        Inl e \<Rightarrow> Inl e
      | Inr all \<Rightarrow>
          (let records = sort_key (\<lambda>r. direction q (sv_sequence r)) (filter (record_wanted q) all) in
           Inr (take (eq_limit q) records, eq_limit q < length records)))"

section \<open>The D1 store\<close>

definition event_type_ok :: "time event_query \<Rightarrow> event_row \<Rightarrow> bool" where
  "event_type_ok q e \<longleftrightarrow> (case eq_type q of None \<Rightarrow> True | Some t \<Rightarrow> ev_type e = t)"

definition eventSequenceFilter :: "rat \<Rightarrow> bool \<Rightarrow> event_row \<Rightarrow> bool" where
  "eventSequenceFilter cursor asc e = (if asc then of_nat (ev_sequence e) > cursor else of_nat (ev_sequence e) < cursor)"

definition eventCursorFilter :: "rat option \<Rightarrow> bool \<Rightarrow> event_row \<Rightarrow> bool" where
  "eventCursorFilter cursor asc e =
     (case cursor of
        None \<Rightarrow> if asc then eventSequenceFilter 0 asc e else True
      | Some c \<Rightarrow> eventSequenceFilter c asc e)"

definition eventFilters :: "id \<Rightarrow> time event_query \<Rightarrow> event_row \<Rightarrow> bool" where
  "eventFilters sessionId q e \<longleftrightarrow>
     ev_session e = sessionId \<and> eventCursorFilter (eq_cursor q) (eq_asc q) e \<and> event_type_ok q e \<and>
     (case eq_from q of None \<Rightarrow> True | Some t \<Rightarrow> ev_created e \<ge> t) \<and>
     (case eq_to q of None \<Rightarrow> True | Some t \<Rightarrow> ev_created e \<le> t)"

definition serializeEvent :: "event_row \<Rightarrow> string + time session_event" where
  "serializeEvent e =
     (if \<not> isEnborSessionEventType (ev_type e) then Inl (''Unsupported session event type: '' @ ev_type e)
      else Inr \<lparr>sv_id = ev_id e, sv_session = ev_session e, sv_sequence = of_nat (ev_sequence e),
                sv_created = ev_created e, sv_type = ev_type e, sv_payload = ev_payload e\<rparr>)"

fun serialize_events :: "event_row list \<Rightarrow> string + time session_event list" where
  "serialize_events [] = Inr []"
| "serialize_events (e # es) =
     (case serializeEvent e of
        Inl m \<Rightarrow> Inl m
      | Inr ev \<Rightarrow> (case serialize_events es of Inl m \<Rightarrow> Inl m | Inr evs \<Rightarrow> Inr (ev # evs)))"

definition queryEvents :: "id \<Rightarrow> time event_query \<Rightarrow> db \<Rightarrow> string + (time session_event list \<times> bool)" where
  "queryEvents sessionId q d =
     (let ordered = sort_key (\<lambda>e. if eq_asc q then of_nat (ev_sequence e) else - of_nat (ev_sequence e) :: rat)
                      (filter (eventFilters sessionId q) (events d));
          rows = take (eq_limit q + 1) ordered in
      case serialize_events (take (eq_limit q) rows) of
        Inl m \<Rightarrow> Inl m
      | Inr evs \<Rightarrow> Inr (evs, eq_limit q < length rows))"

text \<open>
  An append reads the highest sequence and inserts the next one; \<open>ia_wait\<close> is what others write in
  between. A taken sequence is a violation of the unique index and is retried, five attempts in all.
  The accounting of the event runs inside the same attempt; \<open>ia_signals\<close> is the error it ends with, if any.
\<close>

record insert_attempt =
  ia_id :: id
  ia_wait :: "db \<Rightarrow> db"
  ia_at :: time
  ia_signals :: "string option"

definition last_sequence :: "id \<Rightarrow> db \<Rightarrow> nat" where
  "last_sequence sessionId d = fold max (map ev_sequence (filter (\<lambda>e. ev_session e = sessionId) (events d))) 0"

definition UNIQUE_FAILED :: string where
  "UNIQUE_FAILED = ''UNIQUE constraint failed''"

definition insert_row :: "event_row \<Rightarrow> db \<Rightarrow> db option" where
  "insert_row row d =
     (if sql_exists (\<lambda>e. ev_id e = ev_id row \<or> ev_session e = ev_session row \<and> ev_sequence e = ev_sequence row) (events d)
      then None else Some (d\<lparr>events := events d @ [row]\<rparr>))"

fun insert_attempts ::
    "(string \<Rightarrow> string) \<Rightarrow> event_context \<Rightarrow> enbor_event \<Rightarrow> insert_attempt list \<Rightarrow> db \<Rightarrow> db \<times> (string + id)" where
  "insert_attempts scrub ctx event [] d = (d, Inl ''Unable to append canonical session event'')"
| "insert_attempts scrub ctx event (a # as) d =
     (let row = \<lparr>ev_id = ia_id a, ev_organization = ec_organization ctx, ev_project = ec_project ctx,
                 ev_session = ec_session ctx, ev_sequence = last_sequence (ec_session ctx) d + 1,
                 ev_type = ee_type event, ev_payload = redactToolResultsFromPayload scrub (ee_payload event),
                 ev_created = ia_at a\<rparr>;
          d1 = ia_wait a d in
      case insert_row row d1 of
        None \<Rightarrow> if as = [] then (d1, Inl UNIQUE_FAILED) else insert_attempts scrub ctx event as d1
      | Some d2 \<Rightarrow>
          (case ia_signals a of
             None \<Rightarrow> (d2, Inr (ia_id a))
           | Some e \<Rightarrow> if as = [] \<or> \<not> contains e ''UNIQUE'' then (d2, Inl e)
                       else insert_attempts scrub ctx event as d2))"

definition insertCanonicalSessionEvent ::
    "(string \<Rightarrow> string) \<Rightarrow> event_context \<Rightarrow> enbor_event \<Rightarrow> (nat \<Rightarrow> insert_attempt) \<Rightarrow> db \<Rightarrow> db \<times> (string + id)" where
  "insertCanonicalSessionEvent scrub ctx event w d = insert_attempts scrub ctx event (map w [0..<5]) d"

section \<open>Sorting\<close>

lemma sort_key_map: "sort_key f (map g xs) = map g (sort_key (\<lambda>x. f (g x)) xs)"
proof -
  have "insort_key f (g x) (map g ys) = map g (insort_key (\<lambda>x. f (g x)) x ys)" for x ys
    by (induction ys) auto
  then show ?thesis by (induction xs) simp_all
qed

lemma sort_key_perm:
  assumes "mset xs = mset ys" "distinct (map f ys)"
  shows "sort_key f xs = sort_key f ys"
  by (rule sort_key_inj_key_eq) (use assms in \<open>auto simp: distinct_map dest: mset_eq_setD\<close>)

lemma serialize_rows_ok:
  "(\<forall>r \<in> set rows. isEnborSessionEventType (dr_type r)) \<Longrightarrow> serialize_rows rows = Inr (map row_event rows)"
  by (induction rows) (auto simp: serializeRow_def)

section \<open>One contract, three stores\<close>

definition d1_row :: "event_row \<Rightarrow> time do_row" where
  "d1_row e =
     \<lparr>dr_id = ev_id e, dr_organization = ev_organization e, dr_project = ev_project e, dr_session = ev_session e,
      dr_sequence = of_nat (ev_sequence e), dr_type = ev_type e, dr_payload = ev_payload e, dr_created = ev_created e\<rparr>"

lemma serialize_d1: "serialize_rows (map d1_row es) = serialize_events es"
proof -
  have "serializeRow (d1_row e) = serializeEvent e" for e
    by (simp add: serializeRow_def serializeEvent_def row_event_def d1_row_def)
  then show ?thesis by (induction es) (simp_all split: sum.splits)
qed

lemma wanted_d1:
  "row_wanted sid q (d1_row e) \<and> past_cursor q (dr_sequence (d1_row e)) \<longleftrightarrow> eventFilters sid q e"
  by (auto simp: row_wanted_def past_cursor_def eventFilters_def eventCursorFilter_def eventSequenceFilter_def
      event_type_ok_def d1_row_def split: option.splits)

text \<open>
  C8 (refinement): the D1 store answers a query exactly as the store of the Session object does on the
  same rows, for every filter, direction, cursor and limit, and it fails on the same rows.
\<close>

theorem d1_refines_session_store:
  "queryEvents sid q d = queryEventsFromSql (map d1_row (events d)) sid q"
proof -
  have "filter (\<lambda>r. row_wanted sid q r \<and> past_cursor q (dr_sequence r)) (map d1_row (events d)) =
      map d1_row (filter (eventFilters sid q) (events d))"
    unfolding filter_map comp_def wanted_d1 ..
  moreover have "direction q (dr_sequence (d1_row e)) = (if eq_asc q then of_nat (ev_sequence e) else - of_nat (ev_sequence e))" for e
    by (simp add: direction_def d1_row_def)
  ultimately show ?thesis
    by (simp add: queryEvents_def queryEventsFromSql_def sort_key_map take_map serialize_d1 Let_def cong: sum.case_cong)
qed

lemma relayed_wanted:
  assumes "ec_session ctx = sid" "isEnborSessionEventType (re_type raw)" "0 < re_sequence raw"
  shows "record_wanted q (row_event (stepRelayEvent scrub ctx raw)) \<longleftrightarrow>
    row_wanted sid q (stepRelayEvent scrub ctx raw) \<and> past_cursor q (dr_sequence (stepRelayEvent scrub ctx raw))"
  using assms by (auto simp: record_wanted_def row_wanted_def past_cursor_def row_event_def stepRelayEvent_def
      normalizeEnborEvent_def Let_def not_less not_le split: option.splits)

text \<open>
  The history of a self-hosted session reads like that of a cloud session. Paging the
  events a runner sends, in whatever order it sends them, gives what the store of the Session object
  answers when it holds the same events.
\<close>

theorem relay_pages_like_store:
  assumes ok: "\<forall>r \<in> set raws. isEnborSessionEventType (re_type r) \<and> 0 < re_sequence r"
    and keys: "distinct (map re_sequence raws)"
  shows "pageRelayedEvents scrub raws ctx q =
    queryEventsFromSql (map (stepRelayEvent scrub ctx) raws) (ec_session ctx) q"
proof -
  let ?step = "stepRelayEvent scrub ctx" and ?seq = "\<lambda>r. direction q (re_sequence r)"
  let ?P = "\<lambda>raw. record_wanted q (row_event (?step raw))"
  have seq: "sv_sequence (row_event (?step r)) = re_sequence r" "dr_sequence (?step r) = re_sequence r"
    "dr_type (?step r) = re_type r" for r
    by (simp_all add: row_event_def stepRelayEvent_def normalizeEnborEvent_def Let_def)
  have ser: "serialize_rows (map ?step xs) = Inr (map (\<lambda>r. row_event (?step r)) xs)" if "set xs \<subseteq> set raws" for xs
    using that ok by (subst serialize_rows_ok) (auto simp: seq)
  have d: "distinct (map ?seq (filter ?P raws))"
    using keys by (auto simp: distinct_map direction_def inj_on_def)
  have "filter ?P (sort_key re_sequence raws) = sort_key re_sequence (filter ?P raws)" by (rule filter_sort)
  then have "sort_key ?seq (filter ?P (sort_key re_sequence raws)) = sort_key ?seq (filter ?P raws)"
    by (intro sort_key_perm d) simp
  then have "pageRelayedEvents scrub raws ctx q =
      (let xs = sort_key ?seq (filter ?P raws) in
       Inr (take (eq_limit q) (map (\<lambda>r. row_event (?step r)) xs), eq_limit q < length xs))"
    by (simp add: pageRelayedEvents_def ser filter_map comp_def sort_key_map seq Let_def)
  moreover have "filter (\<lambda>r. row_wanted (ec_session ctx) q r \<and> past_cursor q (dr_sequence r)) (map ?step raws) =
      map ?step (filter ?P raws)"
    unfolding filter_map comp_def
    by (intro arg_cong [of _ _ "map ?step"] filter_cong refl) (use relayed_wanted ok in blast)
  moreover have "serialize_rows (map ?step (take n (sort_key ?seq (filter ?P raws)))) =
      Inr (map (\<lambda>r. row_event (?step r)) (take n (sort_key ?seq (filter ?P raws))))" for n
    by (intro ser) (auto dest: in_set_takeD)
  ultimately show ?thesis
    by (simp add: queryEventsFromSql_def sort_key_map seq Let_def take_map)
qed

theorem relay_pages_like_store_witness:
  "pageRelayedEvents (\<lambda>s. s) [\<lparr>re_id = ''e2'', re_session = ''s'', re_sequence = 2, re_created = 20, re_type = ''turn.completed'', re_payload = JNull\<rparr>,
       \<lparr>re_id = ''e1'', re_session = ''s'', re_sequence = 1, re_created = (10::time), re_type = ''turn.started'', re_payload = JNull\<rparr>]
     \<lparr>ec_organization = ''o'', ec_project = ''p'', ec_session = ''s''\<rparr>
     \<lparr>eq_type = None, eq_from = None, eq_to = None, eq_asc = True, eq_cursor = None, eq_limit = 1\<rparr> =
   Inr ([\<lparr>sv_id = ''e1'', sv_session = ''s'', sv_sequence = 1, sv_created = 10, sv_type = ''turn.started'', sv_payload = JNull\<rparr>], True)"
  by (subst relay_pages_like_store)
    (simp_all add: isEnborSessionEventType_def ENBOR_SESSION_EVENT_TYPES_def queryEventsFromSql_def stepRelayEvent_def
      normalizeEnborEvent_def redactToolResultsFromPayload_def jget_def row_wanted_def past_cursor_def direction_def
      serializeRow_def row_event_def)

section \<open>Sequences of a cloud session\<close>

record append_call =
  ac_context :: event_context
  ac_event :: enbor_event
  ac_id :: id
  ac_at :: time

definition append_all :: "(string \<Rightarrow> string) \<Rightarrow> append_call list \<Rightarrow> time do_row list \<Rightarrow> time do_row list" where
  "append_all scrub = fold (\<lambda>c rows. fst (appendCanonicalEventToSql scrub (ac_context c) (ac_event c) (ac_id c) (ac_at c) rows))"

definition gapless :: "id \<Rightarrow> 't do_row list \<Rightarrow> bool" where
  "gapless sid rows \<longleftrightarrow>
     map dr_sequence (filter (\<lambda>r. dr_session r = sid) rows) = map of_nat [1..<Suc (countSessionEvents rows sid)]"

lemma fold_max_upt: "fold max (map of_nat [2..<Suc n]) (1::rat) = of_nat (max 1 n)"
proof (induction n)
  case (Suc n)
  then show ?case by (cases "2 \<le> Suc n") (auto simp: max_def)
qed simp

lemma gapless_max:
  assumes "gapless sid rows"
  shows "max_sequence sid rows = of_nat (countSessionEvents rows sid)"
proof (cases "countSessionEvents rows sid")
  case 0
  then show ?thesis using assms by (simp add: gapless_def max_sequence_def)
next
  case (Suc n)
  have "map of_nat [1..<Suc (Suc n)] = (1::rat) # map of_nat [2..<Suc (Suc n)]"
    by (simp add: upt_conv_Cons numeral_2_eq_2 del: upt_Suc)
  then have "map dr_sequence (filter (\<lambda>r. dr_session r = sid) rows) = 1 # map of_nat [2..<Suc (Suc n)]"
    using assms Suc by (simp add: gapless_def del: upt_Suc)
  then show ?thesis using fold_max_upt [of "Suc n"] Suc by (simp add: max_sequence_def del: upt_Suc)
qed

lemma append_gapless:
  assumes "gapless sid rows"
  shows "gapless sid (fst (appendCanonicalEventToSql scrub ctx event i t rows))"
proof (cases "ec_session ctx = sid")
  case True
  then show ?thesis
    using assms gapless_max [OF assms]
    by (simp add: gapless_def appendCanonicalEventToSql_def Let_def countSessionEvents_def)
next
  case False
  then show ?thesis
    using assms by (simp add: gapless_def appendCanonicalEventToSql_def Let_def countSessionEvents_def)
qed

text \<open>
  C9 (invariant): the events of a cloud session are numbered 1, 2, 3 and so on. Whatever sessions the
  appends interleave, each session's rows carry consecutive sequences from one, in the order of arrival,
  so the cursor of a client never skips an event.
\<close>

theorem cloud_sequences_gapless:
  "map dr_sequence (filter (\<lambda>r. dr_session r = sid) (append_all scrub calls [])) =
     map of_nat [1..<Suc (countSessionEvents (append_all scrub calls []) sid)]"
proof -
  have "gapless sid rows \<Longrightarrow> gapless sid (append_all scrub calls rows)" for rows
    by (induction calls arbitrary: rows) (simp_all add: append_all_def append_gapless)
  moreover have "gapless sid []" by (simp add: gapless_def countSessionEvents_def)
  ultimately show ?thesis unfolding gapless_def by blast
qed

section \<open>Reading a history page by page\<close>

definition history_ok :: "id \<Rightarrow> 't do_row list \<Rightarrow> bool" where
  "history_ok sid rows \<longleftrightarrow>
     distinct (map dr_sequence (filter (\<lambda>r. dr_session r = sid) rows)) \<and>
     (\<forall>r \<in> set rows. dr_session r = sid \<longrightarrow> 0 < dr_sequence r \<and> isEnborSessionEventType (dr_type r))"

definition event_page ::
    "('t::linorder) do_row list \<Rightarrow> id \<Rightarrow> 't event_query \<Rightarrow> nat \<Rightarrow> rat option \<Rightarrow> 't session_event list \<times> bool" where
  "event_page rows sid q n cursor = projr (queryEventsFromSql rows sid (q\<lparr>eq_limit := n, eq_cursor := cursor\<rparr>))"

definition further :: "'t event_query \<Rightarrow> rat \<Rightarrow> rat \<Rightarrow> bool" where
  "further q a b \<longleftrightarrow> (if eq_asc q then a < b else b < a)"

lemma further_direction: "further q a b \<longleftrightarrow> direction q a < direction q b"
  by (simp add: further_def direction_def)

lemma further_trans: "further q a b \<Longrightarrow> further q b c \<Longrightarrow> further q a c"
  by (simp add: further_direction)

lemma further_asym: "further q a b \<Longrightarrow> \<not> further q b a"
  by (simp add: further_direction)

lemma past_cursor_further:
  "0 < m \<Longrightarrow> past_cursor (q\<lparr>eq_limit := n, eq_cursor := cur\<rparr>) m \<longleftrightarrow> (case cur of None \<Rightarrow> True | Some k \<Rightarrow> further q k m)"
  by (simp add: past_cursor_def further_def split: option.splits)

lemma event_page_law:
  assumes "history_ok sid rows"
  shows "\<exists>xs. set xs = {e \<in> {row_event r | r. r \<in> set rows \<and> row_wanted sid q r}.
        case cur of None \<Rightarrow> True | Some k \<Rightarrow> further q k (sv_sequence e)} \<and>
    sorted_wrt (\<lambda>x y. further q (sv_sequence x) (sv_sequence y)) xs \<and> event_page rows sid q n cur = (take n xs, n < length xs)"
proof -
  let ?q = "q\<lparr>eq_limit := n, eq_cursor := cur\<rparr>"
  let ?sel = "filter (\<lambda>r. row_wanted sid ?q r \<and> past_cursor ?q (dr_sequence r)) rows"
  let ?ys = "sort_key (\<lambda>r. direction q (dr_sequence r)) ?sel"
  let ?xs = "map row_event ?ys"
  have w: "row_wanted sid ?q r = row_wanted sid q r" for r by (simp add: row_wanted_def)
  have sel: "set ?sel = {r \<in> set rows. row_wanted sid q r \<and>
      (case cur of None \<Rightarrow> True | Some k \<Rightarrow> further q k (dr_sequence r))}"
  proof -
    have pos: "0 < dr_sequence r" if "r \<in> set rows" "row_wanted sid q r" for r
      using assms that by (simp add: history_ok_def row_wanted_def)
    have "row_wanted sid ?q r \<and> past_cursor ?q (dr_sequence r) \<longleftrightarrow>
        row_wanted sid q r \<and> (case cur of None \<Rightarrow> True | Some k \<Rightarrow> further q k (dr_sequence r))" if "r \<in> set rows" for r
      using past_cursor_further [OF pos [OF that]] w by blast
    then show ?thesis by (simp cong: conj_cong)
  qed
  have seq: "sv_sequence (row_event r) = dr_sequence r" for r by (simp add: row_event_def)
  have set: "set ?xs = {e \<in> {row_event r | r. r \<in> set rows \<and> row_wanted sid q r}.
        case cur of None \<Rightarrow> True | Some k \<Rightarrow> further q k (sv_sequence e)}"
    unfolding set_map set_sort sel by (auto simp: seq split: option.splits)
  have inj: "inj_on dr_sequence (set ?sel)" and dist: "distinct ?sel"
  proof -
    have "distinct (map dr_sequence (filter (\<lambda>r. dr_session r = sid) rows))" using assms by (simp add: history_ok_def)
    moreover have s: "?sel = filter (\<lambda>r. row_wanted sid ?q r \<and> past_cursor ?q (dr_sequence r)) (filter (\<lambda>r. dr_session r = sid) rows)"
      by (auto simp: row_wanted_def intro!: filter_cong)
    ultimately have "distinct (map dr_sequence ?sel)" by (simp only: distinct_map_filter)
    then show "inj_on dr_sequence (set ?sel)" "distinct ?sel" by (simp_all add: distinct_map)
  qed
  have "distinct (map (\<lambda>r. direction q (dr_sequence r)) ?ys)"
    using inj dist by (auto simp: distinct_map direction_def inj_on_def)
  moreover have "sorted (map (\<lambda>r. direction q (dr_sequence r)) ?ys)" by simp
  ultimately have "sorted_wrt (<) (map (\<lambda>r. direction q (dr_sequence r)) ?ys)" by (simp add: strict_sorted_iff)
  then have srt: "sorted_wrt (\<lambda>x y. further q (sv_sequence x) (sv_sequence y)) ?xs"
    by (simp add: sorted_wrt_map seq further_direction)
  have "\<forall>r \<in> set ?ys. isEnborSessionEventType (dr_type r)"
    using assms by (auto simp: history_ok_def row_wanted_def)
  then have "\<forall>r \<in> set (take n ?ys). isEnborSessionEventType (dr_type r)" by (blast dest: in_set_takeD)
  then have "event_page rows sid q n cur = (take n ?xs, n < length ?xs)"
    by (auto simp: event_page_def queryEventsFromSql_def Let_def serialize_rows_ok take_map direction_def)
  with set srt show ?thesis by blast
qed

interpretation event_pages: page_reader sv_sequence "further q" "event_page rows sid q"
    "{row_event r | r. r \<in> set rows \<and> row_wanted sid q r}" "history_ok sid rows"
  for q rows sid
  by unfold_locales (erule (1) further_trans, erule further_asym, erule event_page_law)

text \<open>
  A client that follows the cursor through the history of a session, forwards or
  backwards, with any page size and any filter, receives every wanted event exactly once and in order.
\<close>

theorem history_read_once:
  assumes "history_ok sid rows" "0 < n"
  shows "\<exists>evs. read_pages sv_sequence (event_page rows sid q n) (Suc (length rows)) None = Some evs \<and>
     set evs = {row_event r | r. r \<in> set rows \<and> row_wanted sid q r} \<and> distinct evs \<and>
     sorted_wrt (\<lambda>x y. further q (sv_sequence x) (sv_sequence y)) evs"
proof -
  have eq: "{row_event r | r. r \<in> set rows \<and> row_wanted sid q r} = row_event ` {r \<in> set rows. row_wanted sid q r}" by blast
  have "card (row_event ` {r \<in> set rows. row_wanted sid q r}) \<le> card {r \<in> set rows. row_wanted sid q r}"
    by (rule card_image_le) simp
  also have "\<dots> \<le> card (set rows)" by (rule card_mono) auto
  also have "\<dots> < Suc (length rows)" using card_length [of rows] by simp
  finally have fin: "card {row_event r | r. r \<in> set rows \<and> row_wanted sid q r} < Suc (length rows)" unfolding eq .
  obtain evs where "read_pages sv_sequence (event_page rows sid q n) (Suc (length rows)) None = Some evs"
    "set evs = {row_event r | r. r \<in> set rows \<and> row_wanted sid q r}"
    "sorted_wrt (\<lambda>x y. further q (sv_sequence x) (sv_sequence y)) evs" "distinct evs"
    by (rule event_pages.read_all [OF assms(2,1), where q = q and fuel = "Suc (length rows)"]) (use fin in \<open>simp_all add: eq\<close>)
  then show ?thesis by blast
qed

definition demo_row :: "rat \<Rightarrow> time do_row" where
  "demo_row n = \<lparr>dr_id = ''e'', dr_organization = ''o'', dr_project = ''p'', dr_session = ''s'', dr_sequence = n,
     dr_type = ''turn.started'', dr_payload = JNull, dr_created = 0\<rparr>"

definition demo_event_query :: "time event_query" where
  "demo_event_query = \<lparr>eq_type = None, eq_from = None, eq_to = None, eq_asc = False, eq_cursor = None, eq_limit = 0\<rparr>"

theorem history_read_once_witness:
  "\<exists>evs. read_pages sv_sequence (event_page [demo_row 1, demo_row 2, demo_row 3] ''s'' demo_event_query 2) 4 None = Some evs \<and>
     distinct evs \<and> set evs = {row_event (demo_row 1), row_event (demo_row 2), row_event (demo_row 3)}"
proof -
  have ok: "history_ok ''s'' [demo_row 1, demo_row 2, demo_row 3]"
    by (simp add: history_ok_def demo_row_def isEnborSessionEventType_def ENBOR_SESSION_EVENT_TYPES_def)
  have w: "row_wanted ''s'' demo_event_query (demo_row n)" for n
    by (simp add: row_wanted_def demo_event_query_def demo_row_def)
  have eq: "{row_event r | r. r \<in> set [demo_row 1, demo_row 2, demo_row 3] \<and> row_wanted ''s'' demo_event_query r} =
      {row_event (demo_row 1), row_event (demo_row 2), row_event (demo_row 3)}"
    using w by auto
  have "\<exists>evs. read_pages sv_sequence (event_page [demo_row 1, demo_row 2, demo_row 3] ''s'' demo_event_query 2)
      (Suc (length [demo_row 1, demo_row 2, demo_row 3])) None = Some evs \<and>
     set evs = {row_event r | r. r \<in> set [demo_row 1, demo_row 2, demo_row 3] \<and> row_wanted ''s'' demo_event_query r} \<and>
     distinct evs \<and> sorted_wrt (\<lambda>x y. further demo_event_query (sv_sequence x) (sv_sequence y)) evs"
    by (rule history_read_once [OF ok]) simp
  then show ?thesis unfolding eq by (auto simp: eval_nat_numeral)
qed

section \<open>Appending to the D1 store\<close>

lemma insert_attempts_Inr:
  "insert_attempts scrub ctx event as d = (d', Inr i) \<Longrightarrow>
   \<exists>e \<in> set (events d'). ev_id e = i \<and> ev_session e = ec_session ctx \<and> ev_type e = ee_type event \<and>
     ev_payload e = redactToolResultsFromPayload scrub (ee_payload event) \<and>
     (\<forall>x \<in> set (events d'). x = e \<or> ev_id x \<noteq> i \<and> (ev_session x \<noteq> ev_session e \<or> ev_sequence x \<noteq> ev_sequence e))"
proof (induction as arbitrary: d)
  case Nil
  then show ?case by simp
next
  case (Cons a as)
  let ?row = "\<lparr>ev_id = ia_id a, ev_organization = ec_organization ctx, ev_project = ec_project ctx,
                 ev_session = ec_session ctx, ev_sequence = last_sequence (ec_session ctx) d + 1,
                 ev_type = ee_type event, ev_payload = redactToolResultsFromPayload scrub (ee_payload event),
                 ev_created = ia_at a\<rparr>"
  show ?case
  proof (cases "insert_row ?row (ia_wait a d)")
    case None
    then have "insert_attempts scrub ctx event as (ia_wait a d) = (d', Inr i)"
      using Cons.prems by (simp add: Let_def split: if_splits)
    then show ?thesis by (rule Cons.IH)
  next
    case (Some d2)
    show ?thesis
    proof (cases "ia_signals a")
      case None
      then have eq: "d' = d2" "i = ia_id a" using Cons.prems Some by (simp_all add: Let_def)
      have free: "\<not> sql_exists (\<lambda>e. ev_id e = ev_id ?row \<or> ev_session e = ev_session ?row \<and> ev_sequence e = ev_sequence ?row)
          (events (ia_wait a d))" and ins: "events d2 = events (ia_wait a d) @ [?row]"
        using Some by (auto simp: insert_row_def split: if_splits)
      show ?thesis
        unfolding eq ins by (rule bexI [of _ ?row]) (use free in \<open>auto simp: sql_exists_iff\<close>)
    next
      case (Some e)
      then have "insert_attempts scrub ctx event as d2 = (d', Inr i)"
        using Cons.prems \<open>insert_row ?row (ia_wait a d) = Some d2\<close> by (simp add: Let_def split: if_splits)
      then show ?thesis by (rule Cons.IH)
    qed
  qed
qed

text \<open>
  An append that reports success has stored the event, redacted, under the identifier
  it reports and with a sequence that no other event of the session has, whatever was written meanwhile.
\<close>

theorem append_stores_event:
  assumes "insertCanonicalSessionEvent scrub ctx event w d = (d', Inr i)"
  shows "\<exists>e \<in> set (events d'). ev_id e = i \<and> ev_session e = ec_session ctx \<and> ev_type e = ee_type event \<and>
     ev_payload e = redactToolResultsFromPayload scrub (ee_payload event) \<and>
     (\<forall>x \<in> set (events d'). x = e \<or> ev_id x \<noteq> i \<and> (ev_session x \<noteq> ev_session e \<or> ev_sequence x \<noteq> ev_sequence e))"
  using assms unfolding insertCanonicalSessionEvent_def by (rule insert_attempts_Inr)

lemma fold_max_ge: "x \<in> set xs \<or> x \<le> m \<Longrightarrow> (x::nat) \<le> fold max xs m"
proof (induction xs arbitrary: m)
  case (Cons y ys)
  then show ?case by (auto simp: le_max_iff_disj)
qed simp

lemma last_sequence_ge: "e \<in> set (events d) \<Longrightarrow> ev_session e = sid \<Longrightarrow> ev_sequence e \<le> last_sequence sid d"
  unfolding last_sequence_def by (rule fold_max_ge) (simp add: image_iff, blast)

lemma insert_attempts_quiet:
  assumes "k < length as" "\<And>x. ia_wait (as ! k) x = x" "\<forall>a \<in> set as. ia_signals a = None"
    and "\<And>a x. a \<in> set as \<Longrightarrow> ia_id (as ! k) \<notin> ev_id ` set (events x) \<Longrightarrow>
            ia_id (as ! k) \<notin> ev_id ` set (events (ia_wait a x))"
    and "ia_id (as ! k) \<notin> ev_id ` set (events d)"
  shows "\<exists>i. snd (insert_attempts scrub ctx event as d) = Inr i"
  using assms
proof (induction as arbitrary: d k)
  case Nil
  then show ?case by simp
next
  case (Cons a as)
  let ?row = "\<lparr>ev_id = ia_id a, ev_organization = ec_organization ctx, ev_project = ec_project ctx,
                 ev_session = ec_session ctx, ev_sequence = last_sequence (ec_session ctx) d + 1,
                 ev_type = ee_type event, ev_payload = redactToolResultsFromPayload scrub (ee_payload event),
                 ev_created = ia_at a\<rparr>"
  show ?case
  proof (cases "insert_row ?row (ia_wait a d)")
    case (Some d2)
    then show ?thesis using Cons.prems(3) by simp
  next
    case None
    show ?thesis
    proof (cases k)
      case 0
      then have w: "ia_wait a d = d" using Cons.prems(2) by simp
      have "ev_sequence e \<noteq> last_sequence (ec_session ctx) d + 1" if "e \<in> set (events d)" "ev_session e = ec_session ctx" for e
        using last_sequence_ge [OF that] by simp
      then have "insert_row ?row d \<noteq> None"
        using Cons.prems(5) 0 by (auto simp: insert_row_def sql_exists_iff image_iff)
      then show ?thesis using None w by simp
    next
      case (Suc j)
      have ne: "as \<noteq> []" using Cons.prems(1) Suc by auto
      have "ia_id (as ! j) \<notin> ev_id ` set (events (ia_wait a d))"
        using Cons.prems(4) [of a d] Cons.prems(5) Suc by simp
      then have "\<exists>i. snd (insert_attempts scrub ctx event as (ia_wait a d)) = Inr i"
        using Cons.prems Suc by (intro Cons.IH [of j]) auto
      then show ?thesis using None ne by simp
    qed
  qed
qed

text \<open>
  An append gets through. When the accounting of the event does not fail and nobody uses the
  drawn identifier, one undisturbed attempt among the five is enough for the event to be stored.
\<close>

theorem append_gets_through:
  assumes "k < 5" and quiet: "\<And>x. ia_wait (w k) x = x" and sig: "\<And>j. ia_signals (w j) = None"
    and fresh: "\<And>j x. ia_id (w k) \<notin> ev_id ` set (events x) \<Longrightarrow> ia_id (w k) \<notin> ev_id ` set (events (ia_wait (w j) x))"
    and "ia_id (w k) \<notin> ev_id ` set (events d)"
  shows "\<exists>i. snd (insertCanonicalSessionEvent scrub ctx event w d) = Inr i"
  unfolding insertCanonicalSessionEvent_def
proof (rule insert_attempts_quiet [of k])
  have k: "map w [0..<5] ! k = w k" using assms(1) by simp
  show "k < length (map w [0..<5])" using assms(1) by simp
  show "\<And>x. ia_wait (map w [0..<5] ! k) x = x" "\<forall>a \<in> set (map w [0..<5]). ia_signals a = None"
    "ia_id (map w [0..<5] ! k) \<notin> ev_id ` set (events d)"
    unfolding k using quiet sig assms(5) by auto
  show "\<And>a x. a \<in> set (map w [0..<5]) \<Longrightarrow> ia_id (map w [0..<5] ! k) \<notin> ev_id ` set (events x) \<Longrightarrow>
      ia_id (map w [0..<5] ! k) \<notin> ev_id ` set (events (ia_wait a x))"
    unfolding k using fresh by auto
qed

text \<open>A writer takes the next sequence during the first attempt.\<close>

definition demo_taken :: "db \<Rightarrow> db" where
  "demo_taken d = d\<lparr>events := events d @ [\<lparr>ev_id = ''x'', ev_organization = ''o'', ev_project = ''p'', ev_session = ''s'',
     ev_sequence = last_sequence ''s'' d + 1, ev_type = ''turn.started'', ev_payload = JNull, ev_created = 0\<rparr>]\<rparr>"

definition demo_attempts :: "nat \<Rightarrow> insert_attempt" where
  "demo_attempts k = \<lparr>ia_id = ''e'', ia_wait = (if k = 0 then demo_taken else (\<lambda>d. d)), ia_at = 1, ia_signals = None\<rparr>"

definition demo_context :: event_context where
  "demo_context = \<lparr>ec_organization = ''o'', ec_project = ''p'', ec_session = ''s''\<rparr>"

theorem append_gets_through_witness:
  "\<exists>i. snd (insertCanonicalSessionEvent (\<lambda>s. s) demo_context \<lparr>ee_type = ''turn.started'', ee_payload = JNull\<rparr>
     demo_attempts (demo_db\<lparr>events := []\<rparr>)) = Inr i"
  by (rule append_gets_through [of 1]) (simp_all add: demo_attempts_def demo_taken_def)

theorem append_stores_event_witness:
  "\<exists>d' e. insertCanonicalSessionEvent (\<lambda>s. s) demo_context \<lparr>ee_type = ''turn.started'', ee_payload = JNull\<rparr>
     demo_attempts (demo_db\<lparr>events := []\<rparr>) = (d', Inr ''e'') \<and> e \<in> set (events d') \<and> ev_id e = ''e'' \<and> ev_type e = ''turn.started''"
proof -
  let ?r = "insertCanonicalSessionEvent (\<lambda>s. s) demo_context \<lparr>ee_type = ''turn.started'', ee_payload = JNull\<rparr>
     demo_attempts (demo_db\<lparr>events := []\<rparr>)"
  have r: "?r = (fst ?r, Inr ''e'')"
    by (simp add: insertCanonicalSessionEvent_def upt_conv_Cons eval_nat_numeral insert_row_def demo_attempts_def
        demo_taken_def demo_context_def last_sequence_def sql_exists_def)
  from append_stores_event [OF r] show ?thesis using r by force
qed

end
