(* ===== verification/RunnerPool.thy ===== *)
theory RunnerPool
  imports LeaseClaim SessionEvents "HOL-Library.AList"
begin

text \<open>
  The object that holds the channels of the runners of one environment
  (\<open>server/worker/runner-pool-object.ts\<close>). A connection is an object with identity, here a number; the
  maps of the class are association lists with the insertion order of a JavaScript \<open>Map\<close>. A handler
  runs without interruption up to an \<open>await\<close>; what other handlers and processes do during an \<open>await\<close> is
  a function of the world, applied to the pool and the database. A handler returns the new state and
  what it did outside: frames sent, sockets closed, promises opened and settled, work scheduled.

  A socket that was found open throws on no \<open>send\<close> in the same synchronous section, so the requests
  that test it first cannot fail there; the two sends that the code guards by a \<open>try\<close> have an answer of
  the world. A timer is cleared whenever its entry is removed, so it fires only while the entry is pending.
\<close>

section \<open>State\<close>

type_synonym conn = nat

record runner_scope =
  rs_runner :: id
  rs_organization :: id
  rs_project :: id
  rs_environment :: id
  rs_acknowledges :: bool

record connection =
  cn_scope :: runner_scope
  cn_open :: bool
  cn_assigned :: nat
  cn_advertised :: bool

record pending =
  pd_conn :: conn
  pd_session :: id

record pending_command = pending +
  pc_request :: id
  pc_command :: "json option"

record pool =
  po_conns :: "conn \<Rightarrow> connection"
  po_next :: conn
  po_runners :: "(id \<times> conn) list"
  po_sessions :: "(id \<times> conn) list"
  po_backfill :: "(id \<times> conn) list"
  po_commands :: "(string \<times> pending_command) list"
  po_sandbox :: "(string \<times> pending) list"
  po_backfills :: "(string \<times> pending) list"

definition MAX_ADVERTISED_SESSIONS :: nat where
  "MAX_ADVERTISED_SESSIONS = 1000"

datatype request_kind = K_command | K_sandbox | K_backfill

datatype answer =
    Accepted bool
  | Sandbox_result json
  | Backfill_events "string relayed_event list"

datatype runner_frame =
    F_accepted id id
  | F_work_assigned id lease_row work_item_row json
  | F_command id id id "json option"
  | F_sandbox_request id id id json
  | F_backfill_request id id id

datatype pool_output =
    O_send conn runner_frame
  | O_close conn nat string
  | O_open request_kind string
  | O_timer request_kind string rat
  | O_settle request_kind string "string + answer"
  | O_restore conn
  | O_dispatch runner_scope
  | O_fan_out event_context "string relayed_event"

definition scope_of :: "pool \<Rightarrow> conn \<Rightarrow> runner_scope" where
  "scope_of p c = cn_scope (po_conns p c)"

definition is_open :: "pool \<Rightarrow> conn \<Rightarrow> bool" where
  "is_open p c \<longleftrightarrow> cn_open (po_conns p c)"

definition registered :: "pool \<Rightarrow> conn \<Rightarrow> bool" where
  "registered p c \<longleftrightarrow> map_of (po_runners p) (rs_runner (scope_of p c)) = Some c"

definition set_conn :: "conn \<Rightarrow> (connection \<Rightarrow> connection) \<Rightarrow> pool \<Rightarrow> pool" where
  "set_conn c f p = p\<lparr>po_conns := (po_conns p)(c := f (po_conns p c))\<rparr>"

definition owned_by :: "conn \<Rightarrow> (string \<times> 'a pending_scheme) \<Rightarrow> bool" where
  "owned_by c e \<longleftrightarrow> pd_conn (snd e) = c"

definition reject_all :: "request_kind \<Rightarrow> conn \<Rightarrow> string \<Rightarrow> (string \<times> 'a pending_scheme) list \<Rightarrow> pool_output list" where
  "reject_all kind c message table = map (\<lambda>e. O_settle kind (fst e) (Inl message)) (filter (owned_by c) table)"

section \<open>Connecting and closing\<close>

definition rejectPendingSandbox :: "conn \<Rightarrow> string \<Rightarrow> pool \<Rightarrow> pool \<times> pool_output list" where
  "rejectPendingSandbox c message p =
     (p\<lparr>po_sandbox := filter (\<lambda>e. \<not> owned_by c e) (po_sandbox p)\<rparr>, reject_all K_sandbox c message (po_sandbox p))"

definition rejectPendingCommands :: "conn \<Rightarrow> string \<Rightarrow> pool \<Rightarrow> pool \<times> pool_output list" where
  "rejectPendingCommands c message p =
     (p\<lparr>po_commands := filter (\<lambda>e. \<not> owned_by c e) (po_commands p)\<rparr>, reject_all K_command c message (po_commands p))"

definition runnerScopeFromUrl :: "(string \<Rightarrow> string option) \<Rightarrow> string + runner_scope" where
  "runnerScopeFromUrl param =
     (case List.find (\<lambda>name. \<not> truthy_str (param name)) [''runnerId'', ''organizationId'', ''projectId'', ''environmentId''] of
        Some name \<Rightarrow> Inl (''Missing runner pool parameter '' @ name)
      | None \<Rightarrow> Inr \<lparr>rs_runner = the (param ''runnerId''), rs_organization = the (param ''organizationId''),
                    rs_project = the (param ''projectId''), rs_environment = the (param ''environmentId''),
                    rs_acknowledges = (param ''commandAcknowledgement'' = Some ''true'')\<rparr>)"

definition close_socket :: "conn \<Rightarrow> nat \<Rightarrow> string \<Rightarrow> pool \<Rightarrow> pool \<times> pool_output list" where
  "close_socket c code reason p = (set_conn c (\<lambda>k. k\<lparr>cn_open := False\<rparr>) p, [O_close c code reason])"

definition supersede :: "conn \<Rightarrow> pool \<Rightarrow> pool \<times> pool_output list" where
  "supersede previous p =
     (case rejectPendingCommands previous ''runner channel superseded'' p of (p1, o1) \<Rightarrow>
      case rejectPendingSandbox previous ''runner channel superseded'' p1 of (p2, o2) \<Rightarrow>
        if is_open p2 previous
        then (case close_socket previous 4000 ''Superseded runner channel'' p2 of (p3, o3) \<Rightarrow> (p3, o1 @ o2 @ o3))
        else (p2, o1 @ o2))"

definition accept_runner :: "runner_scope \<Rightarrow> pool \<Rightarrow> pool \<times> pool_output list" where
  "accept_runner scope p =
     (let c = po_next p in
      (p\<lparr>po_conns := (po_conns p)(c := \<lparr>cn_scope = scope, cn_open = True, cn_assigned = 0, cn_advertised = False\<rparr>),
         po_next := Suc c, po_runners := AList.update (rs_runner scope) c (po_runners p)\<rparr>,
       [O_send c (F_accepted (rs_runner scope) (rs_environment scope)), O_restore c, O_dispatch scope]))"

datatype connect_result = Upgrade_required | Bad_parameter string | Switching_protocols

definition connectRunner ::
    "bool \<Rightarrow> (string \<Rightarrow> string option) \<Rightarrow> pool \<Rightarrow> pool \<times> pool_output list \<times> connect_result" where
  "connectRunner upgrade param p =
     (if \<not> upgrade then (p, [], Upgrade_required)
      else case runnerScopeFromUrl param of
        Inl e \<Rightarrow> (p, [], Bad_parameter e)
      | Inr scope \<Rightarrow>
          (case (case map_of (po_runners p) (rs_runner scope) of
                   None \<Rightarrow> (p, []) | Some previous \<Rightarrow> supersede previous p) of (p1, o1) \<Rightarrow>
           case accept_runner scope p1 of (p2, o2) \<Rightarrow> (p2, o1 @ o2, Switching_protocols)))"

definition forget_sessions :: "conn \<Rightarrow> (id \<times> conn) list \<Rightarrow> (id \<times> conn) list" where
  "forget_sessions c owners = filter (\<lambda>e. snd e \<noteq> c) owners"

definition closeRunner :: "conn \<Rightarrow> pool \<Rightarrow> pool \<times> pool_output list" where
  "closeRunner c p =
     (case rejectPendingCommands c ''runner channel closed'' p of (p1, o1) \<Rightarrow>
      case rejectPendingSandbox c ''runner channel closed'' p1 of (p2, o2) \<Rightarrow>
        if \<not> registered p2 c then (p2, o1 @ o2)
        else
          (p2\<lparr>po_runners := AList.delete (rs_runner (scope_of p2 c)) (po_runners p2),
              po_sessions := forget_sessions c (po_sessions p2),
              po_backfill := forget_sessions c (po_backfill p2),
              po_backfills := filter (\<lambda>e. \<not> owned_by c e) (po_backfills p2)\<rparr>,
           o1 @ o2 @ reject_all K_backfill c ''runner channel closed'' (po_backfills p2)))"

definition socket_closed :: "conn \<Rightarrow> pool \<Rightarrow> pool \<times> pool_output list" where
  "socket_closed c p = closeRunner c (set_conn c (\<lambda>k. k\<lparr>cn_open := False\<rparr>) p)"

definition failRunnerConnection :: "conn \<Rightarrow> nat \<Rightarrow> string \<Rightarrow> pool \<Rightarrow> pool \<times> pool_output list" where
  "failRunnerConnection c code reason p =
     (case closeRunner c p of (p1, o1) \<Rightarrow> case close_socket c code reason p1 of (p2, o2) \<Rightarrow> (p2, o1 @ o2))"

definition connectionForSession :: "id \<Rightarrow> pool \<Rightarrow> conn option" where
  "connectionForSession sessionId p =
     (case map_of (po_sessions p) sessionId of
        None \<Rightarrow> None | Some c \<Rightarrow> if registered p c then Some c else None)"

definition connectionForBackfill :: "id \<Rightarrow> pool \<Rightarrow> conn option" where
  "connectionForBackfill sessionId p =
     (case map_of (po_backfill p) sessionId of
        None \<Rightarrow> None | Some c \<Rightarrow> if registered p c then Some c else None)"

definition status :: "json \<Rightarrow> pool \<Rightarrow> bool" where
  "status body p =
     (case jstr (jget body ''sessionId'') of
        None \<Rightarrow> False
      | Some s \<Rightarrow> (case connectionForSession s p of None \<Rightarrow> False | Some c \<Rightarrow> is_open p c))"

definition take_session :: "id \<Rightarrow> conn \<Rightarrow> pool \<Rightarrow> pool" where
  "take_session sessionId c p =
     p\<lparr>po_sessions := AList.update sessionId c (po_sessions p), po_backfill := AList.update sessionId c (po_backfill p)\<rparr>"

section \<open>Assigning work\<close>

type_synonym pool_db = "pool \<times> db"

record dispatch_world =
  dw_before_find :: "pool_db \<Rightarrow> pool_db"
  dw_find_at :: time
  dw_claim :: claim_world
  dw_during_claim :: "pool \<Rightarrow> pool"
  dw_before_item :: "pool_db \<Rightarrow> pool_db"
  dw_before_payload :: "pool_db \<Rightarrow> pool_db"
  dw_during_payload :: "pool_db \<Rightarrow> pool_db"
  dw_send_throws :: bool

definition candidates :: "(id \<Rightarrow> string) \<Rightarrow> id \<Rightarrow> id \<Rightarrow> id \<Rightarrow> pool \<Rightarrow> conn list" where
  "candidates collate organizationId projectId environmentId p =
     sort_key (\<lambda>c. (cn_assigned (po_conns p c), collate (rs_runner (scope_of p c))))
       (filter (\<lambda>c. rs_organization (scope_of p c) = organizationId \<and> rs_project (scope_of p c) = projectId \<and>
                    rs_environment (scope_of p c) = environmentId \<and> is_open p c)
         (map snd (po_runners p)))"

definition work_sent ::
    "dispatch_world \<Rightarrow> conn \<Rightarrow> lease_row \<Rightarrow> work_item_row \<Rightarrow> json \<Rightarrow> pool_db \<Rightarrow> pool_db \<times> pool_output list \<times> (id \<times> id) option" where
  "work_sent w c lease workItem payload s =
     (if dw_send_throws w then (s, [], None)
      else
        let p1 = set_conn c (\<lambda>k. k\<lparr>cn_assigned := cn_assigned k + 1\<rparr>) (fst s);
            p2 = (if truthy_str (wi_session workItem) then take_session (the (wi_session workItem)) c p1 else p1) in
        ((p2, snd s), [O_send c (F_work_assigned (rs_runner (scope_of p1 c)) lease workItem payload)],
         Some (rs_runner (scope_of p1 c), le_id lease)))"

definition dispatch_claimed ::
    "dispatch_world \<Rightarrow> id \<Rightarrow> id \<Rightarrow> conn \<Rightarrow> lease_row \<Rightarrow> pool_db \<Rightarrow> pool_db \<times> pool_output list \<times> (id \<times> id) option" where
  "dispatch_claimed w projectId workItemId c lease s =
     (let s1 = dw_before_item w s in
      case findWorkItemRow projectId workItemId (snd s1) of
        None \<Rightarrow> (s1, [], None)
      | Some workItem \<Rightarrow>
          (let s2 = dw_before_payload w s1 in
           case materializeWorkItemPayload (cw_secrets (dw_claim w)) projectId (wi_id workItem) (snd s2) of
             Inl _ \<Rightarrow> (dw_during_payload w s2, [], None)
           | Inr payload \<Rightarrow> work_sent w c lease workItem payload (dw_during_payload w s2)))"

definition dispatch_to ::
    "dispatch_world \<Rightarrow> id \<Rightarrow> id \<Rightarrow> id \<Rightarrow> id \<Rightarrow> conn \<Rightarrow> pool_db \<Rightarrow> pool_db \<times> pool_output list \<times> (id \<times> id) option" where
  "dispatch_to w organizationId projectId environmentId workItemId c s =
     (let s1 = dw_before_find w s in
      case runner_find projectId (rs_runner (scope_of (fst s1) c)) (dw_find_at w) (snd s1) of
        None \<Rightarrow> (s1, [], None)
      | Some runner \<Rightarrow>
          if ru_environment runner \<noteq> Some environmentId \<or> ru_state runner \<noteq> R_active then (s1, [], None)
          else if cn_assigned (po_conns (fst s1) c) \<ge> ru_max runner then (s1, [], None)
          else
            (case claimLease (dw_claim w) organizationId projectId runner workItemId None (snd s1) of
               (d2, Inl _) \<Rightarrow> ((dw_during_claim w (fst s1), d2), [], None)
             | (d2, Inr lease) \<Rightarrow>
                 dispatch_claimed w projectId workItemId c lease (dw_during_claim w (fst s1), d2)))"

fun dispatch_loop ::
    "(conn \<Rightarrow> dispatch_world) \<Rightarrow> id \<Rightarrow> id \<Rightarrow> id \<Rightarrow> id \<Rightarrow> conn list \<Rightarrow> pool_db \<Rightarrow> pool_db \<times> pool_output list \<times> (id \<times> id) option" where
  "dispatch_loop w organizationId projectId environmentId workItemId [] s = (s, [], None)"
| "dispatch_loop w organizationId projectId environmentId workItemId (c # cs) s =
     (case dispatch_to (w c) organizationId projectId environmentId workItemId c s of
        (s1, os, Some r) \<Rightarrow> (s1, os, Some r)
      | (s1, os, None) \<Rightarrow>
          (case dispatch_loop w organizationId projectId environmentId workItemId cs s1 of
             (s2, os', r) \<Rightarrow> (s2, os @ os', r)))"

definition dispatchOne ::
    "(conn \<Rightarrow> dispatch_world) \<Rightarrow> (id \<Rightarrow> string) \<Rightarrow> id \<Rightarrow> id \<Rightarrow> id \<Rightarrow> id \<Rightarrow> pool_db \<Rightarrow> pool_db \<times> pool_output list \<times> (id \<times> id) option" where
  "dispatchOne w collate organizationId projectId environmentId workItemId s =
     dispatch_loop w organizationId projectId environmentId workItemId
       (candidates collate organizationId projectId environmentId (fst s)) s"

datatype assign_response = Bad_assignment | Assigned id id | No_capacity

definition assignWork ::
    "(conn \<Rightarrow> dispatch_world) \<Rightarrow> (id \<Rightarrow> string) \<Rightarrow> json \<Rightarrow> pool_db \<Rightarrow> pool_db \<times> pool_output list \<times> assign_response" where
  "assignWork w collate body s =
     (case (nonempty_str (jget body ''organizationId''), nonempty_str (jget body ''projectId''),
            nonempty_str (jget body ''environmentId''), nonempty_str (jget body ''workItemId'')) of
        (Some org, Some project, Some environment, Some workItem) \<Rightarrow>
          (case dispatchOne w collate org project environment workItem s of
             (s1, os, Some (runner, lease)) \<Rightarrow> (s1, os, Assigned runner lease)
           | (s1, os, None) \<Rightarrow> (s1, os, No_capacity))
      | _ \<Rightarrow> (s, [], Bad_assignment))"

definition available_query :: "id \<Rightarrow> work_query" where
  "available_query projectId = \<lparr>wq_project = projectId, wq_state = Some W_available, wq_session = None, wq_runner = None,
     wq_search = None, wq_from = None, wq_to = None\<rparr>"

fun dispatch_items ::
    "(id \<Rightarrow> conn \<Rightarrow> dispatch_world) \<Rightarrow> (id \<Rightarrow> string) \<Rightarrow> runner_scope \<Rightarrow> work_item_row list \<Rightarrow> pool_db \<Rightarrow> pool_db \<times> pool_output list" where
  "dispatch_items w collate scope [] s = (s, [])"
| "dispatch_items w collate scope (i # is) s =
     (if wi_environment i \<noteq> Some (rs_environment scope) then dispatch_items w collate scope is s
      else
        (case dispatchOne (w (wi_id i)) collate (rs_organization scope) (rs_project scope) (rs_environment scope) (wi_id i) s of
           (s1, os, _) \<Rightarrow> (case dispatch_items w collate scope is s1 of (s2, os') \<Rightarrow> (s2, os @ os'))))"

definition dispatchAvailableWork ::
    "(pool_db \<Rightarrow> pool_db) \<Rightarrow> (id \<Rightarrow> conn \<Rightarrow> dispatch_world) \<Rightarrow> (id \<Rightarrow> string) \<Rightarrow> runner_scope \<Rightarrow> pool_db \<Rightarrow> pool_db \<times> pool_output list" where
  "dispatchAvailableWork before_list w collate scope s =
     (let s1 = before_list s in
      dispatch_items w collate scope (fst (work_item_list (available_query (rs_project scope)) 20 None (snd s1))) s1)"

definition retryAvailableWork ::
    "(pool_db \<Rightarrow> pool_db) \<Rightarrow> time \<Rightarrow> (pool_db \<Rightarrow> pool_db) \<Rightarrow> (id \<Rightarrow> conn \<Rightarrow> dispatch_world) \<Rightarrow> (id \<Rightarrow> string) \<Rightarrow>
     json \<Rightarrow> pool_db \<Rightarrow> pool_db \<times> pool_output list \<times> bool" where
  "retryAvailableWork before_find find_at before_list w collate body s =
     (case (nonempty_str (jget body ''runnerId''), nonempty_str (jget body ''organizationId''),
            nonempty_str (jget body ''projectId''), nonempty_str (jget body ''environmentId'')) of
        (Some runnerId, Some org, Some project, Some environment) \<Rightarrow>
          (let s1 = (case map_of (po_runners (fst s)) runnerId of
                       None \<Rightarrow> s
                     | Some c \<Rightarrow>
                         if rs_environment (scope_of (fst s) c) \<noteq> environment then s
                         else
                           let s0 = before_find s in
                           case runner_find project runnerId find_at (snd s0) of
                             None \<Rightarrow> s0
                           | Some runner \<Rightarrow> (set_conn c (\<lambda>k. k\<lparr>cn_assigned := ru_load runner\<rparr>) (fst s0), snd s0)) in
           case dispatchAvailableWork before_list w collate
                  \<lparr>rs_runner = runnerId, rs_organization = org, rs_project = project, rs_environment = environment,
                   rs_acknowledges = False\<rparr> s1 of
             (s2, os) \<Rightarrow> (s2, os, True))
      | _ \<Rightarrow> (s, [], False))"

definition leased_query :: "id \<Rightarrow> id \<Rightarrow> work_query" where
  "leased_query projectId runnerId = \<lparr>wq_project = projectId, wq_state = Some W_leased, wq_session = None,
     wq_runner = Some runnerId, wq_search = None, wq_from = None, wq_to = None\<rparr>"

definition restore_session :: "conn \<Rightarrow> work_item_row \<Rightarrow> pool \<Rightarrow> pool" where
  "restore_session c i p =
     (case wi_session i of
        None \<Rightarrow> p
      | Some sessionId \<Rightarrow>
          if wi_environment i \<noteq> Some (rs_environment (scope_of p c)) \<or> sessionId = [] then p
          else (case map_of (po_sessions p) sessionId of
                  None \<Rightarrow> take_session sessionId c p
                | Some owner \<Rightarrow> if owner = c then take_session sessionId c p else p))"

definition restoreActiveSessions :: "(pool_db \<Rightarrow> pool_db) \<Rightarrow> conn \<Rightarrow> pool_db \<Rightarrow> pool_db" where
  "restoreActiveSessions during_list c s =
     (let scope = scope_of (fst s) c;
          rows = fst (work_item_list (leased_query (rs_project scope) (rs_runner scope)) 100 None (snd s));
          s1 = during_list s in
      if \<not> registered (fst s1) c \<or> cn_advertised (po_conns (fst s1) c) then s1
      else (fold (restore_session c) rows (fst s1), snd s1))"

section \<open>Requests to a runner\<close>

definition commandRequestKey :: "id \<Rightarrow> id \<Rightarrow> string" where
  "commandRequestKey sessionId requestId = sessionId @ [CHR 0x00] @ requestId"

datatype request_start =
    Refused string
  | Waiting string

definition sendCommandRequest ::
    "bool \<Rightarrow> conn \<Rightarrow> id \<Rightarrow> json option \<Rightarrow> id \<Rightarrow> pool \<Rightarrow> pool \<times> pool_output list \<times> request_start" where
  "sendCommandRequest send_throws c sessionId command requestId p =
     (let key = commandRequestKey sessionId requestId in
      case map_of (po_commands p) key of
        Some existing \<Rightarrow>
          (p, [], Refused (if pc_command existing = command then ''runner command is already pending''
                           else ''runner command id conflict''))
      | None \<Rightarrow>
          let opened = [O_open K_command key, O_timer K_command key 5000] in
          if send_throws
          then (p, opened @ [O_settle K_command key (Inl ''runner command send failed'')], Waiting key)
          else (p\<lparr>po_commands := AList.update key \<lparr>pd_conn = c, pd_session = sessionId, pc_request = requestId,
                     pc_command = command\<rparr> (po_commands p)\<rparr>,
                opened @ [O_send c (F_command requestId sessionId (rs_runner (scope_of p c)) command)], Waiting key))"

definition command_request_id :: "id \<Rightarrow> json option \<Rightarrow> id" where
  "command_request_id freshId requestId =
     (case jstr requestId of
        None \<Rightarrow> ''command_'' @ freshId
      | Some r \<Rightarrow> if 0 < length r \<and> length r \<le> 160 then r else ''command_'' @ freshId)"

definition dispatch :: "bool \<Rightarrow> id \<Rightarrow> json \<Rightarrow> pool \<Rightarrow> pool \<times> pool_output list \<times> request_start" where
  "dispatch send_throws freshId body p =
     (case jstr (jget body ''sessionId'') of
        None \<Rightarrow> (p, [], Refused '''')
      | Some sessionId \<Rightarrow>
          (case connectionForSession sessionId p of
             None \<Rightarrow> (p, [], Refused '''')
           | Some c \<Rightarrow>
               if \<not> is_open p c then (p, [], Refused '''')
               else if \<not> rs_acknowledges (scope_of p c)
               then (p, [], Refused ''Runner must be upgraded to accept acknowledged commands'')
               else sendCommandRequest send_throws c sessionId (jget body ''command'')
                      (command_request_id freshId (jget body ''requestId'')) p))"

definition command_timeout :: "string \<Rightarrow> pool \<Rightarrow> pool \<times> pool_output list" where
  "command_timeout key p =
     (if map_of (po_commands p) key = None then (p, [])
      else (p\<lparr>po_commands := AList.delete key (po_commands p)\<rparr>,
            [O_settle K_command key (Inl ''runner command acknowledgement timed out'')]))"

definition is_object :: "json option \<Rightarrow> bool" where
  "is_object v \<longleftrightarrow> (case v of Some (JObj _) \<Rightarrow> True | Some (JArr _) \<Rightarrow> True | _ \<Rightarrow> False)"

definition timeout_ms :: "rat \<Rightarrow> json option \<Rightarrow> rat" where
  "timeout_ms fallback v = max 1 (case v of Some (JNum n) \<Rightarrow> n | _ \<Rightarrow> fallback)"

definition sendSandboxRequest :: "conn \<Rightarrow> id \<Rightarrow> json \<Rightarrow> id \<Rightarrow> rat \<Rightarrow> pool \<Rightarrow> pool \<times> pool_output list \<times> request_start" where
  "sendSandboxRequest c sessionId request freshId timeoutMs p =
     (let key = ''sandbox_'' @ freshId in
      (p\<lparr>po_sandbox := AList.update key \<lparr>pd_conn = c, pd_session = sessionId\<rparr> (po_sandbox p)\<rparr>,
       [O_open K_sandbox key, O_timer K_sandbox key timeoutMs,
        O_send c (F_sandbox_request key sessionId (rs_runner (scope_of p c)) request)], Waiting key))"

definition requestRunnerSandbox :: "id \<Rightarrow> json \<Rightarrow> pool \<Rightarrow> pool \<times> pool_output list \<times> request_start" where
  "requestRunnerSandbox freshId body p =
     (let unavailable = (p, [], Refused ''Runner sandbox channel is unavailable'') in
      case (jstr (jget body ''sessionId''), jget body ''request'') of
        (Some sessionId, Some request) \<Rightarrow>
          if \<not> is_object (Some request) then unavailable
          else
            (case connectionForSession sessionId p of
               None \<Rightarrow> unavailable
             | Some c \<Rightarrow>
                 if \<not> is_open p c then unavailable
                 else sendSandboxRequest c sessionId request freshId (timeout_ms 120000 (jget body ''timeoutMs'')) p)
      | _ \<Rightarrow> unavailable)"

definition sandbox_timeout :: "string \<Rightarrow> pool \<Rightarrow> pool \<times> pool_output list" where
  "sandbox_timeout key p =
     (if map_of (po_sandbox p) key = None then (p, [])
      else (p\<lparr>po_sandbox := AList.delete key (po_sandbox p)\<rparr>,
            [O_settle K_sandbox key (Inl ''runner sandbox request timed out'')]))"

definition session_query :: "id \<Rightarrow> id \<Rightarrow> work_query" where
  "session_query projectId sessionId = \<lparr>wq_project = projectId, wq_state = None, wq_session = Some sessionId,
     wq_runner = None, wq_search = None, wq_from = None, wq_to = None\<rparr>"

fun backfill_connection :: "id \<Rightarrow> work_item_row list \<Rightarrow> pool \<Rightarrow> conn option" where
  "backfill_connection projectId [] p = None"
| "backfill_connection projectId (i # is) p =
     (case (wi_runner i, wi_environment i) of
        (Some runnerId, Some environmentId) \<Rightarrow>
          (case map_of (po_runners p) runnerId of
             Some c \<Rightarrow>
               if runnerId \<noteq> [] \<and> is_open p c \<and> rs_project (scope_of p c) = projectId \<and> rs_environment (scope_of p c) = environmentId
               then Some c else backfill_connection projectId is p
           | None \<Rightarrow> backfill_connection projectId is p)
      | _ \<Rightarrow> backfill_connection projectId is p)"

definition restoreBackfillConnection :: "(pool_db \<Rightarrow> pool_db) \<Rightarrow> id \<Rightarrow> id \<Rightarrow> pool_db \<Rightarrow> pool_db \<times> conn option" where
  "restoreBackfillConnection during_list projectId sessionId s =
     (let rows = fst (work_item_list (session_query projectId sessionId) 20 None (snd s));
          s1 = during_list s in
      case backfill_connection projectId rows (fst s1) of
        None \<Rightarrow> (s1, None)
      | Some c \<Rightarrow> (((fst s1)\<lparr>po_backfill := AList.update sessionId c (po_backfill (fst s1))\<rparr>, snd s1), Some c))"

definition sendBackfillRequest :: "conn \<Rightarrow> id \<Rightarrow> id \<Rightarrow> rat \<Rightarrow> pool \<Rightarrow> pool \<times> pool_output list \<times> request_start" where
  "sendBackfillRequest c sessionId freshId timeoutMs p =
     (let key = ''backfill_'' @ freshId in
      (p\<lparr>po_backfills := AList.update key \<lparr>pd_conn = c, pd_session = sessionId\<rparr> (po_backfills p)\<rparr>,
       [O_open K_backfill key, O_timer K_backfill key timeoutMs,
        O_send c (F_backfill_request key sessionId (rs_runner (scope_of p c)))], Waiting key))"

definition requestRunnerBackfill ::
    "(pool_db \<Rightarrow> pool_db) \<Rightarrow> id \<Rightarrow> json \<Rightarrow> pool_db \<Rightarrow> pool_db \<times> pool_output list \<times> request_start" where
  "requestRunnerBackfill during_list freshId body s =
     (case (jstr (jget body ''sessionId''), jstr (jget body ''projectId'')) of
        (Some sessionId, Some projectId) \<Rightarrow>
          if \<not> truthy (jget body ''query'') then (s, [], Refused ''runnerUnavailable'')
          else
            (case (case connectionForBackfill sessionId (fst s) of
                     Some c \<Rightarrow> (s, Some c)
                   | None \<Rightarrow> restoreBackfillConnection during_list projectId sessionId s) of
               (s1, None) \<Rightarrow> (s1, [], Refused ''runnerUnavailable'')
             | (s1, Some c) \<Rightarrow>
                 if \<not> is_open (fst s1) c then (s1, [], Refused ''runnerUnavailable'')
                 else (case sendBackfillRequest c sessionId freshId (timeout_ms 30000 (jget body ''timeoutMs'')) (fst s1) of
                         (p2, os, r) \<Rightarrow> ((p2, snd s1), os, r)))
      | _ \<Rightarrow> (s, [], Refused ''runnerUnavailable''))"

definition backfill_page ::
    "(string \<Rightarrow> string) \<Rightarrow> runner_scope \<Rightarrow> id \<Rightarrow> string event_query \<Rightarrow> string + answer \<Rightarrow> (string session_event list \<times> bool) option" where
  "backfill_page scrub scope sessionId q settled =
     (case settled of
        Inr (Backfill_events evs) \<Rightarrow>
          (case pageRelayedEvents scrub evs \<lparr>ec_organization = rs_organization scope, ec_project = rs_project scope,
                  ec_session = sessionId\<rparr> q of
             Inl _ \<Rightarrow> None | Inr page \<Rightarrow> Some page)
      | _ \<Rightarrow> None)"

definition backfill_timeout :: "string \<Rightarrow> pool \<Rightarrow> pool \<times> pool_output list" where
  "backfill_timeout key p =
     (if map_of (po_backfills p) key = None then (p, [])
      else (p\<lparr>po_backfills := AList.delete key (po_backfills p)\<rparr>,
            [O_settle K_backfill key (Inl ''runner backfill request timed out'')]))"

section \<open>Messages from a runner\<close>

text \<open>A frame is the parsed message; text that is no JSON and JSON that is no object is ignored.\<close>

definition relayedRunnerEventFrom :: "json option \<Rightarrow> string relayed_event option" where
  "relayedRunnerEventFrom v =
     (if \<not> is_jobj v \<or> \<not> is_jobj (jopt v ''payload'') then None
      else case (jstr (jopt v ''id''), jstr (jopt v ''sessionId''), jopt v ''sequence'', jstr (jopt v ''createdAt''),
                 jstr (jopt v ''type'')) of
        (Some i, Some sessionId, Some (JNum sequence), Some createdAt, Some ty) \<Rightarrow>
          if isEnborSessionEventType ty
          then Some \<lparr>re_id = i, re_session = sessionId, re_sequence = sequence, re_created = createdAt, re_type = ty,
                     re_payload = the (jopt v ''payload'')\<rparr>
          else None
      | _ \<Rightarrow> None)"

definition resolveCommandResponse :: "conn \<Rightarrow> json \<Rightarrow> pool \<Rightarrow> pool \<times> pool_output list" where
  "resolveCommandResponse c frame p =
     (case (nonempty_str (jget frame ''requestId''), nonempty_str (jget frame ''sessionId'')) of
        (Some requestId, Some sessionId) \<Rightarrow>
          if jget frame ''runnerId'' \<noteq> Some (JStr (rs_runner (scope_of p c))) then (p, [])
          else
            (case map_of (po_commands p) (commandRequestKey sessionId requestId) of
               None \<Rightarrow> (p, [])
             | Some e \<Rightarrow>
                 if pd_conn e \<noteq> c \<or> pd_session e \<noteq> sessionId \<or> pc_request e \<noteq> requestId then (p, [])
                 else (p\<lparr>po_commands := AList.delete (commandRequestKey sessionId requestId) (po_commands p)\<rparr>,
                       [O_settle K_command (commandRequestKey sessionId requestId)
                          (Inr (Accepted (jget frame ''accepted'' = Some (JBool True))))]))
      | _ \<Rightarrow> (p, []))"

definition sandbox_outcome :: "json \<Rightarrow> string + answer" where
  "sandbox_outcome frame =
     (if jget frame ''ok'' = Some (JBool False)
      then Inl (case jstr (jget frame ''error'') of None \<Rightarrow> ''runner sandbox request failed'' | Some e \<Rightarrow> e)
      else Inr (Sandbox_result (case jget frame ''result'' of Some (JObj kvs) \<Rightarrow> JObj kvs | _ \<Rightarrow> JObj [])))"

definition resolveSandboxResponse :: "conn \<Rightarrow> json \<Rightarrow> pool \<Rightarrow> pool \<times> pool_output list" where
  "resolveSandboxResponse c frame p =
     (case (nonempty_str (jget frame ''requestId''), nonempty_str (jget frame ''sessionId'')) of
        (Some requestId, Some sessionId) \<Rightarrow>
          if jget frame ''runnerId'' \<noteq> Some (JStr (rs_runner (scope_of p c))) then (p, [])
          else
            (case map_of (po_sandbox p) requestId of
               None \<Rightarrow> (p, [])
             | Some e \<Rightarrow>
                 if pd_conn e \<noteq> c \<or> pd_session e \<noteq> sessionId then (p, [])
                 else (p\<lparr>po_sandbox := AList.delete requestId (po_sandbox p)\<rparr>,
                       [O_settle K_sandbox requestId (sandbox_outcome frame)]))
      | _ \<Rightarrow> (p, []))"

definition backfill_outcome :: "id \<Rightarrow> json \<Rightarrow> string + answer" where
  "backfill_outcome sessionId frame =
     (case jstr (jget frame ''error'') of
        Some e \<Rightarrow> Inl e
      | None \<Rightarrow>
          Inr (Backfill_events
            (case jarr (jget frame ''events'') of
               None \<Rightarrow> []
             | Some vs \<Rightarrow> filter (\<lambda>r. re_session r = sessionId) (List.map_filter (\<lambda>v. relayedRunnerEventFrom (Some v)) vs))))"

definition resolveBackfillResponse :: "conn \<Rightarrow> json \<Rightarrow> pool \<Rightarrow> pool \<times> pool_output list" where
  "resolveBackfillResponse c frame p =
     (case (nonempty_str (jget frame ''eventId''), nonempty_str (jget frame ''sessionId'')) of
        (Some requestId, Some sessionId) \<Rightarrow>
          (case map_of (po_backfills p) requestId of
             None \<Rightarrow> (p, [])
           | Some e \<Rightarrow>
               if pd_conn e \<noteq> c \<or> pd_session e \<noteq> sessionId then (p, [])
               else (p\<lparr>po_backfills := AList.delete requestId (po_backfills p)\<rparr>,
                     [O_settle K_backfill requestId (backfill_outcome sessionId frame)]))
      | _ \<Rightarrow> (p, []))"

fun unique_first :: "'a list \<Rightarrow> 'a list" where
  "unique_first [] = []"
| "unique_first (x # xs) = x # filter (\<lambda>y. y \<noteq> x) (unique_first xs)"

record advertise_world =
  aw_during :: "pool_db \<Rightarrow> pool_db"
  aw_fails :: bool

definition advertised_ids :: "json list \<Rightarrow> id list" where
  "advertised_ids vs = unique_first (List.map_filter (\<lambda>v. nonempty_str (Some v)) vs)"

definition validated_ids :: "runner_scope \<Rightarrow> work_item_row list \<Rightarrow> id list \<Rightarrow> id list" where
  "validated_ids scope assignments ids =
     filter (\<lambda>sessionId. list_ex (\<lambda>a. wi_session a = Some sessionId \<and> wi_runner a = Some (rs_runner scope) \<and>
                                    wi_environment a = Some (rs_environment scope)) assignments) ids"

definition replaceRunnerSessions ::
    "advertise_world \<Rightarrow> conn \<Rightarrow> json \<Rightarrow> pool_db \<Rightarrow> pool_db \<times> pool_output list" where
  "replaceRunnerSessions w c frame s =
     (let scope = scope_of (fst s) c in
      case jarr (jget frame ''sessionIds'') of
        None \<Rightarrow> (s, [])
      | Some vs \<Rightarrow>
          if jget frame ''runnerId'' \<noteq> Some (JStr (rs_runner scope)) then (s, [])
          else if length vs > MAX_ADVERTISED_SESSIONS
          then (case failRunnerConnection c 1009 ''Too many active sessions advertised'' (fst s) of
                  (p1, os) \<Rightarrow> ((p1, snd s), os))
          else
            let ids = advertised_ids vs;
                assignments = findLatestBySessions (rs_project scope) ids (snd s);
                s1 = aw_during w (set_conn c (\<lambda>k. k\<lparr>cn_advertised := True\<rparr>) (fst s), snd s);
                p1 = fst s1 in
            if aw_fails w
            then (if registered p1 c
                  then (case failRunnerConnection c 1011 ''Session ownership validation failed''
                               (set_conn c (\<lambda>k. k\<lparr>cn_advertised := False\<rparr>) p1) of
                          (p2, os) \<Rightarrow> ((p2, snd s1), os))
                  else (s1, []))
            else if \<not> registered p1 c then (s1, [])
            else
              ((fold (\<lambda>sessionId. take_session sessionId c) (validated_ids scope assignments ids)
                  (p1\<lparr>po_sessions := forget_sessions c (po_sessions p1)\<rparr>), snd s1), []))"

definition retireRunnerSession :: "conn \<Rightarrow> json \<Rightarrow> pool \<Rightarrow> pool" where
  "retireRunnerSession c frame p =
     (case nonempty_str (jget frame ''sessionId'') of
        None \<Rightarrow> p
      | Some sessionId \<Rightarrow>
          if jget frame ''runnerId'' \<noteq> Some (JStr (rs_runner (scope_of p c))) then p
          else if map_of (po_sessions p) sessionId = Some c
          then p\<lparr>po_sessions := AList.delete sessionId (po_sessions p)\<rparr> else p)"

definition work_finished :: "conn \<Rightarrow> json \<Rightarrow> pool \<Rightarrow> pool \<times> pool_output list" where
  "work_finished c frame p =
     (let p1 = set_conn c (\<lambda>k. k\<lparr>cn_assigned := cn_assigned k - 1\<rparr>) p;
          active = (jget frame ''sessionActive'' = Some (JBool True));
          p2 = (case nonempty_str (jget frame ''sessionId'') of
                  None \<Rightarrow> p1
                | Some sessionId \<Rightarrow>
                    if map_of (po_sessions p1) sessionId \<noteq> Some c then p1
                    else if active then take_session sessionId c p1
                    else p1\<lparr>po_sessions := AList.delete sessionId (po_sessions p1)\<rparr>) in
      (p2, [O_dispatch (scope_of p2 c)]))"

definition handleRunnerEvent :: "conn \<Rightarrow> json \<Rightarrow> pool \<Rightarrow> pool_output list" where
  "handleRunnerEvent c frame p =
     (case (nonempty_str (jget frame ''sessionId''), relayedRunnerEventFrom (jget frame ''record'')) of
        (Some sessionId, Some raw) \<Rightarrow>
          if map_of (po_sessions p) sessionId \<noteq> Some c \<or> re_session raw \<noteq> sessionId then []
          else [O_fan_out \<lparr>ec_organization = rs_organization (scope_of p c), ec_project = rs_project (scope_of p c),
                  ec_session = sessionId\<rparr> raw]
      | _ \<Rightarrow> [])"

definition on_pool :: "pool \<times> pool_output list \<Rightarrow> db \<Rightarrow> pool_db \<times> pool_output list" where
  "on_pool r d = ((fst r, d), snd r)"

definition handleRunnerMessage ::
    "advertise_world \<Rightarrow> conn \<Rightarrow> json option \<Rightarrow> pool_db \<Rightarrow> pool_db \<times> pool_output list" where
  "handleRunnerMessage w c parsed s =
     (let p = fst s; d = snd s in
      if \<not> is_object parsed \<or> \<not> registered p c then (s, [])
      else
        let frame = the parsed; ty = jget frame ''type'' in
        if ty = Some (JStr ''session.command.result'') then on_pool (resolveCommandResponse c frame p) d
        else if ty = Some (JStr ''sandbox.response'') then on_pool (resolveSandboxResponse c frame p) d
        else if ty = Some (JStr ''session.backfill_response'') then on_pool (resolveBackfillResponse c frame p) d
        else if ty = Some (JStr ''runner.sessions.active'') then replaceRunnerSessions w c frame s
        else if ty = Some (JStr ''runner.session.inactive'') then ((retireRunnerSession c frame p, d), [])
        else if ty \<in> {Some (JStr ''work.completed''), Some (JStr ''work.failed''), Some (JStr ''work.cancelled'')}
        then on_pool (work_finished c frame p) d
        else if ty \<noteq> Some (JStr ''runner.event'') then (s, [])
        else (s, handleRunnerEvent c frame p))"

end
