(* ===== verification/RunnerPoolFacts.thy ===== *)
theory RunnerPoolFacts
  imports RunnerPool
begin

text \<open>
  What holds of the runner pool through every interleaving of its handlers: each request that was
  opened is pending or was settled, exactly once; commands and sandbox requests are pending only on the
  registered channel of their runner; answers come from the channel a request was sent to. The atomic
  sections of the handlers are the steps of a transition system.
\<close>

section \<open>Requests are settled once\<close>

definition pending_keys :: "request_kind \<Rightarrow> pool \<Rightarrow> string list" where
  "pending_keys kind p =
     (case kind of K_command \<Rightarrow> map fst (po_commands p) | K_sandbox \<Rightarrow> map fst (po_sandbox p)
      | K_backfill \<Rightarrow> map fst (po_backfills p))"

fun settles :: "request_kind \<Rightarrow> string \<Rightarrow> pool_output \<Rightarrow> bool" where
  "settles kind key (O_settle kind' key' r) \<longleftrightarrow> kind = kind' \<and> key = key'"
| "settles kind key _ \<longleftrightarrow> False"

definition opened :: "request_kind \<Rightarrow> string \<Rightarrow> pool_output list \<Rightarrow> nat" where
  "opened kind key os = count_list os (O_open kind key)"

definition settled :: "request_kind \<Rightarrow> string \<Rightarrow> pool_output list \<Rightarrow> nat" where
  "settled kind key os = length (filter (settles kind key) os)"

definition balanced :: "pool \<Rightarrow> pool_output list \<Rightarrow> pool \<Rightarrow> bool" where
  "balanced p os p' \<longleftrightarrow>
     (\<forall>kind key. count_list (pending_keys kind p) key + opened kind key os =
                 count_list (pending_keys kind p') key + settled kind key os)"

lemma opened_simps [simp]:
  "opened kind key [] = 0" "opened kind key (o1 # os) = (if o1 = O_open kind key then 1 else 0) + opened kind key os"
  "opened kind key (os @ os') = opened kind key os + opened kind key os'"
  by (simp_all add: opened_def)

lemma settled_simps [simp]:
  "settled kind key [] = 0" "settled kind key (o1 # os) = (if settles kind key o1 then 1 else 0) + settled kind key os"
  "settled kind key (os @ os') = settled kind key os + settled kind key os'"
  by (simp_all add: settled_def)

lemma balanced_refl [intro, simp]: "balanced p [] p"
  by (simp add: balanced_def)

lemma balanced_trans: "balanced p os p1 \<Longrightarrow> balanced p1 os' p2 \<Longrightarrow> balanced p (os @ os') p2"
  unfolding balanced_def opened_simps settled_simps
proof (intro allI)
  fix kind key
  assume "\<forall>kind key. count_list (pending_keys kind p) key + opened kind key os = count_list (pending_keys kind p1) key + settled kind key os"
    "\<forall>kind key. count_list (pending_keys kind p1) key + opened kind key os' = count_list (pending_keys kind p2) key + settled kind key os'"
  then have "count_list (pending_keys kind p) key + opened kind key os = count_list (pending_keys kind p1) key + settled kind key os"
    "count_list (pending_keys kind p1) key + opened kind key os' = count_list (pending_keys kind p2) key + settled kind key os'" by blast+
  then show "count_list (pending_keys kind p) key + (opened kind key os + opened kind key os') =
      count_list (pending_keys kind p2) key + (settled kind key os + settled kind key os')" by linarith
qed

lemma balanced_frame:
  "(\<And>kind. pending_keys kind p' = pending_keys kind p) \<Longrightarrow>
   (\<And>x. x \<in> set os \<Longrightarrow> (\<forall>kind key. x \<noteq> O_open kind key \<and> \<not> settles kind key x)) \<Longrightarrow> balanced p os p'"
  by (auto simp: balanced_def opened_def settled_def count_list_0_iff filter_empty_conv)

lemma delete_absent: "key \<notin> fst ` set t \<Longrightarrow> AList.delete key t = t"
  by (auto simp: AList.delete_eq filter_id_conv image_iff split_beta)

lemma count_delete:
  assumes "map_of t key = Some e" "distinct (map fst t)"
  shows "count_list (map fst t) key = Suc (count_list (map fst (AList.delete key t)) key) \<and>
     (i \<noteq> key \<longrightarrow> count_list (map fst (AList.delete key t)) i = count_list (map fst t) i)"
  using assms
proof (induction t)
  case (Cons x t)
  have split: "AList.delete key (x # t) = (if fst x = key then AList.delete key t else x # AList.delete key t)"
    by (simp add: AList.delete_eq split_beta)
  show ?case
  proof (cases "fst x = key")
    case True
    then have n: "key \<notin> fst ` set t" using Cons.prems(2) by auto
    show ?thesis unfolding split using True n delete_absent [OF n] by (simp add: count_list_0_iff)
  next
    case False
    then have "map_of t key = Some e" "distinct (map fst t)" using Cons.prems by (cases x; simp)+
    from Cons.IH [OF this] show ?thesis unfolding split using False by simp
  qed
qed simp

lemma update_absent: "key \<notin> fst ` set t \<Longrightarrow> AList.update key e t = t @ [(key, e)]"
  by (induction t) auto

text \<open>
  A table of pending requests inside the pool, and the three ways the code changes it: a new entry, one
  entry settled, all entries of a connection rejected.
\<close>

locale request_table =
  fixes kind :: request_kind
    and entries :: "pool \<Rightarrow> (string \<times> 'a pending_scheme) list"
    and put :: "(string \<times> 'a pending_scheme) list \<Rightarrow> pool \<Rightarrow> pool"
  assumes keys: "pending_keys kind p = map fst (entries p)"
    and put_keys: "pending_keys k (put t p) = (if k = kind then map fst t else pending_keys k p)"
begin

lemma open_balanced:
  assumes "map_of (entries p) key = None" "\<And>x. x \<in> set os \<Longrightarrow> (\<forall>k i. x \<noteq> O_open k i \<and> \<not> settles k i x)"
  shows "balanced p (O_open kind key # os) (put (AList.update key e (entries p)) p)"
proof -
  have "map fst (AList.update key e (entries p)) = map fst (entries p) @ [key]"
    using assms(1) by (simp add: map_of_eq_None_iff update_absent)
  moreover have "opened k i os = 0" "settled k i os = 0" for k i
    using assms(2) by (auto simp: opened_def settled_def count_list_0_iff filter_empty_conv)
  ultimately show ?thesis by (auto simp: balanced_def put_keys keys)
qed

lemma settle_balanced:
  assumes "map_of (entries p) key = Some e" "distinct (map fst (entries p))"
  shows "balanced p [O_settle kind key r] (put (AList.delete key (entries p)) p)"
proof -
  have "count_list (map fst (entries p)) key = Suc (count_list (map fst (AList.delete key (entries p))) key)"
    "\<And>i. i \<noteq> key \<Longrightarrow> count_list (map fst (AList.delete key (entries p))) i = count_list (map fst (entries p)) i"
    using count_delete [OF assms] by simp_all
  then show ?thesis by (auto simp: balanced_def put_keys keys)
qed

lemma reject_balanced:
  "balanced p (reject_all kind c m (entries p)) (put (filter (\<lambda>e. \<not> owned_by c e) (entries p)) p)"
proof -
  have a: "count_list (map fst t) i = count_list (map fst (filter (\<lambda>e. \<not> owned_by c e) t)) i + settled kind i (reject_all kind c m t)"
    and b: "k \<noteq> kind \<Longrightarrow> settled k i (reject_all kind c m t) = 0" and o: "opened k i (reject_all kind c m t) = 0"
    for t :: "(string \<times> 'a pending_scheme) list" and i k
    by (induction t) (auto simp: reject_all_def)
  show ?thesis
    unfolding balanced_def put_keys o
  proof (intro allI)
    fix k i
    show "count_list (pending_keys k p) i + 0 =
        count_list (if k = kind then map fst (filter (\<lambda>e. \<not> owned_by c e) (entries p)) else pending_keys k p) i +
        settled k i (reject_all kind c m (entries p))"
      using a [of "entries p" i] b [of k i "entries p"] by (cases "k = kind") (simp_all add: keys)
  qed
qed

end

interpretation commands: request_table K_command po_commands "\<lambda>t p. p\<lparr>po_commands := t\<rparr>"
  by unfold_locales (auto simp: pending_keys_def split: request_kind.splits)

interpretation sandboxes: request_table K_sandbox po_sandbox "\<lambda>t p. p\<lparr>po_sandbox := t\<rparr>"
  by unfold_locales (auto simp: pending_keys_def split: request_kind.splits)

interpretation backfills: request_table K_backfill po_backfills "\<lambda>t p. p\<lparr>po_backfills := t\<rparr>"
  by unfold_locales (auto simp: pending_keys_def split: request_kind.splits)

section \<open>The invariant of the pool\<close>

definition current :: "pool \<Rightarrow> (string \<times> 'a pending_scheme) list \<Rightarrow> bool" where
  "current p t \<longleftrightarrow> (\<forall>e \<in> set t. registered p (pd_conn (snd e)))"

definition tables_ok :: "pool \<Rightarrow> bool" where
  "tables_ok p \<longleftrightarrow>
     distinct (map fst (po_commands p)) \<and> distinct (map fst (po_sandbox p)) \<and> distinct (map fst (po_backfills p))"

definition runners_ok :: "pool \<Rightarrow> bool" where
  "runners_ok p \<longleftrightarrow> (\<forall>e \<in> set (po_runners p). rs_runner (scope_of p (snd e)) = fst e \<and> snd e < po_next p)"

definition pool_ok :: "pool \<Rightarrow> bool" where
  "pool_ok p \<longleftrightarrow> tables_ok p \<and> runners_ok p \<and> current p (po_commands p) \<and> current p (po_sandbox p)"

lemma pool_okI: "tables_ok p \<Longrightarrow> runners_ok p \<Longrightarrow> current p (po_commands p) \<Longrightarrow> current p (po_sandbox p) \<Longrightarrow> pool_ok p"
  by (simp add: pool_ok_def)

lemma pool_okD: "pool_ok p \<Longrightarrow> tables_ok p" "pool_ok p \<Longrightarrow> runners_ok p"
  "pool_ok p \<Longrightarrow> current p (po_commands p)" "pool_ok p \<Longrightarrow> current p (po_sandbox p)"
  by (simp_all add: pool_ok_def)

lemma registered_fields [simp]:
  "registered (p\<lparr>po_sessions := x\<rparr>) c = registered p c" "registered (p\<lparr>po_backfill := x\<rparr>) c = registered p c"
  "registered (p\<lparr>po_commands := y\<rparr>) c = registered p c" "registered (p\<lparr>po_sandbox := z\<rparr>) c = registered p c"
  "registered (p\<lparr>po_backfills := z\<rparr>) c = registered p c"
  by (simp_all add: registered_def scope_of_def)

lemma scope_fields [simp]:
  "scope_of (p\<lparr>po_sessions := x\<rparr>) c = scope_of p c" "scope_of (p\<lparr>po_backfill := x\<rparr>) c = scope_of p c"
  "scope_of (p\<lparr>po_commands := y\<rparr>) c = scope_of p c" "scope_of (p\<lparr>po_sandbox := z\<rparr>) c = scope_of p c"
  "scope_of (p\<lparr>po_backfills := z\<rparr>) c = scope_of p c" "scope_of (p\<lparr>po_runners := x\<rparr>) c = scope_of p c"
  by (simp_all add: scope_of_def)

lemma open_fields [simp]:
  "is_open (p\<lparr>po_sessions := x\<rparr>) c = is_open p c" "is_open (p\<lparr>po_backfill := x\<rparr>) c = is_open p c"
  "is_open (p\<lparr>po_commands := y\<rparr>) c = is_open p c" "is_open (p\<lparr>po_sandbox := z\<rparr>) c = is_open p c"
  by (simp_all add: is_open_def)

lemma set_conn_fields [simp]:
  "po_runners (set_conn c f p) = po_runners p" "po_next (set_conn c f p) = po_next p"
  "po_sessions (set_conn c f p) = po_sessions p" "po_backfill (set_conn c f p) = po_backfill p"
  "po_commands (set_conn c f p) = po_commands p" "po_sandbox (set_conn c f p) = po_sandbox p"
  "po_backfills (set_conn c f p) = po_backfills p"
  by (simp_all add: set_conn_def)

definition keeps_scope :: "(connection \<Rightarrow> connection) \<Rightarrow> bool" where
  "keeps_scope f \<longleftrightarrow> (\<forall>k. cn_scope (f k) = cn_scope k)"

lemma keeps_scope_updates [simp]:
  "keeps_scope (\<lambda>k. k\<lparr>cn_open := b\<rparr>)" "keeps_scope (\<lambda>k. k\<lparr>cn_assigned := n\<rparr>)" "keeps_scope (\<lambda>k. k\<lparr>cn_advertised := b\<rparr>)"
  "keeps_scope (\<lambda>k. k\<lparr>cn_assigned := g k\<rparr>)"
  by (simp_all add: keeps_scope_def)

lemma scope_set_conn [simp]: "keeps_scope f \<Longrightarrow> scope_of (set_conn c f p) x = scope_of p x"
  by (simp add: keeps_scope_def set_conn_def scope_of_def)

lemma registered_set_conn [simp]: "keeps_scope f \<Longrightarrow> registered (set_conn c f p) x = registered p x"
  by (simp add: registered_def)

lemma pending_keys_fields [simp]:
  "pending_keys k (p\<lparr>po_sessions := x\<rparr>) = pending_keys k p" "pending_keys k (p\<lparr>po_backfill := x\<rparr>) = pending_keys k p"
  "pending_keys k (p\<lparr>po_runners := x\<rparr>) = pending_keys k p" "pending_keys k (p\<lparr>po_conns := y\<rparr>) = pending_keys k p"
  "pending_keys k (p\<lparr>po_next := z\<rparr>) = pending_keys k p" "pending_keys k (set_conn c f p) = pending_keys k p"
  by (simp_all add: pending_keys_def set_conn_def split: request_kind.splits)

lemmas pool_simps = pool_ok_def tables_ok_def runners_ok_def current_def

lemma ok_sessions [simp]:
  "pool_ok (p\<lparr>po_sessions := x\<rparr>) = pool_ok p" "pool_ok (p\<lparr>po_backfill := x\<rparr>) = pool_ok p"
  by (simp_all add: pool_simps)

lemma ok_set_conn [simp]: "keeps_scope f \<Longrightarrow> pool_ok (set_conn c f p) = pool_ok p"
  by (simp add: pool_simps)

lemma distinct_filter_keys: "distinct (map fst t) \<Longrightarrow> distinct (map fst (filter P t))"
  by (rule distinct_map_filter)

lemma ok_reject:
  assumes "pool_ok p"
  shows "pool_ok (p\<lparr>po_commands := filter P (po_commands p)\<rparr>)" "pool_ok (p\<lparr>po_sandbox := filter Q (po_sandbox p)\<rparr>)"
    "pool_ok (p\<lparr>po_backfills := filter Q (po_backfills p)\<rparr>)"
  using assms by (simp_all add: pool_simps distinct_filter_keys)

lemma delete_filter: "AList.delete k t = filter (\<lambda>e. fst e \<noteq> k) t"
  by (auto simp: AList.delete_eq split_beta intro!: filter_cong)

lemma ok_delete:
  assumes "pool_ok p"
  shows "pool_ok (p\<lparr>po_commands := AList.delete k (po_commands p)\<rparr>)" "pool_ok (p\<lparr>po_sandbox := AList.delete k (po_sandbox p)\<rparr>)"
    "pool_ok (p\<lparr>po_backfills := AList.delete k (po_backfills p)\<rparr>)"
  using assms unfolding delete_filter by (simp_all add: ok_reject)

lemma ok_open:
  assumes "pool_ok p"
  shows "map_of (po_commands p) k = None \<Longrightarrow> registered p (pd_conn e) \<Longrightarrow> pool_ok (p\<lparr>po_commands := AList.update k e (po_commands p)\<rparr>)"
    "map_of (po_sandbox p) k = None \<Longrightarrow> registered p (pd_conn e') \<Longrightarrow> pool_ok (p\<lparr>po_sandbox := AList.update k e' (po_sandbox p)\<rparr>)"
    "map_of (po_backfills p) k = None \<Longrightarrow> pool_ok (p\<lparr>po_backfills := AList.update k e' (po_backfills p)\<rparr>)"
  using assms by (simp_all add: map_of_eq_None_iff update_absent pool_simps)

lemma registered_runner: "registered p c \<Longrightarrow> (rs_runner (scope_of p c), c) \<in> set (po_runners p)"
  by (simp add: registered_def map_of_SomeD)

lemma connection_registered: "connectionForSession s p = Some c \<Longrightarrow> registered p c"
  by (auto simp: connectionForSession_def split: option.splits if_splits)

section \<open>Connecting and closing\<close>

lemma reject_commands:
  assumes "rejectPendingCommands c m p = (p', os)"
  shows "balanced p os p'" "pool_ok p \<Longrightarrow> pool_ok p'" "p' = p\<lparr>po_commands := filter (\<lambda>e. \<not> owned_by c e) (po_commands p)\<rparr>"
  using assms commands.reject_balanced [of p c m] by (auto simp: rejectPendingCommands_def ok_reject)

lemma reject_sandbox:
  assumes "rejectPendingSandbox c m p = (p', os)"
  shows "balanced p os p'" "pool_ok p \<Longrightarrow> pool_ok p'" "p' = p\<lparr>po_sandbox := filter (\<lambda>e. \<not> owned_by c e) (po_sandbox p)\<rparr>"
  using assms sandboxes.reject_balanced [of p c m] by (auto simp: rejectPendingSandbox_def ok_reject)

definition free_of :: "conn \<Rightarrow> pool \<Rightarrow> bool" where
  "free_of c p \<longleftrightarrow> (\<forall>e \<in> set (po_commands p). pd_conn (snd e) \<noteq> c) \<and> (\<forall>e \<in> set (po_sandbox p). pd_conn (snd e) \<noteq> c)"

lemma close_socket_ok:
  assumes "close_socket c code reason p = (p', os)"
  shows "balanced p os p'" "pool_ok p \<Longrightarrow> pool_ok p'" "free_of x p \<Longrightarrow> free_of x p'" "po_runners p' = po_runners p" "po_next p' = po_next p"
    "\<And>x. scope_of p' x = scope_of p x"
  using assms by (auto simp: close_socket_def free_of_def intro!: balanced_frame)

lemma supersede_ok:
  assumes "supersede c p = (p', os)"
  shows "balanced p os p'" "pool_ok p \<Longrightarrow> pool_ok p'" "free_of c p'" "po_runners p' = po_runners p" "po_next p' = po_next p"
    "\<And>x. scope_of p' x = scope_of p x"
proof -
  obtain p1 o1 where 1: "rejectPendingCommands c ''runner channel superseded'' p = (p1, o1)" by fastforce
  obtain p2 o2 where 2: "rejectPendingSandbox c ''runner channel superseded'' p1 = (p2, o2)" by fastforce
  note r = reject_commands [OF 1] reject_sandbox [OF 2]
  have f: "free_of c p2" "po_runners p2 = po_runners p" "po_next p2 = po_next p" "\<And>x. scope_of p2 x = scope_of p x"
    by (auto simp: r(3,6) free_of_def owned_by_def)
  show "balanced p os p'" "pool_ok p \<Longrightarrow> pool_ok p'" "free_of c p'" "po_runners p' = po_runners p" "po_next p' = po_next p"
    "\<And>x. scope_of p' x = scope_of p x"
    using assms r(1,2,4,5) f close_socket_ok
    by (auto simp: supersede_def 1 2 split: if_splits prod.splits intro!: balanced_trans; fastforce)+
qed

lemma update_elem: "e \<in> set (AList.update k v t) \<Longrightarrow> e = (k, v) \<or> e \<in> set t"
  by (induction t) (auto split: if_splits)

lemma accept_ok:
  assumes a: "accept_runner scope p = (p', os)" and ok: "pool_ok p"
    and prev: "\<And>c. map_of (po_runners p) (rs_runner scope) = Some c \<Longrightarrow> free_of c p"
  shows "balanced p os p'" "pool_ok p'"
proof -
  let ?c = "po_next p" and ?r = "rs_runner scope"
  have runners: "po_runners p' = AList.update ?r ?c (po_runners p)" and nxt: "po_next p' = Suc ?c"
    and sc: "\<And>x. scope_of p' x = (if x = ?c then scope else scope_of p x)"
    and same: "po_commands p' = po_commands p" "po_sandbox p' = po_sandbox p" "po_backfills p' = po_backfills p"
    and os: "os = [O_send ?c (F_accepted ?r (rs_environment scope)), O_restore ?c, O_dispatch scope]"
    using a by (auto simp: accept_runner_def Let_def scope_of_def)
  show "balanced p os p'"
    by (rule balanced_frame) (auto simp: os pending_keys_def same split: request_kind.splits)
  have reg: "registered p' x" if x: "registered p x" "map_of (po_runners p) ?r \<noteq> Some x" for x
  proof -
    have "x < ?c" "rs_runner (scope_of p x) \<noteq> ?r"
      using registered_runner [OF x(1)] pool_okD(2) [OF ok] x by (auto simp: runners_ok_def registered_def)
    then show ?thesis using x(1) by (simp add: registered_def sc runners update_conv')
  qed
  have "runners_ok p'"
    using pool_okD(2) [OF ok] unfolding runners_ok_def runners nxt
    by (auto simp: sc less_Suc_eq dest!: update_elem)
  moreover have "registered p' (pd_conn (snd e))" if "e \<in> set (po_commands p)" for e
    using that pool_okD(3) [OF ok] prev by (intro reg) (auto simp: current_def free_of_def)
  moreover have "registered p' (pd_conn (snd e))" if "e \<in> set (po_sandbox p)" for e
    using that pool_okD(4) [OF ok] prev by (intro reg) (auto simp: current_def free_of_def)
  ultimately show "pool_ok p'"
    using pool_okD(1) [OF ok] by (simp add: pool_ok_def tables_ok_def current_def same)
qed

lemma connect_ok:
  assumes "connectRunner u param p = (p', os, r)" "pool_ok p"
  shows "balanced p os p' \<and> pool_ok p'"
proof (cases "u \<and> (\<exists>scope. runnerScopeFromUrl param = Inr scope)")
  case False
  then show ?thesis using assms by (auto simp: connectRunner_def split: if_splits sum.splits)
next
  case True
  then obtain scope where s: "runnerScopeFromUrl param = Inr scope" by blast
  show ?thesis
  proof (cases "map_of (po_runners p) (rs_runner scope)")
    case None
    then show ?thesis
      using assms True s accept_ok [of scope p] by (auto simp: connectRunner_def split: prod.splits)
  next
    case (Some c)
    obtain p1 o1 where 1: "supersede c p = (p1, o1)" by fastforce
    obtain p2 o2 where 2: "accept_runner scope p1 = (p2, o2)" by fastforce
    note sup = supersede_ok [OF 1]
    have ok1: "pool_ok p1" by (rule sup(2) [OF assms(2)])
    have "\<And>x. map_of (po_runners p1) (rs_runner scope) = Some x \<Longrightarrow> free_of x p1"
      using Some sup(3,4) by simp
    from accept_ok [OF 2 ok1 this] balanced_trans [OF sup(1)] show ?thesis
      using assms(1) True s Some 1 2 by (auto simp: connectRunner_def)
  qed
qed

lemma close_ok:
  assumes "closeRunner c p = (p', os)" "pool_ok p"
  shows "balanced p os p' \<and> pool_ok p'"
proof -
  obtain p1 o1 where 1: "rejectPendingCommands c ''runner channel closed'' p = (p1, o1)" by fastforce
  obtain p2 o2 where 2: "rejectPendingSandbox c ''runner channel closed'' p1 = (p2, o2)" by fastforce
  note r = reject_commands [OF 1] reject_sandbox [OF 2]
  have ok2: "pool_ok p2" using assms(2) r(2,5) by blast
  have b2: "balanced p (o1 @ o2) p2" by (rule balanced_trans [OF r(1,4)])
  have free: "free_of c p2" by (auto simp: r(3,6) free_of_def owned_by_def)
  show ?thesis
  proof (cases "registered p2 c")
    case False
    then show ?thesis using assms(1) b2 ok2 by (simp add: closeRunner_def 1 2)
  next
    case True
    let ?p3 = "p2\<lparr>po_runners := AList.delete (rs_runner (scope_of p2 c)) (po_runners p2),
              po_sessions := forget_sessions c (po_sessions p2),
              po_backfill := forget_sessions c (po_backfill p2)\<rparr>"
    have p': "p' = ?p3\<lparr>po_backfills := filter (\<lambda>e. \<not> owned_by c e) (po_backfills ?p3)\<rparr>"
      "os = (o1 @ o2) @ reject_all K_backfill c ''runner channel closed'' (po_backfills ?p3)"
      using assms(1) True by (simp_all add: closeRunner_def 1 2)
    have "balanced p2 [] ?p3"
      by (rule balanced_frame) (auto simp: pending_keys_def split: request_kind.splits)
    with b2 have "balanced p (o1 @ o2) ?p3" using balanced_trans by fastforce
    then have "balanced p os p'" unfolding p' by (rule balanced_trans [OF _ backfills.reject_balanced])
    moreover have reg: "registered ?p3 x" if "registered p2 x" "x \<noteq> c" for x
      using that True by (auto simp: registered_def scope_of_def delete_conv')
    have "registered ?p3 (pd_conn (snd e))" if "e \<in> set (po_commands p2)" for e
      using that free pool_okD(3) [OF ok2] by (intro reg) (auto simp: current_def free_of_def)
    moreover have "registered ?p3 (pd_conn (snd e))" if "e \<in> set (po_sandbox p2)" for e
      using that free pool_okD(4) [OF ok2] by (intro reg) (auto simp: current_def free_of_def)
    ultimately have "balanced p os p'" "pool_ok ?p3"
      using pool_okD(1,2) [OF ok2] unfolding pool_ok_def tables_ok_def current_def runners_ok_def delete_filter
      by (simp_all add: scope_of_def)
    then show ?thesis unfolding p' using ok_reject(3) by blast
  qed
qed

section \<open>Requests and answers\<close>

definition sound :: "pool \<Rightarrow> pool_output list \<Rightarrow> pool \<Rightarrow> bool" where
  "sound p os p' \<longleftrightarrow> balanced p os p' \<and> pool_ok p'"

lemma sound_refl: "pool_ok p \<Longrightarrow> sound p [] p"
  by (simp add: sound_def)

lemma sound_frame:
  "pool_ok p' \<Longrightarrow> (\<And>kind. pending_keys kind p' = pending_keys kind p) \<Longrightarrow>
   (\<And>x. x \<in> set os \<Longrightarrow> (\<forall>kind key. x \<noteq> O_open kind key \<and> \<not> settles kind key x)) \<Longrightarrow> sound p os p'"
  by (auto simp: sound_def intro!: balanced_frame)

lemma sound_trans: "sound p os p1 \<Longrightarrow> sound p1 os' p2 \<Longrightarrow> sound p (os @ os') p2"
  by (auto simp: sound_def intro: balanced_trans)

lemma sound_settle:
  assumes "pool_ok p"
  shows "map_of (po_commands p) k = Some e \<Longrightarrow> sound p [O_settle K_command k r] (p\<lparr>po_commands := AList.delete k (po_commands p)\<rparr>)"
    "map_of (po_sandbox p) k = Some e' \<Longrightarrow> sound p [O_settle K_sandbox k r] (p\<lparr>po_sandbox := AList.delete k (po_sandbox p)\<rparr>)"
    "map_of (po_backfills p) k = Some e' \<Longrightarrow> sound p [O_settle K_backfill k r] (p\<lparr>po_backfills := AList.delete k (po_backfills p)\<rparr>)"
  using assms pool_okD(1) [OF assms]
  by (simp_all add: sound_def ok_delete tables_ok_def commands.settle_balanced sandboxes.settle_balanced backfills.settle_balanced)

lemma send_command_sound:
  assumes "sendCommandRequest st c s cmd i p = (p', os, r)" "pool_ok p" "registered p c"
  shows "sound p os p'"
proof (cases "map_of (po_commands p) (commandRequestKey s i)")
  case (Some e)
  then show ?thesis using assms by (simp add: sendCommandRequest_def sound_refl)
next
  case None
  show ?thesis
  proof (cases st)
    case True
    then show ?thesis using assms None by (auto simp: sendCommandRequest_def sound_def balanced_def Let_def)
  next
    case False
    have "balanced p (O_open K_command (commandRequestKey s i) #
        [O_timer K_command (commandRequestKey s i) 5000, O_send c (F_command i s (rs_runner (scope_of p c)) cmd)])
      (p\<lparr>po_commands := AList.update (commandRequestKey s i) \<lparr>pd_conn = c, pd_session = s, pc_request = i, pc_command = cmd\<rparr> (po_commands p)\<rparr>)"
      by (rule commands.open_balanced [OF None]) auto
    moreover have "pool_ok (p\<lparr>po_commands := AList.update (commandRequestKey s i) \<lparr>pd_conn = c, pd_session = s, pc_request = i, pc_command = cmd\<rparr> (po_commands p)\<rparr>)"
      using assms(2,3) None by (intro ok_open(1)) simp_all
    ultimately show ?thesis using assms(1) None False by (auto simp: sendCommandRequest_def sound_def Let_def)
  qed
qed

lemma dispatch_sound:
  assumes "dispatch st fresh body p = (p', os, r)" "pool_ok p"
  shows "sound p os p'"
  using assms send_command_sound connection_registered
  by (auto simp: dispatch_def sound_refl split: option.splits if_splits)

lemma send_sandbox_sound:
  assumes "sendSandboxRequest c s req fresh ms p = (p', os, r)" "pool_ok p" "map_of (po_sandbox p) (''sandbox_'' @ fresh) = None"
    "registered p c"
  shows "sound p os p'"
proof -
  let ?key = "''sandbox_'' @ fresh"
  have p': "p' = p\<lparr>po_sandbox := AList.update ?key \<lparr>pd_conn = c, pd_session = s\<rparr> (po_sandbox p)\<rparr>"
    and os: "os = O_open K_sandbox ?key # [O_timer K_sandbox ?key ms, O_send c (F_sandbox_request ?key s (rs_runner (scope_of p c)) req)]"
    using assms(1) by (auto simp: sendSandboxRequest_def Let_def)
  have "balanced p os p'" unfolding os p' by (rule sandboxes.open_balanced [OF assms(3)]) auto
  moreover have "pool_ok p'" unfolding p' using assms(2-4) by (intro ok_open(2)) simp_all
  ultimately show ?thesis by (simp add: sound_def)
qed

lemma sandbox_request_sound:
  assumes "requestRunnerSandbox fresh body p = (p', os, r)" "pool_ok p" "map_of (po_sandbox p) (''sandbox_'' @ fresh) = None"
  shows "sound p os p'"
  using assms(1) sound_refl [OF assms(2)] send_sandbox_sound [OF _ assms(2,3)] connection_registered
  by (auto simp: requestRunnerSandbox_def Let_def split: option.splits if_splits)

lemma backfill_request_sound:
  assumes "sendBackfillRequest c s fresh ms p = (p', os, r)" "pool_ok p" "map_of (po_backfills p) (''backfill_'' @ fresh) = None"
  shows "sound p os p'"
proof -
  let ?key = "''backfill_'' @ fresh"
  have p': "p' = p\<lparr>po_backfills := AList.update ?key \<lparr>pd_conn = c, pd_session = s\<rparr> (po_backfills p)\<rparr>"
    and os: "os = O_open K_backfill ?key # [O_timer K_backfill ?key ms, O_send c (F_backfill_request ?key s (rs_runner (scope_of p c)))]"
    using assms(1) by (auto simp: sendBackfillRequest_def Let_def)
  have "balanced p os p'" unfolding os p' by (rule backfills.open_balanced [OF assms(3)]) auto
  moreover have "pool_ok p'" unfolding p' by (rule ok_open(3) [OF assms(2,3)])
  ultimately show ?thesis by (simp add: sound_def)
qed

lemma timeouts_sound:
  assumes "pool_ok p"
  shows "command_timeout k p = (p', os) \<Longrightarrow> sound p os p'" "sandbox_timeout k p = (p', os) \<Longrightarrow> sound p os p'"
    "backfill_timeout k p = (p', os) \<Longrightarrow> sound p os p'"
  using assms sound_settle [OF assms]
  by (auto simp: command_timeout_def sandbox_timeout_def backfill_timeout_def sound_refl split: if_splits)

lemma answers_sound:
  assumes "pool_ok p"
  shows "resolveCommandResponse c frame p = (p', os) \<Longrightarrow> sound p os p'"
    "resolveSandboxResponse c frame p = (p', os) \<Longrightarrow> sound p os p'"
    "resolveBackfillResponse c frame p = (p', os) \<Longrightarrow> sound p os p'"
proof -
  assume "resolveCommandResponse c frame p = (p', os)"
  then show "sound p os p'"
    using sound_settle(1) [OF assms] sound_refl [OF assms]
    unfolding resolveCommandResponse_def by (simp split: option.splits if_splits) blast
next
  assume "resolveSandboxResponse c frame p = (p', os)"
  then show "sound p os p'"
    using sound_settle(2) [OF assms] sound_refl [OF assms]
    unfolding resolveSandboxResponse_def by (simp split: option.splits if_splits) blast
next
  assume "resolveBackfillResponse c frame p = (p', os)"
  then show "sound p os p'"
    using sound_settle(3) [OF assms] sound_refl [OF assms]
    unfolding resolveBackfillResponse_def by (simp split: option.splits if_splits) blast
qed

lemma pool_ok_take_session [simp]: "pool_ok (take_session s c p) = pool_ok p"
  by (simp add: take_session_def)

lemma pending_take_session [simp]: "pending_keys k (take_session s c p) = pending_keys k p"
  by (simp add: take_session_def)

lemma finished_sound: "work_finished c frame p = (p', os) \<Longrightarrow> pool_ok p \<Longrightarrow> sound p os p'"
  by (rule sound_frame) (auto simp: work_finished_def Let_def split: option.splits if_splits)

lemma fail_sound:
  assumes "failRunnerConnection c code reason p = (p', os)" "pool_ok p"
  shows "sound p os p'"
proof -
  obtain p1 o1 where 1: "closeRunner c p = (p1, o1)" by fastforce
  obtain p2 o2 where 2: "close_socket c code reason p1 = (p2, o2)" by fastforce
  have "sound p o1 p1" using close_ok [OF 1 assms(2)] by (simp add: sound_def)
  moreover have "sound p1 o2 p2" using close_socket_ok [OF 2] calculation by (simp add: sound_def)
  ultimately show ?thesis using assms(1) sound_trans by (auto simp: failRunnerConnection_def 1 2)
qed

lemma fold_ok:
  "(\<And>x p. x \<in> set xs \<Longrightarrow> pool_ok (f x p) = pool_ok p \<and> (\<forall>k. pending_keys k (f x p) = pending_keys k p)) \<Longrightarrow>
   pool_ok (fold f xs p) = pool_ok p \<and> (\<forall>k. pending_keys k (fold f xs p) = pending_keys k p)"
  by (induction xs arbitrary: p) simp_all

lemma restore_ok: "pool_ok (fold (restore_session c) rows p) = pool_ok p \<and> (\<forall>k. pending_keys k (fold (restore_session c) rows p) = pending_keys k p)"
  by (rule fold_ok) (auto simp: restore_session_def split: option.splits)

lemma take_all_ok: "pool_ok (fold (\<lambda>s. take_session s c) ids p) = pool_ok p \<and> (\<forall>k. pending_keys k (fold (\<lambda>s. take_session s c) ids p) = pending_keys k p)"
  by (rule fold_ok) simp

section \<open>The pool as a transition system\<close>

text \<open>
  The steps are the atomic sections of the handlers: a whole handler where it does not wait, and the
  sections between two waits otherwise. The second component is everything the pool has sent, opened
  and settled so far.
\<close>

inductive pool_step :: "pool \<times> pool_output list \<Rightarrow> pool \<times> pool_output list \<Rightarrow> bool" where
  connect: "connectRunner u param p = (p', os, r) \<Longrightarrow> pool_step (p, past) (p', past @ os)"
| closed: "socket_closed c p = (p', os) \<Longrightarrow> pool_step (p, past) (p', past @ os)"
| failed: "failRunnerConnection c code reason p = (p', os) \<Longrightarrow> pool_step (p, past) (p', past @ os)"
| restored: "pool_step (p, past) (fold (restore_session c) rows p, past)"
| load_read: "pool_step (p, past) (set_conn c (\<lambda>k. k\<lparr>cn_assigned := n\<rparr>) p, past)"
| assigned: "work_sent w c lease i payload (p, d) = ((p', d'), os, r) \<Longrightarrow> pool_step (p, past) (p', past @ os)"
| command: "dispatch throws fresh body p = (p', os, r) \<Longrightarrow> pool_step (p, past) (p', past @ os)"
| sandbox: "requestRunnerSandbox fresh body p = (p', os, r) \<Longrightarrow> map_of (po_sandbox p) (''sandbox_'' @ fresh) = None \<Longrightarrow>
    pool_step (p, past) (p', past @ os)"
| backfill_found: "pool_step (p, past) (p\<lparr>po_backfill := AList.update s c (po_backfill p)\<rparr>, past)"
| backfill: "sendBackfillRequest c s fresh ms p = (p', os, r) \<Longrightarrow> map_of (po_backfills p) (''backfill_'' @ fresh) = None \<Longrightarrow>
    pool_step (p, past) (p', past @ os)"
| command_late: "command_timeout key p = (p', os) \<Longrightarrow> pool_step (p, past) (p', past @ os)"
| sandbox_late: "sandbox_timeout key p = (p', os) \<Longrightarrow> pool_step (p, past) (p', past @ os)"
| backfill_late: "backfill_timeout key p = (p', os) \<Longrightarrow> pool_step (p, past) (p', past @ os)"
| command_answer: "registered p c \<Longrightarrow> resolveCommandResponse c frame p = (p', os) \<Longrightarrow> pool_step (p, past) (p', past @ os)"
| sandbox_answer: "registered p c \<Longrightarrow> resolveSandboxResponse c frame p = (p', os) \<Longrightarrow> pool_step (p, past) (p', past @ os)"
| backfill_answer: "registered p c \<Longrightarrow> resolveBackfillResponse c frame p = (p', os) \<Longrightarrow> pool_step (p, past) (p', past @ os)"
| advertising: "pool_step (p, past) (set_conn c (\<lambda>k. k\<lparr>cn_advertised := b\<rparr>) p, past)"
| advertised: "registered p c \<Longrightarrow>
    pool_step (p, past) (fold (\<lambda>s. take_session s c) ids (p\<lparr>po_sessions := forget_sessions c (po_sessions p)\<rparr>), past)"
| retired: "registered p c \<Longrightarrow> pool_step (p, past) (retireRunnerSession c frame p, past)"
| finished: "registered p c \<Longrightarrow> work_finished c frame p = (p', os) \<Longrightarrow> pool_step (p, past) (p', past @ os)"
| relayed: "registered p c \<Longrightarrow> pool_step (p, past) (p, past @ handleRunnerEvent c frame p)"

definition pool_init :: "pool \<times> pool_output list \<Rightarrow> bool" where
  "pool_init s \<longleftrightarrow> po_runners (fst s) = [] \<and> po_sessions (fst s) = [] \<and> po_backfill (fst s) = [] \<and>
     po_commands (fst s) = [] \<and> po_sandbox (fst s) = [] \<and> po_backfills (fst s) = [] \<and> snd s = []"

definition pool_inv :: "pool \<times> pool_output list \<Rightarrow> bool" where
  "pool_inv s \<longleftrightarrow> pool_ok (fst s) \<and>
     (\<forall>kind key. opened kind key (snd s) = count_list (pending_keys kind (fst s)) key + settled kind key (snd s))"

lemma sound_inv: "pool_inv (p, past) \<Longrightarrow> sound p os p' \<Longrightarrow> pool_inv (p', past @ os)"
  unfolding pool_inv_def sound_def balanced_def fst_conv snd_conv opened_simps settled_simps
  by (metis (no_types, lifting) add.assoc add.commute)

lemma frame_inv:
  "pool_inv (p, past) \<Longrightarrow> pool_ok p' = pool_ok p \<and> (\<forall>k. pending_keys k p' = pending_keys k p) \<Longrightarrow> pool_inv (p', past)"
  by (simp add: pool_inv_def)

lemma work_sent_sound:
  assumes "work_sent w c lease i payload (p, d) = ((p', d'), os, r)" "pool_ok p"
  shows "sound p os p'"
  using assms by (auto simp: work_sent_def Let_def sound_refl split: if_splits intro!: sound_frame)

lemma relayed_quiet: "x \<in> set (handleRunnerEvent c frame p) \<Longrightarrow> x \<noteq> O_open kind key \<and> \<not> settles kind key x"
  by (auto simp: handleRunnerEvent_def split: option.splits if_splits)

lemma inv_ok: "pool_inv (p, past) \<Longrightarrow> pool_ok p"
  by (simp add: pool_inv_def)

lemma closed_sound: "socket_closed c p = (p', os) \<Longrightarrow> pool_ok p \<Longrightarrow> sound p os p'"
proof -
  let ?p = "set_conn c (\<lambda>k. k\<lparr>cn_open := False\<rparr>) p"
  assume "socket_closed c p = (p', os)" "pool_ok p"
  then have "sound ?p os p'" using close_ok [of c ?p p' os] by (simp add: sound_def socket_closed_def)
  moreover have "sound p [] ?p" using \<open>pool_ok p\<close> by (intro sound_frame) simp_all
  ultimately show ?thesis using sound_trans by fastforce
qed

lemma connect_sound: "connectRunner u param p = (p', os, r) \<Longrightarrow> pool_ok p \<Longrightarrow> sound p os p'"
  using connect_ok by (simp add: sound_def)

lemma relayed_sound: "pool_ok p \<Longrightarrow> sound p (handleRunnerEvent c frame p) p"
  by (rule sound_frame) (auto dest: relayed_quiet)

lemma retired_frame:
  "pool_ok (retireRunnerSession c frame p) = pool_ok p \<and> (\<forall>k. pending_keys k (retireRunnerSession c frame p) = pending_keys k p)"
  by (simp add: retireRunnerSession_def split: option.splits)

lemma advertised_frame:
  "pool_ok (fold (\<lambda>s. take_session s c) ids (p\<lparr>po_sessions := x\<rparr>)) = pool_ok p \<and>
   (\<forall>k. pending_keys k (fold (\<lambda>s. take_session s c) ids (p\<lparr>po_sessions := x\<rparr>)) = pending_keys k p)"
  using take_all_ok [of c ids "p\<lparr>po_sessions := x\<rparr>"] by simp

lemma conn_frame:
  "keeps_scope f \<Longrightarrow> pool_ok (set_conn c f p) = pool_ok p \<and> (\<forall>k. pending_keys k (set_conn c f p) = pending_keys k p)"
  by simp

lemma backfill_frame:
  "pool_ok (p\<lparr>po_backfill := x\<rparr>) = pool_ok p \<and> (\<forall>k. pending_keys k (p\<lparr>po_backfill := x\<rparr>) = pending_keys k p)"
  by simp

lemmas section_sound = connect_sound closed_sound fail_sound work_sent_sound dispatch_sound sandbox_request_sound
  backfill_request_sound timeouts_sound(1) [rotated] timeouts_sound(2) [rotated] timeouts_sound(3) [rotated]
  answers_sound(1) [rotated] answers_sound(2) [rotated] answers_sound(3) [rotated] finished_sound

lemmas section_frame = restore_ok conn_frame [OF keeps_scope_updates(2)] conn_frame [OF keeps_scope_updates(3)]
  backfill_frame retired_frame advertised_frame

lemma pool_step_inv: "pool_step s t \<Longrightarrow> pool_inv s \<Longrightarrow> pool_inv t"
proof (induction rule: pool_step.induct)
  case (relayed p c past frame)
  then show ?case by (blast intro: sound_inv relayed_sound inv_ok)
qed (erule frame_inv, rule section_frame | erule sound_inv, erule (1) section_sound [OF _ inv_ok] |
  erule sound_inv, erule section_sound [OF _ inv_ok], assumption+ |
  blast intro: sound_inv section_sound inv_ok)+

interpretation pool_sys: safe_system pool_init pool_step pool_inv
proof
  fix s assume "pool_init s"
  then show "pool_inv s"
    by (auto simp: pool_init_def pool_inv_def pool_simps pending_keys_def split: request_kind.splits)
next
  fix s t assume "pool_inv s" "pool_step s t"
  then show "pool_inv t" by (rule pool_step_inv [rotated])
qed

section \<open>What the pool guarantees\<close>

lemma reached_inv: "pool_init s \<Longrightarrow> pool_step\<^sup>*\<^sup>* s (p, out) \<Longrightarrow> pool_inv (p, out)"
  by (rule pool_sys.reachable_inv)

lemma count_distinct: "distinct xs \<Longrightarrow> count_list xs x = (if x \<in> set xs then 1 else 0)"
  by (induction xs) auto

text \<open>
  C3 (invariant): no request to a runner is lost and none is answered twice. Through every interleaving
  of connections, disconnections, timeouts and answers, each command, sandbox request and backfill that was
  opened is either still pending, once, or was settled, once.
\<close>

theorem requests_settled_once:
  assumes "pool_init s" "pool_step\<^sup>*\<^sup>* s (p, out)"
  shows "opened kind key out = settled kind key out + (if key \<in> set (pending_keys kind p) then 1 else 0)"
proof -
  have inv: "pool_inv (p, out)" using assms by (rule reached_inv)
  then have "distinct (pending_keys kind p)"
    by (auto simp: pool_inv_def pool_ok_def tables_ok_def pending_keys_def split: request_kind.splits)
  then show ?thesis using inv by (simp add: pool_inv_def count_distinct)
qed

text \<open>
  A command or a sandbox request is pending only on the registered channel of its runner.
  When the runner reconnects or disconnects, whoever waits for the old channel is told at once.
\<close>

theorem pending_on_current_channel:
  assumes "pool_init s" "pool_step\<^sup>*\<^sup>* s (p, out)"
  shows "(\<forall>e \<in> set (po_commands p). registered p (pd_conn (snd e))) \<and>
     (\<forall>e \<in> set (po_sandbox p). registered p (pd_conn (snd e)))"
  using reached_inv [OF assms] by (simp add: pool_inv_def pool_ok_def current_def)

text \<open>A runner connects, a session is taken over, a command is sent to it.\<close>

definition demo_param :: "string \<Rightarrow> string option" where
  "demo_param name = (if name = ''commandAcknowledgement'' then Some ''true'' else Some name)"

definition demo_scope :: runner_scope where
  "demo_scope = \<lparr>rs_runner = ''runnerId'', rs_organization = ''organizationId'', rs_project = ''projectId'',
     rs_environment = ''environmentId'', rs_acknowledges = True\<rparr>"

definition empty_pool :: pool where
  "empty_pool = \<lparr>po_conns = (\<lambda>_. \<lparr>cn_scope = demo_scope, cn_open = False, cn_assigned = 0, cn_advertised = False\<rparr>),
     po_next = 0, po_runners = [], po_sessions = [], po_backfill = [], po_commands = [], po_sandbox = [], po_backfills = []\<rparr>"

definition demo_connected :: pool where
  "demo_connected = fst (connectRunner True demo_param empty_pool)"

definition demo_owning :: pool where
  "demo_owning = fold (\<lambda>s. take_session s 0) [''s''] (demo_connected\<lparr>po_sessions := forget_sessions 0 (po_sessions demo_connected)\<rparr>)"

definition demo_body :: json where
  "demo_body = JObj [(''sessionId'', JStr ''s''), (''command'', JStr ''stop''), (''requestId'', JStr ''c1'')]"

definition demo_waiting :: pool where
  "demo_waiting = fst (dispatch False ''f'' demo_body demo_owning)"

lemma demo_scope_from: "runnerScopeFromUrl demo_param = Inr demo_scope"
  by (simp add: runnerScopeFromUrl_def demo_param_def demo_scope_def truthy_str_def)

lemma demo_connected_eq:
  "connectRunner True demo_param empty_pool =
     (demo_connected, [O_send 0 (F_accepted ''runnerId'' ''environmentId''), O_restore 0, O_dispatch demo_scope], Switching_protocols)"
  "demo_connected = empty_pool\<lparr>po_conns := (po_conns empty_pool)(0 := \<lparr>cn_scope = demo_scope, cn_open = True,
     cn_assigned = 0, cn_advertised = False\<rparr>), po_next := 1, po_runners := [(''runnerId'', 0)]\<rparr>"
  by (simp_all add: demo_connected_def connectRunner_def demo_scope_from empty_pool_def accept_runner_def Let_def)
    (simp_all add: demo_scope_def)

lemma demo_owning_eq: "demo_owning = demo_connected\<lparr>po_sessions := [(''s'', 0)], po_backfill := [(''s'', 0)]\<rparr>"
  by (simp add: demo_owning_def demo_connected_eq(2) empty_pool_def forget_sessions_def take_session_def)

lemma demo_registered: "registered demo_connected 0" "registered demo_owning 0"
  by (simp_all add: registered_def scope_of_def demo_owning_eq demo_connected_eq(2) empty_pool_def demo_scope_def)

lemma demo_waiting_eq:
  "dispatch False ''f'' demo_body demo_owning =
     (demo_waiting,
      [O_open K_command (commandRequestKey ''s'' ''c1''), O_timer K_command (commandRequestKey ''s'' ''c1'') 5000,
       O_send 0 (F_command ''c1'' ''s'' ''runnerId'' (Some (JStr ''stop'')))], Waiting (commandRequestKey ''s'' ''c1''))"
  "po_commands demo_waiting = [(commandRequestKey ''s'' ''c1'', \<lparr>pd_conn = 0, pd_session = ''s'', pc_request = ''c1'',
     pc_command = Some (JStr ''stop'')\<rparr>)]"
proof -
  have c: "connectionForSession ''s'' demo_owning = Some 0"
    using demo_registered by (simp add: connectionForSession_def demo_owning_eq)
  have f: "is_open demo_owning 0" "rs_acknowledges (scope_of demo_owning 0)" "rs_runner (scope_of demo_owning 0) = ''runnerId''"
    "po_commands demo_owning = []"
    by (simp_all add: is_open_def scope_of_def demo_owning_eq demo_connected_eq(2) empty_pool_def demo_scope_def)
  have i: "command_request_id ''f'' (jget demo_body ''requestId'') = ''c1''" "jstr (jget demo_body ''sessionId'') = Some ''s''"
    "jget demo_body ''command'' = Some (JStr ''stop'')"
    by (simp_all add: command_request_id_def demo_body_def jget_def)
  show "dispatch False ''f'' demo_body demo_owning =
     (demo_waiting,
      [O_open K_command (commandRequestKey ''s'' ''c1''), O_timer K_command (commandRequestKey ''s'' ''c1'') 5000,
       O_send 0 (F_command ''c1'' ''s'' ''runnerId'' (Some (JStr ''stop'')))], Waiting (commandRequestKey ''s'' ''c1''))"
    "po_commands demo_waiting = [(commandRequestKey ''s'' ''c1'', \<lparr>pd_conn = 0, pd_session = ''s'', pc_request = ''c1'',
     pc_command = Some (JStr ''stop'')\<rparr>)]"
    by (simp_all add: demo_waiting_def dispatch_def c f i sendCommandRequest_def Let_def)
qed

lemma demo_init: "pool_init (empty_pool, [])"
  by (simp add: pool_init_def empty_pool_def)

lemma demo_pool_run: "\<exists>out. pool_step\<^sup>*\<^sup>* (empty_pool, []) (demo_waiting, out) \<and> opened K_command (commandRequestKey ''s'' ''c1'') out = 1"
proof -
  note 1 = pool_step.connect [OF demo_connected_eq(1), of "[]"]
  note 2 = pool_step.advertised [OF demo_registered(1), of _ "[''s'']", folded demo_owning_def]
  note 3 = pool_step.command [OF demo_waiting_eq(1)]
  have "pool_step\<^sup>*\<^sup>* (empty_pool, []) (demo_connected, [] @ [O_send 0 (F_accepted ''runnerId'' ''environmentId''), O_restore 0, O_dispatch demo_scope])"
    by (rule r_into_rtranclp) (rule 1)
  then have "pool_step\<^sup>*\<^sup>* (empty_pool, []) (demo_owning, [] @ [O_send 0 (F_accepted ''runnerId'' ''environmentId''), O_restore 0, O_dispatch demo_scope])"
    by (rule rtranclp.rtrancl_into_rtrancl) (rule 2)
  then have "pool_step\<^sup>*\<^sup>* (empty_pool, []) (demo_waiting, ([] @ [O_send 0 (F_accepted ''runnerId'' ''environmentId''), O_restore 0, O_dispatch demo_scope]) @
      [O_open K_command (commandRequestKey ''s'' ''c1''), O_timer K_command (commandRequestKey ''s'' ''c1'') 5000,
       O_send 0 (F_command ''c1'' ''s'' ''runnerId'' (Some (JStr ''stop'')))])"
    by (rule rtranclp.rtrancl_into_rtrancl) (rule 3)
  moreover have "opened K_command (commandRequestKey ''s'' ''c1'')
      (([] @ [O_send 0 (F_accepted ''runnerId'' ''environmentId''), O_restore 0, O_dispatch demo_scope]) @
       [O_open K_command (commandRequestKey ''s'' ''c1''), O_timer K_command (commandRequestKey ''s'' ''c1'') 5000,
        O_send 0 (F_command ''c1'' ''s'' ''runnerId'' (Some (JStr ''stop'')))]) = 1"
    by (simp add: opened_def)
  ultimately show ?thesis by blast
qed

theorem requests_settled_once_witness:
  "\<exists>out. pool_step\<^sup>*\<^sup>* (empty_pool, []) (demo_waiting, out) \<and> settled K_command (commandRequestKey ''s'' ''c1'') out = 0"
proof -
  obtain out where o: "pool_step\<^sup>*\<^sup>* (empty_pool, []) (demo_waiting, out)" "opened K_command (commandRequestKey ''s'' ''c1'') out = 1"
    using demo_pool_run by blast
  from requests_settled_once [OF demo_init o(1), of K_command "commandRequestKey ''s'' ''c1''"] o show ?thesis
    by (auto simp: pending_keys_def demo_waiting_eq(2))
qed

theorem pending_on_current_channel_witness: "registered demo_waiting 0"
proof -
  obtain out where "pool_step\<^sup>*\<^sup>* (empty_pool, []) (demo_waiting, out)" using demo_pool_run by blast
  from pending_on_current_channel [OF demo_init this] show ?thesis by (simp add: demo_waiting_eq(2))
qed

section \<open>Answers, assignments and ownership\<close>

definition holder :: "request_kind \<Rightarrow> string \<Rightarrow> pool \<Rightarrow> conn option" where
  "holder kind key p =
     (case kind of
        K_command \<Rightarrow> map_option (\<lambda>e. pd_conn e) (map_of (po_commands p) key)
      | K_sandbox \<Rightarrow> map_option (\<lambda>e. pd_conn e) (map_of (po_sandbox p) key)
      | K_backfill \<Rightarrow> map_option (\<lambda>e. pd_conn e) (map_of (po_backfills p) key))"

lemma rejects_no_answer: "O_settle kind key (Inr a) \<notin> set (reject_all kind' c m t)"
  by (auto simp: reject_all_def)

lemma close_no_answer: "closeRunner c p = (p', os) \<Longrightarrow> O_settle kind key (Inr a) \<notin> set os"
  by (auto simp: closeRunner_def rejectPendingCommands_def rejectPendingSandbox_def rejects_no_answer split: if_splits)

lemma fail_no_answer: "failRunnerConnection c code reason p = (p', os) \<Longrightarrow> O_settle kind key (Inr a) \<notin> set os"
  by (auto simp: failRunnerConnection_def close_socket_def split: prod.splits dest: close_no_answer)

lemma replace_no_answer: "replaceRunnerSessions w c frame s = (s', os) \<Longrightarrow> O_settle kind key (Inr a) \<notin> set os"
  by (auto simp: replaceRunnerSessions_def Let_def split: option.splits if_splits prod.splits dest: fail_no_answer)

lemma relayed_no_answer: "O_settle kind key (Inr a) \<notin> set (handleRunnerEvent c frame p)"
  by (auto simp: handleRunnerEvent_def split: option.splits if_splits)

lemma finished_no_answer: "work_finished c frame p = (p', os) \<Longrightarrow> O_settle kind key (Inr a) \<notin> set os"
  by (auto simp: work_finished_def Let_def)

lemma answers_held:
  "resolveCommandResponse c frame p = (p', os) \<Longrightarrow> O_settle kind key (Inr a) \<in> set os \<Longrightarrow> holder kind key p = Some c"
  "resolveSandboxResponse c frame p = (p', os) \<Longrightarrow> O_settle kind key (Inr a) \<in> set os \<Longrightarrow> holder kind key p = Some c"
  "resolveBackfillResponse c frame p = (p', os) \<Longrightarrow> O_settle kind key (Inr a) \<in> set os \<Longrightarrow> holder kind key p = Some c"
  by (auto simp: resolveCommandResponse_def resolveSandboxResponse_def resolveBackfillResponse_def holder_def
      split: option.splits if_splits)

lemma held_answers:
  "O_settle kind key (Inr a) \<in> set (snd (resolveCommandResponse c frame p)) \<Longrightarrow> holder kind key p = Some c"
  "O_settle kind key (Inr a) \<in> set (snd (resolveSandboxResponse c frame p)) \<Longrightarrow> holder kind key p = Some c"
  "O_settle kind key (Inr a) \<in> set (snd (resolveBackfillResponse c frame p)) \<Longrightarrow> holder kind key p = Some c"
  using answers_held prod.collapse by metis+

lemma no_answers:
  "O_settle kind key (Inr a) \<notin> set (snd (replaceRunnerSessions w c frame s))"
  "O_settle kind key (Inr a) \<notin> set (snd (work_finished c frame p))"
  using replace_no_answer finished_no_answer prod.collapse by metis+

text \<open>
  C4 (safety): an answer is accepted only from the channel a request went to, and only while that channel
  is the registered one of its runner. Whatever another runner, or the superseded channel of the same
  runner, sends, it settles no request of this one.
\<close>

theorem answers_come_from_the_channel:
  assumes "handleRunnerMessage w c parsed (p, d) = (s', os)" "O_settle kind key (Inr a) \<in> set os"
  shows "registered p c \<and> holder kind key p = Some c"
proof -
  have os: "os = snd (handleRunnerMessage w c parsed (p, d))" using assms(1) by simp
  have "registered p c" using assms by (auto simp: handleRunnerMessage_def Let_def split: if_splits)
  moreover have "holder kind key p = Some c"
    using assms(2) unfolding os handleRunnerMessage_def Let_def on_pool_def fst_conv snd_conv
    by (simp add: relayed_no_answer no_answers split: if_splits) (erule held_answers)+
  ultimately show ?thesis by blast
qed

lemma claimed_sent:
  "dispatch_claimed w q wid c l s = (s', os, res) \<Longrightarrow> O_send c' f \<in> set os \<Longrightarrow>
   \<exists>i payload rid. wi_id i = wid \<and> c' = c \<and> f = F_work_assigned rid l i payload \<and> os = [O_send c f] \<and> res = Some (rid, le_id l)"
  by (auto simp: dispatch_claimed_def work_sent_def Let_def split: option.splits sum.splits if_splits dest: found_work_item)

text \<open>
  C5 (safety): the pool hands a work item only to a runner that holds its lease. Whatever an attempt to
  assign an item to a channel returns, a frame that goes out during the attempt is the only one, goes to
  that channel, names the item and is reported to the caller; the runner of the channel was active in
  the environment and below its limit, and the claim made in this attempt had granted it the lease
  that the frame names, which is active in the database for this item and this runner.
\<close>

theorem assigned_work_is_leased:
  assumes run: "dispatch_to w org q env wid c s = (s', os, res)" and sent: "O_send c' f \<in> set os"
    and keys: "keys_ok (cw_before_claim (dw_claim w) (cw_before_read (dw_claim w)
      (expireStale q (cw_sweep_at (dw_claim w)) (snd (dw_before_find w s)))))"
  shows "\<exists>r d2 l i payload rid.
     runner_find q (rs_runner (scope_of (fst (dw_before_find w s)) c)) (dw_find_at w) (snd (dw_before_find w s)) = Some r \<and>
     ru_state r = R_active \<and> ru_environment r = Some env \<and> cn_assigned (po_conns (fst (dw_before_find w s)) c) < ru_max r \<and>
     claimLease (dw_claim w) org q r wid None (snd (dw_before_find w s)) = (d2, Inr l) \<and>
     l \<in> set (leases d2) \<and> le_state l = L_active \<and> le_work_item l = wid \<and> le_runner l = ru_id r \<and>
     wi_id i = wid \<and> c' = c \<and> f = F_work_assigned rid l i payload \<and> os = [O_send c f] \<and> res = Some (rid, le_id l)"
proof -
  let ?s1 = "dw_before_find w s"
  obtain r where r: "runner_find q (rs_runner (scope_of (fst ?s1) c)) (dw_find_at w) (snd ?s1) = Some r"
    "ru_state r = R_active" "ru_environment r = Some env" "cn_assigned (po_conns (fst ?s1) c) < ru_max r"
    using run sent by (auto simp: dispatch_to_def Let_def split: option.splits if_splits)
  obtain d2 l where l: "claimLease (dw_claim w) org q r wid None (snd ?s1) = (d2, Inr l)"
    using run sent r by (auto simp: dispatch_to_def Let_def split: prod.splits sum.splits)
  have "dispatch_claimed w q wid c l (dw_during_claim w (fst ?s1), d2) = (s', os, res)"
    using run r l by (simp add: dispatch_to_def Let_def)
  from claimed_sent [OF this sent] show ?thesis using r l claimLease_granted [OF keys l] by blast
qed

lemma take_all_owner:
  "map_of (po_sessions (fold (\<lambda>x. take_session x c) ids p)) s =
     (if s \<in> set ids then Some c else map_of (po_sessions p) s)"
  by (induction ids arbitrary: p) (auto simp: take_session_def update_conv')

lemma forget_no_owner: "map_of (forget_sessions c t) s \<noteq> Some c"
  by (auto simp: forget_sessions_def dest!: map_of_SomeD)

text \<open>
  A runner cannot advertise itself into a session of another runner. After an advertisement
  was processed, each session its channel owns has as its newest work item one that was assigned to this
  very runner and environment, and each such session it named is owned.
\<close>

theorem advertised_sessions_validated:
  assumes run: "replaceRunnerSessions w c frame (p, d) = ((p', d'), os)"
    and part: "jget frame ''sessionIds'' = Some (JArr vs)" "length vs \<le> MAX_ADVERTISED_SESSIONS"
      "jget frame ''runnerId'' = Some (JStr (rs_runner (scope_of p c)))" "\<not> aw_fails w"
      "registered (fst (aw_during w (set_conn c (\<lambda>k. k\<lparr>cn_advertised := True\<rparr>) p, d))) c"
  shows "map_of (po_sessions p') s = Some c \<longleftrightarrow>
     s \<in> set (advertised_ids vs) \<and>
     (\<exists>i \<in> set (findLatestBySessions (rs_project (scope_of p c)) (advertised_ids vs) d).
        wi_session i = Some s \<and> wi_runner i = Some (rs_runner (scope_of p c)) \<and>
        wi_environment i = Some (rs_environment (scope_of p c)))"
proof -
  have "p' = fold (\<lambda>x. take_session x c)
      (validated_ids (scope_of p c) (findLatestBySessions (rs_project (scope_of p c)) (advertised_ids vs) d) (advertised_ids vs))
      ((fst (aw_during w (set_conn c (\<lambda>k. k\<lparr>cn_advertised := True\<rparr>) p, d)))\<lparr>po_sessions :=
         forget_sessions c (po_sessions (fst (aw_during w (set_conn c (\<lambda>k. k\<lparr>cn_advertised := True\<rparr>) p, d))))\<rparr>)"
    using run part by (simp add: replaceRunnerSessions_def Let_def)
  then show ?thesis by (simp add: take_all_owner forget_no_owner validated_ids_def list_ex_iff)
qed

lemma restore_keeps_owner:
  "map_of (po_sessions p) s = Some c0 \<Longrightarrow> c0 \<noteq> c \<Longrightarrow> map_of (po_sessions (fold (restore_session c) rows p)) s = Some c0"
proof (induction rows arbitrary: p)
  case (Cons i rows)
  have "map_of (po_sessions (restore_session c i p)) s = Some c0"
    using Cons.prems by (auto simp: restore_session_def take_session_def update_conv' split: option.splits)
  then show ?case using Cons by simp
qed simp

lemma registered_restore: "registered (fold (restore_session c) rows p) x = registered p x"
proof (induction rows arbitrary: p)
  case (Cons i rows)
  have "registered (restore_session c i p) x = registered p x"
    by (simp add: restore_session_def take_session_def split: option.splits)
  then show ?case using Cons by simp
qed simp

text \<open>
  A session that a superseded channel owned is lost to its runner until the runner
  advertises it. The entry stays when the runner reconnects, the restoration of the new channel skips a
  session that has an owner, and until then no command reaches the session although its work is leased.
\<close>

theorem stale_owner_blocks_restore:
  assumes "map_of (po_sessions p) s = Some c0" "\<not> registered p c0" "c0 \<noteq> c"
  shows "connectionForSession s (fst (restoreActiveSessions (\<lambda>x. x) c (p, d))) = None"
  using assms restore_keeps_owner [OF assms(1,3)] registered_restore
  by (simp add: restoreActiveSessions_def Let_def connectionForSession_def)

definition demo_again :: pool where
  "demo_again = fst (connectRunner True demo_param demo_owning)"

lemma demo_again_facts:
  "map_of (po_sessions demo_again) ''s'' = Some 0" "\<not> registered demo_again 0" "registered demo_again 1"
proof -
  have o: "demo_owning = empty_pool\<lparr>po_conns := (po_conns empty_pool)(0 := \<lparr>cn_scope = demo_scope, cn_open = True,
     cn_assigned = 0, cn_advertised = False\<rparr>), po_next := 1, po_runners := [(''runnerId'', 0)],
     po_sessions := [(''s'', 0)], po_backfill := [(''s'', 0)]\<rparr>"
    by (simp add: demo_owning_eq demo_connected_eq(2))
  show "map_of (po_sessions demo_again) ''s'' = Some 0" "\<not> registered demo_again 0" "registered demo_again 1"
    by (simp_all add: demo_again_def connectRunner_def demo_scope_from supersede_def rejectPendingCommands_def
        rejectPendingSandbox_def accept_runner_def Let_def close_socket_def set_conn_def is_open_def registered_def scope_of_def
        o empty_pool_def case_prod_beta demo_scope_def)
qed

theorem stale_owner_blocks_restore_witness:
  "connectionForSession ''s'' (fst (restoreActiveSessions (\<lambda>x. x) 1 (demo_again, demo_db))) = None"
  by (rule stale_owner_blocks_restore [OF demo_again_facts(1,2)]) simp

section \<open>Concrete runs\<close>

definition demo_result :: json where
  "demo_result = JObj [(''type'', JStr ''session.command.result''), (''requestId'', JStr ''c1''), (''sessionId'', JStr ''s''),
     (''runnerId'', JStr ''runnerId''), (''accepted'', JBool True)]"

definition quiet_world :: advertise_world where
  "quiet_world = \<lparr>aw_during = (\<lambda>s. s), aw_fails = False\<rparr>"

lemma dispatch_keeps: "po_conns (fst (dispatch st fresh body p)) = po_conns p" "po_runners (fst (dispatch st fresh body p)) = po_runners p"
  by (simp_all add: dispatch_def sendCommandRequest_def Let_def split: option.splits)

lemma demo_waiting_conns: "po_conns demo_waiting = po_conns demo_connected" "po_runners demo_waiting = po_runners demo_connected"
  unfolding demo_waiting_def dispatch_keeps by (simp_all add: demo_owning_eq)

theorem answers_come_from_the_channel_witness:
  "\<exists>s' os. handleRunnerMessage quiet_world 0 (Some demo_result) (demo_waiting, demo_db) = (s', os) \<and>
     O_settle K_command (commandRequestKey ''s'' ''c1'') (Inr (Accepted True)) \<in> set os \<and>
     holder K_command (commandRequestKey ''s'' ''c1'') demo_waiting = Some 0"
proof -
  have r: "registered demo_waiting 0" "rs_runner (scope_of demo_waiting 0) = ''runnerId''"
    using demo_registered(1) by (simp_all add: registered_def scope_of_def demo_waiting_conns)
      (simp_all add: demo_connected_eq(2) empty_pool_def demo_scope_def)
  have j: "jget demo_result ''type'' = Some (JStr ''session.command.result'')" "jget demo_result ''requestId'' = Some (JStr ''c1'')"
    "jget demo_result ''sessionId'' = Some (JStr ''s'')" "jget demo_result ''runnerId'' = Some (JStr ''runnerId'')"
    "jget demo_result ''accepted'' = Some (JBool True)" "is_object (Some demo_result)"
    by (simp_all add: demo_result_def jget_def is_object_def)
  obtain s' os where h: "handleRunnerMessage quiet_world 0 (Some demo_result) (demo_waiting, demo_db) = (s', os)" by fastforce
  then have "os = [O_settle K_command (commandRequestKey ''s'' ''c1'') (Inr (Accepted True))]"
    by (simp add: handleRunnerMessage_def Let_def j r on_pool_def resolveCommandResponse_def demo_waiting_eq(2))
  then have o: "O_settle K_command (commandRequestKey ''s'' ''c1'') (Inr (Accepted True)) \<in> set os" by simp
  from answers_come_from_the_channel [OF h o] h o show ?thesis by blast
qed

definition demo_pool_item :: work_item_row where
  "demo_pool_item = demo_item\<lparr>wi_project := ''projectId'', wi_environment := Some ''environmentId''\<rparr>"

definition demo_pool_runner :: runner_row where
  "demo_pool_runner = demo_runner\<lparr>ru_id := ''runnerId'', ru_project := ''projectId'', ru_environment := Some ''environmentId''\<rparr>"

definition demo_pool_db :: db where
  "demo_pool_db = demo_db\<lparr>work_items := [demo_pool_item], runners := [demo_pool_runner]\<rparr>"

definition demo_dispatch_world :: dispatch_world where
  "demo_dispatch_world = \<lparr>dw_before_find = (\<lambda>s. s), dw_find_at = 100, dw_claim = demo_claim_world (Inr []), dw_during_claim = (\<lambda>p. p),
     dw_before_item = (\<lambda>s. s), dw_before_payload = (\<lambda>s. s), dw_during_payload = (\<lambda>s. s), dw_send_throws = False\<rparr>"

lemma demo_pool_sweep: "expireStale ''projectId'' 100 demo_pool_db = demo_pool_db"
  by (simp add: expireStale_def stale_leases_def demo_pool_db_def demo_db_def)

definition demo_pool_claim :: claim_input where
  "demo_pool_claim = \<lparr>ci_organization = ''organizationId'', ci_project = ''projectId'', ci_work_item = ''w'', ci_runner = ''runnerId'',
     ci_duration = 60\<rparr>"

definition demo_pool_claimed :: db where
  "demo_pool_claimed = fst (batch_claim demo_pool_claim ''l'' 100 100 demo_pool_db)"

lemma demo_pool_claim_run:
  "claim demo_pool_claim ''l'' 100 100 demo_pool_db = (demo_pool_claimed, Inr (Claimed (new_lease demo_pool_claim ''l'' 100 100) None))"
  "findWorkItemRow ''projectId'' ''w'' demo_pool_claimed = Some (demo_pool_item\<lparr>wi_state := W_leased, wi_runner := Some ''runnerId'',
     wi_lease := Some ''l'', wi_attempts := 1, wi_updated := 100\<rparr>)"
  by (simp_all add: demo_pool_claimed_def claim_def case_prod_beta demo_pool_db_def demo_pool_item_def demo_pool_runner_def
      demo_pool_claim_def demo_defs batch_claim_def claim_insert_def claim_item_def claiming_runner_def claimable_item_def
      activeLeaseCount_def waiting_session_def runnerHeartbeatStaleBefore_def RUNNER_HEARTBEAT_GRACE_MS_def findWorkItemRow_def
      sql_get_def claim_session_def claim_load_def)

lemma demo_pool_claimLease:
  "claimLease (demo_claim_world (Inr [])) ''organizationId'' ''projectId'' demo_pool_runner ''w'' None demo_pool_db =
     (demo_pool_claimed, Inr (new_lease demo_pool_claim ''l'' 100 100))"
proof -
  have f: "findWorkItemRow ''projectId'' ''w'' demo_pool_db = Some demo_pool_item"
    by (simp add: findWorkItemRow_def sql_get_def demo_pool_db_def demo_pool_item_def demo_item_def)
  have r: "ru_deleted demo_pool_runner = None" "ru_state demo_pool_runner = R_active" "ru_id demo_pool_runner = ''runnerId''"
    "ru_environment demo_pool_runner = Some ''environmentId''"
    by (simp_all add: demo_pool_runner_def demo_runner_def)
  have i: "wi_state demo_pool_item = W_available" "wi_available_at demo_pool_item = 0" "wi_environment demo_pool_item = Some ''environmentId''"
    "wi_payload demo_pool_item = JObj []"
    by (simp_all add: demo_pool_item_def demo_item_def)
  have s: "runnerSupportsWork rts (JObj [])" for rts
    by (simp add: runnerSupportsWork_def workRuntimeRequirement_def jget_def)
  show ?thesis
    by (simp add: claimLease_def demo_claim_world_def demo_pool_sweep f r i s environment_fits_def truthy_str_def
        USECASE_LEASE_DURATION_SECONDS_def demo_pool_claim_def [symmetric] demo_pool_claim_run claimed_lease_def
        needs_secrets_def jget_def)
qed

theorem assigned_work_is_leased_witness:
  "\<exists>s' os. dispatch_to demo_dispatch_world ''organizationId'' ''projectId'' ''environmentId'' ''w'' 0 (demo_connected, demo_pool_db) =
       (s', os, Some (''runnerId'', ''l'')) \<and>
     (\<exists>l \<in> set (leases demo_pool_claimed). le_id l = ''l'' \<and> le_state l = L_active \<and> le_runner l = ''runnerId'')"
proof -
  have w: "dw_before_find demo_dispatch_world = (\<lambda>s. s)" "dw_find_at demo_dispatch_world = 100"
    "dw_claim demo_dispatch_world = demo_claim_world (Inr [])"
    by (simp_all add: demo_dispatch_world_def)
  have c: "rs_runner (scope_of demo_connected 0) = ''runnerId''" "cn_assigned (po_conns demo_connected 0) = 0"
    by (simp_all add: scope_of_def demo_connected_eq(2) demo_scope_def)
  have r: "runner_find ''projectId'' ''runnerId'' 100 demo_pool_db = Some demo_pool_runner"
    by (simp add: runner_find_def live_runner_def sql_get_def demo_pool_db_def demo_pool_runner_def demo_runner_def runner_record_def
        effectiveRunnerState_def RUNNER_HEARTBEAT_GRACE_MS_def)
  have f: "ru_environment demo_pool_runner = Some ''environmentId''" "ru_state demo_pool_runner = R_active" "ru_max demo_pool_runner = 1"
    by (simp_all add: demo_pool_runner_def demo_runner_def)
  have m: "materializeWorkItemPayload sw ''projectId'' ''w'' demo_pool_claimed = Inr (JObj [])" for sw
    by (simp add: materializeWorkItemPayload_def rawPayload_def demo_pool_claim_run(2) Let_def)
      (simp add: demo_pool_item_def demo_item_def jget_def)
  have i: "wi_id demo_pool_item = ''w''" by (simp add: demo_pool_item_def demo_item_def)
  obtain s' os f where run: "dispatch_to demo_dispatch_world ''organizationId'' ''projectId'' ''environmentId'' ''w'' 0
      (demo_connected, demo_pool_db) = (s', os, Some (''runnerId'', ''l''))" and frame: "os = [O_send 0 f]"
    by (simp add: dispatch_to_def Let_def w c r f demo_pool_claimLease dispatch_claimed_def demo_pool_claim_run(2) m i
        demo_dispatch_world_def work_sent_def new_lease_def)
  have k: "keys_ok (cw_before_claim (dw_claim demo_dispatch_world) (cw_before_read (dw_claim demo_dispatch_world)
      (expireStale ''projectId'' (cw_sweep_at (dw_claim demo_dispatch_world)) (snd (dw_before_find demo_dispatch_world (demo_connected, demo_pool_db))))))"
    by (simp add: w demo_claim_world_def demo_pool_sweep) (simp add: keys_ok_def demo_pool_db_def demo_db_def)
  have sent: "O_send 0 f \<in> set os" using frame by simp
  from assigned_work_is_leased [OF run sent k] obtain x d2 l rid where
    x: "runner_find ''projectId'' (rs_runner (scope_of demo_connected 0)) 100 demo_pool_db = Some x"
    and l: "claimLease (demo_claim_world (Inr [])) ''organizationId'' ''projectId'' x ''w'' None demo_pool_db = (d2, Inr l)"
    and m: "l \<in> set (leases d2)" "le_state l = L_active" "le_runner l = ru_id x"
      "Some (''runnerId'', ''l'') = Some (rid, le_id l)"
    unfolding w fst_conv snd_conv by blast
  from x c r have x: "x = demo_pool_runner" by simp
  have "ru_id demo_pool_runner = ''runnerId''" by (simp add: demo_pool_runner_def demo_runner_def)
  with l m x have "d2 = demo_pool_claimed" "le_id l = ''l''" "le_runner l = ''runnerId''" by (simp_all add: demo_pool_claimLease)
  with m have "\<exists>l \<in> set (leases demo_pool_claimed). le_id l = ''l'' \<and> le_state l = L_active \<and> le_runner l = ''runnerId''" by blast
  with run show ?thesis by blast
qed

definition demo_advert :: json where
  "demo_advert = JObj [(''runnerId'', JStr ''runnerId''), (''sessionIds'', JArr [JStr ''s''])]"

theorem advertised_sessions_validated_witness:
  "map_of (po_sessions (fst (fst (replaceRunnerSessions quiet_world 0 demo_advert (demo_connected, demo_db\<lparr>work_items :=
      [demo_pool_item\<lparr>wi_session := Some ''s'', wi_runner := Some ''runnerId''\<rparr>]\<rparr>))))) ''s'' = Some 0"
proof -
  let ?d = "demo_db\<lparr>work_items := [demo_pool_item\<lparr>wi_session := Some ''s'', wi_runner := Some ''runnerId''\<rparr>]\<rparr>"
  obtain p' d' os where run: "replaceRunnerSessions quiet_world 0 demo_advert (demo_connected, ?d) = ((p', d'), os)"
    by (metis surj_pair)
  have sc: "scope_of demo_connected 0 = demo_scope" by (simp add: scope_of_def demo_connected_eq(2))
  have "findLatestBySessions ''projectId'' [''s''] ?d = [demo_pool_item\<lparr>wi_session := Some ''s'', wi_runner := Some ''runnerId''\<rparr>]"
    by (simp add: findLatestBySessions_def newest_first_def demo_pool_item_def)
  moreover have "advertised_ids [JStr ''s''] = [''s'']" by (simp add: advertised_ids_def map_filter_def)
  ultimately have "map_of (po_sessions p') ''s'' = Some 0"
    using demo_registered(1)
    by (subst advertised_sessions_validated [OF run, where vs = "[JStr ''s'']"])
      (simp_all add: quiet_world_def sc demo_advert_def jget_def demo_scope_def MAX_ADVERTISED_SESSIONS_def demo_pool_item_def)
  then show ?thesis by (simp add: run)
qed

end
