(* ===== verification/TriggerStore.thy ===== *)
theory TriggerStore
  imports SessionStore
begin

text \<open>
  Triggers and their runs: the tables (\<open>server/db/schema.ts\<close>), the trigger repository
  (\<open>server/adapters/repos/triggers.ts\<close>), the schedule rules of
  \<open>server/usecases/triggers.ts\<close> and the dispatch repository
  (\<open>server/adapters/repos/trigger-dispatch.ts\<close>), one definition per statement or method.

  A method that issues several statements takes an argument \<open>w\<close>: \<open>w k\<close> is what other processes
  write before its \<open>k\<close>-th statement. Identifiers that the code draws at random are arguments.
\<close>

section \<open>Rows\<close>

datatype trigger_type = T_scheduled | T_http | T_inbox

datatype http_mode = M_parallel | M_serial

datatype run_state = N_claimed | N_queued | N_dispatching | N_dispatched | N_failed

record template_spec =
  tp_agent :: id
  tp_environment :: "id option"
  tp_runtime :: string
  tp_prompt :: string
  tp_env :: json
  tp_env_from :: json
  tp_volumes :: json
  tp_volume_mounts :: json

record trigger_row =
  tg_id :: id
  tg_organization :: id
  tg_project :: id
  tg_type :: trigger_type
  tg_mode :: http_mode
  tg_name :: string
  tg_spec :: template_spec
  tg_interval :: "int option"
  tg_window :: "int option"
  tg_enabled :: bool
  tg_next_due :: "time option"
  tg_last_dispatched :: "time option"
  tg_last_run :: "id option"
  tg_key_hash :: "string option"
  tg_fingerprint :: "string option"
  tg_metadata :: json
  tg_deleted :: "time option"
  tg_created :: time
  tg_updated :: time

record run_row =
  rn_id :: id
  rn_organization :: id
  rn_project :: id
  rn_trigger :: id
  rn_scheduled :: "time option"
  rn_heartbeat :: "time option"
  rn_triggered :: time
  rn_state :: run_state
  rn_key :: string
  rn_session :: "id option"
  rn_correlation :: string
  rn_error :: "string option"
  rn_source :: "(id \<times> id) option"
  rn_metadata :: json
  rn_created :: time
  rn_updated :: time

record pending_row =
  pn_sequence :: nat
  pn_run :: id
  pn_trigger :: id
  pn_organization :: id
  pn_organization_name :: string
  pn_project :: id
  pn_project_name :: string
  pn_user :: id
  pn_hash :: "string option"
  pn_prompt :: string
  pn_created :: time

record message_row =
  mg_id :: id
  mg_organization :: id
  mg_project :: id
  mg_session :: id
  mg_content :: string
  mg_delivery :: string
  mg_state :: string
  mg_created :: time

text \<open>
  \<open>td_sequence\<close> is the AUTOINCREMENT counter of the pending runs, \<open>td_core\<close> the database of the
  sessions.
\<close>

record trigger_db =
  td_triggers :: "trigger_row list"
  td_runs :: "run_row list"
  td_pending :: "pending_row list"
  td_sequence :: nat
  td_messages :: "message_row list"
  td_projects :: "(id \<times> string) list"
  td_core :: db

datatype store_error =
    SE_deleted string
  | SE_unique
  | SE_foreign_key
  | SE_check

section \<open>Triggers\<close>

datatype trigger_source =
    Src_schedule int int
  | Src_http "http_mode option"
  | Src_inbox

record trigger_config =
  cf_name :: string
  cf_source :: trigger_source
  cf_suspend :: bool
  cf_spec :: template_spec
  cf_metadata :: json
  cf_next_due :: "time option"

definition schedule_shape :: "trigger_row \<Rightarrow> bool" where
  "schedule_shape t \<longleftrightarrow>
     tg_type t = T_scheduled \<and> tg_interval t \<noteq> None \<and> tg_next_due t \<noteq> None \<or>
     tg_type t \<in> {T_http, T_inbox} \<and> tg_interval t = None \<and> tg_next_due t = None"

definition configColumns :: "trigger_config \<Rightarrow> trigger_row \<Rightarrow> trigger_row" where
  "configColumns config t = t\<lparr>
     tg_type := (case cf_source config of Src_schedule _ _ \<Rightarrow> T_scheduled | Src_http _ \<Rightarrow> T_http | Src_inbox \<Rightarrow> T_inbox),
     tg_mode := (case cf_source config of Src_http (Some m) \<Rightarrow> m | _ \<Rightarrow> M_parallel),
     tg_name := cf_name config,
     tg_spec := cf_spec config,
     tg_interval := (case cf_source config of Src_schedule i _ \<Rightarrow> Some i | _ \<Rightarrow> None),
     tg_window := (case cf_source config of Src_schedule _ wd \<Rightarrow> Some wd | _ \<Rightarrow> None),
     tg_enabled := \<not> cf_suspend config,
     tg_next_due := cf_next_due config,
     tg_metadata := cf_metadata config\<rparr>"

definition domain_source :: "trigger_row \<Rightarrow> trigger_source" where
  "domain_source t =
     (case tg_type t of
        T_scheduled \<Rightarrow> Src_schedule (case tg_interval t of None \<Rightarrow> 0 | Some i \<Rightarrow> i)
                                  (case tg_window t of None \<Rightarrow> 0 | Some x \<Rightarrow> x)
      | T_http \<Rightarrow> Src_http (Some (tg_mode t))
      | T_inbox \<Rightarrow> Src_inbox)"

definition find_trigger :: "id \<Rightarrow> id \<Rightarrow> trigger_db \<Rightarrow> trigger_row option" where
  "find_trigger projectId triggerId d =
     sql_get (\<lambda>t. tg_id t = triggerId \<and> tg_project t = projectId \<and> tg_deleted t = None) (td_triggers d)"

text \<open>The replay of a creation; a deleted trigger still holds its key.\<close>

definition find_trigger_creation :: "id \<Rightarrow> string \<Rightarrow> trigger_db \<Rightarrow> string + (trigger_row \<times> string) option" where
  "find_trigger_creation projectId keyHash d =
     (case sql_get (\<lambda>t. tg_project t = projectId \<and> tg_key_hash t = Some keyHash) (td_triggers d) of
        None \<Rightarrow> Inr None
      | Some t \<Rightarrow>
          if \<not> truthy_str (tg_fingerprint t) then Inr None
          else if tg_deleted t \<noteq> None then Inl ''Idempotency-Key belongs to a deleted Trigger''
          else Inr (Some (t, the (tg_fingerprint t))))"

definition new_trigger :: "id \<Rightarrow> id \<Rightarrow> id \<Rightarrow> trigger_config \<Rightarrow> (string \<times> string) option \<Rightarrow> time \<Rightarrow> trigger_row" where
  "new_trigger newId organizationId projectId config creation t =
     configColumns config
       \<lparr>tg_id = newId, tg_organization = organizationId, tg_project = projectId, tg_type = T_scheduled,
        tg_mode = M_parallel, tg_name = [], tg_spec = cf_spec config, tg_interval = None, tg_window = None,
        tg_enabled = True, tg_next_due = None, tg_last_dispatched = None, tg_last_run = None,
        tg_key_hash = map_option fst creation, tg_fingerprint = map_option snd creation,
        tg_metadata = cf_metadata config, tg_deleted = None, tg_created = t, tg_updated = t\<rparr>"

definition trigger_conflict :: "trigger_row \<Rightarrow> trigger_row \<Rightarrow> bool" where
  "trigger_conflict t x \<longleftrightarrow> tg_id x = tg_id t \<or>
     tg_project x = tg_project t \<and> tg_key_hash x = tg_key_hash t \<and> tg_key_hash t \<noteq> None"

text \<open>The insert of a trigger: a lost race for the idempotency key is answered with the winner.\<close>

definition insert_trigger ::
    "id \<Rightarrow> id \<Rightarrow> id \<Rightarrow> trigger_config \<Rightarrow> (string \<times> string) option \<Rightarrow> time \<Rightarrow> trigger_db \<Rightarrow>
     trigger_db \<times> (string + trigger_row)" where
  "insert_trigger newId organizationId projectId config creation t d =
     (let row = new_trigger newId organizationId projectId config creation t in
      if schedule_shape row \<and> \<not> sql_exists (trigger_conflict row) (td_triggers d)
      then (d\<lparr>td_triggers := td_triggers d @ [row]\<rparr>, Inr row)
      else (d, case creation of
                 None \<Rightarrow> Inl ''constraint failed''
               | Some (keyHash, fingerprint) \<Rightarrow>
                   (case find_trigger_creation projectId keyHash d of
                      Inl e \<Rightarrow> Inl e
                    | Inr None \<Rightarrow> Inl ''constraint failed''
                    | Inr (Some (winner, fp)) \<Rightarrow>
                        if fp \<noteq> fingerprint then Inl ''Idempotency-Key was already used for a different creation request.'' else Inr winner)))"

definition update_trigger :: "id \<Rightarrow> id \<Rightarrow> trigger_config \<Rightarrow> time \<Rightarrow> trigger_db \<Rightarrow> trigger_db \<times> (store_error + trigger_row)" where
  "update_trigger projectId triggerId config t d =
     (case find_trigger projectId triggerId d of
        None \<Rightarrow> (d, Inl (SE_deleted ''Trigger''))
      | Some old \<Rightarrow>
          let row = configColumns config (old\<lparr>tg_updated := t\<rparr>) in
          if \<not> schedule_shape row then (d, Inl SE_check)
          else (d\<lparr>td_triggers := sql_update
                    (\<lambda>r. tg_id r = triggerId \<and> tg_project r = projectId \<and> tg_deleted r = None)
                    (\<lambda>r. configColumns config (r\<lparr>tg_updated := t\<rparr>)) (td_triggers d)\<rparr>, Inr row))"

definition delete_trigger :: "id \<Rightarrow> id \<Rightarrow> time \<Rightarrow> trigger_db \<Rightarrow> trigger_db \<times> bool" where
  "delete_trigger projectId triggerId t d =
     (let P = (\<lambda>r. tg_id r = triggerId \<and> tg_project r = projectId \<and> tg_deleted r = None) in
      (d\<lparr>td_triggers := sql_update P (\<lambda>r. r\<lparr>tg_deleted := Some t, tg_updated := t, tg_enabled := False\<rparr>) (td_triggers d)\<rparr>,
       sql_exists P (td_triggers d)))"

section \<open>Schedule rules of the use cases\<close>

definition nextDueFromInterval :: "int \<Rightarrow> time \<Rightarrow> time" where
  "nextDueFromInterval intervalSeconds from_time = from_time + intervalSeconds * 1000"

definition normalizeScheduleConfig ::
    "trigger_source \<Rightarrow> time option \<Rightarrow> time \<Rightarrow> string + (trigger_source \<times> time option)" where
  "normalizeScheduleConfig source next now =
     (case source of
        Src_schedule i wd \<Rightarrow>
          Inr (source, Some (case next of Some t \<Rightarrow> t | None \<Rightarrow> nextDueFromInterval i now))
      | _ \<Rightarrow> if next \<noteq> None then Inl ''Non-scheduled triggers do not use schedule timing.''
            else Inr (source, None))"

datatype source_patch =
    Patch_schedule "int option" "int option"
  | Patch_http "http_mode option"
  | Patch_inbox

definition mergeSource ::
    "trigger_row \<Rightarrow> source_patch option \<Rightarrow> time option \<Rightarrow> time \<Rightarrow> string + (trigger_source \<times> time option)" where
  "mergeSource t patch next now =
     (let current = domain_source t;
          mode = (case current of Src_http m \<Rightarrow> m | _ \<Rightarrow> None);
          merge = (\<lambda>p_i p_w.
            (case (case p_i of Some i \<Rightarrow> Some i
                            | None \<Rightarrow> (case current of Src_schedule i _ \<Rightarrow> Some i | _ \<Rightarrow> None)) of
               None \<Rightarrow> Inl ''Scheduled triggers require an interval schedule.''
             | Some i \<Rightarrow>
                 Inr (Src_schedule i (case p_w of Some x \<Rightarrow> x
                                             | None \<Rightarrow> (case current of Src_schedule _ x \<Rightarrow> x | _ \<Rightarrow> 0)),
                      Some (case next of Some n \<Rightarrow> n
                            | None \<Rightarrow> (case tg_next_due t of Some n \<Rightarrow> n | None \<Rightarrow> nextDueFromInterval i now))))) in
      case patch of
        Some Patch_inbox \<Rightarrow>
          if next \<noteq> None then Inl ''Inbox triggers do not use schedule timing.'' else Inr (Src_inbox, None)
      | Some (Patch_http c) \<Rightarrow>
          if next \<noteq> None then Inl ''HTTP triggers do not use schedule timing.''
          else Inr (Src_http (case c of Some m \<Rightarrow> Some m | None \<Rightarrow> mode), None)
      | Some (Patch_schedule p_i p_w) \<Rightarrow> merge p_i p_w
      | None \<Rightarrow>
          (case current of
             Src_schedule _ _ \<Rightarrow> merge None None
           | Src_inbox \<Rightarrow>
               if next \<noteq> None then Inl ''HTTP triggers do not use schedule timing.'' else Inr (Src_inbox, None)
           | Src_http m \<Rightarrow>
               if next \<noteq> None then Inl ''HTTP triggers do not use schedule timing.'' else Inr (Src_http m, None)))"

section \<open>Inserting runs\<close>

definition run_conflict :: "run_row \<Rightarrow> run_row \<Rightarrow> bool" where
  "run_conflict r x \<longleftrightarrow>
     rn_id x = rn_id r \<or> rn_key x = rn_key r \<or>
     rn_trigger x = rn_trigger r \<and> rn_scheduled x = rn_scheduled r \<and> rn_scheduled r \<noteq> None \<or>
     rn_source x = rn_source r \<and> rn_source r \<noteq> None"

definition insert_run :: "run_row \<Rightarrow> trigger_db \<Rightarrow> store_error + trigger_db" where
  "insert_run r d =
     (if sql_exists (\<lambda>t. tg_id t = rn_trigger r \<and> tg_deleted t \<noteq> None) (td_triggers d)
      then Inl (SE_deleted ''Trigger run'')
      else if sql_exists (run_conflict r) (td_runs d) then Inl SE_unique
      else if \<not> sql_exists (\<lambda>t. tg_id t = rn_trigger r) (td_triggers d) then Inl SE_foreign_key
      else Inr (d\<lparr>td_runs := td_runs d @ [r]\<rparr>))"

record claimed_run =
  cd_id :: id
  cd_scheduled_for :: time
  cd_correlation :: string
  cd_metadata :: json

definition claimedHttpRun :: "run_row \<Rightarrow> claimed_run" where
  "claimedHttpRun r =
     \<lparr>cd_id = rn_id r, cd_scheduled_for = rn_triggered r, cd_correlation = rn_correlation r, cd_metadata = rn_metadata r\<rparr>"

section \<open>Scheduled runs\<close>

record due_trigger =
  du_id :: id
  du_organization :: id
  du_project :: id
  du_name :: string
  du_metadata :: json
  du_spec :: template_spec
  du_next_due :: time
  du_interval :: int

definition dueTriggerFrom :: "trigger_row \<Rightarrow> due_trigger option" where
  "dueTriggerFrom t =
     (case (tg_next_due t, tg_interval t) of
        (Some n, Some i) \<Rightarrow>
          Some \<lparr>du_id = tg_id t, du_organization = tg_organization t, du_project = tg_project t, du_name = tg_name t,
                du_metadata = tg_metadata t, du_spec = tg_spec t, du_next_due = n, du_interval = i\<rparr>
      | _ \<Rightarrow> None)"

definition due_row :: "time \<Rightarrow> id option \<Rightarrow> trigger_row \<Rightarrow> bool" where
  "due_row heartbeatAt projectId t \<longleftrightarrow>
     tg_type t = T_scheduled \<and> tg_enabled t \<and> tg_deleted t = None \<and>
     (case tg_next_due t of None \<Rightarrow> False | Some n \<Rightarrow> n \<le> heartbeatAt) \<and>
     (\<not> truthy_str projectId \<or> projectId = Some (tg_project t))"

fun collect :: "'a option list \<Rightarrow> 'a list option" where
  "collect [] = Some []"
| "collect (None # xs) = None"
| "collect (Some x # xs) = map_option (\<lambda>ys. x # ys) (collect xs)"

definition dueTriggers :: "time \<Rightarrow> id option \<Rightarrow> nat \<Rightarrow> trigger_db \<Rightarrow> due_trigger list option" where
  "dueTriggers heartbeatAt projectId limit d =
     collect (map dueTriggerFrom (take limit
       (sort_key (\<lambda>t. (the (tg_next_due t), tg_id t)) (filter (due_row heartbeatAt projectId) (td_triggers d)))))"

definition schedule_key :: "due_trigger \<Rightarrow> string" where
  "schedule_key trigger = du_id trigger @ '':'' @ toISOString (du_next_due trigger)"

definition scheduled_run :: "id \<Rightarrow> due_trigger \<Rightarrow> time \<Rightarrow> time \<Rightarrow> run_row" where
  "scheduled_run newId trigger heartbeatAt t =
     \<lparr>rn_id = newId, rn_organization = du_organization trigger, rn_project = du_project trigger,
      rn_trigger = du_id trigger, rn_scheduled = Some (du_next_due trigger), rn_heartbeat = Some heartbeatAt,
      rn_triggered = heartbeatAt, rn_state = N_claimed, rn_key = schedule_key trigger, rn_session = None,
      rn_correlation = ''schedule:'' @ schedule_key trigger, rn_error = None, rn_source = None,
      rn_metadata = JObj [], rn_created = t, rn_updated = t\<rparr>"

definition claimRun :: "id \<Rightarrow> due_trigger \<Rightarrow> time \<Rightarrow> time \<Rightarrow> trigger_db \<Rightarrow> trigger_db \<times> (store_error + claimed_run option)" where
  "claimRun newId trigger heartbeatAt t d =
     (case insert_run (scheduled_run newId trigger heartbeatAt t) d of
        Inl SE_unique \<Rightarrow> (d, Inr None)
      | Inl e \<Rightarrow> (d, Inl e)
      | Inr d' \<Rightarrow> (d', Inr (Some \<lparr>cd_id = newId, cd_scheduled_for = du_next_due trigger,
                                 cd_correlation = ''schedule:'' @ schedule_key trigger, cd_metadata = JObj []\<rparr>)))"

section \<open>HTTP runs\<close>

record auth_scope =
  au_organization :: id
  au_organization_name :: string
  au_project :: id
  au_project_name :: string
  au_user :: id

definition http_key :: "id \<Rightarrow> string option \<Rightarrow> id \<Rightarrow> string" where
  "http_key triggerId raw runId = ''http:'' @ triggerId @ '':'' @ (if truthy_str raw then the raw else runId)"

definition http_run :: "id \<Rightarrow> auth_scope \<Rightarrow> id \<Rightarrow> time \<Rightarrow> string option \<Rightarrow> json \<Rightarrow> run_state \<Rightarrow> run_row" where
  "http_run newId auth triggerId triggeredAt raw metadata state =
     \<lparr>rn_id = newId, rn_organization = au_organization auth, rn_project = au_project auth,
      rn_trigger = triggerId, rn_scheduled = None, rn_heartbeat = None,
      rn_triggered = triggeredAt, rn_state = state, rn_key = http_key triggerId raw newId, rn_session = None,
      rn_correlation = ''http:'' @ http_key triggerId raw newId, rn_error = None, rn_source = None,
      rn_metadata = metadata, rn_created = triggeredAt, rn_updated = triggeredAt\<rparr>"

definition claimHttpRun ::
    "id \<Rightarrow> auth_scope \<Rightarrow> id \<Rightarrow> time \<Rightarrow> string option \<Rightarrow> json \<Rightarrow> trigger_db \<Rightarrow>
     trigger_db \<times> (store_error + claimed_run option)" where
  "claimHttpRun newId auth triggerId triggeredAt raw metadata d =
     (let r = http_run newId auth triggerId triggeredAt raw metadata N_claimed in
      case insert_run r d of
        Inl SE_unique \<Rightarrow> (d, Inr None)
      | Inl e \<Rightarrow> (d, Inl e)
      | Inr d' \<Rightarrow> (d', Inr (Some (claimedHttpRun r))))"

section \<open>The queue of serial HTTP triggers\<close>

definition run_in_state :: "id \<Rightarrow> run_state \<Rightarrow> trigger_db \<Rightarrow> bool" where
  "run_in_state runId st d = sql_exists (\<lambda>r. rn_id r = runId \<and> rn_state r = st) (td_runs d)"

definition queued_rows :: "id \<Rightarrow> trigger_db \<Rightarrow> pending_row list" where
  "queued_rows triggerId d =
     sort_key pn_sequence (filter (\<lambda>p. pn_trigger p = triggerId \<and> run_in_state (pn_run p) N_queued d) (td_pending d))"

definition first_row :: "'r list \<Rightarrow> 'r option" where
  "first_row rows = (case rows of [] \<Rightarrow> None | r # _ \<Rightarrow> Some r)"

record enqueue_input =
  ni_hash :: "string option"
  ni_prompt :: string

definition enqueue_batch :: "run_row \<Rightarrow> auth_scope \<Rightarrow> enqueue_input \<Rightarrow> trigger_db \<Rightarrow> store_error + trigger_db" where
  "enqueue_batch r auth input d =
     (case insert_run r d of
        Inl e \<Rightarrow> Inl e
      | Inr d' \<Rightarrow>
          if sql_exists (\<lambda>p. pn_run p = rn_id r) (td_pending d') then Inl SE_unique
          else Inr (d'\<lparr>td_pending := td_pending d' @
                 [\<lparr>pn_sequence = Suc (td_sequence d'), pn_run = rn_id r, pn_trigger = rn_trigger r,
                   pn_organization = au_organization auth, pn_organization_name = au_organization_name auth,
                   pn_project = au_project auth, pn_project_name = au_project_name auth, pn_user = au_user auth,
                   pn_hash = ni_hash input, pn_prompt = ni_prompt input, pn_created = rn_triggered r\<rparr>],
                 td_sequence := Suc (td_sequence d')\<rparr>))"

datatype enqueue_result =
    Replayed id
  | Enqueued claimed_run bool

definition enqueueHttpRun ::
    "(nat \<Rightarrow> trigger_db \<Rightarrow> trigger_db) \<Rightarrow> id \<Rightarrow> auth_scope \<Rightarrow> id \<Rightarrow> time \<Rightarrow> string option \<Rightarrow> json \<Rightarrow> enqueue_input \<Rightarrow>
     trigger_db \<Rightarrow> trigger_db \<times> (store_error + enqueue_result)" where
  "enqueueHttpRun w newId auth triggerId triggeredAt raw metadata input d =
     (let r = http_run newId auth triggerId triggeredAt raw metadata N_queued in
      case enqueue_batch r auth input d of
        Inr d1 \<Rightarrow>
          let d2 = w 0 d1;
              oldest = map_option pn_run (first_row (queued_rows triggerId d2)) in
          (d2, Inr (Enqueued (claimedHttpRun r) (oldest = Some newId)))
      | Inl SE_unique \<Rightarrow>
          let d2 = w 0 d in
          (d2, case sql_get (\<lambda>x. rn_key x = rn_key r) (td_runs d2) of
                 None \<Rightarrow> Inl SE_unique
               | Some existing \<Rightarrow> Inr (Replayed (rn_id existing)))
      | Inl e \<Rightarrow> (d, Inl e))"

record pending_http_run =
  ph_run :: claimed_run
  ph_row :: pending_row

definition pendingHttpRun :: "id \<Rightarrow> trigger_db \<Rightarrow> pending_http_run option" where
  "pendingHttpRun runId d =
     (case (sql_get (\<lambda>p. pn_run p = runId) (td_pending d), sql_get (\<lambda>r. rn_id r = runId) (td_runs d)) of
        (Some p, Some r) \<Rightarrow> Some \<lparr>ph_run = claimedHttpRun r, ph_row = p\<rparr>
      | _ \<Rightarrow> None)"

definition ROUTING_KEY_HASH :: string where
  "ROUTING_KEY_HASH = ''enbor.dev/routing-key-hash''"

definition annotation :: "json \<Rightarrow> string \<Rightarrow> json option" where
  "annotation metadata k = jopt (jget metadata ''annotations'') k"

definition busy_session :: "session_row \<Rightarrow> bool" where
  "busy_session s \<longleftrightarrow> se_state s = P_pending \<or> se_state s = P_running"

definition active_pairs :: "id \<Rightarrow> trigger_db \<Rightarrow> (run_row \<times> session_row) list" where
  "active_pairs triggerId d =
     [(r, s). r \<leftarrow> td_runs d, rn_trigger r = triggerId \<and> rn_state r = N_dispatched,
              s \<leftarrow> sessions (td_core d), rn_session r = Some (se_id s) \<and> busy_session s]"

definition active_session :: "id \<Rightarrow> trigger_db \<Rightarrow> (id \<times> string option) option" where
  "active_session triggerId d =
     map_option (\<lambda>(r, s). (se_id s, jstr (annotation (se_metadata s) ROUTING_KEY_HASH)))
       (first_row (sort_key (\<lambda>(r, s). - rn_updated r) (active_pairs triggerId d)))"

definition run_dispatching :: "id \<Rightarrow> trigger_db \<Rightarrow> bool" where
  "run_dispatching triggerId d = sql_exists (\<lambda>r. rn_trigger r = triggerId \<and> rn_state r = N_dispatching) (td_runs d)"

definition session_busy :: "id \<Rightarrow> trigger_db \<Rightarrow> bool" where
  "session_busy sessionId d = sql_exists (\<lambda>s. se_id s = sessionId \<and> busy_session s) (sessions (td_core d))"

definition claim_allowed :: "id option \<Rightarrow> id \<Rightarrow> trigger_db \<Rightarrow> bool" where
  "claim_allowed active triggerId d =
     (case active of
        Some sid \<Rightarrow>
          \<not> run_dispatching triggerId d \<and> session_busy sid d \<and>
          \<not> list_ex (\<lambda>(r, s). se_id s \<noteq> sid) (active_pairs triggerId d)
      | None \<Rightarrow> \<not> run_dispatching triggerId d \<and> active_pairs triggerId d = [])"

definition claim_stmt :: "id \<Rightarrow> id option \<Rightarrow> id \<Rightarrow> time \<Rightarrow> trigger_db \<Rightarrow> trigger_db \<times> bool" where
  "claim_stmt runId active triggerId t d =
     (case cas_row rn_id runId (\<lambda>r. rn_state r = N_queued \<and> claim_allowed active triggerId d)
             (\<lambda>r. r\<lparr>rn_state := N_dispatching, rn_updated := t\<rparr>) (td_runs d) of
        (rs, ok) \<Rightarrow> (d\<lparr>td_runs := rs\<rparr>, ok))"

definition claim_candidate :: "string option \<Rightarrow> id \<Rightarrow> trigger_db \<Rightarrow> id option" where
  "claim_candidate hash triggerId d =
     map_option pn_run (first_row (filter (\<lambda>p. hash = None \<or> pn_hash p = hash) (queued_rows triggerId d)))"

definition claimNextHttpRun ::
    "(nat \<Rightarrow> trigger_db \<Rightarrow> trigger_db) \<Rightarrow> id \<Rightarrow> time \<Rightarrow> trigger_db \<Rightarrow> trigger_db \<times> pending_http_run option" where
  "claimNextHttpRun w triggerId t d =
     (let active = active_session triggerId d in
      if active \<noteq> None \<and> \<not> truthy_str (snd (the active)) then (d, None)
      else
        let d1 = w 0 d in
        (case claim_candidate (Option.bind active snd) triggerId d1 of
           None \<Rightarrow> (d1, None)
         | Some runId \<Rightarrow>
             (case claim_stmt runId (map_option fst active) triggerId t (w 1 d1) of
                (d2, False) \<Rightarrow> (d2, None)
              | (d2, True) \<Rightarrow> let d3 = w 2 d2 in (d3, pendingHttpRun runId d3))))"

definition requeueHttpRun :: "id \<Rightarrow> time \<Rightarrow> trigger_db \<Rightarrow> trigger_db" where
  "requeueHttpRun runId t d =
     d\<lparr>td_runs := sql_update (\<lambda>r. rn_id r = runId \<and> rn_state r = N_dispatching)
                    (\<lambda>r. r\<lparr>rn_state := N_queued, rn_updated := t\<rparr>) (td_runs d)\<rparr>"

definition hasPendingHttpRuns :: "id \<Rightarrow> trigger_db \<Rightarrow> bool" where
  "hasPendingHttpRuns triggerId d =
     sql_exists (\<lambda>p. pn_trigger p = triggerId \<and> run_in_state (pn_run p) N_queued d) (td_pending d)"

definition pendingHttpTriggers :: "nat \<Rightarrow> trigger_db \<Rightarrow> (id \<times> id) list" where
  "pendingHttpTriggers limit d =
     take limit (rev (remdups (rev (map (\<lambda>p. (pn_trigger p, pn_project p))
       (sort_key pn_sequence (filter (\<lambda>p. run_in_state (pn_run p) N_queued d) (td_pending d)))))))"

definition run_session :: "pending_http_run \<Rightarrow> session_row \<Rightarrow> bool" where
  "run_session p s \<longleftrightarrow>
     se_project s = pn_project (ph_row p) \<and>
     annotation (se_metadata s) ''source'' = Some (JStr ''http-trigger'') \<and>
     annotation (se_metadata s) ''httpTriggerId'' = Some (JStr (pn_trigger (ph_row p))) \<and>
     annotation (se_metadata s) ''httpRunId'' = Some (JStr (cd_id (ph_run p)))"

definition existing_session :: "pending_http_run \<Rightarrow> trigger_db \<Rightarrow> session_row option" where
  "existing_session p d =
     first_row (sort_key (\<lambda>s. - se_created s) (filter (run_session p) (sessions (td_core d))))"

definition stale_join :: "time \<Rightarrow> trigger_db \<Rightarrow> (pending_row \<times> run_row) list" where
  "stale_join staleBefore d =
     [(p, r). p \<leftarrow> td_pending d, r \<leftarrow> td_runs d,
              rn_id r = pn_run p \<and> rn_state r = N_dispatching \<and> rn_updated r \<le> staleBefore]"

text \<open>\<open>None\<close>: a pending run of the list disappeared before it was read, which the code throws.\<close>

definition staleHttpRuns ::
    "(nat \<Rightarrow> trigger_db \<Rightarrow> trigger_db) \<Rightarrow> time \<Rightarrow> nat \<Rightarrow> trigger_db \<Rightarrow>
     trigger_db \<times> (pending_http_run \<times> session_row option) list option" where
  "staleHttpRuns w staleBefore limit d =
     (let rows = take limit (sort_key (\<lambda>(p, r). (rn_updated r, pn_sequence p)) (stale_join staleBefore d));
          d1 = w 0 d in
      (d1, collect (map (\<lambda>(p, r). map_option (\<lambda>h. (h, existing_session h d1)) (pendingHttpRun (pn_run p) d1)) rows)))"

definition projectName :: "id \<Rightarrow> trigger_db \<Rightarrow> string option" where
  "projectName projectId d = map_of (td_projects d) projectId"

section \<open>Settling runs\<close>

datatype run_owner =
    Scheduled due_trigger
  | Http id

fun owner_id :: "run_owner \<Rightarrow> id" where
  "owner_id (Scheduled trigger) = du_id trigger"
| "owner_id (Http i) = i"

definition nextDueAt :: "due_trigger \<Rightarrow> time" where
  "nextDueAt trigger = du_next_due trigger + du_interval trigger * 1000"

fun advance_row :: "run_owner \<Rightarrow> id \<Rightarrow> time \<Rightarrow> trigger_row \<Rightarrow> trigger_row" where
  "advance_row (Scheduled trigger) runId t r =
     r\<lparr>tg_next_due := Some (nextDueAt trigger), tg_last_dispatched := Some t, tg_last_run := Some runId, tg_updated := t\<rparr>"
| "advance_row (Http _) runId t r =
     r\<lparr>tg_last_dispatched := Some t, tg_last_run := Some runId, tg_updated := t\<rparr>"

text \<open>The schedule CHECK rejects a due time on a trigger that is no longer scheduled.\<close>

definition advanceRunTrigger :: "run_owner \<Rightarrow> id \<Rightarrow> time \<Rightarrow> trigger_db \<Rightarrow> store_error + trigger_db" where
  "advanceRunTrigger own runId t d =
     (let P = (\<lambda>r. tg_id r = owner_id own \<and> tg_deleted r = None) in
      if list_ex (\<lambda>r. P r \<and> \<not> schedule_shape (advance_row own runId t r)) (td_triggers d) then Inl SE_check
      else Inr (d\<lparr>td_triggers := sql_update P (advance_row own runId t) (td_triggers d)\<rparr>))"

definition failed_run :: "string \<Rightarrow> time \<Rightarrow> run_row \<Rightarrow> run_row" where
  "failed_run message t r = r\<lparr>rn_state := N_failed, rn_error := Some message, rn_updated := t\<rparr>"

definition dispatched_run :: "id \<Rightarrow> json \<Rightarrow> time \<Rightarrow> run_row \<Rightarrow> run_row" where
  "dispatched_run sessionId metadata t r =
     r\<lparr>rn_state := N_dispatched, rn_session := Some sessionId, rn_metadata := metadata, rn_updated := t\<rparr>"

definition settle_run :: "id \<Rightarrow> (run_row \<Rightarrow> run_row) \<Rightarrow> trigger_db \<Rightarrow> trigger_db" where
  "settle_run runId f d =
     d\<lparr>td_runs := sql_update (\<lambda>r. rn_id r = runId) f (td_runs d),
       td_pending := filter (\<lambda>p. pn_run p \<noteq> runId) (td_pending d)\<rparr>"

definition mark_run ::
    "(trigger_db \<Rightarrow> trigger_db) \<Rightarrow> run_owner \<Rightarrow> id \<Rightarrow> (run_row \<Rightarrow> run_row) \<Rightarrow> time \<Rightarrow> trigger_db \<Rightarrow>
     trigger_db \<times> store_error option" where
  "mark_run w own runId f t d =
     (let d1 = w (settle_run runId f d) in
      case advanceRunTrigger own runId t d1 of
        Inl e \<Rightarrow> (d1, Some e)
      | Inr d2 \<Rightarrow> (d2, None))"

definition markRunFailed ::
    "(trigger_db \<Rightarrow> trigger_db) \<Rightarrow> run_owner \<Rightarrow> claimed_run \<Rightarrow> string \<Rightarrow> time \<Rightarrow> trigger_db \<Rightarrow>
     trigger_db \<times> store_error option" where
  "markRunFailed w own run message t d =
     mark_run w own (cd_id run) (failed_run message t) t d"

definition markRunDispatched ::
    "(trigger_db \<Rightarrow> trigger_db) \<Rightarrow> run_owner \<Rightarrow> claimed_run \<Rightarrow> id \<Rightarrow> json \<Rightarrow> time \<Rightarrow> trigger_db \<Rightarrow>
     trigger_db \<times> store_error option" where
  "markRunDispatched w own run sessionId sessionMetadata t d =
     mark_run w own (cd_id run)
       (dispatched_run sessionId (jset ''sessionMetadata'' sessionMetadata (cd_metadata run)) t) t d"

end
