(* ===== verification/TriggerProtocol.thy ===== *)
theory TriggerProtocol
  imports TriggerStore
begin

text \<open>
  The statements of the trigger repositories as a transition system, for any number of
  schedulers, requests and queue consumers: \<open>trigger_step\<close> has one rule per statement that writes
  a trigger table, and one for everything that writes the other tables. The invariant
  \<open>trigger_ok\<close> collects what the unique indexes, the batches and the guards of the statements
  give together: keys and occurrences are unique, the queue of pending runs agrees with the
  states of the runs, and at most one run of a trigger is being dispatched.
\<close>

section \<open>The statements\<close>

definition only_other_tables :: "trigger_db \<Rightarrow> trigger_db \<Rightarrow> bool" where
  "only_other_tables d d' \<longleftrightarrow>
     td_triggers d' = td_triggers d \<and> td_runs d' = td_runs d \<and> td_pending d' = td_pending d \<and>
     td_sequence d' = td_sequence d"

inductive trigger_step :: "trigger_db \<Rightarrow> trigger_db \<Rightarrow> bool" where
  step_other: "only_other_tables d d' \<Longrightarrow> trigger_step d d'"
| step_insert_trigger:
    "insert_trigger newId organizationId projectId config creation t d = (d', r) \<Longrightarrow> trigger_step d d'"
| step_update_trigger: "update_trigger projectId tid config t d = (d', r) \<Longrightarrow> trigger_step d d'"
| step_delete_trigger: "delete_trigger projectId tid t d = (d', r) \<Longrightarrow> trigger_step d d'"
| step_insert_run: "rn_state r = N_claimed \<Longrightarrow> insert_run r d = Inr d' \<Longrightarrow> trigger_step d d'"
| step_enqueue: "rn_state r = N_queued \<Longrightarrow> enqueue_batch r auth input d = Inr d' \<Longrightarrow> trigger_step d d'"
| step_claim:
    "(\<And>r. r \<in> set (td_runs d) \<Longrightarrow> rn_id r = runId \<Longrightarrow> rn_trigger r = tid) \<Longrightarrow>
     trigger_step d (fst (claim_stmt runId active tid t d))"
| step_requeue: "trigger_step d (requeueHttpRun runId t d)"
| step_fail: "trigger_step d (settle_run runId (failed_run message t) d)"
| step_dispatch: "trigger_step d (settle_run runId (dispatched_run sessionId metadata t) d)"
| step_advance: "advanceRunTrigger own runId t d = Inr d' \<Longrightarrow> trigger_step d d'"

section \<open>The invariant\<close>

definition open_run :: "run_row \<Rightarrow> bool" where
  "open_run r \<longleftrightarrow> rn_state r = N_queued \<or> rn_state r = N_dispatching"

definition run_keys :: "trigger_db \<Rightarrow> bool" where
  "run_keys d \<longleftrightarrow> distinct (map rn_id (td_runs d)) \<and> distinct (map rn_key (td_runs d))"

definition occurrence :: "run_row \<Rightarrow> id \<times> time option" where
  "occurrence r = (rn_trigger r, rn_scheduled r)"

definition occurrences_ok :: "trigger_db \<Rightarrow> bool" where
  "occurrences_ok d \<longleftrightarrow> distinct (map occurrence (filter (\<lambda>r. rn_scheduled r \<noteq> None) (td_runs d)))"

definition pending_ok :: "trigger_db \<Rightarrow> bool" where
  "pending_ok d \<longleftrightarrow>
     distinct (map pn_run (td_pending d)) \<and> sorted_wrt (<) (map pn_sequence (td_pending d)) \<and>
     (\<forall>p \<in> set (td_pending d). pn_sequence p \<le> td_sequence d)"

definition queue_ok :: "trigger_db \<Rightarrow> bool" where
  "queue_ok d \<longleftrightarrow>
     (\<forall>p \<in> set (td_pending d). \<exists>r \<in> set (td_runs d). rn_id r = pn_run p \<and> rn_trigger r = pn_trigger p \<and> open_run r) \<and>
     (\<forall>r \<in> set (td_runs d). open_run r \<longrightarrow> rn_id r \<in> pn_run ` set (td_pending d))"

definition serial_ok :: "trigger_db \<Rightarrow> bool" where
  "serial_ok d \<longleftrightarrow> (\<forall>tid. sql_count (\<lambda>r. rn_trigger r = tid \<and> rn_state r = N_dispatching) (td_runs d) \<le> 1)"

definition shapes_ok :: "trigger_db \<Rightarrow> bool" where
  "shapes_ok d \<longleftrightarrow> distinct (map tg_id (td_triggers d)) \<and> (\<forall>t \<in> set (td_triggers d). schedule_shape t)"

definition trigger_ok :: "trigger_db \<Rightarrow> bool" where
  "trigger_ok d \<longleftrightarrow>
     run_keys d \<and> occurrences_ok d \<and> pending_ok d \<and> queue_ok d \<and> serial_ok d \<and> shapes_ok d"

definition trigger_init :: "trigger_db \<Rightarrow> bool" where
  "trigger_init d \<longleftrightarrow> td_triggers d = [] \<and> td_runs d = [] \<and> td_pending d = []"

section \<open>Preservation\<close>

named_theorems trigger_defs "the statements of the trigger tables"

lemmas [trigger_defs] = insert_trigger_def update_trigger_def delete_trigger_def insert_run_def
  enqueue_batch_def claim_stmt_def requeueHttpRun_def settle_run_def advanceRunTrigger_def
  only_other_tables_def cas_row_def Let_def

lemma outcome_fields [simp]:
  "rn_id (failed_run m t r) = rn_id r" "rn_key (failed_run m t r) = rn_key r"
  "rn_trigger (failed_run m t r) = rn_trigger r" "rn_scheduled (failed_run m t r) = rn_scheduled r"
  "rn_state (failed_run m t r) = N_failed" "rn_session (failed_run m t r) = rn_session r"
  "rn_id (dispatched_run sid md t r) = rn_id r" "rn_key (dispatched_run sid md t r) = rn_key r"
  "rn_trigger (dispatched_run sid md t r) = rn_trigger r"
  "rn_scheduled (dispatched_run sid md t r) = rn_scheduled r"
  "rn_state (dispatched_run sid md t r) = N_dispatched" "rn_session (dispatched_run sid md t r) = Some sid"
  by (simp_all add: failed_run_def dispatched_run_def)

text \<open>
  Every statement on runs either appends one row that conflicts with none, or updates rows in a
  way that keeps the four columns of the unique indexes.
\<close>

definition same_key :: "run_row \<Rightarrow> run_row \<Rightarrow> bool" where
  "same_key r r' \<longleftrightarrow>
     rn_id r' = rn_id r \<and> rn_key r' = rn_key r \<and> rn_trigger r' = rn_trigger r \<and> rn_scheduled r' = rn_scheduled r"

lemma same_key_refl [simp]: "same_key r r"
  by (simp add: same_key_def)

definition runs_evolve :: "trigger_db \<Rightarrow> trigger_db \<Rightarrow> bool" where
  "runs_evolve d d' \<longleftrightarrow>
     list_all2 same_key (td_runs d) (td_runs d') \<or>
     (\<exists>r. td_runs d' = td_runs d @ [r] \<and> \<not> sql_exists (run_conflict r) (td_runs d))"

lemma update_same_key:
  "(\<And>r. P r \<Longrightarrow> same_key r (f r)) \<Longrightarrow> list_all2 same_key rows (sql_update P f rows)"
  by (induction rows) auto

lemma enqueue_batchE:
  assumes "enqueue_batch r auth input d = Inr d'"
  obtains p where "td_runs d' = td_runs d @ [r]" "td_pending d' = td_pending d @ [p]"
    "td_sequence d' = Suc (td_sequence d)" "pn_sequence p = Suc (td_sequence d)" "pn_run p = rn_id r"
    "pn_trigger p = rn_trigger r" "td_triggers d' = td_triggers d" "td_core d' = td_core d"
    "pn_hash p = ni_hash input" "pn_prompt p = ni_prompt input"
    "\<not> sql_exists (run_conflict r) (td_runs d)"
    "\<And>p'. p' \<in> set (td_pending d) \<Longrightarrow> pn_run p' \<noteq> rn_id r"
proof -
  from assms have new: "\<not> sql_exists (run_conflict r) (td_runs d)"
    and fresh: "\<not> sql_exists (\<lambda>p. pn_run p = rn_id r) (td_pending d)"
    by (auto simp: enqueue_batch_def insert_run_def split: if_splits)
  show thesis
    by (rule that) (use assms new fresh in
        \<open>auto simp: enqueue_batch_def insert_run_def sql_exists_iff split: if_splits\<close>)
qed

lemma insert_runE:
  assumes "insert_run r d = Inr d'"
  obtains "d' = d\<lparr>td_runs := td_runs d @ [r]\<rparr>" "\<not> sql_exists (run_conflict r) (td_runs d)"
  using assms by (auto simp: insert_run_def split: if_splits)

definition runs_kept :: "trigger_db \<Rightarrow> trigger_db \<Rightarrow> bool" where
  "runs_kept d d' \<longleftrightarrow>
     td_runs d' = td_runs d \<and> td_pending d' = td_pending d \<and> td_sequence d' = td_sequence d"

lemma runs_kept_steps:
  "only_other_tables d d' \<Longrightarrow> runs_kept d d'"
  "insert_trigger newId organizationId projectId config creation t d = (d', a) \<Longrightarrow> runs_kept d d'"
  "update_trigger projectId tid config t d = (d', b) \<Longrightarrow> runs_kept d d'"
  "delete_trigger projectId tid t d = (d', c) \<Longrightarrow> runs_kept d d'"
  "advanceRunTrigger own runId t d = Inr d' \<Longrightarrow> runs_kept d d'"
  by (auto simp: trigger_defs runs_kept_def split: if_splits option.splits sum.splits)

lemma claim_stmt_runs:
  "td_runs (fst (claim_stmt runId active tid t d)) =
     sql_update (\<lambda>r. rn_id r = runId \<and> rn_state r = N_queued \<and> claim_allowed active tid d)
       (\<lambda>r. r\<lparr>rn_state := N_dispatching, rn_updated := t\<rparr>) (td_runs d)"
  "td_pending (fst (claim_stmt runId active tid t d)) = td_pending d"
  "td_triggers (fst (claim_stmt runId active tid t d)) = td_triggers d"
  "td_sequence (fst (claim_stmt runId active tid t d)) = td_sequence d"
  "td_core (fst (claim_stmt runId active tid t d)) = td_core d"
  by (simp_all add: claim_stmt_def cas_row_def)

lemma step_runs_evolve: "trigger_step d d' \<Longrightarrow> runs_evolve d d'"
proof (induction rule: trigger_step.induct)
  case (step_enqueue r auth input d d')
  from step_enqueue(2) show ?case by (rule enqueue_batchE) (auto simp: runs_evolve_def)
next
  case (step_insert_run r d d')
  from step_insert_run(2) show ?case by (rule insert_runE) (auto simp: runs_evolve_def)
qed (auto dest!: runs_kept_steps simp: runs_kept_def runs_evolve_def claim_stmt_runs requeueHttpRun_def
    settle_run_def same_key_def list_all2_refl intro: update_same_key)

lemma evolve_keys:
  assumes "runs_evolve d d'" "run_keys d" "occurrences_ok d"
  shows "run_keys d' \<and> occurrences_ok d'"
proof -
  have same: "map rn_id rs' = map rn_id rs \<and> map rn_key rs' = map rn_key rs \<and>
      map occurrence (filter (\<lambda>r. rn_scheduled r \<noteq> None) rs') = map occurrence (filter (\<lambda>r. rn_scheduled r \<noteq> None) rs)"
    if "list_all2 same_key rs rs'" for rs rs'
    using that by induction (auto simp: same_key_def occurrence_def)
  show ?thesis
    using assms(1) unfolding runs_evolve_def
  proof
    assume "list_all2 same_key (td_runs d) (td_runs d')"
    from same [OF this] assms(2,3) show ?thesis by (simp add: run_keys_def occurrences_ok_def)
  next
    assume "\<exists>r. td_runs d' = td_runs d @ [r] \<and> \<not> sql_exists (run_conflict r) (td_runs d)"
    then show ?thesis using assms(2,3)
      by (force simp: run_keys_def occurrences_ok_def occurrence_def sql_exists_iff run_conflict_def)
  qed
qed

lemma evolve_trigger:
  assumes "runs_evolve d d'" "r \<in> set (td_runs d)"
  obtains r' where "r' \<in> set (td_runs d')" "same_key r r'"
proof -
  have "\<exists>r' \<in> set rs'. same_key r r'" if "list_all2 same_key rs rs'" "r \<in> set rs" for rs rs'
    using that by induction auto
  with assms show thesis by (auto simp: runs_evolve_def intro: that)
qed

lemma step_keys:
  "trigger_step d d' \<Longrightarrow> run_keys d \<Longrightarrow> occurrences_ok d \<Longrightarrow> run_keys d' \<and> occurrences_ok d'"
  by (rule evolve_keys [OF step_runs_evolve])

text \<open>The pending table.\<close>

lemma pending_filter:
  "pending_ok d \<Longrightarrow> td_pending d' = filter P (td_pending d) \<Longrightarrow> td_sequence d' = td_sequence d \<Longrightarrow> pending_ok d'"
  by (auto simp: pending_ok_def distinct_map_filter sorted_wrt_map intro: sorted_wrt_filter)

lemma step_pending: "trigger_step d d' \<Longrightarrow> pending_ok d \<Longrightarrow> pending_ok d'"
proof (induction rule: trigger_step.induct)
  case (step_enqueue r auth input d d')
  from step_enqueue(2) show ?case
  proof (rule enqueue_batchE)
    fix p
    assume *: "td_pending d' = td_pending d @ [p]" "td_sequence d' = Suc (td_sequence d)"
      "pn_sequence p = Suc (td_sequence d)" "pn_run p = rn_id r"
      "\<And>p'. p' \<in> set (td_pending d) \<Longrightarrow> pn_run p' \<noteq> rn_id r"
    then show ?thesis using step_enqueue(3)
      by (force simp: pending_ok_def sorted_wrt_append)
  qed
next
  case (step_insert_run r d d')
  from step_insert_run(2,3) show ?case by (auto elim!: insert_runE simp: pending_ok_def)
next
  case (step_fail d runId message t)
  then show ?case by (rule pending_filter) (simp_all add: settle_run_def)
next
  case (step_dispatch d runId sid md t)
  then show ?case by (rule pending_filter) (simp_all add: settle_run_def)
qed (auto dest!: runs_kept_steps simp: runs_kept_def pending_ok_def claim_stmt_runs requeueHttpRun_def)

text \<open>The queue agrees with the states of the runs.\<close>

lemma queue_update:
  assumes "queue_ok d" "td_runs d' = sql_update P f (td_runs d)" "td_pending d' = td_pending d"
    and "\<And>r. P r \<Longrightarrow> same_key r (f r) \<and> open_run (f r) = open_run r"
  shows "queue_ok d'"
proof -
  have upd: "same_key r (if P r then f r else r) \<and> open_run (if P r then f r else r) = open_run r" for r
    using assms(4) by simp
  show ?thesis
    unfolding queue_ok_def assms(2,3) set_sql_update
  proof (intro conjI ballI impI)
    fix p assume "p \<in> set (td_pending d)"
    with assms(1) obtain r where "r \<in> set (td_runs d)" "rn_id r = pn_run p" "rn_trigger r = pn_trigger p" "open_run r"
      by (auto simp: queue_ok_def)
    with upd [of r] show "\<exists>x\<in>(\<lambda>r. if P r then f r else r) ` set (td_runs d).
        rn_id x = pn_run p \<and> rn_trigger x = pn_trigger p \<and> open_run x"
      by (intro bexI [of _ "if P r then f r else r"]) (auto simp: same_key_def)
  next
    fix x assume "x \<in> (\<lambda>r. if P r then f r else r) ` set (td_runs d)" "open_run x"
    then obtain r where "r \<in> set (td_runs d)" "x = (if P r then f r else r)" by blast
    with upd [of r] \<open>open_run x\<close> assms(1) show "rn_id x \<in> pn_run ` set (td_pending d)"
      by (auto simp: queue_ok_def same_key_def)
  qed
qed

lemma queue_settle:
  assumes "queue_ok d" "run_keys d" and f: "\<And>r. rn_id (f r) = rn_id r \<and> \<not> open_run (f r)"
  shows "queue_ok (settle_run runId f d)"
  using assms(1) unfolding queue_ok_def
  by (fastforce simp: settle_run_def set_sql_update f)

lemma step_queue: "trigger_step d d' \<Longrightarrow> run_keys d \<Longrightarrow> queue_ok d \<Longrightarrow> queue_ok d'"
proof (induction rule: trigger_step.induct)
  case (step_enqueue r auth input d d')
  from step_enqueue(2) show ?case
  proof (rule enqueue_batchE)
    fix p
    assume "td_runs d' = td_runs d @ [r]" "td_pending d' = td_pending d @ [p]" "pn_run p = rn_id r"
      "pn_trigger p = rn_trigger r"
    then show ?thesis using step_enqueue(1,4) by (auto simp: queue_ok_def open_run_def)
  qed
next
  case (step_insert_run r d d')
  from step_insert_run(2,1,4) show ?case by (auto elim!: insert_runE simp: queue_ok_def open_run_def)
next
  case (step_claim d runId tid active t)
  show ?case
    by (rule queue_update [OF step_claim(3)], rule claim_stmt_runs, rule claim_stmt_runs)
       (auto simp: same_key_def open_run_def)
next
  case (step_requeue d runId t)
  show ?case
    by (rule queue_update [OF step_requeue(2), where P = "\<lambda>r. rn_id r = runId \<and> rn_state r = N_dispatching"
          and f = "\<lambda>r. r\<lparr>rn_state := N_queued, rn_updated := t\<rparr>"])
       (auto simp: requeueHttpRun_def same_key_def open_run_def)
next
  case (step_fail d runId message t)
  then show ?case by (intro queue_settle) (auto simp: open_run_def)
next
  case (step_dispatch d runId sid md t)
  then show ?case by (intro queue_settle) (auto simp: open_run_def)
qed (auto dest!: runs_kept_steps simp: runs_kept_def queue_ok_def)

text \<open>One dispatch at a time.\<close>

lemma serial_le:
  assumes "serial_ok d" "\<And>tid. sql_count (\<lambda>r. rn_trigger r = tid \<and> rn_state r = N_dispatching) (td_runs d')
    \<le> sql_count (\<lambda>r. rn_trigger r = tid \<and> rn_state r = N_dispatching) (td_runs d)"
  shows "serial_ok d'"
  using assms unfolding serial_ok_def by (meson le_trans)

lemma serial_update:
  assumes "serial_ok d" "td_runs d' = sql_update P f (td_runs d)"
    and "\<And>r. P r \<Longrightarrow> rn_trigger (f r) = rn_trigger r \<and> rn_state (f r) \<noteq> N_dispatching"
  shows "serial_ok d'"
  by (rule serial_le [OF assms(1)]) (auto simp: assms intro!: sql_count_update_le)

lemma serial_claim:
  assumes keys: "run_keys d" and serial: "serial_ok d"
    and tid: "\<And>r. r \<in> set (td_runs d) \<Longrightarrow> rn_id r = runId \<Longrightarrow> rn_trigger r = tid"
  shows "serial_ok (fst (claim_stmt runId active tid t d))"
proof (cases "claim_allowed active tid d")
  case True
  then have idle: "\<not> run_dispatching tid d" by (auto simp: claim_allowed_def split: option.splits)
  let ?P = "\<lambda>r. rn_id r = runId \<and> rn_state r = N_queued \<and> claim_allowed active tid d"
  let ?f = "\<lambda>r. r\<lparr>rn_state := N_dispatching, rn_updated := t\<rparr>"
  have "sql_count (\<lambda>r. rn_trigger r = tid' \<and> rn_state r = N_dispatching) (sql_update ?P ?f (td_runs d)) \<le> 1" for tid'
  proof (cases "tid' = tid")
    case True
    have d: "distinct (map rn_id (td_runs d))" using keys by (simp add: run_keys_def)
    have none: "rn_trigger r = tid \<Longrightarrow> r \<in> set (td_runs d) \<Longrightarrow> rn_state r \<noteq> N_dispatching" for r
      using idle by (auto simp: run_dispatching_def sql_exists_iff)
    have "sql_count (\<lambda>r. rn_trigger r = tid \<and> rn_state r = N_dispatching) (sql_update ?P ?f (td_runs d))
        \<le> sql_count (\<lambda>r. True \<and> rn_id r = runId) (sql_update ?P ?f (td_runs d))"
      by (rule sql_count_mono) (auto simp: set_sql_update none split: if_splits)
    also have "\<dots> \<le> 1"
      by (rule sql_count_key_le1) (simp add: map_sql_update d)
    finally show ?thesis by (simp add: True)
  next
    case False
    have "sql_count (\<lambda>r. rn_trigger r = tid' \<and> rn_state r = N_dispatching) (sql_update ?P ?f rows)
        = sql_count (\<lambda>r. rn_trigger r = tid' \<and> rn_state r = N_dispatching) rows"
      if "set rows \<subseteq> set (td_runs d)" for rows
      using that by (induction rows) (use tid False in auto)
    then show ?thesis using serial by (simp add: serial_ok_def)
  qed
  then show ?thesis by (simp add: serial_ok_def claim_stmt_runs)
next
  case False
  with serial show ?thesis by (simp add: serial_ok_def claim_stmt_runs sql_update_none)
qed

lemma step_serial: "trigger_step d d' \<Longrightarrow> run_keys d \<Longrightarrow> serial_ok d \<Longrightarrow> serial_ok d'"
proof (induction rule: trigger_step.induct)
  case (step_claim d runId tid active t)
  then show ?case by (intro serial_claim) auto
next
  case (step_enqueue r auth input d d')
  from step_enqueue(2,1,4) show ?case by (auto elim!: enqueue_batchE simp: serial_ok_def)
next
  case (step_insert_run r d d')
  from step_insert_run(2,1,4) show ?case by (auto elim!: insert_runE simp: serial_ok_def)
next
  case (step_requeue d runId t)
  show ?case by (rule serial_update [OF step_requeue(2)], simp add: requeueHttpRun_def) auto
next
  case (step_fail d runId message t)
  show ?case by (rule serial_update [OF step_fail(2)], simp add: settle_run_def) auto
next
  case (step_dispatch d runId sid md t)
  show ?case by (rule serial_update [OF step_dispatch(2)], simp add: settle_run_def) auto
qed (auto dest!: runs_kept_steps simp: runs_kept_def serial_ok_def)

text \<open>The shape of the triggers.\<close>

lemma shapes_update:
  assumes "shapes_ok d" "td_triggers d' = sql_update P f (td_triggers d)"
    and "\<And>t. t \<in> set (td_triggers d) \<Longrightarrow> P t \<Longrightarrow> tg_id (f t) = tg_id t \<and> schedule_shape (f t)"
  shows "shapes_ok d'"
proof -
  have "map tg_id (sql_update P f rows) = map tg_id rows" if "set rows \<subseteq> set (td_triggers d)" for rows
    using that assms(3) by (induction rows) auto
  with assms show ?thesis by (auto simp: shapes_ok_def set_sql_update)
qed

lemma config_id [simp]: "tg_id (configColumns config t) = tg_id t"
  by (simp add: configColumns_def)

lemma config_shape: "schedule_shape (configColumns config t) \<Longrightarrow> schedule_shape (configColumns config t')"
  by (simp add: configColumns_def schedule_shape_def)

lemma step_shapes: "trigger_step d d' \<Longrightarrow> shapes_ok d \<Longrightarrow> shapes_ok d'"
proof (induction rule: trigger_step.induct)
  case (step_insert_trigger newId organizationId projectId config creation t d d' r)
  let ?row = "new_trigger newId organizationId projectId config creation t"
  from step_insert_trigger(1) have "d' = d \<or> schedule_shape ?row \<and> \<not> sql_exists (trigger_conflict ?row) (td_triggers d) \<and>
      td_triggers d' = td_triggers d @ [?row]"
    unfolding insert_trigger_def Let_def by (simp split: if_splits) fastforce
  with step_insert_trigger(2) show ?case
    by (fastforce simp: shapes_ok_def sql_exists_iff trigger_conflict_def)
next
  case (step_update_trigger projectId tid config t d d' r)
  show ?case
  proof (cases "d' = d")
    case False
    with step_update_trigger(1) obtain old where old:
      "schedule_shape (configColumns config (old\<lparr>tg_updated := t\<rparr>))"
      "td_triggers d' = sql_update (\<lambda>r. tg_id r = tid \<and> tg_project r = projectId \<and> tg_deleted r = None)
         (\<lambda>r. configColumns config (r\<lparr>tg_updated := t\<rparr>)) (td_triggers d)"
      by (auto simp: update_trigger_def Let_def split: option.splits if_splits)
    show ?thesis
      by (rule shapes_update [OF step_update_trigger(2) old(2)]) (simp add: config_shape [OF old(1)])
  qed (use step_update_trigger in simp)
next
  case (step_delete_trigger projectId tid t d d' r)
  then have "td_triggers d' = sql_update (\<lambda>r. tg_id r = tid \<and> tg_project r = projectId \<and> tg_deleted r = None)
      (\<lambda>r. r\<lparr>tg_deleted := Some t, tg_updated := t, tg_enabled := False\<rparr>) (td_triggers d)"
    by (auto simp: delete_trigger_def Let_def)
  from shapes_update [OF step_delete_trigger(2) this] step_delete_trigger(2) show ?case
    by (simp add: shapes_ok_def schedule_shape_def)
next
  case (step_advance own runId t d d')
  have [simp]: "tg_id (advance_row own runId t x) = tg_id x" for x by (cases own) simp_all
  from step_advance(1) have adv: "td_triggers d' = sql_update (\<lambda>r. tg_id r = owner_id own \<and> tg_deleted r = None)
      (advance_row own runId t) (td_triggers d)"
    and ok: "\<And>r. r \<in> set (td_triggers d) \<Longrightarrow> tg_id r = owner_id own \<and> tg_deleted r = None \<Longrightarrow>
      schedule_shape (advance_row own runId t r)"
    by (auto simp: advanceRunTrigger_def Let_def list_ex_iff split: if_splits)
  from shapes_update [OF step_advance(2) adv] ok show ?case by simp
qed (auto simp: shapes_ok_def only_other_tables_def requeueHttpRun_def settle_run_def claim_stmt_runs
    elim!: insert_runE enqueue_batchE)

theorem trigger_ok_step: "trigger_ok d \<Longrightarrow> trigger_step d d' \<Longrightarrow> trigger_ok d'"
  unfolding trigger_ok_def
  using step_keys step_pending step_queue step_serial step_shapes by blast

interpretation triggers: safe_system trigger_init trigger_step trigger_ok
proof unfold_locales
  show "trigger_ok d" if "trigger_init d" for d
    using that by (simp add: trigger_init_def trigger_ok_def run_keys_def occurrences_ok_def pending_ok_def
        queue_ok_def serial_ok_def shapes_ok_def)
qed (rule trigger_ok_step)

end
