(* ===== verification/Handlers.thy ===== *)
theory Handlers
  imports CloudTurn
begin

text \<open>
  Handlers that may throw: a handler is a function from its state to the new state, the calls it made
  to the outside in their order, and its outcome, \<open>Inl\<close> the message of an exception or \<open>Inr\<close> its
  value. \<open>and_then\<close> and \<open>on_error\<close> are the sequencing of awaits and the \<open>try .. catch\<close> of the code.
\<close>

datatype dispatch_effect =
    D_core effect
  | D_create string
  | D_audit string audit_outcome
  | D_wake id id int
  | D_event string json
  | D_execute id string json

type_synonym ('s, 'a) outcome = "'s \<times> dispatch_effect list \<times> (string + 'a)"

definition and_then :: "('s, 'a) outcome \<Rightarrow> ('a \<Rightarrow> 's \<Rightarrow> ('s, 'b) outcome) \<Rightarrow> ('s, 'b) outcome" where
  "and_then r k =
     (case r of
        (s, es, Inl e) \<Rightarrow> (s, es, Inl e)
      | (s, es, Inr a) \<Rightarrow> (case k a s of (s', es', b) \<Rightarrow> (s', es @ es', b)))"

definition on_error :: "('s, 'a) outcome \<Rightarrow> (string \<Rightarrow> 's \<Rightarrow> ('s, 'a) outcome) \<Rightarrow> ('s, 'a) outcome" where
  "on_error r h =
     (case r of
        (s, es, Inl e) \<Rightarrow> (case h e s of (s', es', b) \<Rightarrow> (s', es @ es', b))
      | (s, es, Inr a) \<Rightarrow> (s, es, Inr a))"

lemma and_then_simps:
  "and_then (s, es, Inl e) k = (s, es, Inl e)"
  "and_then (s, es, Inr a) k = (case k a s of (s', es', b) \<Rightarrow> (s', es @ es', b))"
  "on_error (s, es, Inl e) h = (case h e s of (s', es', b) \<Rightarrow> (s', es @ es', b))"
  "on_error (s, es, Inr a) h = (s, es, Inr a)"
  by (simp_all add: and_then_def on_error_def)

lemma and_then_cases:
  assumes "and_then r k = (s', es', b)"
  obtains s es e where "r = (s, es, Inl e)" "s' = s" "es' = es" "b = Inl e"
    | s es a es'' where "r = (s, es, Inr a)" "k a s = (s', es'', b)" "es' = es @ es''"
  using assms by (auto simp: and_then_def split: prod.splits sum.splits)

end
