(* ===== verification/TriggerDispatch.thy ===== *)
theory TriggerDispatch
  imports TriggerProtocol Lifecycle MemoryStore Handlers
begin

text \<open>
  Dispatching the runs of triggers (\<open>server/usecases/dispatch-triggers.ts\<close>): due schedules, HTTP
  requests and the queue of serial HTTP triggers, with sending a message to a session
  (\<open>server/usecases/sessions.ts\<close>).

  A handler is a function from the database to the new database, the calls it made in order, and
  its outcome, sequenced as in \<open>Handlers\<close>. Creating a session is an argument that
  may do anything to the session tables and may refuse or throw, and so are the Liquid template
  engine, the SHA-256 digest and what other processes write between two statements. Audit records
  and queue messages are assumed to be accepted.
\<close>

section \<open>Errors of the stores\<close>

definition store_message :: "store_error \<Rightarrow> string" where
  "store_message e =
     (case e of
        SE_deleted what \<Rightarrow> what @ '' was deleted while the mutation was in progress''
      | SE_unique \<Rightarrow> ''UNIQUE constraint failed''
      | SE_foreign_key \<Rightarrow> ''FOREIGN KEY constraint failed''
      | SE_check \<Rightarrow> ''CHECK constraint failed'')"

definition of_mark :: "trigger_db \<times> store_error option \<Rightarrow> (trigger_db, unit) outcome" where
  "of_mark r = (case r of (d, None) \<Rightarrow> (d, [], Inr ()) | (d, Some e) \<Rightarrow> (d, [], Inl (store_message e)))"

definition of_store :: "trigger_db \<times> (store_error + 'a) \<Rightarrow> (trigger_db, 'a) outcome" where
  "of_store r = (case r of (d, Inl e) \<Rightarrow> (d, [], Inl (store_message e)) | (d, Inr a) \<Rightarrow> (d, [], Inr a))"

section \<open>Sending to a session\<close>

record reuse_world =
  rw_startup :: startup_world
  rw_startup_id :: id
  rw_times :: startup_times
  rw_reopened :: time
  rw_prompt :: prompt_world
  rw_work :: id
  rw_message :: id
  rw_sent :: time

definition repo_message :: "repo_error \<Rightarrow> string" where
  "repo_message e = (case e of RunnerConflictError m _ \<Rightarrow> m | ThrownError m \<Rightarrow> m | UniqueViolation \<Rightarrow> ''UNIQUE constraint failed'')"

definition insertMessage ::
    "reuse_world \<Rightarrow> auth_scope \<Rightarrow> id \<Rightarrow> string \<Rightarrow> string \<Rightarrow> string \<Rightarrow> trigger_db \<Rightarrow> (trigger_db, string + message_row) outcome" where
  "insertMessage w auth sessionId content delivery state d =
     (let m = \<lparr>mg_id = rw_message w, mg_organization = au_organization auth, mg_project = au_project auth,
               mg_session = sessionId, mg_content = content, mg_delivery = delivery, mg_state = state,
               mg_created = rw_sent w\<rparr> in
      (d\<lparr>td_messages := td_messages d @ [m]\<rparr>, [], Inr (Inr m)))"

definition sendSessionMessage ::
    "reuse_world \<Rightarrow> auth_scope \<Rightarrow> session_row \<Rightarrow> string \<Rightarrow> string option \<Rightarrow> trigger_db \<Rightarrow>
     (trigger_db, string + message_row) outcome" where
  "sendSessionMessage w auth session content requestId d =
     (if se_deleted session \<noteq> None then (d, [], Inr (Inl ''Deleted sessions cannot accept messages''))
      else case dispatchSessionPrompt (rw_prompt w) (rw_work w) (au_organization auth) (au_project auth)
                  (se_id session) content requestId (rw_sent w) (td_core d) of
        (c, es, r) \<Rightarrow>
          and_then (d\<lparr>td_core := c\<rparr>, map D_core es, case r of Inl e \<Rightarrow> Inl (repo_message e) | Inr p \<Rightarrow> Inr p)
            (\<lambda>p d1. case p of
                P_refused _ m \<Rightarrow> (d1, [], Inr (Inl m))
              | P_live \<Rightarrow> insertMessage w auth (se_id session) content ''live'' ''delivered'' d1
              | P_queued \<Rightarrow> insertMessage w auth (se_id session) content ''queued'' ''accepted'' d1))"

definition findRuntimeRow :: "id \<Rightarrow> id \<Rightarrow> db \<Rightarrow> session_row option" where
  "findRuntimeRow projectId sessionId c = sql_get (live_session projectId sessionId) (sessions c)"

definition reopen_target ::
    "reuse_world \<Rightarrow> auth_scope \<Rightarrow> session_row \<Rightarrow> trigger_db \<Rightarrow> (trigger_db, string + session_row) outcome" where
  "reopen_target w auth session d =
     (if domainSessionState (se_state session) \<noteq> Closed then (d, [], Inr (Inr session))
      else case reopenSession (rw_startup w) (au_project auth) (se_id session) (rw_startup_id w) (rw_times w)
                  (rw_reopened w) (td_core d) of
        (c, es, r) \<Rightarrow>
          (d\<lparr>td_core := c\<rparr>, map D_core es,
           case r of
             Inl (Thrown m) \<Rightarrow> Inl m
           | Inl Not_found \<Rightarrow> Inr (Inl ''Session not found'')
           | Inl (Conflict m) \<Rightarrow> Inr (Inl m)
           | Inr _ \<Rightarrow>
               Inr (case findRuntimeRow (au_project auth) (se_id session) c of
                      None \<Rightarrow> Inl ''Session runtime is no longer available''
                    | Some s \<Rightarrow> Inr s)))"

definition dispatchToReusableSession ::
    "reuse_world \<Rightarrow> auth_scope \<Rightarrow> session_row \<Rightarrow> string \<Rightarrow> string option \<Rightarrow> trigger_db \<Rightarrow>
     (trigger_db, string + message_row) outcome" where
  "dispatchToReusableSession w auth session content requestId d =
     and_then (reopen_target w auth session d)
       (\<lambda>r d1. case r of
           Inl m \<Rightarrow> (d1, [], Inr (Inl m))
         | Inr target \<Rightarrow>
             if domainSessionState (se_state target) = Pending
             then insertMessage w auth (se_id target) content ''queued'' ''accepted'' d1
             else sendSessionMessage w auth target content requestId d1)"

section \<open>The world of a dispatch\<close>

record create_request =
  rq_name :: string
  rq_spec :: template_spec
  rq_prompt :: string
  rq_metadata :: json
  rq_request :: string

record dispatch_world =
  dw_run :: id
  dw_now :: "nat \<Rightarrow> time"
  dw_mid :: "nat \<Rightarrow> trigger_db \<Rightarrow> trigger_db"
  dw_create :: "create_request \<Rightarrow> db \<Rightarrow> db \<times> (string + (string + id))"
  dw_reuse :: reuse_world
  dw_render :: "string \<Rightarrow> json \<Rightarrow> (id \<times> session_state) option \<Rightarrow> string + string"
  dw_digest :: "string \<Rightarrow> string"
  dw_queue :: bool

text \<open>\<open>createSession\<close>: an exception, a refusal with its message, or the new session.\<close>

definition create_call :: "dispatch_world \<Rightarrow> create_request \<Rightarrow> trigger_db \<Rightarrow> (trigger_db, string + id) outcome" where
  "create_call w q d =
     (case dw_create w q (td_core d) of (c, r) \<Rightarrow> (d\<lparr>td_core := c\<rparr>, [D_create (rq_request q)], r))"

definition json_members :: "json option \<Rightarrow> (string \<times> json) list" where
  "json_members v = (case v of Some (JObj kvs) \<Rightarrow> kvs | _ \<Rightarrow> [])"

definition mergeStringMaps :: "(string \<times> json) list \<Rightarrow> (string \<times> json) list \<Rightarrow> (string \<times> json) list" where
  "mergeStringMaps base add = fold (\<lambda>(k, v) acc. kv_set k v acc) add base"

section \<open>Scheduled runs\<close>

record run_result =
  rr_run :: id
  rr_trigger :: id
  rr_scheduled_for :: time
  rr_status :: string
  rr_session :: "id option"
  rr_error :: "string option"

definition runResult :: "claimed_run \<Rightarrow> id \<Rightarrow> string \<Rightarrow> id option \<Rightarrow> string option \<Rightarrow> run_result" where
  "runResult run tid status sessionId message =
     \<lparr>rr_run = cd_id run, rr_trigger = tid, rr_scheduled_for = cd_scheduled_for run, rr_status = status,
      rr_session = sessionId, rr_error = message\<rparr>"

definition failRun :: "dispatch_world \<Rightarrow> nat \<Rightarrow> due_trigger \<Rightarrow> claimed_run \<Rightarrow> string \<Rightarrow> trigger_db \<Rightarrow> (trigger_db, unit) outcome" where
  "failRun w k trigger run message d =
     and_then (of_mark (markRunFailed (dw_mid w k) (Scheduled trigger) run message (dw_now w k) d))
       (\<lambda>_ d1. (d1, [D_audit ''scheduled_trigger.dispatch'' Failure], Inr ()))"

definition failed_result ::
    "dispatch_world \<Rightarrow> nat \<Rightarrow> due_trigger \<Rightarrow> claimed_run \<Rightarrow> string \<Rightarrow> trigger_db \<Rightarrow> (trigger_db, run_result) outcome" where
  "failed_result w k trigger run message d =
     and_then (failRun w k trigger run message d)
       (\<lambda>_ d1. (d1, [], Inr (runResult run (du_id trigger) ''failed'' None (Some message))))"

definition scheduled_metadata :: "due_trigger \<Rightarrow> claimed_run \<Rightarrow> json" where
  "scheduled_metadata trigger run =
     JObj [(''labels'', JObj (json_members (jget (du_metadata trigger) ''labels''))),
           (''annotations'', JObj (mergeStringMaps (json_members (jget (du_metadata trigger) ''annotations''))
              [(''source'', JStr ''scheduled-agent-trigger''), (''scheduledTriggerId'', JStr (du_id trigger)),
               (''scheduledRunId'', JStr (cd_id run)), (''scheduledFor'', JStr (toISOString (cd_scheduled_for run))),
               (''correlationId'', JStr (cd_correlation run))]))]"

definition scheduled_body ::
    "dispatch_world \<Rightarrow> due_trigger \<Rightarrow> claimed_run \<Rightarrow> trigger_db \<Rightarrow> (trigger_db, run_result) outcome" where
  "scheduled_body w trigger run d =
     (if \<not> truthy_str (projectName (du_project trigger) d)
      then (d, [], Inl ''Scheduled trigger project is unavailable'')
      else
        and_then (create_call w \<lparr>rq_name = du_name trigger, rq_spec = du_spec trigger,
                    rq_prompt = tp_prompt (du_spec trigger), rq_metadata = scheduled_metadata trigger run,
                    rq_request = cd_correlation run\<rparr> d)
          (\<lambda>r d1. case r of
              Inl message \<Rightarrow> failed_result w 2 trigger run message d1
            | Inr sessionId \<Rightarrow>
                and_then (of_mark (markRunDispatched (dw_mid w 2) (Scheduled trigger) run sessionId
                    (scheduled_metadata trigger run) (dw_now w 2) d1))
                  (\<lambda>_ d2. (d2, [D_audit ''scheduled_trigger.dispatch'' Success],
                           Inr (runResult run (du_id trigger) ''dispatched'' (Some sessionId) None)))))"

definition dispatchTrigger ::
    "dispatch_world \<Rightarrow> due_trigger \<Rightarrow> time \<Rightarrow> trigger_db \<Rightarrow> (trigger_db, run_result option) outcome" where
  "dispatchTrigger w trigger heartbeatAt d =
     and_then (of_store (claimRun (dw_run w) trigger heartbeatAt (dw_now w 0) (dw_mid w 0 d)))
       (\<lambda>claimed d1. case claimed of
           None \<Rightarrow> (d1, [], Inr None)
         | Some run \<Rightarrow>
             and_then (on_error (scheduled_body w trigger run (dw_mid w 1 d1)) (failed_result w 3 trigger run))
               (\<lambda>r d2. (d2, [], Inr (Some r))))"

record schedule_result =
  sd_claimed :: nat
  sd_dispatched :: nat
  sd_failed :: nat
  sd_skipped :: nat
  sd_runs :: "run_result list"

definition count_run :: "due_trigger \<Rightarrow> string + run_result option \<Rightarrow> schedule_result \<Rightarrow> schedule_result" where
  "count_run trigger r a =
     (case r of
        Inr None \<Rightarrow> a\<lparr>sd_skipped := Suc (sd_skipped a)\<rparr>
      | Inr (Some run) \<Rightarrow>
          a\<lparr>sd_claimed := Suc (sd_claimed a),
            sd_dispatched := (if rr_status run = ''dispatched'' then Suc (sd_dispatched a) else sd_dispatched a),
            sd_failed := (if rr_status run = ''dispatched'' then sd_failed a else Suc (sd_failed a)),
            sd_runs := sd_runs a @ [run]\<rparr>
      | Inl message \<Rightarrow>
          a\<lparr>sd_failed := Suc (sd_failed a),
            sd_runs := sd_runs a @ [\<lparr>rr_run = [], rr_trigger = du_id trigger, rr_scheduled_for = du_next_due trigger,
              rr_status = ''failed'', rr_session = None, rr_error = Some message\<rparr>]\<rparr>)"

fun dispatch_all ::
    "(id \<Rightarrow> dispatch_world) \<Rightarrow> time \<Rightarrow> due_trigger list \<Rightarrow> schedule_result \<Rightarrow> trigger_db \<Rightarrow>
     trigger_db \<times> dispatch_effect list \<times> schedule_result" where
  "dispatch_all w heartbeatAt [] a d = (d, [], a)"
| "dispatch_all w heartbeatAt (trigger # rest) a d =
     (case dispatchTrigger (w (du_id trigger)) trigger heartbeatAt d of
        (d1, es, r) \<Rightarrow>
          (case dispatch_all w heartbeatAt rest (count_run trigger r a) d1 of
             (d2, es', a') \<Rightarrow> (d2, es @ es', a')))"

definition no_runs :: schedule_result where
  "no_runs = \<lparr>sd_claimed = 0, sd_dispatched = 0, sd_failed = 0, sd_skipped = 0, sd_runs = []\<rparr>"

definition dispatchDueScheduledTriggers ::
    "(id \<Rightarrow> dispatch_world) \<Rightarrow> time \<Rightarrow> id option \<Rightarrow> nat option \<Rightarrow> trigger_db \<Rightarrow>
     (trigger_db, schedule_result) outcome" where
  "dispatchDueScheduledTriggers w heartbeatAt projectId limit d =
     (case dueTriggers heartbeatAt projectId (case limit of None \<Rightarrow> 50 | Some n \<Rightarrow> n) d of
        None \<Rightarrow> (d, [], Inl ''Scheduled trigger is missing schedule timing'')
      | Some due \<Rightarrow> (case dispatch_all w heartbeatAt due no_runs d of (d', es, a) \<Rightarrow> (d', es, Inr a)))"

section \<open>HTTP requests\<close>

definition httpTriggerRoutingKey :: "json \<Rightarrow> string option" where
  "httpTriggerRoutingKey body =
     (case jget body ''routing_key'' of
        Some (JStr key) \<Rightarrow> if js_trim key = [] then None else Some key
      | _ \<Rightarrow> None)"

definition httpTriggerRoutingKeyHash :: "(string \<Rightarrow> string) \<Rightarrow> json \<Rightarrow> string option" where
  "httpTriggerRoutingKeyHash digest body =
     (if truthy_str (httpTriggerRoutingKey body) then map_option digest (httpTriggerRoutingKey body) else None)"

definition stringRecordValue :: "json option \<Rightarrow> (string \<times> json) list" where
  "stringRecordValue v = filter (\<lambda>(k, x). case x of JStr _ \<Rightarrow> True | _ \<Rightarrow> False) (json_members v)"

definition httpTriggerBodyMetadata :: "json \<Rightarrow> json" where
  "httpTriggerBodyMetadata body =
     (let m = jget body ''metadata'' in
      JObj [(''labels'', JObj (stringRecordValue (jopt m ''labels''))),
            (''annotations'', JObj (stringRecordValue (jopt m ''annotations'')))])"

definition http_reusable :: "id \<Rightarrow> id \<Rightarrow> string \<Rightarrow> session_row \<Rightarrow> bool" where
  "http_reusable projectId tid keyHash s \<longleftrightarrow>
     se_project s = projectId \<and> se_deleted s = None \<and>
     annotation (se_metadata s) ''source'' = Some (JStr ''http-trigger'') \<and>
     annotation (se_metadata s) ''httpTriggerId'' = Some (JStr tid) \<and>
     annotation (se_metadata s) ROUTING_KEY_HASH = Some (JStr keyHash)"

text \<open>Newest first: the last row in the order of creation time and id.\<close>

definition findReusableHttpTriggerSession :: "id \<Rightarrow> id \<Rightarrow> string \<Rightarrow> trigger_db \<Rightarrow> session_row option" where
  "findReusableHttpTriggerSession projectId tid keyHash d =
     first_row (rev (sort_key (\<lambda>s. (se_created s, se_id s))
       (filter (http_reusable projectId tid keyHash) (sessions (td_core d)))))"

definition reusable_for :: "id \<Rightarrow> id \<Rightarrow> string option \<Rightarrow> trigger_db \<Rightarrow> session_row option" where
  "reusable_for projectId tid keyHash d =
     (if truthy_str keyHash then findReusableHttpTriggerSession projectId tid (the keyHash) d else None)"

definition http_metadata :: "trigger_row \<Rightarrow> json \<Rightarrow> string option \<Rightarrow> claimed_run \<Rightarrow> json" where
  "http_metadata t requestMetadata keyHash run =
     JObj [(''labels'', JObj (mergeStringMaps (json_members (jget (tg_metadata t) ''labels''))
              (json_members (jget requestMetadata ''labels'')))),
           (''annotations'', JObj (mergeStringMaps (mergeStringMaps (mergeStringMaps
              (json_members (jget (tg_metadata t) ''annotations''))
              (json_members (jget requestMetadata ''annotations'')))
              (if truthy_str keyHash then [(ROUTING_KEY_HASH, JStr (the keyHash))] else []))
              [(''source'', JStr ''http-trigger''), (''httpTriggerId'', JStr (tg_id t)),
               (''httpRunId'', JStr (cd_id run)), (''triggeredAt'', JStr (toISOString (cd_scheduled_for run))),
               (''correlationId'', JStr (cd_correlation run))]))]"

definition reused_metadata :: "json \<Rightarrow> json" where
  "reused_metadata m =
     jset ''annotations'' (JObj (kv_set ''reusedSession'' (JStr ''true'') (json_members (jget m ''annotations'')))) m"

record http_result =
  hr_run :: id
  hr_trigger :: id
  hr_triggered :: time
  hr_state :: string
  hr_session :: "id option"
  hr_error :: "string option"
  hr_replayed :: bool

definition http_answer :: "claimed_run \<Rightarrow> id \<Rightarrow> string \<Rightarrow> id option \<Rightarrow> string option \<Rightarrow> http_result" where
  "http_answer run tid state sessionId message =
     \<lparr>hr_run = cd_id run, hr_trigger = tid, hr_triggered = cd_scheduled_for run, hr_state = state,
      hr_session = sessionId, hr_error = message, hr_replayed = False\<rparr>"

text \<open>
  Delivering one claimed run. The parallel dispatch and the dispatch of a serial run share this
  text: a message to the reusable session of the routing key, or a new session; then the mark.
\<close>

definition http_failed ::
    "dispatch_world \<Rightarrow> id \<Rightarrow> claimed_run \<Rightarrow> string \<Rightarrow> trigger_db \<Rightarrow> (trigger_db, http_result) outcome" where
  "http_failed w tid run message d =
     and_then (of_mark (markRunFailed (dw_mid w 5) (Http tid) run message (dw_now w 5) d))
       (\<lambda>_ d1. (d1, [D_audit ''http_trigger.dispatch'' Failure],
                Inr (http_answer run tid ''failed'' None (Some message))))"

definition http_dispatched ::
    "dispatch_world \<Rightarrow> id \<Rightarrow> claimed_run \<Rightarrow> id \<Rightarrow> json \<Rightarrow> trigger_db \<Rightarrow> (trigger_db, http_result) outcome" where
  "http_dispatched w tid run sessionId metadata d =
     and_then (of_mark (markRunDispatched (dw_mid w 5) (Http tid) run sessionId metadata (dw_now w 5) d))
       (\<lambda>_ d1. (d1, [D_audit ''http_trigger.dispatch'' Success],
                Inr (http_answer run tid ''dispatched'' (Some sessionId) None)))"

definition deliver_http_run ::
    "dispatch_world \<Rightarrow> auth_scope \<Rightarrow> trigger_row \<Rightarrow> claimed_run \<Rightarrow> session_row option \<Rightarrow> string \<Rightarrow> json \<Rightarrow>
     trigger_db \<Rightarrow> (trigger_db, http_result) outcome" where
  "deliver_http_run w auth t run existing prompt metadata d =
     (case existing of
        Some s \<Rightarrow>
          and_then (dispatchToReusableSession (dw_reuse w) auth s prompt (Some (cd_correlation run)) d)
            (\<lambda>r d1. case r of
                Inl message \<Rightarrow> http_failed w (tg_id t) run message d1
              | Inr _ \<Rightarrow> http_dispatched w (tg_id t) run (se_id s) (reused_metadata metadata) d1)
      | None \<Rightarrow>
          and_then (create_call w \<lparr>rq_name = tg_name t, rq_spec = tg_spec t, rq_prompt = prompt,
                      rq_metadata = metadata, rq_request = cd_correlation run\<rparr> d)
            (\<lambda>r d1. case r of
                Inl message \<Rightarrow> http_failed w (tg_id t) run message d1
              | Inr sessionId \<Rightarrow> http_dispatched w (tg_id t) run sessionId metadata d1))"

section \<open>Serial HTTP triggers\<close>

definition pendingRunAuth :: "pending_http_run \<Rightarrow> auth_scope" where
  "pendingRunAuth p =
     \<lparr>au_organization = pn_organization (ph_row p), au_organization_name = pn_organization_name (ph_row p),
      au_project = pn_project (ph_row p), au_project_name = pn_project_name (ph_row p), au_user = pn_user (ph_row p)\<rparr>"

definition wakeHttpTrigger :: "dispatch_world \<Rightarrow> id \<Rightarrow> id \<Rightarrow> int \<Rightarrow> trigger_db \<Rightarrow> (trigger_db, unit) outcome" where
  "wakeHttpTrigger w projectId tid delaySeconds d =
     (d, if dw_queue w then [D_wake projectId tid delaySeconds] else [], Inr ())"

definition dispatchClaimedSerialHttpRun ::
    "dispatch_world \<Rightarrow> trigger_row \<Rightarrow> pending_http_run \<Rightarrow> trigger_db \<Rightarrow> (trigger_db, http_result) outcome" where
  "dispatchClaimedSerialHttpRun w t p d =
     (let auth = pendingRunAuth p;
          existing = reusable_for (au_project auth) (tg_id t) (pn_hash (ph_row p)) d;
          metadata = http_metadata t (cd_metadata (ph_run p)) (pn_hash (ph_row p)) (ph_run p) in
      deliver_http_run w auth t (ph_run p) existing (pn_prompt (ph_row p)) metadata (dw_mid w 4 d))"

definition dispatchClaimedSerialHttpRunWithRecovery ::
    "dispatch_world \<Rightarrow> trigger_row \<Rightarrow> pending_http_run \<Rightarrow> trigger_db \<Rightarrow> (trigger_db, http_result) outcome" where
  "dispatchClaimedSerialHttpRunWithRecovery w t p d =
     on_error (dispatchClaimedSerialHttpRun w t p d)
       (\<lambda>message d1.
          let d2 = requeueHttpRun (cd_id (ph_run p)) (dw_now w 6) (dw_mid w 6 d1) in
          and_then (wakeHttpTrigger w (pn_project (ph_row p)) (pn_trigger (ph_row p)) 5 d2)
            (\<lambda>_ d3. (d3, [], Inl message)))"

record serial_input =
  si_triggered :: time
  si_hash :: "string option"
  si_prompt :: string
  si_metadata :: json
  si_key :: "string option"

definition queued_result :: "id \<Rightarrow> id \<Rightarrow> time \<Rightarrow> bool \<Rightarrow> http_result" where
  "queued_result runId tid triggeredAt replayed =
     \<lparr>hr_run = runId, hr_trigger = tid, hr_triggered = triggeredAt, hr_state = ''queued'', hr_session = None,
      hr_error = None, hr_replayed = replayed\<rparr>"

definition dispatchSerialHttpTrigger ::
    "dispatch_world \<Rightarrow> auth_scope \<Rightarrow> trigger_row \<Rightarrow> serial_input \<Rightarrow> trigger_db \<Rightarrow> (trigger_db, http_result) outcome" where
  "dispatchSerialHttpTrigger w auth t input d =
     (let tid = tg_id t; project = au_project auth in
      and_then (of_store (enqueueHttpRun (\<lambda>k. dw_mid w 1) (dw_run w) auth tid (si_triggered input) (si_key input)
          (si_metadata input) \<lparr>ni_hash = si_hash input, ni_prompt = si_prompt input\<rparr> d))
        (\<lambda>enqueued d1. case enqueued of
            Replayed runId \<Rightarrow>
              and_then (wakeHttpTrigger w project tid 0 d1)
                (\<lambda>_ d2. (d2, [], Inr (queued_result runId tid (si_triggered input) True)))
          | Enqueued run wake \<Rightarrow>
              (let queued = (\<lambda>d2. and_then (if wake then wakeHttpTrigger w project tid 5 d2 else (d2, [], Inr ()))
                     (\<lambda>_ d3. (d3, [], Inr (queued_result (cd_id run) tid (si_triggered input) False)))) in
               case claimNextHttpRun (\<lambda>k. dw_mid w (10 + k)) tid (dw_now w 2) d1 of
                 (d2, None) \<Rightarrow> queued d2
               | (d2, Some claimed) \<Rightarrow>
                   and_then (dispatchClaimedSerialHttpRunWithRecovery w t claimed d2)
                     (\<lambda>result d3.
                        and_then (if hasPendingHttpRuns tid d3 then wakeHttpTrigger w project tid 5 d3 else (d3, [], Inr ()))
                          (\<lambda>_ d4. if cd_id (ph_run claimed) = cd_id run then (d4, [], Inr result) else queued d4)))))"

definition dispatchHttpTrigger ::
    "dispatch_world \<Rightarrow> auth_scope \<Rightarrow> trigger_row \<Rightarrow> json \<Rightarrow> string option \<Rightarrow> trigger_db \<Rightarrow> (trigger_db, http_result) outcome" where
  "dispatchHttpTrigger w auth t body idempotencyKey d =
     (if tg_type t \<noteq> T_http then (d, [], Inl ''Only HTTP triggers can create runs from requests'')
      else if tg_deleted t \<noteq> None then (d, [], Inl ''Deleted triggers cannot be dispatched'')
      else if \<not> tg_enabled t then (d, [], Inl ''Suspended triggers cannot be dispatched'')
      else
        let triggeredAt = dw_now w 0;
            keyHash = httpTriggerRoutingKeyHash (dw_digest w) body;
            existing = reusable_for (au_project auth) (tg_id t) keyHash d in
        (case dw_render w (tp_prompt (tg_spec t)) body
                (map_option (\<lambda>s. (se_id s, domainSessionState (se_state s))) existing) of
           Inl m \<Rightarrow> (d, [], Inl ''Invalid trigger prompt template'')
         | Inr prompt \<Rightarrow>
             let requestMetadata = httpTriggerBodyMetadata body in
             if tg_mode t = M_serial
             then dispatchSerialHttpTrigger w auth t
                    \<lparr>si_triggered = triggeredAt, si_hash = keyHash, si_prompt = prompt,
                     si_metadata = requestMetadata, si_key = idempotencyKey\<rparr> (dw_mid w 0 d)
             else
               and_then (of_store (claimHttpRun (dw_run w) auth (tg_id t) triggeredAt idempotencyKey requestMetadata
                   (dw_mid w 0 d)))
                 (\<lambda>claimed d1. case claimed of
                     None \<Rightarrow> (d1, [], Inl ''HTTP trigger run already exists for this idempotency key'')
                   | Some run \<Rightarrow>
                       deliver_http_run w auth t run existing prompt
                         (http_metadata t requestMetadata keyHash run) (dw_mid w 4 d1))))"

section \<open>Waking the queue of a trigger\<close>

definition dispatchNextSerialHttpTrigger ::
    "dispatch_world \<Rightarrow> id \<Rightarrow> id \<Rightarrow> trigger_db \<Rightarrow> (trigger_db, bool \<times> bool) outcome" where
  "dispatchNextSerialHttpTrigger w projectId tid d =
     (case find_trigger projectId tid d of
        None \<Rightarrow> (d, [], Inr (False, False))
      | Some t \<Rightarrow>
          if tg_type t \<noteq> T_http then (d, [], Inr (False, False))
          else if tg_deleted t \<noteq> None \<or> \<not> tg_enabled t then (d, [], Inr (hasPendingHttpRuns tid d, True))
          else
            (case claimNextHttpRun (\<lambda>k. dw_mid w (10 + k)) tid (dw_now w 2) (dw_mid w 3 d) of
               (d1, None) \<Rightarrow> (d1, [], Inr (hasPendingHttpRuns tid d1, True))
             | (d1, Some claimed) \<Rightarrow>
                 and_then (dispatchClaimedSerialHttpRunWithRecovery w t claimed d1)
                   (\<lambda>_ d2. (d2, [], Inr (hasPendingHttpRuns tid d2, False)))))"

definition consumeSerialHttpTriggerWake ::
    "dispatch_world \<Rightarrow> id \<Rightarrow> id \<Rightarrow> trigger_db \<Rightarrow> (trigger_db, unit) outcome" where
  "consumeSerialHttpTriggerWake w projectId tid d =
     and_then (dispatchNextSerialHttpTrigger w projectId tid d)
       (\<lambda>(pending, blocked) d1.
          if pending \<and> \<not> blocked then wakeHttpTrigger w projectId tid 0 d1 else (d1, [], Inr ()))"

text \<open>One queued trigger: a message when the queue is configured, else the dispatch itself.\<close>

definition wake_or_dispatch :: "dispatch_world \<Rightarrow> id \<Rightarrow> id \<Rightarrow> trigger_db \<Rightarrow> (trigger_db, unit) outcome" where
  "wake_or_dispatch w projectId tid d =
     (if dw_queue w then wakeHttpTrigger w projectId tid 0 d
      else and_then (dispatchNextSerialHttpTrigger w projectId tid d) (\<lambda>_ d1. (d1, [], Inr ())))"

definition wakeSerialHttpTriggerForSettledSession ::
    "dispatch_world \<Rightarrow> id \<Rightarrow> id \<Rightarrow> trigger_db \<Rightarrow> (trigger_db, bool) outcome" where
  "wakeSerialHttpTriggerForSettledSession w projectId sessionId d =
     (case findSession projectId sessionId (td_core d) of
        None \<Rightarrow> (d, [], Inr False)
      | Some s \<Rightarrow>
          if busy_session s then (d, [], Inr False)
          else if annotation (se_metadata s) ''source'' \<noteq> Some (JStr ''http-trigger'') then (d, [], Inr False)
          else case nonempty_str (annotation (se_metadata s) ''httpTriggerId'') of
            None \<Rightarrow> (d, [], Inr False)
          | Some tid \<Rightarrow>
              (case find_trigger projectId tid d of
                 None \<Rightarrow> (d, [], Inr False)
               | Some t \<Rightarrow>
                   if tg_type t \<noteq> T_http \<or> tg_mode t \<noteq> M_serial then (d, [], Inr False)
                   else and_then (wake_or_dispatch w projectId tid d) (\<lambda>_ d1. (d1, [], Inr True))))"

definition SERIAL_HTTP_DISPATCH_STALE_MS :: int where
  "SERIAL_HTTP_DISPATCH_STALE_MS = 5 * 60 * 1000"

definition recover_one ::
    "dispatch_world \<Rightarrow> pending_http_run \<times> session_row option \<Rightarrow> trigger_db \<Rightarrow> (trigger_db, unit) outcome" where
  "recover_one w x d =
     (case x of (p, existing) \<Rightarrow>
        (case find_trigger (pn_project (ph_row p)) (pn_trigger (ph_row p)) d of
           None \<Rightarrow> (d, [], Inr ())
         | Some t \<Rightarrow>
             (case existing of
                Some s \<Rightarrow>
                  and_then (of_mark (markRunDispatched (dw_mid w 5) (Http (tg_id t)) (ph_run p) (se_id s)
                      (se_metadata s) (dw_now w 5) d))
                    (\<lambda>_ d1. (d1, [D_audit ''http_trigger.dispatch'' Success], Inr ()))
              | None \<Rightarrow> (requeueHttpRun (cd_id (ph_run p)) (dw_now w 6) d, [], Inr ()))))"

fun in_turn :: "('a \<Rightarrow> 's \<Rightarrow> ('s, unit) outcome) \<Rightarrow> 'a list \<Rightarrow> 's \<Rightarrow> ('s, unit) outcome" where
  "in_turn f [] s = (s, [], Inr ())"
| "in_turn f (x # xs) s = and_then (f x s) (\<lambda>_ s'. in_turn f xs s')"

definition recoverStaleSerialHttpRuns ::
    "(id \<Rightarrow> dispatch_world) \<Rightarrow> (nat \<Rightarrow> trigger_db \<Rightarrow> trigger_db) \<Rightarrow> nat \<Rightarrow> time \<Rightarrow> trigger_db \<Rightarrow> (trigger_db, unit) outcome" where
  "recoverStaleSerialHttpRuns w mid limit now d =
     (case staleHttpRuns mid (now - SERIAL_HTTP_DISPATCH_STALE_MS) limit d of
        (d1, None) \<Rightarrow> (d1, [], Inl ''Pending HTTP run is unavailable during recovery'')
      | (d1, Some stale) \<Rightarrow> in_turn (\<lambda>x. recover_one (w (cd_id (ph_run (fst x)))) x) stale d1)"

definition recoverSerialHttpTriggers ::
    "(id \<Rightarrow> dispatch_world) \<Rightarrow> (nat \<Rightarrow> trigger_db \<Rightarrow> trigger_db) \<Rightarrow> nat \<Rightarrow> time \<Rightarrow> trigger_db \<Rightarrow> (trigger_db, nat) outcome" where
  "recoverSerialHttpTriggers w mid limit now d =
     and_then (recoverStaleSerialHttpRuns w mid limit now d)
       (\<lambda>_ d1.
          let pending = pendingHttpTriggers limit d1 in
          and_then (in_turn (\<lambda>(tid, projectId). wake_or_dispatch (w tid) projectId tid) pending d1)
            (\<lambda>_ d2. (d2, [], Inr (length pending))))"

end
