(* ===== verification/TriggerFacts.thy ===== *)
theory TriggerFacts
  imports TriggerDispatch LifecycleFacts
begin

text \<open>
  What the dispatch of triggers guarantees: an occurrence is dispatched at most once, a replayed
  request does not queue a second run, serial triggers run one after the other in the order of
  their requests, and the queue of a serial trigger drains.
\<close>

section \<open>Runs stay\<close>

lemma steps_run_stays:
  "trigger_step\<^sup>*\<^sup>* d d' \<Longrightarrow> r \<in> set (td_runs d) \<Longrightarrow> \<exists>r' \<in> set (td_runs d'). same_key r r'"
proof (induction rule: rtranclp_induct)
  case (step y z)
  then obtain r' where "r' \<in> set (td_runs y)" "same_key r r'" by blast
  moreover obtain r'' where "r'' \<in> set (td_runs z)" "same_key r' r''"
    using evolve_trigger [OF step_runs_evolve [OF step(2)] calculation(1)] .
  ultimately show ?case by (force simp: same_key_def)
qed (auto intro!: bexI [where x = r])

lemma claimed_row:
  assumes "claimRun newId trigger heartbeatAt t d = (d', Inr (Some run))"
  shows "\<exists>r \<in> set (td_runs d'). rn_trigger r = du_id trigger \<and> rn_scheduled r = Some (du_next_due trigger)"
proof -
  from assms have "insert_run (scheduled_run newId trigger heartbeatAt t) d = Inr d'"
    by (auto simp: claimRun_def split: sum.splits store_error.splits)
  then show ?thesis by (rule insert_runE) (auto simp: scheduled_run_def)
qed

text \<open>An occurrence that has a run is not claimed again, whatever became of that run.\<close>

lemma claim_taken:
  assumes "r \<in> set (td_runs d)" "rn_trigger r = du_id trigger" "rn_scheduled r = Some (du_next_due trigger)"
  shows "claimRun newId trigger heartbeatAt t d =
    (d, if sql_exists (\<lambda>x. tg_id x = du_id trigger \<and> tg_deleted x \<noteq> None) (td_triggers d)
        then Inl (SE_deleted ''Trigger run'') else Inr None)"
proof -
  have "sql_exists (run_conflict (scheduled_run newId trigger heartbeatAt t)) (td_runs d)"
    using assms by (auto simp: sql_exists_iff run_conflict_def scheduled_run_def)
  then show ?thesis by (simp add: claimRun_def insert_run_def) (simp add: scheduled_run_def)
qed

lemma dispatch_skips:
  assumes "r \<in> set (td_runs (dw_mid w 0 d))" "rn_trigger r = du_id trigger"
    "rn_scheduled r = Some (du_next_due trigger)"
  shows "fst (dispatchTrigger w trigger heartbeatAt d) = dw_mid w 0 d"
    "fst (snd (dispatchTrigger w trigger heartbeatAt d)) = []"
    "\<not> sql_exists (\<lambda>x. tg_id x = du_id trigger \<and> tg_deleted x \<noteq> None) (td_triggers (dw_mid w 0 d)) \<Longrightarrow>
     dispatchTrigger w trigger heartbeatAt d = (dw_mid w 0 d, [], Inr None)"
  by (simp_all add: dispatchTrigger_def claim_taken [OF assms] of_store_def and_then_def)

definition calm :: "dispatch_world \<Rightarrow> bool" where
  "calm w \<longleftrightarrow> (\<forall>k d. dw_mid w k d = d)"

section \<open>A small instance\<close>

definition demo_template :: template_spec where
  "demo_template = \<lparr>tp_agent = ''a'', tp_environment = None, tp_runtime = ''codex'', tp_prompt = ''hi'', tp_env = JObj [],
     tp_env_from = JArr [], tp_volumes = JArr [], tp_volume_mounts = JArr []\<rparr>"

definition demo_serial :: trigger_row where
  "demo_serial = \<lparr>tg_id = ''t'', tg_organization = ''o'', tg_project = ''p'', tg_type = T_http, tg_mode = M_serial,
     tg_name = ''n'', tg_spec = demo_template, tg_interval = None, tg_window = None, tg_enabled = True,
     tg_next_due = None, tg_last_dispatched = None, tg_last_run = None, tg_key_hash = None, tg_fingerprint = None,
     tg_metadata = JObj [], tg_deleted = None, tg_created = 0, tg_updated = 0\<rparr>"

definition demo_cron :: trigger_row where
  "demo_cron = demo_serial\<lparr>tg_id := ''k'', tg_type := T_scheduled, tg_mode := M_parallel, tg_interval := Some 60,
     tg_window := Some 0, tg_next_due := Some 1000\<rparr>"

definition demo_due :: due_trigger where
  "demo_due = \<lparr>du_id = ''k'', du_organization = ''o'', du_project = ''p'', du_name = ''n'', du_metadata = JObj [],
     du_spec = demo_template, du_next_due = 1000, du_interval = 60\<rparr>"

definition demo_tdb :: trigger_db where
  "demo_tdb = \<lparr>td_triggers = [demo_serial, demo_cron], td_runs = [], td_pending = [], td_sequence = 0,
     td_messages = [], td_projects = [(''p'', ''P'')], td_core = session_db []\<rparr>"

definition demo_auth :: auth_scope where
  "demo_auth = \<lparr>au_organization = ''o'', au_organization_name = ''O'', au_project = ''p'', au_project_name = ''P'',
     au_user = ''u''\<rparr>"

definition demo_input :: enqueue_input where
  "demo_input = \<lparr>ni_hash = None, ni_prompt = ''hi''\<rparr>"

definition demo_reuse :: reuse_world where
  "demo_reuse = \<lparr>rw_startup = demo_startup, rw_startup_id = ''c'', rw_times = demo_tms, rw_reopened = 50,
     rw_prompt = \<lparr>pw_accepts = True, pw_delivered = True, pw_inline = None, pw_environment = None, pw_after = 51\<rparr>,
     rw_work = ''w'', rw_message = ''m'', rw_sent = 52\<rparr>"

definition demo_dispatch :: dispatch_world where
  "demo_dispatch = \<lparr>dw_run = ''r'', dw_now = int, dw_mid = (\<lambda>_ d. d), dw_create = (\<lambda>_ c. (c, Inr (Inr ''s''))),
     dw_reuse = demo_reuse, dw_render = (\<lambda>p _ _. Inr p), dw_digest = (\<lambda>s. s), dw_queue = True\<rparr>"

definition demo_row :: pending_row where
  "demo_row = \<lparr>pn_sequence = 1, pn_run = ''r1'', pn_trigger = ''t'', pn_organization = ''o'',
     pn_organization_name = ''O'', pn_project = ''p'', pn_project_name = ''P'', pn_user = ''u'', pn_hash = None,
     pn_prompt = ''hi'', pn_created = 10\<rparr>"

definition demo_queued :: trigger_db where
  "demo_queued = demo_tdb\<lparr>td_runs := [http_run ''r1'' demo_auth ''t'' 10 (Some ''key'') (JObj []) N_queued],
     td_pending := [demo_row], td_sequence := 1\<rparr>"

lemma demo_ok: "trigger_ok demo_tdb" "trigger_ok demo_queued" "calm demo_dispatch"
  by (simp_all add: trigger_ok_def demo_tdb_def demo_queued_def run_keys_def occurrences_ok_def pending_ok_def
      queue_ok_def serial_ok_def shapes_ok_def schedule_shape_def demo_serial_def demo_cron_def http_run_def
      demo_row_def open_run_def calm_def demo_dispatch_def)

lemma demo_enqueue:
  "enqueueHttpRun (\<lambda>_ d. d) ''r1'' demo_auth ''t'' 10 (Some ''key'') (JObj []) demo_input demo_tdb =
     (demo_queued, Inr (Enqueued (claimedHttpRun (http_run ''r1'' demo_auth ''t'' 10 (Some ''key'') (JObj []) N_queued)) True))"
  by (simp add: enqueueHttpRun_def enqueue_batch_def insert_run_def sql_exists_def demo_tdb_def demo_queued_def
      demo_serial_def demo_cron_def http_run_def demo_auth_def demo_input_def demo_row_def queued_rows_def run_in_state_def
      first_row_def Let_def)

lemma demo_claim_due:
  "\<exists>d1 run. claimRun ''x'' demo_due 2000 2000 demo_tdb = (d1, Inr (Some run))"
  by (simp add: claimRun_def insert_run_def scheduled_run_def demo_due_def demo_tdb_def demo_serial_def demo_cron_def
      sql_exists_def)

text \<open>
  C20 (safety): once one scheduler claimed an occurrence of a trigger, no other dispatch of the
  same occurrence, after any further statements of any process, creates a session or writes
  anything.
\<close>

theorem occurrence_dispatched_once:
  assumes "claimRun newId trigger heartbeatAt t d = (d1, Inr (Some run))"
    and "trigger_step\<^sup>*\<^sup>* d1 (dw_mid w 0 d2)"
  shows "fst (dispatchTrigger w trigger heartbeatAt' d2) = dw_mid w 0 d2 \<and>
    fst (snd (dispatchTrigger w trigger heartbeatAt' d2)) = []"
proof -
  from claimed_row [OF assms(1)] obtain r where r: "r \<in> set (td_runs d1)"
    "rn_trigger r = du_id trigger" "rn_scheduled r = Some (du_next_due trigger)" by blast
  from steps_run_stays [OF assms(2) r(1)] obtain r' where "r' \<in> set (td_runs (dw_mid w 0 d2))" "same_key r r'" by blast
  with r have "r' \<in> set (td_runs (dw_mid w 0 d2))" "rn_trigger r' = du_id trigger"
    "rn_scheduled r' = Some (du_next_due trigger)" by (simp_all add: same_key_def)
  from dispatch_skips(1,2) [OF this] show ?thesis by blast
qed

theorem occurrence_dispatched_once_witness:
  "\<exists>d1. fst (dispatchTrigger demo_dispatch demo_due 3000 d1) = d1 \<and>
     fst (snd (dispatchTrigger demo_dispatch demo_due 3000 d1)) = []"
proof -
  obtain d1 run where "claimRun ''x'' demo_due 2000 2000 demo_tdb = (d1, Inr (Some run))" using demo_claim_due by blast
  from occurrence_dispatched_once [OF this, of demo_dispatch d1] show ?thesis
    by (auto simp: demo_dispatch_def)
qed

text \<open>
  A run whose dispatcher vanished between the claim and the mark blocks its trigger:
  the trigger stays due, and every later heartbeat skips it without any write.
\<close>

theorem orphaned_claim_blocks_schedule:
  assumes "r \<in> set (td_runs d)" "rn_trigger r = du_id trigger" "rn_scheduled r = Some (du_next_due trigger)"
    and "row \<in> set (td_triggers d)" "dueTriggerFrom row = Some trigger" "due_row heartbeatAt None row"
    and "shapes_ok d" "dw_mid w 0 d = d"
  shows "dispatchTrigger w trigger heartbeatAt d = (d, [], Inr None) \<and>
    (\<forall>later. heartbeatAt \<le> later \<longrightarrow> due_row later None row)"
proof -
  have id: "du_id trigger = tg_id row" using assms(5) by (auto simp: dueTriggerFrom_def split: option.splits)
  have "tg_deleted row = None" using assms(6) by (simp add: due_row_def)
  then have live: "\<not> sql_exists (\<lambda>x. tg_id x = du_id trigger \<and> tg_deleted x \<noteq> None) (td_triggers d)"
    using assms(4,7) distinct_key_eq [of tg_id "td_triggers d" row]
    unfolding sql_exists_iff id shapes_ok_def by metis
  have "dispatchTrigger w trigger heartbeatAt d = (d, [], Inr None)"
    using dispatch_skips(3) [of r w d trigger heartbeatAt] assms(1,2,3,8) live by simp
  moreover have "due_row later None row" if "heartbeatAt \<le> later" for later
    using assms(6) that by (auto simp: due_row_def split: option.splits)
  ultimately show ?thesis by blast
qed

section \<open>Replayed requests\<close>

lemma steps_ok: "trigger_step\<^sup>*\<^sup>* d d' \<Longrightarrow> trigger_ok d \<Longrightarrow> trigger_ok d'"
  by (rule triggers.steps_inv)

lemma http_run_simps [simp]:
  "rn_id (http_run newId auth tid t raw md st) = newId" "rn_trigger (http_run newId auth tid t raw md st) = tid"
  "rn_key (http_run newId auth tid t raw md st) = http_key tid raw newId"
  "rn_state (http_run newId auth tid t raw md st) = st" "rn_scheduled (http_run newId auth tid t raw md st) = None"
  "rn_source (http_run newId auth tid t raw md st) = None"
  by (simp_all add: http_run_def)

lemma http_key_given: "raw \<noteq> [] \<Longrightarrow> http_key tid (Some raw) newId = http_key tid (Some raw) other"
  by (simp add: http_key_def truthy_str_def)

text \<open>An insert that meets its own idempotency key finds the run of the first request.\<close>

lemma replay_found:
  assumes "x \<in> set (td_runs d)" "rn_key x = http_key tid raw newId"
    and live: "\<not> sql_exists (\<lambda>t. tg_id t = tid \<and> tg_deleted t \<noteq> None) (td_triggers d)"
    and "x' \<in> set (td_runs (w 0 d))" "same_key x x'" "run_keys (w 0 d)"
  shows "enqueueHttpRun w newId auth tid t raw md input d = (w 0 d, Inr (Replayed (rn_id x)))"
proof -
  have "sql_exists (run_conflict (http_run newId auth tid t raw md N_queued)) (td_runs d)"
    using assms(1,2) by (auto simp: sql_exists_iff run_conflict_def)
  with live have "enqueue_batch (http_run newId auth tid t raw md N_queued) auth input d = Inl SE_unique"
    by (simp add: enqueue_batch_def insert_run_def)
  moreover have "sql_get (\<lambda>y. rn_key y = http_key tid raw newId) (td_runs (w 0 d)) = Some x'"
    using sql_get_key [of rn_key "td_runs (w 0 d)" x'] assms by (simp add: run_keys_def same_key_def)
  ultimately show ?thesis using assms(5) by (simp add: enqueueHttpRun_def same_key_def)
qed

text \<open>
  A request that is repeated with its idempotency key, at any later time and
  concurrently with any other statements, is answered with the run of the first request, and
  enqueues nothing.
\<close>

theorem replayed_request_same_run:
  assumes "trigger_ok d" "\<And>x. trigger_step\<^sup>*\<^sup>* x (w 0 x)" "\<And>x. trigger_step\<^sup>*\<^sup>* x (w' 0 x)" "raw \<noteq> []"
    and first: "enqueueHttpRun w newId auth tid t (Some raw) md input d = (d1, Inr (Enqueued run wake))"
    and steps: "trigger_step\<^sup>*\<^sup>* d1 d2"
    and live: "\<not> sql_exists (\<lambda>x. tg_id x = tid \<and> tg_deleted x \<noteq> None) (td_triggers d2)"
  shows "enqueueHttpRun w' newId' auth' tid t' (Some raw) md' input' d2 = (w' 0 d2, Inr (Replayed (cd_id run)))"
proof -
  let ?r = "http_run newId auth tid t (Some raw) md N_queued"
  from first obtain d0 where d0: "enqueue_batch ?r auth input d = Inr d0" "d1 = w 0 d0" "cd_id run = newId"
    by (auto simp: enqueueHttpRun_def Let_def claimedHttpRun_def split: sum.splits store_error.splits option.splits)
  have "trigger_step d d0" by (rule step_enqueue [OF _ d0(1)]) simp
  with assms(2) [of d0] steps d0(2) have later: "trigger_step\<^sup>*\<^sup>* d0 d2" "trigger_step\<^sup>*\<^sup>* d d2"
    by (simp_all add: converse_rtranclp_into_rtranclp)
  have "?r \<in> set (td_runs d0)" using d0(1) by (rule enqueue_batchE) simp
  from steps_run_stays [OF later(1) this] obtain x where x: "x \<in> set (td_runs d2)" "same_key ?r x" by blast
  from steps_run_stays [OF assms(3) x(1)] obtain x' where x': "x' \<in> set (td_runs (w' 0 d2))" "same_key x x'" by blast
  have ok: "run_keys (w' 0 d2)"
    using steps_ok [OF assms(3)] steps_ok [OF later(2) assms(1)] by (simp add: trigger_ok_def)
  have key: "rn_key x = http_key tid (Some raw) newId'"
    using x(2) http_key_given [OF assms(4), of tid newId newId'] by (simp add: same_key_def)
  show ?thesis
    using replay_found [where w = w', OF x(1) key live x' ok, of auth' t' md' input'] x(2) d0(3) by (simp add: same_key_def)
qed

theorem replayed_request_same_run_witness:
  "enqueueHttpRun (\<lambda>_ d. d) ''r2'' demo_auth ''t'' 20 (Some ''key'') (JObj []) demo_input demo_queued =
     (demo_queued, Inr (Replayed ''r1''))"
  using replayed_request_same_run [OF demo_ok(1) _ _ _ demo_enqueue, of "\<lambda>_ d. d" demo_queued "''r2''" demo_auth 20]
  by (simp add: claimedHttpRun_def sql_exists_def demo_queued_def demo_tdb_def demo_serial_def demo_cron_def)

section \<open>Serial triggers\<close>

lemma sorted_queue:
  assumes "pending_ok d"
  shows "queued_rows tid d = filter (\<lambda>p. pn_trigger p = tid \<and> run_in_state (pn_run p) N_queued d) (td_pending d)"
proof -
  have "sorted_wrt (<) (map pn_sequence (filter P (td_pending d)))" for P
    using assms by (auto simp: pending_ok_def sorted_wrt_map intro: sorted_wrt_filter)
  then have "sorted (map pn_sequence (filter P (td_pending d)))" for P
    by (simp add: strict_sorted_iff)
  then show ?thesis unfolding queued_rows_def by (rule sort_key_id_if_sorted)
qed

lemma first_filterD:
  assumes "first_row (filter P xs) = Some x" "sorted_wrt (<) (map key xs)"
  shows "x \<in> set xs \<and> P x \<and> (\<forall>y \<in> set xs. P y \<longrightarrow> key x \<le> (key y :: nat))"
  using assms by (induction xs) (auto simp: first_row_def split: if_splits)

lemma pendingHttpRun_row:
  "pendingHttpRun runId d = Some p \<Longrightarrow>
     ph_row p \<in> set (td_pending d) \<and> pn_run (ph_row p) = runId \<and> cd_id (ph_run p) = runId \<and>
     (\<exists>r \<in> set (td_runs d). rn_id r = runId \<and> ph_run p = claimedHttpRun r)"
  by (auto simp: pendingHttpRun_def claimedHttpRun_def split: option.splits dest!: sql_get_Some)

text \<open>A row of the queue belongs to the run it was inserted with, and is never rewritten.\<close>

lemma step_pending_rows:
  "trigger_step d d' \<Longrightarrow> p \<in> set (td_pending d') \<Longrightarrow> pn_run p \<in> rn_id ` set (td_runs d) \<Longrightarrow>
   p \<in> set (td_pending d)"
proof (induction rule: trigger_step.induct)
  case (step_enqueue r auth input d d')
  from step_enqueue(2) show ?case
    by (rule enqueue_batchE) (use step_enqueue(3,4) in \<open>force simp: sql_exists_iff run_conflict_def\<close>)
next
  case (step_insert_run r d d')
  from step_insert_run(2,3) show ?case by (auto elim!: insert_runE)
qed (auto dest!: runs_kept_steps simp: runs_kept_def claim_stmt_runs requeueHttpRun_def settle_run_def)

lemma steps_pending_rows:
  "trigger_step\<^sup>*\<^sup>* d d' \<Longrightarrow> p \<in> set (td_pending d') \<Longrightarrow> pn_run p \<in> rn_id ` set (td_runs d) \<Longrightarrow>
   p \<in> set (td_pending d)"
proof (induction arbitrary: p rule: rtranclp_induct)
  case (step y z)
  from step(5) obtain r where "r \<in> set (td_runs d)" "rn_id r = pn_run p" by auto
  with steps_run_stays [OF step(1)] have "pn_run p \<in> rn_id ` set (td_runs y)" by (force simp: same_key_def)
  from step_pending_rows [OF step(2,4) this] step(5) show ?case by (rule step(3))
qed

lemma claim_candidateE:
  assumes "claim_candidate hash tid d = Some runId" "trigger_ok d"
  obtains p where "p \<in> set (td_pending d)" "pn_run p = runId" "pn_trigger p = tid" "run_in_state runId N_queued d"
    "hash = None \<or> pn_hash p = hash"
    "\<And>q. q \<in> set (td_pending d) \<Longrightarrow> pn_trigger q = tid \<Longrightarrow> run_in_state (pn_run q) N_queued d \<Longrightarrow>
       hash = None \<or> pn_hash q = hash \<Longrightarrow> pn_sequence p \<le> pn_sequence q"
proof -
  have po: "pending_ok d" using assms(2) by (simp add: trigger_ok_def)
  let ?P = "\<lambda>p. (hash = None \<or> pn_hash p = hash) \<and> pn_trigger p = tid \<and> run_in_state (pn_run p) N_queued d"
  from assms(1) obtain p where p: "first_row (filter ?P (td_pending d)) = Some p" "pn_run p = runId"
    by (auto simp: claim_candidate_def sorted_queue [OF po] conj_commute)
  have "sorted_wrt (<) (map pn_sequence (td_pending d))" using po by (simp add: pending_ok_def)
  from first_filterD [OF p(1) this] p(2) show thesis by (intro that [of p]) auto
qed

lemma claim_stmt_granted:
  assumes "claim_stmt runId active tid t d = (d', True)"
  shows "claim_allowed active tid d" "run_in_state runId N_queued d" "d' = fst (claim_stmt runId active tid t d)"
  using assms by (auto simp: claim_stmt_def cas_row_def sql_exists_iff run_in_state_def)

lemma claimNextE:
  assumes "claimNextHttpRun w tid t d = (d', Some p)"
  obtains active runId d2 where "active_session tid d = active"
    "active = None \<or> truthy_str (snd (the active))"
    "claim_candidate (Option.bind active snd) tid (w 0 d) = Some runId"
    "claim_stmt runId (map_option fst active) tid t (w 1 (w 0 d)) = (d2, True)"
    "d' = w 2 d2" "pendingHttpRun runId d' = Some p"
proof -
  let ?a = "active_session tid d"
  from assms have a: "\<not> (?a \<noteq> None \<and> \<not> truthy_str (snd (the ?a)))"
    unfolding claimNextHttpRun_def Let_def by (auto split: if_splits)
  with assms obtain runId where r: "claim_candidate (Option.bind ?a snd) tid (w 0 d) = Some runId"
    "(case claim_stmt runId (map_option fst ?a) tid t (w 1 (w 0 d)) of
        (d2, False) \<Rightarrow> (d2, None) | (d2, True) \<Rightarrow> (w 2 d2, pendingHttpRun runId (w 2 d2))) = (d', Some p)"
    unfolding claimNextHttpRun_def Let_def by (auto split: option.splits)
  show thesis
  proof (cases "claim_stmt runId (map_option fst ?a) tid t (w 1 (w 0 d))")
    case (Pair d2 ok)
    with r(2) have *: "ok = True" "d' = w 2 d2" "pendingHttpRun runId d' = Some p" by (auto split: bool.splits)
    have "?a = None \<or> truthy_str (snd (the ?a))" using a by blast
    from that [OF refl this r(1) _ *(2,3)] Pair *(1) show thesis by simp
  qed
qed

lemma active_pairs_ids:
  "claim_allowed (Some sid) tid d \<Longrightarrow> (r, s) \<in> set (active_pairs tid d) \<Longrightarrow> se_id s = sid"
  by (auto simp: claim_allowed_def list_ex_iff)

lemma claim_in_order:
  assumes ok: "trigger_ok d" and env: "\<And>k x. trigger_step\<^sup>*\<^sup>* x (w k x)"
    and claim: "claimNextHttpRun w tid t d = (d', Some p)"
  defines "d1 \<equiv> w 0 d" and "d2 \<equiv> w 1 (w 0 d)"
  shows "pn_trigger (ph_row p) = tid" "\<not> run_dispatching tid d2"
    "run_in_state (cd_id (ph_run p)) N_queued d2"
    "\<And>q. q \<in> set (td_pending d1) \<Longrightarrow> pn_trigger q = tid \<Longrightarrow> run_in_state (pn_run q) N_queued d1 \<Longrightarrow>
       pn_sequence q < pn_sequence (ph_row p) \<Longrightarrow>
       \<exists>sid h. active_session tid d = Some (sid, Some h) \<and> pn_hash (ph_row p) = Some h \<and> pn_hash q \<noteq> Some h"
    "\<And>r s. (r, s) \<in> set (active_pairs tid d2) \<Longrightarrow>
       \<exists>h. active_session tid d = Some (se_id s, Some h) \<and> pn_hash (ph_row p) = Some h"
proof -
  obtain active runId d3 where a: "active_session tid d = active"
      "active = None \<or> truthy_str (snd (the active))"
    and cand: "claim_candidate (Option.bind active snd) tid d1 = Some runId"
    and stmt: "claim_stmt runId (map_option fst active) tid t d2 = (d3, True)"
    and p: "d' = w 2 d3" "pendingHttpRun runId d' = Some p"
    by (rule claimNextE [OF claim]) (rule that, simp_all only: d1_def d2_def)
  have ok1: "trigger_ok d1" "trigger_ok d2" and s12: "trigger_step\<^sup>*\<^sup>* d1 d2"
    using steps_ok [OF env ok] steps_ok [OF env] env unfolding d1_def d2_def by auto
  obtain q0 where q0: "q0 \<in> set (td_pending d1)" "pn_run q0 = runId" "pn_trigger q0 = tid" "run_in_state runId N_queued d1"
      "Option.bind active snd = None \<or> pn_hash q0 = Option.bind active snd"
    and oldest: "\<And>q. q \<in> set (td_pending d1) \<Longrightarrow> pn_trigger q = tid \<Longrightarrow> run_in_state (pn_run q) N_queued d1 \<Longrightarrow>
       Option.bind active snd = None \<or> pn_hash q = Option.bind active snd \<Longrightarrow> pn_sequence q0 \<le> pn_sequence q"
    using cand ok1(1) by (rule claim_candidateE) (rule that)
  have claimed_tid: "rn_trigger r = tid" if r: "r \<in> set (td_runs d2)" "rn_id r = runId" for r
  proof -
    from q0(1,2,3) ok1(1) obtain r0 where r0: "r0 \<in> set (td_runs d1)" "rn_id r0 = runId" "rn_trigger r0 = tid"
      by (auto simp: trigger_ok_def queue_ok_def)
    from steps_run_stays [OF s12 r0(1)] obtain r' where "r' \<in> set (td_runs d2)" "same_key r0 r'" by blast
    moreover from this have "r = r'"
      using r r0 ok1(2) distinct_key_eq [of rn_id "td_runs d2" r r'] by (simp add: same_key_def trigger_ok_def run_keys_def)
    ultimately show ?thesis using r0(3) by (simp add: same_key_def)
  qed
  show "\<not> run_dispatching tid d2"
    using claim_stmt_granted(1) [OF stmt] by (auto simp: claim_allowed_def split: option.splits)
  have "trigger_step d2 d3"
    using claim_stmt_granted(3) [OF stmt] step_claim [of d2 runId tid] claimed_tid by metis
  with s12 env have s13: "trigger_step\<^sup>*\<^sup>* d1 d'"
    unfolding p(1) by (meson rtranclp.rtrancl_into_rtrancl rtranclp_trans)
  have "runId \<in> rn_id ` set (td_runs d1)"
    using q0(4) by (auto simp: run_in_state_def sql_exists_iff)
  with steps_pending_rows [OF s13] pendingHttpRun_row [OF p(2)]
  have "ph_row p \<in> set (td_pending d1)" "pn_run (ph_row p) = pn_run q0" by (simp_all add: q0(2))
  with q0(1) ok1(1) have row: "ph_row p = q0"
    using distinct_key_eq [of pn_run "td_pending d1"] by (simp add: trigger_ok_def pending_ok_def)
  from row q0(3) show "pn_trigger (ph_row p) = tid" by simp
  show "run_in_state (cd_id (ph_run p)) N_queued d2"
    using claim_stmt_granted(2) [OF stmt] pendingHttpRun_row [OF p(2)] by simp
  have hash: "active = Some (sid, ho) \<Longrightarrow> \<exists>h. ho = Some h \<and> pn_hash q0 = Some h" for sid ho
    using a(2) q0(5) by (cases ho) (auto simp: truthy_str_def)
  show "\<exists>sid h. active_session tid d = Some (sid, Some h) \<and> pn_hash (ph_row p) = Some h \<and> pn_hash q \<noteq> Some h"
    if "q \<in> set (td_pending d1)" "pn_trigger q = tid" "run_in_state (pn_run q) N_queued d1"
      "pn_sequence q < pn_sequence (ph_row p)" for q
  proof -
    have no: "\<not> (Option.bind active snd = None \<or> pn_hash q = Option.bind active snd)"
      using oldest [OF that(1-3)] that(4) row by (metis leD)
    then obtain sid ho where s: "active = Some (sid, ho)" by (cases active) auto
    with hash obtain h where "ho = Some h" "pn_hash q0 = Some h" by blast
    with s no row show ?thesis unfolding a(1) by auto
  qed
  show "\<exists>h. active_session tid d = Some (se_id s, Some h) \<and> pn_hash (ph_row p) = Some h"
    if "(r, s) \<in> set (active_pairs tid d2)" for r s
  proof (cases active)
    case None
    with claim_stmt_granted(1) [OF stmt] that show ?thesis by (simp add: claim_allowed_def)
  next
    case (Some x)
    then obtain sid ho where s: "active = Some (sid, ho)" by (cases x) auto
    with claim_stmt_granted(1) [OF stmt] have "claim_allowed (Some sid) tid d2" by simp
    from active_pairs_ids [OF this that] have "se_id s = sid" .
    with hash [OF s] s row show ?thesis unfolding a(1) by auto
  qed
qed

text \<open>
  A claim of a serial trigger takes the oldest queued request: at the moment of its
  selection no older request was queued, except, while a session of the trigger is busy, those of
  other routing keys. When the claim takes effect no run of the trigger is being dispatched, and
  every busy session of the trigger is the one with the routing key of the request.
\<close>

theorem serial_claim_in_order:
  assumes "trigger_ok d" "\<And>k x. trigger_step\<^sup>*\<^sup>* x (w k x)" "claimNextHttpRun w tid t d = (d', Some p)"
  shows "pn_trigger (ph_row p) = tid \<and> run_in_state (cd_id (ph_run p)) N_queued (w 1 (w 0 d)) \<and>
    \<not> run_dispatching tid (w 1 (w 0 d)) \<and>
    (\<forall>q \<in> set (td_pending (w 0 d)). pn_trigger q = tid \<and> run_in_state (pn_run q) N_queued (w 0 d) \<and>
       pn_sequence q < pn_sequence (ph_row p) \<longrightarrow>
       (\<exists>sid h. active_session tid d = Some (sid, Some h) \<and> pn_hash (ph_row p) = Some h \<and> pn_hash q \<noteq> Some h)) \<and>
    (\<forall>(r, s) \<in> set (active_pairs tid (w 1 (w 0 d))).
       \<exists>h. active_session tid d = Some (se_id s, Some h) \<and> pn_hash (ph_row p) = Some h)"
  using claim_in_order [OF assms] by blast

lemma reachable_queue:
  assumes "trigger_init d0" "trigger_step\<^sup>*\<^sup>* d0 d"
  shows "sql_count (\<lambda>r. rn_trigger r = tid \<and> rn_state r = N_dispatching) (td_runs d) \<le> 1"
    "r \<in> set (td_runs d) \<Longrightarrow>
     (rn_state r = N_queued \<or> rn_state r = N_dispatching) = (\<exists>p \<in> set (td_pending d). pn_run p = rn_id r)"
    "p \<in> set (td_pending d) \<Longrightarrow>
     \<exists>r \<in> set (td_runs d). rn_id r = pn_run p \<and> rn_trigger r = pn_trigger p \<and> pendingHttpRun (pn_run p) d \<noteq> None"
proof -
  from triggers.reachable_inv [OF assms] have ok: "serial_ok d" "queue_ok d" "run_keys d"
    by (simp_all add: trigger_ok_def)
  show "sql_count (\<lambda>r. rn_trigger r = tid \<and> rn_state r = N_dispatching) (td_runs d) \<le> 1"
    using ok(1) by (simp add: serial_ok_def)
  have key: "x = y" if "x \<in> set (td_runs d)" "y \<in> set (td_runs d)" "rn_id x = rn_id y" for x y
    using ok(3) that distinct_key_eq [of rn_id] unfolding run_keys_def by metis
  show "(rn_state r = N_queued \<or> rn_state r = N_dispatching) = (\<exists>p \<in> set (td_pending d). pn_run p = rn_id r)"
    if "r \<in> set (td_runs d)"
    using ok(2) that key by (fastforce simp: queue_ok_def open_run_def)
  show "\<exists>r \<in> set (td_runs d). rn_id r = pn_run p \<and> rn_trigger r = pn_trigger p \<and> pendingHttpRun (pn_run p) d \<noteq> None"
    if p: "p \<in> set (td_pending d)"
  proof -
    obtain r where r: "r \<in> set (td_runs d)" "rn_id r = pn_run p" "rn_trigger r = pn_trigger p"
      using ok(2) p by (auto simp: queue_ok_def)
    moreover have "sql_get (\<lambda>q. pn_run q = pn_run p) (td_pending d) \<noteq> None" "sql_get (\<lambda>x. rn_id x = pn_run p) (td_runs d) \<noteq> None"
      using p r by (auto simp: sql_get_None)
    ultimately show ?thesis by (auto simp: pendingHttpRun_def)
  qed
qed

lemma demo_claim: "\<exists>d p. claimNextHttpRun (\<lambda>_ d. d) ''t'' 20 demo_queued = (d, Some p)"
  by (simp add: claimNextHttpRun_def active_session_def active_pairs_def demo_queued_def demo_tdb_def session_db_def
      claim_candidate_def queued_rows_def run_in_state_def sql_exists_def first_row_def claim_stmt_def cas_row_def
      claim_allowed_def run_dispatching_def pendingHttpRun_def sql_get_def http_run_def demo_row_def Let_def)

theorem serial_claim_in_order_witness:
  "\<exists>d p. claimNextHttpRun (\<lambda>_ d. d) ''t'' 20 demo_queued = (d, Some p) \<and> pn_trigger (ph_row p) = ''t''"
proof -
  obtain d p where "claimNextHttpRun (\<lambda>_ d. d) ''t'' 20 demo_queued = (d, Some p)" using demo_claim by blast
  with serial_claim_in_order [OF demo_ok(2) _ this] show ?thesis by blast
qed

text \<open>
  C21 (invariant): whatever schedulers, requests, queue consumers and recoveries run concurrently,
  at most one run of a trigger is being dispatched at any time, and a run is queued or being
  dispatched exactly while its request is in the queue, under its own trigger.
\<close>

theorem one_dispatch_at_a_time:
  assumes "trigger_init d0" "trigger_step\<^sup>*\<^sup>* d0 d"
  shows "sql_count (\<lambda>r. rn_trigger r = tid \<and> rn_state r = N_dispatching) (td_runs d) \<le> 1 \<and>
    (\<forall>r \<in> set (td_runs d). (rn_state r = N_queued \<or> rn_state r = N_dispatching) =
       (\<exists>p \<in> set (td_pending d). pn_run p = rn_id r)) \<and>
    (\<forall>p \<in> set (td_pending d). \<exists>r \<in> set (td_runs d).
       rn_id r = pn_run p \<and> rn_trigger r = pn_trigger p \<and> pendingHttpRun (pn_run p) d \<noteq> None)"
  using reachable_queue [OF assms] by blast

lemma demo_reachable:
  "\<exists>d0 d r. trigger_init d0 \<and> trigger_step\<^sup>*\<^sup>* d0 d \<and> r \<in> set (td_runs d) \<and> rn_trigger r = ''t'' \<and> rn_state r = N_queued"
proof -
  define d0 where "d0 = demo_tdb\<lparr>td_triggers := []\<rparr>"
  let ?config = "\<lparr>cf_name = ''n'', cf_source = Src_http (Some M_serial), cf_suspend = False, cf_spec = demo_template,
    cf_metadata = JObj [], cf_next_due = None\<rparr>"
  let ?run = "http_run ''r1'' demo_auth ''t'' 10 None (JObj []) N_queued"
  obtain d1 row where d1: "insert_trigger ''t'' ''o'' ''p'' ?config None 5 d0 = (d1, Inr row)"
    "td_triggers d1 = [row]" "tg_id row = ''t''" "tg_deleted row = None" "td_runs d1 = []" "td_pending d1 = []"
    by (simp add: insert_trigger_def new_trigger_def configColumns_def schedule_shape_def d0_def demo_tdb_def
        sql_exists_def Let_def)
  then obtain d2 where d2: "enqueue_batch ?run demo_auth demo_input d1 = Inr d2" "td_runs d2 = [?run]"
    by (simp add: enqueue_batch_def insert_run_def sql_exists_def)
  have "trigger_step\<^sup>*\<^sup>* d0 d2"
    using step_insert_trigger [OF d1(1)] step_enqueue [OF _ d2(1)] by (simp add: rtranclp.rtrancl_into_rtrancl)
  moreover have "trigger_init d0" by (simp add: trigger_init_def d0_def demo_tdb_def)
  ultimately show ?thesis using d2(2) by (intro exI [of _ d0] exI [of _ d2] exI [of _ ?run]) simp
qed

theorem one_dispatch_at_a_time_witness:
  "\<exists>(d :: trigger_db) r. r \<in> set (td_runs d) \<and> rn_state r = N_queued \<and> (\<exists>p \<in> set (td_pending d). pn_run p = rn_id r) \<and>
     sql_count (\<lambda>x. rn_trigger x = ''t'' \<and> rn_state x = N_dispatching) (td_runs d) \<le> 1"
proof -
  obtain d0 d r where d: "trigger_init d0" "trigger_step\<^sup>*\<^sup>* d0 d" "r \<in> set (td_runs d)" "rn_state r = N_queued"
    using demo_reachable by blast
  from one_dispatch_at_a_time [OF d(1,2), of "''t''"] d(3,4) show ?thesis
    by (intro exI [of _ d] exI [of _ r]) auto
qed

section \<open>Delivering a run\<close>

lemma other_refl [simp]: "only_other_tables d d"
  by (simp add: only_other_tables_def)

lemma other_trans: "only_other_tables d d' \<Longrightarrow> only_other_tables d' d'' \<Longrightarrow> only_other_tables d d''"
  by (simp add: only_other_tables_def)

lemma other_core [simp]: "only_other_tables d (d\<lparr>td_core := c\<rparr>)" "only_other_tables d (d\<lparr>td_messages := m\<rparr>)"
  by (simp_all add: only_other_tables_def)

lemma and_then_other:
  assumes "only_other_tables d (fst r)" "\<And>a d1. only_other_tables d1 (fst (k a d1))"
  shows "only_other_tables d (fst (and_then r k))"
  using assms by (auto simp: and_then_def split: prod.splits sum.splits) (metis fst_conv other_trans)+

lemma insertMessage_other: "only_other_tables d (fst (insertMessage w auth sid content delivery st d))"
  by (simp add: insertMessage_def Let_def)

lemma send_other: "only_other_tables d (fst (sendSessionMessage w auth s content requestId d))"
  by (auto simp: sendSessionMessage_def insertMessage_other split: prod.splits prompt_outcome.splits
      intro!: and_then_other)

lemma reuse_other: "only_other_tables d (fst (dispatchToReusableSession w auth s content requestId d))"
  unfolding dispatchToReusableSession_def
  by (rule and_then_other)
     (auto simp: reopen_target_def insertMessage_other send_other split: prod.splits sum.splits)

lemma create_other: "only_other_tables d (fst (create_call w q d))"
  by (auto simp: create_call_def split: prod.splits)

text \<open>
  \<open>settled ok es\<close>: the run left the queue and was recorded and audited, as failed with a message or as
  dispatched with a session \<open>ok\<close> admits; nothing else of the queue changed.
\<close>

definition outcome_of :: "(id \<Rightarrow> bool) \<Rightarrow> dispatch_effect list \<Rightarrow> (run_row \<Rightarrow> run_row) \<Rightarrow> bool" where
  "outcome_of ok es f \<longleftrightarrow>
     (\<exists>message t. f = failed_run message t \<and> D_audit ''http_trigger.dispatch'' Failure \<in> set es) \<or>
     (\<exists>sid md t. f = dispatched_run sid md t \<and> ok sid \<and> D_audit ''http_trigger.dispatch'' Success \<in> set es)"

definition settled :: "(id \<Rightarrow> bool) \<Rightarrow> dispatch_effect list \<Rightarrow> id \<Rightarrow> trigger_db \<Rightarrow> trigger_db \<Rightarrow> bool" where
  "settled ok es runId d d' \<longleftrightarrow>
     td_pending d' = filter (\<lambda>p. pn_run p \<noteq> runId) (td_pending d) \<and> td_sequence d' = td_sequence d \<and>
     (\<exists>f. td_runs d' = sql_update (\<lambda>r. rn_id r = runId) f (td_runs d) \<and> outcome_of ok es f)"

lemma outcome_keys: "outcome_of ok es f \<Longrightarrow> same_key r (f r) \<and> (rn_state (f r) = N_failed \<or> rn_state (f r) = N_dispatched)"
  by (auto simp: outcome_of_def failed_run_def dispatched_run_def same_key_def)

lemma settled_other: "only_other_tables d d1 \<Longrightarrow> settled ok es runId d1 d' \<Longrightarrow> settled ok es runId d d'"
  by (simp add: settled_def only_other_tables_def)

lemma settled_mono:
  "settled ok es runId d d' \<Longrightarrow> (\<And>sid. ok sid \<Longrightarrow> ok' sid) \<Longrightarrow> set es \<subseteq> set es' \<Longrightarrow> settled ok' es' runId d d'"
  unfolding settled_def outcome_of_def by blast

lemma mark_settles:
  assumes "shapes_ok d" "\<And>d. w d = d" "outcome_of ok es f"
  shows "\<exists>d'. mark_run w (Http tid) runId f t d = (d', None) \<and> settled ok es runId d d' \<and> td_core d' = td_core d"
proof -
  have shape: "schedule_shape (advance_row (Http tid) runId t r) = schedule_shape r" for r
    by (simp add: schedule_shape_def)
  have "\<not> list_ex (\<lambda>r. (tg_id r = tid \<and> tg_deleted r = None) \<and> \<not> schedule_shape r) (td_triggers d)"
    using assms(1) by (auto simp: shapes_ok_def list_ex_iff)
  then have "mark_run w (Http tid) runId f t d =
      (settle_run runId f d\<lparr>td_triggers := sql_update (\<lambda>r. tg_id r = tid \<and> tg_deleted r = None)
         (advance_row (Http tid) runId t) (td_triggers d)\<rparr>, None)"
    by (simp add: mark_run_def advanceRunTrigger_def assms(2) settle_run_def shape del: advance_row.simps)
  with assms(3) show ?thesis by (auto simp: settled_def settle_run_def)
qed

lemma http_marks:
  assumes "shapes_ok d" "calm w"
  shows "\<exists>d' es res. http_failed w tid run message d = (d', es, Inr res) \<and> settled ok es (cd_id run) d d'"
    "ok sid \<Longrightarrow> \<exists>d' es res. http_dispatched w tid run sid md d = (d', es, Inr res) \<and> settled ok es (cd_id run) d d'"
proof -
  have calm: "dw_mid w 5 d = d" for d using assms(2) by (simp add: calm_def)
  let ?f = "failed_run message (dw_now w 5)"
  have "outcome_of ok [D_audit ''http_trigger.dispatch'' Failure] ?f" by (auto simp: outcome_of_def)
  from mark_settles [OF assms(1) calm this, of tid "cd_id run" "dw_now w 5"]
  show "\<exists>d' es res. http_failed w tid run message d = (d', es, Inr res) \<and> settled ok es (cd_id run) d d'"
    by (elim exE conjE) (simp add: http_failed_def markRunFailed_def of_mark_def and_then_def)
  let ?g = "dispatched_run sid (jset ''sessionMetadata'' md (cd_metadata run)) (dw_now w 5)"
  assume "ok sid"
  then have "outcome_of ok [D_audit ''http_trigger.dispatch'' Success] ?g" by (auto simp: outcome_of_def)
  from mark_settles [OF assms(1) calm this, of tid "cd_id run" "dw_now w 5"]
  show "\<exists>d' es res. http_dispatched w tid run sid md d = (d', es, Inr res) \<and> settled ok es (cd_id run) d d'"
    by (elim exE conjE) (simp add: http_dispatched_def markRunDispatched_def of_mark_def and_then_def)
qed

text \<open>A delivery throws before it touches the queue, or settles its run.\<close>

lemma and_then_settles:
  assumes "shapes_ok d" "only_other_tables d (fst x)"
    and k: "\<And>a d1. snd (snd x) = Inr a \<Longrightarrow> shapes_ok d1 \<Longrightarrow> \<exists>d' es res. k a d1 = (d', es, Inr res) \<and> settled ok es runId d1 d'"
  shows "case snd (snd (and_then x k)) of Inl _ \<Rightarrow> only_other_tables d (fst (and_then x k))
    | Inr _ \<Rightarrow> settled ok (fst (snd (and_then x k))) runId d (fst (and_then x k)) \<and> set (fst (snd x)) \<subseteq> set (fst (snd (and_then x k)))"
proof (cases x)
  case (fields d1 es a)
  with assms(2) have o: "only_other_tables d d1" by simp
  with assms(1) have "shapes_ok d1" by (simp add: only_other_tables_def shapes_ok_def)
  show ?thesis
  proof (cases a)
    case (Inr b)
    from k [OF _ \<open>shapes_ok d1\<close>, of b] fields Inr obtain d2 es2 res where
      "k b d1 = (d2, es2, Inr res)" "settled ok es2 runId d1 d2" by auto
    with settled_mono [OF settled_other [OF o, of ok es2 runId d2], of ok "es @ es2"] show ?thesis
      by (simp add: and_then_def fields Inr)
  qed (simp add: and_then_def fields o)
qed

lemma sum_settles:
  assumes "\<And>m. \<exists>d' es res. f m = (d', es, Inr res) \<and> settled ok es runId d d'"
    and "\<And>b. a = Inr b \<Longrightarrow> \<exists>d' es res. g b = (d', es, Inr res) \<and> settled ok es runId d d'"
  shows "\<exists>d' es res. (case a of Inl m \<Rightarrow> f m | Inr b \<Rightarrow> g b) = (d', es, Inr res) \<and> settled ok es runId d d'"
  using assms by (cases a) (simp_all only: sum.case)

text \<open>The session a delivery may record: the one it reuses, or the one that \<open>createSession\<close> has just answered.\<close>

definition delivered_to :: "dispatch_world \<Rightarrow> session_row option \<Rightarrow> db \<Rightarrow> dispatch_effect list \<Rightarrow> id \<Rightarrow> bool" where
  "delivered_to w existing core es sid \<longleftrightarrow>
     (case existing of
        Some s \<Rightarrow> sid = se_id s
      | None \<Rightarrow> \<exists>q. D_create (rq_request q) \<in> set es \<and> snd (dw_create w q core) = Inr (Inr sid))"

lemma deliver_settles:
  assumes "shapes_ok d" "calm w" "deliver_http_run w auth t run existing prompt md d = (d', es, r)"
  shows "case r of Inl _ \<Rightarrow> only_other_tables d d'
    | Inr _ \<Rightarrow> settled (delivered_to w existing (td_core d) es) es (cd_id run) d d'"
proof (cases existing)
  case None
  define q where "q = \<lparr>rq_name = tg_name t, rq_spec = tg_spec t, rq_prompt = prompt, rq_metadata = md, rq_request = cd_correlation run\<rparr>"
  let ?k = "\<lambda>r d1. case r of Inl message \<Rightarrow> http_failed w (tg_id t) run message d1
    | Inr sessionId \<Rightarrow> http_dispatched w (tg_id t) run sessionId md d1"
  let ?ok = "\<lambda>sid. snd (dw_create w q (td_core d)) = Inr (Inr sid)"
  have c: "fst (snd (create_call w q d)) = [D_create (rq_request q)]" "snd (snd (create_call w q d)) = snd (dw_create w q (td_core d))"
    by (simp_all add: create_call_def split: prod.split)
  have run: "and_then (create_call w q d) ?k = (d', es, r)"
    using assms(3) by (simp add: deliver_http_run_def None q_def)
  have "case snd (snd (and_then (create_call w q d) ?k)) of Inl _ \<Rightarrow> only_other_tables d (fst (and_then (create_call w q d) ?k))
    | Inr _ \<Rightarrow> settled ?ok (fst (snd (and_then (create_call w q d) ?k))) (cd_id run) d (fst (and_then (create_call w q d) ?k)) \<and>
        set (fst (snd (create_call w q d))) \<subseteq> set (fst (snd (and_then (create_call w q d) ?k)))"
  proof (rule and_then_settles [OF assms(1) create_other])
    fix a d1 assume a: "snd (snd (create_call w q d)) = Inr a" "shapes_ok d1"
    show "\<exists>d' es res. ?k a d1 = (d', es, Inr res) \<and> settled ?ok es (cd_id run) d1 d'"
      by (rule sum_settles; rule http_marks [OF a(2) assms(2)]) (use a(1) c(2) in simp)
  qed
  then have res: "case r of Inl _ \<Rightarrow> only_other_tables d d'
    | Inr _ \<Rightarrow> settled ?ok es (cd_id run) d d' \<and> D_create (rq_request q) \<in> set es"
    unfolding run c by (cases r) simp_all
  show ?thesis
  proof (cases r)
    case (Inr x)
    with res have "settled ?ok es (cd_id run) d d'" "D_create (rq_request q) \<in> set es" by simp_all
    moreover have "delivered_to w existing (td_core d) es sid" if "?ok sid" for sid
      using that \<open>D_create (rq_request q) \<in> set es\<close> unfolding delivered_to_def None option.case by blast
    ultimately have "settled (delivered_to w existing (td_core d) es) es (cd_id run) d d'"
      using settled_mono by blast
    with Inr show ?thesis by simp
  qed (use res in simp)
next
  case (Some s)
  let ?ok = "delivered_to w existing (td_core d) es"
  let ?x = "dispatchToReusableSession (dw_reuse w) auth s prompt (Some (cd_correlation run)) d"
  let ?k = "\<lambda>r d1. case r of Inl message \<Rightarrow> http_failed w (tg_id t) run message d1
    | Inr _ \<Rightarrow> http_dispatched w (tg_id t) run (se_id s) (reused_metadata md) d1"
  have run: "and_then ?x ?k = (d', es, r)"
    using assms(3) by (simp add: deliver_http_run_def Some)
  have "case snd (snd (and_then ?x ?k)) of Inl _ \<Rightarrow> only_other_tables d (fst (and_then ?x ?k))
    | Inr _ \<Rightarrow> settled ?ok (fst (snd (and_then ?x ?k))) (cd_id run) d (fst (and_then ?x ?k)) \<and>
        set (fst (snd ?x)) \<subseteq> set (fst (snd (and_then ?x ?k)))"
  proof (rule and_then_settles [OF assms(1) reuse_other])
    fix a d1 assume a: "snd (snd ?x) = Inr a" "shapes_ok d1"
    show "\<exists>d' es res. ?k a d1 = (d', es, Inr res) \<and> settled ?ok es (cd_id run) d1 d'"
      by (rule sum_settles; rule http_marks [OF a(2) assms(2)]) (simp add: delivered_to_def Some)
  qed
  then show ?thesis unfolding run by (cases r) simp_all
qed

lemma queued_settled:
  assumes "pending_ok d" "pending_ok d'" "settled ok es runId d d'"
  shows "queued_rows tid d' = filter (\<lambda>p. pn_run p \<noteq> runId) (queued_rows tid d)"
proof -
  obtain f where f: "td_pending d' = filter (\<lambda>p. pn_run p \<noteq> runId) (td_pending d)"
    "td_runs d' = sql_update (\<lambda>r. rn_id r = runId) f (td_runs d)" "\<And>r. same_key r (f r)"
    using assms(3) outcome_keys unfolding settled_def by blast
  have "run_in_state i N_queued d' = run_in_state i N_queued d" if "i \<noteq> runId" for i
    using that f(3) by (auto simp: run_in_state_def sql_exists_iff f(2) set_sql_update same_key_def)
  then show ?thesis
    unfolding sorted_queue [OF assms(1)] sorted_queue [OF assms(2)] f(1) filter_filter
    by (intro filter_cong) auto
qed

lemma queued_other: "only_other_tables d d' \<Longrightarrow> queued_rows tid d' = queued_rows tid d"
  by (simp add: only_other_tables_def queued_rows_def run_in_state_def)

lemma has_pending_iff: "hasPendingHttpRuns tid d \<longleftrightarrow> queued_rows tid d \<noteq> []"
  by (auto simp: hasPendingHttpRuns_def queued_rows_def sql_exists_iff filter_empty_conv
      simp flip: set_empty2 simp del: set_empty2)

text \<open>The claim of an undisturbed trigger takes the head of its queue.\<close>

lemma idle_claim:
  assumes ok: "trigger_ok d" and idle: "\<not> run_dispatching tid d" "active_pairs tid d = []"
    and q: "queued_rows tid d = p # ps" and calm: "\<And>k d. w k d = d"
  shows "\<exists>d1 h. claimNextHttpRun w tid t d = (d1, Some h) \<and> ph_row h = p \<and> cd_id (ph_run h) = pn_run p \<and>
    d1 = fst (claim_stmt (pn_run p) None tid t d) \<and> trigger_step d d1 \<and> queued_rows tid d1 = ps"
proof -
  have po: "pending_ok d" using ok by (simp add: trigger_ok_def)
  let ?d1 = "fst (claim_stmt (pn_run p) None tid t d)"
  have none: "active_session tid d = None" by (simp add: active_session_def idle first_row_def)
  have p: "p \<in> set (td_pending d)" "pn_trigger p = tid" "run_in_state (pn_run p) N_queued d"
    using list.set_intros(1) [of p ps] unfolding q [symmetric] sorted_queue [OF po] by simp_all
  from p(3) obtain r where r: "r \<in> set (td_runs d)" "rn_id r = pn_run p" "rn_state r = N_queued"
    by (auto simp: run_in_state_def sql_exists_iff)
  have keys: "distinct (map rn_id (td_runs d))" "distinct (map pn_run (td_pending d))"
    using ok by (simp_all add: trigger_ok_def run_keys_def pending_ok_def)
  have allowed: "claim_allowed None tid d" using idle by (simp add: claim_allowed_def)
  have stmt: "claim_stmt (pn_run p) None tid t d = (?d1, True)"
    using r allowed by (auto simp: claim_stmt_def cas_row_def sql_exists_iff)
  obtain r0 where "r0 \<in> set (td_runs d)" "rn_id r0 = pn_run p" "rn_trigger r0 = tid"
    using ok p(1,2) by (auto simp: trigger_ok_def queue_ok_def)
  then have step: "trigger_step d ?d1"
    using distinct_key_eq [OF keys(1)] by (intro step_claim) metis
  have "queued_rows tid ?d1 = filter (\<lambda>q. pn_run q \<noteq> pn_run p) (queued_rows tid d)"
  proof -
    have po1: "pending_ok ?d1" using step po by (rule step_pending)
    have "run_in_state i N_queued ?d1 = (i \<noteq> pn_run p \<and> run_in_state i N_queued d)" for i
      by (auto simp: run_in_state_def sql_exists_iff claim_stmt_runs set_sql_update allowed)
    then show ?thesis
      unfolding sorted_queue [OF po] sorted_queue [OF po1] claim_stmt_runs filter_filter
      by (intro filter_cong) auto
  qed
  also have "\<dots> = ps"
  proof -
    have "distinct (map pn_run (queued_rows tid d))"
      unfolding sorted_queue [OF po] using keys(2) by (rule distinct_map_filter)
    then show ?thesis unfolding q by (auto simp: image_iff filter_id_conv)
  qed
  finally have rest: "queued_rows tid ?d1 = ps" .
  have getp: "sql_get (\<lambda>q. pn_run q = pn_run p) (td_pending ?d1) = Some p"
    using sql_get_key [OF keys(2) p(1)] by (simp add: claim_stmt_runs)
  obtain r1 where r1: "sql_get (\<lambda>x. rn_id x = pn_run p) (td_runs ?d1) = Some r1" "rn_id r1 = pn_run p"
  proof (cases "sql_get (\<lambda>x. rn_id x = pn_run p) (td_runs ?d1)")
    case None
    then have "\<forall>x \<in> set (td_runs ?d1). rn_id x \<noteq> pn_run p" by (simp add: sql_get_None)
    moreover obtain x where "x \<in> set (td_runs ?d1)" "same_key r x"
      using evolve_trigger [OF step_runs_evolve [OF step] r(1)] .
    ultimately have False using r(2) by (auto simp: same_key_def)
    then show thesis ..
  next
    case (Some x)
    with sql_get_Some [OF Some] show thesis by (intro that) auto
  qed
  obtain d1 where d1: "d1 = ?d1" by simp
  have "claimNextHttpRun w tid t d = (d1, Some \<lparr>ph_run = claimedHttpRun r1, ph_row = p\<rparr>)"
    using stmt getp r1(1) unfolding d1 [symmetric]
    by (simp add: claimNextHttpRun_def none calm claim_candidate_def q first_row_def pendingHttpRun_def)
  then show ?thesis using rest step r1(2) unfolding d1 by (auto simp: claimedHttpRun_def)
qed

text \<open>A claim that is undone leaves the queue as it was.\<close>

lemma requeue_undoes:
  assumes "run_keys d" "run_in_state i N_queued d" "claim_allowed active tid d"
    and "only_other_tables (fst (claim_stmt i active tid t d)) d2"
  shows "queued_rows tid' (requeueHttpRun i t' d2) = queued_rows tid' d"
proof -
  from assms(2) obtain r where r: "r \<in> set (td_runs d)" "rn_id r = i" "rn_state r = N_queued"
    by (auto simp: run_in_state_def sql_exists_iff)
  have runs: "td_runs (requeueHttpRun i t' d2) =
      sql_update (\<lambda>r. rn_id r = i \<and> rn_state r = N_dispatching) (\<lambda>r. r\<lparr>rn_state := N_queued, rn_updated := t'\<rparr>)
        (sql_update (\<lambda>r. rn_id r = i \<and> rn_state r = N_queued \<and> claim_allowed active tid d)
          (\<lambda>r. r\<lparr>rn_state := N_dispatching, rn_updated := t\<rparr>) (td_runs d))"
    using assms(4) by (simp add: requeueHttpRun_def only_other_tables_def claim_stmt_runs)
  have only: "x = r" if "x \<in> set (td_runs d)" "rn_id x = i" for x
    using assms(1) distinct_key_eq [of rn_id "td_runs d" x r] that r(1,2) by (simp add: run_keys_def)
  have "run_in_state j N_queued (requeueHttpRun i t' d2) = run_in_state j N_queued d" for j
  proof -
    let ?f = "\<lambda>r. if rn_id r = i \<and> rn_state r = N_queued \<and> claim_allowed active tid d
      then r\<lparr>rn_state := N_dispatching, rn_updated := t\<rparr> else r"
    let ?g = "\<lambda>r. if rn_id r = i \<and> rn_state r = N_dispatching then r\<lparr>rn_state := N_queued, rn_updated := t'\<rparr> else r"
    have "(rn_id (?g (?f x)) = j \<and> rn_state (?g (?f x)) = N_queued) = (rn_id x = j \<and> rn_state x = N_queued)"
      if "x \<in> set (td_runs d)" for x
      using only [OF that] r(3) assms(3) by auto
    then show ?thesis
      unfolding run_in_state_def sql_exists_iff runs set_sql_update image_image bex_simps by blast
  qed
  moreover have "td_pending (requeueHttpRun i t' d2) = td_pending d"
    using assms(4) by (simp add: requeueHttpRun_def only_other_tables_def claim_stmt_runs)
  ultimately show ?thesis by (simp add: queued_rows_def)
qed

text \<open>What became of the run of a queued request: it failed with a message or was delivered to a session.\<close>

definition run_recorded :: "dispatch_world \<Rightarrow> id \<Rightarrow> pending_row \<Rightarrow> trigger_db \<Rightarrow> dispatch_effect list \<Rightarrow> trigger_db \<Rightarrow> bool" where
  "run_recorded w tid p d es d' \<longleftrightarrow>
     (\<exists>r \<in> set (td_runs d'). rn_id r = pn_run p \<and>
        (rn_state r = N_failed \<and> rn_error r \<noteq> None \<and> D_audit ''http_trigger.dispatch'' Failure \<in> set es \<or>
         rn_state r = N_dispatched \<and> D_audit ''http_trigger.dispatch'' Success \<in> set es \<and>
         (\<exists>sid. rn_session r = Some sid \<and>
            delivered_to w (reusable_for (pn_project p) tid (pn_hash p) d) (td_core d) es sid)))"

lemma run_recorded_mono:
  "run_recorded w tid p d es d' \<Longrightarrow> set es \<subseteq> set es' \<Longrightarrow> td_runs d'' = td_runs d' \<Longrightarrow> run_recorded w tid p d es' d''"
  unfolding run_recorded_def delivered_to_def by (fastforce split: option.splits)

lemma settled_recorded:
  assumes "settled (delivered_to w (reusable_for (pn_project p) tid (pn_hash p) d) (td_core d) es) es (pn_run p) d1 d2"
    and "r \<in> set (td_runs d1)" "rn_id r = pn_run p"
  shows "run_recorded w tid p d es d2"
proof -
  let ?ok = "delivered_to w (reusable_for (pn_project p) tid (pn_hash p) d) (td_core d) es"
  obtain f where f: "td_runs d2 = sql_update (\<lambda>r. rn_id r = pn_run p) f (td_runs d1)" "outcome_of ?ok es f"
    using assms(1) by (auto simp: settled_def)
  have "f r \<in> set (td_runs d2)" using assms(2,3) by (auto simp: f(1) set_sql_update)
  then show ?thesis using f(2) assms(3)
    unfolding run_recorded_def outcome_of_def failed_run_def dispatched_run_def by (intro bexI [of _ "f r"]) auto
qed

lemma idle_dispatch:
  assumes ok: "trigger_ok d" and w: "calm w" and idle: "\<not> run_dispatching tid d" "active_pairs tid d = []"
    and q: "queued_rows tid d = p # ps"
    and t: "find_trigger projectId tid d = Some t" "tg_type t = T_http" "tg_enabled t"
    and run: "dispatchNextSerialHttpTrigger w projectId tid d = (d', es, r)"
  shows "case r of
      Inr (pending, blocked) \<Rightarrow> \<not> blocked \<and> pending = (ps \<noteq> []) \<and> queued_rows tid d' = ps \<and>
        (\<forall>x \<in> set (td_pending d'). pn_run x \<noteq> pn_run p) \<and> run_recorded w tid p d es d'
    | Inl _ \<Rightarrow> queued_rows tid d' = p # ps \<and> (dw_queue w \<longrightarrow> D_wake (pn_project p) (pn_trigger p) 5 \<in> set es)"
proof -
  have calm: "dw_mid w k x = x" for k x using w by (simp add: calm_def)
  have live: "tg_deleted t = None" using t(1) by (auto simp: find_trigger_def dest: sql_get_Some)
  obtain d1 h where claim: "claimNextHttpRun (\<lambda>k. dw_mid w (10 + k)) tid (dw_now w 2) d = (d1, Some h)"
      "ph_row h = p" "cd_id (ph_run h) = pn_run p"
    and d1: "d1 = fst (claim_stmt (pn_run p) None tid (dw_now w 2) d)" "trigger_step d d1" "queued_rows tid d1 = ps"
    using idle_claim [OF ok idle q, of "\<lambda>k. dw_mid w (10 + k)" "dw_now w 2"] calm by auto
  have ok1: "trigger_ok d1" using ok d1(2) by (rule trigger_ok_step)
  then have shapes: "shapes_ok d1" by (simp add: trigger_ok_def)
  obtain d2 es2 r2 where body: "dispatchClaimedSerialHttpRun w t h d1 = (d2, es2, r2)" by (metis prod_cases3)
  have run': "dispatchNextSerialHttpTrigger w projectId tid d =
      and_then (dispatchClaimedSerialHttpRunWithRecovery w t h d1) (\<lambda>_ d2. (d2, [], Inr (hasPendingHttpRuns tid d2, False)))"
    by (simp add: dispatchNextSerialHttpTrigger_def t live calm claim(1))
  have core: "td_core d1 = td_core d" by (simp add: d1(1) claim_stmt_def case_prod_beta)
  have reuse: "reusable_for (au_project (pendingRunAuth h)) (tg_id t) (pn_hash (ph_row h)) d1 = reusable_for (pn_project p) tid (pn_hash p) d"
    using t(1) core by (auto simp: reusable_for_def findReusableHttpTriggerSession_def pendingRunAuth_def claim(2)
        find_trigger_def dest: sql_get_Some)
  let ?ok = "delivered_to w (reusable_for (pn_project p) tid (pn_hash p) d) (td_core d) es2"
  have settle: "case r2 of Inl _ \<Rightarrow> only_other_tables d1 d2 | Inr _ \<Rightarrow> settled ?ok es2 (pn_run p) d1 d2"
    using deliver_settles [OF shapes w body [unfolded dispatchClaimedSerialHttpRun_def Let_def calm]]
    unfolding claim(3) reuse core .
  show ?thesis
  proof (cases r2)
    case (Inl m)
    have "queued_rows tid (requeueHttpRun (pn_run p) (dw_now w 6) d2) = queued_rows tid d"
    proof (rule requeue_undoes)
      show "run_in_state (pn_run p) N_queued d"
        using list.set_intros(1) [of p ps] unfolding q [symmetric] queued_rows_def by simp
    qed (use ok settle Inl d1(1) idle in \<open>simp_all add: trigger_ok_def claim_allowed_def\<close>)
    with run show ?thesis unfolding run'
      by (auto simp: dispatchClaimedSerialHttpRunWithRecovery_def body Inl on_error_def and_then_def
          wakeHttpTrigger_def claim calm q Let_def)
  next
    case (Inr res)
    then have s: "settled ?ok es2 (pn_run p) d1 d2" using settle by simp
    have "run_in_state (pn_run p) N_queued d"
      using list.set_intros(1) [of p ps] unfolding q [symmetric] queued_rows_def by simp
    then obtain x where x: "x \<in> set (td_runs d)" "rn_id x = pn_run p" by (auto simp: run_in_state_def sql_exists_iff)
    obtain x' where "x' \<in> set (td_runs d1)" "same_key x x'" using evolve_trigger [OF step_runs_evolve [OF d1(2)] x(1)] .
    then have recorded: "run_recorded w tid p d es2 d2"
      using x(2) by (intro settled_recorded [OF s, of x']) (auto simp: same_key_def)
    have po1: "pending_ok d1" using ok1 by (simp add: trigger_ok_def)
    have po2: "pending_ok d2" using s by (intro pending_filter [OF po1]) (auto simp: settled_def)
    have "pn_run x \<noteq> pn_run p" if "x \<in> set ps" for x
    proof -
      have "distinct (map pn_run (queued_rows tid d))"
        using ok by (simp add: trigger_ok_def pending_ok_def sorted_queue distinct_map_filter)
      with that show ?thesis unfolding q by (auto simp: image_iff)
    qed
    then have rest: "queued_rows tid d2 = ps"
      using queued_settled [OF po1 po2 s, of tid] d1(3) by (auto simp: filter_id_conv)
    have gone: "\<forall>x \<in> set (td_pending d2). pn_run x \<noteq> pn_run p" using s by (auto simp: settled_def)
    from run show ?thesis unfolding run'
      using rest gone recorded by (auto simp: dispatchClaimedSerialHttpRunWithRecovery_def body Inr on_error_def and_then_def
          has_pending_iff)
  qed
qed

text \<open>
  C22 (liveness): a wake of a live serial trigger that nothing blocks settles the oldest request of
  its queue: the request leaves the queue, its run is recorded and audited as dispatched, with the session
  it reused or that was created for it, or as failed with a message, and the trigger is woken again
  when requests are left. If the delivery throws, the request is queued again at the head and a delayed
  wake is sent. This is for a wake without interference of other processes.
\<close>

theorem wake_settles_oldest:
  assumes "trigger_ok d" "calm w" "\<not> run_dispatching tid d" "active_pairs tid d = []"
    and "queued_rows tid d = p # ps"
    and "find_trigger projectId tid d = Some t" "tg_type t = T_http" "tg_enabled t"
    and run: "consumeSerialHttpTriggerWake w projectId tid d = (d', es, r)"
  shows "case r of
      Inr _ \<Rightarrow> queued_rows tid d' = ps \<and> (\<forall>x \<in> set (td_pending d'). pn_run x \<noteq> pn_run p) \<and>
        run_recorded w tid p d es d' \<and>
        (dw_queue w \<and> ps \<noteq> [] \<longrightarrow> last es = D_wake projectId tid 0)
    | Inl _ \<Rightarrow> queued_rows tid d' = p # ps \<and> (dw_queue w \<longrightarrow> D_wake (pn_project p) (pn_trigger p) 5 \<in> set es)"
proof -
  obtain d1 es1 r1 where nxt: "dispatchNextSerialHttpTrigger w projectId tid d = (d1, es1, r1)" by (metis prod_cases3)
  note step = idle_dispatch [OF assms(1-8) nxt]
  show ?thesis
  proof (cases r1)
    case (Inl m)
    with step run show ?thesis by (auto simp: consumeSerialHttpTriggerWake_def nxt and_then_def)
  next
    case (Inr x)
    with step have s: "x = (ps \<noteq> [], False)" "queued_rows tid d1 = ps" "\<forall>x \<in> set (td_pending d1). pn_run x \<noteq> pn_run p"
      "run_recorded w tid p d es1 d1" by (cases x; simp)+
    have "run_recorded w tid p d (es1 @ [D_wake projectId tid 0]) d1" by (rule run_recorded_mono [OF s(4)]) auto
    with s run Inr show ?thesis
      by (auto simp: consumeSerialHttpTriggerWake_def nxt and_then_def wakeHttpTrigger_def split: if_splits)
  qed
qed

theorem wake_settles_oldest_witness:
  "\<exists>d' es r. consumeSerialHttpTriggerWake demo_dispatch ''p'' ''t'' demo_queued = (d', es, r) \<and>
     (case r of
        Inr _ \<Rightarrow> queued_rows ''t'' d' = [] \<and> run_recorded demo_dispatch ''t'' demo_row demo_queued es d'
      | Inl _ \<Rightarrow> queued_rows ''t'' d' = [demo_row] \<and> D_wake ''p'' ''t'' 5 \<in> set es)"
proof -
  obtain d' es r where c: "consumeSerialHttpTriggerWake demo_dispatch ''p'' ''t'' demo_queued = (d', es, r)"
    by (metis prod_cases3)
  have q: "queued_rows ''t'' demo_queued = [demo_row]"
    by (simp add: queued_rows_def demo_queued_def run_in_state_def sql_exists_def http_run_def demo_row_def)
  have idle: "\<not> run_dispatching ''t'' demo_queued" "active_pairs ''t'' demo_queued = []"
    by (simp_all add: run_dispatching_def sql_exists_def active_pairs_def demo_queued_def http_run_def)
  have "find_trigger ''p'' ''t'' demo_queued = Some demo_serial"
    by (simp add: find_trigger_def sql_get_def demo_queued_def demo_tdb_def demo_serial_def)
  from wake_settles_oldest [OF demo_ok(2,3) idle q this _ _ c]
  have "case r of
      Inr _ \<Rightarrow> queued_rows ''t'' d' = [] \<and> run_recorded demo_dispatch ''t'' demo_row demo_queued es d'
    | Inl _ \<Rightarrow> queued_rows ''t'' d' = [demo_row] \<and> D_wake ''p'' ''t'' 5 \<in> set es"
    by (cases r) (simp_all add: demo_serial_def demo_dispatch_def demo_row_def)
  with c show ?thesis by blast
qed

end
