(* ===== verification/TriggerSchedule.thy ===== *)
theory TriggerSchedule
  imports TriggerFacts
begin

text \<open>
  Schedules: the shape of trigger rows, the bounds of a heartbeat, the advance of a schedule, and
  what goes wrong when a trigger changes its type while a dispatch is under way.
\<close>

section \<open>Schedules\<close>

lemma due_shape: "schedule_shape t \<Longrightarrow> due_row heartbeatAt projectId t \<Longrightarrow> dueTriggerFrom t \<noteq> None"
  by (auto simp: schedule_shape_def due_row_def dueTriggerFrom_def)

lemma collect_some: "(\<And>x. x \<in> set xs \<Longrightarrow> f x \<noteq> None) \<Longrightarrow> collect (map f xs) = Some (map (\<lambda>x. the (f x)) xs)"
proof (induction xs)
  case (Cons a xs)
  then obtain y where "f a = Some y" by fastforce
  with Cons show ?case by simp
qed simp

lemma due_exact:
  assumes "shapes_ok d"
  shows "dueTriggers heartbeatAt projectId limit d = Some (map (\<lambda>t. the (dueTriggerFrom t)) (take limit
    (sort_key (\<lambda>t. (the (tg_next_due t), tg_id t)) (filter (due_row heartbeatAt projectId) (td_triggers d)))))"
  unfolding dueTriggers_def
  by (rule collect_some) (use assms due_shape in \<open>auto simp: shapes_ok_def dest!: in_set_takeD\<close>)

text \<open>
  C25 (type): the source and the due time that the create and update use cases compute always have
  the shape the table demands of the trigger row they are written to: a due time and an interval
  for schedules, neither for the other triggers.
\<close>

theorem merged_source_has_shape:
  "(case normalizeScheduleConfig source next now of
      Inl _ \<Rightarrow> True
    | Inr (s, n) \<Rightarrow> schedule_shape (configColumns (config\<lparr>cf_source := s, cf_next_due := n\<rparr>) row)) \<and>
   (case mergeSource t patch next now of
      Inl _ \<Rightarrow> True
    | Inr (s, n) \<Rightarrow> schedule_shape (configColumns (config\<lparr>cf_source := s, cf_next_due := n\<rparr>) row))"
  by (auto simp: normalizeScheduleConfig_def mergeSource_def Let_def schedule_shape_def configColumns_def
      split: trigger_source.splits option.splits source_patch.splits sum.splits prod.splits if_splits)

definition creations_in :: "dispatch_effect list \<Rightarrow> nat" where
  "creations_in es = length (filter (\<lambda>e. case e of D_create _ \<Rightarrow> True | _ \<Rightarrow> False) es)"

lemma creations_append [simp]: "creations_in (xs @ ys) = creations_in xs + creations_in ys" "creations_in [] = 0"
  "creations_in (e # es) = (case e of D_create _ \<Rightarrow> 1 | _ \<Rightarrow> 0) + creations_in es"
  by (auto simp: creations_in_def split: dispatch_effect.splits)

lemma fail_effects: "failed_result w k trigger run m d = (d', es, r) \<Longrightarrow> creations_in es = 0"
  by (auto simp: failed_result_def failRun_def of_mark_def and_then_def split: prod.splits option.splits sum.splits)

lemma body_effects: "scheduled_body w trigger run d = (d', es, r) \<Longrightarrow> creations_in es \<le> 1"
  by (auto simp: scheduled_body_def create_call_def and_then_def of_mark_def dest: fail_effects
      split: prod.splits option.splits sum.splits if_splits)

lemma dispatch_effects:
  assumes "dispatchTrigger w trigger hb d = (d', es, r)"
  shows "creations_in es \<le> (if r = Inr None then 0 else 1)"
proof -
  have handled: "on_error (scheduled_body w trigger run d) (failed_result w k trigger run) = (d', es, r) \<Longrightarrow> creations_in es \<le> 1"
    for run d d' es r k
    by (auto simp: on_error_def dest!: body_effects fail_effects split: prod.splits sum.splits)
  show ?thesis using assms
    by (auto simp: dispatchTrigger_def and_then_def of_store_def dest!: handled split: prod.splits sum.splits option.splits)
qed

lemma all_counts:
  "dispatch_all w hb due a d = (d', es, a') \<Longrightarrow>
     length (sd_runs a') + sd_skipped a' = length (sd_runs a) + sd_skipped a + length due \<and>
     sd_dispatched a' + sd_failed a' = sd_dispatched a + sd_failed a + (length (sd_runs a') - length (sd_runs a)) \<and>
     length (sd_runs a) \<le> length (sd_runs a') \<and> sd_claimed a \<le> sd_claimed a' \<and>
     sd_claimed a' - sd_claimed a \<le> length (sd_runs a') - length (sd_runs a) \<and>
     creations_in es \<le> length (sd_runs a') - length (sd_runs a)"
proof (induction due arbitrary: a d d' es a')
  case (Cons trigger rest)
  obtain d1 es1 r where one: "dispatchTrigger (w (du_id trigger)) trigger hb d = (d1, es1, r)" by (metis prod_cases3)
  obtain es2 where all: "dispatch_all w hb rest (count_run trigger r a) d1 = (d', es2, a')" "es = es1 @ es2"
    using Cons.prems by (auto simp: one split: prod.splits)
  have "creations_in es1 \<le> (if r = Inr None then 0 else 1)" using one by (rule dispatch_effects)
  with Cons.IH [OF all(1)] show ?case
    by (cases r; cases "projr r") (auto simp: count_run_def all(2) split: if_splits)
qed auto

text \<open>
  C24 (bounds): a heartbeat handles at most \<open>limit\<close> triggers, in every reachable database: it never
  fails on a malformed trigger, its counters add up to the number of due triggers it took, and it
  creates at most one session for each run it claimed.
\<close>

theorem heartbeat_bounded:
  assumes "trigger_ok d"
  shows "\<exists>d' es a due. dispatchDueScheduledTriggers w heartbeatAt projectId limit d = (d', es, Inr a) \<and>
    dueTriggers heartbeatAt projectId (case limit of None \<Rightarrow> 50 | Some n \<Rightarrow> n) d = Some due \<and>
    length (sd_runs a) + sd_skipped a = length due \<and> length due \<le> (case limit of None \<Rightarrow> 50 | Some n \<Rightarrow> n) \<and>
    sd_dispatched a + sd_failed a = length (sd_runs a) \<and> sd_claimed a \<le> length (sd_runs a) \<and>
    creations_in es \<le> length (sd_runs a)"
proof -
  let ?n = "case limit of None \<Rightarrow> 50 | Some n \<Rightarrow> n"
  have "shapes_ok d" using assms by (simp add: trigger_ok_def)
  then obtain due where due: "dueTriggers heartbeatAt projectId ?n d = Some due" "length due \<le> ?n"
    by (simp add: due_exact del: length_take) (simp split: option.splits)
  obtain d' es a where all: "dispatch_all w heartbeatAt due no_runs d = (d', es, a)" by (metis prod_cases3)
  from all_counts [OF all] due all show ?thesis
    by (auto simp: dispatchDueScheduledTriggers_def no_runs_def)
qed

theorem heartbeat_bounded_witness:
  "\<exists>d' es a. dispatchDueScheduledTriggers (\<lambda>_. demo_dispatch) 2000 None None demo_tdb = (d', es, Inr a) \<and>
     length (sd_runs a) + sd_skipped a \<le> 50"
  using heartbeat_bounded [OF demo_ok(1), of "\<lambda>_. demo_dispatch" 2000 None None] by auto

section \<open>Advancing a schedule\<close>

definition live_trigger :: "id \<Rightarrow> trigger_db \<Rightarrow> bool" where
  "live_trigger tid d \<longleftrightarrow> (\<exists>row \<in> set (td_triggers d). tg_id row = tid \<and> tg_deleted row = None)"

definition advanced :: "due_trigger \<Rightarrow> id \<Rightarrow> run_state \<Rightarrow> trigger_db \<Rightarrow> bool" where
  "advanced trigger runId st d \<longleftrightarrow>
     (\<exists>row \<in> set (td_triggers d). tg_id row = du_id trigger \<and> tg_last_run row = Some runId \<and>
        tg_next_due row = Some (du_next_due trigger + du_interval trigger * 1000)) \<and>
     (\<forall>r \<in> set (td_runs d). rn_id r = runId \<longrightarrow> rn_state r = st)"

lemma mark_scheduled:
  assumes "mark_run w (Scheduled trigger) runId f t d = (d', e)" "\<And>d. w d = d"
    and "live_trigger (du_id trigger) d" "\<And>r. rn_id (f r) = rn_id r" "\<And>r. rn_state (f r) = st"
  shows "if e = None then advanced trigger runId st d' else live_trigger (du_id trigger) d'"
proof (cases e)
  case (Some x)
  with assms(1,2,3) show ?thesis
    by (auto simp: mark_run_def settle_run_def live_trigger_def Let_def split: sum.splits)
next
  case None
  let ?s = "settle_run runId f d"
  from assms(1,2) None have "advanceRunTrigger (Scheduled trigger) runId t ?s = Inr d'"
    by (auto simp: mark_run_def Let_def split: sum.splits)
  then have d': "d' = ?s\<lparr>td_triggers := sql_update (\<lambda>r. tg_id r = du_id trigger \<and> tg_deleted r = None)
      (advance_row (Scheduled trigger) runId t) (td_triggers ?s)\<rparr>"
    by (auto simp: advanceRunTrigger_def Let_def split: if_splits)
  obtain row where "row \<in> set (td_triggers d)" "tg_id row = du_id trigger" "tg_deleted row = None"
    using assms(3) by (auto simp: live_trigger_def)
  then have "advance_row (Scheduled trigger) runId t row \<in> set (td_triggers d')"
    by (auto simp: d' settle_run_def set_sql_update)
  moreover have "\<forall>r \<in> set (td_runs d'). rn_id r = runId \<longrightarrow> rn_state r = st"
    using assms(4,5) by (auto simp: d' settle_run_def set_sql_update)
  ultimately show ?thesis
    using \<open>tg_id row = du_id trigger\<close> None
    by (auto simp: advanced_def nextDueAt_def intro!: bexI [where x = "advance_row (Scheduled trigger) runId t row"])
qed

lemma failed_advances:
  assumes "failed_result w k trigger run m d = (d', es, r)" "calm w" "live_trigger (du_id trigger) d"
  shows "case r of Inl _ \<Rightarrow> live_trigger (du_id trigger) d'
    | Inr res \<Rightarrow> rr_status res = ''failed'' \<and> advanced trigger (cd_id run) N_failed d'"
proof -
  obtain d1 e where m: "markRunFailed (dw_mid w k) (Scheduled trigger) run m (dw_now w k) d = (d1, e)" by fastforce
  have "if e = None then advanced trigger (cd_id run) N_failed d1 else live_trigger (du_id trigger) d1"
    by (rule mark_scheduled [OF m [unfolded markRunFailed_def] _ assms(3)]) (use assms(2) in \<open>simp_all add: calm_def\<close>)
  with assms(1) m show ?thesis
    by (cases e) (auto simp: failed_result_def failRun_def of_mark_def and_then_def runResult_def)
qed

lemma body_advances:
  assumes "scheduled_body w trigger run d = (d', es, r)" "calm w" "live_trigger (du_id trigger) d"
  shows "case r of Inl _ \<Rightarrow> live_trigger (du_id trigger) d'
    | Inr res \<Rightarrow> advanced trigger (cd_id run) (if rr_status res = ''dispatched'' then N_dispatched else N_failed) d'"
proof (cases "truthy_str (projectName (du_project trigger) d)")
  case True
  let ?q = "\<lparr>rq_name = du_name trigger, rq_spec = du_spec trigger, rq_prompt = tp_prompt (du_spec trigger),
    rq_metadata = scheduled_metadata trigger run, rq_request = cd_correlation run\<rparr>"
  obtain c cr where c: "dw_create w ?q (td_core d) = (c, cr)" by fastforce
  let ?d1 = "d\<lparr>td_core := c\<rparr>"
  have live: "live_trigger (du_id trigger) ?d1" using assms(3) by (simp add: live_trigger_def)
  show ?thesis
  proof (cases cr)
    case (Inl m)
    with True c assms(1) live show ?thesis by (auto simp: scheduled_body_def create_call_def and_then_def)
  next
    case (Inr cr')
    show ?thesis
    proof (cases cr')
      case (Inl m)
      obtain d2 es2 r2 where f: "failed_result w 2 trigger run m ?d1 = (d2, es2, r2)" by (metis prod_cases3)
      from failed_advances [OF f assms(2) live] f True c Inl Inr assms(1) show ?thesis
        by (cases r2) (auto simp: scheduled_body_def create_call_def and_then_def)
    next
      case (Inr sid)
      obtain d2 e where m: "markRunDispatched (dw_mid w 2) (Scheduled trigger) run sid (scheduled_metadata trigger run)
          (dw_now w 2) ?d1 = (d2, e)" by fastforce
      have "if e = None then advanced trigger (cd_id run) N_dispatched d2 else live_trigger (du_id trigger) d2"
        by (rule mark_scheduled [OF m [unfolded markRunDispatched_def] _ live])
          (use assms(2) in \<open>simp_all add: calm_def\<close>)
      with m True c Inr \<open>cr = Inr cr'\<close> assms(1) show ?thesis
        by (cases e) (auto simp: scheduled_body_def create_call_def and_then_def of_mark_def runResult_def)
    qed
  qed
qed (use assms in \<open>auto simp: scheduled_body_def\<close>)

text \<open>
  C23 (functional): a due occurrence that is claimed and answered moves its trigger to exactly one
  interval after that occurrence, records the run as its last one, and the run ended dispatched or
  failed as reported: no occurrence is dropped and none is repeated, however late the heartbeat is.
  This is for a dispatch that no other process interferes with.
\<close>

theorem schedule_advances_one_interval:
  assumes "dispatchTrigger w trigger heartbeatAt d = (d', es, Inr (Some res))" "calm w"
    and "live_trigger (du_id trigger) d"
  shows "advanced trigger (dw_run w) (if rr_status res = ''dispatched'' then N_dispatched else N_failed) d'"
proof -
  have calm: "dw_mid w k x = x" for k x using assms(2) by (simp add: calm_def)
  obtain d1 run where c: "claimRun (dw_run w) trigger heartbeatAt (dw_now w 0) d = (d1, Inr (Some run))"
    and rest: "and_then (on_error (scheduled_body w trigger run d1) (failed_result w 3 trigger run))
       (\<lambda>r d2. (d2, [], Inr (Some r))) = (d', es, Inr (Some res))"
    using assms(1) by (auto simp: dispatchTrigger_def calm and_then_def of_store_def split: prod.splits sum.splits option.splits)
  have run: "cd_id run = dw_run w" "td_triggers d1 = td_triggers d"
    using c by (auto simp: claimRun_def split: sum.splits store_error.splits elim!: insert_runE)
  with assms(3) have live: "live_trigger (du_id trigger) d1" by (simp add: live_trigger_def)
  obtain d2 es2 r2 where b: "scheduled_body w trigger run d1 = (d2, es2, r2)" by (metis prod_cases3)
  note adv = body_advances [OF b assms(2) live]
  show ?thesis
  proof (cases r2)
    case (Inl m)
    obtain d3 es3 r3 where f: "failed_result w 3 trigger run m d2 = (d3, es3, r3)" by (metis prod_cases3)
    from failed_advances [OF f assms(2)] adv f b Inl rest run(1) show ?thesis
      by (cases r3) (auto simp: on_error_def and_then_def)
  next
    case (Inr x)
    with adv b rest run(1) show ?thesis by (auto simp: on_error_def and_then_def)
  qed
qed

lemmas dispatch_simps = dispatchTrigger_def claimRun_def insert_run_def scheduled_run_def scheduled_body_def
  create_call_def markRunDispatched_def markRunFailed_def mark_run_def settle_run_def advanceRunTrigger_def
  failed_result_def failRun_def of_mark_def of_store_def and_then_def on_error_def projectName_def nextDueAt_def
  dispatched_run_def failed_run_def runResult_def sql_exists_def Let_def

lemma demo_dispatched:
  "\<exists>d' es res. dispatchTrigger demo_dispatch demo_due 2000 demo_tdb = (d', es, Inr (Some res)) \<and>
     rr_status res = ''dispatched''"
  by (simp add: dispatch_simps demo_dispatch_def demo_due_def demo_tdb_def demo_serial_def demo_cron_def
      truthy_str_def schedule_shape_def)

theorem schedule_advances_one_interval_witness:
  "\<exists>d' es res. dispatchTrigger demo_dispatch demo_due 2000 demo_tdb = (d', es, Inr (Some res)) \<and>
     advanced demo_due ''r'' N_dispatched d'"
proof -
  obtain d' es res where d: "dispatchTrigger demo_dispatch demo_due 2000 demo_tdb = (d', es, Inr (Some res))"
    "rr_status res = ''dispatched''" using demo_dispatched by blast
  have "live_trigger (du_id demo_due) demo_tdb" by (simp add: live_trigger_def demo_due_def demo_tdb_def demo_serial_def demo_cron_def)
  from schedule_advances_one_interval [OF d(1) demo_ok(3) this] d show ?thesis by (simp add: demo_dispatch_def)
qed

text \<open>
  A trigger that is switched to HTTP while its occurrence is being dispatched: the session is
  created and the run marked, the advance of the schedule violates the CHECK of the table, and the
  handler of the exception marks the run failed although its session exists.
\<close>

definition demo_switch :: trigger_config where
  "demo_switch = \<lparr>cf_name = ''n'', cf_source = Src_http None, cf_suspend = False, cf_spec = demo_template,
     cf_metadata = JObj [], cf_next_due = None\<rparr>"

theorem type_change_fails_created_run:
  "\<exists>d' es. dispatchTrigger
      (demo_dispatch\<lparr>dw_mid := \<lambda>k d. if k = 1 then fst (update_trigger ''p'' ''k'' demo_switch 1500 d) else d\<rparr>)
      demo_due 2000 demo_tdb = (d', es, Inl ''CHECK constraint failed'') \<and>
     D_create (''schedule:'' @ schedule_key demo_due) \<in> set es \<and>
     (\<exists>r \<in> set (td_runs d'). rn_state r = N_failed \<and> rn_session r = Some ''s'')"
  by (simp add: dispatch_simps demo_dispatch_def demo_due_def demo_tdb_def demo_serial_def demo_cron_def
      demo_switch_def update_trigger_def find_trigger_def sql_get_def configColumns_def truthy_str_def
      schedule_shape_def store_message_def)

end
