(* ===== verification/InboxActivation.thy ===== *)
theory InboxActivation
  imports TriggerSchedule
begin

unbundle bit_operations_syntax

text \<open>
  Inbox notifications and the activations they cause: the callback and the dispatch
  (\<open>server/usecases/inbox-activations.ts\<close>) on their repository
  (\<open>server/adapters/repos/inbox-activations.ts\<close>). A routing key is bound to one session by a row of
  \<open>session_routes\<close>, which is reserved before the session is created.

  The identity of an agent, the answer of the runner channel, the digest and the creation of the
  session are arguments.
\<close>

section \<open>Rows\<close>

datatype subscription_phase = S_pending | S_active | S_inactive | S_error

record inbox_binding =
  bn_trigger :: id
  bn_subscription :: id
  bn_token_hash :: "string option"
  bn_cipher :: "string option"
  bn_etag :: "string option"
  bn_registered :: "string option"
  bn_transition :: "string option"
  bn_phase :: "subscription_phase option"

record route_row =
  rt_organization :: id
  rt_project :: id
  rt_agent :: id
  rt_trigger :: id
  rt_hash :: string
  rt_session :: id
  rt_run :: id
  rt_created :: time

record inbox_db =
  ix_core :: trigger_db
  ix_bindings :: "inbox_binding list"
  ix_routes :: "route_row list"

record notification =
  nt_event :: id
  nt_type :: string
  nt_subscription :: id
  nt_agent :: string
  nt_message :: id
  nt_occurred :: string
  nt_routing :: "string option"

record inbox_world =
  iw_id :: "nat \<Rightarrow> id"
  iw_now :: "nat \<Rightarrow> time"
  iw_mid :: "nat \<Rightarrow> inbox_db \<Rightarrow> inbox_db"
  iw_create :: "id option \<Rightarrow> create_request \<Rightarrow> inbox_db \<Rightarrow> inbox_db \<times> (string + (string + id))"
  iw_reuse :: reuse_world
  iw_accepted :: "id \<Rightarrow> bool"
  iw_identity :: "id \<Rightarrow> bool"
  iw_digest :: "string \<Rightarrow> string"

section \<open>The callback\<close>

definition token_char :: "char \<Rightarrow> bool" where
  "token_char c \<longleftrightarrow>
     (let n = of_char c :: nat in 48 \<le> n \<and> n \<le> 57 \<or> 65 \<le> n \<and> n \<le> 90 \<or> 97 \<le> n \<and> n \<le> 122 \<or> n = 95 \<or> n = 45)"

definition bearerToken :: "string option \<Rightarrow> string option" where
  "bearerToken authorization =
     (case authorization of
        None \<Rightarrow> None
      | Some a \<Rightarrow>
          if take 7 a = ''Bearer '' \<and> length (drop 7 a) = 43 \<and> list_all token_char (drop 7 a)
          then Some (drop 7 a) else None)"

definition code_at :: "string \<Rightarrow> nat \<Rightarrow> nat" where
  "code_at s i = (if i < length s then of_char (s ! i) else 0)"

definition constantTimeEqual :: "string \<Rightarrow> string \<Rightarrow> bool" where
  "constantTimeEqual left right \<longleftrightarrow>
     fold (\<lambda>i difference. difference OR (code_at left i XOR code_at right i))
       [0..<max (length left) (length right)] (length left XOR length right) = 0"

definition routingKeyHash :: "(string \<Rightarrow> string) \<Rightarrow> string option \<Rightarrow> string option" where
  "routingKeyHash digest key = map_option digest key"

definition findSubscription ::
    "inbox_world \<Rightarrow> id \<Rightarrow> inbox_db \<Rightarrow> (inbox_binding \<times> trigger_row) option" where
  "findSubscription w subscriptionId d =
     (case sql_get (\<lambda>b. bn_subscription b = subscriptionId \<and>
              sql_exists (\<lambda>t. tg_id t = bn_trigger b \<and> tg_type t = T_inbox) (td_triggers (ix_core d))) (ix_bindings d) of
        None \<Rightarrow> None
      | Some b \<Rightarrow>
          (case sql_get (\<lambda>t. tg_id t = bn_trigger b) (td_triggers (ix_core d)) of
             None \<Rightarrow> None
           | Some row \<Rightarrow>
               if \<not> truthy_str (bn_token_hash b) \<or> \<not> truthy_str (bn_cipher b) \<or> \<not> iw_identity w (tp_agent (tg_spec row)) \<or>
                  bn_phase b = None \<or> map_of (td_projects (ix_core d)) (tg_project row) = None
               then None
               else map_option (\<lambda>t. (b, t)) (find_trigger (tg_project row) (tg_id row) (ix_core d))))"

definition hex_digit :: "nat \<Rightarrow> char" where
  "hex_digit n = (if n < 10 then char_of (48 + n) else char_of (87 + n))"

definition json_char :: "char \<Rightarrow> string" where
  "json_char c =
     (let n = of_char c :: nat in
      if n = 34 then [CHR 0x5C, c]
      else if n = 92 then [CHR 0x5C, c]
      else if n = 8 then [CHR 0x5C, CHR ''b'']
      else if n = 9 then [CHR 0x5C, CHR ''t'']
      else if n = 10 then [CHR 0x5C, CHR ''n'']
      else if n = 12 then [CHR 0x5C, CHR ''f'']
      else if n = 13 then [CHR 0x5C, CHR ''r'']
      else if n < 32 then CHR 0x5C # ''u00'' @ [hex_digit (n div 16), hex_digit (n mod 16)]
      else [c])"

definition json_quote :: "string \<Rightarrow> string" where
  "json_quote s = CHR 0x22 # concat (map json_char s) @ [CHR 0x22]"

definition sourceIdempotencyKey :: "(string \<Rightarrow> string) \<Rightarrow> id \<Rightarrow> id \<Rightarrow> string" where
  "sourceIdempotencyKey digest subscriptionId eventId =
     ''inbox:'' @ digest (''['' @ json_quote subscriptionId @ '','' @ json_quote eventId @ '']'')"

definition inbox_run :: "inbox_world \<Rightarrow> trigger_row \<Rightarrow> notification \<Rightarrow> string option \<Rightarrow> time \<Rightarrow> run_row" where
  "inbox_run w t n keyHash now =
     \<lparr>rn_id = iw_id w 0, rn_organization = tg_organization t, rn_project = tg_project t, rn_trigger = tg_id t,
      rn_scheduled = None, rn_heartbeat = None, rn_triggered = now, rn_state = N_claimed,
      rn_key = sourceIdempotencyKey (iw_digest w) (nt_subscription n) (nt_event n), rn_session = None,
      rn_correlation = ''inbox:'' @ nt_event n, rn_error = None,
      rn_source = Some (nt_subscription n, nt_event n),
      rn_metadata = JObj [(''eventId'', JStr (nt_event n)), (''type'', JStr (nt_type n)),
        (''subscriptionId'', JStr (nt_subscription n)), (''agentId'', JStr (nt_agent n)),
        (''messageId'', JStr (nt_message n)), (''occurredAt'', JStr (nt_occurred n)),
        (''routingKeyHash'', case keyHash of None \<Rightarrow> JNull | Some h \<Rightarrow> JStr h)],
      rn_created = now, rn_updated = now\<rparr>"

definition claimNotification ::
    "inbox_world \<Rightarrow> trigger_row \<Rightarrow> notification \<Rightarrow> string option \<Rightarrow> time \<Rightarrow> inbox_db \<Rightarrow>
     (inbox_db, id \<times> bool) outcome" where
  "claimNotification w t n keyHash now d =
     (let r = inbox_run w t n keyHash now in
      case insert_run r (ix_core d) of
        Inr c \<Rightarrow> (d\<lparr>ix_core := c\<rparr>, [], Inr (rn_id r, False))
      | Inl SE_unique \<Rightarrow>
          let d1 = iw_mid w 1 d in
          (case sql_get (\<lambda>x. rn_source x = Some (nt_subscription n, nt_event n)) (td_runs (ix_core d1)) of
             None \<Rightarrow> (d1, [], Inl (store_message SE_unique))
           | Some x \<Rightarrow> (d1, [], Inr (rn_id x, True)))
      | Inl e \<Rightarrow> (d, [], Inl (store_message e)))"

definition admitted_sender :: "inbox_binding \<Rightarrow> notification \<Rightarrow> bool" where
  "admitted_sender b n \<longleftrightarrow>
     (let reconciling = (bn_phase b = Some S_pending \<or> bn_phase b = Some S_error);
          transitioning = (reconciling \<and> bn_transition b \<noteq> None);
          uncalibrated = (reconciling \<and> bn_registered b = None \<and> bn_etag b \<noteq> None) in
      Some (nt_agent n) = bn_registered b \<or> transitioning \<and> Some (nt_agent n) = bn_transition b \<or> uncalibrated)"

definition receiveInboxNotification ::
    "inbox_world \<Rightarrow> string option \<Rightarrow> notification \<Rightarrow> inbox_db \<Rightarrow> (inbox_db, id \<times> bool) outcome" where
  "receiveInboxNotification w authorization n d =
     (let binding = findSubscription w (nt_subscription n) d in
      case bearerToken authorization of
        None \<Rightarrow> (d, [], Inl ''Inbox callback Bearer token is missing or invalid'')
      | Some token \<Rightarrow>
          (case binding of
             None \<Rightarrow> (d, [], Inl ''Inbox callback Bearer token is invalid'')
           | Some (b, t) \<Rightarrow>
               if \<not> constantTimeEqual (iw_digest w token) (the (bn_token_hash b))
               then (d, [], Inl ''Inbox callback Bearer token is invalid'')
               else if \<not> admitted_sender b n
               then (d, [], Inl ''Inbox notification Agent does not match the Subscription'')
               else claimNotification w t n (routingKeyHash (iw_digest w) (nt_routing n)) (iw_now w 0) (iw_mid w 0 d)))"

section \<open>Activations\<close>

definition json_string :: "json option \<Rightarrow> string" where
  "json_string v = (case v of Some (JStr s) \<Rightarrow> s | Some JNull \<Rightarrow> ''null'' | _ \<Rightarrow> ''undefined'')"

record activation =
  ac_run :: claimed_run
  ac_trigger :: id
  ac_organization :: id
  ac_project :: id
  ac_project_name :: string
  ac_notification :: notification
  ac_hash :: "string option"

definition activation_of :: "run_row \<Rightarrow> string \<Rightarrow> activation option" where
  "activation_of r name =
     (case rn_source r of
        None \<Rightarrow> None
      | Some (sub, ev) \<Rightarrow>
          if sub = [] \<or> ev = [] then None
          else Some \<lparr>ac_run = claimedHttpRun r, ac_trigger = rn_trigger r, ac_organization = rn_organization r,
            ac_project = rn_project r, ac_project_name = name,
            ac_notification = \<lparr>nt_event = ev, nt_type = json_string (jget (rn_metadata r) ''type''), nt_subscription = sub,
              nt_agent = json_string (jget (rn_metadata r) ''agentId''),
              nt_message = json_string (jget (rn_metadata r) ''messageId''),
              nt_occurred = json_string (jget (rn_metadata r) ''occurredAt''), nt_routing = None\<rparr>,
            ac_hash = jstr (jget (rn_metadata r) ''routingKeyHash'')\<rparr>)"

definition findActivation :: "id \<Rightarrow> inbox_db \<Rightarrow> activation option" where
  "findActivation runId d =
     (case sql_get (\<lambda>r. rn_id r = runId \<and> rn_state r = N_claimed) (td_runs (ix_core d)) of
        None \<Rightarrow> None
      | Some r \<Rightarrow>
          (case map_of (td_projects (ix_core d)) (rn_project r) of
             None \<Rightarrow> None
           | Some name \<Rightarrow> activation_of r name))"

definition pendingActivationIds :: "nat \<Rightarrow> inbox_db \<Rightarrow> id list" where
  "pendingActivationIds limit d =
     map rn_id (take limit (sort_key (\<lambda>r. (rn_created r, rn_id r))
       (filter (\<lambda>r. rn_state r = N_claimed \<and> rn_source r \<noteq> None) (td_runs (ix_core d)))))"

definition route_key :: "id \<Rightarrow> id \<Rightarrow> string \<Rightarrow> route_row \<Rightarrow> bool" where
  "route_key agentId tid hash r \<longleftrightarrow> rt_agent r = agentId \<and> rt_trigger r = tid \<and> rt_hash r = hash"

text \<open>The session a route names, and whether the asking run is the one that reserved it.\<close>

definition reserveSessionRoute ::
    "(inbox_db \<Rightarrow> inbox_db) \<Rightarrow> route_row \<Rightarrow> inbox_db \<Rightarrow> (inbox_db, id \<times> bool) outcome" where
  "reserveSessionRoute w r d =
     (if sql_exists (\<lambda>x. route_key (rt_agent r) (rt_trigger r) (rt_hash r) x \<or> rt_session x = rt_session r) (ix_routes d)
      then let d1 = w d in
        (case sql_get (route_key (rt_agent r) (rt_trigger r) (rt_hash r)) (ix_routes d1) of
           None \<Rightarrow> (d1, [], Inl ''UNIQUE constraint failed'')
         | Some x \<Rightarrow> (d1, [], Inr (rt_session x, rt_run x = rt_run r)))
      else (d\<lparr>ix_routes := ix_routes d @ [r]\<rparr>, [], Inr (rt_session r, True)))"

definition project_route :: "id \<Rightarrow> id \<Rightarrow> string \<Rightarrow> route_row \<Rightarrow> bool" where
  "project_route projectId tid hash r \<longleftrightarrow> rt_project r = projectId \<and> rt_trigger r = tid \<and> rt_hash r = hash"

definition replaceSessionRoute ::
    "(inbox_db \<Rightarrow> inbox_db) \<Rightarrow> id \<Rightarrow> id \<Rightarrow> string \<Rightarrow> id \<Rightarrow> id \<Rightarrow> id \<Rightarrow> inbox_db \<Rightarrow> (inbox_db, id \<times> bool) outcome" where
  "replaceSessionRoute w projectId tid hash expected sessionId runId d =
     (let P = (\<lambda>r. project_route projectId tid hash r \<and> rt_session r = expected) in
      if sql_exists P (ix_routes d)
      then (d\<lparr>ix_routes := sql_update P (\<lambda>r. r\<lparr>rt_session := sessionId, rt_run := runId\<rparr>) (ix_routes d)\<rparr>, [],
            Inr (sessionId, True))
      else let d1 = w d in
        (case sql_get (project_route projectId tid hash) (ix_routes d1) of
           None \<Rightarrow> (d1, [], Inl ''Inbox Session route disappeared during replacement'')
         | Some x \<Rightarrow> (d1, [], Inr (rt_session x, rt_run x = runId))))"

definition deleteSessionRoute :: "id \<Rightarrow> id \<Rightarrow> string \<Rightarrow> id \<Rightarrow> inbox_db \<Rightarrow> inbox_db" where
  "deleteSessionRoute projectId tid hash sessionId d =
     d\<lparr>ix_routes := filter (\<lambda>r. \<not> (project_route projectId tid hash r \<and> rt_session r = sessionId)) (ix_routes d)\<rparr>"

definition activationAuth :: "activation \<Rightarrow> auth_scope" where
  "activationAuth a =
     \<lparr>au_organization = ac_organization a, au_organization_name = ac_organization a, au_project = ac_project a,
      au_project_name = ac_project_name a, au_user = ''system:inbox''\<rparr>"

definition contextIdForTenant :: "id \<Rightarrow> id" where
  "contextIdForTenant organizationId = (if take 5 organizationId = ''user:'' then drop 5 organizationId else organizationId)"

definition newline :: string where "newline = [CHR 0x0A]"

definition activationPrompt :: "string \<Rightarrow> id \<Rightarrow> notification \<Rightarrow> string" where
  "activationPrompt instructions contextId n =
     js_trim instructions @ newline @ newline @ ''Inbox notification:'' @ newline @ ''- contextId: '' @ contextId @ newline @
     ''- eventId: '' @ nt_event n @ newline @ ''- type: '' @ nt_type n @ newline @ ''- messageId: '' @ nt_message n @ newline @
     ''- occurredAt: '' @ nt_occurred n @ newline @ newline @
     ''Use Realmroot Toolbox with your Agent identity and the exact Context id above to read the complete Inbox Message before acting:''
     @ newline @ ''realmroot toolbox agent-inbox message show '' @ nt_message n @ '' --context '' @ contextId @ '' --json''"

definition IDLE_TIMEOUT_KEY :: string where
  "IDLE_TIMEOUT_KEY = ''enbor.dev/idle-timeout-seconds''"

definition inbox_metadata :: "trigger_row \<Rightarrow> activation \<Rightarrow> json" where
  "inbox_metadata t a =
     JObj [(''labels'', JObj (json_members (jget (tg_metadata t) ''labels''))),
           (''annotations'', JObj (mergeStringMaps (mergeStringMaps [(IDLE_TIMEOUT_KEY, JStr ''60'')]
              (json_members (jget (tg_metadata t) ''annotations'')))
              ([(''source'', JStr ''inbox-trigger''), (''inboxTriggerId'', JStr (tg_id t)),
                (''inboxRunId'', JStr (cd_id (ac_run a))),
                (''inboxSubscriptionId'', JStr (nt_subscription (ac_notification a))),
                (''inboxEventId'', JStr (nt_event (ac_notification a))),
                (''inboxMessageId'', JStr (nt_message (ac_notification a)))] @
               (if truthy_str (ac_hash a) then [(''inboxRoutingKeyHash'', JStr (the (ac_hash a)))] else []) @
               [(''correlationId'', JStr (cd_correlation (ac_run a)))])))]"

definition routeSessionNeedsReplacement :: "inbox_world \<Rightarrow> session_row \<Rightarrow> bool" where
  "routeSessionNeedsReplacement w s \<longleftrightarrow>
     domainSessionState (se_state s) = Errored \<or> se_deleted s \<noteq> None \<or>
     jget (se_metadata s) ''sandboxBackend'' = Some (JStr ''runner-sandbox'') \<and> \<not> iw_accepted w (se_id s)"

definition add_annotation :: "string \<Rightarrow> string \<Rightarrow> time \<Rightarrow> session_row \<Rightarrow> session_row" where
  "add_annotation k v t s =
     (if annotation (se_metadata s) k \<noteq> None then s
      else s\<lparr>se_metadata := (case jget (se_metadata s) ''annotations'' of
                Some (JObj kvs) \<Rightarrow> jset ''annotations'' (JObj (kv_set k (JStr v) kvs)) (se_metadata s)
              | _ \<Rightarrow> se_metadata s),
             se_updated := t\<rparr>)"

definition setMetadataAnnotationIfMissing :: "id \<Rightarrow> id \<Rightarrow> string \<Rightarrow> string \<Rightarrow> time \<Rightarrow> db \<Rightarrow> db \<times> bool" where
  "setMetadataAnnotationIfMissing projectId sessionId k v t c =
     (c\<lparr>sessions := sql_update (live_session projectId sessionId) (add_annotation k v t) (sessions c)\<rparr>,
      sql_exists (live_session projectId sessionId) (sessions c))"

definition on_core :: "inbox_db \<Rightarrow> (trigger_db, 'a) outcome \<Rightarrow> (inbox_db, 'a) outcome" where
  "on_core d r = (case r of (c, es, x) \<Rightarrow> (d\<lparr>ix_core := c\<rparr>, es, x))"

definition ensureInboxIdleTimeout ::
    "inbox_world \<Rightarrow> id \<Rightarrow> session_row \<Rightarrow> string \<Rightarrow> inbox_db \<Rightarrow> (inbox_db, unit) outcome" where
  "ensureInboxIdleTimeout w projectId s seconds d =
     (if annotation (se_metadata s) IDLE_TIMEOUT_KEY \<noteq> None then (d, [], Inr ())
      else case setMetadataAnnotationIfMissing projectId (se_id s) IDLE_TIMEOUT_KEY seconds (iw_now w 4) (td_core (ix_core d)) of
        (c, exists) \<Rightarrow>
          (d\<lparr>ix_core := (ix_core d)\<lparr>td_core := c\<rparr>\<rparr>, [],
           if exists then Inr () else Inl ''Inbox Session is no longer available''))"

definition mark_inbox_failed :: "inbox_world \<Rightarrow> id \<Rightarrow> claimed_run \<Rightarrow> string \<Rightarrow> inbox_db \<Rightarrow> (inbox_db, unit) outcome" where
  "mark_inbox_failed w tid run message d =
     on_core d (of_mark (markRunFailed (\<lambda>c. c) (Http tid) run message (iw_now w 5) (ix_core d)))"

definition mark_inbox_dispatched ::
    "inbox_world \<Rightarrow> id \<Rightarrow> claimed_run \<Rightarrow> id \<Rightarrow> json \<Rightarrow> inbox_db \<Rightarrow> (inbox_db, unit) outcome" where
  "mark_inbox_dispatched w tid run sessionId metadata d =
     on_core d (of_mark (markRunDispatched (\<lambda>c. c) (Http tid) run sessionId metadata (iw_now w 5) (ix_core d)))"

definition inbox_row :: "id \<Rightarrow> id \<Rightarrow> inbox_db \<Rightarrow> session_row option" where
  "inbox_row projectId sessionId d = findRuntimeRow projectId sessionId (td_core (ix_core d))"

text \<open>
  The route of an activation: reserved, and moved to a fresh session when the present one cannot
  be used. The result is the session to use, whether this run owns the route, and the session row
  if it exists.
\<close>

definition activation_route ::
    "inbox_world \<Rightarrow> trigger_row \<Rightarrow> activation \<Rightarrow> string \<Rightarrow> inbox_db \<Rightarrow>
     (inbox_db, id \<times> bool \<times> session_row option) outcome" where
  "activation_route w t a hash d =
     (let project = ac_project a; runId = cd_id (ac_run a) in
      and_then (reserveSessionRoute (iw_mid w 1)
          \<lparr>rt_organization = ac_organization a, rt_project = project, rt_agent = tp_agent (tg_spec t), rt_trigger = tg_id t,
           rt_hash = hash, rt_session = iw_id w 1, rt_run = runId, rt_created = iw_now w 1\<rparr> d)
        (\<lambda>(sessionId, owned) d1.
           case inbox_row project sessionId d1 of
             None \<Rightarrow> (d1, [], Inr (sessionId, owned, None))
           | Some s \<Rightarrow>
               if routeSessionNeedsReplacement w s
               then and_then (replaceSessionRoute (iw_mid w 3) project (tg_id t) hash (se_id s) (iw_id w 2) runId (iw_mid w 2 d1))
                      (\<lambda>(sessionId', owned') d2. (d2, [], Inr (sessionId', owned', inbox_row project sessionId' d2)))
               else (d1, [], Inr (sessionId, owned, Some s))))"

definition inbox_create ::
    "inbox_world \<Rightarrow> id option \<Rightarrow> create_request \<Rightarrow> inbox_db \<Rightarrow> (inbox_db, string + id) outcome" where
  "inbox_create w sessionId q d =
     (case iw_create w sessionId q d of (d', r) \<Rightarrow> (d', [D_create (rq_request q)], r))"

definition create_activation ::
    "inbox_world \<Rightarrow> trigger_row \<Rightarrow> activation \<Rightarrow> string \<Rightarrow> (id \<times> bool) option \<Rightarrow> inbox_db \<Rightarrow> (inbox_db, unit) outcome" where
  "create_activation w t a prompt route d =
     (let metadata = inbox_metadata t a in
      and_then (inbox_create w (map_option fst route) \<lparr>rq_name = tg_name t, rq_spec = tg_spec t, rq_prompt = prompt,
                  rq_metadata = metadata, rq_request = cd_correlation (ac_run a)\<rparr> d)
        (\<lambda>r d1. case r of
            Inl message \<Rightarrow>
              mark_inbox_failed w (tg_id t) (ac_run a) message
                (case route of
                   Some (sessionId, True) \<Rightarrow> deleteSessionRoute (ac_project a) (tg_id t) (the (ac_hash a)) sessionId d1
                 | _ \<Rightarrow> d1)
          | Inr sessionId \<Rightarrow>
              and_then (mark_inbox_dispatched w (tg_id t) (ac_run a) sessionId metadata d1)
                (\<lambda>_ d2. (d2, [D_audit ''inbox_trigger.dispatch'' Success], Inr ()))))"

definition deliver_activation ::
    "inbox_world \<Rightarrow> trigger_row \<Rightarrow> activation \<Rightarrow> session_row \<Rightarrow> string \<Rightarrow> inbox_db \<Rightarrow> (inbox_db, unit) outcome" where
  "deliver_activation w t a s prompt d =
     (let metadata = inbox_metadata t a in
      and_then (ensureInboxIdleTimeout w (ac_project a) s
          (case annotation metadata IDLE_TIMEOUT_KEY of Some (JStr v) \<Rightarrow> v | _ \<Rightarrow> ''60'') d)
        (\<lambda>_ d1. and_then (on_core d1 (dispatchToReusableSession (iw_reuse w) (activationAuth a) s prompt
                    (Some (cd_correlation (ac_run a))) (ix_core d1)))
           (\<lambda>r d2. case r of
               Inl message \<Rightarrow> mark_inbox_failed w (tg_id t) (ac_run a) message d2
             | Inr _ \<Rightarrow> mark_inbox_dispatched w (tg_id t) (ac_run a) (se_id s) metadata d2)))"

definition dispatchInboxActivation :: "inbox_world \<Rightarrow> id \<Rightarrow> inbox_db \<Rightarrow> (inbox_db, unit) outcome" where
  "dispatchInboxActivation w runId d =
     (case findActivation runId d of
        None \<Rightarrow> (d, [], Inr ())
      | Some a \<Rightarrow>
          (case find_trigger (ac_project a) (ac_trigger a) (ix_core d) of
             None \<Rightarrow> (d, [], Inr ())
           | Some t \<Rightarrow>
               if tg_type t \<noteq> T_inbox then (d, [], Inr ())
               else if tg_deleted t \<noteq> None \<or> \<not> tg_enabled t
               then mark_inbox_failed w (tg_id t) (ac_run a) ''Inbox Trigger is inactive'' d
               else
                 let prompt = activationPrompt (tp_prompt (tg_spec t)) (contextIdForTenant (ac_organization a)) (ac_notification a);
                     d0 = iw_mid w 0 d in
                 if \<not> truthy_str (ac_hash a) then create_activation w t a prompt None d0
                 else
                   and_then (activation_route w t a (the (ac_hash a)) d0)
                     (\<lambda>(sessionId, owned, existing) d1.
                        case existing of
                          Some s \<Rightarrow> deliver_activation w t a s prompt d1
                        | None \<Rightarrow>
                            if \<not> owned
                            then (d1, [], Inl ''Inbox Session route is reserved but its Session is not yet available'')
                            else create_activation w t a prompt (Some (sessionId, owned)) d1)))"

definition recoverInboxActivations :: "(id \<Rightarrow> inbox_world) \<Rightarrow> nat \<Rightarrow> inbox_db \<Rightarrow> (inbox_db, nat) outcome" where
  "recoverInboxActivations w limit d =
     (let runIds = pendingActivationIds limit d in
      and_then (in_turn (\<lambda>runId. dispatchInboxActivation (w runId) runId) runIds d)
        (\<lambda>_ d1. (d1, [], Inr (length runIds))))"

end
