(* ===== verification/InboxFacts.thy ===== *)
theory InboxFacts
  imports InboxActivation
begin

unbundle bit_operations_syntax

text \<open>
  What the inbox guarantees: only the holder of the callback token with an admitted sender is
  heard, a notification starts one run however often it is delivered, and a route is created by
  one run. Two weaknesses are stated too: a route whose owner was settled blocks its key and the
  recovery sweep, and an activation without a key can be dispatched by two workers at once.
\<close>

section \<open>Comparing tokens\<close>

lemma xor_zero: "(a XOR b = 0) = (a = b)" for a b :: nat
proof
  assume "a XOR b = 0"
  then have "bit (a XOR b) n = False" for n by simp
  then show "a = b" by (intro bit_eqI) (auto simp: bit_xor_iff)
qed simp

lemma or_zero: "(a OR b = 0) = (a = 0 \<and> b = 0)" for a b :: nat
proof
  assume "a OR b = 0"
  then have "bit (a OR b) n = False" for n by simp
  then have "bit a n = False \<and> bit b n = False" for n by (simp add: bit_or_iff)
  then show "a = 0 \<and> b = 0" by (auto intro!: bit_eqI)
qed simp

lemma fold_or_zero:
  "(fold (\<lambda>i acc. acc OR f i) is a = (0 :: nat)) = (a = 0 \<and> (\<forall>i \<in> set is. f i = 0))"
  by (induction "is" arbitrary: a) (auto simp: or_zero)

text \<open>
  The comparison that looks at every position, whatever the first difference
  is, decides equality.
\<close>

theorem constantTimeEqual_iff: "constantTimeEqual left right \<longleftrightarrow> left = right"
proof
  assume "constantTimeEqual left right"
  then have len: "length left = length right"
    and codes: "\<And>i. i < length left \<Longrightarrow> code_at left i = code_at right i"
    by (auto simp: constantTimeEqual_def fold_or_zero xor_zero)
  show "left = right"
  proof (rule nth_equalityI [OF len])
    fix i assume i: "i < length left"
    with codes [OF i] len have "of_char (left ! i) = (of_char (right ! i) :: nat)" by (simp add: code_at_def)
    then show "left ! i = right ! i" by simp
  qed
next
  assume "left = right"
  then show "constantTimeEqual left right"
    unfolding constantTimeEqual_def by (simp only: fold_or_zero xor_self_eq) simp
qed

section \<open>Receiving\<close>

definition demo_inbox :: trigger_row where
  "demo_inbox = demo_serial\<lparr>tg_id := ''i'', tg_type := T_inbox, tg_mode := M_parallel\<rparr>"

definition demo_token :: string where
  "demo_token = replicate 43 (CHR ''x'')"

definition demo_note :: notification where
  "demo_note = \<lparr>nt_event = ''e'', nt_type = ''m'', nt_subscription = ''b'', nt_agent = ''g'', nt_message = ''q'',
     nt_occurred = ''now'', nt_routing = Some ''key''\<rparr>"

definition demo_ix :: inbox_db where
  "demo_ix = \<lparr>ix_core = demo_tdb\<lparr>td_triggers := [demo_inbox]\<rparr>,
     ix_bindings = [\<lparr>bn_trigger = ''i'', bn_subscription = ''b'', bn_token_hash = Some demo_token, bn_cipher = Some ''c'',
       bn_etag = None, bn_registered = Some ''g'', bn_transition = None, bn_phase = Some S_active\<rparr>], ix_routes = []\<rparr>"

text \<open>The session a creation inserts, under the given identifier or one of its own.\<close>

definition demo_create :: "id \<Rightarrow> id option \<Rightarrow> create_request \<Rightarrow> inbox_db \<Rightarrow> inbox_db \<times> (string + (string + id))" where
  "demo_create own sid q d =
     (let i = (case sid of None \<Rightarrow> own | Some s \<Rightarrow> s) in
      (d\<lparr>ix_core := (ix_core d)\<lparr>td_core := (td_core (ix_core d))\<lparr>sessions :=
         sessions (td_core (ix_core d)) @ [demo_session\<lparr>se_id := i, se_metadata := rq_metadata q\<rparr>]\<rparr>\<rparr>\<rparr>, Inr (Inr i)))"

definition demo_iw :: inbox_world where
  "demo_iw = \<lparr>iw_id = (\<lambda>k. if k = 0 then ''r'' else if k = 1 then ''s1'' else ''s2''), iw_now = int, iw_mid = (\<lambda>_ d. d),
     iw_create = demo_create ''own'', iw_reuse = demo_reuse, iw_accepted = (\<lambda>_. True), iw_identity = (\<lambda>_. True),
     iw_digest = (\<lambda>s. s)\<rparr>"

lemma demo_found: "findSubscription demo_iw ''b'' demo_ix = Some (hd (ix_bindings demo_ix), demo_inbox)"
  by (simp add: findSubscription_def sql_get_def sql_exists_def demo_ix_def demo_tdb_def demo_inbox_def demo_serial_def
      demo_iw_def find_trigger_def truthy_str_def demo_token_def)

lemma demo_received:
  "\<exists>d'. receiveInboxNotification demo_iw (Some (''Bearer '' @ demo_token)) demo_note demo_ix = (d', [], Inr (''r'', False))"
proof -
  have "bearerToken (Some (''Bearer '' @ demo_token)) = Some demo_token"
    by (simp add: bearerToken_def demo_token_def token_char_def list_all_iff)
  then show ?thesis
    using demo_found by (simp add: receiveInboxNotification_def demo_note_def constantTimeEqual_iff admitted_sender_def
        demo_ix_def demo_iw_def claimNotification_def insert_run_def inbox_run_def sql_exists_def demo_tdb_def
        demo_inbox_def demo_serial_def Let_def)
qed

lemma bearer:
  assumes "bearerToken authorization = Some token"
  shows "authorization = Some (''Bearer '' @ token) \<and> length token = 43"
proof -
  obtain a where a: "authorization = Some a" "take 7 a = ''Bearer ''" "token = drop 7 a" "length (drop 7 a) = 43"
    using assms by (auto simp: bearerToken_def split: option.splits if_splits)
  have "a = take 7 a @ drop 7 a" by simp
  with a show ?thesis by metis
qed

text \<open>
  C26 (safety): a notification is accepted only with the token of its subscription, of a live inbox
  trigger, and from a sender that subscription admits: the registered one, the one it is moving
  to, or any while it is being calibrated.
\<close>

theorem notification_accepted_only_from_subscriber:
  assumes "receiveInboxNotification w authorization n d = (d', es, Inr r)" "shapes_ok (ix_core d)"
  shows "\<exists>b t token. findSubscription w (nt_subscription n) d = Some (b, t) \<and>
    tg_deleted t = None \<and> tg_type t = T_inbox \<and>
    authorization = Some (''Bearer '' @ token) \<and> length token = 43 \<and> bn_token_hash b = Some (iw_digest w token) \<and>
    (bn_registered b = Some (nt_agent n) \<or>
     (bn_phase b = Some S_pending \<or> bn_phase b = Some S_error) \<and>
       (bn_transition b = Some (nt_agent n) \<or> bn_registered b = None \<and> bn_etag b \<noteq> None))"
proof -
  obtain token where token: "bearerToken authorization = Some token"
    using assms by (auto simp: receiveInboxNotification_def Let_def split: option.splits)
  obtain b t where sub: "findSubscription w (nt_subscription n) d = Some (b, t)"
    and eq: "iw_digest w token = the (bn_token_hash b)" and adm: "admitted_sender b n"
    using assms token
    by (auto simp: receiveInboxNotification_def Let_def constantTimeEqual_iff split: option.splits if_splits)
  have hash: "bn_token_hash b \<noteq> None"
    using sub by (auto simp: findSubscription_def truthy_str_def split: option.splits if_splits)
  have live: "tg_deleted t = None"
    using sub by (auto simp: findSubscription_def find_trigger_def split: option.splits if_splits dest!: sql_get_Some)
  have inbox: "tg_type t = T_inbox"
  proof -
    have "\<exists>t0 \<in> set (td_triggers (ix_core d)). tg_id t = tg_id t0 \<and> t \<in> set (td_triggers (ix_core d)) \<and> tg_type t0 = T_inbox"
      using sub by (auto simp: findSubscription_def find_trigger_def sql_exists_iff split: option.splits if_splits
          dest!: sql_get_Some) metis
    then obtain t0 where "t0 \<in> set (td_triggers (ix_core d))" "tg_id t = tg_id t0"
      "t \<in> set (td_triggers (ix_core d))" "tg_type t0 = T_inbox" by blast
    with assms(2) show ?thesis
      using distinct_key_eq [of tg_id "td_triggers (ix_core d)" t t0] by (simp add: shapes_ok_def)
  qed
  have auth: "authorization = Some (''Bearer '' @ token)" "length token = 43"
    using bearer [OF token] by simp_all
  show ?thesis
    using sub live inbox auth eq hash adm by (auto simp: admitted_sender_def Let_def)
qed

lemma sql_get_unique:
  assumes "x \<in> set rows" "P x" "\<And>y. y \<in> set rows \<Longrightarrow> P y \<Longrightarrow> y = x"
  shows "sql_get P rows = Some x"
proof (cases "sql_get P rows")
  case None
  with assms(1,2) show ?thesis by (simp add: sql_get_None)
next
  case (Some y)
  from sql_get_Some [OF Some] have "y = x" by (intro assms(3)) simp_all
  with Some show ?thesis by simp
qed

theorem notification_accepted_only_from_subscriber_witness:
  "\<exists>t. findSubscription demo_iw ''b'' demo_ix = Some (hd (ix_bindings demo_ix), t) \<and> tg_type t = T_inbox"
proof -
  obtain d' where "receiveInboxNotification demo_iw (Some (''Bearer '' @ demo_token)) demo_note demo_ix = (d', [], Inr (''r'', False))"
    using demo_received by blast
  moreover have "shapes_ok (ix_core demo_ix)"
    by (simp add: shapes_ok_def schedule_shape_def demo_ix_def demo_tdb_def demo_inbox_def demo_serial_def)
  ultimately obtain b t where "findSubscription demo_iw (nt_subscription demo_note) demo_ix = Some (b, t)" "tg_type t = T_inbox"
    using notification_accepted_only_from_subscriber by blast
  with demo_found show ?thesis by (simp add: demo_note_def)
qed

text \<open>A notification that has a run gets that run again.\<close>

lemma claim_replays:
  assumes "x \<in> set (td_runs (ix_core d))" "rn_source x = Some (nt_subscription n, nt_event n)"
    and "\<not> sql_exists (\<lambda>y. tg_id y = tg_id t \<and> tg_deleted y \<noteq> None) (td_triggers (ix_core d))"
    and "x' \<in> set (td_runs (ix_core (iw_mid w 1 d)))" "rn_source x' = Some (nt_subscription n, nt_event n)" "rn_id x' = rn_id x"
    and "\<And>y. y \<in> set (td_runs (ix_core (iw_mid w 1 d))) \<Longrightarrow> rn_source y = Some (nt_subscription n, nt_event n) \<Longrightarrow> y = x'"
  shows "claimNotification w t n hash now d = (iw_mid w 1 d, [], Inr (rn_id x, True))"
proof -
  have "sql_exists (run_conflict (inbox_run w t n hash now)) (td_runs (ix_core d))"
    using assms(1,2) by (auto simp: sql_exists_iff run_conflict_def inbox_run_def)
  with assms(3) have "insert_run (inbox_run w t n hash now) (ix_core d) = Inl SE_unique"
    by (simp add: insert_run_def) (simp add: inbox_run_def)
  moreover have "sql_get (\<lambda>y. rn_source y = Some (nt_subscription n, nt_event n)) (td_runs (ix_core (iw_mid w 1 d))) = Some x'"
    using assms(4,5) by (rule sql_get_unique) (rule assms(7))
  ultimately show ?thesis using assms(6) by (simp add: claimNotification_def Let_def)
qed

text \<open>
  A notification that is delivered again, by the same or another subscription
  callback, is answered with the run of its first delivery, and stores nothing.
\<close>

theorem notification_starts_one_run:
  assumes "claimNotification w t n hash now d = (d1, es, Inr (runId, False))"
    and "\<And>k x. iw_mid w' k x = x"
    and "\<not> sql_exists (\<lambda>y. tg_id y = tg_id t' \<and> tg_deleted y \<noteq> None) (td_triggers (ix_core d1))"
    and "\<And>y. y \<in> set (td_runs (ix_core d)) \<Longrightarrow> rn_source y \<noteq> Some (nt_subscription n, nt_event n)"
  shows "claimNotification w' t' n hash' now' d1 = (d1, [], Inr (runId, True))"
proof -
  let ?r = "inbox_run w t n hash now"
  obtain c where c: "insert_run ?r (ix_core d) = Inr c" "d1 = d\<lparr>ix_core := c\<rparr>" "runId = rn_id ?r"
    using assms(1) by (auto simp: claimNotification_def Let_def split: sum.splits store_error.splits option.splits)
  then have runs: "td_runs (ix_core d1) = td_runs (ix_core d) @ [?r]" by (auto elim!: insert_runE)
  have src: "rn_source ?r = Some (nt_subscription n, nt_event n)" by (simp add: inbox_run_def)
  have only: "y = ?r" if "y \<in> set (td_runs (ix_core d1))" "rn_source y = Some (nt_subscription n, nt_event n)" for y
    using that runs assms(4) by auto
  have r: "?r \<in> set (td_runs (ix_core d1))" by (simp add: runs)
  have "claimNotification w' t' n hash' now' d1 = (iw_mid w' 1 d1, [], Inr (rn_id ?r, True))"
  proof (rule claim_replays [OF r src assms(3)])
    show "?r \<in> set (td_runs (ix_core (iw_mid w' 1 d1)))" using r by (simp only: assms(2))
    show "y = ?r" if "y \<in> set (td_runs (ix_core (iw_mid w' 1 d1)))" "rn_source y = Some (nt_subscription n, nt_event n)" for y
      using that unfolding assms(2) by (rule only)
  qed (simp_all add: src)
  then show ?thesis using assms(2) c(3) by simp
qed

lemma demo_noted:
  "\<exists>d1. claimNotification demo_iw demo_inbox demo_note (Some ''key'') 5 demo_ix = (d1, [], Inr (''r'', False)) \<and>
     td_triggers (ix_core d1) = [demo_inbox]"
  by (simp add: demo_note_def demo_ix_def demo_iw_def claimNotification_def insert_run_def inbox_run_def sql_exists_def
      demo_tdb_def demo_inbox_def demo_serial_def Let_def)

theorem notification_starts_one_run_witness:
  "\<exists>d1. claimNotification demo_iw demo_inbox demo_note None 9 d1 = (d1, [], Inr (''r'', True))"
proof -
  obtain d1 where d: "claimNotification demo_iw demo_inbox demo_note (Some ''key'') 5 demo_ix = (d1, [], Inr (''r'', False))"
    "td_triggers (ix_core d1) = [demo_inbox]" using demo_noted by blast
  have "claimNotification demo_iw demo_inbox demo_note None 9 d1 = (d1, [], Inr (''r'', True))"
    by (rule notification_starts_one_run [OF d(1)])
       (simp_all add: d(2) demo_iw_def demo_ix_def demo_tdb_def sql_exists_def demo_inbox_def demo_serial_def)
  then show ?thesis by blast
qed

section \<open>Routes\<close>

definition routes_ok :: "inbox_db \<Rightarrow> bool" where
  "routes_ok d \<longleftrightarrow>
     distinct (map (\<lambda>r. (rt_agent r, rt_trigger r, rt_hash r)) (ix_routes d)) \<and> distinct (map rt_session (ix_routes d))"

lemma reserved:
  assumes "routes_ok d" "reserveSessionRoute w r d = (d', es, Inr (sid, owned))" "\<And>x. w x = x"
  shows "routes_ok d' \<and> (\<exists>x \<in> set (ix_routes d'). route_key (rt_agent r) (rt_trigger r) (rt_hash r) x \<and>
    rt_session x = sid \<and> (owned \<longleftrightarrow> rt_run x = rt_run r)) \<and> ix_core d' = ix_core d \<and> es = [] \<and>
    (\<forall>x \<in> set (ix_routes d). route_key (rt_agent r) (rt_trigger r) (rt_hash r) x \<longrightarrow> d' = d)"
proof (cases "sql_exists (\<lambda>x. route_key (rt_agent r) (rt_trigger r) (rt_hash r) x \<or> rt_session x = rt_session r) (ix_routes d)")
  case True
  with assms show ?thesis
    by (auto simp: reserveSessionRoute_def Let_def split: option.splits dest!: sql_get_Some)
next
  case False
  then have "d' = d\<lparr>ix_routes := ix_routes d @ [r]\<rparr>" "sid = rt_session r" "owned" "es = []"
    using assms(2) by (auto simp: reserveSessionRoute_def)
  with False assms(1) show ?thesis
    by (auto simp: routes_ok_def route_key_def sql_exists_iff)
qed

lemma route_blocks:
  assumes "routes_ok d" "\<And>k x. iw_mid w k x = x"
    and "findActivation runId d = Some a" "ac_hash a = Some hash" "hash \<noteq> []"
    and "find_trigger (ac_project a) (ac_trigger a) (ix_core d) = Some t" "tg_type t = T_inbox" "tg_enabled t"
    and route: "x \<in> set (ix_routes d)" "route_key (tp_agent (tg_spec t)) (tg_id t) hash x"
    and "rt_run x \<noteq> runId" "inbox_row (ac_project a) (rt_session x) d = None"
  shows "dispatchInboxActivation w runId d =
    (d, [], Inl ''Inbox Session route is reserved but its Session is not yet available'')"
proof -
  have run: "cd_id (ac_run a) = runId"
    using assms(3) by (auto simp: findActivation_def activation_of_def claimedHttpRun_def
        split: option.splits if_splits prod.splits dest!: sql_get_Some)
  have live: "tg_deleted t = None" using assms(6) by (auto simp: find_trigger_def dest: sql_get_Some)
  let ?r = "\<lparr>rt_organization = ac_organization a, rt_project = ac_project a, rt_agent = tp_agent (tg_spec t),
    rt_trigger = tg_id t, rt_hash = hash, rt_session = iw_id w 1, rt_run = runId, rt_created = iw_now w 1\<rparr>"
  have key: "y = x" if "y \<in> set (ix_routes d)" "route_key (tp_agent (tg_spec t)) (tg_id t) hash y" for y
    using assms(1) distinct_key_eq [of "\<lambda>r. (rt_agent r, rt_trigger r, rt_hash r)" "ix_routes d" y x] that route
    by (simp add: routes_ok_def route_key_def)
  have "sql_get (route_key (tp_agent (tg_spec t)) (tg_id t) hash) (ix_routes d) = Some x"
    using route by (rule sql_get_unique) (rule key)
  then have "reserveSessionRoute (iw_mid w 1) ?r d = (d, [], Inr (rt_session x, False))"
    using route assms(2,11) by (auto simp: reserveSessionRoute_def sql_exists_iff Let_def)
  then have "activation_route w t a hash d = (d, [], Inr (rt_session x, False, None))"
    using assms(12) by (simp add: activation_route_def run and_then_def)
  then show ?thesis
    using assms(2-8) live by (simp add: dispatchInboxActivation_def truthy_str_def and_then_def Let_def)
qed








definition no_create :: "('s, 'a) outcome \<Rightarrow> bool" where
  "no_create r \<longleftrightarrow> (\<forall>c. D_create c \<notin> set (fst (snd r)))"

lemma no_create_simps [simp]:
  "no_create (d, [], r)" "no_create (d, map D_core es, r)"
  by (auto simp: no_create_def)













text \<open>While its session does not exist, the route turns every other run of the key away.\<close>

theorem reserved_route_refuses:
  assumes "routes_ok d" "\<And>k x. iw_mid w k x = x"
    and "findActivation runId d = Some a" "ac_hash a = Some hash" "hash \<noteq> []"
    and "find_trigger (ac_project a) (ac_trigger a) (ix_core d) = Some t" "tg_type t = T_inbox" "tg_enabled t"
    and "x \<in> set (ix_routes d)" "route_key (tp_agent (tg_spec t)) (tg_id t) hash x"
    and "rt_run x \<noteq> runId" "inbox_row (ac_project a) (rt_session x) d = None"
  shows "dispatchInboxActivation w runId d =
    (d, [], Inl ''Inbox Session route is reserved but its Session is not yet available'')"
  by (rule route_blocks [OF assms])

definition demo_waiting :: inbox_db where
  "demo_waiting = demo_ix\<lparr>ix_core := (ix_core demo_ix)\<lparr>td_runs := [inbox_run demo_iw demo_inbox demo_note (Some ''key'') 5]\<rparr>,
     ix_routes := [\<lparr>rt_organization = ''o'', rt_project = ''p'', rt_agent = ''a'', rt_trigger = ''i'', rt_hash = ''key'',
       rt_session = ''s0'', rt_run = ''r0'', rt_created = 1\<rparr>]\<rparr>"

lemma demo_activation:
  "\<exists>a. findActivation ''r'' demo_waiting = Some a \<and> ac_hash a = Some ''key'' \<and> ac_project a = ''p'' \<and> ac_trigger a = ''i''"
  by (simp add: findActivation_def demo_waiting_def demo_ix_def demo_tdb_def sql_get_def inbox_run_def demo_iw_def
      demo_inbox_def demo_serial_def activation_of_def demo_note_def jget_def)

theorem reserved_route_refuses_witness:
  "dispatchInboxActivation demo_iw ''r'' demo_waiting =
     (demo_waiting, [], Inl ''Inbox Session route is reserved but its Session is not yet available'')"
proof -
  obtain a where a: "findActivation ''r'' demo_waiting = Some a" "ac_hash a = Some ''key''" "ac_project a = ''p''"
    "ac_trigger a = ''i''" using demo_activation by blast
  show ?thesis
    by (rule reserved_route_refuses [OF _ _ a(1,2), where t = demo_inbox and x = "hd (ix_routes demo_waiting)"])
       (simp_all add: a(3,4) routes_ok_def demo_waiting_def demo_iw_def demo_ix_def demo_tdb_def demo_inbox_def
         demo_serial_def demo_template_def find_trigger_def sql_get_def route_key_def inbox_row_def findRuntimeRow_def
         session_db_def)
qed

text \<open>
  The same run blocks the recovery: the sweep dispatches the claimed activations in the order of
  their creation and ends with the first exception. A route whose owner was settled without a
  session (its trigger was suspended meanwhile) therefore keeps its key, and with it every
  activation that is younger than the oldest one waiting for it, from being dispatched.
\<close>

theorem blocked_route_stops_recovery:
  assumes "routes_ok d" "\<And>k x. iw_mid (w runId) k x = x" "pendingActivationIds limit d = runId # rest"
    and "findActivation runId d = Some a" "ac_hash a = Some hash" "hash \<noteq> []"
    and "find_trigger (ac_project a) (ac_trigger a) (ix_core d) = Some t" "tg_type t = T_inbox" "tg_enabled t"
    and "x \<in> set (ix_routes d)" "route_key (tp_agent (tg_spec t)) (tg_id t) hash x"
    and "rt_run x \<noteq> runId" "inbox_row (ac_project a) (rt_session x) d = None"
  shows "recoverInboxActivations w limit d =
    (d, [], Inl ''Inbox Session route is reserved but its Session is not yet available'')"
proof -
  have "dispatchInboxActivation (w runId) runId d =
      (d, [], Inl ''Inbox Session route is reserved but its Session is not yet available'')"
    by (rule route_blocks [OF assms(1,2,4-13)])
  then show ?thesis by (simp add: recoverInboxActivations_def assms(3) and_then_def Let_def)
qed

section \<open>Two dispatches of one activation\<close>

text \<open>
  A claimed activation carries no mark of the worker that dispatches it. While the callback is
  creating the session of an activation without a routing key, the sweep of the next minute
  dispatches it too: two sessions are created for one notification.
\<close>

definition demo_claimed :: inbox_db where
  "demo_claimed = demo_ix\<lparr>ix_core := (ix_core demo_ix)\<lparr>td_runs := [inbox_run demo_iw demo_inbox demo_note None 5]\<rparr>\<rparr>"

definition demo_during :: inbox_world where
  "demo_during = demo_iw\<lparr>iw_create := (\<lambda>sid q d.
     demo_create ''first'' sid q (fst (recoverInboxActivations (\<lambda>_. demo_iw) 100 d)))\<rparr>"

lemma inbox_create_demo:
  "dispatchInboxActivation (demo_iw\<lparr>iw_create := f\<rparr>) ''r'' demo_claimed =
     (let a = the (findActivation ''r'' demo_claimed) in
      create_activation (demo_iw\<lparr>iw_create := f\<rparr>) demo_inbox a
        (activationPrompt (tp_prompt demo_template) (contextIdForTenant (ac_organization a)) (ac_notification a)) None demo_claimed)"
  by (simp add: dispatchInboxActivation_def findActivation_def demo_claimed_def demo_ix_def demo_tdb_def sql_get_def
      inbox_run_def demo_iw_def demo_inbox_def demo_serial_def activation_of_def demo_note_def jget_def find_trigger_def
      truthy_str_def Let_def)

theorem activation_dispatched_twice:
  "length (sessions (td_core (ix_core (fst (dispatchInboxActivation demo_during ''r'' demo_claimed))))) = 2"
proof -
  have d: "demo_during = demo_iw\<lparr>iw_create := (\<lambda>sid q d.
     demo_create ''first'' sid q (fst (recoverInboxActivations (\<lambda>_. demo_iw) 100 d)))\<rparr>" by (simp add: demo_during_def)
  have w: "demo_iw = demo_iw\<lparr>iw_create := demo_create ''own''\<rparr>" by (simp add: demo_iw_def)
  have ids: "pendingActivationIds 100 demo_claimed = [''r'']"
    by (simp add: pendingActivationIds_def demo_claimed_def demo_ix_def demo_tdb_def inbox_run_def demo_iw_def)
  have grow: "length (sessions (td_core (ix_core (fst (create_activation (demo_iw\<lparr>iw_create := f\<rparr>) demo_inbox a p None d)))))
      = length (sessions (td_core (ix_core (fst (f None \<lparr>rq_name = tg_name demo_inbox, rq_spec = tg_spec demo_inbox,
          rq_prompt = p, rq_metadata = inbox_metadata demo_inbox a, rq_request = cd_correlation (ac_run a)\<rparr> d)))))"
    for f a p d
    by (auto simp: create_activation_def inbox_create_def and_then_def mark_inbox_failed_def mark_inbox_dispatched_def
        on_core_def of_mark_def markRunFailed_def markRunDispatched_def mark_run_def settle_run_def advanceRunTrigger_def
        Let_def split: prod.splits sum.splits option.splits if_splits)
  have inner: "length (sessions (td_core (ix_core (fst (recoverInboxActivations (\<lambda>_. demo_iw) 100 demo_claimed))))) = 1"
  proof -
    have "fst (recoverInboxActivations (\<lambda>_. demo_iw) 100 demo_claimed) = fst (dispatchInboxActivation demo_iw ''r'' demo_claimed)"
      by (auto simp: recoverInboxActivations_def ids and_then_def split: prod.splits sum.splits)
    also have "dispatchInboxActivation demo_iw ''r'' demo_claimed =
        dispatchInboxActivation (demo_iw\<lparr>iw_create := demo_create ''own''\<rparr>) ''r'' demo_claimed" using w by simp
    finally have sweep: "fst (recoverInboxActivations (\<lambda>_. demo_iw) 100 demo_claimed) =
        fst (dispatchInboxActivation (demo_iw\<lparr>iw_create := demo_create ''own''\<rparr>) ''r'' demo_claimed)" .
    show ?thesis
      unfolding sweep inbox_create_demo Let_def grow
      by (simp add: demo_create_def demo_claimed_def demo_ix_def demo_tdb_def session_db_def Let_def)
  qed
  show ?thesis
    unfolding d inbox_create_demo Let_def grow by (simp add: demo_create_def inner Let_def)
qed

end
