(* ===== verification/PolicyEngine.thy ===== *)
theory PolicyEngine
  imports SessionStore MemoryStore
begin

text \<open>
  Governance: the pure rules of \<open>server/domain/policy.ts\<close>, the evaluation of
  \<open>server/policy.ts\<close>, its reads (\<open>server/adapters/repos/policy-eval.ts\<close>) and the repositories and
  use cases of budgets and policies.

  A policy document is a \<open>json\<close> object; the columns hold the parsed documents. Keys that collide
  with members of \<open>Object.prototype\<close> are left out. The WHATWG URL parser is the argument \<open>url\<close>, which
  returns the host name or \<open>None\<close> when \<open>new URL\<close> throws, and \<open>localeCompare\<close> is the comparison of the
  sort keys given by the argument \<open>collate\<close>.
\<close>

section \<open>Merging the levels of the hierarchy\<close>

definition stringArray :: "json option \<Rightarrow> string list" where
  "stringArray v = (case v of Some (JArr xs) \<Rightarrow> List.map_filter (\<lambda>x. jstr (Some x)) xs | _ \<Rightarrow> [])"

definition includesWildcard :: "string list \<Rightarrow> string \<Rightarrow> bool" where
  "includesWildcard values candidate \<longleftrightarrow> ''*'' \<in> set values \<or> candidate \<in> set values"

fun decimal :: "nat \<Rightarrow> string" where
  "decimal n = (if n < 10 then [digit_char (int n)] else decimal (n div 10) @ [digit_char (int n)])"

declare decimal.simps [simp del]

definition decimal_int :: "int \<Rightarrow> string" where
  "decimal_int n = (if n < 0 then ''-'' @ decimal (nat (- n)) else decimal (nat n))"

text \<open>\<open>Object.entries\<close>: the members of an object, the elements of an array under their indices.\<close>

definition object_entries :: "json \<Rightarrow> (string \<times> json) list" where
  "object_entries v =
     (case v of
        JObj kvs \<Rightarrow> kvs
      | JArr xs \<Rightarrow> map (\<lambda>(i, x). (decimal i, x)) (enumerate 0 xs)
      | _ \<Rightarrow> [])"

definition RESTRICTIVE_NETWORK_VALUES :: "string list" where
  "RESTRICTIVE_NETWORK_VALUES = [''disabled'', ''deny'', ''offline'']"

definition isAllowListKey :: "string \<Rightarrow> bool" where
  "isAllowListKey key \<longleftrightarrow> starts_with key ''allowed''"

definition isUnionListKey :: "string \<Rightarrow> bool" where
  "isUnionListKey key \<longleftrightarrow>
     starts_with key ''blocked'' \<or> starts_with key ''denied'' \<or> starts_with key ''requireApproval''"

definition intersectAllowLists :: "string list \<Rightarrow> string list \<Rightarrow> string list" where
  "intersectAllowLists current add =
     (if ''*'' \<in> set current then add
      else if ''*'' \<in> set add then current
      else filter (\<lambda>item. item \<in> set add) current)"

text \<open>\<open>[...new Set(xs)]\<close> keeps the first occurrence of each element.\<close>

definition js_set :: "string list \<Rightarrow> string list" where
  "js_set xs = fold (\<lambda>x acc. if x \<in> set acc then acc else acc @ [x]) xs []"

definition spread_objects :: "(string \<times> json) list \<Rightarrow> (string \<times> json) list \<Rightarrow> json" where
  "spread_objects base add = JObj (fold (\<lambda>(k, v). kv_set k v) add base)"

text \<open>The member \<open>key\<close> of the merged object when a further level defines it.\<close>

definition merge_value :: "string \<Rightarrow> json \<Rightarrow> json \<Rightarrow> json" where
  "merge_value key current v =
     (case (current, v) of
        (JArr xs, JArr ys) \<Rightarrow>
          if isUnionListKey key
          then JArr (map JStr (js_set (stringArray (Some current) @ stringArray (Some v))))
          else if isAllowListKey key
          then JArr (map JStr (intersectAllowLists (stringArray (Some current)) (stringArray (Some v))))
          else v
      | _ \<Rightarrow>
          if key = ''defaultEffect''
          then (if current = JStr ''deny'' \<or> v = JStr ''deny'' then JStr ''deny'' else v)
          else
            (case (current, v) of
               (JBool a, JBool b) \<Rightarrow> JBool (a \<and> b)
             | (JNum a, JNum b) \<Rightarrow> JNum (min a b)
             | (JStr s, _) \<Rightarrow> if s \<in> set RESTRICTIVE_NETWORK_VALUES then current else v
             | (JObj kvs, JObj add) \<Rightarrow> spread_objects kvs add
             | (JArr xs, JObj add) \<Rightarrow> spread_objects (object_entries current) add
             | _ \<Rightarrow> v))"

definition merge_member :: "string \<times> json \<Rightarrow> json \<Rightarrow> json" where
  "merge_member p merged =
     (case p of (key, v) \<Rightarrow>
        (case jget merged key of
           None \<Rightarrow> jset key v merged
         | Some current \<Rightarrow> jset key (merge_value key current v) merged))"

definition mergePolicyObjects :: "json list \<Rightarrow> json" where
  "mergePolicyObjects levels = fold (\<lambda>level. fold merge_member (object_entries level)) levels (JObj [])"

section \<open>Scopes\<close>

datatype policy_scope = Organization | Team | Project

datatype budget_scope = B_project | B_provider | B_model

definition validatePolicyScope :: "policy_scope \<Rightarrow> id option \<Rightarrow> (string \<times> string) list option" where
  "validatePolicyScope level teamId =
     (let fields =
        (if level = Team \<and> teamId \<in> {None, Some []} then [(''scope.teamId'', ''Team-scoped policies require teamId.'')] else []) @
        (if level \<noteq> Team \<and> teamId \<notin> {None, Some []} then [(''scope.teamId'', ''teamId is only valid for team-scoped policies.'')] else []) in
      if fields = [] then None else Some fields)"

definition policyScopeChanged :: "policy_scope \<times> id option \<Rightarrow> policy_scope \<times> id option \<Rightarrow> bool" where
  "policyScopeChanged new current \<longleftrightarrow> fst new \<noteq> fst current \<or> snd new \<noteq> snd current"

definition validateBudgetScope :: "budget_scope \<Rightarrow> id option \<Rightarrow> id option \<Rightarrow> (string \<times> string) list option" where
  "validateBudgetScope scope providerId modelId =
     (let fields =
        (if scope = B_provider \<and> providerId \<in> {None, Some []} then [(''providerId'', ''Provider-scoped budgets require providerId.'')] else []) @
        (if scope = B_model \<and> modelId \<in> {None, Some []} then [(''modelId'', ''Model-scoped budgets require modelId.'')] else []) in
      if fields = [] then None else Some fields)"

section \<open>Effective policy\<close>

record policy_level =
  pl_id :: id
  pl_scope :: policy_scope
  pl_team :: "id option"
  pl_tool :: json
  pl_mcp :: json
  pl_sandbox :: json
  pl_updated :: time

definition row_applies :: "id list \<Rightarrow> policy_level \<Rightarrow> bool" where
  "row_applies memberTeams row \<longleftrightarrow>
     pl_scope row \<noteq> Team \<or> (case pl_team row of None \<Rightarrow> False | Some t \<Rightarrow> t \<noteq> [] \<and> t \<in> set memberTeams)"

definition level_key :: "policy_level \<Rightarrow> policy_scope \<times> id" where
  "level_key row = (pl_scope row, case pl_team row of None \<Rightarrow> [] | Some t \<Rightarrow> t)"

text \<open>\<open>byKey\<close>: the first row of each scope and team in the given order.\<close>

fun first_by_key :: "policy_level list \<Rightarrow> policy_level list" where
  "first_by_key [] = []"
| "first_by_key (row # rows) = row # filter (\<lambda>r. level_key r \<noteq> level_key row) (first_by_key rows)"

definition row_for :: "policy_scope \<times> id \<Rightarrow> policy_level list \<Rightarrow> policy_level list" where
  "row_for key rows = filter (\<lambda>r. level_key r = key) rows"

definition applicablePolicyLevels :: "(string \<Rightarrow> string) \<Rightarrow> policy_level list \<Rightarrow> id list \<Rightarrow> policy_level list" where
  "applicablePolicyLevels collate rows memberTeams =
     (let ordered = sort_key (\<lambda>r. - pl_updated r) rows;
          byKey = first_by_key (filter (row_applies memberTeams) ordered) in
      row_for (Organization, []) byKey @
      sort_key (\<lambda>r. collate (snd (level_key r))) (filter (\<lambda>r. pl_scope r = Team) byKey) @
      row_for (Project, []) byKey)"

record effective_policy =
  ef_source :: "policy_scope option \<times> id"
  ef_sources :: "(policy_scope \<times> id \<times> id option) list"
  ef_tool :: json
  ef_mcp :: json
  ef_sandbox :: json

definition effectivePolicyFrom :: "policy_level list \<Rightarrow> effective_policy" where
  "effectivePolicyFrom levels =
     \<lparr>ef_source = (if levels = [] then (None, ''workers-ai-default'')
                  else (Some (pl_scope (last levels)), pl_id (last levels))),
      ef_sources = map (\<lambda>r. (pl_scope r, pl_id r, pl_team r)) levels,
      ef_tool = mergePolicyObjects (map pl_tool levels),
      ef_mcp = mergePolicyObjects (map pl_mcp levels),
      ef_sandbox = mergePolicyObjects (map pl_sandbox levels)\<rparr>"

section \<open>Decisions\<close>

record decision =
  dc_allowed :: bool
  dc_category :: string
  dc_rule :: "string option"
  dc_message :: string

definition denial :: "string \<Rightarrow> string \<Rightarrow> string \<Rightarrow> decision" where
  "denial category rule message = \<lparr>dc_allowed = False, dc_category = category, dc_rule = Some rule, dc_message = message\<rparr>"

definition policyBlocksConnector :: "json \<Rightarrow> id \<Rightarrow> decision option" where
  "policyBlocksConnector mcpPolicy connectorId =
     (let allowed = stringArray (jget mcpPolicy ''allowedConnectors'') in
      if includesWildcard (stringArray (jget mcpPolicy ''blockedConnectors'')) connectorId
      then Some (denial ''mcp'' ''mcpPolicy.blockedConnectors'' ''MCP connector is blocked by governance policy.'')
      else if 0 < length allowed \<and> \<not> includesWildcard allowed connectorId
      then Some (denial ''mcp'' ''mcpPolicy.allowedConnectors'' ''MCP connector is not allowed by governance policy.'')
      else if jget mcpPolicy ''defaultEffect'' = Some (JStr ''deny'')
      then Some (denial ''mcp'' ''mcpPolicy.defaultEffect'' ''MCP connector is denied by default governance policy.'')
      else None)"

definition policyBlocksTool :: "json \<Rightarrow> string \<Rightarrow> decision option" where
  "policyBlocksTool toolPolicy toolName =
     (let allowed = stringArray (jget toolPolicy ''allowedTools'') in
      if includesWildcard (stringArray (jget toolPolicy ''blockedTools'')) toolName
      then Some (denial ''tool'' ''toolPolicy.blockedTools'' ''Tool is blocked by governance policy.'')
      else if 0 < length allowed \<and> \<not> includesWildcard allowed toolName
      then Some (denial ''tool'' ''toolPolicy.allowedTools'' ''Tool is not allowed by governance policy.'')
      else if jget toolPolicy ''defaultEffect'' = Some (JStr ''deny'')
      then Some (denial ''tool'' ''toolPolicy.defaultEffect'' ''Tool is denied by default governance policy.'')
      else None)"

definition stringRecord :: "json option \<Rightarrow> json" where
  "stringRecord v = (case v of Some (JObj kvs) \<Rightarrow> JObj kvs | _ \<Rightarrow> JObj [])"

definition nullish :: "json option \<Rightarrow> bool" where
  "nullish v \<longleftrightarrow> v = None \<or> v = Some JNull"

definition policyRequiresApproval :: "json \<Rightarrow> id \<Rightarrow> string \<Rightarrow> bool" where
  "policyRequiresApproval mcpPolicy connectorId toolName \<longleftrightarrow>
     (let modes = stringRecord (jget mcpPolicy ''connectorApprovalModes'');
          mode = (if nullish (jget modes connectorId) then jget modes ''*'' else jget modes connectorId) in
      mode = Some (JStr ''require_approval'') \<or>
      includesWildcard (stringArray (jget mcpPolicy ''requireApprovalConnectors'')) connectorId \<or>
      includesWildcard (stringArray (jget mcpPolicy ''requireApprovalTools'')) toolName)"

definition toolPolicyRequiresApprovalRule :: "json \<Rightarrow> string \<Rightarrow> bool" where
  "toolPolicyRequiresApprovalRule toolPolicy toolName \<longleftrightarrow>
     includesWildcard (stringArray (jget toolPolicy ''requireApprovalTools'')) toolName"

text \<open>The names of MCP tools: runs of other characters become one underscore, outer ones are dropped.\<close>

definition tool_name_char :: "char \<Rightarrow> bool" where
  "tool_name_char c \<longleftrightarrow>
     (let n = of_char c :: nat in 65 \<le> n \<and> n \<le> 90 \<or> 97 \<le> n \<and> n \<le> 122 \<or> 48 \<le> n \<and> n \<le> 57 \<or> n = 95 \<or> n = 45)"

fun underscore_runs :: "bool \<Rightarrow> string \<Rightarrow> string" where
  "underscore_runs inside [] = []"
| "underscore_runs inside (c # cs) =
     (if tool_name_char c then c # underscore_runs False cs
      else if inside then underscore_runs True cs
      else CHR ''_'' # underscore_runs True cs)"

definition strip_underscores :: "string \<Rightarrow> string" where
  "strip_underscores s =
     (let u = (\<lambda>c. c = CHR ''_'') in rev (dropWhile u (rev (dropWhile u s))))"

definition toolNamePart :: "string \<Rightarrow> string" where
  "toolNamePart value = strip_underscores (underscore_runs False (js_trim value))"

definition agentToolNameForMcp :: "id \<Rightarrow> string \<Rightarrow> string" where
  "agentToolNameForMcp connectorId toolName = ''mcp__'' @ toolNamePart connectorId @ ''__'' @ toolNamePart toolName"

definition mcpConnectorToolWildcard :: "id \<Rightarrow> string" where
  "mcpConnectorToolWildcard connectorId = ''mcp__'' @ toolNamePart connectorId @ ''__*''"

definition agentToolNames :: "json option \<Rightarrow> string list" where
  "agentToolNames v =
     (case v of
        Some (JArr xs) \<Rightarrow> List.map_filter (\<lambda>x. case x of JStr s \<Rightarrow> Some s | _ \<Rightarrow> jstr (jget x ''name'')) xs
      | _ \<Rightarrow> [])"

text \<open>The snapshots of a session, \<open>None\<close> where the column is null or empty.\<close>

record session_snapshot =
  sn_agent :: "json option"
  sn_environment :: "json option"

definition sessionAllowsTool :: "session_snapshot option \<Rightarrow> id \<Rightarrow> string \<Rightarrow> bool" where
  "sessionAllowsTool session connectorId toolName =
     (case Option.bind session sn_agent of
        None \<Rightarrow> True
      | Some snapshot \<Rightarrow>
          let names = agentToolNames (jget snapshot ''tools'') in
          names \<noteq> [] \<and>
          (includesWildcard names toolName \<or> includesWildcard names (mcpConnectorToolWildcard connectorId) \<or>
           includesWildcard names (agentToolNameForMcp connectorId toolName)))"

definition environmentAllowsConnector :: "session_snapshot option \<Rightarrow> bool" where
  "environmentAllowsConnector session =
     (case Option.bind session sn_environment of
        None \<Rightarrow> True
      | Some snapshot \<Rightarrow> jget (stringRecord (jget snapshot ''networking'')) ''allowMcpServers'' \<noteq> Some (JBool False))"

end
