(* ===== verification/Governance.thy ===== *)
theory Governance
  imports PolicyEngine
begin

text \<open>
  Evaluating governance: sandbox operations and budgets (\<open>server/domain/policy.ts\<close>), the decisions of
  \<open>server/policy.ts\<close> on their reads (\<open>server/adapters/repos/policy-eval.ts\<close>), and the repositories and
  use cases of budgets and policies (\<open>adapters/repos/budgets.ts\<close>, \<open>adapters/repos/policies.ts\<close>,
  \<open>usecases/budgets.ts\<close>, \<open>usecases/policies.ts\<close>, \<open>usecases/effective-policy.ts\<close>).
\<close>

section \<open>Sandbox operations\<close>

datatype sandbox_operation = Op_startup | Op_command "string option" | Op_network "string option"

record runtime_operation =
  ro_operation :: sandbox_operation
  ro_resource_type :: string
  ro_resource_id :: string

definition hostFromUrl :: "(string \<Rightarrow> string option) \<Rightarrow> json option \<Rightarrow> string option" where
  "hostFromUrl url v =
     (case jstr v of
        None \<Rightarrow> None
      | Some s \<Rightarrow> (case url s of None \<Rightarrow> None | Some h \<Rightarrow> if h = [] then None else Some h))"

definition sandboxOperationForRuntimeTool :: "(string \<Rightarrow> string option) \<Rightarrow> string \<Rightarrow> json \<Rightarrow> runtime_operation option" where
  "sandboxOperationForRuntimeTool url toolName input =
     (if toolName = ''bash'' then
        let command = jstr (jget input ''command'') in
        Some \<lparr>ro_operation = Op_command command, ro_resource_type = ''sandbox_command'',
              ro_resource_id = (case command of None \<Rightarrow> toolName | Some c \<Rightarrow> takeWhile (\<lambda>x. \<not> js_space x) (js_trim c))\<rparr>
      else if toolName = ''fetch'' then
        let host = (case jstr (jget input ''host'') of Some h \<Rightarrow> Some h | None \<Rightarrow> hostFromUrl url (jget input ''url'')) in
        Some \<lparr>ro_operation = Op_network host, ro_resource_type = ''sandbox_network'',
              ro_resource_id = (case host of None \<Rightarrow> toolName | Some h \<Rightarrow> h)\<rparr>
      else if toolName = ''web_search'' then
        Some \<lparr>ro_operation = Op_network (Some ''lite.duckduckgo.com''), ro_resource_type = ''sandbox_network'',
              ro_resource_id = ''lite.duckduckgo.com''\<rparr>
      else None)"

definition lower_case :: "string \<Rightarrow> string" where
  "lower_case s = map (\<lambda>c. let n = of_char c :: nat in if 192 \<le> n \<and> n \<le> 222 \<and> n \<noteq> 215 then char_of (n + 32) else ascii_lower c) s"

definition normalizeHost :: "(string \<Rightarrow> string option) \<Rightarrow> string \<Rightarrow> string" where
  "normalizeHost url value =
     (let trimmed = lower_case (js_trim value) in
      case url trimmed of Some h \<Rightarrow> h | None \<Rightarrow> hd (split_on (CHR '':'') trimmed))"

definition hostAllowed :: "(string \<Rightarrow> string option) \<Rightarrow> string list \<Rightarrow> string option \<Rightarrow> bool" where
  "hostAllowed url allowedHosts host =
     (case host of
        None \<Rightarrow> False
      | Some h \<Rightarrow>
          h \<noteq> [] \<and>
          (let normalized = normalizeHost url h in
           list_ex (\<lambda>a. a = ''*'' \<or> a = normalized) (map (normalizeHost url) allowedHosts)))"

definition environmentNetworkMode :: "json \<Rightarrow> string" where
  "environmentNetworkMode networking =
     (case jget networking ''type'' of
        Some (JStr s) \<Rightarrow> if s = ''limited'' \<or> s = ''closed'' then s else ''open''
      | _ \<Rightarrow> ''open'')"

definition commandMatches :: "string \<Rightarrow> string \<Rightarrow> bool" where
  "commandMatches pattern command \<longleftrightarrow>
     (let p = js_trim pattern; c = js_trim command in p = c \<or> starts_with c (p @ '' ''))"

definition commandMatchesAny :: "string list \<Rightarrow> string \<Rightarrow> bool" where
  "commandMatchesAny patterns command \<longleftrightarrow> ''*'' \<in> set patterns \<or> list_ex (\<lambda>p. commandMatches p command) patterns"

definition environment_network :: "session_snapshot option \<Rightarrow> json" where
  "environment_network session =
     (case Option.bind session sn_environment of
        None \<Rightarrow> JObj []
      | Some snapshot \<Rightarrow> stringRecord (jget snapshot ''networking''))"

definition network_disabled :: "json option \<Rightarrow> bool" where
  "network_disabled network \<longleftrightarrow>
     network = Some (JBool False) \<or>
     (case network of Some (JStr s) \<Rightarrow> s \<in> {''disabled'', ''deny'', ''offline'', ''closed''} | _ \<Rightarrow> False)"

definition network_decision ::
    "(string \<Rightarrow> string option) \<Rightarrow> json \<Rightarrow> json \<Rightarrow> string option \<Rightarrow> decision option" where
  "network_decision url governance environment host =
     (let mode = environmentNetworkMode environment;
          governanceHosts = stringArray (jget governance ''allowedHosts'');
          environmentHosts = stringArray (jget environment ''allowedHosts'') in
      if network_disabled (jget governance ''network'') \<or> network_disabled (Some (JStr mode))
      then Some (denial ''sandbox_network'' ''sandboxPolicy.network'' ''Sandbox network access is disabled by policy.'')
      else if 0 < length governanceHosts \<and> \<not> hostAllowed url governanceHosts host
      then Some (denial ''sandbox_network'' ''sandboxPolicy.allowedHosts'' ''Sandbox network host is not allowed by policy.'')
      else if mode = ''limited'' \<and> \<not> hostAllowed url environmentHosts host
      then Some (denial ''sandbox_network'' ''environment.networking.allowedHosts'' ''Sandbox network host is not allowed by policy.'')
      else None)"

definition command_decision :: "json \<Rightarrow> string option \<Rightarrow> decision option" where
  "command_decision governance command =
     (let blocked = stringArray (jget governance ''blockedCommands'');
          allowed = stringArray (jget governance ''allowedCommands'') in
      case (case command of None \<Rightarrow> None | Some c \<Rightarrow> if c = [] then None else Some c) of
        None \<Rightarrow>
          if 0 < length blocked \<or> 0 < length allowed
          then Some (denial ''sandbox_command''
                 (if 0 < length allowed then ''sandboxPolicy.allowedCommands'' else ''sandboxPolicy.blockedCommands'')
                 ''Sandbox command is not allowed by policy.'')
          else None
      | Some c \<Rightarrow>
          if commandMatchesAny blocked c
          then Some (denial ''sandbox_command'' ''sandboxPolicy.blockedCommands'' ''Sandbox command is blocked by policy.'')
          else if 0 < length allowed \<and> \<not> commandMatchesAny allowed c
          then Some (denial ''sandbox_command'' ''sandboxPolicy.allowedCommands'' ''Sandbox command is not allowed by policy.'')
          else None)"

definition evaluateSandboxRuntimeDecision ::
    "(string \<Rightarrow> string option) \<Rightarrow> json \<Rightarrow> session_snapshot option \<Rightarrow> sandbox_operation \<Rightarrow> decision" where
  "evaluateSandboxRuntimeDecision url sandboxPolicy session operation =
     (let allowed = \<lparr>dc_allowed = True, dc_category = ''sandbox'', dc_rule = None, dc_message = ''Allowed by sandbox policy.''\<rparr> in
      if jget sandboxPolicy ''enabled'' = Some (JBool False) \<or> jget sandboxPolicy ''status'' = Some (JStr ''disabled'')
      then denial ''sandbox'' ''sandboxPolicy.enabled'' ''Sandbox runtime is disabled by governance policy.''
      else
        (case (case operation of
                 Op_startup \<Rightarrow> None
               | Op_network host \<Rightarrow> network_decision url sandboxPolicy (environment_network session) host
               | Op_command command \<Rightarrow> command_decision sandboxPolicy command) of
           None \<Rightarrow> allowed
         | Some d \<Rightarrow> d))"

section \<open>Budgets\<close>

record budget_row =
  bd_id :: id
  bd_organization :: id
  bd_project :: id
  bd_scope :: budget_scope
  bd_provider :: "id option"
  bd_model :: "id option"
  bd_limit_type :: string
  bd_limit :: int
  bd_window :: string
  bd_enabled :: bool
  bd_metadata :: json
  bd_deleted :: "time option"
  bd_created :: time
  bd_updated :: time

record usage_row =
  us_project :: id
  us_success :: bool
  us_created :: time
  us_cost :: int
  us_tokens :: int
  us_session :: "id option"

definition currentMonthPrefix :: "time \<Rightarrow> string" where
  "currentMonthPrefix now = take 7 (toISOString now)"

definition budget_applies :: "id \<Rightarrow> id option \<Rightarrow> id option \<Rightarrow> budget_row \<Rightarrow> bool" where
  "budget_applies providerId providerRowId modelId b \<longleftrightarrow>
     (case bd_provider b of None \<Rightarrow> True | Some p \<Rightarrow> p = [] \<or> p = providerId \<or> Some p = providerRowId) \<and>
     (case bd_model b of None \<Rightarrow> True | Some m \<Rightarrow> m = [] \<or> modelId = Some m)"

definition window_usage :: "time \<Rightarrow> budget_row \<Rightarrow> usage_row list \<Rightarrow> usage_row list" where
  "window_usage now b usage =
     (let windowPrefix = (if bd_window b = ''day'' then take 10 (toISOString now) else currentMonthPrefix now) in
      filter (\<lambda>r. starts_with (toISOString (us_created r)) windowPrefix) usage)"

definition consumed_units :: "budget_row \<Rightarrow> usage_row list \<Rightarrow> int" where
  "consumed_units b rows =
     (if bd_limit_type b = ''cost_micros'' then sum_list (map us_cost rows)
      else if bd_limit_type b = ''sessions''
      then int (length (js_set (List.map_filter (\<lambda>r. case us_session r of Some s \<Rightarrow> if s = [] then None else Some s | None \<Rightarrow> None) rows)))
      else sum_list (map us_tokens rows))"

definition exhausted :: "time \<Rightarrow> usage_row list \<Rightarrow> budget_row \<Rightarrow> bool" where
  "exhausted now usage b \<longleftrightarrow> bd_limit b \<le> consumed_units b (window_usage now b usage)"

definition budget_denial :: "budget_row \<Rightarrow> decision" where
  "budget_denial b =
     denial ''budget'' (bd_id b)
       (''Usage budget is exhausted: the '' @ bd_window b @ '' '' @ bd_limit_type b @ '' limit of '' @
        decimal_int (bd_limit b) @ '' is spent.'')"

fun evaluateBudgets :: "time \<Rightarrow> budget_row list \<Rightarrow> usage_row list \<Rightarrow> id \<Rightarrow> id option \<Rightarrow> id option \<Rightarrow> decision option" where
  "evaluateBudgets now [] usage providerId providerRowId modelId = None"
| "evaluateBudgets now (b # budgets) usage providerId providerRowId modelId =
     (if budget_applies providerId providerRowId modelId b \<and> exhausted now usage b then Some (budget_denial b)
      else evaluateBudgets now budgets usage providerId providerRowId modelId)"

definition canOverrideProviderPolicy :: "string list \<Rightarrow> bool" where
  "canOverrideProviderPolicy roles \<longleftrightarrow> list_ex (\<lambda>r. r \<in> set [''admin'', ''owner'']) roles"

section \<open>The tables of governance\<close>

record policy_row =
  py_organization :: id
  py_project :: id
  py_level :: policy_level
  py_metadata :: json
  py_created :: time

record provider_row =
  pv_id :: id
  pv_slug :: string
  pv_enabled :: bool
  pv_updated :: time

record gov_db =
  gv_policies :: "policy_row list"
  gv_providers :: "provider_row list"
  gv_usage :: "usage_row list"
  gv_budgets :: "budget_row list"
  gv_projects :: "(id \<times> bool) list"

record caller =
  cl_organization :: id
  cl_project :: id
  cl_teams :: "id list"
  cl_roles :: "string list"

definition policyLevels :: "caller \<Rightarrow> gov_db \<Rightarrow> policy_level list" where
  "policyLevels auth d =
     map py_level (sort_key (\<lambda>r. - pl_updated (py_level r))
       (filter (\<lambda>r. pl_scope (py_level r) = Project \<and> py_project r = cl_project auth \<or>
                    pl_scope (py_level r) = Organization \<and> py_organization r = cl_organization auth \<or>
                    pl_scope (py_level r) = Team \<and> py_organization r = cl_organization auth) (gv_policies d)))"

definition findProvider :: "id \<Rightarrow> gov_db \<Rightarrow> provider_row option" where
  "findProvider providerId d =
     (case sort_key (\<lambda>r. - pv_updated r)
        (filter (\<lambda>r. if providerId = ''workers-ai'' then pv_slug r = ''workers-ai'' else pv_id r = providerId) (gv_providers d)) of
        [] \<Rightarrow> None
      | r # _ \<Rightarrow> Some r)"

definition successfulUsage :: "id \<Rightarrow> gov_db \<Rightarrow> usage_row list" where
  "successfulUsage projectId d = filter (\<lambda>r. us_project r = projectId \<and> us_success r) (gv_usage d)"

definition enabledBudgets :: "id \<Rightarrow> gov_db \<Rightarrow> budget_row list" where
  "enabledBudgets projectId d = filter (\<lambda>b. bd_project b = projectId \<and> bd_enabled b) (gv_budgets d)"

section \<open>Decisions on the database\<close>

definition resolveEffectivePolicy :: "(string \<Rightarrow> string) \<Rightarrow> caller \<Rightarrow> gov_db \<Rightarrow> effective_policy" where
  "resolveEffectivePolicy collate auth d =
     effectivePolicyFrom (applicablePolicyLevels collate (policyLevels auth d) (cl_teams auth))"

definition evaluateProviderPolicy :: "caller \<Rightarrow> id \<Rightarrow> id option \<Rightarrow> time \<Rightarrow> gov_db \<Rightarrow> decision" where
  "evaluateProviderPolicy auth providerId modelId now d =
     (case findProvider providerId d of
        Some p \<Rightarrow>
          if \<not> pv_enabled p then denial ''provider'' (pv_id p) ''Provider is disabled for this project.''
          else (case evaluateBudgets now (enabledBudgets (cl_project auth) d) (successfulUsage (cl_project auth) d)
                  providerId (Some (pv_id p)) modelId of
             Some b \<Rightarrow> b
           | None \<Rightarrow> \<lparr>dc_allowed = True, dc_category = ''provider'', dc_rule = None, dc_message = ''Allowed by effective policy.''\<rparr>)
      | None \<Rightarrow>
          if providerId \<noteq> ''workers-ai''
          then denial ''provider'' providerId ''Provider is not configured for this project.''
          else (case evaluateBudgets now (enabledBudgets (cl_project auth) d) (successfulUsage (cl_project auth) d)
                  providerId None modelId of
             Some b \<Rightarrow> b
           | None \<Rightarrow> \<lparr>dc_allowed = True, dc_category = ''provider'', dc_rule = None, dc_message = ''Allowed by effective policy.''\<rparr>))"

text \<open>The decision and the denial that an administrator overrode.\<close>

definition evaluateProviderPolicyForSession ::
    "caller \<Rightarrow> id \<Rightarrow> id option \<Rightarrow> bool \<Rightarrow> time \<Rightarrow> gov_db \<Rightarrow> decision \<times> decision option" where
  "evaluateProviderPolicyForSession auth providerId modelId adminOverride now d =
     (let decision = evaluateProviderPolicy auth providerId modelId now d in
      if dc_allowed decision \<or> \<not> adminOverride \<or> \<not> canOverrideProviderPolicy (cl_roles auth)
      then (decision, None)
      else (\<lparr>dc_allowed = True, dc_category = ''override'', dc_rule = dc_rule decision,
             dc_message = ''Allowed by explicit admin policy override.''\<rparr>, Some decision))"

definition evaluateMcpToolPolicy :: "caller \<Rightarrow> id \<Rightarrow> string \<Rightarrow> session_snapshot option \<Rightarrow> gov_db \<Rightarrow> decision" where
  "evaluateMcpToolPolicy auth connectorId toolName session d =
     \<lparr>dc_allowed = True, dc_category = ''mcp'', dc_rule = None, dc_message = ''Allowed.''\<rparr>"

definition evaluateSandboxRuntimePolicy ::
    "(string \<Rightarrow> string option) \<Rightarrow> (string \<Rightarrow> string) \<Rightarrow> caller \<Rightarrow> session_snapshot option \<Rightarrow> sandbox_operation \<Rightarrow> gov_db \<Rightarrow> decision" where
  "evaluateSandboxRuntimePolicy url collate auth session operation d =
     evaluateSandboxRuntimeDecision url (ef_sandbox (resolveEffectivePolicy collate auth d)) session operation"

definition policyBlocksSandboxOperation ::
    "(string \<Rightarrow> string option) \<Rightarrow> (string \<Rightarrow> string) \<Rightarrow> caller \<Rightarrow> session_snapshot option \<Rightarrow> string \<Rightarrow> json \<Rightarrow> gov_db \<Rightarrow>
     (decision \<times> runtime_operation) option" where
  "policyBlocksSandboxOperation url collate auth session toolName input d =
     (case sandboxOperationForRuntimeTool url toolName input of
        None \<Rightarrow> None
      | Some operation \<Rightarrow>
          let decision = evaluateSandboxRuntimePolicy url collate auth session (ro_operation operation) d in
          if dc_allowed decision then None else Some (decision, operation))"

definition toolPolicyRequiresApproval :: "(string \<Rightarrow> string) \<Rightarrow> caller \<Rightarrow> string \<Rightarrow> gov_db \<Rightarrow> bool" where
  "toolPolicyRequiresApproval collate auth toolName d =
     toolPolicyRequiresApprovalRule (ef_tool (resolveEffectivePolicy collate auth d)) toolName"

section \<open>Managing budgets\<close>

datatype gov_error =
    GovernanceValidationError "(string \<times> string) list"
  | PolicyScopeConflictError id
  | ResourceDeleted string
  | GovThrown string

definition listEnabledBudgets :: "id \<Rightarrow> gov_db \<Rightarrow> budget_row list" where
  "listEnabledBudgets projectId d =
     filter (\<lambda>b. bd_project b = projectId \<and> bd_enabled b \<and> bd_deleted b = None) (gv_budgets d)"

definition live_budget :: "id \<Rightarrow> id \<Rightarrow> budget_row \<Rightarrow> bool" where
  "live_budget projectId budgetId b \<longleftrightarrow> bd_id b = budgetId \<and> bd_project b = projectId \<and> bd_deleted b = None"

definition findBudget :: "id \<Rightarrow> id \<Rightarrow> gov_db \<Rightarrow> budget_row option" where
  "findBudget projectId budgetId d = sql_get (live_budget projectId budgetId) (gv_budgets d)"

text \<open>
  Triggers of the schema abort an insert and an update of a live budget under a deleted project;
  only the insert translates the error.
\<close>

definition insertBudget :: "budget_row \<Rightarrow> gov_db \<Rightarrow> gov_db \<times> (gov_error + budget_row)" where
  "insertBudget row d =
     (case map_of (gv_projects d) (bd_project row) of
        Some True \<Rightarrow> (d, Inl (ResourceDeleted ''Budget''))
      | None \<Rightarrow> (d, Inl (GovThrown ''FOREIGN KEY constraint failed''))
      | Some False \<Rightarrow> (d\<lparr>gv_budgets := gv_budgets d @ [row]\<rparr>, Inr row))"

definition set_budget :: "int \<Rightarrow> string \<Rightarrow> bool \<Rightarrow> json \<Rightarrow> time \<Rightarrow> budget_row \<Rightarrow> budget_row" where
  "set_budget limit window enabled metadata t b =
     b\<lparr>bd_limit := limit, bd_window := window, bd_enabled := enabled, bd_metadata := metadata, bd_updated := t\<rparr>"

definition updateBudgetRow ::
    "id \<Rightarrow> id \<Rightarrow> int \<Rightarrow> string \<Rightarrow> bool \<Rightarrow> json \<Rightarrow> time \<Rightarrow> gov_db \<Rightarrow> gov_db \<times> (gov_error + budget_row)" where
  "updateBudgetRow projectId budgetId limit window enabled metadata t d =
     (case findBudget projectId budgetId d of
        None \<Rightarrow> (d, Inl (ResourceDeleted ''Budget''))
      | Some b \<Rightarrow>
          if map_of (gv_projects d) projectId = Some True
          then (d, Inl (GovThrown ''cannot attach a live resource to a deleted project''))
          else
          (d\<lparr>gv_budgets := sql_update (live_budget projectId budgetId) (set_budget limit window enabled metadata t) (gv_budgets d)\<rparr>,
           Inr (set_budget limit window enabled metadata t b)))"

definition deleteBudget :: "id \<Rightarrow> id \<Rightarrow> time \<Rightarrow> gov_db \<Rightarrow> gov_db" where
  "deleteBudget projectId budgetId t d =
     d\<lparr>gv_budgets := sql_update (live_budget projectId budgetId) (\<lambda>b. b\<lparr>bd_deleted := Some t, bd_updated := t\<rparr>) (gv_budgets d)\<rparr>"

record budget_input =
  bi_scope :: budget_scope
  bi_provider :: "id option"
  bi_model :: "id option"
  bi_limit_type :: string
  bi_limit :: int
  bi_window :: string
  bi_enabled :: bool
  bi_metadata :: json

definition createBudget :: "caller \<Rightarrow> id \<Rightarrow> budget_input \<Rightarrow> time \<Rightarrow> gov_db \<Rightarrow> gov_db \<times> (gov_error + budget_row)" where
  "createBudget auth newId input t d =
     (case validateBudgetScope (bi_scope input) (bi_provider input) (bi_model input) of
        Some errors \<Rightarrow> (d, Inl (GovernanceValidationError errors))
      | None \<Rightarrow>
          insertBudget \<lparr>bd_id = newId, bd_organization = cl_organization auth, bd_project = cl_project auth,
            bd_scope = bi_scope input, bd_provider = bi_provider input, bd_model = bi_model input,
            bd_limit_type = bi_limit_type input, bd_limit = bi_limit input, bd_window = bi_window input,
            bd_enabled = bi_enabled input, bd_metadata = bi_metadata input, bd_deleted = None,
            bd_created = t, bd_updated = t\<rparr> d)"

record budget_patch =
  bp_limit :: "int option"
  bp_window :: "string option"
  bp_enabled :: "bool option"
  bp_metadata :: "json option"

definition keep :: "'a \<Rightarrow> 'a option \<Rightarrow> 'a" where
  "keep old new = (case new of None \<Rightarrow> old | Some v \<Rightarrow> v)"

definition updateBudget :: "caller \<Rightarrow> budget_row \<Rightarrow> budget_patch \<Rightarrow> time \<Rightarrow> gov_db \<Rightarrow> gov_db \<times> (gov_error + budget_row)" where
  "updateBudget auth existing patch t d =
     updateBudgetRow (cl_project auth) (bd_id existing) (keep (bd_limit existing) (bp_limit patch))
       (keep (bd_window existing) (bp_window patch)) (keep (bd_enabled existing) (bp_enabled patch))
       (keep (bd_metadata existing) (bp_metadata patch)) t d"

section \<open>Managing policies\<close>

definition in_scope :: "id \<Rightarrow> policy_scope \<Rightarrow> id option \<Rightarrow> policy_row \<Rightarrow> bool" where
  "in_scope projectId scope teamId r \<longleftrightarrow>
     py_project r = projectId \<and> pl_scope (py_level r) = scope \<and>
     (case teamId of Some t \<Rightarrow> if t = [] then pl_team (py_level r) = None else pl_team (py_level r) = Some t
                   | None \<Rightarrow> pl_team (py_level r) = None)"

definition findPolicyByScope :: "id \<Rightarrow> policy_scope \<Rightarrow> id option \<Rightarrow> gov_db \<Rightarrow> policy_row option" where
  "findPolicyByScope projectId scope teamId d = sql_get (in_scope projectId scope teamId) (gv_policies d)"

text \<open>The unique index on project, scope and team: SQLite takes two nulls as different.\<close>

definition scope_taken :: "policy_row \<Rightarrow> policy_row \<Rightarrow> bool" where
  "scope_taken r x \<longleftrightarrow>
     py_project x = py_project r \<and> pl_scope (py_level x) = pl_scope (py_level r) \<and>
     pl_team (py_level r) \<noteq> None \<and> pl_team (py_level x) = pl_team (py_level r)"

definition insertPolicy :: "policy_row \<Rightarrow> gov_db \<Rightarrow> gov_db \<times> (gov_error + policy_row)" where
  "insertPolicy row d =
     (if sql_exists (scope_taken row) (gv_policies d) then (d, Inl (GovThrown ''UNIQUE constraint failed''))
      else if map_of (gv_projects d) (py_project row) = None then (d, Inl (GovThrown ''FOREIGN KEY constraint failed''))
      else (d\<lparr>gv_policies := gv_policies d @ [row]\<rparr>, Inr row))"

record policy_documents =
  pd_tool :: json
  pd_mcp :: json
  pd_sandbox :: json
  pd_metadata :: json

definition createPolicy ::
    "(gov_db \<Rightarrow> gov_db) \<Rightarrow> caller \<Rightarrow> id \<Rightarrow> policy_scope \<Rightarrow> id option \<Rightarrow> policy_documents \<Rightarrow> time \<Rightarrow> gov_db \<Rightarrow>
     gov_db \<times> (gov_error + policy_row)" where
  "createPolicy w auth newId scope teamId docs t d =
     (case validatePolicyScope scope teamId of
        Some errors \<Rightarrow> (d, Inl (GovernanceValidationError errors))
      | None \<Rightarrow>
          (case findPolicyByScope (cl_project auth) scope teamId d of
             Some r \<Rightarrow> (d, Inl (PolicyScopeConflictError (pl_id (py_level r))))
           | None \<Rightarrow>
               insertPolicy \<lparr>py_organization = cl_organization auth, py_project = cl_project auth,
                 py_level = \<lparr>pl_id = newId, pl_scope = scope, pl_team = teamId, pl_tool = pd_tool docs, pl_mcp = pd_mcp docs,
                             pl_sandbox = pd_sandbox docs, pl_updated = t\<rparr>,
                 py_metadata = pd_metadata docs, py_created = t\<rparr> (w d)))"

definition set_documents :: "policy_documents \<Rightarrow> time \<Rightarrow> policy_row \<Rightarrow> policy_row" where
  "set_documents docs t r =
     r\<lparr>py_level := (py_level r)\<lparr>pl_tool := pd_tool docs, pl_mcp := pd_mcp docs, pl_sandbox := pd_sandbox docs, pl_updated := t\<rparr>,
       py_metadata := pd_metadata docs\<rparr>"

definition replacePolicyRow ::
    "id \<Rightarrow> id \<Rightarrow> policy_documents \<Rightarrow> time \<Rightarrow> gov_db \<Rightarrow> gov_db \<times> (gov_error + policy_row)" where
  "replacePolicyRow projectId policyId docs t d =
     (let P = (\<lambda>r. pl_id (py_level r) = policyId \<and> py_project r = projectId) in
      case sql_get P (gv_policies d) of
        None \<Rightarrow> (d, Inl (GovThrown ''Cannot read properties of undefined''))
      | Some r \<Rightarrow> (d\<lparr>gv_policies := sql_update P (set_documents docs t) (gv_policies d)\<rparr>, Inr (set_documents docs t r)))"

definition replacePolicy ::
    "caller \<Rightarrow> policy_row \<Rightarrow> (policy_scope \<times> id option) option \<Rightarrow> policy_documents \<Rightarrow> time \<Rightarrow> gov_db \<Rightarrow>
     gov_db \<times> (gov_error + policy_row)" where
  "replacePolicy auth existing scope docs t d =
     (case scope of
        Some s \<Rightarrow>
          if policyScopeChanged s (pl_scope (py_level existing), pl_team (py_level existing))
          then (d, Inl (GovernanceValidationError [(''scope'', ''Scope cannot change after creation. Delete the policy and create a new one.'')]))
          else replacePolicyRow (cl_project auth) (pl_id (py_level existing)) docs t d
      | None \<Rightarrow> replacePolicyRow (cl_project auth) (pl_id (py_level existing)) docs t d)"

definition deletePolicy :: "id \<Rightarrow> id \<Rightarrow> gov_db \<Rightarrow> gov_db" where
  "deletePolicy projectId policyId d =
     d\<lparr>gv_policies := filter (\<lambda>r. \<not> (pl_id (py_level r) = policyId \<and> py_project r = projectId)) (gv_policies d)\<rparr>"

text \<open>Reading the effective policy, resolved as a member of the requested team.\<close>

record policy_view =
  vw_policy :: effective_policy
  vw_budgets :: "budget_row list"
  vw_decision :: "decision option"

definition readEffectivePolicy ::
    "(string \<Rightarrow> string) \<Rightarrow> caller \<Rightarrow> id option \<Rightarrow> id option \<Rightarrow> id option \<Rightarrow> time \<Rightarrow> gov_db \<Rightarrow> policy_view" where
  "readEffectivePolicy collate auth teamId providerId modelId now d =
     (let scoped = (case teamId of Some t \<Rightarrow> if t = [] then auth else auth\<lparr>cl_teams := [t]\<rparr> | None \<Rightarrow> auth) in
      \<lparr>vw_policy = resolveEffectivePolicy collate scoped d,
       vw_budgets = listEnabledBudgets (cl_project auth) d,
       vw_decision =
         (case (providerId, modelId) of
            (Some p, Some m) \<Rightarrow>
              if p = [] \<or> m = [] then None else Some (evaluateProviderPolicy scoped p (Some m) now d)
          | _ \<Rightarrow> None)\<rparr>)"

end
