(* ===== verification/Approval.thy ===== *)
theory Approval
  imports Handlers Governance
begin

text \<open>
  Tool approvals: the state on the session metadata (\<open>server/domain/runtime/approval-state.ts\<close>), the
  gate of a running turn (\<open>server/usecases/runtime/approval-gate.ts\<close>), the callbacks through which the
  turn engine asks it (\<open>server/usecases/runtime/turn-callbacks.ts\<close>), and the decision of a user
  (\<open>server/usecases/runtime/session-approval.ts\<close>).

  The identifiers of events and approvals, the answers of the event store and of the sandbox, what
  other processes write between two statements (\<open>aw_mid\<close>), the parsed time of a request,
  \<open>safeRuntimeError\<close> (\<open>aw_safe\<close>), \<open>JSON.stringify\<close> (\<open>aw_stringify\<close>) and the parent call found in the
  event stream (\<open>aw_parent\<close>) are arguments. The governance decisions are those of \<open>Governance\<close>.
\<close>

section \<open>The approval state of a session\<close>

definition isPendingSessionApproval :: "json option \<Rightarrow> bool" where
  "isPendingSessionApproval v \<longleftrightarrow>
     is_jobj v \<and> jstr (jopt v ''toolCallId'') \<noteq> None \<and> jstr (jopt v ''toolName'') \<noteq> None"

definition asSessionApprovalGrants :: "json option \<Rightarrow> json" where
  "asSessionApprovalGrants v = (case v of Some (JObj kvs) \<Rightarrow> JObj kvs | _ \<Rightarrow> JObj [])"

definition sessionApprovalState :: "json \<Rightarrow> json option \<times> json" where
  "sessionApprovalState metadata =
     (if isPendingSessionApproval (jget metadata ''pendingApproval'') then jget metadata ''pendingApproval'' else None,
      asSessionApprovalGrants (jget metadata ''approvalGrants''))"

definition grant_entry :: "json \<Rightarrow> string \<Rightarrow> id \<Rightarrow> json option" where
  "grant_entry grants kind toolCallId = jopt (jget grants kind) toolCallId"

section \<open>The world of an approval\<close>

text \<open>
  \<open>aw_execute\<close> is the answer of the sandbox: an exception, or the error or the output of the tool.
  \<open>aw_events\<close> answers the \<open>k\<close>-th append to the event store.
\<close>

record approval_world =
  aw_organization :: id
  aw_turn :: id
  aw_approval :: id
  aw_now :: "nat \<Rightarrow> time"
  aw_mid :: "nat \<Rightarrow> db \<Rightarrow> db"
  aw_events :: "nat \<Rightarrow> string + id"
  aw_activate :: "string option"
  aw_execute :: "string + (json + json)"
  aw_safe :: "string \<Rightarrow> string"
  aw_message :: id
  aw_parent :: "id \<Rightarrow> id option"
  aw_stringify :: "json \<Rightarrow> string"
  aw_inline :: "turn_world option"

definition append_event :: "approval_world \<Rightarrow> nat \<Rightarrow> string \<Rightarrow> json \<Rightarrow> db \<Rightarrow> (db, id) outcome" where
  "append_event w k type payload d =
     (case aw_events w k of Inl e \<Rightarrow> (d, [], Inl e) | Inr eventId \<Rightarrow> (d, [D_event type payload], Inr eventId))"

definition writeSessionApprovalState ::
    "approval_world \<Rightarrow> nat \<Rightarrow> id \<Rightarrow> id \<Rightarrow> (json \<Rightarrow> json) \<Rightarrow> time \<Rightarrow> db \<Rightarrow> db" where
  "writeSessionApprovalState w k projectId sessionId update t d =
     (let metadata = (case findSession projectId sessionId d of None \<Rightarrow> JObj [] | Some s \<Rightarrow> se_metadata s) in
      updateSession projectId sessionId (no_update\<lparr>su_metadata := Some (update metadata), su_updated := Some t\<rparr>)
        (aw_mid w k d))"

section \<open>The gate of a turn\<close>

record gate_state =
  gs_pending :: "id option"
  gs_db :: db

datatype gate_decision = Allowed | Refused string bool

definition gate_requiresAction :: "gate_state \<Rightarrow> bool" where
  "gate_requiresAction g \<longleftrightarrow> gs_pending g \<noteq> None"

definition resolveToolResult :: "json \<Rightarrow> id \<Rightarrow> json option" where
  "resolveToolResult grants toolCallId =
     (if nullish (grant_entry grants ''results'' toolCallId) then None else grant_entry grants ''results'' toolCallId)"

definition shouldSuppressEvent :: "gate_state \<Rightarrow> json \<Rightarrow> bool" where
  "shouldSuppressEvent g event \<longleftrightarrow>
     truthy_str (gs_pending g) \<and> jstr (jopt (jopt (jget event ''payload'') ''toolCall'') ''id'') = gs_pending g"

definition pending_approval :: "approval_world \<Rightarrow> id \<Rightarrow> string \<Rightarrow> json \<Rightarrow> id \<Rightarrow> time \<Rightarrow> json" where
  "pending_approval w toolCallId toolName input eventId t =
     JObj [(''id'', JStr (aw_approval w)), (''toolCallId'', JStr toolCallId), (''toolName'', JStr toolName),
           (''input'', input), (''requestedAt'', JStr (toISOString t)), (''relatedEventIds'', JArr [JStr eventId])]"

definition approval_request :: "approval_world \<Rightarrow> id \<Rightarrow> string \<Rightarrow> json \<Rightarrow> json" where
  "approval_request w toolCallId toolName input =
     JObj [(''permissionId'', JStr (aw_approval w)),
           (''toolCall'', JObj [(''id'', JStr toolCallId), (''name'', JStr toolName), (''input'', input)]),
           (''details'', JObj [(''reason'', JStr ''approval_required''), (''resourceType'', JStr ''tool''),
              (''resourceId'', JStr toolName), (''operation'', JStr ''tool_approval_request''),
              (''ruleId'', JStr ''toolPolicy.requireApprovalTools''), (''status'', JStr ''pending'')])]"

text \<open>\<open>None\<close>: no opinion. \<open>grants\<close> are those read when the turn started.\<close>

definition tool_gate ::
    "approval_world \<Rightarrow> bool \<Rightarrow> id \<Rightarrow> id \<Rightarrow> json \<Rightarrow> id \<Rightarrow> string \<Rightarrow> json \<Rightarrow> gate_state \<Rightarrow>
     (gate_state, gate_decision option) outcome" where
  "tool_gate w required projectId sessionId grants toolCallId toolName input g =
     (case grant_entry grants ''denied'' toolCallId of
        Some reason \<Rightarrow>
          (g, [], Inr (Some (Refused (case jstr (Some reason) of
             Some s \<Rightarrow> if s = [] then ''Tool call denied by the user'' else s
           | None \<Rightarrow> ''Tool call denied by the user'') False)))
      | None \<Rightarrow>
          if truthy (grant_entry grants ''approved'' toolCallId) \<or> truthy (grant_entry grants ''results'' toolCallId)
          then (g, [], Inr (Some Allowed))
          else if \<not> required then (g, [], Inr None)
          else
            (case append_event w 0 ''permission.requested'' (approval_request w toolCallId toolName input) (gs_db g) of
               (d, es, Inl e) \<Rightarrow> (g\<lparr>gs_db := d\<rparr>, es, Inl e)
             | (d, es, Inr eventId) \<Rightarrow>
                 let d1 = writeSessionApprovalState w 1 projectId sessionId
                       (jset ''pendingApproval'' (pending_approval w toolCallId toolName input eventId (aw_now w 0)))
                       (aw_now w 1) (aw_mid w 0 d);
                     d2 = updateSession projectId sessionId
                       (upd_state Idle (Some (Some ''requires-action'')) (aw_now w 2)) (aw_mid w 2 d1) in
                 (\<lparr>gs_pending = Some toolCallId, gs_db = d2\<rparr>, es @ [D_audit ''session.tool_approval_requested'' Denied],
                  Inr (Some (Refused ''Tool call requires user approval'' True)))))"

section \<open>The callbacks of the turn engine\<close>

definition turn_cancelled :: string where "turn_cancelled = ''Session runtime is no longer active''"

definition assertRuntimeSessionRunning :: "id \<Rightarrow> id \<Rightarrow> gate_state \<Rightarrow> (gate_state, unit) outcome" where
  "assertRuntimeSessionRunning projectId sessionId g =
     (g, [], if sessionState projectId sessionId (gs_db g) = Some Running then Inr () else Inl turn_cancelled)"

definition session_snapshots :: "session_row \<Rightarrow> session_snapshot" where
  "session_snapshots s = \<lparr>sn_agent = se_agent_snapshot s, sn_environment = se_environment_snapshot s\<rparr>"

definition on_event :: "approval_world \<Rightarrow> id \<Rightarrow> id \<Rightarrow> json \<Rightarrow> gate_state \<Rightarrow> (gate_state, unit) outcome" where
  "on_event w projectId sessionId event g =
     (if shouldSuppressEvent g event then (g, [], Inr ())
      else and_then (assertRuntimeSessionRunning projectId sessionId g)
        (\<lambda>_ g1. case append_event w 3 (case jstr (jget event ''type'') of Some t \<Rightarrow> t | None \<Rightarrow> []) event (gs_db g1) of
            (d, es, Inl e) \<Rightarrow> (g1\<lparr>gs_db := d\<rparr>, es, Inl e)
          | (d, es, Inr _) \<Rightarrow> (g1\<lparr>gs_db := d\<rparr>, es, Inr ())))"

record governance_world =
  gw_url :: "string \<Rightarrow> string option"
  gw_collate :: "string \<Rightarrow> string"
  gw_caller :: caller
  gw_gov :: gov_db

definition or_null :: "string option \<Rightarrow> json" where
  "or_null v = (case v of None \<Rightarrow> JNull | Some s \<Rightarrow> JStr s)"

definition decision_json :: "decision \<Rightarrow> json" where
  "decision_json decision =
     JObj [(''allowed'', JBool (dc_allowed decision)), (''category'', JStr (dc_category decision)),
           (''rule'', or_null (dc_rule decision)), (''message'', JStr (dc_message decision))]"

text \<open>Commands and hosts are what the two kinds of operation of a tool carry.\<close>

definition denial_payload :: "decision \<Rightarrow> runtime_operation \<Rightarrow> json" where
  "denial_payload decision operation =
     (let (name, subject) = (case ro_operation operation of
            Op_command command \<Rightarrow> (''command'', (''command'', or_null command))
          | Op_network host \<Rightarrow> (''network'', (''host'', or_null host))
          | Op_startup \<Rightarrow> (''startup'', (''host'', JNull))) in
      JObj [(''reason'', JStr (dc_category decision)), (''resourceType'', JStr (ro_resource_type operation)),
            (''resourceId'', JStr (ro_resource_id operation)), (''operation'', JStr name),
            (''details'', JObj [(''ruleId'', or_null (dc_rule decision)), (''decision'', decision_json decision), subject])])"

text \<open>The last component of the value tells whether a policy denied the call.\<close>

definition approveToolCall ::
    "approval_world \<Rightarrow> governance_world \<Rightarrow> id \<Rightarrow> session_row \<Rightarrow> id \<Rightarrow> string \<Rightarrow> json \<Rightarrow> gate_state \<Rightarrow>
     (gate_state, gate_decision \<times> bool) outcome" where
  "approveToolCall w gw projectId session toolCallId toolName input g =
     (let sid = se_id session in
      and_then (assertRuntimeSessionRunning projectId sid g)
        (\<lambda>_ g1.
           case policyBlocksSandboxOperation (gw_url gw) (gw_collate gw) (gw_caller gw) (Some (session_snapshots session))
                  toolName input (gw_gov gw) of
             Some (decision, operation) \<Rightarrow>
               and_then (assertRuntimeSessionRunning projectId sid g1)
                 (\<lambda>_ g2. and_then
                    (case append_event w 4 ''permission.denied'' (denial_payload decision operation) (gs_db g2) of
                       (d, es, Inl e) \<Rightarrow> (g2\<lparr>gs_db := d\<rparr>, es, Inl e)
                     | (d, es, Inr _) \<Rightarrow> (g2\<lparr>gs_db := d\<rparr>, es @ [D_audit ''runtime_sandbox.operation'' Denied], Inr ()))
                    (\<lambda>_ g3. and_then (assertRuntimeSessionRunning projectId sid g3)
                       (\<lambda>_ g4. (g4, [], Inr (Refused (dc_message decision) False, True)))))
           | None \<Rightarrow>
               and_then (tool_gate w (toolPolicyRequiresApproval (gw_collate gw) (gw_caller gw) toolName (gw_gov gw))
                   projectId sid (snd (sessionApprovalState (se_metadata session))) toolCallId toolName input g1)
                 (\<lambda>r g2. (g2, [], Inr (case r of None \<Rightarrow> Allowed | Some decision \<Rightarrow> decision, False)))))"

section \<open>Deciding an approval\<close>

definition ENBOR_SANDBOX_TOOL_NAMES :: "string list" where
  "ENBOR_SANDBOX_TOOL_NAMES =
     [''read'', ''bash'', ''edit'', ''write'', ''grep'', ''find'', ''ls'', ''fetch'', ''web_search'']"

definition isEnborSandboxToolName :: "string \<Rightarrow> bool" where
  "isEnborSandboxToolName value \<longleftrightarrow> value \<in> set ENBOR_SANDBOX_TOOL_NAMES"

record decision_body =
  db_approve :: bool
  db_reason :: "string option"
  db_result :: "json option"

definition text_at :: "json \<Rightarrow> string \<Rightarrow> string" where
  "text_at v k = (case jstr (jget v k) of Some s \<Rightarrow> s | None \<Rightarrow> [])"

text \<open>The metadata after a decision: the request is gone and the decision is among the grants.\<close>

definition add_grant :: "string \<Rightarrow> id \<Rightarrow> json \<Rightarrow> (string \<times> json) list \<Rightarrow> (string \<times> json) list" where
  "add_grant kind toolCallId v grants =
     kv_set kind (JObj (kv_set toolCallId v (case map_of grants kind of Some (JObj kvs) \<Rightarrow> kvs | _ \<Rightarrow> []))) grants"

definition decided_metadata :: "decision_body \<Rightarrow> id \<Rightarrow> json \<Rightarrow> json" where
  "decided_metadata body toolCallId metadata =
     (let grants = (case jget metadata ''approvalGrants'' of Some (JObj kvs) \<Rightarrow> kvs | _ \<Rightarrow> []) in
      jset ''approvalGrants''
        (JObj (if db_approve body
               then (case db_result body of
                       None \<Rightarrow> add_grant ''approved'' toolCallId (JBool True) grants
                     | Some r \<Rightarrow> add_grant ''results'' toolCallId r grants)
               else add_grant ''denied'' toolCallId
                      (JStr (case db_reason body of None \<Rightarrow> ''Tool call denied by the user'' | Some r \<Rightarrow> r)) grants))
        (jdel ''pendingApproval'' metadata))"

definition approval_of ::
    "approval_world \<Rightarrow> id \<Rightarrow> id \<Rightarrow> session_row \<Rightarrow> json \<Rightarrow> decision_body \<Rightarrow> time \<Rightarrow> time \<Rightarrow> approval_row" where
  "approval_of w userId projectId session pending body requestedAt t =
     \<lparr>ap_id = text_at pending ''id'',
      ap_organization = (case se_organization session of None \<Rightarrow> aw_organization w | Some org \<Rightarrow> org),
      ap_project = projectId, ap_session = se_id session,
      ap_tool_call = text_at pending ''toolCallId'', ap_tool_name = text_at pending ''toolName'',
      ap_input = (case jget pending ''input'' of Some v \<Rightarrow> v | None \<Rightarrow> JNull),
      ap_related_events = (case jget pending ''relatedEventIds'' of Some v \<Rightarrow> v | None \<Rightarrow> JNull),
      ap_state = (if db_approve body then A_approved else A_denied), ap_reason = db_reason body,
      ap_result = db_result body, ap_decided_by = Some userId, ap_decided = Some t, ap_requested = requestedAt,
      ap_created = t, ap_updated = t\<rparr>"

text \<open>Running the approved tool, or the result that stands for it; the flag marks an error.\<close>

definition decided_result ::
    "approval_world \<Rightarrow> session_row \<Rightarrow> json \<Rightarrow> decision_body \<Rightarrow> db \<Rightarrow> (db, (json \<times> bool) option) outcome" where
  "decided_result w session pending body d =
     (let toolName = text_at pending ''toolName'' in
      if \<not> db_approve body
      then (d, [], Inr (Some (JObj [(''denied'', JBool True), (''reason'', JStr (case db_reason body of
              None \<Rightarrow> ''Tool call denied by the user'' | Some r \<Rightarrow> r))], True)))
      else
        (case db_result body of
           Some r \<Rightarrow> (d, [], Inr (Some (r, False)))
         | None \<Rightarrow>
             if toolName = ''agent'' then (d, [], Inr None)
             else if \<not> isEnborSandboxToolName toolName
             then (d, [], Inl (''Unsupported approved sandbox tool: '' @ toolName))
             else if se_agent_snapshot session = None then (d, [], Inl ''Session agent snapshot is required'')
             else
               (case aw_activate w of
                  Some e \<Rightarrow> (d, [], Inl e)
                | None \<Rightarrow>
                    let call = [D_execute (text_at pending ''toolCallId'') toolName
                        (case jget pending ''input'' of Some v \<Rightarrow> v | None \<Rightarrow> JNull)] in
                    (case aw_execute w of
                       Inl e \<Rightarrow> (aw_mid w 4 d, call, Inl e)
                     | Inr (Inl err) \<Rightarrow> (aw_mid w 4 d, call, Inr (Some (err, True)))
                     | Inr (Inr out) \<Rightarrow> (aw_mid w 4 d, call, Inr (Some (out, False)))))))"

definition result_text :: "approval_world \<Rightarrow> json \<Rightarrow> string" where
  "result_text w output =
     (let streams = List.map_filter id [jstr (jget output ''stdout''), jstr (jget output ''stderr'')] in
      if streams = [] then aw_stringify w output
      else join_lines (filter (\<lambda>s. s \<noteq> []) streams))"

definition result_payload :: "approval_world \<Rightarrow> id \<Rightarrow> json \<Rightarrow> bool \<Rightarrow> json" where
  "result_payload w toolCallId output is_error =
     (let txt = result_text w output in
      JObj [(''message'', JObj [(''id'', JStr (aw_message w)), (''role'', JStr ''tool''),
        (''parentToolCallId'', JStr (case aw_parent w toolCallId of None \<Rightarrow> toolCallId | Some q \<Rightarrow> q)),
        (''content'', JArr [JObj ([(''type'', JStr ''tool_result''), (''toolCallId'', JStr toolCallId),
           (''result'', JObj [(''content'', JArr [JObj [(''type'', JStr ''text''), (''text'', JStr txt)]]),
              (''structuredContent'', output)])] @
           (if is_error then [(''error'', JObj [(''message'', JStr (if txt = [] then ''Tool execution failed'' else txt)),
              (''details'', output)])] else []))])])])"

definition append_result ::
    "approval_world \<Rightarrow> id \<Rightarrow> (json \<times> bool) option \<Rightarrow> db \<Rightarrow> (db, unit) outcome" where
  "append_result w toolCallId result d =
     (case result of
        None \<Rightarrow> (d, [], Inr ())
      | Some (v, is_error) \<Rightarrow>
          and_then (append_event w 2 ''message.completed'' (result_payload w toolCallId v is_error) d)
            (\<lambda>_ d1. (d1, [], Inr ())))"

text \<open>Resuming the turn: inline, or as a message of the queue.\<close>

definition resume_turn :: "approval_world \<Rightarrow> id \<Rightarrow> id \<Rightarrow> db \<Rightarrow> (db, unit) outcome" where
  "resume_turn w projectId sessionId d =
     (case findSession projectId sessionId d of
        None \<Rightarrow> (d, [], Inl ''Session row is required after approval decision'')
      | Some resumed \<Rightarrow>
          (case aw_inline w of
             Some tw \<Rightarrow>
               (case executeCloudSessionTurn tw projectId resumed ''session.command'' (aw_now w 5) d of
                  (d1, es, result) \<Rightarrow>
                    (case handleTurnOutcome tw projectId resumed (aw_turn w) ''session.command'' result (aw_now w 6) d1 of
                       (d2, es') \<Rightarrow> (d2, map D_core (es @ es'), Inr ())))
           | None \<Rightarrow>
               (d, [D_core (E_enqueue (Msg_step sessionId (Some (aw_turn w)) ''session.command'') 0)], Inr ())))"

definition resolved_payload :: "json \<Rightarrow> decision_body \<Rightarrow> json" where
  "resolved_payload pending body =
     (let toolCallId = text_at pending ''toolCallId''; toolName = text_at pending ''toolName'' in
      JObj ([(''permissionId'', JStr (text_at pending ''id'')), (''allowed'', JBool (db_approve body))] @
        (case db_reason body of None \<Rightarrow> [] | Some r \<Rightarrow> if r = [] then [] else [(''reason'', JStr r)]) @
        [(''toolCall'', JObj [(''id'', JStr toolCallId), (''name'', JStr toolName),
            (''input'', case jget pending ''input'' of Some v \<Rightarrow> v | None \<Rightarrow> JNull)]),
         (''details'', JObj ([(''approvalId'', JStr (text_at pending ''id'')), (''toolCallId'', JStr toolCallId),
            (''resourceType'', JStr ''tool''), (''resourceId'', JStr toolName),
            (''operation'', JStr ''tool_approval_decision''), (''ruleId'', JStr ''toolPolicy.requireApprovalTools''),
            (''state'', JStr (if db_approve body then ''approved'' else ''denied''))] @
            (if db_result body = None then [] else [(''customResult'', JBool True)])))]))"

definition decide_body ::
    "approval_world \<Rightarrow> id \<Rightarrow> id \<Rightarrow> session_row \<Rightarrow> json \<Rightarrow> decision_body \<Rightarrow> time \<Rightarrow> db \<Rightarrow> (db, approval_row) outcome" where
  "decide_body w userId projectId session pending body requestedAt d =
     (let sid = se_id session; toolCallId = text_at pending ''toolCallId'' in
      and_then (append_event w 1 ''permission.resolved'' (resolved_payload pending body) d)
        (\<lambda>_ d1.
           let d2 = writeSessionApprovalState w 2 projectId sid (decided_metadata body toolCallId) (aw_now w 2) (aw_mid w 1 d1);
               row = approval_of w userId projectId session pending body requestedAt (aw_now w 3);
               audit = [if db_approve body then D_audit ''session.tool_approval_approved'' Success
                        else D_audit ''session.tool_approval_denied'' Denied] in
           (case upsertApproval row (aw_now w 3) (aw_mid w 3 d2) of
              None \<Rightarrow> (aw_mid w 3 d2, audit, Inl ''UNIQUE constraint failed'')
            | Some d3 \<Rightarrow>
                (case and_then (decided_result w session pending body d3)
                   (\<lambda>result d4. and_then (append_result w toolCallId result d4)
                      (\<lambda>_ d5. and_then (resume_turn w projectId sid d5) (\<lambda>_ d6. (d6, [], Inr row)))) of
                   (d7, es, r) \<Rightarrow> (d7, audit @ es, r)))))"

definition decideSessionApproval ::
    "approval_world \<Rightarrow> id \<Rightarrow> id \<Rightarrow> id \<Rightarrow> id \<Rightarrow> decision_body \<Rightarrow> time \<Rightarrow> db \<Rightarrow>
     (db, (int \<times> string) + approval_row) outcome" where
  "decideSessionApproval w userId projectId sessionId approvalId body requestedAt d =
     (case findSession projectId sessionId d of
        None \<Rightarrow> (d, [], Inr (Inl (404, ''Session not found'')))
      | Some session \<Rightarrow>
          (case fst (sessionApprovalState (se_metadata session)) of
             None \<Rightarrow>
               (d, [], Inr (Inl (if findApproval projectId sessionId approvalId d \<noteq> None
                                 then (409, ''Approval is already decided'')
                                 else (404, ''No pending approval for the session''))))
           | Some pending \<Rightarrow>
               if jget pending ''id'' \<noteq> Some (JStr approvalId)
               then (d, [], Inr (Inl (409, ''Approval is no longer pending'')))
               else
                 (case acquireIdleTurnLease projectId sessionId (aw_turn w) (turnLeaseExpiry (aw_now w 0)) (aw_now w 0)
                         (aw_mid w 0 d) of
                    (d1, False) \<Rightarrow> (d1, [], Inr (Inl (409, ''Session is no longer awaiting approval'')))
                  | (d1, True) \<Rightarrow>
                      on_error (and_then (decide_body w userId projectId session pending body requestedAt d1)
                          (\<lambda>row d2. (d2, [], Inr (Inr row))))
                        (\<lambda>message d2.
                           (fst (releaseTurnLease projectId sessionId (aw_turn w)
                                   (upd_state Errored (Some (Some (aw_safe w message))) (aw_now w 7)) d2),
                            [], Inl message)))))"

end
