(* ===== verification/GovernanceFacts.thy ===== *)
theory GovernanceFacts
  imports Governance
begin

text \<open>
  What the governance rules guarantee: a decision under the merged policy is the combination of the
  decisions under its levels, the restrictions that stay in force whatever a narrower level says,
  and the exact conditions under which a provider may be used; with the configurations in which a
  narrower level does weaken a broader one.
\<close>

section \<open>Members of the merged object\<close>

definition document :: "json \<Rightarrow> bool" where
  "document v \<longleftrightarrow> (\<exists>kvs. v = JObj kvs \<and> distinct (map fst kvs))"

fun joined :: "string \<Rightarrow> json option \<Rightarrow> json option \<Rightarrow> json option" where
  "joined key current None = current"
| "joined key None (Some v) = Some v"
| "joined key (Some current) (Some v) = Some (merge_value key current v)"

lemma merge_member_get:
  "jget (merge_member (key, v) merged) k = (if k = key then joined key (jget merged key) (Some v) else jget merged k)"
  by (simp add: merge_member_def split: option.split)

lemma merge_entries_get:
  "distinct (map fst kvs) \<Longrightarrow> jget (fold merge_member kvs merged) k = joined k (jget merged k) (map_of kvs k)"
proof (induction kvs arbitrary: merged)
  case (Cons p kvs)
  obtain key v where p: "p = (key, v)" by (cases p)
  from Cons.prems p have "map_of kvs key = None" by (simp add: map_of_eq_None_iff)
  with Cons p show ?case by (simp add: merge_member_get)
qed simp

lemma merge_snoc:
  assumes "document l"
  shows "jget (mergePolicyObjects (ls @ [l])) k = joined k (jget (mergePolicyObjects ls) k) (jget l k)"
proof -
  from assms obtain kvs where l: "l = JObj kvs" "distinct (map fst kvs)" by (auto simp: document_def)
  from merge_entries_get [OF l(2)] show ?thesis
    by (simp add: mergePolicyObjects_def object_entries_def l(1) jget_def [of "JObj kvs"])
qed

lemma merge_Nil [simp]: "jget (mergePolicyObjects []) k = None"
  by (simp add: mergePolicyObjects_def jget_def)

text \<open>
  A condition on the values of a key that merging keeps: it holds of the merged value exactly when
  it holds of the value of some level.
\<close>

lemma merged_sticky:
  assumes "\<forall>l \<in> set ls. document l \<and> pred_option T (jget l k)"
    and "\<And>c v. T c \<Longrightarrow> T v \<Longrightarrow> T (merge_value k c v) \<and> (P (merge_value k c v) \<longleftrightarrow> P c \<or> P v)"
  shows "pred_option T (jget (mergePolicyObjects ls) k) \<and>
    ((\<exists>v. jget (mergePolicyObjects ls) k = Some v \<and> P v) \<longleftrightarrow> (\<exists>l \<in> set ls. \<exists>v. jget l k = Some v \<and> P v))"
  using assms(1)
proof (induction ls rule: rev_induct)
  case (snoc l ls)
  then show ?case
    by (cases "jget (mergePolicyObjects ls) k"; cases "jget l k") (auto simp: merge_snoc assms(2))
qed simp

section \<open>Lists of names\<close>

definition name_blocked :: "string \<Rightarrow> string \<Rightarrow> json \<Rightarrow> string \<Rightarrow> bool" where
  "name_blocked blocked_key allowed_key p x \<longleftrightarrow>
     includesWildcard (stringArray (jget p blocked_key)) x \<or>
     stringArray (jget p allowed_key) \<noteq> [] \<and> \<not> includesWildcard (stringArray (jget p allowed_key)) x \<or>
     jget p ''defaultEffect'' = Some (JStr ''deny'')"

text \<open>What a level denies whatever its allow list says: a blocked name, or every name by default.\<close>

definition denied_outright :: "string \<Rightarrow> json \<Rightarrow> string \<Rightarrow> bool" where
  "denied_outright blocked_key p x \<longleftrightarrow>
     includesWildcard (stringArray (jget p blocked_key)) x \<or> jget p ''defaultEffect'' = Some (JStr ''deny'')"

text \<open>
  The allow lists of the levels, if there are any, have not come out empty: \<open>intersectAllowLists\<close> of
  disjoint lists, or of one that is empty, is the empty list, which restricts nothing.
\<close>

definition lists_overlap :: "string \<Rightarrow> json list \<Rightarrow> bool" where
  "lists_overlap key ps \<longleftrightarrow>
     list_all (\<lambda>p. stringArray (jget p key) \<noteq> [] \<longrightarrow> stringArray (jget (mergePolicyObjects ps) key) \<noteq> []) ps"

lemma tool_blocked: "policyBlocksTool p x \<noteq> None \<longleftrightarrow> name_blocked ''blockedTools'' ''allowedTools'' p x"
  by (auto simp: policyBlocksTool_def name_blocked_def Let_def)

lemma connector_blocked:
  "policyBlocksConnector p x \<noteq> None \<longleftrightarrow> name_blocked ''blockedConnectors'' ''allowedConnectors'' p x"
  by (auto simp: policyBlocksConnector_def name_blocked_def Let_def)

lemma effect_plain: "\<not> isUnionListKey ''defaultEffect''" "\<not> isAllowListKey ''defaultEffect''"
  by (simp_all add: isUnionListKey_def isAllowListKey_def starts_with_def)

lemma deny_value: "merge_value ''defaultEffect'' c v = JStr ''deny'' \<longleftrightarrow> c = JStr ''deny'' \<or> v = JStr ''deny''"
  by (auto simp: merge_value_def effect_plain split: json.split)

lemma merged_deny:
  assumes "\<forall>l \<in> set ls. document l"
  shows "jget (mergePolicyObjects ls) ''defaultEffect'' = Some (JStr ''deny'') \<longleftrightarrow>
    (\<exists>l \<in> set ls. jget l ''defaultEffect'' = Some (JStr ''deny''))"
  using merged_sticky [of ls "\<lambda>_. True" "''defaultEffect''" "\<lambda>v. v = JStr ''deny''"] assms
  by (simp add: deny_value option.pred_True)

definition name_list :: "json \<Rightarrow> bool" where
  "name_list v \<longleftrightarrow> (\<exists>xs. v = JArr (map JStr xs))"

definition names_at :: "string \<Rightarrow> json \<Rightarrow> bool" where
  "names_at key v \<longleftrightarrow> pred_option name_list (jget v key)"

lemma stringArray_names [simp]: "stringArray (Some (JArr (map JStr xs))) = xs"
  by (induction xs) (simp_all add: stringArray_def List.map_filter_simps)

lemma stringArray_None [simp]: "stringArray None = []"
  by (simp add: stringArray_def)

lemma set_js_set [simp]: "set (js_set xs) = set xs"
proof -
  have "set (fold (\<lambda>x acc. if x \<in> set acc then acc else acc @ [x]) xs acc) = set acc \<union> set xs" for acc :: "string list"
    by (induction xs arbitrary: acc) auto
  then show ?thesis by (simp add: js_set_def)
qed

lemma includes_union: "includesWildcard (js_set (xs @ ys)) x \<longleftrightarrow> includesWildcard xs x \<or> includesWildcard ys x"
  by (auto simp: includesWildcard_def)

lemma includes_intersect:
  "includesWildcard (intersectAllowLists xs ys) x \<longleftrightarrow> includesWildcard xs x \<and> includesWildcard ys x"
  by (auto simp: includesWildcard_def intersectAllowLists_def)

lemma intersect_Nil: "xs = [] \<or> ys = [] \<Longrightarrow> intersectAllowLists xs ys = []"
  by (auto simp: intersectAllowLists_def)

text \<open>A list that unites: a condition on single names holds of the merged list if it does of a level's.\<close>

lemma merged_union:
  assumes "\<forall>l \<in> set ls. document l \<and> names_at k l" "isUnionListKey k"
    and "\<And>xs ys. P (js_set (xs @ ys)) \<longleftrightarrow> P xs \<or> P ys" "\<not> P []"
  shows "P (stringArray (jget (mergePolicyObjects ls) k)) \<longleftrightarrow> (\<exists>l \<in> set ls. P (stringArray (jget l k)))"
proof -
  have "P (stringArray (jget m k)) \<longleftrightarrow> (\<exists>v. jget m k = Some v \<and> P (stringArray (Some v)))" for m
    using assms(4) by (cases "jget m k") simp_all
  moreover have "name_list (merge_value k c v) \<and>
      (P (stringArray (Some (merge_value k c v))) \<longleftrightarrow> P (stringArray (Some c)) \<or> P (stringArray (Some v)))"
    if "name_list c" "name_list v" for c v
    using that assms(2,3) by (auto simp: name_list_def merge_value_def)
  ultimately show ?thesis
    using merged_sticky [of ls name_list k "\<lambda>v. P (stringArray (Some v))"] assms(1) by (simp add: names_at_def)
qed

text \<open>The contract of a key that lists what is allowed: the lists of the levels intersect.\<close>

locale allow_list =
  fixes allowed_key :: string
  assumes allowed_intersects: "isAllowListKey allowed_key" "\<not> isUnionListKey allowed_key"
begin

lemma merged_allowed:
  assumes "\<forall>l \<in> set ls. document l \<and> names_at allowed_key l"
  shows "names_at allowed_key (mergePolicyObjects ls) \<and>
    (jget (mergePolicyObjects ls) allowed_key = None \<longleftrightarrow> (\<forall>l \<in> set ls. jget l allowed_key = None)) \<and>
    (jget (mergePolicyObjects ls) allowed_key \<noteq> None \<longrightarrow>
      (includesWildcard (stringArray (jget (mergePolicyObjects ls) allowed_key)) x \<longleftrightarrow>
       (\<forall>l \<in> set ls. jget l allowed_key \<noteq> None \<longrightarrow> includesWildcard (stringArray (jget l allowed_key)) x)) \<and>
      ((\<exists>l \<in> set ls. jget l allowed_key = Some (JArr [])) \<longrightarrow> jget (mergePolicyObjects ls) allowed_key = Some (JArr [])))"
  using assms
proof (induction ls rule: rev_induct)
  case (snoc l ls)
  then have m: "jget (mergePolicyObjects (ls @ [l])) allowed_key =
      joined allowed_key (jget (mergePolicyObjects ls) allowed_key) (jget l allowed_key)"
    by (simp add: merge_snoc)
  from snoc.prems have l: "names_at allowed_key l" by simp
  note IH = snoc.IH [OF ballI]
  have IH: "names_at allowed_key (mergePolicyObjects ls)"
    "jget (mergePolicyObjects ls) allowed_key = None \<longleftrightarrow> (\<forall>l \<in> set ls. jget l allowed_key = None)"
    "jget (mergePolicyObjects ls) allowed_key \<noteq> None \<Longrightarrow>
      (includesWildcard (stringArray (jget (mergePolicyObjects ls) allowed_key)) x \<longleftrightarrow>
       (\<forall>l \<in> set ls. jget l allowed_key \<noteq> None \<longrightarrow> includesWildcard (stringArray (jget l allowed_key)) x))"
    "jget (mergePolicyObjects ls) allowed_key \<noteq> None \<Longrightarrow>
      (\<exists>l \<in> set ls. jget l allowed_key = Some (JArr [])) \<Longrightarrow> jget (mergePolicyObjects ls) allowed_key = Some (JArr [])"
    using IH snoc.prems by auto
  show ?case
  proof (cases "jget l allowed_key")
    case None
    with IH m show ?thesis by (auto simp: names_at_def name_list_def)
  next
    case (Some v)
    with l obtain ys where v: "v = JArr (map JStr ys)" by (auto simp: names_at_def name_list_def)
    show ?thesis
    proof (cases "jget (mergePolicyObjects ls) allowed_key")
      case None
      with Some v m IH(2) show ?thesis by (auto simp: names_at_def name_list_def)
    next
      case (Some c)
      with IH(1) obtain xs where c: "c = JArr (map JStr xs)" by (auto simp: names_at_def name_list_def)
      have m': "jget (mergePolicyObjects (ls @ [l])) allowed_key = Some (JArr (map JStr (intersectAllowLists xs ys)))"
        using m \<open>jget l allowed_key = Some v\<close> Some v c allowed_intersects by (simp add: merge_value_def)
      show ?thesis
        using IH(3,4) Some c v \<open>jget l allowed_key = Some v\<close>
        by (auto simp: m' names_at_def name_list_def includes_intersect intersect_Nil)
    qed
  qed
qed (simp add: names_at_def)

lemma merged_members:
  assumes "\<forall>l \<in> set ls. document l \<and> names_at allowed_key l" "l \<in> set ls"
    and "stringArray (jget (mergePolicyObjects ls) allowed_key) \<noteq> []"
  shows "(jget l allowed_key \<noteq> None \<longrightarrow> stringArray (jget l allowed_key) \<noteq> []) \<and>
    (stringArray (jget l allowed_key) \<noteq> [] \<longrightarrow> x \<in> set (stringArray (jget (mergePolicyObjects ls) allowed_key)) \<longrightarrow>
       includesWildcard (stringArray (jget l allowed_key)) x)"
proof -
  note allowed = merged_allowed [OF assms(1), of x]
  have some: "jget (mergePolicyObjects ls) allowed_key \<noteq> None"
    using assms(3) by (cases "jget (mergePolicyObjects ls) allowed_key") simp_all
  have "stringArray (jget l allowed_key) \<noteq> []" if "jget l allowed_key \<noteq> None"
  proof
    assume empty: "stringArray (jget l allowed_key) = []"
    from assms(1,2) have "names_at allowed_key l" by blast
    with that obtain xs where "jget l allowed_key = Some (JArr (map JStr xs))"
      by (auto simp: names_at_def name_list_def)
    with empty have "jget l allowed_key = Some (JArr [])" by simp
    with allowed some assms(2) have "jget (mergePolicyObjects ls) allowed_key = Some (JArr [])" by blast
    with assms(3) show False by (simp add: stringArray_def List.map_filter_simps)
  qed
  moreover have "includesWildcard (stringArray (jget l allowed_key)) x"
    if "stringArray (jget l allowed_key) \<noteq> []" "x \<in> set (stringArray (jget (mergePolicyObjects ls) allowed_key))"
  proof -
    have "jget l allowed_key \<noteq> None" using that(1) by (cases "jget l allowed_key") simp_all
    moreover have "includesWildcard (stringArray (jget (mergePolicyObjects ls) allowed_key)) x"
      using that(2) by (simp add: includesWildcard_def)
    ultimately show ?thesis using allowed some assms(2) by blast
  qed
  ultimately show ?thesis by blast
qed

end

text \<open>
  The contract of a pair of keys, one that lists what is blocked and one that lists what is allowed:
  what the lists of the merged object say of a name.
\<close>

locale name_rule = allow_list +
  fixes blocked_key :: string
  assumes blocked_unites: "isUnionListKey blocked_key"
begin

lemma merged_blocked:
  assumes "\<forall>l \<in> set ls. document l \<and> names_at blocked_key l"
  shows "includesWildcard (stringArray (jget (mergePolicyObjects ls) blocked_key)) x \<longleftrightarrow>
    (\<exists>l \<in> set ls. includesWildcard (stringArray (jget l blocked_key)) x)"
  by (rule merged_union [OF assms blocked_unites])
     (simp_all add: includes_union, simp add: includesWildcard_def)

text \<open>
  A decision under the merged object, exactly: the name is on the blocked list of some level, or some
  level denies by default, or, where the intersection of the allow lists has not come out empty, some level
  blocks it. An empty intersection allows everything.
\<close>

lemma merged_rule:
  assumes typed: "\<forall>l \<in> set ls. document l \<and> names_at blocked_key l \<and> names_at allowed_key l"
  shows "name_blocked blocked_key allowed_key (mergePolicyObjects ls) x \<longleftrightarrow>
    (\<exists>l \<in> set ls. denied_outright blocked_key l x) \<or>
    lists_overlap allowed_key ls \<and> (\<exists>l \<in> set ls. name_blocked blocked_key allowed_key l x)"
proof -
  let ?m = "mergePolicyObjects ls" and ?A = "\<lambda>l. stringArray (jget l allowed_key)"
  have "includesWildcard (stringArray (jget ?m blocked_key)) x \<longleftrightarrow>
      (\<exists>l \<in> set ls. includesWildcard (stringArray (jget l blocked_key)) x)"
    using merged_blocked typed by blast
  moreover have "jget ?m ''defaultEffect'' = Some (JStr ''deny'') \<longleftrightarrow>
      (\<exists>l \<in> set ls. jget l ''defaultEffect'' = Some (JStr ''deny''))"
    using merged_deny typed by blast
  ultimately have outright: "denied_outright blocked_key ?m x \<longleftrightarrow> (\<exists>l \<in> set ls. denied_outright blocked_key l x)"
    unfolding denied_outright_def by blast
  have typed': "\<forall>l \<in> set ls. document l \<and> names_at allowed_key l" using typed by blast
  have some: "jget l allowed_key \<noteq> None" if "?A l \<noteq> []" for l using that by (cases "jget l allowed_key") simp_all
  have allow: "?A ?m \<noteq> [] \<and> \<not> includesWildcard (?A ?m) x \<longleftrightarrow>
      lists_overlap allowed_key ls \<and> (\<exists>l \<in> set ls. ?A l \<noteq> [] \<and> \<not> includesWildcard (?A l) x)"
  proof (cases "?A ?m = []")
    case True
    then show ?thesis by (auto simp: lists_overlap_def list_all_iff)
  next
    case False
    have "?A l \<noteq> []" if "l \<in> set ls" "jget l allowed_key \<noteq> None" for l
      using merged_members [OF typed' that(1) False] that(2) by blast
    with False some merged_allowed [OF typed', of x] show ?thesis
      unfolding lists_overlap_def list_all_iff by blast
  qed
  have split: "name_blocked blocked_key allowed_key p x \<longleftrightarrow>
      denied_outright blocked_key p x \<or> ?A p \<noteq> [] \<and> \<not> includesWildcard (?A p) x" for p
    by (auto simp: name_blocked_def denied_outright_def)
  show ?thesis unfolding split outright allow by blast
qed

end

interpretation tool_rule: name_rule "''allowedTools''" "''blockedTools''"
  by unfold_locales (simp_all add: isUnionListKey_def isAllowListKey_def starts_with_def)

interpretation connector_rule: name_rule "''allowedConnectors''" "''blockedConnectors''"
  by unfold_locales (simp_all add: isUnionListKey_def isAllowListKey_def starts_with_def)

interpretation command_rule: name_rule "''allowedCommands''" "''blockedCommands''"
  by unfold_locales (simp_all add: isUnionListKey_def isAllowListKey_def starts_with_def)

interpretation host_list: allow_list "''allowedHosts''"
  by unfold_locales (simp_all add: isUnionListKey_def isAllowListKey_def starts_with_def)

section \<open>The hierarchy\<close>

text \<open>The levels keep the types of the policy schemas.\<close>

definition typed_tool :: "json \<Rightarrow> bool" where
  "typed_tool p \<longleftrightarrow> document p \<and> names_at ''blockedTools'' p \<and> names_at ''allowedTools'' p"

definition typed_mcp :: "json \<Rightarrow> bool" where
  "typed_mcp p \<longleftrightarrow> document p \<and> names_at ''blockedConnectors'' p \<and> names_at ''allowedConnectors'' p"

text \<open>
  C31 (refinement): the effective policy of a hierarchy decides on tools and connectors exactly as
  follows, for levels that are documents of the schema. A name that some level lists as blocked, and every
  name where some level denies by default, is blocked. Beyond that a name is blocked exactly when some
  level blocks it, as long as the allow lists of the levels overlap; where their intersection is empty
  no allow list restricts anything, against the most-restrictive semantics the code promises
  (\<open>disjoint_allow_lists_allow_all\<close>).
\<close>

theorem effective_policy_is_conjunction:
  assumes "\<forall>l \<in> set levels. typed_tool (pl_tool l) \<and> typed_mcp (pl_mcp l)"
  shows "(policyBlocksTool (ef_tool (effectivePolicyFrom levels)) toolName \<noteq> None \<longleftrightarrow>
      (\<exists>l \<in> set levels. denied_outright ''blockedTools'' (pl_tool l) toolName) \<or>
      lists_overlap ''allowedTools'' (map pl_tool levels) \<and> (\<exists>l \<in> set levels. policyBlocksTool (pl_tool l) toolName \<noteq> None)) \<and>
    (policyBlocksConnector (ef_mcp (effectivePolicyFrom levels)) connectorId \<noteq> None \<longleftrightarrow>
      (\<exists>l \<in> set levels. denied_outright ''blockedConnectors'' (pl_mcp l) connectorId) \<or>
      lists_overlap ''allowedConnectors'' (map pl_mcp levels) \<and>
        (\<exists>l \<in> set levels. policyBlocksConnector (pl_mcp l) connectorId \<noteq> None))"
  using assms tool_rule.merged_rule [of "map pl_tool levels" toolName]
    connector_rule.merged_rule [of "map pl_mcp levels" connectorId]
  unfolding tool_blocked connector_blocked
  by (simp add: effectivePolicyFrom_def typed_tool_def typed_mcp_def)

definition demo_level :: "policy_scope \<Rightarrow> json \<Rightarrow> json \<Rightarrow> policy_level" where
  "demo_level scope tools sandbox =
     \<lparr>pl_id = ''l'', pl_scope = scope, pl_team = None, pl_tool = tools, pl_mcp = JObj [], pl_sandbox = sandbox, pl_updated = 0\<rparr>"

definition demo_levels :: "policy_level list" where
  "demo_levels =
     [demo_level Organization (JObj [(''allowedTools'', JArr [JStr ''read'', JStr ''bash''])]) (JObj []),
      demo_level Project (JObj [(''allowedTools'', JArr [JStr ''bash'', JStr ''fetch'']), (''defaultEffect'', JStr ''allow'')]) (JObj [])]"

lemma names_at_simps:
  "names_at k (JObj []) " "jget (JObj ((k', v) # kvs)) k = (if k' = k then Some v else jget (JObj kvs) k)"
  "jget (JObj []) k = None"
  by (auto simp: names_at_def jget_def)

lemma merge_two:
  "mergePolicyObjects [JObj [(''allowedTools'', JArr xs)], JObj [(''allowedTools'', JArr ys), (k, v)]] =
     merge_member (k, v) (JObj [(''allowedTools'', JArr (map JStr (intersectAllowLists
       (stringArray (Some (JArr xs))) (stringArray (Some (JArr ys))))))])"
  by (simp add: mergePolicyObjects_def object_entries_def merge_member_def jget_def jset_def merge_value_def
      isUnionListKey_def isAllowListKey_def starts_with_def)

theorem effective_policy_is_conjunction_witness:
  "policyBlocksTool (ef_tool (effectivePolicyFrom demo_levels)) ''fetch'' \<noteq> None \<and>
   policyBlocksTool (ef_tool (effectivePolicyFrom demo_levels)) ''bash'' = None"
proof -
  have typed: "\<forall>l \<in> set demo_levels. typed_tool (pl_tool l) \<and> typed_mcp (pl_mcp l)"
    by (auto simp: demo_levels_def demo_level_def typed_tool_def typed_mcp_def document_def names_at_simps names_at_def
        name_list_def intro: exI [of _ "[''read'', ''bash'']"] exI [of _ "[''bash'', ''fetch'']"])
  have "lists_overlap ''allowedTools'' (map pl_tool demo_levels)"
    by (simp add: lists_overlap_def demo_levels_def demo_level_def merge_two merge_member_get stringArray_def
        List.map_filter_simps intersectAllowLists_def names_at_simps)
  then show ?thesis
    using effective_policy_is_conjunction [OF typed, of "''fetch''" "''c''"] effective_policy_is_conjunction [OF typed, of "''bash''" "''c''"]
    by (auto simp: demo_levels_def demo_level_def policyBlocksTool_def denied_outright_def names_at_simps stringArray_def
        List.map_filter_simps includesWildcard_def Let_def)
qed

text \<open>
  Without that condition a narrower level lifts the restriction of a broader one: with disjoint
  allow lists, or with an empty one, the merged list is empty and every tool is allowed.
\<close>

theorem disjoint_allow_lists_allow_all:
  assumes "set xs \<inter> set ys = {}" "''*'' \<notin> set xs" "''*'' \<notin> set ys"
  shows "policyBlocksTool (mergePolicyObjects
      [JObj [(''allowedTools'', JArr (map JStr xs))], JObj [(''allowedTools'', JArr (map JStr ys))]]) toolName = None"
proof -
  have "intersectAllowLists xs ys = []" using assms by (auto simp: intersectAllowLists_def filter_empty_conv)
  then have "mergePolicyObjects [JObj [(''allowedTools'', JArr (map JStr xs))], JObj [(''allowedTools'', JArr (map JStr ys))]] =
      JObj [(''allowedTools'', JArr [])]"
    by (simp add: mergePolicyObjects_def object_entries_def merge_member_def jget_def jset_def merge_value_def
        isUnionListKey_def isAllowListKey_def starts_with_def)
  then show ?thesis
    by (simp add: policyBlocksTool_def includesWildcard_def stringArray_def List.map_filter_simps jget_def)
qed

text \<open>The same for a connector whose approval a broader level requires.\<close>

theorem approval_mode_lifted:
  "policyRequiresApproval (JObj [(''connectorApprovalModes'', JObj [(c, JStr ''require_approval'')])]) c t \<and>
   \<not> policyRequiresApproval (mergePolicyObjects
      [JObj [(''connectorApprovalModes'', JObj [(c, JStr ''require_approval'')])],
       JObj [(''connectorApprovalModes'', JObj [(c, JStr ''none'')])]]) c t"
  by (simp add: policyRequiresApproval_def stringRecord_def mergePolicyObjects_def object_entries_def merge_member_def
      jget_def jset_def merge_value_def spread_objects_def nullish_def includesWildcard_def stringArray_def Let_def
      isUnionListKey_def isAllowListKey_def starts_with_def)

section \<open>Restrictions that stay\<close>

definition json_bool :: "json \<Rightarrow> bool" where "json_bool v \<longleftrightarrow> v = JBool True \<or> v = JBool False"

definition status_value :: "json \<Rightarrow> bool" where
  "status_value v \<longleftrightarrow> (\<exists>s. v = JStr s \<and> s \<noteq> ''deny'' \<and> s \<noteq> ''offline'')"

definition network_value :: "json \<Rightarrow> bool" where
  "network_value v \<longleftrightarrow> json_bool v \<or> (\<exists>s. v = JStr s)"

definition typed_sandbox :: "json \<Rightarrow> bool" where
  "typed_sandbox p \<longleftrightarrow>
     document p \<and> names_at ''blockedCommands'' p \<and> names_at ''allowedCommands'' p \<and> names_at ''allowedHosts'' p \<and>
     pred_option json_bool (jget p ''enabled'') \<and> pred_option status_value (jget p ''status'') \<and>
     pred_option network_value (jget p ''network'')"

text \<open>
  The part of a level that stays in force whatever the other levels say. The allow lists and the
  network values \<open>false\<close> and \<open>closed\<close> are not in it: \<open>level_refuses\<close> below is all a level refuses.
\<close>

definition sticky_forbids :: "json \<Rightarrow> sandbox_operation \<Rightarrow> bool" where
  "sticky_forbids p operation \<longleftrightarrow>
     jget p ''enabled'' = Some (JBool False) \<or> jget p ''status'' = Some (JStr ''disabled'') \<or>
     (case operation of
        Op_startup \<Rightarrow> False
      | Op_network _ \<Rightarrow> \<exists>s \<in> set RESTRICTIVE_NETWORK_VALUES. jget p ''network'' = Some (JStr s)
      | Op_command (Some (c # cs)) \<Rightarrow> commandMatchesAny (stringArray (jget p ''blockedCommands'')) (c # cs)
      | Op_command _ \<Rightarrow> stringArray (jget p ''blockedCommands'') \<noteq> [])"

lemma sticky_denied: "sticky_forbids p operation \<Longrightarrow> \<not> dc_allowed (evaluateSandboxRuntimeDecision url p session operation)"
  by (auto simp: sticky_forbids_def evaluateSandboxRuntimeDecision_def denial_def network_decision_def network_disabled_def
      command_decision_def RESTRICTIVE_NETWORK_VALUES_def Let_def split: sandbox_operation.splits option.splits list.splits)

lemma plain_sandbox_keys:
  "\<not> isUnionListKey ''enabled''" "\<not> isUnionListKey ''status''" "\<not> isUnionListKey ''network''"
  "\<not> isAllowListKey ''enabled''" "\<not> isAllowListKey ''status''" "\<not> isAllowListKey ''network''" "isUnionListKey ''blockedCommands''"
  by (simp_all add: isUnionListKey_def isAllowListKey_def starts_with_def)

lemma merge_enabled:
  "json_bool c \<Longrightarrow> json_bool v \<Longrightarrow>
   json_bool (merge_value ''enabled'' c v) \<and> (merge_value ''enabled'' c v = JBool False \<longleftrightarrow> c = JBool False \<or> v = JBool False)"
  by (auto simp: json_bool_def merge_value_def)

lemma merge_status:
  "status_value c \<Longrightarrow> status_value v \<Longrightarrow>
   status_value (merge_value ''status'' c v) \<and>
   (merge_value ''status'' c v = JStr ''disabled'' \<longleftrightarrow> c = JStr ''disabled'' \<or> v = JStr ''disabled'')"
proof -
  assume "status_value c" "status_value v"
  then obtain s r where c: "c = JStr s" "s \<noteq> ''deny''" "s \<noteq> ''offline''" and v: "v = JStr r" "r \<noteq> ''deny''" "r \<noteq> ''offline''"
    unfolding status_value_def by metis
  then have "s \<in> set RESTRICTIVE_NETWORK_VALUES \<longleftrightarrow> s = ''disabled''" by (simp add: RESTRICTIVE_NETWORK_VALUES_def)
  with c v show ?thesis by (simp add: merge_value_def status_value_def)
qed

lemma merge_network:
  "network_value c \<Longrightarrow> network_value v \<Longrightarrow>
   network_value (merge_value ''network'' c v) \<and>
   ((\<exists>s \<in> set RESTRICTIVE_NETWORK_VALUES. merge_value ''network'' c v = JStr s) \<longleftrightarrow>
    (\<exists>s \<in> set RESTRICTIVE_NETWORK_VALUES. c = JStr s) \<or> (\<exists>s \<in> set RESTRICTIVE_NETWORK_VALUES. v = JStr s))"
  unfolding network_value_def json_bool_def
  by (elim disjE exE) (simp_all add: merge_value_def RESTRICTIVE_NETWORK_VALUES_def plain_sandbox_keys)

lemma matches_union: "commandMatchesAny (js_set (xs @ ys)) c \<longleftrightarrow> commandMatchesAny xs c \<or> commandMatchesAny ys c"
  by (auto simp: commandMatchesAny_def list_ex_iff)

lemma js_set_Nil [simp]: "js_set xs = [] \<longleftrightarrow> xs = []"
  using set_js_set [of xs] by (metis set_empty)

lemma forbidden_stays:
  assumes typed: "\<forall>l \<in> set ls. typed_sandbox l"
  shows "sticky_forbids (mergePolicyObjects ls) operation \<longleftrightarrow> (\<exists>l \<in> set ls. sticky_forbids l operation)"
proof -
  let ?m = "mergePolicyObjects ls"
  have "\<forall>l \<in> set ls. document l \<and> pred_option json_bool (jget l ''enabled'')"
    "\<forall>l \<in> set ls. document l \<and> pred_option status_value (jget l ''status'')"
    "\<forall>l \<in> set ls. document l \<and> pred_option network_value (jget l ''network'')"
    using typed by (simp_all add: typed_sandbox_def)
  note sticky = merged_sticky [OF this(1) merge_enabled] merged_sticky [OF this(2) merge_status]
    merged_sticky [OF this(3) merge_network]
  have enabled: "jget ?m ''enabled'' = Some (JBool False) \<longleftrightarrow> (\<exists>l \<in> set ls. jget l ''enabled'' = Some (JBool False))"
    using sticky(1) by simp
  have status: "jget ?m ''status'' = Some (JStr ''disabled'') \<longleftrightarrow> (\<exists>l \<in> set ls. jget l ''status'' = Some (JStr ''disabled''))"
    using sticky(2) by simp
  have network: "(\<exists>s \<in> set RESTRICTIVE_NETWORK_VALUES. jget ?m ''network'' = Some (JStr s)) \<longleftrightarrow>
      (\<exists>l \<in> set ls. \<exists>s \<in> set RESTRICTIVE_NETWORK_VALUES. jget l ''network'' = Some (JStr s))"
    using sticky(3) by blast
  have typed': "\<forall>l \<in> set ls. document l \<and> names_at ''blockedCommands'' l" using typed by (simp add: typed_sandbox_def)
  have command: "commandMatchesAny (stringArray (jget ?m ''blockedCommands'')) c \<longleftrightarrow>
      (\<exists>l \<in> set ls. commandMatchesAny (stringArray (jget l ''blockedCommands'')) c)" for c
    by (rule merged_union [OF typed' plain_sandbox_keys(7)]) (simp_all add: matches_union, simp add: commandMatchesAny_def)
  have some: "stringArray (jget ?m ''blockedCommands'') \<noteq> [] \<longleftrightarrow>
      (\<exists>l \<in> set ls. stringArray (jget l ''blockedCommands'') \<noteq> [])"
    by (rule merged_union [OF typed' plain_sandbox_keys(7)]) auto
  show ?thesis
  proof (cases operation)
    case (Op_command command)
    then show ?thesis
    proof (cases "\<exists>c cs. command = Some (c # cs)")
      case True
      then obtain c cs where c: "command = Some (c # cs)" by blast
      show ?thesis unfolding sticky_forbids_def enabled status Op_command c by (simp add: command) blast
    next
      case False
      then have plain: "sticky_forbids l operation \<longleftrightarrow> jget l ''enabled'' = Some (JBool False) \<or>
          jget l ''status'' = Some (JStr ''disabled'') \<or> stringArray (jget l ''blockedCommands'') \<noteq> []" for l
        by (auto simp: sticky_forbids_def Op_command split: option.split list.split)
      show ?thesis unfolding plain enabled status some by blast
    qed
  next
    case (Op_network h)
    show ?thesis unfolding sticky_forbids_def enabled status Op_network sandbox_operation.case network by blast
  qed (simp add: sticky_forbids_def enabled status, blast)
qed

text \<open>
  What a level of the hierarchy sticky_forbids explicitly stays forbidden, whatever the other
  levels say: a disabled sandbox, a disabled network, and a blocked command.
\<close>

theorem broad_restriction_stays:
  assumes "\<forall>l \<in> set levels. typed_sandbox (pl_sandbox l)" "l \<in> set levels" "sticky_forbids (pl_sandbox l) operation"
  shows "\<not> dc_allowed (evaluateSandboxRuntimeDecision url (ef_sandbox (effectivePolicyFrom levels)) session operation)"
  using assms forbidden_stays [of "map pl_sandbox levels" operation]
  by (intro sticky_denied) (auto simp: effectivePolicyFrom_def)

theorem broad_restriction_stays_witness:
  "\<not> dc_allowed (evaluateSandboxRuntimeDecision (\<lambda>_. None) (ef_sandbox (effectivePolicyFrom
      [demo_level Organization (JObj []) (JObj [(''blockedCommands'', JArr [JStr ''rm'', JStr ''curl''])]),
       demo_level Project (JObj []) (JObj [(''enabled'', JBool True)])])) None (Op_command (Some ''rm -rf .'')))"
  by (rule broad_restriction_stays)
     (auto simp: demo_level_def typed_sandbox_def document_def names_at_simps names_at_def name_list_def json_bool_def
        sticky_forbids_def commandMatchesAny_def commandMatches_def js_trim_def js_space_def starts_with_def stringArray_def
        List.map_filter_simps Let_def intro: exI [of _ "[''rm'', ''curl'']"])

section \<open>Everything a level refuses\<close>

text \<open>All that \<open>evaluateSandboxRuntimeDecision\<close> refuses under one policy document, without an environment.\<close>

definition level_refuses :: "(string \<Rightarrow> string option) \<Rightarrow> json \<Rightarrow> sandbox_operation \<Rightarrow> bool" where
  "level_refuses url p operation \<longleftrightarrow> \<not> dc_allowed (evaluateSandboxRuntimeDecision url p None operation)"

definition refuses_network :: "(string \<Rightarrow> string option) \<Rightarrow> json \<Rightarrow> string option \<Rightarrow> bool" where
  "refuses_network url p host \<longleftrightarrow> network_disabled (jget p ''network'') \<or>
     stringArray (jget p ''allowedHosts'') \<noteq> [] \<and> \<not> hostAllowed url (stringArray (jget p ''allowedHosts'')) host"

definition refuses_command :: "json \<Rightarrow> string option \<Rightarrow> bool" where
  "refuses_command p command \<longleftrightarrow>
     (let blocked = stringArray (jget p ''blockedCommands''); allowed = stringArray (jget p ''allowedCommands'') in
      case command of
        Some (c # cs) \<Rightarrow> commandMatchesAny blocked (c # cs) \<or> allowed \<noteq> [] \<and> \<not> commandMatchesAny allowed (c # cs)
      | _ \<Rightarrow> blocked \<noteq> [] \<or> allowed \<noteq> [])"

lemma network_none_iff:
  "network_decision url p e h = None \<longleftrightarrow>
     \<not> refuses_network url p h \<and> \<not> network_disabled (Some (JStr (environmentNetworkMode e))) \<and>
     (environmentNetworkMode e = ''limited'' \<longrightarrow> hostAllowed url (stringArray (jget e ''allowedHosts'')) h)"
  by (simp add: network_decision_def refuses_network_def Let_def)

lemma command_none_iff: "command_decision p c = None \<longleftrightarrow> \<not> refuses_command p c"
  by (auto simp: command_decision_def refuses_command_def Let_def split: option.split list.split)

lemma decisions_deny:
  "network_decision url p e h = Some x \<Longrightarrow> \<not> dc_allowed x" "command_decision p c = Some x \<Longrightarrow> \<not> dc_allowed x"
  by (auto simp: network_decision_def command_decision_def denial_def Let_def split: option.splits if_splits)

lemma allowed_iff:
  "dc_allowed (evaluateSandboxRuntimeDecision url p session operation) \<longleftrightarrow>
     jget p ''enabled'' \<noteq> Some (JBool False) \<and> jget p ''status'' \<noteq> Some (JStr ''disabled'') \<and>
     (case operation of Op_startup \<Rightarrow> True
      | Op_network h \<Rightarrow> network_decision url p (environment_network session) h = None
      | Op_command c \<Rightarrow> command_decision p c = None)"
proof -
  let ?inner = "case operation of Op_startup \<Rightarrow> None
    | Op_network h \<Rightarrow> network_decision url p (environment_network session) h
    | Op_command c \<Rightarrow> command_decision p c"
  have "\<not> dc_allowed x" if "?inner = Some x" for x
    using that decisions_deny by (cases operation) simp_all
  then have "dc_allowed (case ?inner of None \<Rightarrow> \<lparr>dc_allowed = True, dc_category = ''sandbox'', dc_rule = None,
      dc_message = ''Allowed by sandbox policy.''\<rparr> | Some d \<Rightarrow> d) \<longleftrightarrow> ?inner = None"
    by (cases ?inner) simp_all
  moreover have "?inner = None \<longleftrightarrow> (case operation of Op_startup \<Rightarrow> True
      | Op_network h \<Rightarrow> network_decision url p (environment_network session) h = None
      | Op_command c \<Rightarrow> command_decision p c = None)" by (cases operation) simp_all
  ultimately show ?thesis unfolding evaluateSandboxRuntimeDecision_def Let_def by (simp add: denial_def)
qed

lemma no_environment: "environmentNetworkMode (environment_network None) = ''open''"
  by (simp add: environment_network_def environmentNetworkMode_def jget_def)

lemma level_refuses_iff:
  "level_refuses url p operation \<longleftrightarrow>
     jget p ''enabled'' = Some (JBool False) \<or> jget p ''status'' = Some (JStr ''disabled'') \<or>
     (case operation of Op_startup \<Rightarrow> False | Op_network h \<Rightarrow> refuses_network url p h | Op_command c \<Rightarrow> refuses_command p c)"
  unfolding level_refuses_def allowed_iff
  by (cases operation) (simp_all add: network_none_iff command_none_iff no_environment network_disabled_def)

text \<open>
  Where merging keeps the network value of a level: no narrower level sets it to something that opens the
  network again, or all levels give booleans.
\<close>

definition network_kept :: "json list \<Rightarrow> bool" where
  "network_kept ps \<longleftrightarrow> list_all (\<lambda>p. pred_option json_bool (jget p ''network'')) ps \<or>
     sorted_wrt (\<lambda>p q. network_disabled (jget p ''network'') \<longrightarrow>
       jget q ''network'' = None \<or> network_disabled (jget q ''network'')) ps"

definition operation_merges :: "json list \<Rightarrow> sandbox_operation \<Rightarrow> bool" where
  "operation_merges ps operation \<longleftrightarrow>
     (case operation of
        Op_startup \<Rightarrow> True
      | Op_command _ \<Rightarrow> lists_overlap ''allowedCommands'' ps
      | Op_network _ \<Rightarrow> lists_overlap ''allowedHosts'' ps \<and> network_kept ps)"

lemma network_merges:
  assumes "\<forall>l \<in> set ls. document l \<and> pred_option network_value (jget l ''network'')" "network_kept ls"
    and "l \<in> set ls" "network_disabled (jget l ''network'')"
  shows "network_disabled (jget (mergePolicyObjects ls) ''network'')"
proof (cases "list_all (\<lambda>p. pred_option json_bool (jget p ''network'')) ls")
  case True
  with assms(1) have bools: "\<forall>l \<in> set ls. document l \<and> pred_option json_bool (jget l ''network'')" by (simp add: list_all_iff)
  have "json_bool c \<Longrightarrow> json_bool v \<Longrightarrow> json_bool (merge_value ''network'' c v) \<and>
      (merge_value ''network'' c v = JBool False \<longleftrightarrow> c = JBool False \<or> v = JBool False)" for c v
    by (auto simp: json_bool_def merge_value_def)
  note merged_sticky [OF bools this]
  moreover have "jget l ''network'' = Some (JBool False)"
    using bools assms(3,4) by (cases "jget l ''network''") (auto simp: network_disabled_def json_bool_def split: json.splits)
  ultimately show ?thesis using assms(3) by (auto simp: network_disabled_def)
next
  case False
  with assms(2) have "sorted_wrt (\<lambda>p q. network_disabled (jget p ''network'') \<longrightarrow>
      jget q ''network'' = None \<or> network_disabled (jget q ''network'')) ls" by (simp add: network_kept_def)
  with assms(1,3,4) show ?thesis
  proof (induction ls arbitrary: l rule: rev_induct)
    case (snoc x ls)
    have none: "\<not> network_disabled None" by (simp add: network_disabled_def)
    from snoc.prems(1) have m: "jget (mergePolicyObjects (ls @ [x])) ''network'' =
        joined ''network'' (jget (mergePolicyObjects ls) ''network'') (jget x ''network'')" by (simp add: merge_snoc)
    have earlier: "network_disabled (jget (mergePolicyObjects ls) ''network'')"
      if "p \<in> set ls" "network_disabled (jget p ''network'')" for p
      using snoc.prems(1,4) by (intro snoc.IH [OF _ that]) (simp_all add: sorted_wrt_append)
    show ?case
    proof (cases "network_disabled (jget x ''network'')")
      case True
      then obtain v where v: "jget x ''network'' = Some v" using none by (cases "jget x ''network''") auto
      show ?thesis
      proof (cases "jget (mergePolicyObjects ls) ''network''")
        case None
        with True m v show ?thesis by simp
      next
        case (Some c)
        have "pred_option network_value (jget (mergePolicyObjects ls) ''network'')"
          using merged_sticky [of ls network_value "''network''" "\<lambda>_. True"] merge_network snoc.prems(1) by simp
        with Some have "network_value c" by simp
        with True v have "network_disabled (Some (merge_value ''network'' c v))"
          by (auto simp: network_value_def json_bool_def merge_value_def network_disabled_def RESTRICTIVE_NETWORK_VALUES_def
              isUnionListKey_def split: json.splits)
        with m Some v show ?thesis by simp
      qed
    next
      case False
      with snoc.prems(2,3) have l: "l \<in> set ls" by auto
      from snoc.prems(4) l snoc.prems(3) False have "jget x ''network'' = None" by (auto simp: sorted_wrt_append)
      with m earlier [OF l snoc.prems(3)] show ?thesis by (cases "jget (mergePolicyObjects ls) ''network''") simp_all
    qed
  qed simp
qed

lemma star_host: "url ''*'' = None \<Longrightarrow> normalizeHost url ''*'' = ''*''"
  by (simp add: normalizeHost_def lower_case_def js_trim_def js_space_def ascii_lower_def Let_def)

lemma merged_refuses:
  assumes typed: "\<forall>p \<in> set ps. typed_sandbox p" and merges: "operation_merges ps operation" and url: "url ''*'' = None"
    and p: "p \<in> set ps" and refused: "level_refuses url p operation"
  shows "level_refuses url (mergePolicyObjects ps) operation"
proof (cases "sticky_forbids p operation")
  case True
  with typed p forbidden_stays [OF typed, of operation] have "sticky_forbids (mergePolicyObjects ps) operation" by blast
  then show ?thesis unfolding level_refuses_def by (rule sticky_denied)
next
  case False
  let ?m = "mergePolicyObjects ps"
  have typed': "\<forall>l \<in> set ps. document l \<and> names_at ''allowedCommands'' l" "\<forall>l \<in> set ps. document l \<and> names_at ''allowedHosts'' l"
    "\<forall>l \<in> set ps. document l \<and> pred_option network_value (jget l ''network'')"
    using typed by (simp_all add: typed_sandbox_def)
  show ?thesis
  proof (cases operation)
    case Op_startup
    with False refused show ?thesis by (simp add: level_refuses_iff sticky_forbids_def)
  next
    case (Op_command command)
    let ?A = "\<lambda>q. stringArray (jget q ''allowedCommands'')"
    from False refused Op_command have A: "?A p \<noteq> []"
      "\<And>c cs. command = Some (c # cs) \<Longrightarrow> \<not> commandMatchesAny (?A p) (c # cs)"
      by (auto simp: level_refuses_iff sticky_forbids_def refuses_command_def Let_def split: option.splits list.splits)
    with merges p Op_command have m: "?A ?m \<noteq> []" by (auto simp: operation_merges_def lists_overlap_def list_all_iff)
    have "commandMatchesAny (?A p) c" if c: "commandMatchesAny (?A ?m) c" for c
    proof -
      obtain x where x: "x \<in> set (?A ?m)" "x = ''*'' \<or> commandMatches x c"
        using c by (auto simp: commandMatchesAny_def list_ex_iff)
      with command_rule.merged_members [OF typed'(1) p m] A(1) have "includesWildcard (?A p) x" by blast
      with x(2) show ?thesis by (auto simp: includesWildcard_def commandMatchesAny_def list_ex_iff)
    qed
    with A m have "refuses_command ?m command"
      by (auto simp: refuses_command_def Let_def split: option.split list.split)
    with Op_command show ?thesis by (simp add: level_refuses_iff)
  next
    case (Op_network host)
    let ?A = "\<lambda>q. stringArray (jget q ''allowedHosts'')"
    from merges Op_network have keeps: "lists_overlap ''allowedHosts'' ps" "network_kept ps" by (simp_all add: operation_merges_def)
    from False refused Op_network consider
        "network_disabled (jget p ''network'')" | "?A p \<noteq> []" "\<not> hostAllowed url (?A p) host"
      by (auto simp: level_refuses_iff sticky_forbids_def refuses_network_def)
    then have "refuses_network url ?m host"
    proof cases
      case 1
      with network_merges [OF typed'(3) keeps(2) p] show ?thesis by (simp add: refuses_network_def)
    next
      case 2
      with keeps(1) p have m: "?A ?m \<noteq> []" by (auto simp: lists_overlap_def list_all_iff)
      have "hostAllowed url (?A p) host" if "hostAllowed url (?A ?m) host"
      proof -
        obtain h x where x: "host = Some h" "h \<noteq> []" "x \<in> set (?A ?m)"
          "normalizeHost url x = ''*'' \<or> normalizeHost url x = normalizeHost url h"
          using \<open>hostAllowed url (?A ?m) host\<close> by (auto simp: hostAllowed_def list_ex_iff Let_def split: option.splits)
        with host_list.merged_members [OF typed'(2) p m] 2(1) have "includesWildcard (?A p) x" by blast
        with x star_host [of url, OF url] show ?thesis
          by (auto simp: includesWildcard_def hostAllowed_def list_ex_iff Let_def)
      qed
      with 2 m show ?thesis by (auto simp: refuses_network_def)
    qed
    with Op_network show ?thesis by (simp add: level_refuses_iff)
  qed
qed

text \<open>A decision that allows an operation allows it without the policy, and without the environment.\<close>

lemma allowed_both:
  assumes "dc_allowed (evaluateSandboxRuntimeDecision url p session operation)"
  shows "\<not> level_refuses url p operation \<and> dc_allowed (evaluateSandboxRuntimeDecision url (JObj []) session operation)"
proof -
  have "\<not> refuses_command (JObj []) c" for c
    by (simp add: refuses_command_def names_at_simps commandMatchesAny_def split: option.split list.split)
  moreover have "\<not> refuses_network url (JObj []) h" for h
    by (simp add: refuses_network_def names_at_simps network_disabled_def)
  ultimately show ?thesis
    using assms unfolding level_refuses_iff allowed_iff
    by (cases operation) (simp_all add: network_none_iff command_none_iff names_at_simps)
qed

text \<open>The values of a network that merging does not keep: a narrower level opens it again.\<close>

theorem closed_network_reopened:
  "level_refuses url (JObj [(''network'', JStr ''closed'')]) (Op_network host) \<and>
   level_refuses url (JObj [(''network'', JBool False)]) (Op_network host) \<and>
   \<not> level_refuses url (mergePolicyObjects [JObj [(''network'', JStr ''closed'')], JObj [(''network'', JStr ''open'')]]) (Op_network host) \<and>
   \<not> level_refuses url (mergePolicyObjects [JObj [(''network'', JBool False)], JObj [(''network'', JStr ''open'')]]) (Op_network host)"
  by (simp add: level_refuses_iff refuses_network_def network_disabled_def mergePolicyObjects_def object_entries_def
      merge_member_def jget_def jset_def merge_value_def RESTRICTIVE_NETWORK_VALUES_def)

text \<open>The network words are sticky under every key: a status that disables nothing masks one that does.\<close>

theorem disabled_status_masked:
  "level_refuses url (JObj [(''status'', JStr ''disabled'')]) Op_startup \<and>
   \<not> level_refuses url (mergePolicyObjects [JObj [(''status'', JStr ''deny'')], JObj [(''status'', JStr ''disabled'')]]) Op_startup"
  by (simp add: level_refuses_iff mergePolicyObjects_def object_entries_def merge_member_def jget_def jset_def merge_value_def
      RESTRICTIVE_NETWORK_VALUES_def)

section \<open>Selecting the levels\<close>

lemma row_first_by_key: "row_for key (first_by_key rows) = take 1 (filter (\<lambda>r. level_key r = key) rows)"
proof (induction rows)
  case (Cons row rows)
  show ?case
  proof (cases "level_key row = key")
    case True
    then have "filter (\<lambda>r. level_key r = key) (filter (\<lambda>r. level_key r \<noteq> level_key row) (first_by_key rows)) = []"
      by (auto simp: filter_empty_conv)
    with True show ?thesis by (simp add: row_for_def)
  next
    case False
    then have "filter (\<lambda>r. level_key r = key) (filter (\<lambda>r. level_key r \<noteq> level_key row) (first_by_key rows)) =
        filter (\<lambda>r. level_key r = key) (first_by_key rows)"
      by (auto intro: filter_cong simp: filter_filter)
    with False Cons show ?thesis by (simp add: row_for_def)
  qed
qed (simp add: row_for_def)

lemma distinct_first_by_key: "distinct (map level_key (first_by_key rows))"
  by (induction rows) (auto simp: distinct_map_filter)

lemma first_by_key_subset: "set (first_by_key rows) \<subseteq> set rows"
  by (induction rows) auto

text \<open>Sorting by an injective key does not depend on the order of the input.\<close>

lemma sort_key_unique: "mset xs = mset ys \<Longrightarrow> inj_on f (set xs) \<Longrightarrow> sort_key f xs = sort_key f ys"
  by (rule sort_key_inj_key_eq) simp_all

text \<open>No two rows of one scope and team carry the same time stamp.\<close>

definition stamps_differ :: "policy_level list \<Rightarrow> bool" where
  "stamps_differ rows \<longleftrightarrow> distinct (map (\<lambda>r. (level_key r, pl_updated r)) rows)"

lemma newest_unique:
  assumes "mset rows = mset rows'" "stamps_differ rows"
  shows "row_for key (first_by_key (filter (row_applies teams) (sort_key (\<lambda>r. - pl_updated r) rows))) =
    row_for key (first_by_key (filter (row_applies teams) (sort_key (\<lambda>r. - pl_updated r) rows')))"
proof -
  let ?P = "\<lambda>r. level_key r = key \<and> row_applies teams r"
  have "sort_key (\<lambda>r. - pl_updated r) (filter ?P rows) = sort_key (\<lambda>r. - pl_updated r) (filter ?P rows')"
  proof (rule sort_key_unique)
    show "inj_on (\<lambda>r. - pl_updated r) (set (filter ?P rows))"
      using assms(2) by (intro inj_onI) (auto simp: stamps_differ_def distinct_map dest: inj_onD)
  qed (use assms(1) in \<open>metis mset_filter\<close>)
  then show ?thesis by (simp add: row_first_by_key filter_filter filter_sort conj_commute)
qed

lemma applicable_teams:
  assumes "mset rows = mset rows'" "stamps_differ rows" "inj collate"
  shows "sort_key (\<lambda>r. collate (snd (level_key r))) (filter (\<lambda>r. pl_scope r = Team)
      (first_by_key (filter (row_applies teams) (sort_key (\<lambda>r. - pl_updated r) rows)))) =
    sort_key (\<lambda>r. collate (snd (level_key r))) (filter (\<lambda>r. pl_scope r = Team)
      (first_by_key (filter (row_applies teams) (sort_key (\<lambda>r. - pl_updated r) rows'))))"
    (is "sort_key ?f (filter ?T ?xs) = sort_key ?f (filter ?T ?ys)")
proof (rule sort_key_unique)
  have mem: "r \<in> set zs \<longleftrightarrow> r \<in> set (row_for (level_key r) zs)" for r and zs :: "policy_level list"
    by (simp add: row_for_def)
  have "r \<in> set ?xs \<longleftrightarrow> r \<in> set ?ys" for r
    using mem [of r ?xs] mem [of r ?ys] newest_unique [OF assms(1,2), of "level_key r" teams] by simp
  then have "set ?xs = set ?ys" by blast
  moreover have "distinct ?xs" "distinct ?ys" using distinct_first_by_key by (simp_all add: distinct_map)
  ultimately have "mset ?xs = mset ?ys" by (simp add: set_eq_iff_mset_eq_distinct)
  then show "mset (filter ?T ?xs) = mset (filter ?T ?ys)" by (metis mset_filter)
  have "inj_on level_key (set ?xs)" using distinct_first_by_key by (simp add: distinct_map)
  moreover have "level_key x = level_key y" if "?f x = ?f y" "pl_scope x = Team" "pl_scope y = Team" for x y
    using that assms(3) by (simp add: level_key_def inj_eq)
  ultimately show "inj_on ?f (set (filter ?T ?xs))" by (intro inj_onI) (simp add: inj_on_def)
qed

text \<open>
  Resolving the hierarchy is deterministic: neither the order in which the rows are
  read nor the order of the team claims of the caller changes the levels, and there is at most one
  level of each scope and team, the newest applicable row.
\<close>

theorem resolution_deterministic:
  assumes "mset rows = mset rows'" "stamps_differ rows" "inj collate" "set teams = set teams'"
  shows "applicablePolicyLevels collate rows teams = applicablePolicyLevels collate rows' teams' \<and>
    distinct (map level_key (applicablePolicyLevels collate rows teams)) \<and>
    (\<forall>l \<in> set (applicablePolicyLevels collate rows teams). l \<in> set rows \<and> row_applies teams l \<and>
      (\<forall>r \<in> set rows. row_applies teams r \<and> level_key r = level_key l \<longrightarrow> pl_updated r \<le> pl_updated l))"
proof -
  let ?order = "sort_key (\<lambda>r. - pl_updated r)"
  let ?by = "first_by_key (filter (row_applies teams) (?order rows))"
  have "row_applies teams = row_applies teams'" using assms(4) by (auto simp: row_applies_def fun_eq_iff split: option.splits)
  with newest_unique [OF assms(1,2)] applicable_teams [OF assms(1-3)]
  have "applicablePolicyLevels collate rows teams = applicablePolicyLevels collate rows' teams'"
    by (simp add: applicablePolicyLevels_def Let_def)
  moreover have "distinct (map level_key (applicablePolicyLevels collate rows teams))"
  proof -
    have d: "distinct (map level_key (filter P ?by))" for P using distinct_first_by_key by (rule distinct_map_filter)
    have "distinct (map level_key (sort_key f (filter P ?by)))" for f :: "policy_level \<Rightarrow> string" and P
      using d [of P] by (simp add: distinct_map)
    with d show ?thesis
      by (auto simp: applicablePolicyLevels_def Let_def row_for_def level_key_def)
  qed
  moreover have "l \<in> set rows \<and> row_applies teams l \<and>
      (\<forall>r \<in> set rows. row_applies teams r \<and> level_key r = level_key l \<longrightarrow> pl_updated r \<le> pl_updated l)"
    if "l \<in> set (applicablePolicyLevels collate rows teams)" for l
  proof -
    from that have l: "l \<in> set ?by" by (auto simp: applicablePolicyLevels_def Let_def row_for_def)
    then have "l \<in> set (row_for (level_key l) ?by)" by (simp add: row_for_def)
    then have first: "l \<in> set (take 1 (?order (filter (\<lambda>r. level_key r = level_key l \<and> row_applies teams r) rows)))"
      by (simp add: row_first_by_key filter_filter filter_sort conj_commute)
    have "pl_updated r \<le> pl_updated l" if r: "r \<in> set rows" "row_applies teams r" "level_key r = level_key l" for r
    proof -
      let ?zs = "?order (filter (\<lambda>r. level_key r = level_key l \<and> row_applies teams r) rows)"
      obtain z zs where zs: "?zs = z # zs" "z = l" using first by (cases ?zs) auto
      have "sorted (map (\<lambda>r. - pl_updated r) ?zs)" by simp
      moreover have "r \<in> set ?zs" using r by simp
      ultimately show ?thesis using zs by (auto simp: zs)
    qed
    with l first_by_key_subset show ?thesis by fastforce
  qed
  ultimately show ?thesis by blast
qed

theorem resolution_deterministic_witness:
  "map pl_id (applicablePolicyLevels (\<lambda>s. s)
     [(demo_level Project (JObj []) (JObj []))\<lparr>pl_id := ''p''\<rparr>, (demo_level Organization (JObj []) (JObj []))\<lparr>pl_id := ''o''\<rparr>] []) =
   map pl_id (applicablePolicyLevels (\<lambda>s. s)
     [(demo_level Organization (JObj []) (JObj []))\<lparr>pl_id := ''o''\<rparr>, (demo_level Project (JObj []) (JObj []))\<lparr>pl_id := ''p''\<rparr>] [])"
  (is "map pl_id (applicablePolicyLevels _ ?rows _) = map pl_id (applicablePolicyLevels _ ?rows' _)")
proof -
  have "applicablePolicyLevels (\<lambda>s. s) ?rows [] = applicablePolicyLevels (\<lambda>s. s) ?rows' []"
    using resolution_deterministic [of ?rows ?rows' "\<lambda>s. s" "[]" "[]"]
    by (simp add: stamps_differ_def level_key_def demo_level_def)
  then show ?thesis by simp
qed

text \<open>
  The unique index does not cover the rows without a team, so a project can get two policies of its
  own: the check of a second administrator runs before the insert of the first one.
\<close>

theorem two_policies_of_one_scope:
  assumes "map_of (gv_projects d) (cl_project auth) \<noteq> None" "findPolicyByScope (cl_project auth) Project None d = None"
  shows "\<exists>d1 d2 r1 r2. createPolicy (\<lambda>d. d) auth a Project None docs t d = (d1, Inr r1) \<and>
    createPolicy (\<lambda>_. d1) auth b Project None docs' t' d = (d2, Inr r2) \<and>
    length (filter (in_scope (cl_project auth) Project None) (gv_policies d2)) = 2"
proof -
  have "filter (in_scope (cl_project auth) Project None) (gv_policies d) = []"
    using assms(2) by (simp add: findPolicyByScope_def sql_get_None filter_empty_conv)
  with assms show ?thesis
    by (auto simp: createPolicy_def validatePolicyScope_def insertPolicy_def scope_taken_def sql_exists_iff in_scope_def Let_def)
qed

section \<open>Providers and budgets\<close>

definition provider_usable :: "id \<Rightarrow> gov_db \<Rightarrow> bool" where
  "provider_usable providerId d \<longleftrightarrow>
     (case findProvider providerId d of Some p \<Rightarrow> pv_enabled p | None \<Rightarrow> providerId = ''workers-ai'')"

lemma budgets_exact:
  "evaluateBudgets now bs usage p row m = None \<longleftrightarrow> (\<forall>b \<in> set bs. \<not> (budget_applies p row m b \<and> exhausted now usage b))"
  by (induction bs) auto

lemma budget_denies: "evaluateBudgets now bs usage p row m = Some x \<Longrightarrow> \<exists>b \<in> set bs. x = budget_denial b"
  by (induction bs) (auto split: if_splits)

lemma provider_allowed:
  "dc_allowed (evaluateProviderPolicy auth providerId modelId now d) \<longleftrightarrow>
     provider_usable providerId d \<and>
     (\<forall>b \<in> set (enabledBudgets (cl_project auth) d).
        \<not> (budget_applies providerId (map_option pv_id (findProvider providerId d)) modelId b \<and>
           exhausted now (successfulUsage (cl_project auth) d) b))"
proof -
  have decided: "dc_allowed (case evaluateBudgets now bs usage p row m of Some b \<Rightarrow> b | None \<Rightarrow> ok) \<longleftrightarrow>
      (\<forall>b \<in> set bs. \<not> (budget_applies p row m b \<and> exhausted now usage b))"
    if "dc_allowed ok" for bs usage p row m ok
  proof (cases "evaluateBudgets now bs usage p row m")
    case None
    with budgets_exact [of now bs usage p row m] that show ?thesis by simp
  next
    case (Some x)
    then have "\<not> dc_allowed x" by (auto dest: budget_denies simp: budget_denial_def denial_def)
    moreover have "\<not> (\<forall>b \<in> set bs. \<not> (budget_applies p row m b \<and> exhausted now usage b))"
      using Some budgets_exact [of now bs usage p row m] by simp
    ultimately show ?thesis using Some by simp
  qed
  show ?thesis
    by (cases "findProvider providerId d")
       (simp_all add: evaluateProviderPolicy_def provider_usable_def decided, simp_all add: denial_def)
qed

text \<open>
  C32 (functional): a session may use a provider exactly when the provider is enabled and no enabled
  budget of the project that covers it is used up in its window, or when an administrator asked to
  override; only such an override is reported to be audited, together with the denial it overrode.
\<close>

theorem provider_decision_exact:
  "(dc_allowed (fst (evaluateProviderPolicyForSession auth providerId modelId adminOverride now d)) \<longleftrightarrow>
      provider_usable providerId d \<and>
      (\<forall>b \<in> set (enabledBudgets (cl_project auth) d).
         \<not> (budget_applies providerId (map_option pv_id (findProvider providerId d)) modelId b \<and>
            exhausted now (successfulUsage (cl_project auth) d) b)) \<or>
      adminOverride \<and> (''admin'' \<in> set (cl_roles auth) \<or> ''owner'' \<in> set (cl_roles auth))) \<and>
   snd (evaluateProviderPolicyForSession auth providerId modelId adminOverride now d) =
     (if \<not> dc_allowed (evaluateProviderPolicy auth providerId modelId now d) \<and> adminOverride \<and>
         (''admin'' \<in> set (cl_roles auth) \<or> ''owner'' \<in> set (cl_roles auth))
      then Some (evaluateProviderPolicy auth providerId modelId now d) else None)"
proof -
  have roles: "canOverrideProviderPolicy (cl_roles auth) \<longleftrightarrow> ''admin'' \<in> set (cl_roles auth) \<or> ''owner'' \<in> set (cl_roles auth)"
    by (auto simp: canOverrideProviderPolicy_def list_ex_iff)
  show ?thesis
    unfolding provider_allowed [symmetric] roles [symmetric]
    by (cases "dc_allowed (evaluateProviderPolicy auth providerId modelId now d)"; cases adminOverride)
       (simp_all add: evaluateProviderPolicyForSession_def Let_def)
qed

theorem provider_decision_exact_witness:
  "dc_allowed (fst (evaluateProviderPolicyForSession
     \<lparr>cl_organization = ''o'', cl_project = ''p'', cl_teams = [], cl_roles = [''admin'']\<rparr> ''anthropic'' None True 0
     \<lparr>gv_policies = [], gv_providers = [], gv_usage = [], gv_budgets = [], gv_projects = []\<rparr>))"
  using provider_decision_exact [of "\<lparr>cl_organization = ''o'', cl_project = ''p'', cl_teams = [], cl_roles = [''admin'']\<rparr>"
      "''anthropic''" None True 0 "\<lparr>gv_policies = [], gv_providers = [], gv_usage = [], gv_budgets = [], gv_projects = []\<rparr>"]
  by simp

text \<open>Deleting an enabled budget does not lift it: the evaluation does not look at the deletion.\<close>

lemma deletion_ignored [simp]:
  "exhausted now usage (b\<lparr>bd_deleted := x, bd_updated := t\<rparr>) = exhausted now usage b"
  "budget_applies p row m (b\<lparr>bd_deleted := x, bd_updated := t\<rparr>) = budget_applies p row m b"
  by (simp_all add: exhausted_def window_usage_def consumed_units_def budget_applies_def)

theorem deleted_budget_still_denies:
  assumes "b \<in> set (gv_budgets d)" "bd_enabled b" "bd_project b = cl_project auth"
    and "budget_applies providerId (map_option pv_id (findProvider providerId d)) modelId b"
    and "exhausted now (successfulUsage (cl_project auth) d) b"
  shows "\<not> dc_allowed (evaluateProviderPolicy auth providerId modelId now (deleteBudget (cl_project auth) (bd_id b) t d)) \<and>
    findBudget (cl_project auth) (bd_id b) (deleteBudget (cl_project auth) (bd_id b) t d) = None"
proof -
  let ?d = "deleteBudget (cl_project auth) (bd_id b) t d"
  let ?b = "if live_budget (cl_project auth) (bd_id b) b then b\<lparr>bd_deleted := Some t, bd_updated := t\<rparr> else b"
  have "?b \<in> set (enabledBudgets (cl_project auth) ?d)"
    using assms(1-3) by (auto simp: enabledBudgets_def deleteBudget_def set_sql_update)
  moreover have "budget_applies providerId (map_option pv_id (findProvider providerId ?d)) modelId ?b"
    using assms(4) by (simp add: findProvider_def deleteBudget_def)
  moreover have "exhausted now (successfulUsage (cl_project auth) ?d) ?b"
    using assms(5) by (simp add: successfulUsage_def deleteBudget_def)
  moreover have "findBudget (cl_project auth) (bd_id b) ?d = None"
    by (auto simp: findBudget_def deleteBudget_def sql_get_None set_sql_update live_budget_def)
  ultimately show ?thesis unfolding provider_allowed by blast
qed

end
