(* ===== verification/ApprovalFacts.thy ===== *)
theory ApprovalFacts
  imports Approval GovernanceFacts TurnLease
begin

text \<open>
  What the approval of tool calls guarantees: a call runs only if every level of the governance
  hierarchy lets it and, where approval is required, a decision is on record; a recorded decision is
  what the next turn acts on; and one approval is decided once while its turn is held.
\<close>

section \<open>Rows of one session\<close>

definition calm_approval :: "approval_world \<Rightarrow> bool" where
  "calm_approval w \<longleftrightarrow> (\<forall>k d. aw_mid w k d = d)"

lemma find_updated:
  assumes "su_deleted u = None" "findSession p sid d = Some s"
  shows "findSession p sid (updateSession p sid u d) = Some (persistedSessionWrite u s)"
proof -
  have "live_session p sid (persistedSessionWrite u r) = live_session p sid r" for r
    using assms(1) by (simp add: live_session_def persistedSessionWrite_def)
  moreover have "live_session p sid s" using assms(2) by (auto simp: findSession_def dest: sql_get_Some)
  ultimately show ?thesis
    using assms(2) by (simp add: findSession_def updateSession_def sql_get_update_same)
qed

section \<open>Recorded decisions\<close>

lemma grant_added:
  "jopt (jget (JObj (add_grant kind toolCallId v grants)) kind') c =
     (if kind' = kind \<and> c = toolCallId then Some v
      else if kind' = kind \<and> \<not> is_jobj (map_of grants kind) then None
      else jopt (jget (JObj grants) kind') c)"
  by (auto simp: add_grant_def jget_def jopt_def split: option.splits json.splits)

text \<open>
  C30 (roundtrip): the decision that was recorded for a tool call is the one the gate of the next turn
  gives: an approval lets the call run, a denial refuses it with its reason, and a result supplied by
  the user is returned in its place; the request is no longer pending.
\<close>

theorem recorded_decision_acted_on:
  assumes "grant_entry (snd (sessionApprovalState metadata)) ''denied'' c = None" "pred_option (\<lambda>r. is_jobj (Some r)) (db_result body)"
  shows "fst (sessionApprovalState (decided_metadata body c metadata)) = None \<and>
    tool_gate w required p sid (snd (sessionApprovalState (decided_metadata body c metadata))) c toolName input g =
      (g, [], Inr (Some (if db_approve body then Allowed
         else Refused (case db_reason body of None \<Rightarrow> ''Tool call denied by the user''
                       | Some r \<Rightarrow> if r = [] then ''Tool call denied by the user'' else r) False))) \<and>
    (db_approve body \<and> db_result body \<noteq> None \<longrightarrow>
      resolveToolResult (snd (sessionApprovalState (decided_metadata body c metadata))) c = db_result body)"
proof -
  define old where "old = (case jget metadata ''approvalGrants'' of Some (JObj kvs) \<Rightarrow> kvs | _ \<Rightarrow> [])"
  have old: "snd (sessionApprovalState metadata) = JObj old"
    by (simp add: sessionApprovalState_def asSessionApprovalGrants_def old_def split: option.split json.split)
  have new: "snd (sessionApprovalState (decided_metadata body c metadata)) =
      JObj (if db_approve body
            then (case db_result body of None \<Rightarrow> add_grant ''approved'' c (JBool True) old | Some r \<Rightarrow> add_grant ''results'' c r old)
            else add_grant ''denied'' c (JStr (case db_reason body of None \<Rightarrow> ''Tool call denied by the user'' | Some r \<Rightarrow> r)) old)"
    by (simp add: sessionApprovalState_def asSessionApprovalGrants_def decided_metadata_def old_def [symmetric] Let_def)
  have none: "fst (sessionApprovalState (decided_metadata body c metadata)) = None"
    by (simp add: sessionApprovalState_def decided_metadata_def isPendingSessionApproval_def Let_def)
  have not_denied: "jopt (jget (JObj old) ''denied'') c = None" using assms(1) by (simp add: old grant_entry_def)
  have full: "r \<noteq> JNull \<and> truthy (Some r)" if "db_result body = Some r" for r
    using assms(2) that by (cases r) simp_all
  show ?thesis
    unfolding new using none not_denied full
    by (cases "db_result body")
       (auto simp: tool_gate_def resolveToolResult_def grant_entry_def grant_added nullish_def split: option.split)
qed

definition demo_metadata :: json where
  "demo_metadata = JObj [(''pendingApproval'', JObj [(''id'', JStr ''a''), (''toolCallId'', JStr ''c''),
     (''toolName'', JStr ''bash''), (''input'', JObj [(''command'', JStr ''ls'')])])]"

theorem recorded_decision_acted_on_witness:
  "resolveToolResult (snd (sessionApprovalState (decided_metadata
      \<lparr>db_approve = True, db_reason = None, db_result = Some (JObj [])\<rparr> ''c'' demo_metadata))) ''c'' = Some (JObj [])"
  using recorded_decision_acted_on [of demo_metadata "''c''" "\<lparr>db_approve = True, db_reason = None, db_result = Some (JObj [])\<rparr>"]
  by (simp add: demo_metadata_def sessionApprovalState_def asSessionApprovalGrants_def grant_entry_def jget_def)

section \<open>What an approved call needs\<close>

lemma running_passes:
  assumes "and_then (assertRuntimeSessionRunning p sid g) k = (g', es, Inr v)"
  shows "sessionState p sid (gs_db g) = Some Running \<and> k () g = (g', es, Inr v)"
  using assms by (auto simp: assertRuntimeSessionRunning_def and_then_simps split: if_splits prod.splits)

definition granted :: "json \<Rightarrow> id \<Rightarrow> bool" where
  "granted grants c \<longleftrightarrow> grant_entry grants ''denied'' c = None \<and>
     (truthy (grant_entry grants ''approved'' c) \<or> truthy (grant_entry grants ''results'' c))"

lemma gate_allows:
  assumes "tool_gate w required p sid grants c toolName input g = (g', es, Inr r)" "r = None \<or> r = Some Allowed"
  shows "g' = g \<and> es = [] \<and> (granted grants c \<or> \<not> required)"
  using assms by (auto simp: tool_gate_def granted_def Let_def split: option.splits if_splits prod.splits sum.splits)

lemma call_allowed:
  assumes "approveToolCall w gw p session c toolName input g = (g', es, Inr (Allowed, denied))"
  shows "sessionState p (se_id session) (gs_db g) = Some Running \<and>
    policyBlocksSandboxOperation (gw_url gw) (gw_collate gw) (gw_caller gw) (Some (session_snapshots session)) toolName input (gw_gov gw) = None \<and>
    (granted (snd (sessionApprovalState (se_metadata session))) c \<or>
     \<not> toolPolicyRequiresApproval (gw_collate gw) (gw_caller gw) toolName (gw_gov gw)) \<and>
    g' = g \<and> es = [] \<and> \<not> denied"
proof (cases "policyBlocksSandboxOperation (gw_url gw) (gw_collate gw) (gw_caller gw) (Some (session_snapshots session)) toolName input (gw_gov gw)")
  case None
  from running_passes [OF assms [unfolded approveToolCall_def Let_def]] None
  obtain r es1 es2 where run: "sessionState p (se_id session) (gs_db g) = Some Running"
    and gate: "tool_gate w (toolPolicyRequiresApproval (gw_collate gw) (gw_caller gw) toolName (gw_gov gw)) p (se_id session)
        (snd (sessionApprovalState (se_metadata session))) c toolName input g = (g', es, Inr r)"
    and r: "(case r of None \<Rightarrow> Allowed | Some x \<Rightarrow> x) = Allowed" "\<not> denied"
    by (auto simp: and_then_def split: prod.splits sum.splits)
  from gate_allows [OF gate] r(1) have "g' = g \<and> es = [] \<and> (granted (snd (sessionApprovalState (se_metadata session))) c \<or>
      \<not> toolPolicyRequiresApproval (gw_collate gw) (gw_caller gw) toolName (gw_gov gw))"
    by (auto split: option.splits)
  with run None r(2) show ?thesis by simp
next
  case (Some x)
  obtain dec op where x: "x = (dec, op)" by (cases x)
  from running_passes [OF assms [unfolded approveToolCall_def Let_def]] Some x show ?thesis
    by (auto simp: and_then_def assertRuntimeSessionRunning_def append_event_def split: prod.splits sum.splits if_splits)
qed

definition approval_listed :: "json \<Rightarrow> string \<Rightarrow> bool" where
  "approval_listed p toolName \<longleftrightarrow> includesWildcard (stringArray (jget p ''requireApprovalTools'')) toolName"

lemma approval_required_by_level:
  assumes "\<forall>l \<in> set levels. document (pl_tool l) \<and> names_at ''requireApprovalTools'' (pl_tool l)"
  shows "toolPolicyRequiresApprovalRule (ef_tool (effectivePolicyFrom levels)) toolName \<longleftrightarrow>
    (\<exists>l \<in> set levels. approval_listed (pl_tool l) toolName)"
proof -
  have key: "isUnionListKey ''requireApprovalTools''" by (simp add: isUnionListKey_def starts_with_def)
  have "includesWildcard (stringArray (jget (mergePolicyObjects (map pl_tool levels)) ''requireApprovalTools'')) toolName \<longleftrightarrow>
      (\<exists>p \<in> set (map pl_tool levels). includesWildcard (stringArray (jget p ''requireApprovalTools'')) toolName)"
    by (rule merged_union [OF _ key]) (use assms in \<open>auto simp: includes_union includesWildcard_def\<close>)
  then show ?thesis
    by (simp add: toolPolicyRequiresApprovalRule_def effectivePolicyFrom_def approval_listed_def)
qed

text \<open>
  C28 (safety): a tool call is let through only while its session is running and, where some level of
  the governance hierarchy asks for approval of the tool, only if a decision that approved this very call is
  on record. A sandbox operation is let through only if the environment of the session lets it, if no
  level that applies to the caller disables the sandbox, disables the network by a restrictive word or blocks the
  command, and, where merging the levels keeps their restrictions (\<open>operation_merges\<close>), if no level refuses the
  operation for any reason, its allow lists of commands and hosts included. The exceptions are of the code:
  allow lists whose intersection is empty restrict nothing, and a network closed by \<open>closed\<close> or \<open>false\<close> is
  opened again by a narrower level (\<open>closed_network_reopened\<close>). The levels are documents of the schema whose
  status is neither \<open>deny\<close> nor \<open>offline\<close>, which mask a narrower \<open>disabled\<close> (\<open>disabled_status_masked\<close>), and
  \<open>new URL\<close> rejects a lone star.
\<close>

theorem approved_call_permitted:
  assumes "approveToolCall w gw p session c toolName input g = (g', es, Inr (Allowed, denied))"
    and "levels = applicablePolicyLevels (gw_collate gw) (policyLevels (gw_caller gw) (gw_gov gw)) (cl_teams (gw_caller gw))"
    and "\<forall>l \<in> set levels. typed_sandbox (pl_sandbox l) \<and> document (pl_tool l) \<and> names_at ''requireApprovalTools'' (pl_tool l)"
    and "gw_url gw ''*'' = None"
  shows "sessionState p (se_id session) (gs_db g) = Some Running \<and>
    ((\<exists>l \<in> set levels. approval_listed (pl_tool l) toolName) \<longrightarrow>
       granted (snd (sessionApprovalState (se_metadata session))) c) \<and>
    (\<forall>op. sandboxOperationForRuntimeTool (gw_url gw) toolName input = Some op \<longrightarrow>
       dc_allowed (evaluateSandboxRuntimeDecision (gw_url gw) (JObj []) (Some (session_snapshots session)) (ro_operation op)) \<and>
       (\<forall>l \<in> set levels. \<not> sticky_forbids (pl_sandbox l) (ro_operation op)) \<and>
       (operation_merges (map pl_sandbox levels) (ro_operation op) \<longrightarrow>
          (\<forall>l \<in> set levels. \<not> level_refuses (gw_url gw) (pl_sandbox l) (ro_operation op))))"
proof -
  note allowed = call_allowed [OF assms(1)]
  have typed: "\<forall>p \<in> set (map pl_sandbox levels). typed_sandbox p" using assms(3) by simp
  have op: "dc_allowed (evaluateSandboxRuntimeDecision (gw_url gw) (JObj []) (Some (session_snapshots session)) (ro_operation op)) \<and>
      (\<forall>l \<in> set levels. \<not> sticky_forbids (pl_sandbox l) (ro_operation op)) \<and>
      (operation_merges (map pl_sandbox levels) (ro_operation op) \<longrightarrow>
         (\<forall>l \<in> set levels. \<not> level_refuses (gw_url gw) (pl_sandbox l) (ro_operation op)))"
    if op: "sandboxOperationForRuntimeTool (gw_url gw) toolName input = Some op" for op
  proof -
    have eval: "dc_allowed (evaluateSandboxRuntimeDecision (gw_url gw) (mergePolicyObjects (map pl_sandbox levels))
        (Some (session_snapshots session)) (ro_operation op))"
      using allowed op by (simp add: policyBlocksSandboxOperation_def evaluateSandboxRuntimePolicy_def
          resolveEffectivePolicy_def effectivePolicyFrom_def assms(2) Let_def split: if_splits)
    note both = allowed_both [OF eval]
    have "\<not> sticky_forbids (mergePolicyObjects (map pl_sandbox levels)) (ro_operation op)"
      using eval sticky_denied by blast
    with forbidden_stays [OF typed, of "ro_operation op"]
    have "\<forall>l \<in> set levels. \<not> sticky_forbids (pl_sandbox l) (ro_operation op)" by auto
    moreover have "\<forall>l \<in> set levels. \<not> level_refuses (gw_url gw) (pl_sandbox l) (ro_operation op)"
      if "operation_merges (map pl_sandbox levels) (ro_operation op)"
      using merged_refuses [of "map pl_sandbox levels" "ro_operation op" "gw_url gw", OF typed that assms(4)] both by auto
    ultimately show ?thesis using both by blast
  qed
  have "granted (snd (sessionApprovalState (se_metadata session))) c" if "\<exists>l \<in> set levels. approval_listed (pl_tool l) toolName"
    using allowed that approval_required_by_level [of levels toolName] assms(3)
    by (simp add: toolPolicyRequiresApproval_def resolveEffectivePolicy_def assms(2))
  then show ?thesis using allowed op by blast
qed

definition demo_gov :: gov_db where
  "demo_gov = \<lparr>gv_policies = [\<lparr>py_organization = ''o'', py_project = ''p'',
       py_level = demo_level Organization (JObj [(''requireApprovalTools'', JArr [JStr ''bash''])])
         (JObj [(''allowedCommands'', JArr [JStr ''ls''])]),
       py_metadata = JObj [], py_created = 0\<rparr>],
     gv_providers = [], gv_usage = [], gv_budgets = [], gv_projects = [(''p'', False)]\<rparr>"

definition demo_caller :: caller where
  "demo_caller = \<lparr>cl_organization = ''o'', cl_project = ''p'', cl_teams = [], cl_roles = []\<rparr>"

definition demo_governance :: governance_world where
  "demo_governance = \<lparr>gw_url = (\<lambda>_. None), gw_collate = (\<lambda>s. s), gw_caller = demo_caller, gw_gov = demo_gov\<rparr>"

definition demo_grants :: json where
  "demo_grants = JObj [(''approved'', JObj [(''c'', JBool True)])]"

definition demo_granted :: session_row where
  "demo_granted = demo_session\<lparr>se_metadata := JObj [(''approvalGrants'', demo_grants)]\<rparr>"

definition demo_approval_world :: approval_world where
  "demo_approval_world = \<lparr>aw_organization = ''o'', aw_turn = ''t'', aw_approval = ''a'', aw_now = (\<lambda>_. 0), aw_mid = (\<lambda>_ d. d), aw_events = (\<lambda>_. Inr ''e''),
     aw_activate = None, aw_execute = Inr (Inr (JObj [])), aw_safe = (\<lambda>m. m), aw_message = ''m'', aw_parent = (\<lambda>_. None), aw_stringify = (\<lambda>_. []),
     aw_inline = None\<rparr>"

definition demo_ls :: json where
  "demo_ls = JObj [(''command'', JStr ''ls'')]"

lemma demo_policy_levels:
  "applicablePolicyLevels (gw_collate demo_governance) (policyLevels (gw_caller demo_governance) (gw_gov demo_governance))
      (cl_teams (gw_caller demo_governance)) =
   [demo_level Organization (JObj [(''requireApprovalTools'', JArr [JStr ''bash''])]) (JObj [(''allowedCommands'', JArr [JStr ''ls''])])]"
  by (simp add: demo_governance_def demo_caller_def demo_gov_def policyLevels_def applicablePolicyLevels_def
      demo_level_def row_applies_def row_for_def level_key_def Let_def)

lemma demo_merged: "mergePolicyObjects [JObj [(''allowedCommands'', JArr [JStr ''ls''])]] = JObj [(''allowedCommands'', JArr [JStr ''ls''])]"
  by (simp add: mergePolicyObjects_def object_entries_def merge_member_def jget_def jset_def)

lemma demo_ls_allowed: "commandMatches ''ls'' ''ls''"
  by (simp add: commandMatches_def)

lemma demo_unblocked:
  "policyBlocksSandboxOperation (gw_url demo_governance) (gw_collate demo_governance) (gw_caller demo_governance) session ''bash'' demo_ls
     (gw_gov demo_governance) = None"
proof -
  have "ef_sandbox (resolveEffectivePolicy (gw_collate demo_governance) (gw_caller demo_governance) (gw_gov demo_governance)) =
      JObj [(''allowedCommands'', JArr [JStr ''ls''])]"
    unfolding resolveEffectivePolicy_def demo_policy_levels by (simp add: effectivePolicyFrom_def demo_level_def demo_merged)
  moreover have "command_decision (JObj [(''allowedCommands'', JArr [JStr ''ls''])]) (Some ''ls'') = None"
    by (simp add: command_decision_def names_at_simps stringArray_def List.map_filter_simps demo_ls_allowed commandMatchesAny_def)
  ultimately show ?thesis
    by (simp add: policyBlocksSandboxOperation_def sandboxOperationForRuntimeTool_def evaluateSandboxRuntimePolicy_def
        evaluateSandboxRuntimeDecision_def demo_ls_def names_at_simps Let_def)
qed

lemma demo_approved_call:
  "approveToolCall demo_approval_world demo_governance ''p'' demo_granted ''c'' ''bash'' demo_ls
     \<lparr>gs_pending = None, gs_db = session_db [demo_granted]\<rparr> =
   (\<lparr>gs_pending = None, gs_db = session_db [demo_granted]\<rparr>, [], Inr (Allowed, False))"
  by (simp add: approveToolCall_def assertRuntimeSessionRunning_def and_then_simps sessionState_def findSession_def
      session_db_def sql_get_def live_session_def demo_granted_def demo_session_def demo_unblocked
      Let_def tool_gate_def sessionApprovalState_def asSessionApprovalGrants_def
      grant_entry_def demo_grants_def jget_def jopt_def)

text \<open>The one policy of the project asks for approval of the tool and allows one command.\<close>

theorem approved_call_permitted_witness:
  "granted (snd (sessionApprovalState (se_metadata demo_granted))) ''c'' \<and>
   \<not> level_refuses (gw_url demo_governance) (JObj [(''allowedCommands'', JArr [JStr ''ls''])]) (Op_command (Some ''ls''))"
proof -
  let ?levels = "applicablePolicyLevels (gw_collate demo_governance) (policyLevels (gw_caller demo_governance) (gw_gov demo_governance))
      (cl_teams (gw_caller demo_governance))"
  have typed: "\<forall>l \<in> set ?levels. typed_sandbox (pl_sandbox l) \<and> document (pl_tool l) \<and> names_at ''requireApprovalTools'' (pl_tool l)"
    unfolding demo_policy_levels by (auto simp: demo_level_def typed_sandbox_def document_def names_at_simps names_at_def name_list_def jget_def
        intro: exI [of _ "[''bash'']"] exI [of _ "[''ls'']"])
  have "\<exists>l \<in> set ?levels. approval_listed (pl_tool l) ''bash''"
    unfolding demo_policy_levels by (simp add: demo_level_def approval_listed_def jget_def stringArray_def List.map_filter_simps includesWildcard_def)
  moreover have "operation_merges (map pl_sandbox ?levels) (Op_command (Some ''ls''))"
    unfolding demo_policy_levels by (simp add: demo_level_def operation_merges_def lists_overlap_def demo_merged)
  moreover have "sandboxOperationForRuntimeTool (gw_url demo_governance) ''bash'' demo_ls =
      Some \<lparr>ro_operation = Op_command (Some ''ls''), ro_resource_type = ''sandbox_command'',
        ro_resource_id = takeWhile (\<lambda>x. \<not> js_space x) (js_trim ''ls'')\<rparr>"
    by (simp add: sandboxOperationForRuntimeTool_def demo_ls_def names_at_simps Let_def)
  moreover have "gw_url demo_governance ''*'' = None" by (simp add: demo_governance_def)
  ultimately show ?thesis
    using approved_call_permitted [OF demo_approved_call refl typed] unfolding demo_policy_levels by (fastforce simp: demo_level_def)
qed

section \<open>A call that nobody approved\<close>

lemma recorded_request:
  "fst (sessionApprovalState (jset ''pendingApproval'' (pending_approval w c toolName input eid t) metadata)) =
     Some (pending_approval w c toolName input eid t)"
  by (simp add: sessionApprovalState_def isPendingSessionApproval_def pending_approval_def jopt_def names_at_simps(2,3))

text \<open>
  A call that needs approval and has no decision is refused, the request is recorded
  on the session, and the session goes idle for want of it; of what the turn still does, only the
  events of that call are swallowed, and the first other event stops it.
\<close>

theorem ungranted_call_parks:
  assumes "calm_approval w" "aw_events w 0 = Inr eid" "findSession p sid (gs_db g) = Some s"
    and "grant_entry grants ''denied'' c = None" "\<not> granted grants c"
    and "tool_gate w True p sid grants c toolName input g = (g', es, r)"
  shows "r = Inr (Some (Refused ''Tool call requires user approval'' True)) \<and>
    es = [D_event ''permission.requested'' (approval_request w c toolName input), D_audit ''session.tool_approval_requested'' Denied] \<and>
    gate_requiresAction g' \<and> sessionState p sid (gs_db g') = Some Idle \<and>
    (\<exists>s'. findSession p sid (gs_db g') = Some s' \<and> se_reason s' = Some ''requires-action'' \<and>
       fst (sessionApprovalState (se_metadata s')) = Some (pending_approval w c toolName input eid (aw_now w 0))) \<and>
    on_event w p sid event g' =
      (g', [], if c \<noteq> [] \<and> jstr (jopt (jopt (jget event ''payload'') ''toolCall'') ''id'') = Some c then Inr () else Inl turn_cancelled)"
proof -
  let ?m = "jset ''pendingApproval'' (pending_approval w c toolName input eid (aw_now w 0)) (se_metadata s)"
  let ?d1 = "updateSession p sid (no_update\<lparr>su_metadata := Some ?m, su_updated := Some (aw_now w 1)\<rparr>) (gs_db g)"
  let ?d2 = "updateSession p sid (upd_state Idle (Some (Some ''requires-action'')) (aw_now w 2)) ?d1"
  have calm: "aw_mid w k d = d" for k d using assms(1) by (simp add: calm_approval_def)
  have "writeSessionApprovalState w 1 p sid (jset ''pendingApproval'' (pending_approval w c toolName input eid (aw_now w 0)))
      (aw_now w 1) (gs_db g) = ?d1"
    by (simp add: writeSessionApprovalState_def assms(3) calm)
  then have run: "g' = \<lparr>gs_pending = Some c, gs_db = ?d2\<rparr>"
      "es = [D_event ''permission.requested'' (approval_request w c toolName input), D_audit ''session.tool_approval_requested'' Denied]"
      "r = Inr (Some (Refused ''Tool call requires user approval'' True))"
    using assms(2,4-6) by (auto simp: tool_gate_def granted_def append_event_def calm Let_def)
  have "findSession p sid ?d1 = Some (persistedSessionWrite (no_update\<lparr>su_metadata := Some ?m, su_updated := Some (aw_now w 1)\<rparr>) s)"
    by (rule find_updated [OF _ assms(3)]) (simp add: no_update_def)
  from find_updated [OF _ this, of "upd_state Idle (Some (Some ''requires-action'')) (aw_now w 2)"]
  obtain s' where s': "findSession p sid ?d2 = Some s'" "se_state s' = P_idle" "se_reason s' = Some ''requires-action''" "se_metadata s' = ?m"
    by (simp add: upd_state_def no_update_def persistedSessionWrite_def)
  then have idle: "sessionState p sid ?d2 = Some Idle" by (simp add: sessionState_def)
  have "on_event w p sid event g' =
      (g', [], if c \<noteq> [] \<and> jstr (jopt (jopt (jget event ''payload'') ''toolCall'') ''id'') = Some c then Inr () else Inl turn_cancelled)"
    using idle by (simp add: on_event_def run shouldSuppressEvent_def assertRuntimeSessionRunning_def and_then_simps truthy_str_def)
  then show ?thesis using run s' idle by (simp add: gate_requiresAction_def recorded_request)
qed

theorem ungranted_call_parks_witness:
  "sessionState ''p'' ''s'' (gs_db (fst (tool_gate demo_approval_world True ''p'' ''s'' (JObj []) ''c'' ''read'' (JObj [])
     \<lparr>gs_pending = None, gs_db = session_db [demo_session]\<rparr>))) = Some Idle"
proof -
  let ?g = "\<lparr>gs_pending = None, gs_db = session_db [demo_session]\<rparr>"
  obtain g' es r where run: "tool_gate demo_approval_world True ''p'' ''s'' (JObj []) ''c'' ''read'' (JObj []) ?g = (g', es, r)"
    by (cases "tool_gate demo_approval_world True ''p'' ''s'' (JObj []) ''c'' ''read'' (JObj []) ?g")
  have "calm_approval demo_approval_world" "aw_events demo_approval_world 0 = Inr ''e''"
    by (simp_all add: calm_approval_def demo_approval_world_def)
  moreover have "findSession ''p'' ''s'' (gs_db ?g) = Some demo_session"
    by (simp add: findSession_def session_db_def sql_get_def live_session_def demo_session_def)
  moreover have "grant_entry (JObj []) ''denied'' ''c'' = None" "\<not> granted (JObj []) ''c''"
    by (simp_all add: granted_def grant_entry_def jopt_def jget_def)
  ultimately show ?thesis using ungranted_call_parks [OF _ _ _ _ _ run] run by fastforce
qed

section \<open>Deciding a request\<close>

lemma decision_taken:
  assumes "decideSessionApproval w userId p sid aid body requestedAt d = (d', es, Inr (Inr row))"
  obtains s pending d1 where "findSession p sid d = Some s" "fst (sessionApprovalState (se_metadata s)) = Some pending"
    "jget pending ''id'' = Some (JStr aid)"
    "acquireIdleTurnLease p sid (aw_turn w) (turnLeaseExpiry (aw_now w 0)) (aw_now w 0) (aw_mid w 0 d) = (d1, True)"
    "decide_body w userId p s pending body requestedAt d1 = (d', es, Inr row)"
  using assms
  by (auto simp: decideSessionApproval_def and_then_def on_error_def
      split: option.splits if_splits prod.splits sum.splits bool.splits)

text \<open>In a calm world only the approval state of the session changes after the lease is taken.\<close>

lemma append_event_kept: "append_event w k type payload d = (d', es, r) \<Longrightarrow> d' = d"
  by (auto simp: append_event_def split: sum.splits)

lemma decided_result_kept:
  "calm_approval w \<Longrightarrow> decided_result w s pending body d = (d', es, r) \<Longrightarrow> d' = d"
  by (auto simp: decided_result_def calm_approval_def Let_def split: option.splits sum.splits if_splits)

lemma append_result_kept: "append_result w c result d = (d', es, r) \<Longrightarrow> d' = d"
  by (auto simp: append_result_def append_event_def and_then_def split: option.splits sum.splits prod.splits)

lemma upsertApproval_sessions: "upsertApproval row t d = Some d' \<Longrightarrow> sessions d' = sessions d"
  by (auto simp: upsertApproval_def split: if_splits)

abbreviation decision_update :: "approval_world \<Rightarrow> decision_body \<Rightarrow> json \<Rightarrow> session_row \<Rightarrow> session_update" where
  "decision_update w body pending s \<equiv>
     no_update\<lparr>su_metadata := Some (decided_metadata body (text_at pending ''toolCallId'') (se_metadata s)),
       su_updated := Some (aw_now w 2)\<rparr>"

lemma decide_body_sessions:
  assumes "calm_approval w" "aw_inline w = None" "findSession p (se_id s) d1 = Some s1"
    and "decide_body w userId p s pending body requestedAt d1 = (d', es, r)"
  shows "(\<exists>e. r = Inl e) \<and> sessions d' = sessions d1 \<or>
    sessions d' = sessions (updateSession p (se_id s) (decision_update w body pending s1) d1)"
proof -
  have calm: "aw_mid w k d = d" for k d using assms(1) by (simp add: calm_approval_def)
  have wrote: "writeSessionApprovalState w 2 p (se_id s) (decided_metadata body (text_at pending ''toolCallId'')) (aw_now w 2) d1 =
      updateSession p (se_id s) (decision_update w body pending s1) d1"
    by (simp add: writeSessionApprovalState_def assms(3) calm)
  have resumed: "d6 = d5" if "resume_turn w p (se_id s) d5 = (d6, es', r')" for d5 d6 es' r'
    using that by (auto simp: resume_turn_def assms(2) split: option.splits)
  show ?thesis
    using assms(4)
    by (auto simp: decide_body_def Let_def calm wrote dest!: append_event_kept decided_result_kept [OF assms(1)]
        append_result_kept resumed upsertApproval_sessions elim!: and_then_cases split: option.splits prod.splits)
qed

lemma idle_acquired:
  assumes "distinct (map se_id (sessions d))" "findSession p sid d = Some s"
    and "acquireIdleTurnLease p sid me e t d = (d1, True)"
  shows "findSession p sid d1 = Some (s\<lparr>se_state := P_running, se_reason := None, se_active_turn := Some me,
      se_turn_expires := Some e, se_depth := 0, se_updated := t\<rparr>)" "se_id s = sid"
proof -
  let ?P = "\<lambda>r. se_id r = sid \<and> turn_guard p (persistedSessionState Idle) t r"
  let ?f = "\<lambda>s. s\<lparr>se_state := persistedSessionState Running, se_reason := None, se_active_turn := Some me,
      se_turn_expires := Some e, se_depth := 0, se_updated := t\<rparr>"
  from assms(3) have d1: "d1 = d\<lparr>sessions := sql_update ?P ?f (sessions d)\<rparr>" and hit: "sql_exists ?P (sessions d)"
    by (auto simp: acquireIdleTurnLease_def session_cas_def cas_row_def)
  from assms(2) have s: "s \<in> set (sessions d)" "live_session p sid s" by (auto simp: findSession_def dest: sql_get_Some)
  then show "se_id s = sid" by (simp add: live_session_def)
  from hit obtain r where r: "r \<in> set (sessions d)" "?P r" by (auto simp: sql_exists_iff)
  with s have "r = s" using distinct_key_eq [OF assms(1)] by (simp add: live_session_def)
  with r have "?P s" by simp
  then show "findSession p sid d1 = Some (s\<lparr>se_state := P_running, se_reason := None, se_active_turn := Some me,
      se_turn_expires := Some e, se_depth := 0, se_updated := t\<rparr>)"
    using assms(2) unfolding d1 findSession_def
    by (simp add: sql_get_update_same live_session_def)
qed

lemma decided_pending: "fst (sessionApprovalState (decided_metadata body c metadata)) = None"
  by (simp add: sessionApprovalState_def decided_metadata_def isPendingSessionApproval_def Let_def)

lemma same_sessions: "sessions d' = sessions d \<Longrightarrow> findSession p sid d' = findSession p sid d"
  by (simp add: findSession_def)

lemma after_decision:
  assumes "calm_approval w" "aw_inline w = None" "distinct (map se_id (sessions d))"
    and "decideSessionApproval w userId p sid aid body requestedAt d = (d', es, Inr (Inr row))"
  obtains s' where "findSession p sid d' = Some s'" "se_state s' = P_running"
    "se_active_turn s' = Some (aw_turn w)" "fst (sessionApprovalState (se_metadata s')) = None"
    "distinct (map se_id (sessions d'))" "se_turn_expires s' = Some (turnLeaseExpiry (aw_now w 0))"
proof -
  obtain s pending d1 where found: "findSession p sid d = Some s"
    and won: "acquireIdleTurnLease p sid (aw_turn w) (turnLeaseExpiry (aw_now w 0)) (aw_now w 0) d = (d1, True)"
    and body: "decide_body w userId p s pending body requestedAt d1 = (d', es, Inr row)"
    using decision_taken [OF assms(4)] assms(1) by (metis calm_approval_def)
  note acquired = idle_acquired [OF assms(3) found won]
  let ?s1 = "s\<lparr>se_state := P_running, se_reason := None, se_active_turn := Some (aw_turn w),
      se_turn_expires := Some (turnLeaseExpiry (aw_now w 0)), se_depth := 0, se_updated := aw_now w 0\<rparr>"
  have find1: "findSession p (se_id s) d1 = Some ?s1" using acquired by simp
  from decide_body_sessions [OF assms(1,2) find1 body]
  have rows: "sessions d' = sessions (updateSession p sid (decision_update w body pending ?s1) d1)"
    using acquired(2) by simp
  have ids: "distinct (map se_id (sessions d'))"
    using assms(3) won unfolding rows
    by (auto simp: updateSession_def map_sql_update acquireIdleTurnLease_def session_cas_def cas_row_def)
  have "findSession p sid d' = Some (persistedSessionWrite (decision_update w body pending ?s1) ?s1)"
    unfolding same_sessions [OF rows] by (rule find_updated [OF _ acquired(1)]) (simp add: no_update_def)
  then show ?thesis
    by (rule that) (simp_all add: persistedSessionWrite_def no_update_def decided_pending ids)
qed

text \<open>
  C29 (safety): where decisions resume the session through the queue, a request is decided once as long
  as the turn that the decision took is held. After a decision the request is gone from the session, and whatever
  statements other processes issue from then on, any decision whose claim of the turn comes before that turn expires
  or is released is refused without a write: one that reads the session only then, and one that had still read the
  pending request, before the decision or at any other time. A decider that stays behind until the resumed turn has gone
  idle is not covered: nothing makes it read the request again, and it decides a second time.
\<close>

theorem approval_decided_once:
  assumes "calm_approval w" "aw_inline w = None" "distinct (map se_id (sessions d))"
    and "decideSessionApproval w userId p sid aid body requestedAt d = (d', es, Inr (Inr row))"
    and later: "(turn_step sid (aw_turn w) (turnLeaseExpiry (aw_now w 0)))\<^sup>*\<^sup>* d' (aw_mid w2 0 d2)"
    and soon: "aw_now w2 0 \<le> turnLeaseExpiry (aw_now w 0)"
  shows "(\<exists>s'. findSession p sid d' = Some s' \<and> fst (sessionApprovalState (se_metadata s')) = None) \<and>
    (\<exists>d3 error. decideSessionApproval w2 userId2 p2 sid aid2 body2 requestedAt2 d2 = (d3, [], Inr (Inl error)) \<and>
       (d3 = d2 \<or> d3 = aw_mid w2 0 d2 \<and> error = (409, ''Session is no longer awaiting approval'')))"
proof -
  obtain s' where s': "findSession p sid d' = Some s'" "se_active_turn s' = Some (aw_turn w)"
    "se_turn_expires s' = Some (turnLeaseExpiry (aw_now w 0))" "fst (sessionApprovalState (se_metadata s')) = None"
    and ids: "distinct (map se_id (sessions d'))"
    using after_decision [OF assms(1-4)] by blast
  from s'(1) have mem: "s' \<in> set (sessions d')" "se_id s' = sid"
    by (auto simp: findSession_def live_session_def dest: sql_get_Some)
  have "r = s'" if "r \<in> set (sessions d')" "se_id r = sid" for r
    using distinct_key_eq [OF ids that(1) mem(1)] that(2) mem(2) by simp
  then have "held_by sid (aw_turn w) (turnLeaseExpiry (aw_now w 0)) d'" using s'(2,3) unfolding held_by_def by blast
  moreover have "sid \<in> se_id ` set (sessions d')" using mem by blast
  ultimately have "holds_turn sid (aw_turn w) (turnLeaseExpiry (aw_now w 0)) d'" unfolding holds_turn_def by blast
  then have "holds_turn sid (aw_turn w) (turnLeaseExpiry (aw_now w 0)) (aw_mid w2 0 d2)"
    using turn_sys.reachable_inv later by blast
  then have "\<not> snd (acquireIdleTurnLease p2 sid x e (aw_now w2 0) (aw_mid w2 0 d2))" for x e
    using held_refuses(2) soon by (auto simp: holds_turn_def)
  then have refused: "acquireIdleTurnLease p2 sid x e (aw_now w2 0) (aw_mid w2 0 d2) = (aw_mid w2 0 d2, False)" for x e
  proof (cases "acquireIdleTurnLease p2 sid x e (aw_now w2 0) (aw_mid w2 0 d2)")
    case (Pair a b)
    with \<open>\<And>x e. \<not> snd (acquireIdleTurnLease p2 sid x e (aw_now w2 0) (aw_mid w2 0 d2))\<close> [of x e] have "\<not> b" by simp
    moreover from this Pair have "a = aw_mid w2 0 d2" unfolding acquireIdleTurnLease_def by (simp add: session_cas_miss)
    ultimately show ?thesis using Pair by simp
  qed
  have stop: "\<exists>error. decideSessionApproval w2 userId2 p2 sid aid2 body2 requestedAt2 d2 = (d2, [], Inr (Inl error))"
    if "\<nexists>s r. findSession p2 sid d2 = Some s \<and> fst (sessionApprovalState (se_metadata s)) = Some r \<and> jget r ''id'' = Some (JStr aid2)"
  proof (cases "findSession p2 sid d2")
    case (Some s)
    with that show ?thesis
      by (cases "fst (sessionApprovalState (se_metadata s))") (simp_all add: decideSessionApproval_def)
  qed (simp add: decideSessionApproval_def)
  show ?thesis
  proof (cases "\<exists>s r. findSession p2 sid d2 = Some s \<and> fst (sessionApprovalState (se_metadata s)) = Some r \<and> jget r ''id'' = Some (JStr aid2)")
    case True
    then obtain s r where "findSession p2 sid d2 = Some s" "fst (sessionApprovalState (se_metadata s)) = Some r"
      "jget r ''id'' = Some (JStr aid2)" by blast
    then have "decideSessionApproval w2 userId2 p2 sid aid2 body2 requestedAt2 d2 =
        (aw_mid w2 0 d2, [], Inr (Inl (409, ''Session is no longer awaiting approval'')))"
      by (simp add: decideSessionApproval_def refused)
    with s' show ?thesis by blast
  next
    case False
    with stop s' show ?thesis by blast
  qed
qed

text \<open>
  A decision that fails after the turn was taken leaves the session errored with the
  sanitized reason and its turn free, whatever step failed; the error reaches the caller.
\<close>

theorem failed_decision_errors_session:
  assumes "calm_approval w" "aw_inline w = None" "distinct (map se_id (sessions d))"
    and "decideSessionApproval w userId p sid aid body requestedAt d = (d', es, Inl message)"
  shows "\<exists>s'. findSession p sid d' = Some s' \<and> se_state s' = P_error \<and> se_reason s' = Some (aw_safe w message) \<and>
    se_active_turn s' = None \<and> se_turn_expires s' = None"
proof -
  have calm: "aw_mid w k x = x" for k x using assms(1) by (simp add: calm_approval_def)
  obtain s pending d1 d2 es' where found: "findSession p sid d = Some s"
    and won: "acquireIdleTurnLease p sid (aw_turn w) (turnLeaseExpiry (aw_now w 0)) (aw_now w 0) d = (d1, True)"
    and body: "decide_body w userId p s pending body requestedAt d1 = (d2, es', Inl message)"
    and released: "d' = fst (releaseTurnLease p sid (aw_turn w) (upd_state Errored (Some (Some (aw_safe w message))) (aw_now w 7)) d2)"
    using assms(4)
    by (auto simp: decideSessionApproval_def and_then_def on_error_def calm
        split: option.splits if_splits prod.splits sum.splits bool.splits)
  note acquired = idle_acquired [OF assms(3) found won]
  let ?s1 = "s\<lparr>se_state := P_running, se_reason := None, se_active_turn := Some (aw_turn w),
      se_turn_expires := Some (turnLeaseExpiry (aw_now w 0)), se_depth := 0, se_updated := aw_now w 0\<rparr>"
  have find1: "findSession p (se_id s) d1 = Some ?s1" using acquired by simp
  have updated: "findSession p sid (updateSession p sid (decision_update w body pending ?s1) d1) =
      Some (persistedSessionWrite (decision_update w body pending ?s1) ?s1)"
    by (rule find_updated [OF _ acquired(1)]) (simp add: no_update_def)
  have "findSession p sid d2 = findSession p sid d1 \<or>
      findSession p sid d2 = findSession p sid (updateSession p sid (decision_update w body pending ?s1) d1)"
    using decide_body_sessions [OF assms(1,2) find1 body] acquired(2) by (auto dest: same_sessions)
  then obtain s2 where s2: "findSession p sid d2 = Some s2" "se_active_turn s2 = Some (aw_turn w)"
    using acquired(1) updated by (fastforce simp: persistedSessionWrite_def no_update_def)
  then have live: "live_session p sid s2" by (auto simp: findSession_def dest: sql_get_Some)
  let ?u = "upd_state Errored (Some (Some (aw_safe w message))) (aw_now w 7)"
  have "findSession p sid d' = Some ((persistedSessionWrite ?u s2)\<lparr>se_active_turn := None, se_turn_expires := None\<rparr>)"
    using s2 live unfolding released findSession_def
    by (simp add: releaseTurnLease_def session_cas_def cas_row_def sql_get_update_same live_session_def turn_held_def
        live_in_def upd_state_def no_update_def persistedSessionWrite_def)
  then show ?thesis by (simp add: persistedSessionWrite_def upd_state_def no_update_def)
qed

section \<open>Two decisions of one request\<close>

definition demo_waiting :: db where
  "demo_waiting = session_db [demo_session\<lparr>se_state := P_idle, se_metadata := demo_metadata, se_agent_snapshot := Some (JObj [])\<rparr>]"

definition demo_yes :: decision_body where
  "demo_yes = \<lparr>db_approve = True, db_reason = None, db_result = None\<rparr>"

lemma demo_pending:
  "fst (sessionApprovalState demo_metadata) = Some (JObj [(''id'', JStr ''a''), (''toolCallId'', JStr ''c''),
     (''toolName'', JStr ''bash''), (''input'', JObj [(''command'', JStr ''ls'')])])"
  by (simp add: demo_metadata_def sessionApprovalState_def isPendingSessionApproval_def jopt_def names_at_simps(2,3))

lemma demo_waiting_found:
  "findSession ''p'' ''s'' demo_waiting =
     Some (demo_session\<lparr>se_state := P_idle, se_metadata := demo_metadata, se_agent_snapshot := Some (JObj [])\<rparr>)"
  "approvals demo_waiting = []" "distinct (map se_id (sessions demo_waiting))"
  by (simp_all add: demo_waiting_def findSession_def session_db_def sql_get_def live_session_def demo_session_def)

lemmas decision_run = decideSessionApproval_def demo_pending demo_waiting_found acquireIdleTurnLease_def session_cas_def cas_row_def
  turn_guard_def live_in_def turn_free_def sql_exists_def demo_session_def demo_approval_world_def decide_body_def append_event_def
  writeSessionApprovalState_def Let_def upsertApproval_def decided_result_def isEnborSandboxToolName_def
  ENBOR_SANDBOX_TOOL_NAMES_def append_result_def resume_turn_def and_then_simps text_at_def names_at_simps(2,3) demo_yes_def
  findSession_def updateSession_def sql_get_def live_session_def sql_update_def persistedSessionWrite_def no_update_def session_db_def

lemma demo_decision:
  "\<exists>d' es row. decideSessionApproval demo_approval_world ''u'' ''p'' ''s'' ''a'' demo_yes 0 demo_waiting = (d', es, Inr (Inr row))"
  unfolding demo_waiting_def by (simp add: decision_run)

lemma demo_calm: "calm_approval demo_approval_world" "aw_inline demo_approval_world = None"
  by (simp_all add: calm_approval_def demo_approval_world_def)

theorem approval_decided_once_witness:
  "\<exists>d'. snd (snd (decideSessionApproval (demo_approval_world\<lparr>aw_mid := \<lambda>_ _. store_markStalledCloudSessions 1 2 d'\<rparr>) ''v'' ''p'' ''s'' ''a''
      demo_yes 0 demo_waiting)) = Inr (Inl (409, ''Session is no longer awaiting approval''))"
proof -
  obtain d' es row where run: "decideSessionApproval demo_approval_world ''u'' ''p'' ''s'' ''a'' demo_yes 0 demo_waiting = (d', es, Inr (Inr row))"
    using demo_decision by blast
  let ?w2 = "demo_approval_world\<lparr>aw_mid := \<lambda>_ _. store_markStalledCloudSessions 1 2 d'\<rparr>"
  have "(turn_step ''s'' (aw_turn demo_approval_world) (turnLeaseExpiry (aw_now demo_approval_world 0)))\<^sup>*\<^sup>* d' (aw_mid ?w2 0 demo_waiting)"
    by (simp add: r_into_rtranclp turn_step.stall)
  moreover have "aw_now ?w2 0 \<le> turnLeaseExpiry (aw_now demo_approval_world 0)"
    by (simp add: turnLeaseExpiry_def demo_approval_world_def TURN_LEASE_TTL_MS_def)
  ultimately obtain d3 error where d3: "decideSessionApproval ?w2 ''v'' ''p'' ''s'' ''a'' demo_yes 0 demo_waiting = (d3, [], Inr (Inl error))"
    using approval_decided_once [OF demo_calm demo_waiting_found(3) run, of ?w2 demo_waiting "''v''" "''p''" "''a''" demo_yes 0] by blast
  have "error = (409, ''Session is no longer awaiting approval'')"
    using d3 by (auto simp: decideSessionApproval_def demo_waiting_found demo_pending names_at_simps and_then_def on_error_def
        split: prod.splits bool.splits sum.splits)
  with d3 have "snd (snd (decideSessionApproval ?w2 ''v'' ''p'' ''s'' ''a'' demo_yes 0 demo_waiting)) =
      Inr (Inl (409, ''Session is no longer awaiting approval''))" by simp
  then show ?thesis by blast
qed

theorem failed_decision_errors_session_witness:
  "\<exists>s'. findSession ''p'' ''s'' (fst (decideSessionApproval (demo_approval_world\<lparr>aw_activate := Some ''no sandbox''\<rparr>) ''u'' ''p'' ''s'' ''a''
     demo_yes 0 demo_waiting)) = Some s' \<and> se_state s' = P_error \<and> se_reason s' = Some ''no sandbox''"
proof -
  let ?w = "demo_approval_world\<lparr>aw_activate := Some ''no sandbox''\<rparr>"
  have calm: "calm_approval ?w" "aw_inline ?w = None" and safe: "aw_safe demo_approval_world = (\<lambda>m. m)"
    by (simp_all add: calm_approval_def demo_approval_world_def)
  have "\<exists>d' es. decideSessionApproval ?w ''u'' ''p'' ''s'' ''a'' demo_yes 0 demo_waiting = (d', es, Inl ''no sandbox'')"
    unfolding demo_waiting_def by (simp add: decision_run on_error_def)
  then obtain d' es where run: "decideSessionApproval ?w ''u'' ''p'' ''s'' ''a'' demo_yes 0 demo_waiting = (d', es, Inl ''no sandbox'')"
    by blast
  from failed_decision_errors_session [OF calm(1,2) demo_waiting_found(3) run] show ?thesis by (auto simp: run safe)
qed

text \<open>
  Where the resumed turn runs inline and ends before a second decision takes the lease, nothing reads
  the request again: the second decision executes the tool once more.
\<close>

definition demo_inline :: approval_world where
  "demo_inline = demo_approval_world\<lparr>aw_inline := Some \<lparr>tw_result = T_idle, tw_during = (\<lambda>d. d), tw_idle_fails = False,
     tw_number = (\<lambda>_. None)\<rparr>\<rparr>"

lemmas turn_run = demo_inline_def executeCloudSessionTurn_def handleTurnOutcome_def releaseTurnLease_def
  set_if_running_def updateSessionWhenState_def state_in_def turn_held_def persistedSessionStates_def upd_state_def

theorem approval_executed_twice:
  "\<exists>d1 es1 row1 d2 es2 row2.
     decideSessionApproval demo_inline ''u'' ''p'' ''s'' ''a'' demo_yes 0 demo_waiting = (d1, es1, Inr (Inr row1)) \<and>
     decideSessionApproval (demo_inline\<lparr>aw_turn := ''t2'', aw_mid := \<lambda>k d. if k = 0 then d1 else d\<rparr>) ''v'' ''p'' ''s'' ''a'' demo_yes 0
       demo_waiting = (d2, es2, Inr (Inr row2)) \<and>
     D_execute ''c'' ''bash'' (JObj [(''command'', JStr ''ls'')]) \<in> set es1 \<inter> set es2"
proof -
  obtain d1 es1 row1 where one: "decideSessionApproval demo_inline ''u'' ''p'' ''s'' ''a'' demo_yes 0 demo_waiting = (d1, es1, Inr (Inr row1))"
      "D_execute ''c'' ''bash'' (JObj [(''command'', JStr ''ls'')]) \<in> set es1"
    and idle: "\<exists>s. sessions d1 = [s] \<and> se_id s = ''s'' \<and> se_project s = ''p'' \<and> se_deleted s = None \<and> se_state s = P_idle \<and>
        se_active_turn s = None \<and> se_agent_snapshot s = Some (JObj []) \<and> se_metadata s = decided_metadata demo_yes ''c'' demo_metadata"
      "\<exists>a. approvals d1 = [a] \<and> ap_session a = ''s'' \<and> ap_tool_call a = ''c''"
    unfolding demo_waiting_def by (auto simp: decision_run turn_run approval_of_def)
  obtain s a where rows: "sessions d1 = [s]" "approvals d1 = [a]"
    and s: "se_id s = ''s''" "se_project s = ''p''" "se_deleted s = None" "se_state s = P_idle" "se_active_turn s = None"
      "se_agent_snapshot s = Some (JObj [])"
    and a: "ap_session a = ''s''" "ap_tool_call a = ''c''"
    using idle by blast
  have "\<exists>d2 es2 row2. decideSessionApproval (demo_inline\<lparr>aw_turn := ''t2'', aw_mid := \<lambda>k d. if k = 0 then d1 else d\<rparr>) ''v'' ''p'' ''s'' ''a''
       demo_yes 0 demo_waiting = (d2, es2, Inr (Inr row2)) \<and> D_execute ''c'' ''bash'' (JObj [(''command'', JStr ''ls'')]) \<in> set es2"
    by (simp add: decision_run(1-25) turn_run rows s a) (simp add: decision_run turn_run rows s a approval_of_def same_call_def)
  with one show ?thesis by fastforce
qed

end
