(* ===== verification/Transcript.thy ===== *)
theory Transcript
  imports Prelude "HOL-Library.AList"
begin

text \<open>
  The transcript of a turn: the messages of the agent library, the canonical messages that are
  persisted for them (\<open>enborMessage\<close> of \<open>server/usecases/runtime/engine/turn-engine.ts\<close>), and the
  conversation that a continuation rebuilds from the persisted events
  (\<open>server/usecases/runtime/engine/transcript.ts\<close>).

  Canonical messages are dynamic values. \<open>JSON.stringify\<close>, \<open>JSON.parse\<close> and fresh identifiers are
  arguments; the time stamps of agent messages are left out. A text or a name that is read from a
  persisted block is taken to be a string, as the schema of the events demands.
\<close>

section \<open>Messages of the agent library\<close>

datatype agent_block =
    A_text string
  | A_thinking string
  | A_call id string json
  | A_image string string
  | A_other json

datatype engine_usage = Usage int int int

datatype agent_message =
    M_user "id option" "string + agent_block list"
  | M_assistant "id option" "agent_block list" string "string option" engine_usage
  | M_result "id option" id string "agent_block list" "json option" bool
  | M_custom "id option" json

definition ZERO_USAGE :: engine_usage where "ZERO_USAGE = Usage 0 0 0"

fun is_assistant :: "agent_message \<Rightarrow> bool" where
  "is_assistant (M_assistant _ _ _ _ _) = True"
| "is_assistant _ = False"

fun own_id :: "agent_message \<Rightarrow> id option" where
  "own_id (M_user i _) = i"
| "own_id (M_assistant i _ _ _ _) = i"
| "own_id (M_result i _ _ _ _ _) = i"
| "own_id (M_custom i _) = i"

section \<open>Canonical messages\<close>

text \<open>\<open>messageId\<close>: \<open>fresh\<close> stands for the identifier drawn when there is no other.\<close>

definition messageId :: "id \<Rightarrow> agent_message \<Rightarrow> id option \<Rightarrow> id" where
  "messageId fresh message fallback =
     (case own_id message of
        Some (c # cs) \<Rightarrow> c # cs
      | _ \<Rightarrow> (case fallback of Some i \<Rightarrow> i | None \<Rightarrow> fresh))"

definition enborToolCall :: "id \<Rightarrow> string \<Rightarrow> json \<Rightarrow> json" where
  "enborToolCall callId name arguments = JObj [(''id'', JStr callId), (''name'', JStr name), (''input'', arguments)]"

definition text_block :: "string \<Rightarrow> json" where
  "text_block s = JObj [(''type'', JStr ''text''), (''text'', JStr s)]"

definition image_block :: "string \<Rightarrow> string \<Rightarrow> json" where
  "image_block content mediaType = JObj [(''type'', JStr ''image''), (''data'', JStr content), (''mediaType'', JStr mediaType)]"

fun content_block :: "agent_block \<Rightarrow> json list" where
  "content_block (A_text s) = [text_block s]"
| "content_block (A_thinking s) = [JObj [(''type'', JStr ''reasoning''), (''text'', JStr s)]]"
| "content_block (A_call callId name arguments) =
     [JObj [(''type'', JStr ''tool_call''), (''toolCall'', enborToolCall callId name arguments)]]"
| "content_block (A_image content mediaType) = [image_block content mediaType]"
| "content_block (A_other v) = []"

text \<open>The blocks of a tool result; whatever is neither text nor image is kept as a value.\<close>

fun result_block :: "agent_block \<Rightarrow> json" where
  "result_block (A_text s) = text_block s"
| "result_block (A_image content mediaType) = image_block content mediaType"
| "result_block (A_thinking s) =
     JObj [(''type'', JStr ''json''), (''value'', JObj [(''type'', JStr ''thinking''), (''thinking'', JStr s)])]"
| "result_block (A_call callId name arguments) =
     JObj [(''type'', JStr ''json''), (''value'', JObj [(''type'', JStr ''toolCall''), (''id'', JStr callId),
        (''name'', JStr name), (''arguments'', arguments)])]"
| "result_block (A_other v) = JObj [(''type'', JStr ''json''), (''value'', v)]"

definition enborToolResult :: "agent_block list \<Rightarrow> json option \<Rightarrow> json" where
  "enborToolResult content details =
     JObj ((''content'', JArr (map result_block content)) #
       (case details of Some (JObj kvs) \<Rightarrow> [(''structuredContent'', JObj kvs)] | _ \<Rightarrow> []))"

fun block_text :: "agent_block \<Rightarrow> string" where
  "block_text (A_text s) = s"
| "block_text _ = []"

definition toolResultText :: "agent_block list \<Rightarrow> string" where
  "toolResultText content = concat (map block_text content)"

definition tool_result_block :: "id \<Rightarrow> agent_block list \<Rightarrow> json option \<Rightarrow> bool \<Rightarrow> json" where
  "tool_result_block toolCallId content details isError =
     JObj ([(''type'', JStr ''tool_result''), (''toolCallId'', JStr toolCallId), (''result'', enborToolResult content details)] @
       (if isError
        then [(''error'', JObj [(''message'', JStr (if toolResultText content = [] then ''Tool execution failed''
                 else toolResultText content))])]
        else []))"

fun enborContentBlocks :: "(json \<Rightarrow> string) \<Rightarrow> agent_message \<Rightarrow> json list" where
  "enborContentBlocks stringify (M_result _ toolCallId _ content details isError) =
     [tool_result_block toolCallId content details isError]"
| "enborContentBlocks stringify (M_user _ (Inl s)) = (if s = [] then [] else [text_block s])"
| "enborContentBlocks stringify (M_user _ (Inr content)) = concat (map content_block content)"
| "enborContentBlocks stringify (M_assistant _ content _ _ _) = concat (map content_block content)"
| "enborContentBlocks stringify (M_custom _ v) = [text_block (stringify v)]"

fun message_role :: "agent_message \<Rightarrow> string" where
  "message_role (M_user _ _) = ''user''"
| "message_role (M_assistant _ _ _ _ _) = ''assistant''"
| "message_role (M_result _ _ _ _ _ _) = ''tool''"
| "message_role (M_custom _ _) = ''system''"

fun message_extra :: "agent_message \<Rightarrow> (string \<times> json) list" where
  "message_extra (M_assistant _ _ stopReason _ _) = [(''stopReason'', JStr stopReason)]"
| "message_extra (M_result _ toolCallId _ _ _ _) = [(''parentToolCallId'', JStr toolCallId)]"
| "message_extra _ = []"

definition enborMessage :: "(json \<Rightarrow> string) \<Rightarrow> id \<Rightarrow> agent_message \<Rightarrow> id option \<Rightarrow> json" where
  "enborMessage stringify fresh message fallback =
     (let msg_id = (case message of
            M_custom _ _ \<Rightarrow> (case fallback of Some i \<Rightarrow> i | None \<Rightarrow> fresh)
          | _ \<Rightarrow> messageId fresh message fallback) in
      JObj ([(''id'', JStr msg_id), (''role'', JStr (message_role message)),
             (''content'', JArr (enborContentBlocks stringify message))] @ message_extra message))"

section \<open>Reading canonical messages\<close>

text \<open>Properties of a missing value are an exception; those of other values that are no object are undefined.\<close>

definition type_error :: string where "type_error = ''TypeError''"

definition js_property :: "json option \<Rightarrow> string \<Rightarrow> string + json option" where
  "js_property v k = (case v of None \<Rightarrow> Inl type_error | Some JNull \<Rightarrow> Inl type_error | Some j \<Rightarrow> Inr (jget j k))"

definition and_read :: "string + 'a \<Rightarrow> ('a \<Rightarrow> string + 'b) \<Rightarrow> string + 'b" where
  "and_read r k = (case r of Inl e \<Rightarrow> Inl e | Inr x \<Rightarrow> k x)"

lemma and_read_simps [simp]: "and_read (Inl e) k = Inl e" "and_read (Inr x) k = k x"
  by (simp_all add: and_read_def)

fun read_all :: "('a \<Rightarrow> string + 'b) \<Rightarrow> 'a list \<Rightarrow> string + 'b list" where
  "read_all f [] = Inr []"
| "read_all f (x # xs) = and_read (f x) (\<lambda>y. and_read (read_all f xs) (\<lambda>ys. Inr (y # ys)))"

definition string_at :: "json option \<Rightarrow> string" where
  "string_at v = (case jstr v of Some s \<Rightarrow> s | None \<Rightarrow> [])"

definition value_at :: "json option \<Rightarrow> json" where
  "value_at v = (case v of Some j \<Rightarrow> j | None \<Rightarrow> JNull)"

definition block_type :: "json \<Rightarrow> string + string option" where
  "block_type b = and_read (js_property (Some b) ''type'') (\<lambda>t. Inr (jstr t))"

definition textFromContent :: "json list \<Rightarrow> string + string" where
  "textFromContent blocks =
     and_read
       (read_all (\<lambda>b. and_read (block_type b)
          (\<lambda>t. Inr (if t = Some ''text'' \<or> t = Some ''reasoning'' then string_at (jget b ''text'') else []))) blocks)
       (\<lambda>texts. Inr (concat texts))"

definition piAssistantContentBlocks :: "json list \<Rightarrow> string + agent_block list" where
  "piAssistantContentBlocks blocks =
     and_read
       (read_all (\<lambda>b. and_read (block_type b)
          (\<lambda>t. if t = Some ''text'' then Inr [A_text (string_at (jget b ''text''))]
               else if t = Some ''tool_call''
               then and_read (js_property (jget b ''toolCall'') ''id'')
                 (\<lambda>callId. Inr [A_call (string_at callId) (string_at (jopt (jget b ''toolCall'') ''name''))
                    (value_at (jopt (jget b ''toolCall'') ''input''))])
               else Inr [])) blocks)
       (\<lambda>parts. Inr (concat parts))"

definition piToolResultContentBlocks :: "json list \<Rightarrow> string + agent_block list" where
  "piToolResultContentBlocks blocks =
     and_read
       (read_all (\<lambda>b. and_read (block_type b)
          (\<lambda>t. Inr (if t = Some ''text'' then [A_text (string_at (jget b ''text''))]
                else if t = Some ''image'' \<and> truthy (jget b ''data'') \<and> truthy (jget b ''mediaType'')
                then [A_image (string_at (jget b ''data'')) (string_at (jget b ''mediaType''))]
                else []))) blocks)
       (\<lambda>parts. Inr (concat parts))"

definition enborMessageFromValue :: "json option \<Rightarrow> json option" where
  "enborMessageFromValue v =
     (case v of
        Some (JObj kvs) \<Rightarrow>
          (if jstr (jget (JObj kvs) ''role'') \<in> {Some ''user'', Some ''assistant'', Some ''tool''} \<and>
              jarr (jget (JObj kvs) ''content'') \<noteq> None
           then Some (JObj kvs) else None)
      | _ \<Rightarrow> None)"

definition blocks_of :: "json \<Rightarrow> json list" where
  "blocks_of message = (case jarr (jget message ''content'') of Some bs \<Rightarrow> bs | None \<Rightarrow> [])"

text \<open>\<open>find\<close> and \<open>some\<close> stop at the first hit, so a malformed block behind it is not looked at.\<close>

fun find_block :: "(json \<Rightarrow> string + bool) \<Rightarrow> json list \<Rightarrow> string + json option" where
  "find_block f [] = Inr None"
| "find_block f (b # bs) = and_read (f b) (\<lambda>hit. if hit then Inr (Some b) else find_block f bs)"

definition has_type :: "string \<Rightarrow> json \<Rightarrow> string + bool" where
  "has_type t b = and_read (block_type b) (\<lambda>t'. Inr (t' = Some t))"

definition rebuilt_stop :: "json \<Rightarrow> string + string" where
  "rebuilt_stop message =
     (case jstr (jget message ''stopReason'') of
        Some s \<Rightarrow>
          if s = ''aborted'' \<or> s = ''error'' then Inr s
          else and_read (find_block (has_type ''tool_call'') (blocks_of message))
                 (\<lambda>hit. Inr (if hit = None then ''stop'' else ''toolUse''))
      | None \<Rightarrow> and_read (find_block (has_type ''tool_call'') (blocks_of message))
                 (\<lambda>hit. Inr (if hit = None then ''stop'' else ''toolUse'')))"

definition agentMessageFromEnborMessage :: "json \<Rightarrow> string + agent_message option" where
  "agentMessageFromEnborMessage message =
     (let role = jstr (jget message ''role'') in
      if role = Some ''user''
      then and_read (textFromContent (blocks_of message)) (\<lambda>s. Inr (Some (M_user None (Inl s))))
      else if role = Some ''assistant''
      then and_read (piAssistantContentBlocks (blocks_of message))
             (\<lambda>content. and_read (rebuilt_stop message)
                (\<lambda>stop. Inr (Some (M_assistant None content stop None ZERO_USAGE))))
      else and_read (find_block (has_type ''tool_result'') (blocks_of message))
             (\<lambda>block. case block of
                None \<Rightarrow> Inr None
              | Some b \<Rightarrow>
                  and_read (js_property (jget b ''result'') ''content'')
                    (\<lambda>content. case jarr content of
                       None \<Rightarrow> Inl type_error
                     | Some bs \<Rightarrow>
                         and_read (piToolResultContentBlocks bs)
                           (\<lambda>blocks. Inr (Some (M_result None (string_at (jget b ''toolCallId'')) ''tool'' blocks
                              (jopt (jget b ''result'') ''structuredContent'') (truthy (jget b ''error''))))))))"

section \<open>The conversation in the events of a session\<close>

record stored_event =
  sv_type :: "string option"
  sv_payload :: json

fun is_object :: "json option \<Rightarrow> bool" where
  "is_object (Some (JObj _)) = True"
| "is_object (Some (JArr _)) = True"
| "is_object _ = False"

definition parseEventPayload :: "(string \<Rightarrow> json option) \<Rightarrow> json \<Rightarrow> json option" where
  "parseEventPayload parse payload =
     (let v = (case payload of JStr s \<Rightarrow> parse s | _ \<Rightarrow> Some payload) in if is_object v then v else None)"

definition eventCore :: "(string \<Rightarrow> json option) \<Rightarrow> stored_event \<Rightarrow> (string option \<times> json) option" where
  "eventCore parse event =
     map_option
       (\<lambda>r. (case sv_type event of Some t \<Rightarrow> Some t | None \<Rightarrow> jstr (jget r ''type''),
             if is_object (jget r ''payload'') then value_at (jget r ''payload'') else r))
       (parseEventPayload parse (sv_payload event))"

record conversation =
  cv_messages :: "agent_message list"
  cv_children :: "(id \<times> agent_message list) list"

definition children_of :: "conversation \<Rightarrow> id \<Rightarrow> agent_message list" where
  "children_of cv c = (case map_of (cv_children cv) c of Some ms \<Rightarrow> ms | None \<Rightarrow> [])"

definition answers_parent :: "json \<Rightarrow> string + bool" where
  "answers_parent message =
     (if jstr (jget message ''role'') \<noteq> Some ''tool'' then Inr False
      else and_read
        (find_block (\<lambda>b. and_read (has_type ''tool_result'' b)
            (\<lambda>hit. Inr (hit \<and> jget b ''toolCallId'' = jget message ''parentToolCallId''))) (blocks_of message))
        (\<lambda>hit. Inr (hit \<noteq> None)))"

definition add_message :: "conversation \<Rightarrow> json \<Rightarrow> agent_message \<Rightarrow> string + conversation" where
  "add_message cv message am =
     (case nonempty_str (jget message ''parentToolCallId'') of
        None \<Rightarrow> Inr (cv\<lparr>cv_messages := cv_messages cv @ [am]\<rparr>)
      | Some q \<Rightarrow>
          and_read (answers_parent message)
            (\<lambda>own. Inr (if own then cv\<lparr>cv_messages := cv_messages cv @ [am]\<rparr>
                    else cv\<lparr>cv_children := AList.update q (children_of cv q @ [am]) (cv_children cv)\<rparr>)))"

definition read_event :: "(string \<Rightarrow> json option) \<Rightarrow> stored_event \<Rightarrow> conversation \<Rightarrow> string + conversation" where
  "read_event parse event cv =
     (case eventCore parse event of
        None \<Rightarrow> Inr cv
      | Some (t, payload) \<Rightarrow>
          if t \<noteq> Some ''message.completed'' then Inr cv
          else
            (case enborMessageFromValue (jget payload ''message'') of
               None \<Rightarrow> Inr cv
             | Some message \<Rightarrow>
                 and_read (agentMessageFromEnborMessage message)
                   (\<lambda>am. case am of None \<Rightarrow> Inr cv | Some m \<Rightarrow> add_message cv message m)))"

fun read_events :: "(string \<Rightarrow> json option) \<Rightarrow> stored_event list \<Rightarrow> conversation \<Rightarrow> string + conversation" where
  "read_events parse [] cv = Inr cv"
| "read_events parse (e # es) cv = and_read (read_event parse e cv) (read_events parse es)"

definition runtimeConversationFromEvents :: "(string \<Rightarrow> json option) \<Rightarrow> stored_event list \<Rightarrow> string + conversation" where
  "runtimeConversationFromEvents parse events = read_events parse events \<lparr>cv_messages = [], cv_children = []\<rparr>"

definition runtimeMessagesFromEvents :: "(string \<Rightarrow> json option) \<Rightarrow> stored_event list \<Rightarrow> string + agent_message list" where
  "runtimeMessagesFromEvents parse events =
     and_read (runtimeConversationFromEvents parse events) (\<lambda>cv. Inr (cv_messages cv))"

text \<open>The parent of a call: that of the first message that made it.\<close>

definition makes_call :: "id \<Rightarrow> json \<Rightarrow> string + bool" where
  "makes_call toolCallId b =
     and_read (has_type ''tool_call'' b)
       (\<lambda>hit. if hit then and_read (js_property (jget b ''toolCall'') ''id'') (\<lambda>i. Inr (i = Some (JStr toolCallId)))
              else Inr False)"

fun toolCallParentFromEvents :: "(string \<Rightarrow> json option) \<Rightarrow> stored_event list \<Rightarrow> id \<Rightarrow> string + id option" where
  "toolCallParentFromEvents parse [] toolCallId = Inr None"
| "toolCallParentFromEvents parse (e # es) toolCallId =
     (case eventCore parse e of
        None \<Rightarrow> toolCallParentFromEvents parse es toolCallId
      | Some (t, payload) \<Rightarrow>
          if t \<noteq> Some ''message.completed'' then toolCallParentFromEvents parse es toolCallId
          else
            (case enborMessageFromValue (jget payload ''message'') of
               None \<Rightarrow> toolCallParentFromEvents parse es toolCallId
             | Some message \<Rightarrow>
                 and_read (find_block (makes_call toolCallId) (blocks_of message))
                   (\<lambda>hit. if hit = None then toolCallParentFromEvents parse es toolCallId
                          else Inr (jstr (jget message ''parentToolCallId'')))))"

end
