(* ===== verification/TranscriptFacts.thy ===== *)
theory TranscriptFacts
  imports Transcript
begin

text \<open>
  What a continuation sees: persisting the messages of a turn and of its subagents and rebuilding the
  conversation gives the messages back, in order and each in its own conversation, up to what is
  forgotten on purpose (\<open>forget\<close>).
\<close>

section \<open>What a message keeps\<close>

fun kept_assistant :: "agent_block \<Rightarrow> bool" where
  "kept_assistant (A_text _) = True"
| "kept_assistant (A_call _ _ _) = True"
| "kept_assistant _ = False"

fun kept_result :: "agent_block \<Rightarrow> bool" where
  "kept_result (A_text _) = True"
| "kept_result (A_image content mediaType) = (content \<noteq> [] \<and> mediaType \<noteq> [])"
| "kept_result _ = False"

fun spoken :: "agent_block \<Rightarrow> string" where
  "spoken (A_text s) = s"
| "spoken (A_thinking s) = s"
| "spoken _ = []"

fun is_call :: "agent_block \<Rightarrow> bool" where
  "is_call (A_call _ _ _) = True"
| "is_call _ = False"

fun forget :: "agent_message \<Rightarrow> agent_message" where
  "forget (M_user _ (Inl s)) = M_user None (Inl s)"
| "forget (M_user _ (Inr bs)) = M_user None (Inl (concat (map spoken bs)))"
| "forget (M_assistant _ bs stop _ _) =
     M_assistant None (filter kept_assistant bs)
       (if stop = ''aborted'' \<or> stop = ''error'' then stop else if list_ex is_call bs then ''toolUse'' else ''stop'') None ZERO_USAGE"
| "forget (M_result _ c _ bs details isError) =
     M_result None c ''tool'' (filter kept_result bs) (case details of Some (JObj kvs) \<Rightarrow> Some (JObj kvs) | _ \<Rightarrow> None) isError"
| "forget (M_custom i v) = M_custom i v"

section \<open>Blocks\<close>

lemma jget_Cons: "jget (JObj ((k', v) # kvs)) k = (if k' = k then Some v else jget (JObj kvs) k)"
  by (auto simp: jget_def)

lemma jget_Nil: "jget (JObj []) k = None"
  by (simp add: jget_def)

lemmas json_reading = jget_Cons jget_Nil js_property_def block_type_def string_at_def value_at_def

lemma read_all_ok: "(\<And>x. x \<in> set xs \<Longrightarrow> f x = Inr (g x)) \<Longrightarrow> read_all f xs = Inr (map g xs)"
  by (induction xs) auto

lemma read_all_append:
  "read_all f xs = Inr us \<Longrightarrow> read_all f (xs @ ys) = and_read (read_all f ys) (\<lambda>vs. Inr (us @ vs))"
  by (induction xs arbitrary: us) (auto simp: and_read_def split: sum.splits)

text \<open>A block of an agent message becomes at most one canonical block, which a reader maps back.\<close>

lemma read_concat:
  assumes "\<And>b. read_all f (content_block b) = Inr (g b)"
  shows "read_all f (concat (map content_block bs)) = Inr (concat (map g bs))"
proof (induction bs)
  case (Cons b bs)
  then show ?case using read_all_append [OF assms [of b], of "concat (map content_block bs)"] by simp
qed simp

lemma text_back: "textFromContent (concat (map content_block bs)) = Inr (concat (map spoken bs))"
proof -
  let ?g = "\<lambda>b. case b of A_text s \<Rightarrow> [s] | A_thinking s \<Rightarrow> [s] | A_call _ _ _ \<Rightarrow> [[]] | A_image _ _ \<Rightarrow> [[]] | A_other _ \<Rightarrow> []"
  have "concat (concat (map ?g bs)) = concat (map spoken bs)"
    by (induction bs) (auto split: agent_block.splits)
  then show ?thesis
    unfolding textFromContent_def
    by (subst read_concat [of _ ?g])
       (simp_all add: json_reading text_block_def image_block_def split: agent_block.splits)
qed

lemma assistant_back:
  "piAssistantContentBlocks (concat (map content_block bs)) = Inr (filter kept_assistant bs)"
proof -
  let ?g = "\<lambda>b. case b of A_text s \<Rightarrow> [[b]] | A_thinking s \<Rightarrow> [[]] | A_call _ _ _ \<Rightarrow> [[b]] | A_image _ _ \<Rightarrow> [[]] | A_other _ \<Rightarrow> []"
  have "concat (concat (map ?g bs)) = filter kept_assistant bs"
    by (induction bs) (auto split: agent_block.splits)
  then show ?thesis
    unfolding piAssistantContentBlocks_def
    by (subst read_concat [of _ ?g])
       (simp_all add: json_reading text_block_def image_block_def enborToolCall_def split: agent_block.splits)
qed

lemma result_back:
  "piToolResultContentBlocks (map result_block bs) = Inr (filter kept_result bs)"
proof -
  let ?f = "\<lambda>b. if kept_result b then [b] else []"
  let ?read = "\<lambda>b. and_read (block_type b) (\<lambda>t. Inr (if t = Some ''text'' then [A_text (string_at (jget b ''text''))]
                else if t = Some ''image'' \<and> truthy (jget b ''data'') \<and> truthy (jget b ''mediaType'')
                then [A_image (string_at (jget b ''data'')) (string_at (jget b ''mediaType''))] else []))"
  have one: "?read (result_block b) = Inr (?f b)" for b
    by (cases b) (simp_all add: json_reading text_block_def image_block_def)
  have "read_all ?read (map result_block bs) = Inr (map ?f bs)"
    by (induction bs) (simp_all only: read_all.simps list.map one and_read_simps)
  moreover have "concat (map ?f bs) = filter kept_result bs" by (induction bs) simp_all
  ultimately show ?thesis by (simp add: piToolResultContentBlocks_def)
qed

lemma find_calls: "find_block (has_type ''tool_call'') (concat (map content_block bs)) =
    Inr (map_option (\<lambda>b. hd (content_block b)) (List.find is_call bs))"
proof (induction bs)
  case (Cons b bs)
  then show ?case
    by (cases b) (simp_all add: has_type_def json_reading text_block_def image_block_def)
qed simp

lemma find_none: "List.find P xs = None \<longleftrightarrow> \<not> list_ex P xs"
  by (induction xs) auto

section \<open>Messages\<close>

fun canonical :: "agent_message \<Rightarrow> bool" where
  "canonical (M_custom _ _) = False"
| "canonical _ = True"

lemma enborMessage_fields:
  "jget (enborMessage stringify fresh m fallback) ''role'' = Some (JStr (message_role m))"
  "jget (enborMessage stringify fresh m fallback) ''content'' = Some (JArr (enborContentBlocks stringify m))"
  "jget (enborMessage stringify fresh m fallback) ''stopReason'' = jget (JObj (message_extra m)) ''stopReason''"
  "jget (enborMessage stringify fresh m fallback) ''parentToolCallId'' = jget (JObj (message_extra m)) ''parentToolCallId''"
  by (simp_all add: enborMessage_def Let_def jget_Cons)

text \<open>Only these members of a canonical message are read back.\<close>

definition same_message :: "json \<Rightarrow> json \<Rightarrow> bool" where
  "same_message a b \<longleftrightarrow> (\<forall>k \<in> {''role'', ''content'', ''stopReason''}. jget a k = jget b k)"

lemma message_back:
  assumes "canonical m" "same_message j (enborMessage stringify fresh m fallback)"
  shows "agentMessageFromEnborMessage j = Inr (Some (forget m))"
proof -
  have fields: "jget j ''role'' = Some (JStr (message_role m))" "jget j ''content'' = Some (JArr (enborContentBlocks stringify m))"
    "jget j ''stopReason'' = jget (JObj (message_extra m)) ''stopReason''"
    using assms(2) by (simp_all add: same_message_def enborMessage_fields)
  then have blocks: "blocks_of j = enborContentBlocks stringify m" by (simp add: blocks_of_def)
  show ?thesis
  proof (cases m)
    case (M_user i c)
    have "textFromContent [text_block s] = Inr s" for s
      by (simp add: textFromContent_def json_reading text_block_def)
    moreover have "textFromContent [] = Inr []" by (simp add: textFromContent_def)
    ultimately show ?thesis using fields(1) M_user
      by (cases c) (simp_all add: agentMessageFromEnborMessage_def blocks text_back)
  next
    case (M_assistant i bs stop err u)
    then show ?thesis using fields(1,3)
      by (simp add: agentMessageFromEnborMessage_def blocks assistant_back rebuilt_stop_def find_calls find_none jget_Cons)
  next
    case (M_result i c name bs details isError)
    obtain kvs where kvs: "enborToolResult bs details = JObj kvs" by (simp add: enborToolResult_def)
    obtain kvs where kvs: "enborToolResult bs details = JObj kvs" by (simp add: enborToolResult_def)
    have "jarr (jget (enborToolResult bs details) ''content'') = Some (map result_block bs)"
      "jget (enborToolResult bs details) ''structuredContent'' = (case details of Some (JObj kvs) \<Rightarrow> Some (JObj kvs) | _ \<Rightarrow> None)"
      by (simp_all add: enborToolResult_def jget_Cons jget_Nil split: option.splits json.splits)
    then show ?thesis using fields(1) M_result unfolding kvs
      by (simp add: agentMessageFromEnborMessage_def blocks tool_result_block_def has_type_def json_reading result_back kvs)
  qed (use assms(1) in simp)
qed

section \<open>Conversations\<close>

text \<open>
  A message of the turn itself, or of the subagent that a call of the turn runs: the sink of the
  subagent puts the identifier of that call on the message (\<open>subagent-tools.ts\<close>).
\<close>

type_synonym turn_message = "id option \<times> id \<times> agent_message"

definition persisted :: "(json \<Rightarrow> string) \<Rightarrow> turn_message \<Rightarrow> stored_event" where
  "persisted stringify x =
     (case x of (parent, fresh, m) \<Rightarrow>
        let j = enborMessage stringify fresh m None in
        \<lparr>sv_type = Some ''message.completed'',
         sv_payload = JObj [(''message'', case parent of None \<Rightarrow> j | Some q \<Rightarrow> jset ''parentToolCallId'' (JStr q) j)]\<rparr>)"

text \<open>The call of a subagent is not one of the calls that the subagent itself makes.\<close>

fun tagged_ok :: "turn_message \<Rightarrow> bool" where
  "tagged_ok (None, _, m) = canonical m"
| "tagged_ok (Some q, _, m) = (canonical m \<and> q \<noteq> [] \<and> (case m of M_result _ c _ _ _ _ \<Rightarrow> c \<noteq> q | _ \<Rightarrow> True))"

definition add_to :: "id option \<Rightarrow> agent_message \<Rightarrow> conversation \<Rightarrow> conversation" where
  "add_to parent am cv =
     (case parent of
        None \<Rightarrow> cv\<lparr>cv_messages := cv_messages cv @ [am]\<rparr>
      | Some q \<Rightarrow> cv\<lparr>cv_children := AList.update q (children_of cv q @ [am]) (cv_children cv)\<rparr>)"

lemma message_is_object: "\<exists>kvs. enborMessage stringify fresh m fallback = JObj kvs"
  by (simp add: enborMessage_def Let_def)

lemma read_persisted:
  assumes "tagged_ok (parent, fresh, m)"
  shows "read_event parse (persisted stringify (parent, fresh, m)) cv = Inr (add_to parent (forget m) cv)"
proof -
  let ?j = "enborMessage stringify fresh m None"
  let ?k = "case parent of None \<Rightarrow> ?j | Some q \<Rightarrow> jset ''parentToolCallId'' (JStr q) ?j"
  have can: "canonical m" using assms by (cases parent) auto
  have fields: "jget ?k ''role'' = Some (JStr (message_role m))" "jget ?k ''content'' = Some (JArr (enborContentBlocks stringify m))"
    by (simp_all add: enborMessage_fields split: option.split)
  obtain kvs where obj: "?k = JObj kvs"
    using message_is_object [of stringify fresh m None] by (cases parent) (auto simp: jset_def)
  have role: "message_role m \<in> {''user'', ''assistant'', ''tool''}" using can by (cases m) auto
  have found: "enborMessageFromValue (Some ?k) = Some ?k"
    using role fields unfolding obj by (simp add: enborMessageFromValue_def)
  have same: "same_message ?k ?j" by (simp add: same_message_def split: option.split)
  have got: "agentMessageFromEnborMessage ?k = Inr (Some (forget m))" by (rule message_back [OF can same])
  have blocks: "blocks_of ?k = enborContentBlocks stringify m" using fields(2) by (simp add: blocks_of_def)
  have "add_message cv ?k (forget m) = Inr (add_to parent (forget m) cv)"
  proof (cases parent)
    case None
    show ?thesis
    proof (cases m)
      case (M_result i c name bs details isError)
      then show ?thesis using None fields(1) blocks
        by (simp add: add_message_def add_to_def enborMessage_fields jget_Cons answers_parent_def has_type_def
            json_reading tool_result_block_def split: option.split)
    qed (simp_all add: None add_message_def add_to_def enborMessage_fields jget_Cons jget_Nil can)
  next
    case (Some q)
    then obtain x xs where q: "q = x # xs" using assms by (cases q) auto
    have "answers_parent ?k = Inr False"
    proof (cases m)
      case (M_result i c name bs details isError)
      then show ?thesis using Some fields(1) blocks assms
        by (simp add: answers_parent_def has_type_def json_reading tool_result_block_def)
    qed (use fields(1) can in \<open>simp_all add: answers_parent_def\<close>)
    then show ?thesis using Some q by (simp add: add_message_def add_to_def)
  qed
  moreover have "eventCore parse (persisted stringify (parent, fresh, m)) = Some (Some ''message.completed'', JObj [(''message'', ?k)])"
    by (simp add: eventCore_def persisted_def Let_def parseEventPayload_def jget_Cons jget_Nil)
  ultimately show ?thesis by (simp add: read_event_def found got jget_Cons)
qed

fun child_of :: "id option \<Rightarrow> turn_message \<Rightarrow> bool" where
  "child_of parent (q, _, _) \<longleftrightarrow> q = parent"

fun message_of :: "turn_message \<Rightarrow> agent_message" where
  "message_of (_, _, m) = m"

definition thread :: "id option \<Rightarrow> turn_message list \<Rightarrow> agent_message list" where
  "thread parent xs = map (\<lambda>x. forget (message_of x)) (filter (child_of parent) xs)"

lemma add_to_threads [simp]:
  "cv_messages (add_to parent m cv) = (if parent = None then cv_messages cv @ [m] else cv_messages cv)"
  "children_of (add_to parent m cv) q = (if parent = Some q then children_of cv q @ [m] else children_of cv q)"
  by (auto simp: add_to_def children_of_def update_conv split: option.splits)

lemma threads_rebuilt:
  assumes "list_all tagged_ok xs"
  shows "\<exists>cv'. read_events parse (map (persisted stringify) xs) cv = Inr cv' \<and>
    cv_messages cv' = cv_messages cv @ thread None xs \<and> (\<forall>q. children_of cv' q = children_of cv q @ thread (Some q) xs)"
  using assms
proof (induction xs arbitrary: cv)
  case (Cons x xs)
  obtain parent fresh m where x: "x = (parent, fresh, m)" by (cases x)
  from Cons.prems have "tagged_ok x" "list_all tagged_ok xs" by simp_all
  with Cons.IH [of "add_to parent (forget m) cv"] show ?case
    by (auto simp: x read_persisted thread_def)
qed (simp add: thread_def)

text \<open>
  C36 (roundtrip): persisting the messages of a turn and of the subagents of its calls, interleaved in
  any way, and rebuilding the conversation from the events gives each thread back in order: the turn's
  own messages, with the results of its calls, and for every call the messages of its subagent.
\<close>

theorem conversation_rebuilt:
  assumes "list_all tagged_ok xs"
  shows "\<exists>cv. runtimeConversationFromEvents parse (map (persisted stringify) xs) = Inr cv \<and>
    cv_messages cv = thread None xs \<and> (\<forall>q. children_of cv q = thread (Some q) xs)"
  using threads_rebuilt [OF assms, of parse stringify "\<lparr>cv_messages = [], cv_children = []\<rparr>"]
  by (simp add: runtimeConversationFromEvents_def children_of_def)

definition demo_thread :: "turn_message list" where
  "demo_thread =
     [(None, ''m1'', M_user None (Inl ''go'')),
      (None, ''m2'', M_assistant None [A_thinking ''hm'', A_call ''c'' ''agent'' (JObj [])] ''toolUse'' None (Usage 1 2 3)),
      (Some ''c'', ''m3'', M_assistant None [A_text ''done''] ''stop'' None (Usage 1 2 3)),
      (None, ''m4'', M_result None ''c'' ''agent'' [A_text ''done''] None False)]"

theorem conversation_rebuilt_witness:
  "\<exists>cv. runtimeConversationFromEvents (\<lambda>_. None) (map (persisted (\<lambda>_. [])) demo_thread) = Inr cv \<and>
     children_of cv ''c'' = [M_assistant None [A_text ''done''] ''stop'' None ZERO_USAGE] \<and>
     cv_messages cv = [M_user None (Inl ''go''), M_assistant None [A_call ''c'' ''agent'' (JObj [])] ''toolUse'' None ZERO_USAGE,
       M_result None ''c'' ''tool'' [A_text ''done''] None False]"
proof -
  have "list_all tagged_ok demo_thread" by (simp add: demo_thread_def)
  from conversation_rebuilt [OF this, of "\<lambda>_. None" "\<lambda>_. []"] show ?thesis
    by (auto simp: demo_thread_def thread_def)
qed

text \<open>A block that is null aborts the rebuilding although malformed events are meant to be skipped.\<close>

theorem null_block_aborts:
  "runtimeConversationFromEvents parse
     [\<lparr>sv_type = Some ''message.completed'',
       sv_payload = JObj [(''message'', JObj [(''role'', JStr ''user''), (''content'', JArr [JNull])])]\<rparr>] = Inl type_error"
  by (simp add: runtimeConversationFromEvents_def read_event_def eventCore_def parseEventPayload_def jget_Cons jget_Nil
      value_at_def enborMessageFromValue_def agentMessageFromEnborMessage_def blocks_of_def textFromContent_def block_type_def js_property_def)

end
