(* ===== verification/TurnEngine.thy ===== *)
theory TurnEngine
  imports Transcript "HOL-Library.AList"
begin

text \<open>
  The turn engine (\<open>server/usecases/runtime/engine\<close>): the status of a turn (\<open>turn-status.ts\<close>), the
  identifiers of tool calls (\<open>tool-call-ids.ts\<close>), the tools, the model stream, the event subscriber and
  the run of a turn (\<open>turn-engine.ts\<close>), and the tool that delegates to a subagent (\<open>subagent-tools.ts\<close>).

  The agent library that drives the loop is not part of the program: it is a list of actions, each a
  call of one of the functions the engine handed to it, in any order. What the ports answer (liveness,
  policy, results, sandbox, model, sink), the abort of the signal while a function waits, the tool
  schemas and fresh identifiers are arguments, given with the action they belong to.
\<close>

section \<open>Errors\<close>

record provider_error =
  pe_message :: string
  pe_category :: string
  pe_retryable :: bool
  pe_retry_after :: "int option"

datatype engine_error =
    X_cancelled string
  | X_denied string
  | X_provider provider_error
  | X_error string

definition CANCELLATION_REASON :: string where "CANCELLATION_REASON = ''Runtime request aborted''"

definition cancelled_error :: engine_error where "cancelled_error = X_cancelled ''Session runtime is no longer active''"

fun error_message :: "engine_error \<Rightarrow> string" where
  "error_message (X_cancelled m) = m"
| "error_message (X_denied m) = m"
| "error_message (X_provider p) = pe_message p"
| "error_message (X_error m) = m"

fun isRuntimeTurnCancelled :: "engine_error \<Rightarrow> bool" where
  "isRuntimeTurnCancelled (X_cancelled _) = True"
| "isRuntimeTurnCancelled _ = False"

section \<open>The status of a turn\<close>

datatype turn_status = S_idle | S_paused | S_cancelled | S_failed string

datatype status_signal = G_pause | G_cancel | G_fail string

fun PRECEDENCE :: "turn_status \<Rightarrow> nat" where
  "PRECEDENCE S_idle = 0"
| "PRECEDENCE (S_failed _) = 1"
| "PRECEDENCE S_cancelled = 2"
| "PRECEDENCE S_paused = 3"

fun signalled :: "status_signal \<Rightarrow> turn_status" where
  "signalled G_pause = S_paused"
| "signalled G_cancel = S_cancelled"
| "signalled (G_fail m) = S_failed m"

fun is_failed :: "turn_status \<Rightarrow> bool" where
  "is_failed (S_failed _) = True"
| "is_failed _ = False"

definition reduceTurnStatus :: "turn_status \<Rightarrow> status_signal \<Rightarrow> turn_status" where
  "reduceTurnStatus current signal =
     (if PRECEDENCE current < PRECEDENCE (signalled signal) then signalled signal
      else if is_failed (signalled signal) \<and> is_failed current then signalled signal
      else current)"

section \<open>Identifiers of tool calls\<close>

fun block_call_ids :: "agent_block \<Rightarrow> id list" where
  "block_call_ids (A_call c _ _) = [c]"
| "block_call_ids _ = []"

fun message_call_ids :: "agent_message \<Rightarrow> id list" where
  "message_call_ids (M_result _ c _ _ _ _) = [c]"
| "message_call_ids (M_assistant _ content _ _ _) = concat (map block_call_ids content)"
| "message_call_ids _ = []"

definition persistedToolCallIds :: "agent_message list \<Rightarrow> id set" where
  "persistedToolCallIds messages = set (concat (map message_call_ids messages))"

text \<open>\<open>new_id\<close> stands for the fresh identifier that is drawn when the identifiers \<open>ids\<close> are in use.\<close>

fun reserve_blocks :: "(id set \<Rightarrow> id) \<Rightarrow> id set \<Rightarrow> agent_block list \<Rightarrow> id set \<times> agent_block list" where
  "reserve_blocks new_id ids [] = (ids, [])"
| "reserve_blocks new_id ids (A_call c name arguments # blocks) =
     (let c' = (if c \<in> ids then new_id ids else c);
          (ids', blocks') = reserve_blocks new_id (insert c' ids) blocks in
      (ids', A_call c' name arguments # blocks'))"
| "reserve_blocks new_id ids (b # blocks) =
     (let (ids', blocks') = reserve_blocks new_id ids blocks in (ids', b # blocks'))"

section \<open>The state of a turn\<close>

datatype engine_event =
    V_runtime_started
  | V_runtime_completed
  | V_turn_started
  | V_turn_completed json
  | V_message_started json
  | V_message_updated json
  | V_message_completed json
  | V_usage string engine_usage
  | V_runtime_error provider_error

record verdict =
  vd_allowed :: bool
  vd_reason :: "string option"
  vd_requires :: bool

text \<open>The calls of the policy, of the sandbox and of the model, in their order.\<close>

datatype engine_call =
    C_approve id string json "engine_error + verdict"
  | C_execute id string json
  | C_model "agent_block list"

text \<open>\<open>en_outer\<close> is the status of the turn that delegated to this one, if any.\<close>

record engine_state =
  en_status :: turn_status
  en_outer :: "turn_status option"
  en_policy_failure :: "string option"
  en_requires :: bool
  en_aborted :: bool
  en_provider :: "provider_error option"
  en_ids :: "id set"
  en_active :: "id option"
  en_last :: "id option"
  en_tool_ids :: "(id \<times> id) list"
  en_emitted :: "engine_event list"
  en_calls :: "engine_call list"

type_synonym 'a engine_result = "engine_state \<times> (engine_error + 'a)"

definition then_e :: "'a engine_result \<Rightarrow> ('a \<Rightarrow> engine_state \<Rightarrow> 'b engine_result) \<Rightarrow> 'b engine_result" where
  "then_e r k = (case r of (s, Inl e) \<Rightarrow> (s, Inl e) | (s, Inr x) \<Rightarrow> k x s)"

lemma then_e_simps [simp]: "then_e (s, Inl e) k = (s, Inl e)" "then_e (s, Inr x) k = k x s"
  by (simp_all add: then_e_def)

definition signal_status :: "status_signal \<Rightarrow> engine_state \<Rightarrow> engine_state" where
  "signal_status g s = s\<lparr>en_status := reduceTurnStatus (en_status s) g\<rparr>"

definition log_call :: "engine_call \<Rightarrow> engine_state \<Rightarrow> engine_state" where
  "log_call c s = s\<lparr>en_calls := en_calls s @ [c]\<rparr>"

text \<open>A liveness check: whether the signal is aborted before and after it, and what it answers.\<close>

record live =
  lv_before :: bool
  lv_answer :: "engine_error option"
  lv_after :: bool

definition ensureTurnActive :: "live \<Rightarrow> engine_state \<Rightarrow> unit engine_result" where
  "ensureTurnActive l s =
     (s, if en_aborted s \<or> lv_before l then Inl (X_cancelled CANCELLATION_REASON)
         else case lv_answer l of
           Some e \<Rightarrow> Inl e
         | None \<Rightarrow> if lv_after l then Inl (X_cancelled CANCELLATION_REASON) else Inr ())"

section \<open>Approving a call\<close>

definition status_admits :: "turn_status \<Rightarrow> engine_error option" where
  "status_admits st = (case st of S_idle \<Rightarrow> None | S_failed m \<Rightarrow> Some (X_denied m) | _ \<Rightarrow> Some cancelled_error)"

text \<open>What a verdict does to the flags of the turn whose gate it passes.\<close>

definition note_verdict :: "verdict \<Rightarrow> engine_state \<Rightarrow> engine_state" where
  "note_verdict v s =
     s\<lparr>en_policy_failure := (if vd_allowed v then en_policy_failure s
          else Some (case vd_reason v of Some r \<Rightarrow> r | None \<Rightarrow> ''Tool call blocked by Enbor policy'')),
       en_requires := (en_requires s \<or> vd_requires v)\<rparr>"

definition approve_call ::
    "id \<Rightarrow> string \<Rightarrow> json \<Rightarrow> engine_error + verdict \<Rightarrow> engine_state \<Rightarrow> verdict engine_result" where
  "approve_call toolCallId toolName input answer s =
     (case status_admits (en_status s) of
        Some e \<Rightarrow> (s, Inl e)
      | None \<Rightarrow>
          (case (case en_outer s of None \<Rightarrow> None | Some st \<Rightarrow> status_admits st) of
             Some e \<Rightarrow> (s, Inl e)
           | None \<Rightarrow>
               let s1 = log_call (C_approve toolCallId toolName input answer) s in
               (case answer of Inl e \<Rightarrow> (s1, Inl e) | Inr v \<Rightarrow> (note_verdict v s1, Inr v))))"

section \<open>The sandbox tools\<close>

record tool_answer =
  ta_error :: "json option"
  ta_output :: json
  ta_duration :: json

text \<open>
  What one call of a tool meets: its parsed input, the three liveness checks, the policy, a result
  supplied by the user, and the answer of the sandbox with its parsed output.
\<close>

record tool_world =
  tl_input :: "engine_error + json"
  tl_live :: "nat \<Rightarrow> live"
  tl_verdict :: "engine_error + verdict"
  tl_supplied :: "engine_error + json option"
  tl_answer :: "engine_error + tool_answer"
  tl_output :: "engine_error + json"
  tl_pause :: bool

definition stringifyToolOutput :: "(json \<Rightarrow> string) \<Rightarrow> json \<Rightarrow> string" where
  "stringifyToolOutput stringify result =
     (let streams = List.map_filter id [jstr (jget result ''stdout''), jstr (jget result ''stderr'')] in
      if streams \<noteq> [] then join_lines (filter (\<lambda>s. s \<noteq> []) streams)
      else case jstr (jget result ''content'') of Some s \<Rightarrow> s | None \<Rightarrow> stringify result)"

text \<open>The content and the details that a tool returns.\<close>

type_synonym tool_value = "agent_block list \<times> json"

definition lift_answer :: "engine_error + 'a \<Rightarrow> engine_state \<Rightarrow> 'a engine_result" where
  "lift_answer r s = (s, r)"

definition execute_tool ::
    "(json \<Rightarrow> string) \<Rightarrow> string \<Rightarrow> id \<Rightarrow> tool_world \<Rightarrow> engine_state \<Rightarrow> tool_value engine_result" where
  "execute_tool stringify name toolCallId w s =
     then_e (lift_answer (tl_input w) s)
       (\<lambda>input s1. then_e (ensureTurnActive (tl_live w 0) s1)
         (\<lambda>_ s2. then_e (approve_call toolCallId name input (tl_verdict w) s2)
           (\<lambda>v s3.
              if \<not> vd_allowed v
              then (s3, Inl (X_denied (case vd_reason v of Some r \<Rightarrow> r | None \<Rightarrow> ''Tool call blocked by Enbor policy: '' @ name)))
              else then_e (ensureTurnActive (tl_live w 1) s3)
                (\<lambda>_ s4. then_e (lift_answer (tl_supplied w) s4)
                  (\<lambda>supplied s5.
                     if truthy supplied
                     then (s5, Inr ([A_text (stringifyToolOutput stringify (value_at supplied))], value_at supplied))
                     else then_e (lift_answer (tl_answer w) (log_call (C_execute toolCallId name input) s5))
                       (\<lambda>answer s6. then_e (ensureTurnActive (tl_live w 2) s6)
                         (\<lambda>_ s7.
                            if truthy (ta_error answer)
                            then (s7, Inl (X_error (stringify (value_at (ta_error answer)))))
                            else then_e (lift_answer (tl_output w) s7)
                              (\<lambda>output s8. (s8, Inr ([A_text (stringifyToolOutput stringify output)],
                                 jset ''durationMs'' (ta_duration answer) output))))))))))"

definition SANDBOX_TOOLS :: "string list" where
  "SANDBOX_TOOLS = [''read'', ''bash'', ''edit'', ''write'', ''grep'', ''find'', ''ls'', ''fetch'', ''web_search'']"

definition runtimeTools :: "json \<Rightarrow> string list" where
  "runtimeTools agentSnapshot =
     (case jarr (jget agentSnapshot ''allowedTools'') of
        Some xs \<Rightarrow> filter (\<lambda>t. JStr t \<in> set xs) SANDBOX_TOOLS
      | None \<Rightarrow> SANDBOX_TOOLS)"

section \<open>The model stream\<close>

text \<open>
  What one call of the model meets: whether the signal is aborted when it starts, the budget (when there
  is one), whether the transcript has an answer of the model already, the two liveness checks and the
  answer of the model with its blocks, stop reason and usage.
\<close>

record model_world =
  mw_aborted :: bool
  mw_pause :: bool
  mw_progress :: bool
  mw_live :: "nat \<Rightarrow> live"
  mw_answer :: "engine_error + agent_message"
  mw_aborted_catch :: bool

definition synthetic_message :: "string \<Rightarrow> string \<Rightarrow> agent_message" where
  "synthetic_message stop message =
     M_assistant None [] stop (if message = [] then None else Some message) ZERO_USAGE"

definition reserveToolCallIds :: "(id set \<Rightarrow> id) \<Rightarrow> agent_message \<Rightarrow> engine_state \<Rightarrow> agent_message engine_result" where
  "reserveToolCallIds new_id message s =
     (case message of
        M_assistant i content stop err usage \<Rightarrow>
          (case reserve_blocks new_id (en_ids s) content of
             (ids', content') \<Rightarrow>
               (log_call (C_model content') (s\<lparr>en_ids := ids'\<rparr>), Inr (M_assistant i content' stop err usage)))
      | _ \<Rightarrow> (log_call (C_model []) s, Inr message))"

definition model_call :: "(id set \<Rightarrow> id) \<Rightarrow> model_world \<Rightarrow> engine_state \<Rightarrow> agent_message engine_result" where
  "model_call new_id w s =
     then_e (ensureTurnActive (mw_live w 0) s)
       (\<lambda>_ s1. then_e (lift_answer (mw_answer w) s1)
         (\<lambda>message s2. then_e (ensureTurnActive (mw_live w 1) s2)
           (\<lambda>_ s3. reserveToolCallIds new_id message s3)))"

text \<open>The message of an error that is not an \<open>Error\<close> is not needed: the engine throws errors only.\<close>

definition stream_turn :: "(id set \<Rightarrow> id) \<Rightarrow> bool \<Rightarrow> model_world \<Rightarrow> engine_state \<Rightarrow> engine_state \<times> agent_message" where
  "stream_turn new_id has_budget w s =
     (case en_status s of
        S_failed m \<Rightarrow> (s, synthetic_message ''error'' m)
      | S_idle \<Rightarrow>
          if en_aborted s \<or> mw_aborted w then (s, synthetic_message ''aborted'' CANCELLATION_REASON)
          else if has_budget \<and> mw_pause w \<and> mw_progress w
          then (signal_status G_pause s, synthetic_message ''aborted'' ''Paused for continuation'')
          else
            (case model_call new_id w s of
               (s1, Inr message) \<Rightarrow> (s1, message)
             | (s1, Inl e) \<Rightarrow>
                 let s2 = (if isRuntimeTurnCancelled e then signal_status G_cancel s1 else s1);
                     aborted = (en_aborted s2 \<or> mw_aborted_catch w \<or> isRuntimeTurnCancelled e);
                     s3 = (case e of X_provider p \<Rightarrow> if aborted then s2 else s2\<lparr>en_provider := Some p\<rparr> | _ \<Rightarrow> s2) in
                 (s3, synthetic_message (if aborted then ''aborted'' else ''error'') (error_message e)))
      | _ \<Rightarrow> (s, synthetic_message ''aborted'' ''Paused for continuation''))"

section \<open>The events of the agent\<close>

datatype agent_event =
    AE_agent_start
  | AE_agent_end
  | AE_turn_start
  | AE_turn_end agent_message
  | AE_message_start agent_message
  | AE_message_update agent_message
  | AE_message_end agent_message
  | AE_tool_start id
  | AE_tool_update id "agent_block list option" "json option"
  | AE_tool_end id bool

record event_world =
  ew_live :: live
  ew_fresh :: id
  ew_sink :: "nat \<Rightarrow> engine_error option"

definition toolMessageId :: "id \<Rightarrow> id \<Rightarrow> engine_state \<Rightarrow> engine_state \<times> id" where
  "toolMessageId fresh toolCallId s =
     (case map_of (en_tool_ids s) toolCallId of
        Some (c # cs) \<Rightarrow> (s, c # cs)
      | _ \<Rightarrow> (s\<lparr>en_tool_ids := AList.update toolCallId fresh (en_tool_ids s)\<rparr>, fresh))"

definition messageIdFor :: "id \<Rightarrow> agent_message \<Rightarrow> id option \<Rightarrow> engine_state \<Rightarrow> engine_state \<times> id" where
  "messageIdFor fresh message fallback s =
     (case message of
        M_result _ toolCallId _ _ _ _ \<Rightarrow> toolMessageId fresh toolCallId s
      | _ \<Rightarrow> (s, messageId fresh message fallback))"

definition enborToolResultMessage :: "id \<Rightarrow> agent_block list \<Rightarrow> json option \<Rightarrow> bool \<Rightarrow> id \<Rightarrow> json" where
  "enborToolResultMessage toolCallId content details isError msg_id =
     JObj [(''id'', JStr msg_id), (''role'', JStr ''tool''), (''parentToolCallId'', JStr toolCallId),
           (''content'', JArr [tool_result_block toolCallId content details isError])]"

definition map_event ::
    "(json \<Rightarrow> string) \<Rightarrow> id \<Rightarrow> agent_event \<Rightarrow> engine_state \<Rightarrow> engine_event list engine_result" where
  "map_event stringify fresh event s =
     (case event of
        AE_agent_start \<Rightarrow> (s, Inr [V_runtime_started])
      | AE_agent_end \<Rightarrow> (s, Inr [V_runtime_completed])
      | AE_turn_start \<Rightarrow> (s, Inr [V_turn_started])
      | AE_turn_end m \<Rightarrow>
          (case messageIdFor fresh m (en_last s) s of
             (s1, i) \<Rightarrow> (s1, Inr [V_turn_completed (enborMessage stringify fresh m (Some i))]))
      | AE_message_start m \<Rightarrow>
          (case messageIdFor fresh m (en_active s) s of
             (s1, i) \<Rightarrow> (s1\<lparr>en_active := Some i, en_last := Some i\<rparr>,
                         Inr [V_message_started (enborMessage stringify fresh m (Some i))]))
      | AE_message_update m \<Rightarrow>
          (case messageIdFor fresh m (en_active s) s of
             (s1, i) \<Rightarrow> (s1, Inr [V_message_updated (enborMessage stringify fresh m (Some i))]))
      | AE_message_end m \<Rightarrow>
          (case messageIdFor fresh m (en_active s) s of
             (s1, i) \<Rightarrow> (s1\<lparr>en_last := Some i, en_active := None\<rparr>,
                         Inr [V_message_completed (enborMessage stringify fresh m (Some i))]))
      | AE_tool_update c content details \<Rightarrow>
          (case content of
             None \<Rightarrow> (s, Inl (X_error ''tool execution update partialResult must be an AgentToolResult''))
           | Some bs \<Rightarrow>
               (case toolMessageId fresh c s of
                  (s1, i) \<Rightarrow> (s1, Inr [V_message_updated (enborToolResultMessage c bs details False i)])))
      | AE_tool_start c \<Rightarrow> (s, Inr [])
      | AE_tool_end c err \<Rightarrow> (s, Inr []))"

text \<open>The sink gets the events one by one and may throw at each.\<close>

fun emit_all :: "(nat \<Rightarrow> engine_error option) \<Rightarrow> nat \<Rightarrow> engine_event list \<Rightarrow> engine_state \<Rightarrow> unit engine_result" where
  "emit_all sink k [] s = (s, Inr ())"
| "emit_all sink k (v # vs) s =
     (let s1 = s\<lparr>en_emitted := en_emitted s @ [v]\<rparr> in
      case sink k of Some e \<Rightarrow> (s1, Inl e) | None \<Rightarrow> emit_all sink (Suc k) vs s1)"

fun turnFailureMessage :: "agent_event \<Rightarrow> string option" where
  "turnFailureMessage (AE_message_end (M_assistant _ _ stop err _)) =
     (if stop = ''aborted'' then Some CANCELLATION_REASON
      else if stop = ''error'' then Some (case err of Some m \<Rightarrow> m | None \<Rightarrow> ''Runtime model request failed'')
      else None)"
| "turnFailureMessage _ = None"

fun usageEvent :: "string \<Rightarrow> agent_event \<Rightarrow> engine_event list" where
  "usageEvent model (AE_message_end (M_assistant _ _ _ _ usage)) = [V_usage model usage]"
| "usageEvent model _ = []"

fun ends_in_error :: "agent_event \<Rightarrow> bool" where
  "ends_in_error (AE_message_end (M_assistant _ _ stop _ _)) = (stop = ''error'')"
| "ends_in_error _ = False"

fun ends_tool_result :: "agent_event \<Rightarrow> bool" where
  "ends_tool_result (AE_message_end (M_result _ _ _ _ _ _)) = True"
| "ends_tool_result _ = False"

fun ends_in_tool_error :: "agent_event \<Rightarrow> bool" where
  "ends_in_tool_error (AE_tool_end _ err) = err"
| "ends_in_tool_error _ = False"

definition nonempty :: "string option \<Rightarrow> bool" where
  "nonempty v = (case v of Some (c # cs) \<Rightarrow> True | _ \<Rightarrow> False)"

definition note_failure :: "agent_event \<Rightarrow> engine_state \<Rightarrow> engine_state" where
  "note_failure event s =
     (case turnFailureMessage event of
        Some (c # cs) \<Rightarrow>
          signal_status (if c # cs = CANCELLATION_REASON then G_cancel else G_fail (c # cs)) s
      | _ \<Rightarrow> s)"

definition emit_event :: "(json \<Rightarrow> string) \<Rightarrow> string \<Rightarrow> event_world \<Rightarrow> agent_event \<Rightarrow> engine_state \<Rightarrow> unit engine_result" where
  "emit_event stringify model w event s =
     then_e (map_event stringify (ew_fresh w) event s)
       (\<lambda>vs s1. then_e (emit_all (ew_sink w) 0 (vs @ usageEvent model event) s1)
         (\<lambda>_ s2.
            case (ends_in_error event, en_provider s2) of
              (True, Some p) \<Rightarrow> emit_all (ew_sink w) 2 [V_runtime_error p] (s2\<lparr>en_provider := None\<rparr>)
            | _ \<Rightarrow> (s2, Inr ())))"

definition on_agent_event ::
    "(json \<Rightarrow> string) \<Rightarrow> string \<Rightarrow> event_world \<Rightarrow> agent_event \<Rightarrow> engine_state \<Rightarrow> unit engine_result" where
  "on_agent_event stringify model w event s =
     (let denied = (is_failed (en_status s) \<and> \<not> en_requires s \<and> ends_tool_result event) in
      if en_status s = S_paused \<or> (is_failed (en_status s) \<and> \<not> denied) then (s, Inr ())
      else
        (case ensureTurnActive (ew_live w) s of
           (s1, Inl e) \<Rightarrow> if isRuntimeTurnCancelled e then (signal_status G_cancel s1, Inr ()) else (s1, Inl e)
         | (s1, Inr _) \<Rightarrow>
             if ends_in_tool_error event \<and> nonempty (en_policy_failure s1)
             then (signal_status (G_fail (case en_policy_failure s1 of Some m \<Rightarrow> m | None \<Rightarrow> []))
                     (s1\<lparr>en_policy_failure := None\<rparr>), Inr ())
             else emit_event stringify model w event (note_failure event s1)))"

section \<open>The input of a turn\<close>

text \<open>
  \<open>in_resolves\<close> tells which models the host can resolve, \<open>in_new_id\<close> draws identifiers of calls,
  \<open>in_aborted\<close> whether the external signal is aborted from the start.
\<close>

record engine_input =
  in_model :: string
  in_provider :: string
  in_resolves :: "string \<Rightarrow> bool"
  in_snapshot :: json
  in_prompt :: "string option"
  in_continuation :: bool
  in_messages :: "agent_message list"
  in_children :: "(id \<times> agent_message list) list"
  in_budget :: bool
  in_aborted :: bool
  in_stringify :: "json \<Rightarrow> string"
  in_new_id :: "id set \<Rightarrow> id"

datatype engine_outcome = R_idle | R_aborted | R_paused

fun resolveTurnResult :: "turn_status \<Rightarrow> engine_error + engine_outcome" where
  "resolveTurnResult S_paused = Inr R_paused"
| "resolveTurnResult S_cancelled = Inr R_aborted"
| "resolveTurnResult (S_failed m) = Inl (X_error m)"
| "resolveTurnResult S_idle = Inr R_idle"

definition initial_state :: "turn_status option \<Rightarrow> id set \<Rightarrow> bool \<Rightarrow> engine_state" where
  "initial_state outer ids aborted =
     \<lparr>en_status = S_idle, en_outer = outer, en_policy_failure = None, en_requires = False, en_aborted = aborted,
      en_provider = None, en_ids = ids, en_active = None, en_last = None, en_tool_ids = [], en_emitted = [], en_calls = []\<rparr>"

section \<open>Delegating to a subagent\<close>

definition subagents_of :: "json \<Rightarrow> json list" where
  "subagents_of agentSnapshot = (case jarr (jget agentSnapshot ''subagents'') of Some xs \<Rightarrow> xs | None \<Rightarrow> [])"

definition member :: "string \<Rightarrow> json \<Rightarrow> (string \<times> json) list" where
  "member k v = (case jget v k of None \<Rightarrow> [] | Some x \<Rightarrow> [(k, x)])"

definition child_input :: "engine_input \<Rightarrow> json \<Rightarrow> id \<Rightarrow> string \<Rightarrow> string \<Rightarrow> bool \<Rightarrow> engine_input" where
  "child_input input child toolCallId modelId prompt aborted =
     (let messages = (case map_of (in_children input) toolCallId of Some ms \<Rightarrow> ms | None \<Rightarrow> []) in
      \<lparr>in_model = modelId,
       in_provider = (case jstr (jget child ''provider'') of Some p \<Rightarrow> p | None \<Rightarrow> in_provider input),
       in_resolves = in_resolves input,
       in_snapshot = JObj (member ''systemPrompt'' child @ member ''allowedTools'' child @ member ''skills'' child @
         member ''mcpConnectors'' child),
       in_prompt = (if messages = [] then Some prompt else None), in_continuation = (messages \<noteq> []),
       in_messages = messages, in_children = [], in_budget = in_budget input, in_aborted = aborted,
       in_stringify = in_stringify input, in_new_id = in_new_id input\<rparr>)"

definition spoken_text :: "agent_block list \<Rightarrow> string" where
  "spoken_text content = concat (map block_text content)"

definition canonical_text :: "json \<Rightarrow> string" where
  "canonical_text message =
     concat (map (\<lambda>b. if jget b ''type'' = Some (JStr ''text'') then string_at (jget b ''text'') else [])
       (case jarr (jget message ''content'') of Some bs \<Rightarrow> bs | None \<Rightarrow> []))"

text \<open>What of the events of a subagent reaches the sink of the turn, and the text it ends with.\<close>

fun child_event :: "id \<Rightarrow> engine_event \<Rightarrow> engine_event list" where
  "child_event c (V_message_started m) = [V_message_started (jset ''parentToolCallId'' (JStr c) m)]"
| "child_event c (V_message_updated m) = [V_message_updated (jset ''parentToolCallId'' (JStr c) m)]"
| "child_event c (V_message_completed m) = [V_message_completed (jset ''parentToolCallId'' (JStr c) m)]"
| "child_event c (V_usage model u) = [V_usage model u]"
| "child_event c _ = []"

fun child_output :: "engine_event list \<Rightarrow> string \<Rightarrow> string" where
  "child_output [] output = output"
| "child_output (V_message_completed m # vs) output =
     child_output vs (if jget m ''role'' = Some (JStr ''assistant'') then canonical_text m else output)"
| "child_output (_ # vs) output = child_output vs output"

fun note_calls :: "engine_call list \<Rightarrow> engine_state \<Rightarrow> engine_state" where
  "note_calls [] s = s"
| "note_calls (C_approve _ _ _ (Inr v) # cs) s = note_calls cs (note_verdict v s)"
| "note_calls (_ # cs) s = note_calls cs s"

text \<open>
  The turn after its subagent: the calls, the identifiers and the events of the subagent are its own, and
  the signal that aborted the subagent can only be that of the turn.
\<close>

definition absorb_child :: "id \<Rightarrow> engine_state \<Rightarrow> engine_state \<Rightarrow> engine_state" where
  "absorb_child toolCallId child s =
     (note_calls (en_calls child) s)
       \<lparr>en_aborted := (en_aborted s \<or> en_aborted child), en_ids := en_ids child, en_calls := en_calls s @ en_calls child,
        en_emitted := en_emitted s @ concat (map (child_event toolCallId) (en_emitted child))\<rparr>"

definition pause_turn :: "engine_state \<Rightarrow> engine_state" where
  "pause_turn s = (signal_status G_pause s)\<lparr>en_aborted := True\<rparr>"

definition subagent_value :: "json \<Rightarrow> string \<Rightarrow> tool_value" where
  "subagent_value child content =
     ([A_text content], JObj [(''subagentName'', value_at (jget child ''name'')), (''content'', JStr content)])"

fun finished_text :: "agent_message list \<Rightarrow> string option" where
  "finished_text [] = None"
| "finished_text [M_assistant _ content stop _ _] = (if stop = ''stop'' then Some (spoken_text content) else None)"
| "finished_text [_] = None"
| "finished_text (_ # m # ms) = finished_text (m # ms)"

definition run_subagent ::
    "(engine_input \<Rightarrow> engine_state \<Rightarrow> engine_outcome engine_result) \<Rightarrow> engine_input \<Rightarrow> json \<Rightarrow> id \<Rightarrow> string \<Rightarrow> string \<Rightarrow>
     engine_state \<Rightarrow> tool_value engine_result" where
  "run_subagent run input child toolCallId modelId prompt s =
     (case run (child_input input child toolCallId modelId prompt (en_aborted s))
             (initial_state (Some (en_status s)) (en_ids s) (en_aborted s)) of
        (cs, result) \<Rightarrow>
          let s1 = absorb_child toolCallId cs s in
          (case result of
             Inl e \<Rightarrow> (s1, Inl e)
           | Inr R_idle \<Rightarrow> (s1, Inr (subagent_value child (child_output (en_emitted cs) [])))
           | Inr R_paused \<Rightarrow> (pause_turn s1, Inl cancelled_error)
           | Inr R_aborted \<Rightarrow> (s1, Inl cancelled_error)))"

definition execute_subagent ::
    "(engine_input \<Rightarrow> engine_state \<Rightarrow> engine_outcome engine_result) \<Rightarrow> engine_input \<Rightarrow> id \<Rightarrow> tool_world \<Rightarrow> engine_state \<Rightarrow>
     tool_value engine_result" where
  "execute_subagent run input toolCallId w s =
     then_e (lift_answer (tl_input w) s)
       (\<lambda>params s1.
          case List.find (\<lambda>c. jget c ''name'' = jget params ''subagentName'') (subagents_of (in_snapshot input)) of
            None \<Rightarrow> (s1, Inl (X_error (''Unknown configured subagent: '' @
              (case jstr (jget params ''subagentName'') of Some n \<Rightarrow> n | None \<Rightarrow> ''(missing)''))))
          | Some child \<Rightarrow>
              if en_aborted s1 then (s1, Inl cancelled_error)
              else
                (case lv_answer (tl_live w 0) of
                   Some e \<Rightarrow> (s1, Inl e)
                 | None \<Rightarrow>
                     then_e (approve_call toolCallId ''agent'' params (tl_verdict w) s1)
                       (\<lambda>v s2.
                          if \<not> vd_allowed v
                          then (s2, Inl (X_denied (case vd_reason v of Some r \<Rightarrow> r | None \<Rightarrow> ''Subagent blocked by Session policy'')))
                          else then_e (lift_answer (tl_supplied w) s2)
                            (\<lambda>supplied s3.
                               if truthy supplied
                               then (s3, Inr ([A_text (in_stringify input (value_at supplied))], value_at supplied))
                               else
                                 let modelId = (case jstr (jget child ''model'') of Some m \<Rightarrow> m | None \<Rightarrow> in_model input) in
                                 if modelId \<noteq> in_model input \<and> \<not> in_resolves input modelId
                                 then (s3, Inl (X_error (''Subagent model cannot be resolved: '' @ modelId)))
                                 else
                                   (case finished_text (case map_of (in_children input) toolCallId of Some ms \<Rightarrow> ms | None \<Rightarrow> []) of
                                      Some content \<Rightarrow> (s3, Inr (subagent_value child content))
                                    | None \<Rightarrow>
                                        if in_budget input \<and> tl_pause w then (pause_turn s3, Inl cancelled_error)
                                        else run_subagent run input child toolCallId modelId
                                               (string_at (jget params ''prompt'')) s3)))))"

section \<open>Running a turn\<close>

text \<open>
  What the agent library does with the engine: it delivers an event, asks for a model stream, calls a
  tool; or the external signal is aborted. \<open>'w\<close> is the world of the turn that a call delegates to.
\<close>

datatype 'w action =
    Act_event agent_event event_world
  | Act_model model_world
  | Act_call string id tool_world 'w
  | Act_abort

record 'w run_world =
  rw_live :: live
  rw_replay :: "nat \<Rightarrow> tool_world \<times> 'w \<times> id \<times> engine_error option"
  rw_actions :: "'w action list"
  rw_end :: "engine_error option"

type_synonym 'w runner = "'w \<Rightarrow> engine_input \<Rightarrow> engine_state \<Rightarrow> engine_outcome engine_result"

definition tool_names :: "engine_input \<Rightarrow> string list" where
  "tool_names input =
     runtimeTools (in_snapshot input) @ (if subagents_of (in_snapshot input) = [] then [] else [''agent''])"

definition call_tool ::
    "'w runner \<Rightarrow> engine_input \<Rightarrow> string \<Rightarrow> id \<Rightarrow> tool_world \<Rightarrow> 'w \<Rightarrow> engine_state \<Rightarrow> tool_value engine_result" where
  "call_tool run input name toolCallId w child s =
     (if name = ''agent'' then execute_subagent (run child) input toolCallId w s
      else execute_tool (in_stringify input) name toolCallId w s)"

fun act :: "'w runner \<Rightarrow> engine_input \<Rightarrow> 'w action \<Rightarrow> engine_state \<Rightarrow> engine_state" where
  "act run input (Act_event event w) s = fst (on_agent_event (in_stringify input) (in_model input) w event s)"
| "act run input (Act_model w) s = fst (stream_turn (in_new_id input) (in_budget input) w s)"
| "act run input (Act_call name toolCallId w child) s =
     (if name \<in> set (tool_names input) then fst (call_tool run input name toolCallId w child s) else s)"
| "act run input Act_abort s = s\<lparr>en_aborted := True\<rparr>"

text \<open>The calls of the last answer of the model that have no result yet.\<close>

fun call_blocks :: "agent_block list \<Rightarrow> (id \<times> string) list" where
  "call_blocks [] = []"
| "call_blocks (A_call c name _ # bs) = (c, name) # call_blocks bs"
| "call_blocks (_ # bs) = call_blocks bs"

fun answered_ids :: "agent_message list \<Rightarrow> id set" where
  "answered_ids [] = {}"
| "answered_ids (M_result _ c _ _ _ _ # ms) = insert c (answered_ids ms)"
| "answered_ids (_ # ms) = answered_ids ms"

definition pending_calls :: "agent_message list \<Rightarrow> (id \<times> string) list" where
  "pending_calls messages =
     (let later = takeWhile (\<lambda>m. \<not> is_assistant m) (rev messages) in
      case dropWhile (\<lambda>m. \<not> is_assistant m) (rev messages) of
        M_assistant _ content _ _ _ # _ \<Rightarrow> filter (\<lambda>p. fst p \<notin> answered_ids later) (call_blocks content)
      | _ \<Rightarrow> [])"

text \<open>\<open>None\<close>: go on; \<open>Some r\<close>: the turn returns \<open>r\<close>.\<close>

fun replay ::
    "'w runner \<Rightarrow> engine_input \<Rightarrow> (nat \<Rightarrow> tool_world \<times> 'w \<times> id \<times> engine_error option) \<Rightarrow> nat \<Rightarrow> (id \<times> string) list \<Rightarrow>
     engine_state \<Rightarrow> (engine_error + engine_outcome) option \<times> engine_state" where
  "replay run input ws k [] s = (None, s)"
| "replay run input ws k ((c, name) # calls) s =
     (if name \<notin> set (tool_names input) then (Some (Inl (X_error (''Cannot resume unavailable tool: '' @ name))), s)
      else
        (case ws k of (w, child, fresh, sink) \<Rightarrow>
           (case call_tool run input name c w child s of
              (s1, Inl e) \<Rightarrow> (Some (if en_status s1 \<noteq> S_idle then resolveTurnResult (en_status s1) else Inl e), s1)
            | (s1, Inr (content, details)) \<Rightarrow>
                let m = M_result None c name content (Some details) False;
                    s2 = s1\<lparr>en_emitted := en_emitted s1 @ [V_message_completed (enborMessage (in_stringify input) fresh m None)]\<rparr> in
                (case sink of
                   Some e \<Rightarrow> (Some (Inl e), s2)
                 | None \<Rightarrow> replay run input ws (Suc k) calls s2))))"

definition caught :: "engine_error + engine_outcome \<Rightarrow> engine_error + engine_outcome" where
  "caught r = (case r of Inl e \<Rightarrow> if isRuntimeTurnCancelled e then Inr R_aborted else Inl e | Inr x \<Rightarrow> Inr x)"

definition run_agent :: "'w runner \<Rightarrow> engine_input \<Rightarrow> 'w run_world \<Rightarrow> engine_state \<Rightarrow> engine_outcome engine_result" where
  "run_agent run input w s =
     (let s1 = fold (act run input) (rw_actions w) s in
      (s1, caught (case rw_end w of Some e \<Rightarrow> Inl e | None \<Rightarrow> resolveTurnResult (en_status s1))))"

definition run_turn_with :: "'w runner \<Rightarrow> 'w run_world runner" where
  "run_turn_with run w input s0 =
     (let s = s0\<lparr>en_aborted := en_aborted s0 \<or> in_aborted input\<rparr> in
      case ensureTurnActive (rw_live w) s of
        (s1, Inl e) \<Rightarrow> (s1, caught (Inl e))
      | (s1, Inr _) \<Rightarrow>
          if in_continuation input
          then (case replay run input (rw_replay w) 0 (pending_calls (in_messages input)) s1 of
                  (Some r, s2) \<Rightarrow> (s2, caught r)
                | (None, s2) \<Rightarrow> run_agent run input w s2)
          else if in_prompt input = None
          then (s1, Inl (X_error ''Session turn requires a prompt unless it is a continuation''))
          else run_agent run input w s1)"

text \<open>A subagent has no subagents, so the tool that would delegate further is never there.\<close>

definition no_run :: "unit runner" where
  "no_run w input s = (s, Inl cancelled_error)"

definition run_child :: "unit run_world runner" where
  "run_child = run_turn_with no_run"

definition known_ids :: "engine_input \<Rightarrow> id set" where
  "known_ids input = persistedToolCallIds (in_messages input @ concat (map snd (in_children input)))"

definition runTurn :: "unit run_world run_world \<Rightarrow> engine_input \<Rightarrow> engine_outcome engine_result" where
  "runTurn w input = run_turn_with run_child w input (initial_state None (known_ids input) False)"

end
