(* ===== verification/TurnEngineFacts.thy ===== *)
theory TurnEngineFacts
  imports TurnEngine
begin

text \<open>
  What the turn engine guarantees whatever the agent library does with it: the status of a turn follows
  the precedence of its signals and a turn that has ended does nothing more; the sandbox is asked only
  for calls that the policy has just allowed; no two calls of a session share an identifier; and
  subagents do not delegate. The runner of a subagent enters through the interface \<open>delegate\<close>, which the
  runner of a turn provides again.
\<close>

section \<open>The status\<close>

definition last_failure :: "status_signal list \<Rightarrow> turn_status" where
  "last_failure gs = fold (\<lambda>g st. case g of G_fail m \<Rightarrow> S_failed m | _ \<Rightarrow> st) gs S_idle"

definition outcome_of :: "status_signal list \<Rightarrow> turn_status" where
  "outcome_of gs =
     (if G_pause \<in> set gs then S_paused else if G_cancel \<in> set gs then S_cancelled else last_failure gs)"

lemma last_failure_range: "last_failure gs = S_idle \<or> is_failed (last_failure gs)"
  unfolding last_failure_def
  by (induction gs rule: rev_induct) (auto split: status_signal.split)

lemma last_failure_kinds: "last_failure gs \<noteq> S_paused" "last_failure gs \<noteq> S_cancelled"
  using last_failure_range [of gs] by auto

text \<open>
  The status a turn ends with is that of its highest signal, whatever their order: a
  pause if there was one, else a cancellation, else the last failure, else idle.
\<close>

theorem status_by_precedence:
  "foldl reduceTurnStatus S_idle signals = outcome_of signals"
proof (induction signals rule: rev_induct)
  case (snoc g gs)
  have "last_failure (gs @ [g]) = (case g of G_fail m \<Rightarrow> S_failed m | _ \<Rightarrow> last_failure gs)"
    by (simp add: last_failure_def split: status_signal.split)
  with snoc last_failure_range [of gs] show ?case
    by (cases g; cases "last_failure gs") (auto simp: outcome_of_def reduceTurnStatus_def)
qed (simp add: outcome_of_def last_failure_def)

lemma precedence_kept: "PRECEDENCE st \<le> PRECEDENCE (reduceTurnStatus st g)"
  by (cases st; cases g) (simp_all add: reduceTurnStatus_def)

lemma precedence_idle: "PRECEDENCE st = 0 \<longleftrightarrow> st = S_idle"
  by (cases st) simp_all

lemma precedence_paused: "3 \<le> PRECEDENCE st \<longleftrightarrow> st = S_paused"
  by (cases st) simp_all

section \<open>Calls and identifiers\<close>

definition allows :: "engine_call option \<Rightarrow> id \<Rightarrow> string \<Rightarrow> json \<Rightarrow> bool" where
  "allows before c name input \<longleftrightarrow> (\<exists>v. before = Some (C_approve c name input (Inr v)) \<and> vd_allowed v)"

text \<open>Every call of the sandbox comes right after the approval of that very call.\<close>

fun guarded :: "engine_call option \<Rightarrow> engine_call list \<Rightarrow> bool" where
  "guarded before [] = True"
| "guarded before (C_execute c name input # cs) =
     (allows before c name input \<and> guarded (Some (C_execute c name input)) cs)"
| "guarded before (x # cs) = guarded (Some x) cs"

lemma guarded_weaken: "guarded None cs \<Longrightarrow> guarded before cs"
  by (cases "(before, cs)" rule: guarded.cases) (auto simp: allows_def)

lemma guarded_append:
  "guarded before xs \<Longrightarrow> guarded None ys \<Longrightarrow> guarded before (xs @ ys)"
  by (induction before xs rule: guarded.induct) (auto intro: guarded_weaken)

lemma guarded_split:
  "guarded before (pre @ C_execute c name input # post) \<Longrightarrow>
     allows (if pre = [] then before else Some (last pre)) c name input"
  by (induction before pre rule: guarded.induct) auto

definition made_ids :: "engine_call list \<Rightarrow> id list" where
  "made_ids cs = concat (map (\<lambda>c. case c of C_model bs \<Rightarrow> concat (map block_call_ids bs) | _ \<Rightarrow> []) cs)"

lemma made_ids_simps [simp]:
  "made_ids [] = []" "made_ids (xs @ ys) = made_ids xs @ made_ids ys"
  "made_ids [C_approve c n i v] = []" "made_ids [C_execute c n i] = []"
  "made_ids [C_model bs] = concat (map block_call_ids bs)"
  by (simp_all add: made_ids_def)

definition fresh_supply :: "(id set \<Rightarrow> id) \<Rightarrow> bool" where
  "fresh_supply new_id \<longleftrightarrow> (\<forall>ids. finite ids \<longrightarrow> new_id ids \<notin> ids)"

lemma fresh_supplyD: "fresh_supply new_id \<Longrightarrow> finite ids \<Longrightarrow> new_id ids \<notin> ids"
  by (simp add: fresh_supply_def)

definition drawn :: "id set \<Rightarrow> id list \<Rightarrow> id set \<Rightarrow> bool" where
  "drawn ids made ids' \<longleftrightarrow> ids' = ids \<union> set made \<and> distinct made \<and> set made \<inter> ids = {}"

lemma drawn_trans: "drawn a xs b \<Longrightarrow> drawn b ys c \<Longrightarrow> drawn a (xs @ ys) c"
  by (auto simp: drawn_def)

lemma drawn_reserved:
  assumes "fresh_supply new_id" "finite ids" "reserve_blocks new_id ids blocks = (ids', blocks')"
  shows "drawn ids (concat (map block_call_ids blocks')) ids'"
  using assms
proof (induction new_id ids blocks arbitrary: ids' blocks' rule: reserve_blocks.induct)
  case (2 new_id ids c name arguments blocks)
  let ?c = "if c \<in> ids then new_id ids else c"
  obtain bs where bs: "reserve_blocks new_id (insert ?c ids) blocks = (ids', bs)" "blocks' = A_call ?c name arguments # bs"
    using "2.prems"(3) by (auto simp: Let_def split: prod.splits)
  have "new_id ids \<notin> ids" by (rule fresh_supplyD [OF "2.prems"(1,2)])
  then have "?c \<notin> ids" by simp
  moreover have "drawn (insert ?c ids) (concat (map block_call_ids bs)) ids'"
    using "2.IH" [OF refl "2.prems"(1) _ bs(1)] "2.prems"(2) by simp
  ultimately show ?case unfolding bs(2) by (auto simp: drawn_def)
next
  case (1 new_id ids)
  then show ?case by (auto simp: drawn_def)
qed (auto split: prod.splits)

text \<open>One step of the engine: what it adds to the calls, and to the identifiers in use.\<close>

definition engine_step :: "(id set \<Rightarrow> id) \<Rightarrow> engine_state \<Rightarrow> engine_state \<Rightarrow> bool" where
  "engine_step new_id s s' \<longleftrightarrow>
     (\<exists>cs. en_calls s' = en_calls s @ cs \<and> guarded None cs \<and>
        (fresh_supply new_id \<and> finite (en_ids s) \<longrightarrow> drawn (en_ids s) (made_ids cs) (en_ids s')))"

lemma engine_stepI:
  "en_calls s' = en_calls s @ cs \<Longrightarrow> guarded None cs \<Longrightarrow>
   (fresh_supply new_id \<Longrightarrow> finite (en_ids s) \<Longrightarrow> drawn (en_ids s) (made_ids cs) (en_ids s')) \<Longrightarrow> engine_step new_id s s'"
  by (auto simp: engine_step_def)

lemma engine_step_same: "en_calls s' = en_calls s \<Longrightarrow> en_ids s' = en_ids s \<Longrightarrow> engine_step new_id s s'"
  by (rule engine_stepI [of _ _ "[]"]) (simp_all add: drawn_def)

lemma engine_step_trans [trans]:
  assumes "engine_step new_id s s'" "engine_step new_id s' s''"
  shows "engine_step new_id s s''"
proof -
  obtain cs where cs: "en_calls s' = en_calls s @ cs" "guarded None cs"
    and ids: "fresh_supply new_id \<and> finite (en_ids s) \<longrightarrow> drawn (en_ids s) (made_ids cs) (en_ids s')"
    using assms(1) unfolding engine_step_def by blast
  obtain cs' where cs': "en_calls s'' = en_calls s' @ cs'" "guarded None cs'"
    and ids': "fresh_supply new_id \<and> finite (en_ids s') \<longrightarrow> drawn (en_ids s') (made_ids cs') (en_ids s'')"
    using assms(2) unfolding engine_step_def by blast
  show ?thesis
  proof (rule engine_stepI [of _ _ "cs @ cs'"])
    assume gen: "fresh_supply new_id" "finite (en_ids s)"
    with ids have first: "drawn (en_ids s) (made_ids cs) (en_ids s')" by simp
    then have "finite (en_ids s')" using gen(2) by (simp add: drawn_def)
    with first ids' gen(1) show "drawn (en_ids s) (made_ids (cs @ cs')) (en_ids s'')"
      by (auto intro: drawn_trans)
  qed (use cs cs' in \<open>simp_all add: guarded_append\<close>)
qed

text \<open>Only these fields matter.\<close>

lemma engine_step_cong:
  "engine_step new_id s t \<Longrightarrow> en_calls t' = en_calls t \<Longrightarrow> en_ids t' = en_ids t \<Longrightarrow> engine_step new_id s t'"
  by (simp add: engine_step_def)

lemma status_step [simp]:
  "en_calls (signal_status g s) = en_calls s" "en_ids (signal_status g s) = en_ids s"
  "en_emitted (signal_status g s) = en_emitted s"
  "en_calls (note_verdict v s) = en_calls s" "en_ids (note_verdict v s) = en_ids s"
  "en_emitted (note_verdict v s) = en_emitted s" "en_status (note_verdict v s) = en_status s"
  "en_calls (pause_turn s) = en_calls s" "en_ids (pause_turn s) = en_ids s"
  "fst (ensureTurnActive l s) = s" "fst (lift_answer r s) = s"
  by (simp_all add: signal_status_def note_verdict_def pause_turn_def ensureTurnActive_def lift_answer_def)

section \<open>Every function of the engine is a step\<close>

lemma then_e_step:
  assumes "engine_step new_id s (fst r)" "\<And>x s1. r = (s1, Inr x) \<Longrightarrow> engine_step new_id s1 (fst (k x s1))"
  shows "engine_step new_id s (fst (then_e r k))"
proof -
  obtain s1 a where r: "r = (s1, a)" by (cases r)
  show ?thesis
  proof (cases a)
    case (Inl e)
    with r assms(1) show ?thesis by simp
  next
    case (Inr x)
    with r assms have "engine_step new_id s s1" "engine_step new_id s1 (fst (k x s1))" by simp_all
    with r Inr show ?thesis using engine_step_trans by simp
  qed
qed

lemma engine_step_refl: "engine_step new_id s s"
  by (rule engine_step_same) simp_all

text \<open>An allowed call: its approval is the last thing in the log, and the state differs in nothing else.\<close>

lemma approve_call_cases:
  obtains e where "approve_call c n i answer s = (s, Inl e)"
    | e where "approve_call c n i answer s = (log_call (C_approve c n i (Inl e)) s, Inl e)"
    | v where "approve_call c n i answer s = (note_verdict v (log_call (C_approve c n i (Inr v)) s), Inr v)"
proof -
  have "(\<exists>e. approve_call c n i answer s = (s, Inl e)) \<or>
    (\<exists>e. approve_call c n i answer s = (log_call (C_approve c n i (Inl e)) s, Inl e)) \<or>
    (\<exists>v. approve_call c n i answer s = (note_verdict v (log_call (C_approve c n i (Inr v)) s), Inr v))"
    by (auto simp: approve_call_def Let_def split: option.split sum.split)
  then show ?thesis using that by blast
qed

lemma approve_step: "engine_step new_id s (fst (approve_call c n i answer s))"
  by (rule approve_call_cases [of c n i answer s])
     (auto intro!: engine_step_refl engine_stepI [of _ _ "[C_approve c n i a]" for a] simp: log_call_def drawn_def)

lemma approved_step:
  assumes "approve_call c n i answer s = (s1, Inr v)"
  shows "vd_allowed v \<Longrightarrow> engine_step new_id s (log_call (C_execute c n i) s1)"
  using assms
  by (cases rule: approve_call_cases [of c n i answer s])
     (auto intro!: engine_stepI [of _ _ "[C_approve c n i (Inr v), C_execute c n i]"]
       simp: log_call_def drawn_def allows_def made_ids_def)

lemma ensure_cases: "ensureTurnActive l s = (s, Inr ()) \<or> (\<exists>e. ensureTurnActive l s = (s, Inl e))"
  by (auto simp: ensureTurnActive_def split: option.splits)

lemma execute_tool_step: "engine_step new_id s (fst (execute_tool stringify name c w s))"
proof -
  have rest: "engine_step new_id s (fst (then_e (ensureTurnActive (tl_live w 1) s3) (\<lambda>_ s4. then_e (lift_answer (tl_supplied w) s4)
      (\<lambda>supplied s5. if truthy supplied then (s5, Inr (a supplied)) else then_e (lift_answer (tl_answer w) (log_call (C_execute c name input) s5))
        (\<lambda>answer s6. then_e (ensureTurnActive (tl_live w 2) s6) (\<lambda>_ s7. if truthy (ta_error answer) then (s7, Inl (e answer))
            else then_e (lift_answer (tl_output w) s7) (\<lambda>output s8. (s8, Inr (b answer output)))))))))"
    if approved: "approve_call c name input (tl_verdict w) s = (s3, Inr v)" "vd_allowed v" for input s3 v a b e
  proof -
    have same: "engine_step new_id s s3" using approve_step [of new_id s c name input "tl_verdict w"] approved(1) by simp
    have logged: "engine_step new_id s (log_call (C_execute c name input) s3)" by (rule approved_step [OF approved])
    show ?thesis
      using ensure_cases [of "tl_live w 1" s3] ensure_cases [of "tl_live w 2" "log_call (C_execute c name input) s3"]
      by (auto simp: same logged lift_answer_def then_e_def split: sum.splits)
  qed
  show ?thesis
  proof (cases "tl_input w")
    case (Inr input)
    show ?thesis
    proof (cases "ensureTurnActive (tl_live w 0) s = (s, Inr ())")
      case True
      show ?thesis
      proof (cases "\<exists>s3 v. approve_call c name input (tl_verdict w) s = (s3, Inr v) \<and> vd_allowed v")
        case True
        then obtain s3 v where a: "approve_call c name input (tl_verdict w) s = (s3, Inr v)" "vd_allowed v" by blast
        with rest [OF a] Inr \<open>ensureTurnActive (tl_live w 0) s = (s, Inr ())\<close> show ?thesis
          by (simp add: execute_tool_def lift_answer_def)
      next
        case False
        with approve_step [of new_id s c name input "tl_verdict w"] Inr \<open>ensureTurnActive (tl_live w 0) s = (s, Inr ())\<close>
        show ?thesis
          by (cases "approve_call c name input (tl_verdict w) s"; cases "snd (approve_call c name input (tl_verdict w) s)")
             (auto simp: execute_tool_def lift_answer_def)
      qed
    next
      case False
      with ensure_cases [of "tl_live w 0" s] Inr show ?thesis
        by (auto simp: execute_tool_def lift_answer_def engine_step_refl)
    qed
  qed (simp add: execute_tool_def lift_answer_def engine_step_refl)
qed

lemma reserve_step: "engine_step new_id s (fst (reserveToolCallIds new_id m s))"
proof (cases m)
  case (M_assistant i content stop err usage)
  obtain ids' content' where r: "reserve_blocks new_id (en_ids s) content = (ids', content')"
    by (cases "reserve_blocks new_id (en_ids s) content")
  show ?thesis
    by (rule engine_stepI [of _ _ "[C_model content']"])
       (use drawn_reserved [OF _ _ r] in \<open>simp_all add: M_assistant r reserveToolCallIds_def log_call_def\<close>)
qed (auto intro!: engine_stepI [of _ _ "[C_model []]"] simp: reserveToolCallIds_def log_call_def drawn_def)

lemma model_call_step: "engine_step new_id s (fst (model_call new_id w s))"
  unfolding model_call_def
  by (intro then_e_step; simp add: engine_step_refl reserve_step)

lemma stream_step: "engine_step new_id s (fst (stream_turn new_id b w s))"
proof -
  obtain s1 r where m: "model_call new_id w s = (s1, r)" by (cases "model_call new_id w s")
  then have one: "engine_step new_id s s1" using model_call_step [of new_id s w] by simp
  have same: "engine_step new_id s t" if "en_calls t = en_calls s1" "en_ids t = en_ids s1" for t
    by (rule engine_step_cong [OF one that])
  let ?t = "fst (stream_turn new_id b w s)"
  have "en_calls ?t = en_calls s \<and> en_ids ?t = en_ids s \<or> en_calls ?t = en_calls s1 \<and> en_ids ?t = en_ids s1"
    by (cases r; cases "en_status s") (auto simp: stream_turn_def m Let_def split: engine_error.split)
  then show ?thesis using same engine_step_same by blast
qed

text \<open>Mapping and emitting events change neither the calls nor the identifiers nor the status.\<close>

definition run_kept :: "engine_state \<Rightarrow> engine_state \<Rightarrow> bool" where
  "run_kept s t \<longleftrightarrow> en_calls t = en_calls s \<and> en_ids t = en_ids s \<and> en_status t = en_status s"

lemma map_event_kept: "run_kept s (fst (map_event stringify fresh event s))"
  by (auto simp: run_kept_def map_event_def messageIdFor_def toolMessageId_def
      split: agent_event.split agent_message.split option.split list.split prod.split)

lemma emit_all_kept: "run_kept s (fst (emit_all sink k vs s))"
  by (induction sink k vs s rule: emit_all.induct) (auto simp: run_kept_def Let_def split: option.split)

lemma then_e_kept:
  assumes "run_kept s (fst r)" "\<And>x s1. run_kept s1 (fst (k x s1))"
  shows "run_kept s (fst (then_e r k))"
proof -
  obtain s1 a where r: "r = (s1, a)" by (cases r)
  show ?thesis using assms(1) assms(2) [of s1] by (cases a) (auto simp: r run_kept_def)
qed

lemma emit_event_kept: "run_kept s (fst (emit_event stringify model w event s))"
proof -
  have error: "run_kept s2 (fst (case (ends_in_error event, en_provider s2) of
            (True, Some p) \<Rightarrow> emit_all (ew_sink w) 2 [V_runtime_error p] (s2\<lparr>en_provider := None\<rparr>) | _ \<Rightarrow> (s2, Inr ())))" for s2
    by (auto simp: run_kept_def Let_def split: option.split bool.split)
  show ?thesis unfolding emit_event_def by (intro then_e_kept map_event_kept emit_all_kept error)
qed

lemma note_failure_step:
  "en_calls (note_failure event s) = en_calls s" "en_ids (note_failure event s) = en_ids s"
  by (simp_all add: note_failure_def split: option.split list.split)

lemma engine_step_eq: "en_calls s' = en_calls s \<and> en_ids s' = en_ids s \<Longrightarrow> engine_step new_id s s'"
  by (simp add: engine_step_same)

lemma emit_event_step: "engine_step new_id s (fst (emit_event stringify model w event s))"
  using emit_event_kept [of s stringify model w event] by (simp add: run_kept_def engine_step_same)

lemma on_event_step: "engine_step new_id s (fst (on_agent_event stringify model w event s))"
proof -
  have "engine_step new_id s (fst (emit_event stringify model w event (note_failure event s)))"
    using engine_step_trans [OF engine_step_eq emit_event_step] note_failure_step by metis
  then show ?thesis using ensure_cases [of "ew_live w" s]
    by (auto simp: on_agent_event_def Let_def engine_step_refl engine_step_eq)
qed

section \<open>The runner of a subagent\<close>

text \<open>The contract of whatever runs a turn: it is a step of the engine.\<close>

locale delegate =
  fixes run :: "'w runner"
  assumes run_step: "engine_step (in_new_id input) s (fst (run w input s))"
begin

lemma absorbed_step:
  assumes "run w (child_input input child c modelId prompt a) (initial_state outer (en_ids s) a') = (cs, r)"
  shows "engine_step (in_new_id input) s (absorb_child c cs s)"
proof -
  have calls: "en_calls (note_calls xs t) = en_calls t" for xs t
    by (induction xs t rule: note_calls.induct) simp_all
  have "engine_step (in_new_id input) (initial_state outer (en_ids s) a') cs"
    using run_step [of "child_input input child c modelId prompt a" "initial_state outer (en_ids s) a'" w] assms
    by (simp add: child_input_def Let_def)
  then show ?thesis
    by (auto simp: engine_step_def initial_state_def absorb_child_def)
qed

lemma run_subagent_step:
  "engine_step (in_new_id input) s (fst (run_subagent (run w) input child c modelId prompt s))"
proof -
  obtain cs r where run: "run w (child_input input child c modelId prompt (en_aborted s))
      (initial_state (Some (en_status s)) (en_ids s) (en_aborted s)) = (cs, r)"
    by (cases "run w (child_input input child c modelId prompt (en_aborted s))
      (initial_state (Some (en_status s)) (en_ids s) (en_aborted s))")
  note step = absorbed_step [OF run]
  have "engine_step (in_new_id input) s (pause_turn (absorb_child c cs s))" by (rule engine_step_cong [OF step]) simp_all
  with step show ?thesis by (auto simp: run_subagent_def run Let_def split: sum.split engine_outcome.split)
qed

lemma subagent_step: "engine_step (in_new_id input) s (fst (execute_subagent (run w) input c tw s))"
  unfolding execute_subagent_def
  by (intro then_e_step)
     (auto simp: engine_step_refl engine_step_eq run_subagent_step Let_def split: option.split intro!: then_e_step approve_step)

lemma call_tool_step: "engine_step (in_new_id input) s (fst (call_tool run input name c w child s))"
  by (simp add: call_tool_def subagent_step execute_tool_step)

lemma act_step: "engine_step (in_new_id input) s (act run input a s)"
  by (cases a) (simp_all add: on_event_step stream_step call_tool_step engine_step_refl engine_step_eq)

lemma acts_step: "engine_step (in_new_id input) s (fold (act run input) as s)"
  by (induction as arbitrary: s) (auto intro: engine_step_refl engine_step_trans act_step)

lemma replay_step: "engine_step (in_new_id input) s (snd (replay run input ws k calls s))"
proof (induction calls arbitrary: k s)
  case (Cons call calls)
  obtain c name where call: "call = (c, name)" by (cases call)
  obtain w child fresh sink where world: "ws k = (w, child, fresh, sink)" by (cases "ws k") auto
  obtain s1 r where run: "call_tool run input name c w child s = (s1, r)" by (cases "call_tool run input name c w child s")
  have one: "engine_step (in_new_id input) s s1" using call_tool_step [of input s name c w child] run by simp
  have more: "engine_step (in_new_id input) s (s1\<lparr>en_emitted := vs\<rparr>)" for vs by (rule engine_step_cong [OF one]) simp_all
  show ?case
  proof (cases r)
    case (Inl e)
    then show ?thesis by (simp add: call world run one engine_step_refl)
  next
    case (Inr v)
    obtain content details where v: "v = (content, details)" by (cases v)
    show ?thesis
      using engine_step_trans [OF more Cons.IH] more
      by (simp add: call world run Inr v Let_def engine_step_refl split: option.split)
  qed
qed (simp add: engine_step_refl)

lemma run_agent_step: "engine_step (in_new_id input) s (fst (run_agent run input w s))"
  by (simp add: run_agent_def Let_def acts_step)

text \<open>So a turn whose subagents keep the contract keeps it again.\<close>

lemma run_turn_step: "engine_step (in_new_id input) s (fst (run_turn_with run w input s))"
proof -
  let ?s = "s\<lparr>en_aborted := en_aborted s \<or> in_aborted input\<rparr>"
  have to: "engine_step (in_new_id input) s t" if "engine_step (in_new_id input) ?s t" for t
    by (rule engine_step_trans [OF engine_step_same that]) simp_all
  obtain r s2 where rep: "replay run input (rw_replay w) 0 (pending_calls (in_messages input)) ?s = (r, s2)"
    by (cases "replay run input (rw_replay w) 0 (pending_calls (in_messages input)) ?s")
  then have two: "engine_step (in_new_id input) ?s s2" using replay_step [of input ?s] by (metis snd_conv)
  show ?thesis
    using ensure_cases [of "rw_live w" ?s] engine_step_trans [OF two run_agent_step] two
    by (auto simp: run_turn_with_def Let_def rep engine_step_refl run_agent_step intro!: to split: option.split)
qed

end

interpretation stub: delegate no_run
  by unfold_locales (simp add: no_run_def engine_step_refl)

interpretation child: delegate run_child
  by unfold_locales (simp add: run_child_def stub.run_turn_step)

section \<open>What a whole turn does\<close>

text \<open>
  C33 (safety): in every run of a turn, of its subagents and of its continuation, each call of the sandbox
  follows immediately on the policy's approval of that very call, with the same identifier, tool and
  input, whatever the agent library does.
\<close>

theorem executed_calls_approved:
  assumes "en_calls (fst (runTurn w input)) = pre @ C_execute c name args # post"
  shows "\<exists>v. pre \<noteq> [] \<and> last pre = C_approve c name args (Inr v) \<and> vd_allowed v"
proof -
  have "engine_step (in_new_id input) (initial_state None (known_ids input) False) (fst (runTurn w input))"
    by (simp add: runTurn_def child.run_turn_step)
  then have "guarded None (en_calls (fst (runTurn w input)))" by (auto simp: engine_step_def initial_state_def)
  from guarded_split [OF this [unfolded assms]] show ?thesis by (auto simp: allows_def split: if_splits)
qed

text \<open>
  C35 (invariant): the calls that the model makes in a turn and in its subagents have pairwise different
  identifiers, none of them one that the persisted messages use, although models may repeat them, as long
  as drawn identifiers are new.
\<close>

theorem tool_call_ids_unique:
  assumes "fresh_supply (in_new_id input)"
  shows "distinct (made_ids (en_calls (fst (runTurn w input)))) \<and>
    set (made_ids (en_calls (fst (runTurn w input)))) \<inter> known_ids input = {}"
proof -
  have "engine_step (in_new_id input) (initial_state None (known_ids input) False) (fst (runTurn w input))"
    by (simp add: runTurn_def child.run_turn_step)
  moreover have "finite (known_ids input)" by (simp add: known_ids_def persistedToolCallIds_def)
  ultimately show ?thesis using assms by (auto simp: engine_step_def initial_state_def drawn_def)
qed

section \<open>After the end of a turn\<close>

lemma status_admits_None: "status_admits st = None \<longleftrightarrow> st = S_idle"
  by (cases st) (simp_all add: status_admits_def)

lemma ended_approve:
  assumes "en_status s \<noteq> S_idle"
  shows "\<exists>e. approve_call c n i answer s = (s, Inl e)"
  using assms status_admits_None [of "en_status s"] by (auto simp: approve_call_def)

lemma ended_tool:
  assumes "en_status s \<noteq> S_idle"
  shows "fst (execute_tool stringify name c w s) = s"
proof (cases "tl_input w")
  case (Inr args)
  obtain e where "approve_call c name args (tl_verdict w) s = (s, Inl e)" using ended_approve [OF assms] by blast
  then show ?thesis using Inr ensure_cases [of "tl_live w 0" s] by (auto simp: execute_tool_def lift_answer_def)
qed (simp add: execute_tool_def lift_answer_def)

lemma ended_subagent:
  assumes "en_status s \<noteq> S_idle"
  shows "fst (execute_subagent run input c w s) = s"
proof (cases "tl_input w")
  case (Inr params)
  obtain e where "approve_call c ''agent'' params (tl_verdict w) s = (s, Inl e)" using ended_approve [OF assms] by blast
  then show ?thesis using Inr by (simp add: execute_subagent_def lift_answer_def split: option.split)
qed (simp add: execute_subagent_def lift_answer_def)

lemma ended_stream: "en_status s \<noteq> S_idle \<Longrightarrow> fst (stream_turn new_id b w s) = s"
  by (cases "en_status s") (simp_all add: stream_turn_def)

lemma emit_event_status:
  "en_status (fst (emit_event stringify model w event s)) = en_status s"
  "en_calls (fst (emit_event stringify model w event s)) = en_calls s"
  using emit_event_kept [of s stringify model w event] by (simp_all add: run_kept_def)

lemma signal_status_up: "PRECEDENCE (en_status s) \<le> PRECEDENCE (en_status (signal_status g s))"
  by (simp add: signal_status_def precedence_kept)

lemma note_failure_up: "PRECEDENCE (en_status s) \<le> PRECEDENCE (en_status (note_failure event s))"
  by (auto simp: note_failure_def signal_status_up split: option.split list.split)

lemma event_up: "PRECEDENCE (en_status s) \<le> PRECEDENCE (en_status (fst (on_agent_event stringify model w event s)))"
proof -
  have "PRECEDENCE (en_status s) \<le> PRECEDENCE (en_status (signal_status g (s\<lparr>en_policy_failure := None\<rparr>)))" for g
    using signal_status_up [of "s\<lparr>en_policy_failure := None\<rparr>" g] by simp
  then show ?thesis using ensure_cases [of "ew_live w" s]
    by (auto simp: on_agent_event_def Let_def emit_event_status signal_status_up note_failure_up)
qed

lemma event_calls: "en_calls (fst (on_agent_event stringify model w event s)) = en_calls s"
  using ensure_cases [of "ew_live w" s]
  by (auto simp: on_agent_event_def Let_def note_failure_step emit_event_status)

lemma ended_act:
  assumes "en_status s \<noteq> S_idle"
  shows "en_calls (act run input a s) = en_calls s \<and> PRECEDENCE (en_status s) \<le> PRECEDENCE (en_status (act run input a s)) \<and>
    (en_status s = S_paused \<longrightarrow> en_emitted (act run input a s) = en_emitted s)"
proof (cases a)
  case (Act_event event w)
  then show ?thesis by (simp add: event_calls event_up) (simp add: on_agent_event_def)
next
  case (Act_call name c w child)
  then show ?thesis using assms by (simp add: call_tool_def ended_tool ended_subagent)
qed (use assms in \<open>simp_all add: ended_stream\<close>)

lemma ended_acts:
  assumes "en_status s \<noteq> S_idle"
  shows "en_calls (fold (act run input) actions s) = en_calls s \<and>
    PRECEDENCE (en_status s) \<le> PRECEDENCE (en_status (fold (act run input) actions s)) \<and>
    (en_status s = S_paused \<longrightarrow> en_emitted (fold (act run input) actions s) = en_emitted s)"
  using assms
proof (induction actions arbitrary: s)
  case (Cons a actions)
  let ?t = "act run input a s"
  note one = ended_act [OF Cons.prems, of run input a]
  then have t: "en_status ?t \<noteq> S_idle" using Cons.prems precedence_idle [of "en_status ?t"] precedence_idle [of "en_status s"] by simp
  moreover have "en_status ?t = S_paused" if "en_status s = S_paused"
    using one that precedence_paused [of "en_status ?t"] by simp
  ultimately show ?case using Cons.IH [OF t] one by auto
qed simp

lemma ended_stays: "en_status s \<noteq> S_idle \<Longrightarrow> en_status (fold (act run input) actions s) \<noteq> S_idle"
  using ended_acts [of s run input actions] precedence_idle [of "en_status s"]
    precedence_idle [of "en_status (fold (act run input) actions s)"] by simp

text \<open>
  C34 (safety): once a turn was paused, cancelled or has failed, nothing the agent library still does
  reaches the policy, the sandbox or the model, and the turn cannot fall back to success; after a pause
  not even an event reaches the sink, so the transcript of the continuation is that of the pause.
\<close>

theorem ended_turn_is_silent:
  assumes "en_status s \<noteq> S_idle" and "s' = fold (act run input) actions s"
  shows "en_calls s' = en_calls s \<and> PRECEDENCE (en_status s) \<le> PRECEDENCE (en_status s') \<and> en_status s' \<noteq> S_idle \<and>
    (en_status s = S_paused \<longrightarrow> en_status s' = S_paused \<and> en_emitted s' = en_emitted s)"
  using ended_acts [OF assms(1), of run input actions] ended_stays [OF assms(1), of run input actions]
    precedence_paused [of "en_status s'"] assms(2) by auto

section \<open>Denied calls\<close>

text \<open>
  When the policy denied a call and its error is reported while the session is running,
  the turn cannot end as a success, whatever the agent library does afterwards.
\<close>

theorem denied_call_fails_turn:
  assumes "en_status s = S_idle" "nonempty (en_policy_failure s)" "ensureTurnActive (ew_live ew) s = (s, Inr ())"
    and "rw_actions w = Act_event (AE_tool_end c True) ew # actions"
  shows "snd (run_agent run input w s) \<noteq> Inr R_idle"
proof -
  let ?t = "act run input (Act_event (AE_tool_end c True) ew) s"
  have "en_status ?t = S_failed (case en_policy_failure s of Some m \<Rightarrow> m | None \<Rightarrow> [])"
    using assms(1-3) by (simp add: on_agent_event_def signal_status_def reduceTurnStatus_def)
  then have "en_status (fold (act run input) actions ?t) \<noteq> S_idle" by (simp add: ended_stays)
  then show ?thesis
    by (cases "rw_end w"; cases "en_status (fold (act run input) actions ?t)")
       (auto simp: run_agent_def Let_def assms(4) caught_def simp del: act.simps)
qed

section \<open>Subagents\<close>

lemma no_sandbox_agent: "''agent'' \<notin> set (runtimeTools snapshot)"
  by (auto simp: runtimeTools_def SANDBOX_TOOLS_def split: option.split)

lemma child_tools: "''agent'' \<notin> set (tool_names (child_input input child c modelId prompt a))"
  by (simp add: tool_names_def child_input_def Let_def subagents_of_def member_def jget_def no_sandbox_agent split: option.split)

lemma act_without_agent: "''agent'' \<notin> set (tool_names input) \<Longrightarrow> act run input a s = act run' input a s"
  by (cases a) (auto simp: call_tool_def)

lemma replay_without_agent:
  "''agent'' \<notin> set (tool_names input) \<Longrightarrow> replay run input ws k calls s = replay run' input ws k calls s"
proof (induction calls arbitrary: k s)
  case (Cons call calls)
  then show ?case
    by (cases call) (auto simp: call_tool_def Let_def split: prod.split sum.split option.split)
qed simp

text \<open>
  A subagent cannot delegate: running it does not depend on what would run subagents
  of its own, so the depth of delegation is one.
\<close>

theorem subagents_do_not_delegate:
  "run_turn_with run w (child_input input child c modelId prompt a) s =
   run_turn_with run' w (child_input input child c modelId prompt a) s"
proof -
  let ?i = "child_input input child c modelId prompt a"
  have one: "act run ?i = act run' ?i" using act_without_agent [OF child_tools] by (intro ext) blast
  have two: "replay run ?i = replay run' ?i" using replay_without_agent [OF child_tools] by (intro ext) blast
  show ?thesis unfolding run_turn_with_def run_agent_def one two ..
qed

section \<open>An example\<close>

definition longest_id :: "id set \<Rightarrow> id" where
  "longest_id ids = replicate (Suc (Max (insert 0 (length ` ids)))) CHR ''x''"

lemma longest_id_fresh: "fresh_supply longest_id"
proof -
  have "longest_id ids \<notin> ids" if f: "finite ids" for ids
  proof
    assume "longest_id ids \<in> ids"
    then have "length (longest_id ids) \<le> Max (insert 0 (length ` ids))" using f by (intro Max_ge) auto
    then show False by (simp add: longest_id_def)
  qed
  then show ?thesis by (simp add: fresh_supply_def)
qed

definition alive :: live where "alive = \<lparr>lv_before = False, lv_answer = None, lv_after = False\<rparr>"

definition demo_input :: engine_input where
  "demo_input = \<lparr>in_model = ''m'', in_provider = ''p'', in_resolves = (\<lambda>_. False), in_snapshot = JObj [], in_prompt = Some ''go'',
     in_continuation = False, in_messages = [], in_children = [], in_budget = False, in_aborted = False,
     in_stringify = (\<lambda>_. []), in_new_id = longest_id\<rparr>"

definition demo_verdict :: "bool \<Rightarrow> verdict" where
  "demo_verdict ok = \<lparr>vd_allowed = ok, vd_reason = None, vd_requires = False\<rparr>"

definition demo_tool :: tool_world where
  "demo_tool = \<lparr>tl_input = Inr (JObj []), tl_live = (\<lambda>_. alive), tl_verdict = Inr (demo_verdict True), tl_supplied = Inr None,
     tl_answer = Inr \<lparr>ta_error = None, ta_output = JObj [], ta_duration = JNum 1\<rparr>, tl_output = Inr (JObj []), tl_pause = False\<rparr>"

definition demo_run :: "'w action list \<Rightarrow> 'w \<Rightarrow> 'w run_world" where
  "demo_run actions child = \<lparr>rw_live = alive, rw_replay = (\<lambda>_. (demo_tool, child, [], None)), rw_actions = actions, rw_end = None\<rparr>"

definition demo_model :: model_world where
  "demo_model = \<lparr>mw_aborted = False, mw_pause = False, mw_progress = False, mw_live = (\<lambda>_. alive),
     mw_answer = Inr (M_assistant None [A_call ''c'' ''read'' (JObj []), A_call ''c'' ''read'' (JObj [])] ''toolUse'' None ZERO_USAGE),
     mw_aborted_catch = False\<rparr>"

definition demo_turn_world :: "unit run_world run_world" where
  "demo_turn_world = demo_run [Act_model demo_model, Act_call ''read'' ''c'' demo_tool (demo_run [] ())] (demo_run [] ())"

lemmas demo_defs = demo_turn_world_def demo_run_def demo_model_def demo_tool_def demo_input_def alive_def demo_verdict_def

text \<open>The model repeats an identifier; the second call gets a new one.\<close>

theorem tool_call_ids_unique_witness:
  "distinct (made_ids (en_calls (fst (runTurn demo_turn_world demo_input))))"
  using tool_call_ids_unique [of demo_input demo_turn_world] longest_id_fresh by (simp add: demo_input_def)

abbreviation demo_blocks :: "agent_block list" where
  "demo_blocks \<equiv> [A_call ''c'' ''read'' (JObj []), A_call (longest_id {''c''}) ''read'' (JObj [])]"

lemma demo_model_step:
  "act run demo_input (Act_model demo_model) (initial_state None {} False) =
     log_call (C_model demo_blocks) ((initial_state None {} False)\<lparr>en_ids := {longest_id {''c''}, ''c''}\<rparr>)"
  by (simp add: stream_turn_def model_call_def reserveToolCallIds_def lift_answer_def demo_model_def alive_def demo_input_def
      ensureTurnActive_def initial_state_def Let_def)

lemma demo_tool_step:
  assumes "en_status s = S_idle" "en_outer s = None" "\<not> en_aborted s"
  shows "en_calls (act run demo_input (Act_call ''read'' ''c'' demo_tool child) s) =
    en_calls s @ [C_approve ''c'' ''read'' (JObj []) (Inr (demo_verdict True)), C_execute ''c'' ''read'' (JObj [])]"
proof -
  have "approve_call ''c'' ''read'' (JObj []) (Inr (demo_verdict True)) s =
      (note_verdict (demo_verdict True) (log_call (C_approve ''c'' ''read'' (JObj []) (Inr (demo_verdict True))) s), Inr (demo_verdict True))"
    using assms by (simp add: approve_call_def status_admits_def)
  moreover have live: "ensureTurnActive alive t = (t, Inr ())" if "en_aborted t = en_aborted s" for t
    using that assms(3) by (simp add: ensureTurnActive_def alive_def)
  moreover have "vd_allowed (demo_verdict True)" by (simp add: demo_verdict_def)
  moreover have "''read'' \<in> set (tool_names demo_input)"
    by (simp add: tool_names_def runtimeTools_def jget_def demo_input_def SANDBOX_TOOLS_def)
  ultimately show ?thesis
    by (simp add: call_tool_def execute_tool_def demo_tool_def lift_answer_def log_call_def note_verdict_def)
qed

lemma prompted_turn:
  assumes "\<not> in_continuation input" "in_prompt input \<noteq> None" "\<not> in_aborted input" "\<not> en_aborted s"
    and "ensureTurnActive (rw_live w) s = (s, Inr ())"
  shows "run_turn_with run w input s = run_agent run input w s"
proof -
  have "s\<lparr>en_aborted := en_aborted s \<or> in_aborted input\<rparr> = s" using assms(3,4) by (cases s) simp
  then show ?thesis using assms(1,2,5) by (auto simp: run_turn_with_def)
qed

lemma demo_calls:
  "en_calls (fst (runTurn demo_turn_world demo_input)) =
     [C_model demo_blocks, C_approve ''c'' ''read'' (JObj []) (Inr (demo_verdict True))] @ C_execute ''c'' ''read'' (JObj []) # []"
proof -
  have ids: "known_ids demo_input = {}" by (simp add: known_ids_def persistedToolCallIds_def demo_input_def)
  have "run_turn_with run_child demo_turn_world demo_input (initial_state None {} False) =
      run_agent run_child demo_input demo_turn_world (initial_state None {} False)"
    by (rule prompted_turn) (simp_all add: demo_input_def initial_state_def ensureTurnActive_def demo_turn_world_def demo_run_def alive_def)
  then have "fst (runTurn demo_turn_world demo_input) =
      fold (act run_child demo_input) (rw_actions demo_turn_world) (initial_state None {} False)"
    by (simp add: runTurn_def ids run_agent_def Let_def)
  also have "\<dots> = act run_child demo_input (Act_call ''read'' ''c'' demo_tool (demo_run [] ()))
      (act run_child demo_input (Act_model demo_model) (initial_state None {} False))"
    by (simp only: demo_turn_world_def demo_run_def run_world.select_convs fold_simps)
  finally have run: "fst (runTurn demo_turn_world demo_input) = act run_child demo_input (Act_call ''read'' ''c'' demo_tool (demo_run [] ()))
      (log_call (C_model demo_blocks) ((initial_state None {} False)\<lparr>en_ids := {longest_id {''c''}, ''c''}\<rparr>))"
    unfolding demo_model_step .
  show ?thesis unfolding run by (subst demo_tool_step) (simp_all add: log_call_def initial_state_def)
qed

theorem executed_calls_approved_witness:
  "\<exists>v. C_approve ''c'' ''read'' (JObj []) (Inr (demo_verdict True)) = C_approve ''c'' ''read'' (JObj []) (Inr v) \<and> vd_allowed v"
proof -
  have "last [C_model demo_blocks, x] = x" for x by simp
  with executed_calls_approved [OF demo_calls] show ?thesis by metis
qed

theorem ended_turn_is_silent_witness:
  "en_emitted (fold (act run_child demo_input) (rw_actions demo_turn_world) (pause_turn (initial_state None {} False))) = []"
proof -
  let ?s = "pause_turn (initial_state None {} False)"
  have paused: "en_status ?s = S_paused" "en_emitted ?s = []" "en_status ?s \<noteq> S_idle"
    by (simp_all add: pause_turn_def signal_status_def initial_state_def reduceTurnStatus_def)
  from ended_turn_is_silent [OF paused(3) refl, of run_child demo_input "rw_actions demo_turn_world"] paused(1,2)
  show ?thesis by argo
qed

theorem denied_call_fails_turn_witness:
  "snd (run_agent run_child demo_input
     (demo_run [Act_event (AE_tool_end ''c'' True) \<lparr>ew_live = alive, ew_fresh = [], ew_sink = (\<lambda>_. None)\<rparr>, Act_model demo_model] (demo_run [] ()))
     (note_verdict (demo_verdict False) (initial_state None {} False))) \<noteq> Inr R_idle"
  by (rule denied_call_fails_turn [of _ "\<lparr>ew_live = alive, ew_fresh = [], ew_sink = (\<lambda>_. None)\<rparr>" _ "''c''" "[Act_model demo_model]"])
     (simp_all add: demo_defs note_verdict_def initial_state_def nonempty_def ensureTurnActive_def)

end
