(* ===== verification/References.thy ===== *)
theory References
  imports MemoryStore
begin

text \<open>
  References to vaults, credentials, credential versions and memory stores
  (\<open>server/domain/vault.ts\<close>, \<open>server/domain/memory-store.ts\<close>) and the addresses of
  Git repositories (\<open>server/domain/git-repository.ts\<close>). The WHATWG URL parser and serializer
  and the URI coding of components are the platform's and a parameter (\<open>uri_platform\<close>): what the
  code reads of a parsed address is the record \<open>url\<close>, a text that does not parse is \<open>None\<close>, and so
  is a malformed escape, on which \<open>decodeURIComponent\<close> throws. A function that can throw returns
  a sum, \<open>Inl\<close> the message of the error.
\<close>

section \<open>Addresses\<close>

record url =
  ur_protocol :: string
  ur_hostname :: string
  ur_pathname :: string
  ur_username :: string
  ur_password :: string
  ur_search :: string
  ur_hash :: string
  ur_origin :: string

record uri_platform =
  up_parse :: "string \<Rightarrow> url option"
  up_text :: "url \<Rightarrow> string"
  up_encode :: "string \<Rightarrow> string"
  up_decode :: "string \<Rightarrow> string option"

definition uri_malformed :: string where "uri_malformed = ''URI malformed''"

definition path_segments :: "string \<Rightarrow> string list" where
  "path_segments path = filter (\<lambda>s. s \<noteq> []) (split_on (CHR ''/'') path)"

fun decode_all :: "'a uri_platform_scheme \<Rightarrow> string list \<Rightarrow> string list option" where
  "decode_all p [] = Some []"
| "decode_all p (s # ss) =
     (case up_decode p s of
        None \<Rightarrow> None
      | Some x \<Rightarrow> map_option (\<lambda>xs. x # xs) (decode_all p ss))"

lemma split_on_append [simp]: "d \<notin> set a \<Longrightarrow> split_on d (a @ d # b) = a # split_on d b"
  by (induction a) auto

lemma split_on_single [simp]: "d \<notin> set a \<Longrightarrow> split_on d a = [a]"
  by (induction a) auto

section \<open>Memory stores\<close>

definition enborMemoryRef :: "'a uri_platform_scheme \<Rightarrow> string \<Rightarrow> string" where
  "enborMemoryRef p storeId = ''enbor://memories/'' @ up_encode p storeId"

definition memoryStoreIdFromRef :: "'a uri_platform_scheme \<Rightarrow> string \<Rightarrow> string + string option" where
  "memoryStoreIdFromRef p memoryRef =
     (case up_parse p memoryRef of
        None \<Rightarrow> Inr None
      | Some parsed \<Rightarrow>
          if ur_protocol parsed \<noteq> ''enbor:'' \<or> ur_hostname parsed \<noteq> ''memories'' then Inr None
          else (case path_segments (ur_pathname parsed) of
                  [storeId] \<Rightarrow> (case up_decode p storeId of None \<Rightarrow> Inl uri_malformed | Some x \<Rightarrow> Inr (Some x))
                | _ \<Rightarrow> Inr None))"

section \<open>Vaults, credentials and versions\<close>

record secret_identity =
  si_vault :: id
  si_credential :: "id option"
  si_version :: "id option"

definition enborSecretRef :: "'a uri_platform_scheme \<Rightarrow> id \<Rightarrow> string" where
  "enborSecretRef p vaultId = ''enbor://vaults/'' @ up_encode p vaultId"

definition credentialScopedSecretRef :: "'a uri_platform_scheme \<Rightarrow> id \<Rightarrow> id \<Rightarrow> string" where
  "credentialScopedSecretRef p vaultId credentialId =
     ''enbor://vaults/'' @ up_encode p vaultId @ ''/credentials/'' @ up_encode p credentialId"

definition credentialVersionSecretRef :: "'a uri_platform_scheme \<Rightarrow> id \<Rightarrow> id \<Rightarrow> id \<Rightarrow> string" where
  "credentialVersionSecretRef p vaultId credentialId versionId =
     ''enbor://vaults/'' @ up_encode p vaultId @ ''/credentials/'' @ up_encode p credentialId @
     ''/versions/'' @ up_encode p versionId"

definition vaultIdFromRef :: "'a uri_platform_scheme \<Rightarrow> string \<Rightarrow> string + id option" where
  "vaultIdFromRef p secretRef =
     (case up_parse p secretRef of
        None \<Rightarrow> Inr None
      | Some parsed \<Rightarrow>
          if ur_protocol parsed \<noteq> ''enbor:'' \<or> ur_hostname parsed \<noteq> ''vaults'' then Inr None
          else (case path_segments (ur_pathname parsed) of
                  [vaultId] \<Rightarrow> (case up_decode p vaultId of None \<Rightarrow> Inl uri_malformed | Some x \<Rightarrow> Inr (Some x))
                | _ \<Rightarrow> Inr None))"

definition identity_of_segments :: "string list \<Rightarrow> secret_identity option" where
  "identity_of_segments segments =
     (case segments of
        [v] \<Rightarrow> Some \<lparr>si_vault = v, si_credential = None, si_version = None\<rparr>
      | [v, k, c] \<Rightarrow>
          if k = ''credentials'' then Some \<lparr>si_vault = v, si_credential = Some c, si_version = None\<rparr> else None
      | [v, k, c, k', n] \<Rightarrow>
          if k = ''credentials'' \<and> k' = ''versions''
          then Some \<lparr>si_vault = v, si_credential = Some c, si_version = Some n\<rparr> else None
      | _ \<Rightarrow> None)"

definition secretRefIdentity :: "'a uri_platform_scheme \<Rightarrow> string \<Rightarrow> string + secret_identity option" where
  "secretRefIdentity p secretRef =
     (case up_parse p secretRef of
        None \<Rightarrow> Inr None
      | Some parsed \<Rightarrow>
          if ur_protocol parsed \<noteq> ''enbor:'' \<or> ur_hostname parsed \<noteq> ''vaults'' then Inr None
          else (case decode_all p (path_segments (ur_pathname parsed)) of
                  None \<Rightarrow> Inl uri_malformed
                | Some segments \<Rightarrow> Inr (identity_of_segments segments)))"

section \<open>Git repositories\<close>

definition repository_char :: "char \<Rightarrow> bool" where
  "repository_char c \<longleftrightarrow> path_char c \<or> c = CHR ''~''"

definition repository_segment :: "'a uri_platform_scheme \<Rightarrow> string \<Rightarrow> bool" where
  "repository_segment p segment \<longleftrightarrow>
     (case up_decode p segment of
        None \<Rightarrow> False
      | Some decoded \<Rightarrow> decoded \<noteq> [] \<and> list_all repository_char decoded)"

definition normalizeGitRepositoryUrl :: "'a uri_platform_scheme \<Rightarrow> string \<Rightarrow> string option" where
  "normalizeGitRepositoryUrl p value =
     (case up_parse p (js_trim value) of
        None \<Rightarrow> None
      | Some parsed \<Rightarrow>
          if ur_protocol parsed \<noteq> ''https:'' \<or> ur_hostname parsed = [] \<or> ur_username parsed \<noteq> []
             \<or> ur_password parsed \<noteq> [] \<or> ur_hash parsed \<noteq> []
          then None
          else
            let path = path_segments (ur_pathname parsed) in
            if length path < 2 \<or> list_ex (\<lambda>segment. segment = ''.'' \<or> segment = ''..'') path then None
            else if \<not> list_all (repository_segment p) path then None
            else Some (up_text p (parsed\<lparr>ur_search := [], ur_pathname := CHR ''/'' # join_with (CHR ''/'') path\<rparr>)))"

text \<open>The mount path of a repository that names none; the suffix \<open>.git\<close> is dropped in any case.\<close>

definition ends_git :: "string \<Rightarrow> bool" where
  "ends_git s \<longleftrightarrow>
     (case rev s of
        t # i # g # dot # _ \<Rightarrow>
          dot = CHR ''.'' \<and> g \<in> {CHR ''g'', CHR ''G''} \<and> i \<in> {CHR ''i'', CHR ''I''} \<and> t \<in> {CHR ''t'', CHR ''T''}
      | _ \<Rightarrow> False)"

definition gitRepositoryMountPath :: "'a uri_platform_scheme \<Rightarrow> string \<Rightarrow> string + string" where
  "gitRepositoryMountPath p address =
     (case up_parse p address of
        None \<Rightarrow> Inl ''Invalid URL''
      | Some parsed \<Rightarrow>
          let path = ur_pathname parsed;
              bare = (if ends_git path then take (length path - 4) path else path) in
          Inr (''/workspace/repos/'' @ ur_hostname parsed @ ''/'' @ join_with (CHR ''/'') (path_segments bare)))"

section \<open>Reading back a written reference\<close>

text \<open>
  What the platform documents of an address with the scheme of the references, for segments the
  encoding produced: it parses, to its scheme, its host and its path, and plain letters decode to
  themselves.
\<close>

definition reads_references :: "'a uri_platform_scheme \<Rightarrow> string set \<Rightarrow> bool" where
  "reads_references p ids \<longleftrightarrow>
     (\<forall>x \<in> ids. up_decode p (up_encode p x) = Some x \<and> up_encode p x \<noteq> [] \<and> CHR ''/'' \<notin> set (up_encode p x)) \<and>
     (\<forall>k \<in> {''credentials'', ''versions''}. up_decode p k = Some k) \<and>
     (\<forall>h \<in> {''vaults'', ''memories''}. \<forall>path. \<exists>u. up_parse p (''enbor://'' @ h @ CHR ''/'' # path) = Some u \<and>
        ur_protocol u = ''enbor:'' \<and> ur_hostname u = h \<and> ur_pathname u = CHR ''/'' # path)"

lemma written_reference:
  assumes "reads_references p ids"
  obtains u where "up_parse p (''enbor://vaults/'' @ path) = Some u" "ur_protocol u = ''enbor:''"
    "ur_hostname u = ''vaults''" "ur_pathname u = CHR ''/'' # path"
  using assms unfolding reads_references_def by (metis append_Cons append_Nil insertI1 append.assoc)

lemma vault_reference_back:
  assumes "reads_references p ids" "v \<in> ids"
  shows "vaultIdFromRef p (enborSecretRef p v) = Inr (Some v)"
proof -
  obtain u where "up_parse p (enborSecretRef p v) = Some u" "ur_protocol u = ''enbor:''"
    "ur_hostname u = ''vaults''" "ur_pathname u = CHR ''/'' # up_encode p v"
    using written_reference [OF assms(1), of "up_encode p v"] unfolding enborSecretRef_def by auto
  then show ?thesis
    using assms by (auto simp: vaultIdFromRef_def path_segments_def reads_references_def)
qed

lemma credential_reference_back:
  assumes "reads_references p ids" "v \<in> ids" "c \<in> ids"
  shows "secretRefIdentity p (credentialScopedSecretRef p v c) =
     Inr (Some \<lparr>si_vault = v, si_credential = Some c, si_version = None\<rparr>)"
proof -
  let ?path = "up_encode p v @ ''/credentials/'' @ up_encode p c"
  obtain u where u: "up_parse p (credentialScopedSecretRef p v c) = Some u" "ur_protocol u = ''enbor:''"
    "ur_hostname u = ''vaults''" "ur_pathname u = CHR ''/'' # ?path"
    using written_reference [OF assms(1), of ?path] unfolding credentialScopedSecretRef_def by auto
  have "path_segments (ur_pathname u) = [up_encode p v, ''credentials'', up_encode p c]"
    using assms split_on_append [of "CHR ''/''" "''credentials''" "up_encode p c"] u(4)
    by (auto simp: path_segments_def reads_references_def)
  then show ?thesis
    using u assms by (auto simp: secretRefIdentity_def identity_of_segments_def reads_references_def)
qed

lemma version_reference_back:
  assumes "reads_references p ids" "v \<in> ids" "c \<in> ids" "n \<in> ids"
  shows "secretRefIdentity p (credentialVersionSecretRef p v c n) =
     Inr (Some \<lparr>si_vault = v, si_credential = Some c, si_version = Some n\<rparr>)"
proof -
  let ?path = "up_encode p v @ ''/credentials/'' @ up_encode p c @ ''/versions/'' @ up_encode p n"
  obtain u where u: "up_parse p (credentialVersionSecretRef p v c n) = Some u" "ur_protocol u = ''enbor:''"
    "ur_hostname u = ''vaults''" "ur_pathname u = CHR ''/'' # ?path"
    using written_reference [OF assms(1), of ?path] unfolding credentialVersionSecretRef_def by auto
  have "path_segments (ur_pathname u) = [up_encode p v, ''credentials'', up_encode p c, ''versions'', up_encode p n]"
    using assms split_on_append [of "CHR ''/''" "''credentials''" "up_encode p c @ CHR ''/'' # ''versions'' @ CHR ''/'' # up_encode p n"]
      split_on_append [of "CHR ''/''" "''versions''" "up_encode p n"] u(4)
    by (auto simp: path_segments_def reads_references_def)
  then show ?thesis
    using u assms by (auto simp: secretRefIdentity_def identity_of_segments_def reads_references_def)
qed

end
