(* ===== verification/AgentState.thy ===== *)
theory AgentState
  imports References ListCursor
begin

text \<open>
  The stored state of a Realmroot agent (\<open>server/domain/vault.ts\<close>,
  \<open>parseRealmrootAgentState\<close>): a JSON document in a credential, which is checked field by
  field before it is accepted. Every check throws an \<open>Error\<close>; a function here returns \<open>Inl\<close> its
  message. \<open>JSON.parse\<close>, \<open>JSON.stringify\<close> and \<open>localeCompare\<close> are the platform's.
\<close>

record platform = uri_platform +
  pl_json :: "string \<Rightarrow> json option"
  pl_stringify :: "json \<Rightarrow> string"
  pl_before :: "string \<Rightarrow> string \<Rightarrow> bool"

section \<open>Checks in sequence\<close>

definition then_ok :: "string + 'a \<Rightarrow> ('a \<Rightarrow> string + 'b) \<Rightarrow> string + 'b" where
  "then_ok r f = (case r of Inl e \<Rightarrow> Inl e | Inr x \<Rightarrow> f x)"

lemma then_ok_simps [simp]: "then_ok (Inl e) f = Inl e" "then_ok (Inr x) f = f x"
  by (simp_all add: then_ok_def)

lemma then_ok_Inr [simp]: "then_ok r f = Inr y \<longleftrightarrow> (\<exists>x. r = Inr x \<and> f x = Inr y)"
  by (cases r) simp_all

definition fail_if :: "bool \<Rightarrow> string \<Rightarrow> string + unit" where
  "fail_if b message = (if b then Inl message else Inr ())"

lemma fail_if_Inr [simp]: "fail_if b m = Inr u \<longleftrightarrow> \<not> b"
  by (simp add: fail_if_def)

fun check_all :: "('a \<Rightarrow> string + unit) \<Rightarrow> 'a list \<Rightarrow> string + unit" where
  "check_all f [] = Inr ()"
| "check_all f (x # xs) = then_ok (f x) (\<lambda>_. check_all f xs)"

definition given :: "json \<Rightarrow> string \<Rightarrow> json option" where
  "given v k = (case jget v k of Some JNull \<Rightarrow> None | r \<Rightarrow> r)"

definition object_members :: "json option \<Rightarrow> string \<Rightarrow> string + (string \<times> json) list" where
  "object_members v message = (case v of Some (JObj kvs) \<Rightarrow> Inr kvs | _ \<Rightarrow> Inl message)"

lemma object_members_Inr [simp]: "object_members v m = Inr kvs \<longleftrightarrow> v = Some (JObj kvs)"
  by (auto simp: object_members_def split: option.splits json.splits)

definition assertKnownKeys :: "(string \<times> json) list \<Rightarrow> string list \<Rightarrow> string \<Rightarrow> string + unit" where
  "assertKnownKeys kvs allowed message = fail_if (list_ex (\<lambda>k. k \<notin> set allowed) (map fst kvs)) message"

definition not_text :: "json option \<Rightarrow> bool" where
  "not_text v \<longleftrightarrow> v \<noteq> None \<and> jstr v = None"

section \<open>Values\<close>

definition realmrootAbsoluteUrl :: "platform \<Rightarrow> json option \<Rightarrow> string \<Rightarrow> string + url" where
  "realmrootAbsoluteUrl p v message =
     (case nonempty_str v of
        None \<Rightarrow> Inl message
      | Some text \<Rightarrow>
          (case up_parse p text of
             None \<Rightarrow> Inl message
           | Some parsed \<Rightarrow>
               let loopback = ur_hostname parsed \<in> {''localhost'', ''127.0.0.1'', ''[::1]''} in
               if ur_username parsed \<noteq> [] \<or> ur_password parsed \<noteq> []
                  \<or> (ur_protocol parsed \<noteq> ''https:'' \<and> \<not> (ur_protocol parsed = ''http:'' \<and> loopback))
               then Inl message else Inr parsed))"

definition authorizationDetails :: "json option \<Rightarrow> string + json list" where
  "authorizationDetails v =
     (case v of
        None \<Rightarrow> Inr []
      | Some (JArr details) \<Rightarrow>
          if list_ex (\<lambda>d. \<not> is_jobj (Some d)) details
          then Inl ''Realmroot Agent state contains invalid authorization details.''
          else Inr details
      | _ \<Rightarrow> Inl ''Realmroot Agent state contains invalid authorization details.'')"

fun insert_by :: "('a \<Rightarrow> 'a \<Rightarrow> bool) \<Rightarrow> 'a \<Rightarrow> 'a list \<Rightarrow> 'a list" where
  "insert_by le x [] = [x]"
| "insert_by le x (y # ys) = (if le x y then x # y # ys else y # insert_by le x ys)"

definition sort_by :: "('a \<Rightarrow> 'a \<Rightarrow> bool) \<Rightarrow> 'a list \<Rightarrow> 'a list" where
  "sort_by le xs = foldr (insert_by le) xs []"

lemma set_insert_by [simp]: "set (insert_by le x xs) = insert x (set xs)"
  by (induction xs) auto

lemma set_sort_by [simp]: "set (sort_by le xs) = set xs"
  by (induction xs) (simp_all add: sort_by_def)

fun canonicalJson :: "(string \<Rightarrow> string \<Rightarrow> bool) \<Rightarrow> json \<Rightarrow> json"
  and canonical_elements :: "(string \<Rightarrow> string \<Rightarrow> bool) \<Rightarrow> json list \<Rightarrow> json list"
  and canonical_entries :: "(string \<Rightarrow> string \<Rightarrow> bool) \<Rightarrow> (string \<times> json) list \<Rightarrow> (string \<times> json) list" where
  "canonicalJson le (JArr xs) = JArr (canonical_elements le xs)"
| "canonicalJson le (JObj kvs) = JObj (sort_by (\<lambda>a b. le (fst a) (fst b)) (canonical_entries le kvs))"
| "canonicalJson le v = v"
| "canonical_elements le [] = []"
| "canonical_elements le (x # xs) = canonicalJson le x # canonical_elements le xs"
| "canonical_entries le [] = []"
| "canonical_entries le ((k, v) # kvs) = (k, canonicalJson le v) # canonical_entries le kvs"

fun join_null :: "string list \<Rightarrow> string" where
  "join_null [] = []"
| "join_null [x] = x"
| "join_null (x # xs) = x @ char_of (0 :: nat) # join_null xs"

definition canonicalAuthorizationDetails :: "platform \<Rightarrow> json list \<Rightarrow> string" where
  "canonicalAuthorizationDetails p details =
     join_null (sort_key id (map (\<lambda>d. pl_stringify p (canonicalJson (pl_before p) d)) details))"

definition base64url_char :: "char \<Rightarrow> bool" where
  "base64url_char c \<longleftrightarrow>
     (let n = of_char c :: nat in
      (65 \<le> n \<and> n \<le> 90) \<or> (97 \<le> n \<and> n \<le> 122) \<or> (48 \<le> n \<and> n \<le> 57) \<or> n = 95 \<or> n = 45)"

definition decodedBase64UrlLength :: "string \<Rightarrow> int" where
  "decodedBase64UrlLength v =
     (if v = [] \<or> \<not> list_all base64url_char v then -1
      else case atob (pad_to_4 (map (\<lambda>c. if c = CHR ''-'' then CHR ''+'' else if c = CHR ''_'' then CHR ''/'' else c) v)) of
        None \<Rightarrow> -1
      | Some bytes \<Rightarrow> int (length bytes))"

section \<open>Times of RFC 3339\<close>

definition digit_value :: "char \<Rightarrow> nat option" where
  "digit_value c = (let n = of_char c :: nat in if 48 \<le> n \<and> n \<le> 57 then Some (n - 48) else None)"

fun number_of :: "nat \<Rightarrow> char list \<Rightarrow> nat option" where
  "number_of acc [] = Some acc"
| "number_of acc (c # cs) = (case digit_value c of None \<Rightarrow> None | Some d \<Rightarrow> number_of (10 * acc + d) cs)"

text \<open>The numbers of a text whose digits stand where the pattern has them, and the rest of it.\<close>

fun match_pattern :: "string \<Rightarrow> string \<Rightarrow> (nat list \<times> string) option" where
  "match_pattern [] s = Some ([], s)"
| "match_pattern (f # fs) [] = None"
| "match_pattern (f # fs) (c # s) =
     (if f = CHR ''d''
      then (case digit_value c of None \<Rightarrow> None | Some d \<Rightarrow> map_option (\<lambda>(ds, r). (d # ds, r)) (match_pattern fs s))
      else if f = c then match_pattern fs s else None)"

definition skip_fraction :: "string \<Rightarrow> string option" where
  "skip_fraction s =
     (case s of
        CHR ''.'' # r \<Rightarrow>
          (case r of
             c # _ \<Rightarrow> if digit_value c = None then None else Some (dropWhile (\<lambda>x. digit_value x \<noteq> None) r)
           | [] \<Rightarrow> None)
      | _ \<Rightarrow> Some s)"

definition offset_field :: "string \<Rightarrow> (nat \<times> nat) option option" where
  "offset_field s =
     (case s of
        [] \<Rightarrow> None
      | c # r \<Rightarrow>
          if c = CHR ''Z'' then (if r = [] then Some None else None)
          else if c = CHR ''+'' \<or> c = CHR ''-''
          then (case match_pattern ''dd:dd'' r of
                  Some ([h1, h2, m1, m2], []) \<Rightarrow> Some (Some (10 * h1 + h2, 10 * m1 + m2))
                | _ \<Rightarrow> None)
          else None)"

definition leap_year :: "nat \<Rightarrow> bool" where
  "leap_year year \<longleftrightarrow> year mod 4 = 0 \<and> (year mod 100 \<noteq> 0 \<or> year mod 400 = 0)"

definition days_in_month :: "nat \<Rightarrow> nat \<Rightarrow> nat option" where
  "days_in_month year month =
     (if 1 \<le> month \<and> month \<le> 12
      then Some ([31, if leap_year year then 29 else 28, 31, 30, 31, 30, 31, 31, 30, 31, 30, 31] ! (month - 1))
      else None)"

definition valid_instant :: "nat list \<Rightarrow> (nat \<times> nat) option \<Rightarrow> bool" where
  "valid_instant ds offset \<longleftrightarrow>
     (case ds of
        [y1, y2, y3, y4, o1, o2, d1, d2, h1, h2, i1, i2, s1, s2] \<Rightarrow>
          (let year = 1000 * y1 + 100 * y2 + 10 * y3 + y4; day = 10 * d1 + d2 in
           case days_in_month year (10 * o1 + o2) of
             None \<Rightarrow> False
           | Some days \<Rightarrow>
               1 \<le> day \<and> day \<le> days \<and> 10 * h1 + h2 \<le> 23 \<and> 10 * i1 + i2 \<le> 59 \<and> 10 * s1 + s2 \<le> 59 \<and>
               (case offset of None \<Rightarrow> True | Some (h, m) \<Rightarrow> h \<le> 23 \<and> m \<le> 59))
      | _ \<Rightarrow> False)"

definition realmrootRfc3339 :: "json option \<Rightarrow> string \<Rightarrow> string + unit" where
  "realmrootRfc3339 v message =
     (case jstr v of
        None \<Rightarrow> Inl message
      | Some text \<Rightarrow>
          (case match_pattern ''dddd-dd-ddTdd:dd:dd'' text of
             None \<Rightarrow> Inl message
           | Some (ds, r) \<Rightarrow>
               (case Option.bind (skip_fraction r) offset_field of
                  None \<Rightarrow> Inl message
                | Some offset \<Rightarrow> fail_if (\<not> valid_instant ds offset) message)))"

section \<open>DPoP credentials\<close>

definition DPOP_CREDENTIAL_KEYS :: "string list" where
  "DPOP_CREDENTIAL_KEYS =
     [''resource_indicator'', ''authorization_details'', ''credential_endpoint'', ''proof_target'',
      ''private_key'', ''access_token'', ''expires_at'', ''scopes'']"

definition dpopCredential :: "platform \<Rightarrow> json option \<Rightarrow> (string \<times> json list) option \<Rightarrow> string + json" where
  "dpopCredential p v source =
     then_ok (object_members v ''Realmroot Agent state contains invalid DPoP credential metadata.'') (\<lambda>kvs.
     let credential = JObj kvs in
     then_ok (assertKnownKeys kvs DPOP_CREDENTIAL_KEYS ''Realmroot Agent state contains unknown DPoP credential fields.'') (\<lambda>_.
     then_ok (realmrootAbsoluteUrl p (jget credential ''resource_indicator'')
                ''Realmroot Agent state contains an invalid DPoP resource URL.'') (\<lambda>resource.
     then_ok (realmrootAbsoluteUrl p (jget credential ''credential_endpoint'')
                ''Realmroot Agent state contains an invalid credential endpoint.'') (\<lambda>_.
     then_ok (realmrootAbsoluteUrl p (jget credential ''proof_target'')
                ''Realmroot Agent state contains an invalid proof target.'') (\<lambda>_.
     then_ok (authorizationDetails (jget credential ''authorization_details'')) (\<lambda>details.
     then_ok (fail_if (case source of None \<Rightarrow> False
                       | Some (r, ds) \<Rightarrow> up_text p resource \<noteq> r \<or>
                           canonicalAuthorizationDetails p details \<noteq> canonicalAuthorizationDetails p ds)
                ''Realmroot Agent state credential source and current credential do not match.'') (\<lambda>_.
     then_ok (fail_if (case jget credential ''scopes'' of
                         None \<Rightarrow> False
                       | Some (JArr xs) \<Rightarrow> list_ex (\<lambda>x. jstr (Some x) = None) xs
                       | _ \<Rightarrow> True)
                ''Realmroot Agent state contains invalid DPoP scopes.'') (\<lambda>_.
     then_ok (fail_if (list_ex (\<lambda>k. not_text (jget credential k)) [''private_key'', ''access_token''])
                ''Realmroot Agent state contains invalid DPoP credential values.'') (\<lambda>_.
     then_ok (if given credential ''expires_at'' = None then Inr ()
              else realmrootRfc3339 (jget credential ''expires_at'')
                     ''Realmroot Agent state contains an invalid DPoP expiry.'') (\<lambda>_.
     Inr credential))))))))))"

section \<open>Optional parts of the state\<close>

definition approval_part :: "platform \<Rightarrow> json \<Rightarrow> string + unit" where
  "approval_part p state =
     (case given state ''registration_approval'' of
        None \<Rightarrow> Inr ()
      | Some v \<Rightarrow>
          then_ok (object_members (Some v) ''Realmroot Agent registration approval is invalid.'') (\<lambda>kvs.
          let approval = JObj kvs in
          then_ok (assertKnownKeys kvs [''verification_uri_complete'', ''expires_at'', ''interval_seconds'']
                     ''Realmroot Agent registration approval contains unknown fields.'') (\<lambda>_.
          then_ok (realmrootAbsoluteUrl p (jget approval ''verification_uri_complete'')
                     ''Realmroot Agent registration approval URL is invalid.'') (\<lambda>_.
          then_ok (fail_if (case jget approval ''interval_seconds'' of
                              Some (JNum n) \<Rightarrow> snd (quotient_of n) \<noteq> 1
                            | _ \<Rightarrow> True) ''Realmroot Agent approval interval is invalid.'') (\<lambda>_.
          if given approval ''expires_at'' = None then Inr ()
          else realmrootRfc3339 (jget approval ''expires_at'')
                 ''Realmroot Agent registration approval expiry is invalid.'')))))"

definition identity_part :: "json \<Rightarrow> string + unit" where
  "identity_part state =
     (case given state ''identity'' of
        None \<Rightarrow> Inr ()
      | Some v \<Rightarrow>
          then_ok (object_members (Some v) ''Realmroot Agent identity is invalid.'') (\<lambda>kvs.
          let identity = JObj kvs in
          then_ok (assertKnownKeys kvs [''id'', ''issuer'', ''subject'', ''username'', ''name'', ''runtime'']
                     ''Realmroot Agent identity contains unknown fields.'') (\<lambda>_.
          then_ok (fail_if (list_ex (\<lambda>k. jstr (jget identity k) = None) [''id'', ''issuer'', ''subject''])
                     ''Realmroot Agent identity is incomplete.'') (\<lambda>_.
          fail_if (list_ex (\<lambda>k. not_text (jget identity k)) [''username'', ''name'', ''runtime''])
            ''Realmroot Agent identity contains invalid fields.''))))"

text \<open>One credential source; the result is the context it takes, which has to be new.\<close>

definition credential_source :: "platform \<Rightarrow> string list \<Rightarrow> string \<times> json \<Rightarrow> string + string" where
  "credential_source p contexts entry =
     (case entry of (reference, rawSource) \<Rightarrow>
        then_ok (fail_if (\<not> starts_with reference ''rrcs_'' \<or> decodedBase64UrlLength (drop 5 reference) \<noteq> 16)
                   ''Realmroot Agent credential source reference is invalid.'') (\<lambda>_.
        then_ok (object_members (Some rawSource) ''Realmroot Agent credential source is invalid.'') (\<lambda>kvs.
        let source = JObj kvs in
        then_ok (assertKnownKeys kvs [''resource_indicator'', ''authorization_details'', ''credential'']
                   ''Realmroot Agent credential source contains unknown fields.'') (\<lambda>_.
        then_ok (realmrootAbsoluteUrl p (jget source ''resource_indicator'')
                   ''Realmroot Agent credential source resource is invalid.'') (\<lambda>resource.
        then_ok (authorizationDetails (jget source ''authorization_details'')) (\<lambda>details.
        let context_key = up_text p resource @ char_of (0 :: nat) # canonicalAuthorizationDetails p details in
        then_ok (fail_if (context_key \<in> set contexts)
                   ''Realmroot Agent credential sources contain a duplicate context.'') (\<lambda>_.
        then_ok (dpopCredential p (jget source ''credential'') (Some (up_text p resource, details))) (\<lambda>credential.
        then_ok (fail_if (case jget credential ''scopes'' of Some (JArr (_ # _)) \<Rightarrow> False | _ \<Rightarrow> True)
                   ''Realmroot Agent credential source requires scopes.'') (\<lambda>_.
        then_ok (fail_if (list_ex (\<lambda>k. truthy (jget credential k)) [''private_key'', ''access_token'', ''expires_at''])
                   ''Realmroot Agent credential source must not contain target key or token material.'') (\<lambda>_.
        Inr context_key))))))))))"

fun credential_sources :: "platform \<Rightarrow> string list \<Rightarrow> (string \<times> json) list \<Rightarrow> string + unit" where
  "credential_sources p contexts [] = Inr ()"
| "credential_sources p contexts (entry # rest) =
     then_ok (credential_source p contexts entry) (\<lambda>c. credential_sources p (c # contexts) rest)"

definition sources_part :: "platform \<Rightarrow> json \<Rightarrow> string + unit" where
  "sources_part p state =
     (case given state ''credential_sources'' of
        None \<Rightarrow> Inr ()
      | Some v \<Rightarrow>
          then_ok (object_members (Some v) ''Realmroot Agent credential sources are invalid.'')
            (credential_sources p []))"

definition protocol_part :: "platform \<Rightarrow> json \<Rightarrow> string + unit" where
  "protocol_part p state =
     (case given state ''protocol_credential'' of
        None \<Rightarrow> Inr ()
      | Some v \<Rightarrow>
          then_ok (dpopCredential p (Some v) None) (\<lambda>credential.
          then_ok (fail_if (case jstr (jget credential ''private_key'') of
                              None \<Rightarrow> True | Some key \<Rightarrow> decodedBase64UrlLength key \<noteq> 32)
                     ''Realmroot Agent protocol DPoP private key is invalid.'') (\<lambda>_.
          fail_if ((nonempty_str (jget credential ''access_token'') \<noteq> None) \<noteq> (given credential ''expires_at'' \<noteq> None))
            ''Realmroot Agent protocol credential is incomplete.'')))"

definition validateRealmrootOptionalState :: "platform \<Rightarrow> json \<Rightarrow> string + unit" where
  "validateRealmrootOptionalState p state =
     then_ok (approval_part p state) (\<lambda>_. then_ok (identity_part state) (\<lambda>_.
     then_ok (sources_part p state) (\<lambda>_. protocol_part p state)))"

section \<open>The whole state\<close>

definition REALMROOT_AGENT_STATE_VERSION :: rat where "REALMROOT_AGENT_STATE_VERSION = 18"

definition REALMROOT_AGENT_STATE_KEYS :: "string list" where
  "REALMROOT_AGENT_STATE_KEYS =
     [''version'', ''origin'', ''issuer'', ''runtime'', ''name'', ''agent_id'', ''host_id'', ''agent_key_id'',
      ''agent_private_key'', ''registration_approval'', ''enrollment_idempotency_key'', ''identity'',
      ''credential_sources'', ''protocol_credential'']"

record agent_state_metadata =
  as_agent :: id
  as_origin :: string
  as_issuer :: string
  as_runtime :: string

definition runtime_start :: "char \<Rightarrow> bool" where
  "runtime_start c \<longleftrightarrow> (let n = of_char c :: nat in (97 \<le> n \<and> n \<le> 122) \<or> (48 \<le> n \<and> n \<le> 57))"

definition isIdentityRuntime :: "json option \<Rightarrow> bool" where
  "isIdentityRuntime v \<longleftrightarrow>
     (case jstr v of
        Some (c # cs) \<Rightarrow>
          runtime_start c \<and> length cs \<le> 63 \<and>
          list_all (\<lambda>x. runtime_start x \<or> x \<in> {CHR ''.'', CHR ''_'', CHR ''-''}) cs
      | _ \<Rightarrow> False)"

definition safe_https :: "platform \<Rightarrow> json \<Rightarrow> string \<Rightarrow> string + unit" where
  "safe_https p state k =
     (let message = ''Realmroot Agent state '' @ k @ '' must be a safe HTTPS URL.'' in
      case Option.bind (jstr (jget state k)) (up_parse p) of
        None \<Rightarrow> Inl message
      | Some u \<Rightarrow>
          fail_if (ur_protocol u \<noteq> ''https:'' \<or> ur_username u \<noteq> [] \<or> ur_password u \<noteq> [] \<or>
                   ur_search u \<noteq> [] \<or> ur_hash u \<noteq> []) message)"

definition text_of :: "json \<Rightarrow> string \<Rightarrow> string" where
  "text_of v k = (case jstr (jget v k) of None \<Rightarrow> [] | Some s \<Rightarrow> s)"

definition parseRealmrootAgentState :: "platform \<Rightarrow> string \<Rightarrow> string + agent_state_metadata" where
  "parseRealmrootAgentState p content =
     (case pl_json p content of
        None \<Rightarrow> Inl ''Realmroot Agent state must be valid JSON.''
      | Some parsed \<Rightarrow>
          then_ok (object_members (Some parsed) ''Realmroot Agent state must be a JSON object.'') (\<lambda>kvs.
          let state = JObj kvs in
          then_ok (assertKnownKeys kvs REALMROOT_AGENT_STATE_KEYS
                     ''Realmroot Agent state contains fields unknown to v0.4.2.'') (\<lambda>_.
          then_ok (fail_if (not_text (jget state ''name'')) ''Realmroot Agent state contains an invalid name.'') (\<lambda>_.
          then_ok (fail_if (jget state ''version'' \<noteq> Some (JNum REALMROOT_AGENT_STATE_VERSION))
                     ''Realmroot Agent state must use version 18.'') (\<lambda>_.
          then_ok (check_all (\<lambda>k. fail_if (jstr (jget state k) = None \<or> js_trim (text_of state k) = [])
                                     (''Realmroot Agent state requires '' @ k @ ''.''))
                     [''agent_id'', ''origin'', ''issuer'', ''host_id'', ''agent_key_id'', ''enrollment_idempotency_key'']) (\<lambda>_.
          then_ok (safe_https p state ''origin'') (\<lambda>_.
          then_ok (safe_https p state ''issuer'') (\<lambda>_.
          then_ok (fail_if (\<not> isIdentityRuntime (jget state ''runtime''))
                     ''Realmroot Agent state contains an invalid runtime.'') (\<lambda>_.
          then_ok (fail_if (jstr (jget state ''agent_private_key'') = None \<or>
                            decodedBase64UrlLength (text_of state ''agent_private_key'') \<noteq> 64)
                     ''Realmroot Agent state contains an invalid Ed25519 private key.'') (\<lambda>_.
          then_ok (validateRealmrootOptionalState p state) (\<lambda>_.
          Inr \<lparr>as_agent = (case jget state ''identity'' of
                  Some (JObj ids) \<Rightarrow>
                    (case jstr (jget (JObj ids) ''id'') of Some i \<Rightarrow> i | None \<Rightarrow> text_of state ''agent_id'')
                | _ \<Rightarrow> text_of state ''agent_id''),
               as_origin = text_of state ''origin'', as_issuer = text_of state ''issuer'',
               as_runtime = text_of state ''runtime''\<rparr>)))))))))))"

section \<open>What an accepted state holds\<close>

lemma dpop_credential_itself: "dpopCredential p v src = Inr credential \<Longrightarrow> v = Some credential"
  unfolding dpopCredential_def Let_def by (simp only: then_ok_Inr object_members_Inr) blast

lemma credential_sources_no_material:
  assumes "credential_sources p contexts kvs = Inr ()" "(reference, source) \<in> set kvs" "k \<in> {''private_key'', ''access_token'', ''expires_at''}"
  shows "\<not> truthy (jopt (jget source ''credential'') k)"
  using assms(1,2)
proof (induction kvs arbitrary: contexts)
  case (Cons entry rest)
  from Cons.prems(1) obtain c where c: "credential_source p contexts entry = Inr c"
    and r: "credential_sources p (c # contexts) rest = Inr ()" by auto
  show ?case
  proof (cases "entry = (reference, source)")
    case True
    with c obtain credential src where "dpopCredential p (jget source ''credential'') src = Inr credential"
      "\<not> truthy (jget credential ''private_key'')" "\<not> truthy (jget credential ''access_token'')"
      "\<not> truthy (jget credential ''expires_at'')"
      by (auto simp: credential_source_def Let_def)
    with assms(3) show ?thesis using dpop_credential_itself by fastforce
  next
    case False
    with Cons.IH [OF r] Cons.prems(2) show ?thesis by auto
  qed
qed simp

end
