(* ===== verification/Vault.thy ===== *)
theory Vault
  imports AgentState ListPaging PolicyEngine
begin

text \<open>
  Vaults, credentials and their versions: the rules of \<open>server/domain/vault.ts\<close>, the repository
  \<open>server/adapters/repos/vaults.ts\<close>, the secret store gateway, the use cases
  \<open>server/usecases/vaults.ts\<close> with the handlers of \<open>server/http/vaults.ts\<close>, and the two queries of
  \<open>runtime-orchestration.ts\<close> that resolve a reference at dispatch. The encryption of a
  value is an argument; a handler returns the database, the actions it recorded in the audit
  log and its result.
\<close>

section \<open>Credentials\<close>

datatype credential_type =
  Opaque | Basic_auth | Ssh_auth | Tls | Private_key_jwk | Oauth_token | Realmroot_agent_state

fun type_name :: "credential_type \<Rightarrow> string" where
  "type_name Opaque = ''opaque''"
| "type_name Basic_auth = ''enbor.dev/basic-auth''"
| "type_name Ssh_auth = ''enbor.dev/ssh-auth''"
| "type_name Tls = ''enbor.dev/tls''"
| "type_name Private_key_jwk = ''enbor.dev/private-key-jwk''"
| "type_name Oauth_token = ''enbor.dev/oauth-token''"
| "type_name Realmroot_agent_state = ''enbor.dev/realmroot-agent-state''"

datatype credential_state = Cred_active | Cred_revoked

datatype version_state = Ver_active | Ver_superseded | Ver_revoked

datatype vault_scope = V_project | V_organization

record secret_material =
  sm_data :: "(string \<times> string) list option"
  sm_name :: "string option"
  sm_metadata :: "(string \<times> json) list option"

record secret_reference =
  sr_ref :: string
  sr_name :: string
  sr_metadata :: "(string \<times> json) list"

fun requiredKeys :: "credential_type \<Rightarrow> string list" where
  "requiredKeys Opaque = []"
| "requiredKeys Basic_auth = [''username'', ''password'']"
| "requiredKeys Ssh_auth = [''ssh-privatekey'']"
| "requiredKeys Tls = [''tls.crt'', ''tls.key'']"
| "requiredKeys Private_key_jwk = [''jwk'']"
| "requiredKeys Oauth_token = [''access-token'']"
| "requiredKeys Realmroot_agent_state = [''state.json'']"

definition optionalKeys :: "credential_type \<Rightarrow> string list" where
  "optionalKeys t = (if t = Oauth_token then [''refresh-token'', ''token-type'', ''expires-at'', ''scopes''] else [])"

type_synonym field_error = "string \<times> string"

fun data_entries_error :: "(string \<times> string) list \<Rightarrow> field_error option" where
  "data_entries_error [] = None"
| "data_entries_error ((key, v) # rest) =
     (if key = [] \<or> length key > 253 \<or> key = ''.'' \<or> key = ''..'' \<or> CHR ''/'' \<in> set key
      then Some (''stringData.'' @ (if key = [] then ''<empty>'' else key), ''Use a safe Secret data key.'')
      else if v = [] then Some (''stringData.'' @ key, ''Secret data values must not be empty.'')
      else data_entries_error rest)"

definition jwk_error :: "platform \<Rightarrow> (string \<times> string) list \<Rightarrow> field_error option" where
  "jwk_error p stringData =
     (case map_of stringData ''jwk'' of
        None \<Rightarrow> Some (''stringData.jwk'', ''Credential type enbor.dev/private-key-jwk requires jwk.'')
      | Some jwk \<Rightarrow>
          (case pl_json p jwk of
             None \<Rightarrow> Some (''stringData.jwk'', ''JWK must be valid JSON.'')
           | Some v \<Rightarrow> if is_jobj (Some v) then None else Some (''stringData.jwk'', ''JWK must be a JSON object.'')))"

definition state_error :: "platform \<Rightarrow> (string \<times> string) list \<Rightarrow> field_error option" where
  "state_error p stringData =
     (case parseRealmrootAgentState p (case map_of stringData ''state.json'' of None \<Rightarrow> [] | Some s \<Rightarrow> s) of
        Inl e \<Rightarrow> Some (''stringData.state.json'', e)
      | Inr _ \<Rightarrow> None)"

definition validateSecretData :: "platform \<Rightarrow> credential_type \<Rightarrow> (string \<times> string) list \<Rightarrow> field_error option" where
  "validateSecretData p t stringData =
     (let keys = map fst stringData; allowed = set (requiredKeys t) \<union> set (optionalKeys t) in
      if keys = [] then Some (''stringData'', ''At least one data key is required.'')
      else case data_entries_error stringData of
        Some e \<Rightarrow> Some e
      | None \<Rightarrow>
        (case List.find (\<lambda>k. \<not> truthy_str (map_of stringData k)) (requiredKeys t) of
           Some k \<Rightarrow> Some (''stringData.'' @ k, ''Credential type '' @ type_name t @ '' requires '' @ k @ ''.'')
         | None \<Rightarrow>
           (case (if t = Opaque then None else List.find (\<lambda>k. k \<notin> allowed) keys) of
              Some k \<Rightarrow> Some (''stringData.'' @ k, ''Credential type '' @ type_name t @ '' does not define '' @ k @ ''.'')
            | None \<Rightarrow>
                (case (if t = Private_key_jwk then jwk_error p stringData else None) of
                   Some e \<Rightarrow> Some e
                 | None \<Rightarrow> if t = Realmroot_agent_state then state_error p stringData else None))))"

definition ascii_upper :: "char \<Rightarrow> char" where
  "ascii_upper c = (let n = of_char c :: nat in if 97 \<le> n \<and> n \<le> 122 then char_of (n - 32) else c)"

definition secretReferenceName :: "id \<Rightarrow> nat \<Rightarrow> string option \<Rightarrow> string" where
  "secretReferenceName credentialId n requestedName =
     (case requestedName of
        Some name \<Rightarrow> name
      | None \<Rightarrow> ''ENBOR_'' @ map ascii_upper credentialId @ ''_V'' @ decimal n)"

definition secretReference ::
    "platform \<Rightarrow> id \<Rightarrow> id \<Rightarrow> id \<Rightarrow> nat \<Rightarrow> credential_type \<Rightarrow> secret_material \<Rightarrow> string + secret_reference" where
  "secretReference p vaultId credentialId versionId n t values =
     (let stringData = (case sm_data values of None \<Rightarrow> [] | Some d \<Rightarrow> d) in
      case validateSecretData p t stringData of
        Some (_, message) \<Rightarrow> Inl message
      | None \<Rightarrow> Inr \<lparr>sr_ref = credentialVersionSecretRef p vaultId credentialId versionId,
                   sr_name = secretReferenceName credentialId n (sm_name values),
                   sr_metadata = kv_set ''dataKeys'' (JArr (map JStr (sort_key id (map fst stringData))))
                     (case sm_metadata values of None \<Rightarrow> [] | Some m \<Rightarrow> m)\<rparr>)"

definition STORED_SECRET_METADATA_KEYS :: "string list" where
  "STORED_SECRET_METADATA_KEYS = [''encryptedSecretValue'', ''encryptedSecretData'', ''localSecretValue'']"

definition stripStoredSecretMetadata :: "(string \<times> json) list \<Rightarrow> (string \<times> json) list" where
  "stripStoredSecretMetadata metadata = filter (\<lambda>(k, _). k \<notin> set STORED_SECRET_METADATA_KEYS) metadata"

definition credentialDataKeys :: "json \<Rightarrow> string list" where
  "credentialDataKeys metadata =
     (case jget metadata ''dataKeys'' of
        Some (JArr ks) \<Rightarrow>
          if list_all (\<lambda>k. jstr (Some k) \<noteq> None) ks then sort_key id (map (\<lambda>k. the (jstr (Some k))) ks)
          else (case jget metadata ''encryptedSecretData'' of Some (JObj kvs) \<Rightarrow> sort_key id (map fst kvs) | _ \<Rightarrow> [])
      | _ \<Rightarrow> (case jget metadata ''encryptedSecretData'' of Some (JObj kvs) \<Rightarrow> sort_key id (map fst kvs) | _ \<Rightarrow> []))"

section \<open>Tables\<close>

record vault_row =
  va_id :: id
  va_organization :: id
  va_project :: "id option"
  va_name :: string
  va_description :: "string option"
  va_scope :: vault_scope
  va_managed_by :: "string option"
  va_deleted :: "time option"
  va_created :: time
  va_updated :: time

record credential_row =
  vc_id :: id
  vc_vault :: id
  vc_organization :: id
  vc_project :: "id option"
  vc_name :: string
  vc_type :: credential_type
  vc_metadata :: json
  vc_state :: credential_state
  vc_active :: "id option"
  vc_revoked :: "time option"
  vc_revoked_by :: "id option"
  vc_reason :: "string option"
  vc_created :: time
  vc_updated :: time

record version_row =
  vv_id :: id
  vv_credential :: id
  vv_vault :: id
  vv_organization :: id
  vv_project :: "id option"
  vv_number :: nat
  vv_ref :: string
  vv_name :: string
  vv_state :: version_state
  vv_metadata :: json
  vv_created :: time
  vv_superseded :: "time option"
  vv_revoked :: "time option"

record vault_db =
  vault_rows :: "vault_row list"
  credential_rows :: "credential_row list"
  version_rows :: "version_row list"

datatype vault_error =
    Vault_not_found
  | Credential_not_found
  | Credential_inactive
  | Vault_conflict string
  | VaultSecretError string
  | VaultDeleted
  | VaultThrown string

section \<open>The repository\<close>

definition visible_vault :: "id \<Rightarrow> id \<Rightarrow> vault_row \<Rightarrow> bool" where
  "visible_vault organizationId projectId v \<longleftrightarrow>
     (va_scope v = V_project \<and> va_project v = Some projectId) \<or>
     (va_scope v = V_organization \<and> va_organization v = organizationId)"

definition public_vault :: "id \<Rightarrow> id \<Rightarrow> vault_row \<Rightarrow> bool" where
  "public_vault organizationId projectId v \<longleftrightarrow> visible_vault organizationId projectId v \<and> va_managed_by v = None"

definition findVault :: "id \<Rightarrow> id \<Rightarrow> id \<Rightarrow> vault_db \<Rightarrow> vault_row option" where
  "findVault organizationId projectId vaultId d =
     sql_get (\<lambda>v. va_id v = vaultId \<and> public_vault organizationId projectId v \<and> va_deleted v = None) (vault_rows d)"

definition findIdentityManaged :: "id \<Rightarrow> id \<Rightarrow> id \<Rightarrow> vault_db \<Rightarrow> vault_row option" where
  "findIdentityManaged organizationId projectId vaultId d =
     sql_get (\<lambda>v. va_id v = vaultId \<and> visible_vault organizationId projectId v \<and>
                  va_managed_by v = Some ''identity'') (vault_rows d)"

text \<open>\<open>blocked\<close> is the trigger of the schema that refuses a live vault under a deleted project.\<close>

definition insertVault :: "(vault_row \<Rightarrow> bool) \<Rightarrow> vault_row \<Rightarrow> vault_db \<Rightarrow> vault_db \<times> (vault_error + vault_row)" where
  "insertVault blocked row d =
     (if blocked row then (d, Inl VaultDeleted)
      else if sql_exists (\<lambda>v. va_id v = va_id row) (vault_rows d)
      then (d, Inl (VaultThrown ''UNIQUE constraint failed: vaults.id''))
      else (d\<lparr>vault_rows := vault_rows d @ [row]\<rparr>, Inr row))"

definition set_vault :: "string \<Rightarrow> string option \<Rightarrow> vault_scope \<Rightarrow> id option \<Rightarrow> time \<Rightarrow> vault_row \<Rightarrow> vault_row" where
  "set_vault name description scope projectId t v =
     v\<lparr>va_name := name, va_description := description, va_scope := scope, va_project := projectId, va_updated := t\<rparr>"

definition updateVaultRow ::
    "(vault_row \<Rightarrow> bool) \<Rightarrow> id \<Rightarrow> (vault_row \<Rightarrow> vault_row) \<Rightarrow> vault_db \<Rightarrow> vault_db \<times> (vault_error + unit)" where
  "updateVaultRow blocked vaultId f d =
     (let hit = (\<lambda>v. va_id v = vaultId \<and> va_deleted v = None) in
      if sql_exists (\<lambda>v. hit v \<and> blocked (f v)) (vault_rows d)
      then (d, Inl (VaultThrown ''cannot attach a live resource to a deleted project''))
      else if \<not> sql_exists hit (vault_rows d) then (d, Inl VaultDeleted)
      else (d\<lparr>vault_rows := sql_update hit f (vault_rows d)\<rparr>, Inr ()))"

definition deleteVault :: "id \<Rightarrow> id \<Rightarrow> id \<Rightarrow> time \<Rightarrow> vault_db \<Rightarrow> vault_db \<times> bool" where
  "deleteVault organizationId projectId vaultId t d =
     (let hit = (\<lambda>v. va_id v = vaultId \<and> public_vault organizationId projectId v \<and> va_deleted v = None) in
      (d\<lparr>vault_rows := sql_update hit (\<lambda>v. v\<lparr>va_deleted := Some t, va_updated := t\<rparr>) (vault_rows d)\<rparr>,
       sql_exists hit (vault_rows d)))"

definition hasCredentials :: "id \<Rightarrow> vault_db \<Rightarrow> bool" where
  "hasCredentials vaultId d = sql_exists (\<lambda>c. vc_vault c = vaultId) (credential_rows d)"

definition findCredential :: "id \<Rightarrow> id \<Rightarrow> vault_db \<Rightarrow> credential_row option" where
  "findCredential vaultId credentialId d =
     sql_get (\<lambda>c. vc_id c = credentialId \<and> vc_vault c = vaultId) (credential_rows d)"

text \<open>
  The purpose of a credential that an identity manages; the unique index counts only rows whose
  three parts are set.
\<close>

definition identity_purpose :: "credential_row \<Rightarrow> json option" where
  "identity_purpose c =
     (case jget (vc_metadata c) ''purpose'' of
        Some JNull \<Rightarrow> if vc_type c = Realmroot_agent_state then Some (JStr ''agent-state'') else None
      | None \<Rightarrow> if vc_type c = Realmroot_agent_state then Some (JStr ''agent-state'') else None
      | Some v \<Rightarrow> Some v)"

definition same_identity_purpose :: "credential_row \<Rightarrow> credential_row \<Rightarrow> bool" where
  "same_identity_purpose a b \<longleftrightarrow>
     jget (vc_metadata a) ''managedBy'' = Some (JStr ''identity'') \<and>
     jget (vc_metadata b) ''managedBy'' = Some (JStr ''identity'') \<and> vc_vault a = vc_vault b \<and>
     given (vc_metadata a) ''identityId'' \<noteq> None \<and>
     given (vc_metadata a) ''identityId'' = given (vc_metadata b) ''identityId'' \<and>
     identity_purpose a \<noteq> None \<and> identity_purpose a = identity_purpose b"

definition findIdentityCredential :: "id \<Rightarrow> id \<Rightarrow> string \<Rightarrow> vault_db \<Rightarrow> credential_row option" where
  "findIdentityCredential vaultId identityId purpose d =
     sql_get (\<lambda>c. vc_vault c = vaultId \<and> jget (vc_metadata c) ''managedBy'' = Some (JStr ''identity'') \<and>
                  jget (vc_metadata c) ''identityId'' = Some (JStr identityId) \<and>
                  identity_purpose c = Some (JStr purpose)) (credential_rows d)"

definition findVersion :: "id \<Rightarrow> id \<Rightarrow> vault_db \<Rightarrow> version_row option" where
  "findVersion credentialId versionId d =
     sql_get (\<lambda>v. vv_id v = versionId \<and> vv_credential v = credentialId) (version_rows d)"

definition activeVersion :: "credential_row \<Rightarrow> vault_db \<Rightarrow> version_row option" where
  "activeVersion c d = (if truthy_str (vc_active c) then findVersion (vc_id c) (the (vc_active c)) d else None)"

definition latestVersionNumber :: "id \<Rightarrow> vault_db \<Rightarrow> nat" where
  "latestVersionNumber credentialId d =
     fold max (map vv_number (filter (\<lambda>v. vv_credential v = credentialId) (version_rows d))) 0"

definition version_taken :: "version_row \<Rightarrow> vault_db \<Rightarrow> bool" where
  "version_taken v d =
     sql_exists (\<lambda>x. vv_id x = vv_id v \<or> (vv_credential x = vv_credential v \<and> vv_number x = vv_number v)) (version_rows d)"

text \<open>
  The batch of a new credential: the credential without a pointer, its version, the pointer. A
  failing statement undoes the batch.
\<close>

definition insertCredentialWithVersion :: "credential_row \<Rightarrow> version_row \<Rightarrow> vault_db \<Rightarrow> vault_db option" where
  "insertCredentialWithVersion c v d =
     (if sql_exists (\<lambda>x. vc_id x = vc_id c \<or> same_identity_purpose x c) (credential_rows d) \<or> version_taken v d
         \<or> \<not> sql_exists (\<lambda>x. va_id x = vc_vault c) (vault_rows d)
      then None
      else Some (d\<lparr>credential_rows := sql_update (\<lambda>x. vc_id x = vc_id c) (\<lambda>x. x\<lparr>vc_active := Some (vv_id v)\<rparr>)
                     (credential_rows d @ [c\<lparr>vc_active := None\<rparr>]),
                   version_rows := version_rows d @ [v]\<rparr>))"

definition insertVersionRotation :: "version_row \<Rightarrow> id option \<Rightarrow> time \<Rightarrow> vault_db \<Rightarrow> vault_db option" where
  "insertVersionRotation v previousActiveVersionId t d =
     (if version_taken v d \<or> \<not> sql_exists (\<lambda>c. vc_id c = vv_credential v) (credential_rows d) then None
      else Some (d\<lparr>version_rows := sql_update (\<lambda>x. truthy_str previousActiveVersionId \<and> Some (vv_id x) = previousActiveVersionId)
                     (\<lambda>x. x\<lparr>vv_state := Ver_superseded, vv_superseded := Some t\<rparr>) (version_rows d @ [v]),
                   credential_rows := sql_update (\<lambda>c. vc_id c = vv_credential v)
                     (\<lambda>c. c\<lparr>vc_active := Some (vv_id v), vc_updated := t\<rparr>) (credential_rows d)\<rparr>))"

record credential_fields =
  cf_metadata :: json
  cf_state :: credential_state
  cf_active :: "id option"
  cf_revoked :: "time option"
  cf_revoked_by :: "id option"
  cf_reason :: "string option"

text \<open>The two statements of \<open>updateCredential\<close>, which are not in a batch.\<close>

definition set_credential :: "id \<Rightarrow> credential_fields \<Rightarrow> time \<Rightarrow> vault_db \<Rightarrow> vault_db" where
  "set_credential credentialId fs t d =
     d\<lparr>credential_rows := sql_update (\<lambda>c. vc_id c = credentialId)
        (\<lambda>c. c\<lparr>vc_metadata := cf_metadata fs, vc_state := cf_state fs, vc_active := cf_active fs,
               vc_revoked := cf_revoked fs, vc_revoked_by := cf_revoked_by fs,
               vc_reason := cf_reason fs, vc_updated := t\<rparr>) (credential_rows d)\<rparr>"

definition revoke_versions :: "id \<Rightarrow> time \<Rightarrow> vault_db \<Rightarrow> vault_db" where
  "revoke_versions credentialId revokedAt d =
     d\<lparr>version_rows := sql_update (\<lambda>v. vv_credential v = credentialId \<and> vv_state v = Ver_active)
        (\<lambda>v. v\<lparr>vv_state := Ver_revoked, vv_revoked := Some revokedAt\<rparr>) (version_rows d)\<rparr>"

definition updateCredential :: "id \<Rightarrow> credential_fields \<Rightarrow> time \<Rightarrow> bool \<Rightarrow> time \<Rightarrow> vault_db \<Rightarrow> vault_db" where
  "updateCredential credentialId fs t revokeActiveVersions revokedAt d =
     (let d1 = set_credential credentialId fs t d in
      if revokeActiveVersions then revoke_versions credentialId revokedAt d1 else d1)"

section \<open>Lists\<close>

definition in_window :: "time option \<Rightarrow> time option \<Rightarrow> time \<Rightarrow> bool" where
  "in_window from to t \<longleftrightarrow> (case from of None \<Rightarrow> True | Some a \<Rightarrow> a \<le> t) \<and> (case to of None \<Rightarrow> True | Some b \<Rightarrow> t \<le> b)"

definition search_hits :: "string option \<Rightarrow> string \<Rightarrow> bool" where
  "search_hits search name \<longleftrightarrow> \<not> truthy_str search \<or> sql_like (''%'' @ the search @ ''%'') name"

definition listVaults ::
    "id \<Rightarrow> id \<Rightarrow> string option \<Rightarrow> time option \<Rightarrow> time option \<Rightarrow> nat \<Rightarrow> (time \<times> id) option \<Rightarrow> vault_db \<Rightarrow> vault_row list \<times> bool" where
  "listVaults organizationId projectId search from to limit cursor d =
     keyset_page (\<lambda>v. (va_created v, va_id v))
       (\<lambda>v. public_vault organizationId projectId v \<and> va_deleted v = None \<and> search_hits search (va_name v) \<and>
            in_window from to (va_created v)) (vault_rows d) limit cursor"

definition listCredentials ::
    "id \<Rightarrow> credential_state option \<Rightarrow> string option \<Rightarrow> time option \<Rightarrow> time option \<Rightarrow> nat \<Rightarrow> (time \<times> id) option \<Rightarrow>
     vault_db \<Rightarrow> credential_row list \<times> bool" where
  "listCredentials vaultId state search from to limit cursor d =
     keyset_page (\<lambda>c. (vc_created c, vc_id c))
       (\<lambda>c. vc_vault c = vaultId \<and> (state = None \<or> state = Some (vc_state c)) \<and> search_hits search (vc_name c) \<and>
            in_window from to (vc_created c)) (credential_rows d) limit cursor"

definition listVersions ::
    "id \<Rightarrow> version_state option \<Rightarrow> time option \<Rightarrow> time option \<Rightarrow> nat \<Rightarrow> (time \<times> id) option \<Rightarrow>
     vault_db \<Rightarrow> version_row list \<times> bool" where
  "listVersions credentialId state from to limit cursor d =
     keyset_page (\<lambda>v. (vv_created v, vv_id v))
       (\<lambda>v. vv_credential v = credentialId \<and> (state = None \<or> state = Some (vv_state v)) \<and>
            in_window from to (vv_created v)) (version_rows d) limit cursor"

section \<open>Resolving a reference\<close>

text \<open>
  A row belongs to the caller's project, or to every project of the organization when it names
  none. The dispatch reads the state, the metadata and the reference of the version found.
\<close>

definition in_reach :: "id \<Rightarrow> id \<Rightarrow> id \<Rightarrow> id option \<Rightarrow> bool" where
  "in_reach organizationId projectId rowOrganization rowProject \<longleftrightarrow>
     rowOrganization = organizationId \<and> (rowProject = Some projectId \<or> rowProject = None)"

definition active_version_row :: "credential_row \<Rightarrow> vault_db \<Rightarrow> version_row option" where
  "active_version_row c d = sql_get (\<lambda>v. vc_active c = Some (vv_id v)) (version_rows d)"

definition resolvable_credential :: "id \<Rightarrow> id \<Rightarrow> vault_db \<Rightarrow> credential_row \<Rightarrow> bool" where
  "resolvable_credential organizationId projectId d c \<longleftrightarrow>
     in_reach organizationId projectId (vc_organization c) (vc_project c) \<and> vc_state c = Cred_active \<and>
     (case active_version_row c d of None \<Rightarrow> False | Some v \<Rightarrow> vv_state v = Ver_active)"

definition scoped_version :: "id \<Rightarrow> id \<Rightarrow> id \<Rightarrow> id \<Rightarrow> vault_db \<Rightarrow> version_row option" where
  "scoped_version organizationId projectId vaultId credentialId d =
     (case sql_get (\<lambda>c. vc_id c = credentialId \<and> vc_vault c = vaultId \<and> resolvable_credential organizationId projectId d c)
             (credential_rows d) of
        None \<Rightarrow> None
      | Some c \<Rightarrow> active_version_row c d)"

definition pinned_version :: "id \<Rightarrow> id \<Rightarrow> string \<Rightarrow> vault_db \<Rightarrow> version_row option" where
  "pinned_version organizationId projectId secretRef d =
     sql_get (\<lambda>v. vv_ref v = secretRef \<and> in_reach organizationId projectId (vv_organization v) (vv_project v) \<and>
                  sql_exists (\<lambda>c. vc_id c = vv_credential v \<and> vc_state c = Cred_active) (credential_rows d))
       (version_rows d)"

definition secretVersionForResolution ::
    "'a uri_platform_scheme \<Rightarrow> id \<Rightarrow> id \<Rightarrow> string \<Rightarrow> vault_db \<Rightarrow> string + version_row option" where
  "secretVersionForResolution p organizationId projectId secretRef d =
     (case secretRefIdentity p secretRef of
        Inl e \<Rightarrow> Inl e
      | Inr identity \<Rightarrow>
          (case identity of
             Some i \<Rightarrow>
               if truthy_str (si_credential i) \<and> \<not> truthy_str (si_version i)
               then Inr (scoped_version organizationId projectId (si_vault i) (the (si_credential i)) d)
               else Inr (pinned_version organizationId projectId secretRef d)
           | None \<Rightarrow> Inr (pinned_version organizationId projectId secretRef d)))"

definition vaultVersionsForResolution ::
    "'a uri_platform_scheme \<Rightarrow> id \<Rightarrow> id \<Rightarrow> string \<Rightarrow> vault_db \<Rightarrow> string + (string \<times> version_row) list option" where
  "vaultVersionsForResolution p organizationId projectId secretRef d =
     (case vaultIdFromRef p secretRef of
        Inl e \<Rightarrow> Inl e
      | Inr vaultId \<Rightarrow>
          if \<not> truthy_str vaultId then Inr None
          else Inr (Some (map (\<lambda>c. (vc_name c, the (active_version_row c d)))
                 (filter (\<lambda>c. Some (vc_vault c) = vaultId \<and> resolvable_credential organizationId projectId d c)
                    (credential_rows d)))))"

section \<open>Storing a secret\<close>

text \<open>The values are encrypted in the order of their keys; the first failure is thrown.\<close>

fun encrypt_all :: "(string \<Rightarrow> string \<Rightarrow> string + json) \<Rightarrow> (string \<times> string) list \<Rightarrow> string + (string \<times> json) list" where
  "encrypt_all encrypt [] = Inr []"
| "encrypt_all encrypt ((key, v) # rest) =
     then_ok (encrypt key v) (\<lambda>c. then_ok (encrypt_all encrypt rest) (\<lambda>cs. Inr ((key, c) # cs)))"

definition store_secret ::
    "platform \<Rightarrow> (string \<Rightarrow> string \<Rightarrow> string + json) \<Rightarrow> secret_material \<Rightarrow> string + json" where
  "store_secret p encrypt values =
     (let entries = (case sm_data values of None \<Rightarrow> [] | Some d \<Rightarrow> d) in
      if entries = [] then Inl ''stringData is required for enbor credentials''
      else then_ok (encrypt_all encrypt (sort_by (\<lambda>a b. pl_before p (fst a) (fst b)) entries))
             (\<lambda>data. Inr (JObj [(''encryptedSecretData'', JObj data)])))"

definition versionMetadata :: "secret_reference \<Rightarrow> json \<Rightarrow> json" where
  "versionMetadata reference stored = spread_objects (sr_metadata reference) (object_entries stored)"

definition new_version ::
    "id \<Rightarrow> id \<Rightarrow> id \<Rightarrow> id \<Rightarrow> id option \<Rightarrow> nat \<Rightarrow> secret_reference \<Rightarrow> json \<Rightarrow> time \<Rightarrow> version_row" where
  "new_version versionId credentialId vaultId organizationId projectId n reference stored t =
     \<lparr>vv_id = versionId, vv_credential = credentialId, vv_vault = vaultId, vv_organization = organizationId,
      vv_project = projectId, vv_number = n, vv_ref = sr_ref reference, vv_name = sr_name reference,
      vv_state = Ver_active, vv_metadata = versionMetadata reference stored, vv_created = t,
      vv_superseded = None, vv_revoked = None\<rparr>"

section \<open>Use cases\<close>

record credential_input =
  ci_name :: string
  ci_type :: credential_type
  ci_metadata :: json
  ci_secret :: secret_material

definition createCredential ::
    "platform \<Rightarrow> (string \<Rightarrow> string \<Rightarrow> string + json) \<Rightarrow> vault_row \<Rightarrow> credential_input \<Rightarrow> id \<Rightarrow> id \<Rightarrow> time \<Rightarrow> vault_db \<Rightarrow>
     vault_db \<times> (vault_error + credential_row \<times> version_row)" where
  "createCredential p encrypt vault input credentialId versionId t d =
     (case secretReference p (va_id vault) credentialId versionId 1 (ci_type input) (ci_secret input) of
        Inl e \<Rightarrow> (d, Inl (VaultSecretError e))
      | Inr reference \<Rightarrow>
        (case store_secret p encrypt (ci_secret input) of
           Inl e \<Rightarrow> (d, Inl (VaultSecretError e))
         | Inr stored \<Rightarrow>
             let v = new_version versionId credentialId (va_id vault) (va_organization vault) (va_project vault) 1
                       reference stored t;
                 c = \<lparr>vc_id = credentialId, vc_vault = va_id vault, vc_organization = va_organization vault,
                      vc_project = va_project vault, vc_name = ci_name input, vc_type = ci_type input,
                      vc_metadata = ci_metadata input, vc_state = Cred_active, vc_active = Some versionId,
                      vc_revoked = None, vc_revoked_by = None, vc_reason = None, vc_created = t, vc_updated = t\<rparr> in
             (case insertCredentialWithVersion c v d of
                None \<Rightarrow> (d, Inl (VaultThrown ''constraint failed''))
              | Some d1 \<Rightarrow> (d1, Inr (c, v)))))"

definition rotateCredential ::
    "platform \<Rightarrow> (string \<Rightarrow> string \<Rightarrow> string + json) \<Rightarrow> credential_row \<Rightarrow> secret_material \<Rightarrow> id \<Rightarrow> time \<Rightarrow> vault_db \<Rightarrow>
     vault_db \<times> (vault_error + credential_row \<times> version_row)" where
  "rotateCredential p encrypt credential secret versionId t d =
     (let nextVersion = latestVersionNumber (vc_id credential) d + 1 in
      case secretReference p (vc_vault credential) (vc_id credential) versionId nextVersion (vc_type credential) secret of
        Inl e \<Rightarrow> (d, Inl (VaultSecretError e))
      | Inr reference \<Rightarrow>
        (case store_secret p encrypt secret of
           Inl e \<Rightarrow> (d, Inl (VaultSecretError e))
         | Inr stored \<Rightarrow>
             let v = new_version versionId (vc_id credential) (vc_vault credential) (vc_organization credential)
                       (vc_project credential) nextVersion reference stored t in
             (case insertVersionRotation v (vc_active credential) t d of
                None \<Rightarrow> (d, Inl (VaultThrown ''constraint failed''))
              | Some d1 \<Rightarrow> (d1, Inr (credential\<lparr>vc_active := Some versionId, vc_updated := t\<rparr>, v)))))"

section \<open>Handlers\<close>

type_synonym 'a answer = "vault_db \<times> string list \<times> (vault_error + 'a)"

record vault_caller =
  vl_organization :: id
  vl_project :: id
  vl_user :: id

definition handle_create_vault ::
    "(vault_row \<Rightarrow> bool) \<Rightarrow> vault_caller \<Rightarrow> string \<Rightarrow> string option \<Rightarrow> vault_scope option \<Rightarrow> id \<Rightarrow> time \<Rightarrow> vault_db \<Rightarrow>
     vault_row answer" where
  "handle_create_vault blocked auth name description requested newId t d =
     (let scope = (case requested of None \<Rightarrow> V_project | Some s \<Rightarrow> s);
          row = \<lparr>va_id = newId, va_organization = vl_organization auth,
                 va_project = (if scope = V_project then Some (vl_project auth) else None), va_name = name,
                 va_description = description, va_scope = scope, va_managed_by = None, va_deleted = None,
                 va_created = t, va_updated = t\<rparr> in
      case insertVault blocked row d of
        (d1, Inr v) \<Rightarrow> (d1, [''vault.create''], Inr v)
      | (d1, Inl VaultDeleted) \<Rightarrow> (d1, [], Inl (Vault_conflict ''Project was deleted during Vault creation''))
      | (d1, Inl e) \<Rightarrow> (d1, [], Inl e))"

definition handle_update_vault ::
    "(vault_row \<Rightarrow> bool) \<Rightarrow> vault_caller \<Rightarrow> id \<Rightarrow> string option \<Rightarrow> string option option \<Rightarrow> vault_scope option \<Rightarrow> time \<Rightarrow>
     vault_db \<Rightarrow> vault_row answer" where
  "handle_update_vault blocked auth vaultId name description requested t d =
     (case findVault (vl_organization auth) (vl_project auth) vaultId d of
        None \<Rightarrow> (d, [], Inl Vault_not_found)
      | Some vault \<Rightarrow>
          let scope = (case requested of None \<Rightarrow> va_scope vault | Some s \<Rightarrow> s) in
          if scope \<noteq> va_scope vault \<and> hasCredentials (va_id vault) d
          then (d, [], Inl (Vault_conflict ''Vault scope cannot change after credentials exist''))
          else
            let f = set_vault (case name of None \<Rightarrow> va_name vault | Some n \<Rightarrow> n)
                      (case description of None \<Rightarrow> va_description vault | Some x \<Rightarrow> x) scope
                      (if scope = V_project then Some (vl_project auth) else None) t in
            (case updateVaultRow blocked (va_id vault) f d of
               (d1, Inr _) \<Rightarrow> (d1, [''vault.update''], Inr (f vault))
             | (d1, Inl VaultDeleted) \<Rightarrow> (d1, [], Inl Vault_not_found)
             | (d1, Inl e) \<Rightarrow> (d1, [], Inl e)))"

definition handle_delete_vault :: "vault_caller \<Rightarrow> id \<Rightarrow> time \<Rightarrow> vault_db \<Rightarrow> unit answer" where
  "handle_delete_vault auth vaultId t d =
     (case findVault (vl_organization auth) (vl_project auth) vaultId d of
        None \<Rightarrow> (d, [], Inl Vault_not_found)
      | Some _ \<Rightarrow>
          (case deleteVault (vl_organization auth) (vl_project auth) vaultId t d of
             (d1, False) \<Rightarrow> (d1, [], Inl Vault_not_found)
           | (d1, True) \<Rightarrow> (d1, [''vault.delete''], Inr ())))"

definition handle_create_credential ::
    "platform \<Rightarrow> (string \<Rightarrow> string \<Rightarrow> string + json) \<Rightarrow> vault_caller \<Rightarrow> id \<Rightarrow> credential_input \<Rightarrow> id \<Rightarrow> id \<Rightarrow> time \<Rightarrow>
     vault_db \<Rightarrow> (credential_row \<times> version_row) answer" where
  "handle_create_credential p encrypt auth vaultId input credentialId versionId t d =
     (case findVault (vl_organization auth) (vl_project auth) vaultId d of
        None \<Rightarrow> (d, [], Inl Vault_not_found)
      | Some vault \<Rightarrow>
          (case createCredential p encrypt vault input credentialId versionId t d of
             (d1, Inl e) \<Rightarrow> (d1, [], Inl e)
           | (d1, Inr r) \<Rightarrow> (d1, [''vault_credential.create''], Inr r)))"

definition credential_of_caller :: "vault_caller \<Rightarrow> id \<Rightarrow> id \<Rightarrow> vault_db \<Rightarrow> credential_row option" where
  "credential_of_caller auth vaultId credentialId d =
     (case findVault (vl_organization auth) (vl_project auth) vaultId d of
        None \<Rightarrow> None
      | Some vault \<Rightarrow> findCredential (va_id vault) credentialId d)"

definition patch_fields ::
    "vault_caller \<Rightarrow> credential_row \<Rightarrow> bool \<Rightarrow> string option \<Rightarrow> json option \<Rightarrow> time \<Rightarrow> credential_fields" where
  "patch_fields auth c revoking reason metadata t =
     \<lparr>cf_metadata = (case metadata of None \<Rightarrow> vc_metadata c | Some m \<Rightarrow> m),
      cf_state = (if revoking then Cred_revoked else vc_state c),
      cf_active = (if revoking then None else vc_active c),
      cf_revoked = (if revoking then Some t else vc_revoked c),
      cf_revoked_by = (if revoking then Some (vl_user auth) else vc_revoked_by c),
      cf_reason = (if revoking then reason else vc_reason c)\<rparr>"

definition patched_credential :: "credential_row \<Rightarrow> credential_fields \<Rightarrow> time \<Rightarrow> credential_row" where
  "patched_credential c fs t =
     c\<lparr>vc_metadata := cf_metadata fs, vc_state := cf_state fs, vc_active := cf_active fs, vc_revoked := cf_revoked fs,
       vc_revoked_by := cf_revoked_by fs, vc_reason := cf_reason fs, vc_updated := t\<rparr>"

text \<open>The write of a patch, from the credential the handler has read.\<close>

definition write_patch ::
    "vault_caller \<Rightarrow> credential_row \<Rightarrow> bool \<Rightarrow> string option \<Rightarrow> json option \<Rightarrow> time \<Rightarrow> vault_db \<Rightarrow> credential_row answer" where
  "write_patch auth c revoking reason metadata t d =
     (let fs = patch_fields auth c revoking reason metadata t in
      (updateCredential (vc_id c) fs t revoking t d,
       [if revoking then ''vault_credential.revoke'' else ''vault_credential.update''],
       Inr (patched_credential c fs t)))"

definition handle_update_credential ::
    "vault_caller \<Rightarrow> id \<Rightarrow> id \<Rightarrow> bool \<Rightarrow> string option \<Rightarrow> json option \<Rightarrow> time \<Rightarrow> vault_db \<Rightarrow> credential_row answer" where
  "handle_update_credential auth vaultId credentialId revoking reason metadata t d =
     (case credential_of_caller auth vaultId credentialId d of
        None \<Rightarrow> (d, [], Inl Credential_not_found)
      | Some c \<Rightarrow> write_patch auth c revoking reason metadata t d)"

definition handle_update_secret ::
    "platform \<Rightarrow> (string \<Rightarrow> string \<Rightarrow> string + json) \<Rightarrow> vault_caller \<Rightarrow> id \<Rightarrow> id \<Rightarrow> secret_material \<Rightarrow> id \<Rightarrow> time \<Rightarrow>
     vault_db \<Rightarrow> (credential_row \<times> version_row) answer" where
  "handle_update_secret p encrypt auth vaultId credentialId secret versionId t d =
     (case credential_of_caller auth vaultId credentialId d of
        None \<Rightarrow> (d, [], Inl Credential_not_found)
      | Some c \<Rightarrow>
          if vc_state c \<noteq> Cred_active then (d, [], Inl Credential_inactive)
          else (case rotateCredential p encrypt c secret versionId t d of
                  (d1, Inl e) \<Rightarrow> (d1, [], Inl e)
                | (d1, Inr r) \<Rightarrow> (d1, [''vault_credential.secret.update''], Inr r)))"

end
