(* ===== verification/Workspace.thy ===== *)
theory Workspace
  imports Vault
begin

text \<open>
  The declared inputs of a session and its workspace: the volumes and mounts of
  \<open>server/domain/runtime/execution-inputs.ts\<close>, their normalisation and the block of the system
  prompt that names them (\<open>server/domain/workspace.ts\<close>). The request schemas are strict, so a
  volume is a value of one of four shapes. A rejected input names one field.
\<close>

section \<open>Volumes and mounts\<close>

record secret_item =
  it_key :: string
  it_path :: string

record projection =
  pj_ref :: string
  pj_items :: "secret_item list option"

datatype volume =
    Secret_volume (vol_name: string) string "secret_item list option"
  | Git_volume (vol_name: string) string "string option" "string option" "secret_item list option"
  | Memory_volume (vol_name: string) string
  | Empty_dir (vol_name: string) "projection list option"

record volume_mount =
  vm_name :: string
  vm_path :: string
  vm_read_only :: "bool option"

record env_entry =
  ee_name :: "string option"
  ee_ref :: string
  ee_key :: "string option"

datatype input_error = Invalid string string | Input_thrown string

definition volumeMountPath :: "string \<Rightarrow> volume_mount list \<Rightarrow> string option" where
  "volumeMountPath name mounts = map_option vm_path (List.find (\<lambda>m. vm_name m = name) mounts)"

definition mount_read_only :: "string \<Rightarrow> volume_mount list \<Rightarrow> bool" where
  "mount_read_only name mounts =
     (case Option.bind (List.find (\<lambda>m. vm_name m = name) mounts) vm_read_only of None \<Rightarrow> True | Some b \<Rightarrow> b)"

definition workspaceMountPath :: "string \<Rightarrow> volume_mount list \<Rightarrow> string \<Rightarrow> string" where
  "workspaceMountPath name mounts fallback = (case volumeMountPath name mounts of None \<Rightarrow> fallback | Some x \<Rightarrow> x)"

definition drop_empty :: "string option \<Rightarrow> string option" where
  "drop_empty x = (if truthy_str x then x else None)"

definition declared_volume :: "volume \<Rightarrow> volume" where
  "declared_volume v =
     (case v of Git_volume n u r s i \<Rightarrow> Git_volume n u (drop_empty r) (drop_empty s) i | _ \<Rightarrow> v)"

definition declaredVolumes :: "volume list \<Rightarrow> volume list" where
  "declaredVolumes = map declared_volume"

section \<open>Mount paths\<close>

definition workspace_root :: string where "workspace_root = ''/workspace/''"

definition normalizeWorkspaceMountPath :: "string \<Rightarrow> string option" where
  "normalizeWorkspaceMountPath path =
     (let trimmed = js_trim path in
      if trimmed = [] \<or> list_ex control_or_backslash trimmed then None
      else
        let absolute = (if starts_with trimmed ''/'' then trimmed else workspace_root @ trimmed) in
        if \<not> starts_with absolute workspace_root then None
        else
          let segments = split_on (CHR ''/'') (drop (length workspace_root) absolute) in
          if list_ex (\<lambda>s. s = [] \<or> s = ''.'' \<or> s = ''..'') segments then None
          else Some (workspace_root @ join_with (CHR ''/'') segments))"

definition relativeWorkspacePath :: "string \<Rightarrow> string" where
  "relativeWorkspacePath path =
     (if path = ''/workspace'' then ''.''
      else if starts_with path workspace_root then drop (length workspace_root) path
      else path)"

section \<open>Normalisation\<close>

definition at_index :: "string \<Rightarrow> nat \<Rightarrow> string \<Rightarrow> string" where
  "at_index list_name n field = list_name @ ''.'' @ decimal n @ ''.'' @ field"

fun normalize_mounts :: "nat \<Rightarrow> volume_mount list \<Rightarrow> input_error + volume_mount list" where
  "normalize_mounts n [] = Inr []"
| "normalize_mounts n (m # ms) =
     (case normalizeWorkspaceMountPath (vm_path m) of
        None \<Rightarrow> Inl (Invalid (at_index ''volumeMounts'' n ''mountPath'') ''Volume mount path must stay under /workspace.'')
      | Some path \<Rightarrow>
          (case normalize_mounts (Suc n) ms of
             Inl e \<Rightarrow> Inl e
           | Inr rest \<Rightarrow>
               Inr (m\<lparr>vm_path := path, vm_read_only := Some (case vm_read_only m of None \<Rightarrow> True | Some b \<Rightarrow> b)\<rparr> # rest)))"

fun mount_index :: "string \<Rightarrow> nat \<Rightarrow> volume_mount list \<Rightarrow> (nat \<times> volume_mount) option" where
  "mount_index name n [] = None"
| "mount_index name n (m # ms) = (if vm_name m = name then Some (n, m) else mount_index name (Suc n) ms)"

definition taken_path :: "nat \<Rightarrow> input_error" where
  "taken_path i = Invalid (at_index ''volumeMounts'' i ''mountPath'') ''Mount path must be unique within a session.''"

text \<open>
  One volume, with the mount paths taken so far: the volume as it is kept and the path it takes.
  A secret volume takes none.
\<close>

definition normalize_empty_dir ::
    "nat \<Rightarrow> volume_mount list \<Rightarrow> string list \<Rightarrow> volume \<Rightarrow> input_error + volume \<times> string option" where
  "normalize_empty_dir n mounts paths v =
     (case mount_index (vol_name v) 0 mounts of
        None \<Rightarrow> Inl (Invalid (at_index ''volumes'' n ''name'') ''Empty directory volume must have a matching volume mount.'')
      | Some (i, m) \<Rightarrow>
          if vm_read_only m = Some True
          then Inl (Invalid (at_index ''volumeMounts'' i ''readOnly'') ''Empty directory volumes must be writable.'')
          else if vm_path m \<in> set paths then Inl (taken_path i)
          else Inr (v, Some (vm_path m)))"

definition normalize_memory ::
    "'a uri_platform_scheme \<Rightarrow> nat \<Rightarrow> volume_mount list \<Rightarrow> string list \<Rightarrow> string \<Rightarrow> string \<Rightarrow>
     input_error + volume \<times> string option" where
  "normalize_memory p n mounts paths name memoryRef =
     (case memoryStoreIdFromRef p memoryRef of
        Inl e \<Rightarrow> Inl (Input_thrown e)
      | Inr storeId \<Rightarrow>
          if \<not> truthy_str storeId
          then Inl (Invalid (at_index ''volumes'' n ''memoryRef'') ''Memory reference must use enbor://memories/{storeId}.'')
          else (case mount_index name 0 mounts of
                  None \<Rightarrow> Inl (Invalid (at_index ''volumes'' n ''name'') ''Memory store volume must have a matching volume mount.'')
                | Some (i, m) \<Rightarrow>
                    if \<not> starts_with (vm_path m) (MEMORY_STORE_MOUNT_ROOT @ ''/'')
                    then Inl (Invalid (at_index ''volumeMounts'' i ''mountPath'')
                                ''Memory store mounts must stay under /workspace/.enbor/memory-stores.'')
                    else if vm_path m \<in> set paths then Inl (taken_path i)
                    else Inr (Memory_volume name memoryRef, Some (vm_path m))))"

definition normalize_git ::
    "'a uri_platform_scheme \<Rightarrow> nat \<Rightarrow> volume_mount list \<Rightarrow> string list \<Rightarrow> string \<Rightarrow> string \<Rightarrow> string option \<Rightarrow>
     string option \<Rightarrow> secret_item list option \<Rightarrow> input_error + volume \<times> string option" where
  "normalize_git p n mounts paths name address ref secretRef items =
     (case normalizeGitRepositoryUrl p address of
        None \<Rightarrow> Inl (Invalid (at_index ''volumes'' n ''url'') ''Use a safe HTTPS Git repository URL.'')
      | Some u \<Rightarrow>
          (case mount_index name 0 mounts of
             None \<Rightarrow> Inl (Invalid (at_index ''volumes'' n ''name'') ''Repository volume must have a matching volume mount.'')
           | Some (i, m) \<Rightarrow>
               if \<not> starts_with (vm_path m) workspace_root \<or> starts_with (vm_path m) (workspace_root @ ''.enbor/'')
               then Inl (Invalid (at_index ''volumeMounts'' i ''mountPath'')
                           ''Repository mount path must stay under /workspace outside /workspace/.enbor.'')
               else if vm_path m \<in> set paths then Inl (taken_path i)
               else Inr (Git_volume name u (drop_empty ref) (drop_empty secretRef) items, Some (vm_path m))))"

definition normalize_volume ::
    "'a uri_platform_scheme \<Rightarrow> nat \<Rightarrow> volume_mount list \<Rightarrow> string list \<Rightarrow> volume \<Rightarrow> input_error + volume \<times> string option" where
  "normalize_volume p n mounts paths v =
     (case v of
        Empty_dir _ _ \<Rightarrow> normalize_empty_dir n mounts paths v
      | Memory_volume name memoryRef \<Rightarrow> normalize_memory p n mounts paths name memoryRef
      | Git_volume name address ref secretRef items \<Rightarrow> normalize_git p n mounts paths name address ref secretRef items
      | Secret_volume _ _ _ \<Rightarrow> Inr (v, None))"

fun normalize_volumes ::
    "'a uri_platform_scheme \<Rightarrow> nat \<Rightarrow> volume_mount list \<Rightarrow> string list \<Rightarrow> string list \<Rightarrow> volume list \<Rightarrow>
     input_error + volume list" where
  "normalize_volumes p n mounts names paths [] = Inr []"
| "normalize_volumes p n mounts names paths (v # vs) =
     (if vol_name v \<in> set names
      then Inl (Invalid (at_index ''volumes'' n ''name'') ''Volume names must be unique.'')
      else case normalize_volume p n mounts paths v of
        Inl e \<Rightarrow> Inl e
      | Inr (v', path) \<Rightarrow>
          (case normalize_volumes p (Suc n) mounts (vol_name v # names)
                  (case path of None \<Rightarrow> paths | Some x \<Rightarrow> x # paths) vs of
             Inl e \<Rightarrow> Inl e
           | Inr rest \<Rightarrow> Inr (v' # rest)))"

definition normalizeWorkspaceSpec ::
    "'a uri_platform_scheme \<Rightarrow> volume list \<Rightarrow> volume_mount list \<Rightarrow> input_error + volume list \<times> volume_mount list" where
  "normalizeWorkspaceSpec p volumes volumeMounts =
     (case normalize_mounts 0 volumeMounts of
        Inl e \<Rightarrow> Inl e
      | Inr mounts \<Rightarrow>
          (case normalize_volumes p 0 mounts [] [] volumes of
             Inl e \<Rightarrow> Inl e
           | Inr vs \<Rightarrow> Inr (vs, mounts)))"

section \<open>The block of the system prompt\<close>

definition repository_line ::
    "'a uri_platform_scheme \<Rightarrow> volume_mount list \<Rightarrow> volume \<Rightarrow> string + string list" where
  "repository_line p mounts v =
     (case v of
        Git_volume name address _ _ _ \<Rightarrow>
          (case volumeMountPath name mounts of
             Some path \<Rightarrow> Inr [''- '' @ address @ '' at '' @ relativeWorkspacePath path]
           | None \<Rightarrow> then_ok (gitRepositoryMountPath p address)
                       (\<lambda>path. Inr [''- '' @ address @ '' at '' @ relativeWorkspacePath path]))
      | _ \<Rightarrow> Inr [])"

definition memory_line ::
    "'a uri_platform_scheme \<Rightarrow> volume_mount list \<Rightarrow> volume \<Rightarrow> string + string list" where
  "memory_line p mounts v =
     (case v of
        Memory_volume name memoryRef \<Rightarrow>
          then_ok (memoryStoreIdFromRef p memoryRef) (\<lambda>found.
          let storeId = (case found of None \<Rightarrow> memoryRef | Some s \<Rightarrow> s);
              path = relativeWorkspacePath (workspaceMountPath name mounts (memoryStoreMountPath storeId)) in
          Inr [''- '' @ (if name = [] then storeId else name) @ '' ('' @
                (if mount_read_only name mounts then ''readOnly'' else ''writable'') @ '') at '' @ path])
      | _ \<Rightarrow> Inr [])"

fun collect_lines :: "(volume \<Rightarrow> string + string list) \<Rightarrow> volume list \<Rightarrow> string + string list" where
  "collect_lines f [] = Inr []"
| "collect_lines f (v # vs) = then_ok (f v) (\<lambda>a. then_ok (collect_lines f vs) (\<lambda>b. Inr (a @ b)))"

definition workspaceSystemPromptBlock ::
    "'a uri_platform_scheme \<Rightarrow> volume list \<Rightarrow> volume_mount list \<Rightarrow> string + string option" where
  "workspaceSystemPromptBlock p volumes mounts =
     then_ok (collect_lines (repository_line p mounts) volumes) (\<lambda>repositories.
     then_ok (collect_lines (memory_line p mounts) volumes) (\<lambda>stores.
     Inr (if repositories = [] \<and> stores = [] then None
          else Some (join_lines
            ([''Workspace layout:'', ''- The current working directory is this session workspace root.''] @
             (if repositories = [] then [] else ''- Repositories:'' # map (\<lambda>r. ''  '' @ r) repositories) @
             (if stores = [] then [] else ''- Memory stores:'' # map (\<lambda>s. ''  '' @ s) stores))))))"

section \<open>What normalisation accepts\<close>

definition clean_mount_path :: "string \<Rightarrow> bool" where
  "clean_mount_path path \<longleftrightarrow>
     (\<exists>segments. segments \<noteq> [] \<and> path = workspace_root @ join_with (CHR ''/'') segments \<and>
        (\<forall>s \<in> set segments. s \<noteq> [] \<and> s \<noteq> ''.'' \<and> s \<noteq> ''..'' \<and> CHR ''/'' \<notin> set s))"

lemma split_on_no_sep: "w \<in> set (split_on d s) \<Longrightarrow> d \<notin> set w"
  by (induction s arbitrary: w) (fastforce split: if_splits list.splits)+

lemma normalized_path_clean:
  assumes "normalizeWorkspaceMountPath path = Some q"
  shows "clean_mount_path q"
proof -
  define t where "t = js_trim path"
  define a where "a = (if starts_with t ''/'' then t else workspace_root @ t)"
  define segments where "segments = split_on (CHR ''/'') (drop (length workspace_root) a)"
  have "\<not> list_ex (\<lambda>s. s = [] \<or> s = ''.'' \<or> s = ''..'') segments" "q = workspace_root @ join_with (CHR ''/'') segments"
    using assms unfolding normalizeWorkspaceMountPath_def Let_def t_def [symmetric] a_def [symmetric] segments_def [symmetric]
    by (auto split: if_splits)
  moreover have "CHR ''/'' \<notin> set s" if "s \<in> set segments" for s
    using that split_on_no_sep unfolding segments_def by metis
  moreover have "segments \<noteq> []" by (simp add: segments_def)
  ultimately show ?thesis unfolding clean_mount_path_def list_ex_iff by blast
qed

end
