(* ===== verification/SessionInputs.thy ===== *)
theory SessionInputs
  imports Workspace
begin

text \<open>
  The checks a session's inputs pass before it is created
  (\<open>server/usecases/runtime/session-create.ts\<close>): environment variables from secrets, secret
  items, declared volumes and their mounts, memory volumes, and the inputs that the identity of an
  agent adds. References are resolved against the vaults and the memory stores of the caller.
\<close>

section \<open>Names and paths\<close>

definition name_start :: "char \<Rightarrow> bool" where
  "name_start c \<longleftrightarrow> (let n = of_char c :: nat in (65 \<le> n \<and> n \<le> 90) \<or> (97 \<le> n \<and> n \<le> 122) \<or> n = 95)"

definition name_char :: "char \<Rightarrow> bool" where
  "name_char c \<longleftrightarrow> name_start c \<or> digit_value c \<noteq> None"

definition env_name :: "string \<Rightarrow> bool" where
  "env_name s \<longleftrightarrow> (case s of [] \<Rightarrow> False | c # cs \<Rightarrow> name_start c \<and> list_all name_char cs)"

definition volume_name :: "string \<Rightarrow> bool" where
  "volume_name s \<longleftrightarrow> s \<noteq> [] \<and> list_all path_char s \<and> s \<noteq> ''.'' \<and> s \<noteq> ''..''"

definition item_path :: "string \<Rightarrow> bool" where
  "item_path s \<longleftrightarrow>
     s \<noteq> [] \<and> list_all (\<lambda>c. path_char c \<or> c = CHR ''/'') s \<and> \<not> starts_with s ''/'' \<and>
     list_all (\<lambda>segment. segment \<noteq> [] \<and> segment \<noteq> ''.'' \<and> segment \<noteq> ''..'') (split_on (CHR ''/'') s)"

section \<open>Memory volumes\<close>

definition resolve_volume ::
    "'a uri_platform_scheme \<Rightarrow> id \<Rightarrow> db \<Rightarrow> nat \<Rightarrow> volume \<Rightarrow> input_error + volume" where
  "resolve_volume p projectId d n v =
     (case v of
        Memory_volume name memoryRef \<Rightarrow>
          (case memoryStoreIdFromRef p memoryRef of
             Inl e \<Rightarrow> Inl (Input_thrown e)
           | Inr storeId \<Rightarrow>
               if \<not> truthy_str storeId
               then Inl (Invalid (at_index ''volumes'' n ''memoryRef'') ''Memory reference must use enbor://memories/{storeId}.'')
               else if \<not> activeMemoryStoreExists projectId (the storeId) d
               then Inl (Invalid (at_index ''volumes'' n ''memoryRef'') ''Memory store must exist and be active.'')
               else Inr (Memory_volume name (enborMemoryRef p (the storeId))))
      | _ \<Rightarrow> Inr v)"

fun resolve_memory ::
    "'a uri_platform_scheme \<Rightarrow> id \<Rightarrow> db \<Rightarrow> nat \<Rightarrow> volume list \<Rightarrow> input_error + volume list" where
  "resolve_memory p projectId d n [] = Inr []"
| "resolve_memory p projectId d n (v # vs) =
     (case resolve_volume p projectId d n v of
        Inl e \<Rightarrow> Inl e
      | Inr v' \<Rightarrow>
          (case resolve_memory p projectId d (Suc n) vs of Inl e \<Rightarrow> Inl e | Inr rest \<Rightarrow> Inr (v' # rest)))"

definition resolveMemoryVolumes ::
    "'a uri_platform_scheme \<Rightarrow> id \<Rightarrow> db \<Rightarrow> volume list \<Rightarrow> input_error + volume list" where
  "resolveMemoryVolumes p projectId d = resolve_memory p projectId d 0"

section \<open>Active references\<close>

record input_scope =
  is_organization :: id
  is_project :: id

definition resolved ::
    "'a uri_platform_scheme \<Rightarrow> input_scope \<Rightarrow> string \<Rightarrow> vault_db \<Rightarrow> string + version_row option" where
  "resolved p auth ref vd = secretVersionForResolution p (is_organization auth) (is_project auth) ref vd"

definition require_active ::
    "'a uri_platform_scheme \<Rightarrow> input_scope \<Rightarrow> vault_db \<Rightarrow> string \<Rightarrow> string \<Rightarrow> string \<Rightarrow> input_error + unit" where
  "require_active p auth vd ref field message =
     (case resolved p auth ref vd of
        Inl e \<Rightarrow> Inl (Input_thrown e)
      | Inr version \<Rightarrow> if map_option vv_state version = Some Ver_active then Inr () else Inl (Invalid field message))"

section \<open>Environment variables from secrets\<close>

fun resolve_env ::
    "'a uri_platform_scheme \<Rightarrow> input_scope \<Rightarrow> vault_db \<Rightarrow> nat \<Rightarrow> string list \<Rightarrow> env_entry list \<Rightarrow> input_error + env_entry list" where
  "resolve_env p auth vd n names [] = Inr []"
| "resolve_env p auth vd n names (entry # rest) =
     (case (case ee_name entry of
              Some name \<Rightarrow>
                if \<not> env_name name
                then Some (Invalid (at_index ''envFrom'' n ''name'') ''Use a valid environment variable name.'')
                else if name \<in> set names
                then Some (Invalid (at_index ''envFrom'' n ''name'') ''Secret environment variable names must be unique.'')
                else None
            | None \<Rightarrow>
                if ee_key entry \<noteq> None
                then Some (Invalid (at_index ''envFrom'' n ''key'') ''Secret data key requires name.'') else None) of
        Some e \<Rightarrow> Inl e
      | None \<Rightarrow>
          (case require_active p auth vd (ee_ref entry) (at_index ''envFrom'' n ''secretRef'')
                  ''Secret reference must exist, be active, and belong to this project or organization.'' of
             Inl e \<Rightarrow> Inl e
           | Inr _ \<Rightarrow>
               (case resolve_env p auth vd (Suc n) (case ee_name entry of None \<Rightarrow> names | Some x \<Rightarrow> x # names) rest of
                  Inl e \<Rightarrow> Inl e
                | Inr entries \<Rightarrow> Inr (entry\<lparr>ee_key := drop_empty (ee_key entry)\<rparr> # entries))))"

definition resolveEnvFromEntries ::
    "'a uri_platform_scheme \<Rightarrow> input_scope \<Rightarrow> vault_db \<Rightarrow> env_entry list \<Rightarrow> input_error + env_entry list" where
  "resolveEnvFromEntries p auth vd = resolve_env p auth vd 0 []"

section \<open>Secret items\<close>

fun items_error :: "string \<Rightarrow> nat \<Rightarrow> string list \<Rightarrow> secret_item list \<Rightarrow> (string \<times> string) option" where
  "items_error field n paths [] = None"
| "items_error field n paths (item # rest) =
     (if it_key item = [] \<or> length (it_key item) > 253
      then Some (field @ ''.items.'' @ decimal n @ ''.key'', ''Use a valid secret data key.'')
      else if length (it_path item) > 253 \<or> \<not> item_path (it_path item)
      then Some (field @ ''.items.'' @ decimal n @ ''.path'', ''Use a safe relative item path.'')
      else if it_path item \<in> set paths
      then Some (field @ ''.items.'' @ decimal n @ ''.path'', ''Secret item paths must be unique.'')
      else items_error field (Suc n) (it_path item # paths) rest)"

definition validateSecretItems :: "string \<Rightarrow> secret_item list option \<Rightarrow> (string \<times> string) option" where
  "validateSecretItems field items =
     (case items of
        None \<Rightarrow> None
      | Some xs \<Rightarrow>
          if length xs > 50 then Some (field @ ''.items'', ''Use at most 50 secret items.'')
          else items_error field 0 [] xs)"

definition items_checked :: "string \<Rightarrow> secret_item list option \<Rightarrow> input_error + unit" where
  "items_checked field items =
     (case validateSecretItems field items of None \<Rightarrow> Inr () | Some (f, m) \<Rightarrow> Inl (Invalid f m))"

definition items_of :: "secret_item list option \<Rightarrow> secret_item list" where
  "items_of x = (case x of None \<Rightarrow> [] | Some xs \<Rightarrow> xs)"

section \<open>Declared volumes\<close>

fun seed_paths_error :: "string \<Rightarrow> nat \<Rightarrow> string list \<Rightarrow> secret_item list \<Rightarrow> input_error + string list" where
  "seed_paths_error field n paths [] = Inr paths"
| "seed_paths_error field n paths (item # rest) =
     (if it_path item \<in> set paths
      then Inl (Invalid (field @ ''.items.'' @ decimal n @ ''.path'')
                  ''Empty directory seed paths must be unique across projections.'')
      else seed_paths_error field (Suc n) (it_path item # paths) rest)"

fun check_seeds ::
    "'a uri_platform_scheme \<Rightarrow> input_scope \<Rightarrow> vault_db \<Rightarrow> string \<Rightarrow> nat \<Rightarrow> string list \<Rightarrow> projection list \<Rightarrow> input_error + unit" where
  "check_seeds p auth vd field n paths [] = Inr ()"
| "check_seeds p auth vd field n paths (seed # rest) =
     (let seedField = field @ ''.seedFrom.'' @ decimal n in
      case items_checked seedField (pj_items seed) of
        Inl e \<Rightarrow> Inl e
      | Inr _ \<Rightarrow>
          (case seed_paths_error seedField 0 paths (items_of (pj_items seed)) of
             Inl e \<Rightarrow> Inl e
           | Inr paths' \<Rightarrow>
               (case require_active p auth vd (pj_ref seed) (seedField @ ''.secretRef'') ''Seed secret reference must be active.'' of
                  Inl e \<Rightarrow> Inl e
                | Inr _ \<Rightarrow> check_seeds p auth vd field (Suc n) paths' rest)))"

definition check_secret_volume ::
    "'a uri_platform_scheme \<Rightarrow> input_scope \<Rightarrow> vault_db \<Rightarrow> string \<Rightarrow> string \<Rightarrow> secret_item list option \<Rightarrow> input_error + unit" where
  "check_secret_volume p auth vd field ref items =
     (case items_checked field items of
        Inl e \<Rightarrow> Inl e
      | Inr _ \<Rightarrow>
          (case resolved p auth ref vd of
             Inl e \<Rightarrow> Inl (Input_thrown e)
           | Inr (Some version) \<Rightarrow>
               if vv_state version = Ver_active then Inr ()
               else Inl (Invalid (field @ ''.secretRef'') ''Secret reference must be active.'')
           | Inr None \<Rightarrow>
               (case vaultVersionsForResolution p (is_organization auth) (is_project auth) ref vd of
                  Inl e \<Rightarrow> Inl (Input_thrown e)
                | Inr None \<Rightarrow>
                    Inl (Invalid (field @ ''.secretRef'')
                           ''Secret reference must point to an active credential version or vault.'')
                | Inr (Some _) \<Rightarrow>
                    if items_of items \<noteq> []
                    then Inl (Invalid (field @ ''.items'') ''Secret items require a credential reference.'')
                    else Inr ())))"

definition check_volume ::
    "'a uri_platform_scheme \<Rightarrow> input_scope \<Rightarrow> vault_db \<Rightarrow> nat \<Rightarrow> volume \<Rightarrow> input_error + unit" where
  "check_volume p auth vd n v =
     (let field = ''volumes.'' @ decimal n in
      case v of
        Empty_dir _ seedFrom \<Rightarrow> check_seeds p auth vd field 0 [] (case seedFrom of None \<Rightarrow> [] | Some x \<Rightarrow> x)
      | Git_volume _ _ _ secretRef items \<Rightarrow>
          if truthy_str secretRef
          then (case items_checked field items of
                  Inl e \<Rightarrow> Inl e
                | Inr _ \<Rightarrow> require_active p auth vd (the secretRef) (field @ ''.secretRef'')
                             ''Git repository secret reference must point to an active credential version.'')
          else if items_of items \<noteq> []
          then Inl (Invalid (field @ ''.items'') ''Secret items require a secretRef.'')
          else Inr ()
      | Memory_volume _ _ \<Rightarrow> Inr ()
      | Secret_volume _ ref items \<Rightarrow> check_secret_volume p auth vd field ref items)"

fun check_volumes ::
    "'a uri_platform_scheme \<Rightarrow> input_scope \<Rightarrow> vault_db \<Rightarrow> nat \<Rightarrow> string list \<Rightarrow> volume list \<Rightarrow> input_error + unit" where
  "check_volumes p auth vd n names [] = Inr ()"
| "check_volumes p auth vd n names (v # vs) =
     (if \<not> volume_name (vol_name v)
      then Inl (Invalid (at_index ''volumes'' n ''name'') ''Use a safe volume name.'')
      else if vol_name v \<in> set names
      then Inl (Invalid (at_index ''volumes'' n ''name'') ''Volume names must be unique.'')
      else case check_volume p auth vd n v of
        Inl e \<Rightarrow> Inl e
      | Inr _ \<Rightarrow> check_volumes p auth vd (Suc n) (vol_name v # names) vs)"

fun check_mounts :: "string list \<Rightarrow> nat \<Rightarrow> string list \<Rightarrow> volume_mount list \<Rightarrow> input_error + unit" where
  "check_mounts names n mounted [] = Inr ()"
| "check_mounts names n mounted (m # ms) =
     (if vm_name m \<notin> set names
      then Inl (Invalid (at_index ''volumeMounts'' n ''name'') ''Volume mount must reference a declared volume.'')
      else if vm_name m \<in> set mounted
      then Inl (Invalid (at_index ''volumeMounts'' n ''name'') ''Volume can only be mounted once.'')
      else if \<not> starts_with (vm_path m) workspace_root \<or> contains (vm_path m) ''..''
      then Inl (Invalid (at_index ''volumeMounts'' n ''mountPath'') ''Volume mount path must stay under /workspace.'')
      else check_mounts names (Suc n) (vm_name m # mounted) ms)"

definition settled_mount :: "volume_mount \<Rightarrow> volume_mount" where
  "settled_mount m = m\<lparr>vm_read_only := Some (case vm_read_only m of None \<Rightarrow> True | Some b \<Rightarrow> b)\<rparr>"

definition validateDeclaredVolumes ::
    "'a uri_platform_scheme \<Rightarrow> input_scope \<Rightarrow> vault_db \<Rightarrow> volume list \<Rightarrow> volume_mount list \<Rightarrow>
     input_error + volume list \<times> volume_mount list" where
  "validateDeclaredVolumes p auth vd volumes volumeMounts =
     (case check_volumes p auth vd 0 [] volumes of
        Inl e \<Rightarrow> Inl e
      | Inr _ \<Rightarrow>
          (case check_mounts (map vol_name volumes) 0 [] volumeMounts of
             Inl e \<Rightarrow> Inl e
           | Inr _ \<Rightarrow>
               (case List.find (\<lambda>name. name \<notin> set (map vm_name volumeMounts)) (map vol_name volumes) of
                  Some name \<Rightarrow> Inl (Invalid ''volumes'' (''Volume '' @ name @ '' must have a matching volume mount.''))
                | None \<Rightarrow> Inr (volumes, map settled_mount volumeMounts))))"

section \<open>The inputs of an identity\<close>

record identity_descriptor =
  id_identity :: id
  id_agent :: id
  id_issuer :: string
  id_subject :: string
  id_username :: string
  id_runtime :: string
  id_credential :: string

definition REALMROOT_STATE_VOLUME :: string where "REALMROOT_STATE_VOLUME = ''realmroot-agent-state''"

definition REALMROOT_STATE_DIR :: string where "REALMROOT_STATE_DIR = ''/workspace/.enbor/realmroot-state''"

definition REALMROOT_RESERVED_ENV :: "string list" where
  "REALMROOT_RESERVED_ENV = [''AGENT'', ''AGENT_SESSION_ID'', ''REALMROOT_ORIGIN'', ''REALMROOT_STATE_DIR'']"

definition pathsOverlap :: "string \<Rightarrow> string \<Rightarrow> bool" where
  "pathsOverlap left right \<longleftrightarrow>
     left = right \<or> starts_with left (right @ ''/'') \<or> starts_with right (left @ ''/'')"

fun first_index :: "('a \<Rightarrow> bool) \<Rightarrow> nat \<Rightarrow> 'a list \<Rightarrow> nat option" where
  "first_index P n [] = None"
| "first_index P n (x # xs) = (if P x then Some n else first_index P (Suc n) xs)"

text \<open>\<open>btoa\<close> of the UTF-8 bytes; a code unit from 128 on takes two.\<close>

definition utf8 :: "string \<Rightarrow> string" where
  "utf8 s = concat (map (\<lambda>c. let n = of_char c :: nat in
     if n < 128 then [c] else [char_of (192 + n div 64), char_of (128 + n mod 64)]) s)"

definition base64Url :: "string \<Rightarrow> string" where
  "base64Url s =
     rev (dropWhile (\<lambda>c. c = CHR ''='')
       (rev (map (\<lambda>c. if c = CHR ''+'' then CHR ''-'' else if c = CHR ''/'' then CHR ''_'' else c) (btoa (utf8 s)))))"

definition set_env :: "string \<Rightarrow> string \<Rightarrow> (string \<times> string) list \<Rightarrow> (string \<times> string) list" where
  "set_env k v env = (if k \<in> fst ` set env then map (\<lambda>(k', v'). (k', if k' = k then v else v')) env else env @ [(k, v)])"

definition identityRuntimeInputs ::
    "'a uri_platform_scheme \<Rightarrow> identity_descriptor option \<Rightarrow> id \<Rightarrow> (string \<times> string) list \<Rightarrow> env_entry list \<Rightarrow>
     volume list \<Rightarrow> volume_mount list \<Rightarrow>
     input_error + (string \<times> string) list \<times> volume list \<times> volume_mount list" where
  "identityRuntimeInputs p binding sessionId env envFrom volumes volumeMounts =
     (case binding of
        None \<Rightarrow> Inr (env, volumes, volumeMounts)
      | Some b \<Rightarrow>
        (case List.find (\<lambda>name. name \<in> set REALMROOT_RESERVED_ENV) (map fst env) of
           Some name \<Rightarrow> Inl (Invalid (''env.'' @ name) (name @ '' is managed by the Realmroot Agent binding.''))
         | None \<Rightarrow>
           (case first_index (\<lambda>e. truthy_str (ee_name e) \<and> the (ee_name e) \<in> set REALMROOT_RESERVED_ENV) 0 envFrom of
              Some i \<Rightarrow> Inl (Invalid (at_index ''envFrom'' i ''name'')
                               ''Realmroot Agent environment variables are managed by the binding.'')
            | None \<Rightarrow>
              (case first_index (\<lambda>e. ee_name e = None) 0 envFrom of
                 Some i \<Rightarrow> Inl (Invalid (at_index ''envFrom'' i ''name'')
                                  ''Realmroot-bound Sessions require explicit envFrom names to protect managed variables.'')
               | None \<Rightarrow>
                   if list_ex (\<lambda>v. vol_name v = REALMROOT_STATE_VOLUME) volumes
                   then Inl (Invalid ''volumes''
                               (''Volume name '' @ REALMROOT_STATE_VOLUME @ '' is reserved for Realmroot Agent state.''))
                   else if list_ex (\<lambda>m. pathsOverlap (vm_path m) REALMROOT_STATE_DIR) volumeMounts
                   then Inl (Invalid ''volumeMounts'' ''Realmroot Agent state mount paths are reserved.'')
                   else (case up_parse p (id_issuer b) of
                           None \<Rightarrow> Inl (Input_thrown ''Invalid URL'')
                         | Some u \<Rightarrow>
                             Inr (set_env ''REALMROOT_STATE_DIR'' REALMROOT_STATE_DIR
                                    (set_env ''REALMROOT_ORIGIN'' (ur_origin u)
                                      (set_env ''AGENT_SESSION_ID'' sessionId (set_env ''AGENT'' (id_runtime b) env))),
                                  volumes @ [Empty_dir REALMROOT_STATE_VOLUME (Some
                                    [\<lparr>pj_ref = id_credential b,
                                      pj_items = Some [\<lparr>it_key = ''state.json'',
                                        it_path = ''identities/'' @ base64Url (id_issuer b) @ ''/'' @
                                                  base64Url (id_runtime b) @ ''.json''\<rparr>]\<rparr>])],
                                  volumeMounts @ [\<lparr>vm_name = REALMROOT_STATE_VOLUME, vm_path = REALMROOT_STATE_DIR,
                                                  vm_read_only = Some False\<rparr>]))))))"

end
