(* ===== verification/VaultFacts.thy ===== *)
theory VaultFacts
  imports Vault
begin

text \<open>
  Correctness of the vaults: the pointer of a credential and the states of its versions agree
  in every database that the handlers of \<open>server/http/vaults.ts\<close> reach one after another, a revoked
  credential never resolves again, a rotation switches what a reference resolves to. The
  handlers read and write in separate statements; the last section shows what two of them that
  overlap can leave behind.
\<close>

section \<open>The invariant\<close>

definition credential_ok :: "vault_db \<Rightarrow> credential_row \<Rightarrow> bool" where
  "credential_ok d c \<longleftrightarrow>
     (if vc_state c = Cred_active
      then \<exists>v \<in> set (version_rows d). vc_active c = Some (vv_id v) \<and> vv_credential v = vc_id c \<and> vv_state v = Ver_active
      else vc_active c = None)"

definition version_ok :: "vault_db \<Rightarrow> version_row \<Rightarrow> bool" where
  "version_ok d v \<longleftrightarrow>
     vv_id v \<noteq> [] \<and>
     (\<exists>c \<in> set (credential_rows d). vc_id c = vv_credential v \<and> vc_vault c = vv_vault v \<and>
        vc_organization c = vv_organization v \<and> vc_project c = vv_project v \<and>
        (vv_state v = Ver_active \<longrightarrow> vc_active c = Some (vv_id v)))"

definition vault_ok :: "vault_db \<Rightarrow> bool" where
  "vault_ok d \<longleftrightarrow>
     distinct (map vc_id (credential_rows d)) \<and> distinct (map vv_id (version_rows d)) \<and>
     (\<forall>c \<in> set (credential_rows d). credential_ok d c) \<and> (\<forall>v \<in> set (version_rows d). version_ok d v)"

lemma vault_okD:
  assumes "vault_ok d"
  shows "distinct (map vc_id (credential_rows d))" "distinct (map vv_id (version_rows d))"
    "\<And>c. c \<in> set (credential_rows d) \<Longrightarrow> credential_ok d c" "\<And>v. v \<in> set (version_rows d) \<Longrightarrow> version_ok d v"
  using assms by (simp_all add: vault_ok_def)

lemma vault_ok_vaults [simp]: "vault_ok (d\<lparr>vault_rows := vs\<rparr>) = vault_ok d"
  by (simp add: vault_ok_def credential_ok_def version_ok_def)

lemma credential_ok_kept:
  assumes "credential_ok d c"
    and "\<And>v. v \<in> set (version_rows d) \<Longrightarrow> vv_credential v = vc_id c \<Longrightarrow> v \<in> set (version_rows d')"
  shows "credential_ok d' c"
  using assms by (auto simp: credential_ok_def split: if_splits)

lemma kept_by_update: "x \<in> set rows \<Longrightarrow> \<not> P x \<Longrightarrow> x \<in> set (sql_update P f rows)"
  by (force simp: set_sql_update image_iff)

lemma version_takenD:
  assumes "\<not> version_taken v d" "x \<in> set (version_rows d)"
  shows "vv_id x \<noteq> vv_id v"
  using assms by (auto simp: version_taken_def sql_exists_iff)

lemma insert_credential_ok:
  assumes ok: "vault_ok d" and ins: "insertCredentialWithVersion c v d = Some d'"
    and c: "vc_state c = Cred_active" "vc_id c = vv_credential v" "vc_vault c = vv_vault v"
      "vc_organization c = vv_organization v" "vc_project c = vv_project v"
    and v: "vv_state v = Ver_active" "vv_id v \<noteq> []"
  shows "vault_ok d'"
proof -
  let ?c = "c\<lparr>vc_active := Some (vv_id v)\<rparr>"
  from ins have fresh: "\<And>x. x \<in> set (credential_rows d) \<Longrightarrow> vc_id x \<noteq> vc_id c" "\<not> version_taken v d"
    by (auto simp: insertCredentialWithVersion_def sql_exists_iff split: if_splits)
  have "sql_update (\<lambda>x. vc_id x = vc_id c) (\<lambda>x. x\<lparr>vc_active := Some (vv_id v)\<rparr>) (credential_rows d) = credential_rows d"
    by (rule sql_update_none) (use fresh(1) in blast)
  with ins have d': "credential_rows d' = credential_rows d @ [?c]" "version_rows d' = version_rows d @ [v]"
    by (auto simp: insertCredentialWithVersion_def sql_update_append split: if_splits)
  show ?thesis
    unfolding vault_ok_def d'
  proof (intro conjI ballI)
    show "distinct (map vc_id (credential_rows d @ [?c]))" using vault_okD(1) [OF ok] fresh(1) by (force simp: image_iff)
    show "distinct (map vv_id (version_rows d @ [v]))"
      using vault_okD(2) [OF ok] version_takenD [OF fresh(2)] by (force simp: image_iff)
    fix x assume "x \<in> set (credential_rows d @ [?c])"
    then consider "x \<in> set (credential_rows d)" | "x = ?c" by auto
    then show "credential_ok d' x"
    proof cases
      case 1
      from vault_okD(3) [OF ok this] show ?thesis by (auto simp: credential_ok_def d')
    next
      case 2
      with c v show ?thesis by (auto simp: credential_ok_def d')
    qed
  next
    fix x assume "x \<in> set (version_rows d @ [v])"
    then consider "x \<in> set (version_rows d)" | "x = v" by auto
    then show "version_ok d' x"
    proof cases
      case 1
      from vault_okD(4) [OF ok this] show ?thesis by (auto simp: version_ok_def d')
    next
      case 2
      with c v show ?thesis by (auto simp: version_ok_def d')
    qed
  qed
qed

lemma rotation_ok:
  assumes ok: "vault_ok d" and ins: "insertVersionRotation v (vc_active c) t d = Some d'"
    and c: "c \<in> set (credential_rows d)" "vc_state c = Cred_active" "vc_id c = vv_credential v" "vc_vault c = vv_vault v"
      "vc_organization c = vv_organization v" "vc_project c = vv_project v"
    and v: "vv_state v = Ver_active" "vv_id v \<noteq> []"
  shows "vault_ok d'"
proof -
  obtain a where a: "a \<in> set (version_rows d)" "vc_active c = Some (vv_id a)" "vv_credential a = vc_id c" "vv_state a = Ver_active"
    using vault_okD(3) [OF ok c(1)] c(2) by (auto simp: credential_ok_def)
  have ne: "vv_id a \<noteq> []" using vault_okD(4) [OF ok a(1)] by (simp add: version_ok_def)
  let ?old = "\<lambda>x. x\<lparr>vv_state := Ver_superseded, vv_superseded := Some t\<rparr>"
  let ?new = "\<lambda>x. x\<lparr>vc_active := Some (vv_id v), vc_updated := t\<rparr>"
  from ins have fresh: "\<not> version_taken v d" by (auto simp: insertVersionRotation_def split: if_splits)
  from ins a(2) ne fresh have d':
    "version_rows d' = sql_update (\<lambda>x. vv_id x = vv_id a) ?old (version_rows d) @ [v]"
    "credential_rows d' = sql_update (\<lambda>x. vc_id x = vc_id c) ?new (credential_rows d)"
    using version_takenD [OF fresh a(1)] c(3)
    by (auto simp: insertVersionRotation_def truthy_str_def sql_update_append split: if_splits)
  have same: "x = c" if "x \<in> set (credential_rows d)" "vc_id x = vc_id c" for x
    using distinct_key_eq [OF vault_okD(1) [OF ok] that(1) c(1) that(2)] .
  show ?thesis
    unfolding vault_ok_def
  proof (intro conjI ballI)
    show "distinct (map vc_id (credential_rows d'))" using vault_okD(1) [OF ok] by (simp add: d' map_sql_update)
    show "distinct (map vv_id (version_rows d'))"
      using vault_okD(2) [OF ok] version_takenD [OF fresh] by (force simp: d' map_sql_update image_iff)
  next
    fix x assume "x \<in> set (credential_rows d')"
    then obtain y where y: "y \<in> set (credential_rows d)" "x = (if vc_id y = vc_id c then ?new y else y)"
      unfolding d' by (rule sql_update_elemE)
    show "credential_ok d' x"
    proof (cases "vc_id y = vc_id c")
      case True
      then have x: "x = ?new c" using y(2) same [OF y(1)] by simp
      show ?thesis using c v by (simp add: x credential_ok_def d')
    next
      case False
      have "vv_id w \<noteq> vv_id a" if "w \<in> set (version_rows d)" "vv_credential w = vc_id y" for w
        using distinct_key_eq [OF vault_okD(2) [OF ok] that(1) a(1)] that(2) False a(3) by auto
      then have "w \<in> set (version_rows d')" if "w \<in> set (version_rows d)" "vv_credential w = vc_id y" for w
        using kept_by_update [OF that(1)] \<open>\<And>w. w \<in> set (version_rows d) \<Longrightarrow> vv_credential w = vc_id y \<Longrightarrow> vv_id w \<noteq> vv_id a\<close> [OF that]
        by (simp add: d')
      with credential_ok_kept [OF vault_okD(3) [OF ok y(1)]] False y(2) show ?thesis by auto
    qed
  next
    fix x assume "x \<in> set (version_rows d')"
    then consider "x = v" | y where "y \<in> set (version_rows d)" "x = (if vv_id y = vv_id a then ?old y else y)"
      unfolding d' by (auto simp: set_sql_update)
    then show "version_ok d' x"
    proof cases
      case 1
      have "?new c \<in> set (credential_rows d')" using c(1) by (auto simp: d' set_sql_update)
      then show ?thesis unfolding version_ok_def 1 using c v by (intro conjI bexI [of _ "?new c"]) simp_all
    next
      case 2
      from vault_okD(4) [OF ok 2(1)] obtain z where z: "z \<in> set (credential_rows d)" "vc_id z = vv_credential y"
        "vc_vault z = vv_vault y" "vc_organization z = vv_organization y" "vc_project z = vv_project y"
        "vv_state y = Ver_active \<longrightarrow> vc_active z = Some (vv_id y)" "vv_id y \<noteq> []" by (auto simp: version_ok_def)
      let ?z = "if vc_id z = vc_id c then ?new z else z"
      have "?z \<in> set (credential_rows d')" using z(1) by (auto simp: d' set_sql_update)
      moreover have "vv_state x = Ver_active \<longrightarrow> vc_active ?z = Some (vv_id x)"
        using 2(2) z same [OF z(1)] a(2) by (auto split: if_splits)
      ultimately show ?thesis
        unfolding version_ok_def using 2(2) z by (intro conjI bexI [of _ ?z]) (auto split: if_splits)
    qed
  qed
qed

lemma patch_rows:
  "credential_rows (updateCredential i fs t revoking r d) =
     sql_update (\<lambda>x. vc_id x = i) (\<lambda>x. patched_credential x fs t) (credential_rows d)"
  "version_rows (updateCredential i fs t revoking r d) =
     sql_update (\<lambda>v. revoking \<and> vv_credential v = i \<and> vv_state v = Ver_active)
       (\<lambda>x. x\<lparr>vv_state := Ver_revoked, vv_revoked := Some r\<rparr>) (version_rows d)"
  by (auto simp: updateCredential_def set_credential_def revoke_versions_def patched_credential_def Let_def sql_update_none)

lemma patch_ok:
  assumes ok: "vault_ok d" and c: "c \<in> set (credential_rows d)"
  shows "vault_ok (updateCredential (vc_id c) (patch_fields auth c revoking reason metadata t) t revoking t d)"
proof -
  let ?fs = "patch_fields auth c revoking reason metadata t"
  let ?d = "updateCredential (vc_id c) ?fs t revoking t d"
  let ?set = "\<lambda>x. patched_credential x ?fs t"
  let ?ended = "\<lambda>x. x\<lparr>vv_state := Ver_revoked, vv_revoked := Some t\<rparr>"
  note d' = patch_rows [of "vc_id c" ?fs t revoking t d]
  have same: "x = c" if "x \<in> set (credential_rows d)" "vc_id x = vc_id c" for x
    using distinct_key_eq [OF vault_okD(1) [OF ok] that(1) c that(2)] .
  show ?thesis
    unfolding vault_ok_def
  proof (intro conjI ballI)
    show "distinct (map vc_id (credential_rows ?d))"
      using vault_okD(1) [OF ok] by (simp add: d' map_sql_update patched_credential_def)
    show "distinct (map vv_id (version_rows ?d))" using vault_okD(2) [OF ok] by (simp add: d' map_sql_update)
  next
    fix x assume "x \<in> set (credential_rows ?d)"
    then obtain y where y: "y \<in> set (credential_rows d)" "x = (if vc_id y = vc_id c then ?set y else y)"
      unfolding d' by (rule sql_update_elemE)
    show "credential_ok ?d x"
    proof (cases "vc_id y = vc_id c")
      case False
      have "w \<in> set (version_rows ?d)" if "w \<in> set (version_rows d)" "vv_credential w = vc_id y" for w
        unfolding d' by (rule kept_by_update) (use that False in auto)
      with credential_ok_kept [OF vault_okD(3) [OF ok y(1)]] False y(2) show ?thesis by auto
    next
      case True
      then have x: "x = ?set c" using y same by auto
      show ?thesis
      proof (cases revoking)
        case True
        then show ?thesis by (simp add: x credential_ok_def patched_credential_def patch_fields_def)
      next
        case False
        have rows: "version_rows ?d = version_rows d"
          using False by (simp add: updateCredential_def set_credential_def)
        have "vc_state x = vc_state c" "vc_active x = vc_active c" "vc_id x = vc_id c"
          using False by (simp_all add: x patched_credential_def patch_fields_def)
        with vault_okD(3) [OF ok c] rows show ?thesis by (simp only: credential_ok_def)
      qed
    qed
  next
    fix x assume "x \<in> set (version_rows ?d)"
    then obtain y where y: "y \<in> set (version_rows d)"
      "x = (if revoking \<and> vv_credential y = vc_id c \<and> vv_state y = Ver_active then ?ended y else y)"
      unfolding d' by (rule sql_update_elemE)
    from vault_okD(4) [OF ok y(1)] obtain z where z: "z \<in> set (credential_rows d)" "vc_id z = vv_credential y"
      "vc_vault z = vv_vault y" "vc_organization z = vv_organization y" "vc_project z = vv_project y"
      "vv_state y = Ver_active \<longrightarrow> vc_active z = Some (vv_id y)" "vv_id y \<noteq> []" by (auto simp: version_ok_def)
    let ?z = "if vc_id z = vc_id c then ?set z else z"
    have "?z \<in> set (credential_rows ?d)" using z(1) by (auto simp: d' set_sql_update)
    moreover have "vv_state x = Ver_active \<longrightarrow> vc_active ?z = Some (vv_id x)"
      using y(2) z same [OF z(1)] by (auto simp: patched_credential_def patch_fields_def split: if_splits)
    ultimately show "version_ok ?d x"
      unfolding version_ok_def using y(2) z
      by (intro conjI bexI [of _ ?z]) (auto simp: patched_credential_def split: if_splits)
  qed
qed

section \<open>The handlers one after another\<close>

inductive vault_step :: "vault_db \<Rightarrow> vault_db \<Rightarrow> bool" where
  create_vault: "vault_step d (fst (handle_create_vault blocked auth name description scope newId t d))"
| update_vault: "vault_step d (fst (handle_update_vault blocked auth vaultId name' description' scope t d))"
| delete_vault: "vault_step d (fst (handle_delete_vault auth vaultId t d))"
| create_credential: "versionId \<noteq> [] \<Longrightarrow>
    vault_step d (fst (handle_create_credential p encrypt auth vaultId input credentialId versionId t d))"
| update_credential: "vault_step d (fst (handle_update_credential auth vaultId credentialId revoking reason metadata t d))"
| update_secret: "versionId \<noteq> [] \<Longrightarrow>
    vault_step d (fst (handle_update_secret p encrypt auth vaultId credentialId secret versionId t d))"

definition vault_init :: "vault_db \<Rightarrow> bool" where
  "vault_init d \<longleftrightarrow> credential_rows d = [] \<and> version_rows d = []"

lemma insertVault_frame:
  "credential_rows (fst (insertVault blocked row d)) = credential_rows d"
  "version_rows (fst (insertVault blocked row d)) = version_rows d"
  by (simp_all add: insertVault_def)

lemma updateVaultRow_frame:
  "credential_rows (fst (updateVaultRow blocked vaultId f d)) = credential_rows d"
  "version_rows (fst (updateVaultRow blocked vaultId f d)) = version_rows d"
  by (simp_all add: updateVaultRow_def Let_def)

lemma create_vault_frame:
  "credential_rows (fst (handle_create_vault blocked auth name description scope newId t d)) = credential_rows d"
  "version_rows (fst (handle_create_vault blocked auth name description scope newId t d)) = version_rows d"
  by (simp_all add: handle_create_vault_def insertVault_def Let_def)

lemma update_vault_frame:
  "credential_rows (fst (handle_update_vault blocked auth vaultId name description scope t d)) = credential_rows d"
  "version_rows (fst (handle_update_vault blocked auth vaultId name description scope t d)) = version_rows d"
  by (simp_all add: handle_update_vault_def updateVaultRow_def Let_def split: option.split)

lemma delete_vault_frame:
  "credential_rows (fst (handle_delete_vault auth vaultId t d)) = credential_rows d"
  "version_rows (fst (handle_delete_vault auth vaultId t d)) = version_rows d"
  by (simp_all add: handle_delete_vault_def deleteVault_def Let_def split: option.split bool.split)

lemma create_credential_ok:
  assumes "vault_ok d" "versionId \<noteq> []"
  shows "vault_ok (fst (handle_create_credential p encrypt auth vaultId input credentialId versionId t d))"
proof -
  have "vault_ok (fst (createCredential p encrypt vault input credentialId versionId t d))" for vault
    using assms insert_credential_ok [OF assms(1)]
    by (auto simp: createCredential_def new_version_def Let_def split: sum.split option.split)
  then show ?thesis
    using assms(1) by (auto simp: handle_create_credential_def split: option.split prod.split sum.split) (metis fst_conv)+
qed

lemma credential_of_callerD:
  assumes "credential_of_caller auth vaultId credentialId d = Some c"
  shows "c \<in> set (credential_rows d)" "vc_id c = credentialId"
  using assms by (auto simp: credential_of_caller_def findCredential_def dest: sql_get_Some split: option.splits)

lemma update_credential_ok:
  assumes "vault_ok d"
  shows "vault_ok (fst (handle_update_credential auth vaultId credentialId revoking reason metadata t d))"
  using assms patch_ok [OF assms] credential_of_callerD(1)
  by (auto simp: handle_update_credential_def write_patch_def Let_def split: option.split)

lemma rotateCredential_Inr:
  assumes "rotateCredential p encrypt c secret versionId t d = (d', Inr (c', v))"
  shows "insertVersionRotation v (vc_active c) t d = Some d'" "vv_id v = versionId" "vv_credential v = vc_id c"
    "vv_vault v = vc_vault c" "vv_organization v = vc_organization c" "vv_project v = vc_project c" "vv_state v = Ver_active"
  using assms by (auto simp: rotateCredential_def new_version_def Let_def split: sum.splits option.splits)

lemma rotateCredential_Inl: "rotateCredential p encrypt c secret versionId t d = (d', Inl e) \<Longrightarrow> d' = d"
  by (auto simp: rotateCredential_def Let_def split: sum.splits option.splits)

lemma update_secret_cases:
  obtains (same) "fst (handle_update_secret p encrypt auth vaultId credentialId secret versionId t d) = d"
    "\<forall>r. snd (snd (handle_update_secret p encrypt auth vaultId credentialId secret versionId t d)) \<noteq> Inr r"
  | (rotated) c c' v d' where "credential_of_caller auth vaultId credentialId d = Some c" "vc_state c = Cred_active"
    "rotateCredential p encrypt c secret versionId t d = (d', Inr (c', v))"
    "handle_update_secret p encrypt auth vaultId credentialId secret versionId t d =
       (d', [''vault_credential.secret.update''], Inr (c', v))"
proof (cases "credential_of_caller auth vaultId credentialId d")
  case None
  then show ?thesis using same by (simp add: handle_update_secret_def)
next
  case (Some c)
  show ?thesis
  proof (cases "vc_state c = Cred_active")
    case False
    then show ?thesis using same Some by (simp add: handle_update_secret_def)
  next
    case True
    obtain d1 r where r: "rotateCredential p encrypt c secret versionId t d = (d1, r)" by fastforce
    show ?thesis
    proof (cases r)
      case (Inl e)
      then show ?thesis using same Some True r rotateCredential_Inl [of p encrypt c secret versionId t d d1 e]
        by (simp add: handle_update_secret_def)
    next
      case (Inr x)
      then show ?thesis using rotated Some True r by (cases x) (simp add: handle_update_secret_def)
    qed
  qed
qed

lemma update_secret_ok:
  assumes "vault_ok d" "versionId \<noteq> []"
  shows "vault_ok (fst (handle_update_secret p encrypt auth vaultId credentialId secret versionId t d))"
proof (cases rule: update_secret_cases [of p encrypt auth vaultId credentialId secret versionId t d])
  case same
  with assms(1) show ?thesis by simp
next
  case (rotated c c' v d')
  note r = rotateCredential_Inr [OF rotated(3)]
  have "vault_ok d'"
    by (rule rotation_ok [OF assms(1) r(1) credential_of_callerD(1) [OF rotated(1)] rotated(2)])
       (use r assms(2) in simp_all)
  with rotated(4) show ?thesis by simp
qed

lemma vault_ok_cong:
  "credential_rows d' = credential_rows d \<Longrightarrow> version_rows d' = version_rows d \<Longrightarrow> vault_ok d' = vault_ok d"
  by (simp add: vault_ok_def credential_ok_def version_ok_def)

lemma vault_step_ok:
  assumes "vault_step d d'" "vault_ok d"
  shows "vault_ok d'"
  using assms
proof cases
  case create_vault
  with assms(2) show ?thesis by (simp add: vault_ok_cong [OF create_vault_frame])
next
  case update_vault
  with assms(2) show ?thesis by (simp add: vault_ok_cong [OF update_vault_frame])
next
  case delete_vault
  with assms(2) show ?thesis by (simp add: vault_ok_cong [OF delete_vault_frame])
qed (auto intro: create_credential_ok update_credential_ok update_secret_ok)

interpretation vaults: safe_system vault_init vault_step vault_ok
proof unfold_locales
  show "vault_init d \<Longrightarrow> vault_ok d" for d by (simp add: vault_init_def vault_ok_def)
  show "vault_ok d \<Longrightarrow> vault_step d d' \<Longrightarrow> vault_ok d'" for d d' using vault_step_ok by blast
qed

text \<open>
  C37 (invariant): after any sequence of the handlers, of any callers, an active credential
  has exactly one active version, the one its pointer names, and a revoked credential has none.
\<close>

theorem one_active_version:
  assumes "vault_init d0" "vault_step\<^sup>*\<^sup>* d0 d" "c \<in> set (credential_rows d)"
  shows "if vc_state c = Cred_active
    then \<exists>v. vc_active c = Some (vv_id v) \<and>
           {x \<in> set (version_rows d). vv_credential x = vc_id c \<and> vv_state x = Ver_active} = {v}
    else {x \<in> set (version_rows d). vv_credential x = vc_id c \<and> vv_state x = Ver_active} = {}"
proof -
  have ok: "vault_ok d" by (rule vaults.reachable_inv [OF assms(1,2)])
  have pointed: "vc_active c = Some (vv_id x)"
    if x: "x \<in> set (version_rows d)" "vv_credential x = vc_id c" "vv_state x = Ver_active" for x
  proof -
    obtain z where "z \<in> set (credential_rows d)" "vc_id z = vc_id c" "vc_active z = Some (vv_id x)"
      using vault_okD(4) [OF ok x(1)] x(2,3) by (auto simp: version_ok_def)
    with distinct_key_eq [OF vault_okD(1) [OF ok] _ assms(3)] show ?thesis by metis
  qed
  show ?thesis
  proof (cases "vc_state c = Cred_active")
    case True
    then obtain v where v: "v \<in> set (version_rows d)" "vc_active c = Some (vv_id v)" "vv_credential v = vc_id c"
      "vv_state v = Ver_active" using vault_okD(3) [OF ok assms(3)] by (auto simp: credential_ok_def)
    have "x = v" if "x \<in> set (version_rows d)" "vv_credential x = vc_id c" "vv_state x = Ver_active" for x
      by (rule distinct_key_eq [OF vault_okD(2) [OF ok] that(1) v(1)]) (use pointed [OF that] v(2) in simp)
    then have "{x \<in> set (version_rows d). vv_credential x = vc_id c \<and> vv_state x = Ver_active} = {v}"
      using v(1,3,4) by blast
    with v(2) True show ?thesis by auto
  next
    case False
    then have "vc_active c = None" using vault_okD(3) [OF ok assms(3)] by (auto simp: credential_ok_def)
    with pointed False show ?thesis by auto
  qed
qed

section \<open>Resolution\<close>

text \<open>A version is reached by a reference of a credential, of a version or of a whole vault.\<close>

definition resolves :: "'a uri_platform_scheme \<Rightarrow> id \<Rightarrow> id \<Rightarrow> string \<Rightarrow> vault_db \<Rightarrow> version_row \<Rightarrow> bool" where
  "resolves p organizationId projectId secretRef d v \<longleftrightarrow>
     secretVersionForResolution p organizationId projectId secretRef d = Inr (Some v) \<or>
     (\<exists>vs. vaultVersionsForResolution p organizationId projectId secretRef d = Inr (Some vs) \<and> v \<in> snd ` set vs)"

lemma resolvable_active:
  assumes ok: "vault_ok d" and c: "c \<in> set (credential_rows d)" "resolvable_credential o' p' d c"
  obtains v where "active_version_row c d = Some v" "v \<in> set (version_rows d)" "vv_credential v = vc_id c"
    "vc_state c = Cred_active" "in_reach o' p' (vc_organization c) (vc_project c)"
proof -
  from c(2) obtain v where v: "active_version_row c d = Some v" "vc_state c = Cred_active"
    "in_reach o' p' (vc_organization c) (vc_project c)"
    by (auto simp: resolvable_credential_def split: option.splits)
  then have "v \<in> set (version_rows d)" "vc_active c = Some (vv_id v)"
    using sql_get_Some by (fastforce simp: active_version_row_def)+
  moreover obtain w where "w \<in> set (version_rows d)" "vc_active c = Some (vv_id w)" "vv_credential w = vc_id c"
    using vault_okD(3) [OF ok c(1)] v(2) by (auto simp: credential_ok_def)
  ultimately have "vv_credential v = vc_id c"
    using distinct_key_eq [OF vault_okD(2) [OF ok], of v w] by simp
  with that v \<open>v \<in> set (version_rows d)\<close> show thesis by blast
qed

lemma resolves_active:
  assumes ok: "vault_ok d" and r: "resolves p o' p' ref d v"
  shows "\<exists>c \<in> set (credential_rows d). vc_id c = vv_credential v \<and> vc_state c = Cred_active \<and>
    v \<in> set (version_rows d) \<and> in_reach o' p' (vv_organization v) (vv_project v)"
proof -
  have reach: ?thesis if "c \<in> set (credential_rows d)" "resolvable_credential o' p' d c" "active_version_row c d = Some v" for c
  proof -
    from resolvable_active [OF ok that(1,2)] that(3) have v: "v \<in> set (version_rows d)" "vv_credential v = vc_id c"
      "vc_state c = Cred_active" "in_reach o' p' (vc_organization c) (vc_project c)" by auto
    moreover obtain z where z: "z \<in> set (credential_rows d)" "vc_id z = vv_credential v"
      "vc_organization z = vv_organization v" "vc_project z = vv_project v"
      using vault_okD(4) [OF ok v(1)] by (auto simp: version_ok_def)
    moreover have "z = c"
      by (rule distinct_key_eq [OF vault_okD(1) [OF ok] z(1) that(1)]) (simp add: z(2) v(2))
    ultimately show ?thesis using that(1) by auto
  qed
  from r consider (scoped) a b where "scoped_version o' p' a b d = Some v"
    | (pinned) "pinned_version o' p' ref d = Some v"
    | (whole) vs where "vaultVersionsForResolution p o' p' ref d = Inr (Some vs)" "v \<in> snd ` set vs"
    by (auto simp: resolves_def secretVersionForResolution_def split: sum.splits option.splits if_splits)
  then show ?thesis
  proof cases
    case scoped
    then obtain c where "c \<in> set (credential_rows d)" "resolvable_credential o' p' d c" "active_version_row c d = Some v"
      by (auto simp: scoped_version_def dest!: sql_get_Some split: option.splits)
    then show ?thesis by (rule reach)
  next
    case pinned
    then have "v \<in> set (version_rows d)" "in_reach o' p' (vv_organization v) (vv_project v)"
      "sql_exists (\<lambda>c. vc_id c = vv_credential v \<and> vc_state c = Cred_active) (credential_rows d)"
      by (auto simp: pinned_version_def dest: sql_get_Some)
    then show ?thesis by (auto simp: sql_exists_iff)
  next
    case whole
    then obtain c where c: "c \<in> set (credential_rows d)" "resolvable_credential o' p' d c" "v = the (active_version_row c d)"
      by (auto simp: vaultVersionsForResolution_def split: sum.splits if_splits)
    with resolvable_active [OF ok c(1,2)] have "active_version_row c d = Some v" by force
    with reach c show ?thesis by blast
  qed
qed

definition revoked_in :: "id \<Rightarrow> vault_db \<Rightarrow> bool" where
  "revoked_in credentialId d \<longleftrightarrow> (\<exists>c \<in> set (credential_rows d). vc_id c = credentialId \<and> vc_state c = Cred_revoked)"

lemma revoked_update:
  assumes "revoked_in i d" "credential_rows d' = sql_update P f (credential_rows d @ extra)"
    and "\<And>c. vc_id (f c) = vc_id c \<and> vc_state (f c) = vc_state c"
  shows "revoked_in i d'"
proof -
  obtain c where c: "c \<in> set (credential_rows d)" "vc_id c = i" "vc_state c = Cred_revoked"
    using assms(1) by (auto simp: revoked_in_def)
  let ?c = "if P c then f c else c"
  have "?c \<in> set (credential_rows d')" using c(1) by (auto simp: assms(2) set_sql_update)
  moreover have "vc_id ?c = i" "vc_state ?c = Cred_revoked" using c assms(3) by simp_all
  ultimately show ?thesis unfolding revoked_in_def by blast
qed

lemma revoked_insert:
  assumes "insertCredentialWithVersion c v d = Some d'" "revoked_in i d"
  shows "revoked_in i d'"
proof -
  have "credential_rows d' = sql_update (\<lambda>x. vc_id x = vc_id c) (\<lambda>x. x\<lparr>vc_active := Some (vv_id v)\<rparr>)
      (credential_rows d @ [c\<lparr>vc_active := None\<rparr>])"
    using assms(1) by (auto simp: insertCredentialWithVersion_def split: if_splits)
  from revoked_update [OF assms(2) this] show ?thesis by simp
qed

lemma revoked_rotation:
  assumes "insertVersionRotation v a t d = Some d'" "revoked_in i d"
  shows "revoked_in i d'"
proof -
  have "credential_rows d' = sql_update (\<lambda>c. vc_id c = vv_credential v)
      (\<lambda>c. c\<lparr>vc_active := Some (vv_id v), vc_updated := t\<rparr>) (credential_rows d @ [])"
    using assms(1) by (auto simp: insertVersionRotation_def split: if_splits)
  from revoked_update [OF assms(2) this] show ?thesis by simp
qed

lemma revoked_patch:
  assumes "vault_ok d" "c \<in> set (credential_rows d)" "revoked_in i d"
  shows "revoked_in i (updateCredential (vc_id c) (patch_fields auth c revoking reason metadata t) t revoking t d)"
proof -
  obtain x where x: "x \<in> set (credential_rows d)" "vc_id x = i" "vc_state x = Cred_revoked"
    using assms(3) by (auto simp: revoked_in_def)
  have "x = c" if "vc_id x = vc_id c" by (rule distinct_key_eq [OF vault_okD(1) [OF assms(1)] x(1) assms(2) that])
  let ?fs = "patch_fields auth c revoking reason metadata t"
  let ?x = "if vc_id x = vc_id c then patched_credential x ?fs t else x"
  have "?x \<in> set (credential_rows (updateCredential (vc_id c) ?fs t revoking t d))"
    using x(1) by (auto simp: patch_rows set_sql_update)
  moreover have "vc_id ?x = i" "vc_state ?x = Cred_revoked"
    using x \<open>vc_id x = vc_id c \<Longrightarrow> x = c\<close> by (auto simp: patched_credential_def patch_fields_def)
  ultimately show ?thesis unfolding revoked_in_def by blast
qed

lemma revoked_cong: "credential_rows d' = credential_rows d \<Longrightarrow> revoked_in i d' = revoked_in i d"
  by (simp add: revoked_in_def)

lemma revoked_step:
  assumes "vault_step d d'" "vault_ok d" "revoked_in i d"
  shows "revoked_in i d'"
  using assms
proof cases
  case create_vault
  with assms(3) show ?thesis by (simp add: revoked_cong [OF create_vault_frame(1)])
next
  case update_vault
  with assms(3) show ?thesis by (simp add: revoked_cong [OF update_vault_frame(1)])
next
  case delete_vault
  with assms(3) show ?thesis by (simp add: revoked_cong [OF delete_vault_frame(1)])
next
  case (create_credential versionId p encrypt auth vaultId input credentialId t)
  have "revoked_in i (fst (createCredential p encrypt vault input credentialId versionId t d))" for vault
    using assms(3) revoked_insert by (auto simp: createCredential_def Let_def split: sum.split option.split)
  with assms(3) show ?thesis
    unfolding create_credential(1)
    by (auto simp: handle_create_credential_def split: option.split prod.split sum.split) (metis fst_conv)+
next
  case (update_credential auth vaultId credentialId revoking reason metadata t)
  with assms(2,3) revoked_patch credential_of_callerD(1) show ?thesis
    by (auto simp: handle_update_credential_def write_patch_def Let_def split: option.split)
next
  case (update_secret versionId p encrypt auth vaultId credentialId secret t)
  show ?thesis
  proof (cases rule: update_secret_cases [of p encrypt auth vaultId credentialId secret versionId t d])
    case same
    with assms(3) update_secret(1) show ?thesis by simp
  next
    case (rotated c c' v d'')
    with revoked_rotation [OF rotateCredential_Inr(1) [OF rotated(3)] assms(3)] update_secret(1) show ?thesis by simp
  qed
qed

lemma revoked_steps: "vault_step\<^sup>*\<^sup>* d d' \<Longrightarrow> vault_ok d \<Longrightarrow> revoked_in i d \<Longrightarrow> revoked_in i d' \<and> vault_ok d'"
  by (induction rule: rtranclp_induct) (blast intro: revoked_step vault_step_ok)+

text \<open>
  C38 (safety): once a credential is revoked, no reference resolves to one of its versions after
  any further sequence of the handlers, neither the reference of the credential, of a version, nor of its vault. And
  whatever a reference resolves to belongs to the caller's organization and to its project
  or to no project.
\<close>

theorem revoked_never_resolves:
  assumes "vault_init d0" "vault_step\<^sup>*\<^sup>* d0 d" "revoked_in credentialId d" "vault_step\<^sup>*\<^sup>* d d'"
    and "resolves p organizationId projectId secretRef d' v"
  shows "vv_credential v \<noteq> credentialId \<and> in_reach organizationId projectId (vv_organization v) (vv_project v)"
proof -
  have "vault_ok d" by (rule vaults.reachable_inv [OF assms(1,2)])
  with revoked_steps [OF assms(4) _ assms(3)] have r: "revoked_in credentialId d'" "vault_ok d'" by auto
  obtain c where c: "c \<in> set (credential_rows d')" "vc_id c = vv_credential v" "vc_state c = Cred_active"
    and reach: "in_reach organizationId projectId (vv_organization v) (vv_project v)"
    using resolves_active [OF r(2) assms(5)] by auto
  have "vc_id c \<noteq> credentialId"
  proof
    assume "vc_id c = credentialId"
    with r(1) obtain z where z: "z \<in> set (credential_rows d')" "vc_id z = vc_id c" "vc_state z = Cred_revoked"
      by (auto simp: revoked_in_def)
    with distinct_key_eq [OF vault_okD(1) [OF r(2)] z(1) c(1) z(2)] c(3) show False by simp
  qed
  with c(2) reach show ?thesis by simp
qed

text \<open>
  A successful change of a secret is what the reference of the credential resolves to from then
  on, for every caller the credential is in reach of, and the version before it is superseded.
\<close>

lemma rotation_takes_effect:
  assumes reach: "vault_init d0" "vault_step\<^sup>*\<^sup>* d0 d" "versionId \<noteq> []"
    and h: "handle_update_secret p encrypt auth vaultId credentialId secret versionId t d = (d', log', Inr (c, v))"
    and p: "reads_references p {vaultId, credentialId}" and c: "in_reach organizationId projectId (vc_organization c) (vc_project c)"
    and ne: "credentialId \<noteq> []"
  shows "secretVersionForResolution p organizationId projectId (credentialScopedSecretRef p vaultId credentialId) d' = Inr (Some v)"
proof -
  have ok: "vault_ok d" by (rule vaults.reachable_inv [OF reach(1,2)])
  obtain c0 where r: "credential_of_caller auth vaultId credentialId d = Some c0" "vc_state c0 = Cred_active"
    "rotateCredential p encrypt c0 secret versionId t d = (d', Inr (c, v))"
    using h by (cases rule: update_secret_cases [of p encrypt auth vaultId credentialId secret versionId t d]) auto
  note ins = rotateCredential_Inr [OF r(3)]
  have ok': "vault_ok d'"
    using update_secret_ok [OF ok reach(3), of p encrypt auth vaultId credentialId secret t] h by simp
  have c0: "c0 \<in> set (credential_rows d)" "vc_id c0 = credentialId" "vc_vault c0 = vaultId"
    using r(1) by (auto simp: credential_of_caller_def findCredential_def findVault_def dest!: sql_get_Some split: option.splits)
  let ?c = "c0\<lparr>vc_active := Some versionId, vc_updated := t\<rparr>"
  have "c = ?c" using r(3) by (auto simp: rotateCredential_def Let_def split: sum.splits option.splits)
  have "\<not> version_taken v d" using ins(1) by (auto simp: insertVersionRotation_def split: if_splits)
  then have old: "vc_active c0 \<noteq> Some (vv_id v)"
    using version_takenD vault_okD(3) [OF ok c0(1)] r(2) by (fastforce simp: credential_ok_def)
  have mem: "?c \<in> set (credential_rows d')" "v \<in> set (version_rows d')"
    using ins c0 old
    by (auto simp: insertVersionRotation_def set_sql_update image_iff sql_update_append split: if_splits)
  have act: "active_version_row ?c d' = Some v"
    using sql_get_key [OF vault_okD(2) [OF ok'] mem(2)] ins(2) by (simp add: active_version_row_def eq_commute)
  have res: "resolvable_credential organizationId projectId d' ?c"
    using c act r(2) ins(7) \<open>c = ?c\<close> by (simp add: resolvable_credential_def)
  have "scoped_version organizationId projectId vaultId credentialId d' = Some v"
  proof -
    have "x = ?c" if "x \<in> set (credential_rows d')" "vc_id x = credentialId" for x
      by (rule distinct_key_eq [OF vault_okD(1) [OF ok'] that(1) mem(1)]) (simp add: that(2) c0(2))
    moreover have "\<exists>x. sql_get (\<lambda>x. vc_id x = credentialId \<and> vc_vault x = vaultId \<and>
        resolvable_credential organizationId projectId d' x) (credential_rows d') = Some x"
      using mem(1) c0 res sql_get_None [of "\<lambda>x. vc_id x = credentialId \<and> vc_vault x = vaultId \<and>
        resolvable_credential organizationId projectId d' x" "credential_rows d'"] by fastforce
    ultimately show ?thesis using act by (fastforce simp: scoped_version_def dest: sql_get_Some)
  qed
  then show ?thesis
    using credential_reference_back [OF p, of vaultId credentialId] ne
    by (simp add: secretVersionForResolution_def truthy_str_def)
qed

section \<open>Instances\<close>

definition demo_parse :: "string \<Rightarrow> url option" where
  "demo_parse s =
     (if starts_with s ''enbor://''
      then Some \<lparr>ur_protocol = ''enbor:'', ur_hostname = takeWhile (\<lambda>c. c \<noteq> CHR ''/'') (drop 8 s),
                 ur_pathname = dropWhile (\<lambda>c. c \<noteq> CHR ''/'') (drop 8 s), ur_username = [], ur_password = [],
                 ur_search = [], ur_hash = [], ur_origin = ''null''\<rparr>
      else None)"

definition demo_platform :: platform where
  "demo_platform = \<lparr>up_parse = demo_parse, up_text = (\<lambda>u. ur_pathname u), up_encode = (\<lambda>s. s), up_decode = Some,
     pl_json = (\<lambda>_. None), pl_stringify = (\<lambda>_. []), pl_before = (\<lambda>a b. a \<le> b)\<rparr>"

definition demo_caller :: vault_caller where
  "demo_caller = \<lparr>vl_organization = ''o'', vl_project = ''p'', vl_user = ''u''\<rparr>"

definition demo_secret :: secret_material where
  "demo_secret = \<lparr>sm_data = Some [(''token'', ''x'')], sm_name = None, sm_metadata = None\<rparr>"

definition demo_encrypt :: "string \<Rightarrow> string \<Rightarrow> string + json" where
  "demo_encrypt k v = Inr (JStr v)"

definition demo_credential :: "id \<Rightarrow> id \<Rightarrow> vault_db \<Rightarrow> vault_db" where
  "demo_credential c v d = fst (handle_create_credential demo_platform demo_encrypt demo_caller ''v''
     \<lparr>ci_name = ''n'', ci_type = Opaque, ci_metadata = JObj [], ci_secret = demo_secret\<rparr> c v 1 d)"

definition demo_change :: "id \<Rightarrow> id \<Rightarrow> vault_db \<Rightarrow> vault_db" where
  "demo_change c v d = fst (handle_update_secret demo_platform demo_encrypt demo_caller ''v'' c demo_secret v 2 d)"

definition demo_revoke :: "id \<Rightarrow> vault_db \<Rightarrow> vault_db" where
  "demo_revoke c d = fst (handle_update_credential demo_caller ''v'' c True None None 3 d)"

definition demo_empty :: vault_db where
  "demo_empty = \<lparr>vault_rows = [], credential_rows = [], version_rows = []\<rparr>"

definition demo_stored :: vault_db where
  "demo_stored = demo_credential ''c'' ''1''
     (fst (handle_create_vault (\<lambda>_. False) demo_caller ''vault'' None None ''v'' 0 demo_empty))"

lemma demo_steps:
  "vault_step d (demo_revoke c d)" "v \<noteq> [] \<Longrightarrow> vault_step d (demo_credential c v d)"
  "v \<noteq> [] \<Longrightarrow> vault_step d (demo_change c v d)"
  by (simp_all add: demo_revoke_def demo_credential_def demo_change_def update_credential create_credential update_secret)

lemma demo_reached: "vault_init demo_empty" "vault_step\<^sup>*\<^sup>* demo_empty demo_stored"
proof -
  show "vault_init demo_empty" by (simp add: vault_init_def demo_empty_def)
  let ?d = "fst (handle_create_vault (\<lambda>_. False) demo_caller ''vault'' None None ''v'' 0 demo_empty)"
  have "vault_step demo_empty ?d" by (rule create_vault)
  moreover have "vault_step ?d demo_stored" unfolding demo_stored_def by (rule demo_steps) simp
  ultimately show "vault_step\<^sup>*\<^sup>* demo_empty demo_stored"
    by (rule converse_rtranclp_into_rtranclp [OF _ r_into_rtranclp])
qed

lemma demo_changed: "vault_step\<^sup>*\<^sup>* demo_empty (demo_change ''c'' ''2'' demo_stored)"
  by (rule rtranclp.rtrancl_into_rtrancl [OF demo_reached(2)]) (simp add: demo_steps)

lemma demo_changed_rows:
  "map (\<lambda>c. (vc_id c, vc_active c, vc_state c)) (credential_rows (demo_change ''c'' ''2'' demo_stored)) =
     [(''c'', Some ''2'', Cred_active)]"
  "map (\<lambda>v. (vv_id v, vv_state v)) (version_rows (demo_change ''c'' ''2'' demo_stored)) =
     [(''1'', Ver_superseded), (''2'', Ver_active)]"
  by code_simp+

theorem one_active_version_witness:
  "\<exists>v. vc_active (hd (credential_rows (demo_change ''c'' ''2'' demo_stored))) = Some (vv_id v) \<and>
     {x \<in> set (version_rows (demo_change ''c'' ''2'' demo_stored)).
        vv_credential x = vc_id (hd (credential_rows (demo_change ''c'' ''2'' demo_stored))) \<and>
        vv_state x = Ver_active} = {v}"
proof -
  obtain c where c: "credential_rows (demo_change ''c'' ''2'' demo_stored) = [c]" "vc_state c = Cred_active"
    using demo_changed_rows(1) by auto
  with one_active_version [OF demo_reached(1) demo_changed, of c] show ?thesis by simp
qed

definition demo_two :: vault_db where
  "demo_two = demo_credential ''e'' ''3'' (demo_revoke ''c'' demo_stored)"

lemma demo_two_resolves:
  "revoked_in ''c'' (demo_revoke ''c'' demo_stored)"
  "map_option vv_id (scoped_version ''o'' ''p'' ''v'' ''e'' demo_two) = Some ''3''"
  "secretRefIdentity demo_platform ''enbor://vaults/v/credentials/e'' =
     Inr (Some \<lparr>si_vault = ''v'', si_credential = Some ''e'', si_version = None\<rparr>)"
  by code_simp+

theorem revoked_never_resolves_witness:
  "\<exists>v. resolves demo_platform ''o'' ''p'' ''enbor://vaults/v/credentials/e'' demo_two v \<and>
     vv_credential v \<noteq> ''c'' \<and> in_reach ''o'' ''p'' (vv_organization v) (vv_project v)"
proof -
  have steps: "vault_step\<^sup>*\<^sup>* demo_empty (demo_revoke ''c'' demo_stored)"
    "vault_step\<^sup>*\<^sup>* (demo_revoke ''c'' demo_stored) demo_two"
    using rtranclp.rtrancl_into_rtrancl [OF demo_reached(2) demo_steps(1)] demo_steps(2)
    by (auto simp: demo_two_def)
  obtain v where "scoped_version ''o'' ''p'' ''v'' ''e'' demo_two = Some v" using demo_two_resolves(2) by auto
  then have r: "resolves demo_platform ''o'' ''p'' ''enbor://vaults/v/credentials/e'' demo_two v"
    by (simp add: resolves_def secretVersionForResolution_def demo_two_resolves(3) truthy_str_def)
  show ?thesis
    using revoked_never_resolves [OF demo_reached(1) steps(1) demo_two_resolves(1) steps(2) r] r by blast
qed

section \<open>Handlers that overlap\<close>

text \<open>
  A rotation supersedes the version that was active when its handler read the credential. When
  another rotation has completed in between, its version is neither superseded nor pointed to: two
  versions of the credential are active, and the older one stays so when the credential is rotated
  again.
\<close>

theorem overlapping_rotations:
  "map (\<lambda>v. (vv_id v, vv_state v))
     (version_rows (fst (rotateCredential demo_platform demo_encrypt
        (the (credential_of_caller demo_caller ''v'' ''c'' demo_stored)) demo_secret ''3'' 4
        (demo_change ''c'' ''2'' demo_stored)))) =
   [(''1'', Ver_superseded), (''2'', Ver_active), (''3'', Ver_active)]"
  by code_simp

text \<open>
  A patch of the metadata writes back the state it has read. When the credential was revoked in
  between, it is active again, and the reference of a superseded version, which revoking leaves
  alone, resolves.
\<close>

theorem patch_revives_revoked:
  "(let read = the (credential_of_caller demo_caller ''v'' ''c'' (demo_change ''c'' ''2'' demo_stored));
        revoked = demo_revoke ''c'' (demo_change ''c'' ''2'' demo_stored);
        patched = fst (write_patch demo_caller read False None (Some (JObj [])) 5 revoked) in
    (pinned_version ''o'' ''p'' ''enbor://vaults/v/credentials/c/versions/1'' revoked = None,
     map vc_state (credential_rows patched),
     map_option vv_state (pinned_version ''o'' ''p'' ''enbor://vaults/v/credentials/c/versions/1'' patched))) =
   (True, [Cred_active], Some Ver_superseded)"
  by code_simp

end
