(* ===== verification/WorkspaceFacts.thy ===== *)
theory WorkspaceFacts
  imports SessionInputs VaultFacts
begin

text \<open>
  The workspace of an accepted session: every volume has a name of its own and is mounted once
  under the workspace, the places the kinds of volumes may take are kept, and every reference
  names something active of the caller.
\<close>

section \<open>Normalisation\<close>

definition path_taken :: "volume_mount list \<Rightarrow> volume \<Rightarrow> string option" where
  "path_taken ms v = (case v of Secret_volume _ _ _ \<Rightarrow> None | _ \<Rightarrow> volumeMountPath (vol_name v) ms)"

definition enbor_dir :: string where "enbor_dir = workspace_root @ ''.enbor/''"

definition sited :: "volume_mount list \<Rightarrow> volume \<Rightarrow> bool" where
  "sited ms v \<longleftrightarrow>
     (case v of
        Git_volume n _ _ _ _ \<Rightarrow> \<exists>path. volumeMountPath n ms = Some path \<and> \<not> starts_with path enbor_dir
      | Memory_volume n _ \<Rightarrow> \<exists>path. volumeMountPath n ms = Some path \<and> starts_with path (MEMORY_STORE_MOUNT_ROOT @ ''/'')
      | Empty_dir n _ \<Rightarrow> \<not> mount_read_only n ms
      | Secret_volume _ _ _ \<Rightarrow> True)"

definition all_settled :: "volume_mount list \<Rightarrow> bool" where
  "all_settled ms \<longleftrightarrow> (\<forall>m \<in> set ms. clean_mount_path (vm_path m) \<and> vm_read_only m \<noteq> None)"

lemma all_settled_Cons [simp]:
  "all_settled (m # ms) \<longleftrightarrow> clean_mount_path (vm_path m) \<and> vm_read_only m \<noteq> None \<and> all_settled ms"
  by (simp add: all_settled_def)

lemma normalize_mounts_sound: "normalize_mounts n ms = Inr ms' \<Longrightarrow> all_settled ms'"
proof (induction n ms arbitrary: ms' rule: normalize_mounts.induct)
  case (2 n m ms)
  then obtain path rest where "normalizeWorkspaceMountPath (vm_path m) = Some path" "normalize_mounts (Suc n) ms = Inr rest"
    "ms' = m\<lparr>vm_path := path, vm_read_only := Some (case vm_read_only m of None \<Rightarrow> True | Some b \<Rightarrow> b)\<rparr> # rest"
    by (auto split: option.splits sum.splits)
  with 2(1) show ?case by (simp add: normalized_path_clean)
qed (simp add: all_settled_def)

lemma mount_index_find:
  assumes "mount_index name k ms = Some (i, m)"
  shows "List.find (\<lambda>m. vm_name m = name) ms = Some m" "m \<in> set ms"
  using assms by (induction name k ms rule: mount_index.induct) (auto split: if_splits)

lemma mounted_path:
  "mount_index name k ms = Some (i, m) \<Longrightarrow> volumeMountPath name ms = Some (vm_path m)"
  using mount_index_find(1) by (fastforce simp: volumeMountPath_def)

lemma mounted_mode:
  "mount_index name k ms = Some (i, m) \<Longrightarrow> all_settled ms \<Longrightarrow> mount_read_only name ms = (vm_read_only m = Some True)"
  using mount_index_find [of name k ms i m] by (auto simp: mount_read_only_def all_settled_def split: option.split)

lemma normalize_volume_sound:
  assumes "normalize_volume p n ms paths v = Inr (v', path)" "all_settled ms"
  shows "vol_name v' = vol_name v" "path = path_taken ms v'" "sited ms v'" "\<And>x. path = Some x \<Longrightarrow> x \<notin> set paths"
proof -
  have "vol_name v' = vol_name v \<and> path = path_taken ms v' \<and> sited ms v' \<and> (\<forall>x. path = Some x \<longrightarrow> x \<notin> set paths)"
  proof (cases v)
    case (Git_volume name address ref secretRef items)
    with assms show ?thesis
      by (auto simp: normalize_volume_def normalize_git_def path_taken_def sited_def enbor_dir_def mounted_path
          split: option.splits if_splits)
  next
    case (Memory_volume name memoryRef)
    with assms show ?thesis
      by (auto simp: normalize_volume_def normalize_memory_def path_taken_def sited_def mounted_path
          split: option.splits sum.splits if_splits)
  next
    case (Empty_dir name seeds)
    with assms show ?thesis
      by (auto simp: normalize_volume_def normalize_empty_dir_def path_taken_def sited_def mounted_mode mounted_path
          split: option.splits if_splits)
  qed (use assms in \<open>auto simp: normalize_volume_def path_taken_def sited_def\<close>)
  then show "vol_name v' = vol_name v" "path = path_taken ms v'" "sited ms v'" "\<And>x. path = Some x \<Longrightarrow> x \<notin> set paths"
    by blast+
qed

lemma normalize_volumes_sound:
  assumes "normalize_volumes p n ms names paths vs = Inr vs'" "all_settled ms"
  shows "distinct (map vol_name vs')" "set (map vol_name vs') \<inter> set names = {}" "\<forall>v \<in> set vs'. sited ms v"
    "distinct (List.map_filter (path_taken ms) vs')" "set (List.map_filter (path_taken ms) vs') \<inter> set paths = {}"
proof -
  have "distinct (map vol_name vs') \<and> set (map vol_name vs') \<inter> set names = {} \<and> (\<forall>v \<in> set vs'. sited ms v) \<and>
    distinct (List.map_filter (path_taken ms) vs') \<and> set (List.map_filter (path_taken ms) vs') \<inter> set paths = {}"
    using assms
  proof (induction p n ms names paths vs arbitrary: vs' rule: normalize_volumes.induct)
    case (1 p n ms names paths)
    then show ?case by (simp add: List.map_filter_simps)
  next
    case (2 p n ms names paths v vs)
    from 2(2) obtain v' path rest where new: "vol_name v \<notin> set names"
      and v: "normalize_volume p n ms paths v = Inr (v', path)"
      and rest: "normalize_volumes p (Suc n) ms (vol_name v # names)
         (case path of None \<Rightarrow> paths | Some x \<Rightarrow> x # paths) vs = Inr rest" and vs': "vs' = v' # rest"
      by (auto split: if_splits sum.splits)
    note one = normalize_volume_sound [OF v 2(3)]
    from 2(1) [OF new v refl rest 2(3)] one new show ?case
      by (cases "path_taken ms v'") (auto simp: vs' List.map_filter_simps)
  qed
  then show "distinct (map vol_name vs')" "set (map vol_name vs') \<inter> set names = {}" "\<forall>v \<in> set vs'. sited ms v"
    "distinct (List.map_filter (path_taken ms) vs')" "set (List.map_filter (path_taken ms) vs') \<inter> set paths = {}"
    by blast+
qed

section \<open>References\<close>

definition active_ref :: "'a uri_platform_scheme \<Rightarrow> input_scope \<Rightarrow> vault_db \<Rightarrow> string \<Rightarrow> bool" where
  "active_ref p auth vd ref \<longleftrightarrow> (\<exists>v. resolved p auth ref vd = Inr (Some v) \<and> vv_state v = Ver_active)"

text \<open>
  A reference to a whole vault stands for the active versions of the active credentials in reach; that the
  vault exists, or that there is such a version, is not checked.
\<close>

definition vault_ref :: "'a uri_platform_scheme \<Rightarrow> input_scope \<Rightarrow> vault_db \<Rightarrow> string \<Rightarrow> bool" where
  "vault_ref p auth vd ref \<longleftrightarrow>
     (\<exists>vaultId vs. vaultIdFromRef p ref = Inr (Some vaultId) \<and> vaultId \<noteq> [] \<and>
        vaultVersionsForResolution p (is_organization auth) (is_project auth) ref vd = Inr (Some vs) \<and>
        list_all (\<lambda>(name, v). vv_state v = Ver_active) vs)"

definition refs_checked :: "'a uri_platform_scheme \<Rightarrow> input_scope \<Rightarrow> db \<Rightarrow> vault_db \<Rightarrow> volume \<Rightarrow> bool" where
  "refs_checked p auth d vd v \<longleftrightarrow>
     (case v of
        Git_volume _ _ _ secretRef _ \<Rightarrow> truthy_str secretRef \<longrightarrow> active_ref p auth vd (the secretRef)
      | Memory_volume _ ref \<Rightarrow> \<exists>store. ref = enborMemoryRef p store \<and> activeMemoryStoreExists (is_project auth) store d
      | Empty_dir _ seeds \<Rightarrow> \<forall>s \<in> set (case seeds of None \<Rightarrow> [] | Some x \<Rightarrow> x). active_ref p auth vd (pj_ref s)
      | Secret_volume _ ref items \<Rightarrow> active_ref p auth vd ref \<or> vault_ref p auth vd ref \<and> items_of items = [])"

lemma vault_versions_ref:
  "vaultVersionsForResolution p (is_organization auth) (is_project auth) ref vd = Inr (Some vs) \<Longrightarrow> vault_ref p auth vd ref"
  by (auto simp: vaultVersionsForResolution_def vault_ref_def truthy_str_def resolvable_credential_def list_all_iff
      split: sum.splits if_splits option.splits)

lemma require_active_sound: "require_active p auth vd ref field message = Inr u \<Longrightarrow> active_ref p auth vd ref"
  by (auto simp: require_active_def active_ref_def split: sum.splits if_splits)

lemma check_seeds_sound:
  "check_seeds p auth vd field n paths seeds = Inr u \<Longrightarrow> s \<in> set seeds \<Longrightarrow> active_ref p auth vd (pj_ref s)"
  by (induction p auth vd field n paths seeds rule: check_seeds.induct)
     (auto simp: Let_def dest: require_active_sound split: sum.splits)

lemma check_volume_sound:
  assumes "check_volume p auth vd n v = Inr u" "\<And>name ref. v \<noteq> Memory_volume name ref"
  shows "refs_checked p auth d vd v"
proof (cases v)
  case (Secret_volume name ref items)
  with assms show ?thesis
    by (auto simp: check_volume_def check_secret_volume_def refs_checked_def active_ref_def Let_def
        split: sum.splits option.splits if_splits dest: vault_versions_ref)
qed (use assms in \<open>auto simp: check_volume_def refs_checked_def Let_def require_active_sound check_seeds_sound
       split: sum.splits if_splits\<close>)

lemma check_volumes_sound:
  assumes "check_volumes p auth vd n names vs = Inr u"
  shows "distinct (map vol_name vs)" "\<forall>v \<in> set vs. vol_name v \<notin> set names \<and> volume_name (vol_name v) \<and> (\<exists>k u. check_volume p auth vd k v = Inr u)"
proof -
  have "distinct (map vol_name vs) \<and>
    (\<forall>v \<in> set vs. vol_name v \<notin> set names \<and> volume_name (vol_name v) \<and> (\<exists>k u. check_volume p auth vd k v = Inr u))"
    using assms by (induction p auth vd n names vs rule: check_volumes.induct) (fastforce split: if_splits sum.splits)+
  then show "distinct (map vol_name vs)"
    "\<forall>v \<in> set vs. vol_name v \<notin> set names \<and> volume_name (vol_name v) \<and> (\<exists>k u. check_volume p auth vd k v = Inr u)" by blast+
qed

lemma check_mounts_sound:
  assumes "check_mounts names n mounted ms = Inr u"
  shows "distinct (map vm_name ms)" "\<forall>m \<in> set ms. vm_name m \<in> set names \<and> vm_name m \<notin> set mounted"
proof -
  have "distinct (map vm_name ms) \<and> (\<forall>m \<in> set ms. vm_name m \<in> set names \<and> vm_name m \<notin> set mounted)"
    using assms by (induction names n mounted ms rule: check_mounts.induct) (fastforce split: if_splits)+
  then show "distinct (map vm_name ms)" "\<forall>m \<in> set ms. vm_name m \<in> set names \<and> vm_name m \<notin> set mounted" by blast+
qed

text \<open>Resolving the memory volumes changes only what their references say.\<close>

lemma resolve_volume_sound:
  assumes "resolve_volume p projectId d n v = Inr v'"
  shows "vol_name v' = vol_name v" "path_taken ms v' = path_taken ms v" "sited ms v' = sited ms v"
    "v' = Memory_volume name ref \<Longrightarrow> \<exists>store. ref = enborMemoryRef p store \<and> activeMemoryStoreExists projectId store d"
  using assms by (auto simp: resolve_volume_def path_taken_def sited_def split: volume.splits sum.splits if_splits)

lemma resolve_memory_sound:
  assumes "resolve_memory p projectId d n vs = Inr vs'"
  shows "map vol_name vs' = map vol_name vs" "map (path_taken ms) vs' = map (path_taken ms) vs"
    "map (sited ms) vs' = map (sited ms) vs"
    "\<forall>name ref. Memory_volume name ref \<in> set vs' \<longrightarrow> (\<exists>store. ref = enborMemoryRef p store \<and> activeMemoryStoreExists projectId store d)"
proof -
  have "map vol_name vs' = map vol_name vs \<and> map (path_taken ms) vs' = map (path_taken ms) vs \<and>
    map (sited ms) vs' = map (sited ms) vs \<and>
    (\<forall>name ref. Memory_volume name ref \<in> set vs' \<longrightarrow> (\<exists>store. ref = enborMemoryRef p store \<and> activeMemoryStoreExists projectId store d))"
    using assms
  proof (induction p projectId d n vs arbitrary: vs' rule: resolve_memory.induct)
    case (2 p projectId d n v vs)
    then obtain v' rest where v: "resolve_volume p projectId d n v = Inr v'"
      and rest: "resolve_memory p projectId d (Suc n) vs = Inr rest" and vs': "vs' = v' # rest"
      by (auto split: sum.splits)
    from 2(1) [OF v rest] resolve_volume_sound [OF v] show ?case by (auto simp: vs')
  qed simp
  then show "map vol_name vs' = map vol_name vs" "map (path_taken ms) vs' = map (path_taken ms) vs"
    "map (sited ms) vs' = map (sited ms) vs"
    "\<forall>name ref. Memory_volume name ref \<in> set vs' \<longrightarrow> (\<exists>store. ref = enborMemoryRef p store \<and> activeMemoryStoreExists projectId store d)"
    by blast+
qed

lemma map_filter_map: "List.map_filter f xs = map the (filter (\<lambda>x. x \<noteq> None) (map f xs))"
  by (induction xs) (auto simp: List.map_filter_simps split: option.split)

lemma settled_mounts: "all_settled ms \<Longrightarrow> map settled_mount ms = ms"
  by (induction ms) (auto simp: settled_mount_def)

section \<open>The inputs of an identity\<close>

definition state_volume :: "identity_descriptor \<Rightarrow> volume" where
  "state_volume b = Empty_dir REALMROOT_STATE_VOLUME (Some [\<lparr>pj_ref = id_credential b,
     pj_items = Some [\<lparr>it_key = ''state.json'',
       it_path = ''identities/'' @ base64Url (id_issuer b) @ ''/'' @ base64Url (id_runtime b) @ ''.json''\<rparr>]\<rparr>])"

definition state_mount :: volume_mount where
  "state_mount = \<lparr>vm_name = REALMROOT_STATE_VOLUME, vm_path = REALMROOT_STATE_DIR, vm_read_only = Some False\<rparr>"

lemma identity_inputs_cases:
  assumes "identityRuntimeInputs p binding sid env envFrom vs ms = Inr (env', vs1, ms1)"
  obtains "binding = None" "vs1 = vs" "ms1 = ms" "env' = env"
  | b where "binding = Some b" "vs1 = vs @ [state_volume b]" "ms1 = ms @ [state_mount]"
      "\<And>v. v \<in> set vs \<Longrightarrow> vol_name v \<noteq> REALMROOT_STATE_VOLUME"
      "\<And>m. m \<in> set ms \<Longrightarrow> \<not> pathsOverlap (vm_path m) REALMROOT_STATE_DIR"
  using assms
  by (auto simp: identityRuntimeInputs_def state_volume_def state_mount_def list_ex_iff split: option.splits if_splits)

lemma state_dir_clean: "clean_mount_path REALMROOT_STATE_DIR"
  unfolding clean_mount_path_def REALMROOT_STATE_DIR_def workspace_root_def
  by (rule exI [of _ "[''.enbor'', ''realmroot-state'']"]) simp

lemma find_append: "List.find P (xs @ ys) = (case List.find P xs of None \<Rightarrow> List.find P ys | r \<Rightarrow> r)"
  by (induction xs) auto

lemma path_appended: "volumeMountPath n ms = Some path \<Longrightarrow> volumeMountPath n (ms @ xs) = Some path"
  by (auto simp: volumeMountPath_def find_append)

lemma mode_appended: "\<not> mount_read_only n ms \<Longrightarrow> \<not> mount_read_only n (ms @ xs)"
  by (auto simp: mount_read_only_def find_append split: option.splits)

lemma writable_mounted: "\<not> mount_read_only n ms \<Longrightarrow> \<exists>m. volumeMountPath n ms = Some m"
  by (auto simp: mount_read_only_def volumeMountPath_def bind_eq_Some_conv split: option.splits)

lemma sited_appended:
  assumes "sited ms v"
  shows "sited (ms @ xs) v" "path_taken (ms @ xs) v = path_taken ms v"
proof -
  have "sited (ms @ xs) v \<and> path_taken (ms @ xs) v = path_taken ms v"
  proof (cases v)
    case (Git_volume n u r s i)
    with assms show ?thesis using path_appended [of n ms _ xs] by (auto simp: sited_def path_taken_def)
  next
    case (Memory_volume n r)
    with assms show ?thesis using path_appended [of n ms _ xs] by (auto simp: sited_def path_taken_def)
  next
    case (Empty_dir n s)
    with assms show ?thesis
      using path_appended [of n ms _ xs] mode_appended [of n ms xs] writable_mounted [of n ms]
      by (auto simp: sited_def path_taken_def)
  qed (simp add: sited_def path_taken_def)
  then show "sited (ms @ xs) v" "path_taken (ms @ xs) v = path_taken ms v" by blast+
qed

section \<open>The accepted workspace\<close>

text \<open>The mounts and the volumes of an identity keep what normalisation has settled.\<close>

lemma identity_inputs_sound:
  assumes "identityRuntimeInputs p binding sid env envFrom vs ms = Inr (env', vs1, ms1)" "all_settled ms"
    and "\<forall>v \<in> set vs. sited ms v" "distinct (List.map_filter (path_taken ms) vs)" "distinct (map vm_name ms1)"
  shows "all_settled ms1" "\<forall>v \<in> set vs1. sited ms1 v" "distinct (List.map_filter (path_taken ms1) vs1)"
proof -
  have "all_settled ms1 \<and> (\<forall>v \<in> set vs1. sited ms1 v) \<and> distinct (List.map_filter (path_taken ms1) vs1)"
    using assms(1)
  proof (cases rule: identity_inputs_cases)
    case 1
    with assms show ?thesis by simp
  next
    case (2 b)
    have same: "sited ms1 v" "path_taken ms1 v = path_taken ms v" if "v \<in> set vs" for v
      using sited_appended [of ms v "[state_mount]"] assms(3) that 2(3) by auto
    have new: "REALMROOT_STATE_VOLUME \<notin> vm_name ` set ms" using assms(5) 2(3) by (simp add: state_mount_def)
    then have "List.find (\<lambda>m. vm_name m = REALMROOT_STATE_VOLUME) ms = None" by (force simp: find_None_iff image_iff)
    then have state: "volumeMountPath REALMROOT_STATE_VOLUME ms1 = Some REALMROOT_STATE_DIR"
      "\<not> mount_read_only REALMROOT_STATE_VOLUME ms1"
      by (simp_all add: volumeMountPath_def mount_read_only_def find_append 2(3) state_mount_def)
    have away: "path \<noteq> REALMROOT_STATE_DIR" if v: "v \<in> set vs" and t: "path_taken ms v = Some path" for v path
    proof -
      have "volumeMountPath (vol_name v) ms = Some path" using t by (auto simp: path_taken_def split: volume.splits)
      then obtain m where "m \<in> set ms" "vm_path m = path"
        unfolding volumeMountPath_def find_Some_iff map_option_eq_Some by (metis nth_mem)
      with 2(5) show ?thesis by (auto simp: pathsOverlap_def)
    qed
    have taken: "List.map_filter (path_taken ms1) vs1 = List.map_filter (path_taken ms) vs @ [REALMROOT_STATE_DIR]"
    proof -
      have vs: "map (path_taken ms1) vs = map (path_taken ms) vs" using same(2) by simp
      have "path_taken ms1 (state_volume b) = Some REALMROOT_STATE_DIR" by (simp add: path_taken_def state_volume_def state)
      then show ?thesis unfolding map_filter_map 2(2) map_append filter_append vs by simp
    qed
    have "REALMROOT_STATE_DIR \<notin> set (List.map_filter (path_taken ms) vs)"
      using away by (force simp: map_filter_map)
    then have "distinct (List.map_filter (path_taken ms1) vs1)" using assms(4) taken by simp
    moreover have "sited ms1 (state_volume b)" by (simp add: sited_def state_volume_def state)
    moreover have "all_settled ms1"
      using assms(2) state_dir_clean by (auto simp: all_settled_def 2(3) state_mount_def)
    ultimately show ?thesis using same(1) 2(2) by auto
  qed
  then show "all_settled ms1" "\<forall>v \<in> set vs1. sited ms1 v" "distinct (List.map_filter (path_taken ms1) vs1)" by blast+
qed

lemma declared_volumes_sound:
  assumes "validateDeclaredVolumes p auth vd vs ms = Inr (vs', ms')"
  shows "vs' = vs" "ms' = map settled_mount ms" "distinct (map vol_name vs)" "distinct (map vm_name ms)"
    "set (map vm_name ms) = set (map vol_name vs)" "\<forall>v \<in> set vs. \<exists>k u. check_volume p auth vd k v = Inr u"
proof -
  obtain u w where c: "check_volumes p auth vd 0 [] vs = Inr u" "check_mounts (map vol_name vs) 0 [] ms = Inr w"
    "List.find (\<lambda>name. name \<notin> set (map vm_name ms)) (map vol_name vs) = None" "vs' = vs" "ms' = map settled_mount ms"
    using assms by (auto simp: validateDeclaredVolumes_def split: sum.splits option.splits)
  then show "vs' = vs" "ms' = map settled_mount ms" by simp_all
  show "distinct (map vol_name vs)" "\<forall>v \<in> set vs. \<exists>k u. check_volume p auth vd k v = Inr u"
    using check_volumes_sound [OF c(1)] by blast+
  show "distinct (map vm_name ms)" using check_mounts_sound(1) [OF c(2)] .
  have "set (map vol_name vs) \<subseteq> set (map vm_name ms)" using c(3) by (auto simp: find_None_iff)
  with check_mounts_sound(2) [OF c(2)] show "set (map vm_name ms) = set (map vol_name vs)" by auto
qed

lemma workspace_sound:
  assumes "normalizeWorkspaceSpec p volumes mounts = Inr (vs, ms)"
    and "identityRuntimeInputs p binding sid env envFrom vs ms = Inr (env', vs1, ms1)"
    and "resolveMemoryVolumes p (is_project auth) d vs1 = Inr vs2"
    and "validateDeclaredVolumes p auth vd vs2 ms1 = Inr (vs', ms')"
  shows "distinct (map vol_name vs') \<and> distinct (map vm_name ms') \<and> set (map vm_name ms') = set (map vol_name vs') \<and>
    (\<forall>m \<in> set ms'. clean_mount_path (vm_path m)) \<and> distinct (List.map_filter (path_taken ms') vs') \<and>
    (\<forall>v \<in> set vs'. sited ms' v \<and> refs_checked p auth d vd v)"
proof -
  obtain ms0 where n: "normalize_mounts 0 mounts = Inr ms0" "normalize_volumes p 0 ms0 [] [] volumes = Inr vs" "ms = ms0"
    using assms(1) by (auto simp: normalizeWorkspaceSpec_def split: sum.splits)
  have ms: "all_settled ms" using normalize_mounts_sound [OF n(1)] n(3) by simp
  have nv: "normalize_volumes p 0 ms [] [] volumes = Inr vs" using n by simp
  note norm = normalize_volumes_sound [OF nv ms]
  note decl = declared_volumes_sound [OF assms(4)]
  note ident = identity_inputs_sound [OF assms(2) ms norm(3,4) decl(4)]
  have res: "resolve_memory p (is_project auth) d 0 vs1 = Inr vs2" using assms(3) by (simp add: resolveMemoryVolumes_def)
  note mem = resolve_memory_sound [OF res]
  have ms': "ms' = ms1" using decl(2) settled_mounts [OF ident(1)] by simp
  have "\<forall>v \<in> set vs2. sited ms1 v"
    using mem(3) [of ms1] ident(2) by (metis (no_types, lifting) in_set_conv_nth length_map nth_map nth_mem)
  moreover have "distinct (List.map_filter (path_taken ms1) vs2)"
    using ident(3) mem(2) [of ms1] by (simp add: map_filter_map)
  moreover have "\<forall>m \<in> set ms1. clean_mount_path (vm_path m)" using ident(1) by (simp add: all_settled_def)
  moreover have "refs_checked p auth d vd v" if v: "v \<in> set vs2" for v
  proof (cases "\<exists>name ref. v = Memory_volume name ref")
    case True
    with mem(4) v show ?thesis by (auto simp: refs_checked_def)
  next
    case False
    with decl(6) v check_volume_sound show ?thesis by blast
  qed
  ultimately show ?thesis using decl(1,3,4,5) ms' by simp
qed

text \<open>
  C39 (safety): in the workspace of an accepted session the volumes have different names,
  each is mounted exactly once and the mounts lie under the workspace, without a step up;
  repositories stay out of the reserved directory, memory stores inside theirs and empty
  directories are writable; no two repositories, memory stores or empty directories share
  a mount path, the state of an identity included; and every credential and memory store it names
  was active in the caller's organization and project when it was accepted. A secret volume may instead
  name a whole vault, without items; of such a reference only the form is checked.
\<close>

theorem workspace_confined:
  assumes "normalizeWorkspaceSpec p volumes mounts = Inr (vs, ms)"
    and "identityRuntimeInputs p binding sid env envFrom vs ms = Inr (env', vs1, ms1)"
    and "resolveMemoryVolumes p (is_project auth) d vs1 = Inr vs2"
    and "validateDeclaredVolumes p auth vd vs2 ms1 = Inr (vs', ms')"
  shows "distinct (map vol_name vs') \<and> distinct (map vm_name ms') \<and> set (map vm_name ms') = set (map vol_name vs') \<and>
    (\<forall>m \<in> set ms'. clean_mount_path (vm_path m)) \<and> distinct (List.map_filter (path_taken ms') vs') \<and>
    (\<forall>v \<in> set vs'. sited ms' v \<and> refs_checked p auth d vd v)"
  by (rule workspace_sound [OF assms])

definition demo_scope :: input_scope where
  "demo_scope = \<lparr>is_organization = ''o'', is_project = ''p''\<rparr>"

definition demo_volumes :: "volume list" where
  "demo_volumes = [Secret_volume ''token'' ''enbor://vaults/v/credentials/c'' (Some [\<lparr>it_key = ''token'', it_path = ''a/t''\<rparr>]),
     Empty_dir ''cache'' None]"

definition demo_mounts :: "volume_mount list" where
  "demo_mounts = [\<lparr>vm_name = ''token'', vm_path = '' secrets '', vm_read_only = None\<rparr>,
     \<lparr>vm_name = ''cache'', vm_path = ''/workspace/cache'', vm_read_only = Some False\<rparr>]"

definition demo_binding :: identity_descriptor where
  "demo_binding = \<lparr>id_identity = ''i'', id_agent = ''a'', id_issuer = ''enbor://i'',
     id_subject = ''s'', id_username = ''u'', id_runtime = ''codex'',
     id_credential = ''enbor://vaults/v/credentials/c''\<rparr>"

definition demo_accepted_mounts :: "volume_mount list" where
  "demo_accepted_mounts = [\<lparr>vm_name = ''token'', vm_path = ''/workspace/secrets'', vm_read_only = Some True\<rparr>,
     \<lparr>vm_name = ''cache'', vm_path = ''/workspace/cache'', vm_read_only = Some False\<rparr>, state_mount]"

definition no_db :: db where
  "no_db = \<lparr>sessions = [], work_items = [], leases = [], runners = [], channels = [], events = [], memory_stores = [],
     memories = [], environments = [], creations = [], approvals = []\<rparr>"

lemma demo_inputs:
  "normalizeWorkspaceSpec demo_platform demo_volumes demo_mounts = Inr (demo_volumes, butlast demo_accepted_mounts)"
  "identityRuntimeInputs demo_platform (Some demo_binding) ''s'' [] [] demo_volumes (butlast demo_accepted_mounts) =
     Inr ([(''AGENT'', ''codex''), (''AGENT_SESSION_ID'', ''s''), (''REALMROOT_ORIGIN'', ''null''),
           (''REALMROOT_STATE_DIR'', REALMROOT_STATE_DIR)], demo_volumes @ [state_volume demo_binding], demo_accepted_mounts)"
  "resolveMemoryVolumes demo_platform ''p'' no_db (demo_volumes @ [state_volume demo_binding]) =
     Inr (demo_volumes @ [state_volume demo_binding])"
  "validateDeclaredVolumes demo_platform demo_scope demo_stored (demo_volumes @ [state_volume demo_binding]) demo_accepted_mounts =
     Inr (demo_volumes @ [state_volume demo_binding], demo_accepted_mounts)"
  by code_simp+

theorem workspace_confined_witness:
  "distinct (map vol_name (demo_volumes @ [state_volume demo_binding])) \<and>
   distinct (List.map_filter (path_taken demo_accepted_mounts) (demo_volumes @ [state_volume demo_binding])) \<and>
   refs_checked demo_platform demo_scope no_db demo_stored (hd demo_volumes)"
proof -
  have r: "resolveMemoryVolumes demo_platform (is_project demo_scope) no_db (demo_volumes @ [state_volume demo_binding]) =
     Inr (demo_volumes @ [state_volume demo_binding])"
    using demo_inputs(3) by (simp add: demo_scope_def)
  have "hd demo_volumes \<in> set (demo_volumes @ [state_volume demo_binding])" by (simp add: demo_volumes_def)
  with workspace_confined [OF demo_inputs(1,2) r demo_inputs(4)] show ?thesis by blast
qed

text \<open>
  The rule that a mount path is unique within a session is checked for repositories, memory
  stores and empty directories only: two secret volumes, or a secret volume and a writable directory,
  may be mounted at one path.
\<close>

theorem secret_mounts_may_collide:
  "normalizeWorkspaceSpec demo_platform demo_volumes
     [\<lparr>vm_name = ''token'', vm_path = ''cache'', vm_read_only = None\<rparr>,
      \<lparr>vm_name = ''cache'', vm_path = ''/workspace/cache'', vm_read_only = Some False\<rparr>] =
   Inr (demo_volumes,
     [\<lparr>vm_name = ''token'', vm_path = ''/workspace/cache'', vm_read_only = Some True\<rparr>,
      \<lparr>vm_name = ''cache'', vm_path = ''/workspace/cache'', vm_read_only = Some False\<rparr>])"
  by code_simp

text \<open>
  The message of the check asks for an active credential version or vault, but a vault that does not exist
  is accepted: the list of its versions is empty, and the check only refuses a missing list.
\<close>

theorem unknown_vault_accepted:
  "validateDeclaredVolumes demo_platform demo_scope demo_stored [Secret_volume ''x'' ''enbor://vaults/ghost'' None]
     [\<lparr>vm_name = ''x'', vm_path = ''/workspace/x'', vm_read_only = None\<rparr>] =
   Inr ([Secret_volume ''x'' ''enbor://vaults/ghost'' None],
     [\<lparr>vm_name = ''x'', vm_path = ''/workspace/x'', vm_read_only = Some True\<rparr>])"
  "\<not> list_ex (\<lambda>v. va_id v = ''ghost'') (vault_rows demo_stored)"
  by code_simp+

end
