(* ===== verification/RuntimeSecrets.thy ===== *)
theory RuntimeSecrets
  imports WorkspaceFacts
begin

text \<open>
  What a runtime is handed at dispatch (\<open>server/adapters/gateways/runtime-secrets.ts\<close>): the
  environment variables of the secrets a session names, and the manifest of its workspace with
  the files of its secrets and memory stores. Decrypting one stored value is an argument: it
  throws, finds no stored value (\<open>None\<close>), or gives the text.
\<close>

type_synonym decryption = "json \<Rightarrow> string + string option"

type_synonym secret_data = "(string \<times> string) list"

definition reference_error :: "string \<Rightarrow> string \<Rightarrow> string" where
  "reference_error ref what = ''Runtime secret reference '' @ ref @ what"

definition unresolvable :: "string \<Rightarrow> string" where
  "unresolvable ref = reference_error ref '' cannot be resolved''"

section \<open>Decryption\<close>

fun decrypt_all :: "decryption \<Rightarrow> string \<Rightarrow> (string \<times> json) list \<Rightarrow> string + secret_data" where
  "decrypt_all decrypt ref [] = Inr []"
| "decrypt_all decrypt ref ((key, encrypted) # rest) =
     then_ok (decrypt encrypted) (\<lambda>found.
       case found of
         None \<Rightarrow> Inl (unresolvable ref)
       | Some x \<Rightarrow> then_ok (decrypt_all decrypt ref rest) (\<lambda>data. Inr ((key, x) # data)))"

definition decryptVersionData :: "decryption \<Rightarrow> json \<Rightarrow> string \<Rightarrow> string + secret_data" where
  "decryptVersionData decrypt metadata ref =
     (case jget metadata ''encryptedSecretData'' of
        Some (JObj kvs) \<Rightarrow> decrypt_all decrypt ref kvs
      | _ \<Rightarrow> Inl (unresolvable ref))"

definition singleDataKey :: "secret_data \<Rightarrow> string \<Rightarrow> string + string" where
  "singleDataKey data ref =
     (case data of [(key, _)] \<Rightarrow> Inr key | _ \<Rightarrow> Inl (reference_error ref '' must specify a data key''))"

section \<open>The environment\<close>

definition secretValueForEnv :: "env_entry \<Rightarrow> secret_data \<Rightarrow> string \<Rightarrow> string + string" where
  "secretValueForEnv entry data ref =
     then_ok (case ee_key entry of Some key \<Rightarrow> Inr key | None \<Rightarrow> singleDataKey data ref) (\<lambda>key.
       case map_of data key of
         None \<Rightarrow> Inl (reference_error ref ('' has no data key '' @ key))
       | Some x \<Rightarrow> Inr x)"

definition addResolvedEnv :: "secret_data \<Rightarrow> string \<Rightarrow> string \<Rightarrow> string \<Rightarrow> string + secret_data" where
  "addResolvedEnv env name x ref =
     (if \<not> env_name name then Inl (reference_error ref ('' projects invalid environment variable '' @ name))
      else if name \<in> fst ` set env
      then Inl (reference_error ref ('' projects duplicate environment variable '' @ name))
      else Inr (env @ [(name, x)]))"

fun add_all :: "secret_data \<Rightarrow> secret_data \<Rightarrow> string \<Rightarrow> string + secret_data" where
  "add_all env [] ref = Inr env"
| "add_all env ((name, x) # rest) ref = then_ok (addResolvedEnv env name x ref) (\<lambda>env'. add_all env' rest ref)"

definition resolve_entry ::
    "'a uri_platform_scheme \<Rightarrow> decryption \<Rightarrow> input_scope \<Rightarrow> vault_db \<Rightarrow> secret_data \<Rightarrow> env_entry \<Rightarrow> string + secret_data" where
  "resolve_entry p decrypt auth vd env entry =
     (let ref = ee_ref entry in
      then_ok (resolved p auth ref vd) (\<lambda>found.
        case found of
          None \<Rightarrow> Inl (unresolvable ref)
        | Some version \<Rightarrow>
            if vv_state version = Ver_revoked then Inl (reference_error ref '' is revoked by vault policy'')
            else then_ok (decryptVersionData decrypt (vv_metadata version) ref) (\<lambda>data.
              case ee_name entry of
                None \<Rightarrow>
                  if ee_key entry \<noteq> None then Inl (reference_error ref '' requires name when key is specified'')
                  else add_all env data ref
              | Some name \<Rightarrow> then_ok (secretValueForEnv entry data ref) (\<lambda>x. addResolvedEnv env name x ref))))"

fun resolve_entries ::
    "'a uri_platform_scheme \<Rightarrow> decryption \<Rightarrow> input_scope \<Rightarrow> vault_db \<Rightarrow> secret_data \<Rightarrow> env_entry list \<Rightarrow> string + secret_data" where
  "resolve_entries p decrypt auth vd env [] = Inr env"
| "resolve_entries p decrypt auth vd env (entry # rest) =
     then_ok (resolve_entry p decrypt auth vd env entry) (\<lambda>env'. resolve_entries p decrypt auth vd env' rest)"

definition resolveEnvFrom ::
    "'a uri_platform_scheme \<Rightarrow> decryption \<Rightarrow> input_scope \<Rightarrow> vault_db \<Rightarrow> env_entry list \<Rightarrow> string + secret_data" where
  "resolveEnvFrom p decrypt auth vd = resolve_entries p decrypt auth vd []"

section \<open>Files\<close>

definition file_chars :: "string \<Rightarrow> bool" where
  "file_chars s \<longleftrightarrow> s \<noteq> [] \<and> list_all path_char s \<and> s \<noteq> ''.'' \<and> s \<noteq> ''..''"

definition safeFileName :: "string \<Rightarrow> string + string" where
  "safeFileName s =
     (if file_chars s then Inr s else Inl (''Vault credential name cannot be mounted as a file: '' @ s))"

definition safeFilePath :: "string \<Rightarrow> string + string" where
  "safeFilePath s =
     (if item_path s then Inr s else Inl (''Vault credential item path cannot be mounted as a file: '' @ s))"

fun project_items :: "secret_data \<Rightarrow> string \<Rightarrow> secret_data \<Rightarrow> secret_item list \<Rightarrow> string + secret_data" where
  "project_items data ref projected [] = Inr projected"
| "project_items data ref projected (item # rest) =
     (case map_of data (it_key item) of
        None \<Rightarrow> Inl (reference_error ref ('' has no data key '' @ it_key item))
      | Some x \<Rightarrow>
          then_ok (safeFilePath (it_path item)) (\<lambda>path.
            if path \<in> fst ` set projected
            then Inl (reference_error ref ('' projects duplicate item path '' @ path))
            else project_items data ref (projected @ [(path, x)]) rest))"

definition projectSecretData :: "secret_data \<Rightarrow> secret_item list option \<Rightarrow> string \<Rightarrow> string + secret_data" where
  "projectSecretData data items ref =
     (if items_of items = [] then Inr data else project_items data ref [] (items_of items))"

fun check_paths :: "secret_data \<Rightarrow> string + secret_data" where
  "check_paths [] = Inr []"
| "check_paths ((path, content) # rest) =
     then_ok (safeFilePath path) (\<lambda>safe. then_ok (check_paths rest) (\<lambda>files. Inr ((safe, content) # files)))"

definition filesFromSecretData :: "platform \<Rightarrow> secret_data \<Rightarrow> string + secret_data" where
  "filesFromSecretData p data = check_paths (sort_by (\<lambda>a b. pl_before p (fst a) (fst b)) data)"

fun vault_files :: "platform \<Rightarrow> decryption \<Rightarrow> (string \<times> version_row) list \<Rightarrow> string + secret_data" where
  "vault_files p decrypt [] = Inr []"
| "vault_files p decrypt ((name, version) # rest) =
     (if vv_state version \<noteq> Ver_active then vault_files p decrypt rest
      else then_ok (safeFileName name) (\<lambda>folder.
           then_ok (decryptVersionData decrypt (vv_metadata version) (vv_ref version)) (\<lambda>data.
           then_ok (filesFromSecretData p data) (\<lambda>files.
           then_ok (vault_files p decrypt rest) (\<lambda>others.
           Inr (map (\<lambda>(path, content). (folder @ CHR ''/'' # path, content)) files @ others))))))"

definition resolveSecretMount ::
    "platform \<Rightarrow> decryption \<Rightarrow> input_scope \<Rightarrow> vault_db \<Rightarrow> string \<Rightarrow> secret_item list option \<Rightarrow> string + secret_data" where
  "resolveSecretMount p decrypt auth vd ref items =
     then_ok (resolved p auth ref vd) (\<lambda>found.
       case found of
         Some version \<Rightarrow>
           if vv_state version \<noteq> Ver_active then Inl (unresolvable ref)
           else then_ok (decryptVersionData decrypt (vv_metadata version) ref) (\<lambda>data.
                then_ok (projectSecretData data items ref) (filesFromSecretData p))
       | None \<Rightarrow>
           if items_of items \<noteq> []
           then Inl (reference_error ref '' cannot use items without a credential reference'')
           else then_ok (vaultVersionsForResolution p (is_organization auth) (is_project auth) ref vd) (\<lambda>versions.
             case versions of None \<Rightarrow> Inl (unresolvable ref) | Some vs \<Rightarrow> vault_files p decrypt vs))"

section \<open>Git credentials\<close>

record git_credential =
  gc_username :: string
  gc_password :: string

definition parseGitCredential :: "string \<Rightarrow> git_credential" where
  "parseGitCredential secret =
     (let trimmed = js_trim secret in
      if CHR '':'' \<in> set trimmed
      then \<lparr>gc_username = takeWhile (\<lambda>c. c \<noteq> CHR '':'') trimmed,
            gc_password = drop 1 (dropWhile (\<lambda>c. c \<noteq> CHR '':'') trimmed)\<rparr>
      else \<lparr>gc_username = ''x-access-token'', gc_password = trimmed\<rparr>)"

definition first_of :: "secret_data \<Rightarrow> string list \<Rightarrow> string option" where
  "first_of data keys = (case List.find (\<lambda>k. map_of data k \<noteq> None) keys of None \<Rightarrow> None | Some k \<Rightarrow> map_of data k)"

definition gitCredentialFromSecretData :: "secret_data \<Rightarrow> string \<Rightarrow> string + git_credential" where
  "gitCredentialFromSecretData data ref =
     (case (map_of data ''username'', map_of data ''password'') of
        (Some u, Some w) \<Rightarrow> Inr \<lparr>gc_username = u, gc_password = w\<rparr>
      | _ \<Rightarrow>
          (case first_of data [''access-token'', ''token'', ''value''] of
             Some token \<Rightarrow> Inr (parseGitCredential token)
           | None \<Rightarrow> then_ok (singleDataKey data ref) (\<lambda>key. Inr (parseGitCredential (the (map_of data key))))))"

definition resolveGitCredential ::
    "'a uri_platform_scheme \<Rightarrow> decryption \<Rightarrow> input_scope \<Rightarrow> vault_db \<Rightarrow> string \<Rightarrow> secret_item list option \<Rightarrow>
     string + git_credential" where
  "resolveGitCredential p decrypt auth vd ref items =
     then_ok (resolved p auth ref vd) (\<lambda>found.
       case found of
         None \<Rightarrow> Inl (''Runtime git secret reference '' @ ref @ '' cannot be resolved'')
       | Some version \<Rightarrow>
           if vv_state version \<noteq> Ver_active
           then Inl (''Runtime git secret reference '' @ ref @ '' cannot be resolved'')
           else then_ok (decryptVersionData decrypt (vv_metadata version) (vv_ref version)) (\<lambda>data.
                then_ok (projectSecretData data items ref) (\<lambda>projected.
                gitCredentialFromSecretData projected (vv_ref version))))"

section \<open>The manifest\<close>

datatype manifest_mount =
    Git_mount string string string "string option" "git_credential option"
  | Memory_mount string string string bool "(string \<times> string) list"
  | Secret_mount string string "(string \<times> string) list"
  | Empty_mount string string "(string \<times> string) list"

definition memory_unresolvable :: "string \<Rightarrow> string" where
  "memory_unresolvable ref = ''Runtime memory store reference '' @ ref @ '' cannot be resolved''"

fun seed_files ::
    "platform \<Rightarrow> decryption \<Rightarrow> input_scope \<Rightarrow> vault_db \<Rightarrow> projection list \<Rightarrow> string + secret_data" where
  "seed_files p decrypt auth vd [] = Inr []"
| "seed_files p decrypt auth vd (seed # rest) =
     then_ok (resolveSecretMount p decrypt auth vd (pj_ref seed) (pj_items seed)) (\<lambda>files.
     then_ok (seed_files p decrypt auth vd rest) (\<lambda>others. Inr (files @ others)))"

fun first_repeated :: "string list \<Rightarrow> string list \<Rightarrow> string option" where
  "first_repeated seen [] = None"
| "first_repeated seen (x # xs) = (if x \<in> set seen then Some x else first_repeated (x # seen) xs)"

definition git_mount ::
    "platform \<Rightarrow> decryption \<Rightarrow> input_scope \<Rightarrow> vault_db \<Rightarrow> string option \<Rightarrow> string \<Rightarrow> string \<Rightarrow> string option \<Rightarrow>
     string option \<Rightarrow> secret_item list option \<Rightarrow> string + manifest_mount" where
  "git_mount p decrypt auth vd path name address branch secretRef items =
     then_ok (if truthy_str secretRef
              then then_ok (resolveGitCredential p decrypt auth vd (the secretRef) items) (\<lambda>c. Inr (Some c))
              else Inr None) (\<lambda>credential.
     then_ok (case path of Some x \<Rightarrow> Inr x | None \<Rightarrow> gitRepositoryMountPath p address) (\<lambda>place.
     Inr (Git_mount name place address (drop_empty branch) credential)))"

definition memory_mount ::
    "platform \<Rightarrow> id \<Rightarrow> db \<Rightarrow> volume_mount list \<Rightarrow> string option \<Rightarrow> string \<Rightarrow> string \<Rightarrow> string + manifest_mount" where
  "memory_mount p projectId d mounts path name memoryRef =
     then_ok (memoryStoreIdFromRef p memoryRef) (\<lambda>storeId.
       if \<not> truthy_str storeId then Inl (memory_unresolvable memoryRef)
       else case findActiveMemoryStoreResource projectId (the storeId) d of
         None \<Rightarrow> Inl (memory_unresolvable memoryRef)
       | Some (place, stored) \<Rightarrow>
           Inr (Memory_mount name (case path of None \<Rightarrow> place | Some x \<Rightarrow> x)
                  (enborMemoryRef p (the storeId)) (mount_read_only name mounts) stored))"

definition manifest_mount ::
    "platform \<Rightarrow> decryption \<Rightarrow> input_scope \<Rightarrow> db \<Rightarrow> vault_db \<Rightarrow> volume_mount list \<Rightarrow> volume \<Rightarrow> string + manifest_mount" where
  "manifest_mount p decrypt auth d vd mounts v =
     (let path = volumeMountPath (vol_name v) mounts in
      case v of
        Git_volume name address branch secretRef items \<Rightarrow> git_mount p decrypt auth vd path name address branch secretRef items
      | Memory_volume name memoryRef \<Rightarrow> memory_mount p (is_project auth) d mounts path name memoryRef
      | Empty_dir name seeds \<Rightarrow>
          then_ok (seed_files p decrypt auth vd (case seeds of None \<Rightarrow> [] | Some x \<Rightarrow> x)) (\<lambda>files.
            case first_repeated [] (map fst files) of
              Some x \<Rightarrow> Inl (''Runtime empty directory volume '' @ name @ '' projects duplicate item path '' @ x)
            | None \<Rightarrow> Inr (Empty_mount name (case path of None \<Rightarrow> ''/workspace/.enbor/empty-dirs/'' @ name | Some x \<Rightarrow> x) files))
      | Secret_volume name ref items \<Rightarrow>
          then_ok (resolveSecretMount p decrypt auth vd ref items) (\<lambda>files.
            Inr (Secret_mount name (case path of None \<Rightarrow> ''/workspace/.enbor/secrets/'' @ name | Some x \<Rightarrow> x) files)))"

fun manifest_mounts ::
    "platform \<Rightarrow> decryption \<Rightarrow> input_scope \<Rightarrow> db \<Rightarrow> vault_db \<Rightarrow> volume_mount list \<Rightarrow> volume list \<Rightarrow>
     string + manifest_mount list" where
  "manifest_mounts p decrypt auth d vd mounts [] = Inr []"
| "manifest_mounts p decrypt auth d vd mounts (v # vs) =
     then_ok (manifest_mount p decrypt auth d vd mounts v) (\<lambda>m.
     then_ok (manifest_mounts p decrypt auth d vd mounts vs) (\<lambda>ms. Inr (m # ms)))"

definition resolveRuntimeWorkspaceManifest ::
    "platform \<Rightarrow> decryption \<Rightarrow> input_scope \<Rightarrow> db \<Rightarrow> vault_db \<Rightarrow> volume list \<Rightarrow> volume_mount list \<Rightarrow>
     string + manifest_mount list" where
  "resolveRuntimeWorkspaceManifest p decrypt auth d vd volumes volumeMounts =
     manifest_mounts p decrypt auth d vd volumeMounts volumes"

section \<open>What reaches a runtime\<close>

lemma add_env_sound:
  assumes "addResolvedEnv env name x ref = Inr env'" "distinct (map fst env)"
  shows "env' = env @ [(name, x)]" "env_name name" "distinct (map fst env')"
  using assms by (force simp: addResolvedEnv_def image_iff split: if_splits)+

lemma add_all_sound:
  assumes "add_all env data ref = Inr env'" "distinct (map fst env)"
  shows "env' = env @ data \<and> (\<forall>k \<in> fst ` set data. env_name k) \<and> distinct (map fst env')"
  using assms
proof (induction env data ref rule: add_all.induct)
  case (2 env name x rest ref)
  then obtain e where e: "addResolvedEnv env name x ref = Inr e" "add_all e rest ref = Inr env'" by auto
  note one = add_env_sound [OF e(1) 2(3)]
  from 2(1) [OF e(2) one(3)] have "env' = e @ rest" "\<forall>k \<in> fst ` set rest. env_name k" "distinct (map fst env')"
    by blast+
  moreover from this(2) have "\<forall>k \<in> fst ` set ((name, x) # rest). env_name k" using one(2) by simp
  ultimately show ?case using one(1) by simp
qed simp

lemma value_for_env:
  assumes "secretValueForEnv entry data ref = Inr x"
  shows "\<exists>key. (key, x) \<in> set data \<and> (ee_key entry = Some key \<or> (ee_key entry = None \<and> data = [(key, x)]))"
proof (cases "ee_key entry")
  case None
  with assms show ?thesis by (auto simp: secretValueForEnv_def singleDataKey_def split: list.splits option.splits)
next
  case (Some key)
  with assms show ?thesis by (auto simp: secretValueForEnv_def dest: map_of_SomeD split: option.splits)
qed

text \<open>A pair of the environment comes from an entry and from the data of the version it resolves to.\<close>

definition supplied ::
    "'a uri_platform_scheme \<Rightarrow> decryption \<Rightarrow> input_scope \<Rightarrow> vault_db \<Rightarrow> env_entry \<Rightarrow> string \<Rightarrow> string \<Rightarrow> bool" where
  "supplied p decrypt auth vd entry k x \<longleftrightarrow>
     (\<exists>v data key. resolved p auth (ee_ref entry) vd = Inr (Some v) \<and> vv_state v \<noteq> Ver_revoked \<and>
        decryptVersionData decrypt (vv_metadata v) (ee_ref entry) = Inr data \<and> (key, x) \<in> set data \<and>
        (case ee_name entry of
           None \<Rightarrow> k = key
         | Some name \<Rightarrow> k = name \<and> (ee_key entry = Some key \<or> (ee_key entry = None \<and> data = [(key, x)]))))"

lemma resolve_entry_sound:
  assumes "resolve_entry p decrypt auth vd env entry = Inr env'" "distinct (map fst env)"
  shows "\<exists>new. env' = env @ new \<and> distinct (map fst env') \<and>
    (\<forall>(k, x) \<in> set new. env_name k \<and> supplied p decrypt auth vd entry k x)"
proof -
  obtain v data where v: "resolved p auth (ee_ref entry) vd = Inr (Some v)" "vv_state v \<noteq> Ver_revoked"
    "decryptVersionData decrypt (vv_metadata v) (ee_ref entry) = Inr data"
    and rest: "(case ee_name entry of
        None \<Rightarrow> if ee_key entry \<noteq> None then Inl (reference_error (ee_ref entry) '' requires name when key is specified'')
                else add_all env data (ee_ref entry)
      | Some name \<Rightarrow> then_ok (secretValueForEnv entry data (ee_ref entry))
          (\<lambda>x. addResolvedEnv env name x (ee_ref entry))) = Inr env'"
    using assms(1) by (auto simp: resolve_entry_def Let_def split: option.splits if_splits)
  show ?thesis
  proof (cases "ee_name entry")
    case None
    with rest have "add_all env data (ee_ref entry) = Inr env'" by (auto split: if_splits)
    from add_all_sound [OF this assms(2)] have "env' = env @ data" "\<forall>k \<in> fst ` set data. env_name k"
      "distinct (map fst env')" by blast+
    moreover have "supplied p decrypt auth vd entry k x" if "(k, x) \<in> set data" for k x
      using v that None by (auto simp: supplied_def)
    ultimately show ?thesis by (intro exI [of _ data]) force
  next
    case (Some name)
    with rest obtain x where x: "secretValueForEnv entry data (ee_ref entry) = Inr x"
      "addResolvedEnv env name x (ee_ref entry) = Inr env'" by auto
    have "supplied p decrypt auth vd entry name x" using value_for_env [OF x(1)] v Some by (auto simp: supplied_def)
    with add_env_sound [OF x(2) assms(2)] show ?thesis by (intro exI [of _ "[(name, x)]"]) simp
  qed
qed

lemma resolve_entries_sound:
  assumes "resolve_entries p decrypt auth vd env items = Inr env'" "distinct (map fst env)"
  shows "\<exists>new. env' = env @ new \<and> distinct (map fst env') \<and>
    (\<forall>(k, x) \<in> set new. env_name k \<and> (\<exists>entry \<in> set items. supplied p decrypt auth vd entry k x))"
  using assms
proof (induction p decrypt auth vd env items rule: resolve_entries.induct)
  case (2 p decrypt auth vd env entry rest)
  then obtain e where e: "resolve_entry p decrypt auth vd env entry = Inr e" "resolve_entries p decrypt auth vd e rest = Inr env'"
    by auto
  obtain new where new: "e = env @ new" "distinct (map fst e)"
    "\<forall>(k, x) \<in> set new. env_name k \<and> supplied p decrypt auth vd entry k x"
    using resolve_entry_sound [OF e(1) 2(3)] by blast
  from 2(1) [OF e(2) new(2)] obtain more where "env' = e @ more" "distinct (map fst env')"
    "\<forall>(k, x) \<in> set more. env_name k \<and> (\<exists>entry \<in> set rest. supplied p decrypt auth vd entry k x)" by blast
  with new show ?case by (intro exI [of _ "new @ more"]) auto
qed simp

text \<open>
  C40 (safety): the environment handed to a runtime has valid names, each once, and every
  value is a decrypted value of a version that one of the session's entries resolves to, of
  the data key the entry names or of its only one; the version is in reach of the caller and belongs to
  a credential that is not revoked.
\<close>

theorem environment_from_live_credentials:
  assumes "vault_init d0" "vault_step\<^sup>*\<^sup>* d0 vd" "resolveEnvFrom p decrypt auth vd items = Inr env"
  shows "distinct (map fst env) \<and>
    (\<forall>(k, x) \<in> set env. env_name k \<and>
       (\<exists>entry \<in> set items. supplied p decrypt auth vd entry k x \<and>
          (\<forall>v. resolved p auth (ee_ref entry) vd = Inr (Some v) \<longrightarrow>
             in_reach (is_organization auth) (is_project auth) (vv_organization v) (vv_project v) \<and>
             (\<exists>c \<in> set (credential_rows vd). vc_id c = vv_credential v \<and> vc_state c = Cred_active))))"
proof -
  have ok: "vault_ok vd" by (rule vaults.reachable_inv [OF assms(1,2)])
  have "\<exists>c \<in> set (credential_rows vd). vc_id c = vv_credential v \<and> vc_state c = Cred_active \<and>
      v \<in> set (version_rows vd) \<and> in_reach (is_organization auth) (is_project auth) (vv_organization v) (vv_project v)"
    if "resolved p auth ref vd = Inr (Some v)" for ref v
    by (rule resolves_active [OF ok, of p _ _ ref]) (use that in \<open>simp add: resolves_def resolved_def\<close>)
  moreover obtain new where "env = new" "distinct (map fst env)"
    "\<forall>(k, x) \<in> set new. env_name k \<and> (\<exists>entry \<in> set items. supplied p decrypt auth vd entry k x)"
    using resolve_entries_sound [of p decrypt auth vd "[]" items env] assms(3) by (auto simp: resolveEnvFrom_def)
  ultimately show ?thesis by fast
qed

section \<open>Files stay in their mount\<close>

lemma check_paths_sound: "check_paths data = Inr files \<Longrightarrow> f \<in> fst ` set files \<Longrightarrow> item_path f"
  by (induction data arbitrary: files rule: check_paths.induct) (force simp: safeFilePath_def split: if_splits)+

lemma files_sound: "filesFromSecretData p data = Inr files \<Longrightarrow> f \<in> fst ` set files \<Longrightarrow> item_path f"
  by (auto simp: filesFromSecretData_def intro: check_paths_sound)

lemma folder_path:
  assumes "file_chars folder" "item_path path"
  shows "item_path (folder @ CHR ''/'' # path)"
proof -
  have "CHR ''/'' \<notin> set folder"
    using assms(1) path_char_plain by (auto simp: file_chars_def list_all_iff)
  moreover have "starts_with (folder @ CHR ''/'' # path) ''/'' = (hd folder = CHR ''/'')"
    using assms(1) by (cases folder) (auto simp: starts_with_def file_chars_def)
  ultimately show ?thesis
    using assms by (cases folder) (auto simp: item_path_def file_chars_def list_all_iff)
qed

lemma vault_files_sound: "vault_files p decrypt vs = Inr files \<Longrightarrow> f \<in> fst ` set files \<Longrightarrow> item_path f"
proof (induction p decrypt vs arbitrary: files rule: vault_files.induct)
  case (2 p decrypt name version rest)
  show ?case
  proof (cases "vv_state version = Ver_active")
    case False
    with 2 show ?thesis by simp
  next
    case True
    with 2(3) obtain folder data own others where parts: "safeFileName name = Inr folder"
      "filesFromSecretData p data = Inr own" "vault_files p decrypt rest = Inr others"
      "files = map (\<lambda>(path, content). (folder @ CHR ''/'' # path, content)) own @ others" by auto
    have "file_chars folder" using parts(1) by (auto simp: safeFileName_def split: if_splits)
    moreover have "item_path f" if "f \<in> fst ` set others" using 2(2) True parts(3) that by auto
    ultimately show ?thesis
      using 2(4) parts(4) files_sound [OF parts(2)] folder_path by (force simp: image_iff)
  qed
qed simp

lemma secret_mount_sound:
  assumes "resolveSecretMount p decrypt auth vd ref items = Inr files" "f \<in> fst ` set files"
  shows "item_path f"
  using assms
  by (auto simp: resolveSecretMount_def dest: files_sound vault_files_sound split: option.splits if_splits)

lemma seed_files_sound: "seed_files p decrypt auth vd seeds = Inr files \<Longrightarrow> f \<in> fst ` set files \<Longrightarrow> item_path f"
  by (induction p decrypt auth vd seeds arbitrary: files rule: seed_files.induct) (force dest: secret_mount_sound)+

lemma mount_paths:
  "resolveSecretMount p decrypt auth vd ref items = Inr files \<Longrightarrow> \<forall>f \<in> fst ` set files. item_path f"
  "seed_files p decrypt auth vd seeds = Inr files \<Longrightarrow> \<forall>f \<in> fst ` set files. item_path f"
  by (blast intro: secret_mount_sound seed_files_sound)+

lemma first_repeated_None: "first_repeated seen xs = None \<longleftrightarrow> distinct xs \<and> set xs \<inter> set seen = {}"
  by (induction seen xs rule: first_repeated.induct) auto

text \<open>
  The files of a secret or an empty directory have relative paths without empty, dot or
  dot-dot segments, and those of an empty directory are different.
\<close>

definition mount_files_ok :: "manifest_mount \<Rightarrow> bool" where
  "mount_files_ok m \<longleftrightarrow>
     (case m of
        Secret_mount _ _ files \<Rightarrow> \<forall>f \<in> fst ` set files. item_path f
      | Empty_mount _ _ files \<Rightarrow> (\<forall>f \<in> fst ` set files. item_path f) \<and> distinct (map fst files)
      | _ \<Rightarrow> True)"

lemma memory_mount_files: "memory_mount p projectId d mounts path name ref = Inr m \<Longrightarrow> mount_files_ok m"
  by (cases m) (auto simp: memory_mount_def mount_files_ok_def split: option.splits if_splits)

lemma git_mount_files:
  "git_mount p decrypt auth vd path name address branch secretRef items = Inr m \<Longrightarrow> mount_files_ok m"
  by (auto simp: git_mount_def mount_files_ok_def)

lemma manifest_mount_files:
  assumes "manifest_mount p decrypt auth d vd mounts v = Inr m"
  shows "mount_files_ok m"
proof (cases v)
  case (Memory_volume name ref)
  with assms memory_mount_files show ?thesis by (simp add: manifest_mount_def Let_def)
next
  case (Git_volume name address branch secretRef items)
  with assms git_mount_files show ?thesis by (simp add: manifest_mount_def Let_def)
qed (use assms in \<open>auto simp: manifest_mount_def mount_files_ok_def first_repeated_None Let_def
       dest!: mount_paths split: option.splits\<close>)

lemma manifest_files_confined:
  "resolveRuntimeWorkspaceManifest p decrypt auth d vd volumes mounts = Inr ms \<Longrightarrow> m \<in> set ms \<Longrightarrow> mount_files_ok m"
  unfolding resolveRuntimeWorkspaceManifest_def
  by (induction p decrypt auth d vd mounts volumes arbitrary: ms rule: manifest_mounts.induct)
     (auto dest: manifest_mount_files)

section \<open>Instances\<close>

definition demo_decrypt :: decryption where
  "demo_decrypt v = Inr (jstr (Some v))"

definition demo_entries :: "env_entry list" where
  "demo_entries = [\<lparr>ee_name = Some ''TOKEN'', ee_ref = ''enbor://vaults/v/credentials/c'', ee_key = None\<rparr>,
     \<lparr>ee_name = None, ee_ref = ''enbor://vaults/v/credentials/c/versions/1'', ee_key = None\<rparr>]"

lemma demo_resolved:
  "resolveEnvFrom demo_platform demo_decrypt demo_scope (demo_change ''c'' ''2'' demo_stored) demo_entries =
     Inr [(''TOKEN'', ''x''), (''token'', ''x'')]"
  by code_simp

theorem environment_from_live_credentials_witness:
  "\<exists>entry \<in> set demo_entries.
     supplied demo_platform demo_decrypt demo_scope (demo_change ''c'' ''2'' demo_stored) entry ''token'' ''x''"
  using environment_from_live_credentials [OF demo_reached(1) demo_changed demo_resolved] by fastforce

text \<open>
  The vault accepts any data key without a slash and any credential name; a mount refuses those
  with other characters than letters, digits, dots, underscores and hyphens, and so every session that mounts
  the secret fails at its dispatch.
\<close>

definition spaced_secret :: "string \<Rightarrow> string \<Rightarrow> vault_db" where
  "spaced_secret name key =
     fst (handle_create_credential demo_platform demo_encrypt demo_caller ''v''
       \<lparr>ci_name = name, ci_type = Opaque, ci_metadata = JObj [],
        ci_secret = \<lparr>sm_data = Some [(key, ''x'')], sm_name = None, sm_metadata = None\<rparr>\<rparr> ''c'' ''1'' 1
       (fst (handle_create_vault (\<lambda>_. False) demo_caller ''vault'' None None ''v'' 0 demo_empty)))"

theorem stored_key_not_mountable:
  "validateDeclaredVolumes demo_platform demo_scope (spaced_secret ''n'' ''my key'')
     [Secret_volume ''s'' ''enbor://vaults/v/credentials/c'' None]
     [\<lparr>vm_name = ''s'', vm_path = ''/workspace/s'', vm_read_only = None\<rparr>] =
   Inr ([Secret_volume ''s'' ''enbor://vaults/v/credentials/c'' None],
        [\<lparr>vm_name = ''s'', vm_path = ''/workspace/s'', vm_read_only = Some True\<rparr>])"
  "resolveSecretMount demo_platform demo_decrypt demo_scope (spaced_secret ''n'' ''my key'')
     ''enbor://vaults/v/credentials/c'' None =
   Inl ''Vault credential item path cannot be mounted as a file: my key''"
  by code_simp+

theorem example_name_not_mountable:
  "resolveSecretMount demo_platform demo_decrypt demo_scope (spaced_secret ''Workers AI token'' ''token'')
     ''enbor://vaults/v'' None =
   Inl ''Vault credential name cannot be mounted as a file: Workers AI token''"
  by code_simp

text \<open>With the revived credential of \<open>VaultFacts.patch_revives_revoked\<close> its old secret is handed out again.\<close>

theorem revived_secret_handed_out:
  "(let read = the (credential_of_caller demo_caller ''v'' ''c'' (demo_change ''c'' ''2'' demo_stored));
        revoked = demo_revoke ''c'' (demo_change ''c'' ''2'' demo_stored);
        patched = fst (write_patch demo_caller read False None (Some (JObj [])) 5 revoked);
        entry = [\<lparr>ee_name = Some ''TOKEN'', ee_ref = ''enbor://vaults/v/credentials/c/versions/1'', ee_key = None\<rparr>] in
    (resolveEnvFrom demo_platform demo_decrypt demo_scope revoked entry,
     resolveEnvFrom demo_platform demo_decrypt demo_scope patched entry)) =
   (Inl ''Runtime secret reference enbor://vaults/v/credentials/c/versions/1 cannot be resolved'',
    Inr [(''TOKEN'', ''x'')])"
  by code_simp

end
