(* ===== verification/SessionSnapshot.thy ===== *)
theory SessionSnapshot
  imports SessionInputs Lifecycle
begin

text \<open>
  The snapshots a session keeps of its agent and its environment
  (\<open>server/domain/runtime/session-snapshot.ts\<close>) and the JSON columns that hold them and the inputs of the
  session. The rows of \<open>agents\<close>, \<open>agent_versions\<close> and \<open>environment_versions\<close> carry the parsed
  values of their JSON columns; their time stamps are only copied and are text here.
\<close>

section \<open>Rows\<close>

record agent_row =
  ag_id :: id
  ag_project :: id
  ag_name :: string
  ag_description :: "string option"
  ag_deleted :: "time option"
  ag_current :: "id option"

record subagent_reference =
  sr_agent :: "string option"
  sr_name :: string

record agent_version_row =
  av_id :: id
  av_agent :: id
  av_project :: id
  av_version :: nat
  av_prompt :: string
  av_provider :: "string option"
  av_model :: "string option"
  av_skills :: "string list"
  av_subagents :: "subagent_reference list"
  av_tools :: "string list"
  av_connectors :: "string list"
  av_identity :: "identity_descriptor option"
  av_created :: string

record environment_version_row =
  xv_id :: id
  xv_environment :: id
  xv_project :: id
  xv_version :: nat
  xv_packages :: json
  xv_variables :: json
  xv_hosting :: string
  xv_network :: json
  xv_metadata :: json
  xv_created :: string

section \<open>Agents\<close>

record subagent_snapshot =
  ss_agent :: id
  ss_version_id :: id
  ss_version :: nat
  ss_name :: string
  ss_description :: string
  ss_prompt :: string
  ss_provider :: "string option"
  ss_model :: "string option"
  ss_skills :: "string list"
  ss_tools :: "string list"
  ss_connectors :: "string list"

record agent_snapshot =
  as_id :: id
  as_agent :: id
  as_project :: id
  as_version :: nat
  as_prompt :: string
  as_provider :: "string option"
  as_model :: "string option"
  as_skills :: "string list"
  as_subagents :: "subagent_snapshot list"
  as_tools :: "string list"
  as_connectors :: "string list"
  as_identity :: "identity_descriptor option"
  as_created :: string

definition createSessionSubagentSnapshot :: "agent_row \<Rightarrow> agent_version_row \<Rightarrow> string \<Rightarrow> subagent_snapshot" where
  "createSessionSubagentSnapshot agent v name =
     \<lparr>ss_agent = ag_id agent, ss_version_id = av_id v, ss_version = av_version v, ss_name = name,
      ss_description = (case ag_description agent of None \<Rightarrow> ag_name agent | Some x \<Rightarrow> x),
      ss_prompt = av_prompt v, ss_provider = av_provider v, ss_model = av_model v, ss_skills = av_skills v,
      ss_tools = av_tools v, ss_connectors = av_connectors v\<rparr>"

definition createAgentSnapshot :: "agent_version_row \<Rightarrow> subagent_snapshot list \<Rightarrow> agent_snapshot" where
  "createAgentSnapshot v subagents =
     \<lparr>as_id = av_id v, as_agent = av_agent v, as_project = av_project v, as_version = av_version v,
      as_prompt = av_prompt v, as_provider = av_provider v, as_model = av_model v, as_skills = av_skills v,
      as_subagents = subagents, as_tools = av_tools v, as_connectors = av_connectors v,
      as_identity = av_identity v, as_created = av_created v\<rparr>"

definition realmroot_block :: string where
  "realmroot_block = ''Private Resources are available through the Realmroot Toolbox. Use `realmroot toolbox` to discover services and request only the authority required for the current task.''"

definition blank_line :: string where "blank_line = [char_of (10 :: nat), char_of (10 :: nat)]"

fun join_blocks :: "string list \<Rightarrow> string" where
  "join_blocks [] = []"
| "join_blocks [x] = x"
| "join_blocks (x # xs) = x @ blank_line @ join_blocks xs"

definition agentSnapshotWithWorkspaceContext ::
    "'a uri_platform_scheme \<Rightarrow> agent_snapshot \<Rightarrow> volume list \<Rightarrow> volume_mount list \<Rightarrow> string + agent_snapshot" where
  "agentSnapshotWithWorkspaceContext p a volumes mounts =
     then_ok (workspaceSystemPromptBlock p volumes mounts) (\<lambda>block.
     let blocks = filter (\<lambda>b. b \<noteq> []) (List.map_filter id [block, map_option (\<lambda>_. realmroot_block) (as_identity a)]);
         context' = join_blocks blocks;
         systemPrompt = js_trim (as_prompt a) in
     Inr (if context' = [] then a
          else a\<lparr>as_prompt := if systemPrompt \<noteq> [] then systemPrompt @ blank_line @ context' else context'\<rparr>))"

section \<open>Environments\<close>

definition object_value :: "json option \<Rightarrow> json" where
  "object_value v = (case v of Some (JObj kvs) \<Rightarrow> JObj kvs | _ \<Rightarrow> JObj [])"

fun is_jstr :: "json \<Rightarrow> bool" where
  "is_jstr (JStr _) = True"
| "is_jstr _ = False"

definition string_array :: "json option \<Rightarrow> json" where
  "string_array v = JArr (case v of Some (JArr xs) \<Rightarrow> filter is_jstr xs | _ \<Rightarrow> [])"

definition PACKAGE_MANAGERS :: "string list" where
  "PACKAGE_MANAGERS = [''apt'', ''cargo'', ''gem'', ''go'', ''npm'', ''pip'', ''webi'']"

definition defaultEnvironmentPackages :: json where
  "defaultEnvironmentPackages =
     JObj ((''type'', JStr ''packages'') # map (\<lambda>k. (k, JArr [])) PACKAGE_MANAGERS)"

definition normalizePackages :: "json option \<Rightarrow> json" where
  "normalizePackages v =
     (if is_jobj v
      then JObj ((''type'', JStr ''packages'') # map (\<lambda>k. (k, string_array (jopt v k))) PACKAGE_MANAGERS)
      else defaultEnvironmentPackages)"

definition text_at :: "json option \<Rightarrow> string \<Rightarrow> string \<Rightarrow> bool" where
  "text_at v k s \<longleftrightarrow> jopt v k = Some (JStr s)"

definition networkingFromRow :: "json \<Rightarrow> json" where
  "networkingFromRow policy =
     JObj ([(''type'', JStr (if text_at (Some policy) ''mode'' ''offline'' then ''closed''
                             else if text_at (Some policy) ''mode'' ''restricted'' then ''limited'' else ''open'')),
            (''allowMcpServers'', JBool (jget policy ''allowMcpServers'' = Some (JBool True))),
            (''allowPackageManagers'', JBool (jget policy ''allowPackageManagers'' \<noteq> Some (JBool False)))] @
           (if jarr (jget policy ''allowedHosts'') \<noteq> None
            then [(''allowedHosts'', string_array (jget policy ''allowedHosts''))] else []))"

definition normalizeNetworking :: "json option \<Rightarrow> json" where
  "normalizeNetworking v =
     (let networking = object_value v;
          kind = (if text_at v ''type'' ''closed'' then ''closed''
                  else if text_at v ''type'' ''limited'' then ''limited'' else ''open'') in
      JObj ([(''type'', JStr kind),
             (''allowMcpServers'', JBool (jget networking ''allowMcpServers'' = Some (JBool True))),
             (''allowPackageManagers'', JBool (jget networking ''allowPackageManagers'' \<noteq> Some (JBool False)))] @
            (if kind = ''limited'' then [(''allowedHosts'', string_array (jget networking ''allowedHosts''))] else [])))"

definition normalize_variable :: "json \<Rightarrow> json" where
  "normalize_variable v =
     JObj ((case jopt (Some v) ''description'' of Some (JStr s) \<Rightarrow> [(''description'', JStr s)] | _ \<Rightarrow> []) @
           (case jopt (Some v) ''required'' of Some (JBool b) \<Rightarrow> [(''required'', JBool b)] | _ \<Rightarrow> []))"

definition normalizeVariables :: "json option \<Rightarrow> json" where
  "normalizeVariables v =
     (case object_value v of
        JObj kvs \<Rightarrow> JObj (map (\<lambda>(k, x). (k, normalize_variable x)) kvs)
      | _ \<Rightarrow> JObj [])"

definition createEnvironmentSnapshot :: "environment_version_row \<Rightarrow> json" where
  "createEnvironmentSnapshot v =
     JObj [(''id'', JStr (xv_id v)), (''environmentId'', JStr (xv_environment v)),
           (''projectId'', JStr (xv_project v)), (''version'', JNum (of_nat (xv_version v))),
           (''scope'', JStr (if text_at (Some (xv_metadata v)) ''scope'' ''organization'' then ''organization'' else ''project'')),
           (''type'', JStr (if xv_hosting v = ''self_hosted'' then ''self_hosted'' else ''cloud'')),
           (''networking'', networkingFromRow (xv_network v)),
           (''packages'', normalizePackages (Some (xv_packages v))),
           (''variables'', xv_variables v), (''createdAt'', JStr (xv_created v))]"

text \<open>\<open>number\<close> stands for \<open>Number(..)\<close>, with \<open>JNull\<close> for \<open>NaN\<close>, on a version that is not a number.\<close>

definition text_or_empty :: "json option \<Rightarrow> json" where
  "text_or_empty v = JStr (case jstr v of None \<Rightarrow> [] | Some s \<Rightarrow> s)"

definition normalizeEnvironmentSnapshot :: "(json \<Rightarrow> json) \<Rightarrow> json \<Rightarrow> json" where
  "normalizeEnvironmentSnapshot number snapshot =
     JObj [(''id'', text_or_empty (jget snapshot ''id'')),
           (''environmentId'', text_or_empty (jget snapshot ''environmentId'')),
           (''projectId'', text_or_empty (jget snapshot ''projectId'')),
           (''version'', case jget snapshot ''version'' of
              None \<Rightarrow> JNum 0 | Some JNull \<Rightarrow> JNum 0 | Some (JNum n) \<Rightarrow> JNum n | Some v \<Rightarrow> number v),
           (''scope'', JStr (if text_at (Some snapshot) ''scope'' ''organization'' then ''organization'' else ''project'')),
           (''type'', JStr (if text_at (Some snapshot) ''type'' ''self_hosted'' then ''self_hosted'' else ''cloud'')),
           (''networking'', normalizeNetworking (jget snapshot ''networking'')),
           (''packages'', normalizePackages (jget snapshot ''packages'')),
           (''variables'', normalizeVariables (jget snapshot ''variables'')),
           (''createdAt'', text_or_empty (jget snapshot ''createdAt''))]"

definition environmentHostingMode :: "json \<Rightarrow> hosting_mode" where
  "environmentHostingMode snapshot =
     (if text_at (Some snapshot) ''type'' ''self_hosted'' then Self_hosted else Cloud)"

text \<open>What a stored snapshot says survives its normalisation.\<close>

lemma text_at_simp [simp]: "text_at (Some v) k s \<longleftrightarrow> jget v k = Some (JStr s)"
  by (simp add: text_at_def)

lemma normalized_hosting [simp]:
  "environmentHostingMode (normalizeEnvironmentSnapshot number (createEnvironmentSnapshot v)) =
     (if xv_hosting v = ''self_hosted'' then Self_hosted else Cloud)"
  by (simp add: environmentHostingMode_def normalizeEnvironmentSnapshot_def createEnvironmentSnapshot_def jget_def)

end
