(* ===== verification/SessionCreate.thy ===== *)
theory SessionCreate
  imports SessionSnapshot Governance SecretScan
begin

text \<open>
  Creating a session (\<open>server/usecases/runtime/session-create.ts\<close>): the idempotent replay, the
  checks in their order, the row and its work, the launch and its reconciliation. The checks only
  read: their steps are a sequence in the sum of the exception, the refusal and the value
  (\<open>check_then\<close>), which collects the audit records. Arguments are the digest, the platform, the fresh
  identifiers and times, the answers of the runner pool, of the queue and of the cloud startup, and
  what other processes write before the insertion and before the launch. The \<open>detail\<close> of an error
  is left out.
\<close>

section \<open>JSON columns\<close>

definition items_member :: "secret_item list option \<Rightarrow> (string \<times> json) list" where
  "items_member items =
     (case items of
        None \<Rightarrow> []
      | Some xs \<Rightarrow> [(''items'', JArr (map (\<lambda>i. JObj [(''key'', JStr (it_key i)), (''path'', JStr (it_path i))]) xs))])"

definition member :: "string \<Rightarrow> string option \<Rightarrow> (string \<times> json) list" where
  "member k x = (case x of None \<Rightarrow> [] | Some s \<Rightarrow> [(k, JStr s)])"

definition projection_json :: "projection \<Rightarrow> json" where
  "projection_json pj =
     JObj ([(''type'', JStr ''secret''), (''secretRef'', JStr (pj_ref pj))] @ items_member (pj_items pj))"

definition volume_json :: "volume \<Rightarrow> json" where
  "volume_json v =
     JObj ((''name'', JStr (vol_name v)) #
       (case v of
          Secret_volume _ ref items \<Rightarrow> [(''type'', JStr ''secret''), (''secretRef'', JStr ref)] @ items_member items
        | Git_volume _ url ref secretRef items \<Rightarrow>
            [(''type'', JStr ''git_repository''), (''url'', JStr url)] @ member ''ref'' ref @
            member ''secretRef'' secretRef @ items_member items
        | Memory_volume _ memoryRef \<Rightarrow> [(''type'', JStr ''memory''), (''memoryRef'', JStr memoryRef)]
        | Empty_dir _ seeds \<Rightarrow>
            (''type'', JStr ''empty_dir'') #
            (case seeds of None \<Rightarrow> [] | Some xs \<Rightarrow> [(''seedFrom'', JArr (map projection_json xs))])))"

definition volumes_json :: "volume list \<Rightarrow> json" where "volumes_json vs = JArr (map volume_json vs)"

definition mounts_json :: "volume_mount list \<Rightarrow> json" where
  "mounts_json ms =
     JArr (map (\<lambda>m. JObj ([(''name'', JStr (vm_name m)), (''mountPath'', JStr (vm_path m))] @
       (case vm_read_only m of None \<Rightarrow> [] | Some b \<Rightarrow> [(''readOnly'', JBool b)]))) ms)"

definition env_json :: "(string \<times> string) list \<Rightarrow> json" where
  "env_json env = JObj (map (\<lambda>(k, v). (k, JStr v)) env)"

definition env_from_json :: "env_entry list \<Rightarrow> json" where
  "env_from_json entries =
     JArr (map (\<lambda>e. JObj ([(''type'', JStr ''secret''), (''secretRef'', JStr (ee_ref e))] @
       member ''name'' (ee_name e) @ member ''key'' (ee_key e))) entries)"

definition strings_json :: "string list \<Rightarrow> json" where "strings_json xs = JArr (map JStr xs)"

definition subagent_json :: "subagent_snapshot \<Rightarrow> json" where
  "subagent_json s =
     JObj [(''agentId'', JStr (ss_agent s)), (''agentVersionId'', JStr (ss_version_id s)),
           (''version'', JNum (of_nat (ss_version s))), (''name'', JStr (ss_name s)),
           (''description'', JStr (ss_description s)), (''systemPrompt'', JStr (ss_prompt s)),
           (''provider'', str_or_null (ss_provider s)), (''model'', str_or_null (ss_model s)),
           (''skills'', strings_json (ss_skills s)), (''allowedTools'', strings_json (ss_tools s)),
           (''mcpConnectors'', strings_json (ss_connectors s))]"

definition identity_json :: "identity_descriptor \<Rightarrow> json" where
  "identity_json i =
     JObj [(''identityId'', JStr (id_identity i)), (''agentId'', JStr (id_agent i)), (''issuer'', JStr (id_issuer i)),
           (''subject'', JStr (id_subject i)), (''username'', JStr (id_username i)),
           (''runtime'', JStr (id_runtime i)), (''credentialRef'', JStr (id_credential i))]"

definition agent_json :: "agent_snapshot \<Rightarrow> json" where
  "agent_json a =
     JObj [(''id'', JStr (as_id a)), (''agentId'', JStr (as_agent a)), (''projectId'', JStr (as_project a)),
           (''version'', JNum (of_nat (as_version a))), (''systemPrompt'', JStr (as_prompt a)),
           (''provider'', str_or_null (as_provider a)), (''model'', str_or_null (as_model a)),
           (''skills'', strings_json (as_skills a)), (''subagents'', JArr (map subagent_json (as_subagents a))),
           (''allowedTools'', strings_json (as_tools a)), (''mcpConnectors'', strings_json (as_connectors a)),
           (''identity'', case as_identity a of None \<Rightarrow> JNull | Some i \<Rightarrow> identity_json i),
           (''createdAt'', JStr (as_created a))]"

section \<open>Requests\<close>

record create_options =
  op_key :: "string option"
  op_id :: "id option"
  op_name :: "string option"
  op_metadata :: "json option"
  op_volumes :: "volume list option"
  op_mounts :: "volume_mount list option"
  op_runtime :: "string option"
  op_config :: "json option"
  op_env :: "(string \<times> string) list option"
  op_env_from :: "env_entry list option"
  op_prompt :: string

definition given_member :: "string \<Rightarrow> ('a \<Rightarrow> json) \<Rightarrow> 'a option \<Rightarrow> (string \<times> json) list" where
  "given_member k f x = (case x of None \<Rightarrow> [] | Some v \<Rightarrow> [(k, f v)])"

text \<open>The options without the key, as \<open>creationFingerprint\<close> sees them: absent fields are dropped.\<close>

definition options_json :: "create_options \<Rightarrow> json" where
  "options_json opts =
     JObj (member ''id'' (op_id opts) @ member ''name'' (op_name opts) @ given_member ''metadata'' id (op_metadata opts) @
           given_member ''volumes'' volumes_json (op_volumes opts) @
           given_member ''volumeMounts'' mounts_json (op_mounts opts) @ member ''runtime'' (op_runtime opts) @
           given_member ''runtimeConfig'' id (op_config opts) @ given_member ''env'' env_json (op_env opts) @
           given_member ''envFrom'' env_from_json (op_env_from opts) @ [(''prompt'', JStr (op_prompt opts))])"

text \<open>\<open>canonicalJson\<close> of \<open>creation-idempotency.ts\<close> orders the keys by their code units.\<close>

definition creation_request :: "id \<Rightarrow> id option \<Rightarrow> create_options \<Rightarrow> json" where
  "creation_request agentId requestedEnvironmentId opts =
     canonicalJson (\<le>)
       (JObj [(''agentId'', JStr agentId), (''requestedEnvironmentId'', str_or_null requestedEnvironmentId),
              (''options'', options_json opts)])"

definition creationFingerprint ::
    "platform \<Rightarrow> (string \<Rightarrow> string) \<Rightarrow> id \<Rightarrow> id option \<Rightarrow> create_options \<Rightarrow> string" where
  "creationFingerprint p digest agentId requestedEnvironmentId opts =
     digest (pl_stringify p (creation_request agentId requestedEnvironmentId opts))"

section \<open>Titles and metadata\<close>

fun first_line :: "string \<Rightarrow> string" where
  "first_line [] = []"
| "first_line (c # cs) =
     (if c = char_of (10 :: nat) then []
      else if c = char_of (13 :: nat) \<and> (case cs of [] \<Rightarrow> False | d # _ \<Rightarrow> d = char_of (10 :: nat)) then []
      else c # first_line cs)"

function squeeze_spaces :: "string \<Rightarrow> string" where
  "squeeze_spaces [] = []"
| "squeeze_spaces (c # cs) =
     (if js_space c then CHR '' '' # squeeze_spaces (dropWhile js_space cs) else c # squeeze_spaces cs)"
  by pat_completeness auto
termination
  by (relation "measure length") (auto simp: le_imp_less_Suc length_dropWhile_le)

definition trim_end :: "string \<Rightarrow> string" where
  "trim_end s = rev (dropWhile js_space (rev s))"

definition sessionTitleFromPrompt :: "string \<Rightarrow> string" where
  "sessionTitleFromPrompt prompt =
     (let title = js_trim (squeeze_spaces (first_line prompt)) in
      if title = [] then ''New session''
      else if length title > 80 then trim_end (take 77 title) @ ''...'' else title)"

definition string_record :: "json option \<Rightarrow> json" where
  "string_record v = (case v of Some (JObj kvs) \<Rightarrow> JObj (filter (\<lambda>(k, x). is_jstr x) kvs) | _ \<Rightarrow> JObj [])"

definition sessionUserMetadata :: "json option \<Rightarrow> json \<times> json" where
  "sessionUserMetadata input = (string_record (jopt input ''labels''), string_record (jopt input ''annotations''))"

text \<open>\<open>hasEmbeddedCredentialUrl\<close> is defined next to \<open>hasSecretMaterial\<close> and called by nothing.\<close>

fun hasEmbeddedCredentialUrl :: "'a uri_platform_scheme \<Rightarrow> json \<Rightarrow> bool"
  and embedded_in_list :: "'a uri_platform_scheme \<Rightarrow> json list \<Rightarrow> bool"
  and embedded_in_entries :: "'a uri_platform_scheme \<Rightarrow> (string \<times> json) list \<Rightarrow> bool" where
  "hasEmbeddedCredentialUrl p (JStr s) =
     (case up_parse p s of None \<Rightarrow> False | Some u \<Rightarrow> ur_username u \<noteq> [] \<or> ur_password u \<noteq> [])"
| "hasEmbeddedCredentialUrl p (JArr xs) = embedded_in_list p xs"
| "hasEmbeddedCredentialUrl p (JObj kvs) = embedded_in_entries p kvs"
| "hasEmbeddedCredentialUrl p _ = False"
| "embedded_in_list p [] = False"
| "embedded_in_list p (x # xs) = (hasEmbeddedCredentialUrl p x \<or> embedded_in_list p xs)"
| "embedded_in_entries p [] = False"
| "embedded_in_entries p ((k, x) # kvs) = (hasEmbeddedCredentialUrl p x \<or> embedded_in_entries p kvs)"

section \<open>Checks\<close>

record refusal =
  rf_status :: nat
  rf_code :: string
  rf_message :: string
  rf_fields :: "(string \<times> string) list"

type_synonym 'a check = "effect list \<times> (string + refusal + 'a)"

definition pass :: "'a \<Rightarrow> 'a check" where "pass x = ([], Inr (Inr x))"

definition throw :: "string \<Rightarrow> 'a check" where "throw e = ([], Inl e)"

definition refuse_with :: "effect list \<Rightarrow> nat \<Rightarrow> string \<Rightarrow> string \<Rightarrow> (string \<times> string) list \<Rightarrow> 'a check" where
  "refuse_with es status code message fs =
     (es, Inr (Inl \<lparr>rf_status = status, rf_code = code, rf_message = message, rf_fields = fs\<rparr>))"

abbreviation refuse :: "nat \<Rightarrow> string \<Rightarrow> string \<Rightarrow> (string \<times> string) list \<Rightarrow> 'a check" where
  "refuse \<equiv> refuse_with []"

definition conflict :: "string \<Rightarrow> 'a check" where
  "conflict message = refuse 409 ''conflict'' message []"

definition check_then :: "'a check \<Rightarrow> ('a \<Rightarrow> 'b check) \<Rightarrow> 'b check" where
  "check_then c k =
     (case c of
        (es, Inl e) \<Rightarrow> (es, Inl e)
      | (es, Inr (Inl r)) \<Rightarrow> (es, Inr (Inl r))
      | (es, Inr (Inr x)) \<Rightarrow> (case k x of (es', y) \<Rightarrow> (es @ es', y)))"

definition of_input :: "string \<Rightarrow> input_error + 'a \<Rightarrow> 'a check" where
  "of_input message r =
     (case r of
        Inl (Invalid f m) \<Rightarrow> refuse 400 ''validation_error'' message [(f, m)]
      | Inl (Input_thrown e) \<Rightarrow> throw e
      | Inr x \<Rightarrow> pass x)"

definition orNil :: "'a list option \<Rightarrow> 'a list" where
  "orNil x = (case x of None \<Rightarrow> [] | Some xs \<Rightarrow> xs)"

section \<open>The world of a request\<close>

record catalog =
  ct_agents :: "agent_row list"
  ct_agent_versions :: "agent_version_row list"
  ct_environment_versions :: "environment_version_row list"
  ct_models :: "(id \<times> string) list"

record create_world =
  nw_platform :: platform
  nw_digest :: "string \<Rightarrow> string"
  nw_number :: "json \<Rightarrow> json"
  nw_url :: "string \<Rightarrow> string option"
  nw_collate :: "string \<Rightarrow> string"
  nw_caller :: caller
  nw_user :: id
  nw_vaults :: vault_db
  nw_gov :: gov_db
  nw_catalog :: catalog
  nw_id :: id
  nw_work_id :: id
  nw_startup_id :: id
  nw_read :: time
  nw_created :: time
  nw_queued :: time
  nw_failed :: time
  nw_blocked :: "session_row \<Rightarrow> bool"
  nw_before_insert :: "db \<Rightarrow> db"
  nw_before_launch :: "db \<Rightarrow> db"
  nw_assign :: "string option"
  nw_enqueue :: "string option"
  nw_inline :: bool
  nw_startup :: startup_world
  nw_times :: startup_times
  nw_reread :: bool

abbreviation project_of :: "create_world \<Rightarrow> id" where "project_of w \<equiv> cl_project (nw_caller w)"

definition scope_of :: "create_world \<Rightarrow> input_scope" where
  "scope_of w = \<lparr>is_organization = cl_organization (nw_caller w), is_project = project_of w\<rparr>"

section \<open>Reads\<close>

definition findAgent :: "id \<Rightarrow> id \<Rightarrow> catalog \<Rightarrow> agent_row option" where
  "findAgent projectId agentId ct =
     sql_get (\<lambda>a. ag_id a = agentId \<and> ag_project a = projectId \<and> ag_deleted a = None) (ct_agents ct)"

definition findAgentVersion :: "id \<Rightarrow> id \<Rightarrow> catalog \<Rightarrow> agent_version_row option" where
  "findAgentVersion agentId versionId ct =
     sql_get (\<lambda>v. av_id v = versionId \<and> av_agent v = agentId) (ct_agent_versions ct)"

definition findEnvironment :: "id \<Rightarrow> id \<Rightarrow> db \<Rightarrow> environment_row option" where
  "findEnvironment projectId environmentId d =
     sql_get (\<lambda>e. en_id e = environmentId \<and> en_project e = projectId \<and> en_deleted e = None) (environments d)"

definition findEnvironmentVersion :: "id \<Rightarrow> id \<Rightarrow> catalog \<Rightarrow> environment_version_row option" where
  "findEnvironmentVersion projectId versionId ct =
     sql_get (\<lambda>v. xv_id v = versionId \<and> xv_project v = projectId) (ct_environment_versions ct)"

definition currentAgentVersion :: "agent_row \<Rightarrow> catalog \<Rightarrow> agent_version_row option" where
  "currentAgentVersion agent ct =
     (if truthy_str (ag_current agent) then findAgentVersion (ag_id agent) (the (ag_current agent)) ct else None)"

fun sessionSubagentSnapshots ::
    "catalog \<Rightarrow> id \<Rightarrow> id \<Rightarrow> subagent_reference list \<Rightarrow> string + subagent_snapshot list" where
  "sessionSubagentSnapshots ct projectId parentAgentId [] = Inr []"
| "sessionSubagentSnapshots ct projectId parentAgentId (r # rs) =
     (case sr_agent r of
        None \<Rightarrow> Inl ''Stored sub-agent configuration must reference an Agent resource; apply pending database migrations''
      | Some agentId \<Rightarrow>
          if js_trim agentId = []
          then Inl ''Stored sub-agent configuration must reference an Agent resource; apply pending database migrations''
          else if agentId = parentAgentId then Inl ''An Agent cannot reference itself as a sub-agent''
          else (case findAgent projectId agentId ct of
             None \<Rightarrow> Inl (''Referenced sub-agent is deleted or unavailable: '' @ agentId)
           | Some agent \<Rightarrow>
               if ag_deleted agent \<noteq> None \<or> \<not> truthy_str (ag_current agent)
               then Inl (''Referenced sub-agent is deleted or unavailable: '' @ agentId)
               else (case currentAgentVersion agent ct of
                  None \<Rightarrow> Inl (''Referenced sub-agent has no current version: '' @ agentId)
                | Some v \<Rightarrow>
                    (case sessionSubagentSnapshots ct projectId parentAgentId rs of
                       Inl e \<Rightarrow> Inl e
                     | Inr rest \<Rightarrow> Inr (createSessionSubagentSnapshot agent v (sr_name r) # rest)))))"

text \<open>The error of \<open>resolveIdentityRuntime\<close> and \<open>runtimeNameForIdentity\<close>: its code and message.\<close>

definition resolveIdentityRuntime ::
    "string option \<Rightarrow> identity_descriptor option \<Rightarrow> (string \<times> string) + string" where
  "resolveIdentityRuntime requested descriptor =
     (case descriptor of
        None \<Rightarrow>
          if \<not> truthy_str requested
          then Inl (''runtime_required'', ''Runtime is required when the Agent has no Identity.'')
          else Inr (the requested)
      | Some i \<Rightarrow>
          if truthy_str requested \<and> requested \<noteq> Some (id_runtime i)
          then Inl (''identity_runtime_mismatch'',
                    ''Runtime must match the selected Identity runtime: '' @ id_runtime i @ ''.'')
          else Inr (id_runtime i))"

definition runtimeNameForIdentity :: "string \<Rightarrow> (string \<times> string) + string" where
  "runtimeNameForIdentity runtime =
     (if isRuntimeName runtime then Inr runtime
      else Inl (''identity_runtime_unsupported'',
                ''Identity runtime is not supported by this Enbor deployment: '' @ runtime @ ''.''))"

definition modelKnown :: "id \<Rightarrow> string \<Rightarrow> catalog \<Rightarrow> bool" where
  "modelKnown provider model ct \<longleftrightarrow> (provider, model) \<in> set (ct_models ct)"

definition validateRuntimeProviderModel ::
    "create_world \<Rightarrow> id \<Rightarrow> hosting_mode \<Rightarrow> string \<Rightarrow> string option \<Rightarrow> string option \<Rightarrow> db \<Rightarrow> bool" where
  "validateRuntimeProviderModel w environmentId hostingMode runtime provider model d =
     (if \<not> runtimeSupportsHostingMode hostingMode runtime then False
      else if runtime = ''enbor''
      then truthy_str provider \<and> truthy_str model \<and> modelKnown (the provider) (the model) (nw_catalog w)
      else if hostingMode = Cloud
      then truthy_str provider \<and>
           (if truthy_str model then modelKnown (the provider) (the model) (nw_catalog w)
            else list_ex (\<lambda>r. pv_slug r = the provider) (gv_providers (nw_gov w)))
      else if truthy_str provider \<and> \<not> runtimeCatalogSupportsProviderModel hostingMode runtime (the provider) model
      then False
      else let active = activeRunnerRuntimes (project_of w) environmentId (nw_read w) d in
        list_ex (\<lambda>runtimes. runtimesSupport runtimes runtime (selfHostedRuntimeModel provider model)) active \<or>
        active = [])"

section \<open>The checks in their order\<close>

definition check_request :: "create_world \<Rightarrow> create_options \<Rightarrow> (volume list \<times> volume_mount list) check" where
  "check_request w opts =
     (if js_trim (op_prompt opts) = []
      then refuse 400 ''validation_error'' ''Prompt is required'' [(''prompt'', ''Prompt is required.'')]
      else if session_hasSecretMaterial (op_metadata opts) \<or>
        session_hasSecretMaterial (map_option volumes_json (op_volumes opts)) \<or>
        session_hasSecretMaterial (op_config opts) \<or> session_hasSecretMaterial (map_option env_json (op_env opts))
      then refuse 400 ''validation_error'' ''Invalid session configuration''
        [(''metadata'', ''Secret material must be stored in secret references.''),
         (''volumes'', ''Volumes must not contain secret material.''),
         (''runtimeConfig'', ''Secret material must be stored in secret references.''),
         (''env'', ''Session environment variables must not contain raw secret material.'')]
      else of_input ''Invalid session volumes''
        (normalizeWorkspaceSpec (nw_platform w) (orNil (op_volumes opts)) (orNil (op_mounts opts))))"

definition check_agent :: "create_world \<Rightarrow> id \<Rightarrow> (agent_version_row \<times> agent_snapshot) check" where
  "check_agent w agentId =
     (case findAgent (project_of w) agentId (nw_catalog w) of
        None \<Rightarrow> refuse 404 ''not_found'' ''Agent not found'' []
      | Some agent \<Rightarrow>
          if ag_deleted agent \<noteq> None then conflict ''Deleted agents cannot create sessions''
          else (case currentAgentVersion agent (nw_catalog w) of
             None \<Rightarrow> throw ''Agent current version is required''
           | Some v \<Rightarrow>
               (case sessionSubagentSnapshots (nw_catalog w) (project_of w) (ag_id agent) (av_subagents v) of
                  Inl e \<Rightarrow> conflict e
                | Inr snapshots \<Rightarrow> pass (v, createAgentSnapshot v snapshots))))"

definition check_runtime :: "create_options \<Rightarrow> agent_snapshot \<Rightarrow> string check" where
  "check_runtime opts a =
     (case resolveIdentityRuntime (op_runtime opts) (as_identity a) of
        Inl (code, message) \<Rightarrow> refuse 409 code message []
      | Inr name \<Rightarrow>
          (case runtimeNameForIdentity name of
             Inl (code, message) \<Rightarrow> refuse 409 code message []
           | Inr runtime \<Rightarrow> pass runtime))"

definition check_provider :: "create_world \<Rightarrow> agent_version_row \<Rightarrow> unit check" where
  "check_provider w v =
     (if \<not> truthy_str (av_provider v) then pass ()
      else case evaluateProviderPolicyForSession (nw_caller w) (the (av_provider v)) (av_model v) False (nw_read w) (nw_gov w) of
        (decision, override) \<Rightarrow>
          if \<not> dc_allowed decision
          then refuse_with [E_audit ''session.create'' Denied] 403 ''policy_denied'' (dc_message decision) []
          else if override \<noteq> None then ([E_audit ''session.create'' Success], Inr (Inr ()))
          else pass ())"

definition check_environment ::
    "create_world \<Rightarrow> id option \<Rightarrow> agent_version_row \<Rightarrow> string \<Rightarrow> db \<Rightarrow> (id \<times> environment_version_row) check" where
  "check_environment w requested v runtime d =
     (let environmentId = (case requested of
            Some e \<Rightarrow> Some e
          | None \<Rightarrow> resolveEnvironmentForRuntime (project_of w) runtime
              (selfHostedRuntimeModel (av_provider v) (av_model v)) (nw_read w) d);
          gone = conflict ''Selected environment is deleted or unavailable'' in
      if \<not> truthy_str environmentId
      then conflict (''No environment has an active runner for runtime '' @ [CHR 0x22] @ runtime @ [CHR 0x22] @ ''; specify environmentId'')
      else case findEnvironment (project_of w) (the environmentId) d of
        None \<Rightarrow> gone
      | Some e \<Rightarrow>
          if \<not> truthy_str (en_current_version e) then gone
          else (case findEnvironmentVersion (project_of w) (the (en_current_version e)) (nw_catalog w) of
             None \<Rightarrow> gone
           | Some x \<Rightarrow> pass (the environmentId, x)))"

definition check_inputs ::
    "create_world \<Rightarrow> create_options \<Rightarrow> volume list \<Rightarrow> volume_mount list \<Rightarrow> db \<Rightarrow>
     (env_entry list \<times> volume list \<times> volume_mount list) check" where
  "check_inputs w opts volumes mounts d =
     check_then (of_input ''Invalid session memory store volume''
       (resolveMemoryVolumes (nw_platform w) (project_of w) d volumes)) (\<lambda>vs.
     check_then (of_input ''Invalid session envFrom references''
       (resolveEnvFromEntries (nw_platform w) (scope_of w) (nw_vaults w) (orNil (op_env_from opts)))) (\<lambda>entries.
     check_then (of_input ''Invalid session volumes''
       (validateDeclaredVolumes (nw_platform w) (scope_of w) (nw_vaults w) vs mounts)) (\<lambda>(vs', ms').
     pass (entries, vs', ms'))))"

definition check_sandbox :: "create_world \<Rightarrow> hosting_mode \<Rightarrow> json \<Rightarrow> json \<Rightarrow> unit check" where
  "check_sandbox w hostingMode agentSnapshot environmentSnapshot =
     (if hostingMode \<noteq> Cloud then pass ()
      else let decision = evaluateSandboxRuntimePolicy (nw_url w) (nw_collate w) (nw_caller w)
             (Some \<lparr>sn_agent = Some agentSnapshot, sn_environment = Some environmentSnapshot\<rparr>) Op_startup (nw_gov w) in
        if dc_allowed decision then pass ()
        else refuse_with [E_audit ''session.create'' Denied] 403 ''policy_denied'' (dc_message decision) [])"

record session_plan =
  pn_id :: id
  pn_version :: agent_version_row
  pn_snapshot :: agent_snapshot
  pn_runtime_snapshot :: agent_snapshot
  pn_environment :: id
  pn_environment_version :: id
  pn_environment_snapshot :: json
  pn_runtime :: string
  pn_hosting :: hosting_mode
  pn_env :: "(string \<times> string) list"
  pn_env_from :: "env_entry list"
  pn_volumes :: "volume list"
  pn_mounts :: "volume_mount list"

definition session_id_of :: "create_world \<Rightarrow> create_options \<Rightarrow> id" where
  "session_id_of w opts = (case op_id opts of None \<Rightarrow> nw_id w | Some i \<Rightarrow> i)"

text \<open>From the request to the inputs of the bound identity.\<close>

definition plan_request ::
    "create_world \<Rightarrow> id \<Rightarrow> create_options \<Rightarrow>
     (agent_version_row \<times> agent_snapshot \<times> string \<times> (string \<times> string) list \<times> volume list \<times> volume_mount list) check" where
  "plan_request w agentId opts =
     check_then (check_request w opts) (\<lambda>(volumes, mounts).
     check_then (check_agent w agentId) (\<lambda>(v, snapshot).
     check_then (check_runtime opts snapshot) (\<lambda>runtime.
     check_then (of_input ''Invalid Realmroot runtime configuration''
       (identityRuntimeInputs (nw_platform w) (as_identity snapshot) (session_id_of w opts) (orNil (op_env opts))
          (orNil (op_env_from opts)) volumes mounts)) (\<lambda>(env, volumes1, mounts1).
     pass (v, snapshot, runtime, env, volumes1, mounts1)))))"

definition context_snapshot ::
    "create_world \<Rightarrow> agent_snapshot \<Rightarrow> volume list \<Rightarrow> volume_mount list \<Rightarrow> agent_snapshot check" where
  "context_snapshot w snapshot volumes mounts =
     (case agentSnapshotWithWorkspaceContext (nw_platform w) snapshot volumes mounts of
        Inl e \<Rightarrow> throw e
      | Inr a \<Rightarrow> pass a)"

text \<open>The provider, the environment and the references, up to the snapshot for the runtime.\<close>

definition plan_place ::
    "create_world \<Rightarrow> id option \<Rightarrow> create_options \<Rightarrow> agent_version_row \<Rightarrow> agent_snapshot \<Rightarrow> string \<Rightarrow> volume list \<Rightarrow>
     volume_mount list \<Rightarrow> db \<Rightarrow>
     (id \<times> environment_version_row \<times> env_entry list \<times> volume list \<times> volume_mount list \<times> agent_snapshot) check" where
  "plan_place w requested opts v snapshot runtime volumes mounts d =
     check_then (check_provider w v) (\<lambda>_.
     check_then (check_environment w requested v runtime d) (\<lambda>(environmentId, x).
     check_then (check_inputs w opts volumes mounts d) (\<lambda>(entries, volumes1, mounts1).
     check_then (context_snapshot w snapshot volumes1 mounts1) (\<lambda>a.
     pass (environmentId, x, entries, volumes1, mounts1, a)))))"

definition check_model ::
    "create_world \<Rightarrow> id \<Rightarrow> hosting_mode \<Rightarrow> string \<Rightarrow> agent_version_row \<Rightarrow> agent_snapshot \<Rightarrow> db \<Rightarrow> unit check" where
  "check_model w environmentId hostingMode runtime v snapshot d =
     (if validateRuntimeProviderModel w environmentId hostingMode runtime (av_provider v) (as_model snapshot) d then pass ()
      else conflict ''Unsupported runtime provider/model combination'')"

definition plan_session :: "create_world \<Rightarrow> id \<Rightarrow> id option \<Rightarrow> create_options \<Rightarrow> db \<Rightarrow> session_plan check" where
  "plan_session w agentId requested opts d =
     check_then (plan_request w agentId opts) (\<lambda>(v, snapshot, runtime, env, volumes, mounts).
     check_then (plan_place w requested opts v snapshot runtime volumes mounts d)
       (\<lambda>(environmentId, x, entries, volumes1, mounts1, runtimeSnapshot).
     let environmentSnapshot = normalizeEnvironmentSnapshot (nw_number w) (createEnvironmentSnapshot x);
         hostingMode = environmentHostingMode environmentSnapshot in
     check_then (check_model w environmentId hostingMode runtime v snapshot d) (\<lambda>_.
     check_then (check_sandbox w hostingMode (agent_json snapshot) environmentSnapshot) (\<lambda>_.
     pass \<lparr>pn_id = session_id_of w opts, pn_version = v, pn_snapshot = snapshot, pn_runtime_snapshot = runtimeSnapshot,
           pn_environment = environmentId, pn_environment_version = xv_id x,
           pn_environment_snapshot = environmentSnapshot, pn_runtime = runtime, pn_hosting = hostingMode,
           pn_env = env, pn_env_from = entries, pn_volumes = volumes1, pn_mounts = mounts1\<rparr>))))"

section \<open>The row and its work\<close>

text \<open>The columns that no modelled statement reads again extend the row and are cut off by the insertion.\<close>

record new_session = session_row +
  ns_agent :: id
  ns_created_by :: id
  ns_agent_version :: id
  ns_environment_version :: id
  ns_title :: string
  ns_durable_object :: string
  ns_provider :: "string option"
  ns_model_config :: json

definition hosting_name :: "hosting_mode \<Rightarrow> string" where
  "hosting_name h = (case h of Cloud \<Rightarrow> ''cloud'' | Self_hosted \<Rightarrow> ''self_hosted'')"

definition options_config :: "create_options \<Rightarrow> json" where
  "options_config opts = (case op_config opts of None \<Rightarrow> JObj [] | Some c \<Rightarrow> c)"

definition session_metadata :: "create_options \<Rightarrow> session_plan \<Rightarrow> json" where
  "session_metadata opts pn =
     (let um = sessionUserMetadata (op_metadata opts);
          hosted = (pn_hosting pn = Self_hosted); loop = (pn_runtime pn = ''enbor'') in
      JObj ([(''labels'', fst um), (''annotations'', snd um), (''hostingMode'', JStr (hosting_name (pn_hosting pn))),
             (''runtime'', JStr (pn_runtime pn)), (''runtimeConfig'', options_config opts),
             (''runtimeDriver'', str_or_null (runtimeDriverName (pn_runtime pn) (pn_hosting pn)))] @
            (if loop
             then [(''runtimeBackend'', JStr ''enbor-cloud''), (''runtimeProtocol'', JStr ''enbor-runtime-rpc''),
                   (''eventStore'', JStr ''session-do''), (''loop'', JStr ''cloud-session-runtime''),
                   (''sandboxBackend'', JStr (if hosted then ''runner-sandbox'' else ''cloudflare-sandbox''))]
             else []) @
            (if hosted
             then [(''runnerState'', JStr ''queued''), (''runnerProtocol'', JStr ''enbor-runner-work''),
                   (''runnerWorkKind'', JStr (if loop then ''sandbox-tool-executor'' else ''runtime-bridge''))]
             else [])))"

definition pending_session :: "create_world \<Rightarrow> id \<Rightarrow> create_options \<Rightarrow> session_plan \<Rightarrow> new_session" where
  "pending_session w agentId opts pn =
     \<lparr>se_id = pn_id pn, se_organization = Some (cl_organization (nw_caller w)), se_project = project_of w,
      se_environment = Some (pn_environment pn), se_agent_snapshot = Some (agent_json (pn_snapshot pn)),
      se_environment_snapshot = Some (pn_environment_snapshot pn), se_env = env_json (pn_env pn),
      se_env_from = env_from_json (pn_env_from pn), se_volumes = volumes_json (pn_volumes pn),
      se_volume_mounts = mounts_json (pn_mounts pn),
      se_sandbox = (if pn_runtime pn = ''enbor'' then Some (lower_case (pn_id pn)) else None),
      se_resume_token = None, se_endpoint_path = None, se_state = persistedSessionState Pending,
      se_reason = (if pn_hosting pn = Self_hosted then Some ''waiting-for-runner'' else None),
      se_active_turn = None, se_turn_expires = None, se_depth = 0, se_metadata = session_metadata opts pn,
      se_started = None, se_closed = None, se_deleted = None, se_created = nw_created w, se_updated = nw_created w,
      ns_agent = agentId, ns_created_by = nw_user w, ns_agent_version = av_id (pn_version pn),
      ns_environment_version = pn_environment_version pn,
      ns_title = (case op_name opts of None \<Rightarrow> sessionTitleFromPrompt (js_trim (op_prompt opts)) | Some n \<Rightarrow> n),
      ns_durable_object = ''org_'' @ cl_organization (nw_caller w) @ '':project_'' @ project_of w @ '':session_'' @ pn_id pn,
      ns_provider = av_provider (pn_version pn),
      ns_model_config = JObj (opt_member ''provider'' (av_provider (pn_version pn)) @
                              opt_member ''model'' (as_model (pn_snapshot pn)))\<rparr>"

definition work_values_of :: "create_options \<Rightarrow> session_plan \<Rightarrow> string option \<Rightarrow> work_values" where
  "work_values_of opts pn requestId =
     \<lparr>wv_agent = agent_json (pn_runtime_snapshot pn), wv_environment = Some (pn_environment_snapshot pn),
      wv_runtime = pn_runtime pn, wv_config = options_config opts, wv_env = env_json (pn_env pn),
      wv_env_from = env_from_json (pn_env_from pn), wv_volumes = volumes_json (pn_volumes pn),
      wv_mounts = mounts_json (pn_mounts pn), wv_prompt = Some (js_trim (op_prompt opts)), wv_resume = False,
      wv_token = None, wv_request = requestId\<rparr>"

definition cloud_start :: "create_world \<Rightarrow> create_options \<Rightarrow> session_plan \<Rightarrow> string option \<Rightarrow> json" where
  "cloud_start w opts pn requestId =
     JObj [(''type'', JStr ''session.start''), (''sessionId'', JStr (pn_id pn)),
           (''organizationId'', JStr (cl_organization (nw_caller w))), (''projectId'', JStr (project_of w)),
           (''requestId'', str_or_null requestId), (''runtime'', JStr (pn_runtime pn)),
           (''runtimeConfig'', options_config opts), (''env'', env_json (pn_env pn)),
           (''envFrom'', env_from_json (pn_env_from pn)), (''volumes'', volumes_json (pn_volumes pn)),
           (''volumeMounts'', mounts_json (pn_mounts pn)), (''prompt'', JStr (js_trim (op_prompt opts)))]"

section \<open>Creating the session\<close>

datatype creation = Refused refusal | Created session_row

definition refused :: "nat \<Rightarrow> string \<Rightarrow> string \<Rightarrow> creation" where
  "refused status code message =
     Refused \<lparr>rf_status = status, rf_code = code, rf_message = message, rf_fields = []\<rparr>"

text \<open>The hash and the fingerprint of a request with a key; the hash is never empty.\<close>

definition creation_key :: "create_world \<Rightarrow> id \<Rightarrow> id option \<Rightarrow> create_options \<Rightarrow> (string \<times> string) option" where
  "creation_key w agentId requested opts =
     (if truthy_str (op_key opts)
      then Some (nw_digest w (the (op_key opts)),
                 creationFingerprint (nw_platform w) (nw_digest w) agentId requested opts)
      else None)"

definition replay_creation :: "id \<Rightarrow> (string \<times> string) option \<Rightarrow> db \<Rightarrow> creation option" where
  "replay_creation projectId key d =
     (case key of
        None \<Rightarrow> None
      | Some (keyHash, fingerprint) \<Rightarrow>
          (case findSessionCreation projectId keyHash d of
             None \<Rightarrow> None
           | Some existing \<Rightarrow> Some (
               if cr_fingerprint existing \<noteq> fingerprint
               then refused 409 ''idempotency_conflict''
                      ''Idempotency-Key was already used for a different Session creation request.''
               else (case findSession projectId (cr_session existing) d of
                  None \<Rightarrow> refused 409 ''idempotency_conflict'' ''Idempotency-Key belongs to a deleted Session.''
                | Some s \<Rightarrow> Created s))))"

definition durable_work ::
    "create_world \<Rightarrow> (string \<times> string) option \<Rightarrow> session_row \<Rightarrow> work_values \<Rightarrow> session_plan \<Rightarrow> work_item_row option" where
  "durable_work w key row values pn =
     (if key \<noteq> None \<and> pn_hosting pn = Self_hosted
      then Some (selfHostedSessionWorkItem (nw_work_id w) (cl_organization (nw_caller w)) (project_of w) row values
                   (nw_created w))
      else None)"

definition insert_created ::
    "create_world \<Rightarrow> (string \<times> string) option \<Rightarrow> session_row \<Rightarrow> work_item_row option \<Rightarrow> json \<Rightarrow> db \<Rightarrow> db option" where
  "insert_created w key row durable start d =
     (case key of
        Some (keyHash, fingerprint) \<Rightarrow>
          insertSessionCreation (nw_blocked w) row keyHash fingerprint
            (if durable = None then Some start else None) durable d
      | None \<Rightarrow> insertSession (nw_blocked w) row d)"

definition acknowledge :: "(string \<times> string) option \<Rightarrow> id \<Rightarrow> id \<Rightarrow> db \<Rightarrow> db" where
  "acknowledge key projectId sid d =
     (if key = None then d else acknowledgeCloudSessionCreation projectId sid d)"

definition answered :: "string option \<Rightarrow> session_row \<Rightarrow> string + session_row" where
  "answered failure row = (case failure of None \<Rightarrow> Inr row | Some e \<Rightarrow> Inl e)"

text \<open>The body of the second \<open>try\<close>; \<open>Inl\<close> is the exception that reaches its \<open>catch\<close>.\<close>

definition launch_hosted ::
    "create_world \<Rightarrow> session_row \<Rightarrow> work_values \<Rightarrow> work_item_row option \<Rightarrow> db \<Rightarrow>
     db \<times> effect list \<times> (string + session_row)" where
  "launch_hosted w row values durable d =
     (case durable of
        Some item \<Rightarrow> (d, [E_assign (wi_id item)], answered (nw_assign w) row)
      | None \<Rightarrow>
          (case enqueueSelfHostedSessionWork (nw_work_id w) (cl_organization (nw_caller w)) (project_of w) row values
                  (nw_queued w) d of
             None \<Rightarrow> (d, [], Inl ''UNIQUE constraint failed'')
           | Some (d1, es) \<Rightarrow> (d1, es, if es = [] then Inr row else answered (nw_assign w) row)))"

definition launch_cloud ::
    "create_world \<Rightarrow> (string \<times> string) option \<Rightarrow> create_options \<Rightarrow> session_row \<Rightarrow> session_plan \<Rightarrow> db \<Rightarrow>
     db \<times> effect list \<times> (string + session_row)" where
  "launch_cloud w key opts row pn d =
     (let projectId = project_of w; sid = pn_id pn; prompt = js_trim (op_prompt opts) in
      if \<not> nw_inline w
      then (case nw_enqueue w of
              Some e \<Rightarrow> (d, [E_enqueue (Msg_start sid (pn_runtime pn) (Some prompt)) 0], Inl e)
            | None \<Rightarrow> (acknowledge key projectId sid d, [E_enqueue (Msg_start sid (pn_runtime pn) (Some prompt)) 0], Inr row))
      else (case startSessionRuntimeForRow (nw_startup w) projectId row
                   (case se_sandbox row of None \<Rightarrow> [] | Some b \<Rightarrow> b) (nw_startup_id w) (pn_runtime pn) (Some prompt)
                   (nw_times w) d of
              (d1, es, Inl e) \<Rightarrow> (d1, es, Inl e)
            | (d1, es, Inr _) \<Rightarrow>
                (let d2 = acknowledge key projectId sid d1 in
                 if \<not> nw_reread w then (d2, es, Inr row)
                 else (case findSession projectId sid d2 of
                    None \<Rightarrow> (d2, es, Inl ''Created session was not persisted'')
                  | Some started \<Rightarrow> (d2, es, Inr started)))))"

definition launch_failed ::
    "create_world \<Rightarrow> (string \<times> string) option \<Rightarrow> id \<Rightarrow> string \<Rightarrow> db \<Rightarrow> db \<times> effect list \<times> (string + creation)" where
  "launch_failed w key sid e d =
     (if key \<noteq> None then (d, [], Inl e)
      else (fst (updateSessionWhenState (project_of w) sid [Pending]
                   (upd_state Errored (Some (Some e)) (nw_failed w)) d),
            [E_audit ''session.create'' Failure], Inr (refused 500 ''session_launch_failed'' e)))"

definition launch_created ::
    "create_world \<Rightarrow> (string \<times> string) option \<Rightarrow> create_options \<Rightarrow> session_row \<Rightarrow> work_values \<Rightarrow> work_item_row option \<Rightarrow>
     session_plan \<Rightarrow> db \<Rightarrow> db \<times> effect list \<times> (string + creation)" where
  "launch_created w key opts row values durable pn d =
     (case (if pn_hosting pn = Self_hosted then launch_hosted w row values durable d
            else launch_cloud w key opts row pn d) of
        (d1, es, Inr s) \<Rightarrow> (d1, es, Inr (Created s))
      | (d1, es, Inl e) \<Rightarrow>
          (case launch_failed w key (pn_id pn) e d1 of (d2, es', r) \<Rightarrow> (d2, es @ es', r)))"

definition create_planned ::
    "create_world \<Rightarrow> (string \<times> string) option \<Rightarrow> id \<Rightarrow> create_options \<Rightarrow> string option \<Rightarrow> session_plan \<Rightarrow> db \<Rightarrow>
     db \<times> effect list \<times> (string + creation)" where
  "create_planned w key agentId opts requestId pn d =
     (let row = session_row.truncate (pending_session w agentId opts pn);
          values = work_values_of opts pn requestId;
          durable = durable_work w key row values pn in
      case insert_created w key row durable (cloud_start w opts pn requestId) d of
        None \<Rightarrow>
          (d, [], case replay_creation (project_of w) key d of
                    Some winner \<Rightarrow> Inr winner
                  | None \<Rightarrow>
                      if nw_blocked w row
                      then Inr (refused 409 ''conflict'' ''Project was deleted while Session creation was in progress'')
                      else Inl ''UNIQUE constraint failed'')
      | Some d1 \<Rightarrow>
          (case launch_created w key opts row values durable pn (nw_before_launch w d1) of
             (d2, es, r) \<Rightarrow> (d2, E_audit ''session.create'' Success # es, r)))"

definition createSessionForAgent ::
    "create_world \<Rightarrow> id \<Rightarrow> id option \<Rightarrow> create_options \<Rightarrow> string option \<Rightarrow> db \<Rightarrow>
     db \<times> effect list \<times> (string + creation)" where
  "createSessionForAgent w agentId requested opts requestId d =
     (let key = creation_key w agentId requested opts in
      case replay_creation (project_of w) key d of
        Some r \<Rightarrow> (d, [], Inr r)
      | None \<Rightarrow>
          (case plan_session w agentId requested opts d of
             (es, Inl e) \<Rightarrow> (d, es, Inl e)
           | (es, Inr (Inl r)) \<Rightarrow> (d, es, Inr (Refused r))
           | (es, Inr (Inr pn)) \<Rightarrow>
               (case create_planned w key agentId opts requestId pn (nw_before_insert w d) of
                  (d1, es', r) \<Rightarrow> (d1, es @ es', r))))"

text \<open>
  \<open>session-creation-recovery.ts\<close>: the start messages that were stored and not acknowledged are
  enqueued again while their session is still pending. \<open>fails\<close> says which sends throw; a failed
  one is collected and stays for the next sweep.
\<close>

definition recover_start ::
    "(json \<Rightarrow> bool) \<Rightarrow> json \<Rightarrow> db \<times> json list \<times> nat \<Rightarrow> db \<times> json list \<times> nat" where
  "recover_start fails message st =
     (case st of (d, sent, failures) \<Rightarrow>
        let projectId = (case jstr (jget message ''projectId'') of None \<Rightarrow> [] | Some x \<Rightarrow> x);
            sid = (case jstr (jget message ''sessionId'') of None \<Rightarrow> [] | Some x \<Rightarrow> x);
            waiting = (sessionState projectId sid d = Some Pending) in
        if waiting \<and> fails message then (d, sent, Suc failures)
        else (acknowledgeCloudSessionCreation projectId sid d, if waiting then sent @ [message] else sent, failures))"

definition recoverSessionCreations :: "(json \<Rightarrow> bool) \<Rightarrow> db \<Rightarrow> db \<times> json list \<times> nat" where
  "recoverSessionCreations fails d = fold (recover_start fails) (pendingCloudSessionCreations 50 d) (d, [], 0)"

end
