(* ===== verification/SessionCreateFacts.thy ===== *)
theory SessionCreateFacts
  imports SessionCreate WorkspaceFacts LifecycleFacts
begin

text \<open>
  What creating a session promises: a repeated request creates nothing, an accepted session passed
  every check and has its work, a failed launch is reconciled or left to the recovery. The first section is
  the frame: every writer of \<open>session_creations\<close> appends, only the stored start message changes later.
\<close>

section \<open>Creations are kept\<close>

definition creation_core :: "creation_row \<Rightarrow> id \<times> id \<times> string \<times> string" where
  "creation_core c = (cr_session c, cr_project c, cr_key_hash c, cr_fingerprint c)"

definition creations_kept :: "db \<Rightarrow> db \<Rightarrow> bool" where
  "creations_kept d d' \<longleftrightarrow> (\<exists>new. map creation_core (creations d') = map creation_core (creations d) @ new)"

lemma kept_same [intro]: "creations d' = creations d \<Longrightarrow> creations_kept d d'"
  by (simp add: creations_kept_def)

lemma kept_trans [trans]: "creations_kept a b \<Longrightarrow> creations_kept b c \<Longrightarrow> creations_kept a c"
  by (auto simp: creations_kept_def)

lemma find_map: "List.find P (map f xs) = map_option f (List.find (\<lambda>x. P (f x)) xs)"
  by (induction xs) auto

lemma find_creation_core:
  "map_option creation_core (findSessionCreation projectId keyHash d) =
     List.find (\<lambda>(s, p, k, f). p = projectId \<and> k = keyHash) (map creation_core (creations d))"
  by (simp add: find_map findSessionCreation_def sql_get_def creation_core_def)

lemma find_left: "List.find P xs = Some x \<Longrightarrow> List.find P (xs @ ys) = Some x"
  by (induction xs) auto

lemma kept_find:
  assumes "creations_kept d d'" "findSessionCreation projectId keyHash d = Some c"
  shows "\<exists>c'. findSessionCreation projectId keyHash d' = Some c' \<and> cr_session c' = cr_session c \<and>
    cr_fingerprint c' = cr_fingerprint c"
proof -
  from assms(1) obtain new where new: "map creation_core (creations d') = map creation_core (creations d) @ new"
    by (auto simp: creations_kept_def)
  have "map_option creation_core (findSessionCreation projectId keyHash d) = Some (creation_core c)" using assms(2) by simp
  then have "map_option creation_core (findSessionCreation projectId keyHash d') = Some (creation_core c)"
    unfolding find_creation_core new by (rule find_left)
  then show ?thesis by (auto simp: creation_core_def)
qed

definition keeps :: "(db \<Rightarrow> db) \<Rightarrow> bool" where
  "keeps f \<longleftrightarrow> (\<forall>d. creations_kept d (f d))"

lemma keepsD: "keeps f \<Longrightarrow> creations_kept d (f d)"
  by (simp add: keeps_def)

lemma cas_creations [simp]: "creations (fst (session_cas sid g f d)) = creations d"
  by (simp add: session_cas_def split: prod.splits)

lemma cas_creationsD: "session_cas sid g f d = (d', hit) \<Longrightarrow> creations d' = creations d"
  using cas_creations [of sid g f d] by simp

lemma state_creations [simp]: "creations (fst (updateSessionWhenState projectId sid st u d)) = creations d"
  by (simp add: updateSessionWhenState_def)

lemma state_creationsD: "updateSessionWhenState projectId sid st u d = (d', hit) \<Longrightarrow> creations d' = creations d"
  using state_creations [of projectId sid st u d] by simp

lemmas lease_writes = acquirePendingStartupLease_def renewTurnLease_def releaseTurnLease_def
  completeCloudSessionStart_def failCloudSessionStart_def

lemma kept_cong: "creations d1 = creations d \<Longrightarrow> creations_kept d1 d' \<Longrightarrow> creations_kept d d'"
  by (simp add: creations_kept_def)

lemma acknowledge_kept: "creations_kept d (acknowledgeCloudSessionCreation projectId sid d)"
proof -
  have "map creation_core (sql_update P (\<lambda>c. c\<lparr>cr_cloud_start := None\<rparr>) rows) = map creation_core rows" for P rows
    by (simp add: sql_update_def creation_core_def)
  then show ?thesis by (simp add: creations_kept_def acknowledgeCloudSessionCreation_def)
qed

lemma turn_kept:
  assumes "keeps (tw_during tw)" "executeCloudSessionTurn tw projectId s action t d = (d', r)"
  shows "creations_kept d d'"
proof -
  have "creations d' = creations d \<or> creations d' = creations (tw_during tw d)"
    using assms(2)
    by (auto simp: executeCloudSessionTurn_def Let_def set_if_running_def markPromptFailed_def
        split: turn_result.splits if_splits)
  then show ?thesis using keepsD [OF assms(1), of d] by (auto simp: creations_kept_def)
qed

lemma dispatch_kept:
  assumes "\<forall>tw. inline = Some tw \<longrightarrow> keeps (tw_during tw)" "dispatchPrompt inline projectId s prompt t d = (d', r)"
  shows "creations_kept d d'"
proof -
  obtain d1 hit where d1: "updateSessionWhenState projectId (se_id s) [Idle, Running] (upd_state Running (Some None) t) d = (d1, hit)"
    by fastforce
  have same: "creations d1 = creations d" using state_creationsD [OF d1] .
  have "d' = d1 \<or> (\<exists>tw r'. inline = Some tw \<and> executeCloudSessionTurn tw projectId s ''session.prompt'' t d1 = (d', r'))"
    using assms(2) d1 by (auto simp: dispatchPrompt_def split: prod.splits bool.splits option.splits)
  then show ?thesis
  proof
    assume "d' = d1"
    with same show ?thesis by auto
  next
    assume "\<exists>tw r'. inline = Some tw \<and> executeCloudSessionTurn tw projectId s ''session.prompt'' t d1 = (d', r')"
    then obtain tw r' where tw: "inline = Some tw" "executeCloudSessionTurn tw projectId s ''session.prompt'' t d1 = (d', r')"
      by blast
    have "keeps (tw_during tw)" using assms(1) tw(1) by simp
    from kept_cong [OF same turn_kept [OF this tw(2)]] show ?thesis .
  qed
qed

definition calm_startup :: "startup_world \<Rightarrow> bool" where
  "calm_startup w \<longleftrightarrow> keeps (sw_before_launch w) \<and> keeps (sw_during_launch w) \<and> keeps (sw_before_record w) \<and>
     keeps (sw_after_record w) \<and> (\<forall>tw. sw_inline w = Some tw \<longrightarrow> keeps (tw_during tw))"

lemma catch_kept: "startup_catch w projectId row sb startupId runtime t e d = (d', es) \<Longrightarrow> creations d' = creations d"
  by (auto simp: startup_catch_def Let_def lease_writes split: prod.splits bool.splits dest!: cas_creationsD)

lemma recorded_kept:
  assumes "calm_startup w" "startup_recorded w projectId sid startupId prompt tms d = (d', r)"
  shows "creations_kept d d'"
proof (cases "findSession projectId sid d")
  case None
  with assms(2) show ?thesis by (auto simp: startup_recorded_def)
next
  case (Some s)
  define d1 where "d1 = fst (releaseTurnLease projectId sid startupId no_update d)"
  have "creations d1 = creations d" by (simp add: d1_def lease_writes)
  moreover have "d' = d1 \<or> (\<exists>r'. dispatchPrompt (sw_inline w) projectId s (the prompt) (st_submit tms) d1 = (d', r'))"
    using assms(2) Some by (auto simp: startup_recorded_def Let_def d1_def [symmetric] split: prod.splits sum.splits if_splits)
  moreover have "\<forall>tw. sw_inline w = Some tw \<longrightarrow> keeps (tw_during tw)" using assms(1) by (simp add: calm_startup_def)
  ultimately show ?thesis by (metis dispatch_kept kept_cong kept_same)
qed

lemma launch_kept:
  assumes "calm_startup w" "startup_launch w projectId row sb startupId runtime prompt tms d = (d', r)"
  shows "creations_kept d d'"
proof -
  let ?d1 = "sw_during_launch w d"
  have d1: "creations_kept d ?d1" using assms(1) by (simp add: calm_startup_def keepsD)
  define c where "c = completeCloudSessionStart projectId (se_id row) (se_started row) startupId
    (started_update sb startupId (st_started tms)) (runtime_metadata runtime (sw_mcp w) (projr (sw_start w))) (sw_before_record w ?d1)"
  have c: "creations (fst c) = creations (sw_before_record w ?d1)" by (simp add: c_def lease_writes)
  have "keeps (sw_before_record w)" using assms(1) by (simp add: calm_startup_def)
  from kept_trans [OF d1 keepsD [OF this]] have kept: "creations_kept d (fst c)" using kept_same [OF c] kept_trans by blast
  have "d' = ?d1 \<or> d' = fst c \<or>
    (\<exists>r'. startup_recorded w projectId (se_id row) startupId prompt tms (sw_after_record w (fst c)) = (d', r'))"
    using assms(2)
    by (auto simp: startup_launch_def Let_def c_def split: sum.splits prod.splits bool.splits if_splits option.splits)
  moreover have "keeps (sw_after_record w)" using assms(1) by (simp add: calm_startup_def)
  ultimately show ?thesis using d1 kept keepsD kept_trans recorded_kept [OF assms(1)] by metis
qed

lemma try_kept:
  assumes "calm_startup w" "startup_try w projectId row sb startupId runtime prompt tms d = (d', r)"
  shows "creations_kept d d'"
proof -
  let ?d1 = "sw_before_launch w d"
  have d1: "creations_kept d ?d1" using assms(1) by (simp add: calm_startup_def keepsD)
  define n where "n = renewTurnLease projectId (se_id row) startupId (lifecycleLeaseExpiry (st_launch tms)) ?d1"
  have n: "creations (fst n) = creations ?d1" by (simp add: n_def lease_writes)
  have "d' = ?d1 \<or> d' = fst n \<or>
    (\<exists>r'. startup_launch w projectId row sb startupId runtime prompt tms (fst n) = (d', r'))"
    using assms(2) by (auto simp: startup_try_def Let_def n_def split: prod.splits bool.splits if_splits option.splits)
  then show ?thesis using d1 kept_same [OF n] kept_trans launch_kept [OF assms(1)] by metis
qed

lemma startup_kept:
  assumes "calm_startup w" "startSessionRuntimeForRow w projectId row sb startupId runtime prompt tms d = (d', r)"
  shows "creations_kept d d'"
proof -
  define a where "a = acquirePendingStartupLease projectId (se_id row) (se_started row) startupId
    (lifecycleLeaseExpiry (st_claim tms)) (st_claim tms) d"
  have a: "creations (fst a) = creations d" by (simp add: a_def lease_writes)
  define t where "t = startup_try w projectId row sb startupId runtime prompt tms (fst a)"
  have t: "creations_kept (fst a) (fst t)"
    using try_kept [OF assms(1), of projectId row sb startupId runtime prompt tms "fst a" "fst t" "snd t"] by (simp add: t_def)
  have "d' = d \<or> d' = fst a \<or> d' = fst t \<or>
    (\<exists>e es. startup_catch w projectId row sb startupId runtime (st_failed tms) e (fst t) = (d', es))"
    using assms(2) by (auto simp: startSessionRuntimeForRow_def Let_def a_def t_def
        split: prod.splits bool.splits if_splits option.splits)
  moreover have "creations d' = creations (fst t)"
    if "startup_catch w projectId row sb startupId runtime (st_failed tms) e (fst t) = (d', es)" for e es
    using catch_kept [OF that] .
  ultimately show ?thesis using kept_cong [OF a t] a kept_same kept_trans by metis
qed

section \<open>Repeated requests\<close>

definition calm :: "create_world \<Rightarrow> bool" where
  "calm w \<longleftrightarrow> keeps (nw_before_insert w) \<and> keeps (nw_before_launch w) \<and> calm_startup (nw_startup w)"

lemma inserted_key:
  assumes "insert_created w (Some (keyHash, fingerprint)) row durable start d = Some d1"
  shows "\<exists>c. findSessionCreation (se_project row) keyHash d1 = Some c \<and> cr_session c = se_id row \<and>
    cr_fingerprint c = fingerprint \<and> c \<in> set (creations d1) \<and>
    cr_cloud_start c = (if durable = None then Some start else None)"
proof -
  let ?c = "\<lparr>cr_session = se_id row, cr_project = se_project row, cr_key_hash = keyHash, cr_fingerprint = fingerprint,
    cr_cloud_start = (if durable = None then Some start else None), cr_created = se_created row\<rparr>"
  from assms obtain d0 where d0: "insertSession (nw_blocked w) row d = Some d0"
    and new: "\<not> sql_exists (\<lambda>x. cr_session x = se_id row \<or> (cr_project x = se_project row \<and> cr_key_hash x = keyHash)) (creations d0)"
    and d1: "creations d1 = creations d0 @ [?c]"
    by (auto simp: insert_created_def insertSessionCreation_def insert_creation_def insertWorkItem_def bind_eq_Some_conv
        split: if_splits option.splits)
  have "List.find P (xs @ [x]) = Some x" if "\<forall>y \<in> set xs. \<not> P y" "P x" for P xs and x :: creation_row
    using that by (induction xs) auto
  then have "findSessionCreation (se_project row) keyHash d1 = Some ?c"
    using new d1 by (simp add: findSessionCreation_def sql_get_def sql_exists_iff)
  with d1 show ?thesis by simp
qed

lemma hosted_kept:
  assumes "launch_hosted w row values durable d = (d', r)"
  shows "creations d' = creations d"
  using assms
  by (auto simp: launch_hosted_def enqueueSelfHostedSessionWork_def Let_def insertWorkItem_def split: option.splits if_splits)

lemma cloud_kept:
  assumes "calm_startup (nw_startup w)" "launch_cloud w key opts row pn d = (d', r)"
  shows "creations_kept d d'"
proof (cases "nw_inline w")
  case False
  have "creations_kept d (acknowledge key projectId sid d)" for projectId sid
    using acknowledge_kept by (auto simp: acknowledge_def)
  with False assms(2) show ?thesis by (auto simp: launch_cloud_def Let_def split: option.splits)
next
  case True
  obtain d1 es x where start: "startSessionRuntimeForRow (nw_startup w) (project_of w) row
      (case se_sandbox row of None \<Rightarrow> [] | Some b \<Rightarrow> b) (nw_startup_id w) (pn_runtime pn)
      (Some (js_trim (op_prompt opts))) (nw_times w) d = (d1, es, x)" by (metis prod_cases3)
  have d1: "creations_kept d d1" using startup_kept [OF assms(1) start] .
  have "creations_kept d1 (acknowledge key (project_of w) (pn_id pn) d1)"
    using acknowledge_kept by (auto simp: acknowledge_def)
  with d1 True start assms(2) kept_trans [OF d1] show ?thesis
    by (auto simp: launch_cloud_def Let_def split: sum.splits option.splits if_splits)
qed

lemma launch_created_kept:
  assumes "calm_startup (nw_startup w)" "launch_created w key opts row values durable pn d = (d', r)"
  shows "creations_kept d d'"
proof -
  obtain d1 es x where l: "(if pn_hosting pn = Self_hosted then launch_hosted w row values durable d
      else launch_cloud w key opts row pn d) = (d1, es, x)" by (metis prod_cases3)
  have d1: "creations_kept d d1"
    using l cloud_kept [OF assms(1)] hosted_kept by (auto split: if_splits)
  have "creations d' = creations d1"
    using assms(2) by (auto simp: launch_created_def l launch_failed_def split: sum.splits if_splits prod.splits)
  with d1 show ?thesis by (simp add: creations_kept_def)
qed

lemma launched_id:
  assumes "launch_created w key opts row values durable pn d = (d', es, Inr (Created s))" "se_id row = pn_id pn"
  shows "se_id s = pn_id pn"
proof -
  obtain d1 es1 x where l: "(if pn_hosting pn = Self_hosted then launch_hosted w row values durable d
      else launch_cloud w key opts row pn d) = (d1, es1, x)" by (metis prod_cases3)
  then have x: "x = Inr s"
    using assms(1) by (auto simp: launch_created_def launch_failed_def refused_def split: sum.splits if_splits prod.splits)
  show ?thesis
  proof (cases "pn_hosting pn = Self_hosted")
    case True
    with l x assms(2) show ?thesis
      by (auto simp: launch_hosted_def answered_def split: option.splits if_splits)
  next
    case False
    with l x assms(2) show ?thesis
      by (auto simp: launch_cloud_def Let_def findSession_Some split: option.splits if_splits sum.splits prod.splits
          dest!: findSession_Some)
  qed
qed

lemma pending_fields [simp]:
  "se_id (session_row.truncate (pending_session w agentId opts pn)) = pn_id pn"
  "se_project (session_row.truncate (pending_session w agentId opts pn)) = project_of w"
  "se_deleted (session_row.truncate (pending_session w agentId opts pn)) = None"
  "se_state (session_row.truncate (pending_session w agentId opts pn)) = P_pending"
  "se_environment (session_row.truncate (pending_session w agentId opts pn)) = Some (pn_environment pn)"
  by (simp_all add: pending_session_def session_row.truncate_def)

text \<open>A request whose key is stored is answered from the table, whatever has become of the session.\<close>

definition stored_answer :: "id \<Rightarrow> id \<Rightarrow> db \<Rightarrow> creation" where
  "stored_answer projectId sid d =
     (case findSession projectId sid d of
        None \<Rightarrow> refused 409 ''idempotency_conflict'' ''Idempotency-Key belongs to a deleted Session.''
      | Some s \<Rightarrow> Created s)"

lemma replay_stored:
  "replay_creation projectId (Some (keyHash, fingerprint)) d =
     map_option (\<lambda>c. if cr_fingerprint c \<noteq> fingerprint
       then refused 409 ''idempotency_conflict'' ''Idempotency-Key was already used for a different Session creation request.''
       else stored_answer projectId (cr_session c) d) (findSessionCreation projectId keyHash d)"
  by (simp add: replay_creation_def stored_answer_def split: option.splits)

lemma replayed_id:
  assumes "replay_creation projectId (Some (keyHash, fingerprint)) d = Some (Created s)"
  shows "\<exists>c. findSessionCreation projectId keyHash d = Some c \<and> cr_session c = se_id s \<and> cr_fingerprint c = fingerprint"
  using assms
  by (auto simp: replay_stored stored_answer_def refused_def split: if_splits option.splits dest!: findSession_Some)

lemma created_key:
  assumes "calm w" "creation_key w agentId requested opts = Some (keyHash, fingerprint)"
    and "createSessionForAgent w agentId requested opts rid d = (d1, es, Inr (Created s))"
  shows "\<exists>c. findSessionCreation (project_of w) keyHash d1 = Some c \<and> cr_session c = se_id s \<and> cr_fingerprint c = fingerprint"
proof (cases "replay_creation (project_of w) (Some (keyHash, fingerprint)) d")
  case (Some x)
  with assms(2,3) show ?thesis by (auto simp: createSessionForAgent_def Let_def intro!: replayed_id)
next
  case None
  let ?key = "Some (keyHash, fingerprint)"
  obtain es0 pn where plan: "plan_session w agentId requested opts d = (es0, Inr (Inr pn))"
    using assms(3) None by (auto simp: createSessionForAgent_def Let_def assms(2) split: prod.splits sum.splits)
  let ?e = "nw_before_insert w d"
  let ?row = "session_row.truncate (pending_session w agentId opts pn)"
  let ?vals = "work_values_of opts pn rid"
  let ?durable = "durable_work w ?key ?row ?vals pn"
  obtain es1 where made: "create_planned w ?key agentId opts rid pn ?e = (d1, es1, Inr (Created s))"
    using assms(3) None plan by (auto simp: createSessionForAgent_def Let_def assms(2) split: prod.splits)
  show ?thesis
  proof (cases "insert_created w ?key ?row ?durable (cloud_start w opts pn rid) ?e")
    case None
    with made have "replay_creation (project_of w) ?key ?e = Some (Created s)" "d1 = ?e"
      by (auto simp: create_planned_def Let_def refused_def split: option.splits if_splits)
    then show ?thesis using replayed_id by blast
  next
    case (Some d2)
    then obtain es2 where l: "launch_created w ?key opts ?row ?vals ?durable pn (nw_before_launch w d2) = (d1, es2, Inr (Created s))"
      using made by (auto simp: create_planned_def Let_def split: prod.splits)
    have "keeps (nw_before_launch w)" "calm_startup (nw_startup w)" using assms(1) by (simp_all add: calm_def)
    with launch_created_kept [OF _ l] have "creations_kept d2 d1" using keepsD kept_trans by blast
    with inserted_key [OF Some] launched_id [OF l] show ?thesis by (auto dest!: kept_find)
  qed
qed

text \<open>
  C15 (equivalence): once a request with an idempotency key has created or returned a session, every repetition of
  it, in any later state that keeps the stored keys, is answered with that session, or with a conflict when it was deleted, and
  a different request with the key is refused; neither writes anything or calls the outside.
\<close>

theorem repeated_request_replays:
  assumes "calm w" "truthy_str (op_key opts)"
    and "createSessionForAgent w agentId requested opts rid d = (d1, es, Inr (Created s))"
    and "creations_kept d1 d2"
    and "project_of w' = project_of w" "nw_digest w' = nw_digest w" "nw_platform w' = nw_platform w"
    and "op_key opts' = op_key opts"
  shows "createSessionForAgent w' agentId' requested' opts' rid' d2 =
    (d2, [], Inr (if creation_key w' agentId' requested' opts' = creation_key w agentId requested opts
                  then stored_answer (project_of w) (se_id s) d2
                  else refused 409 ''idempotency_conflict''
                         ''Idempotency-Key was already used for a different Session creation request.''))"
proof -
  let ?h = "nw_digest w (the (op_key opts))"
  obtain f where key: "creation_key w agentId requested opts = Some (?h, f)"
    using assms(2) by (simp add: creation_key_def)
  obtain f' where key': "creation_key w' agentId' requested' opts' = Some (?h, f')"
    using assms(2,6,8) by (simp add: creation_key_def)
  from created_key [OF assms(1) key assms(3)] kept_find [OF assms(4)] obtain c where
    "findSessionCreation (project_of w) ?h d2 = Some c" "cr_session c = se_id s" "cr_fingerprint c = f" by metis
  then have "replay_creation (project_of w) (Some (?h, f')) d2 = Some (if f' = f then stored_answer (project_of w) (se_id s) d2
      else refused 409 ''idempotency_conflict'' ''Idempotency-Key was already used for a different Session creation request.'')"
    by (auto simp: replay_stored)
  then show ?thesis using key key' assms(5) by (simp add: createSessionForAgent_def Let_def)
qed

section \<open>Accepted requests\<close>

lemma check_thenE:
  assumes "check_then c k = (es, Inr (Inr y))"
  obtains es1 x es2 where "c = (es1, Inr (Inr x))" "k x = (es2, Inr (Inr y))" "es = es1 @ es2"
  using assms by (auto simp: check_then_def split: prod.splits sum.splits)

lemma of_input_pass: "of_input message r = (es, Inr (Inr x)) \<longleftrightarrow> es = [] \<and> r = Inr x"
  by (auto simp: of_input_def refuse_with_def throw_def pass_def split: sum.splits input_error.splits)

lemma pass_iff [simp]: "pass x = (es, Inr (Inr y)) \<longleftrightarrow> es = [] \<and> x = y"
  by (auto simp: pass_def)

lemma refuse_not [simp]:
  "refuse_with es' status code message fs \<noteq> (es, Inr (Inr y))" "throw e \<noteq> (es, Inr (Inr y))"
  "conflict message \<noteq> (es, Inr (Inr y))"
  by (simp_all add: refuse_with_def throw_def conflict_def)

definition no_secret_keys :: "json option \<Rightarrow> bool" where
  "no_secret_keys v \<longleftrightarrow> (\<forall>j k. v = Some j \<longrightarrow> key_occurs k j \<longrightarrow> \<not> session_secretKey k)"

lemma no_secret_iff: "\<not> session_hasSecretMaterial v \<longleftrightarrow> no_secret_keys v"
  by (auto simp: no_secret_keys_def session_hasSecretMaterial_def has_secret_iff split: option.splits)

lemma request_checked:
  assumes "check_request w opts = (es, Inr (Inr (vs, ms)))"
  shows "js_trim (op_prompt opts) \<noteq> []" "no_secret_keys (op_metadata opts)"
    "no_secret_keys (map_option volumes_json (op_volumes opts))" "no_secret_keys (op_config opts)"
    "no_secret_keys (map_option env_json (op_env opts))"
    "normalizeWorkspaceSpec (nw_platform w) (orNil (op_volumes opts)) (orNil (op_mounts opts)) = Inr (vs, ms)"
  using assms by (auto simp: check_request_def of_input_pass no_secret_iff split: if_splits)

lemma agent_checked:
  assumes "check_agent w agentId = (es, Inr (Inr (v, a)))"
  shows "\<exists>agent. findAgent (project_of w) agentId (nw_catalog w) = Some agent \<and> ag_deleted agent = None \<and>
    currentAgentVersion agent (nw_catalog w) = Some v"
    "as_model a = av_model v" "as_identity a = av_identity v"
    "\<forall>s \<in> set (as_subagents a). ss_agent s \<noteq> agentId \<and>
       (\<exists>agent. findAgent (project_of w) (ss_agent s) (nw_catalog w) = Some agent)"
proof -
  obtain agent subs where agent: "findAgent (project_of w) agentId (nw_catalog w) = Some agent" "ag_deleted agent = None"
    "currentAgentVersion agent (nw_catalog w) = Some v" "a = createAgentSnapshot v subs"
    and subs: "sessionSubagentSnapshots (nw_catalog w) (project_of w) (ag_id agent) (av_subagents v) = Inr subs"
    using assms by (auto simp: check_agent_def split: option.splits if_splits sum.splits)
  then show "\<exists>agent. findAgent (project_of w) agentId (nw_catalog w) = Some agent \<and> ag_deleted agent = None \<and>
      currentAgentVersion agent (nw_catalog w) = Some v"
    "as_model a = av_model v" "as_identity a = av_identity v" by (auto simp: createAgentSnapshot_def)
  have same: "ag_id x = i" if "findAgent projectId i ct = Some x" for projectId i ct x
    using that by (auto simp: findAgent_def dest: sql_get_Some)
  have "\<forall>s \<in> set ss. ss_agent s \<noteq> parent \<and> (\<exists>x. findAgent projectId (ss_agent s) ct = Some x)"
    if "sessionSubagentSnapshots ct projectId parent rs = Inr ss" for ct projectId parent rs ss
    using that
  proof (induction ct projectId parent rs arbitrary: ss rule: sessionSubagentSnapshots.induct)
    case (2 ct projectId parent r rs)
    then obtain i x v' rest where "sr_agent r = Some i" "i \<noteq> parent" "findAgent projectId i ct = Some x"
      "sessionSubagentSnapshots ct projectId parent rs = Inr rest" "ss = createSessionSubagentSnapshot x v' (sr_name r) # rest"
      "\<forall>s \<in> set rest. ss_agent s \<noteq> parent \<and> (\<exists>x. findAgent projectId (ss_agent s) ct = Some x)"
      by (auto split: option.splits if_splits sum.splits)
    then show ?case using same by (auto simp: createSessionSubagentSnapshot_def)
  qed simp
  from this [OF subs] agent(4) same [OF agent(1)] show "\<forall>s \<in> set (as_subagents a). ss_agent s \<noteq> agentId \<and>
      (\<exists>agent. findAgent (project_of w) (ss_agent s) (nw_catalog w) = Some agent)" by (simp add: createAgentSnapshot_def)
qed

lemma runtime_checked:
  assumes "check_runtime opts a = (es, Inr (Inr runtime))"
  shows "isRuntimeName runtime" "\<forall>i. as_identity a = Some i \<longrightarrow> runtime = id_runtime i"
  using assms
  by (auto simp: check_runtime_def resolveIdentityRuntime_def runtimeNameForIdentity_def
      split: sum.splits option.splits if_splits prod.splits)

lemma provider_checked:
  assumes "check_provider w v = (es, Inr (Inr u))"
  shows "truthy_str (av_provider v) \<longrightarrow>
    dc_allowed (evaluateProviderPolicy (nw_caller w) (the (av_provider v)) (av_model v) (nw_read w) (nw_gov w))"
  using assms
  by (auto simp: check_provider_def evaluateProviderPolicyForSession_def Let_def split: if_splits prod.splits)

lemma environment_checked:
  assumes "check_environment w requested v runtime d = (es, Inr (Inr (environmentId, x)))"
  shows "\<exists>e. findEnvironment (project_of w) environmentId d = Some e \<and> en_deleted e = None \<and>
      en_current_version e = Some (xv_id x)"
    "findEnvironmentVersion (project_of w) (xv_id x) (nw_catalog w) = Some x" "\<forall>r. requested = Some r \<longrightarrow> environmentId = r"
proof -
  obtain e where e: "findEnvironment (project_of w) environmentId d = Some e" "truthy_str (en_current_version e)"
    "findEnvironmentVersion (project_of w) (the (en_current_version e)) (nw_catalog w) = Some x"
    using assms by (auto simp: check_environment_def Let_def split: option.splits if_splits)
  have "en_deleted e = None" using e(1) by (auto simp: findEnvironment_def dest: sql_get_Some)
  moreover have "xv_id x = the (en_current_version e)" using e(3) by (auto simp: findEnvironmentVersion_def dest: sql_get_Some)
  ultimately show "\<exists>e. findEnvironment (project_of w) environmentId d = Some e \<and> en_deleted e = None \<and>
      en_current_version e = Some (xv_id x)" "findEnvironmentVersion (project_of w) (xv_id x) (nw_catalog w) = Some x"
    using e by (auto simp: truthy_str_def split: option.splits)
  show "\<forall>r. requested = Some r \<longrightarrow> environmentId = r"
    using assms by (auto simp: check_environment_def Let_def split: option.splits if_splits)
qed

lemma resolve_env_active:
  "resolve_env p auth vd n names entries = Inr entries' \<Longrightarrow>
     \<forall>e \<in> set entries'. active_ref p auth vd (ee_ref e)"
proof (induction p auth vd n names entries arbitrary: entries' rule: resolve_env.induct)
  case (2 p auth vd n names entry rest)
  then show ?case
    by (auto simp: require_active_def active_ref_def split: sum.splits option.splits if_splits)
qed simp

lemma sandbox_checked:
  assumes "check_sandbox w h a x = (es, Inr (Inr u))"
  shows "h = Cloud \<longrightarrow> dc_allowed (evaluateSandboxRuntimePolicy (nw_url w) (nw_collate w) (nw_caller w)
    (Some \<lparr>sn_agent = Some a, sn_environment = Some x\<rparr>) Op_startup (nw_gov w))"
  using assms by (auto simp: check_sandbox_def Let_def split: if_splits)

text \<open>The steps of a plan that was made.\<close>

lemma request_steps:
  assumes "plan_request w agentId opts = (es, Inr (Inr (v, a, runtime, env, vs1, ms1)))"
  shows "\<exists>vs ms es1 es2 es3. check_request w opts = (es1, Inr (Inr (vs, ms))) \<and>
    check_agent w agentId = (es2, Inr (Inr (v, a))) \<and> check_runtime opts a = (es3, Inr (Inr runtime)) \<and>
    identityRuntimeInputs (nw_platform w) (as_identity a) (session_id_of w opts) (orNil (op_env opts))
      (orNil (op_env_from opts)) vs ms = Inr (env, vs1, ms1)"
  using assms unfolding plan_request_def
  by (fastforce elim!: check_thenE simp: of_input_pass split: prod.splits)

lemma place_steps:
  assumes "plan_place w requested opts v a runtime vs1 ms1 d = (es, Inr (Inr (environmentId, x, entries, vs2, ms2, a')))"
  shows "\<exists>es1 es2 es3 u. check_provider w v = (es1, Inr (Inr u)) \<and>
    check_environment w requested v runtime d = (es2, Inr (Inr (environmentId, x))) \<and>
    check_inputs w opts vs1 ms1 d = (es3, Inr (Inr (entries, vs2, ms2)))"
  using assms unfolding plan_place_def
  by (fastforce elim!: check_thenE split: prod.splits)

lemma plan_steps:
  assumes "plan_session w agentId requested opts d = (es, Inr (Inr pn))"
  shows "\<exists>vs1 ms1 x es1 es2 es3 u a'. plan_request w agentId opts =
      (es1, Inr (Inr (pn_version pn, pn_snapshot pn, pn_runtime pn, pn_env pn, vs1, ms1))) \<and>
    plan_place w requested opts (pn_version pn) (pn_snapshot pn) (pn_runtime pn) vs1 ms1 d =
      (es2, Inr (Inr (pn_environment pn, x, pn_env_from pn, pn_volumes pn, pn_mounts pn, a'))) \<and>
    pn_environment_version pn = xv_id x \<and>
    pn_environment_snapshot pn = normalizeEnvironmentSnapshot (nw_number w) (createEnvironmentSnapshot x) \<and>
    pn_hosting pn = environmentHostingMode (pn_environment_snapshot pn) \<and>
    validateRuntimeProviderModel w (pn_environment pn) (pn_hosting pn) (pn_runtime pn) (av_provider (pn_version pn))
      (as_model (pn_snapshot pn)) d \<and>
    check_sandbox w (pn_hosting pn) (agent_json (pn_snapshot pn)) (pn_environment_snapshot pn) = (es3, Inr (Inr u)) \<and>
    pn_id pn = session_id_of w opts"
  using assms unfolding plan_session_def Let_def
  by (fastforce elim!: check_thenE simp: check_model_def split: prod.splits if_splits)

text \<open>A request that is not answered from the table, neither at its start nor at its insertion.\<close>

definition fresh_request :: "create_world \<Rightarrow> id \<Rightarrow> id option \<Rightarrow> create_options \<Rightarrow> db \<Rightarrow> bool" where
  "fresh_request w agentId requested opts d \<longleftrightarrow>
     replay_creation (project_of w) (creation_key w agentId requested opts) d = None \<and>
     replay_creation (project_of w) (creation_key w agentId requested opts) (nw_before_insert w d) = None"

lemma created_planned:
  assumes "createSessionForAgent w agentId requested opts rid d = (d', es, Inr (Created s))"
    and "fresh_request w agentId requested opts d"
  shows "\<exists>es0 pn d1 es1. plan_session w agentId requested opts d = (es0, Inr (Inr pn)) \<and>
    insert_created w (creation_key w agentId requested opts) (session_row.truncate (pending_session w agentId opts pn))
      (durable_work w (creation_key w agentId requested opts) (session_row.truncate (pending_session w agentId opts pn))
         (work_values_of opts pn rid) pn) (cloud_start w opts pn rid) (nw_before_insert w d) = Some d1 \<and>
    launch_created w (creation_key w agentId requested opts) opts (session_row.truncate (pending_session w agentId opts pn))
      (work_values_of opts pn rid)
      (durable_work w (creation_key w agentId requested opts) (session_row.truncate (pending_session w agentId opts pn))
         (work_values_of opts pn rid) pn) pn (nw_before_launch w d1) = (d', es1, Inr (Created s)) \<and>
    es = es0 @ E_audit ''session.create'' Success # es1"
proof -
  obtain es0 pn where plan: "plan_session w agentId requested opts d = (es0, Inr (Inr pn))"
    using assms by (auto simp: createSessionForAgent_def fresh_request_def Let_def split: prod.splits sum.splits)
  then obtain es1 where made: "create_planned w (creation_key w agentId requested opts) agentId opts rid pn
      (nw_before_insert w d) = (d', es1, Inr (Created s))" "es = es0 @ es1"
    using assms by (auto simp: createSessionForAgent_def fresh_request_def Let_def split: prod.splits)
  from made(1) assms(2) plan made(2) show ?thesis
    by (auto simp: create_planned_def fresh_request_def Let_def refused_def split: option.splits prod.splits if_splits)
qed

definition confined ::
    "'a uri_platform_scheme \<Rightarrow> input_scope \<Rightarrow> db \<Rightarrow> vault_db \<Rightarrow> volume list \<Rightarrow> volume_mount list \<Rightarrow> bool" where
  "confined p auth d vd vs ms \<longleftrightarrow>
     distinct (map vol_name vs) \<and> distinct (map vm_name ms) \<and> set (map vm_name ms) = set (map vol_name vs) \<and>
     (\<forall>m \<in> set ms. clean_mount_path (vm_path m)) \<and> distinct (List.map_filter (path_taken ms) vs) \<and>
     (\<forall>v \<in> set vs. sited ms v \<and> refs_checked p auth d vd v)"

lemma inputs_steps:
  assumes "check_inputs w opts vs1 ms1 d = (es, Inr (Inr (entries, vs2, ms2)))"
  shows "\<exists>vs. resolveMemoryVolumes (nw_platform w) (project_of w) d vs1 = Inr vs \<and>
    resolveEnvFromEntries (nw_platform w) (scope_of w) (nw_vaults w) (orNil (op_env_from opts)) = Inr entries \<and>
    validateDeclaredVolumes (nw_platform w) (scope_of w) (nw_vaults w) vs ms1 = Inr (vs2, ms2)"
  using assms unfolding check_inputs_def
  by (fastforce elim!: check_thenE simp: of_input_pass split: prod.splits)

lemma plan_confined:
  assumes "plan_session w agentId requested opts d = (es, Inr (Inr pn))"
  shows "confined (nw_platform w) (scope_of w) d (nw_vaults w) (pn_volumes pn) (pn_mounts pn)"
    "\<forall>e \<in> set (pn_env_from pn). active_ref (nw_platform w) (scope_of w) (nw_vaults w) (ee_ref e)"
proof -
  from plan_steps [OF assms] obtain vs1 ms1 x es1 es2 a' where
    r: "plan_request w agentId opts = (es1, Inr (Inr (pn_version pn, pn_snapshot pn, pn_runtime pn, pn_env pn, vs1, ms1)))"
    and p: "plan_place w requested opts (pn_version pn) (pn_snapshot pn) (pn_runtime pn) vs1 ms1 d =
      (es2, Inr (Inr (pn_environment pn, x, pn_env_from pn, pn_volumes pn, pn_mounts pn, a')))" by blast
  from request_steps [OF r] obtain vs ms es3 where norm: "check_request w opts = (es3, Inr (Inr (vs, ms)))"
    and ident: "identityRuntimeInputs (nw_platform w) (as_identity (pn_snapshot pn)) (session_id_of w opts)
      (orNil (op_env opts)) (orNil (op_env_from opts)) vs ms = Inr (pn_env pn, vs1, ms1)" by blast
  from place_steps [OF p] obtain es4 where
    i: "check_inputs w opts vs1 ms1 d = (es4, Inr (Inr (pn_env_from pn, pn_volumes pn, pn_mounts pn)))" by blast
  from inputs_steps [OF i] obtain vs2 where
    m: "resolveMemoryVolumes (nw_platform w) (is_project (scope_of w)) d vs1 = Inr vs2"
    and e: "resolveEnvFromEntries (nw_platform w) (scope_of w) (nw_vaults w) (orNil (op_env_from opts)) = Inr (pn_env_from pn)"
    and v: "validateDeclaredVolumes (nw_platform w) (scope_of w) (nw_vaults w) vs2 ms1 = Inr (pn_volumes pn, pn_mounts pn)"
    by (auto simp: scope_of_def)
  show "confined (nw_platform w) (scope_of w) d (nw_vaults w) (pn_volumes pn) (pn_mounts pn)"
    unfolding confined_def by (rule workspace_sound [OF request_checked(6) [OF norm] ident m v])
  show "\<forall>e \<in> set (pn_env_from pn). active_ref (nw_platform w) (scope_of w) (nw_vaults w) (ee_ref e)"
    using resolve_env_active e unfolding resolveEnvFromEntries_def by blast
qed

text \<open>
  C16 (safety): a created session passed every check on the state its request has read: a prompt and no secret
  keys, a live agent with live sub-agents other than itself, a known runtime that is the one of the
  identity, a provider that policy and budgets admit, a live environment, a model the catalog or a runner
  offers, on the cloud a sandbox policy that admits the startup, and a confined workspace whose
  credentials and memory stores are active (of a reference to a whole vault only the form is checked), as are
  those of the environment.
\<close>

theorem accepted_session_checked:
  assumes "createSessionForAgent w agentId requested opts rid d = (d', es, Inr (Created s))"
    and "fresh_request w agentId requested opts d"
  shows "\<exists>es0 pn. plan_session w agentId requested opts d = (es0, Inr (Inr pn)) \<and> se_id s = pn_id pn \<and>
    js_trim (op_prompt opts) \<noteq> [] \<and>
    no_secret_keys (op_metadata opts) \<and> no_secret_keys (map_option volumes_json (op_volumes opts)) \<and>
    no_secret_keys (op_config opts) \<and> no_secret_keys (map_option env_json (op_env opts)) \<and>
    (\<exists>agent. findAgent (project_of w) agentId (nw_catalog w) = Some agent \<and>
       currentAgentVersion agent (nw_catalog w) = Some (pn_version pn)) \<and>
    (\<forall>x \<in> set (as_subagents (pn_snapshot pn)). ss_agent x \<noteq> agentId \<and>
       (\<exists>agent. findAgent (project_of w) (ss_agent x) (nw_catalog w) = Some agent)) \<and>
    isRuntimeName (pn_runtime pn) \<and> (\<forall>i. av_identity (pn_version pn) = Some i \<longrightarrow> pn_runtime pn = id_runtime i) \<and>
    (truthy_str (av_provider (pn_version pn)) \<longrightarrow>
       dc_allowed (evaluateProviderPolicy (nw_caller w) (the (av_provider (pn_version pn))) (av_model (pn_version pn))
         (nw_read w) (nw_gov w))) \<and>
    (\<exists>e. findEnvironment (project_of w) (pn_environment pn) d = Some e \<and>
       en_current_version e = Some (pn_environment_version pn)) \<and>
    validateRuntimeProviderModel w (pn_environment pn) (pn_hosting pn) (pn_runtime pn) (av_provider (pn_version pn))
      (av_model (pn_version pn)) d \<and>
    (pn_hosting pn = Cloud \<longrightarrow>
       dc_allowed (evaluateSandboxRuntimePolicy (nw_url w) (nw_collate w) (nw_caller w)
         (Some \<lparr>sn_agent = Some (agent_json (pn_snapshot pn)), sn_environment = Some (pn_environment_snapshot pn)\<rparr>)
         Op_startup (nw_gov w))) \<and>
    confined (nw_platform w) (scope_of w) d (nw_vaults w) (pn_volumes pn) (pn_mounts pn) \<and>
    (\<forall>e \<in> set (pn_env_from pn). active_ref (nw_platform w) (scope_of w) (nw_vaults w) (ee_ref e))"
proof -
  from created_planned [OF assms] obtain es0 pn d1 es1 where
    plan: "plan_session w agentId requested opts d = (es0, Inr (Inr pn))"
    and launch: "launch_created w (creation_key w agentId requested opts) opts
      (session_row.truncate (pending_session w agentId opts pn)) (work_values_of opts pn rid)
      (durable_work w (creation_key w agentId requested opts) (session_row.truncate (pending_session w agentId opts pn))
         (work_values_of opts pn rid) pn) pn (nw_before_launch w d1) = (d', es1, Inr (Created s))" by blast
  from plan_steps [OF plan] obtain vs1 ms1 x es2 es3 es4 a' u where
    r: "plan_request w agentId opts = (es2, Inr (Inr (pn_version pn, pn_snapshot pn, pn_runtime pn, pn_env pn, vs1, ms1)))"
    and p: "plan_place w requested opts (pn_version pn) (pn_snapshot pn) (pn_runtime pn) vs1 ms1 d =
      (es3, Inr (Inr (pn_environment pn, x, pn_env_from pn, pn_volumes pn, pn_mounts pn, a')))"
    and x: "pn_environment_version pn = xv_id x"
    and m: "validateRuntimeProviderModel w (pn_environment pn) (pn_hosting pn) (pn_runtime pn) (av_provider (pn_version pn))
      (as_model (pn_snapshot pn)) d"
    and b: "check_sandbox w (pn_hosting pn) (agent_json (pn_snapshot pn)) (pn_environment_snapshot pn) = (es4, Inr (Inr u))"
    by blast
  from request_steps [OF r] obtain vs ms f1 f2 f3 where q: "check_request w opts = (f1, Inr (Inr (vs, ms)))"
    "check_agent w agentId = (f2, Inr (Inr (pn_version pn, pn_snapshot pn)))"
    "check_runtime opts (pn_snapshot pn) = (f3, Inr (Inr (pn_runtime pn)))" by blast
  from place_steps [OF p] obtain g1 g2 u' where g: "check_provider w (pn_version pn) = (g1, Inr (Inr u'))"
    "check_environment w requested (pn_version pn) (pn_runtime pn) d = (g2, Inr (Inr (pn_environment pn, x)))" by blast
  show ?thesis
    using plan launched_id [OF launch] request_checked [OF q(1)] agent_checked [OF q(2)] runtime_checked [OF q(3)]
      provider_checked [OF g(1)] environment_checked(1) [OF g(2)] x m sandbox_checked [OF b] plan_confined [OF plan]
    by (intro exI [of _ es0] exI [of _ pn]) auto
qed

section \<open>The work of a created session\<close>

lemma insert_created_rows:
  assumes "insert_created w key row durable start d = Some d1"
  shows "sessions d1 = sessions d @ [row]"
    "\<forall>item. key \<noteq> None \<longrightarrow> durable = Some item \<longrightarrow> item \<in> set (work_items d1)"
  using assms
  by (auto simp: insert_created_def insertSessionCreation_def insertSession_def insert_creation_def insertWorkItem_def
      bind_eq_Some_conv split: option.splits if_splits)



lemma item_fields [simp]:
  "wi_state (selfHostedSessionWorkItem newId org projectId row v t) = W_available"
  "wi_session (selfHostedSessionWorkItem newId org projectId row v t) = Some (se_id row)"
  "wi_environment (selfHostedSessionWorkItem newId org projectId row v t) = se_environment row"
  by (simp_all add: selfHostedSessionWorkItem_def Let_def)



text \<open>Other processes leave the rows of sessions and work items where they are.\<close>

definition rows_kept :: "(db \<Rightarrow> db) \<Rightarrow> bool" where
  "rows_kept f \<longleftrightarrow> (\<forall>d. set (sessions d) \<subseteq> set (sessions (f d)) \<and> set (work_items d) \<subseteq> set (work_items (f d)))"


section \<open>Requests that fail\<close>

definition only_audits :: "effect list \<Rightarrow> bool" where
  "only_audits es \<longleftrightarrow> (\<forall>e \<in> set es. \<exists>a r. e = E_audit a r)"

lemma only_audits_simps [simp]:
  "only_audits []" "only_audits (e # es) \<longleftrightarrow> (\<exists>a r. e = E_audit a r) \<and> only_audits es"
  "only_audits (es @ fs) \<longleftrightarrow> only_audits es \<and> only_audits fs"
  by (auto simp: only_audits_def)

lemma audits_then [intro]:
  "only_audits (fst c) \<Longrightarrow> (\<And>x. only_audits (fst (k x))) \<Longrightarrow> only_audits (fst (check_then c k))"
  by (auto simp: check_then_def split: prod.splits sum.splits) (metis fst_conv)

lemma audits_leaf [simp]:
  "only_audits (fst (pass x))" "only_audits (fst (throw e))" "only_audits (fst (conflict message))"
  "only_audits (fst (refuse_with es n a b fs)) = only_audits es" "only_audits (fst (of_input message r))"
  by (auto simp: pass_def throw_def conflict_def refuse_with_def of_input_def split: sum.splits input_error.splits)

lemma plan_audits: "only_audits (fst (plan_session w agentId requested opts d))"
proof -
  have "only_audits (fst (check_request w opts))" by (simp add: check_request_def)
  moreover have "only_audits (fst (check_agent w agentId))" by (auto simp: check_agent_def split: option.splits sum.splits)
  moreover have "only_audits (fst (check_runtime opts a))" for a
    by (auto simp: check_runtime_def split: sum.splits prod.splits)
  ultimately have request: "only_audits (fst (plan_request w agentId opts))"
    unfolding plan_request_def by (auto intro!: audits_then split: prod.splits)
  have "only_audits (fst (check_provider w v))" for v by (auto simp: check_provider_def split: prod.splits)
  moreover have "only_audits (fst (check_environment w requested v runtime d))" for v runtime
    by (auto simp: check_environment_def Let_def split: option.splits)
  moreover have "only_audits (fst (check_inputs w opts vs ms d))" for vs ms
    unfolding check_inputs_def by (auto intro!: audits_then split: prod.splits)
  moreover have "only_audits (fst (context_snapshot w a vs ms))" for a vs ms
    by (auto simp: context_snapshot_def split: sum.splits)
  ultimately have place: "only_audits (fst (plan_place w requested opts v a runtime vs ms d))" for v a runtime vs ms
    unfolding plan_place_def by (auto intro!: audits_then split: prod.splits)
  have model: "only_audits (fst (check_model w e h r v a d))" for e h r v a by (simp add: check_model_def)
  have sandbox: "only_audits (fst (check_sandbox w h j x))" for h j x by (simp add: check_sandbox_def Let_def)
  show ?thesis
    unfolding plan_session_def Let_def split_def
    by (intro audits_then request place model sandbox audits_leaf(1))
qed

text \<open>The row of a failed launch is not left pending: the guarded update takes every pending row with its id.\<close>

lemma errored_write:
  "se_id (persistedSessionWrite (upd_state Errored (Some (Some e)) t) s) = se_id s"
  "se_state (persistedSessionWrite (upd_state Errored (Some (Some e)) t) s) = P_error"
  by (simp_all add: persistedSessionWrite_def upd_state_def no_update_def set_or_simps)

lemma failed_not_pending:
  assumes "updateSessionWhenState projectId sid [Pending] (upd_state Errored (Some (Some e)) t) d = (d', hit)"
    and "s \<in> set (sessions d')" "se_id s = sid" "live_in projectId s"
  shows "se_state s \<noteq> P_pending"
proof -
  let ?u = "persistedSessionWrite (upd_state Errored (Some (Some e)) t)"
  let ?P = "\<lambda>s. se_id s = sid \<and> live_in projectId s \<and> state_in [Pending] s"
  have "sessions d' = sql_update ?P ?u (sessions d)"
    using session_cas_rows(1) [of sid "\<lambda>s. live_in projectId s \<and> state_in [Pending] s" ?u d] assms(1)
    by (simp add: updateSessionWhenState_def)
  then have "s \<in> set (sql_update ?P ?u (sessions d))" using assms(2) by simp
  then obtain r where r: "s = (if ?P r then ?u r else r)" by (rule sql_update_elemE)
  show ?thesis
  proof (cases "?P r")
    case True
    with r show ?thesis by (simp add: errored_write)
  next
    case False
    then have "\<not> state_in [Pending] s" using r assms(3,4) by auto
    then show ?thesis by (simp add: state_in_def persistedSessionStates_def)
  qed
qed

text \<open>The launch of the inserted row threw \<open>e\<close> and left the database \<open>d2\<close>.\<close>

definition launch_threw ::
    "create_world \<Rightarrow> id \<Rightarrow> id option \<Rightarrow> create_options \<Rightarrow> string option \<Rightarrow> session_plan \<Rightarrow> db \<Rightarrow> string \<Rightarrow> db \<Rightarrow> bool" where
  "launch_threw w agentId requested opts rid pn d e d2 \<longleftrightarrow>
     (let key = creation_key w agentId requested opts;
          row = session_row.truncate (pending_session w agentId opts pn);
          vals = work_values_of opts pn rid;
          durable = durable_work w key row vals pn in
      \<exists>d1 es. insert_created w key row durable (cloud_start w opts pn rid) (nw_before_insert w d) = Some d1 \<and>
        (if pn_hosting pn = Self_hosted then launch_hosted w row vals durable (nw_before_launch w d1)
         else launch_cloud w key opts row pn (nw_before_launch w d1)) = (d2, es, Inl e))"

definition errored_row :: "create_world \<Rightarrow> string \<Rightarrow> session_row \<Rightarrow> session_row" where
  "errored_row w e s = s\<lparr>se_state := P_error, se_reason := Some e, se_updated := nw_failed w\<rparr>"

lemma errored_rows:
  assumes "launch_failed w None sid e d = (d', es, r)" "s \<in> set (sessions d)" "se_id s = sid" "live_in (project_of w) s"
  shows "(if se_state s = P_pending then errored_row w e s else s) \<in> set (sessions d')"
proof -
  let ?u = "persistedSessionWrite (upd_state Errored (Some (Some e)) (nw_failed w))"
  let ?P = "\<lambda>s. se_id s = sid \<and> live_in (project_of w) s \<and> state_in [Pending] s"
  have u: "?u s = errored_row w e s"
    by (simp add: errored_row_def persistedSessionWrite_def upd_state_def no_update_def set_or_simps)
  have "sessions d' = sql_update ?P ?u (sessions d)"
    using session_cas_rows(1) [of sid "\<lambda>s. live_in (project_of w) s \<and> state_in [Pending] s" ?u d] assms(1)
    by (simp add: launch_failed_def updateSessionWhenState_def)
  then have "(if ?P s then ?u s else s) \<in> set (sessions d')" using assms(2) by (auto simp: set_sql_update)
  then show ?thesis using assms(3,4) u
    by (cases "se_state s = P_pending") (simp_all add: state_in_def persistedSessionStates_def)
qed

lemma thrown_rows:
  assumes "launch_threw w agentId requested opts rid pn d e d2" "pn_hosting pn = Self_hosted \<or> \<not> nw_inline w"
    and "rows_kept (nw_before_launch w)"
  shows "session_row.truncate (pending_session w agentId opts pn) \<in> set (sessions d2)"
proof -
  from assms(1) obtain d1 es where
    ins: "insert_created w (creation_key w agentId requested opts) (session_row.truncate (pending_session w agentId opts pn))
      (durable_work w (creation_key w agentId requested opts) (session_row.truncate (pending_session w agentId opts pn))
        (work_values_of opts pn rid) pn) (cloud_start w opts pn rid) (nw_before_insert w d) = Some d1"
    and l: "(if pn_hosting pn = Self_hosted
      then launch_hosted w (session_row.truncate (pending_session w agentId opts pn)) (work_values_of opts pn rid)
        (durable_work w (creation_key w agentId requested opts) (session_row.truncate (pending_session w agentId opts pn))
          (work_values_of opts pn rid) pn) (nw_before_launch w d1)
      else launch_cloud w (creation_key w agentId requested opts) opts (session_row.truncate (pending_session w agentId opts pn)) pn
        (nw_before_launch w d1)) = (d2, es, Inl e)"
    by (auto simp: launch_threw_def Let_def)
  have "sessions d2 = sessions (nw_before_launch w d1)"
    using l assms(2)
    by (auto simp: launch_hosted_def launch_cloud_def enqueueSelfHostedSessionWork_def insertWorkItem_def Let_def
        acknowledge_def acknowledgeCloudSessionCreation_def split: option.splits if_splits)
  moreover have "set (sessions d1) \<subseteq> set (sessions (nw_before_launch w d1))" using assms(3) by (simp add: rows_kept_def)
  ultimately show ?thesis using insert_created_rows(1) [OF ins] by auto
qed

lemma failed_launch:
  assumes "calm w" "rows_kept (nw_before_launch w)" "launch_threw w agentId requested opts rid pn d e d2"
    and "launch_failed w (creation_key w agentId requested opts) (pn_id pn) e d2 = (d', es, r)"
    and "creations_kept d1 d2" "insert_created w (creation_key w agentId requested opts)
      (session_row.truncate (pending_session w agentId opts pn)) durable start d0 = Some d1"
  shows "case creation_key w agentId requested opts of
      None \<Rightarrow> r = Inr (refused 500 ''session_launch_failed'' e) \<and>
        (\<forall>s \<in> set (sessions d2). se_id s = pn_id pn \<longrightarrow> live_in (project_of w) s \<longrightarrow>
           (if se_state s = P_pending then errored_row w e s else s) \<in> set (sessions d')) \<and>
        (\<forall>s \<in> set (sessions d'). se_id s = pn_id pn \<longrightarrow> live_in (project_of w) s \<longrightarrow> se_state s \<noteq> P_pending) \<and>
        (pn_hosting pn = Self_hosted \<or> \<not> nw_inline w \<longrightarrow>
           errored_row w e (session_row.truncate (pending_session w agentId opts pn)) \<in> set (sessions d'))
    | Some (keyHash, fingerprint) \<Rightarrow> r = Inl e \<and> d' = d2 \<and>
        (\<exists>c. findSessionCreation (project_of w) keyHash d' = Some c \<and> cr_session c = pn_id pn \<and> cr_fingerprint c = fingerprint)"
proof (cases "creation_key w agentId requested opts")
  case None
  note failed = assms(4) [unfolded None]
  have "r = Inr (refused 500 ''session_launch_failed'' e)" using failed by (simp add: launch_failed_def)
  moreover have "\<forall>s \<in> set (sessions d2). se_id s = pn_id pn \<longrightarrow> live_in (project_of w) s \<longrightarrow>
      (if se_state s = P_pending then errored_row w e s else s) \<in> set (sessions d')"
    using errored_rows [OF failed] by blast
  moreover have "\<forall>s \<in> set (sessions d'). se_id s = pn_id pn \<longrightarrow> live_in (project_of w) s \<longrightarrow> se_state s \<noteq> P_pending"
    using failed failed_not_pending [of "project_of w" "pn_id pn" e "nw_failed w" d2]
    by (auto simp: launch_failed_def) (metis prod.collapse)
  moreover have "errored_row w e (session_row.truncate (pending_session w agentId opts pn)) \<in> set (sessions d')"
    if "pn_hosting pn = Self_hosted \<or> \<not> nw_inline w"
    using errored_rows [OF failed thrown_rows [OF assms(3) that assms(2)]] by (simp add: live_in_def)
  ultimately show ?thesis using None by simp
next
  case (Some k)
  then obtain h f where k: "creation_key w agentId requested opts = Some (h, f)" by (cases k) auto
  from inserted_key [OF assms(6) [unfolded k]]
  have "\<exists>c. findSessionCreation (project_of w) h d1 = Some c \<and> cr_session c = pn_id pn \<and> cr_fingerprint c = f" by auto
  with kept_find [OF assms(5)] have "\<exists>c. findSessionCreation (project_of w) h d2 = Some c \<and> cr_session c = pn_id pn \<and> cr_fingerprint c = f"
    by metis
  with assms(4) k show ?thesis by (auto simp: launch_failed_def)
qed

lemma launch_thrown:
  assumes "launch_created w key opts row vals durable pn d = (d', es, r)" "\<forall>s. r \<noteq> Inr (Created s)"
  shows "\<exists>d2 e es3 es4. (if pn_hosting pn = Self_hosted then launch_hosted w row vals durable d
      else launch_cloud w key opts row pn d) = (d2, es3, Inl e) \<and> launch_failed w key (pn_id pn) e d2 = (d', es4, r)"
  using assms by (auto simp: launch_created_def split: prod.splits sum.splits if_splits)

text \<open>
  C18 (error): a request that does not create its session has written nothing and only audited, or its launch
  threw after the insertion. Without a key the request is then answered with that error, the row of the
  session, when it was still pending, is stored as errored with the error as its reason, another state is
  left alone, and unless the startup ran in the request the errored row is the one that was inserted; with
  a key the exception reaches the caller, nothing more is written and the key is stored, so that a
  repetition finds the session.
\<close>

theorem failed_creation_reconciled:
  assumes "calm w" "rows_kept (nw_before_launch w)"
    and "createSessionForAgent w agentId requested opts rid d = (d', es, r)" "\<forall>s. r \<noteq> Inr (Created s)"
  shows "(d' = d \<or> d' = nw_before_insert w d) \<and> only_audits es \<or>
    (\<exists>es0 pn e d2. plan_session w agentId requested opts d = (es0, Inr (Inr pn)) \<and>
       launch_threw w agentId requested opts rid pn d e d2 \<and>
       (case creation_key w agentId requested opts of
          None \<Rightarrow> r = Inr (refused 500 ''session_launch_failed'' e) \<and>
            (\<forall>s \<in> set (sessions d2). se_id s = pn_id pn \<longrightarrow> live_in (project_of w) s \<longrightarrow>
               (if se_state s = P_pending then errored_row w e s else s) \<in> set (sessions d')) \<and>
            (\<forall>s \<in> set (sessions d'). se_id s = pn_id pn \<longrightarrow> live_in (project_of w) s \<longrightarrow> se_state s \<noteq> P_pending) \<and>
            (pn_hosting pn = Self_hosted \<or> \<not> nw_inline w \<longrightarrow>
               errored_row w e (session_row.truncate (pending_session w agentId opts pn)) \<in> set (sessions d'))
        | Some (keyHash, fingerprint) \<Rightarrow> r = Inl e \<and> d' = d2 \<and>
            (\<exists>c. findSessionCreation (project_of w) keyHash d' = Some c \<and> cr_session c = pn_id pn \<and>
               cr_fingerprint c = fingerprint)))"
proof (cases "replay_creation (project_of w) (creation_key w agentId requested opts) d")
  case (Some x)
  with assms(3) show ?thesis by (auto simp: createSessionForAgent_def Let_def)
next
  case None
  define key where "key = creation_key w agentId requested opts"
  obtain es0 z where plan: "plan_session w agentId requested opts d = (es0, z)" by fastforce
  have audits: "only_audits es0" using plan_audits [of w agentId requested opts d] plan by simp
  show ?thesis
  proof (cases "\<exists>pn. z = Inr (Inr pn)")
    case False
    then have "d' = d \<and> es = es0"
      using assms(3) None plan by (auto simp: createSessionForAgent_def Let_def split: sum.splits)
    with audits show ?thesis by simp
  next
    case True
    then obtain pn where pn: "plan_session w agentId requested opts d = (es0, Inr (Inr pn))" using plan by blast
    define row where "row = session_row.truncate (pending_session w agentId opts pn)"
    define durable where "durable = durable_work w key row (work_values_of opts pn rid) pn"
    obtain es1 where made: "create_planned w key agentId opts rid pn (nw_before_insert w d) = (d', es1, r)" "es = es0 @ es1"
      using assms(3) None pn by (auto simp: createSessionForAgent_def Let_def key_def split: prod.splits)
    show ?thesis
    proof (cases "insert_created w key row durable (cloud_start w opts pn rid) (nw_before_insert w d)")
      case None
      with made audits show ?thesis
        by (auto simp: create_planned_def Let_def row_def [symmetric] durable_def [symmetric] split: option.splits if_splits)
    next
      case (Some d1)
      then obtain es2 where launch: "launch_created w key opts row (work_values_of opts pn rid) durable pn (nw_before_launch w d1) = (d', es2, r)"
        using made by (auto simp: create_planned_def Let_def row_def [symmetric] durable_def [symmetric] split: prod.splits)
      from launch_thrown [OF launch assms(4)] obtain d2 e es3 es4 where
        threw: "(if pn_hosting pn = Self_hosted then launch_hosted w row (work_values_of opts pn rid) durable (nw_before_launch w d1)
          else launch_cloud w key opts row pn (nw_before_launch w d1)) = (d2, es3, Inl e)"
        and failed: "launch_failed w key (pn_id pn) e d2 = (d', es4, r)" by blast
      have t: "launch_threw w agentId requested opts rid pn d e d2"
        using Some threw unfolding launch_threw_def Let_def key_def row_def durable_def by blast
      have "keeps (nw_before_launch w)" "calm_startup (nw_startup w)" using assms(1) by (simp_all add: calm_def)
      with threw cloud_kept hosted_kept have "creations_kept (nw_before_launch w d1) d2" by (metis kept_same)
      with \<open>keeps (nw_before_launch w)\<close> have kept: "creations_kept d1 d2" using keepsD kept_trans by blast
      from failed_launch [OF assms(1,2) t failed [unfolded key_def] kept Some [unfolded key_def row_def]] t pn
      show ?thesis by blast
    qed
  qed
qed

section \<open>Recovering stored starts\<close>

definition recovered_target :: "json \<Rightarrow> id \<times> id" where
  "recovered_target message =
     (case jstr (jget message ''projectId'') of None \<Rightarrow> [] | Some x \<Rightarrow> x,
      case jstr (jget message ''sessionId'') of None \<Rightarrow> [] | Some x \<Rightarrow> x)"

lemma recover_fold:
  "fold (recover_start (\<lambda>_. False)) messages (d, sent, n) = (d', sent', n') \<Longrightarrow>
     sessions d' = sessions d \<and> n' = n \<and> set sent \<subseteq> set sent' \<and>
     (\<forall>m \<in> set messages. sessionState (fst (recovered_target m)) (snd (recovered_target m)) d = Some Pending \<longrightarrow> m \<in> set sent')"
proof (induction messages arbitrary: d sent n)
  case (Cons m ms)
  let ?p = "fst (recovered_target m)" and ?s = "snd (recovered_target m)"
  let ?d = "acknowledgeCloudSessionCreation ?p ?s d"
  let ?sent = "if sessionState ?p ?s d = Some Pending then sent @ [m] else sent"
  have step: "recover_start (\<lambda>_. False) m (d, sent, n) = (?d, ?sent, n)"
    by (simp add: recover_start_def recovered_target_def)
  have same: "sessionState q i ?d = sessionState q i d" "sessions ?d = sessions d" for q i
    by (simp_all add: sessionState_def findSession_def acknowledgeCloudSessionCreation_def)
  have "fold (recover_start (\<lambda>_. False)) ms (?d, ?sent, n) = (d', sent', n')"
    using Cons.prems step by simp
  from Cons.IH [OF this] show ?case using same by (auto split: if_splits)
qed simp

lemma pending_start:
  assumes "insert_created w (Some k) row None start d = Some d1" "se_state row = P_pending" "se_deleted row = None"
  shows "sessionState (se_project row) (se_id row) d1 = Some Pending"
    "\<exists>c \<in> set (creations d1). cr_cloud_start c = Some start"
proof -
  have "\<forall>x \<in> set (sessions d). se_id x \<noteq> se_id row"
    using assms(1) by (auto simp: insert_created_def insertSessionCreation_def insertSession_def bind_eq_Some_conv
        sql_exists_iff split: prod.splits if_splits)
  then have "List.find (live_session (se_project row) (se_id row)) (sessions d) = None"
    by (auto simp: live_session_def find_None_iff)
  then have "List.find (live_session (se_project row) (se_id row)) (sessions d @ [row]) = Some row"
    using assms(3) by (simp add: find_append live_session_def)
  then show "sessionState (se_project row) (se_id row) d1 = Some Pending"
    using insert_created_rows(1) [OF assms(1)] assms(2)
    by (simp add: sessionState_def findSession_def sql_get_def)
  show "\<exists>c \<in> set (creations d1). cr_cloud_start c = Some start"
    using inserted_key [of w "fst k" "snd k" row None start d d1] assms(1) by auto
qed

lemma recovered_all:
  assumes "c \<in> set (creations d)" "cr_cloud_start c = Some m"
    and "length (filter (\<lambda>c. cr_cloud_start c \<noteq> None) (creations d)) \<le> 50"
  shows "m \<in> set (pendingCloudSessionCreations 50 d)"
  using assms by (force simp: pendingCloudSessionCreations_def)

text \<open>
  C19 (liveness): a request with a key whose session was stored and whose start message could not be
  queued fails, and the next sweep of the recovery, when at most 50 starts are stored, as many as it reads,
  the queue accepts every send and no other process wrote between the insertion and the launch, sends exactly
  the message of the request, for a session that is still pending.
\<close>

theorem stored_start_recovered:
  assumes "createSessionForAgent w agentId requested opts rid d = (d', es, Inl e)"
    and "plan_session w agentId requested opts d = (es0, Inr (Inr pn))" "pn_hosting pn = Cloud" "\<not> nw_inline w"
    and "truthy_str (op_key opts)" "nw_before_launch w = (\<lambda>d. d)"
    and "E_enqueue (Msg_start (pn_id pn) (pn_runtime pn) (Some (js_trim (op_prompt opts)))) 0 \<in> set es"
    and "length (filter (\<lambda>c. cr_cloud_start c \<noteq> None) (creations d')) \<le> 50"
  shows "\<exists>d'' sent. recoverSessionCreations (\<lambda>_. False) d' = (d'', sent, 0) \<and> cloud_start w opts pn rid \<in> set sent \<and>
    sessionState (project_of w) (pn_id pn) d'' = Some Pending"
proof -
  define key where "key = creation_key w agentId requested opts"
  define row where "row = session_row.truncate (pending_session w agentId opts pn)"
  obtain k where k: "key = Some k" using assms(5) by (simp add: key_def creation_key_def)
  have durable: "durable_work w key row (work_values_of opts pn rid) pn = None"
    using assms(3) by (simp add: durable_work_def)
  have audits: "only_audits es0" using plan_audits [of w agentId requested opts d] assms(2) by simp
  have "replay_creation (project_of w) key d = None"
    using assms(1,7) by (auto simp: createSessionForAgent_def Let_def key_def split: option.splits)
  then obtain es1 where made: "create_planned w key agentId opts rid pn (nw_before_insert w d) = (d', es1, Inl e)" "es = es0 @ es1"
    using assms(1,2) by (auto simp: createSessionForAgent_def Let_def key_def split: prod.splits)
  have sent: "E_enqueue (Msg_start (pn_id pn) (pn_runtime pn) (Some (js_trim (op_prompt opts)))) 0 \<in> set es1"
    using assms(7) made(2) audits by (auto simp: only_audits_def)
  then obtain d1 where ins: "insert_created w (Some k) row None (cloud_start w opts pn rid) (nw_before_insert w d) = Some d1"
    using made(1) durable by (auto simp: create_planned_def Let_def row_def [symmetric] k split: option.splits)
  then have "d' = d1"
    using made(1) durable assms(3,4,6)
    by (auto simp: create_planned_def Let_def row_def [symmetric] k launch_created_def launch_cloud_def launch_failed_def
        split: option.splits prod.splits)
  with pending_start [OF ins] have pending: "sessionState (project_of w) (pn_id pn) d' = Some Pending"
    "\<exists>c \<in> set (creations d'). cr_cloud_start c = Some (cloud_start w opts pn rid)" by (simp_all add: row_def)
  then have listed: "cloud_start w opts pn rid \<in> set (pendingCloudSessionCreations 50 d')"
    using recovered_all assms(8) by blast
  obtain d'' sent' n where run: "recoverSessionCreations (\<lambda>_. False) d' = (d'', sent', n)" by (metis prod_cases3)
  have target: "recovered_target (cloud_start w opts pn rid) = (project_of w, pn_id pn)"
    by (simp add: recovered_target_def cloud_start_def jget_def)
  from recover_fold [OF run [unfolded recoverSessionCreations_def]] listed pending(1) target
  have "cloud_start w opts pn rid \<in> set sent'" "n = 0" "sessions d'' = sessions d'" by force+
  with run pending(1) show ?thesis by (simp add: sessionState_def findSession_def)
qed

section \<open>Examples\<close>

text \<open>The vaults of the examples, for their evaluation.\<close>

lemma demo_stored_rows [code]:
  "demo_stored = \<lparr>vault_rows = [\<lparr>va_id = ''v'', va_organization = ''o'', va_project = Some ''p'', va_name = ''vault'',
       va_description = None, va_scope = V_project, va_managed_by = None, va_deleted = None, va_created = 0, va_updated = 0\<rparr>],
     credential_rows = [\<lparr>vc_id = ''c'', vc_vault = ''v'', vc_organization = ''o'', vc_project = Some ''p'', vc_name = ''n'',
       vc_type = Opaque, vc_metadata = JObj [], vc_state = Cred_active, vc_active = Some ''1'', vc_revoked = None,
       vc_revoked_by = None, vc_reason = None, vc_created = 1, vc_updated = 1\<rparr>],
     version_rows = [\<lparr>vv_id = ''1'', vv_credential = ''c'', vv_vault = ''v'', vv_organization = ''o'', vv_project = Some ''p'',
       vv_number = 1, vv_ref = ''enbor://vaults/v/credentials/c/versions/1'', vv_name = ''ENBOR_C_V1'', vv_state = Ver_active,
       vv_metadata = JObj [(''dataKeys'', JArr [JStr ''token'']), (''encryptedSecretData'', JObj [(''token'', JStr ''x'')])],
       vv_created = 1, vv_superseded = None, vv_revoked = None\<rparr>]\<rparr>"
  by code_simp

definition demo_version :: "bool \<Rightarrow> agent_version_row" where
  "demo_version cloud = \<lparr>av_id = ''av'', av_agent = ''a'', av_project = ''p'', av_version = 1, av_prompt = ''Help.'',
     av_provider = Some ''x'', av_model = (if cloud then Some ''m'' else None), av_skills = [],
     av_subagents = [\<lparr>sr_agent = Some ''b'', sr_name = ''helper''\<rparr>], av_tools = [], av_connectors = [],
     av_identity = (if cloud then None else Some demo_binding), av_created = ''t''\<rparr>"

definition demo_catalog :: "bool \<Rightarrow> catalog" where
  "demo_catalog cloud = \<lparr>
     ct_agents = map (\<lambda>(i, v). \<lparr>ag_id = i, ag_project = ''p'', ag_name = i, ag_description = None, ag_deleted = None,
       ag_current = Some v\<rparr>) [(''a'', ''av''), (''b'', ''bv'')],
     ct_agent_versions = [demo_version cloud, (demo_version cloud)\<lparr>av_id := ''bv'', av_agent := ''b''\<rparr>],
     ct_environment_versions = [\<lparr>xv_id = ''ev'', xv_environment = ''e'', xv_project = ''p'', xv_version = 1,
       xv_packages = JNull, xv_variables = JObj [], xv_hosting = (if cloud then ''cloud'' else ''self_hosted''),
       xv_network = JObj [], xv_metadata = JObj [], xv_created = ''t''\<rparr>],
     ct_models = [(''x'', ''m'')]\<rparr>"

definition demo_policies :: gov_db where
  "demo_policies = \<lparr>gv_policies = [], gv_providers = [\<lparr>pv_id = ''x'', pv_slug = ''x'', pv_enabled = True, pv_updated = 0\<rparr>],
     gv_usage = [], gv_budgets = [], gv_projects = [(''p'', False)]\<rparr>"

definition demo_new :: "bool \<Rightarrow> string option \<Rightarrow> create_world" where
  "demo_new cloud failure = \<lparr>nw_platform = demo_platform, nw_digest = (\<lambda>s. s), nw_number = (\<lambda>v. v), nw_url = (\<lambda>_. None),
     nw_collate = (\<lambda>s. s), nw_caller = \<lparr>cl_organization = ''o'', cl_project = ''p'', cl_teams = [], cl_roles = []\<rparr>,
     nw_user = ''u'', nw_vaults = demo_stored, nw_gov = demo_policies, nw_catalog = demo_catalog cloud, nw_id = ''S1'',
     nw_work_id = ''w'', nw_startup_id = ''c'', nw_read = 10, nw_created = 11, nw_queued = 12, nw_failed = 13,
     nw_blocked = (\<lambda>_. False), nw_before_insert = (\<lambda>d. d), nw_before_launch = (\<lambda>d. d), nw_assign = failure,
     nw_enqueue = failure, nw_inline = False, nw_startup = demo_startup, nw_times = demo_tms, nw_reread = False\<rparr>"

definition demo_options :: "bool \<Rightarrow> string option \<Rightarrow> create_options" where
  "demo_options cloud key = \<lparr>op_key = key, op_id = None, op_name = None, op_metadata = None, op_volumes = Some demo_volumes,
     op_mounts = Some demo_mounts, op_runtime = (if cloud then Some ''enbor'' else None), op_config = None, op_env = None,
     op_env_from = Some [\<lparr>ee_name = Some ''TOKEN'', ee_ref = ''enbor://vaults/v/credentials/c'', ee_key = Some ''token''\<rparr>],
     op_prompt = '' Hi ''\<rparr>"

definition demo_place :: db where
  "demo_place = no_db\<lparr>environments := [\<lparr>en_id = ''e'', en_project = ''p'', en_current_version = Some ''ev'', en_deleted = None,
     en_updated = 0\<rparr>]\<rparr>"

definition demo_run :: "bool \<Rightarrow> string option \<Rightarrow> string option \<Rightarrow> db \<times> effect list \<times> (string + creation)" where
  "demo_run cloud key failure =
     createSessionForAgent (demo_new cloud failure) ''a'' (Some ''e'') (demo_options cloud key) (Some ''r'') demo_place"

definition demo_made :: "bool \<Rightarrow> string option \<Rightarrow> (string + refusal + session_plan)" where
  "demo_made cloud failure = snd (plan_session (demo_new cloud failure) ''a'' (Some ''e'') (demo_options cloud (Some ''k'')) demo_place)"

lemma demo_new_calm: "calm (demo_new cloud failure)"
  by (simp add: calm_def calm_startup_def keeps_def demo_new_def demo_startup_def creations_kept_def)

lemma demo_rows: "rows_kept (nw_before_launch (demo_new cloud failure))"
  by (simp add: rows_kept_def demo_new_def)

lemma demo_fresh: "fresh_request (demo_new cloud failure) a r (demo_options cloud key) demo_place"
  by (simp add: fresh_request_def replay_creation_def findSessionCreation_def sql_get_def demo_place_def no_db_def demo_new_def
      split: option.splits)

lemma demo_hosted: "case demo_run False (Some ''k'') None of (d, es, Inr (Created s)) \<Rightarrow> True | _ \<Rightarrow> False"
  by code_simp

lemma demo_hosted_plan: "case demo_made False None of Inr (Inr pn) \<Rightarrow> pn_hosting pn = Self_hosted | _ \<Rightarrow> False"
  by code_simp

lemma demo_reported:
  "case demo_run False None (Some ''x'') of (d, es, Inr (Refused _)) \<Rightarrow> sessions d \<noteq> [] | _ \<Rightarrow> False"
  by code_simp

lemma demo_cloud_plan:
  "case demo_made True (Some ''x'') of
     Inr (Inr pn) \<Rightarrow> pn_hosting pn = Cloud \<and> pn_id pn = ''S1'' \<and> pn_runtime pn = ''enbor'' | _ \<Rightarrow> False"
  by code_simp

lemma demo_unsent:
  "case demo_run True (Some ''k'') (Some ''x'') of
     (d, es, Inl e) \<Rightarrow> E_enqueue (Msg_start ''S1'' ''enbor'' (Some ''Hi'')) 0 \<in> set es \<and>
       length (filter (\<lambda>c. cr_cloud_start c \<noteq> None) (creations d)) \<le> 50
   | _ \<Rightarrow> False"
  by code_simp

lemma demo_created:
  "\<exists>d es s es0 pn. createSessionForAgent (demo_new False None) ''a'' (Some ''e'') (demo_options False (Some ''k'')) (Some ''r'') demo_place =
       (d, es, Inr (Created s)) \<and>
     plan_session (demo_new False None) ''a'' (Some ''e'') (demo_options False (Some ''k'')) demo_place = (es0, Inr (Inr pn)) \<and>
     pn_hosting pn = Self_hosted"
  using demo_hosted demo_hosted_plan unfolding demo_run_def demo_made_def
  by (auto split: prod.splits sum.splits creation.splits) (metis prod.collapse)

theorem repeated_request_replays_witness:
  "\<exists>d es s. createSessionForAgent (demo_new False None) ''a'' (Some ''e'') (demo_options False (Some ''k'')) (Some ''r'') demo_place =
       (d, es, Inr (Created s)) \<and>
     createSessionForAgent (demo_new False None) ''a'' (Some ''e'') (demo_options False (Some ''k'')) (Some ''q'') d =
       (d, [], Inr (stored_answer ''p'' (se_id s) d))"
proof -
  let ?w = "demo_new False None" and ?o = "demo_options False (Some ''k'')"
  have k: "truthy_str (op_key ?o)" by (simp add: demo_options_def truthy_str_def)
  have p: "project_of ?w = ''p''" by (simp add: demo_new_def)
  obtain d es s where made: "createSessionForAgent ?w ''a'' (Some ''e'') ?o (Some ''r'') demo_place = (d, es, Inr (Created s))"
    using demo_created by blast
  from repeated_request_replays [OF demo_new_calm k made kept_same [OF refl] refl refl refl refl, of "''a''" "Some ''e''" "Some ''q''"] made
  show ?thesis unfolding p by auto
qed

theorem accepted_session_checked_witness:
  "\<exists>d es s es0 pn. createSessionForAgent (demo_new False None) ''a'' (Some ''e'') (demo_options False (Some ''k'')) (Some ''r'') demo_place =
       (d, es, Inr (Created s)) \<and>
     plan_session (demo_new False None) ''a'' (Some ''e'') (demo_options False (Some ''k'')) demo_place = (es0, Inr (Inr pn)) \<and>
     se_id s = pn_id pn \<and>
     dc_allowed (evaluateProviderPolicy (nw_caller (demo_new False None)) ''x'' None 10 demo_policies) \<and>
     confined demo_platform demo_scope demo_place demo_stored (pn_volumes pn) (pn_mounts pn)"
proof -
  let ?w = "demo_new False None" and ?o = "demo_options False (Some ''k'')"
  obtain d es s where made: "createSessionForAgent ?w ''a'' (Some ''e'') ?o (Some ''r'') demo_place = (d, es, Inr (Created s))"
    using demo_created by blast
  from accepted_session_checked [OF made demo_fresh] obtain es0 pn agent where
    plan: "plan_session ?w ''a'' (Some ''e'') ?o demo_place = (es0, Inr (Inr pn))" "se_id s = pn_id pn"
    and agent: "findAgent (project_of ?w) ''a'' (nw_catalog ?w) = Some agent" "currentAgentVersion agent (nw_catalog ?w) = Some (pn_version pn)"
    and provider: "truthy_str (av_provider (pn_version pn)) \<longrightarrow>
       dc_allowed (evaluateProviderPolicy (nw_caller ?w) (the (av_provider (pn_version pn))) (av_model (pn_version pn)) (nw_read ?w) (nw_gov ?w))"
    and confined: "confined (nw_platform ?w) (scope_of ?w) demo_place (nw_vaults ?w) (pn_volumes pn) (pn_mounts pn)"
    by blast
  have "pn_version pn = demo_version False"
    using agent by (auto simp: findAgent_def sql_get_def currentAgentVersion_def findAgentVersion_def demo_new_def
        demo_catalog_def demo_version_def truthy_str_def)
  then have "dc_allowed (evaluateProviderPolicy (nw_caller ?w) ''x'' None 10 demo_policies)"
    using provider by (simp add: demo_version_def truthy_str_def) (simp add: demo_new_def)
  moreover have "confined demo_platform demo_scope demo_place demo_stored (pn_volumes pn) (pn_mounts pn)"
    using confined by (simp add: demo_new_def scope_of_def demo_scope_def)
  ultimately show ?thesis using made plan by blast
qed


theorem failed_creation_reconciled_witness:
  "\<exists>d es e. createSessionForAgent (demo_new False (Some ''x'')) ''a'' (Some ''e'') (demo_options False None) (Some ''r'') demo_place =
       (d, es, Inr (refused 500 ''session_launch_failed'' e)) \<and>
     (\<exists>s \<in> set (sessions d). se_state s = P_error \<and> se_reason s = Some e)"
proof -
  let ?w = "demo_new False (Some ''x'')" and ?o = "demo_options False None"
  obtain d es f where made: "createSessionForAgent ?w ''a'' (Some ''e'') ?o (Some ''r'') demo_place = (d, es, Inr (Refused f))"
    and row: "sessions d \<noteq> []"
    using demo_reported unfolding demo_run_def
    by (auto split: prod.splits sum.splits creation.splits)
  have "sessions demo_place = []" "nw_before_insert ?w = (\<lambda>d. d)" "creation_key ?w ''a'' (Some ''e'') ?o = None" "\<not> nw_inline ?w"
    by (simp_all add: demo_place_def no_db_def demo_new_def creation_key_def demo_options_def truthy_str_def)
  with failed_creation_reconciled [OF demo_new_calm demo_rows made] row obtain e pn where
    "Inr (Refused f) = (Inr (refused 500 ''session_launch_failed'' e) :: string + creation)"
    "errored_row ?w e (session_row.truncate (pending_session ?w ''a'' ?o pn)) \<in> set (sessions d)" by fastforce
  with made show ?thesis by (intro exI [of _ d] exI [of _ es] exI [of _ e]) (force simp: errored_row_def)
qed

theorem stored_start_recovered_witness:
  "\<exists>d sent pn. recoverSessionCreations (\<lambda>_. False) (fst (demo_run True (Some ''k'') (Some ''x''))) = (d, sent, 0) \<and>
     cloud_start (demo_new True (Some ''x'')) (demo_options True (Some ''k'')) pn (Some ''r'') \<in> set sent \<and>
     sessionState ''p'' (pn_id pn) d = Some Pending"
proof -
  let ?w = "demo_new True (Some ''x'')" and ?o = "demo_options True (Some ''k'')"
  obtain es0 x where x: "plan_session ?w ''a'' (Some ''e'') (demo_options True (Some ''k'')) demo_place = (es0, x)" by fastforce
  obtain d es y where y: "createSessionForAgent ?w ''a'' (Some ''e'') ?o (Some ''r'') demo_place = (d, es, y)" by (metis prod_cases3)
  from demo_cloud_plan [unfolded demo_made_def x snd_conv] obtain pn where
    plan: "plan_session ?w ''a'' (Some ''e'') ?o demo_place = (es0, Inr (Inr pn))" "pn_hosting pn = Cloud"
    and pn: "pn_id pn = ''S1''" "pn_runtime pn = ''enbor''"
    unfolding x by (auto split: sum.splits)
  from demo_unsent [unfolded demo_run_def y] obtain e where
    made: "createSessionForAgent ?w ''a'' (Some ''e'') ?o (Some ''r'') demo_place = (d, es, Inl e)"
    and sent: "E_enqueue (Msg_start (pn_id pn) (pn_runtime pn) (Some ''Hi'')) 0 \<in> set es"
      "length (filter (\<lambda>c. cr_cloud_start c \<noteq> None) (creations d)) \<le> 50"
    unfolding y pn by (auto split: sum.splits)
  have "js_trim (op_prompt ?o) = ''Hi''" by code_simp
  with sent(1) have queue: "E_enqueue (Msg_start (pn_id pn) (pn_runtime pn) (Some (js_trim (op_prompt ?o)))) 0 \<in> set es" by simp
  have w: "\<not> nw_inline ?w" "nw_before_launch ?w = (\<lambda>d. d)" "project_of ?w = ''p''" "truthy_str (op_key ?o)"
    by (simp_all add: demo_new_def demo_options_def truthy_str_def)
  from stored_start_recovered [OF made plan w(1) w(4) w(2) queue sent(2)] made show ?thesis
    unfolding w(3) demo_run_def by auto
qed

text \<open>
  An accepted request may carry credentials inside a URL: the scan looks at keys only, and the test for
  such URLs is called by nothing.
\<close>

theorem embedded_credentials_accepted:
  assumes "up_parse p url = Some u" "ur_password u \<noteq> []"
  shows "hasEmbeddedCredentialUrl p (env_json [(''REPO'', url)])"
    "\<not> session_hasSecretMaterial (Some (env_json [(''REPO'', url)]))"
proof -
  show "hasEmbeddedCredentialUrl p (env_json [(''REPO'', url)])" using assms by (simp add: env_json_def)
  show "\<not> session_hasSecretMaterial (Some (env_json [(''REPO'', url)]))" unfolding env_json_def by code_simp
qed

end
