(* ===== verification/Spec2Isabelle.thy ===== *)
theory Spec2Isabelle
  imports RunnerLiveness LifecycleFacts CloudTurnFacts RunnerPoolFacts InboxFacts ApprovalFacts TranscriptFacts TurnEngineFacts RuntimeSecrets SessionCreateFacts
begin

text \<open>
  Verification development for the control plane of Enbor (\<open>server/\<close>): the queue of self-hosted
  work and its leases, the runners that claim it, the sessions and their cloud turns.

  \<^bold>\<open>The program.\<close> A session is a row of \<open>sessions\<close>. A self-hosted session is served by a runner: its work is
  a row of \<open>work_items\<close>, a runner claims it by inserting a row of \<open>leases\<close>, renews the lease
  and reports the outcome; a sweep expires the leases of vanished runners and requeues their
  work. A cloud session is served by queue consumers that hold the turn lease stored in the
  session row; closes, reopens, startups and the watchdog compete for the same columns. All
  of them run concurrently and meet only in the database, where a statement or a batch is atomic.

  \<^bold>\<open>The model.\<close> Tables are lists of records (\<open>Tables\<close>), statements are functions on them (the \<open>sql_*\<close>
  functions of \<open>Prelude\<close>), a repository method is a function from the database to the database
  and a result. Times, fresh identifiers and the answers of the sandbox, the runner, the model
  and the secret store are arguments; what other processes write while a handler waits is a function
  on the database, also an argument.

  \<^bold>\<open>Foundations.\<close>
    \<^item> \<open>Prelude\<close>: JSON values, tables with their \<open>sql_*\<close> statements, texts as JavaScript handles them, the
      collections \<open>sql_simps\<close> and \<open>json_simps\<close>, and two interfaces: \<open>compare_and_set\<close> (a guarded UPDATE has one winner)
      and \<open>safe_system\<close> (an inductive invariant holds in every reachable state);
    \<^item> \<open>Tables\<close>: the rows of \<open>server/db/schema.ts\<close> and the database; \<open>Handlers\<close>: handlers that throw.

  \<^bold>\<open>Self-hosted work.\<close>
    \<^item> \<open>RunnerQueue\<close>, \<open>LeaseRepo\<close>, \<open>RunnerRepo\<close>, \<open>LeaseClaim\<close>: \<open>server/domain/runner-queue.ts\<close>, \<open>runtime-catalog.ts\<close>, the
      repositories \<open>leases.ts\<close> and \<open>runners.ts\<close>, the use cases \<open>leases.ts\<close>;
    \<^item> \<open>LeaseProtocol\<close>, \<open>RunnerLiveness\<close>: every statement that writes leases, items and runners as one step
      relation; one holder per item, no work lost, deletions against claims. \<open>LeaseFacts\<close>: the methods;
    \<^item> \<open>RunnerPool\<close>, \<open>RunnerPoolFacts\<close>: \<open>server/worker/runner-pool-object.ts\<close>; each request is settled once
      (the interface \<open>request_table\<close>, for commands, sandbox requests and backfills);
    \<^item> \<open>ListCursor\<close>, \<open>ListPaging\<close>: cursors and keyset lists; the interface \<open>page_reader\<close> shows that following the
      cursors reads each row once.

  \<^bold>\<open>Sessions.\<close>
    \<^item> \<open>SessionStore\<close>, \<open>TurnLease\<close>: \<open>server/adapters/repos/runtime-orchestration.ts\<close>, the turn lease as a mutex;
    \<^item> \<open>Lifecycle\<close>, \<open>LifecycleFacts\<close>: close, reopen, delete, prompts, the sweeps of the watchdog;
    \<^item> \<open>CloudTurn\<close>, \<open>CloudTurnFacts\<close>: startup, the outcome of a turn, the queue consumer;
    \<^item> \<open>SessionInputs\<close>, \<open>Workspace\<close>, \<open>WorkspaceFacts\<close>: the declared environment, volumes and mounts;
    \<^item> \<open>SessionSnapshot\<close>, \<open>SessionCreate\<close>, \<open>SessionCreateFacts\<close>: creating a session; repetition, checks, work,
      reconciliation and recovery;
    \<^item> \<open>SessionEvents\<close>: the three event stores; \<open>Redaction\<close>: \<open>server/redaction.ts\<close>, what is stored of tool results.

  \<^bold>\<open>Turns, approvals and governance.\<close>
    \<^item> \<open>TurnEngine\<close>, \<open>Transcript\<close> and their facts: \<open>server/usecases/runtime/engine\<close>; the runner of a subagent is the
      interface \<open>delegate\<close>, which the engine itself provides;
    \<^item> \<open>Approval\<close>, \<open>PolicyEngine\<close>, \<open>Governance\<close> and their facts: tool approvals, \<open>server/domain/policy.ts\<close>, policy
      levels, budgets and providers (the interfaces \<open>allow_list\<close> and its extension \<open>name_rule\<close> of lists that
      merge by intersection and by union). Merging loses restrictions in the cases stated as theorems there.

  \<^bold>\<open>Triggers and inbox.\<close> \<open>TriggerStore\<close>, \<open>TriggerDispatch\<close>, \<open>TriggerProtocol\<close>, \<open>TriggerFacts\<close>, \<open>TriggerSchedule\<close>:
  \<open>server/usecases/dispatch-triggers.ts\<close> and its repository; an occurrence is dispatched once, serial runs keep
  their order. \<open>InboxActivation\<close>, \<open>InboxFacts\<close>: notifications and the routes of their sessions.

  \<^bold>\<open>Secrets.\<close> \<open>References\<close>, \<open>AgentState\<close>, \<open>Vault\<close>, \<open>VaultFacts\<close>, \<open>MemoryStore\<close>, \<open>SecretScan\<close>, \<open>RuntimeSecrets\<close>:
  references and their resolution, credentials and versions, what a runtime is handed at dispatch.

  \<^bold>\<open>Concurrency.\<close> \<open>LeaseProtocol\<close>, \<open>RunnerLiveness\<close>, \<open>TurnLease\<close>, \<open>RunnerPoolFacts\<close>, \<open>TriggerProtocol\<close>,
  \<open>InboxFacts\<close> and \<open>VaultFacts\<close> are step relations. The one writer that \<open>turn_step\<close> leaves out is the dead-letter
  handler on the very session, which clears the turn lease of any holder. Elsewhere the writes of others are arguments;
  a property that needs them to respect a protocol says so, as \<open>calm\<close> in \<open>SessionCreateFacts\<close>, which asks that they
  keep the stored creations, or \<open>rows_kept\<close>, which asks that they keep the rows of the new session. Where two
  handlers do interfere, the interleaving is stated as a theorem of its own.

  \<^bold>\<open>Bounds.\<close> Limits are those of the code: batches of 90 bound variables, 5 attempts of an event insertion,
  25 continuations of a turn, 50 due triggers of a heartbeat and 50 stored starts of a recovery. The only
  fuel is the number of pages of a client in \<open>ListPaging\<close>, where the pages needed are shown to be enough;
  every other loop is structural or has a termination proof.

  \<^bold>\<open>Not modelled.\<close> HTTP routes and OpenAPI schemas (shapes around the use cases), authentication and
  encryption (WebCrypto and an external issuer), the repositories of agents, environments, projects,
  identities and connectors (records without a protocol; session creation reads them as a given table),
  the drivers of the sandbox and of the model (their answers are arguments), the worker entry points
  (wiring), the Go runner, the runtime bridge, the generated clients, the console and the scripts. Texts
  are lists of code units below 256. Sanitised messages of
  exceptions are what the model calls an exception's text.
\<close>

end
